(* ===== verification/Prelude.thy ===== *)
theory Prelude
  imports Main "HOL-Library.Word" "HOL-Library.Multiset"
begin

text \<open>
  Shared vocabulary of the development: the Go types the repository uses everywhere
  (\<open>uuid.UUID\<close>, \<open>time.Time\<close>, \<open>time.Duration\<close>, \<open>int\<close>), Go's 64-bit integer arithmetic with its
  wrap-around written out, and the generic list, option and map lemmas the component
  theories rely on.

  Conventions.
  \<^item> A UUID is a 128-bit word; \<open>uuid.Nil\<close> is the all-zero UUID.
  \<^item> An instant (\<open>time.Time\<close>) and a duration (\<open>time.Duration\<close>) are integers counting
    nanoseconds. The wall clock is never read by a definition: every operation whose source
    calls \<open>time.Now()\<close> takes the value read as an argument \<open>now\<close>.
  \<^item> Go's \<open>int\<close> and \<open>time.Duration\<close> are 64-bit two's complement. Where a product or a shift can
    leave that range the definitions write the wrap-around with \<open>wrap64\<close>; counters that only ever
    step by one are plain \<open>int\<close>, but for those of the e-mail workers, whose sums a property is about.
  \<^item> A pointer field that may be nil is an \<open>option\<close>; an \<open>error\<close> result is the left summand of a
    sum type, or an \<open>option\<close> when the function returns nothing else.
\<close>

named_theorems go_arith \<open>facts about Go's 64-bit integer arithmetic\<close>
named_theorems go_string \<open>facts about the strings package\<close>

type_synonym uuid = "128 word"
type_synonym instant = int
type_synonym duration = int

abbreviation uuid_nil :: uuid where
  "uuid_nil \<equiv> 0"

text \<open>Durations of package \<open>time\<close>, in nanoseconds.\<close>

abbreviation time_Second :: duration where
  "time_Second \<equiv> 1000000000"

abbreviation time_Minute :: duration where
  "time_Minute \<equiv> 60000000000"

abbreviation time_Hour :: duration where
  "time_Hour \<equiv> 3600000000000"

subsection \<open>Signed 64-bit arithmetic\<close>

definition wrap64 :: "int \<Rightarrow> int" where
  "wrap64 x = (x + 2 ^ 63) mod 2 ^ 64 - 2 ^ 63"

definition in_int64 :: "int \<Rightarrow> bool" where
  "in_int64 x \<longleftrightarrow> - (2 ^ 63) \<le> x \<and> x < 2 ^ 63"

text \<open>
  Go's \<open>x << n\<close> on \<open>int\<close>: a shift by 64 or more gives 0. A negative count panics, which no caller
  modelled here can cause: each of them checks or establishes that the count is not negative.
\<close>

definition shl64 :: "int \<Rightarrow> nat \<Rightarrow> int" where
  "shl64 x n = (if 64 \<le> n then 0 else wrap64 (x * 2 ^ n))"

text \<open>Go's division of 64-bit integers truncates towards zero.\<close>

definition quot64 :: "int \<Rightarrow> int \<Rightarrow> int" where
  "quot64 a b = wrap64 (if (a < 0) \<noteq> (b < 0) then - (\<bar>a\<bar> div \<bar>b\<bar>) else \<bar>a\<bar> div \<bar>b\<bar>)"

lemma in_int64_nonneg [intro]: "0 \<le> x \<Longrightarrow> x < 9223372036854775808 \<Longrightarrow> in_int64 x"
  by (simp add: in_int64_def)

lemma wrap64_range [go_arith]: "in_int64 (wrap64 x)"
  by (simp add: wrap64_def in_int64_def)

lemma wrap64_id [go_arith, simp]: "in_int64 x \<Longrightarrow> wrap64 x = x"
  by (simp add: wrap64_def in_int64_def)

lemma wrap64_mult_pow [go_arith]: "wrap64 (2 ^ 64 * k) = 0"
  by (simp add: wrap64_def)

lemma wrap64_dvd: "2 ^ 64 dvd x \<Longrightarrow> wrap64 x = 0"
  by (auto simp: dvd_def wrap64_def)

lemma wrap64_0 [simp]: "wrap64 0 = 0"
  by (simp add: wrap64_def)

lemma wrap64_cong_diff: "2 ^ 64 dvd x - wrap64 x"
proof -
  have "x - wrap64 x = (x + 2 ^ 63) - (x + 2 ^ 63) mod 2 ^ 64" by (simp add: wrap64_def)
  then show ?thesis by (simp only: dvd_minus_mod)
qed

lemma pow2_dvd_wrap64: "k \<le> 64 \<Longrightarrow> 2 ^ k dvd x \<Longrightarrow> 2 ^ k dvd wrap64 x"
proof -
  assume k: "k \<le> 64" and x: "2 ^ k dvd x"
  have "(2::int) ^ k dvd 2 ^ 64" using k by (rule le_imp_power_dvd)
  then have "2 ^ k dvd x - wrap64 x" using wrap64_cong_diff by (rule dvd_trans)
  then show ?thesis using x by (simp add: dvd_diff_commute dvd_diff_right_iff)
qed

lemma shl64_exact [go_arith]: "n < 63 \<Longrightarrow> shl64 1 n = 2 ^ n"
proof -
  assume "n < 63"
  then have "(2::int) ^ n < 2 ^ 63" by (simp only: power_strict_increasing_iff)
  moreover have "(0::int) \<le> 2 ^ n" by simp
  ultimately have "in_int64 (2 ^ n)" unfolding in_int64_def by linarith
  then show ?thesis using \<open>n < 63\<close> by (simp add: shl64_def)
qed

end
