(* ===== verification/GoHeap.thy ===== *)
theory GoHeap
  imports Prelude
begin

text \<open>
  Go's \<open>container/heap\<close>, the standard-library algorithm behind both priority queues of
  \<open>app/worker\<close>. A heap is a slice (here a list) in which every element is not less than its
  parent; \<open>lt\<close> is the \<open>Less\<close> method of the client, and \<open>Swap\<close> exchanges two positions.
  The functions are those of the package: the sift loops \<open>up\<close> and \<open>down\<close>, and \<open>Init\<close>, \<open>Push\<close> and
  \<open>Pop\<close>. The locale \<open>heap_order\<close> states what the package asks of \<open>Less\<close> (a strict weak order) and
  holds the correctness of the algorithm, proved once for every client.
\<close>

section \<open>The algorithm\<close>

definition Swap where
  "Swap h i j = (h[j := h ! i])[i := h ! j]" for h :: "'a list"

definition parent :: "nat \<Rightarrow> nat" where
  "parent j = (j - 1) div 2"

text \<open>\<open>up\<close>: the element at \<open>j\<close> moves towards the root while it is less than its parent.\<close>

function heap_up :: "('a \<Rightarrow> 'a \<Rightarrow> bool) \<Rightarrow> 'a list \<Rightarrow> nat \<Rightarrow> 'a list" where
  "heap_up lt xs j =
     (let i = parent j in
      if i = j \<or> \<not> lt (xs ! j) (xs ! i) then xs
      else heap_up lt (Swap xs i j) i)"
  by pat_completeness auto
termination
  by (relation "measure (\<lambda>(lt, xs, j). j)") (auto simp: parent_def Let_def)

text \<open>\<open>down\<close>: the element at \<open>i\<close> moves away from the root, within the first \<open>n\<close> positions, while
  its smaller child is less than it.\<close>

definition min_child :: "('a \<Rightarrow> 'a \<Rightarrow> bool) \<Rightarrow> 'a list \<Rightarrow> nat \<Rightarrow> nat \<Rightarrow> nat" where
  "min_child lt xs i n =
     (let j1 = 2 * i + 1; j2 = j1 + 1
      in if j2 < n \<and> lt (xs ! j2) (xs ! j1) then j2 else j1)"

function heap_down :: "('a \<Rightarrow> 'a \<Rightarrow> bool) \<Rightarrow> 'a list \<Rightarrow> nat \<Rightarrow> nat \<Rightarrow> 'a list" where
  "heap_down lt xs i n =
     (if n \<le> 2 * i + 1 then xs
      else let j = min_child lt xs i n in
           if \<not> lt (xs ! j) (xs ! i) then xs
           else heap_down lt (Swap xs i j) j n)"
  by pat_completeness auto
termination
  by (relation "measure (\<lambda>(lt, xs, i, n). n - i)") (auto simp: min_child_def Let_def)

declare heap_up.simps [simp del] heap_down.simps [simp del]

text \<open>\<open>Init\<close> sifts down every inner node, from the last one to the root.\<close>

fun heap_init_from :: "('a \<Rightarrow> 'a \<Rightarrow> bool) \<Rightarrow> 'a list \<Rightarrow> nat \<Rightarrow> 'a list" where
  "heap_init_from lt xs 0 = xs"
| "heap_init_from lt xs (Suc i) = heap_init_from lt (heap_down lt xs i (length xs)) i"

definition heap_Init :: "('a \<Rightarrow> 'a \<Rightarrow> bool) \<Rightarrow> 'a list \<Rightarrow> 'a list" where
  "heap_Init lt xs = heap_init_from lt xs (length xs div 2)"

definition heap_Push :: "('a \<Rightarrow> 'a \<Rightarrow> bool) \<Rightarrow> 'a list \<Rightarrow> 'a \<Rightarrow> 'a list" where
  "heap_Push lt xs x = heap_up lt (xs @ [x]) (length xs)"

text \<open>
  \<open>Pop\<close> of a non-empty heap swaps the root with the last element, sifts the new root down and
  removes the last element. On an empty heap Go indexes position -1 and panics, which is \<open>None\<close>.
\<close>

definition heap_Pop :: "('a \<Rightarrow> 'a \<Rightarrow> bool) \<Rightarrow> 'a list \<Rightarrow> ('a \<times> 'a list) option" where
  "heap_Pop lt xs =
     (if xs = [] then None
      else let n = length xs - 1;
               ys = heap_down lt (Swap xs 0 n) 0 n
           in Some (ys ! n, take n ys))"

section \<open>Length and multiset are kept\<close>

lemma length_Swap [simp]: "length (Swap xs i j) = length xs"
  by (simp add: Swap_def)

lemma mset_Swap [simp]: "i < length xs \<Longrightarrow> j < length xs \<Longrightarrow> mset (Swap xs i j) = mset xs"
  by (simp add: Swap_def mset_swap)

lemma nth_Swap:
  "i < length xs \<Longrightarrow> j < length xs \<Longrightarrow>
     Swap xs i j ! k = (if k = i then xs ! j else if k = j then xs ! i else xs ! k)"
  by (auto simp: Swap_def nth_list_update)

lemma parent_less [simp]: "0 < j \<Longrightarrow> parent j < j"
  by (auto simp: parent_def)

lemma parent_not_ge [simp]: "0 < j \<Longrightarrow> \<not> j \<le> parent j"
  by (simp add: not_le)

lemma parent_le: "parent j \<le> j"
  by (auto simp: parent_def)

lemma parent_eq_iff [simp]: "parent j = j \<longleftrightarrow> j = 0" "j = parent j \<longleftrightarrow> j = 0"
  by (auto simp: parent_def)

lemma parent_child: "0 < k \<Longrightarrow> parent k = i \<longleftrightarrow> k = 2 * i + 1 \<or> k = 2 * i + 2"
  by (auto simp: parent_def)

lemma min_child_cases:
  assumes "2 * i + 1 < n"
  shows "min_child lt xs i n < n" "0 < min_child lt xs i n" "parent (min_child lt xs i n) = i"
    "i < min_child lt xs i n"
  using assms by (auto simp: min_child_def Let_def parent_def)

lemma heap_up_mset:
  "j < length xs \<Longrightarrow> mset (heap_up lt xs j) = mset xs \<and> length (heap_up lt xs j) = length xs"
proof (induction lt xs j rule: heap_up.induct)
  case (1 lt xs j)
  show ?case
  proof (cases "parent j = j \<or> \<not> lt (xs ! j) (xs ! parent j)")
    case True
    then show ?thesis by (auto simp: heap_up.simps [of lt xs j] Let_def)
  next
    case False
    moreover have "parent j < length xs" using "1.prems" parent_le [of j] by simp
    ultimately show ?thesis using "1.prems" "1.IH" [OF refl]
      by (simp add: heap_up.simps [of lt xs j] Let_def)
  qed
qed

lemma heap_down_frame:
  "n \<le> length xs \<Longrightarrow>
     mset (heap_down lt xs i n) = mset xs \<and> length (heap_down lt xs i n) = length xs \<and>
     (\<forall>k. n \<le> k \<longrightarrow> heap_down lt xs i n ! k = xs ! k)"
proof (induction lt xs i n rule: heap_down.induct)
  case (1 lt xs i n)
  let ?j = "min_child lt xs i n"
  show ?case
  proof (cases "n \<le> 2 * i + 1 \<or> \<not> lt (xs ! ?j) (xs ! i)")
    case True
    then show ?thesis by (auto simp: heap_down.simps [of lt xs i n] Let_def)
  next
    case False
    then have j: "?j < n" "i < ?j" using min_child_cases [of i n lt xs] by auto
    have "mset (heap_down lt (Swap xs i ?j) ?j n) = mset (Swap xs i ?j) \<and>
        length (heap_down lt (Swap xs i ?j) ?j n) = length (Swap xs i ?j) \<and>
        (\<forall>k. n \<le> k \<longrightarrow> heap_down lt (Swap xs i ?j) ?j n ! k = Swap xs i ?j ! k)"
      using "1.IH" [OF _ refl] False "1.prems" by simp
    with False j "1.prems" show ?thesis
      by (auto simp: heap_down.simps [of lt xs i n] Let_def nth_Swap)
  qed
qed

lemma heap_Push_mset [simp]: "mset (heap_Push lt xs x) = add_mset x (mset xs)"
  by (simp add: heap_Push_def heap_up_mset)

lemma heap_Push_length [simp]: "length (heap_Push lt xs x) = Suc (length xs)"
  by (simp add: heap_Push_def heap_up_mset)

lemma heap_init_from_mset: "mset (heap_init_from lt xs k) = mset xs"
  by (induction lt xs k rule: heap_init_from.induct) (simp_all add: heap_down_frame)

lemma heap_Init_mset [simp]: "mset (heap_Init lt xs) = mset xs"
  by (simp add: heap_Init_def heap_init_from_mset)

text \<open>\<open>Pop\<close> returns the old root, and the rest is the old heap without it.\<close>

lemma heap_Pop_Some:
  assumes "heap_Pop lt xs = Some (x, ys)"
  shows "xs \<noteq> [] \<and> x = hd xs \<and> mset xs = add_mset x (mset ys) \<and> length ys = length xs - 1"
proof -
  let ?n = "length xs - 1"
  let ?s = "Swap xs 0 ?n"
  let ?d = "heap_down lt ?s 0 ?n"
  from assms have ne: "xs \<noteq> []" and x: "x = ?d ! ?n" and ys: "ys = take ?n ?d"
    by (auto simp: heap_Pop_def Let_def split: if_splits)
  have fr: "mset ?d = mset ?s" "length ?d = length xs" "?d ! ?n = ?s ! ?n"
    using heap_down_frame [of ?n ?s lt 0] by auto
  have hd: "x = hd xs" using ne x fr(3) by (simp add: nth_Swap hd_conv_nth)
  have len: "length ?d = Suc ?n" using ne fr(2) by (cases xs) auto
  have "?d = take ?n ?d @ [?d ! ?n]"
    using len take_Suc_conv_app_nth [of ?n ?d] by simp
  then have "mset ?d = add_mset x (mset ys)"
    using x ys by (metis mset_append mset.simps union_mset_add_mset_right add.right_neutral)
  moreover have "mset ?d = mset xs" using ne fr(1) by simp
  ultimately show ?thesis using ne hd ys fr(2) by simp
qed

lemma heap_Pop_None [simp]: "heap_Pop lt xs = None \<longleftrightarrow> xs = []"
  by (simp add: heap_Pop_def Let_def)

section \<open>The heap order\<close>

text \<open>
  \<open>heap_from lt m xs n\<close>: within the first \<open>n\<close> positions, no child of a position from \<open>m\<close> on is
  less than its parent; with \<open>m = 0\<close> this is the heap order of the package.
\<close>

definition heap_from :: "('a \<Rightarrow> 'a \<Rightarrow> bool) \<Rightarrow> nat \<Rightarrow> 'a list \<Rightarrow> nat \<Rightarrow> bool" where
  "heap_from lt m xs n \<longleftrightarrow> (\<forall>k. 0 < k \<and> k < n \<and> m \<le> parent k \<longrightarrow> \<not> lt (xs ! k) (xs ! parent k))"

definition is_heap :: "('a \<Rightarrow> 'a \<Rightarrow> bool) \<Rightarrow> 'a list \<Rightarrow> bool" where
  "is_heap lt xs \<longleftrightarrow> heap_from lt 0 xs (length xs)"

text \<open>
  The loop invariants of the two sifts: the order holds except possibly between \<open>j\<close> and its parent
  (\<open>up\<close>), or between \<open>i\<close> and its children (\<open>down\<close>), and there the order with the grandparent holds.
\<close>

definition up_inv :: "('a \<Rightarrow> 'a \<Rightarrow> bool) \<Rightarrow> 'a list \<Rightarrow> nat \<Rightarrow> bool" where
  "up_inv lt xs j \<longleftrightarrow>
     (\<forall>k. 0 < k \<and> k < length xs \<and> k \<noteq> j \<longrightarrow> \<not> lt (xs ! k) (xs ! parent k)) \<and>
     (\<forall>k. 0 < k \<and> k < length xs \<and> parent k = j \<and> 0 < j \<longrightarrow> \<not> lt (xs ! k) (xs ! parent j))"

definition down_inv :: "('a \<Rightarrow> 'a \<Rightarrow> bool) \<Rightarrow> nat \<Rightarrow> 'a list \<Rightarrow> nat \<Rightarrow> nat \<Rightarrow> bool" where
  "down_inv lt m xs i n \<longleftrightarrow>
     (\<forall>k. 0 < k \<and> k < n \<and> m \<le> parent k \<and> parent k \<noteq> i \<longrightarrow> \<not> lt (xs ! k) (xs ! parent k)) \<and>
     (\<forall>k. 0 < k \<and> k < n \<and> parent k = i \<and> 0 < i \<and> m \<le> parent i \<longrightarrow> \<not> lt (xs ! k) (xs ! parent i))"

locale heap_order =
  fixes lt :: "'a \<Rightarrow> 'a \<Rightarrow> bool"
  assumes asym: "lt x y \<Longrightarrow> \<not> lt y x"
    and ntrans: "\<not> lt x y \<Longrightarrow> \<not> lt y z \<Longrightarrow> \<not> lt x z"
begin

lemma irrefl: "\<not> lt x x"
  using asym by blast

lemma up_step:
  assumes inv: "up_inv lt xs j" and j: "0 < j" "j < length xs" and lt: "lt (xs ! j) (xs ! parent j)"
  shows "up_inv lt (Swap xs (parent j) j) (parent j)"
proof -
  let ?i = "parent j"
  let ?ys = "Swap xs ?i j"
  have i: "?i < length xs" "?i < j" using j by (simp_all add: order.strict_trans [OF parent_less])
  note sw = nth_Swap [OF i(1) j(2)]
  have except: "\<not> lt (xs ! k) (xs ! parent k)" if "0 < k" "k < length xs" "k \<noteq> j" for k
    using inv that by (simp add: up_inv_def)
  have below: "\<not> lt (xs ! k) (xs ! ?i)" if "0 < k" "k < length xs" "parent k = j" for k
    using inv that j by (simp add: up_inv_def)
  have ji: "\<not> lt (xs ! ?i) (xs ! j)" using asym lt by blast
  have "\<not> lt (?ys ! k) (?ys ! parent k)" if k: "0 < k" "k < length xs" "k \<noteq> ?i" for k
  proof -
    consider "k = j" | "k \<noteq> j" "parent k = ?i" | "k \<noteq> j" "parent k = j" |
      "k \<noteq> j" "parent k \<noteq> ?i" "parent k \<noteq> j" by blast
    then show ?thesis
    proof cases
      case 1 then show ?thesis using ji irrefl by (simp add: sw)
    next
      case 2 then show ?thesis using k i j except [of k] ntrans [OF _ ji, of "xs ! k"]
        by (simp add: sw)
    next
      case 3 then show ?thesis using k i j below [of k] by (simp add: sw)
    next
      case 4 then show ?thesis using k i j except [of k] by (simp add: sw)
    qed
  qed
  moreover have "\<not> lt (?ys ! k) (?ys ! parent ?i)"
    if k: "0 < k" "k < length xs" "parent k = ?i" "0 < ?i" for k
  proof -
    have gi: "\<not> lt (xs ! ?i) (xs ! parent ?i)" using except [of ?i] i k by simp
    have p: "parent ?i \<noteq> ?i" "parent ?i \<noteq> j" using i(2) parent_less [OF k(4)] by linarith+
    have ki: "k \<noteq> ?i" using k(1,3) by auto
    show ?thesis
      using k i j p ki gi except [of k] ntrans [of "xs ! k" "xs ! ?i" "xs ! parent ?i"]
      by (cases "k = j") (simp_all add: sw)
  qed
  ultimately show ?thesis by (simp add: up_inv_def)
qed

lemma heap_up_is_heap: "up_inv lt xs j \<Longrightarrow> j < length xs \<Longrightarrow> is_heap lt (heap_up lt xs j)"
proof (induction j arbitrary: xs rule: less_induct)
  case (less j)
  show ?case
  proof (cases "parent j = j \<or> \<not> lt (xs ! j) (xs ! parent j)")
    case True
    then have "heap_up lt xs j = xs" by (simp add: heap_up.simps [of lt xs j] Let_def)
    moreover have "is_heap lt xs"
      using less.prems True by (auto simp: is_heap_def heap_from_def up_inv_def)
    ultimately show ?thesis by simp
  next
    case False
    then have j: "0 < j" and lt: "lt (xs ! j) (xs ! parent j)" by auto
    have pj: "parent j < j" using j by simp
    have "is_heap lt (heap_up lt (Swap xs (parent j) j) (parent j))"
      by (rule less.IH) (use pj up_step [OF less.prems(1) j less.prems(2) lt] less.prems(2) in simp_all)
    then show ?thesis using False by (simp add: heap_up.simps [of lt xs j] Let_def)
  qed
qed

lemma min_child_least:
  assumes k: "0 < k" "k < n" "parent k = i"
  shows "\<not> lt (xs ! k) (xs ! min_child lt xs i n)"
proof -
  have "k = 2 * i + 1 \<or> k = 2 * i + 2" using k parent_child by blast
  then show ?thesis using k irrefl asym by (auto simp: min_child_def Let_def)
qed

lemma down_step:
  assumes inv: "down_inv lt m xs i n" and n: "n \<le> length xs" "2 * i + 1 < n" and m: "m \<le> i"
    and lt: "lt (xs ! min_child lt xs i n) (xs ! i)"
  shows "down_inv lt m (Swap xs i (min_child lt xs i n)) (min_child lt xs i n) n"
proof -
  let ?j = "min_child lt xs i n"
  let ?ys = "Swap xs i ?j"
  note mc = min_child_cases [OF n(2), of lt xs]
  have il: "i < length xs" "?j < length xs" using n mc by auto
  have except: "\<not> lt (xs ! k) (xs ! parent k)" if "0 < k" "k < n" "m \<le> parent k" "parent k \<noteq> i" for k
    using inv that by (simp add: down_inv_def)
  have "\<not> lt (?ys ! k) (?ys ! parent k)"
    if k: "0 < k" "k < n" "m \<le> parent k" "parent k \<noteq> ?j" for k
  proof -
    consider "k = i" | "k = ?j" | "k \<noteq> i" "k \<noteq> ?j" "parent k = i" |
      "k \<noteq> i" "k \<noteq> ?j" "parent k \<noteq> i" by blast
    then show ?thesis
    proof cases
      case 1
      have "parent i \<noteq> i" "parent i \<noteq> ?j" using k 1 mc(4) parent_less [of i] by auto
      moreover have "\<not> lt (xs ! ?j) (xs ! parent i)"
        using inv mc k 1 by (simp add: down_inv_def)
      ultimately show ?thesis using 1 il by (simp add: nth_Swap)
    next
      case 2 then show ?thesis using asym [OF lt] mc il by (simp add: nth_Swap)
    next
      case 3 then show ?thesis using min_child_least [OF k(1,2)] il k by (simp add: nth_Swap)
    next
      case 4 then show ?thesis using except [of k] k il by (simp add: nth_Swap)
    qed
  qed
  moreover have "\<not> lt (?ys ! k) (?ys ! parent ?j)" if k: "0 < k" "k < n" "parent k = ?j" for k
  proof -
    have "k \<noteq> i" "k \<noteq> ?j" using k mc(4) parent_less [OF k(1)] by auto
    then show ?thesis using except [of k] k mc m il by (simp add: nth_Swap)
  qed
  ultimately show ?thesis by (simp add: down_inv_def)
qed

lemma down_stop:
  assumes inv: "down_inv lt m xs i n"
    and stop: "n \<le> 2 * i + 1 \<or> \<not> lt (xs ! min_child lt xs i n) (xs ! i)"
  shows "heap_from lt m xs n"
proof -
  have "\<not> lt (xs ! k) (xs ! parent k)" if k: "0 < k" "k < n" "m \<le> parent k" for k
  proof (cases "parent k = i")
    case True
    then have "k = 2 * i + 1 \<or> k = 2 * i + 2" using k parent_child by blast
    then have "\<not> lt (xs ! min_child lt xs i n) (xs ! i)" using stop k by auto
    then show ?thesis using ntrans [OF min_child_least [OF k(1,2) True]] True by simp
  next
    case False
    then show ?thesis using inv k by (simp add: down_inv_def)
  qed
  then show ?thesis by (simp add: heap_from_def)
qed

lemma heap_down_heap_from:
  "down_inv lt m xs i n \<Longrightarrow> n \<le> length xs \<Longrightarrow> m \<le> i \<Longrightarrow> heap_from lt m (heap_down lt xs i n) n"
proof (induction "n - i" arbitrary: xs i rule: less_induct)
  case less
  let ?j = "min_child lt xs i n"
  show ?case
  proof (cases "n \<le> 2 * i + 1 \<or> \<not> lt (xs ! ?j) (xs ! i)")
    case True
    then have "heap_down lt xs i n = xs" by (auto simp: heap_down.simps [of lt xs i n] Let_def)
    then show ?thesis using down_stop [OF less.prems(1) True] by simp
  next
    case False
    note mc = min_child_cases [of i n lt xs]
    have "heap_from lt m (heap_down lt (Swap xs i ?j) ?j n) n"
      by (rule less.hyps) (use False mc less.prems down_step [OF less.prems(1,2)] in auto)
    then show ?thesis using False by (simp add: heap_down.simps [of lt xs i n] Let_def)
  qed
qed

lemma heap_Push_is_heap:
  assumes "is_heap lt xs"
  shows "is_heap lt (heap_Push lt xs x)"
proof -
  have p: "parent k < length xs" if "0 < k" "k < Suc (length xs)" for k
    using parent_less [OF that(1)] that(2) by simp
  have "\<not> lt ((xs @ [x]) ! k) ((xs @ [x]) ! parent k)"
    if "0 < k" "k < Suc (length xs)" "k \<noteq> length xs" for k
    using that p [of k] assms by (simp add: is_heap_def heap_from_def nth_append)
  moreover have "parent k \<noteq> length xs" if "0 < k" "k < Suc (length xs)" for k
    using p [OF that] by simp
  ultimately have "up_inv lt (xs @ [x]) (length xs)" by (auto simp: up_inv_def)
  then show ?thesis by (simp add: heap_Push_def heap_up_is_heap)
qed

lemma heap_root_least:
  assumes "is_heap lt xs"
  shows "k < length xs \<Longrightarrow> \<not> lt (xs ! k) (xs ! 0)"
proof (induction k rule: less_induct)
  case (less k)
  show ?case
  proof (cases "k = 0")
    case True
    then show ?thesis by (simp add: irrefl)
  next
    case False
    then have "\<not> lt (xs ! k) (xs ! parent k)" "\<not> lt (xs ! parent k) (xs ! 0)"
      using assms less parent_less [of k] by (simp_all add: is_heap_def heap_from_def)
    then show ?thesis by (rule ntrans)
  qed
qed

text \<open>\<open>Pop\<close> returns an element that no other element is less than, and leaves a heap.\<close>

lemma heap_Pop_least:
  assumes "is_heap lt xs" and "heap_Pop lt xs = Some (x, ys)" and "y \<in> set xs"
  shows "\<not> lt y x"
proof -
  obtain k where "k < length xs" "y = xs ! k" using assms(3) by (metis in_set_conv_nth)
  moreover have "x = xs ! 0" using heap_Pop_Some [OF assms(2)] by (simp add: hd_conv_nth)
  ultimately show ?thesis using heap_root_least [OF assms(1)] by simp
qed

lemma heap_Pop_is_heap:
  assumes hp: "is_heap lt xs" and pop: "heap_Pop lt xs = Some (x, ys)"
  shows "is_heap lt ys"
proof -
  let ?n = "length xs - 1"
  let ?s = "Swap xs 0 ?n"
  let ?d = "heap_down lt ?s 0 ?n"
  have ne: "xs \<noteq> []" and ys: "ys = take ?n ?d"
    using pop by (auto simp: heap_Pop_def Let_def split: if_splits)
  have "\<not> lt (?s ! k) (?s ! parent k)" if "0 < k" "k < ?n" "parent k \<noteq> 0" for k
    using that hp ne parent_less [OF that(1)] by (simp add: is_heap_def heap_from_def nth_Swap)
  then have "down_inv lt 0 ?s 0 ?n" by (simp add: down_inv_def)
  then have "heap_from lt 0 ?d ?n" by (rule heap_down_heap_from) simp_all
  moreover have "length ?d = length xs" using heap_down_frame [of ?n ?s lt 0] by simp
  moreover have "parent k < ?n" if "0 < k" "k < ?n" for k using parent_less [OF that(1)] that(2) by simp
  ultimately show ?thesis using ys by (simp add: is_heap_def heap_from_def)
qed

lemma heap_init_from_heap:
  "heap_from lt k xs (length xs) \<Longrightarrow> is_heap lt (heap_init_from lt xs k)"
proof (induction k arbitrary: xs)
  case 0
  then show ?case by (simp add: is_heap_def)
next
  case (Suc i)
  have "down_inv lt i xs i (length xs)"
    using Suc.prems by (auto simp: down_inv_def heap_from_def not_less_eq_eq [symmetric])
  then have "heap_from lt i (heap_down lt xs i (length xs)) (length xs)"
    by (rule heap_down_heap_from) simp_all
  moreover have "length (heap_down lt xs i (length xs)) = length xs"
    using heap_down_frame [of "length xs" xs lt i] by simp
  ultimately show ?case using Suc.IH by simp
qed

lemma heap_Init_is_heap: "is_heap lt (heap_Init lt xs)"
proof -
  have "heap_from lt (length xs div 2) xs (length xs)"
    by (auto simp: heap_from_def parent_def)
  then show ?thesis by (simp add: heap_Init_def heap_init_from_heap)
qed

end

end
