(* ===== verification/Entities.thy ===== *)
theory Entities
  imports Prelude
begin

text \<open>
  The entities of \<open>domain/entities\<close>: outbound mail (\<open>sent_email.go\<close>) with its status machine and
  retry arithmetic, domains (\<open>domain.go\<close>), users (\<open>user.go\<close>), mailboxes and received mail. Methods
  that mutate the receiver return the updated record; methods that read the clock take \<open>now\<close>.
\<close>

section \<open>Outbound mail\<close>

text \<open>
  Go's \<open>EmailSendStatus\<close> is a string type with eight constants; any other string is the value
  \<open>EmailSendStatusOther\<close>, the \<open>default\<close> branch of the switches.
\<close>

datatype EmailSendStatus =
    EmailSendStatusPending | EmailSendStatusQueued | EmailSendStatusSending | EmailSendStatusSent
  | EmailSendStatusDelivered | EmailSendStatusBounced | EmailSendStatusFailed
  | EmailSendStatusCancelled | EmailSendStatusOther string

fun EmailSendStatus_IsValid :: "EmailSendStatus \<Rightarrow> bool" where
  "EmailSendStatus_IsValid (EmailSendStatusOther _) = False"
| "EmailSendStatus_IsValid _ = True"

fun EmailSendStatus_IsFinal :: "EmailSendStatus \<Rightarrow> bool" where
  "EmailSendStatus_IsFinal EmailSendStatusDelivered = True"
| "EmailSendStatus_IsFinal EmailSendStatusBounced = True"
| "EmailSendStatus_IsFinal EmailSendStatusFailed = True"
| "EmailSendStatus_IsFinal EmailSendStatusCancelled = True"
| "EmailSendStatus_IsFinal _ = False"

fun EmailSendStatus_IsError :: "EmailSendStatus \<Rightarrow> bool" where
  "EmailSendStatus_IsError EmailSendStatusBounced = True"
| "EmailSendStatus_IsError EmailSendStatusFailed = True"
| "EmailSendStatus_IsError _ = False"

fun EmailSendStatus_CanRetry :: "EmailSendStatus \<Rightarrow> bool" where
  "EmailSendStatus_CanRetry EmailSendStatusFailed = True"
| "EmailSendStatus_CanRetry _ = False"

text \<open>Free-form webhook data (\<open>map[string]interface{}\<close>) is only carried along: its values are the
  encoded JSON texts.\<close>

type_synonym webhook_data = "(string \<times> string) list"

record SentEmail =
  se_ID :: uuid
  se_DomainID :: uuid
  se_FromAddress :: string
  se_ToAddresses :: "string list"
  se_CCAddresses :: "string list"
  se_BCCAddresses :: "string list"
  se_Subject :: string
  se_TextBody :: "string option"
  se_HTMLBody :: "string option"
  se_MessageID :: string
  se_Status :: EmailSendStatus
  se_ErrorMessage :: "string option"
  se_RetryCount :: int
  se_MaxRetries :: int
  se_CreatedAt :: instant
  se_QueuedAt :: "instant option"
  se_SentAt :: "instant option"
  se_DeliveredAt :: "instant option"
  se_FailedAt :: "instant option"
  se_NextRetryAt :: "instant option"
  se_SMTPResponse :: "string option"
  se_SMTPMessageID :: "string option"
  se_ProviderID :: "uuid option"
  se_ProviderName :: "string option"
  se_ProviderAttemptCount :: int
  se_LastProviderError :: "string option"
  se_WebhookData :: "webhook_data option"
  se_WebhookDelivered :: bool
  se_WebhookAttempts :: int

definition SentEmail_IsValid :: "SentEmail \<Rightarrow> bool" where
  "SentEmail_IsValid se =
     (if se_DomainID se = uuid_nil then False
      else if se_FromAddress se = [] then False
      else if length (se_ToAddresses se) = 0 then False
      else if se_Subject se = [] then False
      else if se_TextBody se = None \<and> se_HTMLBody se = None then False
      else if se_MessageID se = [] then False
      else if \<not> EmailSendStatus_IsValid (se_Status se) then False
      else True)"

definition GetAllRecipients :: "SentEmail \<Rightarrow> string list" where
  "GetAllRecipients se = (([] @ se_ToAddresses se) @ se_CCAddresses se) @ se_BCCAddresses se"

definition GetRecipientCount :: "SentEmail \<Rightarrow> nat" where
  "GetRecipientCount se =
     length (se_ToAddresses se) + length (se_CCAddresses se) + length (se_BCCAddresses se)"

definition MarkAsQueued :: "instant \<Rightarrow> SentEmail \<Rightarrow> SentEmail" where
  "MarkAsQueued now se = se\<lparr>se_Status := EmailSendStatusQueued, se_QueuedAt := Some now\<rparr>"

definition MarkAsSending :: "SentEmail \<Rightarrow> SentEmail" where
  "MarkAsSending se = se\<lparr>se_Status := EmailSendStatusSending\<rparr>"

definition MarkAsSent :: "instant \<Rightarrow> string option \<Rightarrow> string option \<Rightarrow> SentEmail \<Rightarrow> SentEmail" where
  "MarkAsSent now smtpMessageID smtpResponse se =
     se\<lparr>se_Status := EmailSendStatusSent, se_SentAt := Some now, se_SMTPMessageID := smtpMessageID,
        se_SMTPResponse := smtpResponse, se_ErrorMessage := None, se_LastProviderError := None\<rparr>"

definition MarkAsDelivered :: "instant \<Rightarrow> SentEmail \<Rightarrow> SentEmail" where
  "MarkAsDelivered now se = se\<lparr>se_Status := EmailSendStatusDelivered, se_DeliveredAt := Some now\<rparr>"

definition SentEmail_CanRetry :: "SentEmail \<Rightarrow> bool" where
  "SentEmail_CanRetry se \<longleftrightarrow>
     EmailSendStatus_CanRetry (se_Status se) \<and> se_RetryCount se < se_MaxRetries se"

text \<open>
  The backoff loop \<open>for i := 0; i < RetryCount; i++ { delay *= 3 }\<close> starting from 1, on a 64-bit
  \<open>time.Duration\<close>; the delay is then multiplied by the base of five minutes, again wrapping.
\<close>

fun backoff_factor :: "nat \<Rightarrow> int" where
  "backoff_factor 0 = 1"
| "backoff_factor (Suc i) = wrap64 (backoff_factor i * 3)"

definition calculateNextRetryTime :: "instant \<Rightarrow> SentEmail \<Rightarrow> instant" where
  "calculateNextRetryTime now se =
     (let baseDelay = 5 * time_Minute;
          delay = backoff_factor (nat (se_RetryCount se))
      in now + wrap64 (delay * baseDelay))"

definition MarkAsFailed :: "instant \<Rightarrow> string \<Rightarrow> SentEmail \<Rightarrow> SentEmail" where
  "MarkAsFailed now errorMessage se =
     (let se1 = se\<lparr>se_Status := EmailSendStatusFailed, se_ErrorMessage := Some errorMessage,
                   se_FailedAt := Some now, se_RetryCount := se_RetryCount se + 1\<rparr>
      in if SentEmail_CanRetry se1
         then se1\<lparr>se_NextRetryAt := Some (calculateNextRetryTime now se1)\<rparr>
         else se1)"

definition MarkAsBounced :: "instant \<Rightarrow> string \<Rightarrow> SentEmail \<Rightarrow> SentEmail" where
  "MarkAsBounced now bounceReason se =
     se\<lparr>se_Status := EmailSendStatusBounced, se_ErrorMessage := Some bounceReason,
        se_FailedAt := Some now, se_NextRetryAt := None\<rparr>"

definition MarkAsCancelled :: "SentEmail \<Rightarrow> SentEmail" where
  "MarkAsCancelled se = se\<lparr>se_Status := EmailSendStatusCancelled, se_NextRetryAt := None\<rparr>"

definition IsReadyForRetry :: "instant \<Rightarrow> SentEmail \<Rightarrow> bool" where
  "IsReadyForRetry now se =
     (if \<not> SentEmail_CanRetry se then False
      else case se_NextRetryAt se of None \<Rightarrow> False | Some t \<Rightarrow> t < now)"

definition GetBody :: "SentEmail \<Rightarrow> string" where
  "GetBody se = (case se_HTMLBody se of Some h \<Rightarrow> h
     | None \<Rightarrow> (case se_TextBody se of Some t \<Rightarrow> t | None \<Rightarrow> []))"

definition HasHTMLBody :: "SentEmail \<Rightarrow> bool" where
  "HasHTMLBody se \<longleftrightarrow> se_HTMLBody se \<noteq> None \<and> se_HTMLBody se \<noteq> Some []"

definition HasTextBody :: "SentEmail \<Rightarrow> bool" where
  "HasTextBody se \<longleftrightarrow> se_TextBody se \<noteq> None \<and> se_TextBody se \<noteq> Some []"

definition NeedsWebhookDelivery :: "SentEmail \<Rightarrow> bool" where
  "NeedsWebhookDelivery se \<longleftrightarrow> \<not> se_WebhookDelivered se \<and> EmailSendStatus_IsFinal (se_Status se)"

definition MarkWebhookDelivered :: "SentEmail \<Rightarrow> SentEmail" where
  "MarkWebhookDelivered se = se\<lparr>se_WebhookDelivered := True\<rparr>"

definition IncrementWebhookAttempts :: "SentEmail \<Rightarrow> SentEmail" where
  "IncrementWebhookAttempts se = se\<lparr>se_WebhookAttempts := se_WebhookAttempts se + 1\<rparr>"

definition SetProvider :: "uuid \<Rightarrow> string \<Rightarrow> SentEmail \<Rightarrow> SentEmail" where
  "SetProvider providerID providerName se =
     se\<lparr>se_ProviderID := Some providerID, se_ProviderName := Some providerName\<rparr>"

definition ClearProvider :: "SentEmail \<Rightarrow> SentEmail" where
  "ClearProvider se = se\<lparr>se_ProviderID := None, se_ProviderName := None\<rparr>"

definition GetProviderID :: "SentEmail \<Rightarrow> uuid" where
  "GetProviderID se = (case se_ProviderID se of Some i \<Rightarrow> i | None \<Rightarrow> uuid_nil)"

definition GetProviderName :: "SentEmail \<Rightarrow> string" where
  "GetProviderName se = (case se_ProviderName se of Some n \<Rightarrow> n | None \<Rightarrow> [])"

definition IncrementProviderAttempts :: "SentEmail \<Rightarrow> SentEmail" where
  "IncrementProviderAttempts se = se\<lparr>se_ProviderAttemptCount := se_ProviderAttemptCount se + 1\<rparr>"

definition SetProviderError :: "string \<Rightarrow> SentEmail \<Rightarrow> SentEmail" where
  "SetProviderError e se = se\<lparr>se_LastProviderError := Some e\<rparr>"

definition ClearProviderError :: "SentEmail \<Rightarrow> SentEmail" where
  "ClearProviderError se = se\<lparr>se_LastProviderError := None\<rparr>"

definition CanTryNextProvider :: "int \<Rightarrow> SentEmail \<Rightarrow> bool" where
  "CanTryNextProvider maxProviders se \<longleftrightarrow>
     se_ProviderAttemptCount se < maxProviders \<and> se_Status se = EmailSendStatusFailed"

section \<open>Domains, users, mailboxes\<close>

datatype VerificationStatus =
    VerificationStatusPending | VerificationStatusValidating | VerificationStatusVerified
  | VerificationStatusFailed | VerificationStatusExpired | VerificationStatusOther string

fun VerificationStatus_IsValid :: "VerificationStatus \<Rightarrow> bool" where
  "VerificationStatus_IsValid (VerificationStatusOther _) = False"
| "VerificationStatus_IsValid _ = True"

record WebhookConfig =
  wc_URL :: string
  wc_Secret :: string
  wc_Headers :: "(string \<times> string) list"
  wc_Enabled :: bool

text \<open>The zero \<open>time.Time\<close> of an unset column is \<open>None\<close> in the two attempt times.\<close>

record Domain =
  d_ID :: uuid
  d_UserID :: uuid
  d_Domain :: string
  d_PublicKey :: string
  d_APIKey :: string
  d_StorageEnabled :: bool
  d_AutoCreateAddress :: bool
  d_WebhookConfig :: "WebhookConfig option"
  d_VerificationStatus :: VerificationStatus
  d_VerificationToken :: string
  d_LastVerificationAttempt :: "instant option"
  d_VerificationError :: string
  d_VerificationAttempts :: int
  d_NextVerificationAttempt :: "instant option"
  d_CreatedAt :: instant
  d_UpdatedAt :: instant

definition Domain_IsValid :: "Domain \<Rightarrow> bool" where
  "Domain_IsValid d \<longleftrightarrow> d_Domain d \<noteq> [] \<and> d_PublicKey d \<noteq> [] \<and> d_APIKey d \<noteq> [] \<and>
     d_UserID d \<noteq> uuid_nil \<and> VerificationStatus_IsValid (d_VerificationStatus d)"

definition IsVerified :: "Domain \<Rightarrow> bool" where
  "IsVerified d \<longleftrightarrow> d_VerificationStatus d = VerificationStatusVerified"

definition IsPendingVerification :: "Domain \<Rightarrow> bool" where
  "IsPendingVerification d \<longleftrightarrow> d_VerificationStatus d = VerificationStatusPending \<or>
     d_VerificationStatus d = VerificationStatusValidating"

definition IsVerificationFailed :: "Domain \<Rightarrow> bool" where
  "IsVerificationFailed d \<longleftrightarrow> d_VerificationStatus d = VerificationStatusFailed \<or>
     d_VerificationStatus d = VerificationStatusExpired"

definition CanRetryVerification :: "instant \<Rightarrow> Domain \<Rightarrow> bool" where
  "CanRetryVerification now d \<longleftrightarrow> IsVerificationFailed d \<and>
     (case d_NextVerificationAttempt d of None \<Rightarrow> True | Some t \<Rightarrow> t < now)"

definition GetTXTRecord :: "Domain \<Rightarrow> string" where
  "GetTXTRecord d =
     (if d_VerificationToken d = [] then [] else ''mailvault-verification='' @ d_VerificationToken d)"

definition NeedsVerification :: "instant \<Rightarrow> Domain \<Rightarrow> bool" where
  "NeedsVerification now d \<longleftrightarrow> \<not> IsVerified d \<and>
     (d_VerificationStatus d = VerificationStatusPending \<or> CanRetryVerification now d)"

definition CanSendEmails :: "Domain \<Rightarrow> bool" where
  "CanSendEmails d \<longleftrightarrow> IsVerified d"

datatype AccountType = AccountTypeUser | AccountTypeOwner | AccountTypeAdmin | AccountTypeOther string

datatype UserPlan = UserPlanFree | UserPlanPro | UserPlanPremium | UserPlanOther string

fun UserPlan_DomainLimit :: "UserPlan \<Rightarrow> int" where
  "UserPlan_DomainLimit UserPlanFree = 1"
| "UserPlan_DomainLimit UserPlanPro = 10"
| "UserPlan_DomainLimit UserPlanPremium = -1"
| "UserPlan_DomainLimit (UserPlanOther _) = 1"

record User =
  u_ID :: uuid
  u_Email :: string
  u_AuthProvider :: string
  u_AuthProviderID :: string
  u_AccountType :: AccountType
  u_UserPlan :: UserPlan
  u_CreatedAt :: instant
  u_UpdatedAt :: instant

definition User_IsValid :: "User \<Rightarrow> bool" where
  "User_IsValid u \<longleftrightarrow> u_Email u \<noteq> [] \<and> u_AuthProvider u \<noteq> []"

definition IsAdmin :: "User \<Rightarrow> bool" where
  "IsAdmin u \<longleftrightarrow> u_AccountType u = AccountTypeAdmin"

definition GetDomainLimit :: "User \<Rightarrow> int" where
  "GetDomainLimit u =
     (if u_AccountType u = AccountTypeAdmin then -1 else UserPlan_DomainLimit (u_UserPlan u))"

record EmailAddress =
  ea_ID :: uuid
  ea_DomainID :: uuid
  ea_LocalPart :: string
  ea_ForwardAddresses :: "string list"
  ea_ForwardingEnabled :: bool
  ea_CreatedAt :: instant
  ea_UpdatedAt :: instant

definition EmailAddress_IsValid :: "EmailAddress \<Rightarrow> bool" where
  "EmailAddress_IsValid e \<longleftrightarrow> ea_LocalPart e \<noteq> [] \<and> ea_DomainID e \<noteq> uuid_nil"

definition GetFullAddress :: "string \<Rightarrow> EmailAddress \<Rightarrow> string" where
  "GetFullAddress domain e = ea_LocalPart e @ ''@'' @ domain"

definition HasForwarding :: "EmailAddress \<Rightarrow> bool" where
  "HasForwarding e \<longleftrightarrow> ea_ForwardingEnabled e \<and> length (ea_ForwardAddresses e) > 0"

section \<open>Lemmas\<close>

lemma GetRecipientCount_eq: "GetRecipientCount se = length (GetAllRecipients se)"
  by (simp add: GetRecipientCount_def GetAllRecipients_def)

text \<open>No overflow up to the fifteenth failure: \<open>3 ^ 15\<close> times five minutes is below \<open>2 ^ 63\<close>
  nanoseconds, \<open>3 ^ 16\<close> times five minutes is not.\<close>

lemma pow3_le: "n \<le> 15 \<Longrightarrow> (3::int) ^ n \<le> 14348907"
  using power_increasing [of n 15 "3::int"] by simp

lemma backoff_factor_exact: "n \<le> 15 \<Longrightarrow> backoff_factor n = 3 ^ n"
proof (induction n)
  case 0
  then show ?case by simp
next
  case (Suc n)
  have "in_int64 (3 ^ Suc n)" using pow3_le [OF Suc.prems] by (intro in_int64_nonneg) simp_all
  then show ?case using Suc by (simp add: mult.commute)
qed

lemma calculateNextRetryTime_exact:
  assumes "0 \<le> se_RetryCount se" "se_RetryCount se \<le> 15"
  shows "calculateNextRetryTime now se = now + 3 ^ nat (se_RetryCount se) * (5 * time_Minute)"
proof -
  let ?n = "nat (se_RetryCount se)"
  have n: "?n \<le> 15" using assms by simp
  have "in_int64 (3 ^ ?n * 300000000000)"
    using pow3_le [OF n] by (intro in_int64_nonneg) simp_all
  then show ?thesis using backoff_factor_exact [OF n] by (simp add: calculateNextRetryTime_def)
qed

lemma MarkAsFailed_fields [simp]:
  "se_Status (MarkAsFailed now e se) = EmailSendStatusFailed"
  "se_RetryCount (MarkAsFailed now e se) = se_RetryCount se + 1"
  "se_MaxRetries (MarkAsFailed now e se) = se_MaxRetries se"
  "se_ID (MarkAsFailed now e se) = se_ID se"
  "se_MessageID (MarkAsFailed now e se) = se_MessageID se"
  "se_ErrorMessage (MarkAsFailed now e se) = Some e"
  by (simp_all add: MarkAsFailed_def Let_def)

lemma MarkAsSent_fields [simp]:
  "se_Status (MarkAsSent now m r se) = EmailSendStatusSent"
  "se_RetryCount (MarkAsSent now m r se) = se_RetryCount se"
  "se_MaxRetries (MarkAsSent now m r se) = se_MaxRetries se"
  "se_ID (MarkAsSent now m r se) = se_ID se"
  "se_MessageID (MarkAsSent now m r se) = se_MessageID se"
  "se_SentAt (MarkAsSent now m r se) = Some now"
  "se_ErrorMessage (MarkAsSent now m r se) = None"
  by (simp_all add: MarkAsSent_def)

section \<open>Properties\<close>

text \<open>
  The retry schedule: a failure that leaves attempts schedules the next one \<open>3 ^ n\<close> times five minutes
  later, where \<open>n\<close> counts the failures so far including this one (up to the fifteenth; the first retry
  thus comes after fifteen minutes), and a failure that exhausts them leaves the schedule as it was.
\<close>

theorem MarkAsFailed_schedule:
  assumes "0 \<le> se_RetryCount se" "se_RetryCount se < 15"
  shows "se_NextRetryAt (MarkAsFailed now err se) =
    (if se_RetryCount se + 1 < se_MaxRetries se
     then Some (now + 3 ^ nat (se_RetryCount se + 1) * (5 * time_Minute)) else se_NextRetryAt se)"
proof -
  let ?se = "se\<lparr>se_Status := EmailSendStatusFailed, se_ErrorMessage := Some err, se_FailedAt := Some now,
    se_RetryCount := se_RetryCount se + 1\<rparr>"
  have "calculateNextRetryTime now ?se = now + 3 ^ nat (se_RetryCount se + 1) * (5 * time_Minute)"
    using calculateNextRetryTime_exact [of ?se now] assms by simp
  then show ?thesis by (simp add: MarkAsFailed_def Let_def SentEmail_CanRetry_def)
qed

definition plain_mail :: SentEmail where
  "plain_mail =
   \<lparr>se_ID = 1, se_DomainID = 7, se_FromAddress = ''a@b.org'', se_ToAddresses = [''c@d.org''], se_CCAddresses = [],
    se_BCCAddresses = [], se_Subject = ''hi'', se_TextBody = Some ''text'', se_HTMLBody = None, se_MessageID = ''m'',
    se_Status = EmailSendStatusPending, se_ErrorMessage = None, se_RetryCount = 0, se_MaxRetries = 3, se_CreatedAt = 0,
    se_QueuedAt = None, se_SentAt = None, se_DeliveredAt = None, se_FailedAt = None, se_NextRetryAt = None,
    se_SMTPResponse = None, se_SMTPMessageID = None, se_ProviderID = None, se_ProviderName = None,
    se_ProviderAttemptCount = 0, se_LastProviderError = None, se_WebhookData = None, se_WebhookDelivered = False,
    se_WebhookAttempts = 0\<rparr>"

theorem MarkAsFailed_schedule_witness:
  "se_NextRetryAt (MarkAsFailed 0 ''refused'' plain_mail) = Some (15 * time_Minute)"
  using MarkAsFailed_schedule [of plain_mail 0 "''refused''"] by (simp add: plain_mail_def)

end
