(* ===== verification/Validation.thy ===== *)
theory Validation
  imports Entities
begin

text \<open>
  Domain validation entities (\<open>domain/validation/entities.go\<close>): the kinds and statuses of a
  validation, its record, the job handed to the workers, the default configuration, and the
  exponential backoff \<open>CalculateRetryDelay\<close> (the worker package has its own copy with the same
  arithmetic, modelled in the theory \<open>Queue\<close>).
\<close>

datatype ValidationType =
    ValidationTypeMXRecord | ValidationTypeTXTRecord | ValidationTypeOwnership
  | ValidationTypeFullValidation | ValidationTypeOther string

fun ValidationType_IsValid :: "ValidationType \<Rightarrow> bool" where
  "ValidationType_IsValid (ValidationTypeOther _) = False"
| "ValidationType_IsValid _ = True"

datatype ValidationRecordStatus =
    ValidationRecordStatusPending | ValidationRecordStatusRunning | ValidationRecordStatusSuccess
  | ValidationRecordStatusFailed | ValidationRecordStatusTimeout | ValidationRecordStatusError
  | ValidationRecordStatusOther string

fun ValidationRecordStatus_IsValid :: "ValidationRecordStatus \<Rightarrow> bool" where
  "ValidationRecordStatus_IsValid (ValidationRecordStatusOther _) = False"
| "ValidationRecordStatus_IsValid _ = True"

record MXRecord =
  mx_Host :: string
  mx_Priority :: int

record ValidationDetails =
  vd_ExpectedMXServers :: "string list"
  vd_FoundMXRecords :: "MXRecord list"
  vd_MXValidationPassed :: bool
  vd_ExpectedTXTRecord :: string
  vd_FoundTXTRecords :: "string list"
  vd_TXTValidationPassed :: bool
  vd_DNSServer :: string
  vd_QueryTime :: duration
  vd_RetryCount :: int
  vd_ErrorDetails :: string

record ValidationRecord =
  vr_ID :: uuid
  vr_DomainID :: uuid
  vr_ValidationType :: ValidationType
  vr_Status :: ValidationRecordStatus
  vr_Details :: ValidationDetails
  vr_StartedAt :: instant
  vr_CompletedAt :: "instant option"
  vr_ErrorMessage :: "string option"
  vr_CreatedAt :: instant

record ValidationJob =
  job_ID :: uuid
  job_DomainID :: uuid
  job_DomainName :: string
  job_Type :: ValidationType
  job_Priority :: int
  job_CreatedAt :: instant
  job_Attempts :: int
  job_LastError :: string

record ValidationConfig =
  vc_ExpectedMXServers :: "string list"
  vc_MXCheckTimeout :: duration
  vc_TXTRecordPrefix :: string
  vc_TXTCheckTimeout :: duration
  vc_MaxRetries :: int
  vc_RetryDelay :: duration
  vc_DNSServer :: string
  vc_ValidationTimeout :: duration
  vc_TokenExpiry :: duration

definition DefaultValidationConfig :: ValidationConfig where
  "DefaultValidationConfig =
     \<lparr>vc_ExpectedMXServers = [''mail.mailvault.sh'', ''mail2.mailvault.sh''],
      vc_MXCheckTimeout = 30 * time_Second,
      vc_TXTRecordPrefix = ''mailvault-verification'',
      vc_TXTCheckTimeout = 30 * time_Second,
      vc_MaxRetries = 3,
      vc_RetryDelay = 5 * time_Minute,
      vc_DNSServer = ''8.8.8.8:53'',
      vc_ValidationTimeout = 60 * time_Second,
      vc_TokenExpiry = 24 * time_Hour\<rparr>"

definition IsComplete :: "ValidationRecord \<Rightarrow> bool" where
  "IsComplete vr \<longleftrightarrow> vr_Status vr = ValidationRecordStatusSuccess \<or>
     vr_Status vr = ValidationRecordStatusFailed \<or>
     vr_Status vr = ValidationRecordStatusTimeout \<or>
     vr_Status vr = ValidationRecordStatusError"

definition IsSuccessful :: "ValidationRecord \<Rightarrow> bool" where
  "IsSuccessful vr \<longleftrightarrow> vr_Status vr = ValidationRecordStatusSuccess"

definition ValidationRecord_Duration :: "instant \<Rightarrow> ValidationRecord \<Rightarrow> duration" where
  "ValidationRecord_Duration now vr =
     (case vr_CompletedAt vr of None \<Rightarrow> now - vr_StartedAt vr | Some t \<Rightarrow> t - vr_StartedAt vr)"

text \<open>The fresh UUID and the clock are arguments.\<close>

definition CreateValidationJob ::
    "uuid \<Rightarrow> instant \<Rightarrow> uuid \<Rightarrow> string \<Rightarrow> ValidationType \<Rightarrow> int \<Rightarrow> ValidationJob" where
  "CreateValidationJob newID now domainID domainName validationType priority =
     \<lparr>job_ID = newID, job_DomainID = domainID, job_DomainName = domainName,
      job_Type = validationType, job_Priority = priority, job_CreatedAt = now,
      job_Attempts = 0, job_LastError = []\<rparr>"

text \<open>\<open>1 << (attempt - 1)\<close> and the product wrap at 64 bits before the cap is applied.\<close>

definition CalculateRetryDelay :: "int \<Rightarrow> duration \<Rightarrow> duration" where
  "CalculateRetryDelay attempt baseDelay =
     (if attempt \<le> 0 then baseDelay
      else let multiplier = shl64 1 (nat (attempt - 1));
               delay = wrap64 (multiplier * baseDelay);
               maxDelay = 24 * time_Hour
           in if delay > maxDelay then maxDelay else delay)"

section \<open>Properties\<close>

lemma backoff_product_exact:
  assumes "0 \<le> b" and "n < 63" and "2 ^ n * b < 2 ^ 63"
  shows "wrap64 (shl64 1 n * b) = 2 ^ n * b"
proof -
  have "in_int64 (2 ^ n * b)" using assms by (intro in_int64_nonneg) simp_all
  then show ?thesis using assms(2) by (simp add: shl64_exact)
qed

text \<open>
  as long as \<open>2 ^ (attempt - 1) * baseDelay\<close> fits in 64 bits, the retry delay is exactly the
  documented one: the exponential backoff, capped at 24 hours.
\<close>

theorem CalculateRetryDelay_backoff:
  assumes "1 \<le> attempt" "attempt \<le> 63" "0 \<le> baseDelay"
    and "2 ^ nat (attempt - 1) * baseDelay < 2 ^ 63"
  shows "CalculateRetryDelay attempt baseDelay =
    min (2 ^ nat (attempt - 1) * baseDelay) (24 * time_Hour)"
  using assms backoff_product_exact [of baseDelay "nat (attempt - 1)"]
  by (simp add: CalculateRetryDelay_def Let_def min_def)

theorem CalculateRetryDelay_backoff_witness:
  "(1::int) \<le> 3 \<and> (2::int) ^ nat (3 - 1) * (5 * time_Minute) < 2 ^ 63 \<and>
   CalculateRetryDelay 3 (5 * time_Minute) = 20 * time_Minute"
  using CalculateRetryDelay_backoff [of 3 "5 * time_Minute"] by simp

text \<open>
  the cap does not protect against overflow. With the default base of five minutes, every
  attempt from the 54th on gets no delay at all, because the shifted product is a multiple of
  \<open>2 ^ 64\<close>; the comment in the code promises a delay that grows up to 24 hours.
\<close>

theorem CalculateRetryDelay_overflow:
  assumes "54 \<le> attempt"
  shows "CalculateRetryDelay attempt (vc_RetryDelay DefaultValidationConfig) = 0"
proof -
  let ?n = "nat (attempt - 1)"
  have n: "53 \<le> ?n" using assms by simp
  have "wrap64 (shl64 1 ?n * 300000000000) = 0"
  proof (cases "64 \<le> ?n")
    case True
    then show ?thesis by (simp add: shl64_def)
  next
    case False
    then have "2 ^ 53 dvd shl64 1 ?n"
      using n by (simp add: shl64_def pow2_dvd_wrap64 le_imp_power_dvd del: power_numeral)
    then have "2 ^ 53 * 2 ^ 11 dvd shl64 1 ?n * (2 ^ 11 * 146484375)"
      by (intro mult_dvd_mono) simp_all
    then show ?thesis by (intro wrap64_dvd) simp
  qed
  then show ?thesis using assms by (simp add: CalculateRetryDelay_def DefaultValidationConfig_def)
qed

theorem CalculateRetryDelay_overflow_witness:
  "(54::int) \<le> 60 \<and> CalculateRetryDelay 60 (vc_RetryDelay DefaultValidationConfig) = 0"
  using CalculateRetryDelay_overflow [of 60] by simp

end
