(* ===== verification/Queue.thy ===== *)
theory Queue
  imports GoHeap Validation
begin

text \<open>
  The validation job queues and the scheduler of \<open>app/worker/queue.go\<close>.

  \<^item> \<open>PriorityQueue\<close> (a heap) and \<open>InMemoryQueue\<close> (a FIFO) are records; every method body runs under
    the queue's mutex, so each is one atomic function on the record. The one method that releases
    the mutex in its middle is \<open>Pop\<close>, in \<open>cond.Wait()\<close>: its model is one pass through the waiting
    loop, whose outcome \<open>PopWait\<close> means that the goroutine goes to sleep.
  \<^item> The Go interface \<open>Queue\<close> is the record \<open>queue_ops\<close> of its methods, and its contract is the locale
    \<open>job_queue\<close>, interpreted for both implementations.
  \<^item> \<open>queue_step\<close> is the interleaving of any number of goroutines calling these methods, with the
    wake-up rules of \<open>sync.Cond\<close>; the clients' guarantees (no lost wake-up, jobs conserved by the
    scheduler) are proved in the locale and hold for both queues.
  Jobs are pointers in the source; the queue and scheduler never write through them, so they are
  values here.
\<close>

section \<open>Operations\<close>

datatype queue_error = ErrQueueClosed | ErrQueueFull | CtxErr

datatype pop_outcome = PopJob ValidationJob | PopErr queue_error | PopWait

subsection \<open>The priority queue\<close>

definition jobQueue_Less :: "ValidationJob \<Rightarrow> ValidationJob \<Rightarrow> bool" where
  "jobQueue_Less a b =
     (if job_Priority a \<noteq> job_Priority b then job_Priority a > job_Priority b
      else job_CreatedAt a < job_CreatedAt b)"

record PriorityQueue =
  pq_jobs :: "ValidationJob list"
  pq_closed :: bool
  pq_maxSize :: int

definition NewPriorityQueue :: "int option \<Rightarrow> PriorityQueue" where
  "NewPriorityQueue maxSize =
     \<lparr>pq_jobs = heap_Init jobQueue_Less [], pq_closed = False,
      pq_maxSize = (case maxSize of None \<Rightarrow> 0 | Some ms \<Rightarrow> ms)\<rparr>"

definition PriorityQueue_Push :: "ValidationJob \<Rightarrow> PriorityQueue \<Rightarrow> queue_error + PriorityQueue" where
  "PriorityQueue_Push job pq =
     (if pq_closed pq then Inl ErrQueueClosed
      else if pq_maxSize pq > 0 \<and> int (length (pq_jobs pq)) \<ge> pq_maxSize pq then Inl ErrQueueFull
      else Inr (pq\<lparr>pq_jobs := heap_Push jobQueue_Less (pq_jobs pq) job\<rparr>))"

definition PriorityQueue_Enqueue :: "ValidationJob \<Rightarrow> PriorityQueue \<Rightarrow> PriorityQueue" where
  "PriorityQueue_Enqueue job pq = (case PriorityQueue_Push job pq of Inl _ \<Rightarrow> pq | Inr pq' \<Rightarrow> pq')"

definition PriorityQueue_Dequeue :: "PriorityQueue \<Rightarrow> ValidationJob option \<times> PriorityQueue" where
  "PriorityQueue_Dequeue pq =
     (case heap_Pop jobQueue_Less (pq_jobs pq) of
        None \<Rightarrow> (None, pq)
      | Some (job, rest) \<Rightarrow> (Some job, pq\<lparr>pq_jobs := rest\<rparr>))"

definition PriorityQueue_IsEmpty :: "PriorityQueue \<Rightarrow> bool" where
  "PriorityQueue_IsEmpty pq \<longleftrightarrow> length (pq_jobs pq) = 0"

definition PriorityQueue_Pop :: "bool \<Rightarrow> PriorityQueue \<Rightarrow> pop_outcome \<times> PriorityQueue" where
  "PriorityQueue_Pop ctxDone pq =
     (if length (pq_jobs pq) = 0 \<and> \<not> pq_closed pq
      then (if ctxDone then (PopErr CtxErr, pq) else (PopWait, pq))
      else if pq_closed pq \<and> length (pq_jobs pq) = 0 then (PopErr ErrQueueClosed, pq)
      else case heap_Pop jobQueue_Less (pq_jobs pq) of
             None \<Rightarrow> (PopWait, pq)
           | Some (job, rest) \<Rightarrow> (PopJob job, pq\<lparr>pq_jobs := rest\<rparr>))"

definition PriorityQueue_Size :: "PriorityQueue \<Rightarrow> nat" where
  "PriorityQueue_Size pq = length (pq_jobs pq)"

definition PriorityQueue_Clear :: "PriorityQueue \<Rightarrow> PriorityQueue" where
  "PriorityQueue_Clear pq = pq\<lparr>pq_jobs := []\<rparr>"

definition PriorityQueue_Close :: "PriorityQueue \<Rightarrow> PriorityQueue" where
  "PriorityQueue_Close pq = (if pq_closed pq then pq else pq\<lparr>pq_closed := True\<rparr>)"

subsection \<open>The in-memory FIFO queue\<close>

record InMemoryQueue =
  mq_jobs :: "ValidationJob list"
  mq_closed :: bool
  mq_maxSize :: int

definition NewInMemoryQueue :: "int \<Rightarrow> InMemoryQueue" where
  "NewInMemoryQueue maxSize = \<lparr>mq_jobs = [], mq_closed = False, mq_maxSize = maxSize\<rparr>"

definition InMemoryQueue_Push :: "ValidationJob \<Rightarrow> InMemoryQueue \<Rightarrow> queue_error + InMemoryQueue" where
  "InMemoryQueue_Push job q =
     (if mq_closed q then Inl ErrQueueClosed
      else if mq_maxSize q > 0 \<and> int (length (mq_jobs q)) \<ge> mq_maxSize q then Inl ErrQueueFull
      else Inr (q\<lparr>mq_jobs := mq_jobs q @ [job]\<rparr>))"

definition InMemoryQueue_Pop :: "bool \<Rightarrow> InMemoryQueue \<Rightarrow> pop_outcome \<times> InMemoryQueue" where
  "InMemoryQueue_Pop ctxDone q =
     (case mq_jobs q of
        [] \<Rightarrow> (if \<not> mq_closed q then (if ctxDone then (PopErr CtxErr, q) else (PopWait, q))
               else (PopErr ErrQueueClosed, q))
      | job # rest \<Rightarrow> (PopJob job, q\<lparr>mq_jobs := rest\<rparr>))"

definition InMemoryQueue_Size :: "InMemoryQueue \<Rightarrow> nat" where
  "InMemoryQueue_Size q = length (mq_jobs q)"

definition InMemoryQueue_Clear :: "InMemoryQueue \<Rightarrow> InMemoryQueue" where
  "InMemoryQueue_Clear q = q\<lparr>mq_jobs := []\<rparr>"

definition InMemoryQueue_Close :: "InMemoryQueue \<Rightarrow> InMemoryQueue" where
  "InMemoryQueue_Close q = (if mq_closed q then q else q\<lparr>mq_closed := True\<rparr>)"

subsection \<open>The interface\<close>

record 'q queue_ops =
  q_Push :: "ValidationJob \<Rightarrow> 'q \<Rightarrow> queue_error + 'q"
  q_Pop :: "bool \<Rightarrow> 'q \<Rightarrow> pop_outcome \<times> 'q"
  q_Size :: "'q \<Rightarrow> nat"
  q_Clear :: "'q \<Rightarrow> 'q"
  q_Close :: "'q \<Rightarrow> 'q"

definition PriorityQueue_ops :: "PriorityQueue queue_ops" where
  "PriorityQueue_ops = \<lparr>q_Push = PriorityQueue_Push, q_Pop = PriorityQueue_Pop,
     q_Size = PriorityQueue_Size, q_Clear = PriorityQueue_Clear, q_Close = PriorityQueue_Close\<rparr>"

definition InMemoryQueue_ops :: "InMemoryQueue queue_ops" where
  "InMemoryQueue_ops = \<lparr>q_Push = InMemoryQueue_Push, q_Pop = InMemoryQueue_Pop,
     q_Size = InMemoryQueue_Size, q_Clear = InMemoryQueue_Clear, q_Close = InMemoryQueue_Close\<rparr>"

subsection \<open>The scheduler\<close>

record ScheduledJob =
  sj_Job :: ValidationJob
  sj_ScheduledAt :: instant
  sj_RetryCount :: int
  sj_MaxRetries :: int

text \<open>
  The map \<open>scheduled\<close> is an association list with distinct keys, in the order in which the next
  iteration over the map visits it; that order is arbitrary in Go, so no theorem fixes it.
\<close>

record JobScheduler =
  js_scheduled :: "(uuid \<times> ScheduledJob) list"
  js_stopped :: bool
  js_started :: bool

definition NewJobScheduler :: JobScheduler where
  "NewJobScheduler = \<lparr>js_scheduled = [], js_stopped = False, js_started = False\<rparr>"

definition ScheduleJob :: "ValidationJob \<Rightarrow> instant \<Rightarrow> int \<Rightarrow> JobScheduler \<Rightarrow> JobScheduler" where
  "ScheduleJob job scheduleTime maxRetries js =
     js\<lparr>js_scheduled := (job_ID job, \<lparr>sj_Job = job, sj_ScheduledAt = scheduleTime,
          sj_RetryCount = job_Attempts job, sj_MaxRetries = maxRetries\<rparr>)
        # filter (\<lambda>(k, _). k \<noteq> job_ID job) (js_scheduled js)\<rparr>"

text \<open>\<open>Schedule\<close> also reports whether it starts the scheduler goroutine.\<close>

definition Schedule :: "ValidationJob \<Rightarrow> instant \<Rightarrow> JobScheduler \<Rightarrow> bool \<times> JobScheduler" where
  "Schedule job scheduleTime js =
     (let js1 = ScheduleJob job scheduleTime 0 js
      in (\<not> js_started js1, if js_started js1 then js1 else js1\<lparr>js_started := True\<rparr>))"

definition JobScheduler_Stop :: "JobScheduler \<Rightarrow> JobScheduler" where
  "JobScheduler_Stop js = (if js_stopped js then js else js\<lparr>js_stopped := True\<rparr>)"

fun push_ready ::
    "'q queue_ops \<Rightarrow> instant \<Rightarrow> (uuid \<times> ScheduledJob) list \<Rightarrow> 'q \<Rightarrow> uuid list \<Rightarrow> uuid list \<times> 'q" where
  "push_ready ops now [] q toRemove = (toRemove, q)"
| "push_ready ops now ((jid, scheduled) # rest) q toRemove =
     (if now > sj_ScheduledAt scheduled \<or> now = sj_ScheduledAt scheduled
      then (case q_Push ops (sj_Job scheduled) q of
              Inr q' \<Rightarrow> push_ready ops now rest q' (toRemove @ [jid])
            | Inl _ \<Rightarrow> push_ready ops now rest q toRemove)
      else push_ready ops now rest q toRemove)"

definition checkScheduledJobs ::
    "'q queue_ops \<Rightarrow> instant \<Rightarrow> JobScheduler \<Rightarrow> 'q \<Rightarrow> JobScheduler \<times> 'q" where
  "checkScheduledJobs ops now js q =
     (let (toRemove, q') = push_ready ops now (js_scheduled js) q []
      in (js\<lparr>js_scheduled := filter (\<lambda>(k, _). k \<notin> set toRemove) (js_scheduled js)\<rparr>, q'))"

definition GetScheduledJobsCount :: "JobScheduler \<Rightarrow> nat" where
  "GetScheduledJobsCount js = length (js_scheduled js)"

text \<open>The worker package's own backoff: the product is taken on \<open>int64\<close> values.\<close>

definition worker_CalculateRetryDelay :: "int \<Rightarrow> duration \<Rightarrow> duration" where
  "worker_CalculateRetryDelay attempt baseDelay =
     (if attempt \<le> 0 then baseDelay
      else let multiplier = shl64 1 (nat (attempt - 1));
               delay = wrap64 (baseDelay * multiplier);
               maxDelay = 24 * time_Hour
           in if delay > maxDelay then maxDelay else delay)"

definition worker_CreateValidationJob ::
    "uuid \<Rightarrow> instant \<Rightarrow> uuid \<Rightarrow> string \<Rightarrow> ValidationType \<Rightarrow> int \<Rightarrow> ValidationJob" where
  "worker_CreateValidationJob newID now domainID domainName validationType priority =
     \<lparr>job_ID = newID, job_DomainID = domainID, job_DomainName = domainName,
      job_Type = validationType, job_Priority = priority, job_CreatedAt = now,
      job_Attempts = 0, job_LastError = []\<rparr>"

section \<open>Goroutines sharing a queue\<close>

text \<open>
  \<open>qs_running\<close> are the goroutines inside \<open>Pop\<close> that hold or compete for the mutex, \<open>qs_waiting\<close> those
  asleep in \<open>cond.Wait()\<close>, \<open>qs_cancelled\<close> those whose context is done. A successful \<open>Push\<close> signals
  one sleeper (any of them), \<open>Close\<close> broadcasts; nothing else wakes a goroutine.
  \<open>Enqueue\<close> is a \<open>Push\<close> whose error the caller drops, so its steps are those of \<open>EvPush\<close>. \<open>Dequeue\<close>,
  which only \<open>PriorityQueue\<close> has and only tests call, takes a job without waiting or waking anyone;
  it is not an event here.
\<close>

record 'q queue_sys =
  qs_queue :: 'q
  qs_running :: "nat set"
  qs_waiting :: "nat set"
  qs_cancelled :: "nat set"

datatype queue_event =
    EvCall nat | EvPop nat | EvPush ValidationJob | EvCancel nat | EvClear | EvClose

inductive queue_step :: "'q queue_ops \<Rightarrow> 'q queue_sys \<Rightarrow> queue_event \<Rightarrow> 'q queue_sys \<Rightarrow> bool"
  for ops :: "'q queue_ops" where
  call: "i \<notin> qs_running s \<union> qs_waiting s \<Longrightarrow>
     queue_step ops s (EvCall i) (s\<lparr>qs_running := insert i (qs_running s)\<rparr>)"
| pop_return: "i \<in> qs_running s \<Longrightarrow> q_Pop ops (i \<in> qs_cancelled s) (qs_queue s) = (r, q') \<Longrightarrow>
     r \<noteq> PopWait \<Longrightarrow>
     queue_step ops s (EvPop i) (s\<lparr>qs_queue := q', qs_running := qs_running s - {i}\<rparr>)"
| pop_sleep: "i \<in> qs_running s \<Longrightarrow> q_Pop ops (i \<in> qs_cancelled s) (qs_queue s) = (PopWait, q') \<Longrightarrow>
     queue_step ops s (EvPop i) (s\<lparr>qs_queue := q', qs_running := qs_running s - {i},
       qs_waiting := insert i (qs_waiting s)\<rparr>)"
| push_signal: "q_Push ops j (qs_queue s) = Inr q' \<Longrightarrow> i \<in> qs_waiting s \<Longrightarrow>
     queue_step ops s (EvPush j) (s\<lparr>qs_queue := q', qs_running := insert i (qs_running s),
       qs_waiting := qs_waiting s - {i}\<rparr>)"
| push_quiet: "q_Push ops j (qs_queue s) = Inr q' \<Longrightarrow> qs_waiting s = {} \<Longrightarrow>
     queue_step ops s (EvPush j) (s\<lparr>qs_queue := q'\<rparr>)"
| push_fail: "q_Push ops j (qs_queue s) = Inl e \<Longrightarrow> queue_step ops s (EvPush j) s"
| cancel: "queue_step ops s (EvCancel i) (s\<lparr>qs_cancelled := insert i (qs_cancelled s)\<rparr>)"
| clear: "queue_step ops s EvClear (s\<lparr>qs_queue := q_Clear ops (qs_queue s)\<rparr>)"
| close: "queue_step ops s EvClose (s\<lparr>qs_queue := q_Close ops (qs_queue s),
       qs_running := qs_running s \<union> qs_waiting s, qs_waiting := {}\<rparr>)"

inductive queue_run :: "'q queue_ops \<Rightarrow> 'q queue_sys \<Rightarrow> queue_event list \<Rightarrow> 'q queue_sys \<Rightarrow> bool"
  for ops :: "'q queue_ops" where
  run_nil: "queue_run ops s [] s"
| run_snoc: "queue_run ops s evs t \<Longrightarrow> queue_step ops t ev u \<Longrightarrow> queue_run ops s (evs @ [ev]) u"

definition queue_sys_init :: "'q \<Rightarrow> 'q queue_sys" where
  "queue_sys_init q = \<lparr>qs_queue = q, qs_running = {}, qs_waiting = {}, qs_cancelled = {}\<rparr>"

inductive_cases queue_step_cancelE: "queue_step ops s (EvCancel i) t"
inductive_simps queue_run_nil_simp [simp]: "queue_run ops s [] t"

text \<open>Jobs the scheduler still holds.\<close>

definition scheduled_jobs :: "(uuid \<times> ScheduledJob) list \<Rightarrow> ValidationJob multiset" where
  "scheduled_jobs sch = mset (map (\<lambda>e. sj_Job (snd e)) sch)"

definition scheduler_wf :: "JobScheduler \<Rightarrow> bool" where
  "scheduler_wf js \<longleftrightarrow> distinct (map fst (js_scheduled js))"

section \<open>The contract of a job queue\<close>

locale job_queue =
  fixes ops :: "'q queue_ops"
    and jobs :: "'q \<Rightarrow> ValidationJob multiset"
    and is_closed :: "'q \<Rightarrow> bool"
    and capacity :: "'q \<Rightarrow> int"
    and invar :: "'q \<Rightarrow> bool"
  assumes push_err: "q_Push ops j q = Inl e \<longleftrightarrow>
      is_closed q \<and> e = ErrQueueClosed \<or>
      \<not> is_closed q \<and> 0 < capacity q \<and> capacity q \<le> int (size (jobs q)) \<and> e = ErrQueueFull"
    and push_ok: "invar q \<Longrightarrow> q_Push ops j q = Inr q' \<Longrightarrow>
      invar q' \<and> jobs q' = add_mset j (jobs q) \<and> capacity q' = capacity q \<and> \<not> is_closed q'"
    and pop_job: "invar q \<Longrightarrow> q_Pop ops d q = (PopJob j, q') \<Longrightarrow>
      invar q' \<and> jobs q = add_mset j (jobs q') \<and> capacity q' = capacity q \<and> is_closed q' = is_closed q"
    and pop_err: "q_Pop ops d q = (PopErr e, q') \<Longrightarrow>
      q' = q \<and> jobs q = {#} \<and> (if is_closed q then e = ErrQueueClosed else d \<and> e = CtxErr)"
    and pop_wait: "q_Pop ops d q = (PopWait, q') \<Longrightarrow> q' = q \<and> jobs q = {#} \<and> \<not> is_closed q \<and> \<not> d"
    and clear_law: "invar q \<Longrightarrow> invar (q_Clear ops q) \<and> jobs (q_Clear ops q) = {#} \<and>
      capacity (q_Clear ops q) = capacity q \<and> is_closed (q_Clear ops q) = is_closed q"
    and close_law: "invar q \<Longrightarrow> invar (q_Close ops q) \<and> jobs (q_Close ops q) = jobs q \<and>
      capacity (q_Close ops q) = capacity q \<and> is_closed (q_Close ops q)"
begin

lemma pop_nonempty: "jobs q \<noteq> {#} \<Longrightarrow> \<exists>j q'. q_Pop ops d q = (PopJob j, q')"
proof -
  assume ne: "jobs q \<noteq> {#}"
  obtain r q' where r: "q_Pop ops d q = (r, q')" by fastforce
  with ne pop_err pop_wait show ?thesis by (cases r) auto
qed

lemma push_bound:
  assumes "invar q" "q_Push ops j q = Inr q'" "0 < capacity q" "int (size (jobs q)) \<le> capacity q"
  shows "int (size (jobs q')) \<le> capacity q'"
proof -
  have "q_Push ops j q \<noteq> Inl ErrQueueFull" "q_Push ops j q \<noteq> Inl ErrQueueClosed" using assms(2) by auto
  then have "\<not> capacity q \<le> int (size (jobs q))" using assms(3) push_err by blast
  then show ?thesis using push_ok [OF assms(1,2)] by simp
qed

subsection \<open>No lost wake-ups\<close>

text \<open>
  Invariant of the interleaving: while somebody sleeps, the queue is open and there are at least as
  many awake poppers as queued jobs.
\<close>

definition wake_inv :: "'q queue_sys \<Rightarrow> bool" where
  "wake_inv s \<longleftrightarrow> invar (qs_queue s) \<and> finite (qs_running s) \<and> finite (qs_waiting s) \<and>
     qs_running s \<inter> qs_waiting s = {} \<and>
     (qs_waiting s \<noteq> {} \<longrightarrow>
        \<not> is_closed (qs_queue s) \<and> size (jobs (qs_queue s)) \<le> card (qs_running s))"

lemma wake_inv_pop:
  assumes "wake_inv s" "i \<in> qs_running s" "q_Pop ops d (qs_queue s) = (r, q')" "r \<noteq> PopWait"
  shows "wake_inv (s\<lparr>qs_queue := q', qs_running := qs_running s - {i}\<rparr>)"
proof (cases r)
  case (PopJob j)
  then show ?thesis using assms pop_job [of "qs_queue s" d j q']
    by (auto simp: wake_inv_def card_Diff_singleton)
next
  case (PopErr e)
  then show ?thesis using assms pop_err [of d "qs_queue s" e q'] by (auto simp: wake_inv_def)
next
  case PopWait
  then show ?thesis using assms by simp
qed

lemma wake_inv_step: "queue_step ops s ev t \<Longrightarrow> wake_inv s \<Longrightarrow> wake_inv t"
proof (induction rule: queue_step.induct)
  case (call i s)
  then show ?case by (auto simp: wake_inv_def card_insert_if)
next
  case (pop_return i s r q')
  then show ?case by (blast intro: wake_inv_pop)
next
  case (pop_sleep i s q')
  then show ?case using pop_wait [OF pop_sleep(2)] by (auto simp: wake_inv_def)
next
  case (push_signal j s q' i)
  then show ?case using push_ok [of "qs_queue s" j q'] by (auto simp: wake_inv_def card_insert_if)
next
  case (push_quiet j s q')
  then show ?case using push_ok [of "qs_queue s" j q'] by (auto simp: wake_inv_def)
next
  case (clear s)
  then show ?case using clear_law [of "qs_queue s"] by (auto simp: wake_inv_def)
next
  case (close s)
  then show ?case using close_law [of "qs_queue s"] by (auto simp: wake_inv_def)
qed (auto simp: wake_inv_def)

lemma wake_inv_run: "queue_run ops s evs t \<Longrightarrow> wake_inv s \<Longrightarrow> wake_inv t"
  by (induction rule: queue_run.induct) (blast intro: wake_inv_step)+

lemma no_lost_wakeup:
  assumes "invar q" "queue_run ops (queue_sys_init q) evs t"
    and "jobs (qs_queue t) \<noteq> {#} \<or> is_closed (qs_queue t)" "qs_waiting t \<noteq> {}"
  shows "qs_running t \<noteq> {}"
proof -
  have "wake_inv (queue_sys_init q)" using assms(1) by (simp add: wake_inv_def queue_sys_init_def)
  then have "wake_inv t" using assms(2) wake_inv_run by blast
  then show ?thesis using assms(3,4) by (auto simp: wake_inv_def nonempty_has_size [symmetric])
qed

subsection \<open>The size bound holds along every run\<close>

lemma bound_step:
  assumes "queue_step ops s ev t" "invar (qs_queue s)" "0 < capacity (qs_queue s)"
    "int (size (jobs (qs_queue s))) \<le> capacity (qs_queue s)"
  shows "invar (qs_queue t) \<and> capacity (qs_queue t) = capacity (qs_queue s) \<and>
    int (size (jobs (qs_queue t))) \<le> capacity (qs_queue t)"
  using assms
proof (cases rule: queue_step.cases)
  case (pop_return i r q')
  show ?thesis
  proof (cases r)
    case (PopJob j)
    then show ?thesis using assms(2-4) pop_return pop_job [of "qs_queue s" _ j q'] by auto
  next
    case (PopErr e)
    then show ?thesis using assms(2-4) pop_return
        pop_err [of "i \<in> qs_cancelled s" "qs_queue s" e q'] by auto
  qed (use pop_return in simp)
next
  case (pop_sleep i q')
  then show ?thesis using assms(2-4) pop_wait [OF pop_sleep(4)] by simp
next
  case (push_signal j q' i)
  then show ?thesis using assms(2-4) push_ok [of "qs_queue s" j q'] push_bound [of "qs_queue s" j q'] by simp
next
  case (push_quiet j q')
  then show ?thesis using assms(2-4) push_ok [of "qs_queue s" j q'] push_bound [of "qs_queue s" j q'] by simp
next
  case clear
  then show ?thesis using assms(2-4) clear_law [of "qs_queue s"] by simp
next
  case close
  then show ?thesis using assms(2-4) close_law [of "qs_queue s"] by simp
qed simp_all

lemma bound_run:
  "queue_run ops s evs t \<Longrightarrow> invar (qs_queue s) \<Longrightarrow> 0 < capacity (qs_queue s) \<Longrightarrow>
     int (size (jobs (qs_queue s))) \<le> capacity (qs_queue s) \<Longrightarrow>
     invar (qs_queue t) \<and> capacity (qs_queue t) = capacity (qs_queue s) \<and>
     int (size (jobs (qs_queue t))) \<le> capacity (qs_queue t)"
  by (induction rule: queue_run.induct) (use bound_step in fastforce)+

subsection \<open>The scheduler loses and duplicates nothing\<close>

lemma push_ready_spec:
  "push_ready ops now sch q rem = (rem', q') \<Longrightarrow> invar q \<Longrightarrow> distinct (map fst sch) \<Longrightarrow>
     \<exists>added. rem' = rem @ added \<and> set added \<subseteq> fst ` {e \<in> set sch. sj_ScheduledAt (snd e) \<le> now} \<and>
       invar q' \<and> jobs q' = jobs q + scheduled_jobs (filter (\<lambda>e. fst e \<in> set added) sch)"
proof (induction sch arbitrary: q rem)
  case Nil
  then show ?case by (simp add: scheduled_jobs_def)
next
  case (Cons e sch)
  obtain jid sj where e: "e = (jid, sj)" by fastforce
  have fresh: "\<forall>x \<in> set sch. fst x \<noteq> jid" and dist: "distinct (map fst sch)"
    using Cons.prems(3) e by auto
  have ready: "sj_ScheduledAt sj < now \<or> now = sj_ScheduledAt sj \<longleftrightarrow> sj_ScheduledAt sj \<le> now" by auto
  show ?case
  proof (cases "sj_ScheduledAt sj \<le> now \<and> (\<exists>q1. q_Push ops (sj_Job sj) q = Inr q1)")
    case True
    then obtain q1 where q1: "q_Push ops (sj_Job sj) q = Inr q1" and rdy: "sj_ScheduledAt sj \<le> now"
      by blast
    then have run: "push_ready ops now sch q1 (rem @ [jid]) = (rem', q')"
      using Cons.prems(1) e ready by simp
    obtain added where ad: "rem' = (rem @ [jid]) @ added"
      "set added \<subseteq> fst ` {e \<in> set sch. sj_ScheduledAt (snd e) \<le> now}" "invar q'"
      "jobs q' = jobs q1 + scheduled_jobs (filter (\<lambda>e. fst e \<in> set added) sch)"
      using Cons.IH [OF run _ dist] push_ok [OF Cons.prems(2) q1] by blast
    have "filter (\<lambda>x. fst x = jid \<or> fst x \<in> set added) sch = filter (\<lambda>x. fst x \<in> set added) sch"
      using fresh by (intro filter_cong) auto
    then show ?thesis using ad rdy e push_ok [OF Cons.prems(2) q1]
      by (intro exI [of _ "jid # added"]) (auto simp: scheduled_jobs_def intro!: image_eqI [of jid fst "(jid, sj)"])
  next
    case False
    then have run: "push_ready ops now sch q rem = (rem', q')"
      using Cons.prems(1) e ready by (auto split: sum.splits if_splits)
    obtain added where ad: "rem' = rem @ added"
      "set added \<subseteq> fst ` {e \<in> set sch. sj_ScheduledAt (snd e) \<le> now}" "invar q'"
      "jobs q' = jobs q + scheduled_jobs (filter (\<lambda>e. fst e \<in> set added) sch)"
      using Cons.IH [OF run Cons.prems(2) dist] by blast
    moreover have "jid \<notin> set added" using ad(2) fresh by auto
    ultimately show ?thesis using e by (intro exI [of _ added]) auto
  qed
qed

lemma checkScheduledJobs_conserves:
  assumes wf: "scheduler_wf js" and inv: "invar q" and eq: "checkScheduledJobs ops now js q = (js', q')"
  shows "invar q' \<and> scheduler_wf js' \<and>
    jobs q' + scheduled_jobs (js_scheduled js') = jobs q + scheduled_jobs (js_scheduled js) \<and>
    (\<forall>e \<in> set (js_scheduled js). now < sj_ScheduledAt (snd e) \<longrightarrow> e \<in> set (js_scheduled js'))"
proof -
  let ?sch = "js_scheduled js"
  obtain r where r: "push_ready ops now ?sch q [] = (r, q')"
    and js': "js' = js\<lparr>js_scheduled := filter (\<lambda>(k, _). k \<notin> set r) ?sch\<rparr>"
    using eq by (auto simp: checkScheduledJobs_def split: prod.splits)
  have sch': "js_scheduled js' = filter (\<lambda>e. fst e \<notin> set r) ?sch"
    by (simp add: js' case_prod_unfold)
  have rs: "set r \<subseteq> fst ` {e \<in> set ?sch. sj_ScheduledAt (snd e) \<le> now}" "invar q'"
    and jq: "jobs q' = jobs q + scheduled_jobs (filter (\<lambda>e. fst e \<in> set r) ?sch)"
    using push_ready_spec [OF r inv] wf by (auto simp: scheduler_wf_def)
  have part: "scheduled_jobs (filter P xs) + scheduled_jobs (filter (\<lambda>e. \<not> P e) xs) = scheduled_jobs xs"
    for P and xs :: "(uuid \<times> ScheduledJob) list"
    by (induction xs) (auto simp: scheduled_jobs_def)
  have "jobs q' + scheduled_jobs (js_scheduled js') = jobs q + scheduled_jobs ?sch"
    using jq sch' part [of "\<lambda>e. fst e \<in> set r" ?sch] by (simp add: add.assoc)
  moreover have "e \<in> set (js_scheduled js')" if "e \<in> set ?sch" "now < sj_ScheduledAt (snd e)" for e
  proof -
    have "fst e \<notin> set r"
    proof
      assume "fst e \<in> set r"
      then obtain f where "f \<in> set ?sch" "fst f = fst e" "sj_ScheduledAt (snd f) \<le> now" using rs by auto
      moreover have "f = e" using calculation that(1) wf
        by (auto simp: scheduler_wf_def distinct_map inj_on_def)
      ultimately show False using that(2) by simp
    qed
    then show ?thesis using that(1) sch' by simp
  qed
  moreover have "scheduler_wf js'" using wf sch' by (auto simp: scheduler_wf_def intro: distinct_map_filter)
  ultimately show ?thesis using rs by blast
qed

end

section \<open>Both queues satisfy it\<close>

interpretation job_heap: heap_order jobQueue_Less
  by unfold_locales (auto simp: jobQueue_Less_def split: if_splits)

lemmas PriorityQueue_defs = PriorityQueue_ops_def PriorityQueue_Push_def PriorityQueue_Pop_def
  PriorityQueue_Size_def PriorityQueue_Clear_def PriorityQueue_Close_def

lemmas InMemoryQueue_defs = InMemoryQueue_ops_def InMemoryQueue_Push_def InMemoryQueue_Pop_def
  InMemoryQueue_Size_def InMemoryQueue_Clear_def InMemoryQueue_Close_def

definition pq_invar :: "PriorityQueue \<Rightarrow> bool" where
  "pq_invar pq \<longleftrightarrow> is_heap jobQueue_Less (pq_jobs pq)"

lemma is_heap_Nil [simp]: "is_heap lt []"
  by (simp add: is_heap_def heap_from_def)

interpretation pq: job_queue PriorityQueue_ops "\<lambda>q. mset (pq_jobs q)" pq_closed pq_maxSize pq_invar
proof (unfold_locales, goal_cases)
  case (3 q d j q')
  then show ?case
    by (auto simp: PriorityQueue_defs pq_invar_def heap_Pop_Some job_heap.heap_Pop_is_heap
        split: if_splits option.splits prod.splits dest: heap_Pop_Some)
qed (auto simp: PriorityQueue_defs pq_invar_def job_heap.heap_Push_is_heap
    split: if_splits option.splits)

interpretation mq: job_queue InMemoryQueue_ops "\<lambda>q. mset (mq_jobs q)" mq_closed mq_maxSize "\<lambda>_. True"
  by unfold_locales (auto simp: InMemoryQueue_defs split: if_splits list.splits)

section \<open>Properties\<close>

lemma pq_invar_New [simp]: "pq_invar (NewPriorityQueue ms)"
  by (simp add: pq_invar_def NewPriorityQueue_def job_heap.heap_Init_is_heap)

lemma pq_jobs_New [simp]: "pq_jobs (NewPriorityQueue ms) = []"
  by (simp add: NewPriorityQueue_def heap_Init_def)

text \<open>
  C33: \<open>Pop\<close> of the priority queue returns a job of the highest priority and, among those, one that
  was created first; it removes exactly that job and leaves a queue in heap order.
\<close>

theorem PriorityQueue_Pop_highest:
  assumes "pq_invar q" and "PriorityQueue_Pop ctxDone q = (PopJob j, q')"
  shows "(\<forall>k \<in> set (pq_jobs q). job_Priority k < job_Priority j \<or>
            job_Priority k = job_Priority j \<and> job_CreatedAt j \<le> job_CreatedAt k) \<and>
         mset (pq_jobs q) = add_mset j (mset (pq_jobs q')) \<and> pq_invar q'"
proof -
  have pop: "heap_Pop jobQueue_Less (pq_jobs q) = Some (j, pq_jobs q')"
    using assms(2) by (auto simp: PriorityQueue_Pop_def split: if_splits option.splits)
  have "\<not> jobQueue_Less k j" if "k \<in> set (pq_jobs q)" for k
    using job_heap.heap_Pop_least [OF _ pop that] assms(1) by (simp add: pq_invar_def)
  then have "\<forall>k \<in> set (pq_jobs q). job_Priority k < job_Priority j \<or>
      job_Priority k = job_Priority j \<and> job_CreatedAt j \<le> job_CreatedAt k"
    by (force simp: jobQueue_Less_def split: if_splits)
  then show ?thesis using pq.pop_job [of q ctxDone j q'] assms by (simp add: PriorityQueue_ops_def)
qed

definition sample_job :: "uuid \<Rightarrow> int \<Rightarrow> instant \<Rightarrow> ValidationJob" where
  "sample_job i prio created = CreateValidationJob i created 7 ''example.com'' ValidationTypeMXRecord prio"

definition sample_queue :: PriorityQueue where
  "sample_queue = PriorityQueue_Enqueue (sample_job 3 100 3) (PriorityQueue_Enqueue (sample_job 2 100 2)
     (PriorityQueue_Enqueue (sample_job 1 50 1) (NewPriorityQueue None)))"

lemma sample_queue_jobs:
  "pq_jobs sample_queue = [sample_job 2 100 2, sample_job 1 50 1, sample_job 3 100 3]"
  by code_simp

theorem PriorityQueue_Pop_highest_witness:
  "pq_invar sample_queue \<and> fst (PriorityQueue_Pop False sample_queue) = PopJob (sample_job 2 100 2) \<and>
   mset (pq_jobs sample_queue) =
     add_mset (sample_job 2 100 2) (mset (pq_jobs (snd (PriorityQueue_Pop False sample_queue))))"
proof -
  have inv: "pq_invar sample_queue"
    unfolding pq_invar_def is_heap_def heap_from_def sample_queue_jobs
    by (auto simp: parent_def jobQueue_Less_def sample_job_def CreateValidationJob_def less_Suc_eq
        numeral_3_eq_3 nth_Cons')
  have pop: "fst (PriorityQueue_Pop False sample_queue) = PopJob (sample_job 2 100 2)"
    by code_simp
  then obtain q' where q': "PriorityQueue_Pop False sample_queue = (PopJob (sample_job 2 100 2), q')"
    by (metis prod.collapse)
  show ?thesis using inv pop q' PriorityQueue_Pop_highest [OF inv q'] by simp
qed

text \<open>
  C34: no wake-up is lost. However goroutines interleave \<open>Push\<close>, \<open>Pop\<close>, \<open>Clear\<close>, \<open>Close\<close> and context
  cancellations on a priority queue, whenever a goroutine sleeps in \<open>Pop\<close> although a job is queued or
  the queue is closed, another goroutine is awake in \<open>Pop\<close>.
\<close>

theorem PriorityQueue_no_lost_wakeup:
  assumes "queue_run PriorityQueue_ops (queue_sys_init (NewPriorityQueue ms)) evs t"
    and "pq_jobs (qs_queue t) \<noteq> [] \<or> pq_closed (qs_queue t)" "qs_waiting t \<noteq> {}"
  shows "qs_running t \<noteq> {}"
  using pq.no_lost_wakeup [OF pq_invar_New assms(1)] assms(2,3) by simp

text \<open>The rules with their target state as an equation, to build concrete runs.\<close>

lemma queue_step_callI:
  "i \<notin> qs_running s \<union> qs_waiting s \<Longrightarrow> t = s\<lparr>qs_running := insert i (qs_running s)\<rparr> \<Longrightarrow>
     queue_step ops s (EvCall i) t"
  by (simp add: queue_step.call)

lemma queue_step_sleepI:
  "i \<in> qs_running s \<Longrightarrow> q_Pop ops (i \<in> qs_cancelled s) (qs_queue s) = (PopWait, q') \<Longrightarrow>
     t = s\<lparr>qs_queue := q', qs_running := qs_running s - {i}, qs_waiting := insert i (qs_waiting s)\<rparr> \<Longrightarrow>
     queue_step ops s (EvPop i) t"
  by (simp add: queue_step.pop_sleep)

lemma queue_step_signalI:
  "q_Push ops j (qs_queue s) = Inr q' \<Longrightarrow> i \<in> qs_waiting s \<Longrightarrow>
     t = s\<lparr>qs_queue := q', qs_running := insert i (qs_running s), qs_waiting := qs_waiting s - {i}\<rparr> \<Longrightarrow>
     queue_step ops s (EvPush j) t"
  by (simp add: queue_step.push_signal)

lemma queue_run_Cons: "queue_step ops s ev t \<Longrightarrow> queue_run ops t evs u \<Longrightarrow> queue_run ops s (ev # evs) u"
proof (rotate_tac 1, induction rule: queue_run.induct)
  case (run_nil s')
  then show ?case using run_snoc [OF queue_run.run_nil run_nil(1)] by simp
next
  case (run_snoc t evs t' ev' u)
  then show ?case using queue_run.run_snoc [of ops s "ev # evs" t' ev' u] by simp
qed

lemma sample_run:
  "queue_run PriorityQueue_ops (queue_sys_init (NewPriorityQueue None))
     [EvCall 1, EvPop 1, EvCall 2, EvPop 2, EvPush (sample_job 1 50 1)]
     \<lparr>qs_queue = \<lparr>pq_jobs = [sample_job 1 50 1], pq_closed = False, pq_maxSize = 0\<rparr>,
      qs_running = {1}, qs_waiting = {2}, qs_cancelled = {}\<rparr>"
proof -
  let ?q = "NewPriorityQueue None"
  have pop: "q_Pop PriorityQueue_ops False ?q = (PopWait, ?q)"
    by (simp add: PriorityQueue_defs) (simp add: NewPriorityQueue_def)
  have push: "q_Push PriorityQueue_ops (sample_job 1 50 1) ?q =
      Inr \<lparr>pq_jobs = [sample_job 1 50 1], pq_closed = False, pq_maxSize = 0\<rparr>"
    by (simp add: PriorityQueue_defs NewPriorityQueue_def heap_Init_def heap_Push_def heap_up.simps)
  show ?thesis
    unfolding queue_sys_init_def
    apply (rule queue_run_Cons, rule queue_step_callI, simp, rule refl)
    apply (rule queue_run_Cons, rule queue_step_sleepI, simp, simp add: pop, rule refl)
    apply (rule queue_run_Cons, rule queue_step_callI, simp, rule refl)
    apply (rule queue_run_Cons, rule queue_step_sleepI, simp, simp add: pop, rule refl)
    apply (rule queue_run_Cons, rule queue_step_signalI [where i = 1], simp add: push, simp, rule refl)
    apply auto
    done
qed

theorem PriorityQueue_no_lost_wakeup_witness:
  "\<exists>evs t. queue_run PriorityQueue_ops (queue_sys_init (NewPriorityQueue None)) evs t \<and>
     pq_jobs (qs_queue t) \<noteq> [] \<and> qs_waiting t \<noteq> {} \<and> qs_running t \<noteq> {}"
proof -
  have "pq_jobs (qs_queue t) \<noteq> [] \<Longrightarrow> qs_waiting t \<noteq> {} \<Longrightarrow> qs_running t \<noteq> {}"
    if "queue_run PriorityQueue_ops (queue_sys_init (NewPriorityQueue None)) evs t" for evs t
    using PriorityQueue_no_lost_wakeup [OF that] by blast
  from this [OF sample_run] show ?thesis using sample_run by fastforce
qed

text \<open>
  cancelling a context never wakes a sleeper. A goroutine asleep in \<open>Pop\<close> stays asleep through any
  sequence of steps without a \<open>Push\<close> or a \<open>Close\<close>, whether or not its own context is cancelled, so on
  an idle queue \<open>Pop\<close> does not return when its deadline passes.
\<close>

theorem queue_cancel_never_wakes:
  assumes "queue_run ops s evs t" and "i \<in> qs_waiting s"
    and "\<forall>ev \<in> set evs. ev \<noteq> EvClose \<and> (\<forall>j. ev \<noteq> EvPush j)"
  shows "i \<in> qs_waiting t"
  using assms
proof (induction rule: queue_run.induct)
  case (run_nil s)
  then show ?case by simp
next
  case (run_snoc s evs t ev u)
  then have "i \<in> qs_waiting t" "ev \<noteq> EvClose" "\<forall>j. ev \<noteq> EvPush j" by auto
  with run_snoc.hyps(2) show ?case by (cases rule: queue_step.cases) auto
qed

definition asleep_cancelled :: "PriorityQueue queue_sys" where
  "asleep_cancelled = \<lparr>qs_queue = NewPriorityQueue None, qs_running = {}, qs_waiting = {1},
     qs_cancelled = {1}\<rparr>"

theorem queue_cancel_never_wakes_witness:
  "queue_run PriorityQueue_ops (asleep_cancelled\<lparr>qs_cancelled := {}\<rparr>) [EvCancel 1] asleep_cancelled \<and>
   1 \<in> qs_waiting asleep_cancelled"
proof -
  let ?s = "asleep_cancelled\<lparr>qs_cancelled := {}\<rparr>"
  have "?s\<lparr>qs_cancelled := insert 1 (qs_cancelled ?s)\<rparr> = asleep_cancelled"
    by (simp add: asleep_cancelled_def)
  then have "queue_step PriorityQueue_ops ?s (EvCancel 1) asleep_cancelled"
    using queue_step.cancel [of PriorityQueue_ops ?s 1] by simp
  then have run: "queue_run PriorityQueue_ops ?s [EvCancel 1] asleep_cancelled"
    by (rule queue_run_Cons) simp
  show ?thesis
    using run queue_cancel_never_wakes [OF run, of 1] by (simp add: asleep_cancelled_def)
qed

text \<open>
  a bounded priority queue never holds more jobs than its \<open>maxSize\<close>, in any interleaving.
\<close>

theorem PriorityQueue_bounded:
  assumes "queue_run PriorityQueue_ops (queue_sys_init (NewPriorityQueue (Some ms))) evs t" and "0 < ms"
  shows "int (length (pq_jobs (qs_queue t))) \<le> ms \<and> pq_invar (qs_queue t)"
  using pq.bound_run [OF assms(1)] assms(2)
  by (simp add: queue_sys_init_def) (simp add: NewPriorityQueue_def)

theorem PriorityQueue_bounded_witness:
  "queue_run PriorityQueue_ops (queue_sys_init (NewPriorityQueue (Some 1))) []
     (queue_sys_init (NewPriorityQueue (Some 1))) \<and>
   int (length (pq_jobs (qs_queue (queue_sys_init (NewPriorityQueue (Some 1)))))) \<le> 1"
  using PriorityQueue_bounded [of 1 "[]" "queue_sys_init (NewPriorityQueue (Some 1))"] by simp

text \<open>
  C35: a tick of the scheduler over a priority queue conserves jobs: every scheduled job is afterwards
  either still scheduled or in the queue, none is duplicated, and a job that is not due stays scheduled,
  also when the queue is full or closed.
\<close>

theorem scheduler_conserves_jobs:
  assumes "scheduler_wf js" and "pq_invar q"
    and "checkScheduledJobs PriorityQueue_ops now js q = (js', q')"
  shows "mset (pq_jobs q') + scheduled_jobs (js_scheduled js') =
      mset (pq_jobs q) + scheduled_jobs (js_scheduled js) \<and>
    (\<forall>e \<in> set (js_scheduled js). now < sj_ScheduledAt (snd e) \<longrightarrow> e \<in> set (js_scheduled js')) \<and>
    scheduler_wf js' \<and> pq_invar q'"
  using pq.checkScheduledJobs_conserves [OF assms] by blast

definition sample_scheduler :: JobScheduler where
  "sample_scheduler = ScheduleJob (sample_job 1 50 1) 10 0 (ScheduleJob (sample_job 2 50 2) 30 0 NewJobScheduler)"

theorem scheduler_conserves_jobs_witness:
  "scheduler_wf sample_scheduler \<and>
   (let (js', q') = checkScheduledJobs PriorityQueue_ops 20 sample_scheduler (NewPriorityQueue None)
    in pq_jobs q' = [sample_job 1 50 1] \<and>
       mset (pq_jobs q') + scheduled_jobs (js_scheduled js') = {#sample_job 1 50 1, sample_job 2 50 2#})"
proof -
  have wf: "scheduler_wf sample_scheduler"
    by (simp add: scheduler_wf_def sample_scheduler_def ScheduleJob_def NewJobScheduler_def
        sample_job_def CreateValidationJob_def)
  obtain js' q' where eq: "checkScheduledJobs PriorityQueue_ops 20 sample_scheduler (NewPriorityQueue None)
      = (js', q')" by fastforce
  have "pq_jobs q' = [sample_job 1 50 1]"
    using eq by (auto simp: checkScheduledJobs_def sample_scheduler_def ScheduleJob_def NewJobScheduler_def
        sample_job_def CreateValidationJob_def PriorityQueue_ops_def PriorityQueue_Push_def
        NewPriorityQueue_def heap_Init_def heap_Push_def heap_up.simps)
  moreover have "scheduled_jobs (js_scheduled sample_scheduler) = {#sample_job 1 50 1, sample_job 2 50 2#}"
    by (simp add: scheduled_jobs_def sample_scheduler_def ScheduleJob_def NewJobScheduler_def
        sample_job_def CreateValidationJob_def)
  ultimately show ?thesis
    using wf eq scheduler_conserves_jobs [OF wf pq_invar_New eq] by simp
qed

end
