(* ===== verification/GoStrings.thy ===== *)
theory GoStrings
  imports Prelude "HOL-Library.Sublist"
begin

text \<open>
  The part of Go's \<open>strings\<close> package the repository uses. A Go string is a sequence of bytes, here a
  list of \<open>char\<close>. \<open>ToLower\<close>, \<open>TrimSpace\<close> and \<open>Fields\<close> are modelled on ASCII: bytes from 128 up are
  left as they are, where Go would decode UTF-8 and consult the Unicode tables. Addresses and
  domain names reach these functions as ASCII (the server does not offer SMTPUTF8).
  A search that returns the index -1 in Go returns \<open>None\<close> here.
\<close>

section \<open>Definitions\<close>

abbreviation code :: "char \<Rightarrow> nat" where
  "code c \<equiv> of_char c"

definition is_space :: "char \<Rightarrow> bool" where
  "is_space c \<longleftrightarrow> 9 \<le> code c \<and> code c \<le> 13 \<or> code c = 32"

definition is_upper :: "char \<Rightarrow> bool" where
  "is_upper c \<longleftrightarrow> 65 \<le> code c \<and> code c \<le> 90"

definition is_lower :: "char \<Rightarrow> bool" where
  "is_lower c \<longleftrightarrow> 97 \<le> code c \<and> code c \<le> 122"

definition is_digit :: "char \<Rightarrow> bool" where
  "is_digit c \<longleftrightarrow> 48 \<le> code c \<and> code c \<le> 57"

definition is_alnum :: "char \<Rightarrow> bool" where
  "is_alnum c \<longleftrightarrow> is_upper c \<or> is_lower c \<or> is_digit c"

definition to_lower :: "char \<Rightarrow> char" where
  "to_lower c = (if is_upper c then char_of (code c + 32) else c)"

definition ToLower :: "string \<Rightarrow> string" where
  "ToLower s = map to_lower s"

definition trim_left :: "(char \<Rightarrow> bool) \<Rightarrow> string \<Rightarrow> string" where
  "trim_left P s = dropWhile P s"

definition trim_right :: "(char \<Rightarrow> bool) \<Rightarrow> string \<Rightarrow> string" where
  "trim_right P s = rev (dropWhile P (rev s))"

definition TrimSpace :: "string \<Rightarrow> string" where
  "TrimSpace s = trim_right is_space (trim_left is_space s)"

definition TrimLeft :: "string \<Rightarrow> string \<Rightarrow> string" where
  "TrimLeft s cutset = trim_left (\<lambda>c. c \<in> set cutset) s"

definition TrimRight :: "string \<Rightarrow> string \<Rightarrow> string" where
  "TrimRight s cutset = trim_right (\<lambda>c. c \<in> set cutset) s"

definition Trim :: "string \<Rightarrow> string \<Rightarrow> string" where
  "Trim s cutset = TrimRight (TrimLeft s cutset) cutset"

definition HasPrefix :: "string \<Rightarrow> string \<Rightarrow> bool" where
  "HasPrefix s p \<longleftrightarrow> take (length p) s = p"

definition HasSuffix :: "string \<Rightarrow> string \<Rightarrow> bool" where
  "HasSuffix s p \<longleftrightarrow> HasPrefix (rev s) (rev p)"

definition TrimPrefix :: "string \<Rightarrow> string \<Rightarrow> string" where
  "TrimPrefix s p = (if HasPrefix s p then drop (length p) s else s)"

text \<open>\<open>Index\<close> and \<open>LastIndex\<close> of a one-byte needle, and \<open>Contains\<close> of any needle.\<close>

fun IndexByte :: "string \<Rightarrow> char \<Rightarrow> nat option" where
  "IndexByte [] c = None"
| "IndexByte (x # xs) c = (if x = c then Some 0 else map_option Suc (IndexByte xs c))"

fun LastIndexByte :: "string \<Rightarrow> char \<Rightarrow> nat option" where
  "LastIndexByte [] c = None"
| "LastIndexByte (x # xs) c =
     (case LastIndexByte xs c of Some i \<Rightarrow> Some (Suc i) | None \<Rightarrow> if x = c then Some 0 else None)"

fun Contains :: "string \<Rightarrow> string \<Rightarrow> bool" where
  "Contains [] p = (p = [])"
| "Contains (x # xs) p = (HasPrefix (x # xs) p \<or> Contains xs p)"

text \<open>\<open>Split\<close> at a one-byte separator: always at least one part.\<close>

fun Split :: "char \<Rightarrow> string \<Rightarrow> string list" where
  "Split c [] = [[]]"
| "Split c (x # xs) =
     (if x = c then [] # Split c xs
      else case Split c xs of [] \<Rightarrow> [[x]] | part # rest \<Rightarrow> (x # part) # rest)"

fun Join :: "string list \<Rightarrow> string \<Rightarrow> string" where
  "Join [] sep = []"
| "Join [s] sep = s"
| "Join (s # t # rest) sep = s @ sep @ Join (t # rest) sep"

text \<open>\<open>Fields\<close>: the maximal runs of non-space bytes.\<close>

definition Fields :: "string \<Rightarrow> string list" where
  "Fields s = filter (\<lambda>w. w \<noteq> []) (Split CHR '' '' (map (\<lambda>c. if is_space c then CHR '' '' else c) s))"

text \<open>\<open>ReplaceAll\<close> of a non-empty needle, left to right without overlap.\<close>

function ReplaceAll :: "string \<Rightarrow> string \<Rightarrow> string \<Rightarrow> string" where
  "ReplaceAll [] old new = []"
| "ReplaceAll (x # xs) old new =
     (if old \<noteq> [] \<and> HasPrefix (x # xs) old then new @ ReplaceAll (drop (length old) (x # xs)) old new
      else x # ReplaceAll xs old new)"
  by pat_completeness auto
termination
  by (relation "measure (\<lambda>(s, old, new). length s)") (auto simp: HasPrefix_def)

text \<open>The decimal form of a natural number, as \<open>%d\<close> prints it.\<close>

fun Itoa :: "nat \<Rightarrow> string" where
  "Itoa n = (if n < 10 then [char_of (48 + n)] else Itoa (n div 10) @ [char_of (48 + n mod 10)])"

declare Itoa.simps [simp del]

section \<open>Lemmas\<close>

lemma to_lower_not_upper [go_string, simp]: "\<not> is_upper (to_lower c)"
  by (auto simp: to_lower_def is_upper_def)

lemma to_lower_idem [go_string, simp]: "to_lower (to_lower c) = to_lower c"
  by (subst to_lower_def) simp

lemma to_lower_id [go_string]: "\<not> is_upper c \<Longrightarrow> to_lower c = c"
  by (simp add: to_lower_def)

lemma ToLower_idem [go_string, simp]: "ToLower (ToLower s) = ToLower s"
  by (simp add: ToLower_def)

lemma ToLower_Nil_iff [simp]: "ToLower s = [] \<longleftrightarrow> s = []"
  by (simp add: ToLower_def)

lemma length_ToLower [simp]: "length (ToLower s) = length s"
  by (simp add: ToLower_def)

lemma ToLower_id: "\<forall>c \<in> set s. \<not> is_upper c \<Longrightarrow> ToLower s = s"
  by (simp add: ToLower_def to_lower_id map_idI)

lemma ToLower_not_upper: "c \<in> set (ToLower s) \<Longrightarrow> \<not> is_upper c"
  by (auto simp: ToLower_def)

lemma trim_left_id: "s = [] \<or> \<not> P (hd s) \<Longrightarrow> trim_left P s = s"
  by (cases s) (auto simp: trim_left_def)

lemma trim_right_id: "s = [] \<or> \<not> P (last s) \<Longrightarrow> trim_right P s = s"
  by (cases s rule: rev_cases) (auto simp: trim_right_def)

lemma set_trim_left: "set (trim_left P s) \<subseteq> set s"
  by (auto simp: trim_left_def dest: set_dropWhileD)

lemma set_trim_right: "set (trim_right P s) \<subseteq> set s"
  by (auto simp: trim_right_def dest: set_dropWhileD)

lemma hd_trim_left: "trim_left P s \<noteq> [] \<Longrightarrow> \<not> P (hd (trim_left P s))"
  by (simp add: trim_left_def hd_dropWhile)

lemma last_trim_right: "trim_right P s \<noteq> [] \<Longrightarrow> \<not> P (last (trim_right P s))"
  by (simp add: trim_right_def last_rev hd_dropWhile)

lemma trim_right_prefix: "\<exists>ys. s = trim_right P s @ ys \<and> (\<forall>c \<in> set ys. P c)"
  by (intro exI [of _ "rev (takeWhile P (rev s))"])
    (auto simp: trim_right_def rev_append [symmetric] dest: set_takeWhileD)

lemma hd_trim_right: "trim_right P s \<noteq> [] \<Longrightarrow> hd (trim_right P s) = hd s"
  using trim_right_prefix [of s P] by (metis hd_append2)

lemma TrimSpace_ends:
  "TrimSpace s \<noteq> [] \<Longrightarrow> \<not> is_space (hd (TrimSpace s)) \<and> \<not> is_space (last (TrimSpace s))"
proof -
  assume ne: "TrimSpace s \<noteq> []"
  then have "trim_left is_space s \<noteq> []" by (auto simp: TrimSpace_def trim_right_def)
  then show ?thesis using ne
    by (simp add: TrimSpace_def hd_trim_right hd_trim_left last_trim_right)
qed

lemma TrimSpace_id: "s = [] \<or> \<not> is_space (hd s) \<and> \<not> is_space (last s) \<Longrightarrow> TrimSpace s = s"
  by (auto simp: TrimSpace_def trim_left_id trim_right_id)

lemma TrimSpace_idem [go_string, simp]: "TrimSpace (TrimSpace s) = TrimSpace s"
  using TrimSpace_ends [of s] TrimSpace_id [of "TrimSpace s"] by blast

lemma set_TrimSpace: "set (TrimSpace s) \<subseteq> set s"
  using set_trim_left set_trim_right by (fastforce simp: TrimSpace_def)

lemma Trim_id: "s = [] \<or> hd s \<notin> set cs \<and> last s \<notin> set cs \<Longrightarrow> Trim s cs = s"
  by (auto simp: Trim_def TrimLeft_def TrimRight_def trim_left_id trim_right_id)

lemma set_Trim: "set (Trim s cs) \<subseteq> set s"
  using set_trim_left set_trim_right by (fastforce simp: Trim_def TrimLeft_def TrimRight_def)

lemma HasPrefix_iff_prefix: "HasPrefix s p \<longleftrightarrow> prefix p s"
  by (metis HasPrefix_def append_eq_conv_conj prefix_def take_is_prefix)

lemma HasPrefix_single [simp]: "HasPrefix s [c] \<longleftrightarrow> s \<noteq> [] \<and> hd s = c"
  by (cases s) (auto simp: HasPrefix_def)

lemma HasSuffix_single [simp]: "HasSuffix s [c] \<longleftrightarrow> s \<noteq> [] \<and> last s = c"
  by (simp add: HasSuffix_def hd_rev)

lemma Contains_single [simp]: "Contains s [c] \<longleftrightarrow> c \<in> set s"
  by (induction s) auto

lemma IndexByte_None [simp]: "IndexByte s c = None \<longleftrightarrow> c \<notin> set s"
  by (induction s) auto

lemma IndexByte_Some: "IndexByte s c = Some i \<Longrightarrow> i < length s \<and> s ! i = c \<and> c \<notin> set (take i s)"
  by (induction s arbitrary: i) (auto split: if_splits)

lemma LastIndexByte_None [simp]: "LastIndexByte s c = None \<longleftrightarrow> c \<notin> set s"
  by (induction s) (auto split: option.splits)

lemma LastIndexByte_Some:
  "LastIndexByte s c = Some i \<Longrightarrow> i < length s \<and> s ! i = c \<and> c \<notin> set (drop (Suc i) s)"
  by (induction s arbitrary: i) (auto split: if_splits option.splits)

lemma Split_not_Nil [simp]: "Split c s \<noteq> []"
  by (induction s) (auto split: list.splits)

lemma Split_no_sep: "p \<in> set (Split c s) \<Longrightarrow> c \<notin> set p"
  by (induction s arbitrary: p) (auto split: if_splits list.splits)

lemma Split_append: "c \<notin> set a \<Longrightarrow> Split c (a @ c # b) = a # Split c b"
  by (induction a) auto

lemma Split_single: "c \<notin> set a \<Longrightarrow> Split c a = [a]"
  by (induction a) auto

lemma Split_concat: "Join (Split c s) [c] = s"
proof (induction s)
  case (Cons x xs)
  then show ?case by (cases "Split c xs" rule: remdups_adj.cases) auto
qed simp

lemma Split_Join_two: "Split c s = [a, b] \<Longrightarrow> s = a @ c # b"
  using Split_concat [of c s] by simp

lemma Split_subset: "p \<in> set (Split c s) \<Longrightarrow> set p \<subseteq> set s"
proof (induction s arbitrary: p)
  case (Cons x xs)
  then show ?case by (cases "Split c xs") (fastforce split: if_splits)+
qed simp

lemma IndexByte_absent: "c \<notin> set s \<Longrightarrow> IndexByte s c = None"
  by simp

lemma digit_not_space: "is_digit c \<Longrightarrow> \<not> is_space c"
  by (simp add: is_digit_def is_space_def)

lemma not_space_consts [simp]:
  "\<not> is_space CHR ''.''" "\<not> is_space CHR '':''" "\<not> is_space CHR ''/''" "\<not> is_space CHR ''+''" "\<not> is_space CHR ''-''"
  "\<not> is_space CHR ''~''" "\<not> is_space CHR ''?''"
  by (simp_all add: is_space_def)

lemma Split_Join:
  "ws \<noteq> [] \<Longrightarrow> (\<And>w. w \<in> set ws \<Longrightarrow> c \<notin> set w) \<Longrightarrow> Split c (Join ws [c]) = ws"
  by (induction ws "[c]" rule: Join.induct) (auto simp: Split_single Split_append)

text \<open>\<open>Fields\<close> inverts joining non-empty words with single spaces.\<close>

lemma Fields_Join:
  assumes "ws \<noteq> []" and "\<And>w. w \<in> set ws \<Longrightarrow> w \<noteq> [] \<and> (\<forall>c \<in> set w. \<not> is_space c)"
  shows "Fields (Join ws '' '') = ws"
proof -
  have sp: "is_space CHR '' ''" by (simp add: is_space_def)
  have "\<forall>w \<in> set ws. map (\<lambda>c. if is_space c then CHR '' '' else c) w = w"
    using assms(2) by (auto intro: map_idI)
  then have "map (\<lambda>c. if is_space c then CHR '' '' else c) (Join ws '' '') = Join ws '' ''"
    by (induction ws "'' ''" rule: Join.induct) simp_all
  moreover have "Split CHR '' '' (Join ws '' '') = ws"
    using assms sp by (intro Split_Join) fastforce+
  ultimately show ?thesis using assms(2) by (simp add: Fields_def)
qed

lemma Split_ToLower: "Split CHR ''.'' (ToLower s) = map ToLower (Split CHR ''.'' s)"
proof (induction s)
  case (Cons x xs)
  have "to_lower x = CHR ''.'' \<longleftrightarrow> x = CHR ''.''"
  proof
    assume "to_lower x = CHR ''.''"
    then have "code (to_lower x) = 46" by simp
    then have "\<not> is_upper x" by (auto simp: to_lower_def is_upper_def split: if_splits)
    then show "x = CHR ''.''" using \<open>to_lower x = CHR ''.''\<close> by (simp add: to_lower_def)
  qed (simp add: to_lower_def is_upper_def)
  then show ?case using Cons by (auto simp: ToLower_def split: list.splits)
qed (simp add: ToLower_def)

lemma is_alnum_to_lower [simp]: "is_alnum (to_lower c) = is_alnum c"
  by (auto simp: is_alnum_def is_upper_def is_lower_def is_digit_def to_lower_def)

section \<open>Decimal numbers\<close>

text \<open>\<open>strconv.FormatInt\<close> and \<open>ParseInt\<close> in base 10 with 64 bits.\<close>

definition FormatInt :: "int \<Rightarrow> string" where
  "FormatInt z = (if z < 0 then CHR ''-'' # Itoa (nat (- z)) else Itoa (nat z))"

definition decimal_value :: "string \<Rightarrow> nat" where
  "decimal_value ds = foldl (\<lambda>n c. 10 * n + (code c - 48)) 0 ds"

definition parse_decimal :: "string \<Rightarrow> nat option" where
  "parse_decimal ds = (if ds = [] \<or> \<not> list_all is_digit ds then None else Some (decimal_value ds))"

definition ParseInt :: "string \<Rightarrow> int option" where
  "ParseInt s =
     (let (neg, ds) = (case s of c # rest \<Rightarrow> if c = CHR ''-'' then (True, rest) else if c = CHR ''+'' then (False, rest) else (False, s) | [] \<Rightarrow> (False, []))
      in case parse_decimal ds of
           None \<Rightarrow> None
         | Some n \<Rightarrow> (let z = (if neg then - int n else int n) in if in_int64 z then Some z else None))"

lemma Itoa_digits: "c \<in> set (Itoa n) \<Longrightarrow> is_digit c"
proof (induction n rule: Itoa.induct)
  case (1 n)
  have "is_digit (char_of (48 + k))" if "k < 10" for k :: nat using that by (simp add: is_digit_def)
  moreover have "n mod 10 < 10" by simp
  ultimately show ?case using 1 by (cases "n < 10") (auto simp: Itoa.simps [of n] simp del: of_char_eq_iff)
qed

lemma Itoa_nonempty: "Itoa n \<noteq> []"
  by (simp add: Itoa.simps [of n])

lemma decimal_value_append: "decimal_value (ds @ [c]) = 10 * decimal_value ds + (code c - 48)"
  by (simp add: decimal_value_def)

lemma decimal_value_Itoa [simp]: "decimal_value (Itoa n) = n"
proof (induction n rule: Itoa.induct)
  case (1 n)
  have d: "code (char_of (48 + k)) - 48 = k" if "k < 10" for k :: nat using that by simp
  show ?case
  proof (cases "n < 10")
    case True
    then show ?thesis using d [of n] by (simp add: Itoa.simps [of n] decimal_value_def)
  next
    case False
    then show ?thesis using 1 d [of "n mod 10"] by (simp add: Itoa.simps [of n] decimal_value_append)
  qed
qed

lemma parse_decimal_Itoa [simp]: "parse_decimal (Itoa n) = Some n"
  using Itoa_digits by (auto simp: parse_decimal_def list_all_iff Itoa_nonempty)

lemma ParseInt_FormatInt: "in_int64 z \<Longrightarrow> ParseInt (FormatInt z) = Some z"
proof -
  assume z: "in_int64 z"
  obtain c ds where i: "Itoa (nat z) = c # ds" using Itoa_nonempty by (cases "Itoa (nat z)") auto
  then have "is_digit c" using Itoa_digits [of c "nat z"] by simp
  then have "c \<noteq> CHR ''-''" "c \<noteq> CHR ''+''" by (auto simp: is_digit_def)
  then show ?thesis using z i parse_decimal_Itoa [of "nat z"] by (auto simp: ParseInt_def FormatInt_def)
qed

end
