(* ===== verification/Postgres.thy ===== *)
theory Postgres
  imports Prelude
begin

text \<open>
  What the repositories of \<open>gateways/repository/pg\<close> share: the errors a statement can end with, the
  execution of one statement, and keyed lookup in a table.

  A table is the list of its rows in insertion order. Any statement can fail without effect for a reason
  outside the database (a lost connection, an expired context): the list \<open>pg_faults\<close> says which of the
  coming statements do. Timestamps are stored in microseconds, \<open>INTEGER\<close> columns have 32 bits.
\<close>

datatype db_error =
    DBFault string | UniqueViolation | CheckViolation | NotNullViolation | ValueTooLong | IntegerOutOfRange
  | InvalidEnum | ForeignKeyViolation | NegativeLimit | ErrSentEmailNotFound | ErrNoRows | BadQuery string

record pg_base =
  pg_faults :: "string option list"

definition trunc_us :: "instant \<Rightarrow> instant" where
  "trunc_us t = t - t mod 1000"

definition in_int32 :: "int \<Rightarrow> bool" where
  "in_int32 n \<longleftrightarrow> - (2 ^ 31) \<le> n \<and> n < 2 ^ 31"

text \<open>Execution of one statement, which may fail from outside.\<close>

definition exec ::
    "('s pg_base_scheme \<Rightarrow> (db_error + 'a) \<times> 's pg_base_scheme) \<Rightarrow> 's pg_base_scheme \<Rightarrow> (db_error + 'a) \<times> 's pg_base_scheme" where
  "exec f st =
     (case pg_faults st of
        [] \<Rightarrow> f st
      | None # fs \<Rightarrow> f (st\<lparr>pg_faults := fs\<rparr>)
      | Some e # fs \<Rightarrow> (Inl (DBFault e), st\<lparr>pg_faults := fs\<rparr>))"

definition as_error :: "(db_error + 'a) \<times> 'st \<Rightarrow> db_error option \<times> 'st" where
  "as_error r = (case fst r of Inl e \<Rightarrow> Some e | Inr _ \<Rightarrow> None, snd r)"

text \<open>\<open>QueryRow\<close> scanned into one entity.\<close>

definition one_row_of :: "'a option \<Rightarrow> db_error + 'a" where
  "one_row_of r = (case r of None \<Rightarrow> Inl ErrNoRows | Some x \<Rightarrow> Inr x)"

text \<open>\<open>LIMIT\<close> and \<open>OFFSET\<close>; PostgreSQL refuses negative values.\<close>

definition page :: "int \<Rightarrow> int \<Rightarrow> 'a list \<Rightarrow> db_error + 'a list" where
  "page limit offset xs =
     (if limit < 0 \<or> offset < 0 then Inl NegativeLimit else Inr (take (nat limit) (drop (nat offset) xs)))"

lemma trunc_us_idem [simp]: "trunc_us (trunc_us t) = trunc_us t"
  by (simp add: trunc_us_def)

lemma as_error_simps [simp]:
  "as_error (Inl e, st) = (Some e, st)" "as_error (Inr x, st) = (None, st)"
  by (simp_all add: as_error_def)

text \<open>A statement runs on the same tables, or fails without effect.\<close>

lemma exec_rule:
  assumes "\<And>fs. Q (f (st\<lparr>pg_faults := fs\<rparr>))" and "\<And>e fs. Q (Inl (DBFault e), st\<lparr>pg_faults := fs\<rparr>)"
  shows "Q (exec f st)"
proof (cases "pg_faults st")
  case Nil
  then have "st\<lparr>pg_faults := []\<rparr> = st" by (cases st) simp
  then show ?thesis using assms(1) [of "[]"] Nil by (simp only: exec_def list.case)
next
  case (Cons x fs)
  then show ?thesis using assms by (cases x) (simp_all add: exec_def)
qed

lemma exec_cases:
  assumes "exec f st = (r, st')"
  obtains fs where "f (st\<lparr>pg_faults := fs\<rparr>) = (r, st')" | e fs where "r = Inl (DBFault e)" "st' = st\<lparr>pg_faults := fs\<rparr>"
proof -
  have "(\<exists>fs. exec f st = f (st\<lparr>pg_faults := fs\<rparr>)) \<or> (\<exists>e fs. exec f st = (Inl (DBFault e), st\<lparr>pg_faults := fs\<rparr>))"
    by (rule exec_rule [where Q = "\<lambda>x. (\<exists>fs. x = f (st\<lparr>pg_faults := fs\<rparr>)) \<or> (\<exists>e fs. x = (Inl (DBFault e), st\<lparr>pg_faults := fs\<rparr>))"]) auto
  then show thesis using assms that by auto
qed

lemma exec_no_faults [simp]: "pg_faults st = [] \<Longrightarrow> exec f st = f st"
  by (simp add: exec_def)

text \<open>Lookup by a key column.\<close>

lemma find_key: "distinct (map k rs) \<Longrightarrow> r \<in> set rs \<Longrightarrow> find (\<lambda>x. k x = k r) rs = Some r"
  by (induction rs) auto

lemma find_key_iff: "distinct (map k rs) \<Longrightarrow> find (\<lambda>x. k x = i) rs = Some r \<longleftrightarrow> r \<in> set rs \<and> k r = i"
  using find_key [of k rs r] by (auto simp: find_Some_iff dest: nth_mem)

lemma find_append: "find P (xs @ ys) = (case find P xs of Some r \<Rightarrow> Some r | None \<Rightarrow> find P ys)"
  by (induction xs) auto

lemma find_SomeD: "find P xs = Some x \<Longrightarrow> x \<in> set xs \<and> P x"
  by (auto simp: find_Some_iff)


text \<open>A table as a map from its primary key.\<close>

definition lookup :: "('a \<Rightarrow> 'k) \<Rightarrow> 'a list \<Rightarrow> 'k \<Rightarrow> 'a option" where
  "lookup k rs i = find (\<lambda>r. k r = i) rs"

lemma lookup_Some: "distinct (map k rs) \<Longrightarrow> lookup k rs i = Some r \<longleftrightarrow> r \<in> set rs \<and> k r = i"
  by (simp add: lookup_def find_key_iff)

lemma lookup_SomeD: "lookup k rs i = Some r \<Longrightarrow> r \<in> set rs \<and> k r = i"
  by (auto simp: lookup_def dest: find_SomeD)

lemma lookup_None: "lookup k rs i = None \<longleftrightarrow> i \<notin> k ` set rs"
  by (auto simp: lookup_def find_None_iff)

lemma lookup_append: "\<forall>x \<in> set rs. k x \<noteq> k r \<Longrightarrow> lookup k (rs @ [r]) = (lookup k rs)(k r \<mapsto> r)"
proof
  fix i
  assume "\<forall>x \<in> set rs. k x \<noteq> k r"
  then have "lookup k rs (k r) = None" by (auto simp: lookup_None)
  then show "lookup k (rs @ [r]) i = ((lookup k rs)(k r \<mapsto> r)) i"
    by (auto simp: lookup_def find_append split: option.splits)
qed

lemma lookup_remove: "lookup k (filter (\<lambda>r. k r \<noteq> i) rs) = (lookup k rs)(i := None)"
proof
  fix j
  show "lookup k (filter (\<lambda>r. k r \<noteq> i) rs) j = ((lookup k rs)(i := None)) j"
    by (induction rs) (auto simp: lookup_def)
qed

lemma lookup_filter:
  "distinct (map k rs) \<Longrightarrow> lookup k (filter P rs) i = Option.bind (lookup k rs i) (\<lambda>r. if P r then Some r else None)"
proof (induction rs)
  case (Cons a rs)
  then have "k a = i \<Longrightarrow> lookup k rs i = None" by (simp add: lookup_None)
  then show ?case using Cons by (auto simp: lookup_def)
qed (simp add: lookup_def)

lemma lookup_update:
  assumes "\<And>r. k (g r) = k r"
  shows "lookup k (map (\<lambda>r. if k r = i then g r else r) rs) = (lookup k rs)(i := map_option g (lookup k rs i))"
proof
  fix j
  show "lookup k (map (\<lambda>r. if k r = i then g r else r) rs) j = ((lookup k rs)(i := map_option g (lookup k rs i))) j"
    by (induction rs) (auto simp: lookup_def assms)
qed

lemma map_update_key: "(\<And>r. k (g r) = k r) \<Longrightarrow> map k (map (\<lambda>r. if P r then g r else r) rs) = map k rs"
  by auto

text \<open>A unique column survives a change of one row to a value no other row has.\<close>

lemma distinct_update:
  assumes "distinct (map k rs)" "distinct (map u rs)" "\<And>r. k r = i \<Longrightarrow> u (g r) = v"
    and "\<forall>r \<in> set rs. k r \<noteq> i \<longrightarrow> u r \<noteq> v"
  shows "distinct (map u (map (\<lambda>r. if k r = i then g r else r) rs))"
  using assms
proof (induction rs)
  case (Cons a rs)
  let ?f = "\<lambda>r. if k r = i then g r else r"
  have IH: "distinct (map u (map ?f rs))" using Cons by simp
  have new: "u (?f a) \<noteq> u (?f r)" if r: "r \<in> set rs" for r
  proof (cases "k a = i")
    case True
    then have "k r \<noteq> i" using Cons.prems(1) r by (simp add: image_iff) metis
    then show ?thesis using True Cons.prems(3,4) r by (simp add: ball_conj_distrib) metis
  next
    case False
    have "u a \<noteq> u r" using Cons.prems(2) r by auto
    then show ?thesis using False Cons.prems(3,4) by auto
  qed
  have "u (?f a) \<notin> set (map u (map ?f rs))" using new by fastforce
  then show ?case using IH by simp
qed simp

end
