(* ===== verification/SentEmailRepo.thy ===== *)
theory SentEmailRepo
  imports Entities GoStrings Postgres
begin

text \<open>
  Storage of outbound mail: the interface \<open>Repository\<close> of \<open>domain/email_sending/repository.go\<close> and its
  implementation on PostgreSQL, \<open>gateways/repository/pg/sent_email.go\<close>.

  The table \<open>sent_emails\<close> is the list of its rows in insertion order. The model has what the statements
  and the schema of migration 2 make observable: the primary key and the unique message id, the length
  limits, the 32-bit counters, the body check, the reference to the domain, the columns that exist
  (provider fields are not stored) and timestamps in microseconds. Any statement can also fail without
  effect, for a reason outside the database (a lost connection, an expired context): the list \<open>pg_faults\<close>
  says which of the coming statements do. The row orders the statements ask for are stable sorts; SQL
  leaves the order of equal keys open. A nil slice and an empty one are not told apart.
\<close>

section \<open>The interface\<close>

record 'st repo_ops =
  repo_Create :: "SentEmail \<Rightarrow> 'st \<Rightarrow> db_error option \<times> 'st"
  repo_Get :: "uuid \<Rightarrow> 'st \<Rightarrow> (db_error + SentEmail) \<times> 'st"
  repo_Update :: "SentEmail \<Rightarrow> 'st \<Rightarrow> db_error option \<times> 'st"
  repo_ForRetry :: "instant \<Rightarrow> int \<Rightarrow> 'st \<Rightarrow> (db_error + SentEmail list) \<times> 'st"

text \<open>What a stored message reads back as.\<close>

definition persist :: "SentEmail \<Rightarrow> SentEmail" where
  "persist e = e\<lparr>se_CreatedAt := trunc_us (se_CreatedAt e), se_QueuedAt := map_option trunc_us (se_QueuedAt e),
     se_SentAt := map_option trunc_us (se_SentAt e), se_DeliveredAt := map_option trunc_us (se_DeliveredAt e),
     se_FailedAt := map_option trunc_us (se_FailedAt e), se_NextRetryAt := map_option trunc_us (se_NextRetryAt e),
     se_ProviderID := None, se_ProviderName := None, se_ProviderAttemptCount := 0, se_LastProviderError := None\<rparr>"

section \<open>The PostgreSQL implementation\<close>

record pg_state = pg_base +
  pg_rows :: "SentEmail list"
  pg_domains :: "uuid list"

text \<open>What the driver can encode, and what the schema accepts for one row.\<close>

definition encodable :: "SentEmail \<Rightarrow> db_error option" where
  "encodable e =
     (if \<not> in_int32 (se_RetryCount e) \<or> \<not> in_int32 (se_MaxRetries e) \<or> \<not> in_int32 (se_WebhookAttempts e)
      then Some IntegerOutOfRange
      else if \<not> EmailSendStatus_IsValid (se_Status e) then Some InvalidEnum
      else None)"

definition row_check :: "pg_state \<Rightarrow> SentEmail \<Rightarrow> db_error option" where
  "row_check st e =
     (if length (se_FromAddress e) > 255 \<or> length (se_Subject e) > 500 \<or> length (se_MessageID e) > 255 \<or>
         (case se_SMTPMessageID e of None \<Rightarrow> False | Some m \<Rightarrow> length m > 255) then Some ValueTooLong
      else if se_ToAddresses e = [] then Some NotNullViolation
      else if se_TextBody e = None \<and> se_HTMLBody e = None then Some CheckViolation
      else if se_DomainID e \<notin> set (pg_domains st) then Some ForeignKeyViolation
      else None)"

definition pg_CreateSentEmail :: "SentEmail \<Rightarrow> pg_state \<Rightarrow> db_error option \<times> pg_state" where
  "pg_CreateSentEmail e = as_error \<circ> exec (\<lambda>st.
     (case encodable e of
        Some er \<Rightarrow> (Inl er, st)
      | None \<Rightarrow>
          (case row_check st e of
             Some er \<Rightarrow> (Inl er, st)
           | None \<Rightarrow>
               if list_ex (\<lambda>r. se_ID r = se_ID e \<or> se_MessageID r = se_MessageID e) (pg_rows st)
               then (Inl UniqueViolation, st)
               else (Inr (), st\<lparr>pg_rows := pg_rows st @ [persist e]\<rparr>))))"

definition scan_one :: "SentEmail option \<Rightarrow> db_error + SentEmail" where
  "scan_one r = (case r of None \<Rightarrow> Inl ErrSentEmailNotFound | Some e \<Rightarrow> Inr e)"

definition pg_GetSentEmail :: "uuid \<Rightarrow> pg_state \<Rightarrow> (db_error + SentEmail) \<times> pg_state" where
  "pg_GetSentEmail i = exec (\<lambda>st. (scan_one (find (\<lambda>r. se_ID r = i) (pg_rows st)), st))"

definition pg_GetSentEmailByMessageID :: "string \<Rightarrow> pg_state \<Rightarrow> (db_error + SentEmail) \<times> pg_state" where
  "pg_GetSentEmailByMessageID m = exec (\<lambda>st. (scan_one (find (\<lambda>r. se_MessageID r = m) (pg_rows st)), st))"

text \<open>\<open>UPDATE ... WHERE id = ...\<close>: no row with the id is not an error.\<close>

definition update_where :: "uuid \<Rightarrow> (SentEmail \<Rightarrow> SentEmail) \<Rightarrow> SentEmail list \<Rightarrow> SentEmail list" where
  "update_where i g rows = map (\<lambda>r. if se_ID r = i then g r else r) rows"

definition pg_UpdateSentEmail :: "SentEmail \<Rightarrow> pg_state \<Rightarrow> db_error option \<times> pg_state" where
  "pg_UpdateSentEmail e = as_error \<circ> exec (\<lambda>st.
     (case encodable e of
        Some er \<Rightarrow> (Inl er, st)
      | None \<Rightarrow>
          if \<not> list_ex (\<lambda>r. se_ID r = se_ID e) (pg_rows st) then (Inr (), st)
          else (case row_check st e of
                  Some er \<Rightarrow> (Inl er, st)
                | None \<Rightarrow>
                    if list_ex (\<lambda>r. se_ID r \<noteq> se_ID e \<and> se_MessageID r = se_MessageID e) (pg_rows st)
                    then (Inl UniqueViolation, st)
                    else (Inr (), st\<lparr>pg_rows := update_where (se_ID e) (\<lambda>_. persist e) (pg_rows st)\<rparr>))))"

definition set_status :: "instant \<Rightarrow> EmailSendStatus \<Rightarrow> SentEmail \<Rightarrow> SentEmail" where
  "set_status now s r =
     r\<lparr>se_Status := s,
       se_SentAt := (if s = EmailSendStatusSent then Some (trunc_us now) else se_SentAt r),
       se_DeliveredAt := (if s = EmailSendStatusDelivered then Some (trunc_us now) else se_DeliveredAt r),
       se_FailedAt := (if s \<in> {EmailSendStatusFailed, EmailSendStatusBounced} then Some (trunc_us now) else se_FailedAt r)\<rparr>"

definition pg_UpdateSentEmailStatus ::
    "instant \<Rightarrow> uuid \<Rightarrow> EmailSendStatus \<Rightarrow> string option \<Rightarrow> string option \<Rightarrow> string option \<Rightarrow> pg_state
      \<Rightarrow> db_error option \<times> pg_state" where
  "pg_UpdateSentEmailStatus now i s smtpResponse smtpMessageID errorMessage = as_error \<circ> exec (\<lambda>st.
     let g = (\<lambda>r. (set_status now s r)\<lparr>se_SMTPResponse := smtpResponse, se_SMTPMessageID := smtpMessageID,
                se_ErrorMessage := errorMessage,
                se_RetryCount := (if s = EmailSendStatusFailed then se_RetryCount r + 1 else se_RetryCount r)\<rparr>)
     in if \<not> EmailSendStatus_IsValid s then (Inl InvalidEnum, st)
        else if list_ex (\<lambda>r. se_ID r = i \<and> \<not> in_int32 (se_RetryCount (g r))) (pg_rows st)
        then (Inl IntegerOutOfRange, st)
        else if list_ex (\<lambda>r. se_ID r = i \<and> row_check st (g r) = Some ValueTooLong) (pg_rows st)
        then (Inl ValueTooLong, st)
        else (Inr (), st\<lparr>pg_rows := update_where i g (pg_rows st)\<rparr>))"

definition pg_DeleteSentEmail :: "uuid \<Rightarrow> pg_state \<Rightarrow> db_error option \<times> pg_state" where
  "pg_DeleteSentEmail i = as_error \<circ> exec (\<lambda>st. (Inr (), st\<lparr>pg_rows := filter (\<lambda>r. se_ID r \<noteq> i) (pg_rows st)\<rparr>))"

text \<open>\<open>SELECT ... WHERE ... ORDER BY ... ASC LIMIT ...\<close>.\<close>

definition select_rows ::
    "(SentEmail \<Rightarrow> bool) \<Rightarrow> (SentEmail \<Rightarrow> int) \<Rightarrow> int \<Rightarrow> pg_state \<Rightarrow> (db_error + SentEmail list) \<times> pg_state" where
  "select_rows P key limit = exec (\<lambda>st.
     if limit < 0 then (Inl NegativeLimit, st)
     else (Inr (take (nat limit) (sort_key key (filter P (pg_rows st)))), st))"

definition settled :: "EmailSendStatus \<Rightarrow> bool" where
  "settled s \<longleftrightarrow> s \<in> {EmailSendStatusSent, EmailSendStatusDelivered, EmailSendStatusFailed, EmailSendStatusBounced,
     EmailSendStatusCancelled}"

definition pg_GetSentEmailsPendingSend :: "int \<Rightarrow> pg_state \<Rightarrow> (db_error + SentEmail list) \<times> pg_state" where
  "pg_GetSentEmailsPendingSend =
     select_rows (\<lambda>r. se_Status r \<in> {EmailSendStatusPending, EmailSendStatusQueued}) se_CreatedAt"

definition due_for_retry :: "instant \<Rightarrow> SentEmail \<Rightarrow> bool" where
  "due_for_retry now r \<longleftrightarrow> se_Status r = EmailSendStatusFailed \<and> se_RetryCount r < se_MaxRetries r \<and>
     (case se_NextRetryAt r of None \<Rightarrow> False | Some t \<Rightarrow> t \<le> now)"

definition pg_GetSentEmailsForRetry :: "instant \<Rightarrow> int \<Rightarrow> pg_state \<Rightarrow> (db_error + SentEmail list) \<times> pg_state" where
  "pg_GetSentEmailsForRetry now =
     select_rows (due_for_retry now) (\<lambda>r. case se_NextRetryAt r of None \<Rightarrow> 0 | Some t \<Rightarrow> t)"

definition pg_GetSentEmailsNeedingWebhook :: "int \<Rightarrow> pg_state \<Rightarrow> (db_error + SentEmail list) \<times> pg_state" where
  "pg_GetSentEmailsNeedingWebhook =
     select_rows (\<lambda>r. \<not> se_WebhookDelivered r \<and> settled (se_Status r) \<and> se_WebhookAttempts r < 5) se_CreatedAt"

definition pg_UpdateWebhookDelivery :: "uuid \<Rightarrow> bool \<Rightarrow> int \<Rightarrow> pg_state \<Rightarrow> db_error option \<times> pg_state" where
  "pg_UpdateWebhookDelivery i delivered attempts = as_error \<circ> exec (\<lambda>st.
     if \<not> in_int32 attempts then (Inl IntegerOutOfRange, st)
     else (Inr (), st\<lparr>pg_rows := update_where i
       (\<lambda>r. r\<lparr>se_WebhookDelivered := delivered, se_WebhookAttempts := attempts\<rparr>) (pg_rows st)\<rparr>))"

definition pg_GetSentEmailsByDomain :: "uuid \<Rightarrow> int \<Rightarrow> int \<Rightarrow> pg_state \<Rightarrow> (db_error + SentEmail list) \<times> pg_state" where
  "pg_GetSentEmailsByDomain d limit offset = exec (\<lambda>st.
     if limit < 0 \<or> offset < 0 then (Inl NegativeLimit, st)
     else (Inr (take (nat limit) (drop (nat offset)
       (sort_key (\<lambda>r. - se_CreatedAt r) (filter (\<lambda>r. se_DomainID r = d) (pg_rows st))))), st))"

definition pg_CountSentEmailsByDomain :: "uuid \<Rightarrow> pg_state \<Rightarrow> (db_error + nat) \<times> pg_state" where
  "pg_CountSentEmailsByDomain d = exec (\<lambda>st. (Inr (length (filter (\<lambda>r. se_DomainID r = d) (pg_rows st))), st))"

definition pg_BulkUpdateStatus :: "instant \<Rightarrow> uuid list \<Rightarrow> EmailSendStatus \<Rightarrow> pg_state \<Rightarrow> db_error option \<times> pg_state" where
  "pg_BulkUpdateStatus now ids s st =
     (if ids = [] then (None, st)
      else (as_error \<circ> exec (\<lambda>st.
        if \<not> EmailSendStatus_IsValid s then (Inl InvalidEnum, st)
        else (Inr (), st\<lparr>pg_rows := map (\<lambda>r. if se_ID r \<in> set ids then set_status now s r else r) (pg_rows st)\<rparr>))) st)"

definition pg_GetSentEmailsOlderThan ::
    "instant \<Rightarrow> duration \<Rightarrow> int \<Rightarrow> pg_state \<Rightarrow> (db_error + SentEmail list) \<times> pg_state" where
  "pg_GetSentEmailsOlderThan now d =
     select_rows (\<lambda>r. se_CreatedAt r < trunc_us (now - d) \<and> settled (se_Status r)) se_CreatedAt"

definition pg_DeleteOldSentEmails :: "instant \<Rightarrow> pg_state \<Rightarrow> (db_error + nat) \<times> pg_state" where
  "pg_DeleteOldSentEmails olderThan = exec (\<lambda>st.
     let old = (\<lambda>r. se_CreatedAt r < trunc_us olderThan \<and> settled (se_Status r))
     in (Inr (length (filter old (pg_rows st))), st\<lparr>pg_rows := filter (\<lambda>r. \<not> old r) (pg_rows st)\<rparr>))"

definition pg_repo :: "pg_state repo_ops" where
  "pg_repo = \<lparr>repo_Create = pg_CreateSentEmail, repo_Get = pg_GetSentEmail, repo_Update = pg_UpdateSentEmail,
     repo_ForRetry = pg_GetSentEmailsForRetry\<rparr>"

section \<open>The contract\<close>

text \<open>The table invariant: what the schema guarantees of every reachable table.\<close>

definition table_ok :: "pg_state \<Rightarrow> bool" where
  "table_ok st \<longleftrightarrow> distinct (map se_ID (pg_rows st)) \<and> distinct (map se_MessageID (pg_rows st)) \<and>
     list_all (\<lambda>r. encodable r = None \<and> row_check st r = None) (pg_rows st)"

definition pg_lookup :: "pg_state \<Rightarrow> uuid \<Rightarrow> SentEmail option" where
  "pg_lookup st i = find (\<lambda>r. se_ID r = i) (pg_rows st)"

text \<open>What the use cases rely on: the repository is a map from ids to stored messages; a write either
  happens or leaves the map alone and says so.\<close>

locale sent_email_repository =
  fixes ops :: "'st repo_ops" and abs :: "'st \<Rightarrow> uuid \<Rightarrow> SentEmail option" and inv :: "'st \<Rightarrow> bool"
  assumes create: "inv st \<Longrightarrow> repo_Create ops e st = (r, st') \<Longrightarrow>
      inv st' \<and> (if r = None then abs st (se_ID e) = None \<and> abs st' = (abs st)(se_ID e \<mapsto> persist e)
                 else abs st' = abs st)"
    and get: "inv st \<Longrightarrow> repo_Get ops i st = (g, st') \<Longrightarrow>
      inv st' \<and> abs st' = abs st \<and> (case g of Inl _ \<Rightarrow> True | Inr e \<Rightarrow> abs st i = Some e)"
    and update: "inv st \<Longrightarrow> repo_Update ops e st = (r, st') \<Longrightarrow>
      inv st' \<and> (if r = None then abs st' = (if abs st (se_ID e) = None then abs st else (abs st)(se_ID e \<mapsto> persist e))
                 else abs st' = abs st)"
    and for_retry: "inv st \<Longrightarrow> repo_ForRetry ops now limit st = (q, st') \<Longrightarrow>
      inv st' \<and> abs st' = abs st \<and>
      (case q of Inl _ \<Rightarrow> True
       | Inr es \<Rightarrow> length es \<le> nat limit \<and> distinct (map se_ID es) \<and>
           (\<forall>e \<in> set es. abs st (se_ID e) = Some e \<and> due_for_retry now e))"
    and stored_id: "inv st \<Longrightarrow> abs st i = Some e \<Longrightarrow> se_ID e = i"

section \<open>The implementation satisfies the contract\<close>

lemma persist_fields [simp]:
  "se_ID (persist e) = se_ID e" "se_MessageID (persist e) = se_MessageID e" "se_Status (persist e) = se_Status e"
  "se_RetryCount (persist e) = se_RetryCount e" "se_MaxRetries (persist e) = se_MaxRetries e"
  "encodable (persist e) = encodable e" "row_check st (persist e) = row_check st e"
  by (simp_all add: persist_def encodable_def row_check_def)

lemma row_check_rows [simp]: "row_check (st\<lparr>pg_rows := rs\<rparr>) e = row_check st e"
  "row_check (st\<lparr>pg_faults := fs\<rparr>) e = row_check st e"
  by (simp_all add: row_check_def)

lemma table_ok_faults [simp]: "table_ok (st\<lparr>pg_faults := fs\<rparr>) = table_ok st"
  by (simp add: table_ok_def)

lemma lookup_faults [simp]: "pg_lookup (st\<lparr>pg_faults := fs\<rparr>) = pg_lookup st"
  by (rule ext) (simp add: pg_lookup_def)

lemma lookup_mem: "table_ok st \<Longrightarrow> r \<in> set (pg_rows st) \<Longrightarrow> pg_lookup st (se_ID r) = Some r"
  by (simp add: pg_lookup_def table_ok_def find_key)

lemma pg_lookup_None: "pg_lookup st i = None \<longleftrightarrow> (\<forall>r \<in> set (pg_rows st). se_ID r \<noteq> i)"
  by (auto simp: pg_lookup_def find_None_iff)

lemma pg_lookup_append:
  "pg_lookup (st\<lparr>pg_rows := pg_rows st @ [e]\<rparr>) i = (case pg_lookup st i of Some r \<Rightarrow> Some r | None \<Rightarrow> if se_ID e = i then Some e else None)"
proof -
  have "find P (xs @ [x]) = (case find P xs of Some r \<Rightarrow> Some r | None \<Rightarrow> if P x then Some x else None)" for P xs and x :: SentEmail
    by (induction xs) auto
  then show ?thesis by (simp add: pg_lookup_def)
qed

lemma lookup_update_where:
  assumes "\<And>r. se_ID (g r) = se_ID r"
  shows "pg_lookup (st\<lparr>pg_rows := update_where i g (pg_rows st)\<rparr>) j =
    (if j = i then map_option g (pg_lookup st i) else pg_lookup st j)"
proof -
  have "find (\<lambda>r. se_ID r = j) (map (\<lambda>r. if se_ID r = i then g r else r) rs) =
      (if j = i then map_option g (find (\<lambda>r. se_ID r = i) rs) else find (\<lambda>r. se_ID r = j) rs)" for rs
    by (induction rs) (auto simp: assms)
  then show ?thesis by (simp add: pg_lookup_def update_where_def)
qed

lemma table_ok_append:
  assumes "table_ok st" "encodable e = None" "row_check st e = None"
    and "\<not> list_ex (\<lambda>r. se_ID r = se_ID e \<or> se_MessageID r = se_MessageID e) (pg_rows st)"
  shows "table_ok (st\<lparr>pg_rows := pg_rows st @ [persist e]\<rparr>)"
  using assms by (auto simp: table_ok_def list_ex_iff list_all_iff)

lemma map_ID_update_where: "(\<And>r. se_ID (g r) = se_ID r) \<Longrightarrow> map se_ID (update_where i g rs) = map se_ID rs"
  by (auto simp: update_where_def)

lemma update_where_Cons: "update_where i g (a # rs) = (if se_ID a = i then g a else a) # update_where i g rs"
  by (simp add: update_where_def)

lemma distinct_messages_replace:
  assumes "distinct (map se_MessageID rs)" "distinct (map se_ID rs)"
    and "\<forall>r \<in> set rs. se_ID r \<noteq> se_ID e \<longrightarrow> se_MessageID r \<noteq> se_MessageID e"
  shows "distinct (map se_MessageID (update_where (se_ID e) (\<lambda>_. persist e) rs))"
  using assms
proof (induction rs)
  case (Cons a rs)
  have sub: "se_MessageID ` set (update_where (se_ID e) (\<lambda>_. persist e) rs) \<subseteq>
      se_MessageID ` set rs \<union> (if \<exists>r \<in> set rs. se_ID r = se_ID e then {se_MessageID e} else {})"
    by (auto simp: update_where_def)
  have IH: "distinct (map se_MessageID (update_where (se_ID e) (\<lambda>_. persist e) rs))" using Cons by simp
  show ?case
  proof (cases "se_ID a = se_ID e")
    case True
    then have "\<forall>r \<in> set rs. se_ID r \<noteq> se_ID e" using Cons.prems(2) by (simp add: image_iff) metis
    then have "se_MessageID e \<notin> se_MessageID ` set (update_where (se_ID e) (\<lambda>_. persist e) rs)"
      using Cons.prems(3) by (auto simp: update_where_def)
    then show ?thesis using IH True by (simp add: update_where_Cons)
  next
    case False
    then have "se_MessageID a \<noteq> se_MessageID e" "se_MessageID a \<notin> se_MessageID ` set rs" using Cons.prems by auto
    then have "se_MessageID a \<notin> se_MessageID ` set (update_where (se_ID e) (\<lambda>_. persist e) rs)"
      using sub by (auto split: if_splits)
    then show ?thesis using IH False by (simp add: update_where_Cons)
  qed
qed (simp add: update_where_def)

lemma table_ok_replace:
  assumes "table_ok st" "encodable e = None" "row_check st e = None"
    and "\<not> list_ex (\<lambda>r. se_ID r \<noteq> se_ID e \<and> se_MessageID r = se_MessageID e) (pg_rows st)"
  shows "table_ok (st\<lparr>pg_rows := update_where (se_ID e) (\<lambda>_. persist e) (pg_rows st)\<rparr>)"
proof -
  have "map se_ID (update_where (se_ID e) (\<lambda>_. persist e) (pg_rows st)) = map se_ID (pg_rows st)"
    by (auto simp: update_where_def)
  moreover have "distinct (map se_MessageID (update_where (se_ID e) (\<lambda>_. persist e) (pg_rows st)))"
    using assms by (intro distinct_messages_replace) (auto simp: table_ok_def list_ex_iff)
  moreover have "\<forall>r \<in> set (update_where (se_ID e) (\<lambda>_. persist e) (pg_rows st)). encodable r = None \<and> row_check st r = None"
    using assms by (auto simp: update_where_def table_ok_def list_all_iff)
  ultimately show ?thesis using assms(1) by (simp add: table_ok_def list_all_iff)
qed

lemma lookup_create:
  assumes "pg_lookup st (se_ID e) = None"
  shows "pg_lookup (st\<lparr>pg_rows := pg_rows st @ [persist e]\<rparr>) = (pg_lookup st)(se_ID e \<mapsto> persist e)"
  by (rule ext) (use assms in \<open>auto simp: pg_lookup_append split: option.splits\<close>)

lemma lookup_replace:
  assumes "pg_lookup st (se_ID e) \<noteq> None"
  shows "pg_lookup (st\<lparr>pg_rows := update_where (se_ID e) (\<lambda>_. persist e) (pg_rows st)\<rparr>) = (pg_lookup st)(se_ID e \<mapsto> persist e)"
proof
  fix j
  have "find (\<lambda>r. se_ID r = j) (map (\<lambda>r. if se_ID r = se_ID e then persist e else r) rs) =
      (if j = se_ID e then map_option (\<lambda>_. persist e) (find (\<lambda>r. se_ID r = j) rs) else find (\<lambda>r. se_ID r = j) rs)" for rs
    by (induction rs) auto
  then show "pg_lookup (st\<lparr>pg_rows := update_where (se_ID e) (\<lambda>_. persist e) (pg_rows st)\<rparr>) j =
      ((pg_lookup st)(se_ID e \<mapsto> persist e)) j"
    using assms by (auto simp: pg_lookup_def update_where_def)
qed

lemma create_contract:
  assumes "table_ok st" "pg_CreateSentEmail e st = (r, st')"
  shows "table_ok st' \<and> (if r = None then pg_lookup st (se_ID e) = None \<and> pg_lookup st' = (pg_lookup st)(se_ID e \<mapsto> persist e)
     else pg_lookup st' = pg_lookup st)"
proof -
  let ?Q = "\<lambda>(x, s). table_ok s \<and> (case x of Inl _ \<Rightarrow> pg_lookup s = pg_lookup st
     | Inr _ \<Rightarrow> pg_lookup st (se_ID e) = None \<and> pg_lookup s = (pg_lookup st)(se_ID e \<mapsto> persist e))"
  define f where "f = (\<lambda>st. case encodable e of Some er \<Rightarrow> (Inl er, st) | None \<Rightarrow> (case row_check st e of Some er \<Rightarrow> (Inl er, st)
     | None \<Rightarrow> if list_ex (\<lambda>r. se_ID r = se_ID e \<or> se_MessageID r = se_MessageID e) (pg_rows st)
               then (Inl UniqueViolation, st) else (Inr (), st\<lparr>pg_rows := pg_rows st @ [persist e]\<rparr>)))"
  have "?Q (f (st\<lparr>pg_faults := fs\<rparr>))" for fs
  proof (cases "encodable e = None \<and> row_check st e = None \<and>
      \<not> list_ex (\<lambda>r. se_ID r = se_ID e \<or> se_MessageID r = se_MessageID e) (pg_rows st)")
    case True
    let ?s = "st\<lparr>pg_faults := fs\<rparr>"
    have "pg_lookup ?s (se_ID e) = None" using True by (auto simp: pg_lookup_None list_ex_iff)
    then show ?thesis
      using True table_ok_append [of ?s e] lookup_create [of ?s e] assms(1) by (simp add: f_def)
  next
    case False
    then show ?thesis using assms(1) by (auto simp: f_def split: option.splits)
  qed
  then have "?Q (exec f st)" using assms(1) by (intro exec_rule [where Q = ?Q]) simp_all
  then show ?thesis using assms(2) unfolding pg_CreateSentEmail_def f_def [symmetric]
    by (auto simp: as_error_def split: sum.splits prod.splits)
qed

lemma update_contract:
  assumes "table_ok st" "pg_UpdateSentEmail e st = (r, st')"
  shows "table_ok st' \<and> (if r = None then pg_lookup st' =
       (if pg_lookup st (se_ID e) = None then pg_lookup st else (pg_lookup st)(se_ID e \<mapsto> persist e))
     else pg_lookup st' = pg_lookup st)"
proof -
  let ?m = "if pg_lookup st (se_ID e) = None then pg_lookup st else (pg_lookup st)(se_ID e \<mapsto> persist e)"
  let ?Q = "\<lambda>(x, s). table_ok s \<and> pg_lookup s = (case x of Inl _ \<Rightarrow> pg_lookup st | Inr _ \<Rightarrow> ?m)"
  define f where "f = (\<lambda>st. case encodable e of Some er \<Rightarrow> (Inl er, st) | None \<Rightarrow>
     if \<not> list_ex (\<lambda>r. se_ID r = se_ID e) (pg_rows st) then (Inr (), st)
     else (case row_check st e of Some er \<Rightarrow> (Inl er, st) | None \<Rightarrow>
        if list_ex (\<lambda>r. se_ID r \<noteq> se_ID e \<and> se_MessageID r = se_MessageID e) (pg_rows st)
        then (Inl UniqueViolation, st)
        else (Inr (), st\<lparr>pg_rows := update_where (se_ID e) (\<lambda>_. persist e) (pg_rows st)\<rparr>)))"
  have known: "list_ex (\<lambda>r. se_ID r = se_ID e) (pg_rows st) \<longleftrightarrow> pg_lookup st (se_ID e) \<noteq> None"
    by (auto simp: pg_lookup_None list_ex_iff)
  have "?Q (f (st\<lparr>pg_faults := fs\<rparr>))" for fs
  proof (cases "encodable e = None \<and> row_check st e = None \<and> pg_lookup st (se_ID e) \<noteq> None \<and>
      \<not> list_ex (\<lambda>r. se_ID r \<noteq> se_ID e \<and> se_MessageID r = se_MessageID e) (pg_rows st)")
    case True
    let ?s = "st\<lparr>pg_faults := fs\<rparr>"
    show ?thesis
      using True table_ok_replace [of ?s e] lookup_replace [of ?s e] assms(1) known by (auto simp: f_def)
  next
    case False
    then show ?thesis using assms(1) known by (auto simp: f_def split: option.splits)
  qed
  then have "?Q (exec f st)" using assms(1) by (intro exec_rule [where Q = ?Q]) simp_all
  then show ?thesis using assms(2) unfolding pg_UpdateSentEmail_def f_def [symmetric]
    by (auto simp: as_error_def split: sum.splits prod.splits)
qed

lemma get_contract:
  assumes "table_ok st" "pg_GetSentEmail i st = (g, st')"
  shows "table_ok st' \<and> pg_lookup st' = pg_lookup st \<and> (case g of Inl _ \<Rightarrow> True | Inr e \<Rightarrow> pg_lookup st i = Some e)"
proof -
  let ?Q = "\<lambda>(g, s). table_ok s \<and> pg_lookup s = pg_lookup st \<and> (case g of Inl _ \<Rightarrow> True | Inr e \<Rightarrow> pg_lookup st i = Some e)"
  have "?Q (pg_GetSentEmail i st)" unfolding pg_GetSentEmail_def
    by (rule exec_rule [where Q = ?Q]) (use assms(1) in \<open>auto simp: scan_one_def pg_lookup_def split: option.splits\<close>)
  then show ?thesis using assms(2) by simp
qed

lemma select_rows_contract:
  assumes "table_ok st" "select_rows P key limit st = (q, st')"
  shows "table_ok st' \<and> pg_lookup st' = pg_lookup st \<and>
    (case q of Inl _ \<Rightarrow> True
     | Inr es \<Rightarrow> length es \<le> nat limit \<and> distinct (map se_ID es) \<and> (\<forall>e \<in> set es. pg_lookup st (se_ID e) = Some e \<and> P e))"
proof -
  let ?Q = "\<lambda>(q, s). table_ok s \<and> pg_lookup s = pg_lookup st \<and>
    (case q of Inl _ \<Rightarrow> True
     | Inr es \<Rightarrow> length es \<le> nat limit \<and> distinct (map se_ID es) \<and> (\<forall>e \<in> set es. pg_lookup st (se_ID e) = Some e \<and> P e))"
  let ?rs = "sort_key key (filter P (pg_rows st))"
  have "distinct (map se_ID ?rs)"
    using assms(1) by (auto simp: table_ok_def distinct_map intro: inj_on_subset)
  then have d: "distinct (map se_ID (take (nat limit) ?rs))" by (metis distinct_take take_map)
  have m: "\<forall>e \<in> set (take (nat limit) ?rs). pg_lookup st (se_ID e) = Some e \<and> P e"
  proof
    fix e assume "e \<in> set (take (nat limit) ?rs)"
    then have "e \<in> set ?rs" by (rule in_set_takeD)
    then show "pg_lookup st (se_ID e) = Some e \<and> P e" using lookup_mem [OF assms(1)] by simp
  qed
  have "?Q (select_rows P key limit st)" unfolding select_rows_def
  proof (rule exec_rule [where Q = ?Q], goal_cases)
    case (1 fs)
    have rows: "pg_rows (st\<lparr>pg_faults := fs\<rparr>) = pg_rows st" by simp
    have q: "?Q (Inr (take (nat limit) ?rs), st\<lparr>pg_faults := fs\<rparr>)"
      unfolding prod.case sum.case by (intro conjI d m) (simp_all add: assms(1))
    show ?case
    proof (cases "limit < 0")
      case True
      then show ?thesis using assms(1) by simp
    next
      case False
      show ?thesis unfolding rows if_not_P [OF False] by (rule q)
    qed
  next
    case (2 er fs)
    then show ?case using assms(1) by simp
  qed
  then show ?thesis using assms(2) by simp
qed

interpretation pg: sent_email_repository pg_repo pg_lookup table_ok
proof
  fix st :: pg_state and e r st' i g now limit q
  show "table_ok st \<Longrightarrow> repo_Create pg_repo e st = (r, st') \<Longrightarrow>
      table_ok st' \<and> (if r = None then pg_lookup st (se_ID e) = None \<and> pg_lookup st' = (pg_lookup st)(se_ID e \<mapsto> persist e)
                 else pg_lookup st' = pg_lookup st)"
    using create_contract by (simp add: pg_repo_def)
  show "table_ok st \<Longrightarrow> repo_Get pg_repo i st = (g, st') \<Longrightarrow>
      table_ok st' \<and> pg_lookup st' = pg_lookup st \<and> (case g of Inl _ \<Rightarrow> True | Inr e \<Rightarrow> pg_lookup st i = Some e)"
    using get_contract by (simp add: pg_repo_def)
  show "table_ok st \<Longrightarrow> repo_Update pg_repo e st = (r, st') \<Longrightarrow>
      table_ok st' \<and> (if r = None then pg_lookup st' = (if pg_lookup st (se_ID e) = None then pg_lookup st
                   else (pg_lookup st)(se_ID e \<mapsto> persist e)) else pg_lookup st' = pg_lookup st)"
    using update_contract by (simp add: pg_repo_def)
  show "table_ok st \<Longrightarrow> repo_ForRetry pg_repo now limit st = (q, st') \<Longrightarrow>
      table_ok st' \<and> pg_lookup st' = pg_lookup st \<and>
      (case q of Inl _ \<Rightarrow> True
       | Inr es \<Rightarrow> length es \<le> nat limit \<and> distinct (map se_ID es) \<and>
           (\<forall>e \<in> set es. pg_lookup st (se_ID e) = Some e \<and> due_for_retry now e))"
    using select_rows_contract by (simp add: pg_repo_def pg_GetSentEmailsForRetry_def)
  show "table_ok st \<Longrightarrow> pg_lookup st i = Some e \<Longrightarrow> se_ID e = i"
    by (auto simp: pg_lookup_def find_Some_iff)
qed

section \<open>Properties\<close>

text \<open>The statements that change the table.\<close>

inductive pg_write :: "pg_state \<Rightarrow> pg_state \<Rightarrow> bool" where
  create_write: "pg_CreateSentEmail e st = (r, st') \<Longrightarrow> pg_write st st'"
| update_write: "pg_UpdateSentEmail e st = (r, st') \<Longrightarrow> pg_write st st'"
| status_write: "pg_UpdateSentEmailStatus now i s resp mid err st = (r, st') \<Longrightarrow> pg_write st st'"
| delete_write: "pg_DeleteSentEmail i st = (r, st') \<Longrightarrow> pg_write st st'"
| webhook_write: "pg_UpdateWebhookDelivery i delivered n st = (r, st') \<Longrightarrow> pg_write st st'"
| bulk_write: "pg_BulkUpdateStatus now ids s st = (r, st') \<Longrightarrow> pg_write st st'"
| delete_old_write: "pg_DeleteOldSentEmails t st = (q, st') \<Longrightarrow> pg_write st st'"

lemma exec_preserves:
  assumes "table_ok st" and "\<And>fs. table_ok (snd (f (st\<lparr>pg_faults := fs\<rparr>)))"
  shows "table_ok (snd (exec f st))"
  by (rule exec_rule [where Q = "\<lambda>x. table_ok (snd x)"]) (use assms in simp_all)

lemma table_ok_filter: "table_ok st \<Longrightarrow> table_ok (st\<lparr>pg_rows := filter P (pg_rows st)\<rparr>)"
  by (auto simp: table_ok_def list_all_iff distinct_map intro: inj_on_subset)

text \<open>A change of columns other than the keys keeps the table valid if every changed row is.\<close>

lemma table_ok_map:
  assumes "table_ok st" "\<And>r. se_ID (g r) = se_ID r" "\<And>r. se_MessageID (g r) = se_MessageID r"
    and "\<And>r. r \<in> set (pg_rows st) \<Longrightarrow> encodable (g r) = None \<and> row_check st (g r) = None"
  shows "table_ok (st\<lparr>pg_rows := map g (pg_rows st)\<rparr>)"
proof -
  have "se_ID \<circ> g = se_ID" "se_MessageID \<circ> g = se_MessageID" using assms(2,3) by auto
  then show ?thesis using assms(1,4) by (simp add: table_ok_def list_all_iff)
qed

lemma row_ok: "table_ok st \<Longrightarrow> r \<in> set (pg_rows st) \<Longrightarrow> encodable r = None \<and> row_check st r = None"
  by (simp add: table_ok_def list_all_iff)

lemma set_status_ok:
  assumes "encodable r = None" "row_check st r = None" "EmailSendStatus_IsValid s"
  shows "encodable (set_status now s r) = None \<and> row_check st (set_status now s r) = None"
  using assms by (simp add: encodable_def row_check_def set_status_def split: if_splits)

lemma set_status_keys [simp]: "se_ID (set_status now s r) = se_ID r" "se_MessageID (set_status now s r) = se_MessageID r"
  by (simp_all add: set_status_def)

lemma update_where_map: "update_where i g rs = map (\<lambda>r. if se_ID r = i then g r else r) rs"
  by (simp add: update_where_def)

lemma status_update_ok:
  assumes "table_ok st" "EmailSendStatus_IsValid s"
    and "g = (\<lambda>r. (set_status now s r)\<lparr>se_SMTPResponse := resp, se_SMTPMessageID := mid, se_ErrorMessage := err,
          se_RetryCount := (if s = EmailSendStatusFailed then se_RetryCount r + 1 else se_RetryCount r)\<rparr>)"
    and "\<not> list_ex (\<lambda>r. se_ID r = i \<and> \<not> in_int32 (se_RetryCount (g r))) (pg_rows st)"
    and "\<not> list_ex (\<lambda>r. se_ID r = i \<and> row_check st (g r) = Some ValueTooLong) (pg_rows st)"
  shows "table_ok (st\<lparr>pg_rows := update_where i g (pg_rows st)\<rparr>)"
  unfolding update_where_map
proof (rule table_ok_map [OF assms(1)])
  fix r assume r: "r \<in> set (pg_rows st)"
  note ok = set_status_ok [OF conjunct1 [OF row_ok [OF assms(1) r]] conjunct2 [OF row_ok [OF assms(1) r]] assms(2), of now]
  have "encodable (g r) = None" if "se_ID r = i"
    using ok assms(3,4) r that by (auto simp: encodable_def list_ex_iff split: if_splits)
  moreover have "row_check st (g r) = None" if "se_ID r = i"
    using ok assms(3,5) r that by (auto simp: row_check_def list_ex_iff split: if_splits option.splits)
  ultimately show "encodable (if se_ID r = i then g r else r) = None \<and> row_check st (if se_ID r = i then g r else r) = None"
    using row_ok [OF assms(1) r] by simp
qed (auto simp: assms(3))

lemma webhook_update_ok:
  assumes "table_ok st" "in_int32 n"
  shows "table_ok (st\<lparr>pg_rows := update_where i (\<lambda>r. r\<lparr>se_WebhookDelivered := d, se_WebhookAttempts := n\<rparr>) (pg_rows st)\<rparr>)"
  unfolding update_where_map
proof (rule table_ok_map [OF assms(1)])
  fix r assume r: "r \<in> set (pg_rows st)"
  show "encodable (if se_ID r = i then r\<lparr>se_WebhookDelivered := d, se_WebhookAttempts := n\<rparr> else r) = None \<and>
      row_check st (if se_ID r = i then r\<lparr>se_WebhookDelivered := d, se_WebhookAttempts := n\<rparr> else r) = None"
    using row_ok [OF assms(1) r] assms(2) by (simp add: encodable_def row_check_def split: if_splits)
qed auto

lemma bulk_update_ok:
  assumes "table_ok st" "EmailSendStatus_IsValid s"
  shows "table_ok (st\<lparr>pg_rows := map (\<lambda>r. if se_ID r \<in> set ids then set_status now s r else r) (pg_rows st)\<rparr>)"
  by (rule table_ok_map [OF assms(1)]) (use row_ok [OF assms(1)] set_status_ok [OF _ _ assms(2)] in auto)

text \<open>
  Every statement of the repository that writes keeps the table valid: ids and message ids stay unique,
  and every row satisfies the length, range, body, recipient and reference constraints. The operations
  that report an error leave it valid too.
\<close>

theorem writes_preserve_table:
  assumes "pg_write st st'" "table_ok st"
  shows "table_ok st'"
  using assms(1)
proof cases
  case (create_write e r)
  then show ?thesis using create_contract [OF assms(2)] by blast
next
  case (update_write e r)
  then show ?thesis using update_contract [OF assms(2)] by blast
next
  case (status_write now i s resp mid err r)
  have "table_ok (snd (pg_UpdateSentEmailStatus now i s resp mid err st))"
    unfolding pg_UpdateSentEmailStatus_def as_error_def comp_def snd_conv Let_def
    using status_update_ok [of "st\<lparr>pg_faults := _\<rparr>" s, OF _ _ refl] assms(2)
    by (intro exec_preserves [OF assms(2)]) simp
  then show ?thesis using status_write by simp
next
  case (delete_write i r)
  have "table_ok (snd (pg_DeleteSentEmail i st))"
    unfolding pg_DeleteSentEmail_def as_error_def comp_def snd_conv
    using table_ok_filter [of "st\<lparr>pg_faults := _\<rparr>"] assms(2) by (intro exec_preserves [OF assms(2)]) simp
  then show ?thesis using delete_write by simp
next
  case (webhook_write i delivered n r)
  have "table_ok (snd (pg_UpdateWebhookDelivery i delivered n st))"
    unfolding pg_UpdateWebhookDelivery_def as_error_def comp_def snd_conv
    using webhook_update_ok [of "st\<lparr>pg_faults := _\<rparr>"] assms(2) by (intro exec_preserves [OF assms(2)]) simp
  then show ?thesis using webhook_write by simp
next
  case (bulk_write now ids s r)
  have "table_ok (snd (pg_BulkUpdateStatus now ids s st))"
    unfolding pg_BulkUpdateStatus_def as_error_def comp_def
    using bulk_update_ok [of "st\<lparr>pg_faults := _\<rparr>"] assms(2) by (auto intro!: exec_preserves [OF assms(2)])
  then show ?thesis using bulk_write by simp
next
  case (delete_old_write t q)
  have "table_ok (snd (pg_DeleteOldSentEmails t st))"
    unfolding pg_DeleteOldSentEmails_def Let_def
    using table_ok_filter [of "st\<lparr>pg_faults := _\<rparr>"] assms(2) by (intro exec_preserves [OF assms(2)]) simp
  then show ?thesis using delete_old_write by simp
qed

definition sample_mail :: "uuid \<Rightarrow> string \<Rightarrow> EmailSendStatus \<Rightarrow> SentEmail" where
  "sample_mail i m s =
   \<lparr>se_ID = i, se_DomainID = 7, se_FromAddress = ''a@b.org'', se_ToAddresses = [''c@d.org''], se_CCAddresses = [],
    se_BCCAddresses = [], se_Subject = ''hi'', se_TextBody = Some ''text'', se_HTMLBody = None, se_MessageID = m,
    se_Status = s, se_ErrorMessage = None, se_RetryCount = 0, se_MaxRetries = 3, se_CreatedAt = 1234,
    se_QueuedAt = None, se_SentAt = None, se_DeliveredAt = None, se_FailedAt = None, se_NextRetryAt = None,
    se_SMTPResponse = None, se_SMTPMessageID = None, se_ProviderID = None, se_ProviderName = None,
    se_ProviderAttemptCount = 0, se_LastProviderError = None, se_WebhookData = None, se_WebhookDelivered = False,
    se_WebhookAttempts = 0\<rparr>"

definition one_row :: pg_state where
  "one_row = \<lparr>pg_faults = [], pg_rows = [sample_mail 1 ''m1'' EmailSendStatusSent], pg_domains = [7]\<rparr>"

theorem writes_preserve_table_witness:
  "table_ok (snd (pg_CreateSentEmail (sample_mail 2 ''m1'' EmailSendStatusPending) one_row)) \<and>
   fst (pg_CreateSentEmail (sample_mail 2 ''m1'' EmailSendStatusPending) one_row) = Some UniqueViolation"
proof -
  have "table_ok one_row" by code_simp
  then have "table_ok (snd (pg_CreateSentEmail (sample_mail 2 ''m1'' EmailSendStatusPending) one_row))"
    by (rule writes_preserve_table [OF create_write [OF prod.collapse [symmetric]]])
  moreover have "fst (pg_CreateSentEmail (sample_mail 2 ''m1'' EmailSendStatusPending) one_row) = Some UniqueViolation" by code_simp
  ultimately show ?thesis by blast
qed

text \<open>
  A stored message is read back, by its id and by its message id, as it was stored, up to what the
  table does not keep: timestamps are cut to microseconds and the provider fields are lost. This holds
  after any create that reported success.
\<close>

theorem create_get_roundtrip:
  assumes "table_ok st" "pg_CreateSentEmail e st = (None, st')" "pg_faults st' = []"
  shows "fst (pg_GetSentEmail (se_ID e) st') = Inr (persist e) \<and>
    fst (pg_GetSentEmailByMessageID (se_MessageID e) st') = Inr (persist e)"
proof -
  have ok: "table_ok st'" and l: "pg_lookup st' (se_ID e) = Some (persist e)"
    using create_contract [OF assms(1,2)] by auto
  have mem: "persist e \<in> set (pg_rows st')" using l unfolding pg_lookup_def by (auto simp: find_Some_iff)
  have "distinct (map se_MessageID rs) \<Longrightarrow> r \<in> set rs \<Longrightarrow> find (\<lambda>x. se_MessageID x = se_MessageID r) rs = Some r" for rs r
    by (induction rs) auto
  then have "find (\<lambda>x. se_MessageID x = se_MessageID e) (pg_rows st') = Some (persist e)"
    using ok mem by (metis persist_fields(2) table_ok_def)
  then show ?thesis using l assms(3)
    by (simp add: pg_GetSentEmail_def pg_GetSentEmailByMessageID_def exec_def scan_one_def pg_lookup_def)
qed

theorem create_get_roundtrip_witness:
  "fst (pg_GetSentEmail 2 (snd (pg_CreateSentEmail (sample_mail 2 ''m2'' EmailSendStatusPending) one_row))) =
   Inr ((sample_mail 2 ''m2'' EmailSendStatusPending)\<lparr>se_CreatedAt := 1000\<rparr>)"
proof -
  let ?e = "sample_mail 2 ''m2'' EmailSendStatusPending"
  have ok: "table_ok one_row" by code_simp
  have "fst (pg_CreateSentEmail ?e one_row) = None" by code_simp
  then have c: "pg_CreateSentEmail ?e one_row = (None, snd (pg_CreateSentEmail ?e one_row))" by (metis prod.collapse)
  have "pg_faults (snd (pg_CreateSentEmail ?e one_row)) = []" by code_simp
  from create_get_roundtrip [OF ok c this] have "fst (pg_GetSentEmail 2 (snd (pg_CreateSentEmail ?e one_row))) = Inr (persist ?e)"
    by (simp add: sample_mail_def)
  moreover have "persist ?e = ?e\<lparr>se_CreatedAt := 1000\<rparr>" by code_simp
  ultimately show ?thesis by simp
qed

text \<open>
  The query for messages that need a webhook returns every due message the entity says needs one, but
  also messages in status sent, for which \<open>NeedsWebhookDelivery\<close> is false: they differ exactly there.
\<close>

theorem needing_webhook_vs_entity:
  assumes "pg_faults st = []" "r \<in> set (pg_rows st)" "se_WebhookAttempts r < 5" "int (length (pg_rows st)) \<le> limit"
  shows "(case fst (pg_GetSentEmailsNeedingWebhook limit st) of
      Inl _ \<Rightarrow> False
    | Inr es \<Rightarrow> r \<in> set es \<longleftrightarrow> NeedsWebhookDelivery r \<or> (\<not> se_WebhookDelivered r \<and> se_Status r = EmailSendStatusSent))"
proof -
  let ?P = "\<lambda>r. \<not> se_WebhookDelivered r \<and> settled (se_Status r) \<and> se_WebhookAttempts r < 5"
  have "length (filter ?P (pg_rows st)) \<le> nat limit"
    using assms(4) length_filter_le [of ?P "pg_rows st"] by linarith
  then have "fst (pg_GetSentEmailsNeedingWebhook limit st) = Inr (sort_key se_CreatedAt (filter ?P (pg_rows st)))"
    using assms(1,4) by (simp add: pg_GetSentEmailsNeedingWebhook_def select_rows_def exec_def)
  moreover have "settled s \<longleftrightarrow> EmailSendStatus_IsFinal s \<or> s = EmailSendStatusSent" for s
    by (cases s) (simp_all add: settled_def)
  ultimately show ?thesis using assms(2,3) by (auto simp: NeedsWebhookDelivery_def)
qed

theorem needing_webhook_vs_entity_witness:
  "fst (pg_GetSentEmailsNeedingWebhook 10 one_row) = Inr [sample_mail 1 ''m1'' EmailSendStatusSent] \<and>
   \<not> NeedsWebhookDelivery (sample_mail 1 ''m1'' EmailSendStatusSent) \<and>
   (case fst (pg_GetSentEmailsNeedingWebhook 10 one_row) of
      Inl _ \<Rightarrow> False | Inr es \<Rightarrow> sample_mail 1 ''m1'' EmailSendStatusSent \<in> set es)"
proof -
  let ?r = "sample_mail 1 ''m1'' EmailSendStatusSent"
  have h: "pg_faults one_row = []" "?r \<in> set (pg_rows one_row)" "se_WebhookAttempts ?r < 5"
    "int (length (pg_rows one_row)) \<le> 10" "\<not> se_WebhookDelivered ?r" "se_Status ?r = EmailSendStatusSent"
    by (simp_all add: one_row_def sample_mail_def)
  have "fst (pg_GetSentEmailsNeedingWebhook 10 one_row) = Inr [?r]" by code_simp
  moreover have "\<not> NeedsWebhookDelivery ?r" by code_simp
  ultimately show ?thesis using needing_webhook_vs_entity [OF h(1-4)] h(5,6) by simp
qed

end
