(* ===== verification/EmailSending.thy ===== *)
theory EmailSending
  imports SentEmailRepo
begin

text \<open>
  Outbound mail (\<open>domain/email_sending/usecase.go\<close>): validate, store, hand to the sender, record the
  outcome; retries. The repository is an interface value (\<open>repo_ops\<close>), the sender a function of the
  messages handed over so far and the message: it answers an error text or the message id it assigned.
  The state keeps the repository's state, the messages handed over and the update failures logged.
  Values the code generates (the id, the readings of the clock) are arguments.
\<close>

section \<open>Definitions\<close>

record SendEmailRequest =
  req_DomainID :: uuid
  req_MessageID :: string
  req_From :: string
  req_ReplyTo :: string
  req_ToAddresses :: "string list"
  req_CCAddresses :: "string list"
  req_BCCAddresses :: "string list"
  req_Subject :: string
  req_TextBody :: "string option"
  req_HTMLBody :: "string option"
  req_MaxRetries :: int
  req_WebhookData :: "webhook_data option"

datatype request_error =
    DomainIDRequired | FromRequired | RecipientRequired | SubjectRequired | BodyRequired | MessageIDRequired
  | MaxRetriesNegative

definition SendEmailRequest_Validate :: "SendEmailRequest \<Rightarrow> request_error option" where
  "SendEmailRequest_Validate r =
     (if req_DomainID r = uuid_nil then Some DomainIDRequired
      else if req_From r = [] then Some FromRequired
      else if length (req_ToAddresses r) = 0 then Some RecipientRequired
      else if req_Subject r = [] then Some SubjectRequired
      else if req_TextBody r = None \<and> req_HTMLBody r = None then Some BodyRequired
      else if req_MessageID r = [] then Some MessageIDRequired
      else if req_MaxRetries r < 0 then Some MaxRetriesNegative
      else None)"

record SendEmailResponse =
  resp_ID :: uuid
  resp_MessageID :: string
  resp_Status :: EmailSendStatus
  resp_CreatedAt :: instant
  resp_SentAt :: "instant option"

datatype send_error =
    InvalidRequest request_error | InvalidEntity | CreateFailed db_error | SenderFailed string
  | GetFailed db_error | CannotResend | RetryListFailed db_error

type_synonym sender = "SentEmail list \<Rightarrow> SentEmail \<Rightarrow> string + string"

record 'st uc_state =
  uc_repo :: 'st
  uc_dispatched :: "SentEmail list"
  uc_update_failures :: "uuid list"

definition new_sent_email :: "uuid \<Rightarrow> instant \<Rightarrow> SendEmailRequest \<Rightarrow> SentEmail" where
  "new_sent_email i now r =
   \<lparr>se_ID = i, se_DomainID = req_DomainID r, se_FromAddress = req_From r, se_ToAddresses = req_ToAddresses r,
    se_CCAddresses = req_CCAddresses r, se_BCCAddresses = req_BCCAddresses r, se_Subject = req_Subject r,
    se_TextBody = req_TextBody r, se_HTMLBody = req_HTMLBody r, se_MessageID = req_MessageID r,
    se_Status = EmailSendStatusPending, se_ErrorMessage = None, se_RetryCount = 0, se_MaxRetries = req_MaxRetries r,
    se_CreatedAt = now, se_QueuedAt = None, se_SentAt = None, se_DeliveredAt = None, se_FailedAt = None,
    se_NextRetryAt = None, se_SMTPResponse = None, se_SMTPMessageID = None, se_ProviderID = None,
    se_ProviderName = None, se_ProviderAttemptCount = 0, se_LastProviderError = None,
    se_WebhookData = req_WebhookData r, se_WebhookDelivered = False, se_WebhookAttempts = 0\<rparr>"

text \<open>An update whose failure is only logged.\<close>

definition record_outcome :: "'st repo_ops \<Rightarrow> SentEmail \<Rightarrow> 'st uc_state \<Rightarrow> 'st uc_state" where
  "record_outcome ops e s =
     (case repo_Update ops e (uc_repo s) of
        (None, st) \<Rightarrow> s\<lparr>uc_repo := st\<rparr>
      | (Some _, st) \<Rightarrow> s\<lparr>uc_repo := st, uc_update_failures := uc_update_failures s @ [se_ID e]\<rparr>)"

text \<open>Hand a message to the sender and record the outcome; the second half of both operations below.\<close>

definition dispatch ::
    "'st repo_ops \<Rightarrow> sender \<Rightarrow> instant \<Rightarrow> SentEmail \<Rightarrow> 'st uc_state \<Rightarrow> (send_error + SendEmailResponse) \<times> 'st uc_state" where
  "dispatch ops send now e s =
     (let s1 = s\<lparr>uc_dispatched := uc_dispatched s @ [e]\<rparr> in
      case send (uc_dispatched s) e of
        Inl err \<Rightarrow> (Inl (SenderFailed err), record_outcome ops (MarkAsFailed now err e) s1)
      | Inr m \<Rightarrow>
          let messageID = (if m = [] then se_MessageID e else m);
              e1 = MarkAsSent now (Some messageID) (Some []) e
          in (Inr \<lparr>resp_ID = se_ID e1, resp_MessageID = se_MessageID e1, resp_Status = se_Status e1,
                   resp_CreatedAt = se_CreatedAt e1, resp_SentAt = se_SentAt e1\<rparr>,
              record_outcome ops e1 s1))"

definition SendEmail ::
    "'st repo_ops \<Rightarrow> sender \<Rightarrow> uuid \<Rightarrow> instant \<Rightarrow> instant \<Rightarrow> SendEmailRequest \<Rightarrow> 'st uc_state
      \<Rightarrow> (send_error + SendEmailResponse) \<times> 'st uc_state" where
  "SendEmail ops send i created now req s =
     (case SendEmailRequest_Validate req of
        Some err \<Rightarrow> (Inl (InvalidRequest err), s)
      | None \<Rightarrow>
          let sentEmail = new_sent_email i created req in
          if \<not> SentEmail_IsValid sentEmail then (Inl InvalidEntity, s)
          else (case repo_Create ops sentEmail (uc_repo s) of
                  (Some err, st) \<Rightarrow> (Inl (CreateFailed err), s\<lparr>uc_repo := st\<rparr>)
                | (None, st) \<Rightarrow> dispatch ops send now sentEmail (s\<lparr>uc_repo := st\<rparr>)))"

definition ResendEmail ::
    "'st repo_ops \<Rightarrow> sender \<Rightarrow> instant \<Rightarrow> uuid \<Rightarrow> 'st uc_state \<Rightarrow> (send_error + SendEmailResponse) \<times> 'st uc_state" where
  "ResendEmail ops send now i s =
     (case repo_Get ops i (uc_repo s) of
        (Inl err, st) \<Rightarrow> (Inl (GetFailed err), s\<lparr>uc_repo := st\<rparr>)
      | (Inr sentEmail, st) \<Rightarrow>
          if \<not> SentEmail_CanRetry sentEmail then (Inl CannotResend, s\<lparr>uc_repo := st\<rparr>)
          else dispatch ops send now (sentEmail\<lparr>se_Status := EmailSendStatusPending\<rparr>) (s\<lparr>uc_repo := st\<rparr>))"

text \<open>The loop of \<open>ProcessRetryQueue\<close> over the messages it fetched; errors are logged and the loop goes on.
  The clock is read again for every message.\<close>

fun resend_all :: "'st repo_ops \<Rightarrow> sender \<Rightarrow> (nat \<Rightarrow> instant) \<Rightarrow> SentEmail list \<Rightarrow> 'st uc_state \<Rightarrow> 'st uc_state" where
  "resend_all ops send clock [] s = s"
| "resend_all ops send clock (e # es) s =
     resend_all ops send (\<lambda>n. clock (Suc n)) es (snd (ResendEmail ops send (clock 0) (se_ID e) s))"

definition ProcessRetryQueue ::
    "'st repo_ops \<Rightarrow> sender \<Rightarrow> instant \<Rightarrow> (nat \<Rightarrow> instant) \<Rightarrow> int \<Rightarrow> 'st uc_state \<Rightarrow> send_error option \<times> 'st uc_state" where
  "ProcessRetryQueue ops send db_now clock limit s =
     (case repo_ForRetry ops db_now limit (uc_repo s) of
        (Inl err, st) \<Rightarrow> (Some (RetryListFailed err), s\<lparr>uc_repo := st\<rparr>)
      | (Inr emails, st) \<Rightarrow> (None, resend_all ops send clock emails (s\<lparr>uc_repo := st\<rparr>)))"

text \<open>The use case as a machine: the calls of its clients, in any order.\<close>

inductive uc_step :: "'st repo_ops \<Rightarrow> sender \<Rightarrow> 'st uc_state \<Rightarrow> 'st uc_state \<Rightarrow> bool" for ops send where
  send_step: "SendEmail ops send i created now req s = (r, s') \<Longrightarrow> uc_step ops send s s'"
| resend_step: "ResendEmail ops send now i s = (r, s') \<Longrightarrow> uc_step ops send s s'"
| retry_step: "ProcessRetryQueue ops send db_now clock limit s = (r, s') \<Longrightarrow> uc_step ops send s s'"

definition uc_run :: "'st repo_ops \<Rightarrow> sender \<Rightarrow> 'st uc_state \<Rightarrow> 'st uc_state \<Rightarrow> bool" where
  "uc_run ops send = (uc_step ops send)\<^sup>*\<^sup>*"

text \<open>How often a message was handed to the sender.\<close>

definition attempts :: "uuid \<Rightarrow> 'st uc_state \<Rightarrow> nat" where
  "attempts i s = length (filter (\<lambda>e. se_ID e = i) (uc_dispatched s))"

section \<open>Lemmas about single operations\<close>

lemma MarkAsSent_basic [simp]:
  "se_ID (MarkAsSent now m r e) = se_ID e" "se_Status (MarkAsSent now m r e) = EmailSendStatusSent"
  "se_RetryCount (MarkAsSent now m r e) = se_RetryCount e" "se_MaxRetries (MarkAsSent now m r e) = se_MaxRetries e"
  by (simp_all add: MarkAsSent_def)

lemma record_outcome_dispatched [simp]: "uc_dispatched (record_outcome ops e s) = uc_dispatched s"
  by (simp add: record_outcome_def split: prod.splits option.splits)

lemma dispatch_dispatched: "dispatch ops send now e s = (r, s') \<Longrightarrow> uc_dispatched s' = uc_dispatched s @ [e]"
  by (auto simp: dispatch_def Let_def split: sum.splits)

lemma new_sent_email_valid: "SendEmailRequest_Validate req = None \<Longrightarrow> SentEmail_IsValid (new_sent_email i t req)"
  by (auto simp: SendEmailRequest_Validate_def SentEmail_IsValid_def new_sent_email_def split: if_splits)

section \<open>The use case over any repository\<close>

context sent_email_repository
begin

text \<open>Recording an outcome changes only the message's own row, and only when the failure is not logged.\<close>

lemma record_outcome_rows:
  assumes "inv (uc_repo s)" "abs (uc_repo s) (se_ID e) \<noteq> None"
  shows "inv (uc_repo (record_outcome ops e s)) \<and>
    (uc_update_failures (record_outcome ops e s) = uc_update_failures s \<and>
       abs (uc_repo (record_outcome ops e s)) = (abs (uc_repo s))(se_ID e \<mapsto> persist e) \<or>
     uc_update_failures (record_outcome ops e s) = uc_update_failures s @ [se_ID e] \<and>
       abs (uc_repo (record_outcome ops e s)) = abs (uc_repo s))"
  using assms update [OF assms(1)] by (auto simp: record_outcome_def split: prod.splits option.splits)

definition outcome_row :: "sender \<Rightarrow> instant \<Rightarrow> SentEmail \<Rightarrow> 'st uc_state \<Rightarrow> SentEmail" where
  "outcome_row send now e s = (case send (uc_dispatched s) e of
     Inl err \<Rightarrow> MarkAsFailed now err e
   | Inr m \<Rightarrow> MarkAsSent now (Some (if m = [] then se_MessageID e else m)) (Some []) e)"

lemma dispatch_rows:
  assumes "inv (uc_repo s)" "abs (uc_repo s) (se_ID e) \<noteq> None" "dispatch ops send now e s = (r, s')"
  shows "inv (uc_repo s') \<and> uc_dispatched s' = uc_dispatched s @ [e] \<and>
    (uc_update_failures s' = uc_update_failures s \<and>
       abs (uc_repo s') = (abs (uc_repo s))(se_ID e \<mapsto> persist (outcome_row send now e s)) \<or>
     uc_update_failures s' = uc_update_failures s @ [se_ID e] \<and> abs (uc_repo s') = abs (uc_repo s))"
proof -
  let ?s1 = "s\<lparr>uc_dispatched := uc_dispatched s @ [e]\<rparr>"
  have "s' = record_outcome ops (outcome_row send now e s) ?s1"
    using assms(3) by (auto simp: dispatch_def outcome_row_def Let_def split: sum.splits)
  moreover have "se_ID (outcome_row send now e s) = se_ID e" by (simp add: outcome_row_def split: sum.splits)
  ultimately show ?thesis
    using record_outcome_rows [of ?s1 "outcome_row send now e s"] assms(1,2) by simp
qed

lemma send_cases:
  assumes "inv (uc_repo s)" "SendEmail ops send i created now req s = (r, s')"
  obtains (refused) "uc_dispatched s' = uc_dispatched s" "uc_update_failures s' = uc_update_failures s"
      "inv (uc_repo s')" "abs (uc_repo s') = abs (uc_repo s)" "\<exists>e. r = Inl e"
    | (sent) st where "SendEmailRequest_Validate req = None" "abs (uc_repo s) i = None" "inv st"
      "abs st = (abs (uc_repo s))(i \<mapsto> persist (new_sent_email i created req))"
      "dispatch ops send now (new_sent_email i created req) (s\<lparr>uc_repo := st\<rparr>) = (r, s')"
proof -
  let ?e = "new_sent_email i created req"
  show thesis
  proof (cases "SendEmailRequest_Validate req")
    case None
    obtain cr st where c: "repo_Create ops ?e (uc_repo s) = (cr, st)" by fastforce
    have "se_ID ?e = i" by (simp add: new_sent_email_def)
    then have k: "inv st" "if cr = None then abs (uc_repo s) i = None \<and> abs st = (abs (uc_repo s))(i \<mapsto> persist ?e)
        else abs st = abs (uc_repo s)"
      using create [OF assms(1) c] by auto
    show thesis
    proof (cases cr)
      case None
      then show thesis
        using sent [of st] \<open>SendEmailRequest_Validate req = None\<close> k assms(2) c new_sent_email_valid
        by (simp add: SendEmail_def Let_def)
    next
      case (Some err)
      then show thesis
        using refused k assms(2) c \<open>SendEmailRequest_Validate req = None\<close> new_sent_email_valid
        by (auto simp: SendEmail_def Let_def)
    qed
  next
    case (Some err)
    then show thesis using refused assms by (auto simp: SendEmail_def)
  qed
qed

lemma resend_cases:
  assumes "inv (uc_repo s)" "ResendEmail ops send now i s = (r, s')"
  obtains (refused) "uc_dispatched s' = uc_dispatched s" "uc_update_failures s' = uc_update_failures s"
      "inv (uc_repo s')" "abs (uc_repo s') = abs (uc_repo s)" "\<exists>e. r = Inl e"
    | (sent) e st where "abs (uc_repo s) i = Some e" "se_ID e = i" "SentEmail_CanRetry e" "inv st" "abs st = abs (uc_repo s)"
      "dispatch ops send now (e\<lparr>se_Status := EmailSendStatusPending\<rparr>) (s\<lparr>uc_repo := st\<rparr>) = (r, s')"
proof -
  obtain g st where g: "repo_Get ops i (uc_repo s) = (g, st)" by fastforce
  have k: "inv st" "abs st = abs (uc_repo s)" "case g of Inl _ \<Rightarrow> True | Inr e \<Rightarrow> abs (uc_repo s) i = Some e"
    using get [OF assms(1) g] by auto
  show thesis
  proof (cases g)
    case (Inl err)
    then show thesis using refused assms(2) g k by (auto simp: ResendEmail_def)
  next
    case (Inr e)
    then have e: "abs (uc_repo s) i = Some e" using k(3) by simp
    show thesis
    proof (cases "SentEmail_CanRetry e")
      case True
      then show thesis using sent [of e st] e stored_id [OF assms(1) e] k assms(2) g Inr by (simp add: ResendEmail_def)
    next
      case False
      then show thesis using refused assms(2) g k Inr by (auto simp: ResendEmail_def)
    qed
  qed
qed

lemma dispatch_failures: "dispatch ops send now e s = (r, s') \<Longrightarrow> \<exists>fs. uc_update_failures s' = uc_update_failures s @ fs"
  by (auto simp: dispatch_def record_outcome_def Let_def split: sum.splits prod.splits option.splits)

text \<open>A property of states that every single resend keeps is kept by the retry run.\<close>

lemma resend_all_induct:
  assumes "P s" and "\<And>now i s r s'. P s \<Longrightarrow> ResendEmail ops send now i s = (r, s') \<Longrightarrow> P s'"
  shows "P (resend_all ops send clock es s)"
  using assms(1)
proof (induction es arbitrary: clock s)
  case (Cons e es)
  then show ?case using assms(2) [OF Cons.prems] by (metis prod.collapse resend_all.simps(2))
qed simp

lemma step_induct:
  assumes "uc_step ops send s s'" "inv (uc_repo s)" "P s"
    and send: "\<And>i created now req s r s'. inv (uc_repo s) \<Longrightarrow> P s \<Longrightarrow> SendEmail ops send i created now req s = (r, s') \<Longrightarrow> P s'"
    and resend: "\<And>now i s r s'. inv (uc_repo s) \<Longrightarrow> P s \<Longrightarrow> ResendEmail ops send now i s = (r, s') \<Longrightarrow> P s'"
    and frame: "\<And>s st. inv (uc_repo s) \<Longrightarrow> P s \<Longrightarrow> inv st \<Longrightarrow> abs st = abs (uc_repo s) \<Longrightarrow> P (s\<lparr>uc_repo := st\<rparr>)"
  shows "inv (uc_repo s') \<and> P s'"
proof -
  have send_inv: "inv (uc_repo s')" if "inv (uc_repo s)" "SendEmail ops send i created now req s = (r, s')" for i created now req s r s'
    using that(1,2)
  proof (cases rule: send_cases)
    case (sent st)
    then show ?thesis using dispatch_rows [of "s\<lparr>uc_repo := st\<rparr>" "new_sent_email i created req"]
      by (simp add: new_sent_email_def)
  qed
  have resend_inv: "inv (uc_repo s')" if "inv (uc_repo s)" "ResendEmail ops send now i s = (r, s')" for now i s r s'
    using that(1,2)
  proof (cases rule: resend_cases)
    case (sent e st)
    then show ?thesis using dispatch_rows [of "s\<lparr>uc_repo := st\<rparr>" "e\<lparr>se_Status := EmailSendStatusPending\<rparr>"] by simp
  qed
  show ?thesis using assms(1)
  proof cases
    case (send_step i created now req r)
    then show ?thesis using send [OF assms(2,3)] send_inv [OF assms(2)] by blast
  next
    case (resend_step now i r)
    then show ?thesis using resend [OF assms(2,3)] resend_inv [OF assms(2)] by blast
  next
    case (retry_step db_now clock limit r)
    obtain q st where q: "repo_ForRetry ops db_now limit (uc_repo s) = (q, st)" by fastforce
    have k: "inv st" "abs st = abs (uc_repo s)" using for_retry [OF assms(2) q] by auto
    let ?s = "s\<lparr>uc_repo := st\<rparr>"
    have "inv (uc_repo ?s) \<and> P ?s" using k frame [OF assms(2,3)] by simp
    then have "inv (uc_repo (resend_all ops send clock es ?s)) \<and> P (resend_all ops send clock es ?s)" for es
      by (rule resend_all_induct) (use resend resend_inv in blast)
    then show ?thesis using retry_step q k frame [OF assms(2,3)]
      by (auto simp: ProcessRetryQueue_def split: sum.splits)
  qed
qed

text \<open>Every message handed to the sender has a row.\<close>

definition all_stored :: "'st uc_state \<Rightarrow> bool" where
  "all_stored s \<longleftrightarrow> (\<forall>e \<in> set (uc_dispatched s). abs (uc_repo s) (se_ID e) \<noteq> None)"

lemma dispatch_all_stored:
  assumes "inv (uc_repo s)" "abs (uc_repo s) (se_ID e) \<noteq> None" "all_stored s" "dispatch ops send now e s = (r, s')"
  shows "all_stored s'"
  using dispatch_rows [OF assms(1,2,4)] assms(2,3) by (auto simp: all_stored_def)

lemma run_all_stored:
  assumes "uc_run ops send s s'" "inv (uc_repo s)" "all_stored s"
  shows "inv (uc_repo s') \<and> all_stored s'"
  using assms unfolding uc_run_def
proof (induction rule: rtranclp_induct)
  case (step y z)
  have "inv (uc_repo y)" "all_stored y" using step by blast+
  with step(2) show ?case
  proof (rule step_induct [where P = all_stored], goal_cases)
    case (1 i created now req s r s')
    from 1(1,3) show ?case
    proof (cases rule: send_cases)
      case refused
      then show ?thesis using 1(2) by (simp add: all_stored_def)
    next
      case (sent st)
      have "all_stored (s\<lparr>uc_repo := st\<rparr>)" using 1(2) sent(4) by (auto simp: all_stored_def)
      then show ?thesis using sent by (intro dispatch_all_stored [OF _ _ _ sent(5)]) (auto simp: new_sent_email_def)
    qed
  next
    case (2 now i s r s')
    from 2(1,3) show ?case
    proof (cases rule: resend_cases)
      case refused
      then show ?thesis using 2(2) by (simp add: all_stored_def)
    next
      case (sent e st)
      have "all_stored (s\<lparr>uc_repo := st\<rparr>)" using 2(2) sent(5) by (simp add: all_stored_def)
      then show ?thesis using sent by (intro dispatch_all_stored [OF _ _ _ sent(6)]) auto
    qed
  qed (simp add: all_stored_def)
qed simp

text \<open>The retry budget: as long as no recording failed, a failed message was handed over exactly as often as
  its retry count says, which never exceeds its limit (or one).\<close>

definition row_budget :: "'st uc_state \<Rightarrow> uuid \<Rightarrow> bool" where
  "row_budget s i \<longleftrightarrow>
     (case abs (uc_repo s) i of
        None \<Rightarrow> attempts i s = 0
      | Some e \<Rightarrow> 0 \<le> se_MaxRetries e \<and>
          (se_Status e = EmailSendStatusFailed \<and> int (attempts i s) = se_RetryCount e \<and> se_RetryCount e \<le> max 1 (se_MaxRetries e) \<or>
           se_Status e = EmailSendStatusSent \<and> int (attempts i s) \<le> max 1 (se_MaxRetries e)))"

definition budget :: "'st uc_state \<Rightarrow> bool" where
  "budget s \<longleftrightarrow> (uc_update_failures s = [] \<longrightarrow> (\<forall>i. row_budget s i))"

lemma attempts_append: "uc_dispatched s' = uc_dispatched s @ [e] \<Longrightarrow>
    attempts i s' = attempts i s + (if se_ID e = i then 1 else 0)"
  by (simp add: attempts_def)

text \<open>Handing over a message that has attempts left keeps the budget, provided the outcome is recorded.\<close>

lemma dispatch_budget:
  assumes "inv (uc_repo s)" "abs (uc_repo s) (se_ID e) \<noteq> None" "dispatch ops send now e s = (r, s')"
    and others: "\<And>i. i \<noteq> se_ID e \<Longrightarrow> uc_update_failures s = [] \<Longrightarrow> row_budget s i"
    and own: "uc_update_failures s = [] \<Longrightarrow> 0 \<le> se_MaxRetries e \<and> int (attempts (se_ID e) s) = se_RetryCount e \<and>
      se_RetryCount e + 1 \<le> max 1 (se_MaxRetries e)"
  shows "budget s'"
  unfolding budget_def
proof (intro impI allI)
  fix i assume "uc_update_failures s' = []"
  then have f: "uc_update_failures s = []" and a: "abs (uc_repo s') = (abs (uc_repo s))(se_ID e \<mapsto> persist (outcome_row send now e s))"
    and d: "uc_dispatched s' = uc_dispatched s @ [e]"
    using dispatch_rows [OF assms(1-3)] by auto
  show "row_budget s' i"
  proof (cases "i = se_ID e")
    case True
    then show ?thesis using own [OF f] a attempts_append [OF d, of i]
      by (auto simp: row_budget_def outcome_row_def split: sum.splits)
  next
    case False
    then show ?thesis using others [OF False f] a attempts_append [OF d, of i]
      by (auto simp: row_budget_def split: option.splits)
  qed
qed

lemma row_budget_cong:
  assumes "uc_dispatched s' = uc_dispatched s" "abs (uc_repo s') i = abs (uc_repo s) i"
  shows "row_budget s' i = row_budget s i"
proof -
  have "attempts i s' = attempts i s" using assms(1) by (simp add: attempts_def)
  then show ?thesis unfolding row_budget_def assms(2) by (simp only:)
qed

lemma budget_same: "budget s \<Longrightarrow> uc_dispatched s' = uc_dispatched s \<Longrightarrow> uc_update_failures s' = uc_update_failures s \<Longrightarrow>
    abs (uc_repo s') = abs (uc_repo s) \<Longrightarrow> budget s'"
  using row_budget_cong [of s' s] by (simp add: budget_def)

lemma budget_frame: "budget s \<Longrightarrow> abs st = abs (uc_repo s) \<Longrightarrow> budget (s\<lparr>uc_repo := st\<rparr>)"
  by (rule budget_same) simp_all

lemma send_budget:
  assumes "inv (uc_repo s)" "budget s" "SendEmail ops send i created now req s = (r, s')"
  shows "budget s'"
  using assms(1,3)
proof (cases rule: send_cases)
  case refused
  then show ?thesis using assms(2) budget_same by blast
next
  case (sent st)
  let ?s = "s\<lparr>uc_repo := st\<rparr>" and ?e = "new_sent_email i created req"
  have e: "se_ID ?e = i" "se_RetryCount ?e = 0" "0 \<le> se_MaxRetries ?e"
    using sent(1) by (auto simp: new_sent_email_def SendEmailRequest_Validate_def split: if_splits)
  show ?thesis
  proof (rule dispatch_budget [OF _ _ sent(5)])
    show "row_budget ?s j" if "j \<noteq> se_ID ?e" "uc_update_failures ?s = []" for j
      using that assms(2) sent(4) e(1) row_budget_cong [of ?s s j] by (simp add: budget_def)
    show "0 \<le> se_MaxRetries ?e \<and> int (attempts (se_ID ?e) ?s) = se_RetryCount ?e \<and> se_RetryCount ?e + 1 \<le> max 1 (se_MaxRetries ?e)"
      if "uc_update_failures ?s = []"
    proof -
      have "row_budget s i" using that assms(2) by (simp add: budget_def)
      then have "attempts i s = 0" using sent(2) by (simp add: row_budget_def)
      then show ?thesis using e by (simp add: attempts_def)
    qed
  qed (use sent e(1) in auto)
qed

lemma resend_budget:
  assumes "inv (uc_repo s)" "budget s" "ResendEmail ops send now i s = (r, s')"
  shows "budget s'"
  using assms(1,3)
proof (cases rule: resend_cases)
  case refused
  then show ?thesis using assms(2) budget_same by blast
next
  case (sent e st)
  let ?s = "s\<lparr>uc_repo := st\<rparr>" and ?e = "e\<lparr>se_Status := EmailSendStatusPending\<rparr>"
  have retry: "se_Status e = EmailSendStatusFailed" "se_RetryCount e < se_MaxRetries e"
    using sent(3) by (auto simp: SentEmail_CanRetry_def elim: EmailSendStatus_CanRetry.elims)
  show ?thesis
  proof (rule dispatch_budget [OF _ _ sent(6)])
    show "row_budget ?s j" if "j \<noteq> se_ID ?e" "uc_update_failures ?s = []" for j
      using that assms(2) sent(5) row_budget_cong [of ?s s j] by (simp add: budget_def)
    show "0 \<le> se_MaxRetries ?e \<and> int (attempts (se_ID ?e) ?s) = se_RetryCount ?e \<and> se_RetryCount ?e + 1 \<le> max 1 (se_MaxRetries ?e)"
      if "uc_update_failures ?s = []"
    proof -
      have "row_budget s i" using that assms(2) by (simp add: budget_def)
      then show ?thesis using sent(1,2) retry by (auto simp: row_budget_def attempts_def)
    qed
  qed (use sent in auto)
qed

lemma run_budget:
  assumes "uc_run ops send s s'" "inv (uc_repo s)" "budget s"
  shows "inv (uc_repo s') \<and> budget s'"
  using assms unfolding uc_run_def
proof (induction rule: rtranclp_induct)
  case (step y z)
  have "inv (uc_repo y)" "budget y" using step by blast+
  with step(2) show ?case
    by (rule step_induct [where P = budget]) (use send_budget resend_budget budget_frame in blast)+
qed simp

lemma budget_bound:
  assumes "budget s" "uc_update_failures s = []" "abs (uc_repo s) i = Some e"
  shows "int (attempts i s) \<le> max 1 (se_MaxRetries e)"
proof -
  have "row_budget s i" using assms(1,2) by (simp add: budget_def)
  then show ?thesis using assms(3) by (auto simp: row_budget_def)
qed

text \<open>The retry run: which rows it may touch and how much it hands over.\<close>

lemma resend_frame:
  assumes "inv (uc_repo s)" "ResendEmail ops send now i s = (r, s')"
  shows "inv (uc_repo s') \<and> (\<forall>j. j \<noteq> i \<longrightarrow> abs (uc_repo s') j = abs (uc_repo s) j) \<and>
    (uc_dispatched s' = uc_dispatched s \<or> (\<exists>e. abs (uc_repo s) i = Some e \<and> SentEmail_CanRetry e \<and>
       uc_dispatched s' = uc_dispatched s @ [e\<lparr>se_Status := EmailSendStatusPending\<rparr>]))"
  using assms
proof (cases rule: resend_cases)
  case (sent e st)
  then show ?thesis using dispatch_rows [of "s\<lparr>uc_repo := st\<rparr>" "e\<lparr>se_Status := EmailSendStatusPending\<rparr>" send now r s'] by auto
qed simp

lemma resend_all_frame:
  assumes "inv (uc_repo s)"
  shows "inv (uc_repo (resend_all ops send clock es s)) \<and>
    (\<forall>j. j \<notin> se_ID ` set es \<longrightarrow> abs (uc_repo (resend_all ops send clock es s)) j = abs (uc_repo s) j) \<and>
    (\<exists>ds. uc_dispatched (resend_all ops send clock es s) = uc_dispatched s @ ds \<and> length ds \<le> length es \<and>
       se_ID ` set ds \<subseteq> se_ID ` set es)"
  using assms
proof (induction es arbitrary: clock s)
  case (Cons e es)
  obtain r s1 where r: "ResendEmail ops send (clock 0) (se_ID e) s = (r, s1)" by fastforce
  note f = resend_frame [OF Cons.prems r]
  have id: "se_ID x = se_ID e" if "abs (uc_repo s) (se_ID e) = Some x" for x using stored_id [OF Cons.prems that] .
  obtain ds where ds: "uc_dispatched (resend_all ops send (\<lambda>n. clock (Suc n)) es s1) = uc_dispatched s1 @ ds"
      "length ds \<le> length es" "se_ID ` set ds \<subseteq> se_ID ` set es"
    using Cons.IH [of s1 "\<lambda>n. clock (Suc n)"] f by blast
  have "\<exists>d. uc_dispatched s1 = uc_dispatched s @ d \<and> length d \<le> 1 \<and> se_ID ` set d \<subseteq> {se_ID e}"
  proof (cases "uc_dispatched s1 = uc_dispatched s")
    case False
    then obtain x where x: "abs (uc_repo s) (se_ID e) = Some x"
        "uc_dispatched s1 = uc_dispatched s @ [x\<lparr>se_Status := EmailSendStatusPending\<rparr>]" using f by blast
    then show ?thesis using id [OF x(1)] by (intro exI [of _ "[x\<lparr>se_Status := EmailSendStatusPending\<rparr>]"]) simp
  qed simp
  then obtain d where d: "uc_dispatched s1 = uc_dispatched s @ d" "length d \<le> 1" "se_ID ` set d \<subseteq> {se_ID e}" by blast
  have "uc_dispatched (resend_all ops send clock (e # es) s) = uc_dispatched s @ (d @ ds)" "length (d @ ds) \<le> length (e # es)"
    "se_ID ` set (d @ ds) \<subseteq> se_ID ` set (e # es)"
    using ds d r by auto
  moreover have "inv (uc_repo (resend_all ops send clock (e # es) s)) \<and>
      (\<forall>j. j \<notin> se_ID ` set (e # es) \<longrightarrow> abs (uc_repo (resend_all ops send clock (e # es) s)) j = abs (uc_repo s) j)"
    using Cons.IH [of s1 "\<lambda>n. clock (Suc n)"] f r by simp
  ultimately show ?case by blast
qed simp

end

section \<open>Properties over PostgreSQL\<close>

definition empty_db :: "uuid list \<Rightarrow> string option list \<Rightarrow> pg_state uc_state" where
  "empty_db ds fs = \<lparr>uc_repo = \<lparr>pg_faults = fs, pg_rows = [], pg_domains = ds\<rparr>, uc_dispatched = [], uc_update_failures = []\<rparr>"

lemma empty_db_ok: "table_ok (uc_repo (empty_db ds fs))"
  by (simp add: empty_db_def table_ok_def)

text \<open>Sample values: a request with two attempts, and a sender that fails on its first message.\<close>

definition sample_req :: SendEmailRequest where
  "sample_req = \<lparr>req_DomainID = 7, req_MessageID = ''m1'', req_From = ''a@b.org'', req_ReplyTo = [],
     req_ToAddresses = [''c@d.org''], req_CCAddresses = [], req_BCCAddresses = [], req_Subject = ''hi'',
     req_TextBody = Some ''text'', req_HTMLBody = None, req_MaxRetries = 2, req_WebhookData = None\<rparr>"

definition flaky :: sender where
  "flaky history e = (if history = [] then Inl ''connection refused'' else Inr [])"

definition after_send :: "pg_state uc_state" where
  "after_send = snd (SendEmail pg_repo flaky 1 1000 2000 sample_req (empty_db [7] []))"

definition after_resend :: "pg_state uc_state" where
  "after_resend = snd (ResendEmail pg_repo flaky 3000 1 after_send)"

lemma sample_sends_run: "uc_run pg_repo flaky (empty_db [7] []) after_resend"
proof -
  have "uc_step pg_repo flaky (empty_db [7] []) after_send"
    unfolding after_send_def by (rule send_step) (rule prod.collapse [symmetric])
  moreover have "uc_step pg_repo flaky after_send after_resend"
    unfolding after_resend_def by (rule resend_step) (rule prod.collapse [symmetric])
  ultimately show ?thesis unfolding uc_run_def by (rule rtranclp.rtrancl_into_rtrancl [OF r_into_rtranclp])
qed

text \<open>
  C20: The retry budget: starting from an empty table, in every sequence of sends, resends and retry runs,
  with any sender and any database failures, as long as no recording of an outcome failed, a message is
  handed to the sender at most as often as its limit allows (and at least the one first attempt is
  allowed).
\<close>

theorem retry_budget:
  assumes "uc_run pg_repo send (empty_db ds fs) s" "uc_update_failures s = []"
    and "pg_lookup (uc_repo s) i = Some e"
  shows "int (attempts i s) \<le> max 1 (se_MaxRetries e)"
proof -
  have "pg.budget (empty_db ds fs)"
    by (simp add: pg.budget_def pg.row_budget_def empty_db_def pg_lookup_def attempts_def)
  then show ?thesis using pg.run_budget [OF assms(1) empty_db_ok] pg.budget_bound assms(2,3) by blast
qed

theorem retry_budget_witness:
  "attempts 1 after_resend = 2 \<and> int (attempts 1 after_resend) \<le> max 1 2"
proof -
  have e: "map_option se_MaxRetries (pg_lookup (uc_repo after_resend) 1) = Some 2" by code_simp
  then obtain e where "pg_lookup (uc_repo after_resend) 1 = Some e" "se_MaxRetries e = 2" by auto
  moreover have "uc_update_failures after_resend = []" by code_simp
  moreover have "attempts 1 after_resend = 2" by code_simp
  ultimately show ?thesis using retry_budget [OF sample_sends_run, of 1 e] by simp
qed

text \<open>
  C21: Store before send: in every such sequence, whatever fails, each message that was ever handed to the
  sender has its row in the table, so an accepted message is never lost without trace.
\<close>

theorem stored_before_dispatch:
  assumes "uc_run pg_repo send (empty_db ds fs) s" "e \<in> set (uc_dispatched s)"
  shows "pg_lookup (uc_repo s) (se_ID e) \<noteq> None"
  using pg.run_all_stored [OF assms(1) empty_db_ok] assms(2)
  by (simp add: pg.all_stored_def empty_db_def)

theorem stored_before_dispatch_witness:
  "new_sent_email 1 1000 sample_req \<in> set (uc_dispatched after_resend) \<and> pg_lookup (uc_repo after_resend) 1 \<noteq> None"
proof -
  have m: "new_sent_email 1 1000 sample_req \<in> set (uc_dispatched after_resend)" by code_simp
  then show ?thesis using stored_before_dispatch [OF sample_sends_run m] by (simp add: new_sent_email_def)
qed

text \<open>
  C22: What \<open>SendEmail\<close> leaves behind on each path: refused before the hand-over, it changes nothing; otherwise
  it hands the message over exactly once, answers success exactly if the sender accepted it, with the time of the
  hand-over, and the row is the message marked as failed with the sender's error or as sent with the id the sender gave (its own
  where that is empty), or still the pending message if recording the outcome failed (which is then logged).
\<close>

theorem SendEmail_outcome:
  assumes "table_ok (uc_repo s)" "SendEmail pg_repo send i created now req s = (r, s')"
  shows "(case r of
       Inl (SenderFailed err) \<Rightarrow>
         uc_dispatched s' = uc_dispatched s @ [new_sent_email i created req] \<and>
         send (uc_dispatched s) (new_sent_email i created req) = Inl err \<and>
         pg_lookup (uc_repo s') i = Some (persist (if uc_update_failures s' = uc_update_failures s
           then MarkAsFailed now err (new_sent_email i created req) else new_sent_email i created req))
     | Inl _ \<Rightarrow> uc_dispatched s' = uc_dispatched s \<and> pg_lookup (uc_repo s') = pg_lookup (uc_repo s)
     | Inr resp \<Rightarrow>
         uc_dispatched s' = uc_dispatched s @ [new_sent_email i created req] \<and> resp_ID resp = i \<and>
         resp_MessageID resp = se_MessageID (new_sent_email i created req) \<and>
         resp_Status resp = EmailSendStatusSent \<and> resp_SentAt resp = Some now \<and>
         (\<exists>m. send (uc_dispatched s) (new_sent_email i created req) = Inr m \<and>
           pg_lookup (uc_repo s') i = Some (persist (if uc_update_failures s' = uc_update_failures s
             then MarkAsSent now (Some (if m = [] then se_MessageID (new_sent_email i created req) else m)) (Some []) (new_sent_email i created req)
             else new_sent_email i created req))))"
  using assms
proof (cases rule: pg.send_cases)
  case refused
  have "\<And>err. r \<noteq> Inl (SenderFailed err)"
  proof
    fix err assume "r = Inl (SenderFailed err)"
    then have "uc_dispatched s' \<noteq> uc_dispatched s"
      using assms(2) dispatch_dispatched
      by (fastforce simp: SendEmail_def Let_def split: option.splits if_splits prod.splits)
    then show False using refused(1) by simp
  qed
  then show ?thesis using refused by (auto split: sum.splits send_error.splits)
next
  case (sent st)
  let ?e = "new_sent_email i created req" and ?s = "s\<lparr>uc_repo := st\<rparr>"
  have i: "se_ID ?e = i" "se_Status ?e = EmailSendStatusPending" by (simp_all add: new_sent_email_def)
  have rows: "uc_dispatched s' = uc_dispatched s @ [?e]"
    "uc_update_failures s' = uc_update_failures s \<and> pg_lookup (uc_repo s') i = Some (persist (pg.outcome_row send now ?e ?s)) \<or>
     uc_update_failures s' \<noteq> uc_update_failures s \<and> pg_lookup (uc_repo s') i = Some (persist ?e)"
    using pg.dispatch_rows [OF _ _ sent(5)] sent(3,4) i by auto
  show ?thesis
  proof (cases "send (uc_dispatched s) ?e")
    case (Inl err)
    then have "r = Inl (SenderFailed err)" using sent(5) by (simp add: dispatch_def Let_def)
    then show ?thesis using rows Inl by (auto simp: pg.outcome_row_def)
  next
    case (Inr m)
    then obtain resp where "r = Inr resp" "resp_ID resp = i" "resp_MessageID resp = se_MessageID ?e"
        "resp_Status resp = EmailSendStatusSent" "resp_SentAt resp = Some now"
      using sent(5) i by (auto simp: dispatch_def Let_def)
    then show ?thesis using rows Inr by (auto simp: pg.outcome_row_def)
  qed
qed

theorem SendEmail_outcome_witness:
  "uc_dispatched after_send = [new_sent_email 1 1000 sample_req] \<and>
   pg_lookup (uc_repo after_send) 1 = Some (persist (MarkAsFailed 2000 ''connection refused'' (new_sent_email 1 1000 sample_req)))"
proof -
  have r: "fst (SendEmail pg_repo flaky 1 1000 2000 sample_req (empty_db [7] [])) = Inl (SenderFailed ''connection refused'')"
    by code_simp
  have f: "uc_update_failures after_send = uc_update_failures (empty_db [7] [])" by code_simp
  have d: "uc_dispatched (empty_db [7] []) = []" by (simp add: empty_db_def)
  have "SendEmail pg_repo flaky 1 1000 2000 sample_req (empty_db [7] []) = (Inl (SenderFailed ''connection refused''), after_send)"
    using r unfolding after_send_def by (metis prod.collapse)
  from SendEmail_outcome [OF empty_db_ok this] f d show ?thesis by simp
qed

text \<open>
  A retry run hands over at most \<open>limit\<close> messages, every one of them failed, due and with attempts left
  when the run started, and leaves the row of every other message as it was.
\<close>

theorem ProcessRetryQueue_scope:
  assumes "table_ok (uc_repo s)" "ProcessRetryQueue pg_repo send db_now clock limit s = (r, s')"
  shows "(\<exists>new. uc_dispatched s' = uc_dispatched s @ new \<and> length new \<le> nat limit \<and>
      list_all (\<lambda>d. \<exists>e. pg_lookup (uc_repo s) (se_ID d) = Some e \<and> due_for_retry db_now e) new) \<and>
    (pg_lookup (uc_repo s) j = Some e \<and> \<not> due_for_retry db_now e \<longrightarrow> pg_lookup (uc_repo s') j = Some e)"
proof -
  obtain q st where q: "repo_ForRetry pg_repo db_now limit (uc_repo s) = (q, st)" by fastforce
  note c = pg.for_retry [OF assms(1) q]
  show ?thesis
  proof (cases q)
    case (Inl err)
    then show ?thesis using assms(2) q c by (auto simp: ProcessRetryQueue_def intro: exI [of _ "[]"])
  next
    case (Inr es)
    then have es: "length es \<le> nat limit" "\<forall>e \<in> set es. pg_lookup (uc_repo s) (se_ID e) = Some e \<and> due_for_retry db_now e"
      using c by auto
    let ?s = "s\<lparr>uc_repo := st\<rparr>"
    have s': "s' = resend_all pg_repo send clock es ?s" using assms(2) q Inr by (simp add: ProcessRetryQueue_def)
    have st: "table_ok (uc_repo ?s)" "pg_lookup (uc_repo ?s) = pg_lookup (uc_repo s)" using c by auto
    note f = pg.resend_all_frame [OF st(1), of send clock es, folded s']
    obtain new where new: "uc_dispatched s' = uc_dispatched s @ new" "length new \<le> length es" "se_ID ` set new \<subseteq> se_ID ` set es"
      using f by auto
    have "\<exists>e. pg_lookup (uc_repo s) (se_ID d) = Some e \<and> due_for_retry db_now e" if "d \<in> set new" for d
    proof -
      obtain x where "x \<in> set es" "se_ID d = se_ID x" using new(3) \<open>d \<in> set new\<close> by blast
      then show ?thesis using es(2) by metis
    qed
    moreover have "pg_lookup (uc_repo s') j = Some e" if "pg_lookup (uc_repo s) j = Some e" "\<not> due_for_retry db_now e"
    proof -
      have "j \<notin> se_ID ` set es" using es(2) that by auto
      then show ?thesis using f st(2) that(1) by simp
    qed
    ultimately show ?thesis using new es(1) by (auto simp: list_all_iff intro!: exI [of _ new])
  qed
qed

definition minutes15 :: int where "minutes15 = 15 * time_Minute"

theorem ProcessRetryQueue_scope_witness:
  "length (uc_dispatched (snd (ProcessRetryQueue pg_repo flaky (2000 + minutes15) (\<lambda>_. 2000 + minutes15) 10 after_send))) = 2 \<and>
   (\<exists>new. uc_dispatched (snd (ProcessRetryQueue pg_repo flaky (2000 + minutes15) (\<lambda>_. 2000 + minutes15) 10 after_send)) =
       uc_dispatched after_send @ new \<and> length new \<le> 10)"
proof -
  let ?p = "ProcessRetryQueue pg_repo flaky (2000 + minutes15) (\<lambda>_. 2000 + minutes15) 10 after_send"
  have ok: "table_ok (uc_repo after_send)" by code_simp
  have "?p = (fst ?p, snd ?p)" by simp
  from ProcessRetryQueue_scope [OF ok this]
  have "\<exists>new. uc_dispatched (snd ?p) = uc_dispatched after_send @ new \<and> length new \<le> 10" by auto
  moreover have "length (uc_dispatched (snd ?p)) = 2" by code_simp
  ultimately show ?thesis by blast
qed

text \<open>
  Delivery is at least once, not exactly once: when a resend succeeds but its outcome cannot be recorded,
  the row is unchanged and still asks for a retry, so a further resend hands the same message over again.
\<close>

theorem resend_duplicate:
  assumes "table_ok (uc_repo s)" "ResendEmail pg_repo send now i s = (Inr resp, s')"
    and "uc_update_failures s' \<noteq> uc_update_failures s"
  shows "pg_lookup (uc_repo s') = pg_lookup (uc_repo s) \<and>
    (\<exists>e. pg_lookup (uc_repo s') i = Some e \<and> SentEmail_CanRetry e \<and>
       uc_dispatched s' = uc_dispatched s @ [e\<lparr>se_Status := EmailSendStatusPending\<rparr>])"
  using assms(1,2)
proof (cases rule: pg.resend_cases)
  case (sent e st)
  then show ?thesis using pg.dispatch_rows [OF _ _ sent(6)] assms(3) by auto
qed (use assms(3) in auto)

theorem resend_duplicate_witness:
  "length (uc_dispatched (snd (ResendEmail pg_repo flaky 3000 1
     (after_send\<lparr>uc_repo := (uc_repo after_send)\<lparr>pg_faults := [None, Some ''connection reset'']\<rparr>\<rparr>)))) = 2 \<and>
   pg_lookup (uc_repo (snd (ResendEmail pg_repo flaky 3000 1
     (after_send\<lparr>uc_repo := (uc_repo after_send)\<lparr>pg_faults := [None, Some ''connection reset'']\<rparr>\<rparr>)))) =
   pg_lookup (uc_repo after_send)"
proof -
  let ?s = "after_send\<lparr>uc_repo := (uc_repo after_send)\<lparr>pg_faults := [None, Some ''connection reset'']\<rparr>\<rparr>"
  let ?p = "ResendEmail pg_repo flaky 3000 1 ?s"
  have ok: "table_ok (uc_repo ?s)" by code_simp
  have "\<exists>resp. fst ?p = Inr resp"
  proof -
    have "(case fst ?p of Inl _ \<Rightarrow> False | Inr _ \<Rightarrow> True)" by code_simp
    then show ?thesis by (simp split: sum.splits)
  qed
  then obtain resp where p: "?p = (Inr resp, snd ?p)" by (metis prod.collapse)
  have "uc_update_failures (snd ?p) \<noteq> uc_update_failures ?s" by code_simp
  from resend_duplicate [OF ok p this] have "pg_lookup (uc_repo (snd ?p)) = pg_lookup (uc_repo ?s)" by blast
  moreover have "length (uc_dispatched (snd ?p)) = 2" by code_simp
  ultimately show ?thesis by simp
qed

end
