(* ===== verification/NetIP.thy ===== *)
theory NetIP
  imports GoStrings
begin

unbundle bit_operations_syntax

text \<open>
  The part of Go's \<open>net\<close> package that the mail checks rely on: addresses as byte slices of length 4
  or 16, \<open>IP.To4\<close>, \<open>IP.Equal\<close>, \<open>IP.Mask\<close>, \<open>CIDRMask\<close>, \<open>ParseCIDR\<close> (with the textual address syntax of
  \<open>net/netip\<close>) and \<open>IPNet.Contains\<close>. The main fact is that \<open>Contains\<close> compares exactly the leading
  bits that the prefix length names.
\<close>

section \<open>Addresses and masks\<close>

type_synonym byte = "8 word"
type_synonym ip = "byte list"

definition v4InV6Prefix :: "byte list" where
  "v4InV6Prefix = [0, 0, 0, 0, 0, 0, 0, 0, 0, 0, 0xFF, 0xFF]"

definition To4 :: "ip \<Rightarrow> ip option" where
  "To4 a = (if length a = 4 then Some a
            else if length a = 16 \<and> take 12 a = v4InV6Prefix then Some (drop 12 a)
            else None)"

definition IP_Equal :: "ip \<Rightarrow> ip \<Rightarrow> bool" where
  "IP_Equal a b =
     (if length a = length b then a = b
      else if length a = 4 \<and> length b = 16 then take 12 b = v4InV6Prefix \<and> a = drop 12 b
      else if length a = 16 \<and> length b = 4 then take 12 a = v4InV6Prefix \<and> drop 12 a = b
      else False)"

fun CIDRMask :: "nat \<Rightarrow> nat \<Rightarrow> byte list" where
  "CIDRMask n 0 = []"
| "CIDRMask n (Suc l) =
     (if 8 \<le> n then 0xFF # CIDRMask (n - 8) l else NOT (drop_bit n 0xFF) # CIDRMask 0 l)"

definition and_bytes :: "byte list \<Rightarrow> byte list \<Rightarrow> byte list" where
  "and_bytes a m = map2 (AND) a m"

record IPNet =
  net_IP :: ip
  net_Mask :: "byte list"

text \<open>\<open>IP.Mask\<close> for the two shapes \<open>ParseCIDR\<close> produces: a 4-byte mask on a v4-mapped address, and a
  16-byte mask on a 16-byte address.\<close>

definition IP_Mask :: "ip \<Rightarrow> byte list \<Rightarrow> ip option" where
  "IP_Mask a m =
     (let a' = (if length m = 4 \<and> length a = 16 \<and> take 12 a = v4InV6Prefix then drop 12 a else a)
      in if length a' \<noteq> length m then None else Some (and_bytes a' m))"

definition networkNumberAndMask :: "IPNet \<Rightarrow> (ip \<times> byte list) option" where
  "networkNumberAndMask n =
     (let a = (case To4 (net_IP n) of Some x \<Rightarrow> x | None \<Rightarrow> net_IP n); m = net_Mask n
      in if length a \<noteq> 4 \<and> length a \<noteq> 16 then None
         else if length m = 4 then (if length a = 4 then Some (a, m) else None)
         else if length m = 16 then (if length a = 4 then Some (a, drop 12 m) else Some (a, m))
         else None)"

definition IPNet_Contains :: "IPNet \<Rightarrow> ip \<Rightarrow> bool" where
  "IPNet_Contains n a =
     (case networkNumberAndMask n of
        None \<Rightarrow> a = []
      | Some (nn, m) \<Rightarrow>
          (let a' = (case To4 a of Some x \<Rightarrow> x | None \<Rightarrow> a)
           in length a' = length nn \<and> and_bytes nn m = and_bytes a' m))"

section \<open>Textual addresses\<close>

definition digit_val :: "char \<Rightarrow> int" where
  "digit_val c = of_char c - 48"

text \<open>\<open>dtoi\<close>: a non-empty run of decimal digits (values from \<open>0xFFFFFF\<close> up are rejected).\<close>

definition dec_int :: "string \<Rightarrow> int" where
  "dec_int s = foldl (\<lambda>n c. 10 * n + digit_val c) 0 s"

definition parse_dec :: "string \<Rightarrow> nat option" where
  "parse_dec s = (if s \<noteq> [] \<and> list_all is_digit s \<and> dec_int s < 0xFFFFFF then Some (nat (dec_int s)) else None)"

text \<open>A field of a dotted quad: decimal, no leading zero, at most 255.\<close>

definition parse_octet :: "string \<Rightarrow> byte option" where
  "parse_octet s =
     (if s \<noteq> [] \<and> list_all is_digit s \<and> (length s > 1 \<longrightarrow> hd s \<noteq> CHR ''0'') \<and> dec_int s \<le> 255
      then Some (of_int (dec_int s)) else None)"

definition parse_ipv4 :: "string \<Rightarrow> byte list option" where
  "parse_ipv4 s =
     (case map parse_octet (Split CHR ''.'' s) of
        [Some a, Some b, Some c, Some d] \<Rightarrow> Some [a, b, c, d]
      | _ \<Rightarrow> None)"

definition hex_val :: "char \<Rightarrow> int option" where
  "hex_val c = (if is_digit c then Some (of_char c - 48)
                else if 97 \<le> code c \<and> code c \<le> 102 then Some (of_char c - 87)
                else if 65 \<le> code c \<and> code c \<le> 70 then Some (of_char c - 55)
                else None)"

definition hex_group :: "string \<Rightarrow> int" where
  "hex_group s = foldl (\<lambda>n c. 16 * n + the (hex_val c)) 0 s"

text \<open>
  The loop of \<open>parseIPv6\<close>: \<open>bs\<close> are the bytes read so far and \<open>ell\<close> the position of the double colon.
  The result is the byte list before expansion with the position of the double colon, or failure.
\<close>

function parse_v6_groups :: "string \<Rightarrow> byte list \<Rightarrow> nat option \<Rightarrow> (byte list \<times> nat option) option" where
  "parse_v6_groups s bs ell =
     (if 16 \<le> length bs then (if s = [] then Some (bs, ell) else None)
      else let g = takeWhile (\<lambda>c. hex_val c \<noteq> None) s; r = drop (length g) s in
           if g = [] \<or> 4 < length g then None
           else if r \<noteq> [] \<and> hd r = CHR ''.'' then
             (if (ell = None \<and> length bs \<noteq> 12) \<or> 16 < length bs + 4 then None
              else case parse_ipv4 s of None \<Rightarrow> None | Some q \<Rightarrow> Some (bs @ q, ell))
           else let v = hex_group g; bs' = bs @ [of_int (v div 256), of_int (v mod 256)] in
                if r = [] then Some (bs', ell)
                else if hd r \<noteq> CHR '':'' \<or> length r = 1 then None
                else let r' = tl r in
                     if hd r' = CHR '':'' then
                       (if ell \<noteq> None then None
                        else if tl r' = [] then Some (bs', Some (length bs'))
                        else parse_v6_groups (tl r') bs' (Some (length bs')))
                     else parse_v6_groups r' bs' ell)"
  by pat_completeness auto
termination
  by (relation "measure (\<lambda>(s, bs, ell). 16 - length bs)") auto

definition parse_ipv6 :: "string \<Rightarrow> byte list option" where
  "parse_ipv6 s =
     (let start = (if HasPrefix s ''::'' then (drop 2 s, Some 0) else (s, None))
      in if CHR ''%'' \<in> set s then None
         else if fst start = [] \<and> snd start \<noteq> None then Some (replicate 16 0)
         else case parse_v6_groups (fst start) [] (snd start) of
                None \<Rightarrow> None
              | Some (bs, None) \<Rightarrow> if length bs = 16 then Some bs else None
              | Some (bs, Some e) \<Rightarrow>
                  if length bs = 16 then None
                  else Some (take e bs @ replicate (16 - length bs) 0 @ drop e bs))"

text \<open>\<open>netip.ParseAddr\<close>: the first dot or colon decides the family. An address with a zone is an
  error of \<open>ParseCIDR\<close>, and of the family test when the percent sign comes first.\<close>

definition ParseCIDR :: "string \<Rightarrow> IPNet option" where
  "ParseCIDR s =
     (case IndexByte s CHR ''/'' of
        None \<Rightarrow> None
      | Some i \<Rightarrow>
          let addr = take i s; mask = drop (i + 1) s;
              first = find (\<lambda>c. c = CHR ''.'' \<or> c = CHR '':'' \<or> c = CHR ''%'') addr
          in (case (if first = Some CHR ''.'' then map_option (\<lambda>a. (v4InV6Prefix @ a, 4)) (parse_ipv4 addr)
                    else if first = Some CHR '':'' then map_option (\<lambda>a. (a, 16)) (parse_ipv6 addr)
                    else None) of
                None \<Rightarrow> None
              | Some (a16, l) \<Rightarrow>
                  (case parse_dec mask of
                     None \<Rightarrow> None
                   | Some n \<Rightarrow> if n > 8 * l then None
                               else map_option (\<lambda>a. \<lparr>net_IP = a, net_Mask = CIDRMask n l\<rparr>)
                                      (IP_Mask a16 (CIDRMask n l)))))"

section \<open>Leading bits\<close>

text \<open>Bit \<open>i\<close> of an address, counted from the most significant bit of the first byte.\<close>

definition addr_bit :: "ip \<Rightarrow> nat \<Rightarrow> bool" where
  "addr_bit a i = bit (a ! (i div 8)) (7 - i mod 8)"

lemma length_CIDRMask [simp]: "length (CIDRMask n l) = l"
  by (induction n l rule: CIDRMask.induct) auto

lemma length_and_bytes [simp]: "length (and_bytes a m) = min (length a) (length m)"
  by (simp add: and_bytes_def)

lemma nth_and_bytes: "k < length a \<Longrightarrow> k < length m \<Longrightarrow> and_bytes a m ! k = a ! k AND m ! k"
  by (simp add: and_bytes_def)

lemma and_bytes_idem: "and_bytes (and_bytes a m) m = and_bytes a m"
  by (auto simp: list_eq_iff_nth_eq nth_and_bytes ac_simps)

lemma bit_mask_byte: "j < 8 \<Longrightarrow> n < 8 \<Longrightarrow> bit (NOT (drop_bit n (0xFF :: byte))) j \<longleftrightarrow> 7 - j < n"
proof -
  assume "j < 8" "n < 8"
  then have "\<forall>j \<in> {0, 1, 2, 3, 4, 5, 6, 7}. \<forall>n \<in> {0, 1, 2, 3, 4, 5, 6, 7}.
      bit (NOT (drop_bit n (0xFF :: byte))) j \<longleftrightarrow> 7 - j < n" by code_simp
  moreover have "j \<in> {0, 1, 2, 3, 4, 5, 6, 7}" "n \<in> {0, 1, 2, 3, 4, 5, 6, 7}"
    using \<open>j < 8\<close> \<open>n < 8\<close> by auto
  ultimately show ?thesis by blast
qed

lemma bit_CIDRMask: "k < l \<Longrightarrow> j < 8 \<Longrightarrow> bit (CIDRMask n l ! k) j \<longleftrightarrow> 8 * k + (7 - j) < n"
proof (induction n l arbitrary: k rule: CIDRMask.induct)
  case (1 n)
  then show ?case by simp
next
  case (2 n l)
  have ff: "bit (0xFF :: byte) j" using "2.prems"(2)
    by (simp add: less_Suc_eq numeral_eq_Suc) (auto simp: bit_Suc)
  show ?case
  proof (cases k)
    case 0
    then show ?thesis using 2 ff bit_mask_byte [of j n] by auto
  next
    case (Suc k')
    then show ?thesis using 2 by auto
  qed
qed

lemma byte_eq_masked_iff:
  assumes "k < l" "length a = l" "length b = l"
  shows "a ! k AND CIDRMask n l ! k = b ! k AND CIDRMask n l ! k \<longleftrightarrow>
    (\<forall>i. i div 8 = k \<and> i < n \<longrightarrow> addr_bit a i = addr_bit b i)" (is "?L \<longleftrightarrow> ?R")
proof
  assume ?L
  show ?R
  proof (intro allI impI)
    fix i assume i: "i div 8 = k \<and> i < n"
    have "8 * k + (7 - (7 - i mod 8)) = i" using i by (simp add: algebra_simps) presburger
    then have m: "bit (CIDRMask n l ! k) (7 - i mod 8)" using bit_CIDRMask [OF assms(1), of "7 - i mod 8" n] i by simp
    have "bit (a ! k AND CIDRMask n l ! k) (7 - i mod 8) = bit (b ! k AND CIDRMask n l ! k) (7 - i mod 8)"
      using \<open>?L\<close> by simp
    then show "addr_bit a i = addr_bit b i" using m i by (auto simp: bit_and_iff addr_bit_def)
  qed
next
  assume R: ?R
  show ?L
  proof (rule bit_word_eqI)
    fix j assume "j < LENGTH(8)"
    then have j: "j < 8" by simp
    let ?i = "8 * k + (7 - j)"
    have j7: "j \<le> 7" "7 - j < 8" using j by simp_all
    have "(7 - j + 8 * k) div 8 = k" "(7 - j + 8 * k) mod 8 = 7 - j"
      using j7(2) by (simp_all only: div_mult_self2 mod_mult_self2 div_less mod_less)
    then have d: "?i div 8 = k" "7 - ?i mod 8 = j"
      using j7(1) by (simp_all only: add.commute [of "8 * k"] diff_diff_cancel)
    have "bit (CIDRMask n l ! k) j \<Longrightarrow> bit (a ! k) j = bit (b ! k) j"
      using R [rule_format, of ?i] d(1) bit_CIDRMask [OF assms(1) j, of n]
      unfolding addr_bit_def d by blast
    then show "bit (a ! k AND CIDRMask n l ! k) j = bit (b ! k AND CIDRMask n l ! k) j"
      by (auto simp: bit_and_iff)
  qed
qed

lemma masked_eq_iff:
  assumes "length a = l" "length b = l" "n \<le> 8 * l"
  shows "and_bytes a (CIDRMask n l) = and_bytes b (CIDRMask n l) \<longleftrightarrow>
    (\<forall>i < n. addr_bit a i = addr_bit b i)"
proof -
  have "and_bytes a (CIDRMask n l) = and_bytes b (CIDRMask n l) \<longleftrightarrow>
      (\<forall>k < l. a ! k AND CIDRMask n l ! k = b ! k AND CIDRMask n l ! k)"
    using assms by (auto simp: list_eq_iff_nth_eq nth_and_bytes)
  also have "\<dots> \<longleftrightarrow> (\<forall>k < l. \<forall>i. i div 8 = k \<and> i < n \<longrightarrow> addr_bit a i = addr_bit b i)"
    using byte_eq_masked_iff [OF _ assms(1,2)] by simp
  also have "\<dots> \<longleftrightarrow> (\<forall>i < n. addr_bit a i = addr_bit b i)"
  proof -
    have "i div 8 < l" if "i < n" for i using that assms(3) by (intro less_mult_imp_div_less) simp
    then show ?thesis by blast
  qed
  finally show ?thesis .
qed

lemma parse_ipv4_length: "parse_ipv4 s = Some a \<Longrightarrow> length a = 4"
  by (auto simp: parse_ipv4_def split: list.splits option.splits)

lemma set_Split: "set s \<subseteq> insert c (\<Union> (set ` set (Split c s)))"
proof -
  have "set (Join ps [c]) \<subseteq> insert c (\<Union> (set ` set ps))" for ps
    by (induction ps "[c]" rule: Join.induct) auto
  then show ?thesis using Split_concat by metis
qed

lemma parse_ipv4_chars:
  assumes "parse_ipv4 s = Some a"
  shows "CHR ''.'' \<in> set s" and "x \<in> set s \<Longrightarrow> is_digit x \<or> x = CHR ''.''"
proof -
  have fields: "\<exists>p q r t. Split CHR ''.'' s = [p, q, r, t] \<and>
      (\<forall>f \<in> {p, q, r, t}. parse_octet f \<noteq> None)"
    using assms by (auto simp: parse_ipv4_def map_eq_Cons_conv split: list.splits option.splits)
  then show "CHR ''.'' \<in> set s" using Split_single by fastforce
  have "list_all is_digit f" if "f \<in> set (Split CHR ''.'' s)" for f
    using fields that by (auto simp: parse_octet_def split: if_splits)
  then show "is_digit x \<or> x = CHR ''.''" if "x \<in> set s"
    using set_Split [of s "CHR ''.''"] that by (auto simp: list_all_iff)
qed

lemma find_unique: "x \<in> set s \<Longrightarrow> P x \<Longrightarrow> \<forall>y \<in> set s. P y \<longrightarrow> y = x \<Longrightarrow> find P s = Some x"
  by (induction s) (simp, metis find.simps(2) list.set_intros set_ConsD)

lemma IndexByte_append: "c \<notin> set a \<Longrightarrow> IndexByte (a @ c # b) c = Some (length a)"
  by (induction a) fastforce+

lemma parse_dec_no_slash: "parse_dec m = Some n \<Longrightarrow> CHR ''/'' \<notin> set m"
  by (auto simp: parse_dec_def list_all_iff is_digit_def split: if_splits)

text \<open>A dotted quad with a prefix length of at most 32 parses to the masked network address.\<close>

lemma ParseCIDR_v4:
  assumes "parse_ipv4 a = Some net" and "parse_dec m = Some n" and "n \<le> 32"
  shows "ParseCIDR (a @ CHR ''/'' # m) = Some \<lparr>net_IP = and_bytes net (CIDRMask n 4), net_Mask = CIDRMask n 4\<rparr>"
proof -
  note chars = parse_ipv4_chars [OF assms(1)]
  have slash: "CHR ''/'' \<notin> set a" using chars(2) [of "CHR ''/''"] by (auto simp: is_digit_def)
  have "find (\<lambda>c. c = CHR ''.'' \<or> c = CHR '':'' \<or> c = CHR ''%'') a = Some CHR ''.''"
    using chars(2) [of "CHR '':''"] chars(2) [of "CHR ''%''"]
    by (intro find_unique [OF chars(1)]) (auto simp: is_digit_def)
  then show ?thesis using assms slash parse_ipv4_length [OF assms(1)]
    by (simp add: ParseCIDR_def IndexByte_append IP_Mask_def v4InV6Prefix_def)
qed

lemma To4_Some_length: "To4 a = Some b \<Longrightarrow> length b = 4"
  by (auto simp: To4_def split: if_splits)

lemma Contains_v4:
  assumes "length net = 4" "To4 b = Some c" "n \<le> 32"
  shows "IPNet_Contains \<lparr>net_IP = and_bytes net (CIDRMask n 4), net_Mask = CIDRMask n 4\<rparr> b \<longleftrightarrow>
    (\<forall>i < n. addr_bit net i = addr_bit c i)"
  using masked_eq_iff [OF assms(1) To4_Some_length [OF assms(2)], of n] To4_Some_length [OF assms(2)] assms
  by (simp add: IPNet_Contains_def networkNumberAndMask_def To4_def [of "and_bytes _ _"] and_bytes_idem Let_def)

end
