(* ===== verification/GoFloat.thy ===== *)
theory GoFloat
  imports Prelude "HOL-Library.Log_Nat"
begin

text \<open>
  Go's \<open>float64\<close> for the magnitudes the spam scores have. A value is the rational number it denotes,
  and \<open>f64\<close> rounds an exact result to the nearest number with a 53-bit significand, ties to even, as
  IEEE 754 prescribes for each single addition, subtraction, multiplication and division. The exponent
  is unbounded here: scores lie far from overflow and from the subnormal range, and no code modelled
  divides by zero. Fused multiply-add, which the compiler does not emit for its default amd64 level,
  is not modelled.
\<close>

type_synonym float64 = rat

definition pow2 :: "int \<Rightarrow> rat" where
  "pow2 e = (if 0 \<le> e then 2 ^ nat e else 1 / 2 ^ nat (- e))"

text \<open>The binary exponent of a non-zero number.\<close>

definition ilog2 :: "rat \<Rightarrow> int" where
  "ilog2 x = (case quotient_of \<bar>x\<bar> of (n, d) \<Rightarrow>
     let k = bitlen n - bitlen d in if pow2 k \<le> \<bar>x\<bar> then k else k - 1)"

definition round_even :: "rat \<Rightarrow> int" where
  "round_even x =
     (let f = \<lfloor>x\<rfloor>; r = x - of_int f
      in if r < 1 / 2 then f else if 1 / 2 < r then f + 1 else if even f then f else f + 1)"

definition f64 :: "rat \<Rightarrow> float64" where
  "f64 x = (if x = 0 then 0
            else let u = pow2 (ilog2 x - 52) in of_int (round_even (x / u)) * u)"

text \<open>The arithmetic operators.\<close>

definition fadd :: "float64 \<Rightarrow> float64 \<Rightarrow> float64" where
  "fadd a b = f64 (a + b)"

definition fsub :: "float64 \<Rightarrow> float64 \<Rightarrow> float64" where
  "fsub a b = f64 (a - b)"

definition fmul :: "float64 \<Rightarrow> float64 \<Rightarrow> float64" where
  "fmul a b = f64 (a * b)"

definition fdiv :: "float64 \<Rightarrow> float64 \<Rightarrow> float64" where
  "fdiv a b = f64 (a / b)"

section \<open>Rounding is monotone and exact on small integers\<close>

lemma pow2_pos [simp]: "0 < pow2 e"
  by (simp add: pow2_def)

lemma pow2_nonzero [simp]: "pow2 e \<noteq> 0"
  using pow2_pos [of e] by (metis less_irrefl)

lemma pow2_eq_powi: "pow2 e = 2 powi e"
  by (auto simp: pow2_def power_int_def field_simps)

lemma pow2_add: "pow2 (a + b) = pow2 a * pow2 b"
  by (simp add: pow2_eq_powi power_int_add)

lemma pow2_mono: "a \<le> b \<Longrightarrow> pow2 a \<le> pow2 b"
  by (simp add: pow2_eq_powi power_int_increasing)

lemma pow2_mono_iff: "pow2 a < pow2 b \<longleftrightarrow> a < b"
  using pow2_mono [of b a] power_int_strict_increasing [of a b "2 :: rat"]
  by (auto simp: pow2_eq_powi not_le [symmetric])

lemma pow2_nat: "pow2 (int n) = 2 ^ n"
  by (simp add: pow2_def)

lemma bitlen_range: "0 < n \<Longrightarrow> pow2 (bitlen n - 1) \<le> of_int n \<and> of_int n < pow2 (bitlen n)"
proof -
  assume "0 < n"
  then have b: "2 ^ nat (bitlen n - 1) \<le> n" "n < 2 ^ nat (bitlen n)" "0 < bitlen n"
    using bitlen_bounds [of n] bitlen_eq_zero_iff [of n] bitlen_nonneg [of n] by linarith+
  have "of_int (2 ^ nat (bitlen n - 1)) \<le> (of_int n :: rat)" "(of_int n :: rat) < of_int (2 ^ nat (bitlen n))"
    using b by linarith+
  then show ?thesis using b(3) by (simp add: pow2_def)
qed

lemma ilog2_bounds: "x \<noteq> 0 \<Longrightarrow> pow2 (ilog2 x) \<le> \<bar>x\<bar> \<and> \<bar>x\<bar> < pow2 (ilog2 x + 1)"
proof -
  assume "x \<noteq> 0"
  obtain n d where q: "quotient_of \<bar>x\<bar> = (n, d)" by force
  have d: "0 < d" using quotient_of_denom_pos [OF q] .
  have eq: "\<bar>x\<bar> = of_int n / of_int d" using quotient_of_div [OF q] .
  have n: "0 < n"
  proof -
    have "0 < (of_int n :: rat) / of_int d" using \<open>x \<noteq> 0\<close> eq by (metis zero_less_abs_iff)
    then show ?thesis using d by (simp add: zero_less_divide_iff)
  qed
  let ?k = "bitlen n - bitlen d"
  have bn: "pow2 (bitlen n - 1) \<le> of_int n" "of_int n < pow2 (bitlen n)"
    and bd: "pow2 (bitlen d - 1) \<le> of_int d" "of_int d < pow2 (bitlen d)"
    using bitlen_range n d by auto
  have "pow2 (?k - 1) * of_int d \<le> pow2 (?k - 1) * pow2 (bitlen d)"
    using bd(2) by (intro mult_left_mono) (simp_all add: less_imp_le)
  also have "\<dots> \<le> of_int n" using bn(1) by (simp add: pow2_add [symmetric])
  finally have lo: "pow2 (?k - 1) \<le> \<bar>x\<bar>" using d by (simp add: eq field_simps)
  have "of_int n < pow2 (?k + 1) * pow2 (bitlen d - 1)" using bn(2) by (simp add: pow2_add [symmetric])
  also have "\<dots> \<le> pow2 (?k + 1) * of_int d" using bd(1) by (intro mult_left_mono) (simp_all add: less_imp_le)
  finally have hi: "\<bar>x\<bar> < pow2 (?k + 1)" using d by (simp add: eq field_simps)
  show ?thesis using lo hi by (auto simp: ilog2_def q Let_def)
qed

lemma ilog2_unique: "pow2 e \<le> \<bar>x\<bar> \<Longrightarrow> \<bar>x\<bar> < pow2 (e + 1) \<Longrightarrow> ilog2 x = e"
proof -
  assume a: "pow2 e \<le> \<bar>x\<bar>" "\<bar>x\<bar> < pow2 (e + 1)"
  then have "x \<noteq> 0" using pow2_pos [of e] by (metis abs_zero leD)
  then have "pow2 (ilog2 x) < pow2 (e + 1)" "pow2 e < pow2 (ilog2 x + 1)"
    using ilog2_bounds [of x] a by linarith+
  then show ?thesis by (simp add: pow2_mono_iff)
qed

lemma ilog2_mono: "0 < x \<Longrightarrow> x \<le> y \<Longrightarrow> ilog2 x \<le> ilog2 y"
proof -
  assume "0 < x" "x \<le> y"
  then have "pow2 (ilog2 x) < pow2 (ilog2 y + 1)"
    using ilog2_bounds [of x] ilog2_bounds [of y] by linarith
  then show ?thesis by (simp add: pow2_mono_iff)
qed

lemma round_even_of_int [simp]: "round_even (of_int n) = n"
  by (simp add: round_even_def)

lemma round_even_bounds: "\<lfloor>x\<rfloor> \<le> round_even x" "round_even x \<le> \<lfloor>x\<rfloor> + 1"
  by (auto simp: round_even_def Let_def)

lemma round_even_mono: "x \<le> y \<Longrightarrow> round_even x \<le> round_even y"
proof (cases "\<lfloor>x\<rfloor> = \<lfloor>y\<rfloor>")
  case True
  assume "x \<le> y"
  then show ?thesis using True by (auto simp: round_even_def Let_def)
next
  case False
  assume "x \<le> y"
  then have "\<lfloor>x\<rfloor> + 1 \<le> \<lfloor>y\<rfloor>" using False floor_mono [of x y] by linarith
  then show ?thesis using round_even_bounds [of x] round_even_bounds [of y] by linarith
qed

lemma round_even_uminus: "round_even (- x) = - round_even x"
proof (cases "x = of_int \<lfloor>x\<rfloor>")
  case True
  then show ?thesis by (metis of_int_minus round_even_of_int)
next
  case False
  then have "of_int \<lfloor>x\<rfloor> < x" using of_int_floor_le [of x] by linarith
  then have "\<lfloor>- x\<rfloor> = - \<lfloor>x\<rfloor> - 1" by (intro floor_unique) (simp_all, linarith+)
  then show ?thesis by (auto simp: round_even_def Let_def)
qed

lemma f64_0 [simp]: "f64 0 = 0"
  by (simp add: f64_def)

lemma ilog2_uminus [simp]: "ilog2 (- x) = ilog2 x"
  by (simp add: ilog2_def)

lemma f64_uminus: "f64 (- x) = - f64 x"
  by (simp add: f64_def Let_def round_even_uminus)

lemma f64_binade:
  assumes "0 < x"
  shows "pow2 (ilog2 x) \<le> f64 x" and "f64 x \<le> pow2 (ilog2 x + 1)"
proof -
  let ?u = "pow2 (ilog2 x - 52)"
  have b: "pow2 (ilog2 x) \<le> x" "x < pow2 (ilog2 x + 1)" using ilog2_bounds [of x] assms by auto
  have u52: "pow2 (ilog2 x) = of_int (2 ^ 52) * ?u" using pow2_add [of "ilog2 x - 52" 52]
    by (simp add: pow2_def [of 52])
  have u53: "pow2 (ilog2 x + 1) = of_int (2 ^ 53) * ?u" using pow2_add [of 53 "ilog2 x - 52"]
    by (simp add: pow2_def [of 53] add.commute)
  have "of_int (2 ^ 52) \<le> x / ?u" using b(1) by (simp only: u52 pos_le_divide_eq pow2_pos)
  from round_even_mono [OF this] have "2 ^ 52 \<le> round_even (x / ?u)" by (simp only: round_even_of_int)
  then have "(of_int (2 ^ 52) :: rat) \<le> of_int (round_even (x / ?u))" by (simp only: of_int_le_iff)
  then show "pow2 (ilog2 x) \<le> f64 x" unfolding u52 using assms
    by (simp add: f64_def Let_def mult_right_mono less_imp_le)
  have "x / ?u \<le> of_int (2 ^ 53)" using b(2) by (simp only: u53 pos_divide_le_eq pow2_pos less_imp_le)
  from round_even_mono [OF this] have "round_even (x / ?u) \<le> 2 ^ 53" by (simp only: round_even_of_int)
  then have "(of_int (round_even (x / ?u)) :: rat) \<le> of_int (2 ^ 53)" by (simp only: of_int_le_iff)
  then show "f64 x \<le> pow2 (ilog2 x + 1)" unfolding u53 using assms
    by (simp add: f64_def Let_def mult_right_mono less_imp_le)
qed

lemma f64_pos: "0 < x \<Longrightarrow> 0 < f64 x"
  using f64_binade(1) [of x] pow2_pos [of "ilog2 x"] by linarith

lemma f64_mono_pos:
  assumes "0 < x" "x \<le> y"
  shows "f64 x \<le> f64 y"
proof (cases "ilog2 x = ilog2 y")
  case True
  have "x / pow2 (ilog2 y - 52) \<le> y / pow2 (ilog2 y - 52)" using assms(2) by (simp add: divide_right_mono less_imp_le)
  then show ?thesis using assms True round_even_mono by (simp add: f64_def Let_def mult_right_mono less_imp_le)
next
  case False
  then have "ilog2 x + 1 \<le> ilog2 y" using ilog2_mono [OF assms] by linarith
  then have "pow2 (ilog2 x + 1) \<le> pow2 (ilog2 y)" by (rule pow2_mono)
  then show ?thesis using f64_binade(2) [OF assms(1)] f64_binade(1) [of y] assms by linarith
qed

lemma f64_mono: "x \<le> y \<Longrightarrow> f64 x \<le> f64 y"
proof -
  assume xy: "x \<le> y"
  consider "0 < x" | "x \<le> 0" "0 \<le> y" | "y < 0" by linarith
  then show ?thesis
  proof cases
    case 1 then show ?thesis using xy by (rule f64_mono_pos)
  next
    case 2
    have "f64 x \<le> 0" using f64_pos [of "- x"] 2(1) by (cases "x = 0") (auto simp: f64_uminus)
    moreover have "0 \<le> f64 y" using f64_pos [of y] 2(2) by (cases "y = 0") auto
    ultimately show ?thesis by linarith
  next
    case 3
    then have "f64 (- y) \<le> f64 (- x)" using xy by (intro f64_mono_pos) auto
    then show ?thesis by (simp add: f64_uminus)
  qed
qed

lemma f64_nonneg [simp]: "0 \<le> x \<Longrightarrow> 0 \<le> f64 x"
  using f64_mono [of 0 x] by simp

lemma f64_exact: "\<bar>x\<bar> = of_int m * pow2 e \<Longrightarrow> 0 \<le> m \<Longrightarrow> m < 2 ^ 53 \<Longrightarrow> f64 x = x"
proof (cases "x = 0")
  case False
  assume a: "\<bar>x\<bar> = of_int m * pow2 e" "0 \<le> m" "m < 2 ^ 53"
  let ?k = "ilog2 x - 52"
  have "\<bar>x\<bar> < of_int (2 ^ 53) * pow2 e" using a(1,3) by (simp only: a(1) mult_strict_right_mono pow2_pos of_int_less_iff)
  then have "\<bar>x\<bar> < pow2 (e + 53)" using pow2_add [of e 53] by (simp add: pow2_def [of 53])
  then have "pow2 (ilog2 x) < pow2 (e + 53)" using ilog2_bounds [OF False] by linarith
  then have "?k \<le> e" by (simp add: pow2_mono_iff)
  then have "pow2 e = of_int (2 ^ nat (e - ?k)) * pow2 ?k"
    using pow2_add [of "e - ?k" ?k] by (simp add: pow2_def [of "e - ?k"])
  then have "\<bar>x\<bar> = of_int (m * 2 ^ nat (e - ?k)) * pow2 ?k" using a(1) by simp
  then have "x = of_int (m * 2 ^ nat (e - ?k)) * pow2 ?k \<or> x = of_int (- (m * 2 ^ nat (e - ?k))) * pow2 ?k"
    by (simp only: abs_eq_iff' of_int_minus) auto
  then obtain j :: int where j: "x = of_int j * pow2 ?k" by blast
  then have "x / pow2 ?k = of_int j" by (simp add: field_simps)
  then show ?thesis using j False by (simp add: f64_def Let_def)
qed simp

lemma f64_of_nat: "n < 2 ^ 53 \<Longrightarrow> f64 (of_nat n) = of_nat n"
  using f64_exact [of "of_nat n" "int n" 0] by (simp add: pow2_def)

lemma fadd_mono: "a \<le> a' \<Longrightarrow> b \<le> b' \<Longrightarrow> fadd a b \<le> fadd a' b'"
  by (simp add: fadd_def f64_mono add_mono)

lemma fadd_nonneg [simp]: "0 \<le> a \<Longrightarrow> 0 \<le> b \<Longrightarrow> 0 \<le> fadd a b"
  by (simp add: fadd_def)

lemma fmul_nonneg [simp]: "0 \<le> a \<Longrightarrow> 0 \<le> b \<Longrightarrow> 0 \<le> fmul a b"
  by (simp add: fmul_def)

lemma fsub_nonneg [simp]: "b \<le> a \<Longrightarrow> 0 \<le> fsub a b"
  by (simp add: fsub_def)

lemma f64_scaled: "\<exists>m k. f64 x = of_int m * pow2 k \<and> \<bar>m\<bar> \<le> 2 ^ 53"
proof (cases "x = 0")
  case False
  let ?u = "pow2 (ilog2 x - 52)"
  have "\<bar>x\<bar> \<le> of_int (2 ^ 53) * ?u"
    using ilog2_bounds [OF False] pow2_add [of 53 "ilog2 x - 52"] by (simp add: pow2_def [of 53] add.commute)
  then have "- of_int (2 ^ 53) \<le> x / ?u" "x / ?u \<le> of_int (2 ^ 53)"
    by (simp_all add: pos_le_divide_eq pos_divide_le_eq abs_le_iff)
  then have "round_even (of_int (- (2 ^ 53))) \<le> round_even (x / ?u)" "round_even (x / ?u) \<le> round_even (of_int (2 ^ 53))"
    by (intro round_even_mono; simp)+
  then have "\<bar>round_even (x / ?u)\<bar> \<le> 2 ^ 53" unfolding round_even_of_int by linarith
  then show ?thesis using False by (auto simp: f64_def Let_def)
qed (auto intro: exI [of _ 0])

lemma f64_idem [simp]: "f64 (f64 x) = f64 x"
proof -
  obtain m k where mk: "f64 x = of_int m * pow2 k" "\<bar>m\<bar> \<le> 2 ^ 53" using f64_scaled by blast
  have abs: "\<bar>f64 x\<bar> = of_int \<bar>m\<bar> * pow2 k" by (simp add: mk(1) abs_mult less_imp_le)
  show ?thesis
  proof (cases "\<bar>m\<bar> = 2 ^ 53")
    case True
    then have "\<bar>f64 x\<bar> = of_int 1 * pow2 (k + 53)" using abs pow2_add [of k 53] by (simp add: pow2_def [of 53])
    then show ?thesis by (rule f64_exact) simp_all
  next
    case False
    then show ?thesis using mk(2) by (intro f64_exact [OF abs]) simp_all
  qed
qed

lemma fadd_increasing: "f64 a = a \<Longrightarrow> 0 \<le> b \<Longrightarrow> a \<le> fadd a b"
  using f64_mono [of a "a + b"] by (simp add: fadd_def)

lemma fadd_f64 [simp]: "f64 (fadd a b) = fadd a b"
  by (simp add: fadd_def)

lemma fmul_mono: "0 \<le> b \<Longrightarrow> a \<le> a' \<Longrightarrow> fmul a b \<le> fmul a' b"
  by (simp add: fmul_def f64_mono mult_right_mono)

lemma fsub_antimono: "b' \<le> b \<Longrightarrow> fsub a b \<le> fsub a b'"
  by (simp add: fsub_def f64_mono)

end
