(* ===== verification/VerifyTypes.thy ===== *)
theory VerifyTypes
  imports NetIP GoFloat
begin

text \<open>
  The data of the inbound mail checks (\<open>app/smtp/verification/types.go\<close>): the status enumerations with
  their printed names, the result structures and the configuration. The enumerations are closed
  datatypes, since every value of them in the program is one of the declared constants, so the
  \<open>default\<close> branches of the \<open>String\<close> methods have no counterpart.

  The DNS is not part of the program: a resolver is a function from a record type and a name to an
  error or a message, where the name is the argument of \<open>dns.Fqdn\<close>. It answers a repeated question
  within one verification in the same way.
\<close>

section \<open>Statuses\<close>

datatype Action = ActionAccept | ActionQuarantine | ActionReject | ActionTempFail

fun Action_String :: "Action \<Rightarrow> string" where
  "Action_String ActionAccept = ''accept''"
| "Action_String ActionQuarantine = ''quarantine''"
| "Action_String ActionReject = ''reject''"
| "Action_String ActionTempFail = ''tempfail''"

datatype SPFStatus = SPFNone | SPFNeutral | SPFPass | SPFFail | SPFSoftFail | SPFTempError | SPFPermError

fun SPFStatus_String :: "SPFStatus \<Rightarrow> string" where
  "SPFStatus_String SPFNone = ''none''"
| "SPFStatus_String SPFNeutral = ''neutral''"
| "SPFStatus_String SPFPass = ''pass''"
| "SPFStatus_String SPFFail = ''fail''"
| "SPFStatus_String SPFSoftFail = ''softfail''"
| "SPFStatus_String SPFTempError = ''temperror''"
| "SPFStatus_String SPFPermError = ''permerror''"

datatype DKIMStatus = DKIMNone | DKIMPass | DKIMFail | DKIMPolicy | DKIMNeutral | DKIMTempError | DKIMPermError

fun DKIMStatus_String :: "DKIMStatus \<Rightarrow> string" where
  "DKIMStatus_String DKIMNone = ''none''"
| "DKIMStatus_String DKIMPass = ''pass''"
| "DKIMStatus_String DKIMFail = ''fail''"
| "DKIMStatus_String DKIMPolicy = ''policy''"
| "DKIMStatus_String DKIMNeutral = ''neutral''"
| "DKIMStatus_String DKIMTempError = ''temperror''"
| "DKIMStatus_String DKIMPermError = ''permerror''"

datatype DMARCStatus = DMARCNone | DMARCPass | DMARCFail | DMARCTempError | DMARCPermError

fun DMARCStatus_String :: "DMARCStatus \<Rightarrow> string" where
  "DMARCStatus_String DMARCNone = ''none''"
| "DMARCStatus_String DMARCPass = ''pass''"
| "DMARCStatus_String DMARCFail = ''fail''"
| "DMARCStatus_String DMARCTempError = ''temperror''"
| "DMARCStatus_String DMARCPermError = ''permerror''"

datatype IPReputationStatus =
  IPReputationUnknown | IPReputationGood | IPReputationSuspicious | IPReputationBad

fun IPReputationStatus_String :: "IPReputationStatus \<Rightarrow> string" where
  "IPReputationStatus_String IPReputationUnknown = ''unknown''"
| "IPReputationStatus_String IPReputationGood = ''good''"
| "IPReputationStatus_String IPReputationSuspicious = ''suspicious''"
| "IPReputationStatus_String IPReputationBad = ''bad''"

datatype DomainReputationStatus =
  DomainReputationUnknown | DomainReputationGood | DomainReputationSuspicious | DomainReputationBad

fun DomainReputationStatus_String :: "DomainReputationStatus \<Rightarrow> string" where
  "DomainReputationStatus_String DomainReputationUnknown = ''unknown''"
| "DomainReputationStatus_String DomainReputationGood = ''good''"
| "DomainReputationStatus_String DomainReputationSuspicious = ''suspicious''"
| "DomainReputationStatus_String DomainReputationBad = ''bad''"

section \<open>Results\<close>

record SPFResult =
  spf_Result :: SPFStatus
  spf_Mechanism :: string
  spf_Error :: string

record DKIMSignatureResult =
  sig_Domain :: string
  sig_Selector :: string
  sig_Status :: DKIMStatus
  sig_Algorithm :: string
  sig_Error :: string

record DKIMResult =
  dkim_Results :: "DKIMSignatureResult list"
  dkim_Valid :: bool
  dkim_Error :: string

record DMARCResult =
  dmarc_Result :: DMARCStatus
  dmarc_Policy :: string
  dmarc_Percentage :: int
  dmarc_SPFAlign :: bool
  dmarc_DKIMAlign :: bool
  dmarc_Error :: string

record ReputationResult =
  rep_IPReputation :: IPReputationStatus
  rep_DomainReputation :: DomainReputationStatus
  rep_Blacklisted :: "string list"
  rep_Score :: float64
  rep_Error :: string

record ContentResult =
  content_SpamScore :: float64
  content_SpamIndicators :: "string list"
  content_Classification :: string
  content_Error :: string

record VerificationResult =
  vr_SPF :: SPFResult
  vr_DKIM :: DKIMResult
  vr_DMARC :: DMARCResult
  vr_Reputation :: ReputationResult
  vr_Content :: ContentResult
  vr_Action :: Action
  vr_Timestamp :: instant

record Header =
  hdr_Name :: string
  hdr_Value :: string

text \<open>\<open>SenderIP\<close> is \<open>None\<close> where the Go value is \<open>nil\<close>.\<close>

record EmailContext =
  ctx_From :: string
  ctx_To :: "string list"
  ctx_Subject :: string
  ctx_Body :: string
  ctx_Headers :: "Header list"
  ctx_SenderIP :: "ip option"
  ctx_ReceivedAt :: instant

record VerificationConfig =
  EnableSPF :: bool
  EnableDKIM :: bool
  EnableDMARC :: bool
  EnableReputation :: bool
  EnableContent :: bool
  SpamThreshold :: float64
  RejectOnFail :: bool
  QuarantineMode :: bool

definition DefaultConfig :: VerificationConfig where
  "DefaultConfig = \<lparr>EnableSPF = True, EnableDKIM = True, EnableDMARC = True, EnableReputation = True,
     EnableContent = True, SpamThreshold = f64 (7 / 10), RejectOnFail = False, QuarantineMode = True\<rparr>"

section \<open>The resolver\<close>

datatype qtype = TypeA | TypeMX | TypeTXT

datatype rr = RR_TXT "string list" | RR_A ip | RR_MX string | RR_Other

record dns_msg =
  Rcode :: nat
  Answer :: "rr list"

text \<open>\<open>DNSExchanger\<close>: \<open>Inl\<close> carries the text of the transport error.\<close>

type_synonym DNSExchanger = "qtype \<Rightarrow> string \<Rightarrow> string + dns_msg"

abbreviation (input) RcodeSuccess :: nat where
  "RcodeSuccess \<equiv> 0"

end
