(* ===== verification/EmailUtils.thy ===== *)
theory EmailUtils
  imports GoStrings
begin

text \<open>
  Parsing and normalising addresses, \<open>internal/utils/email.go\<close>: the entry gate of the SMTP session,
  which decides by it which domain a recipient belongs to.
\<close>

section \<open>Definitions\<close>

text \<open>The error texts of \<open>cleanDomain\<close> and of \<open>EmailParseError.Msg\<close>, as constructors.\<close>

datatype domain_error =
    DomainEmpty | DomainEndsWithDot | DomainNoDot | DomainHasSpace | DomainInvalidChars
  | DomainEdgeDotOrHyphen

datatype EmailParseError =
    EmptyEmailAddress | NotExactlyOneAt | LocalPartEmpty | BadDomain domain_error

definition dquote :: char where "dquote = CHR 0x22"

abbreviation squote :: char where "squote \<equiv> CHR 0x27"

definition domain_trim_set :: string where
  "domain_trim_set = [dquote, squote, CHR '','', CHR '' '', CHR 0x09, CHR 0x0A, CHR 0x0D]"

definition cleanEmailAddress :: "string \<Rightarrow> string" where
  "cleanEmailAddress email =
     (let e1 = TrimSpace email;
          e2 = (case (IndexByte e1 CHR ''<'', IndexByte e1 CHR ''>'') of
                  (Some startIdx, Some endIdx) \<Rightarrow>
                    if startIdx < endIdx then drop (startIdx + 1) (take endIdx e1) else e1
                | _ \<Rightarrow> e1);
          e3 = Trim e2 ''<>'';
          e4 = Trim e3 [dquote, squote]
      in TrimSpace e4)"

definition domain_char :: "char \<Rightarrow> bool" where
  "domain_char c \<longleftrightarrow> is_alnum c \<or> c = CHR ''.'' \<or> c = CHR ''-''"

definition cleanDomain :: "string \<Rightarrow> domain_error + string" where
  "cleanDomain domain =
     (if domain = [] then Inl DomainEmpty
      else let original = domain;
               d1 = TrimLeft domain (CHR ''<'' # domain_trim_set);
               d2 = ToLower d1
           in if HasSuffix original ''.'' \<and> \<not> Contains original ''>'' \<and> \<not> Contains original [dquote]
              then Inl DomainEndsWithDot
              else let d3 = TrimRight d2 (CHR ''>'' # domain_trim_set);
                       d4 = TrimRight d3 ''.''
                   in if \<not> Contains d4 ''.'' then Inl DomainNoDot
                      else if Contains d4 '' '' then Inl DomainHasSpace
                      else if \<not> (d4 \<noteq> [] \<and> list_all domain_char d4) then Inl DomainInvalidChars
                      else if HasPrefix d4 ''.'' \<or> HasSuffix d4 ''.'' \<or>
                              HasPrefix d4 ''-'' \<or> HasSuffix d4 ''-'' then Inl DomainEdgeDotOrHyphen
                      else Inr d4)"

definition ParseEmailAddress :: "string \<Rightarrow> EmailParseError + (string \<times> string)" where
  "ParseEmailAddress email =
     (if email = [] then Inl EmptyEmailAddress
      else let cleaned = cleanEmailAddress email;
               parts = Split CHR ''@'' cleaned
           in if length parts \<noteq> 2 then Inl NotExactlyOneAt
              else let localPart = TrimSpace (parts ! 0);
                       domain = TrimSpace (parts ! 1)
                   in if localPart = [] then Inl LocalPartEmpty
                      else case cleanDomain domain of
                             Inl e \<Rightarrow> Inl (BadDomain e)
                           | Inr d \<Rightarrow> Inr (localPart, d))"

definition ExtractDomain :: "string \<Rightarrow> EmailParseError + string" where
  "ExtractDomain email = (case ParseEmailAddress email of Inl e \<Rightarrow> Inl e | Inr (_, d) \<Rightarrow> Inr d)"

definition ValidateEmailFormat :: "string \<Rightarrow> EmailParseError option" where
  "ValidateEmailFormat email = (case ParseEmailAddress email of Inl e \<Rightarrow> Some e | Inr _ \<Rightarrow> None)"

definition NormalizeDomain :: "string \<Rightarrow> string" where
  "NormalizeDomain domain =
     (case cleanDomain domain of Inl _ \<Rightarrow> ToLower (TrimSpace domain) | Inr cleaned \<Rightarrow> cleaned)"

definition SplitEmailAddressSafe :: "string \<Rightarrow> string \<times> string" where
  "SplitEmailAddressSafe email =
     (case ParseEmailAddress email of
        Inl _ \<Rightarrow> (let parts = Split CHR ''@'' email
                 in if length parts = 2 then (TrimSpace (parts ! 0), NormalizeDomain (parts ! 1))
                    else (email, []))
      | Inr (l, d) \<Rightarrow> (l, d))"

section \<open>Specification\<close>

text \<open>A canonical domain: what every accepted address resolves to.\<close>

definition canonical_domain :: "string \<Rightarrow> bool" where
  "canonical_domain d \<longleftrightarrow> CHR ''.'' \<in> set d \<and> (\<forall>c \<in> set d. domain_char c \<and> \<not> is_upper c) \<and>
     hd d \<notin> {CHR ''.'', CHR ''-''} \<and> last d \<notin> {CHR ''.'', CHR ''-''}"

text \<open>A plain local part: no separator or bracket, and no quote or blank at its ends.\<close>

definition plain_local :: "string \<Rightarrow> bool" where
  "plain_local l \<longleftrightarrow> l \<noteq> [] \<and> set l \<inter> {CHR ''@'', CHR ''<'', CHR ''>''} = {} \<and>
     hd l \<notin> {dquote, squote} \<and> \<not> is_space (hd l) \<and> \<not> is_space (last l)"

section \<open>Lemmas\<close>

lemma domain_char_trim:
  "domain_char c \<Longrightarrow> c \<notin> set (CHR ''<'' # domain_trim_set) \<and> c \<notin> set (CHR ''>'' # domain_trim_set) \<and>
     \<not> is_space c \<and> c \<noteq> CHR ''@'' \<and> c \<noteq> dquote \<and> c \<noteq> squote \<and> c \<noteq> CHR ''<'' \<and> c \<noteq> CHR ''>'' \<and> c \<noteq> CHR '' ''"
  by (auto simp: domain_char_def is_alnum_def is_upper_def is_lower_def is_digit_def is_space_def
      domain_trim_set_def dquote_def)

lemma cleanDomain_canonical: "cleanDomain d = Inr d' \<Longrightarrow> canonical_domain d'"
proof -
  assume eq: "cleanDomain d = Inr d'"
  let ?d2 = "ToLower (TrimLeft d (CHR ''<'' # domain_trim_set))"
  let ?d3 = "TrimRight ?d2 (CHR ''>'' # domain_trim_set)"
  have d': "d' = TrimRight ?d3 ''.''" and ok: "CHR ''.'' \<in> set d'" "list_all domain_char d'"
    "d' \<noteq> []" "hd d' \<notin> {CHR ''.'', CHR ''-''}" "last d' \<notin> {CHR ''.'', CHR ''-''}"
    using eq by (auto simp: cleanDomain_def Let_def split: if_splits)
  have "set d' \<subseteq> set ?d2"
    unfolding d' TrimRight_def by (rule order_trans [OF set_trim_right set_trim_right])
  then have "\<forall>c \<in> set d'. \<not> is_upper c" using ToLower_not_upper by blast
  then show ?thesis using ok by (auto simp: canonical_domain_def list_all_iff)
qed

lemma cleanDomain_id: "canonical_domain d \<Longrightarrow> cleanDomain d = Inr d"
proof -
  assume c: "canonical_domain d"
  then have ne: "d \<noteq> []" and ch: "\<And>c. c \<in> set d \<Longrightarrow> domain_char c" and dot: "CHR ''.'' \<in> set d"
    and ends: "hd d \<notin> {CHR ''.'', CHR ''-''}" "last d \<notin> {CHR ''.'', CHR ''-''}"
    by (auto simp: canonical_domain_def)
  note edge = domain_char_trim [OF ch [OF hd_in_set [OF ne]]] domain_char_trim [OF ch [OF last_in_set [OF ne]]]
  have "TrimLeft d (CHR ''<'' # domain_trim_set) = d"
    using edge by (simp add: TrimLeft_def trim_left_id)
  moreover have "ToLower d = d" using c by (intro ToLower_id) (simp add: canonical_domain_def)
  moreover have "TrimRight d (CHR ''>'' # domain_trim_set) = d" "TrimRight d ''.'' = d"
    using edge ends by (simp_all add: TrimRight_def trim_right_id)
  moreover have "CHR '' '' \<notin> set d" using domain_char_trim ch by blast
  moreover have "list_all domain_char d" using ch by (simp add: list_all_iff)
  ultimately show ?thesis using ne dot ends by (simp add: cleanDomain_def Let_def)
qed

lemma NormalizeDomain_canonical: "canonical_domain d \<Longrightarrow> NormalizeDomain d = d"
  by (simp add: NormalizeDomain_def cleanDomain_id)

text \<open>A plain address has nothing to clean.\<close>

lemma plain_address:
  assumes l: "plain_local l" and d: "canonical_domain d"
  defines "a \<equiv> l @ CHR ''@'' # d"
  shows "TrimSpace a = a" "CHR ''<'' \<notin> set a" "CHR ''>'' \<notin> set a" "Trim a ''<>'' = a"
    "Trim a [dquote, squote] = a"
proof -
  have ne: "l \<noteq> []" "d \<noteq> []" using l d by (auto simp: plain_local_def canonical_domain_def)
  have ch: "\<And>c. c \<in> set d \<Longrightarrow> domain_char c" using d by (simp add: canonical_domain_def)
  have hd: "hd a = hd l" and last: "last a = last d" using ne by (simp_all add: a_def)
  note edge = domain_char_trim [OF ch [OF last_in_set [OF ne(2)]]]
  show "CHR ''<'' \<notin> set a" "CHR ''>'' \<notin> set a"
    using l domain_char_trim ch by (auto simp: a_def plain_local_def)
  have lt: "hd l \<noteq> CHR ''<''" "hd l \<noteq> CHR ''>''"
    using l hd_in_set [OF ne(1)] unfolding plain_local_def by (metis disjoint_iff insert_iff)+
  show "TrimSpace a = a" using l edge by (intro TrimSpace_id) (simp add: hd last plain_local_def)
  show "Trim a ''<>'' = a" using lt edge by (intro Trim_id) (simp add: hd last)
  show "Trim a [dquote, squote] = a" using l edge by (intro Trim_id) (simp add: hd last plain_local_def)
qed

lemma parse_cleaned:
  assumes l: "plain_local l" and d: "canonical_domain d"
    and clean: "cleanEmailAddress e = l @ CHR ''@'' # d" and ne: "e \<noteq> []"
  shows "ParseEmailAddress e = Inr (l, d)"
proof -
  have "CHR ''@'' \<notin> set l" "CHR ''@'' \<notin> set d"
    using l d domain_char_trim by (auto simp: plain_local_def canonical_domain_def)
  then have "Split CHR ''@'' (cleanEmailAddress e) = [l, d]"
    by (simp add: clean Split_append Split_single)
  moreover have "TrimSpace l = l" using l by (intro TrimSpace_id) (simp add: plain_local_def)
  moreover have "TrimSpace d = d"
    using d domain_char_trim last_in_set [of d] hd_in_set [of d]
    by (intro TrimSpace_id) (auto simp: canonical_domain_def)
  ultimately show ?thesis using l d ne cleanDomain_id [OF d]
    by (auto simp: ParseEmailAddress_def Let_def plain_local_def)
qed

section \<open>Properties\<close>

text \<open>
  whatever is accepted is canonical: an accepted address yields a non-empty, trimmed local part
  without an at sign and a lower-case domain made of letters, digits, dots and hyphens, with at least
  one dot and with neither dot nor hyphen at its ends.
\<close>

theorem ParseEmailAddress_canonical:
  assumes "ParseEmailAddress e = Inr (l, d)"
  shows "canonical_domain d \<and> l \<noteq> [] \<and> TrimSpace l = l \<and> CHR ''@'' \<notin> set l"
proof -
  let ?parts = "Split CHR ''@'' (cleanEmailAddress e)"
  have len: "length ?parts = 2" and l: "l = TrimSpace (?parts ! 0)" "l \<noteq> []"
    and d: "cleanDomain (TrimSpace (?parts ! 1)) = Inr d"
    using assms by (auto simp: ParseEmailAddress_def Let_def split: if_splits sum.splits)
  have "?parts ! 0 \<in> set ?parts" using len by (intro nth_mem) simp
  then have "CHR ''@'' \<notin> set (?parts ! 0)" by (rule Split_no_sep)
  then have "CHR ''@'' \<notin> set l" using l(1) set_TrimSpace by blast
  then show ?thesis using l cleanDomain_canonical [OF d] by simp
qed

theorem ParseEmailAddress_canonical_witness:
  "ParseEmailAddress ''Bob <Bob.Smith@Mail.Example.COM>'' = Inr (''Bob.Smith'', ''mail.example.com'') \<and>
   canonical_domain ''mail.example.com''"
proof -
  have eq: "ParseEmailAddress ''Bob <Bob.Smith@Mail.Example.COM>'' = Inr (''Bob.Smith'', ''mail.example.com'')"
    by code_simp
  show ?thesis using eq ParseEmailAddress_canonical [OF eq] by simp
qed

text \<open>
  round trip. A plain local part and a canonical domain written as an address, bare or in the
  decorated form \<open>Name <local@domain>\<close>, are parsed back to exactly themselves.
\<close>

theorem ParseEmailAddress_roundtrip:
  assumes l: "plain_local l" and d: "canonical_domain d"
    and name: "CHR ''<'' \<notin> set name" "CHR ''>'' \<notin> set name" "name \<noteq> []" "\<not> is_space (hd name)"
  shows "ParseEmailAddress (l @ ''@'' @ d) = Inr (l, d) \<and>
    ParseEmailAddress (name @ ''<'' @ l @ ''@'' @ d @ ''>'') = Inr (l, d)"
proof -
  let ?a = "l @ CHR ''@'' # d"
  let ?e = "name @ CHR ''<'' # ?a @ [CHR ''>'']"
  note pa = plain_address [OF l d]
  have ne: "l \<noteq> []" using l by (simp add: plain_local_def)
  have "IndexByte ?a CHR ''<'' = None" using pa(2) by (simp only: IndexByte_None not_False_eq_True)
  then have "cleanEmailAddress ?a = ?a"
    by (simp add: cleanEmailAddress_def Let_def pa(1,4,5) del: IndexByte_None)
  then have bare: "ParseEmailAddress ?a = Inr (l, d)" using l d by (intro parse_cleaned) simp_all
  have idx: "IndexByte (xs @ c # ys) c = Some (length xs)" if "c \<notin> set xs" for xs ys c
    using that by (induction xs) auto
  have "TrimSpace ?e = ?e"
    using name by (intro TrimSpace_id) (simp add: is_space_def)
  moreover have "IndexByte ?e CHR ''<'' = Some (length name)" using idx [OF name(1)] by simp
  moreover have "IndexByte ?e CHR ''>'' = Some (length name + 1 + length ?a)"
    using idx [of "CHR ''>''" "name @ CHR ''<'' # ?a" "[]"] name(2) pa(3) by simp
  ultimately have "cleanEmailAddress ?e = ?a" by (simp add: cleanEmailAddress_def Let_def pa(1,4,5))
  then have "ParseEmailAddress ?e = Inr (l, d)" using l d by (intro parse_cleaned) simp_all
  then show ?thesis using bare by simp
qed

theorem ParseEmailAddress_roundtrip_witness:
  "plain_local ''bob'' \<and> canonical_domain ''x.org'' \<and> ParseEmailAddress ''bob@x.org'' = Inr (''bob'', ''x.org'')"
proof -
  have l: "plain_local ''bob''" by (simp add: plain_local_def dquote_def is_space_def)
  have d: "canonical_domain ''x.org''"
    by (simp add: canonical_domain_def domain_char_def is_alnum_def is_lower_def is_upper_def)
  show ?thesis using l d ParseEmailAddress_roundtrip [OF l d, of "''B''"] by (simp add: is_space_def)
qed

text \<open>\<open>cleanDomain\<close> is idempotent, and \<open>NormalizeDomain\<close> keeps what it has accepted.\<close>

theorem cleanDomain_idempotent:
  assumes "cleanDomain d = Inr d'"
  shows "cleanDomain d' = Inr d' \<and> NormalizeDomain d' = d' \<and> NormalizeDomain d = d'"
  using assms cleanDomain_canonical [OF assms]
  by (simp add: cleanDomain_id NormalizeDomain_canonical) (simp add: NormalizeDomain_def)

theorem cleanDomain_idempotent_witness:
  "cleanDomain ''Example.COM, '' = Inr ''example.com'' \<and> NormalizeDomain ''example.com'' = ''example.com''"
proof -
  have eq: "cleanDomain ''Example.COM, '' = Inr ''example.com''" by code_simp
  show ?thesis using eq cleanDomain_idempotent [OF eq] by simp
qed

end
