(* ===== verification/MailStore.thy ===== *)
theory MailStore
  imports Validation Postgres VerifyTypes EmailUtils
begin

text \<open>
  Storage of domains, mailboxes and received mail on PostgreSQL: \<open>domain.go\<close>, \<open>email_address.go\<close>,
  \<open>received_email.go\<close> and the insert of \<open>smtp_stats.go\<close> under \<open>gateways/repository/pg\<close>, over the schema of
  migrations 1, 6, 8 and 9.

  The database is one record with a table per entity, so that the foreign keys, the cascades and the joins
  between them are there: a domain belongs to a user, a mailbox to a domain and goes with it, a received
  message refers to a mailbox and keeps it from being deleted, a verification record goes with its domain or
  mailbox. The trigger that numbers the messages of a mailbox is part of the insert. Orders are stable sorts.
  A text is ASCII, so that its length in characters is its length in bytes. The comparison of texts in
  \<open>ORDER BY\<close> depends on the collation of the server and is an argument (\<open>collate\<close>), as is what the driver's
  text of an \<open>INET\<close> column parses to (\<open>inet\<close>). Webhook settings are not a column of \<open>domains\<close> the code uses.
\<close>

section \<open>Entities\<close>

record SMTPVerificationStat =
  st_ID :: uuid
  st_DomainID :: uuid
  st_EmailAddressID :: uuid
  st_VerifiedAt :: instant
  st_SenderIP :: "ip option"
  st_SenderDomain :: string
  st_FromAddress :: string
  st_SPFResult :: string
  st_SPFMechanism :: string
  st_DKIMValid :: bool
  st_DKIMDomain :: string
  st_DKIMSelector :: string
  st_DMARCResult :: string
  st_DMARCPolicy :: string
  st_DMARCAlignmentSPF :: bool
  st_DMARCAlignmentDKIM :: bool
  st_SpamScore :: float64
  st_ContentVerdict :: string
  st_ReputationScore :: float64
  st_IsBlacklisted :: bool
  st_FinalAction :: string
  st_IsQuarantined :: bool

record ReceivedEmail =
  re_ID :: uuid
  re_EmailAddressID :: "uuid option"
  re_SequenceNumber :: int
  re_FromAddress :: string
  re_Subject :: "string option"
  re_EncryptedBody :: string
  re_DomainName :: string
  re_EmailAddress :: string
  re_ReceivedAt :: instant
  re_SMTPVerification :: "SMTPVerificationStat option"

definition ReceivedEmail_IsValid :: "ReceivedEmail \<Rightarrow> bool" where
  "ReceivedEmail_IsValid r \<longleftrightarrow> re_FromAddress r \<noteq> [] \<and> re_EncryptedBody r \<noteq> []"

definition GetSubjectString :: "ReceivedEmail \<Rightarrow> string" where
  "GetSubjectString r = (case re_Subject r of Some s \<Rightarrow> s | None \<Rightarrow> [])"

section \<open>Interfaces\<close>

record 'st domain_ops =
  dom_Create :: "Domain \<Rightarrow> 'st \<Rightarrow> db_error option \<times> 'st"
  dom_GetByID :: "uuid \<Rightarrow> 'st \<Rightarrow> (db_error + Domain) \<times> 'st"
  dom_GetByDomain :: "string \<Rightarrow> 'st \<Rightarrow> (db_error + Domain) \<times> 'st"
  dom_GetByAPIKey :: "string \<Rightarrow> 'st \<Rightarrow> (db_error + Domain) \<times> 'st"
  dom_GetByUserID :: "uuid \<Rightarrow> 'st \<Rightarrow> (db_error + Domain list) \<times> 'st"
  dom_Update :: "Domain \<Rightarrow> 'st \<Rightarrow> db_error option \<times> 'st"
  dom_Delete :: "uuid \<Rightarrow> 'st \<Rightarrow> db_error option \<times> 'st"

record 'st address_ops =
  addr_Create :: "EmailAddress \<Rightarrow> 'st \<Rightarrow> db_error option \<times> 'st"
  addr_GetByID :: "uuid \<Rightarrow> 'st \<Rightarrow> (db_error + EmailAddress) \<times> 'st"
  addr_GetByDomainID :: "uuid \<Rightarrow> 'st \<Rightarrow> (db_error + EmailAddress list) \<times> 'st"
  addr_GetByLocalPartAndDomain :: "string \<Rightarrow> uuid \<Rightarrow> 'st \<Rightarrow> (db_error + EmailAddress) \<times> 'st"
  addr_GetByAddress :: "string \<Rightarrow> 'st \<Rightarrow> (db_error + EmailAddress) \<times> 'st"
  addr_Update :: "EmailAddress \<Rightarrow> 'st \<Rightarrow> db_error option \<times> 'st"
  addr_Delete :: "uuid \<Rightarrow> 'st \<Rightarrow> db_error option \<times> 'st"

record ReceivedFilter =
  f_SortBy :: string
  f_SortOrder :: string
  f_EmailAddress :: string
  f_FromAddress :: string
  f_DateFrom :: string
  f_DateTo :: string
  f_SpamMin :: float64
  f_SpamMax :: float64
  f_SecurityStatus :: string
  f_Search :: string
  f_Domain :: string

text \<open>\<open>Create\<close> answers the sequence number, which the code writes into the entity.\<close>

record 'st received_ops =
  rcv_Create :: "ReceivedEmail \<Rightarrow> 'st \<Rightarrow> (db_error + int) \<times> 'st"
  rcv_GetByID :: "uuid \<Rightarrow> 'st \<Rightarrow> (db_error + ReceivedEmail) \<times> 'st"
  rcv_GetByEmailAddressID :: "uuid \<Rightarrow> int \<Rightarrow> int \<Rightarrow> 'st \<Rightarrow> (db_error + ReceivedEmail list) \<times> 'st"
  rcv_GetByUserID :: "uuid \<Rightarrow> int \<Rightarrow> int \<Rightarrow> string \<Rightarrow> 'st \<Rightarrow> (db_error + ReceivedEmail list \<times> int) \<times> 'st"
  rcv_GetByUserIDWithFilter :: "uuid \<Rightarrow> int \<Rightarrow> int \<Rightarrow> ReceivedFilter \<Rightarrow> 'st \<Rightarrow> (db_error + ReceivedEmail list \<times> int) \<times> 'st"
  rcv_Count :: "uuid \<Rightarrow> 'st \<Rightarrow> (db_error + int) \<times> 'st"
  rcv_Delete :: "uuid \<Rightarrow> 'st \<Rightarrow> db_error option \<times> 'st"

section \<open>The database\<close>

record mail_db = pg_base +
  mdb_users :: "uuid list"
  mdb_domains :: "Domain list"
  mdb_addresses :: "EmailAddress list"
  mdb_received :: "ReceivedEmail list"
  mdb_stats :: "SMTPVerificationStat list"
  mdb_validations :: "ValidationRecord list"

subsection \<open>Domains\<close>

text \<open>What a stored domain reads back as.\<close>

definition persist_domain :: "Domain \<Rightarrow> Domain" where
  "persist_domain d = d\<lparr>d_WebhookConfig := None, d_LastVerificationAttempt := map_option trunc_us (d_LastVerificationAttempt d),
     d_NextVerificationAttempt := map_option trunc_us (d_NextVerificationAttempt d),
     d_CreatedAt := trunc_us (d_CreatedAt d), d_UpdatedAt := trunc_us (d_UpdatedAt d)\<rparr>"

definition domain_row_check :: "Domain \<Rightarrow> db_error option" where
  "domain_row_check d =
     (if \<not> in_int32 (d_VerificationAttempts d) then Some IntegerOutOfRange
      else if \<not> VerificationStatus_IsValid (d_VerificationStatus d) then Some InvalidEnum
      else if length (d_Domain d) > 255 \<or> length (d_APIKey d) > 255 \<or> length (d_VerificationToken d) > 255
      then Some ValueTooLong else None)"

definition domain_clash :: "Domain \<Rightarrow> Domain \<Rightarrow> bool" where
  "domain_clash d r \<longleftrightarrow> d_Domain r = d_Domain d \<or> d_APIKey r = d_APIKey d"

definition pg_Domain_Create :: "Domain \<Rightarrow> mail_db \<Rightarrow> db_error option \<times> mail_db" where
  "pg_Domain_Create d = as_error \<circ> exec (\<lambda>st.
     case domain_row_check d of
       Some e \<Rightarrow> (Inl e, st)
     | None \<Rightarrow>
         if list_ex (\<lambda>r. d_ID r = d_ID d \<or> domain_clash d r) (mdb_domains st) then (Inl UniqueViolation, st)
         else if d_UserID d \<notin> set (mdb_users st) then (Inl ForeignKeyViolation, st)
         else (Inr (), st\<lparr>mdb_domains := mdb_domains st @ [persist_domain d]\<rparr>))"

definition pg_Domain_GetByID :: "uuid \<Rightarrow> mail_db \<Rightarrow> (db_error + Domain) \<times> mail_db" where
  "pg_Domain_GetByID i = exec (\<lambda>st. (one_row_of (find (\<lambda>r. d_ID r = i) (mdb_domains st)), st))"

definition pg_Domain_GetByDomain :: "string \<Rightarrow> mail_db \<Rightarrow> (db_error + Domain) \<times> mail_db" where
  "pg_Domain_GetByDomain n = exec (\<lambda>st. (one_row_of (find (\<lambda>r. d_Domain r = n) (mdb_domains st)), st))"

definition pg_Domain_GetByAPIKey :: "string \<Rightarrow> mail_db \<Rightarrow> (db_error + Domain) \<times> mail_db" where
  "pg_Domain_GetByAPIKey k = exec (\<lambda>st. (one_row_of (find (\<lambda>r. d_APIKey r = k) (mdb_domains st)), st))"

definition pg_Domain_GetByUserID :: "uuid \<Rightarrow> mail_db \<Rightarrow> (db_error + Domain list) \<times> mail_db" where
  "pg_Domain_GetByUserID u = exec (\<lambda>st.
     (Inr (sort_key (\<lambda>r. - d_CreatedAt r) (filter (\<lambda>r. d_UserID r = u) (mdb_domains st))), st))"

definition pg_Domain_Update :: "Domain \<Rightarrow> mail_db \<Rightarrow> db_error option \<times> mail_db" where
  "pg_Domain_Update d = as_error \<circ> exec (\<lambda>st.
     if \<not> in_int32 (d_VerificationAttempts d) then (Inl IntegerOutOfRange, st)
     else if \<not> VerificationStatus_IsValid (d_VerificationStatus d) then (Inl InvalidEnum, st)
     else if \<not> list_ex (\<lambda>r. d_ID r = d_ID d) (mdb_domains st) then (Inl ErrNoRows, st)
     else case domain_row_check d of
       Some e \<Rightarrow> (Inl e, st)
     | None \<Rightarrow>
         if list_ex (\<lambda>r. d_ID r \<noteq> d_ID d \<and> domain_clash d r) (mdb_domains st) then (Inl UniqueViolation, st)
         else if d_UserID d \<notin> set (mdb_users st) then (Inl ForeignKeyViolation, st)
         else (Inr (), st\<lparr>mdb_domains := map (\<lambda>r. if d_ID r = d_ID d
                 then (persist_domain d)\<lparr>d_CreatedAt := d_CreatedAt r\<rparr> else r) (mdb_domains st)\<rparr>))"

text \<open>The received mail a delete of mailboxes would leave without its mailbox.\<close>

definition holds_mail :: "uuid list \<Rightarrow> mail_db \<Rightarrow> bool" where
  "holds_mail addrs st \<longleftrightarrow> list_ex (\<lambda>r. case re_EmailAddressID r of None \<Rightarrow> False | Some a \<Rightarrow> a \<in> set addrs) (mdb_received st)"

definition pg_Domain_Delete :: "uuid \<Rightarrow> mail_db \<Rightarrow> db_error option \<times> mail_db" where
  "pg_Domain_Delete i = as_error \<circ> exec (\<lambda>st.
     let gone = map ea_ID (filter (\<lambda>a. ea_DomainID a = i) (mdb_addresses st)) in
     if \<not> list_ex (\<lambda>r. d_ID r = i) (mdb_domains st) then (Inl ErrNoRows, st)
     else if holds_mail gone st then (Inl ForeignKeyViolation, st)
     else (Inr (), st\<lparr>mdb_domains := filter (\<lambda>r. d_ID r \<noteq> i) (mdb_domains st),
                     mdb_addresses := filter (\<lambda>a. ea_DomainID a \<noteq> i) (mdb_addresses st),
                     mdb_stats := filter (\<lambda>s. st_DomainID s \<noteq> i \<and> st_EmailAddressID s \<notin> set gone) (mdb_stats st)\<rparr>))"

definition pg_domains_repo :: "mail_db domain_ops" where
  "pg_domains_repo = \<lparr>dom_Create = pg_Domain_Create, dom_GetByID = pg_Domain_GetByID, dom_GetByDomain = pg_Domain_GetByDomain,
     dom_GetByAPIKey = pg_Domain_GetByAPIKey, dom_GetByUserID = pg_Domain_GetByUserID, dom_Update = pg_Domain_Update,
     dom_Delete = pg_Domain_Delete\<rparr>"

subsection \<open>Mailboxes\<close>

definition persist_address :: "EmailAddress \<Rightarrow> EmailAddress" where
  "persist_address a = a\<lparr>ea_CreatedAt := trunc_us (ea_CreatedAt a), ea_UpdatedAt := trunc_us (ea_UpdatedAt a)\<rparr>"

definition same_mailbox :: "EmailAddress \<Rightarrow> EmailAddress \<Rightarrow> bool" where
  "same_mailbox a r \<longleftrightarrow> ea_DomainID r = ea_DomainID a \<and> ea_LocalPart r = ea_LocalPart a"

definition pg_Address_Create :: "EmailAddress \<Rightarrow> mail_db \<Rightarrow> db_error option \<times> mail_db" where
  "pg_Address_Create a = as_error \<circ> exec (\<lambda>st.
     if length (ea_LocalPart a) > 255 then (Inl ValueTooLong, st)
     else if list_ex (\<lambda>r. ea_ID r = ea_ID a \<or> same_mailbox a r) (mdb_addresses st) then (Inl UniqueViolation, st)
     else if ea_DomainID a \<notin> d_ID ` set (mdb_domains st) then (Inl ForeignKeyViolation, st)
     else (Inr (), st\<lparr>mdb_addresses := mdb_addresses st @ [persist_address a]\<rparr>))"

definition pg_Address_GetByID :: "uuid \<Rightarrow> mail_db \<Rightarrow> (db_error + EmailAddress) \<times> mail_db" where
  "pg_Address_GetByID i = exec (\<lambda>st. (one_row_of (find (\<lambda>r. ea_ID r = i) (mdb_addresses st)), st))"

definition pg_Address_GetByDomainID :: "uuid \<Rightarrow> mail_db \<Rightarrow> (db_error + EmailAddress list) \<times> mail_db" where
  "pg_Address_GetByDomainID i = exec (\<lambda>st.
     (Inr (sort_key (\<lambda>r. - ea_CreatedAt r) (filter (\<lambda>r. ea_DomainID r = i) (mdb_addresses st))), st))"

definition pg_Address_GetByLocalPartAndDomain :: "string \<Rightarrow> uuid \<Rightarrow> mail_db \<Rightarrow> (db_error + EmailAddress) \<times> mail_db" where
  "pg_Address_GetByLocalPartAndDomain l i = exec (\<lambda>st.
     (one_row_of (find (\<lambda>r. ea_LocalPart r = l \<and> ea_DomainID r = i) (mdb_addresses st)), st))"

definition pg_Address_GetByAddress :: "string \<Rightarrow> mail_db \<Rightarrow> (db_error + EmailAddress) \<times> mail_db" where
  "pg_Address_GetByAddress address st =
     (case ParseEmailAddress address of
        Inl _ \<Rightarrow> (Inl (BadQuery ''invalid email address format''), st)
      | Inr (l, n) \<Rightarrow> exec (\<lambda>st. (one_row_of (find (\<lambda>r. ea_LocalPart r = ToLower l \<and>
            list_ex (\<lambda>d. d_ID d = ea_DomainID r \<and> d_Domain d = ToLower n) (mdb_domains st)) (mdb_addresses st)), st)) st)"

definition pg_Address_Update :: "EmailAddress \<Rightarrow> mail_db \<Rightarrow> db_error option \<times> mail_db" where
  "pg_Address_Update a = as_error \<circ> exec (\<lambda>st.
     if \<not> list_ex (\<lambda>r. ea_ID r = ea_ID a) (mdb_addresses st) then (Inl ErrNoRows, st)
     else if length (ea_LocalPart a) > 255 then (Inl ValueTooLong, st)
     else if list_ex (\<lambda>r. ea_ID r \<noteq> ea_ID a \<and> same_mailbox a r) (mdb_addresses st) then (Inl UniqueViolation, st)
     else if ea_DomainID a \<notin> d_ID ` set (mdb_domains st) then (Inl ForeignKeyViolation, st)
     else (Inr (), st\<lparr>mdb_addresses := map (\<lambda>r. if ea_ID r = ea_ID a
             then (persist_address a)\<lparr>ea_CreatedAt := ea_CreatedAt r\<rparr> else r) (mdb_addresses st)\<rparr>))"

definition pg_Address_Delete :: "uuid \<Rightarrow> mail_db \<Rightarrow> db_error option \<times> mail_db" where
  "pg_Address_Delete i = as_error \<circ> exec (\<lambda>st.
     if \<not> list_ex (\<lambda>r. ea_ID r = i) (mdb_addresses st) then (Inl ErrNoRows, st)
     else if holds_mail [i] st then (Inl ForeignKeyViolation, st)
     else (Inr (), st\<lparr>mdb_addresses := filter (\<lambda>r. ea_ID r \<noteq> i) (mdb_addresses st),
                     mdb_stats := filter (\<lambda>s. st_EmailAddressID s \<noteq> i) (mdb_stats st)\<rparr>))"

definition pg_addresses_repo :: "mail_db address_ops" where
  "pg_addresses_repo = \<lparr>addr_Create = pg_Address_Create, addr_GetByID = pg_Address_GetByID,
     addr_GetByDomainID = pg_Address_GetByDomainID, addr_GetByLocalPartAndDomain = pg_Address_GetByLocalPartAndDomain,
     addr_GetByAddress = pg_Address_GetByAddress, addr_Update = pg_Address_Update, addr_Delete = pg_Address_Delete\<rparr>"

end
