(* ===== verification/ReceivedStore.thy ===== *)
theory ReceivedStore
  imports MailStore
begin

text \<open>
  Received mail and its verification records (\<open>received_email.go\<close> and \<open>CreateStat\<close> of \<open>smtp_stats.go\<close>
  under \<open>gateways/repository/pg\<close>): the insert with the numbering trigger, the lookups, the listings with
  their joins, filters, order and pages.
\<close>

section \<open>Writing\<close>

definition persist_received :: "int \<Rightarrow> ReceivedEmail \<Rightarrow> ReceivedEmail" where
  "persist_received n r = r\<lparr>re_SequenceNumber := n, re_DomainName := [], re_EmailAddress := [],
     re_ReceivedAt := trunc_us (re_ReceivedAt r), re_SMTPVerification := None\<rparr>"

text \<open>The trigger of migration 1: one more than the largest number of the mailbox. A comparison with a
  missing mailbox selects nothing.\<close>

definition numbers_of :: "uuid option \<Rightarrow> ReceivedEmail list \<Rightarrow> int list" where
  "numbers_of a rows = (if a = None then [] else map re_SequenceNumber (filter (\<lambda>r. re_EmailAddressID r = a) rows))"

definition next_sequence :: "uuid option \<Rightarrow> ReceivedEmail list \<Rightarrow> int" where
  "next_sequence a rows = (case numbers_of a rows of [] \<Rightarrow> 0 | n # ns \<Rightarrow> fold max ns n) + 1"

definition pg_Received_Create :: "ReceivedEmail \<Rightarrow> mail_db \<Rightarrow> (db_error + int) \<times> mail_db" where
  "pg_Received_Create r = exec (\<lambda>st.
     let n = next_sequence (re_EmailAddressID r) (mdb_received st) in
     if length (re_FromAddress r) > 255 \<or> (case re_Subject r of None \<Rightarrow> False | Some s \<Rightarrow> length s > 500)
     then (Inl ValueTooLong, st)
     else if \<not> in_int32 n then (Inl IntegerOutOfRange, st)
     else if list_ex (\<lambda>x. re_ID x = re_ID r) (mdb_received st) then (Inl UniqueViolation, st)
     else if (case re_EmailAddressID r of None \<Rightarrow> False | Some a \<Rightarrow> a \<notin> ea_ID ` set (mdb_addresses st))
     then (Inl ForeignKeyViolation, st)
     else (Inr n, st\<lparr>mdb_received := mdb_received st @ [persist_received n r]\<rparr>))"

definition pg_Received_Delete :: "uuid \<Rightarrow> mail_db \<Rightarrow> db_error option \<times> mail_db" where
  "pg_Received_Delete i = as_error \<circ> exec (\<lambda>st.
     if \<not> list_ex (\<lambda>r. re_ID r = i) (mdb_received st) then (Inl ErrNoRows, st)
     else (Inr (), st\<lparr>mdb_received := filter (\<lambda>r. re_ID r \<noteq> i) (mdb_received st)\<rparr>))"

definition pg_CreateStat :: "SMTPVerificationStat \<Rightarrow> mail_db \<Rightarrow> db_error option \<times> mail_db" where
  "pg_CreateStat s = as_error \<circ> exec (\<lambda>st.
     if list_ex (\<lambda>x. st_ID x = st_ID s) (mdb_stats st) then (Inl UniqueViolation, st)
     else if st_DomainID s \<notin> d_ID ` set (mdb_domains st) \<or> st_EmailAddressID s \<notin> ea_ID ` set (mdb_addresses st)
     then (Inl ForeignKeyViolation, st)
     else (Inr (), st\<lparr>mdb_stats := mdb_stats st @ [s\<lparr>st_VerifiedAt := trunc_us (st_VerifiedAt s)\<rparr>]\<rparr>))"

section \<open>Joins\<close>

text \<open>The verification records the listings attach to a message: same mailbox, same sender, within five
  minutes. A message without any keeps one row (\<open>LEFT JOIN\<close>).\<close>

definition stat_matches :: "ReceivedEmail \<Rightarrow> SMTPVerificationStat \<Rightarrow> bool" where
  "stat_matches r s \<longleftrightarrow> re_EmailAddressID r = Some (st_EmailAddressID s) \<and> st_FromAddress s = re_FromAddress r \<and>
     \<bar>st_VerifiedAt s - re_ReceivedAt r\<bar> < 300 * time_Second"

definition left_join :: "'a list \<Rightarrow> 'a option list" where
  "left_join xs = (if xs = [] then [None] else map Some xs)"

text \<open>What is read of a record: its ids are not selected, the mailbox is the message's.\<close>

definition read_stat :: "(ip \<Rightarrow> ip option) \<Rightarrow> SMTPVerificationStat \<Rightarrow> SMTPVerificationStat" where
  "read_stat inet s = s\<lparr>st_ID := uuid_nil, st_DomainID := uuid_nil, st_SenderIP := Option.bind (st_SenderIP s) inet\<rparr>"

definition attach_stat :: "(ip \<Rightarrow> ip option) \<Rightarrow> ReceivedEmail \<Rightarrow> SMTPVerificationStat option \<Rightarrow> ReceivedEmail" where
  "attach_stat inet r s = r\<lparr>re_SMTPVerification := map_option (read_stat inet) s\<rparr>"

definition pg_Received_GetByID :: "(ip \<Rightarrow> ip option) \<Rightarrow> uuid \<Rightarrow> mail_db \<Rightarrow> (db_error + ReceivedEmail) \<times> mail_db" where
  "pg_Received_GetByID inet i = exec (\<lambda>st.
     (one_row_of (map_option (\<lambda>r. attach_stat inet r (hd (left_join (filter (stat_matches r) (mdb_stats st)))))
        (find (\<lambda>r. re_ID r = i) (mdb_received st))), st))"

definition pg_Received_GetByEmailAddressID :: "uuid \<Rightarrow> int \<Rightarrow> int \<Rightarrow> mail_db \<Rightarrow> (db_error + ReceivedEmail list) \<times> mail_db" where
  "pg_Received_GetByEmailAddressID a limit offset = exec (\<lambda>st.
     (page limit offset (sort_key (\<lambda>r. - re_SequenceNumber r)
        (filter (\<lambda>r. re_EmailAddressID r = Some a) (mdb_received st))), st))"

definition pg_Received_Count :: "uuid \<Rightarrow> mail_db \<Rightarrow> (db_error + int) \<times> mail_db" where
  "pg_Received_Count a = exec (\<lambda>st. (Inr (int (length (filter (\<lambda>r. re_EmailAddressID r = Some a) (mdb_received st)))), st))"

type_synonym mail_row = "ReceivedEmail \<times> EmailAddress \<times> Domain"

definition owned_mail :: "uuid \<Rightarrow> mail_db \<Rightarrow> mail_row list" where
  "owned_mail u st = [(r, a, d). r \<leftarrow> mdb_received st, a \<leftarrow> mdb_addresses st, re_EmailAddressID r = Some (ea_ID a),
     d \<leftarrow> mdb_domains st, ea_DomainID a = d_ID d, d_UserID d = u]"

definition with_stats :: "mail_db \<Rightarrow> mail_row list \<Rightarrow> (mail_row \<times> SMTPVerificationStat option) list" where
  "with_stats st rows = [((r, a, d), s). (r, a, d) \<leftarrow> rows,
     s \<leftarrow> left_join (filter (\<lambda>s. st_DomainID s = d_ID d \<and> stat_matches r s) (mdb_stats st))]"

definition detail_row :: "(ip \<Rightarrow> ip option) \<Rightarrow> mail_row \<times> SMTPVerificationStat option \<Rightarrow> ReceivedEmail" where
  "detail_row inet x = (case x of ((r, a, d), s) \<Rightarrow>
     (attach_stat inet r s)\<lparr>re_DomainName := d_Domain d, re_EmailAddress := ea_LocalPart a @ ''@'' @ d_Domain d\<rparr>)"

text \<open>A listing runs two statements, the count and the page.\<close>

definition counted :: "(mail_db \<Rightarrow> int) \<Rightarrow> (mail_db \<Rightarrow> db_error + 'a list) \<Rightarrow> mail_db \<Rightarrow> (db_error + 'a list \<times> int) \<times> mail_db" where
  "counted cnt q st =
     (case exec (\<lambda>st. (Inr (cnt st), st)) st of
        (Inl e, st1) \<Rightarrow> (Inl e, st1)
      | (Inr n, st1) \<Rightarrow>
          (case exec (\<lambda>st. (q st, st)) st1 of
             (Inl e, st2) \<Rightarrow> (Inl e, st2)
           | (Inr rows, st2) \<Rightarrow> (Inr (rows, n), st2)))"

definition row_number :: "mail_row \<times> SMTPVerificationStat option \<Rightarrow> int" where
  "row_number x = re_SequenceNumber (fst (fst x))"

definition pg_Received_GetByUserID ::
    "(ip \<Rightarrow> ip option) \<Rightarrow> uuid \<Rightarrow> int \<Rightarrow> int \<Rightarrow> string \<Rightarrow> mail_db \<Rightarrow> (db_error + ReceivedEmail list \<times> int) \<times> mail_db" where
  "pg_Received_GetByUserID inet u limit offset domain =
     (let rows = (\<lambda>st. filter (\<lambda>(r, a, d). domain = [] \<or> d_Domain d = domain) (owned_mail u st))
      in counted (\<lambda>st. int (length (rows st)))
           (\<lambda>st. map_sum id (map (detail_row inet)) (page limit offset (sort_key (\<lambda>x. - row_number x) (with_stats st (rows st))))))"

section \<open>Filters\<close>

text \<open>\<open>LIKE\<close> with its wildcards and the backslash as escape.\<close>

fun like :: "string \<Rightarrow> string \<Rightarrow> bool" where
  "like [] s = (s = [])"
| "like (p # ps) [] = (p = CHR ''%'' \<and> like ps [])"
| "like (p # ps) (c # cs) =
     (if p = CHR ''%'' then like ps (c # cs) \<or> like (p # ps) cs
      else if p = CHR ''_'' then like ps cs
      else if p = CHR 0x5C then (case ps of [] \<Rightarrow> False | q # qs \<Rightarrow> q = c \<and> like (tl ps) cs)
      else p = c \<and> like ps cs)"

text \<open>\<open>time.Parse("2006-01-02", s)\<close>: the first instant of the day, from the Unix epoch.\<close>

definition two_digits :: "char \<Rightarrow> char \<Rightarrow> int option" where
  "two_digits a b = (if is_digit a \<and> is_digit b then Some (int (10 * (code a - 48) + (code b - 48))) else None)"

definition leap :: "int \<Rightarrow> bool" where
  "leap y \<longleftrightarrow> 4 dvd y \<and> (\<not> 100 dvd y \<or> 400 dvd y)"

definition days_in :: "int \<Rightarrow> int \<Rightarrow> int" where
  "days_in y m = (if m = 2 then (if leap y then 29 else 28) else if m \<in> {4, 6, 9, 11} then 30 else 31)"

text \<open>Days since 1 January 1970 of a date, counting years from March.\<close>

definition day_number :: "int \<Rightarrow> int \<Rightarrow> int \<Rightarrow> int" where
  "day_number y m d =
     (let y' = (if m \<le> 2 then y - 1 else y); m' = (m + 9) mod 12
      in 365 * y' + y' div 4 - y' div 100 + y' div 400 + (153 * m' + 2) div 5 + d - 1 - 719468)"

definition parse_date :: "string \<Rightarrow> instant option" where
  "parse_date s =
     (case s of
        [y1, y2, y3, y4, h1, m1, m2, h2, d1, d2] \<Rightarrow>
          (case (two_digits y1 y2, two_digits y3 y4, two_digits m1 m2, two_digits d1 d2) of
             (Some c, Some yy, Some m, Some d) \<Rightarrow>
               (let y = 100 * c + yy in
                if h1 = CHR ''-'' \<and> h2 = CHR ''-'' \<and> 1 \<le> m \<and> m \<le> 12 \<and> 1 \<le> d \<and> d \<le> days_in y m
                then Some (day_number y m d * (24 * time_Hour)) else None)
           | _ \<Rightarrow> None)
      | _ \<Rightarrow> None)"

fun security_matches :: "string \<Rightarrow> SMTPVerificationStat option \<Rightarrow> bool" where
  "security_matches status None = (status \<noteq> ''suspicious'' \<and> status \<noteq> ''high_risk'' \<and> status \<noteq> ''quarantined'')"
| "security_matches status (Some s) =
     (if status = ''clean'' then st_SpamScore s < f64 (3 / 10) \<and> \<not> st_IsQuarantined s
      else if status = ''suspicious'' then f64 (3 / 10) \<le> st_SpamScore s \<and> st_SpamScore s < f64 (7 / 10) \<and> \<not> st_IsQuarantined s
      else if status = ''high_risk'' then f64 (7 / 10) \<le> st_SpamScore s \<and> \<not> st_IsQuarantined s
      else if status = ''quarantined'' then st_IsQuarantined s
      else True)"

definition filter_matches ::
    "ReceivedFilter \<Rightarrow> instant option \<Rightarrow> instant option \<Rightarrow> mail_row \<times> SMTPVerificationStat option \<Rightarrow> bool" where
  "filter_matches f dfrom dto x = (case x of ((r, a, d), s) \<Rightarrow>
     (f_Domain f = [] \<or> d_Domain d = f_Domain f) \<and>
     (f_EmailAddress f = [] \<or> ea_LocalPart a @ ''@'' @ d_Domain d = f_EmailAddress f) \<and>
     (f_FromAddress f = [] \<or> like (ToLower (''%'' @ f_FromAddress f @ ''%'')) (ToLower (re_FromAddress r))) \<and>
     (case dfrom of None \<Rightarrow> True | Some t \<Rightarrow> t \<le> re_ReceivedAt r) \<and>
     (case dto of None \<Rightarrow> True | Some t \<Rightarrow> re_ReceivedAt r \<le> t + 24 * time_Hour) \<and>
     (f_SpamMin f \<le> 0 \<or> (case s of None \<Rightarrow> False | Some s \<Rightarrow> f_SpamMin f \<le> st_SpamScore s)) \<and>
     (\<not> (0 < f_SpamMax f \<and> f_SpamMax f < 1) \<or> (case s of None \<Rightarrow> False | Some s \<Rightarrow> st_SpamScore s \<le> f_SpamMax f)) \<and>
     security_matches (f_SecurityStatus f) s \<and>
     (f_Search f = [] \<or> like (''%'' @ ToLower (f_Search f) @ ''%'') (ToLower (re_FromAddress r)) \<or>
        (case re_Subject r of None \<Rightarrow> False | Some t \<Rightarrow> like (''%'' @ ToLower (f_Search f) @ ''%'') (ToLower t))))"

text \<open>\<open>ORDER BY\<close>: ascending or descending, a missing subject after all others when ascending.\<close>

definition order_key :: "(string \<Rightarrow> int) \<Rightarrow> string \<Rightarrow> mail_row \<times> SMTPVerificationStat option \<Rightarrow> int option" where
  "order_key collate by x = (let r = fst (fst x) in
     if by = ''sequence_number'' then Some (re_SequenceNumber r)
     else if by = ''from_address'' then Some (collate (re_FromAddress r))
     else if by = ''subject'' then map_option collate (re_Subject r)
     else Some (re_ReceivedAt r))"

definition order_rows ::
    "(string \<Rightarrow> int) \<Rightarrow> string \<Rightarrow> string \<Rightarrow> (mail_row \<times> SMTPVerificationStat option) list \<Rightarrow> (mail_row \<times> SMTPVerificationStat option) list" where
  "order_rows collate by dir rows =
     (let sg = (if dir = ''asc'' then 1 else -1);
          key = (\<lambda>x. case order_key collate by x of None \<Rightarrow> 0 | Some k \<Rightarrow> sg * k);
          missing = (\<lambda>x. case order_key collate by x of None \<Rightarrow> sg | Some _ \<Rightarrow> 0)
      in sort_key missing (sort_key key rows))"

definition pg_Received_GetByUserIDWithFilter ::
    "(ip \<Rightarrow> ip option) \<Rightarrow> (string \<Rightarrow> int) \<Rightarrow> uuid \<Rightarrow> int \<Rightarrow> int \<Rightarrow> ReceivedFilter \<Rightarrow> mail_db
      \<Rightarrow> (db_error + ReceivedEmail list \<times> int) \<times> mail_db" where
  "pg_Received_GetByUserIDWithFilter inet collate u limit offset f st =
     (let date = (\<lambda>s. if s = [] then Inr None else case parse_date s of None \<Rightarrow> Inl () | Some t \<Rightarrow> Inr (Some t)) in
      case date (f_DateFrom f) of
        Inl _ \<Rightarrow> (Inl (BadQuery ''invalid date_from format''), st)
      | Inr dfrom \<Rightarrow>
          (case date (f_DateTo f) of
             Inl _ \<Rightarrow> (Inl (BadQuery ''invalid date_to format''), st)
           | Inr dto \<Rightarrow>
               (let rows = (\<lambda>st. filter (filter_matches f dfrom dto) (with_stats st (owned_mail u st)))
                in counted (\<lambda>st. int (length (rows st)))
                     (\<lambda>st. map_sum id (map (detail_row inet)) (page limit offset (order_rows collate (f_SortBy f) (f_SortOrder f) (rows st)))) st)))"

definition pg_received_repo :: "(ip \<Rightarrow> ip option) \<Rightarrow> (string \<Rightarrow> int) \<Rightarrow> mail_db received_ops" where
  "pg_received_repo inet collate = \<lparr>rcv_Create = pg_Received_Create, rcv_GetByID = pg_Received_GetByID inet,
     rcv_GetByEmailAddressID = pg_Received_GetByEmailAddressID, rcv_GetByUserID = pg_Received_GetByUserID inet,
     rcv_GetByUserIDWithFilter = pg_Received_GetByUserIDWithFilter inet collate, rcv_Count = pg_Received_Count,
     rcv_Delete = pg_Received_Delete\<rparr>"

end
