(* ===== verification/MailSchema.thy ===== *)
theory MailSchema
  imports ReceivedStore
begin

text \<open>
  What the schema guarantees of the mail database, and the contract its repositories offer the use cases.

  \<open>mdb_ok\<close> is the invariant of the tables: keys, unique columns, foreign keys and the numbering of a
  mailbox's messages. The locale \<open>mail_store\<close> is the interface the use cases of domains and mail work
  against: three maps, and for every operation what it does to them. \<open>pg\<close> is its interpretation on the
  PostgreSQL repositories.
\<close>

section \<open>The invariant of the tables\<close>

definition domains_ok :: "mail_db \<Rightarrow> bool" where
  "domains_ok st \<longleftrightarrow> distinct (map d_ID (mdb_domains st)) \<and> distinct (map d_Domain (mdb_domains st)) \<and>
     distinct (map d_APIKey (mdb_domains st)) \<and>
     (\<forall>d \<in> set (mdb_domains st). domain_row_check d = None \<and> d_UserID d \<in> set (mdb_users st))"

definition addresses_ok :: "mail_db \<Rightarrow> bool" where
  "addresses_ok st \<longleftrightarrow> distinct (map ea_ID (mdb_addresses st)) \<and>
     distinct (map (\<lambda>a. (ea_DomainID a, ea_LocalPart a)) (mdb_addresses st)) \<and>
     (\<forall>a \<in> set (mdb_addresses st). ea_DomainID a \<in> d_ID ` set (mdb_domains st))"

definition received_ok :: "mail_db \<Rightarrow> bool" where
  "received_ok st \<longleftrightarrow> distinct (map re_ID (mdb_received st)) \<and>
     (\<forall>r \<in> set (mdb_received st). \<forall>a. re_EmailAddressID r = Some a \<longrightarrow> a \<in> ea_ID ` set (mdb_addresses st)) \<and>
     (\<forall>a. sorted_wrt (<) (0 # numbers_of a (mdb_received st)))"

definition stats_ok :: "mail_db \<Rightarrow> bool" where
  "stats_ok st \<longleftrightarrow> distinct (map st_ID (mdb_stats st)) \<and>
     (\<forall>s \<in> set (mdb_stats st). st_DomainID s \<in> d_ID ` set (mdb_domains st) \<and>
        st_EmailAddressID s \<in> ea_ID ` set (mdb_addresses st))"

definition mdb_ok :: "mail_db \<Rightarrow> bool" where
  "mdb_ok st \<longleftrightarrow> domains_ok st \<and> addresses_ok st \<and> received_ok st \<and> stats_ok st"

lemma mdb_ok_faults [simp]: "mdb_ok (st\<lparr>pg_faults := fs\<rparr>) = mdb_ok st"
  by (simp add: mdb_ok_def domains_ok_def addresses_ok_def received_ok_def stats_ok_def)

lemma persist_domain_fields [simp]:
  "d_ID (persist_domain d) = d_ID d" "d_Domain (persist_domain d) = d_Domain d" "d_APIKey (persist_domain d) = d_APIKey d"
  "d_UserID (persist_domain d) = d_UserID d" "d_PublicKey (persist_domain d) = d_PublicKey d"
  "d_VerificationStatus (persist_domain d) = d_VerificationStatus d"
  "d_AutoCreateAddress (persist_domain d) = d_AutoCreateAddress d"
  "d_VerificationToken (persist_domain d) = d_VerificationToken d"
  "d_VerificationAttempts (persist_domain d) = d_VerificationAttempts d"
  "domain_row_check (persist_domain d) = domain_row_check d"
  "domain_row_check (d\<lparr>d_CreatedAt := t\<rparr>) = domain_row_check d"
  by (simp_all add: persist_domain_def domain_row_check_def)

lemma persist_address_fields [simp]:
  "ea_ID (persist_address a) = ea_ID a" "ea_DomainID (persist_address a) = ea_DomainID a"
  "ea_LocalPart (persist_address a) = ea_LocalPart a" "ea_ForwardAddresses (persist_address a) = ea_ForwardAddresses a"
  "ea_ForwardingEnabled (persist_address a) = ea_ForwardingEnabled a"
  by (simp_all add: persist_address_def)

lemma persist_received_fields [simp]:
  "re_ID (persist_received n r) = re_ID r" "re_EmailAddressID (persist_received n r) = re_EmailAddressID r"
  "re_SequenceNumber (persist_received n r) = n" "re_FromAddress (persist_received n r) = re_FromAddress r"
  "re_Subject (persist_received n r) = re_Subject r" "re_EncryptedBody (persist_received n r) = re_EncryptedBody r"
  by (simp_all add: persist_received_def)

subsection \<open>Numbering\<close>

lemma fold_max_ge: "(n::int) \<le> fold max ns n" "m \<in> set ns \<Longrightarrow> m \<le> fold max ns n"
  by (induction ns arbitrary: n) (auto, (metis max.bounded_iff)+)

lemma next_sequence_greater: "m \<in> set (numbers_of a rows) \<Longrightarrow> m < next_sequence a rows"
  using fold_max_ge by (fastforce simp: next_sequence_def split: list.splits)

lemma next_sequence_pos: "sorted_wrt (<) (0 # numbers_of a rows) \<Longrightarrow> 0 < next_sequence a rows"
proof (cases "numbers_of a rows")
  case (Cons n ns)
  assume "sorted_wrt (<) (0 # numbers_of a rows)"
  then have "0 < n" using Cons by simp
  then show ?thesis using next_sequence_greater [of n a rows] Cons by simp
qed (simp add: next_sequence_def)

lemma numbers_of_append: "numbers_of a (rows @ [r]) =
    (if a \<noteq> None \<and> re_EmailAddressID r = a then numbers_of a rows @ [re_SequenceNumber r] else numbers_of a rows)"
  by (simp add: numbers_of_def)

lemma numbering_append:
  assumes "\<forall>b. sorted_wrt (<) (0 # numbers_of b rows)"
  shows "sorted_wrt (<) (0 # numbers_of a (rows @ [persist_received (next_sequence (re_EmailAddressID r) rows) r]))"
  using assms next_sequence_greater [of _ "re_EmailAddressID r" rows] next_sequence_pos [of "re_EmailAddressID r" rows]
  by (auto simp: numbers_of_append sorted_wrt_append)

lemma sorted_map_filter:
  "sorted_wrt (<) (map k (filter Q xs)) \<Longrightarrow> sorted_wrt (<) (map k (filter (\<lambda>x. Q x \<and> P x) xs))"
  for k :: "'a \<Rightarrow> int"
  by (induction xs) (auto split: if_splits)

lemma numbering_filter:
  assumes "sorted_wrt (<) (0 # numbers_of a rows)"
  shows "sorted_wrt (<) (0 # numbers_of a (filter P rows))"
proof -
  have "sorted_wrt (<) (numbers_of a (filter P rows))"
    using assms sorted_map_filter [of re_SequenceNumber "\<lambda>r. re_EmailAddressID r = a" rows P]
    by (auto simp: numbers_of_def conj_commute)
  then show ?thesis using assms by (auto simp: numbers_of_def split: if_splits)
qed

subsection \<open>Every write keeps it\<close>

lemma exec_keeps:
  assumes "Q st" "\<And>fs. Q (st\<lparr>pg_faults := fs\<rparr>) = Q st" "\<And>s. Q s \<Longrightarrow> Q (snd (f s))"
  shows "Q (snd ((as_error \<circ> exec f) st))" "Q (snd (exec f st))"
proof -
  show "Q (snd (exec f st))"
    by (rule exec_rule [where Q = "\<lambda>x. Q (snd x)"]) (use assms in simp_all)
  then show "Q (snd ((as_error \<circ> exec f) st))" by (simp add: as_error_def)
qed

lemmas mdb_ok_parts = mdb_ok_def domains_ok_def addresses_ok_def received_ok_def stats_ok_def

lemma Domain_Create_ok: "mdb_ok st \<Longrightarrow> mdb_ok (snd (pg_Domain_Create d st))"
  unfolding pg_Domain_Create_def
  by (rule exec_keeps) (auto simp: mdb_ok_parts list_ex_iff domain_clash_def split: option.splits)

lemma replace_domains_ok:
  assumes "mdb_ok s" "map d_ID ds = map d_ID (mdb_domains s)" "distinct (map d_Domain ds)" "distinct (map d_APIKey ds)"
    and "\<forall>d \<in> set ds. domain_row_check d = None \<and> d_UserID d \<in> set (mdb_users s)"
  shows "mdb_ok (s\<lparr>mdb_domains := ds\<rparr>)"
proof -
  have "d_ID ` set ds = d_ID ` set (mdb_domains s)" using assms(2) by (metis set_map)
  then show ?thesis using assms by (simp add: mdb_ok_parts)
qed

lemma update_domain_ok:
  assumes "mdb_ok s" "\<not> list_ex (\<lambda>r. d_ID r \<noteq> d_ID d \<and> domain_clash d r) (mdb_domains s)"
    and "domain_row_check d = None" "d_UserID d \<in> set (mdb_users s)"
  shows "mdb_ok (s\<lparr>mdb_domains := map (\<lambda>r. if d_ID r = d_ID d
    then (persist_domain d)\<lparr>d_CreatedAt := d_CreatedAt r\<rparr> else r) (mdb_domains s)\<rparr>)"
proof -
  let ?g = "\<lambda>r. (persist_domain d)\<lparr>d_CreatedAt := d_CreatedAt r\<rparr>"
  let ?ds = "map (\<lambda>r. if d_ID r = d_ID d then ?g r else r) (mdb_domains s)"
  have D: "distinct (map d_ID (mdb_domains s))" "distinct (map d_Domain (mdb_domains s))" "distinct (map d_APIKey (mdb_domains s))"
    and R: "\<forall>r \<in> set (mdb_domains s). domain_row_check r = None \<and> d_UserID r \<in> set (mdb_users s)"
    using assms(1) by (auto simp: mdb_ok_parts)
  have "distinct (map d_Domain ?ds)" "distinct (map d_APIKey ?ds)"
    using distinct_update [OF D(1,2), of "d_ID d" ?g "d_Domain d"] distinct_update [OF D(1,3), of "d_ID d" ?g "d_APIKey d"] assms(2)
    by (auto simp: list_ex_iff domain_clash_def simp del: map_map)
  moreover have "map d_ID ?ds = map d_ID (mdb_domains s)" by auto
  moreover have "\<forall>d \<in> set ?ds. domain_row_check d = None \<and> d_UserID d \<in> set (mdb_users s)" using R assms(3,4) by auto
  ultimately show ?thesis using assms(1) by (intro replace_domains_ok)
qed

lemma Domain_Update_ok: "mdb_ok st \<Longrightarrow> mdb_ok (snd (pg_Domain_Update d st))"
  unfolding pg_Domain_Update_def by (rule exec_keeps) (simp_all add: update_domain_ok split: option.splits)

text \<open>Rows that refer to what a delete removes go with it or prevent it.\<close>

lemma holds_mail_iff: "holds_mail as st \<longleftrightarrow> (\<exists>r \<in> set (mdb_received st). \<exists>a \<in> set as. re_EmailAddressID r = Some a)"
  by (auto simp: holds_mail_def list_ex_iff split: option.splits)

lemma Domain_Delete_ok: "mdb_ok st \<Longrightarrow> mdb_ok (snd (pg_Domain_Delete i st))"
  unfolding pg_Domain_Delete_def Let_def
proof (rule exec_keeps, assumption, simp)
  fix s :: mail_db
  assume ok: "mdb_ok s"
  let ?gone = "map ea_ID (filter (\<lambda>a. ea_DomainID a = i) (mdb_addresses s))"
  let ?s = "s\<lparr>mdb_domains := filter (\<lambda>r. d_ID r \<noteq> i) (mdb_domains s),
    mdb_addresses := filter (\<lambda>a. ea_DomainID a \<noteq> i) (mdb_addresses s),
    mdb_stats := filter (\<lambda>s. st_DomainID s \<noteq> i \<and> st_EmailAddressID s \<notin> set ?gone) (mdb_stats s)\<rparr>"
  have "mdb_ok ?s" if free: "\<not> holds_mail ?gone s"
  proof -
    have "domains_ok ?s" using ok by (auto simp: mdb_ok_parts distinct_map_filter)
    moreover have "addresses_ok ?s" using ok by (fastforce simp: mdb_ok_parts distinct_map_filter)
    moreover have "received_ok ?s"
      using ok free unfolding mdb_ok_def received_ok_def holds_mail_iff by fastforce
    moreover have "stats_ok ?s" using ok by (fastforce simp: mdb_ok_parts distinct_map_filter)
    ultimately show ?thesis by (simp add: mdb_ok_def)
  qed
  then show "mdb_ok (snd (if \<not> list_ex (\<lambda>r. d_ID r = i) (mdb_domains s) then (Inl ErrNoRows, s)
      else if holds_mail ?gone s then (Inl ForeignKeyViolation, s) else (Inr (), ?s)))"
    using ok by simp
qed

lemma Address_Create_ok: "mdb_ok st \<Longrightarrow> mdb_ok (snd (pg_Address_Create a st))"
  unfolding pg_Address_Create_def
  by (rule exec_keeps) (auto simp: mdb_ok_parts list_ex_iff same_mailbox_def)

lemma replace_addresses_ok:
  assumes "mdb_ok s" "map ea_ID as = map ea_ID (mdb_addresses s)" "distinct (map (\<lambda>a. (ea_DomainID a, ea_LocalPart a)) as)"
    and "\<forall>a \<in> set as. ea_DomainID a \<in> d_ID ` set (mdb_domains s)"
  shows "mdb_ok (s\<lparr>mdb_addresses := as\<rparr>)"
proof -
  have "ea_ID ` set as = ea_ID ` set (mdb_addresses s)" using assms(2) by (metis set_map)
  then show ?thesis using assms by (simp add: mdb_ok_parts)
qed

lemma update_address_ok:
  assumes "mdb_ok s" "\<not> list_ex (\<lambda>r. ea_ID r \<noteq> ea_ID a \<and> same_mailbox a r) (mdb_addresses s)"
    and "ea_DomainID a \<in> d_ID ` set (mdb_domains s)"
  shows "mdb_ok (s\<lparr>mdb_addresses := map (\<lambda>r. if ea_ID r = ea_ID a
    then (persist_address a)\<lparr>ea_CreatedAt := ea_CreatedAt r\<rparr> else r) (mdb_addresses s)\<rparr>)"
proof -
  let ?g = "\<lambda>r. (persist_address a)\<lparr>ea_CreatedAt := ea_CreatedAt r\<rparr>"
  let ?as = "map (\<lambda>r. if ea_ID r = ea_ID a then ?g r else r) (mdb_addresses s)"
  have D: "distinct (map ea_ID (mdb_addresses s))" "distinct (map (\<lambda>a. (ea_DomainID a, ea_LocalPart a)) (mdb_addresses s))"
    and R: "\<forall>r \<in> set (mdb_addresses s). ea_DomainID r \<in> d_ID ` set (mdb_domains s)"
    using assms(1) by (auto simp: mdb_ok_parts)
  have "distinct (map (\<lambda>a. (ea_DomainID a, ea_LocalPart a)) ?as)"
    using distinct_update [OF D, of "ea_ID a" ?g "(ea_DomainID a, ea_LocalPart a)"] assms(2)
    by (auto simp: list_ex_iff same_mailbox_def simp del: map_map)
  moreover have "map ea_ID ?as = map ea_ID (mdb_addresses s)" by auto
  moreover have "\<forall>a \<in> set ?as. ea_DomainID a \<in> d_ID ` set (mdb_domains s)" using R assms(3) by auto
  ultimately show ?thesis using assms(1) by (intro replace_addresses_ok)
qed

lemma Address_Update_ok: "mdb_ok st \<Longrightarrow> mdb_ok (snd (pg_Address_Update a st))"
  unfolding pg_Address_Update_def by (rule exec_keeps) (simp_all add: update_address_ok)

lemma Address_Delete_ok: "mdb_ok st \<Longrightarrow> mdb_ok (snd (pg_Address_Delete i st))"
  unfolding pg_Address_Delete_def
proof (rule exec_keeps, assumption, simp)
  fix s :: mail_db
  assume ok: "mdb_ok s"
  let ?s = "s\<lparr>mdb_addresses := filter (\<lambda>r. ea_ID r \<noteq> i) (mdb_addresses s),
    mdb_stats := filter (\<lambda>s. st_EmailAddressID s \<noteq> i) (mdb_stats s)\<rparr>"
  have "mdb_ok ?s" if free: "\<not> holds_mail [i] s"
  proof -
    have "domains_ok ?s" "addresses_ok ?s" "stats_ok ?s" using ok by (auto simp: mdb_ok_parts distinct_map_filter)
    moreover have "received_ok ?s"
      using ok free unfolding mdb_ok_def received_ok_def holds_mail_iff by fastforce
    ultimately show ?thesis by (simp add: mdb_ok_def)
  qed
  then show "mdb_ok (snd (if \<not> list_ex (\<lambda>r. ea_ID r = i) (mdb_addresses s) then (Inl ErrNoRows, s)
      else if holds_mail [i] s then (Inl ForeignKeyViolation, s) else (Inr (), ?s)))"
    using ok by simp
qed

lemma received_ok_append:
  assumes "mdb_ok s" "re_ID r \<notin> re_ID ` set (mdb_received s)"
    and "re_EmailAddressID r = b" "\<And>a. b = Some a \<Longrightarrow> a \<in> ea_ID ` set (mdb_addresses s)"
  shows "mdb_ok (s\<lparr>mdb_received := mdb_received s @ [persist_received (next_sequence b (mdb_received s)) r]\<rparr>)"
proof -
  let ?n = "next_sequence b (mdb_received s)"
  let ?s = "s\<lparr>mdb_received := mdb_received s @ [persist_received ?n r]\<rparr>"
  have ok: "received_ok s" using assms(1) by (simp add: mdb_ok_def)
  have "sorted_wrt (<) (0 # numbers_of a (mdb_received ?s))" for a
    using numbering_append [of "mdb_received s" a r] ok assms(3) by (simp only: received_ok_def mail_db.simps mail_db.surjective) simp
  moreover have "\<forall>x \<in> set (mdb_received ?s). \<forall>a. re_EmailAddressID x = Some a \<longrightarrow> a \<in> ea_ID ` set (mdb_addresses ?s)"
    using ok assms(3,4) by (auto simp: received_ok_def)
  moreover have "distinct (map re_ID (mdb_received ?s))" using ok assms(2) by (simp add: received_ok_def)
  ultimately have "received_ok ?s" unfolding received_ok_def by blast
  moreover have "domains_ok ?s" "addresses_ok ?s" "stats_ok ?s"
    using assms(1) by (simp_all add: mdb_ok_def domains_ok_def addresses_ok_def stats_ok_def)
  ultimately show ?thesis by (simp add: mdb_ok_def)
qed

lemma Received_Create_ok: "mdb_ok st \<Longrightarrow> mdb_ok (snd (pg_Received_Create r st))"
  unfolding pg_Received_Create_def Let_def
  by (rule exec_keeps(2)) (auto simp: list_ex_iff intro!: received_ok_append split: option.splits)

lemma Received_Delete_ok: "mdb_ok st \<Longrightarrow> mdb_ok (snd (pg_Received_Delete i st))"
  unfolding pg_Received_Delete_def
proof (rule exec_keeps, assumption, simp)
  fix s :: mail_db
  assume ok: "mdb_ok s"
  let ?s = "s\<lparr>mdb_received := filter (\<lambda>r. re_ID r \<noteq> i) (mdb_received s)\<rparr>"
  have "received_ok ?s" unfolding received_ok_def
  proof (intro conjI allI)
    show "sorted_wrt (<) (0 # numbers_of a (mdb_received ?s))" for a
      using ok numbering_filter [of a "mdb_received s"] by (simp add: mdb_ok_def received_ok_def)
  qed (use ok in \<open>auto simp: mdb_ok_def received_ok_def distinct_map_filter\<close>)
  then have "mdb_ok ?s" using ok by (simp add: mdb_ok_def domains_ok_def addresses_ok_def stats_ok_def)
  then show "mdb_ok (snd (if \<not> list_ex (\<lambda>r. re_ID r = i) (mdb_received s) then (Inl ErrNoRows, s) else (Inr (), ?s)))"
    using ok by simp
qed

lemma CreateStat_ok: "mdb_ok st \<Longrightarrow> mdb_ok (snd (pg_CreateStat x st))"
  unfolding pg_CreateStat_def
  by (rule exec_keeps) (auto simp: mdb_ok_parts list_ex_iff)

text \<open>All writes of the repositories.\<close>

datatype mail_write =
    CreateDomainRow Domain | UpdateDomainRow Domain | DeleteDomainRow uuid
  | CreateAddressRow EmailAddress | UpdateAddressRow EmailAddress | DeleteAddressRow uuid
  | CreateReceivedRow ReceivedEmail | DeleteReceivedRow uuid | CreateStatRow SMTPVerificationStat

fun run_write :: "mail_write \<Rightarrow> mail_db \<Rightarrow> mail_db" where
  "run_write (CreateDomainRow d) st = snd (pg_Domain_Create d st)"
| "run_write (UpdateDomainRow d) st = snd (pg_Domain_Update d st)"
| "run_write (DeleteDomainRow i) st = snd (pg_Domain_Delete i st)"
| "run_write (CreateAddressRow a) st = snd (pg_Address_Create a st)"
| "run_write (UpdateAddressRow a) st = snd (pg_Address_Update a st)"
| "run_write (DeleteAddressRow i) st = snd (pg_Address_Delete i st)"
| "run_write (CreateReceivedRow r) st = snd (pg_Received_Create r st)"
| "run_write (DeleteReceivedRow i) st = snd (pg_Received_Delete i st)"
| "run_write (CreateStatRow x) st = snd (pg_CreateStat x st)"

lemma run_write_ok: "mdb_ok st \<Longrightarrow> mdb_ok (run_write w st)"
  by (cases w) (simp_all add: Domain_Create_ok Domain_Update_ok Domain_Delete_ok Address_Create_ok Address_Update_ok
      Address_Delete_ok Received_Create_ok Received_Delete_ok CreateStat_ok)

section \<open>The contract\<close>

record mail_view =
  v_domains :: "uuid \<Rightarrow> Domain option"
  v_addresses :: "uuid \<Rightarrow> EmailAddress option"
  v_received :: "uuid \<Rightarrow> ReceivedEmail option"

text \<open>A read leaves the view alone and answers the truth; a write happens or leaves the view alone.\<close>

definition read_law ::
    "('st \<Rightarrow> bool) \<Rightarrow> ('st \<Rightarrow> mail_view) \<Rightarrow> ('st \<Rightarrow> (db_error + 'a) \<times> 'st) \<Rightarrow> (mail_view \<Rightarrow> 'a \<Rightarrow> bool) \<Rightarrow> bool" where
  "read_law iv view f P \<longleftrightarrow> (\<forall>st. iv st \<longrightarrow> iv (snd (f st)) \<and> view (snd (f st)) = view st \<and>
     (\<forall>x. fst (f st) = Inr x \<longrightarrow> P (view st) x))"

definition write_law ::
    "('st \<Rightarrow> bool) \<Rightarrow> ('st \<Rightarrow> mail_view) \<Rightarrow> ('st \<Rightarrow> db_error option \<times> 'st) \<Rightarrow> (mail_view \<Rightarrow> bool) \<Rightarrow> (mail_view \<Rightarrow> mail_view) \<Rightarrow> bool" where
  "write_law iv view f P g \<longleftrightarrow> (\<forall>st. iv st \<longrightarrow> iv (snd (f st)) \<and>
     (if fst (f st) = None then P (view st) \<and> view (snd (f st)) = g (view st) else view (snd (f st)) = view st))"

lemma read_lawD:
  "read_law iv view f P \<Longrightarrow> iv st \<Longrightarrow> f st = (r, st') \<Longrightarrow> iv st' \<and> view st' = view st \<and> (\<forall>x. r = Inr x \<longrightarrow> P (view st) x)"
  by (metis fst_conv read_law_def snd_conv)

lemma write_lawD:
  "write_law iv view f P g \<Longrightarrow> iv st \<Longrightarrow> f st = (r, st') \<Longrightarrow>
     iv st' \<and> (if r = None then P (view st) \<and> view st' = g (view st) else view st' = view st)"
  by (metis fst_conv snd_conv write_law_def)

definition mailbox_of :: "mail_view \<Rightarrow> uuid option \<Rightarrow> EmailAddress option" where
  "mailbox_of v a = Option.bind a (v_addresses v)"

definition put_domain :: "Domain \<Rightarrow> mail_view \<Rightarrow> mail_view" where
  "put_domain d v = v\<lparr>v_domains := (v_domains v)(d_ID d \<mapsto> d)\<rparr>"

definition put_address :: "EmailAddress \<Rightarrow> mail_view \<Rightarrow> mail_view" where
  "put_address a v = v\<lparr>v_addresses := (v_addresses v)(ea_ID a \<mapsto> a)\<rparr>"

definition drop_domain :: "uuid \<Rightarrow> mail_view \<Rightarrow> mail_view" where
  "drop_domain i v = v\<lparr>v_domains := (v_domains v)(i := None),
     v_addresses := (\<lambda>a. Option.bind (v_addresses v a) (\<lambda>x. if ea_DomainID x = i then None else Some x))\<rparr>"

definition drop_address :: "uuid \<Rightarrow> mail_view \<Rightarrow> mail_view" where
  "drop_address i v = v\<lparr>v_addresses := (v_addresses v)(i := None)\<rparr>"

definition drop_received :: "uuid \<Rightarrow> mail_view \<Rightarrow> mail_view" where
  "drop_received i v = v\<lparr>v_received := (v_received v)(i := None)\<rparr>"

locale mail_store =
  fixes dops :: "'st domain_ops" and aops :: "'st address_ops" and rops :: "'st received_ops"
    and view :: "'st \<Rightarrow> mail_view" and inv :: "'st \<Rightarrow> bool"
  assumes domain_by_id: "read_law inv view (dom_GetByID dops i) (\<lambda>v d. v_domains v i = Some d)"
    and domain_by_name: "read_law inv view (dom_GetByDomain dops nm) (\<lambda>v d. v_domains v (d_ID d) = Some d \<and> d_Domain d = nm)"
    and domain_by_key: "read_law inv view (dom_GetByAPIKey dops k) (\<lambda>v d. v_domains v (d_ID d) = Some d \<and> d_APIKey d = k)"
    and domain_by_user: "read_law inv view (dom_GetByUserID dops u)
      (\<lambda>v ds. \<forall>d. d \<in> set ds \<longleftrightarrow> v_domains v (d_ID d) = Some d \<and> d_UserID d = u)"
    and domain_create: "write_law inv view (dom_Create dops d)
      (\<lambda>v. v_domains v (d_ID d) = None \<and> (\<forall>e \<in> ran (v_domains v). d_Domain e \<noteq> d_Domain d \<and> d_APIKey e \<noteq> d_APIKey d))
      (put_domain (persist_domain d))"
    and domain_update: "write_law inv view (dom_Update dops d) (\<lambda>v. v_domains v (d_ID d) \<noteq> None)
      (\<lambda>v. put_domain ((persist_domain d)\<lparr>d_CreatedAt := d_CreatedAt (the (v_domains v (d_ID d)))\<rparr>) v)"
    and domain_delete: "write_law inv view (dom_Delete dops i)
      (\<lambda>v. v_domains v i \<noteq> None \<and> (\<forall>r \<in> ran (v_received v). \<forall>a. mailbox_of v (re_EmailAddressID r) = Some a \<longrightarrow> ea_DomainID a \<noteq> i))
      (drop_domain i)"
    and address_by_id: "read_law inv view (addr_GetByID aops i) (\<lambda>v a. v_addresses v i = Some a)"
    and address_by_domain: "read_law inv view (addr_GetByDomainID aops i)
      (\<lambda>v as. \<forall>a. a \<in> set as \<longleftrightarrow> v_addresses v (ea_ID a) = Some a \<and> ea_DomainID a = i)"
    and address_by_local: "read_law inv view (addr_GetByLocalPartAndDomain aops l i)
      (\<lambda>v a. v_addresses v (ea_ID a) = Some a \<and> ea_LocalPart a = l \<and> ea_DomainID a = i)"
    and address_create: "write_law inv view (addr_Create aops a)
      (\<lambda>v. v_addresses v (ea_ID a) = None \<and> v_domains v (ea_DomainID a) \<noteq> None \<and> (\<forall>b \<in> ran (v_addresses v). \<not> same_mailbox a b))
      (put_address (persist_address a))"
    and address_update: "write_law inv view (addr_Update aops a) (\<lambda>v. v_addresses v (ea_ID a) \<noteq> None)
      (\<lambda>v. put_address ((persist_address a)\<lparr>ea_CreatedAt := ea_CreatedAt (the (v_addresses v (ea_ID a)))\<rparr>) v)"
    and address_delete: "write_law inv view (addr_Delete aops i)
      (\<lambda>v. v_addresses v i \<noteq> None \<and> (\<forall>r \<in> ran (v_received v). re_EmailAddressID r \<noteq> Some i)) (drop_address i)"
    and received_by_id: "read_law inv view (rcv_GetByID rops i)
      (\<lambda>v r. \<exists>x s. v_received v i = Some x \<and> r = x\<lparr>re_SMTPVerification := s\<rparr>)"
    and received_create: "inv st \<Longrightarrow> rcv_Create rops r st = (Inr n, st') \<Longrightarrow> inv st' \<and> v_received (view st) (re_ID r) = None \<and>
        (\<forall>x \<in> ran (v_received (view st)). re_EmailAddressID r \<noteq> None \<and> re_EmailAddressID x = re_EmailAddressID r \<longrightarrow> re_SequenceNumber x < n) \<and>
        view st' = (view st)\<lparr>v_received := (v_received (view st))(re_ID r \<mapsto> persist_received n r)\<rparr>"
    and received_create_fails: "inv st \<Longrightarrow> rcv_Create rops r st = (Inl er, st') \<Longrightarrow> inv st' \<and> view st' = view st"
    and received_delete: "write_law inv view (rcv_Delete rops i) (\<lambda>v. v_received v i \<noteq> None) (drop_received i)"
    and domain_stored: "inv st \<Longrightarrow> v_domains (view st) i = Some d \<Longrightarrow> d_ID d = i"
    and domain_unique: "inv st \<Longrightarrow> v_domains (view st) i = Some d \<Longrightarrow> v_domains (view st) j = Some e \<Longrightarrow> d_Domain d = d_Domain e \<Longrightarrow> i = j"
    and address_stored: "inv st \<Longrightarrow> v_addresses (view st) i = Some a \<Longrightarrow> ea_ID a = i \<and> v_domains (view st) (ea_DomainID a) \<noteq> None"

section \<open>PostgreSQL satisfies it\<close>

definition pg_view :: "mail_db \<Rightarrow> mail_view" where
  "pg_view st = \<lparr>v_domains = lookup d_ID (mdb_domains st), v_addresses = lookup ea_ID (mdb_addresses st),
     v_received = lookup re_ID (mdb_received st)\<rparr>"

lemma pg_view_faults [simp]: "pg_view (st\<lparr>pg_faults := fs\<rparr>) = pg_view st"
  by (simp add: pg_view_def)

lemma pg_view_fields [simp]:
  "v_domains (pg_view st) = lookup d_ID (mdb_domains st)" "v_addresses (pg_view st) = lookup ea_ID (mdb_addresses st)"
  "v_received (pg_view st) = lookup re_ID (mdb_received st)"
  by (simp_all add: pg_view_def)

lemma distinct_keys:
  "mdb_ok st \<Longrightarrow> distinct (map d_ID (mdb_domains st))" "mdb_ok st \<Longrightarrow> distinct (map ea_ID (mdb_addresses st))"
  "mdb_ok st \<Longrightarrow> distinct (map re_ID (mdb_received st))"
  by (simp_all add: mdb_ok_parts)

lemma view_Some:
  assumes "mdb_ok st"
  shows "lookup d_ID (mdb_domains st) i = Some d \<longleftrightarrow> d \<in> set (mdb_domains st) \<and> d_ID d = i"
    and "lookup ea_ID (mdb_addresses st) i = Some a \<longleftrightarrow> a \<in> set (mdb_addresses st) \<and> ea_ID a = i"
    and "lookup re_ID (mdb_received st) i = Some r \<longleftrightarrow> r \<in> set (mdb_received st) \<and> re_ID r = i"
  by (rule lookup_Some, rule distinct_keys [OF assms])+

lemma ran_lookup: "distinct (map k rs) \<Longrightarrow> ran (lookup k rs) = set rs"
  by (auto simp: ran_def lookup_Some)

lemma one_row_Inr [simp]: "one_row_of x = Inr y \<longleftrightarrow> x = Some y"
  by (simp add: one_row_of_def split: option.splits)

lemma pg_read:
  assumes "\<And>st x. mdb_ok st \<Longrightarrow> f st = Inr x \<Longrightarrow> P (pg_view st) x"
  shows "read_law mdb_ok pg_view (exec (\<lambda>st. (f st, st))) P"
  unfolding read_law_def
proof (intro allI impI)
  fix st
  assume ok: "mdb_ok st"
  let ?Q = "\<lambda>y. mdb_ok (snd y) \<and> pg_view (snd y) = pg_view st \<and> (\<forall>x. fst y = Inr x \<longrightarrow> P (pg_view st) x)"
  show "?Q (exec (\<lambda>st. (f st, st)) st)"
    by (rule exec_rule [where Q = ?Q]) (use ok assms [of "st\<lparr>pg_faults := _\<rparr>"] in auto)
qed

lemma pg_write:
  assumes opd: "opn = as_error \<circ> exec f"
    and keeps: "\<And>st. mdb_ok st \<Longrightarrow> mdb_ok (snd (opn st))"
    and "\<And>st er st'. mdb_ok st \<Longrightarrow> f st = (Inl er, st') \<Longrightarrow> st' = st"
    and "\<And>st u st'. mdb_ok st \<Longrightarrow> f st = (Inr u, st') \<Longrightarrow> P (pg_view st) \<and> pg_view st' = g (pg_view st)"
  shows "write_law mdb_ok pg_view opn P g"
  unfolding write_law_def
proof (intro allI impI)
  fix st
  assume ok: "mdb_ok st"
  let ?Q = "\<lambda>y. if fst (as_error y) = None then P (pg_view st) \<and> pg_view (snd (as_error y)) = g (pg_view st)
    else pg_view (snd (as_error y)) = pg_view st"
  have "?Q (exec f st)"
  proof (rule exec_rule [where Q = ?Q])
    fix fs
    let ?s = "st\<lparr>pg_faults := fs\<rparr>"
    have s: "mdb_ok ?s" "pg_view ?s = pg_view st" using ok by simp_all
    show "?Q (f ?s)"
    proof (cases "f ?s")
      case (Pair r st')
      then show ?thesis using assms(3,4) [OF s(1)] s(2) by (cases r) auto
    qed
  qed simp
  then show "mdb_ok (snd (opn st)) \<and> (if fst (opn st) = None
      then P (pg_view st) \<and> pg_view (snd (opn st)) = g (pg_view st) else pg_view (snd (opn st)) = pg_view st)"
    using keeps [OF ok] by (simp add: opd)
qed

lemma view_append:
  "\<forall>r \<in> set (mdb_domains st). d_ID r \<noteq> d_ID d \<Longrightarrow>
     pg_view (st\<lparr>mdb_domains := mdb_domains st @ [d]\<rparr>) = put_domain d (pg_view st)"
  "\<forall>r \<in> set (mdb_addresses st). ea_ID r \<noteq> ea_ID a \<Longrightarrow>
     pg_view (st\<lparr>mdb_addresses := mdb_addresses st @ [a]\<rparr>) = put_address a (pg_view st)"
  by (simp_all add: pg_view_def put_domain_def put_address_def lookup_append)

lemma lookup_update_Some:
  assumes "\<And>r. k (g r) = k r" "lookup k rs i = Some r"
  shows "lookup k (map (\<lambda>r. if k r = i then g r else r) rs) = (lookup k rs)(i \<mapsto> g r)"
  using lookup_update [of k g i rs] assms by simp

lemma lookup_ex: "list_ex (\<lambda>r. k r = i) rs \<longleftrightarrow> (\<exists>r. lookup k rs i = Some r)"
  by (induction rs) (simp_all add: lookup_def)

lemma view_update_domain:
  assumes "list_ex (\<lambda>r. d_ID r = d_ID d) (mdb_domains st)"
  shows "pg_view (st\<lparr>mdb_domains := map (\<lambda>r. if d_ID r = d_ID d then (persist_domain d)\<lparr>d_CreatedAt := d_CreatedAt r\<rparr> else r) (mdb_domains st)\<rparr>) =
    put_domain ((persist_domain d)\<lparr>d_CreatedAt := d_CreatedAt (the (lookup d_ID (mdb_domains st) (d_ID d)))\<rparr>) (pg_view st)"
proof -
  obtain r where r: "lookup d_ID (mdb_domains st) (d_ID d) = Some r" using assms by (auto simp: lookup_ex)
  let ?g = "\<lambda>r. if d_ID r = d_ID d then (persist_domain d)\<lparr>d_CreatedAt := d_CreatedAt r\<rparr> else r"
  have "(\<lambda>r. if d_ID r = d_ID d then ?g r else r) = ?g" by auto
  then have "lookup d_ID (map ?g (mdb_domains st)) = (lookup d_ID (mdb_domains st))(d_ID d \<mapsto> ?g r)"
    using lookup_update_Some [of d_ID ?g "mdb_domains st" "d_ID d" r] r by simp
  then show ?thesis using r lookup_SomeD [OF r] by (simp add: pg_view_def put_domain_def)
qed

lemma view_update_address:
  assumes "list_ex (\<lambda>r. ea_ID r = ea_ID a) (mdb_addresses st)"
  shows "pg_view (st\<lparr>mdb_addresses := map (\<lambda>r. if ea_ID r = ea_ID a then (persist_address a)\<lparr>ea_CreatedAt := ea_CreatedAt r\<rparr> else r) (mdb_addresses st)\<rparr>) =
    put_address ((persist_address a)\<lparr>ea_CreatedAt := ea_CreatedAt (the (lookup ea_ID (mdb_addresses st) (ea_ID a)))\<rparr>) (pg_view st)"
proof -
  obtain r where r: "lookup ea_ID (mdb_addresses st) (ea_ID a) = Some r" using assms by (auto simp: lookup_ex)
  let ?g = "\<lambda>r. if ea_ID r = ea_ID a then (persist_address a)\<lparr>ea_CreatedAt := ea_CreatedAt r\<rparr> else r"
  have "(\<lambda>r. if ea_ID r = ea_ID a then ?g r else r) = ?g" by auto
  then have "lookup ea_ID (map ?g (mdb_addresses st)) = (lookup ea_ID (mdb_addresses st))(ea_ID a \<mapsto> ?g r)"
    using lookup_update_Some [of ea_ID ?g "mdb_addresses st" "ea_ID a" r] r by simp
  then show ?thesis using r lookup_SomeD [OF r] by (simp add: pg_view_def put_address_def)
qed

lemma pg_domain_create: "write_law mdb_ok pg_view (pg_Domain_Create d)
    (\<lambda>v. v_domains v (d_ID d) = None \<and> (\<forall>e \<in> ran (v_domains v). d_Domain e \<noteq> d_Domain d \<and> d_APIKey e \<noteq> d_APIKey d))
    (put_domain (persist_domain d))"
  by (rule pg_write [OF pg_Domain_Create_def Domain_Create_ok])
    (auto simp: list_ex_iff domain_clash_def lookup_None ran_lookup distinct_keys view_append split: option.splits if_splits)

lemma pg_domain_update: "write_law mdb_ok pg_view (pg_Domain_Update d) (\<lambda>v. v_domains v (d_ID d) \<noteq> None)
    (\<lambda>v. put_domain ((persist_domain d)\<lparr>d_CreatedAt := d_CreatedAt (the (v_domains v (d_ID d)))\<rparr>) v)"
  by (rule pg_write [OF pg_Domain_Update_def Domain_Update_ok])
    (simp_all add: view_update_domain lookup_ex split: option.splits if_splits, auto simp: view_update_domain lookup_ex)

lemma view_delete_domain:
  "distinct (map ea_ID (mdb_addresses st)) \<Longrightarrow>
   pg_view (st\<lparr>mdb_domains := filter (\<lambda>r. d_ID r \<noteq> i) (mdb_domains st),
     mdb_addresses := filter (\<lambda>a. ea_DomainID a \<noteq> i) (mdb_addresses st), mdb_stats := ss\<rparr>) = drop_domain i (pg_view st)"
  by (auto simp: pg_view_def drop_domain_def lookup_remove lookup_filter fun_eq_iff intro!: Option.bind_cong)

lemma pg_domain_delete: "write_law mdb_ok pg_view (pg_Domain_Delete i)
    (\<lambda>v. v_domains v i \<noteq> None \<and> (\<forall>r \<in> ran (v_received v). \<forall>a. mailbox_of v (re_EmailAddressID r) = Some a \<longrightarrow> ea_DomainID a \<noteq> i))
    (drop_domain i)"
proof (rule pg_write [OF pg_Domain_Delete_def Domain_Delete_ok], goal_cases)
  case (3 st u st')
  then have "\<not> holds_mail (map ea_ID (filter (\<lambda>a. ea_DomainID a = i) (mdb_addresses st))) st"
    "list_ex (\<lambda>r. d_ID r = i) (mdb_domains st)" by (auto simp: Let_def split: if_splits)
  then have "v_domains (pg_view st) i \<noteq> None" "\<forall>r \<in> ran (v_received (pg_view st)). \<forall>a. mailbox_of (pg_view st) (re_EmailAddressID r) = Some a \<longrightarrow> ea_DomainID a \<noteq> i"
    using 3(1) by (auto simp: lookup_ex holds_mail_iff ran_lookup distinct_keys mailbox_of_def bind_eq_Some_conv view_Some)
  then show ?case using 3 by (auto simp: Let_def view_delete_domain distinct_keys split: if_splits)
qed (auto simp: Let_def split: if_splits)

lemma pg_address_create: "write_law mdb_ok pg_view (pg_Address_Create a)
    (\<lambda>v. v_addresses v (ea_ID a) = None \<and> v_domains v (ea_DomainID a) \<noteq> None \<and> (\<forall>b \<in> ran (v_addresses v). \<not> same_mailbox a b))
    (put_address (persist_address a))"
proof (rule pg_write [OF pg_Address_Create_def Address_Create_ok], goal_cases)
  case (3 st u st')
  then have "v_domains (pg_view st) (ea_DomainID a) \<noteq> None" by (simp add: lookup_None split: if_splits)
  then show ?case using 3
    by (auto simp: list_ex_iff lookup_None ran_lookup distinct_keys view_append split: if_splits)
qed (auto split: if_splits)

lemma pg_address_update: "write_law mdb_ok pg_view (pg_Address_Update a) (\<lambda>v. v_addresses v (ea_ID a) \<noteq> None)
    (\<lambda>v. put_address ((persist_address a)\<lparr>ea_CreatedAt := ea_CreatedAt (the (v_addresses v (ea_ID a)))\<rparr>) v)"
  by (rule pg_write [OF pg_Address_Update_def Address_Update_ok])
    (simp_all add: view_update_address lookup_ex split: if_splits, auto simp: view_update_address lookup_ex)

lemma pg_address_delete: "write_law mdb_ok pg_view (pg_Address_Delete i)
    (\<lambda>v. v_addresses v i \<noteq> None \<and> (\<forall>r \<in> ran (v_received v). re_EmailAddressID r \<noteq> Some i)) (drop_address i)"
  by (rule pg_write [OF pg_Address_Delete_def Address_Delete_ok])
    (auto simp: lookup_ex holds_mail_iff ran_lookup distinct_keys pg_view_def drop_address_def lookup_remove split: if_splits)

lemma pg_received_delete: "write_law mdb_ok pg_view (pg_Received_Delete i) (\<lambda>v. v_received v i \<noteq> None) (drop_received i)"
  by (rule pg_write [OF pg_Received_Delete_def Received_Delete_ok])
    (auto simp: lookup_ex pg_view_def drop_received_def lookup_remove split: if_splits)

lemma pg_received_create:
  assumes ok: "mdb_ok st" and c: "pg_Received_Create r st = (Inr n, st')"
  shows "mdb_ok st' \<and> v_received (pg_view st) (re_ID r) = None \<and>
    (\<forall>x \<in> ran (v_received (pg_view st)). re_EmailAddressID r \<noteq> None \<and> re_EmailAddressID x = re_EmailAddressID r \<longrightarrow> re_SequenceNumber x < n) \<and>
    pg_view st' = (pg_view st)\<lparr>v_received := (v_received (pg_view st))(re_ID r \<mapsto> persist_received n r)\<rparr>"
proof -
  have "mdb_ok st'" using Received_Create_ok [OF ok, of r] c by simp
  moreover obtain fs where n: "n = next_sequence (re_EmailAddressID r) (mdb_received st)"
    and new: "\<forall>x \<in> set (mdb_received st). re_ID x \<noteq> re_ID r"
    and st': "st' = st\<lparr>pg_faults := fs, mdb_received := mdb_received st @ [persist_received n r]\<rparr>"
    using c unfolding pg_Received_Create_def Let_def
    by (elim exec_cases) (auto simp: list_ex_iff split: if_splits)
  moreover have "re_SequenceNumber x < n" if "x \<in> set (mdb_received st)" "re_EmailAddressID r \<noteq> None" "re_EmailAddressID x = re_EmailAddressID r" for x
    using that next_sequence_greater [of "re_SequenceNumber x" "re_EmailAddressID r" "mdb_received st"]
    by (auto simp: n numbers_of_def)
  moreover have "pg_view st' = (pg_view st)\<lparr>v_received := (v_received (pg_view st))(re_ID r \<mapsto> persist_received n r)\<rparr>"
    using new by (simp add: st' pg_view_def lookup_append)
  ultimately show ?thesis using new ok by (auto simp: lookup_None ran_lookup distinct_keys)
qed

lemma pg_received_create_fails:
  assumes ok: "mdb_ok st" and c: "pg_Received_Create r st = (Inl er, st')"
  shows "mdb_ok st' \<and> pg_view st' = pg_view st"
proof -
  have "mdb_ok st'" using Received_Create_ok [OF ok, of r] c by simp
  then show ?thesis using c unfolding pg_Received_Create_def Let_def
    by (elim exec_cases) (auto split: if_splits)
qed

interpretation pgm: mail_store pg_domains_repo pg_addresses_repo "pg_received_repo inet collate" pg_view mdb_ok
proof (unfold_locales, goal_cases)
  case (1 i)
  then show ?case unfolding pg_domains_repo_def domain_ops.simps pg_Domain_GetByID_def
    by (rule pg_read) (simp add: lookup_def)
next
  case (2 nm)
  then show ?case unfolding pg_domains_repo_def domain_ops.simps pg_Domain_GetByDomain_def
    by (rule pg_read) (auto simp: view_Some dest: find_SomeD)
next
  case (3 k)
  then show ?case unfolding pg_domains_repo_def domain_ops.simps pg_Domain_GetByAPIKey_def
    by (rule pg_read) (auto simp: view_Some dest: find_SomeD)
next
  case (4 u)
  then show ?case unfolding pg_domains_repo_def domain_ops.simps pg_Domain_GetByUserID_def
    by (rule pg_read) (auto simp: view_Some)
next
  case (5 d)
  then show ?case using pg_domain_create [of d] by (simp add: pg_domains_repo_def)
next
  case (6 d)
  then show ?case using pg_domain_update [of d] by (simp add: pg_domains_repo_def)
next
  case (7 i)
  then show ?case using pg_domain_delete [of i] by (simp add: pg_domains_repo_def)
next
  case (8 i)
  then show ?case unfolding pg_addresses_repo_def address_ops.simps pg_Address_GetByID_def
    by (rule pg_read) (simp add: lookup_def)
next
  case (9 i)
  then show ?case unfolding pg_addresses_repo_def address_ops.simps pg_Address_GetByDomainID_def
    by (rule pg_read) (auto simp: view_Some)
next
  case (10 l i)
  then show ?case unfolding pg_addresses_repo_def address_ops.simps pg_Address_GetByLocalPartAndDomain_def
    by (rule pg_read) (auto simp: view_Some dest: find_SomeD)
next
  case (11 a)
  then show ?case using pg_address_create [of a] by (simp add: pg_addresses_repo_def)
next
  case (12 a)
  then show ?case using pg_address_update [of a] by (simp add: pg_addresses_repo_def)
next
  case (13 i)
  then show ?case using pg_address_delete [of i] by (simp add: pg_addresses_repo_def)
next
  case (14 i)
  then show ?case unfolding pg_received_repo_def received_ops.simps pg_Received_GetByID_def
    by (rule pg_read) (auto simp: attach_stat_def lookup_def)
next
  case (15 st r n st')
  then show ?case using pg_received_create [of st r n st'] by (simp add: pg_received_repo_def)
next
  case (16 st r er st')
  then show ?case using pg_received_create_fails [of st r er st'] by (simp add: pg_received_repo_def)
next
  case (17 i)
  then show ?case using pg_received_delete [of i] by (simp add: pg_received_repo_def)
next
  case (18 st i d)
  then show ?case by (simp add: view_Some)
next
  case (19 st i d j e)
  then have "distinct (map d_Domain (mdb_domains st))" by (simp add: mdb_ok_parts)
  then show ?case using 19 by (auto simp: view_Some distinct_map inj_on_def)
next
  case (20 st i a)
  then show ?case by (auto simp: view_Some lookup_None mdb_ok_parts)
qed

section \<open>Property\<close>

text \<open>
  C26: Every sequence of the repositories' writes, faults included, keeps the tables well-formed: keys are unique, every
  mailbox has its domain, every message and verification record refers to a mailbox that exists, each domain's owner
  exists, and the messages of a mailbox are numbered upwards from a positive number in the order they arrived.
\<close>

theorem writes_keep_tables: "mdb_ok st \<Longrightarrow> mdb_ok (fold run_write ws st)"
  by (induction ws arbitrary: st) (simp_all add: run_write_ok)

theorem writes_keep_tables_witness:
  "let mail = (\<lambda>i. \<lparr>re_ID = i, re_EmailAddressID = Some 20, re_SequenceNumber = 0, re_FromAddress = ''x@y.org'', re_Subject = None,
         re_EncryptedBody = ''e'', re_DomainName = [], re_EmailAddress = [], re_ReceivedAt = 0, re_SMTPVerification = None\<rparr>);
       box = \<lparr>ea_ID = 20, ea_DomainID = 10, ea_LocalPart = ''bob'', ea_ForwardAddresses = [], ea_ForwardingEnabled = False,
         ea_CreatedAt = 0, ea_UpdatedAt = 0\<rparr>;
       dom = \<lparr>d_ID = 10, d_UserID = 1, d_Domain = ''a.org'', d_PublicKey = ''k'', d_APIKey = ''pm_'', d_StorageEnabled = True,
         d_AutoCreateAddress = False, d_WebhookConfig = None, d_VerificationStatus = VerificationStatusPending,
         d_VerificationToken = [], d_LastVerificationAttempt = None, d_VerificationError = [], d_VerificationAttempts = 0,
         d_NextVerificationAttempt = None, d_CreatedAt = 0, d_UpdatedAt = 0\<rparr>;
       db = fold run_write [CreateDomainRow dom, CreateAddressRow box, CreateReceivedRow (mail 1), CreateReceivedRow (mail 2),
         DeleteReceivedRow 1, CreateReceivedRow (mail 3), DeleteAddressRow 20]
         \<lparr>pg_faults = [], mdb_users = [1], mdb_domains = [], mdb_addresses = [], mdb_received = [], mdb_stats = [],
          mdb_validations = []\<rparr>
   in mdb_ok db \<and> map re_SequenceNumber (mdb_received db) = [2, 3] \<and> mdb_addresses db \<noteq> []"
  unfolding Let_def
  by (intro conjI writes_keep_tables)
    (simp_all add: mdb_ok_parts numbers_of_def pg_Domain_Create_def pg_Address_Create_def pg_Received_Create_def pg_Received_Delete_def
      pg_Address_Delete_def holds_mail_def as_error_def exec_def domain_row_check_def in_int32_def next_sequence_def
      persist_received_def persist_domain_def persist_address_def)

end
