(* ===== verification/GoRegexp.thy ===== *)
theory GoRegexp
  imports GoStrings
begin

text \<open>
  The fragment of Go's \<open>regexp\<close> syntax the content filter uses: character classes, alternation,
  repetition and the ASCII word boundary, with the case-insensitive flag for a whole expression. The
  matcher computes all end positions of a match that starts at a given position; it is proved equal to
  the relational semantics. Texts are ASCII, where a byte is a rune.
\<close>

section \<open>Syntax and matcher\<close>

datatype re = Eps | Cls bool "(nat \<times> nat) list" | Seq re re | Alt re re | Star re | WordB

definition in_class :: "bool \<Rightarrow> bool \<Rightarrow> (nat \<times> nat) list \<Rightarrow> char \<Rightarrow> bool" where
  "in_class ci neg rs c \<longleftrightarrow>
     list_ex (\<lambda>(lo, hi). (lo \<le> code c \<and> code c \<le> hi) \<or>
        (ci \<and> lo \<le> code (to_lower c) \<and> code (to_lower c) \<le> hi)) rs \<noteq> neg"

definition is_word :: "string \<Rightarrow> nat \<Rightarrow> bool" where
  "is_word s i \<longleftrightarrow> i < length s \<and> (is_alnum (s ! i) \<or> s ! i = CHR ''_'')"

definition word_boundary :: "string \<Rightarrow> nat \<Rightarrow> bool" where
  "word_boundary s i \<longleftrightarrow> (0 < i \<and> is_word s (i - 1)) \<noteq> is_word s i"

text \<open>The positions reachable from a list of positions in at most a given number of rounds.\<close>

fun star_ends :: "nat \<Rightarrow> (nat \<Rightarrow> nat list) \<Rightarrow> nat list \<Rightarrow> nat list" where
  "star_ends 0 f xs = xs"
| "star_ends (Suc n) f xs =
     (let ys = filter (\<lambda>y. y \<notin> set xs) (remdups (concat (map f xs)))
      in if ys = [] then xs else star_ends n f (xs @ ys))"

primrec ends :: "re \<Rightarrow> bool \<Rightarrow> string \<Rightarrow> nat \<Rightarrow> nat list" where
  "ends Eps ci s i = [i]"
| "ends (Cls neg rs) ci s i = (if i < length s \<and> in_class ci neg rs (s ! i) then [Suc i] else [])"
| "ends (Seq a b) ci s i = remdups (concat (map (ends b ci s) (ends a ci s i)))"
| "ends (Alt a b) ci s i = remdups (ends a ci s i @ ends b ci s i)"
| "ends (Star a) ci s i = star_ends (Suc (length s)) (ends a ci s) [i]"
| "ends WordB ci s i = (if word_boundary s i then [i] else [])"

text \<open>\<open>MatchString\<close>: is there a match anywhere in the text?\<close>

definition MatchString :: "bool \<Rightarrow> re \<Rightarrow> string \<Rightarrow> bool" where
  "MatchString ci r s \<longleftrightarrow> list_ex (\<lambda>i. ends r ci s i \<noteq> []) [0..<Suc (length s)]"

text \<open>The same for an expression anchored at both ends, \<open>^r$\<close>.\<close>

definition FullMatch :: "bool \<Rightarrow> re \<Rightarrow> string \<Rightarrow> bool" where
  "FullMatch ci r s \<longleftrightarrow> length s \<in> set (ends r ci s 0)"

text \<open>Derived forms: literals, repetition and sequences of alternatives.\<close>

definition chr :: "char \<Rightarrow> re" where
  "chr c = Cls False [(code c, code c)]"

fun lit :: "string \<Rightarrow> re" where
  "lit [] = Eps"
| "lit (c # cs) = Seq (chr c) (lit cs)"

fun alts :: "re list \<Rightarrow> re" where
  "alts [] = Eps"
| "alts [r] = r"
| "alts (r # s # rest) = Alt r (alts (s # rest))"

fun seqs :: "re list \<Rightarrow> re" where
  "seqs [] = Eps"
| "seqs (r # rest) = Seq r (seqs rest)"

definition opt :: "re \<Rightarrow> re" where "opt r = Alt r Eps"
definition plus :: "re \<Rightarrow> re" where "plus r = Seq r (Star r)"
definition up_to :: "nat \<Rightarrow> re \<Rightarrow> re" where "up_to n r = seqs (replicate n (opt r))"
definition at_least :: "nat \<Rightarrow> re \<Rightarrow> re" where "at_least n r = Seq (seqs (replicate n r)) (Star r)"

text \<open>The dot (any character but a newline), \<open>\d\<close> and \<open>\s\<close>.\<close>

definition dot :: re where "dot = Cls True [(10, 10)]"
definition blank :: re where "blank = Cls False [(9, 10), (12, 13), (32, 32)]"

text \<open>All non-overlapping matches, leftmost first and as long as possible, as \<open>(start, end)\<close> pairs. For
  the greedy expressions used with it the longest match is the one Go prefers.\<close>

function find_all :: "bool \<Rightarrow> re \<Rightarrow> string \<Rightarrow> nat \<Rightarrow> (nat \<times> nat) list" where
  "find_all ci r s i =
     (if length s < i then []
      else let es = filter (\<lambda>e. i < e) (ends r ci s i)
           in if es = [] then find_all ci r s (Suc i)
              else (i, fold max es 0) # find_all ci r s (fold max es (Suc i)))"
  by pat_completeness auto
termination
proof (relation "measure (\<lambda>(ci, r, s, i). Suc (length s) - i)", goal_cases)
  case (3 ci r s i es)
  have "a \<le> fold max xs a" for xs and a :: nat by (induction xs arbitrary: a) (auto, metis max.bounded_iff)
  then have "i < fold max es (Suc i)" by (meson Suc_le_lessD)
  then show ?case using 3(1) by simp
qed auto

declare find_all.simps [simp del]

section \<open>Semantics\<close>

inductive matches :: "bool \<Rightarrow> string \<Rightarrow> re \<Rightarrow> nat \<Rightarrow> nat \<Rightarrow> bool" for ci s where
  eps: "matches ci s Eps i i"
| cls: "i < length s \<Longrightarrow> in_class ci neg rs (s ! i) \<Longrightarrow> matches ci s (Cls neg rs) i (Suc i)"
| seq: "matches ci s a i j \<Longrightarrow> matches ci s b j k \<Longrightarrow> matches ci s (Seq a b) i k"
| alt1: "matches ci s a i j \<Longrightarrow> matches ci s (Alt a b) i j"
| alt2: "matches ci s b i j \<Longrightarrow> matches ci s (Alt a b) i j"
| star0: "matches ci s (Star a) i i"
| star1: "matches ci s a i j \<Longrightarrow> matches ci s (Star a) j k \<Longrightarrow> matches ci s (Star a) i k"
| wb: "word_boundary s i \<Longrightarrow> matches ci s WordB i i"

inductive_cases matches_cases:
  "matches ci s Eps i j" "matches ci s (Cls neg rs) i j" "matches ci s (Seq a b) i j"
  "matches ci s (Alt a b) i j" "matches ci s WordB i j"

lemma matches_bounds: "matches ci s r i j \<Longrightarrow> i \<le> length s \<Longrightarrow> i \<le> j \<and> j \<le> length s"
  by (induction rule: matches.induct) auto

lemma star_append: "matches ci s (Star a) i j \<Longrightarrow> matches ci s a j k \<Longrightarrow> matches ci s (Star a) i k"
proof (induction "Star a" i j rule: matches.induct)
  case (star0 i)
  then show ?case by (meson matches.star0 matches.star1)
next
  case (star1 i j k')
  then show ?case by (meson matches.star1)
qed

lemma star_ends_sound:
  "j \<in> set (star_ends n f xs) \<Longrightarrow> \<forall>x \<in> set xs. P x \<Longrightarrow> (\<And>x y. P x \<Longrightarrow> y \<in> set (f x) \<Longrightarrow> P y) \<Longrightarrow> P j"
proof (induction n f xs rule: star_ends.induct)
  case (2 n f xs)
  have "\<forall>x \<in> set (xs @ filter (\<lambda>y. y \<notin> set xs) (remdups (concat (map f xs)))). P x"
    using "2.prems"(2,3) by auto
  then show ?case using 2 by (auto simp: Let_def split: if_splits)
qed simp

lemma star_ends_mono: "set xs \<subseteq> set (star_ends n f xs)"
  by (induction n f xs rule: star_ends.induct) (auto simp: Let_def)

text \<open>With more rounds than there are positions left, the result is closed.\<close>

lemma star_ends_closed:
  assumes "finite U" "set xs \<subseteq> U" "\<And>x. x \<in> U \<Longrightarrow> set (f x) \<subseteq> U" "card (U - set xs) < n"
    and "x \<in> set (star_ends n f xs)"
  shows "set (f x) \<subseteq> set (star_ends n f xs)"
  using assms
proof (induction n f xs rule: star_ends.induct)
  case (2 n f xs)
  let ?ys = "filter (\<lambda>y. y \<notin> set xs) (remdups (concat (map f xs)))"
  show ?case
  proof (cases "?ys = []")
    case True
    then have "x \<in> set xs" using "2.prems"(5) by (simp add: Let_def)
    then have "set (f x) \<subseteq> set xs" using True by (auto simp: filter_empty_conv)
    then show ?thesis using True by (simp add: Let_def)
  next
    case False
    have ysU: "set ?ys \<subseteq> U" using "2.prems"(2,3) by fastforce
    have "U - set (xs @ ?ys) \<subset> U - set xs"
    proof -
      have "set ?ys \<noteq> {}" using False by (metis set_empty)
      then obtain y where "y \<in> set ?ys" by (metis all_not_in_conv)
      then have "y \<in> U - set xs" "y \<notin> U - set (xs @ ?ys)" using ysU by auto
      then show ?thesis by auto
    qed
    then have "card (U - set (xs @ ?ys)) < card (U - set xs)" using "2.prems"(1) by (intro psubset_card_mono) auto
    then have "card (U - set (xs @ ?ys)) < n" using "2.prems"(4) by linarith
    moreover have "set (xs @ ?ys) \<subseteq> U" using "2.prems"(2) ysU by auto
    moreover have "x \<in> set (star_ends n f (xs @ ?ys))" using "2.prems"(5) False by (simp add: Let_def)
    ultimately have "set (f x) \<subseteq> set (star_ends n f (xs @ ?ys))"
      using "2.IH" [OF refl False "2.prems"(1)] "2.prems"(3) by blast
    then show ?thesis using False by (simp add: Let_def)
  qed
qed simp

lemma ends_sound: "j \<in> set (ends r ci s i) \<Longrightarrow> matches ci s r i j"
proof (induction r arbitrary: i j)
  case (Star a)
  have "j \<in> set (star_ends (Suc (length s)) (ends a ci s) [i])" using Star.prems by simp
  then show ?case
    by (rule star_ends_sound [where P = "matches ci s (Star a) i"]) (auto intro: matches.star0 star_append Star.IH)
next
  case (Seq a b)
  then obtain x where "x \<in> set (ends a ci s i)" "j \<in> set (ends b ci s x)" by auto
  then show ?case using Seq.IH by (meson matches.seq)
qed (auto split: if_splits intro: matches.intros)

lemma ends_complete: "matches ci s r i j \<Longrightarrow> i \<le> length s \<Longrightarrow> j \<in> set (ends r ci s i)"
proof (induction r arbitrary: i j)
  case (Seq a b)
  then obtain k where k: "matches ci s a i k" "matches ci s b k j" by (auto elim: matches_cases)
  moreover have "k \<le> length s" using matches_bounds [OF k(1) Seq.prems(2)] by simp
  ultimately have "k \<in> set (ends a ci s i)" "j \<in> set (ends b ci s k)" using Seq by blast+
  then show ?case by auto
next
  case (Star a)
  let ?E = "star_ends (Suc (length s)) (ends a ci s) [i]"
  have closed: "set (ends a ci s x) \<subseteq> set ?E" if "x \<in> set ?E" for x
  proof (rule star_ends_closed [where U = "{..length s}"])
    show "set (ends a ci s y) \<subseteq> {..length s}" if "y \<in> {..length s}" for y
      using that ends_sound matches_bounds by fastforce
    show "card ({..length s} - set [i]) < Suc (length s)"
      using Star.prems(2) card_Diff_singleton [of i "{..length s}"] by simp
  qed (use Star.prems that in auto)
  have "k \<in> set ?E" if "matches ci s (Star a) m k" "m \<in> set ?E" "m \<le> length s" for m k
    using that
  proof (induction "Star a" m k rule: matches.induct)
    case (star1 m l k)
    then have "l \<in> set (ends a ci s m)" using Star.IH by blast
    moreover have "l \<le> length s" using matches_bounds [OF star1(1) star1.prems(2)] by simp
    ultimately show ?case using closed [OF star1.prems(1)] star1 by blast
  qed
  moreover have "i \<in> set ?E" using star_ends_mono [of "[i]" "Suc (length s)" "ends a ci s"] by (simp only: list.set insert_subset)
  ultimately show ?case using Star.prems by auto
qed (auto elim: matches_cases)

lemma MatchString_iff: "MatchString ci r s \<longleftrightarrow> (\<exists>i j. i \<le> length s \<and> matches ci s r i j)"
proof -
  have "MatchString ci r s \<longleftrightarrow> (\<exists>i \<le> length s. \<exists>j. j \<in> set (ends r ci s i))"
    unfolding MatchString_def list_ex_iff set_upt by (metis atLeastLessThan_iff less_Suc_eq_le set_empty ex_in_conv zero_le)
  then show ?thesis using ends_sound ends_complete by blast
qed

lemma FullMatch_iff: "FullMatch ci r s \<longleftrightarrow> matches ci s r 0 (length s)"
  using ends_sound [of "length s" r ci s 0] ends_complete [of ci s r 0 "length s"] by (auto simp: FullMatch_def)

text \<open>Matches as statements about the text between two positions.\<close>

lemma matches_Cls_iff: "matches ci s (Cls neg rs) i j \<longleftrightarrow> i < length s \<and> in_class ci neg rs (s ! i) \<and> j = Suc i"
  by (auto intro: matches.cls elim: matches_cases)

lemma matches_Seq_iff: "matches ci s (Seq a b) i k \<longleftrightarrow> (\<exists>j. matches ci s a i j \<and> matches ci s b j k)"
  by (auto intro: matches.seq elim: matches_cases)

lemma matches_Alt_iff: "matches ci s (Alt a b) i j \<longleftrightarrow> matches ci s a i j \<or> matches ci s b i j"
  by (auto intro: matches.alt1 matches.alt2 elim: matches_cases)

lemma matches_Eps_iff: "matches ci s Eps i j \<longleftrightarrow> i = j"
  by (auto intro: matches.eps elim: matches_cases)

lemmas matches_iffs = matches_Cls_iff matches_Seq_iff matches_Alt_iff matches_Eps_iff

lemma in_set_span:
  assumes "j \<le> length s"
  shows "(\<forall>c \<in> set (drop i (take j s)). P c) \<longleftrightarrow> (\<forall>k. i \<le> k \<and> k < j \<longrightarrow> P (s ! k))"
proof -
  have "drop i (take j s) = map ((!) s) [i..<j]"
    using assms by (intro nth_equalityI) simp_all
  then show ?thesis by auto
qed

lemma matches_up_to:
  "i \<le> length s \<Longrightarrow> matches ci s (up_to n (Cls neg rs)) i j \<longleftrightarrow>
     i \<le> j \<and> j \<le> length s \<and> j - i \<le> n \<and> (\<forall>k. i \<le> k \<and> k < j \<longrightarrow> in_class ci neg rs (s ! k))"
proof (induction n arbitrary: i)
  case 0
  then show ?case by (auto simp: up_to_def matches_iffs)
next
  case (Suc n)
  have un: "up_to (Suc n) (Cls neg rs) = Seq (opt (Cls neg rs)) (up_to n (Cls neg rs))" by (simp add: up_to_def)
  show ?case
  proof (cases "i < length s \<and> in_class ci neg rs (s ! i)")
    case True
    then have "matches ci s (up_to (Suc n) (Cls neg rs)) i j \<longleftrightarrow>
        matches ci s (up_to n (Cls neg rs)) (Suc i) j \<or> matches ci s (up_to n (Cls neg rs)) i j"
      by (auto simp: un opt_def matches_iffs)
    also have "\<dots> \<longleftrightarrow> i \<le> j \<and> j \<le> length s \<and> j - i \<le> Suc n \<and> (\<forall>k. i \<le> k \<and> k < j \<longrightarrow> in_class ci neg rs (s ! k))"
      using True Suc.IH [of "Suc i"] Suc.IH [of i] by (cases "i = j") (auto simp: Suc_le_eq intro: le_neq_trans)
    finally show ?thesis .
  next
    case False
    then have "matches ci s (up_to (Suc n) (Cls neg rs)) i j \<longleftrightarrow> matches ci s (up_to n (Cls neg rs)) i j"
      by (auto simp: un opt_def matches_iffs)
    also have "\<dots> \<longleftrightarrow> i \<le> j \<and> j \<le> length s \<and> j - i \<le> Suc n \<and> (\<forall>k. i \<le> k \<and> k < j \<longrightarrow> in_class ci neg rs (s ! k))"
      using False Suc.IH [of i] Suc.prems by (cases "i = j") auto
    finally show ?thesis .
  qed
qed

end
