(* ===== verification/EmailUseCase.thy ===== *)
theory EmailUseCase
  imports MailSchema GoRegexp
begin

text \<open>
  Mailboxes and received mail, \<open>domain/email/usecase.go\<close>: creating and changing mailboxes, storing an incoming
  message, reading and deleting messages on behalf of a user.

  The three repositories are the interfaces of \<open>domain/email/repository.go\<close>. What the code starts in a goroutine and does not
  wait for (the webhook notification, forwarding) is recorded in the order it is started, as a list of
  tasks; a failing task has no effect on the call that started it.
\<close>

section \<open>Validation helpers\<close>

definition re_local_char :: re where
  "re_local_char = Cls False [(97, 122), (65, 90), (48, 57), (46, 46), (95, 95), (45, 45)]"

definition isValidLocalPart :: "string \<Rightarrow> bool" where
  "isValidLocalPart localPart =
     (if length localPart = 0 \<or> length localPart > 64 then False
      else if hd localPart = CHR ''.'' \<or> last localPart = CHR ''.'' then False
      else FullMatch False (plus re_local_char) localPart)"

definition emailRegex :: re where
  "emailRegex =
     Seq (plus (Cls False [(97, 122), (65, 90), (48, 57), (46, 46), (95, 95), (37, 37), (43, 43), (45, 45)]))
    (Seq (chr CHR ''@'')
    (Seq (plus (Cls False [(97, 122), (65, 90), (48, 57), (46, 46), (45, 45)]))
    (Seq (chr CHR ''.'') (at_least 2 (Cls False [(97, 122), (65, 90)])))))"

definition isValidEmail :: "string \<Rightarrow> bool" where
  "isValidEmail email = FullMatch False emailRegex email"

section \<open>State\<close>

datatype mail_task =
    NotifyIncomingEmail ReceivedEmail Domain EmailAddress "VerificationResult option" bool
  | ForwardEmail string string string "string list"
  | IncrementUsage uuid
  | RecordVerificationStats uuid uuid "ip option" string VerificationResult Action

record 'st mail_uc =
  mu_repo :: 'st
  mu_tasks :: "mail_task list"

record 'st mail_repos =
  mr_domains :: "'st domain_ops"
  mr_addresses :: "'st address_ops"
  mr_received :: "'st received_ops"
  mr_notifier :: bool
  mr_forwarder :: bool

datatype mail_uc_error =
    InvalidEmailAddressData | CreateAddressFailed db_error | MailDomainIDRequired | LocalPartRequired | InvalidLocalPart
  | AddressAlreadyExists | InvalidForwardAddress string | GetAddressesFailed db_error | AddressIDRequired
  | GetAddressFailed db_error | InvalidAddressAfterUpdate | UpdateAddressFailed db_error
  | InvalidAddressFormat EmailParseError | MailDomainNotFound db_error | AddressNotFound db_error | DeleteAddressFailed db_error
  | FromAddressRequired | MailBodyRequired | InvalidReceivedEmail | StoreReceivedFailed db_error | GetReceivedFailed db_error
  | ReceivedIDRequired | MailUserIDRequired | NoAssociatedAddress | MailDomainFailed db_error | AccessDenied
  | DeleteReceivedFailed db_error | InvalidSortField | InvalidSortOrder | InvalidSecurityStatus

text \<open>Running a repository operation on the state of the use case.\<close>

definition on_repo :: "('st \<Rightarrow> 'r \<times> 'st) \<Rightarrow> 'st mail_uc \<Rightarrow> 'r \<times> 'st mail_uc" where
  "on_repo f s = (case f (mu_repo s) of (r, st) \<Rightarrow> (r, s\<lparr>mu_repo := st\<rparr>))"

definition wrap_err :: "(db_error \<Rightarrow> mail_uc_error) \<Rightarrow> (db_error + 'a) \<times> 's \<Rightarrow> (mail_uc_error + 'a) \<times> 's" where
  "wrap_err err r = (map_sum err id (fst r), snd r)"

definition spawn :: "mail_task \<Rightarrow> 'st mail_uc \<Rightarrow> 'st mail_uc" where
  "spawn t s = s\<lparr>mu_tasks := mu_tasks s @ [t]\<rparr>"

section \<open>Mailboxes\<close>

record CreateEmailAddressInput =
  ca_DomainID :: uuid
  ca_LocalPart :: string
  ca_ForwardAddresses :: "string list"
  ca_ForwardingEnabled :: bool

record UpdateEmailAddressInput =
  ua_ForwardAddresses :: "string list option"
  ua_ForwardingEnabled :: "bool option"

definition CreateEmailAddress :: "'st mail_repos \<Rightarrow> EmailAddress \<Rightarrow> 'st mail_uc \<Rightarrow> mail_uc_error option \<times> 'st mail_uc" where
  "CreateEmailAddress ops a s =
     (if \<not> EmailAddress_IsValid a then (Some InvalidEmailAddressData, s)
      else case on_repo (addr_Create (mr_addresses ops) a) s of
        (Some e, s1) \<Rightarrow> (Some (CreateAddressFailed e), s1)
      | (None, s1) \<Rightarrow> (None, s1))"

definition CreateEmailAddressFromInput ::
    "'st mail_repos \<Rightarrow> uuid \<Rightarrow> instant \<Rightarrow> instant \<Rightarrow> CreateEmailAddressInput \<Rightarrow> 'st mail_uc \<Rightarrow> (mail_uc_error + EmailAddress) \<times> 'st mail_uc" where
  "CreateEmailAddressFromInput ops i created updated req s =
     (if ca_DomainID req = uuid_nil then (Inl MailDomainIDRequired, s)
      else if ca_LocalPart req = [] then (Inl LocalPartRequired, s)
      else if \<not> isValidLocalPart (ca_LocalPart req) then (Inl InvalidLocalPart, s)
      else let l = ToLower (ca_LocalPart req) in
      case on_repo (addr_GetByLocalPartAndDomain (mr_addresses ops) l (ca_DomainID req)) s of
        (Inr _, s1) \<Rightarrow> (Inl AddressAlreadyExists, s1)
      | (Inl _, s1) \<Rightarrow>
          (case find (\<lambda>addr. addr \<noteq> [] \<and> \<not> isValidEmail addr) (ca_ForwardAddresses req) of
             Some addr \<Rightarrow> (Inl (InvalidForwardAddress addr), s1)
           | None \<Rightarrow>
               (let a = \<lparr>ea_ID = i, ea_DomainID = ca_DomainID req, ea_LocalPart = l,
                         ea_ForwardAddresses = ca_ForwardAddresses req, ea_ForwardingEnabled = ca_ForwardingEnabled req,
                         ea_CreatedAt = created, ea_UpdatedAt = updated\<rparr>
                in if \<not> EmailAddress_IsValid a then (Inl InvalidEmailAddressData, s1)
                   else case on_repo (addr_Create (mr_addresses ops) a) s1 of
                     (Some e, s2) \<Rightarrow> (Inl (CreateAddressFailed e), s2)
                   | (None, s2) \<Rightarrow> (Inr a, s2))))"

definition GetEmailAddressesByDomainID :: "'st mail_repos \<Rightarrow> uuid \<Rightarrow> 'st mail_uc \<Rightarrow> (mail_uc_error + EmailAddress list) \<times> 'st mail_uc" where
  "GetEmailAddressesByDomainID ops d s =
     (if d = uuid_nil then (Inl MailDomainIDRequired, s)
      else wrap_err GetAddressesFailed (on_repo (addr_GetByDomainID (mr_addresses ops) d) s))"

definition GetEmailAddressByID :: "'st mail_repos \<Rightarrow> uuid \<Rightarrow> 'st mail_uc \<Rightarrow> (mail_uc_error + EmailAddress) \<times> 'st mail_uc" where
  "GetEmailAddressByID ops i s =
     (if i = uuid_nil then (Inl AddressIDRequired, s)
      else wrap_err GetAddressFailed (on_repo (addr_GetByID (mr_addresses ops) i) s))"

definition updated_address :: "instant \<Rightarrow> UpdateEmailAddressInput \<Rightarrow> EmailAddress \<Rightarrow> EmailAddress" where
  "updated_address now req a = a\<lparr>
     ea_ForwardAddresses := (case ua_ForwardAddresses req of None \<Rightarrow> ea_ForwardAddresses a | Some fs \<Rightarrow> fs),
     ea_ForwardingEnabled := (case ua_ForwardingEnabled req of None \<Rightarrow> ea_ForwardingEnabled a | Some b \<Rightarrow> b),
     ea_UpdatedAt := now\<rparr>"

definition UpdateEmailAddress ::
    "'st mail_repos \<Rightarrow> instant \<Rightarrow> uuid \<Rightarrow> UpdateEmailAddressInput \<Rightarrow> 'st mail_uc \<Rightarrow> (mail_uc_error + EmailAddress) \<times> 'st mail_uc" where
  "UpdateEmailAddress ops now i req s =
     (if i = uuid_nil then (Inl AddressIDRequired, s)
      else case on_repo (addr_GetByID (mr_addresses ops) i) s of
        (Inl e, s1) \<Rightarrow> (Inl (GetAddressFailed e), s1)
      | (Inr a0, s1) \<Rightarrow>
          (case find (\<lambda>addr. \<not> isValidEmail addr) (case ua_ForwardAddresses req of None \<Rightarrow> [] | Some fs \<Rightarrow> fs) of
             Some addr \<Rightarrow> (Inl (InvalidForwardAddress addr), s1)
           | None \<Rightarrow>
               (let a = updated_address now req a0 in
                if \<not> EmailAddress_IsValid a then (Inl InvalidAddressAfterUpdate, s1)
                else case on_repo (addr_Update (mr_addresses ops) a) s1 of
                  (Some e, s2) \<Rightarrow> (Inl (UpdateAddressFailed e), s2)
                | (None, s2) \<Rightarrow> (Inr a, s2))))"

definition GetEmailAddressByAddress :: "'st mail_repos \<Rightarrow> string \<Rightarrow> 'st mail_uc \<Rightarrow> (mail_uc_error + EmailAddress) \<times> 'st mail_uc" where
  "GetEmailAddressByAddress ops fullAddress s =
     (case ParseEmailAddress fullAddress of
        Inl e \<Rightarrow> (Inl (InvalidAddressFormat e), s)
      | Inr (localPart, domainName) \<Rightarrow>
          (case on_repo (dom_GetByDomain (mr_domains ops) (ToLower domainName)) s of
             (Inl e, s1) \<Rightarrow> (Inl (MailDomainNotFound e), s1)
           | (Inr d, s1) \<Rightarrow>
               wrap_err AddressNotFound (on_repo (addr_GetByLocalPartAndDomain (mr_addresses ops) (ToLower localPart) (d_ID d)) s1)))"

definition DeleteEmailAddress :: "'st mail_repos \<Rightarrow> uuid \<Rightarrow> 'st mail_uc \<Rightarrow> mail_uc_error option \<times> 'st mail_uc" where
  "DeleteEmailAddress ops i s =
     (if i = uuid_nil then (Some AddressIDRequired, s)
      else case on_repo (addr_Delete (mr_addresses ops) i) s of
        (Some e, s1) \<Rightarrow> (Some (DeleteAddressFailed e), s1)
      | (None, s1) \<Rightarrow> (None, s1))"

section \<open>Received mail\<close>

record ProcessIncomingEmailInput =
  pi_EmailAddressID :: uuid
  pi_FromAddress :: string
  pi_Subject :: string
  pi_Body :: string
  pi_DomainID :: uuid
  pi_VerificationResults :: "VerificationResult option"
  pi_IsQuarantined :: bool
  pi_Domain :: "Domain option"
  pi_EmailAddress :: "EmailAddress option"
  pi_AutoCreated :: bool

definition incoming :: "uuid \<Rightarrow> instant \<Rightarrow> ProcessIncomingEmailInput \<Rightarrow> ReceivedEmail" where
  "incoming i now req =
     (let domainName = (case pi_Domain req of None \<Rightarrow> [] | Some d \<Rightarrow> d_Domain d) in
      \<lparr>re_ID = i, re_EmailAddressID = Some (pi_EmailAddressID req), re_SequenceNumber = 0, re_FromAddress = pi_FromAddress req,
       re_Subject = (if pi_Subject req = [] then None else Some (pi_Subject req)), re_EncryptedBody = pi_Body req,
       re_DomainName = domainName,
       re_EmailAddress = (case pi_EmailAddress req of None \<Rightarrow> [] | Some a \<Rightarrow> ea_LocalPart a @ ''@'' @ domainName),
       re_ReceivedAt = now, re_SMTPVerification = None\<rparr>)"

text \<open>The two goroutines at the end of \<open>ProcessIncomingEmail\<close>.\<close>

definition notify_tasks :: "'st mail_repos \<Rightarrow> ReceivedEmail \<Rightarrow> ProcessIncomingEmailInput \<Rightarrow> mail_task list" where
  "notify_tasks ops r req =
     (case (pi_Domain req, pi_EmailAddress req) of
        (Some d, Some a) \<Rightarrow>
          if mr_notifier ops then [NotifyIncomingEmail r d a (pi_VerificationResults req) (pi_AutoCreated req)] else []
      | _ \<Rightarrow> [])"

definition forward_tasks :: "'st mail_repos \<Rightarrow> ProcessIncomingEmailInput \<Rightarrow> mail_task list" where
  "forward_tasks ops req =
     (case pi_EmailAddress req of
        None \<Rightarrow> []
      | Some a \<Rightarrow>
          if mr_forwarder ops \<and> HasForwarding a
          then [ForwardEmail (pi_FromAddress req)
                  (case pi_Domain req of None \<Rightarrow> [] | Some d \<Rightarrow> ea_LocalPart a @ ''@'' @ d_Domain d)
                  (pi_Subject req) (ea_ForwardAddresses a)]
          else [])"

definition ProcessIncomingEmail ::
    "'st mail_repos \<Rightarrow> uuid \<Rightarrow> instant \<Rightarrow> ProcessIncomingEmailInput \<Rightarrow> 'st mail_uc \<Rightarrow> mail_uc_error option \<times> 'st mail_uc" where
  "ProcessIncomingEmail ops i now req s =
     (if pi_EmailAddressID req = uuid_nil then (Some AddressIDRequired, s)
      else if pi_FromAddress req = [] then (Some FromAddressRequired, s)
      else if pi_Body req = [] then (Some MailBodyRequired, s)
      else let r = incoming i now req in
        if \<not> ReceivedEmail_IsValid r then (Some InvalidReceivedEmail, s)
        else case on_repo (rcv_Create (mr_received ops) r) s of
          (Inl e, s1) \<Rightarrow> (Some (StoreReceivedFailed e), s1)
        | (Inr n, s1) \<Rightarrow>
            (None, s1\<lparr>mu_tasks := mu_tasks s1 @ notify_tasks ops (r\<lparr>re_SequenceNumber := n\<rparr>) req @ forward_tasks ops req\<rparr>))"

definition page_limit :: "int \<Rightarrow> int" where
  "page_limit limit = (let l = (if limit \<le> 0 then 50 else limit) in if l > 1000 then 1000 else l)"

definition GetReceivedEmails :: "'st mail_repos \<Rightarrow> uuid \<Rightarrow> int \<Rightarrow> int \<Rightarrow> 'st mail_uc \<Rightarrow> (mail_uc_error + ReceivedEmail list) \<times> 'st mail_uc" where
  "GetReceivedEmails ops a limit offset s =
     (if a = uuid_nil then (Inl AddressIDRequired, s)
      else wrap_err GetReceivedFailed (on_repo (rcv_GetByEmailAddressID (mr_received ops) a (page_limit limit) offset) s))"

text \<open>The check both of the next operations make: the message's mailbox belongs to a domain of the user.\<close>

definition owned_by ::
    "'st mail_repos \<Rightarrow> uuid \<Rightarrow> uuid \<Rightarrow> 'st mail_uc \<Rightarrow> (mail_uc_error + ReceivedEmail \<times> EmailAddress \<times> Domain) \<times> 'st mail_uc" where
  "owned_by ops i u s =
     (if i = uuid_nil then (Inl ReceivedIDRequired, s)
      else if u = uuid_nil then (Inl MailUserIDRequired, s)
      else case on_repo (rcv_GetByID (mr_received ops) i) s of
        (Inl e, s1) \<Rightarrow> (Inl (GetReceivedFailed e), s1)
      | (Inr r, s1) \<Rightarrow>
          (case re_EmailAddressID r of
             None \<Rightarrow> (Inl NoAssociatedAddress, s1)
           | Some aid \<Rightarrow>
               (case on_repo (addr_GetByID (mr_addresses ops) aid) s1 of
                  (Inl e, s2) \<Rightarrow> (Inl (GetAddressFailed e), s2)
                | (Inr a, s2) \<Rightarrow>
                    (case on_repo (dom_GetByID (mr_domains ops) (ea_DomainID a)) s2 of
                       (Inl e, s3) \<Rightarrow> (Inl (MailDomainFailed e), s3)
                     | (Inr d, s3) \<Rightarrow> if d_UserID d \<noteq> u then (Inl AccessDenied, s3) else (Inr (r, a, d), s3)))))"

definition GetReceivedEmailByID :: "'st mail_repos \<Rightarrow> uuid \<Rightarrow> uuid \<Rightarrow> 'st mail_uc \<Rightarrow> (mail_uc_error + ReceivedEmail) \<times> 'st mail_uc" where
  "GetReceivedEmailByID ops i u s =
     (case owned_by ops i u s of
        (Inl e, s1) \<Rightarrow> (Inl e, s1)
      | (Inr (r, a, d), s1) \<Rightarrow> (Inr (r\<lparr>re_DomainName := d_Domain d, re_EmailAddress := ea_LocalPart a @ ''@'' @ d_Domain d\<rparr>), s1))"

definition DeleteReceivedEmail :: "'st mail_repos \<Rightarrow> uuid \<Rightarrow> uuid \<Rightarrow> 'st mail_uc \<Rightarrow> mail_uc_error option \<times> 'st mail_uc" where
  "DeleteReceivedEmail ops i u s =
     (case owned_by ops i u s of
        (Inl e, s1) \<Rightarrow> (Some e, s1)
      | (Inr _, s1) \<Rightarrow>
          (case on_repo (rcv_Delete (mr_received ops) i) s1 of
             (Some e, s2) \<Rightarrow> (Some (DeleteReceivedFailed e), s2)
           | (None, s2) \<Rightarrow> (None, s2)))"

definition default_filter :: "ReceivedFilter \<Rightarrow> ReceivedFilter" where
  "default_filter f = f\<lparr>f_SortBy := (if f_SortBy f = [] then ''received_at'' else f_SortBy f),
     f_SortOrder := (if f_SortOrder f = [] then ''desc'' else f_SortOrder f)\<rparr>"

definition GetReceivedEmailsByUser ::
    "'st mail_repos \<Rightarrow> uuid \<Rightarrow> int \<Rightarrow> int \<Rightarrow> ReceivedFilter \<Rightarrow> 'st mail_uc \<Rightarrow> (mail_uc_error + ReceivedEmail list \<times> int) \<times> 'st mail_uc" where
  "GetReceivedEmailsByUser ops u limit offset f0 s =
     (if u = uuid_nil then (Inl MailUserIDRequired, s)
      else let f = default_filter f0 in
        if f_SortBy f \<notin> {''received_at'', ''sequence_number'', ''from_address'', ''subject''} then (Inl InvalidSortField, s)
        else if f_SortOrder f \<notin> {''asc'', ''desc''} then (Inl InvalidSortOrder, s)
        else if f_SecurityStatus f \<noteq> [] \<and> f_SecurityStatus f \<notin> {''clean'', ''suspicious'', ''quarantined'', ''high_risk''}
        then (Inl InvalidSecurityStatus, s)
        else wrap_err GetReceivedFailed (on_repo (rcv_GetByUserIDWithFilter (mr_received ops) u (page_limit limit) offset f) s))"

definition mail_GetDomainByID :: "'st mail_repos \<Rightarrow> uuid \<Rightarrow> 'st mail_uc \<Rightarrow> (mail_uc_error + Domain) \<times> 'st mail_uc" where
  "mail_GetDomainByID ops d s =
     (if d = uuid_nil then (Inl MailDomainIDRequired, s)
      else wrap_err MailDomainFailed (on_repo (dom_GetByID (mr_domains ops) d) s))"

section \<open>Lemmas\<close>

lemma on_repo_read:
  assumes "read_law iv view f P" "iv (mu_repo s)" "on_repo f s = (r, s')"
  shows "iv (mu_repo s') \<and> view (mu_repo s') = view (mu_repo s) \<and> mu_tasks s' = mu_tasks s \<and>
    (\<forall>x. r = Inr x \<longrightarrow> P (view (mu_repo s)) x)"
  using assms read_lawD [OF assms(1,2), of "fst (f (mu_repo s))" "snd (f (mu_repo s))"]
  by (auto simp: on_repo_def split: prod.splits)

lemma on_repo_write:
  assumes "write_law iv view f P g" "iv (mu_repo s)" "on_repo f s = (r, s')"
  shows "iv (mu_repo s') \<and> mu_tasks s' = mu_tasks s \<and>
    (if r = None then P (view (mu_repo s)) \<and> view (mu_repo s') = g (view (mu_repo s)) else view (mu_repo s') = view (mu_repo s))"
  using assms write_lawD [OF assms(1,2), of "fst (f (mu_repo s))" "snd (f (mu_repo s))"]
  by (auto simp: on_repo_def split: prod.splits)

lemma wrap_err_Inr [simp]: "wrap_err err x = (Inr y, s) \<longleftrightarrow> x = (Inr y, s)"
  by (cases x; cases "fst x") (auto simp: wrap_err_def)

lemma page_limit_bounds: "0 < page_limit l" "page_limit l \<le> 1000"
  by (simp_all add: page_limit_def)

context mail_store
begin

definition wired :: "'st mail_repos \<Rightarrow> bool" where
  "wired ops \<longleftrightarrow> mr_domains ops = dops \<and> mr_addresses ops = aops \<and> mr_received ops = rops"

text \<open>What a state keeps when nothing was written.\<close>

definition same :: "'st mail_uc \<Rightarrow> 'st mail_uc \<Rightarrow> bool" where
  "same s s' \<longleftrightarrow> inv (mu_repo s') \<and> view (mu_repo s') = view (mu_repo s) \<and> mu_tasks s' = mu_tasks s"

lemma same_trans: "same s s1 \<Longrightarrow> same s1 s2 \<Longrightarrow> same s s2"
  by (simp add: same_def)

lemma same_refl: "inv (mu_repo s) \<Longrightarrow> same s s"
  by (simp add: same_def)

lemma read_same:
  assumes "read_law inv view f P" "inv (mu_repo s)" "on_repo f s = (r, s')"
  shows "same s s' \<and> (\<forall>x. r = Inr x \<longrightarrow> P (view (mu_repo s)) x)"
  using on_repo_read [OF assms] by (simp add: same_def)

lemma owned_by_contract:
  assumes w: "wired ops" and ok: "inv (mu_repo s)" and o: "owned_by ops i u s = (r, s')"
  shows "same s s' \<and> (\<forall>m a d. r = Inr (m, a, d) \<longrightarrow>
    (\<exists>x st. v_received (view (mu_repo s)) i = Some x \<and> m = x\<lparr>re_SMTPVerification := st\<rparr> \<and>
      mailbox_of (view (mu_repo s)) (re_EmailAddressID x) = Some a \<and> v_domains (view (mu_repo s)) (ea_DomainID a) = Some d \<and> d_UserID d = u))"
proof (cases "i = uuid_nil \<or> u = uuid_nil")
  case True
  then show ?thesis using o ok by (auto simp: owned_by_def same_refl split: if_splits)
next
  case False
  obtain g s1 where g: "on_repo (rcv_GetByID rops i) s = (g, s1)" by fastforce
  have s1: "same s s1" "\<And>x. g = Inr x \<Longrightarrow> \<exists>y st. v_received (view (mu_repo s)) i = Some y \<and> x = y\<lparr>re_SMTPVerification := st\<rparr>"
    using read_same [OF received_by_id ok g] by auto
  then have ok1: "inv (mu_repo s1)" "view (mu_repo s1) = view (mu_repo s)" by (simp_all add: same_def)
  show ?thesis
  proof (cases "\<exists>m aid. g = Inr m \<and> re_EmailAddressID m = Some aid")
    case False
    then show ?thesis using o w g s1(1) \<open>\<not> (i = uuid_nil \<or> u = uuid_nil)\<close>
      by (auto simp: owned_by_def wired_def split: sum.splits option.splits)
  next
    case True
    then obtain m aid where m: "g = Inr m" "re_EmailAddressID m = Some aid" by blast
    obtain ga s2 where ga: "on_repo (addr_GetByID aops aid) s1 = (ga, s2)" by fastforce
    have s2: "same s1 s2" "\<And>a. ga = Inr a \<Longrightarrow> v_addresses (view (mu_repo s)) aid = Some a"
      using read_same [OF address_by_id ok1(1) ga] ok1(2) by auto
    then have ok2: "inv (mu_repo s2)" "view (mu_repo s2) = view (mu_repo s)" using ok1(2) by (simp_all add: same_def)
    show ?thesis
    proof (cases ga)
      case (Inl e)
      then show ?thesis using o w g m ga same_trans [OF s1(1) s2(1)] \<open>\<not> (i = uuid_nil \<or> u = uuid_nil)\<close>
        by (auto simp: owned_by_def wired_def)
    next
      case (Inr a)
      obtain gd s3 where gd: "on_repo (dom_GetByID dops (ea_DomainID a)) s2 = (gd, s3)" by fastforce
      have s3: "same s2 s3" "\<And>d. gd = Inr d \<Longrightarrow> v_domains (view (mu_repo s)) (ea_DomainID a) = Some d"
        using read_same [OF domain_by_id ok2(1) gd] ok2(2) by auto
      obtain y st where y: "v_received (view (mu_repo s)) i = Some y" "m = y\<lparr>re_SMTPVerification := st\<rparr>"
        using s1(2) m(1) by blast
      have "same s s3" using s1(1) s2(1) s3(1) same_trans by blast
      then show ?thesis using o w g m ga Inr gd s2(2) s3(2) y \<open>\<not> (i = uuid_nil \<or> u = uuid_nil)\<close>
        by (auto simp: owned_by_def wired_def mailbox_of_def split: sum.splits if_splits)
    qed
  qed
qed

lemma DeleteReceivedEmail_contract:
  assumes w: "wired ops" and ok: "inv (mu_repo s)" and o: "DeleteReceivedEmail ops i u s = (r, s')"
  shows "inv (mu_repo s') \<and> mu_tasks s' = mu_tasks s \<and>
    (if r = None then (\<exists>x a d. v_received (view (mu_repo s)) i = Some x \<and> mailbox_of (view (mu_repo s)) (re_EmailAddressID x) = Some a \<and>
         v_domains (view (mu_repo s)) (ea_DomainID a) = Some d \<and> d_UserID d = u) \<and>
       view (mu_repo s') = drop_received i (view (mu_repo s)) else view (mu_repo s') = view (mu_repo s))"
proof -
  obtain g s1 where g: "owned_by ops i u s = (g, s1)" by fastforce
  note c = owned_by_contract [OF w ok g]
  then have ok1: "inv (mu_repo s1)" by (simp add: same_def)
  obtain x s2 where x: "on_repo (rcv_Delete rops i) s1 = (x, s2)" by fastforce
  show ?thesis
  proof (cases g)
    case (Inl e)
    then show ?thesis using o g c by (auto simp: DeleteReceivedEmail_def same_def)
  next
    case (Inr mad)
    then obtain m a d where mad: "g = Inr (m, a, d)" by (cases mad) auto
    then have own: "\<exists>x a d. v_received (view (mu_repo s)) i = Some x \<and> mailbox_of (view (mu_repo s)) (re_EmailAddressID x) = Some a \<and>
         v_domains (view (mu_repo s)) (ea_DomainID a) = Some d \<and> d_UserID d = u" using c by blast
    have "r = (case x of None \<Rightarrow> None | Some e \<Rightarrow> Some (DeleteReceivedFailed e))" "s' = s2"
      using o w g mad x by (auto simp: DeleteReceivedEmail_def wired_def split: option.splits)
    then show ?thesis using on_repo_write [OF received_delete ok1 x] own c
      by (auto simp: same_def split: option.splits if_splits)
  qed
qed

lemma ProcessIncomingEmail_contract:
  assumes w: "wired ops" and ok: "inv (mu_repo s)" and o: "ProcessIncomingEmail ops i now req s = (r, s')"
  shows "inv (mu_repo s') \<and> (if r = None
    then \<exists>n. v_received (view (mu_repo s)) i = None \<and> pi_Body req \<noteq> [] \<and>
        view (mu_repo s') = (view (mu_repo s))\<lparr>v_received := (v_received (view (mu_repo s)))(i \<mapsto> persist_received n (incoming i now req))\<rparr> \<and>
        mu_tasks s' = mu_tasks s @ notify_tasks ops ((incoming i now req)\<lparr>re_SequenceNumber := n\<rparr>) req @ forward_tasks ops req
    else view (mu_repo s') = view (mu_repo s) \<and> mu_tasks s' = mu_tasks s)"
proof -
  let ?r = "incoming i now req"
  have id: "re_ID ?r = i" by (simp add: incoming_def Let_def)
  obtain g st1 where g: "rcv_Create rops ?r (mu_repo s) = (g, st1)" by fastforce
  show ?thesis
  proof (cases g)
    case (Inl e)
    then show ?thesis using o w ok g received_create_fails [OF ok g [unfolded Inl]]
      by (auto simp: ProcessIncomingEmail_def wired_def on_repo_def Let_def split: if_splits)
  next
    case (Inr n)
    then show ?thesis using o w ok g received_create [OF ok g [unfolded Inr]] id
      by (auto simp: ProcessIncomingEmail_def wired_def on_repo_def Let_def split: if_splits)
  qed
qed

end

end
