(* ===== verification/MailAccess.thy ===== *)
theory MailAccess
  imports EmailUseCase
begin

text \<open>
  Who can read and delete received mail, and what the listings show: the mail use case on PostgreSQL.
\<close>

definition pg_mail_repos :: "(ip \<Rightarrow> ip option) \<Rightarrow> (string \<Rightarrow> int) \<Rightarrow> bool \<Rightarrow> bool \<Rightarrow> mail_db mail_repos" where
  "pg_mail_repos inet collate nt fw = \<lparr>mr_domains = pg_domains_repo, mr_addresses = pg_addresses_repo,
     mr_received = pg_received_repo inet collate, mr_notifier = nt, mr_forwarder = fw\<rparr>"

lemma pg_wired: "pgm.wired inet collate (pg_mail_repos inet collate nt fw)"
  by (simp add: pgm.wired_def pg_mail_repos_def)

text \<open>A user owns a message when it is in a mailbox of one of his domains.\<close>

definition owns_message :: "mail_db \<Rightarrow> uuid \<Rightarrow> uuid \<Rightarrow> bool" where
  "owns_message st u i \<longleftrightarrow> (\<exists>x \<in> set (mdb_received st). re_ID x = i \<and> (\<exists>a \<in> set (mdb_addresses st).
     re_EmailAddressID x = Some (ea_ID a) \<and> (\<exists>d \<in> set (mdb_domains st). d_ID d = ea_DomainID a \<and> d_UserID d = u)))"

lemma owns_messageI:
  assumes "mdb_ok st" "v_received (pg_view st) i = Some x" "mailbox_of (pg_view st) (re_EmailAddressID x) = Some a"
    "v_domains (pg_view st) (ea_DomainID a) = Some d" "d_UserID d = u"
  shows "owns_message st u i"
  using assms by (auto simp: owns_message_def mailbox_of_def view_Some bind_eq_Some_conv)

section \<open>The joins of the listings\<close>

lemma owned_mail_iff:
  "(r, a, d) \<in> set (owned_mail u st) \<longleftrightarrow> r \<in> set (mdb_received st) \<and> a \<in> set (mdb_addresses st) \<and> d \<in> set (mdb_domains st) \<and>
     re_EmailAddressID r = Some (ea_ID a) \<and> ea_DomainID a = d_ID d \<and> d_UserID d = u"
  by (auto simp: owned_mail_def)

lemma with_stats_sub: "(x, s) \<in> set (with_stats st rows) \<Longrightarrow> x \<in> set rows"
  by (auto simp: with_stats_def)

lemma counted_cases:
  assumes "counted cnt q st = (Inr (rows, n), st')" "\<And>fs. cnt (st\<lparr>pg_faults := fs\<rparr>) = cnt st" "\<And>fs. q (st\<lparr>pg_faults := fs\<rparr>) = q st"
  shows "n = cnt st \<and> q st = Inr rows"
proof -
  obtain n' st1 where 1: "exec (\<lambda>st. (Inr (cnt st), st)) st = (Inr n', st1)"
    using assms(1) by (auto simp: counted_def split: prod.splits sum.splits)
  obtain rows' st2 where 2: "exec (\<lambda>st. (q st, st)) st1 = (Inr rows', st2)" "rows' = rows" "n' = n"
    using assms(1) 1 by (auto simp: counted_def split: prod.splits sum.splits)
  obtain fs where st1: "st1 = st\<lparr>pg_faults := fs\<rparr>" "n' = cnt st"
    using 1 assms(2) by (elim exec_cases) auto
  have "q st1 = Inr rows'" using 2(1)
  proof (cases rule: exec_cases)
    case (1 fs')
    then show ?thesis using assms(3) st1(1) by simp
  qed simp
  then show ?thesis using 2 st1 assms(3) by simp
qed

lemma with_stats_faults [simp]: "with_stats (st\<lparr>pg_faults := fs\<rparr>) rows = with_stats st rows"
  by (simp add: with_stats_def)

lemma owned_mail_faults [simp]: "owned_mail u (st\<lparr>pg_faults := fs\<rparr>) = owned_mail u st"
  by (simp add: owned_mail_def cong: if_cong)

lemma page_Inr: "page limit offset xs = Inr ys \<longleftrightarrow> 0 \<le> limit \<and> 0 \<le> offset \<and> ys = take (nat limit) (drop (nat offset) xs)"
  by (auto simp: page_def)

lemma map_sum_Inr: "map_sum id g x = Inr y \<longleftrightarrow> (\<exists>z. x = Inr z \<and> y = g z)"
  by (cases x) auto

lemma mset_order_rows [simp]: "mset (order_rows collate by dir rows) = mset rows"
  by (simp add: order_rows_def Let_def)

lemma set_order_rows [simp]: "set (order_rows collate by dir rows) = set rows"
  by (metis mset_order_rows set_mset_mset)

text \<open>The answer of the filtered listing, as a whole.\<close>

definition filter_dates :: "ReceivedFilter \<Rightarrow> (instant option \<times> instant option) option" where
  "filter_dates f =
     (let date = (\<lambda>s. if s = [] then Some None else map_option Some (parse_date s)) in
      case (date (f_DateFrom f), date (f_DateTo f)) of (Some a, Some b) \<Rightarrow> Some (a, b) | _ \<Rightarrow> None)"

definition matching_rows :: "uuid \<Rightarrow> ReceivedFilter \<Rightarrow> mail_db \<Rightarrow> (mail_row \<times> SMTPVerificationStat option) list" where
  "matching_rows u f st = (case filter_dates f of None \<Rightarrow> []
     | Some (a, b) \<Rightarrow> filter (filter_matches f a b) (with_stats st (owned_mail u st)))"

lemma filtered_listing:
  assumes "pg_Received_GetByUserIDWithFilter inet collate u limit offset f st = (Inr (rows, n), st')"
  shows "n = int (length (matching_rows u f st)) \<and> 0 \<le> limit \<and> 0 \<le> offset \<and>
    rows = map (detail_row inet) (take (nat limit) (drop (nat offset) (order_rows collate (f_SortBy f) (f_SortOrder f) (matching_rows u f st))))"
proof (cases "filter_dates f")
  case None
  then show ?thesis using assms
    by (auto simp: pg_Received_GetByUserIDWithFilter_def filter_dates_def Let_def split: if_splits option.splits)
next
  case (Some ab)
  then obtain a b where ab: "filter_dates f = Some (a, b)" by (cases ab) auto
  let ?rows = "\<lambda>st. filter (filter_matches f a b) (with_stats st (owned_mail u st))"
  let ?q = "\<lambda>st. map_sum id (map (detail_row inet)) (page limit offset (order_rows collate (f_SortBy f) (f_SortOrder f) (?rows st)))"
  have "counted (\<lambda>st. int (length (?rows st))) ?q st = (Inr (rows, n), st')"
    using assms ab by (auto simp: pg_Received_GetByUserIDWithFilter_def filter_dates_def Let_def split: if_splits option.splits)
  then have "n = int (length (?rows st)) \<and> ?q st = Inr rows" by (rule counted_cases) simp_all
  then show ?thesis using ab by (auto simp: matching_rows_def map_sum_Inr page_Inr)
qed

text \<open>The rows of one message in an unfiltered listing.\<close>

lemma filter_concat_single:
  assumes "distinct xs" "x \<in> set xs" "\<And>y. y \<in> set xs \<Longrightarrow> y \<noteq> x \<Longrightarrow> filter P (f y) = []"
  shows "filter P (concat (map f xs)) = filter P (f x)"
  using assms
proof (induction xs)
  case (Cons a xs)
  have "filter P (concat (map f xs)) = []" if "x \<notin> set xs"
    using Cons.prems(3) that by (fastforce simp: filter_empty_conv)
  then show ?case using Cons by (cases "x = a") auto
qed simp

lemma owned_mail_single:
  assumes ok: "mdb_ok st" and m: "(x, a, d) \<in> set (owned_mail u st)"
  shows "filter (\<lambda>(r, a, d). re_ID r = re_ID x) (owned_mail u st) = [(x, a, d)]"
proof -
  let ?P = "\<lambda>(r, a, d). re_ID r = re_ID x"
  let ?fd = "\<lambda>r a d. if ea_DomainID a = d_ID d then if d_UserID d = u then [(r, a, d)] else [] else []"
  let ?fa = "\<lambda>r a. if re_EmailAddressID r = Some (ea_ID a) then concat (map (?fd r a) (mdb_domains st)) else []"
  let ?fr = "\<lambda>r. concat (map (?fa r) (mdb_addresses st))"
  have mem: "x \<in> set (mdb_received st)" "a \<in> set (mdb_addresses st)" "d \<in> set (mdb_domains st)"
      "re_EmailAddressID x = Some (ea_ID a)" "ea_DomainID a = d_ID d" "d_UserID d = u"
    using m by (simp_all add: owned_mail_iff)
  note D = distinct_keys [OF ok]
  have dist: "distinct (mdb_received st)" "distinct (mdb_addresses st)" "distinct (mdb_domains st)"
    using D by (simp_all add: distinct_map)
  have inj: "r = r'" if "k r = k r'" "distinct (map k rs)" "r \<in> set rs" "r' \<in> set rs" for k :: "'x \<Rightarrow> uuid" and r r' rs
    using that by (auto simp: distinct_map inj_on_def)
  have "owned_mail u st = concat (map ?fr (mdb_received st))" by (simp add: owned_mail_def)
  also have "filter ?P \<dots> = filter ?P (?fr x)"
    by (rule filter_concat_single [OF dist(1) mem(1)]) (use inj [of re_ID, OF _ D(3)] mem(1) in \<open>fastforce simp: filter_empty_conv\<close>)
  also have "\<dots> = filter ?P (?fa x a)"
    by (rule filter_concat_single [OF dist(2) mem(2)]) (use inj [of ea_ID, OF _ D(2)] mem in \<open>fastforce simp: filter_empty_conv\<close>)
  also have "\<dots> = filter ?P (concat (map (?fd x a) (mdb_domains st)))" using mem(4) by simp
  also have "\<dots> = filter ?P (?fd x a d)"
    by (rule filter_concat_single [OF dist(3) mem(3)]) (use inj [of d_ID, OF _ D(1)] mem in \<open>fastforce simp: filter_empty_conv\<close>)
  also have "\<dots> = [(x, a, d)]" using mem(5,6) by simp
  finally show ?thesis .
qed

lemma with_stats_filter:
  "filter (\<lambda>((r, a, d), s). P r) (with_stats st rows) = with_stats st (filter (\<lambda>(r, a, d). P r) rows)"
  by (induction rows) (auto simp: with_stats_def o_def split: prod.splits)

definition no_filter :: "ReceivedFilter \<Rightarrow> bool" where
  "no_filter f \<longleftrightarrow> f_EmailAddress f = [] \<and> f_FromAddress f = [] \<and> f_DateFrom f = [] \<and> f_DateTo f = [] \<and> f_SpamMin f = 0 \<and>
     f_SpamMax f = 0 \<and> f_SecurityStatus f = [] \<and> f_Search f = [] \<and> f_Domain f = []"

lemma matching_rows_no_filter: "no_filter f \<Longrightarrow> matching_rows u f st = with_stats st (owned_mail u st)"
proof -
  assume f: "no_filter f"
  have "security_matches [] s" for s by (cases s) simp_all
  then have "filter_matches f None None y" for y using f by (simp add: filter_matches_def no_filter_def split: prod.splits)
  then show ?thesis using f by (simp add: matching_rows_def filter_dates_def no_filter_def)
qed

lemma detail_row_ID: "re_ID (detail_row inet ((r, a, d), s)) = re_ID r"
  by (simp add: detail_row_def attach_stat_def)

section \<open>Properties\<close>


definition mailbox_db :: mail_db where
  "mailbox_db = \<lparr>pg_faults = [], mdb_users = [1, 2],
     mdb_domains = [\<lparr>d_ID = 10, d_UserID = 1, d_Domain = ''a.org'', d_PublicKey = ''k'', d_APIKey = ''key'', d_StorageEnabled = True,
        d_AutoCreateAddress = False, d_WebhookConfig = None, d_VerificationStatus = VerificationStatusVerified,
        d_VerificationToken = [], d_LastVerificationAttempt = None, d_VerificationError = [], d_VerificationAttempts = 0,
        d_NextVerificationAttempt = None, d_CreatedAt = 0, d_UpdatedAt = 0\<rparr>],
     mdb_addresses = [\<lparr>ea_ID = 20, ea_DomainID = 10, ea_LocalPart = ''bob'', ea_ForwardAddresses = [], ea_ForwardingEnabled = False,
        ea_CreatedAt = 0, ea_UpdatedAt = 0\<rparr>],
     mdb_received = [\<lparr>re_ID = 30, re_EmailAddressID = Some 20, re_SequenceNumber = 1, re_FromAddress = ''x@y.org'',
        re_Subject = None, re_EncryptedBody = ''e'', re_DomainName = [], re_EmailAddress = [], re_ReceivedAt = 0,
        re_SMTPVerification = None\<rparr>],
     mdb_stats = [], mdb_validations = []\<rparr>"

lemma mailbox_db_ok: "mdb_ok mailbox_db"
  by (simp add: mdb_ok_parts mailbox_db_def domain_row_check_def in_int32_def numbers_of_def)

definition mailbox_state :: "mail_db mail_uc" where
  "mailbox_state = \<lparr>mu_repo = mailbox_db, mu_tasks = []\<rparr>"


text \<open>
  The listing shows a message once for every verification record of the same mailbox and sender within five
  minutes of it, not once: two messages of one sender in quick succession are each listed twice, and the total
  counts those rows, not the messages.
\<close>

theorem listing_repeats:
  assumes "mdb_ok st" "(x, a, d) \<in> set (owned_mail u st)" "no_filter f"
    and "pg_Received_GetByUserIDWithFilter inet collate u limit 0 f st = (Inr (rows, n), st')" "n \<le> limit"
  shows "n = int (length rows) \<and> length (filter (\<lambda>m. re_ID m = re_ID x) rows) =
    max 1 (length (filter (\<lambda>s. st_DomainID s = d_ID d \<and> stat_matches x s) (mdb_stats st)))"
proof -
  let ?ws = "with_stats st (owned_mail u st)"
  let ?os = "order_rows collate (f_SortBy f) (f_SortOrder f) ?ws"
  have len: "length ?os = length ?ws" by (metis mset_order_rows size_mset)
  have rows: "rows = map (detail_row inet) ?os" and n: "n = int (length ?ws)"
    using filtered_listing [OF assms(4)] assms(5) len by (simp_all add: matching_rows_no_filter [OF assms(3)])
  have "length (filter (\<lambda>m. re_ID m = re_ID x) rows) = length (filter (\<lambda>((r, a, d), s). re_ID r = re_ID x) ?os)"
    unfolding rows filter_map length_map o_def
    by (rule arg_cong [of _ _ length], rule filter_cong) (auto simp: detail_row_ID split: prod.splits)
  also have "\<dots> = length (filter (\<lambda>((r, a, d), s). re_ID r = re_ID x) ?ws)"
    by (metis mset_order_rows mset_filter size_mset)
  also have "\<dots> = length (with_stats st [(x, a, d)])"
    using with_stats_filter [of "\<lambda>r. re_ID r = re_ID x" st "owned_mail u st"] owned_mail_single [OF assms(1,2)] by simp
  also have "\<dots> = max 1 (length (filter (\<lambda>s. st_DomainID s = d_ID d \<and> stat_matches x s) (mdb_stats st)))"
    by (auto simp: with_stats_def left_join_def max_def Suc_le_eq)
  finally show ?thesis using n len rows by simp
qed

definition two_stats :: "SMTPVerificationStat list" where
  "two_stats = map (\<lambda>i. \<lparr>st_ID = i, st_DomainID = 10, st_EmailAddressID = 20, st_VerifiedAt = 1000, st_SenderIP = None,
     st_SenderDomain = ''y.org'', st_FromAddress = ''x@y.org'', st_SPFResult = ''pass'', st_SPFMechanism = [], st_DKIMValid = True,
     st_DKIMDomain = [], st_DKIMSelector = [], st_DMARCResult = ''pass'', st_DMARCPolicy = [], st_DMARCAlignmentSPF = True,
     st_DMARCAlignmentDKIM = True, st_SpamScore = 0, st_ContentVerdict = ''clean'', st_ReputationScore = 0,
     st_IsBlacklisted = False, st_FinalAction = ''accept'', st_IsQuarantined = False\<rparr>) [40, 41]"

definition busy_db :: mail_db where
  "busy_db = mailbox_db\<lparr>mdb_received := mdb_received mailbox_db @
       [(hd (mdb_received mailbox_db))\<lparr>re_ID := 31, re_SequenceNumber := 2, re_ReceivedAt := time_Minute\<rparr>],
     mdb_stats := two_stats\<rparr>"

lemma busy_db_ok: "mdb_ok busy_db"
  by (simp add: mdb_ok_parts busy_db_def mailbox_db_def two_stats_def domain_row_check_def in_int32_def numbers_of_def)

definition all_mail :: ReceivedFilter where
  "all_mail = \<lparr>f_SortBy = ''received_at'', f_SortOrder = ''desc'', f_EmailAddress = [], f_FromAddress = [], f_DateFrom = [], f_DateTo = [],
     f_SpamMin = 0, f_SpamMax = 0, f_SecurityStatus = [], f_Search = [], f_Domain = []\<rparr>"

theorem listing_repeats_witness:
  "\<exists>rows st'. pg_Received_GetByUserIDWithFilter Some (\<lambda>_. 0) 1 50 0 all_mail busy_db = (Inr (rows, 4), st') \<and>
     length (filter (\<lambda>m. re_ID m = 31) rows) = 2"
proof -
  let ?x = "(hd (mdb_received mailbox_db))\<lparr>re_ID := 31, re_SequenceNumber := 2, re_ReceivedAt := time_Minute\<rparr>"
  let ?a = "hd (mdb_addresses mailbox_db)" and ?d = "hd (mdb_domains mailbox_db)"
  have own: "owned_mail 1 busy_db = [(hd (mdb_received mailbox_db), ?a, ?d), (?x, ?a, ?d)]"
    by (simp add: owned_mail_def busy_db_def mailbox_db_def)
  have ws: "length (with_stats busy_db (owned_mail 1 busy_db)) = 4"
    unfolding own by (simp add: with_stats_def left_join_def stat_matches_def busy_db_def mailbox_db_def two_stats_def)
  have nf: "no_filter all_mail" by (simp add: no_filter_def all_mail_def)
  have "\<exists>rows n st'. pg_Received_GetByUserIDWithFilter Some (\<lambda>_. 0) 1 50 0 all_mail busy_db = (Inr (rows, n), st')"
    by (simp add: pg_Received_GetByUserIDWithFilter_def counted_def page_def all_mail_def busy_db_def mailbox_db_def)
  then obtain rows n st' where g: "pg_Received_GetByUserIDWithFilter Some (\<lambda>_. 0) 1 50 0 all_mail busy_db = (Inr (rows, n), st')" by blast
  then have n: "n = 4" using filtered_listing [OF g] ws by (simp add: matching_rows_no_filter [OF nf])
  have "length (filter (\<lambda>m. re_ID m = re_ID ?x) rows) =
      max 1 (length (filter (\<lambda>s. st_DomainID s = d_ID ?d \<and> stat_matches ?x s) (mdb_stats busy_db)))"
    using listing_repeats [OF busy_db_ok _ nf g, of ?x ?a ?d] own n by simp
  also have "\<dots> = 2" by (simp add: stat_matches_def busy_db_def mailbox_db_def two_stats_def)
  finally show ?thesis using g n by auto
qed

end
