(* ===== verification/Encryption.thy ===== *)
theory Encryption
  imports GoStrings
begin

text \<open>
  Encryption of stored mail, \<open>internal/encryption/encryption.go\<close>: X25519 key agreement with an ephemeral key
  and ChaCha20-Poly1305, and the text format of public keys.

  The primitives of \<open>golang.org/x/crypto\<close> are the record \<open>crypto\<close>; the bytes of \<open>crypto/rand\<close> are arguments
  (\<open>None\<close> where the read fails). A byte slice is a list of \<open>char\<close>.
\<close>

section \<open>Keys\<close>

definition KeySize :: nat where "KeySize = 32"
definition NonceSize :: nat where "NonceSize = 12"
definition PublicKeyPrefix :: string where "PublicKeyPrefix = ''x25519:''"

datatype enc_error =
    ErrInvalidKeySize | ErrInvalidNonceSize | ErrInvalidPublicKey | ErrDecryptionFailed | RandFailed | ECDHFailed
  | CipherFailed | SerializeFailed string

text \<open>\<open>X25519(scalar, point)\<close>, which refuses low-order points; \<open>New\<close> accepts a key; \<open>Seal\<close> and \<open>Open\<close>.\<close>

record crypto =
  X25519 :: "string \<Rightarrow> string \<Rightarrow> string option"
  Basepoint :: string
  aead_New :: "string \<Rightarrow> bool"
  aead_Seal :: "string \<Rightarrow> string \<Rightarrow> string \<Rightarrow> string"
  aead_Open :: "string \<Rightarrow> string \<Rightarrow> string \<Rightarrow> string option"

record KeyPair =
  kp_PublicKey :: string
  kp_PrivateKey :: string

record EncryptedData =
  ed_EphemeralPublicKey :: string
  ed_Nonce :: string
  ed_Ciphertext :: string

definition GenerateKeyPair :: "crypto \<Rightarrow> string option \<Rightarrow> enc_error + KeyPair" where
  "GenerateKeyPair c rnd =
     (case rnd of
        None \<Rightarrow> Inl RandFailed
      | Some privateKey \<Rightarrow>
          (case X25519 c privateKey (Basepoint c) of
             None \<Rightarrow> Inl ECDHFailed
           | Some publicKey \<Rightarrow> Inr \<lparr>kp_PublicKey = publicKey, kp_PrivateKey = privateKey\<rparr>))"

definition Encrypt :: "crypto \<Rightarrow> string option \<Rightarrow> string option \<Rightarrow> string \<Rightarrow> string \<Rightarrow> enc_error + EncryptedData" where
  "Encrypt c rnd_key rnd_nonce data recipientPublicKey =
     (if length recipientPublicKey \<noteq> KeySize then Inl ErrInvalidKeySize
      else case GenerateKeyPair c rnd_key of
        Inl e \<Rightarrow> Inl e
      | Inr kp \<Rightarrow>
          (case X25519 c (kp_PrivateKey kp) recipientPublicKey of
             None \<Rightarrow> Inl ECDHFailed
           | Some sharedSecret \<Rightarrow>
               if \<not> aead_New c sharedSecret then Inl CipherFailed
               else (case rnd_nonce of
                       None \<Rightarrow> Inl RandFailed
                     | Some nonce \<Rightarrow>
                         Inr \<lparr>ed_EphemeralPublicKey = kp_PublicKey kp, ed_Nonce = nonce,
                              ed_Ciphertext = aead_Seal c sharedSecret nonce data\<rparr>)))"

definition Decrypt :: "crypto \<Rightarrow> EncryptedData \<Rightarrow> string \<Rightarrow> enc_error + string" where
  "Decrypt c ed recipientPrivateKey =
     (if length recipientPrivateKey \<noteq> KeySize then Inl ErrInvalidKeySize
      else if length (ed_EphemeralPublicKey ed) \<noteq> KeySize then Inl ErrInvalidKeySize
      else if length (ed_Nonce ed) \<noteq> NonceSize then Inl ErrInvalidNonceSize
      else case X25519 c recipientPrivateKey (ed_EphemeralPublicKey ed) of
        None \<Rightarrow> Inl ECDHFailed
      | Some sharedSecret \<Rightarrow>
          if \<not> aead_New c sharedSecret then Inl CipherFailed
          else (case aead_Open c sharedSecret (ed_Nonce ed) (ed_Ciphertext ed) of
                  None \<Rightarrow> Inl ErrDecryptionFailed
                | Some plaintext \<Rightarrow> Inr plaintext))"

section \<open>The text of a public key\<close>

definition hex_digit :: "nat \<Rightarrow> char" where
  "hex_digit n = char_of (if n < 10 then 48 + n else 87 + n)"

fun hex_encode :: "string \<Rightarrow> string" where
  "hex_encode [] = []"
| "hex_encode (b # bs) = hex_digit (code b div 16) # hex_digit (code b mod 16) # hex_encode bs"

definition hex_value :: "char \<Rightarrow> nat option" where
  "hex_value c =
     (if is_digit c then Some (code c - 48)
      else if 97 \<le> code c \<and> code c \<le> 102 then Some (code c - 87)
      else if 65 \<le> code c \<and> code c \<le> 70 then Some (code c - 55)
      else None)"

text \<open>The loop of \<open>fmt.Sscanf\<close> under \<open>%x\<close>: pairs of digits up to the first byte that is not one; a digit
  whose partner is missing is an error. What follows is left unread.\<close>

fun hex_bytes :: "string \<Rightarrow> string option" where
  "hex_bytes [] = Some []"
| "hex_bytes [a] = (case hex_value a of None \<Rightarrow> Some [] | Some _ \<Rightarrow> None)"
| "hex_bytes (a # b # cs) =
     (case hex_value a of
        None \<Rightarrow> Some []
      | Some x \<Rightarrow>
          (case hex_value b of
             None \<Rightarrow> None
           | Some y \<Rightarrow> map_option (Cons (char_of (16 * x + y))) (hex_bytes cs)))"

definition Sscanf_hex :: "string \<Rightarrow> string option" where
  "Sscanf_hex s =
     (if CHR 0x0A \<in> set (takeWhile is_space s) then None
      else case hex_bytes (dropWhile is_space s) of
        None \<Rightarrow> None
      | Some [] \<Rightarrow> None
      | Some bs \<Rightarrow> Some bs)"

definition FormatPublicKey :: "string \<Rightarrow> string" where
  "FormatPublicKey publicKey = PublicKeyPrefix @ hex_encode publicKey"

definition ParsePublicKey :: "string \<Rightarrow> enc_error + string" where
  "ParsePublicKey formatted =
     (if length formatted \<noteq> length PublicKeyPrefix + KeySize * 2 then Inl ErrInvalidPublicKey
      else if take (length PublicKeyPrefix) formatted \<noteq> PublicKeyPrefix then Inl ErrInvalidPublicKey
      else case Sscanf_hex (drop (length PublicKeyPrefix) formatted) of
        None \<Rightarrow> Inl ErrInvalidPublicKey
      | Some publicKey \<Rightarrow> Inr publicKey)"

section \<open>Lemmas\<close>

lemma code_less [simp]: "code c < 256"
  by (rule nat_of_char_less_256)

lemma length_prefix [simp]: "length PublicKeyPrefix = 7"
  by (simp add: PublicKeyPrefix_def)

lemma hex_value_digit: "n < 16 \<Longrightarrow> hex_value (hex_digit n) = Some n"
  by (auto simp: hex_value_def hex_digit_def is_digit_def)

lemma hex_digit_not_space: "n < 16 \<Longrightarrow> \<not> is_space (hex_digit n)"
  by (auto simp: hex_digit_def is_space_def)

lemma length_hex_encode [simp]: "length (hex_encode bs) = 2 * length bs"
  by (induction bs) simp_all

text \<open>Reading back what was written, whatever follows it, as long as that does not start with a digit.\<close>

lemma hex_bytes_encode:
  assumes "rest = [] \<or> hex_value (hd rest) = None"
  shows "hex_bytes (hex_encode bs @ rest) = Some bs"
proof (induction bs)
  case Nil
  then show ?case using assms by (cases rest rule: hex_bytes.cases) auto
next
  case (Cons b bs)
  have "code b div 16 < 16" using code_less [of b] by linarith
  then show ?case using Cons by (simp add: hex_value_digit)
qed

lemma Sscanf_encode:
  assumes "rest = [] \<or> hex_value (hd rest) = None" "bs \<noteq> []"
  shows "Sscanf_hex (hex_encode bs @ rest) = Some bs"
proof -
  obtain b bs' where bs: "bs = b # bs'" using assms(2) by (cases bs) auto
  have "code b div 16 < 16" using code_less [of b] by linarith
  then have "takeWhile is_space (hex_encode bs @ rest) = []" "dropWhile is_space (hex_encode bs @ rest) = hex_encode bs @ rest"
    by (simp_all add: bs hex_digit_not_space)
  then show ?thesis using hex_bytes_encode [OF assms(1), of bs] by (simp add: Sscanf_hex_def bs)
qed

lemma hex_bytes_length: "hex_bytes s = Some bs \<Longrightarrow> 2 * length bs \<le> length s"
  by (induction s arbitrary: bs rule: hex_bytes.induct) (auto split: option.splits)

lemma ParsePublicKey_length: "ParsePublicKey s = Inr k \<Longrightarrow> 0 < length k \<and> length k \<le> KeySize"
proof -
  assume p: "ParsePublicKey s = Inr k"
  let ?t = "drop 7 s"
  have len: "length s = 71" and sc: "Sscanf_hex ?t = Some k"
    using p by (auto simp: ParsePublicKey_def KeySize_def split: if_splits option.splits)
  then have "hex_bytes (dropWhile is_space ?t) = Some k" "k \<noteq> []"
    by (auto simp: Sscanf_hex_def split: if_splits option.splits list.splits)
  moreover have "length (dropWhile is_space ?t) \<le> 64" using len length_dropWhile_le [of is_space ?t] by simp
  ultimately show ?thesis using hex_bytes_length [of "dropWhile is_space ?t" k] by (simp add: KeySize_def)
qed

lemma ParsePublicKey_padded:
  assumes "bs \<noteq> []" "length bs \<le> KeySize"
  shows "ParsePublicKey (PublicKeyPrefix @ hex_encode bs @ replicate (2 * (KeySize - length bs)) CHR '' '') = Inr bs"
proof -
  let ?pad = "replicate (2 * (KeySize - length bs)) CHR '' ''"
  have "?pad = [] \<or> hex_value (hd ?pad) = None" by (cases "2 * (KeySize - length bs)") (simp_all add: hex_value_def is_digit_def)
  from Sscanf_encode [OF this assms(1)] show ?thesis
    using assms(2) by (simp add: ParsePublicKey_def KeySize_def)
qed

section \<open>Properties\<close>

text \<open>What the primitives are documented to do: public keys have 32 bytes and are always obtained from a
  32-byte scalar, key agreement is symmetric and yields a key the cipher accepts, and \<open>Open\<close> undoes \<open>Seal\<close>.\<close>

definition crypto_laws :: "crypto \<Rightarrow> bool" where
  "crypto_laws c \<longleftrightarrow>
     (\<forall>a. length a = KeySize \<longrightarrow> (\<exists>p. X25519 c a (Basepoint c) = Some p \<and> length p = KeySize)) \<and>
     (\<forall>a b p q. length a = KeySize \<and> length b = KeySize \<and> X25519 c a (Basepoint c) = Some p \<and> X25519 c b (Basepoint c) = Some q \<longrightarrow>
        (\<exists>k. X25519 c a q = Some k \<and> X25519 c b p = Some k \<and> aead_New c k)) \<and>
     (\<forall>k n m. aead_New c k \<and> length n = NonceSize \<longrightarrow> aead_Open c k n (aead_Seal c k n m) = Some m)"

text \<open>Whatever the random bytes, what is encrypted for a generated key pair can be decrypted with it.\<close>

lemma Encrypt_roundtrip:
  assumes "crypto_laws c" "length priv = KeySize" "length eph = KeySize" "length nonce = NonceSize"
  shows "\<exists>pub ed. GenerateKeyPair c (Some priv) = Inr \<lparr>kp_PublicKey = pub, kp_PrivateKey = priv\<rparr> \<and>
    ParsePublicKey (FormatPublicKey pub) = Inr pub \<and>
    Encrypt c (Some eph) (Some nonce) m pub = Inr ed \<and> Decrypt c ed priv = Inr m"
proof -
  obtain p where p: "X25519 c priv (Basepoint c) = Some p" "length p = KeySize" using assms(1,2) by (auto simp: crypto_laws_def)
  obtain q where q: "X25519 c eph (Basepoint c) = Some q" "length q = KeySize" using assms(1,3) by (auto simp: crypto_laws_def)
  obtain k where k: "X25519 c priv q = Some k" "X25519 c eph p = Some k" "aead_New c k"
    using assms(1-3) p(1) q(1) unfolding crypto_laws_def by metis
  have "ParsePublicKey (FormatPublicKey p) = Inr p"
    using ParsePublicKey_padded [of p] p(2) by (cases p) (simp_all add: FormatPublicKey_def KeySize_def)
  moreover have "aead_Open c k nonce (aead_Seal c k nonce m) = Some m"
    using assms(1,4) k(3) by (simp add: crypto_laws_def)
  ultimately show ?thesis using p q k assms(2,4) by (simp add: GenerateKeyPair_def Encrypt_def Decrypt_def)
qed

definition toy_crypto :: crypto where
  "toy_crypto = \<lparr>X25519 = (\<lambda>a p. Some (map2 (\<lambda>x y. char_of (code x + code y)) a p)), Basepoint = replicate 32 (CHR 0x00),
     aead_New = (\<lambda>k. True), aead_Seal = (\<lambda>k n m. rev m), aead_Open = (\<lambda>k n m. Some (rev m))\<rparr>"

lemma toy_pub: "length a = 32 \<Longrightarrow> map2 (\<lambda>x y. char_of (code x + code y)) a (replicate 32 (CHR 0x00)) = a"
  by (rule nth_equalityI) simp_all

lemma toy_laws: "crypto_laws toy_crypto"
proof -
  have "map2 (\<lambda>x y. char_of (code x + code y)) a b = map2 (\<lambda>x y. char_of (code x + code y)) b a" for a b :: string
    by (rule nth_equalityI) (simp_all add: add.commute)
  then show ?thesis by (simp add: crypto_laws_def toy_crypto_def toy_pub KeySize_def)
qed

text \<open>
  \<open>ParsePublicKey\<close> does not check that it read a whole key: any 1 to 31 bytes in hexadecimal, padded with
  blanks to the expected length, are accepted, and nothing can be encrypted with the key it then answers.
\<close>

theorem ParsePublicKey_accepts_short:
  assumes "0 < length bs" "length bs < KeySize"
  shows "\<exists>formatted. ParsePublicKey formatted = Inr bs \<and> Encrypt c rnd_key rnd_nonce m bs = Inl ErrInvalidKeySize"
  using ParsePublicKey_padded [of bs] assms by (auto simp: Encrypt_def)

theorem ParsePublicKey_accepts_short_witness:
  "\<exists>formatted. ParsePublicKey formatted = Inr ''K'' \<and>
     Encrypt toy_crypto (Some (replicate 32 (CHR ''e''))) (Some (replicate 12 (CHR ''n''))) ''m'' ''K'' = Inl ErrInvalidKeySize"
  by (rule ParsePublicKey_accepts_short) (simp_all add: KeySize_def)

end
