(* ===== verification/DomainName.thy ===== *)
theory DomainName
  imports GoRegexp
begin

text \<open>
  The domain names a user may register: \<open>isValidDomain\<close> of \<open>domain/domain/usecase.go\<close>, a regular expression
  and two more checks, and its meaning label by label.
\<close>

section \<open>The syntax of domain names\<close>

text \<open>The expression of \<open>isValidDomain\<close>: labels of letters, digits and inner hyphens, separated by dots.\<close>

definition re_alnum :: re where
  "re_alnum = Cls False [(97, 122), (65, 90), (48, 57)]"

definition re_inner :: re where
  "re_inner = Cls False [(97, 122), (65, 90), (48, 57), (45, 45)]"

definition re_label :: re where
  "re_label = Seq re_alnum (opt (Seq (up_to 61 re_inner) re_alnum))"

definition domainRegex :: re where
  "domainRegex = Seq re_label (Star (Seq (chr CHR ''.'') re_label))"

definition isValidDomain :: "string \<Rightarrow> bool" where
  "isValidDomain domain =
     (if \<not> FullMatch False domainRegex domain then False
      else if length domain > 253 then False
      else if \<not> Contains domain ''.'' then False
      else True)"

text \<open>The specification, after the rules for host names.\<close>

definition valid_label :: "string \<Rightarrow> bool" where
  "valid_label l \<longleftrightarrow> l \<noteq> [] \<and> length l \<le> 63 \<and> list_all (\<lambda>c. is_alnum c \<or> c = CHR ''-'') l \<and>
     is_alnum (hd l) \<and> is_alnum (last l)"

definition valid_host :: "string \<Rightarrow> bool" where
  "valid_host d \<longleftrightarrow> length d \<le> 253 \<and> length (Split CHR ''.'' d) \<ge> 2 \<and> list_all valid_label (Split CHR ''.'' d)"

section \<open>Lemmas about names\<close>

lemma in_class_alnum: "in_class False False [(97, 122), (65, 90), (48, 57)] c \<longleftrightarrow> is_alnum c"
  by (auto simp: in_class_def is_alnum_def is_upper_def is_lower_def is_digit_def)

lemma in_class_inner: "in_class False False [(97, 122), (65, 90), (48, 57), (45, 45)] c \<longleftrightarrow> is_alnum c \<or> c = CHR ''-''"
proof -
  have "45 \<le> code c \<and> code c \<le> 45 \<longleftrightarrow> code c = code CHR ''-''" by auto
  also have "\<dots> \<longleftrightarrow> c = CHR ''-''" by (simp only: of_char_eq_iff)
  finally have hy: "45 \<le> code c \<and> code c \<le> 45 \<longleftrightarrow> c = CHR ''-''" .
  show ?thesis
    by (simp only: in_class_def list_ex_iff list.set bex_simps prod.case hy simp_thms is_alnum_def is_upper_def is_lower_def is_digit_def) blast
qed

lemma in_class_dot: "in_class False False [(46, 46)] c \<longleftrightarrow> c = CHR ''.''"
proof -
  have "46 \<le> code c \<and> code c \<le> 46 \<longleftrightarrow> code c = code CHR ''.''" by auto
  also have "\<dots> \<longleftrightarrow> c = CHR ''.''" by (simp only: of_char_eq_iff)
  finally show ?thesis by (simp add: in_class_def)
qed

text \<open>A match of the label expression spans a valid label.\<close>

lemma matches_label:
  assumes i: "i \<le> length s"
  shows "matches False s re_label i j \<longleftrightarrow> i < j \<and> j \<le> length s \<and> valid_label (drop i (take j s))"
proof (cases "i < j \<and> j \<le> length s")
  case True
  let ?l = "drop i (take j s)"
  have len: "length ?l = j - i" and hd: "hd ?l = s ! i" and last: "last ?l = s ! (j - 1)"
    using True by (auto simp: hd_drop_conv_nth last_drop last_conv_nth)
  have mid: "matches False s (up_to 61 re_inner) (Suc i) k \<longleftrightarrow>
      Suc i \<le> k \<and> k \<le> length s \<and> k - Suc i \<le> 61 \<and> (\<forall>m. Suc i \<le> m \<and> m < k \<longrightarrow> is_alnum (s ! m) \<or> s ! m = CHR ''-'')" for k
    using True matches_up_to [of "Suc i" s False 61 False] by (simp add: re_inner_def in_class_inner)
  have "matches False s re_label i j \<longleftrightarrow> is_alnum (s ! i) \<and> (j = Suc i \<or>
      (matches False s (up_to 61 re_inner) (Suc i) (j - 1) \<and> Suc i < j \<and> is_alnum (s ! (j - 1))))"
    using True unfolding re_label_def opt_def re_alnum_def matches_iffs in_class_alnum by (auto simp: mid)
  also have "\<dots> \<longleftrightarrow> j - i \<le> 63 \<and> (\<forall>m. i \<le> m \<and> m < j \<longrightarrow> is_alnum (s ! m) \<or> s ! m = CHR ''-'') \<and>
      is_alnum (s ! i) \<and> is_alnum (s ! (j - 1))"
  proof (cases "j = Suc i")
    case False
    then have ends: "i \<le> m \<and> m < j \<longleftrightarrow> m = i \<or> (Suc i \<le> m \<and> m < j - 1) \<or> m = j - 1" for m
      using True by auto
    let ?P = "\<lambda>m. is_alnum (s ! m) \<or> s ! m = CHR ''-''"
    have all: "(\<forall>m. i \<le> m \<and> m < j \<longrightarrow> ?P m) \<longleftrightarrow> ?P i \<and> (\<forall>m. Suc i \<le> m \<and> m < j - 1 \<longrightarrow> ?P m) \<and> ?P (j - 1)"
      unfolding ends by blast
    have ar: "Suc i \<le> j - 1" "j - 1 \<le> length s" "j - 1 - Suc i \<le> 61 \<longleftrightarrow> j - i \<le> 63" "Suc i < j"
      using True False by auto
    show ?thesis unfolding all mid [of "j - 1"] using ar False by blast
  qed (use le_less_Suc_eq in auto)
  also have "\<dots> \<longleftrightarrow> valid_label ?l"
    using True in_set_span [of j s i "\<lambda>c. is_alnum c \<or> c = CHR ''-''"] hd last len
    by (simp add: valid_label_def list_all_iff)
  finally show ?thesis using True by simp
next
  case False
  have "i < j \<and> j \<le> length s" if m: "matches False s re_label i j"
  proof -
    have "i < j" using m i matches_bounds unfolding re_label_def re_alnum_def matches_iffs
      by (metis Suc_leI Suc_le_lessD le_trans)
    then show ?thesis using matches_bounds [OF m i] by simp
  qed
  then show ?thesis using False by blast
qed

text \<open>The repetition spans labels each preceded by a dot.\<close>

lemma take_split: "i \<le> j \<Longrightarrow> j \<le> k \<Longrightarrow> drop i (take k s) = drop i (take j s) @ drop j (take k s)"
proof -
  assume "i \<le> j" "j \<le> k"
  have "take k s = take j s @ drop j (take k s)"
    using \<open>j \<le> k\<close> by (metis append_take_drop_id min.absorb1 take_take)
  then have "drop i (take k s) = drop i (take j s @ drop j (take k s))" by simp
  moreover have "drop (i - length (take j s)) (drop j (take k s)) = drop j (take k s)"
    using \<open>i \<le> j\<close> by (cases "j \<le> length s") auto
  ultimately show ?thesis by (simp only: drop_append)
qed

lemma matches_rest:
  "matches False s (Star (Seq (chr CHR ''.'') re_label)) i j \<Longrightarrow> i \<le> length s \<Longrightarrow>
     \<exists>ls. drop i (take j s) = concat (map (Cons CHR ''.'') ls) \<and> list_all valid_label ls"
proof (induction "Star (Seq (chr CHR ''.'') re_label)" i j rule: matches.induct)
  case (star0 i)
  then show ?case by (intro exI [of _ "[]"]) simp
next
  case (star1 i j k)
  have dot: "i < length s" "s ! i = CHR ''.''" and m: "matches False s re_label (Suc i) j"
    using star1.hyps(1) by (auto simp: chr_def matches_iffs in_class_dot)
  then have l: "Suc i < j" "j \<le> length s" "valid_label (drop (Suc i) (take j s))"
    using matches_label [of "Suc i" s j] by auto
  obtain ls where ls: "drop j (take k s) = concat (map (Cons CHR ''.'') ls)" "list_all valid_label ls"
    using star1.hyps(3) l(2) by blast
  have "j \<le> k" using matches_bounds [OF star1.hyps(2) l(2)] by simp
  then have "drop i (take k s) = drop i (take j s) @ drop j (take k s)" using l(1) by (intro take_split) simp_all
  also have "drop i (take j s) = CHR ''.'' # drop (Suc i) (take j s)"
    using dot l by (metis Cons_nth_drop_Suc Suc_lessD length_take min.absorb2 nth_take)
  finally show ?case using ls l(3) by (intro exI [of _ "drop (Suc i) (take j s) # ls"]) simp
qed

lemma rest_matches:
  "list_all valid_label ls \<Longrightarrow> i \<le> length s \<Longrightarrow> drop i s = concat (map (Cons CHR ''.'') ls) \<Longrightarrow>
     matches False s (Star (Seq (chr CHR ''.'') re_label)) i (length s)"
proof (induction ls arbitrary: i)
  case Nil
  then show ?case by (auto intro: matches.star0)
next
  case (Cons l ls)
  let ?j = "Suc i + length l"
  have d: "drop i s = CHR ''.'' # l @ concat (map (Cons CHR ''.'') ls)" using Cons.prems(3) by simp
  have i: "i < length s" using d by (metis drop_all list.distinct(1) not_le)
  then have dot: "s ! i = CHR ''.''" and d1: "drop (Suc i) s = l @ concat (map (Cons CHR ''.'') ls)"
    using d by (metis Cons_nth_drop_Suc list.inject)+
  have j: "?j \<le> length s" using arg_cong [OF d1, of length] i by simp
  have dl: "drop (Suc i) (take ?j s) = l" using d1 by (simp add: drop_take)
  have dj: "drop ?j s = concat (map (Cons CHR ''.'') ls)"
    using arg_cong [OF d1, of "drop (length l)"] by (simp add: add.commute)
  have "l \<noteq> []" using Cons.prems(1) by (simp add: valid_label_def)
  then have "matches False s re_label (Suc i) ?j"
    using matches_label [of "Suc i" s ?j] i j dl Cons.prems(1) by simp
  then have "matches False s (Seq (chr CHR ''.'') re_label) i ?j"
    using i dot by (auto simp: chr_def matches_iffs in_class_dot)
  then show ?case using Cons.IH [OF _ j dj] Cons.prems(1) by (auto intro: matches.star1)
qed

lemma Split_labels:
  "list_all (\<lambda>l. CHR ''.'' \<notin> set l) (l # ls) \<Longrightarrow> Split CHR ''.'' (l @ concat (map (Cons CHR ''.'') ls)) = l # ls"
  by (induction ls arbitrary: l) (simp_all add: Split_single Split_append)

lemma Split_labels_ex: "\<exists>l ls. Split CHR ''.'' s = l # ls \<and> s = l @ concat (map (Cons CHR ''.'') ls)"
proof (induction s)
  case (Cons c s)
  then obtain l ls where "Split CHR ''.'' s = l # ls" "s = l @ concat (map (Cons CHR ''.'') ls)" by blast
  then show ?case by auto
qed simp

lemma valid_label_no_dot: "valid_label l \<Longrightarrow> CHR ''.'' \<notin> set l"
  by (auto simp: valid_label_def list_all_iff is_alnum_def is_upper_def is_lower_def is_digit_def)

lemma FullMatch_domain: "FullMatch False domainRegex s \<longleftrightarrow> list_all valid_label (Split CHR ''.'' s)"
proof
  assume "FullMatch False domainRegex s"
  then obtain j where l: "matches False s re_label 0 j" and r: "matches False s (Star (Seq (chr CHR ''.'') re_label)) j (length s)"
    by (auto simp: FullMatch_iff domainRegex_def matches_Seq_iff)
  have j: "j \<le> length s" "valid_label (take j s)" using matches_label [of 0 s j] l by auto
  obtain ls where ls: "drop j s = concat (map (Cons CHR ''.'') ls)" "list_all valid_label ls"
    using matches_rest [OF r j(1)] by auto
  have "list_all (\<lambda>l. CHR ''.'' \<notin> set l) (take j s # ls)" using j(2) ls(2) valid_label_no_dot by (auto simp: list_all_iff)
  then have "Split CHR ''.'' (take j s @ drop j s) = take j s # ls" unfolding ls(1) by (rule Split_labels)
  then show "list_all valid_label (Split CHR ''.'' s)" using j(2) ls(2) by simp
next
  assume v: "list_all valid_label (Split CHR ''.'' s)"
  obtain l ls where sp: "Split CHR ''.'' s = l # ls" "s = l @ concat (map (Cons CHR ''.'') ls)" using Split_labels_ex by blast
  then have l: "valid_label l" "list_all valid_label ls" using v by auto
  have "matches False s re_label 0 (length l)"
    using matches_label [of 0 s "length l"] l(1) sp(2) by (auto simp: valid_label_def)
  moreover have "matches False s (Star (Seq (chr CHR ''.'') re_label)) (length l) (length s)"
  proof (rule rest_matches [OF l(2)])
    show "length l \<le> length s" "drop (length l) s = concat (map (Cons CHR ''.'') ls)" by (simp_all add: sp(2))
  qed
  ultimately show "FullMatch False domainRegex s" by (auto simp: FullMatch_iff domainRegex_def matches_Seq_iff)
qed

lemma Split_dot: "c \<in> set s \<longleftrightarrow> 2 \<le> length (Split c s)"
proof (cases "c \<in> set s")
  case True
  then obtain a b where "s = a @ c # b" "c \<notin> set a" by (metis split_list_first)
  then show ?thesis using Split_append [of c a b] Split_not_Nil [of c b] by (cases "Split c b") auto
qed (simp add: Split_single)

section \<open>Properties\<close>

text \<open>
  C28: \<open>isValidDomain\<close> accepts exactly the names of at least two labels and at most 253 bytes whose labels are one
  to 63 letters, digits and hyphens that neither begin nor end with a hyphen.
\<close>

theorem isValidDomain_iff: "isValidDomain d \<longleftrightarrow> valid_host d"
  using Split_dot [of "CHR ''.''" d]
  by (auto simp: isValidDomain_def valid_host_def FullMatch_domain)

end
