(* ===== verification/DomainUseCase.thy ===== *)
theory DomainUseCase
  imports MailSchema Encryption DomainName
begin

text \<open>
  Managing domains, \<open>domain/domain/usecase.go\<close>: registration with its checks, lookup, update, deletion.

  The repository is the interface \<open>domain_ops\<close>; the lemmas hold over any that keeps the contract
  \<open>mail_store\<close>, and the properties are stated for PostgreSQL. The limiter (\<open>domain/extensions\<close>) is a function that may
  refuse a user; the random bytes of keys and tokens, the new id and the readings of the clock are arguments.
\<close>

section \<open>The use case\<close>

record CreateDomainInput =
  cd_UserID :: uuid
  cd_Domain :: string
  cd_PublicKey :: string
  cd_StorageEnabled :: "bool option"
  cd_AutoCreateAddress :: "bool option"
  cd_WebhookConfig :: "WebhookConfig option"

record UpdateDomainInput =
  ud_PublicKey :: "string option"
  ud_StorageEnabled :: "bool option"
  ud_AutoCreateAddress :: "bool option"

datatype domain_uc_error =
    UserIDRequired | DomainRequired | PublicKeyRequired | InvalidPublicKeyFormat enc_error | InvalidDomainFormat
  | LimiterRefused string | DomainAlreadyExists | APIKeyGeneration | TokenGeneration | InvalidDomainData
  | CreateDomainFailed db_error | DomainIDRequired | GetDomainFailed db_error | APIKeyRequired
  | InvalidDomainDataAfterUpdate | UpdateDomainFailed db_error | NotDomainOwner | DeleteDomainFailed db_error

type_synonym domain_limiter = "uuid \<Rightarrow> string option"

definition NoopDomainLimiter :: domain_limiter where
  "NoopDomainLimiter u = None"

definition generateAPIKey :: "string option \<Rightarrow> string option" where
  "generateAPIKey rnd = map_option (\<lambda>bytes. ''pm_'' @ hex_encode bytes) rnd"

definition generateVerificationToken :: "string option \<Rightarrow> string option" where
  "generateVerificationToken rnd = map_option hex_encode rnd"

text \<open>What the code draws for a new domain: 32 and 16 random bytes, an id, two readings of the clock.\<close>

record domain_draw =
  dr_key :: "string option"
  dr_token :: "string option"
  dr_id :: uuid
  dr_created :: instant
  dr_updated :: instant

definition new_domain :: "domain_draw \<Rightarrow> string \<Rightarrow> string \<Rightarrow> CreateDomainInput \<Rightarrow> Domain" where
  "new_domain dr apiKey token req =
   \<lparr>d_ID = dr_id dr, d_UserID = cd_UserID req, d_Domain = ToLower (cd_Domain req), d_PublicKey = cd_PublicKey req,
    d_APIKey = apiKey,
    d_StorageEnabled = (case cd_StorageEnabled req of None \<Rightarrow> True | Some b \<Rightarrow> b),
    d_AutoCreateAddress = (case cd_AutoCreateAddress req of None \<Rightarrow> False | Some b \<Rightarrow> b),
    d_WebhookConfig = cd_WebhookConfig req, d_VerificationStatus = VerificationStatusPending, d_VerificationToken = token,
    d_LastVerificationAttempt = None, d_VerificationError = [], d_VerificationAttempts = 0, d_NextVerificationAttempt = None,
    d_CreatedAt = dr_created dr, d_UpdatedAt = dr_updated dr\<rparr>"

definition CreateDomain ::
    "'st domain_ops \<Rightarrow> domain_limiter \<Rightarrow> domain_draw \<Rightarrow> CreateDomainInput \<Rightarrow> 'st \<Rightarrow> (domain_uc_error + Domain) \<times> 'st" where
  "CreateDomain ops limiter dr req st =
     (if cd_UserID req = uuid_nil then (Inl UserIDRequired, st)
      else if cd_Domain req = [] then (Inl DomainRequired, st)
      else if cd_PublicKey req = [] then (Inl PublicKeyRequired, st)
      else case ParsePublicKey (cd_PublicKey req) of
        Inl e \<Rightarrow> (Inl (InvalidPublicKeyFormat e), st)
      | Inr _ \<Rightarrow>
          if \<not> isValidDomain (cd_Domain req) then (Inl InvalidDomainFormat, st)
          else case limiter (cd_UserID req) of
            Some e \<Rightarrow> (Inl (LimiterRefused e), st)
          | None \<Rightarrow>
              (case dom_GetByDomain ops (ToLower (cd_Domain req)) st of
                 (Inr _, st1) \<Rightarrow> (Inl DomainAlreadyExists, st1)
               | (Inl _, st1) \<Rightarrow>
                   (case generateAPIKey (dr_key dr) of
                      None \<Rightarrow> (Inl APIKeyGeneration, st1)
                    | Some apiKey \<Rightarrow>
                        (case generateVerificationToken (dr_token dr) of
                           None \<Rightarrow> (Inl TokenGeneration, st1)
                         | Some token \<Rightarrow>
                             let domain = new_domain dr apiKey token req in
                             if \<not> Domain_IsValid domain then (Inl InvalidDomainData, st1)
                             else (case dom_Create ops domain st1 of
                                     (Some e, st2) \<Rightarrow> (Inl (CreateDomainFailed e), st2)
                                   | (None, st2) \<Rightarrow> (Inr domain, st2))))))"

definition or_fail :: "(db_error \<Rightarrow> 'e) \<Rightarrow> (db_error + 'a) \<times> 'st \<Rightarrow> ('e + 'a) \<times> 'st" where
  "or_fail err r = (map_sum err id (fst r), snd r)"

definition GetDomainByID :: "'st domain_ops \<Rightarrow> uuid \<Rightarrow> 'st \<Rightarrow> (domain_uc_error + Domain) \<times> 'st" where
  "GetDomainByID ops i st =
     (if i = uuid_nil then (Inl DomainIDRequired, st) else or_fail GetDomainFailed (dom_GetByID ops i st))"

definition GetDomainsByUserID :: "'st domain_ops \<Rightarrow> uuid \<Rightarrow> 'st \<Rightarrow> (domain_uc_error + Domain list) \<times> 'st" where
  "GetDomainsByUserID ops u st =
     (if u = uuid_nil then (Inl UserIDRequired, st) else or_fail GetDomainFailed (dom_GetByUserID ops u st))"

definition GetDomainByAPIKey :: "'st domain_ops \<Rightarrow> string \<Rightarrow> 'st \<Rightarrow> (domain_uc_error + Domain) \<times> 'st" where
  "GetDomainByAPIKey ops k st =
     (if k = [] then (Inl APIKeyRequired, st) else or_fail GetDomainFailed (dom_GetByAPIKey ops k st))"

definition GetDomainByName :: "'st domain_ops \<Rightarrow> string \<Rightarrow> 'st \<Rightarrow> (domain_uc_error + Domain) \<times> 'st" where
  "GetDomainByName ops n st =
     (if n = [] then (Inl DomainRequired, st) else or_fail GetDomainFailed (dom_GetByDomain ops (ToLower n) st))"

text \<open>The fields given replace those stored.\<close>

definition apply_update :: "instant \<Rightarrow> UpdateDomainInput \<Rightarrow> Domain \<Rightarrow> Domain" where
  "apply_update now req d = d\<lparr>
     d_PublicKey := (case ud_PublicKey req of None \<Rightarrow> d_PublicKey d | Some k \<Rightarrow> k),
     d_StorageEnabled := (case ud_StorageEnabled req of None \<Rightarrow> d_StorageEnabled d | Some b \<Rightarrow> b),
     d_AutoCreateAddress := (case ud_AutoCreateAddress req of None \<Rightarrow> d_AutoCreateAddress d | Some b \<Rightarrow> b),
     d_UpdatedAt := now\<rparr>"

definition UpdateDomain ::
    "'st domain_ops \<Rightarrow> instant \<Rightarrow> uuid \<Rightarrow> UpdateDomainInput \<Rightarrow> 'st \<Rightarrow> (domain_uc_error + Domain) \<times> 'st" where
  "UpdateDomain ops now i req st =
     (if i = uuid_nil then (Inl DomainIDRequired, st)
      else case dom_GetByID ops i st of
        (Inl e, st1) \<Rightarrow> (Inl (GetDomainFailed e), st1)
      | (Inr domain, st1) \<Rightarrow>
          (let d = apply_update now req domain in
           if \<not> Domain_IsValid d then (Inl InvalidDomainDataAfterUpdate, st1)
           else (case dom_Update ops d st1 of
                   (Some e, st2) \<Rightarrow> (Inl (UpdateDomainFailed e), st2)
                 | (None, st2) \<Rightarrow> (Inr d, st2))))"

definition DeleteDomain :: "'st domain_ops \<Rightarrow> uuid \<Rightarrow> uuid \<Rightarrow> 'st \<Rightarrow> domain_uc_error option \<times> 'st" where
  "DeleteDomain ops i userID st =
     (if i = uuid_nil then (Some DomainIDRequired, st)
      else if userID = uuid_nil then (Some UserIDRequired, st)
      else case dom_GetByID ops i st of
        (Inl e, st1) \<Rightarrow> (Some (GetDomainFailed e), st1)
      | (Inr domain, st1) \<Rightarrow>
          if d_UserID domain \<noteq> userID then (Some NotDomainOwner, st1)
          else (case dom_Delete ops i st1 of
                  (Some e, st2) \<Rightarrow> (Some (DeleteDomainFailed e), st2)
                | (None, st2) \<Rightarrow> (None, st2)))"

section \<open>Lemmas\<close>

lemma label_char_to_lower: "is_alnum c \<or> to_lower c = CHR ''-'' \<longleftrightarrow> is_alnum c \<or> c = CHR ''-''"
proof (cases "is_upper c")
  case True
  then show ?thesis by (simp add: is_alnum_def [of c])
qed (simp add: to_lower_id)

lemma valid_label_ToLower [simp]: "valid_label (ToLower l) = valid_label l"
  by (cases "l = []")
    (simp_all add: valid_label_def ToLower_def list_all_iff hd_map last_map label_char_to_lower)

lemma valid_host_ToLower [simp]: "valid_host (ToLower d) = valid_host d"
  by (simp add: valid_host_def Split_ToLower list_all_iff)

lemma or_fail_read: "read_law iv view f P \<Longrightarrow> iv st \<Longrightarrow> or_fail err (f st) = (r, st') \<Longrightarrow>
    iv st' \<and> view st' = view st \<and> (\<forall>x. r = Inr x \<longrightarrow> P (view st) x)"
  by (cases "fst (f st)") (auto simp: or_fail_def read_law_def)

text \<open>How a registration can end: before the insert, or with what the insert answered.\<close>

lemma CreateDomain_cases:
  assumes "CreateDomain ops limiter dr req st = (r, st')"
  obtains (refused) e where "r = Inl e" "st' = st \<or> st' = snd (dom_GetByDomain ops (ToLower (cd_Domain req)) st)"
    | (tried) k t c key where "ParsePublicKey (cd_PublicKey req) = Inr key" "isValidDomain (cd_Domain req)" "limiter (cd_UserID req) = None"
        "dom_Create ops (new_domain dr k t req) (snd (dom_GetByDomain ops (ToLower (cd_Domain req)) st)) = (c, st')"
        "r = (case c of None \<Rightarrow> Inr (new_domain dr k t req) | Some e \<Rightarrow> Inl (CreateDomainFailed e))"
proof (cases "\<exists>e. r = Inl e \<and> (st' = st \<or> st' = snd (dom_GetByDomain ops (ToLower (cd_Domain req)) st))")
  case False
  then show thesis
    using assms tried unfolding CreateDomain_def Let_def
    by (auto split: if_split_asm sum.split_asm option.split_asm prod.split_asm)
qed (use refused in blast)

context mail_store
begin

lemma CreateDomain_contract:
  assumes "inv st" "CreateDomain dops limiter dr req st = (r, st')"
  shows "inv st' \<and> (case r of
      Inl _ \<Rightarrow> view st' = view st
    | Inr d \<Rightarrow> view st' = put_domain (persist_domain d) (view st) \<and>
        (\<forall>e \<in> ran (v_domains (view st)). d_Domain e \<noteq> d_Domain d \<and> d_APIKey e \<noteq> d_APIKey d) \<and>
        (\<exists>k t. d = new_domain dr k t req) \<and> isValidDomain (cd_Domain req) \<and> limiter (cd_UserID req) = None \<and>
        (\<exists>key. ParsePublicKey (cd_PublicKey req) = Inr key))"
proof -
  obtain g st1 where g: "dom_GetByDomain dops (ToLower (cd_Domain req)) st = (g, st1)" by fastforce
  have st1: "inv st1" "view st1 = view st" using read_lawD [OF domain_by_name assms(1) g] by auto
  show ?thesis using assms(2)
  proof (cases rule: CreateDomain_cases)
    case (refused e)
    then show ?thesis using assms(1) st1 g by auto
  next
    case (tried k t c key)
    have "dom_Create dops (new_domain dr k t req) st1 = (c, st')" using tried(4) g by simp
    from write_lawD [OF domain_create st1(1) this] show ?thesis using tried st1(2) by (cases c) auto
  qed
qed

lemma DeleteDomain_contract:
  assumes "inv st" "DeleteDomain dops i u st = (r, st')"
  shows "inv st' \<and> (if r = None then (\<exists>d. v_domains (view st) i = Some d \<and> d_UserID d = u) \<and>
      (\<forall>m \<in> ran (v_received (view st)). \<forall>a. mailbox_of (view st) (re_EmailAddressID m) = Some a \<longrightarrow> ea_DomainID a \<noteq> i) \<and>
      view st' = drop_domain i (view st) else view st' = view st)"
proof -
  obtain g st1 where g: "dom_GetByID dops i st = (g, st1)" by fastforce
  have st1: "inv st1" "view st1 = view st" "\<forall>d. g = Inr d \<longrightarrow> v_domains (view st) i = Some d"
    using read_lawD [OF domain_by_id assms(1) g] by auto
  obtain c st2 where c: "dom_Delete dops i st1 = (c, st2)" by fastforce
  show ?thesis
    using assms st1 g c write_lawD [OF domain_delete st1(1) c]
    by (auto simp: DeleteDomain_def split: if_splits sum.splits)
qed

lemma UpdateDomain_contract:
  assumes "inv st" "UpdateDomain dops now i req st = (r, st')"
  shows "inv st' \<and> (case r of Inl _ \<Rightarrow> view st' = view st
    | Inr d \<Rightarrow> \<exists>d0. v_domains (view st) i = Some d0 \<and> Domain_IsValid d \<and> d_ID d = i \<and> d_UserID d = d_UserID d0 \<and>
        d_Domain d = d_Domain d0 \<and> d_VerificationStatus d = d_VerificationStatus d0 \<and>
        view st' = put_domain ((persist_domain d)\<lparr>d_CreatedAt := d_CreatedAt d0\<rparr>) (view st))"
proof -
  obtain g st1 where g: "dom_GetByID dops i st = (g, st1)" by fastforce
  have st1: "inv st1" "view st1 = view st" "\<forall>d. g = Inr d \<longrightarrow> v_domains (view st) i = Some d"
    using read_lawD [OF domain_by_id assms(1) g] by auto
  show ?thesis
  proof (cases g)
    case (Inl e)
    then show ?thesis using assms st1 g by (auto simp: UpdateDomain_def split: if_splits)
  next
    case (Inr d0)
    let ?d = "apply_update now req d0"
    have d0: "v_domains (view st) i = Some d0" "d_ID d0 = i" using st1(3) Inr domain_stored [OF assms(1)] by auto
    have f: "d_ID ?d = i" "d_UserID ?d = d_UserID d0" "d_Domain ?d = d_Domain d0"
      "d_VerificationStatus ?d = d_VerificationStatus d0"
      using d0(2) by (simp_all add: apply_update_def)
    obtain c st2 where c: "dom_Update dops ?d st1 = (c, st2)" by fastforce
    have "inv st2 \<and> (if c = None then view st2 = put_domain ((persist_domain ?d)\<lparr>d_CreatedAt := d_CreatedAt d0\<rparr>) (view st)
        else view st2 = view st)"
      using write_lawD [OF domain_update st1(1) c] st1(2) d0(1) f(1) by (simp split: if_splits)
    then show ?thesis
      using assms st1 g c Inr f d0(1) by (cases c) (auto simp: UpdateDomain_def Let_def split: if_splits)
  qed
qed

end

section \<open>Properties\<close>

text \<open>A small database and a request, for the witnesses.\<close>

definition sample_domain :: Domain where
  "sample_domain = \<lparr>d_ID = 10, d_UserID = 1, d_Domain = ''a.org'', d_PublicKey = ''k'', d_APIKey = ''pm_'', d_StorageEnabled = True,
     d_AutoCreateAddress = False, d_WebhookConfig = None, d_VerificationStatus = VerificationStatusPending,
     d_VerificationToken = [], d_LastVerificationAttempt = None, d_VerificationError = [], d_VerificationAttempts = 0,
     d_NextVerificationAttempt = None, d_CreatedAt = 0, d_UpdatedAt = 0\<rparr>"

definition two_users_db :: mail_db where
  "two_users_db = \<lparr>pg_faults = [], mdb_users = [1, 2], mdb_domains = [sample_domain], mdb_addresses = [], mdb_received = [], mdb_stats = [],
     mdb_validations = []\<rparr>"

lemma two_users_db_ok: "mdb_ok two_users_db"
  by (simp add: mdb_ok_parts two_users_db_def sample_domain_def domain_row_check_def in_int32_def numbers_of_def)

definition sample_draw :: domain_draw where
  "sample_draw = \<lparr>dr_key = Some ''K'', dr_token = Some ''T'', dr_id = 11, dr_created = 5, dr_updated = 5\<rparr>"

definition sample_input :: CreateDomainInput where
  "sample_input = \<lparr>cd_UserID = 2, cd_Domain = ''B.org'', cd_PublicKey = FormatPublicKey (replicate 32 CHR ''k''),
     cd_StorageEnabled = None, cd_AutoCreateAddress = None, cd_WebhookConfig = None\<rparr>"

lemma sample_key: "ParsePublicKey (FormatPublicKey (replicate 32 c)) = Inr (replicate 32 c)"
  using ParsePublicKey_padded [of "replicate 32 c"] by (simp add: KeySize_def FormatPublicKey_def)

lemma sample_created: "CreateDomain pg_domains_repo NoopDomainLimiter sample_draw sample_input two_users_db =
    (Inr (new_domain sample_draw ''pm_4b'' ''54'' sample_input),
     two_users_db\<lparr>mdb_domains := [sample_domain, persist_domain (new_domain sample_draw ''pm_4b'' ''54'' sample_input)]\<rparr>)"
proof -
  have "isValidDomain ''B.org''" unfolding isValidDomain_iff by code_simp
  moreover have "ToLower ''B.org'' = ''b.org''" by code_simp
  moreover have "FormatPublicKey (replicate 32 CHR ''k'') \<noteq> []" by (simp add: FormatPublicKey_def PublicKeyPrefix_def)
  moreover have "generateAPIKey (Some ''K'') = Some ''pm_4b''" "generateVerificationToken (Some ''T'') = Some ''54''" by code_simp+
  ultimately show ?thesis
    using sample_key by (simp add: CreateDomain_def sample_input_def NoopDomainLimiter_def pg_domains_repo_def
      pg_Domain_GetByDomain_def one_row_of_def two_users_db_def sample_draw_def sample_domain_def new_domain_def Domain_IsValid_def
      pg_Domain_Create_def as_error_def exec_def domain_clash_def persist_domain_def domain_row_check_def in_int32_def Let_def)
qed

text \<open>
  C27: Registering a domain: on success exactly the new domain is added; its name is a valid host name in lower
  case that no stored domain has, it belongs to the caller, whom the limiter admitted, and it is not verified, so
  that nothing can be sent for it yet. On any error, database failures included, the stored data is unchanged.
\<close>

theorem CreateDomain_registers:
  assumes "mdb_ok st" "CreateDomain pg_domains_repo limiter dr req st = (r, st')"
  shows "mdb_ok st' \<and> (case r of
      Inl _ \<Rightarrow> pg_view st' = pg_view st
    | Inr d \<Rightarrow> pg_view st' = put_domain (persist_domain d) (pg_view st) \<and> (\<forall>e \<in> set (mdb_domains st). d_Domain e \<noteq> d_Domain d) \<and>
        valid_host (d_Domain d) \<and> ToLower (d_Domain d) = d_Domain d \<and> d_UserID d = cd_UserID req \<and>
        limiter (cd_UserID req) = None \<and> \<not> CanSendEmails d)"
proof -
  have ran: "ran (v_domains (pg_view st)) = set (mdb_domains st)" using assms(1) by (simp add: ran_lookup distinct_keys)
  show ?thesis
    using pgm.CreateDomain_contract [OF assms] unfolding ran
    by (auto simp: new_domain_def isValidDomain_iff CanSendEmails_def IsVerified_def split: sum.splits)
qed

theorem CreateDomain_registers_witness:
  "pg_view (snd (CreateDomain pg_domains_repo NoopDomainLimiter sample_draw sample_input two_users_db)) =
     put_domain (persist_domain (new_domain sample_draw ''pm_4b'' ''54'' sample_input)) (pg_view two_users_db)"
  using CreateDomain_registers [OF two_users_db_ok sample_created] sample_created by simp

text \<open>
  Deleting a domain: it succeeds only for the user who owns it and only while none of its mailboxes holds
  received mail, and then takes the domain and its mailboxes; in every other case nothing changes.
\<close>

theorem DeleteDomain_guarded:
  assumes "mdb_ok st" "DeleteDomain pg_domains_repo i u st = (r, st')"
  shows "mdb_ok st' \<and> (if r = None then (\<exists>d \<in> set (mdb_domains st). d_ID d = i \<and> d_UserID d = u) \<and>
      (\<forall>m \<in> set (mdb_received st). \<forall>a \<in> set (mdb_addresses st). re_EmailAddressID m = Some (ea_ID a) \<longrightarrow> ea_DomainID a \<noteq> i) \<and>
      pg_view st' = drop_domain i (pg_view st) else pg_view st' = pg_view st)"
  using pgm.DeleteDomain_contract [OF assms] assms(1)
  by (auto simp: view_Some ran_lookup distinct_keys mailbox_of_def split: if_splits)

theorem DeleteDomain_guarded_witness:
  "fst (DeleteDomain pg_domains_repo 10 2 two_users_db) = Some NotDomainOwner \<and>
   pg_view (snd (DeleteDomain pg_domains_repo 10 1 two_users_db)) = drop_domain 10 (pg_view two_users_db)"
proof
  show "fst (DeleteDomain pg_domains_repo 10 2 two_users_db) = Some NotDomainOwner"
    by (simp add: DeleteDomain_def pg_domains_repo_def pg_Domain_GetByID_def one_row_of_def two_users_db_def sample_domain_def)
  have "fst (DeleteDomain pg_domains_repo 10 1 two_users_db) = None"
    by (simp add: DeleteDomain_def pg_domains_repo_def pg_Domain_GetByID_def pg_Domain_Delete_def one_row_of_def as_error_def exec_def holds_mail_def two_users_db_def sample_domain_def)
  then show "pg_view (snd (DeleteDomain pg_domains_repo 10 1 two_users_db)) = drop_domain 10 (pg_view two_users_db)"
    using DeleteDomain_guarded [OF two_users_db_ok, of 10 1] by (metis prod.collapse)
qed

end
