(* ===== verification/GoJSON.thy ===== *)
theory GoJSON
  imports GoStrings
begin

text \<open>
  The parts of Go's \<open>encoding/base64\<close> (\<open>StdEncoding\<close>) and \<open>encoding/json\<close> the repository uses to store
  binary data. Byte slices and texts are lists of \<open>char\<close>; field names are compared on ASCII, and the limit of
  10000 on the nesting depth of a JSON text is not modelled.
\<close>

section \<open>Base64\<close>

definition b64_char :: "nat \<Rightarrow> char" where
  "b64_char n =
     (if n < 26 then char_of (65 + n) else if n < 52 then char_of (71 + n) else if n < 62 then char_of (n - 4)
      else if n = 62 then CHR ''+'' else CHR ''/'')"

definition b64_value :: "char \<Rightarrow> nat option" where
  "b64_value c =
     (if is_upper c then Some (code c - 65) else if is_lower c then Some (code c - 71)
      else if is_digit c then Some (code c + 4) else if c = CHR ''+'' then Some 62
      else if c = CHR ''/'' then Some 63 else None)"

fun EncodeToString :: "string \<Rightarrow> string" where
  "EncodeToString [] = []"
| "EncodeToString [a] = [b64_char (code a div 4), b64_char (code a mod 4 * 16), CHR ''='', CHR ''='']"
| "EncodeToString [a, b] =
     [b64_char (code a div 4), b64_char (code a mod 4 * 16 + code b div 16), b64_char (code b mod 16 * 4), CHR ''='']"
| "EncodeToString (a # b # c # bs) =
     b64_char (code a div 4) # b64_char (code a mod 4 * 16 + code b div 16) # b64_char (code b mod 16 * 4 + code c div 64) #
     b64_char (code c mod 64) # EncodeToString bs"

text \<open>Line ends are skipped; padding only at the end, and required.\<close>

fun b64_quads :: "string \<Rightarrow> string option" where
  "b64_quads [] = Some []"
| "b64_quads (a # b # c # d # rest) =
     (case (b64_value a, b64_value b) of
        (Some x, Some y) \<Rightarrow>
          (if c = CHR ''='' then
             (if d = CHR ''='' \<and> rest = [] then Some [char_of (x * 4 + y div 16)] else None)
           else case b64_value c of
             None \<Rightarrow> None
           | Some z \<Rightarrow>
               (if d = CHR ''='' then
                  (if rest = [] then Some [char_of (x * 4 + y div 16), char_of (y mod 16 * 16 + z div 4)] else None)
                else case b64_value d of
                  None \<Rightarrow> None
                | Some w \<Rightarrow>
                    map_option (\<lambda>bs. char_of (x * 4 + y div 16) # char_of (y mod 16 * 16 + z div 4) # char_of (z mod 4 * 64 + w) # bs)
                      (b64_quads rest)))
      | _ \<Rightarrow> None)"
| "b64_quads _ = None"

definition DecodeString :: "string \<Rightarrow> string option" where
  "DecodeString s = b64_quads (filter (\<lambda>c. c \<noteq> CHR 0x0A \<and> c \<noteq> CHR 0x0D) s)"

section \<open>JSON texts\<close>

datatype json =
  JNull | JBool bool | JNum string | JStr string | JArr "json list" | JObj "(string \<times> json) list"

definition json_ws :: "char \<Rightarrow> bool" where
  "json_ws c \<longleftrightarrow> c \<in> {CHR '' '', CHR 0x09, CHR 0x0A, CHR 0x0D}"

definition skip_ws :: "string \<Rightarrow> string" where
  "skip_ws s = dropWhile json_ws s"

definition hex4_digit :: "char \<Rightarrow> nat option" where
  "hex4_digit c = (if is_digit c then Some (code c - 48) else if 97 \<le> code c \<and> code c \<le> 102 then Some (code c - 87)
     else if 65 \<le> code c \<and> code c \<le> 70 then Some (code c - 55) else None)"

fun hex4 :: "string \<Rightarrow> (nat \<times> string) option" where
  "hex4 (a # b # c # d # rest) =
     (case (hex4_digit a, hex4_digit b, hex4_digit c, hex4_digit d) of
        (Some w, Some x, Some y, Some z) \<Rightarrow> Some (4096 * w + 256 * x + 16 * y + z, rest)
      | _ \<Rightarrow> None)"
| "hex4 _ = None"

definition utf8 :: "nat \<Rightarrow> string" where
  "utf8 r =
     (if r < 128 then [char_of r]
      else if r < 2048 then [char_of (192 + r div 64), char_of (128 + r mod 64)]
      else if r < 65536 then [char_of (224 + r div 4096), char_of (128 + r div 64 mod 64), char_of (128 + r mod 64)]
      else [char_of (240 + r div 262144), char_of (128 + r div 4096 mod 64), char_of (128 + r div 64 mod 64), char_of (128 + r mod 64)])"

text \<open>After a backslash: the bytes the escape stands for, and the rest. A lone surrogate becomes U+FFFD.\<close>

fun json_escape :: "string \<Rightarrow> (string \<times> string) option" where
  "json_escape [] = None"
| "json_escape (c # rest) =
     (if c = CHR 0x22 \<or> c = CHR 0x5C \<or> c = CHR ''/'' then Some ([c], rest)
      else if c = CHR ''b'' then Some ([CHR 0x08], rest)
      else if c = CHR ''f'' then Some ([CHR 0x0C], rest)
      else if c = CHR ''n'' then Some ([CHR 0x0A], rest)
      else if c = CHR ''r'' then Some ([CHR 0x0D], rest)
      else if c = CHR ''t'' then Some ([CHR 0x09], rest)
      else if c = CHR ''u'' then
        (case hex4 rest of
           None \<Rightarrow> None
         | Some (r, rest1) \<Rightarrow>
             if 55296 \<le> r \<and> r < 57344 then
               (case rest1 of
                  e # u # rest2 \<Rightarrow>
                    (case hex4 rest2 of
                       Some (r2, rest3) \<Rightarrow>
                         if e = CHR 0x5C \<and> u = CHR ''u'' \<and> r < 56320 \<and> 56320 \<le> r2 \<and> r2 < 57344
                         then Some (utf8 (65536 + (r - 55296) * 1024 + (r2 - 56320)), rest3)
                         else Some (utf8 65533, rest1)
                     | None \<Rightarrow> Some (utf8 65533, rest1))
                | _ \<Rightarrow> Some (utf8 65533, rest1))
             else Some (utf8 r, rest1))
      else None)"

text \<open>The rest of a string literal after its opening quote.\<close>

lemma hex4_length: "hex4 s = Some (r, rest) \<Longrightarrow> length rest < length s"
  by (cases s rule: hex4.cases) (auto split: option.splits)

lemma json_escape_length: "json_escape s = Some (bs, rest) \<Longrightarrow> length rest < length s"
  by (cases s) (auto dest!: hex4_length split: if_splits option.splits list.splits prod.splits)

function json_string :: "string \<Rightarrow> (string \<times> string) option" where
  "json_string [] = None"
| "json_string (c # rest) =
     (if c = CHR 0x22 then Some ([], rest)
      else if code c < 32 then None
      else if c = CHR 0x5C then
        (case json_escape rest of
           None \<Rightarrow> None
         | Some (bs, rest1) \<Rightarrow> map_option (\<lambda>(t, r). (bs @ t, r)) (json_string rest1))
      else map_option (\<lambda>(t, r). (c # t, r)) (json_string rest))"
  by pat_completeness auto
termination
  by (relation "measure length") (auto dest: json_escape_length)

declare json_string.simps [simp del]

text \<open>The number grammar, without leading zeros.\<close>

definition digits1 :: "string \<Rightarrow> (string \<times> string) option" where
  "digits1 s = (let ds = takeWhile is_digit s in if ds = [] then None else Some (ds, dropWhile is_digit s))"

definition json_int :: "string \<Rightarrow> (string \<times> string) option" where
  "json_int s = (case s of CHR ''0'' # rest \<Rightarrow> Some (''0'', rest) | _ \<Rightarrow> digits1 s)"

definition json_frac :: "string \<Rightarrow> (string \<times> string) option" where
  "json_frac s = (case s of CHR ''.'' # rest \<Rightarrow> map_option (\<lambda>(ds, r). (CHR ''.'' # ds, r)) (digits1 rest) | _ \<Rightarrow> Some ([], s))"

definition json_exp :: "string \<Rightarrow> (string \<times> string) option" where
  "json_exp s =
     (case s of
        e # rest \<Rightarrow>
          if e = CHR ''e'' \<or> e = CHR ''E'' then
            (case rest of
               sg # rest1 \<Rightarrow>
                 if sg = CHR ''+'' \<or> sg = CHR ''-'' then map_option (\<lambda>(ds, r). (e # sg # ds, r)) (digits1 rest1)
                 else map_option (\<lambda>(ds, r). (e # ds, r)) (digits1 rest)
             | [] \<Rightarrow> None)
          else Some ([], s)
      | [] \<Rightarrow> Some ([], s))"

definition json_number :: "string \<Rightarrow> (string \<times> string) option" where
  "json_number s =
     (let (sg, s1) = (case s of CHR ''-'' # rest \<Rightarrow> (''-'', rest) | _ \<Rightarrow> ([], s)) in
      case json_int s1 of
        None \<Rightarrow> None
      | Some (i, s2) \<Rightarrow>
          (case json_frac s2 of
             None \<Rightarrow> None
           | Some (f, s3) \<Rightarrow> map_option (\<lambda>(e, r). (sg @ i @ f @ e, r)) (json_exp s3)))"

text \<open>Values. The fuel bounds the nesting and the number of elements; the length of the text is enough, since every
  call but the first follows a byte that was read.\<close>

fun json_value :: "nat \<Rightarrow> string \<Rightarrow> (json \<times> string) option"
  and json_elems :: "nat \<Rightarrow> string \<Rightarrow> (json list \<times> string) option"
  and json_members :: "nat \<Rightarrow> string \<Rightarrow> ((string \<times> json) list \<times> string) option" where
  "json_value 0 s = None"
| "json_value (Suc n) s =
     (case skip_ws s of
        [] \<Rightarrow> None
      | c # rest \<Rightarrow>
          if c = CHR 0x22 then map_option (\<lambda>(t, r). (JStr t, r)) (json_string rest)
          else if c = CHR ''{'' then
            (case skip_ws rest of
               CHR ''}'' # r \<Rightarrow> Some (JObj [], r)
             | _ \<Rightarrow> map_option (\<lambda>(ms, r). (JObj ms, r)) (json_members n rest))
          else if c = CHR ''['' then
            (case skip_ws rest of
               CHR '']'' # r \<Rightarrow> Some (JArr [], r)
             | _ \<Rightarrow> map_option (\<lambda>(vs, r). (JArr vs, r)) (json_elems n rest))
          else if HasPrefix (c # rest) ''null'' then Some (JNull, drop 4 (c # rest))
          else if HasPrefix (c # rest) ''true'' then Some (JBool True, drop 4 (c # rest))
          else if HasPrefix (c # rest) ''false'' then Some (JBool False, drop 5 (c # rest))
          else map_option (\<lambda>(t, r). (JNum t, r)) (json_number (c # rest)))"
| "json_elems 0 s = None"
| "json_elems (Suc n) s =
     (case json_value n s of
        None \<Rightarrow> None
      | Some (v, rest) \<Rightarrow>
          (case skip_ws rest of
             [] \<Rightarrow> None
           | c # r \<Rightarrow>
               if c = CHR '']'' then Some ([v], r)
               else if c = CHR '','' then map_option (\<lambda>(vs, r'). (v # vs, r')) (json_elems n r)
               else None))"
| "json_members 0 s = None"
| "json_members (Suc n) s =
     (case skip_ws s of
        [] \<Rightarrow> None
      | q # rest \<Rightarrow>
          if q \<noteq> CHR 0x22 then None
          else case json_string rest of
            None \<Rightarrow> None
          | Some (k, rest1) \<Rightarrow>
              (case skip_ws rest1 of
                 [] \<Rightarrow> None
               | c # rest2 \<Rightarrow>
                   if c \<noteq> CHR '':'' then None
                   else case json_value n rest2 of
                     None \<Rightarrow> None
                   | Some (v, rest3) \<Rightarrow>
                       (case skip_ws rest3 of
                          [] \<Rightarrow> None
                        | d # r \<Rightarrow>
                            if d = CHR ''}'' then Some ([(k, v)], r)
                            else if d = CHR '','' then map_option (\<lambda>(ms, r'). ((k, v) # ms, r')) (json_members n r)
                            else None)))"

definition json_parse :: "string \<Rightarrow> json option" where
  "json_parse s =
     (case json_value (2 * length s + 2) s of
        None \<Rightarrow> None
      | Some (v, rest) \<Rightarrow> if skip_ws rest = [] then Some v else None)"

end
