(* ===== verification/Serialization.thy ===== *)
theory Serialization
  imports Encryption GoJSON
begin

text \<open>
  The stored form of an encrypted message, \<open>internal/encryption/serialization.go\<close>: a JSON object with the format
  version and the three byte strings in Base64.
\<close>

definition CurrentVersion :: int where "CurrentVersion = 1"

record SerializedEncryptedData =
  sed_Version :: int
  sed_EphemeralPublicKey :: string
  sed_Nonce :: string
  sed_Ciphertext :: string

text \<open>\<open>json.Marshal\<close> of the record: its strings are Base64, which needs no escape.\<close>

definition marshal :: "SerializedEncryptedData \<Rightarrow> string" where
  \<open>marshal s = ''{"version":'' @ Itoa (nat (sed_Version s)) @ '',"ephemeral_public_key":"'' @ sed_EphemeralPublicKey s @
     ''","nonce":"'' @ sed_Nonce s @ ''","ciphertext":"'' @ sed_Ciphertext s @ ''"}''\<close>

definition Serialize :: "EncryptedData \<Rightarrow> string" where
  "Serialize ed = marshal \<lparr>sed_Version = CurrentVersion, sed_EphemeralPublicKey = EncodeToString (ed_EphemeralPublicKey ed),
     sed_Nonce = EncodeToString (ed_Nonce ed), sed_Ciphertext = EncodeToString (ed_Ciphertext ed)\<rparr>"

text \<open>\<open>json.Unmarshal\<close> into the record: each member sets the field of its name, \<open>null\<close> sets nothing, a value of
  another type is remembered as an error and the rest still read.\<close>

definition int_literal :: "string \<Rightarrow> int option" where
  "int_literal t =
     (let (sg, ds) = (case t of CHR ''-'' # r \<Rightarrow> (-1, r) | _ \<Rightarrow> (1, t));
          v = sg * foldl (\<lambda>n c. 10 * n + int (code c - 48)) 0 ds
      in if ds \<noteq> [] \<and> list_all is_digit ds \<and> in_int64 v then Some v else None)"

definition set_string :: "json \<Rightarrow> (string \<Rightarrow> 's \<Rightarrow> 's) \<Rightarrow> 's \<times> bool \<Rightarrow> 's \<times> bool" where
  "set_string v upd st =
     (case v of JNull \<Rightarrow> st | JStr t \<Rightarrow> (upd t (fst st), snd st) | _ \<Rightarrow> (fst st, False))"

definition set_int :: "json \<Rightarrow> (int \<Rightarrow> 's \<Rightarrow> 's) \<Rightarrow> 's \<times> bool \<Rightarrow> 's \<times> bool" where
  "set_int v upd st =
     (case v of
        JNull \<Rightarrow> st
      | JNum t \<Rightarrow> (case int_literal t of Some n \<Rightarrow> (upd n (fst st), snd st) | None \<Rightarrow> (fst st, False))
      | _ \<Rightarrow> (fst st, False))"

definition set_member :: "string \<times> json \<Rightarrow> SerializedEncryptedData \<times> bool \<Rightarrow> SerializedEncryptedData \<times> bool" where
  "set_member m st =
     (let k = ToLower (fst m); v = snd m in
      if k = ''version'' then set_int v (\<lambda>n s. s\<lparr>sed_Version := n\<rparr>) st
      else if k = ''ephemeral_public_key'' then set_string v (\<lambda>t s. s\<lparr>sed_EphemeralPublicKey := t\<rparr>) st
      else if k = ''nonce'' then set_string v (\<lambda>t s. s\<lparr>sed_Nonce := t\<rparr>) st
      else if k = ''ciphertext'' then set_string v (\<lambda>t s. s\<lparr>sed_Ciphertext := t\<rparr>) st
      else st)"

definition unmarshal :: "string \<Rightarrow> SerializedEncryptedData option" where
  "unmarshal data =
     (let zero = \<lparr>sed_Version = 0, sed_EphemeralPublicKey = [], sed_Nonce = [], sed_Ciphertext = []\<rparr> in
      case json_parse data of
        None \<Rightarrow> None
      | Some JNull \<Rightarrow> Some zero
      | Some (JObj ms) \<Rightarrow> (case fold set_member ms (zero, True) of (s, ok) \<Rightarrow> if ok then Some s else None)
      | Some _ \<Rightarrow> None)"

datatype deserialize_error = BadJSON | UnsupportedVersion int | BadBase64 string | BadCipher enc_error

definition DeserializeEncryptedData :: "string \<Rightarrow> deserialize_error + EncryptedData" where
  "DeserializeEncryptedData data =
     (case unmarshal data of
        None \<Rightarrow> Inl BadJSON
      | Some s \<Rightarrow>
          if sed_Version s \<noteq> CurrentVersion then Inl (UnsupportedVersion (sed_Version s))
          else case DecodeString (sed_EphemeralPublicKey s) of
            None \<Rightarrow> Inl (BadBase64 ''ephemeral public key'')
          | Some k \<Rightarrow>
              (case DecodeString (sed_Nonce s) of
                 None \<Rightarrow> Inl (BadBase64 ''nonce'')
               | Some n \<Rightarrow>
                   (case DecodeString (sed_Ciphertext s) of
                      None \<Rightarrow> Inl (BadBase64 ''ciphertext'')
                    | Some c \<Rightarrow> Inr \<lparr>ed_EphemeralPublicKey = k, ed_Nonce = n, ed_Ciphertext = c\<rparr>)))"

definition EncryptAndSerialize ::
    "crypto \<Rightarrow> string option \<Rightarrow> string option \<Rightarrow> string \<Rightarrow> string \<Rightarrow> enc_error + string" where
  "EncryptAndSerialize c rnd_key rnd_nonce data recipientPublicKey =
     map_sum id Serialize (Encrypt c rnd_key rnd_nonce data recipientPublicKey)"

definition DeserializeAndDecrypt :: "crypto \<Rightarrow> string \<Rightarrow> string \<Rightarrow> deserialize_error + string" where
  "DeserializeAndDecrypt c data recipientPrivateKey =
     (case DeserializeEncryptedData data of
        Inl e \<Rightarrow> Inl e
      | Inr ed \<Rightarrow> map_sum BadCipher id (Decrypt c ed recipientPrivateKey))"

section \<open>Base64 round trip\<close>

definition b64_safe :: "char \<Rightarrow> bool" where
  "b64_safe c \<longleftrightarrow> 43 \<le> code c \<and> code c \<le> 122 \<and> code c \<noteq> 92"

lemma b64_char_facts:
  assumes "n < 64"
  shows "b64_value (b64_char n) = Some n" "b64_char n \<noteq> CHR ''=''" "b64_safe (b64_char n)"
proof -
  consider "n < 26" | "26 \<le> n" "n < 52" | "52 \<le> n" "n < 62" | "n = 62" | "n = 63" using assms by linarith
  then have "b64_value (b64_char n) = Some n \<and> code (b64_char n) \<noteq> 61 \<and> b64_safe (b64_char n)"
    by cases (simp_all add: b64_char_def b64_value_def b64_safe_def is_upper_def is_lower_def is_digit_def, arith)
  then show "b64_value (b64_char n) = Some n" "b64_char n \<noteq> CHR ''=''" "b64_safe (b64_char n)" by auto
qed

text \<open>The six-bit groups of three bytes.\<close>

lemma six_bits:
  "code a div 4 < 64" "code a mod 4 * 16 < 64" "code a mod 4 * 16 + code b div 16 < 64" "code b mod 16 * 4 < 64"
  "code b mod 16 * 4 + code c div 64 < 64" "code c mod 64 < 64"
proof -
  have "code a < 256" "code b < 256" "code c < 256" by simp_all
  then show "code a div 4 < 64" "code a mod 4 * 16 < 64" "code a mod 4 * 16 + code b div 16 < 64" "code b mod 16 * 4 < 64"
    "code b mod 16 * 4 + code c div 64 < 64" "code c mod 64 < 64" by linarith+
qed

lemma EncodeToString_safe: "c \<in> set (EncodeToString bs) \<Longrightarrow> b64_safe c"
proof (induction bs rule: EncodeToString.induct)
  case (4 a b d bs)
  then show ?case using b64_char_facts(3) six_bits by auto
qed (use b64_char_facts(3) six_bits in \<open>auto simp: b64_safe_def\<close>)

lemma three_bytes:
  "code a div 4 * 4 + (code a mod 4 * 16 + code b div 16) div 16 = code a"
  "(code a mod 4 * 16 + code b div 16) mod 16 * 16 + (code b mod 16 * 4 + code c div 64) div 4 = code b"
  "(code b mod 16 * 4 + code c div 64) mod 4 * 64 + code c mod 64 = code c"
  "(code a mod 4 * 16 + code b div 16) mod 16 * 16 + (code b mod 16 * 4) div 4 = code b"
  "code a div 4 * 4 + (code a mod 4 * 16) div 16 = code a"
proof -
  have a: "code b div 16 < 16" "code c div 64 < 4" using code_less [of b] code_less [of c] by linarith+
  then have "(code a mod 4 * 16 + code b div 16) div 16 = code a mod 4" "(code a mod 4 * 16 + code b div 16) mod 16 = code b div 16"
    "(code b mod 16 * 4 + code c div 64) div 4 = code b mod 16" "(code b mod 16 * 4 + code c div 64) mod 4 = code c div 64"
    by simp_all
  then show "code a div 4 * 4 + (code a mod 4 * 16 + code b div 16) div 16 = code a"
    "(code a mod 4 * 16 + code b div 16) mod 16 * 16 + (code b mod 16 * 4 + code c div 64) div 4 = code b"
    "(code b mod 16 * 4 + code c div 64) mod 4 * 64 + code c mod 64 = code c"
    "(code a mod 4 * 16 + code b div 16) mod 16 * 16 + (code b mod 16 * 4) div 4 = code b"
    "code a div 4 * 4 + (code a mod 4 * 16) div 16 = code a"
    by (simp_all add: div_mult_mod_eq)
qed

lemma b64_quads_encode: "b64_quads (EncodeToString bs) = Some bs"
  by (induction bs rule: EncodeToString.induct)
    (simp_all only: EncodeToString.simps b64_quads.simps b64_char_facts six_bits three_bytes option.case prod.case if_True if_False
      char_of_char option.map simp_thms)

lemma DecodeString_encode: "DecodeString (EncodeToString bs) = Some bs"
proof -
  have "filter (\<lambda>c. c \<noteq> CHR 0x0A \<and> c \<noteq> CHR 0x0D) (EncodeToString bs) = EncodeToString bs"
    by (intro filter_True ballI) (auto simp: b64_safe_def dest!: EncodeToString_safe)
  then show ?thesis by (simp add: DecodeString_def b64_quads_encode)
qed

section \<open>JSON round trip\<close>

lemma json_string_safe: "\<forall>c \<in> set t. b64_safe c \<Longrightarrow> json_string (t @ CHR 0x22 # rest) = Some (t, rest)"
proof (induction t)
  case (Cons c t)
  then have "c \<noteq> CHR 0x22" "\<not> code c < 32" "c \<noteq> CHR 0x5C" by (auto simp: b64_safe_def)
  then show ?case using Cons by (simp add: json_string.simps)
qed (simp add: json_string.simps)

lemma json_string_key: "\<forall>c \<in> set k. c \<noteq> CHR 0x22 \<and> 32 \<le> code c \<and> c \<noteq> CHR 0x5C \<Longrightarrow> json_string (k @ CHR 0x22 # rest) = Some (k, rest)"
  by (induction k) (auto simp: json_string.simps)

lemma skip_ws_id [simp]: "\<not> json_ws c \<Longrightarrow> skip_ws (c # s) = c # s"
  by (simp add: skip_ws_def)

lemma json_ws_punct [simp]:
  "\<not> json_ws CHR 0x22" "\<not> json_ws CHR '':''" "\<not> json_ws CHR '',''" "\<not> json_ws CHR ''}''" "\<not> json_ws CHR ''1''" "\<not> json_ws CHR ''{''"
  by (simp_all add: json_ws_def)

definition json_key :: "string \<Rightarrow> bool" where
  "json_key k \<longleftrightarrow> (\<forall>c \<in> set k. c \<noteq> CHR 0x22 \<and> 32 \<le> code c \<and> c \<noteq> CHR 0x5C)"

lemma member_string:
  assumes "json_key k" "\<forall>c \<in> set t. b64_safe c"
  shows "json_members (Suc (Suc n)) (CHR 0x22 # k @ CHR 0x22 # CHR '':'' # CHR 0x22 # t @ CHR 0x22 # CHR '','' # rest) =
      map_option (\<lambda>(ms, r). ((k, JStr t) # ms, r)) (json_members (Suc n) rest)"
    and "json_members (Suc (Suc n)) (CHR 0x22 # k @ CHR 0x22 # CHR '':'' # CHR 0x22 # t @ CHR 0x22 # CHR ''}'' # rest) =
      Some ([(k, JStr t)], rest)"
  using json_string_key [of k] json_string_safe [OF assms(2)] assms(1)
  by (simp_all add: json_key_def)

lemma member_one:
  assumes "json_key k"
  shows "json_members (Suc (Suc n)) (CHR 0x22 # k @ CHR 0x22 # CHR '':'' # CHR ''1'' # CHR '','' # rest) =
    map_option (\<lambda>(ms, r). ((k, JNum ''1'') # ms, r)) (json_members (Suc n) rest)"
  using json_string_key [of k] assms
  by (simp add: json_key_def HasPrefix_def json_number_def json_int_def digits1_def json_frac_def json_exp_def is_digit_def)

lemma json_parse_marshal:
  assumes "\<forall>c \<in> set a \<union> set b \<union> set c'. b64_safe c"
  shows "json_parse (marshal \<lparr>sed_Version = 1, sed_EphemeralPublicKey = a, sed_Nonce = b, sed_Ciphertext = c'\<rparr>) =
    Some (JObj [(''version'', JNum ''1''), (''ephemeral_public_key'', JStr a), (''nonce'', JStr b), (''ciphertext'', JStr c')])"
proof -
  let ?body = "CHR 0x22 # ''version'' @ CHR 0x22 # CHR '':'' # CHR ''1'' # CHR '','' #
    CHR 0x22 # ''ephemeral_public_key'' @ CHR 0x22 # CHR '':'' # CHR 0x22 # a @ CHR 0x22 # CHR '','' #
    CHR 0x22 # ''nonce'' @ CHR 0x22 # CHR '':'' # CHR 0x22 # b @ CHR 0x22 # CHR '','' #
    CHR 0x22 # ''ciphertext'' @ CHR 0x22 # CHR '':'' # CHR 0x22 # c' @ CHR 0x22 # CHR ''}'' # []"
  let ?t = "marshal \<lparr>sed_Version = 1, sed_EphemeralPublicKey = a, sed_Nonce = b, sed_Ciphertext = c'\<rparr>"
  have one: "Itoa (nat 1) = ''1''" by code_simp
  have t: "?t = CHR ''{'' # ?body" by (simp add: marshal_def one [simplified])
  have keys: "json_key ''version''" "json_key ''ephemeral_public_key''" "json_key ''nonce''" "json_key ''ciphertext''"
    by (simp_all add: json_key_def)
  have safe: "\<forall>c \<in> set a. b64_safe c" "\<forall>c \<in> set b. b64_safe c" "\<forall>c \<in> set c'. b64_safe c" using assms by auto
  have body: "json_members (Suc (Suc (Suc (Suc (Suc n))))) ?body =
      Some ([(''version'', JNum ''1''), (''ephemeral_public_key'', JStr a), (''nonce'', JStr b), (''ciphertext'', JStr c')], [])" for n
    by (simp only: member_one [OF keys(1)] member_string(1) [OF keys(2) safe(1)] member_string(1) [OF keys(3) safe(2)]
        member_string(2) [OF keys(4) safe(3)] option.map prod.case)
  have "6 \<le> 2 * length ?t + 2" unfolding t by simp
  then obtain n where "2 * length ?t + 2 = 6 + n" using le_Suc_ex by blast
  then have n: "2 * length ?t + 2 = Suc (Suc (Suc (Suc (Suc (Suc n)))))" by linarith
  have "json_value (Suc (Suc (Suc (Suc (Suc (Suc n)))))) ?t =
      Some (JObj [(''version'', JNum ''1''), (''ephemeral_public_key'', JStr a), (''nonce'', JStr b), (''ciphertext'', JStr c')], [])"
    unfolding t json_value.simps(2) using body [of n] by simp
  then show ?thesis by (simp only: json_parse_def n option.case prod.case) (simp add: skip_ws_def)
qed

lemma lower_keys:
  "ToLower ''version'' = ''version''" "ToLower ''ephemeral_public_key'' = ''ephemeral_public_key''"
  "ToLower ''nonce'' = ''nonce''" "ToLower ''ciphertext'' = ''ciphertext''"
  by code_simp+

lemma int_literal_one: "int_literal ''1'' = Some 1"
  by code_simp

lemma set_member_keys:
  "set_member (''version'', v) st = set_int v (\<lambda>n s. s\<lparr>sed_Version := n\<rparr>) st"
  "set_member (''ephemeral_public_key'', v) st = set_string v (\<lambda>t s. s\<lparr>sed_EphemeralPublicKey := t\<rparr>) st"
  "set_member (''nonce'', v) st = set_string v (\<lambda>t s. s\<lparr>sed_Nonce := t\<rparr>) st"
  "set_member (''ciphertext'', v) st = set_string v (\<lambda>t s. s\<lparr>sed_Ciphertext := t\<rparr>) st"
  by (simp_all add: set_member_def lower_keys)

lemma Serialize_inverse: "DeserializeEncryptedData (Serialize ed) = Inr ed"
proof -
  let ?a = "EncodeToString (ed_EphemeralPublicKey ed)" and ?b = "EncodeToString (ed_Nonce ed)" and ?c = "EncodeToString (ed_Ciphertext ed)"
  have "\<forall>c \<in> set ?a \<union> set ?b \<union> set ?c. b64_safe c" using EncodeToString_safe by blast
  from json_parse_marshal [OF this]
  have "unmarshal (Serialize ed) = Some \<lparr>sed_Version = 1, sed_EphemeralPublicKey = ?a, sed_Nonce = ?b, sed_Ciphertext = ?c\<rparr>"
    by (simp add: unmarshal_def Serialize_def CurrentVersion_def set_member_keys set_int_def set_string_def int_literal_one)
  then show ?thesis by (simp add: DeserializeEncryptedData_def CurrentVersion_def DecodeString_encode)
qed

section \<open>Properties\<close>

text \<open>
  A stored message can be read by whoever holds the private key: for any 32 random bytes of the domain's key
  pair and of the ephemeral key, any nonce and any message, encrypting and serialising for the public key (which
  survives its text form) succeeds, and parsing the stored JSON and decrypting it gives the message back.
\<close>

theorem stored_message_readable:
  assumes "crypto_laws c" "length priv = KeySize" "length eph = KeySize" "length nonce = NonceSize"
  shows "\<exists>pub stored. GenerateKeyPair c (Some priv) = Inr \<lparr>kp_PublicKey = pub, kp_PrivateKey = priv\<rparr> \<and>
    ParsePublicKey (FormatPublicKey pub) = Inr pub \<and>
    EncryptAndSerialize c (Some eph) (Some nonce) m pub = Inr stored \<and> DeserializeAndDecrypt c stored priv = Inr m"
proof -
  obtain pub ed where e: "GenerateKeyPair c (Some priv) = Inr \<lparr>kp_PublicKey = pub, kp_PrivateKey = priv\<rparr>"
    "ParsePublicKey (FormatPublicKey pub) = Inr pub" "Encrypt c (Some eph) (Some nonce) m pub = Inr ed" "Decrypt c ed priv = Inr m"
    using Encrypt_roundtrip [OF assms] by blast
  then have "EncryptAndSerialize c (Some eph) (Some nonce) m pub = Inr (Serialize ed)" by (simp add: EncryptAndSerialize_def)
  moreover have "DeserializeAndDecrypt c (Serialize ed) priv = Inr m"
    using e(4) by (simp add: DeserializeAndDecrypt_def Serialize_inverse)
  ultimately show ?thesis using e(1,2) by blast
qed

theorem stored_message_readable_witness:
  "\<exists>pub stored. EncryptAndSerialize toy_crypto (Some (replicate 32 (CHR ''e''))) (Some (replicate 12 (CHR ''n''))) ''secret'' pub = Inr stored \<and>
     DeserializeAndDecrypt toy_crypto stored (replicate 32 (CHR ''p'')) = Inr ''secret''"
  using stored_message_readable [OF toy_laws, of "replicate 32 (CHR ''p'')" "replicate 32 (CHR ''e'')" "replicate 12 (CHR ''n'')" "''secret''"]
  by (auto simp: KeySize_def NonceSize_def)

end
