(* ===== verification/SPF.thy ===== *)
theory SPF
  imports VerifyTypes
begin

text \<open>
  SPF evaluation (\<open>app/smtp/verification/spf.go\<close>). The four functions that call each other
  (\<open>evaluateSPF\<close>, its loop over the mechanisms, \<open>evaluateMechanism\<close>, \<open>evaluateInclude\<close>) are one mutual
  recursion, bounded by the depth test of the code. \<open>mail.ParseAddress\<close> is an argument \<open>pa\<close>
  (\<open>None\<close> for an error, else the bare address), over which every statement here is universal.
\<close>

section \<open>Definitions\<close>

definition spf_result :: "SPFStatus \<Rightarrow> SPFResult" where
  "spf_result r = \<lparr>spf_Result = r, spf_Mechanism = [], spf_Error = []\<rparr>"

definition spf_error :: "SPFStatus \<Rightarrow> string \<Rightarrow> SPFResult" where
  "spf_error r e = \<lparr>spf_Result = r, spf_Mechanism = [], spf_Error = e\<rparr>"

definition spf_match :: "SPFStatus \<Rightarrow> string \<Rightarrow> SPFResult" where
  "spf_match r m = \<lparr>spf_Result = r, spf_Mechanism = m, spf_Error = []\<rparr>"

record spfMechanism =
  qualifier :: char
  mechanism :: string
  mech_value :: string

definition spf_punctuation :: string where
  "spf_punctuation = ''>.,;:'' @ [CHR 0x22, CHR 0x27]"

definition extractDomainFromEmail :: "(string \<Rightarrow> string option) \<Rightarrow> string \<Rightarrow> string" where
  "extractDomainFromEmail pa input =
     (let s = TrimSpace input in
      if s = [] then []
      else let a = (case pa s of
                      Some addr \<Rightarrow> addr
                    | None \<Rightarrow>
                        let t = (case LastIndexByte s CHR ''<'' of
                                   None \<Rightarrow> s
                                 | Some lt \<Rightarrow> (case IndexByte (drop lt s) CHR ''>'' of
                                                None \<Rightarrow> s
                                              | Some gtRel \<Rightarrow> take (gtRel - 1) (drop (lt + 1) s)))
                        in TrimSpace (Trim t ''<>''))
           in (case LastIndexByte a CHR ''@'' of
                 None \<Rightarrow> []
               | Some i \<Rightarrow>
                   if i = length a - 1 then []
                   else ToLower (TrimRight (TrimSpace (drop (i + 1) a)) spf_punctuation)))"

definition show_rcode_error :: "nat \<Rightarrow> string" where
  "show_rcode_error c = ''DNS query returned code: '' @ Itoa c"

text \<open>The first TXT answer whose concatenation starts with the version tag; the empty string if none.\<close>

fun first_spf :: "rr list \<Rightarrow> string" where
  "first_spf [] = []"
| "first_spf (RR_TXT txt # rest) =
     (let record = Join txt [] in if HasPrefix record ''v=spf1'' then record else first_spf rest)"
| "first_spf (_ # rest) = first_spf rest"

definition getSPFRecord :: "DNSExchanger \<Rightarrow> string \<Rightarrow> string + string" where
  "getSPFRecord ex domain =
     (case ex TypeTXT domain of
        Inl err \<Rightarrow> Inl (''DNS query failed: '' @ err)
      | Inr resp \<Rightarrow> if Rcode resp \<noteq> RcodeSuccess then Inl (show_rcode_error (Rcode resp))
                    else Inr (first_spf (Answer resp)))"

definition parseMechanism :: "string \<Rightarrow> spfMechanism" where
  "parseMechanism part =
     (let (q, m) = (case part of
                      [] \<Rightarrow> (CHR ''+'', part)
                    | first # rest \<Rightarrow> if first \<in> set ''+-~?'' then (first, rest) else (CHR ''+'', part))
      in case IndexByte m CHR '':'' of
           None \<Rightarrow> \<lparr>qualifier = q, mechanism = m, mech_value = []\<rparr>
         | Some colonIdx \<Rightarrow>
             \<lparr>qualifier = q, mechanism = take colonIdx m, mech_value = drop (colonIdx + 1) m\<rparr>)"

definition is_modifier :: "string \<Rightarrow> bool" where
  "is_modifier part \<longleftrightarrow> Contains part ''='' \<and> \<not> HasPrefix part ''include:'' \<and>
     \<not> HasPrefix part ''ip4:'' \<and> \<not> HasPrefix part ''ip6:'' \<and> \<not> HasPrefix part ''exists:''"

definition parseSPFRecord :: "string \<Rightarrow> spfMechanism list" where
  "parseSPFRecord record = map parseMechanism (filter (\<lambda>p. \<not> is_modifier p) (drop 1 (Fields record)))"

definition qualifierToResult :: "char \<Rightarrow> SPFStatus" where
  "qualifierToResult q =
     (if q = CHR ''+'' then SPFPass else if q = CHR ''-'' then SPFFail
      else if q = CHR ''~'' then SPFSoftFail else SPFNeutral)"

definition expandMacros :: "string \<Rightarrow> string \<Rightarrow> string \<Rightarrow> string" where
  "expandMacros domain senderDomain sender =
     ReplaceAll (ReplaceAll domain ''%{d}'' senderDomain) ''%{s}'' sender"

definition evaluateA :: "DNSExchanger \<Rightarrow> string \<Rightarrow> string \<Rightarrow> ip \<Rightarrow> string + bool" where
  "evaluateA ex domain defaultDomain senderIP =
     (case ex TypeA (if domain = [] then defaultDomain else domain) of
        Inl err \<Rightarrow> Inl err
      | Inr resp \<Rightarrow> Inr (list_ex (\<lambda>r. case r of RR_A a \<Rightarrow> IP_Equal a senderIP | _ \<Rightarrow> False) (Answer resp)))"

definition evaluateMX :: "DNSExchanger \<Rightarrow> string \<Rightarrow> string \<Rightarrow> ip \<Rightarrow> string + bool" where
  "evaluateMX ex domain defaultDomain senderIP =
     (case ex TypeMX (if domain = [] then defaultDomain else domain) of
        Inl err \<Rightarrow> Inl err
      | Inr resp \<Rightarrow> Inr (list_ex (\<lambda>r. case r of RR_MX mx \<Rightarrow> evaluateA ex mx [] senderIP = Inr True | _ \<Rightarrow> False)
                               (Answer resp)))"

definition evaluateCIDR :: "string \<Rightarrow> string \<Rightarrow> ip \<Rightarrow> string + bool" where
  "evaluateCIDR dflt cidr senderIP =
     (let c = (if \<not> Contains cidr ''/'' then cidr @ dflt else cidr)
      in case ParseCIDR c of
           None \<Rightarrow> Inl (''invalid CIDR address: '' @ c)
         | Some network \<Rightarrow> Inr (IPNet_Contains network senderIP))"

definition evaluateIP4 :: "string \<Rightarrow> ip \<Rightarrow> string + bool" where
  "evaluateIP4 cidr senderIP = evaluateCIDR ''/32'' cidr senderIP"

definition evaluateIP6 :: "string \<Rightarrow> ip \<Rightarrow> string + bool" where
  "evaluateIP6 cidr senderIP = evaluateCIDR ''/128'' cidr senderIP"

definition evaluateExists :: "DNSExchanger \<Rightarrow> string \<Rightarrow> string \<Rightarrow> string \<Rightarrow> string + bool" where
  "evaluateExists ex domain senderDomain sender =
     (case ex TypeA (expandMacros domain senderDomain sender) of
        Inl err \<Rightarrow> Inl err
      | Inr resp \<Rightarrow> Inr (Answer resp \<noteq> []))"

text \<open>The match test of every mechanism but \<open>include\<close>; \<open>None\<close> for a mechanism the code does not know.\<close>

definition mech_matches ::
    "DNSExchanger \<Rightarrow> spfMechanism \<Rightarrow> ip \<Rightarrow> string \<Rightarrow> string \<Rightarrow> (string + bool) option" where
  "mech_matches ex mech senderIP domain sender =
     (let m = mechanism mech; v = mech_value mech in
      if m = ''all'' then Some (Inr True)
      else if m = ''a'' then Some (evaluateA ex v domain senderIP)
      else if m = ''mx'' then Some (evaluateMX ex v domain senderIP)
      else if m = ''ip4'' then Some (evaluateIP4 v senderIP)
      else if m = ''ip6'' then Some (evaluateIP6 v senderIP)
      else if m = ''exists'' then Some (evaluateExists ex v domain sender)
      else None)"

definition mech_result :: "spfMechanism \<Rightarrow> (string + bool) option \<Rightarrow> SPFResult" where
  "mech_result mech r =
     (case r of
        None \<Rightarrow> spf_result SPFNeutral
      | Some (Inl err) \<Rightarrow> spf_error SPFTempError (''mechanism '' @ mechanism mech @ '' evaluation failed: '' @ err)
      | Some (Inr True) \<Rightarrow> spf_match (qualifierToResult (qualifier mech)) (mechanism mech @ '':'' @ mech_value mech)
      | Some (Inr False) \<Rightarrow> spf_result SPFNeutral)"

text \<open>The translation of an included record's result.\<close>

definition include_result :: "string \<Rightarrow> SPFResult \<Rightarrow> SPFResult" where
  "include_result includeDomain r =
     (case spf_Result r of
        SPFPass \<Rightarrow> spf_match SPFPass (''include:'' @ includeDomain)
      | SPFFail \<Rightarrow> spf_result SPFNeutral
      | SPFSoftFail \<Rightarrow> spf_result SPFNeutral
      | SPFNeutral \<Rightarrow> spf_result SPFNeutral
      | _ \<Rightarrow> r)"

function (sequential)
      evaluateSPF :: "DNSExchanger \<Rightarrow> string \<Rightarrow> ip \<Rightarrow> string \<Rightarrow> string \<Rightarrow> nat \<Rightarrow> SPFResult"
  and evaluateMechanisms :: "DNSExchanger \<Rightarrow> spfMechanism list \<Rightarrow> ip \<Rightarrow> string \<Rightarrow> string \<Rightarrow> nat \<Rightarrow> SPFResult"
  and evaluateMechanism :: "DNSExchanger \<Rightarrow> spfMechanism \<Rightarrow> ip \<Rightarrow> string \<Rightarrow> string \<Rightarrow> nat \<Rightarrow> SPFResult"
  and evaluateInclude :: "DNSExchanger \<Rightarrow> string \<Rightarrow> ip \<Rightarrow> string \<Rightarrow> string \<Rightarrow> nat \<Rightarrow> SPFResult"
where
  "evaluateSPF ex record senderIP domain sender depth =
     (if depth > 10 then spf_error SPFPermError ''SPF evaluation depth exceeded''
      else evaluateMechanisms ex (parseSPFRecord record) senderIP domain sender depth)"
| "evaluateMechanisms ex [] senderIP domain sender depth = spf_result SPFNeutral"
| "evaluateMechanisms ex (m # ms) senderIP domain sender depth =
     (let result = evaluateMechanism ex m senderIP domain sender depth
      in if spf_Result result \<noteq> SPFNeutral then result
         else evaluateMechanisms ex ms senderIP domain sender depth)"
| "evaluateMechanism ex mech senderIP domain sender depth =
     (if mechanism mech = ''include'' then
        (if mech_value mech = [] then spf_error SPFPermError ''include mechanism missing domain''
         else evaluateInclude ex (mech_value mech) senderIP domain sender depth)
      else mech_result mech (mech_matches ex mech senderIP domain sender))"
| "evaluateInclude ex includeDomain senderIP domain sender depth =
     (case getSPFRecord ex includeDomain of
        Inl err \<Rightarrow> spf_error SPFTempError (''include lookup failed: '' @ err)
      | Inr record \<Rightarrow>
          if record = [] then spf_error SPFPermError ''included domain has no SPF record''
          else include_result includeDomain (evaluateSPF ex record senderIP includeDomain sender (depth + 1)))"
  by pat_completeness auto
termination
  by (relation "measures [
      \<lambda>x. case x of
            Inl (Inl (_, _, _, _, _, d)) \<Rightarrow> if d > 10 then 0 else 4 * (11 - d) + 4
          | Inl (Inr (_, _, _, _, _, d)) \<Rightarrow> 4 * (11 - d) + 3
          | Inr (Inl (_, _, _, _, _, d)) \<Rightarrow> 4 * (11 - d) + 2
          | Inr (Inr (_, _, _, _, _, d)) \<Rightarrow> 4 * (11 - d) + 1,
      \<lambda>x. case x of Inl (Inr (_, ms, _)) \<Rightarrow> length ms | _ \<Rightarrow> 0]") auto

declare evaluateSPF.simps [simp del] evaluateMechanism.simps [simp del] evaluateInclude.simps [simp del]

definition SPFVerifier_Verify :: "(string \<Rightarrow> string option) \<Rightarrow> DNSExchanger \<Rightarrow> EmailContext \<Rightarrow> SPFResult" where
  "SPFVerifier_Verify pa ex emailCtx =
     (case ctx_SenderIP emailCtx of
        None \<Rightarrow> spf_error SPFNone ''no sender IP provided''
      | Some senderIP \<Rightarrow>
          let senderDomain = extractDomainFromEmail pa (ctx_From emailCtx) in
          if senderDomain = [] then spf_error SPFPermError ''invalid sender email format''
          else (case getSPFRecord ex senderDomain of
                  Inl err \<Rightarrow> spf_error SPFTempError (''failed to get SPF record: '' @ err)
                | Inr spfRecord \<Rightarrow>
                    if spfRecord = [] then spf_result SPFNone
                    else evaluateSPF ex spfRecord senderIP senderDomain (ctx_From emailCtx) 0))"

section \<open>Evaluation\<close>

text \<open>
  What a published record says of an address, as the code reads it, without the depth limit: the first mechanism
  that decides settles it, so every mechanism before it has to be undecided. A record authorises the address if that is a match with
  the plus qualifier, or an include, whatever its qualifier, of a record that authorises it. It declines the address if that is a match with
  the qualifier for fail or soft fail, or if no mechanism decides. Undecided are the mechanisms that do not match, those the code does
  not know, the matches with another qualifier, and the includes of a record that declines. An error of a look-up is none of these.
\<close>

inductive spf_authorises :: "DNSExchanger \<Rightarrow> ip \<Rightarrow> string \<Rightarrow> string \<Rightarrow> string \<Rightarrow> bool"
  and spf_declines :: "DNSExchanger \<Rightarrow> ip \<Rightarrow> string \<Rightarrow> string \<Rightarrow> string \<Rightarrow> bool"
  and spf_undecided :: "DNSExchanger \<Rightarrow> ip \<Rightarrow> string \<Rightarrow> spfMechanism \<Rightarrow> string \<Rightarrow> bool"
  for ex ip sender where
  direct: "parseSPFRecord record = before @ m # after \<Longrightarrow> \<forall>b. b \<in> set before \<longrightarrow> spf_undecided ex ip sender b domain \<Longrightarrow>
     mechanism m \<noteq> ''include'' \<Longrightarrow> qualifier m = CHR ''+'' \<Longrightarrow> mech_matches ex m ip domain sender = Some (Inr True) \<Longrightarrow>
     spf_authorises ex ip sender record domain"
| included: "parseSPFRecord record = before @ m # after \<Longrightarrow> \<forall>b. b \<in> set before \<longrightarrow> spf_undecided ex ip sender b domain \<Longrightarrow>
     mechanism m = ''include'' \<Longrightarrow> mech_value m \<noteq> [] \<Longrightarrow> getSPFRecord ex (mech_value m) = Inr r \<Longrightarrow>
     spf_authorises ex ip sender r (mech_value m) \<Longrightarrow> spf_authorises ex ip sender record domain"
| refused: "parseSPFRecord record = before @ m # after \<Longrightarrow> \<forall>b. b \<in> set before \<longrightarrow> spf_undecided ex ip sender b domain \<Longrightarrow>
     mechanism m \<noteq> ''include'' \<Longrightarrow> qualifier m = CHR ''-'' \<or> qualifier m = CHR ''~'' \<Longrightarrow>
     mech_matches ex m ip domain sender = Some (Inr True) \<Longrightarrow> spf_declines ex ip sender record domain"
| exhausted: "\<forall>b. b \<in> set (parseSPFRecord record) \<longrightarrow> spf_undecided ex ip sender b domain \<Longrightarrow> spf_declines ex ip sender record domain"
| no_match: "mechanism b \<noteq> ''include'' \<Longrightarrow> mech_matches ex b ip domain sender \<in> {None, Some (Inr False)} \<Longrightarrow>
     spf_undecided ex ip sender b domain"
| neutral: "mechanism b \<noteq> ''include'' \<Longrightarrow> mech_matches ex b ip domain sender = Some (Inr True) \<Longrightarrow>
     qualifier b \<noteq> CHR ''+'' \<Longrightarrow> qualifier b \<noteq> CHR ''-'' \<Longrightarrow> qualifier b \<noteq> CHR ''~'' \<Longrightarrow> spf_undecided ex ip sender b domain"
| declined: "mechanism b = ''include'' \<Longrightarrow> mech_value b \<noteq> [] \<Longrightarrow> getSPFRecord ex (mech_value b) = Inr r \<Longrightarrow> r \<noteq> [] \<Longrightarrow>
     spf_declines ex ip sender r (mech_value b) \<Longrightarrow> spf_undecided ex ip sender b domain"

inductive_cases undecidedE: "spf_undecided ex ip sender m domain"

text \<open>A match that refuses the address hides the mechanisms after it.\<close>

lemma refusal_decides:
  "mechanism m \<noteq> ''include'' \<Longrightarrow> qualifier m = CHR ''-'' \<Longrightarrow> mech_matches ex m ip domain sender = Some (Inr True) \<Longrightarrow>
    \<not> spf_undecided ex ip sender m domain"
  by (auto elim: undecidedE)

lemma first_refusal_wins:
  assumes "parseSPFRecord record = m # ms" "mechanism m \<noteq> ''include''" "qualifier m = CHR ''-''"
    and "mech_matches ex m ip domain sender = Some (Inr True)"
  shows "\<not> spf_authorises ex ip sender record domain"
proof
  assume "spf_authorises ex ip sender record domain"
  then show False
  proof (cases rule: spf_authorises.cases)
    case (direct before m' after)
    then show ?thesis using assms refusal_decides [OF assms(2-4)] by (cases before) auto
  next
    case (included before m' after r)
    then show ?thesis using assms refusal_decides [OF assms(2-4)] by (cases before) auto
  qed
qed

lemma mech_result_cases:
  "spf_Result (mech_result m r) = SPFPass \<longleftrightarrow> r = Some (Inr True) \<and> qualifier m = CHR ''+''"
  "spf_Result (mech_result m r) \<in> {SPFFail, SPFSoftFail} \<longleftrightarrow> r = Some (Inr True) \<and> (qualifier m = CHR ''-'' \<or> qualifier m = CHR ''~'')"
  "spf_Result (mech_result m r) = SPFNeutral \<longleftrightarrow> r \<in> {None, Some (Inr False)} \<or>
     r = Some (Inr True) \<and> qualifier m \<noteq> CHR ''+'' \<and> qualifier m \<noteq> CHR ''-'' \<and> qualifier m \<noteq> CHR ''~''"
  by (auto simp: mech_result_def spf_result_def spf_error_def spf_match_def qualifierToResult_def split: option.splits sum.splits bool.splits)

lemma include_result_cases:
  "spf_Result (include_result d r) = SPFPass \<longleftrightarrow> spf_Result r = SPFPass"
  "spf_Result (include_result d r) \<notin> {SPFFail, SPFSoftFail}"
  "spf_Result (include_result d r) = SPFNeutral \<longleftrightarrow> spf_Result r \<in> {SPFFail, SPFSoftFail, SPFNeutral}"
  by (simp_all add: include_result_def spf_result_def spf_match_def split: SPFStatus.splits)

text \<open>What the evaluation of a record, of the mechanisms from some place in it on, of one mechanism and of an include says of the address.\<close>

definition says :: "SPFResult \<Rightarrow> bool \<Rightarrow> bool \<Rightarrow> bool" where
  "says r yes no \<longleftrightarrow> (spf_Result r = SPFPass \<longrightarrow> yes) \<and> (spf_Result r \<in> {SPFFail, SPFSoftFail, SPFNeutral} \<longrightarrow> no)"

definition decides :: "DNSExchanger \<Rightarrow> ip \<Rightarrow> string \<Rightarrow> spfMechanism \<Rightarrow> string \<Rightarrow> SPFStatus \<Rightarrow> bool" where
  "decides ex ip sender m domain s \<longleftrightarrow>
     (if mechanism m = ''include'' then mech_value m \<noteq> [] \<and> s = SPFPass \<and> (\<exists>r. getSPFRecord ex (mech_value m) = Inr r \<and> spf_authorises ex ip sender r (mech_value m))
      else mech_matches ex m ip domain sender = Some (Inr True) \<and> qualifierToResult (qualifier m) = s)"

lemma decides_says:
  assumes "parseSPFRecord record = before @ m # after" "\<forall>b. b \<in> set before \<longrightarrow> spf_undecided ex ip sender b domain"
    and "decides ex ip sender m domain s"
  shows "(s = SPFPass \<longrightarrow> spf_authorises ex ip sender record domain) \<and> (s \<in> {SPFFail, SPFSoftFail} \<longrightarrow> spf_declines ex ip sender record domain)"
  using assms by (auto simp: decides_def qualifierToResult_def intro: direct included refused split: if_splits)

lemma evaluation_says:
  shows "says (evaluateSPF ex spf ip domain sender depth) (spf_authorises ex ip sender spf domain) (spf_declines ex ip sender spf domain)"
    and "\<forall>record before. parseSPFRecord record = before @ ms \<and> (\<forall>b. b \<in> set before \<longrightarrow> spf_undecided ex ip sender b domain) \<longrightarrow>
      says (evaluateMechanisms ex ms ip domain sender depth) (spf_authorises ex ip sender record domain) (spf_declines ex ip sender record domain)"
    and "(spf_Result (evaluateMechanism ex m ip domain sender depth) \<in> {SPFPass, SPFFail, SPFSoftFail} \<longrightarrow>
        decides ex ip sender m domain (spf_Result (evaluateMechanism ex m ip domain sender depth))) \<and>
      (spf_Result (evaluateMechanism ex m ip domain sender depth) = SPFNeutral \<longrightarrow> spf_undecided ex ip sender m domain)"
    and "(spf_Result (evaluateInclude ex d ip domain sender depth) = SPFPass \<longrightarrow> (\<exists>r. getSPFRecord ex d = Inr r \<and> spf_authorises ex ip sender r d)) \<and>
      spf_Result (evaluateInclude ex d ip domain sender depth) \<notin> {SPFFail, SPFSoftFail} \<and>
      (spf_Result (evaluateInclude ex d ip domain sender depth) = SPFNeutral \<longrightarrow> (\<exists>r. getSPFRecord ex d = Inr r \<and> r \<noteq> [] \<and> spf_declines ex ip sender r d))"
proof (induction ex spf ip domain sender depth and ex ms ip domain sender depth
    and ex m ip domain sender depth and ex d ip domain sender depth
    rule: evaluateSPF_evaluateMechanisms_evaluateMechanism_evaluateInclude.induct)
  case (1 ex spf ip domain sender depth)
  show ?case
  proof (cases "depth > 10")
    case False
    then show ?thesis using 1 [OF False] by (auto simp: evaluateSPF.simps [of _ spf])
  qed (simp add: evaluateSPF.simps [of _ spf] spf_error_def says_def)
next
  case (2 ex ip domain sender depth)
  then show ?case by (auto simp: spf_result_def says_def intro: exhausted)
next
  case (3 ex m ms ip domain sender depth)
  let ?r = "evaluateMechanism ex m ip domain sender depth"
  show ?case
  proof (intro allI impI, elim conjE)
    fix txts before
    assume p: "parseSPFRecord txts = before @ m # ms" "\<forall>b. b \<in> set before \<longrightarrow> spf_undecided ex ip sender b domain"
    show "says (evaluateMechanisms ex (m # ms) ip domain sender depth) (spf_authorises ex ip sender txts domain) (spf_declines ex ip sender txts domain)"
    proof (cases "spf_Result ?r = SPFNeutral")
      case True
      then have "spf_undecided ex ip sender m domain" using 3(1) by blast
      then have "parseSPFRecord txts = (before @ [m]) @ ms" "\<forall>b. b \<in> set (before @ [m]) \<longrightarrow> spf_undecided ex ip sender b domain" using p by auto
      then show ?thesis using 3(2) [OF refl] True by (auto simp: Let_def simp del: append_assoc)
    next
      case False
      then show ?thesis using 3(1) decides_says [OF p, of "spf_Result ?r"] by (auto simp: says_def Let_def)
    qed
  qed
next
  case (4 ex m ip domain sender depth)
  show ?case
  proof (cases "mechanism m = ''include''")
    case True
    then show ?thesis
    proof (cases "mech_value m = []")
      case False
      then show ?thesis using 4 [OF True False] True
        by (auto simp: evaluateMechanism.simps [of _ m] decides_def intro: declined)
    qed (simp add: evaluateMechanism.simps [of _ m] spf_error_def)
  next
    case False
    then have r: "evaluateMechanism ex m ip domain sender depth = mech_result m (mech_matches ex m ip domain sender)"
      by (simp add: evaluateMechanism.simps [of _ m])
    note cases = mech_result_cases [of m "mech_matches ex m ip domain sender"]
    have "decides ex ip sender m domain s" if "spf_Result (mech_result m (mech_matches ex m ip domain sender)) = s" "s \<in> {SPFPass, SPFFail, SPFSoftFail}" for s
      using that False cases(1,2)
      by (auto simp: decides_def mech_result_def spf_match_def spf_result_def spf_error_def split: option.splits sum.splits bool.splits)
    moreover have "spf_undecided ex ip sender m domain" if "spf_Result (mech_result m (mech_matches ex m ip domain sender)) = SPFNeutral"
      using that False cases(3) no_match [of m ex ip domain sender] neutral [of m ex ip domain sender] by auto
    ultimately show ?thesis unfolding r by blast
  qed
next
  case (5 ex d ip domain sender depth)
  show ?case
  proof (cases "\<exists>r. getSPFRecord ex d = Inr r \<and> r \<noteq> []")
    case True
    then obtain r where r: "getSPFRecord ex d = Inr r" "r \<noteq> []" by blast
    then show ?thesis using 5 [OF r] include_result_cases [of d "evaluateSPF ex r ip d sender (depth + 1)"]
      by (auto simp: evaluateInclude.simps [of _ d] says_def)
  next
    case False
    then show ?thesis by (cases "getSPFRecord ex d") (auto simp: evaluateInclude.simps [of _ d] spf_error_def)
  qed
qed

lemma authorises_nonempty:
  assumes "spf_authorises ex ip sender r domain"
  shows "r \<noteq> []"
proof
  assume "r = []"
  then have "parseSPFRecord r = []" by (simp add: parseSPFRecord_def Fields_def)
  then show False using assms by (auto elim: spf_authorises.cases)
qed

text \<open>Conversely the evaluation finds what a record says, unless the includes go too deep: \<open>or_deep\<close> is that verdict or the error of the depth test.\<close>

definition depth_error :: SPFResult where
  "depth_error = spf_error SPFPermError ''SPF evaluation depth exceeded''"

definition or_deep :: "SPFStatus set \<Rightarrow> SPFResult \<Rightarrow> bool" where
  "or_deep S r \<longleftrightarrow> r = depth_error \<or> spf_Result r \<in> S"

lemma evaluateMechanisms_skip:
  assumes "\<forall>b. b \<in> set before \<longrightarrow> or_deep {SPFNeutral} (evaluateMechanism ex b ip domain sender depth)"
  shows "evaluateMechanisms ex (before @ ms) ip domain sender depth = depth_error \<or>
    evaluateMechanisms ex (before @ ms) ip domain sender depth = evaluateMechanisms ex ms ip domain sender depth"
  using assms by (induction before) (auto simp: or_deep_def Let_def depth_error_def spf_error_def)

lemma evaluateSPF_skip:
  assumes "parseSPFRecord record = before @ ms" "\<forall>b. b \<in> set before \<longrightarrow> or_deep {SPFNeutral} (evaluateMechanism ex b ip domain sender depth)"
    and "or_deep S (evaluateMechanisms ex ms ip domain sender depth)"
  shows "or_deep S (evaluateSPF ex record ip domain sender depth)"
  using assms(3) evaluateMechanisms_skip [OF assms(2), of ms]
  by (auto simp: evaluateSPF.simps assms(1) or_deep_def depth_error_def)

lemma deciding_mechanism:
  assumes "or_deep S (evaluateMechanism ex m ip domain sender depth)" "SPFNeutral \<notin> S"
  shows "or_deep S (evaluateMechanisms ex (m # ms) ip domain sender depth)"
  using assms by (auto simp: or_deep_def Let_def depth_error_def spf_error_def)

lemma includes_or_deep:
  assumes "mechanism m = ''include''" "mech_value m \<noteq> []" "getSPFRecord ex (mech_value m) = Inr r" "r \<noteq> []"
  shows "or_deep {SPFPass} (evaluateSPF ex r ip (mech_value m) sender (depth + 1)) \<Longrightarrow> or_deep {SPFPass} (evaluateMechanism ex m ip domain sender depth)"
    and "or_deep {SPFFail, SPFSoftFail, SPFNeutral} (evaluateSPF ex r ip (mech_value m) sender (depth + 1)) \<Longrightarrow>
      or_deep {SPFNeutral} (evaluateMechanism ex m ip domain sender depth)"
  using assms include_result_cases [of "mech_value m" "evaluateSPF ex r ip (mech_value m) sender (depth + 1)"]
  by (auto simp: evaluateMechanism.simps evaluateInclude.simps or_deep_def include_result_def depth_error_def spf_error_def)

lemma says_evaluation:
  shows "spf_authorises ex ip sender txts domain \<Longrightarrow> or_deep {SPFPass} (evaluateSPF ex txts ip domain sender depth)"
    and "spf_declines ex ip sender txts domain \<Longrightarrow> or_deep {SPFFail, SPFSoftFail, SPFNeutral} (evaluateSPF ex txts ip domain sender depth)"
    and "spf_undecided ex ip sender m domain \<Longrightarrow> or_deep {SPFNeutral} (evaluateMechanism ex m ip domain sender depth)"
proof (induction txts domain and txts domain and m domain arbitrary: depth and depth and depth
    rule: spf_authorises_spf_declines_spf_undecided.inducts)
  case (direct txts before m after domain)
  have "or_deep {SPFPass} (evaluateMechanism ex m ip domain sender depth)"
    using direct(2,3,5) mech_result_cases(1) [of m "mech_matches ex m ip domain sender"] by (simp add: evaluateMechanism.simps or_deep_def)
  from evaluateSPF_skip [OF direct(1) _ deciding_mechanism [OF this]] show ?case using direct(4) by simp
next
  case (included txts before m after domain r)
  have "r \<noteq> []" using authorises_nonempty [OF included(6)] .
  from includes_or_deep(1) [OF included(2,3,5) this included(7)]
  have "or_deep {SPFPass} (evaluateMechanism ex m ip domain sender depth)" .
  from evaluateSPF_skip [OF included(1) _ deciding_mechanism [OF this]] show ?case using included(4) by simp
next
  case (refused txts before m after domain)
  have "or_deep {SPFFail, SPFSoftFail} (evaluateMechanism ex m ip domain sender depth)"
    using refused(2,3,5) mech_result_cases(2) [of m "mech_matches ex m ip domain sender"] by (simp add: evaluateMechanism.simps or_deep_def)
  from evaluateSPF_skip [OF refused(1) _ deciding_mechanism [OF this]]
  have "or_deep {SPFFail, SPFSoftFail} (evaluateSPF ex txts ip domain sender depth)" using refused(4) by simp
  then show ?case by (auto simp: or_deep_def)
next
  case (exhausted txts domain)
  have "or_deep {SPFNeutral} (evaluateMechanisms ex [] ip domain sender depth)" by (simp add: or_deep_def spf_result_def)
  then have "or_deep {SPFNeutral} (evaluateSPF ex txts ip domain sender depth)"
    using exhausted by (intro evaluateSPF_skip [of txts "parseSPFRecord txts" "[]"]) simp_all
  then show ?case by (auto simp: or_deep_def)
next
  case (no_match b domain)
  then show ?case using mech_result_cases(3) [of b "mech_matches ex b ip domain sender"] by (simp add: evaluateMechanism.simps or_deep_def)
next
  case (neutral b domain)
  then show ?case using mech_result_cases(3) [of b "mech_matches ex b ip domain sender"] by (simp add: evaluateMechanism.simps or_deep_def)
next
  case (declined b r domain)
  then show ?case using includes_or_deep(2) [OF declined(1,2,4,3) declined(6)] by simp
qed

text \<open>The include chain only goes as deep as the depth test allows: a record that includes its own domain, after mechanisms that do not decide, ends in
  the error of the depth test at every depth.\<close>

lemma include_loop:
  assumes loop: "getSPFRecord ex d = Inr r" "r \<noteq> []" "d \<noteq> []"
    and parse: "parseSPFRecord r = before @ m # ms" "\<forall>b \<in> set before. spf_undecided ex ip sender b d" "mechanism m = ''include''" "mech_value m = d"
  shows "evaluateSPF ex r ip d sender depth = depth_error"
proof (induction "11 - depth" arbitrary: depth)
  case 0
  then show ?case by (simp add: evaluateSPF.simps depth_error_def)
next
  case (Suc n)
  have "evaluateSPF ex r ip d sender (depth + 1) = depth_error" using Suc.hyps by (intro Suc.hyps(1)) simp
  then have "evaluateMechanism ex m ip d sender depth = depth_error"
    using loop parse(3,4) by (simp add: evaluateMechanism.simps evaluateInclude.simps include_result_def depth_error_def spf_error_def)
  then have "evaluateMechanisms ex (m # ms) ip d sender depth = depth_error" by (simp add: Let_def depth_error_def spf_error_def)
  moreover have "\<forall>b. b \<in> set before \<longrightarrow> or_deep {SPFNeutral} (evaluateMechanism ex b ip d sender depth)" using parse(2) says_evaluation(3) by blast
  ultimately have "evaluateMechanisms ex (parseSPFRecord r) ip d sender depth = depth_error"
    using evaluateMechanisms_skip [of before ex ip d sender depth "m # ms"] parse(1) by auto
  then show ?case using Suc.hyps(2) by (simp add: evaluateSPF.simps)
qed

section \<open>Records as text\<close>

text \<open>The printed form of a mechanism and the mechanisms it is unambiguous for.\<close>

definition show_mechanism :: "spfMechanism \<Rightarrow> string" where
  "show_mechanism m =
     qualifier m # mechanism m @ (if mech_value m = [] then [] else CHR '':'' # mech_value m)"

definition wf_mechanism :: "spfMechanism \<Rightarrow> bool" where
  "wf_mechanism m \<longleftrightarrow> qualifier m \<in> set ''+-~?'' \<and> CHR '':'' \<notin> set (mechanism m) \<and>
     list_all (\<lambda>c. \<not> is_space c \<and> c \<noteq> CHR ''='') (mechanism m @ mech_value m)"

lemma parse_show_mechanism:
  "wf_mechanism m \<Longrightarrow> parseMechanism (show_mechanism m) = m"
  by (cases "mech_value m = []")
    (auto simp: wf_mechanism_def show_mechanism_def parseMechanism_def IndexByte_append IndexByte_absent
      simp del: IndexByte_None)

lemma show_mechanism_token:
  assumes "wf_mechanism m"
  shows "\<forall>c \<in> set (show_mechanism m). \<not> is_space c" and "\<not> is_modifier (show_mechanism m)"
proof -
  have q: "qualifier m \<in> {CHR ''+'', CHR ''-'', CHR ''~'', CHR ''?''}"
    and v: "\<forall>c \<in> set (mechanism m) \<union> set (mech_value m). \<not> is_space c \<and> c \<noteq> CHR ''=''"
    using assms by (auto simp: wf_mechanism_def list_all_iff)
  have chars: "set (show_mechanism m) \<subseteq> {qualifier m, CHR '':''} \<union> (set (mechanism m) \<union> set (mech_value m))"
    by (auto simp: show_mechanism_def)
  have "\<forall>c \<in> {qualifier m, CHR '':''}. \<not> is_space c \<and> c \<noteq> CHR ''=''" using q by auto
  with v chars have all: "\<forall>c \<in> set (show_mechanism m). \<not> is_space c \<and> c \<noteq> CHR ''=''" by blast
  then show "\<forall>c \<in> set (show_mechanism m). \<not> is_space c" by blast
  show "\<not> is_modifier (show_mechanism m)" using all by (simp add: is_modifier_def) blast
qed

lemma parseSPFRecord_Join:
  assumes "\<And>w. w \<in> set ws \<Longrightarrow> w \<noteq> [] \<and> (\<forall>c \<in> set w. \<not> is_space c)"
  shows "parseSPFRecord (Join (''v=spf1'' # ws) '' '') = map parseMechanism (filter (\<lambda>p. \<not> is_modifier p) ws)"
  using assms by (subst parseSPFRecord_def, subst Fields_Join) (auto simp: is_space_def)

text \<open>
  Parsing inverts printing: the record that lists the printed mechanisms after the version tag
  parses to exactly those mechanisms, in order, whatever qualifiers and values they carry.
\<close>

theorem parseSPFRecord_roundtrip:
  assumes "list_all wf_mechanism ms"
  shows "parseSPFRecord (Join (''v=spf1'' # map show_mechanism ms) '' '') = ms"
proof -
  have "parseSPFRecord (Join (''v=spf1'' # map show_mechanism ms) '' '') =
      map parseMechanism (filter (\<lambda>p. \<not> is_modifier p) (map show_mechanism ms))"
    using assms show_mechanism_token(1) by (intro parseSPFRecord_Join) (auto simp: list_all_iff, simp add: show_mechanism_def)
  also have "\<dots> = ms" using assms
    by (induction ms) (auto simp: show_mechanism_token parse_show_mechanism)
  finally show ?thesis .
qed

theorem parseSPFRecord_roundtrip_witness:
  "Join (''v=spf1'' # map show_mechanism
     [\<lparr>qualifier = CHR ''~'', mechanism = ''mx'', mech_value = []\<rparr>,
      \<lparr>qualifier = CHR ''-'', mechanism = ''ip6'', mech_value = ''fe80::/10''\<rparr>]) '' '' = ''v=spf1 ~mx -ip6:fe80::/10'' \<and>
   parseSPFRecord ''v=spf1 ~mx -ip6:fe80::/10'' =
     [\<lparr>qualifier = CHR ''~'', mechanism = ''mx'', mech_value = []\<rparr>,
      \<lparr>qualifier = CHR ''-'', mechanism = ''ip6'', mech_value = ''fe80::/10''\<rparr>]"
proof -
  let ?ms = "[\<lparr>qualifier = CHR ''~'', mechanism = ''mx'', mech_value = []\<rparr>,
      \<lparr>qualifier = CHR ''-'', mechanism = ''ip6'', mech_value = ''fe80::/10''\<rparr>]"
  have "list_all wf_mechanism ?ms" by code_simp
  from parseSPFRecord_roundtrip [OF this]
  have r: "parseSPFRecord (Join (''v=spf1'' # map show_mechanism ?ms) '' '') = ?ms" .
  have "Join (''v=spf1'' # map show_mechanism ?ms) '' '' = ''v=spf1 ~mx -ip6:fe80::/10''" by code_simp
  then show ?thesis using r by metis
qed

section \<open>Properties of the verdict\<close>

lemma ip4_record_parse:
  assumes "parse_ipv4 a = Some net" "parse_dec m = Some n"
  shows "parseSPFRecord (''v=spf1 ip4:'' @ a @ ''/'' @ m @ '' -all'') =
    [\<lparr>qualifier = CHR ''+'', mechanism = ''ip4'', mech_value = a @ ''/'' @ m\<rparr>,
     \<lparr>qualifier = CHR ''-'', mechanism = ''all'', mech_value = []\<rparr>]"
proof -
  have digits: "is_digit c" if "c \<in> set m" for c
    using assms(2) that by (auto simp: parse_dec_def list_all_iff split: if_splits)
  have "\<not> is_space c" if "c \<in> set (a @ ''/'' @ m)" for c
    using that digits [of c] parse_ipv4_chars(2) [OF assms(1), of c] by (auto simp: digit_not_space)
  moreover have "\<forall>c \<in> set ''ip4:''. \<not> is_space c" "\<forall>c \<in> set ''-all''. \<not> is_space c" by code_simp+
  ultimately have "\<forall>w \<in> set [''ip4:'' @ a @ ''/'' @ m, ''-all'']. w \<noteq> [] \<and> (\<forall>c \<in> set w. \<not> is_space c)"
    by (simp only: set_append list.set Un_iff ball_Un) auto
  then have "parseSPFRecord (Join [''v=spf1'', ''ip4:'' @ a @ ''/'' @ m, ''-all''] '' '') =
      map parseMechanism (filter (\<lambda>p. \<not> is_modifier p) [''ip4:'' @ a @ ''/'' @ m, ''-all''])"
    by (intro parseSPFRecord_Join) blast
  then show ?thesis by (simp add: is_modifier_def HasPrefix_def parseMechanism_def)
qed

text \<open>
  For a domain that publishes \<open>v=spf1 ip4:<network>/<n> -all\<close>, the verdict on an IPv4 sender (in
  either byte form) is pass exactly when the sender agrees with the network on the first n bits, and
  fail otherwise.
\<close>

theorem SPF_ip4_network:
  assumes "parse_ipv4 a = Some net" "parse_dec m = Some n" "n \<le> 32"
    and "ctx_SenderIP e = Some ip" "To4 ip = Some b"
    and "extractDomainFromEmail pa (ctx_From e) = d" "d \<noteq> []"
    and "getSPFRecord ex d = Inr (''v=spf1 ip4:'' @ a @ ''/'' @ m @ '' -all'')"
  shows "spf_Result (SPFVerifier_Verify pa ex e) =
    (if \<forall>i < n. addr_bit net i = addr_bit b i then SPFPass else SPFFail)"
proof -
  have "evaluateIP4 (a @ ''/'' @ m) ip = Inr (\<forall>i < n. addr_bit net i = addr_bit b i)"
    using Contains_v4 [OF parse_ipv4_length [OF assms(1)] assms(5,3)] ParseCIDR_v4 [OF assms(1-3)]
    by (simp add: evaluateIP4_def evaluateCIDR_def)
  then show ?thesis using assms(4,6,7,8)
    by (simp add: SPFVerifier_Verify_def evaluateSPF.simps evaluateMechanism.simps mech_matches_def
        ip4_record_parse [OF assms(1,2), simplified] mech_result_def qualifierToResult_def spf_match_def
        spf_result_def split: bool.splits)
qed

text \<open>A resolver with a fixed set of TXT records and no others, for the instances below.\<close>

definition txt_zone :: "(string \<times> string) list \<Rightarrow> DNSExchanger" where
  "txt_zone z q name =
     (case q of
        TypeTXT \<Rightarrow> Inr \<lparr>Rcode = RcodeSuccess, Answer = map (\<lambda>e. RR_TXT [snd e]) (filter (\<lambda>e. fst e = name) z)\<rparr>
      | _ \<Rightarrow> Inr \<lparr>Rcode = RcodeSuccess, Answer = []\<rparr>)"

definition mail_from :: "string \<Rightarrow> ip \<Rightarrow> EmailContext" where
  "mail_from from ip = \<lparr>ctx_From = from, ctx_To = [], ctx_Subject = [], ctx_Body = [], ctx_Headers = [],
     ctx_SenderIP = Some ip, ctx_ReceivedAt = 0\<rparr>"

theorem SPF_ip4_network_witness:
  "spf_Result (SPFVerifier_Verify (\<lambda>_. None)
      (txt_zone [(''example.org'', ''v=spf1 ip4:192.0.2.0/25 -all'')]) (mail_from ''Joe <joe@Example.org>'' [192, 0, 2, 127]))
     = SPFPass \<and>
   spf_Result (SPFVerifier_Verify (\<lambda>_. None)
      (txt_zone [(''example.org'', ''v=spf1 ip4:192.0.2.0/25 -all'')]) (mail_from ''Joe <joe@Example.org>'' [192, 0, 2, 128]))
     = SPFFail"
proof -
  let ?ex = "txt_zone [(''example.org'', ''v=spf1 ip4:192.0.2.0/25 -all'')]"
  have rec: "getSPFRecord ?ex ''example.org'' = Inr (''v=spf1 ip4:'' @ ''192.0.2.0'' @ ''/'' @ ''25'' @ '' -all'')"
    by code_simp
  have net: "parse_ipv4 ''192.0.2.0'' = Some [192, 0, 2, 0]" "parse_dec ''25'' = Some 25" by code_simp+
  have dom: "extractDomainFromEmail (\<lambda>_. None) (ctx_From (mail_from ''Joe <joe@Example.org>'' ip)) = ''example.org''" for ip
    by (simp only: mail_from_def EmailContext.simps) code_simp
  have T: "spf_Result (SPFVerifier_Verify (\<lambda>_. None) ?ex (mail_from ''Joe <joe@Example.org>'' [192, 0, 2, x])) =
     (if \<forall>i < 25. addr_bit [192, 0, 2, 0] i = addr_bit [192, 0, 2, x] i then SPFPass else SPFFail)" for x
    using SPF_ip4_network [OF net, of "mail_from ''Joe <joe@Example.org>'' [192, 0, 2, x]" "[192, 0, 2, x]"
        "[192, 0, 2, x]" "\<lambda>_. None", OF _ _ _ dom _ rec] by (simp add: mail_from_def To4_def)
  have "\<forall>i < 25. addr_bit [192, 0, 2, 0] i = addr_bit [192, 0, 2, 127] i"
    "\<not> (\<forall>i < 25. addr_bit [192, 0, 2, 0] i = addr_bit [192, 0, 2, 128] i)" by code_simp+
  then show ?thesis using T by simp
qed

text \<open>
  C36: The check of a message passes exactly when the record that the sender domain publishes authorises the connecting address, unless the includes go too deep.
  The first mechanism that decides settles it: a match with the plus qualifier, or an include of a record that authorises the address. The qualifier of
  the include does not matter, which is not what the standard says: after \<open>-include:d\<close> the senders \<open>d\<close> authorises pass.
\<close>

theorem SPF_pass_authorised:
  assumes "extractDomainFromEmail pa (ctx_From e) = d" "d \<noteq> []"
  shows "(spf_Result (SPFVerifier_Verify pa ex e) = SPFPass \<longrightarrow>
      (\<exists>ip record. ctx_SenderIP e = Some ip \<and> getSPFRecord ex d = Inr record \<and> spf_authorises ex ip (ctx_From e) record d)) \<and>
    ((\<exists>ip record. ctx_SenderIP e = Some ip \<and> getSPFRecord ex d = Inr record \<and> spf_authorises ex ip (ctx_From e) record d) \<longrightarrow>
      spf_Result (SPFVerifier_Verify pa ex e) = SPFPass \<or> SPFVerifier_Verify pa ex e = depth_error)"
proof -
  have "\<exists>ip record. ctx_SenderIP e = Some ip \<and> getSPFRecord ex d = Inr record \<and> spf_authorises ex ip (ctx_From e) record d"
    if "spf_Result (SPFVerifier_Verify pa ex e) = SPFPass"
    using that assms evaluation_says(1)
    by (auto simp: SPFVerifier_Verify_def Let_def spf_error_def spf_result_def says_def split: option.splits if_splits sum.splits)
  moreover have "spf_Result (SPFVerifier_Verify pa ex e) = SPFPass \<or> SPFVerifier_Verify pa ex e = depth_error"
    if "ctx_SenderIP e = Some ip" "getSPFRecord ex d = Inr txts" "spf_authorises ex ip (ctx_From e) txts d" for ip txts
    using that assms says_evaluation(1) [OF that(3), of 0] authorises_nonempty [OF that(3)]
    by (auto simp: SPFVerifier_Verify_def or_deep_def)
  ultimately show ?thesis by blast
qed

theorem SPF_pass_authorised_witness:
  "\<exists>ip record. ctx_SenderIP (mail_from ''a@b.org'' [192, 0, 2, 7]) = Some ip \<and>
     getSPFRecord (txt_zone [(''b.org'', ''v=spf1 include:c.org -all''), (''c.org'', ''v=spf1 ip4:192.0.2.7 -all'')]) ''b.org''
       = Inr record \<and>
     spf_authorises (txt_zone [(''b.org'', ''v=spf1 include:c.org -all''), (''c.org'', ''v=spf1 ip4:192.0.2.7 -all'')])
       ip ''a@b.org'' record ''b.org''"
proof -
  let ?e = "mail_from ''a@b.org'' [192, 0, 2, 7]"
  let ?ex = "txt_zone [(''b.org'', ''v=spf1 include:c.org -all''), (''c.org'', ''v=spf1 ip4:192.0.2.7 -all'')]"
  have "spf_Result (SPFVerifier_Verify (\<lambda>_. None) ?ex ?e) = SPFPass" by code_simp
  moreover have "extractDomainFromEmail (\<lambda>_. None) (ctx_From ?e) = ''b.org''" "ctx_From ?e = ''a@b.org''" by code_simp+
  ultimately show ?thesis using SPF_pass_authorised [of "\<lambda>_. None" ?e "''b.org''" ?ex] by simp
qed

text \<open>
  C37: Include cycles end: a domain whose record includes the domain itself, after mechanisms that do not decide about the
  address, gets the permanent error of the depth test. (A mechanism before the include that decides settles the verdict instead.)
\<close>

theorem SPF_include_cycle:
  assumes "getSPFRecord ex d = Inr r" "parseSPFRecord r = before @ m # ms" "mechanism m = ''include''" "mech_value m = d"
    and "ctx_SenderIP e = Some ip" "\<forall>b \<in> set before. spf_undecided ex ip (ctx_From e) b d"
    and "extractDomainFromEmail pa (ctx_From e) = d" "d \<noteq> []"
  shows "SPFVerifier_Verify pa ex e = spf_error SPFPermError ''SPF evaluation depth exceeded''"
proof -
  have "r \<noteq> []" using assms(2) by (auto simp: parseSPFRecord_def Fields_def)
  then show ?thesis using assms include_loop [OF assms(1) _ assms(8,2,6,3,4), of 0]
    by (simp add: SPFVerifier_Verify_def depth_error_def)
qed

theorem SPF_include_cycle_witness:
  "SPFVerifier_Verify (\<lambda>_. None) (txt_zone [(''b.org'', ''v=spf1 ip4:192.0.2.7 include:b.org -all'')]) (mail_from ''a@b.org'' [192, 0, 2, 8])
   = spf_error SPFPermError ''SPF evaluation depth exceeded''"
proof -
  let ?ex = "txt_zone [(''b.org'', ''v=spf1 ip4:192.0.2.7 include:b.org -all'')]" and ?e = "mail_from ''a@b.org'' [192, 0, 2, 8]"
  let ?b = "\<lparr>qualifier = CHR ''+'', mechanism = ''ip4'', mech_value = ''192.0.2.7''\<rparr>"
  let ?m = "\<lparr>qualifier = CHR ''+'', mechanism = ''include'', mech_value = ''b.org''\<rparr>"
  have "mech_matches ?ex ?b [192, 0, 2, 8] ''b.org'' (ctx_From ?e) = Some (Inr False)" by code_simp
  then have before: "\<forall>b \<in> set [?b]. spf_undecided ?ex [192, 0, 2, 8] (ctx_From ?e) b ''b.org''" by (simp add: no_match)
  have rec: "getSPFRecord ?ex ''b.org'' = Inr ''v=spf1 ip4:192.0.2.7 include:b.org -all''" by code_simp
  have "parseSPFRecord ''v=spf1 ip4:192.0.2.7 include:b.org -all'' = [?b] @ ?m # [\<lparr>qualifier = CHR ''-'', mechanism = ''all'', mech_value = []\<rparr>]"
    by code_simp
  moreover have "extractDomainFromEmail (\<lambda>_. None) (ctx_From ?e) = ''b.org''" by code_simp
  ultimately show ?thesis
    using SPF_include_cycle [OF rec _ _ _ _ before, of ?m] by (simp add: mail_from_def)
qed

text \<open>
  A matching mechanism with the neutral qualifier does not end the evaluation: as long as no match
  test reports an error, dropping every such mechanism from a record leaves the verdict unchanged. (The
  SPF standard makes the first match decide, with the result neutral.)
\<close>

theorem SPF_neutral_ignored:
  assumes "\<forall>m \<in> set ms. \<forall>err. mech_matches ex m ip domain sender \<noteq> Some (Inl err)"
  shows "evaluateMechanisms ex (filter (\<lambda>m. qualifier m \<noteq> CHR ''?'' \<or> mechanism m = ''include'') ms) ip domain sender depth =
    evaluateMechanisms ex ms ip domain sender depth"
  using assms
proof (induction ms)
  case (Cons m ms)
  have "spf_Result (evaluateMechanism ex m ip domain sender depth) = SPFNeutral"
    if "qualifier m = CHR ''?''" "mechanism m \<noteq> ''include''"
    using that Cons.prems
    by (auto simp: evaluateMechanism.simps mech_result_def spf_result_def spf_match_def qualifierToResult_def
        split: option.splits sum.splits bool.splits)
  then show ?case using Cons by (auto simp: Let_def)
qed simp

theorem SPF_neutral_ignored_witness:
  "evaluateMechanisms (txt_zone [])
     [\<lparr>qualifier = CHR ''-'', mechanism = ''all'', mech_value = []\<rparr>] [192, 0, 2, 7] ''b.org'' ''a@b.org'' 0 =
   evaluateMechanisms (txt_zone [])
     [\<lparr>qualifier = CHR ''?'', mechanism = ''ip4'', mech_value = ''192.0.2.7''\<rparr>,
      \<lparr>qualifier = CHR ''-'', mechanism = ''all'', mech_value = []\<rparr>] [192, 0, 2, 7] ''b.org'' ''a@b.org'' 0 \<and>
   spf_Result (evaluateMechanisms (txt_zone [])
     [\<lparr>qualifier = CHR ''-'', mechanism = ''all'', mech_value = []\<rparr>] [192, 0, 2, 7] ''b.org'' ''a@b.org'' 0) = SPFFail"
proof -
  let ?ms = "[\<lparr>qualifier = CHR ''?'', mechanism = ''ip4'', mech_value = ''192.0.2.7''\<rparr>,
      \<lparr>qualifier = CHR ''-'', mechanism = ''all'', mech_value = []\<rparr>]"
  have "\<forall>m \<in> set ?ms. mech_matches (txt_zone []) m [192, 0, 2, 7] ''b.org'' ''a@b.org'' = Some (Inr True)" by code_simp
  then have "\<forall>m \<in> set ?ms. \<forall>err. mech_matches (txt_zone []) m [192, 0, 2, 7] ''b.org'' ''a@b.org'' \<noteq> Some (Inl err)" by simp
  note all = SPF_neutral_ignored [OF this, of 0]
  have "filter (\<lambda>m. qualifier m \<noteq> CHR ''?'' \<or> mechanism m = ''include'') ?ms =
      [\<lparr>qualifier = CHR ''-'', mechanism = ''all'', mech_value = []\<rparr>]" by code_simp
  moreover have "spf_Result (evaluateMechanisms (txt_zone [])
     [\<lparr>qualifier = CHR ''-'', mechanism = ''all'', mech_value = []\<rparr>] [192, 0, 2, 7] ''b.org'' ''a@b.org'' 0) = SPFFail" by code_simp
  ultimately show ?thesis using all by (simp only:)
qed

text \<open>
  The qualifier of an include mechanism has no effect on the verdict: with \<open>-include:d\<close> a sender
  that \<open>d\<close> authorises passes.
\<close>

theorem SPF_include_qualifier_ignored:
  assumes "mechanism m = ''include''"
  shows "evaluateMechanism ex (m\<lparr>qualifier := q\<rparr>) ip domain sender depth = evaluateMechanism ex m ip domain sender depth \<and>
    spf_Result (evaluateMechanism ex m ip domain sender depth) \<notin> {SPFFail, SPFSoftFail}"
  using assms
  by (simp add: evaluateMechanism.simps evaluateInclude.simps include_result_def spf_error_def spf_result_def
      spf_match_def split: sum.splits SPFStatus.splits)

theorem SPF_include_qualifier_ignored_witness:
  "spf_Result (evaluateMechanism (txt_zone [(''c.org'', ''v=spf1 ip4:192.0.2.7 -all'')])
     \<lparr>qualifier = CHR ''-'', mechanism = ''include'', mech_value = ''c.org''\<rparr> [192, 0, 2, 7] ''b.org'' ''a@b.org'' 0) = SPFPass"
proof -
  let ?ex = "txt_zone [(''c.org'', ''v=spf1 ip4:192.0.2.7 -all'')]"
  let ?m = "\<lparr>qualifier = CHR ''+'', mechanism = ''include'', mech_value = ''c.org''\<rparr>"
  have "evaluateMechanism ?ex (?m\<lparr>qualifier := CHR ''-''\<rparr>) [192, 0, 2, 7] ''b.org'' ''a@b.org'' 0 =
      evaluateMechanism ?ex ?m [192, 0, 2, 7] ''b.org'' ''a@b.org'' 0"
    using SPF_include_qualifier_ignored [of ?m] by simp
  moreover have "spf_Result (evaluateMechanism ?ex ?m [192, 0, 2, 7] ''b.org'' ''a@b.org'' 0) = SPFPass" by code_simp
  ultimately show ?thesis by simp
qed

end
