(* ===== verification/DMARC.thy ===== *)
theory DMARC
  imports SPF EmailUtils
begin

text \<open>
  DKIM and DMARC verification and the \<open>Authentication-Results\<close> header
  (\<open>dkim.go\<close>, \<open>dmarc.go\<close>, \<open>authres.go\<close> under \<open>app/smtp/verification\<close>). The cryptographic check of
  signatures, the discovery and parsing of a DMARC record and the formatting of the header value are
  functions of the library \<open>go-msgauth\<close>; they are arguments of the definitions (\<open>vfy\<close>, \<open>lkp\<close>, \<open>fmt\<close>) and
  the statements hold for all of them.
\<close>

section \<open>DKIM\<close>

text \<open>An error of \<open>go-msgauth\<close>: its text and what the library's classification functions say of it.\<close>

record msgauth_err =
  err_Text :: string
  err_IsTempFail :: bool
  err_IsPermFail :: bool
  err_IsNoPolicy :: bool

record dkim_Verification =
  ver_Domain :: string
  ver_Err :: "msgauth_err option"

definition dkimErrorToStatus :: "msgauth_err option \<Rightarrow> DKIMStatus" where
  "dkimErrorToStatus err =
     (case err of
        None \<Rightarrow> DKIMPass
      | Some e \<Rightarrow> if err_IsTempFail e then DKIMTempError
                  else if err_IsPermFail e then DKIMPermError
                  else DKIMFail)"

definition map_signature :: "dkim_Verification \<Rightarrow> DKIMSignatureResult" where
  "map_signature vr = \<lparr>sig_Domain = ver_Domain vr, sig_Selector = [], sig_Status = dkimErrorToStatus (ver_Err vr),
     sig_Algorithm = [], sig_Error = (case ver_Err vr of None \<Rightarrow> [] | Some e \<Rightarrow> err_Text e)\<rparr>"

fun map_signatures :: "dkim_Verification list \<Rightarrow> DKIMSignatureResult list \<Rightarrow> bool \<Rightarrow> DKIMSignatureResult list \<times> bool" where
  "map_signatures [] mapped anyPass = (mapped, anyPass)"
| "map_signatures (vr # rest) mapped anyPass =
     map_signatures rest (mapped @ [map_signature vr]) (anyPass \<or> sig_Status (map_signature vr) = DKIMPass)"

definition DKIMVerifier_Verify ::
    "(string \<Rightarrow> dkim_Verification list \<times> string option) \<Rightarrow> EmailContext \<Rightarrow> DKIMResult" where
  "DKIMVerifier_Verify vfy emailCtx =
     (case vfy (ctx_Body emailCtx) of (verifs, err) \<Rightarrow>
        case map_signatures verifs [] False of (mapped, anyPass) \<Rightarrow>
          \<lparr>dkim_Results = mapped, dkim_Valid = anyPass,
           dkim_Error = (case err of None \<Rightarrow> [] | Some e \<Rightarrow> ''dkim verify error: '' @ e)\<rparr>)"

section \<open>DMARC\<close>

datatype AlignmentMode = AlignmentStrict | AlignmentRelaxed

record dmarc_Record =
  rec_Policy :: string
  rec_Percent :: "int option"
  rec_SPFAlignment :: AlignmentMode
  rec_DKIMAlignment :: AlignmentMode

text \<open>The library's lookup, given the TXT lookup function and a domain; \<open>Inr None\<close> is a nil record.\<close>

type_synonym dmarc_lookup =
  "(string \<Rightarrow> string + string list) \<Rightarrow> string \<Rightarrow> msgauth_err + dmarc_Record option"

definition dmarc_LookupTXT :: "DNSExchanger \<Rightarrow> string \<Rightarrow> string + string list" where
  "dmarc_LookupTXT ex name =
     (case ex TypeTXT name of
        Inl err \<Rightarrow> Inl err
      | Inr resp \<Rightarrow>
          if Rcode resp \<noteq> RcodeSuccess then Inl (show_rcode_error (Rcode resp))
          else Inr (concat (map (\<lambda>r. case r of RR_TXT t \<Rightarrow> [Join t []] | _ \<Rightarrow> []) (Answer resp))))"

definition getDMARCPolicy :: "dmarc_lookup \<Rightarrow> DNSExchanger \<Rightarrow> string \<Rightarrow> msgauth_err + dmarc_Record option" where
  "getDMARCPolicy lkp ex domain = lkp (dmarc_LookupTXT ex) domain"

definition getOrganizationalDomain :: "string \<Rightarrow> string" where
  "getOrganizationalDomain domain =
     (let parts = Split CHR ''.'' domain
      in if 2 \<le> length parts then Join (drop (length parts - 2) parts) ''.'' else domain)"

definition organizationalDomainsMatch :: "string \<Rightarrow> string \<Rightarrow> bool" where
  "organizationalDomainsMatch domain1 domain2 \<longleftrightarrow>
     ToLower (getOrganizationalDomain domain1) = ToLower (getOrganizationalDomain domain2)"

definition getReturnPathDomain :: "(string \<Rightarrow> string option) \<Rightarrow> EmailContext \<Rightarrow> string" where
  "getReturnPathDomain pa emailCtx = extractDomainFromEmail pa (ctx_From emailCtx)"

definition domains_aligned :: "AlignmentMode \<Rightarrow> string \<Rightarrow> string \<Rightarrow> bool" where
  "domains_aligned mode d fromDomain =
     (if mode = AlignmentStrict then ToLower d = ToLower fromDomain
      else organizationalDomainsMatch d fromDomain)"

definition checkSPFAlignment ::
    "(string \<Rightarrow> string option) \<Rightarrow> EmailContext \<Rightarrow> SPFResult \<Rightarrow> dmarc_Record \<Rightarrow> string \<Rightarrow> bool" where
  "checkSPFAlignment pa emailCtx spfResult policy fromDomain =
     (if spf_Result spfResult \<noteq> SPFPass then False
      else let returnPathDomain = getReturnPathDomain pa emailCtx
           in if returnPathDomain = [] then False
              else domains_aligned (rec_SPFAlignment policy) returnPathDomain fromDomain)"

definition checkDKIMAlignment :: "DKIMResult \<Rightarrow> dmarc_Record \<Rightarrow> string \<Rightarrow> bool" where
  "checkDKIMAlignment dkimResult policy fromDomain =
     (if \<not> dkim_Valid dkimResult then False
      else list_ex (\<lambda>s. sig_Status s = DKIMPass \<and> domains_aligned (rec_DKIMAlignment policy) (sig_Domain s) fromDomain)
             (dkim_Results dkimResult))"

definition evaluateDMARCPolicy :: "SPFResult \<Rightarrow> DKIMResult \<Rightarrow> bool \<Rightarrow> bool \<Rightarrow> DMARCStatus" where
  "evaluateDMARCPolicy spfResult dkimResult spfAligned dkimAligned =
     (if (spfAligned \<and> spf_Result spfResult = SPFPass) \<or> (dkimAligned \<and> dkim_Valid dkimResult)
      then DMARCPass else DMARCFail)"

definition dmarc_result :: "DMARCStatus \<Rightarrow> string \<Rightarrow> DMARCResult" where
  "dmarc_result r e = \<lparr>dmarc_Result = r, dmarc_Policy = [], dmarc_Percentage = 0, dmarc_SPFAlign = False,
     dmarc_DKIMAlign = False, dmarc_Error = e\<rparr>"

definition DMARCVerifier_Verify ::
    "(string \<Rightarrow> string option) \<Rightarrow> dmarc_lookup \<Rightarrow> DNSExchanger \<Rightarrow> EmailContext \<Rightarrow> SPFResult \<Rightarrow> DKIMResult \<Rightarrow> DMARCResult" where
  "DMARCVerifier_Verify pa lkp ex emailCtx spfResult dkimResult =
     (let fromDomain = extractDomainFromEmail pa (ctx_From emailCtx) in
      if fromDomain = [] then dmarc_result DMARCPermError ''invalid From header format''
      else (case getDMARCPolicy lkp ex fromDomain of
              Inl err \<Rightarrow>
                if err_IsTempFail err then dmarc_result DMARCTempError (err_Text err)
                else if err_IsNoPolicy err then dmarc_result DMARCNone []
                else dmarc_result DMARCPermError (''failed to get DMARC policy: '' @ err_Text err)
            | Inr None \<Rightarrow> dmarc_result DMARCNone []
            | Inr (Some policy) \<Rightarrow>
                let spfAligned = checkSPFAlignment pa emailCtx spfResult policy fromDomain;
                    dkimAligned = checkDKIMAlignment dkimResult policy fromDomain
                in \<lparr>dmarc_Result = evaluateDMARCPolicy spfResult dkimResult spfAligned dkimAligned,
                    dmarc_Policy = rec_Policy policy,
                    dmarc_Percentage = (case rec_Percent policy of None \<Rightarrow> 100 | Some p \<Rightarrow> p),
                    dmarc_SPFAlign = spfAligned, dmarc_DKIMAlign = dkimAligned, dmarc_Error = []\<rparr>))"

definition GetPolicyAction :: "dmarc_Record \<Rightarrow> DMARCStatus \<Rightarrow> Action" where
  "GetPolicyAction policy dmarcResult =
     (if dmarcResult = DMARCPass then ActionAccept
      else if dmarcResult \<noteq> DMARCFail then ActionAccept
      else if rec_Policy policy = ''reject'' then ActionReject
      else if rec_Policy policy = ''quarantine'' then ActionQuarantine
      else ActionAccept)"

section \<open>The Authentication-Results header\<close>

datatype ResultValue =
  ResultNone | ResultPass | ResultFail | ResultPolicy | ResultNeutral | ResultTempError | ResultPermError
  | ResultHardFail | ResultSoftFail

datatype authres_Result =
  AR_SPF ResultValue string string | AR_DKIM ResultValue string | AR_DMARC ResultValue string

fun mapSPFStatusToAuthRes :: "SPFStatus \<Rightarrow> ResultValue" where
  "mapSPFStatusToAuthRes SPFPass = ResultPass"
| "mapSPFStatusToAuthRes SPFFail = ResultFail"
| "mapSPFStatusToAuthRes SPFSoftFail = ResultSoftFail"
| "mapSPFStatusToAuthRes SPFNeutral = ResultNeutral"
| "mapSPFStatusToAuthRes SPFTempError = ResultTempError"
| "mapSPFStatusToAuthRes SPFPermError = ResultPermError"
| "mapSPFStatusToAuthRes SPFNone = ResultNone"

fun mapDKIMStatusToAuthRes :: "DKIMStatus \<Rightarrow> ResultValue" where
  "mapDKIMStatusToAuthRes DKIMPass = ResultPass"
| "mapDKIMStatusToAuthRes DKIMFail = ResultFail"
| "mapDKIMStatusToAuthRes DKIMPolicy = ResultPolicy"
| "mapDKIMStatusToAuthRes DKIMNeutral = ResultNeutral"
| "mapDKIMStatusToAuthRes DKIMTempError = ResultTempError"
| "mapDKIMStatusToAuthRes DKIMPermError = ResultPermError"
| "mapDKIMStatusToAuthRes DKIMNone = ResultNone"

fun mapDMARCStatusToAuthRes :: "DMARCStatus \<Rightarrow> ResultValue" where
  "mapDMARCStatusToAuthRes DMARCPass = ResultPass"
| "mapDMARCStatusToAuthRes DMARCFail = ResultFail"
| "mapDMARCStatusToAuthRes DMARCTempError = ResultTempError"
| "mapDMARCStatusToAuthRes DMARCPermError = ResultPermError"
| "mapDMARCStatusToAuthRes DMARCNone = ResultNone"

definition extractDomainFromAddress :: "string \<Rightarrow> string" where
  "extractDomainFromAddress addr = (case ExtractDomain addr of Inl _ \<Rightarrow> [] | Inr domain \<Rightarrow> domain)"

definition auth_results :: "EmailContext \<Rightarrow> VerificationResult \<Rightarrow> authres_Result list" where
  "auth_results emailCtx vr =
     (let spfVal = mapSPFStatusToAuthRes (spf_Result (vr_SPF vr));
          dmarcVal = mapDMARCStatusToAuthRes (dmarc_Result (vr_DMARC vr))
      in (if spfVal \<noteq> ResultNone \<or> spf_Mechanism (vr_SPF vr) \<noteq> [] then [AR_SPF spfVal (ctx_From emailCtx) []] else [])
         @ map (\<lambda>s. AR_DKIM (mapDKIMStatusToAuthRes (sig_Status s)) (sig_Domain s)) (dkim_Results (vr_DKIM vr))
         @ (if dmarcVal \<noteq> ResultNone then [AR_DMARC dmarcVal (extractDomainFromAddress (ctx_From emailCtx))] else []))"

definition BuildAuthResultsHeader ::
    "(string \<Rightarrow> authres_Result list \<Rightarrow> string) \<Rightarrow> string \<Rightarrow> EmailContext \<Rightarrow> VerificationResult \<Rightarrow> string" where
  "BuildAuthResultsHeader fmt identity emailCtx vr =
     ''Authentication-Results: '' @ fmt (if identity = [] then ''mailvault'' else identity) (auth_results emailCtx vr)"

section \<open>Lemmas\<close>

lemma map_signatures_eq:
  "map_signatures vs acc p = (acc @ map map_signature vs, p \<or> (\<exists>v \<in> set vs. ver_Err v = None))"
  by (induction vs arbitrary: acc p)
    (auto simp: map_signature_def dkimErrorToStatus_def split: option.splits if_splits)

lemma signature_pass: "sig_Status (map_signature v) = DKIMPass \<longleftrightarrow> ver_Err v = None"
  by (simp add: map_signature_def dkimErrorToStatus_def split: option.splits)

lemma DKIM_Verify_fields:
  "dkim_Results (DKIMVerifier_Verify vfy e) = map map_signature (fst (vfy (ctx_Body e)))"
  "dkim_Valid (DKIMVerifier_Verify vfy e) \<longleftrightarrow> (\<exists>v \<in> set (fst (vfy (ctx_Body e))). ver_Err v = None)"
  by (simp_all add: DKIMVerifier_Verify_def map_signatures_eq split: prod.splits)

lemma ToLower_Join: "ToLower (Join ps ''.'') = Join (map ToLower ps) ''.''"
  by (induction ps "''.''" rule: Join.induct) (simp_all add: ToLower_def to_lower_def is_upper_def)

lemma ToLower_getOrganizationalDomain:
  "ToLower (getOrganizationalDomain d) = getOrganizationalDomain (ToLower d)"
  by (simp add: getOrganizationalDomain_def Let_def Split_ToLower ToLower_Join drop_map)

lemma aligned_refl: "domains_aligned mode d d"
  by (simp add: domains_aligned_def organizationalDomainsMatch_def)

text \<open>The message and record for which SPF alignment is checked carry the same domain, so it
  degenerates to the SPF verdict.\<close>

lemma checkSPFAlignment_eq:
  assumes "extractDomainFromEmail pa (ctx_From e) = d" "d \<noteq> []"
  shows "checkSPFAlignment pa e spf policy d \<longleftrightarrow> spf_Result spf = SPFPass"
  using assms by (simp add: checkSPFAlignment_def getReturnPathDomain_def aligned_refl Let_def)

lemma strict_implies_relaxed:
  "domains_aligned AlignmentStrict d f \<Longrightarrow> domains_aligned mode d f"
  by (simp add: domains_aligned_def organizationalDomainsMatch_def ToLower_getOrganizationalDomain)

lemma DMARC_result_eq:
  assumes "extractDomainFromEmail pa (ctx_From e) = d" "d \<noteq> []"
    and "getDMARCPolicy lkp ex d = Inr (Some policy)"
  shows "dmarc_Result (DMARCVerifier_Verify pa lkp ex e spf (DKIMVerifier_Verify vfy e)) =
    (if spf_Result spf = SPFPass \<or>
        (\<exists>v \<in> set (fst (vfy (ctx_Body e))). ver_Err v = None \<and>
           domains_aligned (rec_DKIMAlignment policy) (ver_Domain v) d)
     then DMARCPass else DMARCFail)"
proof -
  have "checkDKIMAlignment (DKIMVerifier_Verify vfy e) policy d \<longleftrightarrow>
      (\<exists>v \<in> set (fst (vfy (ctx_Body e))). ver_Err v = None \<and>
         domains_aligned (rec_DKIMAlignment policy) (ver_Domain v) d)"
    by (auto simp: checkDKIMAlignment_def DKIM_Verify_fields list_ex_iff signature_pass)
      (auto simp: map_signature_def)
  then show ?thesis using assms checkSPFAlignment_eq [OF assms(1,2)]
    by (auto simp: DMARCVerifier_Verify_def evaluateDMARCPolicy_def DKIM_Verify_fields Let_def)
qed

section \<open>Properties\<close>

definition sample_policy :: dmarc_Record where
  "sample_policy = \<lparr>rec_Policy = ''reject'', rec_Percent = None, rec_SPFAlignment = AlignmentStrict,
     rec_DKIMAlignment = AlignmentRelaxed\<rparr>"

definition sample_dkim :: "string \<Rightarrow> dkim_Verification list \<times> string option" where
  "sample_dkim body = ([\<lparr>ver_Domain = ''other.net'', ver_Err = None\<rparr>,
     \<lparr>ver_Domain = ''mail.B.org'', ver_Err = None\<rparr>], None)"

text \<open>
  C38: Where the From domain has a DMARC record, the check passes exactly when SPF passed or some DKIM
  signature verified under a domain aligned with the From domain in the record's DKIM mode. The SPF
  alignment mode of the record never matters, since the code compares the From domain with itself.
\<close>

theorem DMARC_verdict:
  assumes "extractDomainFromEmail pa (ctx_From e) = d" "d \<noteq> []"
    and "getDMARCPolicy lkp ex d = Inr (Some policy)"
  shows "(dmarc_Result (DMARCVerifier_Verify pa lkp ex e spf (DKIMVerifier_Verify vfy e)) = DMARCPass \<longleftrightarrow>
      spf_Result spf = SPFPass \<or>
      (\<exists>v \<in> set (fst (vfy (ctx_Body e))). ver_Err v = None \<and>
         domains_aligned (rec_DKIMAlignment policy) (ver_Domain v) d)) \<and>
    (dmarc_SPFAlign (DMARCVerifier_Verify pa lkp ex e spf (DKIMVerifier_Verify vfy e)) \<longleftrightarrow> spf_Result spf = SPFPass)"
proof
  show "dmarc_SPFAlign (DMARCVerifier_Verify pa lkp ex e spf (DKIMVerifier_Verify vfy e)) \<longleftrightarrow> spf_Result spf = SPFPass"
    using assms checkSPFAlignment_eq [OF assms(1,2)] by (simp add: DMARCVerifier_Verify_def Let_def)
qed (simp add: DMARC_result_eq [OF assms])

theorem DMARC_verdict_witness:
  "dmarc_Result (DMARCVerifier_Verify (\<lambda>_. None) (\<lambda>_ _. Inr (Some sample_policy)) (txt_zone [])
     (mail_from ''a@b.org'' [192, 0, 2, 7]) (spf_result SPFFail)
     (DKIMVerifier_Verify sample_dkim (mail_from ''a@b.org'' [192, 0, 2, 7]))) = DMARCPass \<and>
   dmarc_SPFAlign (DMARCVerifier_Verify (\<lambda>_. None) (\<lambda>_ _. Inr (Some sample_policy)) (txt_zone [])
     (mail_from ''a@b.org'' [192, 0, 2, 7]) (spf_result SPFPass)
     (DKIMVerifier_Verify sample_dkim (mail_from ''a@b.org'' [192, 0, 2, 7])))"
proof -
  let ?e = "mail_from ''a@b.org'' [192, 0, 2, 7]"
  have d: "extractDomainFromEmail (\<lambda>_. None) (ctx_From ?e) = ''b.org''" "''b.org'' \<noteq> []" by code_simp+
  have p: "getDMARCPolicy (\<lambda>_ _. Inr (Some sample_policy)) (txt_zone []) ''b.org'' = Inr (Some sample_policy)"
    by (simp add: getDMARCPolicy_def)
  have v: "\<exists>v \<in> set (fst (sample_dkim (ctx_Body ?e))). ver_Err v = None \<and>
      domains_aligned (rec_DKIMAlignment sample_policy) (ver_Domain v) ''b.org''" by code_simp
  show ?thesis
    using DMARC_verdict [OF d p, of "spf_result SPFFail" sample_dkim] v
      DMARC_verdict [OF d p, of "spf_result SPFPass" sample_dkim] by (simp add: spf_result_def)
qed

text \<open>
  Relaxed alignment is weaker than strict alignment: a message that passes DMARC under a record
  asking for strict DKIM alignment also passes when the record asks for relaxed alignment.
\<close>

theorem DMARC_relaxed_weaker:
  assumes "lkp (dmarc_LookupTXT ex) (extractDomainFromEmail pa (ctx_From e)) = Inr (Some policy)"
    and "rec_DKIMAlignment policy = AlignmentStrict"
    and "dmarc_Result (DMARCVerifier_Verify pa lkp ex e spf (DKIMVerifier_Verify vfy e)) = DMARCPass"
  shows "dmarc_Result (DMARCVerifier_Verify pa (\<lambda>_ _. Inr (Some (policy\<lparr>rec_DKIMAlignment := AlignmentRelaxed\<rparr>)))
    ex e spf (DKIMVerifier_Verify vfy e)) = DMARCPass"
proof -
  have d: "extractDomainFromEmail pa (ctx_From e) \<noteq> []"
    using assms(3) by (auto simp: DMARCVerifier_Verify_def dmarc_result_def)
  have "spf_Result spf = SPFPass \<or> (\<exists>v \<in> set (fst (vfy (ctx_Body e))). ver_Err v = None \<and>
      domains_aligned AlignmentStrict (ver_Domain v) (extractDomainFromEmail pa (ctx_From e)))"
    using assms(2,3) DMARC_result_eq [OF refl d, of lkp ex policy spf vfy] assms(1)
    by (auto simp: getDMARCPolicy_def split: if_splits)
  then show ?thesis
    using strict_implies_relaxed DMARC_result_eq [OF refl d, of "\<lambda>_ _. Inr (Some (policy\<lparr>rec_DKIMAlignment := AlignmentRelaxed\<rparr>))"
        ex "policy\<lparr>rec_DKIMAlignment := AlignmentRelaxed\<rparr>" spf vfy]
    by (auto simp: getDMARCPolicy_def)
qed

theorem DMARC_relaxed_weaker_witness:
  "dmarc_Result (DMARCVerifier_Verify (\<lambda>_. None)
     (\<lambda>_ _. Inr (Some (sample_policy\<lparr>rec_DKIMAlignment := AlignmentStrict, rec_DKIMAlignment := AlignmentRelaxed\<rparr>)))
     (txt_zone []) (mail_from ''a@other.NET'' [192, 0, 2, 7]) (spf_result SPFFail)
     (DKIMVerifier_Verify sample_dkim (mail_from ''a@other.NET'' [192, 0, 2, 7]))) = DMARCPass"
  by (rule DMARC_relaxed_weaker [where lkp = "\<lambda>_ _. Inr (Some (sample_policy\<lparr>rec_DKIMAlignment := AlignmentStrict\<rparr>))"
        and policy = "sample_policy\<lparr>rec_DKIMAlignment := AlignmentStrict\<rparr>"]) (simp, simp, code_simp)

text \<open>
  The header reports what was verified: it carries \<open>dkim=pass\<close> for a domain exactly when the
  library verified a signature of that domain without error, and \<open>spf\<close> and \<open>dmarc\<close> entries with value
  pass exactly when those checks passed.
\<close>

theorem auth_results_faithful:
  assumes "vr_DKIM vr = DKIMVerifier_Verify vfy e"
  shows "(AR_DKIM ResultPass d \<in> set (auth_results e vr) \<longleftrightarrow>
      (\<exists>v \<in> set (fst (vfy (ctx_Body e))). ver_Err v = None \<and> ver_Domain v = d)) \<and>
    ((\<exists>f h. AR_SPF ResultPass f h \<in> set (auth_results e vr)) \<longleftrightarrow> spf_Result (vr_SPF vr) = SPFPass) \<and>
    ((\<exists>f. AR_DMARC ResultPass f \<in> set (auth_results e vr)) \<longleftrightarrow> dmarc_Result (vr_DMARC vr) = DMARCPass)"
proof -
  have k: "mapDKIMStatusToAuthRes s = ResultPass \<longleftrightarrow> s = DKIMPass" for s by (cases s) auto
  have sp: "mapSPFStatusToAuthRes s = ResultPass \<longleftrightarrow> s = SPFPass" for s by (cases s) auto
  have dm: "mapDMARCStatusToAuthRes s = ResultPass \<longleftrightarrow> s = DMARCPass" for s by (cases s) auto
  have "AR_DKIM ResultPass d \<in> set (auth_results e vr) \<longleftrightarrow>
      (\<exists>v \<in> set (fst (vfy (ctx_Body e))). ver_Err v = None \<and> ver_Domain v = d)"
  proof -
    have "AR_DKIM ResultPass d = AR_DKIM (mapDKIMStatusToAuthRes (sig_Status (map_signature v))) (sig_Domain (map_signature v))
        \<longleftrightarrow> ver_Err v = None \<and> ver_Domain v = d" for v
      using k [of "sig_Status (map_signature v)"] signature_pass [of v] by (auto simp: map_signature_def)
    then show ?thesis using assms by (auto simp: auth_results_def Let_def DKIM_Verify_fields image_iff)
  qed
  moreover have "(\<exists>f h. AR_SPF ResultPass f h \<in> set (auth_results e vr)) \<longleftrightarrow> spf_Result (vr_SPF vr) = SPFPass"
    using sp [of "spf_Result (vr_SPF vr)"] 
    by (cases "spf_Result (vr_SPF vr) = SPFPass") (force simp: auth_results_def Let_def, auto simp: auth_results_def Let_def)
  moreover have "(\<exists>f. AR_DMARC ResultPass f \<in> set (auth_results e vr)) \<longleftrightarrow> dmarc_Result (vr_DMARC vr) = DMARCPass"
    using dm [of "dmarc_Result (vr_DMARC vr)"] by (auto simp: auth_results_def Let_def)
  ultimately show ?thesis by blast
qed

theorem auth_results_faithful_witness:
  "AR_DKIM ResultPass ''other.net'' \<in> set (auth_results (mail_from ''a@b.org'' [192, 0, 2, 7])
     \<lparr>vr_SPF = spf_result SPFFail, vr_DKIM = DKIMVerifier_Verify sample_dkim (mail_from ''a@b.org'' [192, 0, 2, 7]),
      vr_DMARC = dmarc_result DMARCFail [],
      vr_Reputation = \<lparr>rep_IPReputation = IPReputationUnknown, rep_DomainReputation = DomainReputationUnknown,
        rep_Blacklisted = [], rep_Score = 1 / 2, rep_Error = []\<rparr>,
      vr_Content = \<lparr>content_SpamScore = 0, content_SpamIndicators = [], content_Classification = [], content_Error = []\<rparr>,
      vr_Action = ActionAccept, vr_Timestamp = 0\<rparr>)"
  by (subst auth_results_faithful [where vfy = sample_dkim, THEN conjunct1]) (simp, code_simp)

end
