(* ===== verification/Reputation.thy ===== *)
theory Reputation
  imports SPF
begin

text \<open>
  Reputation of the sender (\<open>app/smtp/verification/reputation.go\<close>): DNS blacklists for the address and
  the domain, the private ranges, and the score.
\<close>

section \<open>Definitions\<close>

definition ip_blacklists :: "string list" where
  "ip_blacklists = [''zen.spamhaus.org'', ''bl.spamcop.net'', ''dnsbl.sorbs.net'', ''b.barracudacentral.org'',
     ''cbl.abuseat.org'', ''psbl.surriel.com'', ''ubl.unsubscore.com'']"

definition domainBlacklists :: "string list" where
  "domainBlacklists = [''dbl.spamhaus.org'', ''surbl.org'', ''uribl.com'', ''multi.surbl.org'']"

record ipReputationResult =
  ipr_status :: IPReputationStatus
  ipr_blacklists :: "string list"
  ipr_scoreAdjustment :: float64

record domainReputationResult =
  dr_status :: DomainReputationStatus
  dr_blacklists :: "string list"
  dr_scoreAdjustment :: float64

text \<open>\<open>IP.String\<close> of an address with a 4-byte form.\<close>

definition ipv4_String :: "byte list \<Rightarrow> string" where
  "ipv4_String b = Join (map (\<lambda>w. Itoa (unat w)) b) ''.''"

definition reverseIP :: "ip \<Rightarrow> string" where
  "reverseIP ip =
     (case To4 ip of
        None \<Rightarrow> []
      | Some b \<Rightarrow> (case Split CHR ''.'' (ipv4_String b) of
                     [o0, o1, o2, o3] \<Rightarrow> o3 @ ''.'' @ o2 @ ''.'' @ o1 @ ''.'' @ o0
                   | _ \<Rightarrow> []))"

definition privateRanges :: "string list" where
  "privateRanges = [''10.0.0.0/8'', ''172.16.0.0/12'', ''192.168.0.0/16'', ''127.0.0.0/8'', ''169.254.0.0/16'']"

definition isPrivateIP :: "ip \<Rightarrow> bool" where
  "isPrivateIP ip =
     list_ex (\<lambda>r. case ParseCIDR r of None \<Rightarrow> False | Some cidr \<Rightarrow> IPNet_Contains cidr ip) privateRanges"

text \<open>Does the resolver answer a query successfully with more than \<open>n\<close> records?\<close>

definition answered :: "DNSExchanger \<Rightarrow> qtype \<Rightarrow> string \<Rightarrow> nat \<Rightarrow> bool" where
  "answered ex q name n =
     (case ex q name of
        Inl _ \<Rightarrow> False
      | Inr resp \<Rightarrow> Rcode resp = RcodeSuccess \<and> n < length (Answer resp))"

definition checkIPBlacklist :: "DNSExchanger \<Rightarrow> ip \<Rightarrow> string \<Rightarrow> bool" where
  "checkIPBlacklist ex ip blacklist =
     (let reversedIP = reverseIP ip
      in if reversedIP = [] then False else answered ex TypeA (reversedIP @ ''.'' @ blacklist) 0)"

definition checkDomainBlacklist :: "DNSExchanger \<Rightarrow> string \<Rightarrow> string \<Rightarrow> bool" where
  "checkDomainBlacklist ex domain blacklist = answered ex TypeA (domain @ ''.'' @ blacklist) 0"

definition hasMXRecords :: "DNSExchanger \<Rightarrow> string \<Rightarrow> bool" where
  "hasMXRecords ex domain = answered ex TypeMX domain 0"

definition hasMultipleARecords :: "DNSExchanger \<Rightarrow> string \<Rightarrow> bool" where
  "hasMultipleARecords ex domain = answered ex TypeA domain 1"

definition hasSuspiciousTLD :: "string \<Rightarrow> bool" where
  "hasSuspiciousTLD domain =
     list_ex (\<lambda>tld. HasSuffix (ToLower domain) tld) [''.tk'', ''.ml'', ''.ga'', ''.cf'', ''.bit'', ''.onion'']"

definition checkDomainAge :: "DNSExchanger \<Rightarrow> string \<Rightarrow> float64" where
  "checkDomainAge ex domain =
     (let s1 = (if hasMXRecords ex domain then fadd 0 (f64 (1 / 10)) else 0);
          s2 = (if hasMultipleARecords ex domain then fadd s1 (f64 (5 / 100)) else s1)
      in if hasSuspiciousTLD domain then fsub s2 (f64 (2 / 10)) else s2)"

definition checkIPReputation :: "DNSExchanger \<Rightarrow> string list \<Rightarrow> ip \<Rightarrow> ipReputationResult" where
  "checkIPReputation ex blacklists ip =
     (if isPrivateIP ip then
        \<lparr>ipr_status = IPReputationGood, ipr_blacklists = [], ipr_scoreAdjustment = f64 (1 / 10)\<rparr>
      else let listed = filter (checkIPBlacklist ex ip) blacklists; blacklistCount = length listed
           in if blacklistCount = 0 then
                \<lparr>ipr_status = IPReputationGood, ipr_blacklists = listed, ipr_scoreAdjustment = f64 (1 / 10)\<rparr>
              else if blacklistCount \<le> 2 then
                \<lparr>ipr_status = IPReputationSuspicious, ipr_blacklists = listed, ipr_scoreAdjustment = f64 (- 2 / 10)\<rparr>
              else \<lparr>ipr_status = IPReputationBad, ipr_blacklists = listed, ipr_scoreAdjustment = f64 (- 5 / 10)\<rparr>)"

definition checkDomainReputation :: "DNSExchanger \<Rightarrow> string \<Rightarrow> domainReputationResult" where
  "checkDomainReputation ex domain =
     (let listed = filter (checkDomainBlacklist ex domain) domainBlacklists; blacklistCount = length listed;
          ageScore = checkDomainAge ex domain; adj = fadd 0 ageScore
      in if blacklistCount = 0 then
           (if 0 \<le> ageScore then
              \<lparr>dr_status = DomainReputationGood, dr_blacklists = listed, dr_scoreAdjustment = fadd adj (f64 (1 / 10))\<rparr>
            else \<lparr>dr_status = DomainReputationSuspicious, dr_blacklists = listed, dr_scoreAdjustment = adj\<rparr>)
         else if blacklistCount \<le> 1 then
           \<lparr>dr_status = DomainReputationSuspicious, dr_blacklists = listed, dr_scoreAdjustment = fsub adj (f64 (2 / 10))\<rparr>
         else \<lparr>dr_status = DomainReputationBad, dr_blacklists = listed, dr_scoreAdjustment = fsub adj (f64 (5 / 10))\<rparr>)"

definition ReputationVerifier_Verify ::
    "(string \<Rightarrow> string option) \<Rightarrow> DNSExchanger \<Rightarrow> string list \<Rightarrow> EmailContext \<Rightarrow> ReputationResult" where
  "ReputationVerifier_Verify pa ex blacklists emailCtx =
     (let r0 = \<lparr>rep_IPReputation = IPReputationUnknown, rep_DomainReputation = DomainReputationUnknown,
                rep_Blacklisted = [], rep_Score = f64 (5 / 10), rep_Error = []\<rparr>;
          r1 = (case ctx_SenderIP emailCtx of
                  None \<Rightarrow> r0
                | Some ip \<Rightarrow>
                    let ipResult = checkIPReputation ex blacklists ip
                    in r0\<lparr>rep_IPReputation := ipr_status ipResult,
                          rep_Blacklisted := rep_Blacklisted r0 @ ipr_blacklists ipResult,
                          rep_Score := fadd (rep_Score r0) (ipr_scoreAdjustment ipResult)\<rparr>);
          senderDomain = extractDomainFromEmail pa (ctx_From emailCtx);
          r2 = (if senderDomain = [] then r1
                else let domainResult = checkDomainReputation ex senderDomain
                     in r1\<lparr>rep_DomainReputation := dr_status domainResult,
                           rep_Blacklisted := rep_Blacklisted r1 @ dr_blacklists domainResult,
                           rep_Score := fadd (rep_Score r1) (dr_scoreAdjustment domainResult)\<rparr>)
      in r2\<lparr>rep_Score := (if rep_Score r2 < 0 then 0 else if 1 < rep_Score r2 then 1 else rep_Score r2)\<rparr>)"

section \<open>Lemmas\<close>

lemma Itoa_no_dot: "CHR ''.'' \<notin> set (Itoa n)"
  using Itoa_digits [of "CHR ''.''" n] by (auto simp: is_digit_def)

lemma reverseIP_v4:
  assumes "To4 ip = Some [a, b, c, d]"
  shows "reverseIP ip = Join (map (\<lambda>w. Itoa (unat w)) [d, c, b, a]) ''.''"
proof -
  have "Split CHR ''.'' (ipv4_String [a, b, c, d]) = map (\<lambda>w. Itoa (unat w)) [a, b, c, d]"
    unfolding ipv4_String_def by (rule Split_Join) (auto simp: Itoa_no_dot)
  then show ?thesis using assms by (simp add: reverseIP_def)
qed

lemma score_range:
  "0 \<le> rep_Score (ReputationVerifier_Verify pa ex bl e) \<and> rep_Score (ReputationVerifier_Verify pa ex bl e) \<le> 1"
  by (simp add: ReputationVerifier_Verify_def Let_def)

lemma reputation_no_error: "rep_Error (ReputationVerifier_Verify pa ex bl e) = []"
  by (simp add: ReputationVerifier_Verify_def Let_def split: option.splits)

lemma parse_private_ranges:
  "map ParseCIDR privateRanges = map Some
     [\<lparr>net_IP = [10, 0, 0, 0], net_Mask = [0xFF, 0, 0, 0]\<rparr>, \<lparr>net_IP = [172, 16, 0, 0], net_Mask = [0xFF, 0xF0, 0, 0]\<rparr>,
      \<lparr>net_IP = [192, 168, 0, 0], net_Mask = [0xFF, 0xFF, 0, 0]\<rparr>, \<lparr>net_IP = [127, 0, 0, 0], net_Mask = [0xFF, 0, 0, 0]\<rparr>,
      \<lparr>net_IP = [169, 254, 0, 0], net_Mask = [0xFF, 0xFF, 0, 0]\<rparr>]"
  by code_simp

lemma Contains_quad:
  assumes "To4 ip = Some [a, b, c, d]"
  shows "IPNet_Contains \<lparr>net_IP = [n0, n1, n2, n3], net_Mask = [m0, m1, m2, m3]\<rparr> ip \<longleftrightarrow>
    n0 AND m0 = a AND m0 \<and> n1 AND m1 = b AND m1 \<and> n2 AND m2 = c AND m2 \<and> n3 AND m3 = d AND m3"
  using assms by (simp add: IPNet_Contains_def networkNumberAndMask_def To4_def [of "[_, _, _, _]"] and_bytes_def)

lemma byte_and_FF: "(w :: byte) AND 0xFF = w"
proof -
  have "(0xFF :: byte) = - 1" by code_simp
  then show ?thesis by (metis and.right_neutral)
qed

lemma nibble_range: "(16 :: byte) AND 0xF0 = b AND 0xF0 \<longleftrightarrow> 16 \<le> b \<and> b \<le> 31"
proof -
  have all: "list_all (\<lambda>k. ((16 :: byte) AND 0xF0 = word_of_int k AND 0xF0) \<longleftrightarrow> (16 \<le> k \<and> k \<le> 31)) [0..255]" by code_simp
  have "0 \<le> uint b" "uint b \<le> 255" using uint_bounded [of b] by simp_all
  then have "(16 :: byte) AND 0xF0 = word_of_int (uint b) AND 0xF0 \<longleftrightarrow> 16 \<le> uint b \<and> uint b \<le> 31"
    using all [unfolded list_all_iff, rule_format, of "uint b"] by simp
  then show ?thesis by (simp add: word_le_def)
qed

lemma checkIPReputation_cases:
  assumes "\<not> isPrivateIP ip"
  shows "ipr_blacklists (checkIPReputation ex bls ip) = filter (checkIPBlacklist ex ip) bls \<and>
    (ipr_status (checkIPReputation ex bls ip) = IPReputationGood \<longleftrightarrow> length (filter (checkIPBlacklist ex ip) bls) = 0) \<and>
    (ipr_status (checkIPReputation ex bls ip) = IPReputationSuspicious \<longleftrightarrow> length (filter (checkIPBlacklist ex ip) bls) \<in> {1, 2}) \<and>
    (ipr_status (checkIPReputation ex bls ip) = IPReputationBad \<longleftrightarrow> length (filter (checkIPBlacklist ex ip) bls) \<ge> 3)"
proof -
  let ?n = "length (filter (checkIPBlacklist ex ip) bls)"
  have "?n = 0 \<or> ?n = 1 \<or> ?n = 2 \<or> ?n \<ge> 3" by linarith
  then consider "?n = 0" | "?n \<in> {1, 2}" | "?n \<ge> 3" by blast
  then show ?thesis using assms by cases (auto simp: checkIPReputation_def Let_def)
qed

section \<open>Properties\<close>

text \<open>
  An IPv4 address is treated as private exactly when it lies in 10/8, 172.16/12, 192.168/16, 127/8 or
  169.254/16, in numbers: by its first two octets.
\<close>

theorem isPrivateIP_iff:
  assumes "To4 ip = Some [a, b, c, d]"
  shows "isPrivateIP ip \<longleftrightarrow> a = 10 \<or> (a = 172 \<and> 16 \<le> b \<and> b \<le> 31) \<or> (a = 192 \<and> b = 168) \<or> a = 127 \<or>
    (a = 169 \<and> b = 254)"
proof -
  have "isPrivateIP ip \<longleftrightarrow> list_ex (\<lambda>r. case r of None \<Rightarrow> False | Some cidr \<Rightarrow> IPNet_Contains cidr ip) (map ParseCIDR privateRanges)"
    by (simp add: isPrivateIP_def list_ex_iff)
  then show ?thesis unfolding parse_private_ranges using nibble_range [of b]
    by (auto simp: Contains_quad [OF assms] byte_and_FF)
qed

theorem isPrivateIP_iff_witness:
  "isPrivateIP [172, 31, 0, 1] \<and> \<not> isPrivateIP [172, 32, 0, 1] \<and> isPrivateIP (v4InV6Prefix @ [10, 1, 2, 3])"
proof -
  have "To4 [172, 31, 0, 1] = Some [172, 31, 0, 1]" "To4 [172, 32, 0, 1] = Some [172, 32, 0, 1]"
    "To4 (v4InV6Prefix @ [10, 1, 2, 3]) = Some [10, 1, 2, 3]" by code_simp+
  from this [THEN isPrivateIP_iff] show ?thesis by simp
qed

text \<open>
  The verdict on a public IPv4 address is decided by the number of blacklists that answer for its
  reversed octets: good for none, suspicious for one or two, bad from three on; the lists reported are
  exactly those; a private address is never looked up and is good.
\<close>

theorem checkIPReputation_verdict:
  assumes "To4 ip = Some [a, b, c, d]"
  shows "let r = checkIPReputation ex bls ip;
             listed = filter (\<lambda>l. answered ex TypeA
               (Join (map (\<lambda>w. Itoa (unat w)) [d, c, b, a]) ''.'' @ ''.'' @ l) 0) bls
         in (if isPrivateIP ip then r = \<lparr>ipr_status = IPReputationGood, ipr_blacklists = [], ipr_scoreAdjustment = f64 (1 / 10)\<rparr>
             else ipr_blacklists r = listed \<and>
               (ipr_status r = IPReputationGood \<longleftrightarrow> length listed = 0) \<and>
               (ipr_status r = IPReputationSuspicious \<longleftrightarrow> length listed \<in> {1, 2}) \<and>
               (ipr_status r = IPReputationBad \<longleftrightarrow> length listed \<ge> 3))"
proof -
  have "checkIPBlacklist ex ip = (\<lambda>l. answered ex TypeA (Join (map (\<lambda>w. Itoa (unat w)) [d, c, b, a]) ''.'' @ ''.'' @ l) 0)"
    by (rule ext) (simp add: checkIPBlacklist_def reverseIP_v4 [OF assms] Let_def Itoa_nonempty)
  then show ?thesis using checkIPReputation_cases [of ip ex bls] by (simp add: Let_def checkIPReputation_def)
qed

definition listing_zone :: DNSExchanger where
  "listing_zone q name = Inr \<lparr>Rcode = (if name = ''7.2.0.192.bl.spamcop.net'' then 0 else 3),
     Answer = (if name = ''7.2.0.192.bl.spamcop.net'' then [RR_A [127, 0, 0, 2]] else [])\<rparr>"

theorem checkIPReputation_verdict_witness:
  "ipr_status (checkIPReputation listing_zone ip_blacklists [192, 0, 2, 7]) = IPReputationSuspicious \<and>
   ipr_blacklists (checkIPReputation listing_zone ip_blacklists [192, 0, 2, 7]) = [''bl.spamcop.net'']"
proof -
  have t: "To4 [192, 0, 2, 7] = Some [192, 0, 2, 7]" by code_simp
  have l: "filter (\<lambda>l. answered listing_zone TypeA
     (Join (map (\<lambda>w. Itoa (unat w)) [7, 2, 0, 192 :: byte]) ''.'' @ ''.'' @ l) 0) ip_blacklists = [''bl.spamcop.net'']" by code_simp
  have p: "\<not> isPrivateIP [192, 0, 2, 7]" by code_simp
  show ?thesis using checkIPReputation_verdict [OF t, of listing_zone ip_blacklists, unfolded l Let_def] p by simp
qed

end
