(* ===== verification/ContentFilter.thy ===== *)
theory ContentFilter
  imports VerifyTypes GoRegexp
begin

text \<open>
  The content filter (\<open>app/smtp/verification/content.go\<close>): the table of spam patterns with their
  weights, the word and phrase lists, the heuristics and the scoring. Header parsing
  (\<open>net/mail.ReadMessage\<close>) and the Unicode tables for letters outside ASCII are fields of an
  environment over which the statements are universal. Lower-casing is exact on ASCII.
\<close>

section \<open>The filter's tables\<close>

record spamPattern =
  fold_case :: bool
  pattern :: re
  description :: string
  weight :: float64

record ContentVerifier =
  spamPatterns :: "spamPattern list"
  spamWords :: "string list"
  suspiciousPhases :: "string list"

text \<open>The parts of an expression: a word between boundaries, and two literals with an optional
  character between them.\<close>

definition word_of :: "re list \<Rightarrow> re" where
  "word_of rs = seqs [WordB, alts rs, WordB]"

definition pair :: "string \<Rightarrow> string \<Rightarrow> re" where
  "pair a b = seqs [lit a, opt dot, lit b]"

definition digits_commas :: re where
  "digits_commas = plus (Cls False [(48, 57), (44, 44)])"

definition ci_pat :: "re \<Rightarrow> string \<Rightarrow> rat \<Rightarrow> spamPattern" where
  "ci_pat r d w = \<lparr>fold_case = True, pattern = r, description = d, weight = f64 w\<rparr>"

definition cs_pat :: "re \<Rightarrow> string \<Rightarrow> rat \<Rightarrow> spamPattern" where
  "cs_pat r d w = \<lparr>fold_case = False, pattern = r, description = d, weight = f64 w\<rparr>"

definition upper_run :: re where
  "upper_run = at_least 10 (Cls False [(65, 90)])"

definition email_re :: re where
  "email_re = seqs [WordB,
     plus (Cls False [(65, 90), (48, 57), (46, 46), (95, 95), (37, 37), (43, 43), (45, 45)]), chr CHR ''@'',
     plus (Cls False [(65, 90), (48, 57), (46, 46), (45, 45)]), chr CHR ''.'',
     at_least 2 (Cls False [(65, 90)]), WordB]"

definition spam_pattern_table :: "spamPattern list" where
  "spam_pattern_table =
   [ci_pat (word_of [lit ''viagra'', lit ''cialis'', lit ''levitra'']) ''Pharmaceutical spam'' (8 / 10),
    ci_pat (seqs [WordB, alts [lit ''lottery'', lit ''winner'', lit ''win'', lit ''won''], WordB, Star dot, chr CHR ''$'',
      digits_commas]) ''Lottery scam'' (9 / 10),
    ci_pat (word_of [lit ''urgent'', lit ''immediately'', lit ''act now'', lit ''limited time'']) ''Urgency tactics'' (6 / 10),
    ci_pat (word_of [lit ''free'', lit ''100% free'', lit ''no cost'', lit ''no charge'']) ''Free offers'' (4 / 10),
    ci_pat (word_of [lit ''guaranteed'', lit ''no risk'', lit ''risk free'']) ''Guarantees'' (5 / 10),
    ci_pat (word_of [lit ''click here'', lit ''click now'', lit ''visit now'']) ''Click baiting'' (5 / 10),
    ci_pat (word_of [lit ''unsubscribe'', lit ''remove'', pair ''opt'' ''out'']) ''Fake unsubscribe'' (3 / 10),
    cs_pat (seqs [chr CHR ''$'', digits_commas, Star blank, alts [lit ''million'', lit ''billion'', lit ''thousand'']])
      ''Large money amounts'' (7 / 10),
    ci_pat (word_of [seqs [lit ''nigeria'', opt (chr CHR ''n'')], lit ''prince'', lit ''princess'', lit ''royal''])
      ''Nigerian scam'' (95 / 100),
    ci_pat (word_of [lit ''inheritance'', lit ''beneficiary'', seqs [lit ''next'', opt dot, lit ''of'', opt dot, lit ''kin'']])
      ''Inheritance scam'' (8 / 10),
    ci_pat (word_of [pair ''wire'' ''transfer'', pair ''western'' ''union'', pair ''money'' ''gram'']) ''Money transfer'' (7 / 10),
    ci_pat (word_of [lit ''attorney'', lit ''lawyer'', pair ''law'' ''firm'', pair ''legal'' ''representative''])
      ''Legal impersonation'' (6 / 10),
    ci_pat (word_of [pair ''bank'' ''manager'', pair ''finance'' ''minister'', lit ''director'']) ''Authority impersonation'' (7 / 10),
    cs_pat upper_run ''Excessive capitals'' (4 / 10),
    cs_pat (at_least 3 (chr CHR ''!'')) ''Excessive exclamation marks'' (3 / 10),
    cs_pat (at_least 3 (chr CHR ''?'')) ''Excessive question marks'' (3 / 10),
    ci_pat (word_of [lit ''enlarge'', lit ''enhancement'', lit ''enlargement'']) ''Enhancement spam'' (7 / 10),
    ci_pat (word_of [pair ''lose'' ''weight'', pair ''weight'' ''loss'', pair ''diet'' ''pill'']) ''Weight loss spam'' (6 / 10),
    ci_pat (word_of [pair ''make'' ''money'', pair ''earn'' ''money'', seqs [lit ''work'', opt dot, lit ''from'', opt dot, lit ''home'']])
      ''Money making schemes'' (6 / 10),
    ci_pat (word_of [lit ''casino'', lit ''poker'', lit ''gambling'', lit ''bet'']) ''Gambling'' (5 / 10),
    cs_pat email_re ''Email in content'' (2 / 10),
    cs_pat (seqs [lit ''http'', opt (chr CHR ''s''), lit ''://'', plus (Cls True [(9, 10), (12, 13), (32, 32)])])
      ''URLs in content'' (2 / 10),
    ci_pat (word_of [lit ''sex'', lit ''adult'', lit ''xxx'', lit ''porn'']) ''Adult content'' (8 / 10)]"

definition NewContentVerifier :: ContentVerifier where
  "NewContentVerifier =
   \<lparr>spamPatterns = spam_pattern_table,
    spamWords =
      [''viagra'', ''cialis'', ''lottery'', ''winner'', ''congratulations'',
       ''urgent'', ''immediately'', ''act now'', ''limited time'', ''free money'',
       ''guaranteed'', ''no risk'', ''100% free'', ''cash bonus'', ''prize'',
       ''inheritance'', ''beneficiary'', ''nigerian prince'', ''wire transfer'',
       ''click here'', ''unsubscribe'', ''remove me'', ''opt out''],
    suspiciousPhases =
      [''dear sir/madam'', ''dear friend'', ''urgent business proposal'',
       ''confidential transaction'', ''foreign investment'', ''oil deal'',
       ''fund transfer'', ''deceased person'', ''next of kin'', ''beneficiary'',
       ''lawyer'', ''attorney'', ''law firm'', ''bank manager'', ''finance ministry'']\<rparr>"

section \<open>Text analysis\<close>

definition word_trim_set :: string where
  "word_trim_set = ''.,!?;:()[]{}'' @ [CHR 0x22, CHR 0x27]"

definition is_spam_word :: "ContentVerifier \<Rightarrow> string \<Rightarrow> bool" where
  "is_spam_word v w = list_ex (\<lambda>sw. Contains (ToLower (Trim w word_trim_set)) sw) (spamWords v)"

definition checkSpamWords :: "ContentVerifier \<Rightarrow> string \<Rightarrow> float64" where
  "checkSpamWords v text =
     (let ws = Fields text; total = length ws
      in if total = 0 then 0
         else let ratio = fdiv (of_nat (length (filter (is_spam_word v) ws))) (of_nat total)
              in if f64 (1 / 10) \<le> ratio then f64 (8 / 10)
                 else if f64 (5 / 100) \<le> ratio then f64 (5 / 10)
                 else if 0 < ratio then f64 (2 / 10)
                 else 0)"

definition checkSuspiciousPhrases :: "ContentVerifier \<Rightarrow> string \<Rightarrow> float64" where
  "checkSuspiciousPhrases v text =
     fold (\<lambda>phrase score. if Contains text phrase then fadd score (f64 (3 / 10)) else score) (suspiciousPhases v) 0"

fun check_patterns :: "spamPattern list \<Rightarrow> string \<Rightarrow> float64 \<Rightarrow> string list \<Rightarrow> float64 \<times> string list" where
  "check_patterns [] text score indicators = (score, indicators)"
| "check_patterns (p # ps) text score indicators =
     (if MatchString (fold_case p) (pattern p) text
      then check_patterns ps text (fadd score (weight p)) (indicators @ [description p])
      else check_patterns ps text score indicators)"

definition analyzeText :: "ContentVerifier \<Rightarrow> string \<Rightarrow> float64 \<times> string list" where
  "analyzeText v text0 =
     (if text0 = [] then (0, [])
      else let text = ToLower text0;
               (score, indicators) = check_patterns (spamPatterns v) text 0 [];
               wordScore = checkSpamWords v text;
               phraseScore = checkSuspiciousPhrases v text
           in (fadd (fadd score wordScore) phraseScore,
               indicators @ (if 0 < wordScore then [''Contains spam words''] else [])
                 @ (if 0 < phraseScore then [''Contains suspicious phrases''] else [])))"

section \<open>Heuristics\<close>

text \<open>Go's \<open>range\<close> over a string: the bytes of each rune, an invalid byte being a rune of its own.\<close>

definition cont :: "char \<Rightarrow> bool" where
  "cont c \<longleftrightarrow> 0x80 \<le> code c \<and> code c \<le> 0xBF"

definition rune_width :: "string \<Rightarrow> nat" where
  "rune_width s =
     (case s of
        b0 # b1 # rest \<Rightarrow>
          let c0 = code b0; c1 = code b1;
              lo = (if c0 = 0xE0 then 0xA0 else if c0 = 0xF0 then 0x90 else 0x80);
              hi = (if c0 = 0xED then 0x9F else if c0 = 0xF4 then 0x8F else 0xBF)
          in if lo \<le> c1 \<and> c1 \<le> hi then
               (if 0xC2 \<le> c0 \<and> c0 \<le> 0xDF then 2
                else if 0xE0 \<le> c0 \<and> c0 \<le> 0xEF then
                  (case rest of b2 # _ \<Rightarrow> if cont b2 then 3 else 1 | [] \<Rightarrow> 1)
                else if 0xF0 \<le> c0 \<and> c0 \<le> 0xF4 then
                  (case rest of b2 # b3 # _ \<Rightarrow> if cont b2 \<and> cont b3 then 4 else 1 | _ \<Rightarrow> 1)
                else 1)
             else 1
      | _ \<Rightarrow> 1)"

lemma rune_width_pos [simp]: "0 < rune_width s"
  by (auto simp: rune_width_def Let_def split: list.splits)

function runes :: "string \<Rightarrow> string list" where
  "runes [] = []"
| "runes (c # cs) = take (rune_width (c # cs)) (c # cs) # runes (drop (rune_width (c # cs)) (c # cs))"
  by pat_completeness auto
termination
  by (relation "measure length") auto

definition non_ascii :: "string \<Rightarrow> bool" where
  "non_ascii r \<longleftrightarrow> 127 < code (hd r)"

text \<open>The environment: message parsing (the values of each header by its canonical name) and the
  Unicode classes of runes outside ASCII.\<close>

record content_env =
  ReadMessage :: "string \<Rightarrow> (string \<Rightarrow> string list) option"
  uni_IsLetter :: "string \<Rightarrow> bool"
  uni_IsUpper :: "string \<Rightarrow> bool"

definition IsLetter :: "content_env \<Rightarrow> string \<Rightarrow> bool" where
  "IsLetter env r = (if non_ascii r then uni_IsLetter env r else is_upper (hd r) \<or> is_lower (hd r))"

definition IsUpper :: "content_env \<Rightarrow> string \<Rightarrow> bool" where
  "IsUpper env r = (if non_ascii r then uni_IsUpper env r else is_upper (hd r))"

definition hasExcessiveCapitals :: "content_env \<Rightarrow> string \<Rightarrow> bool" where
  "hasExcessiveCapitals env text =
     (if length text < 10 then False
      else let ls = filter (IsLetter env) (runes text); capitals = length (filter (IsUpper env) ls)
           in if ls = [] then False
              else f64 (1 / 2) < fdiv (of_nat capitals) (of_nat (length ls)))"

definition hasSuspiciousEncoding :: "string \<Rightarrow> bool" where
  "hasSuspiciousEncoding text =
     (if text = [] then False
      else f64 (3 / 10) < fdiv (of_nat (length (filter non_ascii (runes text)))) (of_nat (length text)))"

definition tag_re :: re where
  "tag_re = seqs [chr CHR ''<'', plus (Cls True [(62, 62)]), chr CHR ''>'']"

definition calculateHTMLRatio :: "string \<Rightarrow> float64" where
  "calculateHTMLRatio content =
     (let htmlLength = sum_list (map (\<lambda>(a, b). b - a) (find_all False tag_re content 0))
      in if content = [] then 0 else fdiv (of_nat htmlLength) (of_nat (length content)))"

definition hidden_patterns :: "re list" where
  "hidden_patterns =
     [seqs [lit ''color:'', Star blank, opt (chr CHR ''#''), lit ''ffffff''],
      seqs [lit ''color:'', Star blank, lit ''white''],
      seqs [lit ''display:'', Star blank, lit ''none''],
      seqs [lit ''visibility:'', Star blank, lit ''hidden''],
      seqs [lit ''font-size:'', Star blank, lit ''0'']]"

definition hasHiddenText :: "string \<Rightarrow> bool" where
  "hasHiddenText content = list_ex (\<lambda>p. MatchString False p (ToLower content)) hidden_patterns"

definition Header_Get :: "(string \<Rightarrow> string list) \<Rightarrow> string \<Rightarrow> string" where
  "Header_Get h key = (case h key of [] \<Rightarrow> [] | x # _ \<Rightarrow> x)"

definition hasForgedHeaders :: "(string \<Rightarrow> string list) \<Rightarrow> bool" where
  "hasForgedHeaders h = (if Header_Get h ''Message-Id'' = [] then True else Header_Get h ''Date'' = [])"

definition hasSuspiciousRouting :: "(string \<Rightarrow> string list) \<Rightarrow> bool" where
  "hasSuspiciousRouting h =
     (if h ''Received'' = [] then True
      else list_ex (\<lambda>r. Contains (ToLower r) ''unknown'' \<or> Contains (ToLower r) ''localhost'') (h ''Received''))"

definition analyzeHeaders :: "(string \<Rightarrow> string list) \<Rightarrow> float64 \<times> string list" where
  "analyzeHeaders h =
     (let (s1, i1) = (if hasForgedHeaders h then (fadd 0 (f64 (4 / 10)), [''Forged headers detected'']) else (0, []))
      in if hasSuspiciousRouting h then (fadd s1 (f64 (3 / 10)), i1 @ [''Suspicious routing'']) else (s1, i1))"

text \<open>A step of the scoring: add a weight and an indicator when a test holds.\<close>

definition add_if :: "bool \<Rightarrow> rat \<Rightarrow> string \<Rightarrow> float64 \<times> string list \<Rightarrow> float64 \<times> string list" where
  "add_if b w ind st = (if b then (fadd (fst st) (f64 w), snd st @ [ind]) else st)"

definition applyHeuristics ::
    "content_env \<Rightarrow> string \<Rightarrow> string \<Rightarrow> (string \<Rightarrow> string list) \<Rightarrow> float64 \<times> string list" where
  "applyHeuristics env subject body msg =
     (let s1 = add_if (hasExcessiveCapitals env (subject @ '' '' @ body)) (3 / 10) ''Excessive capitalization'' (0, []);
          s2 = add_if (hasSuspiciousEncoding body) (2 / 10) ''Suspicious character encoding'' s1;
          s3 = add_if (f64 (8 / 10) < calculateHTMLRatio body) (3 / 10) ''High HTML to text ratio'' s2;
          s4 = add_if (hasHiddenText body) (5 / 10) ''Hidden text detected'' s3;
          (headerScore, headerIndicators) = analyzeHeaders msg;
          s5 = (fadd (fst s4) headerScore, snd s4 @ headerIndicators)
      in add_if (length body < 50) (2 / 10) ''Very short message'' s5)"

fun Index :: "string \<Rightarrow> string \<Rightarrow> nat option" where
  "Index s p = (if HasPrefix s p then Some 0
                else case s of [] \<Rightarrow> None | _ # rest \<Rightarrow> map_option Suc (Index rest p))"

declare Index.simps [simp del]

fun splice :: "string \<Rightarrow> nat \<Rightarrow> (nat \<times> nat) list \<Rightarrow> string \<Rightarrow> string" where
  "splice s pos [] repl = drop pos s"
| "splice s pos ((a, b) # ms) repl = take (a - pos) (drop pos s) @ repl @ splice s b ms repl"

definition ReplaceAllString :: "re \<Rightarrow> string \<Rightarrow> string \<Rightarrow> string" where
  "ReplaceAllString r s repl = splice s 0 (find_all False r s 0) repl"

definition extractTextContent :: "string \<Rightarrow> string" where
  "extractTextContent content =
     (let bodyStart = (case Index content [CHR 0x0D, CHR 0x0A, CHR 0x0D, CHR 0x0A] of
                         Some i \<Rightarrow> Some (i + 4)
                       | None \<Rightarrow> map_option (\<lambda>i. i + 2) (Index content [CHR 0x0A, CHR 0x0A]))
      in case bodyStart of
           None \<Rightarrow> content
         | Some i \<Rightarrow>
             TrimSpace (ReplaceAllString (plus blank)
               (ReplaceAllString (seqs [chr CHR ''<'', Star (Cls True [(62, 62)]), chr CHR ''>'']) (drop i content) '' '') '' ''))"

definition classifyContent :: "float64 \<Rightarrow> string" where
  "classifyContent score =
     (if f64 (8 / 10) \<le> score then ''spam''
      else if f64 (5 / 10) \<le> score then ''suspicious''
      else if f64 (2 / 10) \<le> score then ''questionable''
      else ''legitimate'')"

definition ContentVerifier_Verify :: "ContentVerifier \<Rightarrow> content_env \<Rightarrow> EmailContext \<Rightarrow> ContentResult" where
  "ContentVerifier_Verify v env emailCtx =
     (case ReadMessage env (ctx_Body emailCtx) of
        None \<Rightarrow> \<lparr>content_SpamScore = f64 (5 / 10), content_SpamIndicators = [], content_Classification = ''unknown'',
                 content_Error = ''failed to parse email''\<rparr>
      | Some msg \<Rightarrow>
          let bodyText = extractTextContent (ctx_Body emailCtx);
              subject = ctx_Subject emailCtx;
              (subjectScore, subjectIndicators) = analyzeText v subject;
              t1 = fadd 0 (fmul subjectScore (f64 (15 / 10)));
              (bodyScore, bodyIndicators) = analyzeText v bodyText;
              t2 = fadd t1 bodyScore;
              (heuristicScore, heuristicIndicators) = applyHeuristics env subject bodyText msg;
              t3 = fadd t2 heuristicScore;
              finalScore = (if 1 < t3 then 1 else if t3 < 0 then 0 else t3)
          in \<lparr>content_SpamScore = finalScore,
              content_SpamIndicators = subjectIndicators @ bodyIndicators @ heuristicIndicators,
              content_Classification = classifyContent finalScore, content_Error = []\<rparr>)"

section \<open>Lemmas\<close>

lemma check_patterns_eq:
  "snd (check_patterns ps text score ind) =
   ind @ map description (filter (\<lambda>p. MatchString (fold_case p) (pattern p) text) ps)"
  by (induction ps arbitrary: score ind) auto

lemma matches_seqs_mem: "matches ci s (seqs rs) i j \<Longrightarrow> r \<in> set rs \<Longrightarrow> \<exists>a b. matches ci s r a b"
  by (induction rs arbitrary: i) (auto elim!: matches_cases)

lemma matches_at_least: "0 < n \<Longrightarrow> matches ci s (at_least n r) i j \<Longrightarrow> \<exists>a b. matches ci s r a b"
  by (auto simp: at_least_def elim!: matches_cases dest: matches_seqs_mem)

lemma no_upper_in_lowered: "\<not> matches False (ToLower t) (Cls False [(65, 90)]) i j"
proof
  assume "matches False (ToLower t) (Cls False [(65, 90)]) i j"
  then have i: "i < length t" "is_upper (ToLower t ! i)"
    by (auto elim!: matches_cases simp: in_class_def is_upper_def)
  then show False by (simp add: ToLower_def)
qed

lemma upper_run_dead: "\<not> MatchString False upper_run (ToLower t)"
  unfolding MatchString_iff upper_run_def by (metis no_upper_in_lowered matches_at_least zero_less_numeral)

lemma email_re_dead: "\<not> MatchString False email_re (ToLower t)"
proof -
  have "\<exists>a b. matches False (ToLower t) (at_least 2 (Cls False [(65, 90)])) a b"
    if "matches False (ToLower t) email_re i j" for i j
    using matches_seqs_mem [OF that [unfolded email_re_def], of "at_least 2 (Cls False [(65, 90)])"] by simp
  then show ?thesis unfolding MatchString_iff by (metis no_upper_in_lowered matches_at_least zero_less_numeral)
qed

lemma Fields_no_space: "w \<in> set (Fields s) \<Longrightarrow> list_all (\<lambda>c. \<not> is_space c) w"
proof -
  assume "w \<in> set (Fields s)"
  then have w: "w \<in> set (Split CHR '' '' (map (\<lambda>c. if is_space c then CHR '' '' else c) s))" by (simp add: Fields_def)
  have "CHR '' '' \<notin> set w" using Split_no_sep [OF w] .
  moreover have "set w \<subseteq> set (map (\<lambda>c. if is_space c then CHR '' '' else c) s)" using Split_subset [OF w] .
  ultimately show ?thesis by (fastforce simp: list_all_iff split: if_splits)
qed

lemma Contains_subset: "Contains s p \<Longrightarrow> set p \<subseteq> set s"
  by (induction s) (auto simp: HasPrefix_def dest: in_set_takeD, metis in_set_takeD set_ConsD)

lemma to_lower_space: "is_space (to_lower c) \<longleftrightarrow> is_space c"
  by (auto simp: to_lower_def is_space_def is_upper_def)

lemma trimmed_no_space:
  assumes "list_all (\<lambda>c. \<not> is_space c) w"
  shows "list_all (\<lambda>c. \<not> is_space c) (ToLower (Trim w cs))"
  using assms set_Trim [of w cs] by (auto simp: list_all_iff ToLower_def to_lower_space)

lemma analyzeText_indicators:
  "set (snd (analyzeText v text)) \<subseteq> set (snd (check_patterns (spamPatterns v) (ToLower text) 0 [])) \<union>
     {''Contains spam words'', ''Contains suspicious phrases''}"
  by (cases "check_patterns (spamPatterns v) (ToLower text) 0 []") (simp add: analyzeText_def Let_def insert_subset subset_iff)

lemma descriptions [simp]:
  "description (ci_pat r d w) = d" "description (cs_pat r d w) = d"
  by (simp_all add: ci_pat_def cs_pat_def)

lemma upper_case_entries:
  "filter (\<lambda>p. description p = ''Excessive capitals'' \<or> description p = ''Email in content'') spam_pattern_table =
   [cs_pat upper_run ''Excessive capitals'' (4 / 10), cs_pat email_re ''Email in content'' (2 / 10)]"
  by (simp add: spam_pattern_table_def)

section \<open>Properties\<close>

text \<open>
  Two entries of the pattern table are dead: the text is lower-cased before the patterns run, so the
  patterns for runs of capitals and for addresses in the content, which only accept upper-case letters,
  never match and their indicators are never reported, whatever the text.
\<close>

theorem upper_case_patterns_dead:
  "set (snd (analyzeText NewContentVerifier text)) \<inter> {''Excessive capitals'', ''Email in content''} = {}"
proof -
  have "\<not> MatchString (fold_case p) (pattern p) (ToLower text)"
    if "p \<in> set spam_pattern_table" "description p \<in> {''Excessive capitals'', ''Email in content''}" for p
  proof -
    have "p \<in> set (filter (\<lambda>p. description p = ''Excessive capitals'' \<or> description p = ''Email in content'') spam_pattern_table)"
      using that by simp
    then have "p = cs_pat upper_run ''Excessive capitals'' (4 / 10) \<or> p = cs_pat email_re ''Email in content'' (2 / 10)"
      unfolding upper_case_entries by simp
    then show ?thesis using upper_run_dead email_re_dead by (auto simp: cs_pat_def)
  qed
  then have "x \<notin> set (snd (check_patterns spam_pattern_table (ToLower text) 0 []))"
    if "x \<in> {''Excessive capitals'', ''Email in content''}" for x
    using that unfolding check_patterns_eq by auto
  moreover have "set (snd (analyzeText NewContentVerifier text)) \<subseteq>
      set (snd (check_patterns spam_pattern_table (ToLower text) 0 [])) \<union>
      {''Contains spam words'', ''Contains suspicious phrases''}"
    using analyzeText_indicators [of NewContentVerifier] by (simp add: NewContentVerifier_def)
  moreover have "{''Contains spam words'', ''Contains suspicious phrases''} \<inter>
      {''Excessive capitals'', ''Email in content''} = {}" by simp
  ultimately show ?thesis by blast
qed

text \<open>
  Entries of the spam word list that contain a blank never count: the text is split at blanks first,
  so the word score is the one of the list without them.
\<close>

theorem multi_word_entries_dead:
  "checkSpamWords v text = checkSpamWords (v\<lparr>spamWords := filter (list_all (\<lambda>c. \<not> is_space c)) (spamWords v)\<rparr>) text"
proof -
  have "is_spam_word v w = is_spam_word (v\<lparr>spamWords := filter (list_all (\<lambda>c. \<not> is_space c)) (spamWords v)\<rparr>) w"
    if "w \<in> set (Fields text)" for w
    using trimmed_no_space [OF Fields_no_space [OF that], of word_trim_set] Contains_subset
    by (fastforce simp: is_spam_word_def list_ex_iff list_all_iff)
  then have "filter (is_spam_word v) (Fields text) =
      filter (is_spam_word (v\<lparr>spamWords := filter (list_all (\<lambda>c. \<not> is_space c)) (spamWords v)\<rparr>)) (Fields text)"
    by (intro filter_cong) auto
  then show ?thesis by (simp add: checkSpamWords_def Let_def)
qed

lemma content_score_range:
  "0 \<le> content_SpamScore (ContentVerifier_Verify v env e) \<and> content_SpamScore (ContentVerifier_Verify v env e) \<le> 1"
proof -
  have "f64 (5 / 10) \<le> f64 (of_nat 1)" by (rule f64_mono) simp
  then have "f64 (1 / 2) \<le> 1" using f64_of_nat [of 1] by simp
  then show ?thesis by (auto simp: ContentVerifier_Verify_def Let_def split: option.splits prod.splits)
qed

end
