(* ===== verification/Verifier.thy ===== *)
theory Verifier
  imports DMARC Reputation ContentFilter
begin

text \<open>
  The coordinator of the inbound checks (\<open>app/smtp/verification/verifier.go\<close>): it runs the enabled
  checks, adds up a risk score in \<open>float64\<close> arithmetic and turns it into an action.
\<close>

section \<open>Definitions\<close>

text \<open>What lies outside the program, in one record: address parsing, the resolver, the two lookups of
  \<open>go-msgauth\<close>, message parsing with the Unicode tables, and the clock.\<close>

record verify_env =
  env_ParseAddress :: "string \<Rightarrow> string option"
  env_Exchange :: DNSExchanger
  env_DMARCLookup :: dmarc_lookup
  env_DKIMVerify :: "string \<Rightarrow> dkim_Verification list \<times> string option"
  env_Content :: content_env
  env_Now :: instant

text \<open>An addition to the risk score; the weight 0 stands for a \<open>switch\<close> without a matching case.\<close>

definition bump :: "rat \<Rightarrow> float64 \<Rightarrow> float64" where
  "bump w r = (if w = 0 then r else fadd r (f64 w))"

fun spf_weight :: "SPFStatus \<Rightarrow> rat" where
  "spf_weight SPFFail = 3 / 10"
| "spf_weight SPFSoftFail = 1 / 10"
| "spf_weight SPFTempError = 5 / 100"
| "spf_weight SPFPermError = 5 / 100"
| "spf_weight _ = 0"

fun dmarc_weight :: "DMARCStatus \<Rightarrow> rat" where
  "dmarc_weight DMARCFail = 4 / 10"
| "dmarc_weight DMARCTempError = 1 / 10"
| "dmarc_weight DMARCPermError = 1 / 10"
| "dmarc_weight _ = 0"

fun ip_weight :: "IPReputationStatus \<Rightarrow> rat" where
  "ip_weight IPReputationBad = 5 / 10"
| "ip_weight IPReputationSuspicious = 2 / 10"
| "ip_weight _ = 0"

fun domain_weight :: "DomainReputationStatus \<Rightarrow> rat" where
  "domain_weight DomainReputationBad = 4 / 10"
| "domain_weight DomainReputationSuspicious = 15 / 100"
| "domain_weight _ = 0"

definition dkim_weight :: "VerificationConfig \<Rightarrow> bool \<Rightarrow> rat" where
  "dkim_weight cfg valid = (if EnableDKIM cfg \<and> \<not> valid then 2 / 10 else 0)"

definition riskScore :: "VerificationConfig \<Rightarrow> VerificationResult \<Rightarrow> float64" where
  "riskScore cfg result =
     (let r1 = bump (spf_weight (spf_Result (vr_SPF result))) 0;
          r2 = bump (dkim_weight cfg (dkim_Valid (vr_DKIM result))) r1;
          r3 = bump (dmarc_weight (dmarc_Result (vr_DMARC result))) r2;
          r4 = bump (ip_weight (rep_IPReputation (vr_Reputation result))) r3;
          r5 = bump (domain_weight (rep_DomainReputation (vr_Reputation result))) r4;
          r6 = fadd r5 (fmul (fsub 1 (rep_Score (vr_Reputation result))) (f64 (3 / 10)));
          r7 = (if EnableContent cfg then fadd r6 (fmul (content_SpamScore (vr_Content result)) (f64 (4 / 10))) else r6);
          n = length (rep_Blacklisted (vr_Reputation result))
      in if 0 < n then fadd r7 (fmul (of_nat n) (f64 (2 / 10))) else r7)"

definition hard_reject :: "VerificationConfig \<Rightarrow> VerificationResult \<Rightarrow> bool" where
  "hard_reject cfg result \<longleftrightarrow> RejectOnFail cfg \<and>
     (spf_Result (vr_SPF result) = SPFFail \<or>
      (dmarc_Result (vr_DMARC result) = DMARCFail \<and> dmarc_Policy (vr_DMARC result) = ''reject'') \<or>
      3 \<le> length (rep_Blacklisted (vr_Reputation result)))"

definition riskScoreToAction :: "VerificationConfig \<Rightarrow> float64 \<Rightarrow> VerificationResult \<Rightarrow> Action" where
  "riskScoreToAction cfg risk result =
     (if hard_reject cfg result then ActionReject
      else if SpamThreshold cfg \<le> risk then
        (if QuarantineMode cfg then ActionQuarantine
         else if RejectOnFail cfg then ActionReject
         else ActionQuarantine)
      else if f64 (5 / 10) \<le> risk then ActionQuarantine
      else if spf_Result (vr_SPF result) = SPFTempError \<or> dmarc_Result (vr_DMARC result) = DMARCTempError \<or>
              rep_Error (vr_Reputation result) \<noteq> [] then ActionTempFail
      else ActionAccept)"

definition determineAction :: "VerificationConfig \<Rightarrow> VerificationResult \<Rightarrow> Action" where
  "determineAction cfg result = riskScoreToAction cfg (riskScore cfg result) result"

text \<open>The checks, in their order, before the action is determined.\<close>

definition run_checks :: "VerificationConfig \<Rightarrow> verify_env \<Rightarrow> EmailContext \<Rightarrow> VerificationResult" where
  "run_checks cfg env emailCtx =
     (let pa = env_ParseAddress env; ex = env_Exchange env;
          spf = (if EnableSPF cfg then SPFVerifier_Verify pa ex emailCtx else spf_result SPFNone);
          dkim = (if EnableDKIM cfg then DKIMVerifier_Verify (env_DKIMVerify env) emailCtx
                  else \<lparr>dkim_Results = [], dkim_Valid = False, dkim_Error = []\<rparr>);
          dmarc = (if EnableDMARC cfg then DMARCVerifier_Verify pa (env_DMARCLookup env) ex emailCtx spf dkim
                   else dmarc_result DMARCNone []);
          rep = (if EnableReputation cfg then ReputationVerifier_Verify pa ex ip_blacklists emailCtx
                 else \<lparr>rep_IPReputation = IPReputationUnknown, rep_DomainReputation = DomainReputationUnknown,
                       rep_Blacklisted = [], rep_Score = f64 (5 / 10), rep_Error = []\<rparr>);
          content = (if EnableContent cfg then ContentVerifier_Verify NewContentVerifier (env_Content env) emailCtx
                     else \<lparr>content_SpamScore = 0, content_SpamIndicators = [], content_Classification = ''not_checked'',
                           content_Error = []\<rparr>)
      in \<lparr>vr_SPF = spf, vr_DKIM = dkim, vr_DMARC = dmarc, vr_Reputation = rep, vr_Content = content,
          vr_Action = ActionAccept, vr_Timestamp = env_Now env\<rparr>)"

definition VerifyEmail :: "VerificationConfig \<Rightarrow> verify_env \<Rightarrow> EmailContext \<Rightarrow> VerificationResult" where
  "VerifyEmail cfg env emailCtx =
     (let result = run_checks cfg env emailCtx in result\<lparr>vr_Action := determineAction cfg result\<rparr>)"

definition spf_summary :: "SPFStatus \<Rightarrow> string" where
  "spf_summary s =
     (case s of
        SPFPass \<Rightarrow> ''SPF: PASS''
      | SPFFail \<Rightarrow> ''SPF: FAIL''
      | SPFSoftFail \<Rightarrow> ''SPF: SOFTFAIL''
      | SPFNone \<Rightarrow> ''SPF: NONE''
      | _ \<Rightarrow> ''SPF: '' @ SPFStatus_String s)"

definition GetVerificationSummary :: "VerificationResult \<Rightarrow> string" where
  "GetVerificationSummary result =
     spf_summary (spf_Result (vr_SPF result))
     @ (if dkim_Valid (vr_DKIM result) then '', DKIM: PASS'' else '', DKIM: FAIL'')
     @ '', DMARC: '' @ DMARCStatus_String (dmarc_Result (vr_DMARC result))
     @ (if rep_Blacklisted (vr_Reputation result) \<noteq> [] then '', BLACKLISTED'' else [])
     @ (if f64 (7 / 10) \<le> content_SpamScore (vr_Content result) then '', HIGH SPAM SCORE'' else [])
     @ '' -> '' @ Action_String (vr_Action result)"

definition IsSpam :: "VerificationResult \<Rightarrow> bool" where
  "IsSpam result \<longleftrightarrow> vr_Action result = ActionReject \<or> vr_Action result = ActionQuarantine"

definition ShouldAccept :: "VerificationResult \<Rightarrow> bool" where
  "ShouldAccept result \<longleftrightarrow> vr_Action result = ActionAccept"

definition ShouldReject :: "VerificationResult \<Rightarrow> bool" where
  "ShouldReject result \<longleftrightarrow> vr_Action result = ActionReject"

section \<open>Lemmas\<close>

lemma weights_nonneg [simp]:
  "0 \<le> spf_weight s" "0 \<le> dmarc_weight d" "0 \<le> ip_weight i" "0 \<le> domain_weight m" "0 \<le> dkim_weight cfg b"
  subgoal by (cases s) simp_all
  subgoal by (cases d) simp_all
  subgoal by (cases i) simp_all
  subgoal by (cases m) simp_all
  subgoal by (simp add: dkim_weight_def)
  done

lemma bump_f64: "f64 r = r \<Longrightarrow> f64 (bump w r) = bump w r"
  by (simp add: bump_def)

lemma bump_mono: "0 \<le> w \<Longrightarrow> w \<le> w' \<Longrightarrow> r \<le> r' \<Longrightarrow> f64 r' = r' \<Longrightarrow> bump w r \<le> bump w' r'"
  using fadd_increasing [of r' "f64 w'"] by (auto simp: bump_def intro!: fadd_mono f64_mono)

text \<open>One verification outcome is at least as bad as another: every finding weighs at least as much.\<close>

definition at_least_as_bad :: "VerificationResult \<Rightarrow> VerificationResult \<Rightarrow> bool" where
  "at_least_as_bad r r' \<longleftrightarrow>
     spf_weight (spf_Result (vr_SPF r)) \<le> spf_weight (spf_Result (vr_SPF r')) \<and>
     (dkim_Valid (vr_DKIM r') \<longrightarrow> dkim_Valid (vr_DKIM r)) \<and>
     dmarc_weight (dmarc_Result (vr_DMARC r)) \<le> dmarc_weight (dmarc_Result (vr_DMARC r')) \<and>
     dmarc_Policy (vr_DMARC r) = dmarc_Policy (vr_DMARC r') \<and>
     ip_weight (rep_IPReputation (vr_Reputation r)) \<le> ip_weight (rep_IPReputation (vr_Reputation r')) \<and>
     domain_weight (rep_DomainReputation (vr_Reputation r)) \<le> domain_weight (rep_DomainReputation (vr_Reputation r')) \<and>
     rep_Score (vr_Reputation r') \<le> rep_Score (vr_Reputation r) \<and>
     content_SpamScore (vr_Content r) \<le> content_SpamScore (vr_Content r') \<and>
     length (rep_Blacklisted (vr_Reputation r)) \<le> length (rep_Blacklisted (vr_Reputation r'))"

lemma riskScore_mono:
  assumes "at_least_as_bad r r'"
  shows "riskScore cfg r \<le> riskScore cfg r'"
proof -
  note b = assms [unfolded at_least_as_bad_def]
  define r2 where "r2 v = bump (dkim_weight cfg (dkim_Valid (vr_DKIM v))) (bump (spf_weight (spf_Result (vr_SPF v))) 0)"
    for v :: VerificationResult
  define r5 where "r5 v = bump (domain_weight (rep_DomainReputation (vr_Reputation v)))
      (bump (ip_weight (rep_IPReputation (vr_Reputation v))) (bump (dmarc_weight (dmarc_Result (vr_DMARC v))) (r2 v)))"
    for v :: VerificationResult
  define r7 where "r7 v = (let r6 = fadd (r5 v) (fmul (fsub 1 (rep_Score (vr_Reputation v))) (f64 (3 / 10)))
      in if EnableContent cfg then fadd r6 (fmul (content_SpamScore (vr_Content v)) (f64 (4 / 10))) else r6)"
    for v :: VerificationResult
  have f: "f64 (r2 v) = r2 v" "f64 (r7 v) = r7 v" for v by (simp_all add: r2_def r7_def Let_def bump_f64)
  have "r2 r \<le> r2 r'" unfolding r2_def using b by (intro bump_mono) (auto simp: dkim_weight_def bump_f64)
  then have "r5 r \<le> r5 r'" unfolding r5_def using b by (intro bump_mono) (auto simp: bump_f64 f)
  then have 7: "r7 r \<le> r7 r'" unfolding r7_def Let_def using b
    by (auto intro!: fadd_mono fmul_mono fsub_antimono)
  have "riskScore cfg v = (let n = length (rep_Blacklisted (vr_Reputation v))
      in if 0 < n then fadd (r7 v) (fmul (of_nat n) (f64 (2 / 10))) else r7 v)" for v
    by (simp add: riskScore_def r7_def r5_def r2_def Let_def)
  moreover have "r7 r' \<le> fadd (r7 r') (fmul (of_nat n) (f64 (2 / 10)))" for n
    by (intro fadd_increasing f) simp
  ultimately show ?thesis using 7 b by (auto simp: Let_def intro!: fadd_mono fmul_mono intro: order_trans)
qed

lemma spf_fail_max: "spf_weight SPFFail \<le> spf_weight s \<Longrightarrow> s = SPFFail"
  by (cases s) auto

lemma dmarc_fail_max: "dmarc_weight DMARCFail \<le> dmarc_weight s \<Longrightarrow> s = DMARCFail"
  by (cases s) auto

lemma hard_reject_mono: "at_least_as_bad r r' \<Longrightarrow> hard_reject cfg r \<Longrightarrow> hard_reject cfg r'"
proof -
  assume b: "at_least_as_bad r r'" and h: "hard_reject cfg r"
  have "spf_Result (vr_SPF r) = SPFFail \<Longrightarrow> spf_Result (vr_SPF r') = SPFFail"
    using b by (intro spf_fail_max) (simp add: at_least_as_bad_def)
  moreover have "dmarc_Result (vr_DMARC r) = DMARCFail \<Longrightarrow> dmarc_Result (vr_DMARC r') = DMARCFail"
    using b by (intro dmarc_fail_max) (simp add: at_least_as_bad_def)
  moreover have "dmarc_Policy (vr_DMARC r) = dmarc_Policy (vr_DMARC r')"
    "length (rep_Blacklisted (vr_Reputation r)) \<le> length (rep_Blacklisted (vr_Reputation r'))"
    using b by (simp_all add: at_least_as_bad_def)
  ultimately show ?thesis using h unfolding hard_reject_def by auto
qed

lemma spam_action_iff:
  "riskScoreToAction cfg risk r \<in> {ActionReject, ActionQuarantine} \<longleftrightarrow>
   hard_reject cfg r \<or> SpamThreshold cfg \<le> risk \<or> f64 (5 / 10) \<le> risk"
  by (auto simp: riskScoreToAction_def)

lemma VerifyEmail_Action: "vr_Action (VerifyEmail cfg env e) = determineAction cfg (VerifyEmail cfg env e)"
proof -
  have upd: "vr_SPF (r\<lparr>vr_Action := a\<rparr>) = vr_SPF r" "vr_DKIM (r\<lparr>vr_Action := a\<rparr>) = vr_DKIM r"
    "vr_DMARC (r\<lparr>vr_Action := a\<rparr>) = vr_DMARC r" "vr_Reputation (r\<lparr>vr_Action := a\<rparr>) = vr_Reputation r"
    "vr_Content (r\<lparr>vr_Action := a\<rparr>) = vr_Content r" for r :: VerificationResult and a by simp_all
  have "riskScore cfg (r\<lparr>vr_Action := a\<rparr>) = riskScore cfg r" "hard_reject cfg (r\<lparr>vr_Action := a\<rparr>) = hard_reject cfg r"
    "riskScoreToAction cfg x (r\<lparr>vr_Action := a\<rparr>) = riskScoreToAction cfg x r"
    for r :: VerificationResult and a x
    by (simp_all only: riskScore_def riskScoreToAction_def hard_reject_def upd)
  then have "determineAction cfg (r\<lparr>vr_Action := a\<rparr>) = determineAction cfg r" for r :: VerificationResult and a
    by (simp only: determineAction_def)
  then show ?thesis by (simp add: VerifyEmail_def Let_def)
qed

lemma VerifyEmail_fields:
  "vr_SPF (VerifyEmail cfg env e) = (if EnableSPF cfg
     then SPFVerifier_Verify (env_ParseAddress env) (env_Exchange env) e else spf_result SPFNone)"
  "vr_DKIM (VerifyEmail cfg env e) = (if EnableDKIM cfg then DKIMVerifier_Verify (env_DKIMVerify env) e
     else \<lparr>dkim_Results = [], dkim_Valid = False, dkim_Error = []\<rparr>)"
  "vr_DMARC (VerifyEmail cfg env e) = (if EnableDMARC cfg
     then DMARCVerifier_Verify (env_ParseAddress env) (env_DMARCLookup env) (env_Exchange env) e
       (vr_SPF (VerifyEmail cfg env e)) (vr_DKIM (VerifyEmail cfg env e))
     else dmarc_result DMARCNone [])"
  by (simp_all add: VerifyEmail_def run_checks_def Let_def)

lemma VerifyEmail_ranges:
  "rep_Score (vr_Reputation (VerifyEmail cfg env e)) \<le> 1" "0 \<le> content_SpamScore (vr_Content (VerifyEmail cfg env e))"
proof -
  have "f64 (1 / 2) \<le> f64 (of_nat 1)" by (rule f64_mono) simp
  then have "f64 (1 / 2) \<le> 1" using f64_of_nat [of 1] by simp
  then show "rep_Score (vr_Reputation (VerifyEmail cfg env e)) \<le> 1"
    using score_range by (simp add: VerifyEmail_def run_checks_def Let_def)
  show "0 \<le> content_SpamScore (vr_Content (VerifyEmail cfg env e))"
    using content_score_range by (simp add: VerifyEmail_def run_checks_def Let_def)
qed

text \<open>The mildest outcome in which both SPF and DMARC fail.\<close>

definition both_fail :: VerificationResult where
  "both_fail =
   \<lparr>vr_SPF = spf_result SPFFail, vr_DKIM = \<lparr>dkim_Results = [], dkim_Valid = True, dkim_Error = []\<rparr>,
    vr_DMARC = dmarc_result DMARCFail [],
    vr_Reputation = \<lparr>rep_IPReputation = IPReputationGood, rep_DomainReputation = DomainReputationGood,
      rep_Blacklisted = [], rep_Score = 1, rep_Error = []\<rparr>,
    vr_Content = \<lparr>content_SpamScore = 0, content_SpamIndicators = [], content_Classification = [], content_Error = []\<rparr>,
    vr_Action = ActionAccept, vr_Timestamp = 0\<rparr>"

lemma both_fail_risk: "f64 (5 / 10) \<le> riskScore cfg both_fail"
proof -
  have "f64 (5 / 10) \<le> fadd (fadd 0 (f64 (3 / 10))) (f64 (4 / 10))" by code_simp
  moreover have "fadd (fadd a b) 0 = fadd a b" for a b by (simp add: fadd_def)
  ultimately show ?thesis
    by (simp add: riskScore_def both_fail_def Let_def bump_def dkim_weight_def spf_result_def dmarc_result_def fmul_def fsub_def)
qed

section \<open>Properties\<close>

text \<open>
  C40: The verdict is monotone in the evidence, in spite of rounding: when every finding of one outcome
  weighs at least as much as in another and the other is treated as spam (quarantined or rejected), so
  is the first.
\<close>

theorem spam_monotone:
  assumes "at_least_as_bad r r'" and "determineAction cfg r \<in> {ActionReject, ActionQuarantine}"
  shows "determineAction cfg r' \<in> {ActionReject, ActionQuarantine}"
  using assms riskScore_mono [OF assms(1), of cfg] hard_reject_mono [OF assms(1), of cfg]
  unfolding determineAction_def spam_action_iff by (meson order_trans)

theorem spam_monotone_witness:
  "determineAction DefaultConfig
     (both_fail\<lparr>vr_DKIM := \<lparr>dkim_Results = [], dkim_Valid = False, dkim_Error = []\<rparr>\<rparr>) \<in> {ActionReject, ActionQuarantine}"
  by (rule spam_monotone [where r = both_fail]) (simp add: at_least_as_bad_def both_fail_def, code_simp)

text \<open>
  C39: A message that fails both SPF and DMARC is never accepted nor deferred: under every configuration,
  with every threshold and whatever the other checks say, it is quarantined or rejected.
\<close>

theorem spf_dmarc_fail_is_spam:
  assumes "spf_Result (vr_SPF (VerifyEmail cfg env e)) = SPFFail"
    and "dmarc_Result (vr_DMARC (VerifyEmail cfg env e)) = DMARCFail"
  shows "IsSpam (VerifyEmail cfg env e)"
proof -
  let ?r = "VerifyEmail cfg env e"
  let ?b = "both_fail\<lparr>vr_DMARC := (vr_DMARC both_fail)\<lparr>dmarc_Policy := dmarc_Policy (vr_DMARC ?r)\<rparr>\<rparr>"
  have "at_least_as_bad ?b ?r"
    using assms VerifyEmail_ranges [of cfg env e]
    by (simp add: at_least_as_bad_def both_fail_def spf_result_def dmarc_result_def)
  then have "riskScore cfg ?b \<le> riskScore cfg ?r" by (rule riskScore_mono)
  moreover have "riskScore cfg ?b = riskScore cfg both_fail"
    by (simp add: riskScore_def both_fail_def dmarc_result_def Let_def)
  ultimately have "f64 (5 / 10) \<le> riskScore cfg ?r" using both_fail_risk [of cfg] by linarith
  then have "determineAction cfg ?r \<in> {ActionReject, ActionQuarantine}"
    unfolding determineAction_def spam_action_iff by blast
  then show ?thesis using VerifyEmail_Action [of cfg env e] by (auto simp: IsSpam_def)
qed

definition sample_env :: verify_env where
  "sample_env =
   \<lparr>env_ParseAddress = (\<lambda>_. None), env_Exchange = txt_zone [(''b.org'', ''v=spf1 ip4:192.0.2.0/25 -all'')],
    env_DMARCLookup = (\<lambda>_ _. Inr (Some sample_policy)), env_DKIMVerify = (\<lambda>_. ([], None)),
    env_Content = \<lparr>ReadMessage = (\<lambda>_. None), uni_IsLetter = (\<lambda>_. False), uni_IsUpper = (\<lambda>_. False)\<rparr>, env_Now = 0\<rparr>"

theorem spf_dmarc_fail_is_spam_witness:
  "IsSpam (VerifyEmail DefaultConfig sample_env (mail_from ''a@b.org'' [192, 0, 2, 200]))"
proof -
  let ?e = "mail_from ''a@b.org'' [192, 0, 2, 200]"
  have cfg: "EnableSPF DefaultConfig" "EnableDKIM DefaultConfig" "EnableDMARC DefaultConfig" by (simp_all add: DefaultConfig_def)
  have s: "spf_Result (vr_SPF (VerifyEmail DefaultConfig sample_env ?e)) = SPFFail"
    unfolding VerifyEmail_fields if_P [OF cfg(1)] by code_simp
  have "dmarc_Result (vr_DMARC (VerifyEmail DefaultConfig sample_env ?e)) = DMARCFail"
    unfolding VerifyEmail_fields if_P [OF cfg(1)] if_P [OF cfg(2)] if_P [OF cfg(3)] by code_simp
  with s show ?thesis by (rule spf_dmarc_fail_is_spam)
qed

text \<open>
  A message is rejected exactly when rejection is configured and it fails SPF, or fails DMARC under a
  reject policy, or its sender is on three blacklists, or it reaches the spam threshold while quarantine
  mode is off. In particular nothing is ever rejected under the default configuration.
\<close>

theorem reject_iff:
  "ShouldReject (VerifyEmail cfg env e) \<longleftrightarrow>
   RejectOnFail cfg \<and>
   (let r = VerifyEmail cfg env e
    in spf_Result (vr_SPF r) = SPFFail \<or>
       (dmarc_Result (vr_DMARC r) = DMARCFail \<and> dmarc_Policy (vr_DMARC r) = ''reject'') \<or>
       3 \<le> length (rep_Blacklisted (vr_Reputation r)) \<or>
       (SpamThreshold cfg \<le> riskScore cfg r \<and> \<not> QuarantineMode cfg))"
  unfolding ShouldReject_def VerifyEmail_Action [of cfg env e] determineAction_def
  by (auto simp: riskScoreToAction_def hard_reject_def Let_def)

text \<open>
  Only the DNS failures of the SPF and DMARC checks defer a message: the verifier asks for a temporary
  failure only if one of them reported a temporary error. Failures of the reputation lookups never do,
  since that check never reports an error.
\<close>

theorem tempfail_cause:
  assumes "vr_Action (VerifyEmail cfg env e) = ActionTempFail"
  shows "spf_Result (vr_SPF (VerifyEmail cfg env e)) = SPFTempError \<or>
    dmarc_Result (vr_DMARC (VerifyEmail cfg env e)) = DMARCTempError"
proof -
  have "rep_Error (vr_Reputation (VerifyEmail cfg env e)) = []"
    using reputation_no_error by (simp add: VerifyEmail_def run_checks_def Let_def)
  then show ?thesis using assms unfolding VerifyEmail_Action [of cfg env e] determineAction_def
    by (auto simp: riskScoreToAction_def split: if_splits)
qed

theorem tempfail_cause_witness:
  "spf_Result (vr_SPF (VerifyEmail (DefaultConfig\<lparr>EnableDKIM := False, EnableDMARC := False, EnableReputation := False,
       EnableContent := False\<rparr>)
     (sample_env\<lparr>env_Exchange := (\<lambda>_ _. Inl ''i/o timeout'')\<rparr>) (mail_from ''a@b.org'' [192, 0, 2, 200]))) = SPFTempError"
proof -
  let ?r = "VerifyEmail (DefaultConfig\<lparr>EnableDKIM := False, EnableDMARC := False, EnableReputation := False,
       EnableContent := False\<rparr>)
     (sample_env\<lparr>env_Exchange := (\<lambda>_ _. Inl ''i/o timeout'')\<rparr>) (mail_from ''a@b.org'' [192, 0, 2, 200])"
  have "vr_Action ?r = ActionTempFail" by code_simp
  from tempfail_cause [OF this] show ?thesis by (simp add: VerifyEmail_fields dmarc_result_def)
qed

end
