(* ===== verification/SMTPSession.thy ===== *)
theory SMTPSession
  imports MailAccess DomainUseCase Serialization Verifier
begin

text \<open>
  Receiving mail: the SMTP session (\<open>app/smtp/session.go\<close>) and the record of a verification
  (\<open>domain/smtp_stats/usecase.go\<close>).

  The session keeps the envelope. \<open>Data\<close> runs \<open>processEmail\<close> for every recipient: find the domain, verify the
  message, find or create the mailbox, encrypt for the domain's key, store. The model composes the definitions
  of those parts (address parsing, domain use case, verifier, mail use case, encryption) as the code does. What the code reads
  from outside for one recipient (the clock, random bytes, ids, the world the verifier asks) is an argument;
  metrics and logging are left out. The two counters the session updates in goroutines are tasks of the state.
\<close>

section \<open>The address of the peer\<close>

definition SplitHostPort :: "string \<Rightarrow> (string \<times> string) option" where
  "SplitHostPort hp =
     (case LastIndexByte hp CHR '':'' of
        None \<Rightarrow> None
      | Some i \<Rightarrow>
          (if HasPrefix hp ''['' then
             (case IndexByte hp CHR '']'' of
                None \<Rightarrow> None
              | Some e \<Rightarrow>
                  if e + 1 \<noteq> i \<or> CHR ''['' \<in> set (drop 1 hp) \<or> CHR '']'' \<in> set (drop (e + 1) hp) then None
                  else Some (drop 1 (take e hp), drop (i + 1) hp))
           else
             (let host = take i hp in
              if CHR '':'' \<in> set host \<or> CHR ''['' \<in> set hp \<or> CHR '']'' \<in> set hp then None
              else Some (host, drop (i + 1) hp))))"

definition ParseIP :: "string \<Rightarrow> ip option" where
  "ParseIP s =
     (case find (\<lambda>c. c = CHR ''.'' \<or> c = CHR '':'' \<or> c = CHR ''%'') s of
        None \<Rightarrow> None
      | Some c \<Rightarrow>
          if c = CHR ''.'' then map_option ((@) v4InV6Prefix) (parse_ipv4 s)
          else if c = CHR '':'' then parse_ipv6 s
          else None)"

section \<open>State of a session\<close>

text \<open>\<open>ss_remote\<close> is the text of the peer's address, \<open>None\<close> without a connection.\<close>

record Session =
  ss_from :: string
  ss_to :: "string list"
  ss_remote :: "string option"

definition NewSession :: "string option \<Rightarrow> Session" where
  "NewSession remote = \<lparr>ss_from = [], ss_to = [], ss_remote = remote\<rparr>"

definition AuthPlain :: "string \<Rightarrow> string \<Rightarrow> Session \<Rightarrow> bool" where
  "AuthPlain username password ss = True"

definition Session_Mail :: "string \<Rightarrow> Session \<Rightarrow> Session" where
  "Session_Mail from ss = ss\<lparr>ss_from := from\<rparr>"

definition Session_Rcpt :: "string \<Rightarrow> Session \<Rightarrow> Session" where
  "Session_Rcpt to ss = ss\<lparr>ss_to := ss_to ss @ [to]\<rparr>"

definition Session_Reset :: "Session \<Rightarrow> Session" where
  "Session_Reset ss = ss\<lparr>ss_from := [], ss_to := []\<rparr>"

definition getSenderIP :: "Session \<Rightarrow> ip option" where
  "getSenderIP ss =
     (case ss_remote ss of
        None \<Rightarrow> None
      | Some addrStr \<Rightarrow>
          (case SplitHostPort addrStr of
             Some (host, _) \<Rightarrow> ParseIP host
           | None \<Rightarrow> ParseIP addrStr))"

section \<open>The message text\<close>

text \<open>The loops over the header lines, which stop at the first empty one.\<close>

fun header_fields :: "string list \<Rightarrow> string \<Rightarrow> string \<Rightarrow> string \<times> string" where
  "header_fields [] subject from = (subject, from)"
| "header_fields (l # ls) subject from =
     (let line = TrimSpace l in
      if line = [] then (subject, from)
      else if HasPrefix (ToLower line) ''subject:'' then header_fields ls (TrimSpace (drop 8 line)) from
      else if HasPrefix (ToLower line) ''from:'' then header_fields ls subject (TrimSpace (drop 5 line))
      else header_fields ls subject from)"

definition parseEmailHeaders :: "string \<Rightarrow> string \<times> string" where
  "parseEmailHeaders body =
     (let (subject, from) = header_fields (Split CHR 0x0A body) [] []
      in (if subject = [] then ''(No Subject)'' else subject, if from = [] then ''(Unknown Sender)'' else from))"

fun header_lines :: "string list \<Rightarrow> Header list" where
  "header_lines [] = []"
| "header_lines (l # ls) =
     (let line = TrimSpace l in
      if line = [] then []
      else case IndexByte line CHR '':'' of
        None \<Rightarrow> header_lines ls
      | Some i \<Rightarrow> \<lparr>hdr_Name = TrimSpace (take i line), hdr_Value = TrimSpace (drop (i + 1) line)\<rparr> # header_lines ls)"

definition extractHeaders :: "string \<Rightarrow> Header list" where
  "extractHeaders body = header_lines (Split CHR 0x0A body)"

abbreviation crlf :: string where
  "crlf \<equiv> [CHR 0x0D, CHR 0x0A]"

definition prependHeader :: "string \<Rightarrow> string \<Rightarrow> string" where
  "prependHeader body headerLine =
     (let h = (if HasSuffix headerLine crlf then headerLine else headerLine @ crlf)
      in if Contains body (crlf @ crlf) then h @ body
         else if Contains body [CHR 0x0A, CHR 0x0A] then h @ body
         else h @ body)"

definition encryptEmailBody ::
    "crypto \<Rightarrow> string option \<Rightarrow> string option \<Rightarrow> string \<Rightarrow> string \<Rightarrow> enc_error + string" where
  "encryptEmailBody c rnd_key rnd_nonce body domainPublicKey =
     (case ParsePublicKey domainPublicKey of
        Inl e \<Rightarrow> Inl e
      | Inr publicKeyBytes \<Rightarrow>
          (case Encrypt c rnd_key rnd_nonce body publicKeyBytes of
             Inl e \<Rightarrow> Inl e
           | Inr encryptedData \<Rightarrow> Inr (Serialize encryptedData)))"

section \<open>Processing a message\<close>

datatype smtp_error = SMTPError nat string | UseCaseError mail_uc_error

text \<open>What is read from outside for one recipient.\<close>

record email_draw =
  em_env :: verify_env
  em_received :: instant
  em_addr_id :: uuid
  em_addr_created :: instant
  em_addr_updated :: instant
  em_key :: "string option"
  em_nonce :: "string option"
  em_mail_id :: uuid
  em_stored :: instant

record 'st backend =
  be_repos :: "'st mail_repos"
  be_crypto :: crypto
  be_config :: VerificationConfig
  be_authres :: "string \<Rightarrow> authres_Result list \<Rightarrow> string"

definition email_context :: "email_draw \<Rightarrow> Session \<Rightarrow> string \<Rightarrow> string \<Rightarrow> EmailContext" where
  "email_context dr ss recipient body =
     (let (subject, fromAddr) = parseEmailHeaders body
      in \<lparr>ctx_From = fromAddr, ctx_To = [recipient], ctx_Subject = subject, ctx_Body = body, ctx_Headers = extractHeaders body,
          ctx_SenderIP = getSenderIP ss, ctx_ReceivedAt = em_received dr\<rparr>)"

text \<open>Find the mailbox, or create it where the domain allows that.\<close>

definition find_mailbox ::
    "'st backend \<Rightarrow> email_draw \<Rightarrow> string \<Rightarrow> string \<Rightarrow> Domain \<Rightarrow> 'st mail_uc \<Rightarrow> (smtp_error + EmailAddress \<times> bool) \<times> 'st mail_uc" where
  "find_mailbox be dr recipient localPart domain s =
     (case GetEmailAddressByAddress (be_repos be) recipient s of
        (Inr a, s1) \<Rightarrow> (Inr (a, False), s1)
      | (Inl _, s1) \<Rightarrow>
          if \<not> d_AutoCreateAddress domain then (Inl (SMTPError 550 ''Email address not found''), s1)
          else
            let a = \<lparr>ea_ID = em_addr_id dr, ea_DomainID = d_ID domain, ea_LocalPart = localPart, ea_ForwardAddresses = [],
                     ea_ForwardingEnabled = False, ea_CreatedAt = em_addr_created dr, ea_UpdatedAt = em_addr_updated dr\<rparr>
            in case CreateEmailAddress (be_repos be) a s1 of
                 (Some _, s2) \<Rightarrow> (Inl (SMTPError 451 ''Temporary failure creating email address''), s2)
               | (None, s2) \<Rightarrow> (Inr (a, True), s2))"

text \<open>Encrypt and store; then the counters.\<close>

definition store_message ::
    "'st backend \<Rightarrow> email_draw \<Rightarrow> Session \<Rightarrow> EmailContext \<Rightarrow> VerificationResult \<Rightarrow> Domain \<Rightarrow> EmailAddress \<Rightarrow> bool \<Rightarrow> 'st mail_uc
      \<Rightarrow> smtp_error option \<times> 'st mail_uc" where
  "store_message be dr ss ctx vr domain a autoCreated s =
     (let body = prependHeader (ctx_Body ctx) (BuildAuthResultsHeader (be_authres be) ''mailvault'' ctx vr) in
      case encryptEmailBody (be_crypto be) (em_key dr) (em_nonce dr) body (d_PublicKey domain) of
        Inl _ \<Rightarrow> (Some (SMTPError 451 ''Temporary failure processing email''), s)
      | Inr encryptedBody \<Rightarrow>
          (case ProcessIncomingEmail (be_repos be) (em_mail_id dr) (em_stored dr)
                  \<lparr>pi_EmailAddressID = ea_ID a, pi_FromAddress = ctx_From ctx, pi_Subject = ctx_Subject ctx, pi_Body = encryptedBody,
                   pi_DomainID = d_ID domain, pi_VerificationResults = Some vr, pi_IsQuarantined = (vr_Action vr = ActionQuarantine),
                   pi_Domain = Some domain, pi_EmailAddress = Some a, pi_AutoCreated = autoCreated\<rparr> s of
             (Some e, s1) \<Rightarrow> (Some (UseCaseError e), s1)
           | (None, s1) \<Rightarrow>
               (None, spawn (RecordVerificationStats (d_ID domain) (ea_ID a) (getSenderIP ss) (ctx_From ctx) vr (vr_Action vr))
                        (spawn (IncrementUsage (d_UserID domain)) s1))))"

definition processEmail ::
    "'st backend \<Rightarrow> email_draw \<Rightarrow> Session \<Rightarrow> string \<Rightarrow> string \<Rightarrow> 'st mail_uc \<Rightarrow> smtp_error option \<times> 'st mail_uc" where
  "processEmail be dr ss recipient body s =
     (case ParseEmailAddress recipient of
        Inl _ \<Rightarrow> (Some (SMTPError 550 ''Invalid recipient address''), s)
      | Inr (localPart, domainName) \<Rightarrow>
          (case on_repo (GetDomainByName (mr_domains (be_repos be)) domainName) s of
             (Inl _, s1) \<Rightarrow> (Some (SMTPError 550 ''Domain not configured''), s1)
           | (Inr domain, s1) \<Rightarrow>
               if \<not> IsVerified domain then (Some (SMTPError 550 ''Domain not verified''), s1)
               else
                 let ctx = email_context dr ss recipient body; vr = VerifyEmail (be_config be) (em_env dr) ctx in
                 case vr_Action vr of
                   ActionReject \<Rightarrow> (Some (SMTPError 550 ''Email rejected by spam filter''), s1)
                 | ActionTempFail \<Rightarrow> (Some (SMTPError 451 ''Temporary failure - try again later''), s1)
                 | _ \<Rightarrow>
                     (case find_mailbox be dr recipient localPart domain s1 of
                        (Inl e, s2) \<Rightarrow> (Some e, s2)
                      | (Inr (a, autoCreated), s2) \<Rightarrow> store_message be dr ss ctx vr domain a autoCreated s2)))"

text \<open>\<open>Data\<close>: the outcomes of the recipients, of which the code only counts the successes, and the answer to the client.\<close>

fun process_all ::
    "'st backend \<Rightarrow> (nat \<Rightarrow> email_draw) \<Rightarrow> Session \<Rightarrow> string \<Rightarrow> string list \<Rightarrow> 'st mail_uc \<Rightarrow> smtp_error option list \<times> 'st mail_uc" where
  "process_all be drs ss body [] s = ([], s)"
| "process_all be drs ss body (r # rs) s =
     (let (e, s1) = processEmail be (drs 0) ss r body s;
          (es, s2) = process_all be (\<lambda>n. drs (Suc n)) ss body rs s1
      in (e # es, s2))"

definition Session_Data ::
    "'st backend \<Rightarrow> (nat \<Rightarrow> email_draw) \<Rightarrow> string + string \<Rightarrow> Session \<Rightarrow> 'st mail_uc \<Rightarrow> string option \<times> 'st mail_uc" where
  "Session_Data be drs r ss s =
     (case r of
        Inl readErr \<Rightarrow> (Some readErr, s)
      | Inr body \<Rightarrow> (None, snd (process_all be drs ss body (ss_to ss) s)))"

section \<open>The verification record\<close>

definition determineContentVerdict :: "float64 \<Rightarrow> string" where
  "determineContentVerdict spamScore =
     (if spamScore \<ge> f64 (8 / 10) then ''spam'' else if spamScore \<ge> f64 (3 / 10) then ''suspicious'' else ''clean'')"

definition extractDKIMDomain :: "DKIMResult \<Rightarrow> string" where
  "extractDKIMDomain r = (case dkim_Results r of [] \<Rightarrow> [] | s # _ \<Rightarrow> sig_Domain s)"

definition extractDKIMSelector :: "DKIMResult \<Rightarrow> string" where
  "extractDKIMSelector r = (case dkim_Results r of [] \<Rightarrow> [] | s # _ \<Rightarrow> sig_Selector s)"

definition stats_SenderDomain :: "string \<Rightarrow> string" where
  "stats_SenderDomain email = (case ExtractDomain email of Inl _ \<Rightarrow> [] | Inr d \<Rightarrow> d)"

definition verification_stat ::
    "uuid \<Rightarrow> instant \<Rightarrow> uuid \<Rightarrow> uuid \<Rightarrow> ip option \<Rightarrow> string \<Rightarrow> VerificationResult \<Rightarrow> Action \<Rightarrow> SMTPVerificationStat" where
  "verification_stat i now domainID addressID senderIP fromAddress vr finalAction =
   \<lparr>st_ID = i, st_DomainID = domainID, st_EmailAddressID = addressID, st_VerifiedAt = now, st_SenderIP = senderIP,
    st_SenderDomain = stats_SenderDomain fromAddress, st_FromAddress = fromAddress,
    st_SPFResult = SPFStatus_String (spf_Result (vr_SPF vr)), st_SPFMechanism = spf_Mechanism (vr_SPF vr),
    st_DKIMValid = dkim_Valid (vr_DKIM vr), st_DKIMDomain = extractDKIMDomain (vr_DKIM vr),
    st_DKIMSelector = extractDKIMSelector (vr_DKIM vr), st_DMARCResult = DMARCStatus_String (dmarc_Result (vr_DMARC vr)),
    st_DMARCPolicy = dmarc_Policy (vr_DMARC vr), st_DMARCAlignmentSPF = dmarc_SPFAlign (vr_DMARC vr),
    st_DMARCAlignmentDKIM = dmarc_DKIMAlign (vr_DMARC vr), st_SpamScore = content_SpamScore (vr_Content vr),
    st_ContentVerdict = determineContentVerdict (content_SpamScore (vr_Content vr)),
    st_ReputationScore = rep_Score (vr_Reputation vr), st_IsBlacklisted = (rep_Blacklisted (vr_Reputation vr) \<noteq> []),
    st_FinalAction = Action_String finalAction, st_IsQuarantined = (finalAction = ActionQuarantine)\<rparr>"

definition RecordVerificationResult ::
    "uuid \<Rightarrow> instant \<Rightarrow> uuid \<Rightarrow> uuid \<Rightarrow> ip option \<Rightarrow> string \<Rightarrow> VerificationResult \<Rightarrow> Action \<Rightarrow> mail_db \<Rightarrow> db_error option \<times> mail_db" where
  "RecordVerificationResult i now domainID addressID senderIP fromAddress vr finalAction =
     pg_CreateStat (verification_stat i now domainID addressID senderIP fromAddress vr finalAction)"

end
