(* ===== verification/InboundMail.thy ===== *)
theory InboundMail
  imports SMTPSession
begin

text \<open>
  What receiving a message does to the stored data: the contract of every step of the session over the
  repository interface, and the properties of the whole.
\<close>

lemma map_sum_cases: "map_sum err id x = Inr y \<longleftrightarrow> x = Inr y"
  by (cases x) auto

text \<open>The mailbox the session creates, the row it stores and the verdict of the verifier; \<open>accepts\<close> collects what an
  accepted message went through: the recipient's domain is stored and verified, the verdict lets it pass, its
  mailbox is stored or was created as the domain allows, and one row was added, encrypted for the domain's key.\<close>

definition new_mailbox :: "email_draw \<Rightarrow> Domain \<Rightarrow> string \<Rightarrow> EmailAddress" where
  "new_mailbox dr d l = \<lparr>ea_ID = em_addr_id dr, ea_DomainID = d_ID d, ea_LocalPart = l, ea_ForwardAddresses = [],
     ea_ForwardingEnabled = False, ea_CreatedAt = em_addr_created dr, ea_UpdatedAt = em_addr_updated dr\<rparr>"

definition stored_row :: "email_draw \<Rightarrow> EmailContext \<Rightarrow> EmailAddress \<Rightarrow> string \<Rightarrow> int \<Rightarrow> ReceivedEmail \<Rightarrow> bool" where
  "stored_row dr ctx a enc n row \<longleftrightarrow> re_ID row = em_mail_id dr \<and> re_EmailAddressID row = Some (ea_ID a) \<and>
     re_FromAddress row = ctx_From ctx \<and> re_EncryptedBody row = enc \<and> re_SequenceNumber row = n"

definition verdict :: "'st backend \<Rightarrow> email_draw \<Rightarrow> Session \<Rightarrow> string \<Rightarrow> string \<Rightarrow> VerificationResult" where
  "verdict be dr ss rcpt body = VerifyEmail (be_config be) (em_env dr) (email_context dr ss rcpt body)"

definition accepts :: "'st backend \<Rightarrow> email_draw \<Rightarrow> Session \<Rightarrow> string \<Rightarrow> string \<Rightarrow> mail_view \<Rightarrow> mail_view \<Rightarrow> bool" where
  "accepts be dr ss rcpt body v v' \<longleftrightarrow>
     (\<exists>l n d a enc m row. ParseEmailAddress rcpt = Inr (l, n) \<and> v_domains v (d_ID d) = Some d \<and> d_Domain d = ToLower n \<and>
        IsVerified d \<and> vr_Action (verdict be dr ss rcpt body) \<in> {ActionAccept, ActionQuarantine} \<and>
        ea_DomainID a = d_ID d \<and>
        (v_addresses v (ea_ID a) = Some a \<and> ea_LocalPart a = ToLower l \<and> v_addresses v' = v_addresses v \<or>
         d_AutoCreateAddress d \<and> ea_LocalPart a = l \<and> (\<forall>b \<in> ran (v_addresses v). \<not> same_mailbox a b) \<and>
         v_addresses v (ea_ID a) = None \<and> v_addresses v' = (v_addresses v)(ea_ID a \<mapsto> persist_address a)) \<and>
        encryptEmailBody (be_crypto be) (em_key dr) (em_nonce dr)
          (prependHeader body (BuildAuthResultsHeader (be_authres be) ''mailvault'' (email_context dr ss rcpt body) (verdict be dr ss rcpt body)))
          (d_PublicKey d) = Inr enc \<and>
        stored_row dr (email_context dr ss rcpt body) a enc m row \<and> v_received v (em_mail_id dr) = None \<and>
        v_received v' = (v_received v)(em_mail_id dr \<mapsto> row))"

lemma email_context_Body [simp]: "ctx_Body (email_context dr ss rcpt body) = body"
  by (simp add: email_context_def split: prod.splits)

context mail_store
begin

definition uc_view :: "'st mail_uc \<Rightarrow> mail_view" where
  "uc_view s = view (mu_repo s)"

definition uc_inv :: "'st mail_uc \<Rightarrow> bool" where
  "uc_inv s \<longleftrightarrow> inv (mu_repo s)"

lemma same_iff: "same s s' \<longleftrightarrow> uc_inv s' \<and> uc_view s' = uc_view s \<and> mu_tasks s' = mu_tasks s"
  by (simp add: same_def uc_inv_def uc_view_def)

lemma GetDomainByName_read:
  assumes "wired ops" "uc_inv s" "on_repo (GetDomainByName (mr_domains ops) n) s = (r, s')"
  shows "same s s' \<and> (\<forall>d. r = Inr d \<longrightarrow> v_domains (uc_view s) (d_ID d) = Some d \<and> d_Domain d = ToLower n)"
proof (cases "n = []")
  case True
  then show ?thesis using assms by (auto simp: GetDomainByName_def on_repo_def same_iff uc_inv_def uc_view_def)
next
  case False
  obtain g st1 where g: "dom_GetByDomain dops (ToLower n) (mu_repo s) = (g, st1)" by fastforce
  have "inv st1 \<and> view st1 = view (mu_repo s) \<and> (\<forall>d. g = Inr d \<longrightarrow> v_domains (view (mu_repo s)) (d_ID d) = Some d \<and> d_Domain d = ToLower n)"
    using read_lawD [OF domain_by_name _ g] assms(2) by (simp add: uc_inv_def)
  then show ?thesis using assms(1,3) False g
    by (cases g) (auto simp: GetDomainByName_def on_repo_def or_fail_def wired_def same_iff uc_inv_def uc_view_def)
qed

lemma GetEmailAddressByAddress_read:
  assumes w: "wired ops" and ok: "uc_inv s" and p: "ParseEmailAddress rcpt = Inr (l, n)"
    and d: "v_domains (uc_view s) (d_ID d) = Some d" "d_Domain d = ToLower n"
    and g: "GetEmailAddressByAddress ops rcpt s = (r, s')"
  shows "same s s' \<and> (\<forall>a. r = Inr a \<longrightarrow> v_addresses (uc_view s) (ea_ID a) = Some a \<and> ea_LocalPart a = ToLower l \<and> ea_DomainID a = d_ID d)"
proof -
  have ok': "inv (mu_repo s)" using ok by (simp add: uc_inv_def)
  obtain gd s1 where gd: "on_repo (dom_GetByDomain dops (ToLower n)) s = (gd, s1)" by fastforce
  have s1: "same s s1" "\<And>d'. gd = Inr d' \<Longrightarrow> v_domains (view (mu_repo s)) (d_ID d') = Some d' \<and> d_Domain d' = ToLower n"
    using read_same [OF domain_by_name ok' gd] by auto
  show ?thesis
  proof (cases gd)
    case (Inl e)
    then show ?thesis using g w p gd s1(1) by (auto simp: GetEmailAddressByAddress_def wired_def)
  next
    case (Inr d')
    have "d_ID d' = d_ID d"
      using domain_unique [OF ok'] s1(2) [OF Inr] d by (auto simp: uc_view_def)
    obtain ga s2 where ga: "on_repo (addr_GetByLocalPartAndDomain aops (ToLower l) (d_ID d)) s1 = (ga, s2)" by fastforce
    have ok1: "inv (mu_repo s1)" "view (mu_repo s1) = view (mu_repo s)" using s1(1) by (simp_all add: same_def)
    have s2: "same s1 s2" "\<And>a. ga = Inr a \<Longrightarrow> v_addresses (view (mu_repo s)) (ea_ID a) = Some a \<and> ea_LocalPart a = ToLower l \<and> ea_DomainID a = d_ID d"
      using read_same [OF address_by_local ok1(1) ga] ok1(2) by auto
    show ?thesis using g w p gd Inr ga \<open>d_ID d' = d_ID d\<close> same_trans [OF s1(1) s2(1)] s2(2)
      by (cases ga) (auto simp: GetEmailAddressByAddress_def wired_def wrap_err_def uc_view_def)
  qed
qed

text \<open>Finding or creating the mailbox.\<close>

lemma find_mailbox_contract:
  assumes w: "wired (be_repos be)" and ok: "uc_inv s" and p: "ParseEmailAddress rcpt = Inr (l, n)"
    and d: "v_domains (uc_view s) (d_ID d) = Some d" "d_Domain d = ToLower n"
    and f: "find_mailbox be dr rcpt l d s = (r, s')"
  shows "uc_inv s' \<and> mu_tasks s' = mu_tasks s \<and> (case r of
      Inl _ \<Rightarrow> uc_view s' = uc_view s
    | Inr (a, auto) \<Rightarrow> ea_DomainID a = d_ID d \<and> (if auto
        then d_AutoCreateAddress d \<and> a = new_mailbox dr d l \<and> v_addresses (uc_view s) (ea_ID a) = None \<and>
          uc_view s' = put_address (persist_address a) (uc_view s) \<and>
          (\<forall>b \<in> ran (v_addresses (uc_view s)). \<not> same_mailbox a b)
        else v_addresses (uc_view s) (ea_ID a) = Some a \<and> ea_LocalPart a = ToLower l \<and> uc_view s' = uc_view s))"
proof -
  obtain g s1 where g: "GetEmailAddressByAddress (be_repos be) rcpt s = (g, s1)" by fastforce
  note c = GetEmailAddressByAddress_read [OF w ok p d g]
  show ?thesis
  proof (cases g)
    case (Inr a)
    then show ?thesis using f g c by (auto simp: find_mailbox_def same_iff)
  next
    case (Inl e)
    let ?a = "new_mailbox dr d l"
    obtain x s2 where x: "on_repo (addr_Create aops ?a) s1 = (x, s2)" by fastforce
    have ok1: "inv (mu_repo s1)" "uc_view s1 = uc_view s" "mu_tasks s1 = mu_tasks s" using c by (simp_all add: same_iff uc_inv_def)
    have s2: "uc_inv s2 \<and> mu_tasks s2 = mu_tasks s \<and> (if x = None
        then v_addresses (uc_view s) (ea_ID ?a) = None \<and>
          uc_view s2 = put_address (persist_address ?a) (uc_view s) \<and> (\<forall>b \<in> ran (v_addresses (uc_view s)). \<not> same_mailbox ?a b)
        else uc_view s2 = uc_view s)"
      using on_repo_write [OF address_create ok1(1) x] ok1 by (auto simp: uc_inv_def uc_view_def split: if_splits)
    have "d_AutoCreateAddress d \<Longrightarrow> (if EmailAddress_IsValid ?a
        then r = (case x of None \<Rightarrow> Inr (?a, True) | Some _ \<Rightarrow> Inl (SMTPError 451 ''Temporary failure creating email address'')) \<and> s' = s2
        else r = Inl (SMTPError 451 ''Temporary failure creating email address'') \<and> s' = s1)"
      using f g Inl x w
      by (auto simp: find_mailbox_def new_mailbox_def [symmetric] CreateEmailAddress_def wired_def split: option.splits)
    moreover have "\<not> d_AutoCreateAddress d \<Longrightarrow> r = Inl (SMTPError 550 ''Email address not found'') \<and> s' = s1"
      using f g Inl by (auto simp: find_mailbox_def)
    ultimately show ?thesis using s2 c
      by (cases "d_AutoCreateAddress d"; cases x) (auto simp: same_iff new_mailbox_def split: if_splits)
  qed
qed

text \<open>Encrypting and storing.\<close>

lemma store_message_contract:
  assumes w: "wired (be_repos be)" and ok: "uc_inv s" and m: "store_message be dr ss ctx vr d a auto s = (r, s')"
  shows "uc_inv s' \<and> (if r = None
    then \<exists>enc n row. encryptEmailBody (be_crypto be) (em_key dr) (em_nonce dr)
           (prependHeader (ctx_Body ctx) (BuildAuthResultsHeader (be_authres be) ''mailvault'' ctx vr)) (d_PublicKey d) = Inr enc \<and>
         stored_row dr ctx a enc n row \<and> v_received (uc_view s) (em_mail_id dr) = None \<and>
         uc_view s' = (uc_view s)\<lparr>v_received := (v_received (uc_view s))(em_mail_id dr \<mapsto> row)\<rparr>
    else uc_view s' = uc_view s \<and> mu_tasks s' = mu_tasks s)"
proof -
  let ?body = "prependHeader (ctx_Body ctx) (BuildAuthResultsHeader (be_authres be) ''mailvault'' ctx vr)"
  show ?thesis
  proof (cases "encryptEmailBody (be_crypto be) (em_key dr) (em_nonce dr) ?body (d_PublicKey d)")
    case (Inl e)
    then show ?thesis using m ok by (auto simp: store_message_def Let_def)
  next
    case (Inr enc)
    let ?in = "\<lparr>pi_EmailAddressID = ea_ID a, pi_FromAddress = ctx_From ctx, pi_Subject = ctx_Subject ctx, pi_Body = enc,
      pi_DomainID = d_ID d, pi_VerificationResults = Some vr, pi_IsQuarantined = (vr_Action vr = ActionQuarantine),
      pi_Domain = Some d, pi_EmailAddress = Some a, pi_AutoCreated = auto\<rparr>"
    obtain e s1 where e: "ProcessIncomingEmail (be_repos be) (em_mail_id dr) (em_stored dr) ?in s = (e, s1)" by fastforce
    note c = ProcessIncomingEmail_contract [OF w ok [unfolded uc_inv_def] e]
    have row: "stored_row dr ctx a enc n (persist_received n (incoming (em_mail_id dr) (em_stored dr) ?in))" for n
      by (simp add: stored_row_def incoming_def Let_def)
    show ?thesis
    proof (cases e)
      case None
      then have "r = None" "uc_view s' = uc_view s1" "uc_inv s' = uc_inv s1"
        using m Inr e by (auto simp: store_message_def Let_def spawn_def uc_view_def uc_inv_def)
      then show ?thesis using c None Inr row by (auto simp: uc_view_def uc_inv_def)
    next
      case (Some er)
      then have "r = Some (UseCaseError er)" "s' = s1" using m Inr e by (auto simp: store_message_def Let_def)
      then show ?thesis using c Some by (auto simp: uc_view_def uc_inv_def)
    qed
  qed
qed

text \<open>One recipient.\<close>

lemma processEmail_contract:
  assumes w: "wired (be_repos be)" and ok: "uc_inv s" and r: "processEmail be dr ss rcpt body s = (r, s')"
  shows "uc_inv s' \<and> v_domains (uc_view s') = v_domains (uc_view s) \<and>
    (if r = None then accepts be dr ss rcpt body (uc_view s) (uc_view s')
     else v_received (uc_view s') = v_received (uc_view s) \<and> mu_tasks s' = mu_tasks s)"
proof (cases "ParseEmailAddress rcpt")
  case (Inl e)
  then show ?thesis using r ok by (auto simp: processEmail_def)
next
  case (Inr ln)
  then obtain l n where p: "ParseEmailAddress rcpt = Inr (l, n)" by (cases ln) auto
  obtain g s1 where g: "on_repo (GetDomainByName (mr_domains (be_repos be)) n) s = (g, s1)" by fastforce
  have s1: "same s s1" "\<And>d. g = Inr d \<Longrightarrow> v_domains (uc_view s) (d_ID d) = Some d \<and> d_Domain d = ToLower n"
    using GetDomainByName_read [OF w ok g] by auto
  then have ok1: "uc_inv s1" "uc_view s1 = uc_view s" "mu_tasks s1 = mu_tasks s" by (simp_all add: same_iff)
  let ?vr = "verdict be dr ss rcpt body"
  show ?thesis
  proof (cases "\<exists>d. g = Inr d \<and> IsVerified d \<and> vr_Action ?vr \<in> {ActionAccept, ActionQuarantine}")
    case False
    then have "r \<noteq> None \<and> s' = s1"
      using r p g by (auto simp: processEmail_def verdict_def Let_def split: sum.splits if_splits Action.splits)
    then show ?thesis using ok1 by auto
  next
    case True
    then obtain d where d: "g = Inr d" "IsVerified d" "vr_Action ?vr \<in> {ActionAccept, ActionQuarantine}" by blast
    obtain f s2 where f: "find_mailbox be dr rcpt l d s1 = (f, s2)" by fastforce
    note c = find_mailbox_contract [OF w ok1(1) p _ _ f, unfolded ok1(2), OF conjunct1 [OF s1(2) [OF d(1)]] conjunct2 [OF s1(2) [OF d(1)]]]
    have tail: "(r, s') = (case f of Inl e \<Rightarrow> (Some e, s2)
        | Inr (a, au) \<Rightarrow> store_message be dr ss (email_context dr ss rcpt body) ?vr d a au s2)"
      using r p g d f by (auto simp: processEmail_def verdict_def Let_def split: sum.splits prod.splits)
    show ?thesis
    proof (cases f)
      case (Inl e)
      then show ?thesis using tail c ok1 by auto
    next
      case (Inr aau)
      then obtain a au where a: "f = Inr (a, au)" by (cases aau) auto
      have st: "store_message be dr ss (email_context dr ss rcpt body) ?vr d a au s2 = (r, s')" using tail a by simp
      have ok2: "uc_inv s2" "mu_tasks s2 = mu_tasks s" "v_domains (uc_view s2) = v_domains (uc_view s)" "v_received (uc_view s2) = v_received (uc_view s)"
        using c a ok1 by (auto simp: put_address_def split: if_splits)
      have box: "ea_DomainID a = d_ID d" "v_addresses (uc_view s) (ea_ID a) = Some a \<and> ea_LocalPart a = ToLower l \<and>
            v_addresses (uc_view s2) = v_addresses (uc_view s) \<or>
          d_AutoCreateAddress d \<and> ea_LocalPart a = l \<and> (\<forall>b \<in> ran (v_addresses (uc_view s)). \<not> same_mailbox a b) \<and>
          v_addresses (uc_view s) (ea_ID a) = None \<and> v_addresses (uc_view s2) = (v_addresses (uc_view s))(ea_ID a \<mapsto> persist_address a)"
        using c a by (auto simp: put_address_def new_mailbox_def split: if_splits)
      note sc = store_message_contract [OF w ok2(1) st]
      show ?thesis
      proof (cases r)
        case (Some e)
        then show ?thesis using sc ok2 by simp
      next
        case None
        then obtain enc m row where sr: "encryptEmailBody (be_crypto be) (em_key dr) (em_nonce dr)
              (prependHeader body (BuildAuthResultsHeader (be_authres be) ''mailvault'' (email_context dr ss rcpt body) ?vr)) (d_PublicKey d) = Inr enc"
            "stored_row dr (email_context dr ss rcpt body) a enc m row" "v_received (uc_view s2) (em_mail_id dr) = None"
            "uc_view s' = (uc_view s2)\<lparr>v_received := (v_received (uc_view s2))(em_mail_id dr \<mapsto> row)\<rparr>"
          using sc by auto
        have "accepts be dr ss rcpt body (uc_view s) (uc_view s')"
          unfolding accepts_def
          by (intro exI [of _ l] exI [of _ n] exI [of _ d] exI [of _ a] exI [of _ enc] exI [of _ m] exI [of _ row])
            (use p s1(2) [OF d(1)] d(2,3) box sr ok2(4) in simp)
        then show ?thesis using None sc sr(4) ok2(3) by simp
      qed
    qed
  qed
qed

lemma process_all_contract:
  assumes w: "wired (be_repos be)"
  shows "uc_inv s \<Longrightarrow> process_all be drs ss body rs s = (es, s') \<Longrightarrow> finite (dom (v_received (uc_view s))) \<Longrightarrow>
    uc_inv s' \<and> finite (dom (v_received (uc_view s'))) \<and>
    card (dom (v_received (uc_view s'))) = card (dom (v_received (uc_view s))) + length (filter (\<lambda>e. e = None) es)"
proof (induction rs arbitrary: drs s es)
  case (Cons r rs)
  obtain e s1 where p: "processEmail be (drs 0) ss r body s = (e, s1)" by fastforce
  obtain es1 where es: "process_all be (\<lambda>n. drs (Suc n)) ss body rs s1 = (es1, s')" "es = e # es1"
    using Cons.prems(2) p by (auto split: prod.splits)
  note c = processEmail_contract [OF w Cons.prems(1) p]
  have "finite (dom (v_received (uc_view s1))) \<and>
      card (dom (v_received (uc_view s1))) = card (dom (v_received (uc_view s))) + (if e = None then 1 else 0)"
  proof (cases e)
    case None
    then obtain row where "v_received (uc_view s) (em_mail_id (drs 0)) = None"
      "v_received (uc_view s1) = (v_received (uc_view s))(em_mail_id (drs 0) \<mapsto> row)"
      using c unfolding accepts_def by auto
    then show ?thesis using None Cons.prems(3) by (simp add: domIff)
  qed (use c Cons.prems(3) in simp)
  then show ?case using Cons.IH [OF _ es(1)] c es(2) by simp
qed auto

lemma unreachable_mailbox:
  assumes w: "wired (be_repos be)" and ok: "uc_inv s" and p: "ParseEmailAddress rcpt = Inr (l, n)"
    and b: "b \<in> ran (v_addresses (uc_view s))" "ea_LocalPart b = l"
    and d: "v_domains (uc_view s) (ea_DomainID b) = Some d" "d_Domain d = ToLower n"
    and free: "\<forall>c \<in> ran (v_addresses (uc_view s)). ea_DomainID c = ea_DomainID b \<longrightarrow> ea_LocalPart c \<noteq> ToLower l"
    and r: "processEmail be dr ss rcpt body s = (r, s')"
  shows "r \<noteq> None \<and> v_received (uc_view s') = v_received (uc_view s)"
proof -
  have ok': "inv (mu_repo s)" using ok by (simp add: uc_inv_def)
  have "r \<noteq> None"
  proof
    assume none: "r = None"
    obtain d' a where d': "v_domains (uc_view s) (d_ID d') = Some d'" "d_Domain d' = ToLower n" "ea_DomainID a = d_ID d'"
      and a: "v_addresses (uc_view s) (ea_ID a) = Some a \<and> ea_LocalPart a = ToLower l \<or>
        ea_LocalPart a = l \<and> (\<forall>b \<in> ran (v_addresses (uc_view s)). \<not> same_mailbox a b)"
      using processEmail_contract [OF w ok r] none p unfolding accepts_def by auto
    have "d_ID d' = ea_DomainID b" using domain_unique [OF ok'] d d' by (auto simp: uc_view_def)
    then show False using a free b d'(3) by (auto simp: same_mailbox_def intro: ranI)
  qed
  then show ?thesis using processEmail_contract [OF w ok r] by simp
qed

end

section \<open>Properties\<close>

lemma dom_lookup_card: "distinct (map k rs) \<Longrightarrow> finite (dom (lookup k rs)) \<and> card (dom (lookup k rs)) = length rs"
proof -
  assume d: "distinct (map k rs)"
  have "dom (lookup k rs) = set (map k rs)" using lookup_None [of k rs] by (auto simp: dom_def)
  then show ?thesis using d distinct_card [of "map k rs"] by simp
qed

text \<open>
  C1: What a message has to pass to be stored: when a recipient is processed without error, its domain is
  registered and verified, the verifier's verdict is to accept or quarantine, its mailbox belongs to that domain
  (created only if the domain allows it), and exactly one message has been added, encrypted for the domain's key with the
  authentication results on top. On any error no message is stored and no notification or counter is started.
\<close>

theorem inbound_only_admitted:
  assumes "mdb_ok (mu_repo s)" "be_repos be = pg_mail_repos inet collate nt fw" "processEmail be dr ss rcpt body s = (r, s')"
  shows "mdb_ok (mu_repo s') \<and> v_domains (pg_view (mu_repo s')) = v_domains (pg_view (mu_repo s)) \<and>
    (if r = None then accepts be dr ss rcpt body (pg_view (mu_repo s)) (pg_view (mu_repo s'))
     else v_received (pg_view (mu_repo s')) = v_received (pg_view (mu_repo s)) \<and> mu_tasks s' = mu_tasks s)"
  using pgm.processEmail_contract [unfolded pgm.uc_inv_def pgm.uc_view_def, OF _ assms(1,3), of inet collate] assms(2) pg_wired
  by (cases r) simp_all

text \<open>
  C2: \<open>Data\<close> acknowledges every message it could read, whatever happened to the recipients: the answer is success
  even if all of them were refused or failed, while the table has grown only by the recipients processed
  without error. A sender never learns of a rejection or a temporary failure.
\<close>

theorem Data_acknowledges_all:
  assumes "mdb_ok (mu_repo s)" "be_repos be = pg_mail_repos inet collate nt fw"
    and "Session_Data be drs (Inr body) ss s = (answer, s')" "process_all be drs ss body (ss_to ss) s = (outcomes, s'')"
  shows "answer = None \<and> length (mdb_received (mu_repo s')) =
    length (mdb_received (mu_repo s)) + length (filter (\<lambda>e. e = None) outcomes)"
proof -
  have s': "answer = None" "s' = s''" using assms(3,4) by (simp_all add: Session_Data_def)
  have "finite (dom (lookup re_ID (mdb_received (mu_repo s))))"
    using dom_lookup_card [OF distinct_keys(3) [OF assms(1)]] by simp
  then have c: "mdb_ok (mu_repo s'')" "card (dom (lookup re_ID (mdb_received (mu_repo s'')))) =
      card (dom (lookup re_ID (mdb_received (mu_repo s)))) + length (filter (\<lambda>e. e = None) outcomes)"
    using pgm.process_all_contract [of inet collate be s drs ss body "ss_to ss" outcomes s''] assms(1,2,4) pg_wired
    by (simp_all add: pgm.uc_inv_def pgm.uc_view_def)
  then show ?thesis
    using s' dom_lookup_card [OF distinct_keys(3) [OF assms(1)]] dom_lookup_card [OF distinct_keys(3) [OF c(1)]] by simp
qed

text \<open>
  C3: A mailbox created on the fly for a recipient written with capital letters is not found by the lookup, which is for
  the lower-case name. As long as the domain has no mailbox under that name either, the session tries to create the mailbox once more for every further message
  to it, the unique key refuses it, and the message is answered with an error and not stored.
\<close>

theorem autocreated_mailbox_unreachable:
  assumes "mdb_ok (mu_repo s)" "be_repos be = pg_mail_repos inet collate nt fw"
    and "ParseEmailAddress rcpt = Inr (l, n)" "d \<in> set (mdb_domains (mu_repo s))" "d_Domain d = ToLower n"
    and "b \<in> set (mdb_addresses (mu_repo s))" "ea_DomainID b = d_ID d" "ea_LocalPart b = l"
    and "\<forall>c \<in> set (mdb_addresses (mu_repo s)). ea_DomainID c = d_ID d \<longrightarrow> ea_LocalPart c \<noteq> ToLower l"
    and "processEmail be dr ss rcpt body s = (r, s')"
  shows "r \<noteq> None \<and> v_received (pg_view (mu_repo s')) = v_received (pg_view (mu_repo s))"
proof -
  have ran: "ran (v_addresses (pg_view (mu_repo s))) = set (mdb_addresses (mu_repo s))"
    using ran_lookup [OF distinct_keys(2) [OF assms(1)]] by simp
  have "v_domains (pg_view (mu_repo s)) (ea_DomainID b) = Some d" using assms(1,4,7) by (simp add: view_Some)
  then show ?thesis
    using pgm.unreachable_mailbox [of inet collate be s rcpt l n b d dr ss body r s'] assms ran pg_wired
    by (simp add: pgm.uc_inv_def pgm.uc_view_def)
qed

section \<open>Witnesses\<close>

text \<open>The sample database with a key and automatic mailboxes, a server that checks nothing, and one with a
  mailbox written in capitals.\<close>

definition keyed_db :: mail_db where
  "keyed_db = mailbox_db\<lparr>mdb_domains := map (\<lambda>d. d\<lparr>d_PublicKey := FormatPublicKey (replicate 32 CHR ''K''),
     d_AutoCreateAddress := True\<rparr>) (mdb_domains mailbox_db)\<rparr>"

definition capital_db :: mail_db where
  "capital_db = keyed_db\<lparr>mdb_addresses := mdb_addresses keyed_db @ [(hd (mdb_addresses keyed_db))\<lparr>ea_ID := 21, ea_LocalPart := ''Amy''\<rparr>]\<rparr>"

lemma keyed_db_ok: "mdb_ok keyed_db" "mdb_ok capital_db"
  by (simp_all add: mdb_ok_parts capital_db_def keyed_db_def mailbox_db_def domain_row_check_def in_int32_def numbers_of_def)

definition plain_config :: VerificationConfig where
  "plain_config = DefaultConfig\<lparr>EnableSPF := False, EnableDKIM := False, EnableDMARC := False, EnableReputation := False,
     EnableContent := False\<rparr>"

definition sample_backend :: "mail_db backend" where
  "sample_backend = \<lparr>be_repos = pg_mail_repos Some (\<lambda>_. 0) True True, be_crypto = toy_crypto, be_config = plain_config,
     be_authres = (\<lambda>_ _. ''mailvault'')\<rparr>"

definition sample_arrival :: email_draw where
  "sample_arrival = \<lparr>em_env = sample_env, em_received = 0, em_addr_id = 40, em_addr_created = 0, em_addr_updated = 0,
     em_key = Some (replicate 32 CHR ''e''), em_nonce = Some (replicate 12 CHR ''n''), em_mail_id = 50, em_stored = 0\<rparr>"

definition sample_session :: Session where
  "sample_session = Session_Mail ''x@y.org'' (NewSession (Some ''192.0.2.7:25''))"

lemma sample_repos: "be_repos sample_backend = pg_mail_repos Some (\<lambda>_. 0) True True"
  by (simp add: sample_backend_def)

lemma sample_encrypts:
  "\<exists>enc. encryptEmailBody toy_crypto (Some (replicate 32 CHR ''e'')) (Some (replicate 12 CHR ''n'')) b
     (FormatPublicKey (replicate 32 CHR ''K'')) = Inr enc \<and> enc \<noteq> []"
  by (simp add: encryptEmailBody_def sample_key Encrypt_def GenerateKeyPair_def toy_crypto_def KeySize_def Serialize_def marshal_def)

lemma sample_accepted: "vr_Action (VerifyEmail plain_config sample_env e) = ActionAccept"
  unfolding VerifyEmail_def run_checks_def plain_config_def by (simp add: DefaultConfig_def determineAction_def, code_simp)

lemma sample_processed:
  "\<exists>s'. processEmail sample_backend sample_arrival sample_session ''Bob@a.org'' ''From: x@y.org'' \<lparr>mu_repo = keyed_db, mu_tasks = []\<rparr> = (None, s')"
proof -
  let ?s = "\<lparr>mu_repo = keyed_db, mu_tasks = []\<rparr>"
  let ?d = "hd (mdb_domains keyed_db)" and ?a = "hd (mdb_addresses keyed_db)"
  let ?ctx = "email_context sample_arrival sample_session ''Bob@a.org'' ''From: x@y.org''"
  have p: "ParseEmailAddress ''Bob@a.org'' = Inr (''Bob'', ''a.org'')" "ToLower ''a.org'' = ''a.org''" "ToLower ''Bob'' = ''bob''"
    "parseEmailHeaders ''From: x@y.org'' = (''(No Subject)'', ''x@y.org'')" by code_simp+
  note db = keyed_db_def mailbox_db_def one_row_of_def on_repo_def sample_backend_def pg_mail_repos_def
  have dom: "on_repo (GetDomainByName (mr_domains (be_repos sample_backend)) ''a.org'') ?s = (Inr ?d, ?s)"
    by (simp add: db p GetDomainByName_def or_fail_def pg_domains_repo_def pg_Domain_GetByDomain_def)
  have box: "find_mailbox sample_backend sample_arrival ''Bob@a.org'' ''Bob'' ?d ?s = (Inr (?a, False), ?s)"
    by (simp add: db p find_mailbox_def GetEmailAddressByAddress_def pg_domains_repo_def pg_Domain_GetByDomain_def
        pg_addresses_repo_def pg_Address_GetByLocalPartAndDomain_def wrap_err_def)
  have key: "d_PublicKey ?d = FormatPublicKey (replicate 32 CHR ''K'')" "IsVerified ?d" by (simp_all add: db IsVerified_def)
  have hdrs: "ctx_From ?ctx = ''x@y.org''" "ctx_Subject ?ctx = ''(No Subject)''" by (simp_all add: email_context_def p)
  have cfg: "be_config sample_backend = plain_config" "em_env sample_arrival = sample_env"
    by (simp_all add: sample_backend_def sample_arrival_def)
  obtain enc where enc: "encryptEmailBody toy_crypto (Some (replicate 32 CHR ''e'')) (Some (replicate 12 CHR ''n''))
      (prependHeader (ctx_Body ?ctx) (BuildAuthResultsHeader (\<lambda>_ _. ''mailvault'') ''mailvault'' ?ctx (VerifyEmail plain_config sample_env ?ctx)))
      (FormatPublicKey (replicate 32 CHR ''K'')) = Inr enc" "enc \<noteq> []" using sample_encrypts by blast
  have "\<exists>s'. store_message sample_backend sample_arrival sample_session ?ctx (VerifyEmail plain_config sample_env ?ctx) ?d ?a False ?s = (None, s')"
    using enc unfolding store_message_def Let_def key hdrs
    by (simp add: db sample_arrival_def ProcessIncomingEmail_def incoming_def ReceivedEmail_IsValid_def pg_received_repo_def
        pg_Received_Create_def exec_def numbers_of_def next_sequence_def in_int32_def Let_def)
  then show ?thesis
    unfolding processEmail_def using p(1) dom box key(2) sample_accepted [of ?ctx] cfg by (simp add: Let_def)
qed

theorem inbound_only_admitted_witness:
  "\<exists>s'. processEmail sample_backend sample_arrival sample_session ''Bob@a.org'' ''From: x@y.org'' \<lparr>mu_repo = keyed_db, mu_tasks = []\<rparr> = (None, s') \<and>
     accepts sample_backend sample_arrival sample_session ''Bob@a.org'' ''From: x@y.org'' (pg_view keyed_db) (pg_view (mu_repo s'))"
proof -
  obtain s' where s': "processEmail sample_backend sample_arrival sample_session ''Bob@a.org'' ''From: x@y.org''
      \<lparr>mu_repo = keyed_db, mu_tasks = []\<rparr> = (None, s')" using sample_processed by blast
  then show ?thesis using inbound_only_admitted [OF _ sample_repos s'] keyed_db_ok by simp
qed

theorem Data_acknowledges_all_witness:
  "\<exists>answer s'. Session_Data sample_backend (\<lambda>_. sample_arrival) (Inr ''From: x@y.org'') (Session_Rcpt ''bob@b.org'' sample_session)
      \<lparr>mu_repo = keyed_db, mu_tasks = []\<rparr> = (answer, s') \<and> answer = None \<and>
     length (mdb_received (mu_repo s')) = 1"
proof -
  let ?ss = "Session_Rcpt ''bob@b.org'' sample_session"
  let ?s = "\<lparr>mu_repo = keyed_db, mu_tasks = []\<rparr>"
  have "ParseEmailAddress ''bob@b.org'' = Inr (''bob'', ''b.org'')" "ToLower ''b.org'' = ''b.org''" by code_simp+
  then have o: "process_all sample_backend (\<lambda>_. sample_arrival) ?ss ''From: x@y.org'' (ss_to ?ss) ?s =
      ([Some (SMTPError 550 ''Domain not configured'')], ?s)"
    by (simp add: sample_session_def Session_Rcpt_def Session_Mail_def NewSession_def processEmail_def on_repo_def GetDomainByName_def
        sample_backend_def pg_mail_repos_def pg_domains_repo_def pg_Domain_GetByDomain_def one_row_of_def keyed_db_def mailbox_db_def or_fail_def)
  obtain answer s' where d: "Session_Data sample_backend (\<lambda>_. sample_arrival) (Inr ''From: x@y.org'') ?ss ?s = (answer, s')" by fastforce
  show ?thesis
    using Data_acknowledges_all [OF _ sample_repos d o] keyed_db_ok d by (simp add: keyed_db_def mailbox_db_def)
qed

theorem autocreated_mailbox_unreachable_witness:
  "fst (processEmail sample_backend sample_arrival sample_session ''Amy@a.org'' ''From: x@y.org'' \<lparr>mu_repo = capital_db, mu_tasks = []\<rparr>) \<noteq> None"
proof -
  obtain r s' where r: "processEmail sample_backend sample_arrival sample_session ''Amy@a.org'' ''From: x@y.org''
      \<lparr>mu_repo = capital_db, mu_tasks = []\<rparr> = (r, s')" by fastforce
  have p: "ParseEmailAddress ''Amy@a.org'' = Inr (''Amy'', ''a.org'')" "ToLower ''a.org'' = ''a.org''" "ToLower ''Amy'' = ''amy''"
    by code_simp+
  show ?thesis
    using autocreated_mailbox_unreachable [OF _ sample_repos p(1) _ _ _ _ _ _ r, where d = "hd (mdb_domains capital_db)" and b = "mdb_addresses capital_db ! 1"]
      keyed_db_ok r p by (simp add: capital_db_def keyed_db_def mailbox_db_def)
qed

end
