(* ===== verification/ValidationStore.thy ===== *)
theory ValidationStore
  imports MailSchema
begin

text \<open>
  The validation records and the verification columns of the domains (\<open>gateways/repository/pg/validation.go\<close>,
  \<open>domain/validation/repository.go\<close>).

  No migration of the repository creates the table \<open>domain_validation_records\<close> that these statements use. Its existence
  and its constraints are therefore an argument: \<open>None\<close> is the schema the migrations leave, where every statement on
  it fails, and \<open>Some rules\<close> a schema with that table, whose constraints judge the rows written. The texts in the details
  are taken to be valid UTF-8, which the JSON column gives back unchanged. A missing verification error and an empty
  one are both the empty string, and a missing next attempt and the zero time both \<open>None\<close>. The reading of the database's
  clock (\<open>now()\<close>) is an argument. The statistics query and \<open>GetDomainsReadyForRetry\<close> are left out.
\<close>

section \<open>The interface\<close>

record DomainValidationInfo =
  dvi_ID :: uuid
  dvi_UserID :: uuid
  dvi_Domain :: string
  dvi_VerificationStatus :: VerificationStatus
  dvi_VerificationToken :: "string option"
  dvi_VerificationAttempts :: int
  dvi_LastVerificationAttempt :: "instant option"
  dvi_NextVerificationAttempt :: "instant option"
  dvi_VerificationError :: string
  dvi_CreatedAt :: instant
  dvi_UpdatedAt :: instant

definition dvi_GetTXTRecord :: "DomainValidationInfo \<Rightarrow> string" where
  "dvi_GetTXTRecord i = (case dvi_VerificationToken i of None \<Rightarrow> [] | Some t \<Rightarrow> ''mailvault-verification='' @ t)"

definition dvi_IsVerified :: "DomainValidationInfo \<Rightarrow> bool" where
  "dvi_IsVerified i \<longleftrightarrow> dvi_VerificationStatus i = VerificationStatusVerified"

definition dvi_IsPending :: "DomainValidationInfo \<Rightarrow> bool" where
  "dvi_IsPending i \<longleftrightarrow> dvi_VerificationStatus i = VerificationStatusPending \<or> dvi_VerificationStatus i = VerificationStatusValidating"

definition dvi_CanRetry :: "instant \<Rightarrow> DomainValidationInfo \<Rightarrow> bool" where
  "dvi_CanRetry now i \<longleftrightarrow> \<not> dvi_IsVerified i \<and>
     (case dvi_NextVerificationAttempt i of None \<Rightarrow> True | Some t \<Rightarrow> now > t)"

text \<open>The methods of \<open>Repository\<close> the use case calls. The instant of the two updates and of the first query is the
  database's clock.\<close>

record 'st validation_ops =
  val_CreateValidationRecord :: "ValidationRecord \<Rightarrow> 'st \<Rightarrow> db_error option \<times> 'st"
  val_UpdateValidationRecord :: "ValidationRecord \<Rightarrow> 'st \<Rightarrow> db_error option \<times> 'st"
  val_GetValidationRecordsByDomainID :: "uuid \<Rightarrow> 'st \<Rightarrow> (db_error + ValidationRecord list) \<times> 'st"
  val_GetValidationRecordsByDomainIDAndType :: "uuid \<Rightarrow> ValidationType \<Rightarrow> 'st \<Rightarrow> (db_error + ValidationRecord list) \<times> 'st"
  val_CleanupOldValidationRecords :: "instant \<Rightarrow> 'st \<Rightarrow> (db_error + int) \<times> 'st"
  val_UpdateDomainVerificationStatus :: "instant \<Rightarrow> uuid \<Rightarrow> VerificationStatus \<Rightarrow> 'st \<Rightarrow> db_error option \<times> 'st"
  val_UpdateDomainVerificationAttempt ::
    "instant \<Rightarrow> uuid \<Rightarrow> int \<Rightarrow> instant \<Rightarrow> instant option \<Rightarrow> string option \<Rightarrow> 'st \<Rightarrow> db_error option \<times> 'st"
  val_GetDomainsNeedingVerification :: "instant \<Rightarrow> int \<Rightarrow> 'st \<Rightarrow> (db_error + DomainValidationInfo list) \<times> 'st"
  val_GetDomainsPendingVerification :: "int \<Rightarrow> 'st \<Rightarrow> (db_error + DomainValidationInfo list) \<times> 'st"

section \<open>The table of validation records\<close>

record table_rules =
  tr_insert :: "ValidationRecord list \<Rightarrow> ValidationRecord \<Rightarrow> db_error option"
  tr_update :: "ValidationRecord list \<Rightarrow> ValidationRecord \<Rightarrow> db_error option"

definition missing_table :: db_error where
  "missing_table = BadQuery ''relation \"domain_validation_records\" does not exist''"

definition on_records ::
    "table_rules option \<Rightarrow> (table_rules \<Rightarrow> mail_db \<Rightarrow> (db_error + 'a) \<times> mail_db) \<Rightarrow> mail_db \<Rightarrow> (db_error + 'a) \<times> mail_db" where
  "on_records rules f = exec (\<lambda>st. case rules of None \<Rightarrow> (Inl missing_table, st) | Some tr \<Rightarrow> f tr st)"

definition persist_validation :: "ValidationRecord \<Rightarrow> ValidationRecord" where
  "persist_validation r = r\<lparr>vr_StartedAt := trunc_us (vr_StartedAt r), vr_CompletedAt := map_option trunc_us (vr_CompletedAt r),
     vr_CreatedAt := trunc_us (vr_CreatedAt r)\<rparr>"

definition pg_CreateValidationRecord :: "table_rules option \<Rightarrow> ValidationRecord \<Rightarrow> mail_db \<Rightarrow> db_error option \<times> mail_db" where
  "pg_CreateValidationRecord rules r = as_error \<circ> on_records rules (\<lambda>tr st.
     case tr_insert tr (mdb_validations st) r of
       Some e \<Rightarrow> (Inl e, st)
     | None \<Rightarrow> (Inr (), st\<lparr>mdb_validations := mdb_validations st @ [persist_validation r]\<rparr>))"

definition newest :: "ValidationRecord list \<Rightarrow> ValidationRecord list" where
  "newest rs = sort_key (\<lambda>r. - vr_CreatedAt r) rs"

definition pg_GetValidationRecordByID :: "table_rules option \<Rightarrow> uuid \<Rightarrow> mail_db \<Rightarrow> (db_error + ValidationRecord) \<times> mail_db" where
  "pg_GetValidationRecordByID rules i = on_records rules (\<lambda>tr st. (one_row_of (find (\<lambda>r. vr_ID r = i) (mdb_validations st)), st))"

definition pg_GetValidationRecordsByDomainID ::
    "table_rules option \<Rightarrow> uuid \<Rightarrow> mail_db \<Rightarrow> (db_error + ValidationRecord list) \<times> mail_db" where
  "pg_GetValidationRecordsByDomainID rules d = on_records rules (\<lambda>tr st.
     (Inr (newest (filter (\<lambda>r. vr_DomainID r = d) (mdb_validations st))), st))"

definition pg_GetValidationRecordsByDomainIDAndType ::
    "table_rules option \<Rightarrow> uuid \<Rightarrow> ValidationType \<Rightarrow> mail_db \<Rightarrow> (db_error + ValidationRecord list) \<times> mail_db" where
  "pg_GetValidationRecordsByDomainIDAndType rules d t = on_records rules (\<lambda>tr st.
     (Inr (newest (filter (\<lambda>r. vr_DomainID r = d \<and> vr_ValidationType r = t) (mdb_validations st))), st))"

definition pg_UpdateValidationRecord :: "table_rules option \<Rightarrow> ValidationRecord \<Rightarrow> mail_db \<Rightarrow> db_error option \<times> mail_db" where
  "pg_UpdateValidationRecord rules r = as_error \<circ> on_records rules (\<lambda>tr st.
     case tr_update tr (mdb_validations st) r of
       Some e \<Rightarrow> (Inl e, st)
     | None \<Rightarrow> (Inr (), st\<lparr>mdb_validations := map (\<lambda>x. if vr_ID x = vr_ID r
           then x\<lparr>vr_Status := vr_Status r, vr_Details := vr_Details r, vr_CompletedAt := map_option trunc_us (vr_CompletedAt r),
                  vr_ErrorMessage := vr_ErrorMessage r\<rparr>
           else x) (mdb_validations st)\<rparr>))"

definition pg_DeleteValidationRecord :: "table_rules option \<Rightarrow> uuid \<Rightarrow> mail_db \<Rightarrow> db_error option \<times> mail_db" where
  "pg_DeleteValidationRecord rules i = as_error \<circ> on_records rules (\<lambda>tr st.
     if \<not> list_ex (\<lambda>r. vr_ID r = i) (mdb_validations st) then (Inl ErrNoRows, st)
     else (Inr (), st\<lparr>mdb_validations := filter (\<lambda>r. vr_ID r \<noteq> i) (mdb_validations st)\<rparr>))"

definition pg_GetLatestValidationRecord ::
    "table_rules option \<Rightarrow> uuid \<Rightarrow> ValidationType \<Rightarrow> mail_db \<Rightarrow> (db_error + ValidationRecord) \<times> mail_db" where
  "pg_GetLatestValidationRecord rules d t = on_records rules (\<lambda>tr st.
     (one_row_of (case newest (filter (\<lambda>r. vr_DomainID r = d \<and> vr_ValidationType r = t) (mdb_validations st)) of
        [] \<Rightarrow> None | r # _ \<Rightarrow> Some r), st))"

definition pg_GetValidationRecordsByTimeRange ::
    "table_rules option \<Rightarrow> instant \<Rightarrow> instant \<Rightarrow> mail_db \<Rightarrow> (db_error + ValidationRecord list) \<times> mail_db" where
  "pg_GetValidationRecordsByTimeRange rules start stop = on_records rules (\<lambda>tr st.
     (Inr (newest (filter (\<lambda>r. trunc_us start \<le> vr_CreatedAt r \<and> vr_CreatedAt r \<le> trunc_us stop) (mdb_validations st))), st))"

definition pg_GetValidationRecordsByStatus ::
    "table_rules option \<Rightarrow> ValidationRecordStatus \<Rightarrow> mail_db \<Rightarrow> (db_error + ValidationRecord list) \<times> mail_db" where
  "pg_GetValidationRecordsByStatus rules s = on_records rules (\<lambda>tr st.
     (Inr (newest (filter (\<lambda>r. vr_Status r = s) (mdb_validations st))), st))"

definition pg_CleanupOldValidationRecords :: "table_rules option \<Rightarrow> instant \<Rightarrow> mail_db \<Rightarrow> (db_error + int) \<times> mail_db" where
  "pg_CleanupOldValidationRecords rules olderThan = on_records rules (\<lambda>tr st.
     (Inr (int (length (filter (\<lambda>r. vr_CreatedAt r < trunc_us olderThan) (mdb_validations st)))),
      st\<lparr>mdb_validations := filter (\<lambda>r. \<not> vr_CreatedAt r < trunc_us olderThan) (mdb_validations st)\<rparr>))"

section \<open>The verification columns of the domains\<close>

definition set_domain :: "uuid \<Rightarrow> (Domain \<Rightarrow> Domain) \<Rightarrow> mail_db \<Rightarrow> mail_db" where
  "set_domain i g st = st\<lparr>mdb_domains := map (\<lambda>d. if d_ID d = i then g d else d) (mdb_domains st)\<rparr>"

definition pg_UpdateDomainVerificationStatus ::
    "instant \<Rightarrow> uuid \<Rightarrow> VerificationStatus \<Rightarrow> mail_db \<Rightarrow> db_error option \<times> mail_db" where
  "pg_UpdateDomainVerificationStatus dbnow i status = as_error \<circ> exec (\<lambda>st.
     if \<not> VerificationStatus_IsValid status then (Inl InvalidEnum, st)
     else (Inr (), set_domain i (\<lambda>d. d\<lparr>d_VerificationStatus := status, d_UpdatedAt := trunc_us dbnow\<rparr>) st))"

definition pg_UpdateDomainVerificationAttempt ::
    "instant \<Rightarrow> uuid \<Rightarrow> int \<Rightarrow> instant \<Rightarrow> instant option \<Rightarrow> string option \<Rightarrow> mail_db \<Rightarrow> db_error option \<times> mail_db" where
  "pg_UpdateDomainVerificationAttempt dbnow i attempts lastAttempt nextAttempt errorMsg = as_error \<circ> exec (\<lambda>st.
     if \<not> in_int32 attempts then (Inl IntegerOutOfRange, st)
     else (Inr (), set_domain i (\<lambda>d. d\<lparr>d_VerificationAttempts := attempts, d_LastVerificationAttempt := Some (trunc_us lastAttempt),
             d_NextVerificationAttempt := map_option trunc_us nextAttempt,
             d_VerificationError := (case errorMsg of None \<Rightarrow> [] | Some e \<Rightarrow> e), d_UpdatedAt := trunc_us dbnow\<rparr>) st))"

definition validation_info :: "Domain \<Rightarrow> DomainValidationInfo" where
  "validation_info d =
   \<lparr>dvi_ID = d_ID d, dvi_UserID = d_UserID d, dvi_Domain = d_Domain d, dvi_VerificationStatus = d_VerificationStatus d,
    dvi_VerificationToken = Some (d_VerificationToken d), dvi_VerificationAttempts = d_VerificationAttempts d,
    dvi_LastVerificationAttempt = d_LastVerificationAttempt d, dvi_NextVerificationAttempt = d_NextVerificationAttempt d,
    dvi_VerificationError = d_VerificationError d, dvi_CreatedAt = d_CreatedAt d, dvi_UpdatedAt = d_UpdatedAt d\<rparr>"

definition needs_verification :: "instant \<Rightarrow> Domain \<Rightarrow> bool" where
  "needs_verification dbnow d \<longleftrightarrow> d_VerificationStatus d \<in> {VerificationStatusPending, VerificationStatusFailed} \<and>
     (case d_NextVerificationAttempt d of None \<Rightarrow> True | Some t \<Rightarrow> t \<le> trunc_us dbnow)"

definition pg_GetDomainsNeedingVerification ::
    "instant \<Rightarrow> int \<Rightarrow> mail_db \<Rightarrow> (db_error + DomainValidationInfo list) \<times> mail_db" where
  "pg_GetDomainsNeedingVerification dbnow limit = exec (\<lambda>st.
     (page limit 0 (map validation_info (sort_key d_VerificationAttempts (sort_key d_CreatedAt
        (filter (needs_verification dbnow) (mdb_domains st))))), st))"

definition pg_GetDomainsPendingVerification :: "int \<Rightarrow> mail_db \<Rightarrow> (db_error + DomainValidationInfo list) \<times> mail_db" where
  "pg_GetDomainsPendingVerification limit = exec (\<lambda>st.
     (page limit 0 (map validation_info (sort_key d_CreatedAt
        (filter (\<lambda>d. d_VerificationStatus d = VerificationStatusPending) (mdb_domains st)))), st))"

definition pg_validation_repo :: "table_rules option \<Rightarrow> mail_db validation_ops" where
  "pg_validation_repo rules =
   \<lparr>val_CreateValidationRecord = pg_CreateValidationRecord rules, val_UpdateValidationRecord = pg_UpdateValidationRecord rules,
    val_GetValidationRecordsByDomainID = pg_GetValidationRecordsByDomainID rules,
    val_GetValidationRecordsByDomainIDAndType = pg_GetValidationRecordsByDomainIDAndType rules,
    val_CleanupOldValidationRecords = pg_CleanupOldValidationRecords rules,
    val_UpdateDomainVerificationStatus = pg_UpdateDomainVerificationStatus,
    val_UpdateDomainVerificationAttempt = pg_UpdateDomainVerificationAttempt,
    val_GetDomainsNeedingVerification = pg_GetDomainsNeedingVerification,
    val_GetDomainsPendingVerification = pg_GetDomainsPendingVerification\<rparr>"

end
