(* ===== verification/DNSValidation.thy ===== *)
theory DNSValidation
  imports Validation GoStrings
begin

text \<open>
  The checks of a domain's DNS records (\<open>domain/validation/dns_service.go\<close>).

  The resolver is an argument: for every name an error text or the records it answers. The readings of the clock
  (\<open>QueryTime\<close>, \<open>TotalTime\<close>) are arguments too; timeouts appear as errors of the resolver. \<open>dns_ops\<close> is the interface
  \<open>DNSService\<close> of the use case, and \<open>DNSValidator_ops\<close> the code's implementation of it.
\<close>

section \<open>Results\<close>

record MXValidationResult =
  mxr_Domain :: string
  mxr_Valid :: bool
  mxr_FoundRecords :: "MXRecord list"
  mxr_ExpectedServers :: "string list"
  mxr_MissingServers :: "string list"
  mxr_ExtraServers :: "string list"
  mxr_QueryTime :: duration
  mxr_Error :: string

record TXTValidationResult =
  txr_Domain :: string
  txr_Valid :: bool
  txr_FoundRecords :: "string list"
  txr_ExpectedRecord :: string
  txr_MatchingRecord :: string
  txr_QueryTime :: duration
  txr_RetryCount :: int
  txr_Error :: string

record FullValidationResult =
  fvr_Domain :: string
  fvr_OverallValid :: bool
  fvr_MXValidation :: "MXValidationResult option"
  fvr_TXTValidation :: "TXTValidationResult option"
  fvr_TotalTime :: duration
  fvr_ValidationErrors :: "string list"

record dns_ops =
  dns_ValidateMXRecords :: "string \<Rightarrow> string list \<Rightarrow> string + MXValidationResult"
  dns_ValidateTXTRecord :: "string \<Rightarrow> string \<Rightarrow> string + TXTValidationResult"
  dns_ValidateFullDomain :: "string \<Rightarrow> string \<Rightarrow> ValidationConfig \<Rightarrow> string + FullValidationResult"

section \<open>The resolver\<close>

record resolver =
  LookupMX :: "string \<Rightarrow> string + (string \<times> int) list"
  LookupTXT :: "string \<Rightarrow> string + string list"
  LookupHost :: "string \<Rightarrow> string + string list"

record query_times =
  qt_MX :: duration
  qt_TXT :: duration
  qt_Total :: duration

section \<open>The checks\<close>

definition trim_suffix :: "string \<Rightarrow> string \<Rightarrow> string" where
  "trim_suffix s suf = (if HasSuffix s suf then take (length s - length suf) s else s)"

definition to_MXRecords :: "(string \<times> int) list \<Rightarrow> MXRecord list" where
  "to_MXRecords mxs = map (\<lambda>(host, pref). \<lparr>mx_Host = trim_suffix host ''.'', mx_Priority = pref\<rparr>) mxs"

definition ValidateMXRecords :: "resolver \<Rightarrow> duration \<Rightarrow> string \<Rightarrow> string list \<Rightarrow> string + MXValidationResult" where
  "ValidateMXRecords v elapsed domain expectedServers =
     (let result = \<lparr>mxr_Domain = [], mxr_Valid = False, mxr_FoundRecords = [], mxr_ExpectedServers = expectedServers,
                   mxr_MissingServers = [], mxr_ExtraServers = [], mxr_QueryTime = elapsed, mxr_Error = []\<rparr>
      in case LookupMX v domain of
           Inl err \<Rightarrow> Inr (result\<lparr>mxr_Error := ''failed to lookup MX records: '' @ err\<rparr>)
         | Inr mxRecords \<Rightarrow>
             (let found = to_MXRecords mxRecords;
                  foundServers = (\<lambda>h. list_ex (\<lambda>mx. ToLower (mx_Host mx) = h) found);
                  expectedMap = (\<lambda>h. list_ex (\<lambda>e. ToLower e = h) expectedServers);
                  missing = filter (\<lambda>e. \<not> foundServers (ToLower e)) expectedServers;
                  extra = filter (\<lambda>h. \<not> expectedMap (ToLower h)) (map mx_Host found)
              in Inr (result\<lparr>mxr_FoundRecords := found, mxr_Valid := missing = [] \<and> found \<noteq> [],
                        mxr_MissingServers := missing, mxr_ExtraServers := extra\<rparr>)))"

definition ValidateTXTRecord :: "resolver \<Rightarrow> duration \<Rightarrow> string \<Rightarrow> string \<Rightarrow> string + TXTValidationResult" where
  "ValidateTXTRecord v elapsed domain expectedRecord =
     (let result = \<lparr>txr_Domain = [], txr_Valid = False, txr_FoundRecords = [], txr_ExpectedRecord = expectedRecord,
                   txr_MatchingRecord = [], txr_QueryTime = elapsed, txr_RetryCount = 0, txr_Error = []\<rparr>
      in case LookupTXT v domain of
           Inl err \<Rightarrow> Inr (result\<lparr>txr_Error := ''failed to lookup TXT records: '' @ err\<rparr>)
         | Inr txtRecords \<Rightarrow>
             (case find (\<lambda>r. ToLower r = ToLower expectedRecord) txtRecords of
                None \<Rightarrow> Inr (result\<lparr>txr_FoundRecords := txtRecords\<rparr>)
              | Some r \<Rightarrow> Inr (result\<lparr>txr_FoundRecords := txtRecords, txr_Valid := True, txr_MatchingRecord := r\<rparr>)))"

definition check_errors :: "string \<Rightarrow> ('a \<Rightarrow> string) \<Rightarrow> string + 'a \<Rightarrow> string list" where
  "check_errors kind err r =
     (case r of Inl e \<Rightarrow> [kind @ '' validation error: '' @ e]
      | Inr x \<Rightarrow> if err x \<noteq> [] then [kind @ '' validation: '' @ err x] else [])"

definition of_sum :: "'e + 'a \<Rightarrow> 'a option" where
  "of_sum r = (case r of Inl _ \<Rightarrow> None | Inr x \<Rightarrow> Some x)"

definition expected_txt :: "ValidationConfig \<Rightarrow> string \<Rightarrow> string" where
  "expected_txt config verificationToken = vc_TXTRecordPrefix config @ ''='' @ verificationToken"

definition ValidateFullDomain ::
    "resolver \<Rightarrow> query_times \<Rightarrow> string \<Rightarrow> string \<Rightarrow> ValidationConfig \<Rightarrow> string + FullValidationResult" where
  "ValidateFullDomain v qt domain verificationToken config =
     (let mx = ValidateMXRecords v (qt_MX qt) domain (vc_ExpectedMXServers config);
          txtRec = ValidateTXTRecord v (qt_TXT qt) domain (expected_txt config verificationToken)
      in Inr \<lparr>fvr_Domain = domain,
              fvr_OverallValid = (case of_sum mx of None \<Rightarrow> False | Some m \<Rightarrow> mxr_Valid m) \<and>
                (case of_sum txtRec of None \<Rightarrow> False | Some t \<Rightarrow> txr_Valid t),
              fvr_MXValidation = of_sum mx, fvr_TXTValidation = of_sum txtRec, fvr_TotalTime = qt_Total qt,
              fvr_ValidationErrors = check_errors ''MX'' mxr_Error mx @ check_errors ''TXT'' txr_Error txtRec\<rparr>)"

definition DNSValidator_ops :: "resolver \<Rightarrow> query_times \<Rightarrow> dns_ops" where
  "DNSValidator_ops v qt = \<lparr>dns_ValidateMXRecords = ValidateMXRecords v (qt_MX qt),
     dns_ValidateTXTRecord = ValidateTXTRecord v (qt_TXT qt), dns_ValidateFullDomain = ValidateFullDomain v qt\<rparr>"

section \<open>Other checks of the package\<close>

datatype basic_error = DomainEmpty | DomainTooLong | DomainWithoutDot | DomainUnresolved string

definition ValidateDomainBasic :: "resolver \<Rightarrow> string \<Rightarrow> basic_error option" where
  "ValidateDomainBasic v domain =
     (if domain = [] then Some DomainEmpty
      else if length domain > 253 then Some DomainTooLong
      else if \<not> Contains domain ''.'' then Some DomainWithoutDot
      else case LookupHost v domain of Inl err \<Rightarrow> Some (DomainUnresolved err) | Inr _ \<Rightarrow> None)"

definition GetDomainTXTRecords :: "resolver \<Rightarrow> string \<Rightarrow> string + string list" where
  "GetDomainTXTRecords v domain =
     (case LookupTXT v domain of Inl err \<Rightarrow> Inl (''failed to lookup TXT records: '' @ err) | Inr rs \<Rightarrow> Inr rs)"

definition FilterMailVaultTXTRecords :: "string list \<Rightarrow> string \<Rightarrow> string list" where
  "FilterMailVaultTXTRecords txtRecords pfx =
     filter (\<lambda>r. HasPrefix (ToLower r) (ToLower (pfx @ ''=''))) txtRecords"

section \<open>Lemmas\<close>

text \<open>What the two checks look for.\<close>

definition mx_configured :: "resolver \<Rightarrow> string \<Rightarrow> string list \<Rightarrow> bool" where
  "mx_configured v domain expected \<longleftrightarrow> (\<exists>mxs. LookupMX v domain = Inr mxs \<and> mxs \<noteq> [] \<and>
     (\<forall>e \<in> set expected. \<exists>(h, p) \<in> set mxs. ToLower (trim_suffix h ''.'') = ToLower e))"

definition txt_published :: "resolver \<Rightarrow> string \<Rightarrow> string \<Rightarrow> bool" where
  "txt_published v domain expected \<longleftrightarrow> (\<exists>txts. LookupTXT v domain = Inr txts \<and> (\<exists>t \<in> set txts. ToLower t = ToLower expected))"

lemma ValidateMXRecords_valid:
  "\<exists>m. ValidateMXRecords v elapsed domain expected = Inr m \<and> (mxr_Valid m \<longleftrightarrow> mx_configured v domain expected)"
proof (cases "LookupMX v domain")
  case (Inr mxs)
  have "(\<exists>mx \<in> set (to_MXRecords mxs). ToLower (mx_Host mx) = h) \<longleftrightarrow> (\<exists>(h', p) \<in> set mxs. ToLower (trim_suffix h' ''.'') = h)" for h
    by (auto simp: to_MXRecords_def split: prod.splits)
  moreover have "to_MXRecords mxs = [] \<longleftrightarrow> mxs = []" by (simp add: to_MXRecords_def)
  ultimately show ?thesis using Inr
    by (simp add: ValidateMXRecords_def mx_configured_def Let_def list_ex_iff filter_empty_conv) blast
qed (simp add: ValidateMXRecords_def mx_configured_def Let_def)

lemma ValidateTXTRecord_valid:
  "\<exists>t. ValidateTXTRecord v elapsed domain expected = Inr t \<and> (txr_Valid t \<longleftrightarrow> txt_published v domain expected)"
proof (cases "LookupTXT v domain")
  case (Inr txts)
  show ?thesis
  proof (cases "find (\<lambda>r. ToLower r = ToLower expected) txts")
    case None
    then have "\<forall>t \<in> set txts. ToLower t \<noteq> ToLower expected" by (auto simp: find_None_iff)
    then show ?thesis using None Inr by (simp add: ValidateTXTRecord_def txt_published_def Let_def)
  next
    case (Some t)
    then have "\<exists>t \<in> set txts. ToLower t = ToLower expected" by (auto simp: find_Some_iff)
    then show ?thesis using Some Inr by (simp add: ValidateTXTRecord_def txt_published_def Let_def)
  qed
qed (simp add: ValidateTXTRecord_def txt_published_def Let_def)

lemma ValidateFullDomain_valid:
  "\<exists>r. ValidateFullDomain v qt domain token config = Inr r \<and> fvr_MXValidation r \<noteq> None \<and> fvr_TXTValidation r \<noteq> None \<and>
     (fvr_OverallValid r \<longleftrightarrow> mx_configured v domain (vc_ExpectedMXServers config) \<and> txt_published v domain (expected_txt config token))"
  using ValidateMXRecords_valid [of v "qt_MX qt" domain "vc_ExpectedMXServers config"]
    ValidateTXTRecord_valid [of v "qt_TXT qt" domain "expected_txt config token"]
  by (auto simp: ValidateFullDomain_def of_sum_def Let_def)

end
