(* ===== verification/DomainVerification.thy ===== *)
theory DomainVerification
  imports ValidationStore DNSValidation
begin

text \<open>
  Verifying domains, \<open>domain/validation/usecase.go\<close>.

  The use case works over the interfaces of its repositories and of the DNS service. \<open>ValidateDomain\<close> marks the domain
  as validating, writes a record, asks the DNS and writes the outcome; failed updates of the status are only
  logged, as in the code. Ids and the readings of the clocks are arguments. A nil result of the DNS service, which the code would
  dereference, is the error \<open>NilDereference\<close>.
\<close>

section \<open>The use case\<close>

datatype validation_error =
    DomainNotLoaded db_error | NoVerificationToken | RecordNotCreated db_error | DNSCheckFailed string
  | StatusNotUpdated db_error | AttemptNotUpdated db_error | StatusNotReset validation_error | NilDereference
  | CleanupFailed db_error

record 'st validation_uc =
  vu_records :: "'st validation_ops"
  vu_domains :: "'st domain_ops"
  vu_dns :: dns_ops
  vu_config :: ValidationConfig

record status_draw =
  sd_now :: instant
  sd_db_status :: instant
  sd_db_attempt :: instant

record run_draw =
  ru_reset :: status_draw
  ru_validating :: status_draw
  ru_id :: uuid
  ru_started :: instant
  ru_created :: instant
  ru_completed :: instant
  ru_final :: status_draw

definition next_attempt :: "ValidationConfig \<Rightarrow> instant \<Rightarrow> VerificationStatus \<Rightarrow> int \<Rightarrow> instant option" where
  "next_attempt config now status attempts =
     (if status = VerificationStatusFailed \<and> attempts < vc_MaxRetries config
      then Some (now + CalculateRetryDelay attempts (vc_RetryDelay config)) else None)"

definition UpdateValidationStatus ::
    "'st validation_uc \<Rightarrow> status_draw \<Rightarrow> uuid \<Rightarrow> VerificationStatus \<Rightarrow> string option \<Rightarrow> 'st \<Rightarrow> validation_error option \<times> 'st" where
  "UpdateValidationStatus uc dr i status errorMsg st =
     (case val_UpdateDomainVerificationStatus (vu_records uc) (sd_db_status dr) i status st of
        (Some e, s1) \<Rightarrow> (Some (StatusNotUpdated e), s1)
      | (None, s1) \<Rightarrow>
          (case dom_GetByID (vu_domains uc) i s1 of
             (Inl e, s2) \<Rightarrow> (Some (DomainNotLoaded e), s2)
           | (Inr d, s2) \<Rightarrow>
               let attempts = d_VerificationAttempts d + 1 in
               case val_UpdateDomainVerificationAttempt (vu_records uc) (sd_db_attempt dr) i attempts (sd_now dr)
                      (next_attempt (vu_config uc) (sd_now dr) status attempts) errorMsg s2 of
                 (Some e, s3) \<Rightarrow> (Some (AttemptNotUpdated e), s3)
               | (None, s3) \<Rightarrow> (None, s3)))"

definition empty_details :: ValidationDetails where
  "empty_details = \<lparr>vd_ExpectedMXServers = [], vd_FoundMXRecords = [], vd_MXValidationPassed = False, vd_ExpectedTXTRecord = [],
     vd_FoundTXTRecords = [], vd_TXTValidationPassed = False, vd_DNSServer = [], vd_QueryTime = 0, vd_RetryCount = 0, vd_ErrorDetails = []\<rparr>"

definition running_record :: "run_draw \<Rightarrow> uuid \<Rightarrow> ValidationType \<Rightarrow> ValidationRecord" where
  "running_record dr i t = \<lparr>vr_ID = ru_id dr, vr_DomainID = i, vr_ValidationType = t, vr_Status = ValidationRecordStatusRunning,
     vr_Details = empty_details, vr_StartedAt = ru_started dr, vr_CompletedAt = None, vr_ErrorMessage = None,
     vr_CreatedAt = ru_created dr\<rparr>"

definition error_record :: "run_draw \<Rightarrow> string \<Rightarrow> ValidationRecord \<Rightarrow> ValidationRecord" where
  "error_record dr msg r = r\<lparr>vr_Status := ValidationRecordStatusError, vr_ErrorMessage := Some msg, vr_CompletedAt := Some (ru_completed dr)\<rparr>"

definition done_record :: "run_draw \<Rightarrow> ValidationDetails \<Rightarrow> string option \<Rightarrow> ValidationRecord \<Rightarrow> ValidationRecord" where
  "done_record dr details failure r = r\<lparr>vr_Details := details, vr_CompletedAt := Some (ru_completed dr),
     vr_Status := (case failure of None \<Rightarrow> ValidationRecordStatusSuccess | Some _ \<Rightarrow> ValidationRecordStatusFailed), vr_ErrorMessage := failure\<rparr>"

definition go_bool :: "bool \<Rightarrow> string" where
  "go_bool b = (if b then ''true'' else ''false'')"

definition failure_text :: "bool \<Rightarrow> bool \<Rightarrow> string" where
  "failure_text mx txtOk = ''Validation failed - MX: '' @ go_bool mx @ '', TXT: '' @ go_bool txtOk"

definition full_details :: "MXValidationResult \<Rightarrow> TXTValidationResult \<Rightarrow> duration \<Rightarrow> ValidationDetails" where
  "full_details m t elapsed = empty_details\<lparr>vd_ExpectedMXServers := mxr_ExpectedServers m, vd_FoundMXRecords := mxr_FoundRecords m,
     vd_MXValidationPassed := mxr_Valid m, vd_ExpectedTXTRecord := txr_ExpectedRecord t, vd_FoundTXTRecords := txr_FoundRecords t,
     vd_TXTValidationPassed := txr_Valid t, vd_QueryTime := elapsed\<rparr>"

definition mx_details :: "MXValidationResult \<Rightarrow> ValidationDetails" where
  "mx_details m = empty_details\<lparr>vd_ExpectedMXServers := mxr_ExpectedServers m, vd_FoundMXRecords := mxr_FoundRecords m,
     vd_MXValidationPassed := mxr_Valid m, vd_QueryTime := mxr_QueryTime m\<rparr>"

definition txt_details :: "TXTValidationResult \<Rightarrow> ValidationDetails" where
  "txt_details t = empty_details\<lparr>vd_ExpectedTXTRecord := txr_ExpectedRecord t, vd_FoundTXTRecords := txr_FoundRecords t,
     vd_TXTValidationPassed := txr_Valid t, vd_QueryTime := txr_QueryTime t\<rparr>"

text \<open>The outcome of the DNS check, written to the domain and the record.\<close>

definition conclude ::
    "'st validation_uc \<Rightarrow> run_draw \<Rightarrow> uuid \<Rightarrow> ValidationRecord \<Rightarrow> string + FullValidationResult \<Rightarrow> 'st
      \<Rightarrow> (validation_error + FullValidationResult) \<times> 'st" where
  "conclude uc dr i r dns st =
     (case dns of
        Inl err \<Rightarrow>
          let s1 = snd (val_UpdateValidationRecord (vu_records uc) (error_record dr err r) st);
              s2 = snd (UpdateValidationStatus uc (ru_final dr) i VerificationStatusFailed (Some (''DNS validation failed: '' @ err)) s1)
          in (Inl (DNSCheckFailed err), s2)
      | Inr result \<Rightarrow>
          (case (fvr_MXValidation result, fvr_TXTValidation result) of
             (Some m, Some t) \<Rightarrow>
               let failure = (if fvr_OverallValid result then None else Some (failure_text (mxr_Valid m) (txr_Valid t)));
                   status = (if fvr_OverallValid result then VerificationStatusVerified else VerificationStatusFailed);
                   s1 = snd (UpdateValidationStatus uc (ru_final dr) i status failure st);
                   s2 = snd (val_UpdateValidationRecord (vu_records uc) (done_record dr (full_details m t (fvr_TotalTime result)) failure r) s1)
               in (Inr result, s2)
           | _ \<Rightarrow> (Inl NilDereference, st)))"

definition ValidateDomain ::
    "'st validation_uc \<Rightarrow> run_draw \<Rightarrow> uuid \<Rightarrow> 'st \<Rightarrow> (validation_error + FullValidationResult) \<times> 'st" where
  "ValidateDomain uc dr i st =
     (case dom_GetByID (vu_domains uc) i st of
        (Inl e, s0) \<Rightarrow> (Inl (DomainNotLoaded e), s0)
      | (Inr d, s0) \<Rightarrow>
          if d_VerificationToken d = [] then (Inl NoVerificationToken, s0)
          else
            let s1 = snd (UpdateValidationStatus uc (ru_validating dr) i VerificationStatusValidating None s0);
                r = running_record dr i ValidationTypeFullValidation
            in case val_CreateValidationRecord (vu_records uc) r s1 of
                 (Some e, s2) \<Rightarrow> (Inl (RecordNotCreated e), s2)
               | (None, s2) \<Rightarrow>
                   conclude uc dr i r (dns_ValidateFullDomain (vu_dns uc) (d_Domain d) (d_VerificationToken d) (vu_config uc)) s2)"

definition uc_ValidateMXRecords :: "'st validation_uc \<Rightarrow> run_draw \<Rightarrow> uuid \<Rightarrow> 'st \<Rightarrow> validation_error option \<times> 'st" where
  "uc_ValidateMXRecords uc dr i st =
     (case dom_GetByID (vu_domains uc) i st of
        (Inl e, s0) \<Rightarrow> (Some (DomainNotLoaded e), s0)
      | (Inr d, s0) \<Rightarrow>
          let r = running_record dr i ValidationTypeMXRecord in
          (case val_CreateValidationRecord (vu_records uc) r s0 of
             (Some e, s1) \<Rightarrow> (Some (RecordNotCreated e), s1)
           | (None, s1) \<Rightarrow>
               (case dns_ValidateMXRecords (vu_dns uc) (d_Domain d) (vc_ExpectedMXServers (vu_config uc)) of
                  Inl err \<Rightarrow> (Some (DNSCheckFailed err), snd (val_UpdateValidationRecord (vu_records uc) (error_record dr err r) s1))
                | Inr m \<Rightarrow> (None, snd (val_UpdateValidationRecord (vu_records uc)
                    (done_record dr (mx_details m)
                       (if mxr_Valid m then None else Some (''MX validation failed: '' @ mxr_Error m)) r) s1)))))"

definition uc_ValidateTXTRecord :: "'st validation_uc \<Rightarrow> run_draw \<Rightarrow> uuid \<Rightarrow> 'st \<Rightarrow> validation_error option \<times> 'st" where
  "uc_ValidateTXTRecord uc dr i st =
     (case dom_GetByID (vu_domains uc) i st of
        (Inl e, s0) \<Rightarrow> (Some (DomainNotLoaded e), s0)
      | (Inr d, s0) \<Rightarrow>
          if d_VerificationToken d = [] then (Some NoVerificationToken, s0)
          else
            let r = running_record dr i ValidationTypeTXTRecord in
            (case val_CreateValidationRecord (vu_records uc) r s0 of
               (Some e, s1) \<Rightarrow> (Some (RecordNotCreated e), s1)
             | (None, s1) \<Rightarrow>
                 (case dns_ValidateTXTRecord (vu_dns uc) (d_Domain d) (expected_txt (vu_config uc) (d_VerificationToken d)) of
                    Inl err \<Rightarrow> (Some (DNSCheckFailed err), snd (val_UpdateValidationRecord (vu_records uc) (error_record dr err r) s1))
                  | Inr t \<Rightarrow> (None, snd (val_UpdateValidationRecord (vu_records uc)
                      (done_record dr (txt_details t)
                         (if txr_Valid t then None else Some (''TXT validation failed: '' @ txr_Error t)) r) s1)))))"

definition RetryDomainValidation :: "'st validation_uc \<Rightarrow> run_draw \<Rightarrow> uuid \<Rightarrow> 'st \<Rightarrow> validation_error option \<times> 'st" where
  "RetryDomainValidation uc dr i st =
     (case UpdateValidationStatus uc (ru_reset dr) i VerificationStatusPending None st of
        (Some e, s1) \<Rightarrow> (Some (StatusNotReset e), s1)
      | (None, s1) \<Rightarrow>
          (case ValidateDomain uc dr i s1 of (Inl e, s2) \<Rightarrow> (Some e, s2) | (Inr _, s2) \<Rightarrow> (None, s2)))"

definition RetryValidation ::
    "'st validation_uc \<Rightarrow> run_draw \<Rightarrow> uuid \<Rightarrow> 'st \<Rightarrow> (validation_error + FullValidationResult) \<times> 'st" where
  "RetryValidation uc dr i st =
     (case UpdateValidationStatus uc (ru_reset dr) i VerificationStatusPending None st of
        (Some e, s1) \<Rightarrow> (Inl (StatusNotReset e), s1)
      | (None, s1) \<Rightarrow>
          (case dom_GetByID (vu_domains uc) i s1 of
             (Inl e, s2) \<Rightarrow> (Inl (DomainNotLoaded e), s2)
           | (Inr d, s2) \<Rightarrow>
               (case dns_ValidateFullDomain (vu_dns uc) (d_Domain d) (d_VerificationToken d) (vu_config uc) of
                  Inl err \<Rightarrow> (Inl (DNSCheckFailed err), snd (UpdateValidationStatus uc (ru_final dr) i VerificationStatusFailed (Some err) s2))
                | Inr result \<Rightarrow>
                    (Inr result,
                     if fvr_OverallValid result
                     then snd (UpdateValidationStatus uc (ru_final dr) i VerificationStatusVerified None s2)
                     else snd (UpdateValidationStatus uc (ru_final dr) i VerificationStatusFailed
                            (Some (failure_text (case fvr_MXValidation result of None \<Rightarrow> False | Some m \<Rightarrow> mxr_Valid m)
                               (case fvr_TXTValidation result of None \<Rightarrow> False | Some t \<Rightarrow> txr_Valid t))) s2)))))"

section \<open>Queries\<close>

definition load_domain :: "'st validation_uc \<Rightarrow> uuid \<Rightarrow> (Domain \<Rightarrow> 'a) \<Rightarrow> 'st \<Rightarrow> (validation_error + 'a) \<times> 'st" where
  "load_domain uc i f st =
     (case dom_GetByID (vu_domains uc) i st of (Inl e, s1) \<Rightarrow> (Inl (DomainNotLoaded e), s1) | (Inr d, s1) \<Rightarrow> (Inr (f d), s1))"

definition GetDomainValidationInfo :: "'st validation_uc \<Rightarrow> uuid \<Rightarrow> 'st \<Rightarrow> (validation_error + DomainValidationInfo) \<times> 'st" where
  "GetDomainValidationInfo uc i = load_domain uc i validation_info"

definition GetValidationHistory :: "'st validation_uc \<Rightarrow> uuid \<Rightarrow> 'st \<Rightarrow> (db_error + ValidationRecord list) \<times> 'st" where
  "GetValidationHistory uc = val_GetValidationRecordsByDomainID (vu_records uc)"

definition GetValidationHistoryByType :: "'st validation_uc \<Rightarrow> uuid \<Rightarrow> ValidationType \<Rightarrow> 'st \<Rightarrow> (db_error + ValidationRecord list) \<times> 'st" where
  "GetValidationHistoryByType uc = val_GetValidationRecordsByDomainIDAndType (vu_records uc)"

definition GetDomainsNeedingValidation :: "'st validation_uc \<Rightarrow> instant \<Rightarrow> int \<Rightarrow> 'st \<Rightarrow> (db_error + DomainValidationInfo list) \<times> 'st" where
  "GetDomainsNeedingValidation uc = val_GetDomainsNeedingVerification (vu_records uc)"

definition GetPendingValidations :: "'st validation_uc \<Rightarrow> int \<Rightarrow> 'st \<Rightarrow> (db_error + DomainValidationInfo list) \<times> 'st" where
  "GetPendingValidations uc = val_GetDomainsPendingVerification (vu_records uc)"

definition CleanupOldValidationRecords :: "'st validation_uc \<Rightarrow> instant \<Rightarrow> 'st \<Rightarrow> (validation_error + int) \<times> 'st" where
  "CleanupOldValidationRecords uc olderThan st =
     (case val_CleanupOldValidationRecords (vu_records uc) olderThan st of
        (Inl e, s1) \<Rightarrow> (Inl (CleanupFailed e), s1) | (Inr n, s1) \<Rightarrow> (Inr n, s1))"

record ValidationStatus =
  vst_DomainID :: uuid
  vst_Domain :: string
  vst_Status :: VerificationStatus
  vst_Attempts :: int
  vst_Records :: "ValidationRecord list"
  vst_Error :: "string option"

definition GetValidationStatus :: "'st validation_uc \<Rightarrow> uuid \<Rightarrow> 'st \<Rightarrow> (validation_error + ValidationStatus) \<times> 'st" where
  "GetValidationStatus uc i st =
     (case dom_GetByID (vu_domains uc) i st of
        (Inl e, s1) \<Rightarrow> (Inl (DomainNotLoaded e), s1)
      | (Inr d, s1) \<Rightarrow>
          (case val_GetValidationRecordsByDomainID (vu_records uc) i s1 of (r, s2) \<Rightarrow>
             (Inr \<lparr>vst_DomainID = d_ID d, vst_Domain = d_Domain d, vst_Status = d_VerificationStatus d,
                   vst_Attempts = d_VerificationAttempts d, vst_Records = (case r of Inl _ \<Rightarrow> [] | Inr rs \<Rightarrow> rs),
                   vst_Error = (if d_VerificationError d \<noteq> [] then Some (d_VerificationError d) else None)\<rparr>, s2)))"

record ValidationInstructions =
  vi_Domain :: string
  vi_VerificationToken :: string
  vi_MXRecords :: "string list"
  vi_TXTRecord :: string

definition GetValidationInstructions :: "'st validation_uc \<Rightarrow> uuid \<Rightarrow> 'st \<Rightarrow> (validation_error + ValidationInstructions) \<times> 'st" where
  "GetValidationInstructions uc i = load_domain uc i (\<lambda>d.
     \<lparr>vi_Domain = d_Domain d, vi_VerificationToken = d_VerificationToken d, vi_MXRecords = vc_ExpectedMXServers (vu_config uc),
      vi_TXTRecord = (if d_VerificationToken d \<noteq> [] then expected_txt (vu_config uc) (d_VerificationToken d) else [])\<rparr>)"

end
