(* ===== verification/VerifiedDomains.thy ===== *)
theory VerifiedDomains
  imports DomainVerification
begin

text \<open>
  What verification does to the stored domains: the contract of the use case over the interface
  \<open>validation_store\<close> of its repositories, and its properties.
\<close>

section \<open>The contract of the repositories\<close>

definition mark_status :: "instant \<Rightarrow> VerificationStatus \<Rightarrow> Domain \<Rightarrow> Domain" where
  "mark_status t s d = d\<lparr>d_VerificationStatus := s, d_UpdatedAt := trunc_us t\<rparr>"

definition note_attempt :: "instant \<Rightarrow> int \<Rightarrow> instant \<Rightarrow> instant option \<Rightarrow> string option \<Rightarrow> Domain \<Rightarrow> Domain" where
  "note_attempt t n now next msg d = d\<lparr>d_VerificationAttempts := n, d_LastVerificationAttempt := Some (trunc_us now),
     d_NextVerificationAttempt := map_option trunc_us next,
     d_VerificationError := (case msg of None \<Rightarrow> [] | Some e \<Rightarrow> e), d_UpdatedAt := trunc_us t\<rparr>"

definition change :: "uuid \<Rightarrow> ('a \<Rightarrow> 'a) \<Rightarrow> (uuid \<Rightarrow> 'a option) \<Rightarrow> uuid \<Rightarrow> 'a option" where
  "change i g m = m(i := map_option g (m i))"

locale validation_store =
  fixes vops :: "'st validation_ops" and dops :: "'st domain_ops"
    and inv :: "'st \<Rightarrow> bool" and doms :: "'st \<Rightarrow> uuid \<Rightarrow> Domain option"
  assumes load: "inv st \<Longrightarrow> dom_GetByID dops i st = (r, st') \<Longrightarrow>
      inv st' \<and> doms st' = doms st \<and> (\<forall>d. r = Inr d \<longrightarrow> doms st i = Some d)"
    and status_law: "inv st \<Longrightarrow> val_UpdateDomainVerificationStatus vops t i s st = (e, st') \<Longrightarrow>
      inv st' \<and> doms st' = (if e = None then change i (mark_status t s) (doms st) else doms st)"
    and attempt_law: "inv st \<Longrightarrow> val_UpdateDomainVerificationAttempt vops t i n now next msg st = (e, st') \<Longrightarrow>
      inv st' \<and> doms st' = (if e = None then change i (note_attempt t n now next msg) (doms st) else doms st)"
    and create_law: "inv st \<Longrightarrow> val_CreateValidationRecord vops x st = (e, st') \<Longrightarrow> inv st' \<and> doms st' = doms st"
    and update_law: "inv st \<Longrightarrow> val_UpdateValidationRecord vops x st = (e, st') \<Longrightarrow> inv st' \<and> doms st' = doms st"
begin

text \<open>\<open>only_here i P st st'\<close>: a domain that is verified afterwards was before, unless it is \<open>i\<close> and \<open>P\<close> holds; names
  and tokens stay, and every other domain stays as it is.\<close>

definition only_here :: "uuid \<Rightarrow> bool \<Rightarrow> 'st \<Rightarrow> 'st \<Rightarrow> bool" where
  "only_here i P st st' \<longleftrightarrow> inv st' \<and> (\<forall>j. j \<noteq> i \<longrightarrow> doms st' j = doms st j) \<and> (\<forall>j d'. doms st' j = Some d' \<longrightarrow> (\<exists>d. doms st j = Some d \<and>
     d_Domain d' = d_Domain d \<and> d_VerificationToken d' = d_VerificationToken d \<and>
     (IsVerified d' \<longrightarrow> IsVerified d \<or> j = i \<and> P)))"

lemma only_here_same: "inv st' \<Longrightarrow> doms st' = doms st \<Longrightarrow> only_here i P st st'"
  by (simp add: only_here_def)

lemma only_here_mono: "only_here i P st st' \<Longrightarrow> (P \<Longrightarrow> Q) \<Longrightarrow> only_here i Q st st'"
  unfolding only_here_def by blast

lemma only_here_trans:
  assumes "only_here i P s1 s2" "only_here i P s2 s3"
  shows "only_here i P s1 s3"
  using assms unfolding only_here_def by metis

lemma only_here_change:
  assumes "inv st'" "doms st' = change i g (doms st)"
    and "\<And>d. d_Domain (g d) = d_Domain d \<and> d_VerificationToken (g d) = d_VerificationToken d \<and> (IsVerified (g d) \<longrightarrow> IsVerified d \<or> P)"
  shows "only_here i P st st'"
  using assms by (auto simp: only_here_def change_def split: if_splits)

lemma UpdateValidationStatus_only:
  assumes uc: "vu_records uc = vops" "vu_domains uc = dops" and ok: "inv st"
    and r: "UpdateValidationStatus uc dr i s msg st = (e, st')"
  shows "only_here i (s = VerificationStatusVerified) st st'"
proof -
  let ?P = "s = VerificationStatusVerified"
  obtain e1 s1 where e1: "val_UpdateDomainVerificationStatus vops (sd_db_status dr) i s st = (e1, s1)" by fastforce
  note c1 = status_law [OF ok e1]
  have o1: "only_here i ?P st s1"
  proof (cases e1)
    case None
    then show ?thesis using c1 by (intro only_here_change [where g = "mark_status (sd_db_status dr) s"]) (auto simp: mark_status_def IsVerified_def)
  qed (use c1 in \<open>simp add: only_here_same\<close>)
  obtain g s2 where g: "dom_GetByID dops i s1 = (g, s2)" by fastforce
  note c2 = load [OF conjunct1 [OF c1] g]
  have o2: "only_here i ?P st s2" using o1 c2 by (blast intro: only_here_trans only_here_same)
  show ?thesis
  proof (cases "e1 = None \<and> (\<exists>d. g = Inr d)")
    case False
    then have "st' = s1 \<or> st' = s2" using r uc e1 g by (auto simp: UpdateValidationStatus_def split: option.splits sum.splits)
    then show ?thesis using o1 o2 by auto
  next
    case True
    then obtain d where d: "g = Inr d" "e1 = None" by blast
    let ?n = "d_VerificationAttempts d + 1"
    let ?next = "next_attempt (vu_config uc) (sd_now dr) s ?n"
    obtain e3 s3 where e3: "val_UpdateDomainVerificationAttempt vops (sd_db_attempt dr) i ?n (sd_now dr) ?next msg s2 = (e3, s3)" by fastforce
    note c3 = attempt_law [OF conjunct1 [OF c2] e3]
    have "only_here i ?P s2 s3"
    proof (cases e3)
      case None
      then show ?thesis using c3
        by (intro only_here_change [where g = "note_attempt (sd_db_attempt dr) ?n (sd_now dr) ?next msg"]) (auto simp: note_attempt_def IsVerified_def)
    qed (use c3 in \<open>simp add: only_here_same\<close>)
    moreover have "st' = s3" using r uc e1 d g e3 by (auto simp: UpdateValidationStatus_def Let_def split: option.splits)
    ultimately show ?thesis using o2 only_here_trans by blast
  qed
qed

lemma status_snd:
  assumes "vu_records uc = vops" "vu_domains uc = dops" "only_here i P st s1" "s = VerificationStatusVerified \<longrightarrow> P"
  shows "only_here i P st (snd (UpdateValidationStatus uc dr i s msg s1))"
proof -
  obtain e s2 where e: "UpdateValidationStatus uc dr i s msg s1 = (e, s2)" by fastforce
  have "inv s1" using assms(3) by (simp add: only_here_def)
  from UpdateValidationStatus_only [OF assms(1,2) this e] have "only_here i P s1 s2"
    using assms(4) unfolding only_here_def by blast
  then show ?thesis using e only_here_trans [OF assms(3)] by simp
qed

lemma record_snd: "only_here i P st s1 \<Longrightarrow> only_here i P st (snd (val_UpdateValidationRecord vops x s1))"
  by (metis only_here_def only_here_same only_here_trans prod.collapse update_law)

lemma conclude_only:
  assumes uc: "vu_records uc = vops" "vu_domains uc = dops" and st: "only_here i P st s1"
    and P: "\<And>res. dns = Inr res \<Longrightarrow> fvr_OverallValid res \<Longrightarrow> P"
  shows "only_here i P st (snd (conclude uc dr i x dns s1))"
  using st P by (auto simp: conclude_def Let_def uc(1) status_snd [OF uc] record_snd split: sum.splits option.splits)

lemma created_only:
  assumes "only_here i P st s0" "val_CreateValidationRecord vops x s0 = (e, s1)"
  shows "only_here i P st s1"
proof -
  have "inv s0" using assms(1) by (simp add: only_here_def)
  from create_law [OF this assms(2)] have "only_here i P s0 s1" by (simp add: only_here_same)
  then show ?thesis by (rule only_here_trans [OF assms(1)])
qed

text \<open>\<open>dns_confirms\<close>: the DNS service calls the domain's records valid.\<close>

definition dns_confirms :: "'st validation_uc \<Rightarrow> uuid \<Rightarrow> 'st \<Rightarrow> bool" where
  "dns_confirms uc i st \<longleftrightarrow> (\<exists>d res. doms st i = Some d \<and>
     dns_ValidateFullDomain (vu_dns uc) (d_Domain d) (d_VerificationToken d) (vu_config uc) = Inr res \<and> fvr_OverallValid res)"

lemma dns_confirms_back: "only_here i P st s1 \<Longrightarrow> dns_confirms uc i s1 \<Longrightarrow> dns_confirms uc i st"
  unfolding only_here_def dns_confirms_def by metis

lemma ValidateDomain_only:
  assumes uc: "vu_records uc = vops" "vu_domains uc = dops" and ok: "inv st"
  shows "only_here i (dns_confirms uc i st) st (snd (ValidateDomain uc dr i st))"
proof -
  let ?P = "dns_confirms uc i st"
  obtain g s0 where g: "dom_GetByID dops i st = (g, s0)" by fastforce
  have c0: "only_here i ?P st s0" "\<And>d. g = Inr d \<Longrightarrow> doms st i = Some d" using load [OF ok g] only_here_same by auto
  show ?thesis
  proof (cases "\<exists>d. g = Inr d \<and> d_VerificationToken d \<noteq> []")
    case False
    then show ?thesis using c0(1) uc g by (auto simp: ValidateDomain_def split: sum.splits)
  next
    case True
    then obtain d where d: "g = Inr d" "d_VerificationToken d \<noteq> []" by blast
    let ?s1 = "snd (UpdateValidationStatus uc (ru_validating dr) i VerificationStatusValidating None s0)"
    let ?x = "running_record dr i ValidationTypeFullValidation"
    have o1: "only_here i ?P st ?s1" using status_snd [OF uc c0(1)] by simp
    obtain e s2 where e: "val_CreateValidationRecord vops ?x ?s1 = (e, s2)" by fastforce
    note o2 = created_only [OF o1 e]
    have "only_here i ?P st (snd (conclude uc dr i ?x (dns_ValidateFullDomain (vu_dns uc) (d_Domain d) (d_VerificationToken d) (vu_config uc)) s2))"
      using c0(2) [OF d(1)] by (intro conclude_only [OF uc o2]) (auto simp: dns_confirms_def)
    then show ?thesis using o2 uc g d e by (auto simp: ValidateDomain_def Let_def split: option.splits)
  qed
qed

lemma uc_ValidateMXRecords_only:
  assumes uc: "vu_records uc = vops" "vu_domains uc = dops" and ok: "inv st"
  shows "only_here i P st (snd (uc_ValidateMXRecords uc dr i st))"
proof -
  obtain g s0 where g: "dom_GetByID dops i st = (g, s0)" by fastforce
  have o0: "only_here i P st s0" using load [OF ok g] only_here_same by auto
  let ?x = "running_record dr i ValidationTypeMXRecord"
  obtain e s1 where e: "val_CreateValidationRecord vops ?x s0 = (e, s1)" by fastforce
  note o1 = created_only [OF o0 e]
  show ?thesis
  proof (cases "\<exists>d. g = Inr d \<and> e = None")
    case False
    then show ?thesis using g e o0 o1
      by (cases g; cases e) (simp_all add: uc_ValidateMXRecords_def uc Let_def)
  next
    case True
    then obtain d where d: "g = Inr d" "e = None" by blast
    show ?thesis
      by (cases "dns_ValidateMXRecords (vu_dns uc) (d_Domain d) (vc_ExpectedMXServers (vu_config uc))")
        (simp_all add: uc_ValidateMXRecords_def uc Let_def g d e [unfolded d] record_snd o1)
  qed
qed

lemma uc_ValidateTXTRecord_only:
  assumes uc: "vu_records uc = vops" "vu_domains uc = dops" and ok: "inv st"
  shows "only_here i P st (snd (uc_ValidateTXTRecord uc dr i st))"
proof -
  obtain g s0 where g: "dom_GetByID dops i st = (g, s0)" by fastforce
  have o0: "only_here i P st s0" using load [OF ok g] only_here_same by auto
  let ?x = "running_record dr i ValidationTypeTXTRecord"
  obtain e s1 where e: "val_CreateValidationRecord vops ?x s0 = (e, s1)" by fastforce
  note o1 = created_only [OF o0 e]
  show ?thesis
  proof (cases "\<exists>d. g = Inr d \<and> d_VerificationToken d \<noteq> [] \<and> e = None")
    case False
    then show ?thesis using g e o0 o1
      by (cases g; cases e) (auto simp: uc_ValidateTXTRecord_def uc Let_def)
  next
    case True
    then obtain d where d: "g = Inr d" "d_VerificationToken d \<noteq> []" "e = None" by blast
    show ?thesis
      by (cases "dns_ValidateTXTRecord (vu_dns uc) (d_Domain d) (expected_txt (vu_config uc) (d_VerificationToken d))")
        (simp_all add: uc_ValidateTXTRecord_def uc Let_def g d e [unfolded d] record_snd o1)
  qed
qed

lemma RetryDomainValidation_only:
  assumes uc: "vu_records uc = vops" "vu_domains uc = dops" and ok: "inv st"
  shows "only_here i (dns_confirms uc i st) st (snd (RetryDomainValidation uc dr i st))"
proof -
  obtain e s1 where e: "UpdateValidationStatus uc (ru_reset dr) i VerificationStatusPending None st = (e, s1)" by fastforce
  have o1: "only_here i (dns_confirms uc i st) st s1" by (rule only_here_mono [OF UpdateValidationStatus_only [OF uc ok e]]) simp
  then have "inv s1" by (simp add: only_here_def)
  from ValidateDomain_only [OF uc this, of i dr] have "only_here i (dns_confirms uc i st) s1 (snd (ValidateDomain uc dr i s1))"
    using dns_confirms_back [OF o1] unfolding only_here_def by blast
  from only_here_trans [OF o1 this] show ?thesis using o1 e
    by (auto simp: RetryDomainValidation_def split: option.splits sum.splits prod.splits)
qed

lemma RetryValidation_only:
  assumes uc: "vu_records uc = vops" "vu_domains uc = dops" and ok: "inv st"
  shows "only_here i (dns_confirms uc i st) st (snd (RetryValidation uc dr i st))"
proof -
  let ?P = "dns_confirms uc i st"
  obtain e s1 where e: "UpdateValidationStatus uc (ru_reset dr) i VerificationStatusPending None st = (e, s1)" by fastforce
  have o1: "only_here i ?P st s1" by (rule only_here_mono [OF UpdateValidationStatus_only [OF uc ok e]]) simp
  then have ok1: "inv s1" by (simp add: only_here_def)
  obtain g s2 where g: "dom_GetByID dops i s1 = (g, s2)" by fastforce
  note l = load [OF ok1 g]
  have o2: "only_here i ?P st s2" using o1 l only_here_same only_here_trans by blast
  show ?thesis
  proof (cases "\<exists>d. e = None \<and> g = Inr d")
    case False
    then show ?thesis using e g o1 o2 by (cases e; cases g) (simp_all add: RetryValidation_def uc)
  next
    case True
    then obtain d where d: "e = None" "g = Inr d" by blast
    let ?dns = "dns_ValidateFullDomain (vu_dns uc) (d_Domain d) (d_VerificationToken d) (vu_config uc)"
    have P: "?P" if "?dns = Inr res" "fvr_OverallValid res" for res
      using that l d(2) by (intro dns_confirms_back [OF o1]) (auto simp: dns_confirms_def)
    note s = status_snd [OF uc o2]
    show ?thesis
    proof (cases ?dns)
      case (Inl err)
      then show ?thesis by (simp add: RetryValidation_def uc(2) e d g [unfolded d] s)
    next
      case (Inr res)
      then show ?thesis using P [OF Inr]
        by (cases "fvr_OverallValid res")
          (use s [of "if fvr_OverallValid res then VerificationStatusVerified else VerificationStatusFailed"] in
            \<open>simp_all add: RetryValidation_def uc(2) e d g [unfolded d]\<close>)
    qed
  qed
qed

end

section \<open>PostgreSQL keeps the contract\<close>

lemma lookup_set_domain:
  assumes "\<And>d. d_ID (g d) = d_ID d"
  shows "lookup d_ID (mdb_domains (set_domain i g st)) = change i g (lookup d_ID (mdb_domains st))"
  using lookup_update [of d_ID g i, OF assms] by (simp add: set_domain_def change_def)

lemma set_domain_ok:
  assumes "mdb_ok st" "\<And>d. d_ID (g d) = d_ID d \<and> d_Domain (g d) = d_Domain d \<and> d_APIKey (g d) = d_APIKey d \<and> d_UserID (g d) = d_UserID d"
    and "\<And>d. domain_row_check d = None \<Longrightarrow> domain_row_check (g d) = None"
  shows "mdb_ok (set_domain i g st)"
  unfolding set_domain_def
proof (rule replace_domains_ok [OF assms(1)])
  have map: "map k (map (\<lambda>d. if d_ID d = i then g d else d) ds) = map k ds" if "\<And>d. k (g d) = k d" for k :: "Domain \<Rightarrow> 'b" and ds
    using that by (induction ds) auto
  show "map d_ID (map (\<lambda>d. if d_ID d = i then g d else d) (mdb_domains st)) = map d_ID (mdb_domains st)" using assms(2) map by blast
  show "distinct (map d_Domain (map (\<lambda>d. if d_ID d = i then g d else d) (mdb_domains st)))"
    using assms(1,2) map [of d_Domain] by (simp add: mdb_ok_parts del: map_map)
  show "distinct (map d_APIKey (map (\<lambda>d. if d_ID d = i then g d else d) (mdb_domains st)))"
    using assms(1,2) map [of d_APIKey] by (simp add: mdb_ok_parts del: map_map)
  show "\<forall>d \<in> set (map (\<lambda>d. if d_ID d = i then g d else d) (mdb_domains st)). domain_row_check d = None \<and> d_UserID d \<in> set (mdb_users st)"
    using assms by (auto simp: mdb_ok_parts)
qed

definition pg_doms :: "mail_db \<Rightarrow> uuid \<Rightarrow> Domain option" where
  "pg_doms st = lookup d_ID (mdb_domains st)"

lemma mdb_ok_validations [simp]: "mdb_ok (st\<lparr>mdb_validations := rs\<rparr>) = mdb_ok st"
  by (simp add: mdb_ok_parts)

lemma pg_statement:
  assumes "mdb_ok st" "(as_error \<circ> exec f) st = (e, st')"
    and step: "\<And>x. mdb_ok x \<Longrightarrow> (case f x of (Inl _, y) \<Rightarrow> y = x | (Inr _, y) \<Rightarrow> mdb_ok y \<and> pg_doms y = G (pg_doms x))"
  shows "mdb_ok st' \<and> pg_doms st' = (if e = None then G (pg_doms st) else pg_doms st)"
proof -
  obtain r where r: "exec f st = (r, st')" "e = (case r of Inl x \<Rightarrow> Some x | Inr _ \<Rightarrow> None)"
    using assms(2) by (cases "exec f st") (simp add: as_error_def)
  have faults: "pg_doms (st\<lparr>pg_faults := fs\<rparr>) = pg_doms st" for fs by (simp add: pg_doms_def)
  show ?thesis using r(1)
  proof (cases rule: exec_cases)
    case (1 fs)
    have "mdb_ok (st\<lparr>pg_faults := fs\<rparr>)" using assms(1) by simp
    from step [OF this] 1 show ?thesis using r(2) faults assms(1) by (cases r) auto
  next
    case (2 x fs)
    then show ?thesis using r(2) faults assms(1) by simp
  qed
qed

lemma mark_status_fields [simp]:
  "d_ID (mark_status t s d) = d_ID d" "d_Domain (mark_status t s d) = d_Domain d" "d_APIKey (mark_status t s d) = d_APIKey d"
  "d_UserID (mark_status t s d) = d_UserID d" "d_VerificationStatus (mark_status t s d) = s"
  "d_VerificationAttempts (mark_status t s d) = d_VerificationAttempts d" "d_VerificationToken (mark_status t s d) = d_VerificationToken d"
  "d_NextVerificationAttempt (mark_status t s d) = d_NextVerificationAttempt d"
  by (simp_all add: mark_status_def)

lemma note_attempt_fields [simp]:
  "d_ID (note_attempt t n now nx msg d) = d_ID d" "d_Domain (note_attempt t n now nx msg d) = d_Domain d"
  "d_APIKey (note_attempt t n now nx msg d) = d_APIKey d" "d_UserID (note_attempt t n now nx msg d) = d_UserID d"
  "d_VerificationStatus (note_attempt t n now nx msg d) = d_VerificationStatus d"
  "d_VerificationAttempts (note_attempt t n now nx msg d) = n"
  "d_VerificationToken (note_attempt t n now nx msg d) = d_VerificationToken d"
  "d_NextVerificationAttempt (note_attempt t n now nx msg d) = map_option trunc_us nx"
  by (simp_all add: note_attempt_def)

lemma mark_status_eq: "(\<lambda>d. d\<lparr>d_VerificationStatus := s, d_UpdatedAt := trunc_us t\<rparr>) = mark_status t s"
  by (simp add: mark_status_def fun_eq_iff)

lemma note_attempt_eq: "(\<lambda>d. d\<lparr>d_VerificationAttempts := n, d_LastVerificationAttempt := Some (trunc_us now),
    d_NextVerificationAttempt := map_option trunc_us nx, d_VerificationError := (case msg of None \<Rightarrow> [] | Some e \<Rightarrow> e),
    d_UpdatedAt := trunc_us t\<rparr>) = note_attempt t n now nx msg"
  by (simp add: note_attempt_def fun_eq_iff)

lemma pg_status_def: "pg_UpdateDomainVerificationStatus t i s = as_error \<circ> exec (\<lambda>st.
    if \<not> VerificationStatus_IsValid s then (Inl InvalidEnum, st) else (Inr (), set_domain i (mark_status t s) st))"
  unfolding pg_UpdateDomainVerificationStatus_def mark_status_eq by (rule refl)

lemma pg_attempt_def: "pg_UpdateDomainVerificationAttempt t i n now nx msg = as_error \<circ> exec (\<lambda>st.
    if \<not> in_int32 n then (Inl IntegerOutOfRange, st) else (Inr (), set_domain i (note_attempt t n now nx msg) st))"
  unfolding pg_UpdateDomainVerificationAttempt_def note_attempt_eq by (rule refl)

lemma row_check_changed:
  "domain_row_check d = None \<Longrightarrow> VerificationStatus_IsValid s \<Longrightarrow> domain_row_check (mark_status t s d) = None"
  "domain_row_check d = None \<Longrightarrow> in_int32 n \<Longrightarrow> domain_row_check (note_attempt t n now nx msg d) = None"
  by (auto simp: domain_row_check_def split: if_splits)

lemma pg_status_law:
  assumes "mdb_ok st" "pg_UpdateDomainVerificationStatus t i s st = (e, st')"
  shows "mdb_ok st' \<and> pg_doms st' = (if e = None then change i (mark_status t s) (pg_doms st) else pg_doms st)"
  using assms(2) unfolding pg_status_def
  by (rule pg_statement [OF assms(1)]) (simp add: pg_doms_def lookup_set_domain set_domain_ok row_check_changed)

lemma pg_attempt_law:
  assumes "mdb_ok st" "pg_UpdateDomainVerificationAttempt t i n now nx msg st = (e, st')"
  shows "mdb_ok st' \<and> pg_doms st' = (if e = None then change i (note_attempt t n now nx msg) (pg_doms st) else pg_doms st)"
  using assms(2) unfolding pg_attempt_def
  by (rule pg_statement [OF assms(1)]) (simp add: pg_doms_def lookup_set_domain set_domain_ok row_check_changed)

lemma pg_create_law:
  assumes "mdb_ok st" "pg_CreateValidationRecord rules x st = (e, st')"
  shows "mdb_ok st' \<and> pg_doms st' = pg_doms st"
  using pg_statement [OF assms(1) assms(2) [unfolded pg_CreateValidationRecord_def on_records_def], of "\<lambda>m. m"]
  by (cases rules) (auto simp: pg_doms_def split: option.splits)

lemma pg_update_law:
  assumes "mdb_ok st" "pg_UpdateValidationRecord rules x st = (e, st')"
  shows "mdb_ok st' \<and> pg_doms st' = pg_doms st"
  using pg_statement [OF assms(1) assms(2) [unfolded pg_UpdateValidationRecord_def on_records_def], of "\<lambda>m. m"]
  by (cases rules) (auto simp: pg_doms_def split: option.splits)

lemma pg_load_law:
  assumes "mdb_ok st" "pg_Domain_GetByID i st = (r, st')"
  shows "mdb_ok st' \<and> pg_doms st' = pg_doms st \<and> (\<forall>d. r = Inr d \<longrightarrow> pg_doms st i = Some d)"
  using assms(2) [unfolded pg_Domain_GetByID_def] assms(1)
  by (cases rule: exec_cases) (auto simp: pg_doms_def lookup_def one_row_of_def split: option.splits)

interpretation pgv: validation_store "pg_validation_repo rules" pg_domains_repo mdb_ok pg_doms
proof (unfold_locales, goal_cases)
  case 1
  then show ?case using pg_load_law by (simp add: pg_domains_repo_def)
next
  case 2
  then show ?case using pg_status_law by (simp add: pg_validation_repo_def)
next
  case 3
  then show ?case using pg_attempt_law by (simp add: pg_validation_repo_def)
next
  case 4
  then show ?case using pg_create_law by (simp add: pg_validation_repo_def)
next
  case 5
  then show ?case using pg_update_law by (simp add: pg_validation_repo_def)
qed

section \<open>Runs without faults\<close>

definition pg_validation_uc :: "table_rules option \<Rightarrow> resolver \<Rightarrow> query_times \<Rightarrow> ValidationConfig \<Rightarrow> mail_db validation_uc" where
  "pg_validation_uc rules v qt config = \<lparr>vu_records = pg_validation_repo rules, vu_domains = pg_domains_repo,
     vu_dns = DNSValidator_ops v qt, vu_config = config\<rparr>"

lemma pg_validation_uc_fields [simp]:
  "vu_records (pg_validation_uc rules v qt config) = pg_validation_repo rules"
  "vu_domains (pg_validation_uc rules v qt config) = pg_domains_repo"
  "vu_dns (pg_validation_uc rules v qt config) = DNSValidator_ops v qt" "vu_config (pg_validation_uc rules v qt config) = config"
  by (simp_all add: pg_validation_uc_def)

definition after_status :: "ValidationConfig \<Rightarrow> status_draw \<Rightarrow> VerificationStatus \<Rightarrow> string option \<Rightarrow> Domain \<Rightarrow> Domain" where
  "after_status config dr s msg d = note_attempt (sd_db_attempt dr) (d_VerificationAttempts d + 1) (sd_now dr)
     (next_attempt config (sd_now dr) s (d_VerificationAttempts d + 1)) msg (mark_status (sd_db_status dr) s d)"

lemma after_status_fields [simp]:
  "d_ID (after_status config dr s msg d) = d_ID d" "d_Domain (after_status config dr s msg d) = d_Domain d"
  "d_VerificationStatus (after_status config dr s msg d) = s" "d_VerificationToken (after_status config dr s msg d) = d_VerificationToken d"
  "d_VerificationAttempts (after_status config dr s msg d) = d_VerificationAttempts d + 1"
  "d_NextVerificationAttempt (after_status config dr s msg d) =
     map_option trunc_us (next_attempt config (sd_now dr) s (d_VerificationAttempts d + 1))"
  by (simp_all add: after_status_def)

text \<open>\<open>holds st d\<close>: nothing fails and \<open>d\<close> is the one row with its id.\<close>

definition holds :: "mail_db \<Rightarrow> Domain \<Rightarrow> bool" where
  "holds st d \<longleftrightarrow> pg_faults st = [] \<and> distinct (map d_ID (mdb_domains st)) \<and> d \<in> set (mdb_domains st)"

lemma holds_load: "holds st d \<Longrightarrow> pg_Domain_GetByID (d_ID d) st = (Inr d, st)"
  by (simp add: holds_def pg_Domain_GetByID_def one_row_of_def find_key)

lemma holds_change:
  assumes "holds st d" "\<And>r. d_ID (g r) = d_ID r"
  shows "holds (set_domain (d_ID d) g st) (g d)"
proof -
  have "map d_ID (map (\<lambda>r. if d_ID r = d_ID d then g r else r) ds) = map d_ID ds" for ds
    using assms(2) by (induction ds) auto
  then show ?thesis using assms by (auto simp: holds_def set_domain_def simp del: map_map intro: image_eqI [where x = d])
qed

lemma set_domain_twice:
  assumes "holds st d" "\<And>r. d_ID (g r) = d_ID r" "h (g d) = k d"
  shows "set_domain (d_ID d) h (set_domain (d_ID d) g st) = set_domain (d_ID d) k st"
proof -
  have "\<forall>r \<in> set (mdb_domains st). d_ID r = d_ID d \<longrightarrow> r = d" using assms(1) by (auto simp: holds_def distinct_map inj_on_def)
  then have "map ((\<lambda>r. if d_ID r = d_ID d then h r else r) \<circ> (\<lambda>r. if d_ID r = d_ID d then g r else r)) (mdb_domains st) =
      map (\<lambda>r. if d_ID r = d_ID d then k r else r) (mdb_domains st)"
    using assms(2,3) by (intro map_cong) auto
  then show ?thesis by (simp add: set_domain_def)
qed

lemma UpdateValidationStatus_run:
  assumes "holds st d" "in_int32 (d_VerificationAttempts d + 1)" "VerificationStatus_IsValid s"
  shows "UpdateValidationStatus (pg_validation_uc rules v qt config) dr (d_ID d) s msg st =
    (None, set_domain (d_ID d) (after_status config dr s msg) st)"
proof -
  let ?m = "mark_status (sd_db_status dr) s"
  have st: "pg_UpdateDomainVerificationStatus (sd_db_status dr) (d_ID d) s st = (None, set_domain (d_ID d) ?m st)"
    using assms by (simp add: pg_status_def holds_def)
  have h: "holds (set_domain (d_ID d) ?m st) (?m d)" by (rule holds_change [OF assms(1)]) simp
  let ?a = "note_attempt (sd_db_attempt dr) (d_VerificationAttempts d + 1) (sd_now dr)
     (next_attempt config (sd_now dr) s (d_VerificationAttempts d + 1)) msg"
  have at: "pg_UpdateDomainVerificationAttempt (sd_db_attempt dr) (d_ID d) (d_VerificationAttempts d + 1) (sd_now dr)
      (next_attempt config (sd_now dr) s (d_VerificationAttempts d + 1)) msg (set_domain (d_ID d) ?m st) =
    (None, set_domain (d_ID d) (after_status config dr s msg) st)"
    using assms h set_domain_twice [OF assms(1), of ?m ?a "after_status config dr s msg"]
    by (simp add: pg_attempt_def holds_def after_status_def)
  show ?thesis using st at holds_load [OF h]
    by (simp add: UpdateValidationStatus_def pg_validation_repo_def pg_domains_repo_def Let_def)
qed

section \<open>Properties\<close>

text \<open>The calls of the use case that can change a domain.\<close>

datatype validation_call = CallFull uuid | CallMX uuid | CallTXT uuid | CallRetry uuid | CallRetryDomain uuid

fun run_call :: "'st validation_uc \<Rightarrow> run_draw \<Rightarrow> validation_call \<Rightarrow> 'st \<Rightarrow> 'st" where
  "run_call uc dr (CallFull i) st = snd (ValidateDomain uc dr i st)"
| "run_call uc dr (CallMX i) st = snd (uc_ValidateMXRecords uc dr i st)"
| "run_call uc dr (CallTXT i) st = snd (uc_ValidateTXTRecord uc dr i st)"
| "run_call uc dr (CallRetry i) st = snd (RetryValidation uc dr i st)"
| "run_call uc dr (CallRetryDomain i) st = snd (RetryDomainValidation uc dr i st)"

fun call_domain :: "validation_call \<Rightarrow> uuid" where
  "call_domain (CallFull i) = i"
| "call_domain (CallMX i) = i"
| "call_domain (CallTXT i) = i"
| "call_domain (CallRetry i) = i"
| "call_domain (CallRetryDomain i) = i"

lemma dns_confirms_pg:
  "pgv.dns_confirms (pg_validation_uc rules v qt config) i st \<Longrightarrow> \<exists>d. pg_doms st i = Some d \<and>
     mx_configured v (d_Domain d) (vc_ExpectedMXServers config) \<and> txt_published v (d_Domain d) (expected_txt config (d_VerificationToken d))"
proof -
  assume "pgv.dns_confirms (pg_validation_uc rules v qt config) i st"
  then obtain d res where d: "pg_doms st i = Some d"
    "ValidateFullDomain v qt (d_Domain d) (d_VerificationToken d) config = Inr res" "fvr_OverallValid res"
    by (auto simp: pgv.dns_confirms_def DNSValidator_ops_def)
  then show ?thesis using ValidateFullDomain_valid [of v qt "d_Domain d" "d_VerificationToken d" config] by auto
qed


text \<open>Without the table of records a validation ends after marking the domain.\<close>

lemma missing_table_run:
  assumes "holds st d" "d_VerificationToken d \<noteq> []" "in_int32 (d_VerificationAttempts d + 1)"
  shows "ValidateDomain (pg_validation_uc None v qt config) dr (d_ID d) st = (Inl (RecordNotCreated missing_table),
    set_domain (d_ID d) (after_status config (ru_validating dr) VerificationStatusValidating None) st)"
proof -
  let ?g = "after_status config (ru_validating dr) VerificationStatusValidating None"
  have "holds (set_domain (d_ID d) ?g st) (?g d)" by (rule holds_change [OF assms(1)]) simp
  then show ?thesis
    using UpdateValidationStatus_run [OF assms(1,3), of VerificationStatusValidating None v qt config "ru_validating dr" None]
      holds_load [OF assms(1)] assms(2)
    by (simp add: ValidateDomain_def pg_domains_repo_def pg_validation_repo_def pg_CreateValidationRecord_def on_records_def holds_def Let_def)
qed

text \<open>
  C29: With the schema the migrations leave, validating a domain never gets further than its first step: the
  table of validation records does not exist, so the call fails, and the domain stays \<open>validating\<close>, a status neither the worker's
  query nor the listing of pending domains ever selects.
\<close>

theorem validation_gets_stuck:
  assumes "mdb_ok st" "pg_faults st = []" "d \<in> set (mdb_domains st)" "d_VerificationToken d \<noteq> []" "in_int32 (d_VerificationAttempts d + 1)"
  shows "\<exists>st' d'. ValidateDomain (pg_validation_uc None v qt config) dr (d_ID d) st = (Inl (RecordNotCreated missing_table), st') \<and>
    d' \<in> set (mdb_domains st') \<and> d_ID d' = d_ID d \<and> d_VerificationStatus d' = VerificationStatusValidating \<and>
    (\<forall>dbnow. \<not> needs_verification dbnow d')"
proof -
  let ?g = "after_status config (ru_validating dr) VerificationStatusValidating None"
  have h: "holds st d" using assms by (simp add: holds_def distinct_keys)
  have h1: "holds (set_domain (d_ID d) ?g st) (?g d)" by (rule holds_change [OF h]) simp
  then show ?thesis using missing_table_run [OF h assms(4,5)]
    by (intro exI [of _ "set_domain (d_ID d) ?g st"] exI [of _ "?g d"]) (simp add: holds_def needs_verification_def)
qed

text \<open>
  The schedule of a failed check, on a database with the table of records: the domain is \<open>failed\<close> and one
  validation has counted two attempts. While attempts are left the next one is due after the backoff for that count; when they
  are used up no time is set, and the domain is due at every later instant: the limit on retries makes the
  worker check it again at every tick.
\<close>

theorem failed_check_schedule:
  assumes "mdb_ok st" "pg_faults st = []" "d \<in> set (mdb_domains st)" "d_VerificationToken d \<noteq> []" "in_int32 (d_VerificationAttempts d)"
    and "in_int32 (d_VerificationAttempts d + 2)"
    and "tr_insert tr (mdb_validations st) (running_record dr (d_ID d) ValidationTypeFullValidation) = None"
    and "\<not> (mx_configured v (d_Domain d) (vc_ExpectedMXServers config) \<and>
      txt_published v (d_Domain d) (expected_txt config (d_VerificationToken d)))"
  shows "\<exists>res st' d'. ValidateDomain (pg_validation_uc (Some tr) v qt config) dr (d_ID d) st = (Inr res, st') \<and> \<not> fvr_OverallValid res \<and>
    d' \<in> set (mdb_domains st') \<and> d_ID d' = d_ID d \<and> d_VerificationStatus d' = VerificationStatusFailed \<and>
    d_VerificationAttempts d' = d_VerificationAttempts d + 2 \<and>
    (if d_VerificationAttempts d + 2 < vc_MaxRetries config
     then d_NextVerificationAttempt d' = Some (trunc_us (sd_now (ru_final dr) +
            CalculateRetryDelay (d_VerificationAttempts d + 2) (vc_RetryDelay config)))
     else \<forall>dbnow. needs_verification dbnow d')"
proof -
  let ?uc = "pg_validation_uc (Some tr) v qt config"
  let ?g = "after_status config (ru_validating dr) VerificationStatusValidating None"
  let ?st1 = "set_domain (d_ID d) ?g st"
  let ?r = "running_record dr (d_ID d) ValidationTypeFullValidation"
  let ?st2 = "?st1\<lparr>mdb_validations := mdb_validations ?st1 @ [persist_validation ?r]\<rparr>"
  have h: "holds st d" using assms by (simp add: holds_def distinct_keys)
  have n: "in_int32 (d_VerificationAttempts d + 1)" using assms(5,6) by (simp add: in_int32_def)
  have h1: "holds ?st1 (?g d)" by (rule holds_change [OF h]) simp
  then have h2: "holds ?st2 (?g d)" by (simp add: holds_def)
  obtain res m t where res: "ValidateFullDomain v qt (d_Domain d) (d_VerificationToken d) config = Inr res"
      "fvr_MXValidation res = Some m" "fvr_TXTValidation res = Some t" "\<not> fvr_OverallValid res"
    using ValidateFullDomain_valid [of v qt "d_Domain d" "d_VerificationToken d" config] assms(8) by auto
  let ?msg = "Some (failure_text (mxr_Valid m) (txr_Valid t))"
  let ?f = "after_status config (ru_final dr) VerificationStatusFailed ?msg"
  let ?st3 = "set_domain (d_ID d) ?f ?st2"
  let ?done = "done_record dr (full_details m t (fvr_TotalTime res)) ?msg ?r"
  have h3: "holds ?st3 (?f (?g d))" using holds_change [OF h2, of ?f] by simp
  have up: "UpdateValidationStatus ?uc (ru_final dr) (d_ID d) VerificationStatusFailed ?msg ?st2 = (None, ?st3)"
    using UpdateValidationStatus_run [OF h2, of VerificationStatusFailed "Some tr" v qt config "ru_final dr" ?msg] assms(6)
    by (simp add: add.commute)
  let ?st4 = "snd (pg_UpdateValidationRecord (Some tr) ?done ?st3)"
  have dom4: "mdb_domains ?st4 = mdb_domains ?st3"
    using h3 by (simp add: pg_UpdateValidationRecord_def on_records_def holds_def as_error_def split: option.splits)
  have "conclude ?uc dr (d_ID d) ?r (Inr res) ?st2 = (Inr res, ?st4)"
    using res(2-4) up by (simp add: conclude_def pg_validation_repo_def Let_def)
  moreover have "pg_CreateValidationRecord (Some tr) ?r ?st1 = (None, ?st2)"
    using h1 assms(7) by (simp add: pg_CreateValidationRecord_def on_records_def holds_def set_domain_def)
  ultimately have run: "ValidateDomain ?uc dr (d_ID d) st = (Inr res, ?st4)"
    using UpdateValidationStatus_run [OF h n, of VerificationStatusValidating "Some tr" v qt config "ru_validating dr" None] holds_load [OF h] assms(4) res(1)
    by (simp add: ValidateDomain_def pg_domains_repo_def pg_validation_repo_def DNSValidator_ops_def Let_def)
  have "?f (?g d) \<in> set (mdb_domains ?st4)" using h3 dom4 by (simp add: holds_def)
  moreover have "if d_VerificationAttempts d + 2 < vc_MaxRetries config
     then d_NextVerificationAttempt (?f (?g d)) = Some (trunc_us (sd_now (ru_final dr) +
            CalculateRetryDelay (d_VerificationAttempts d + 2) (vc_RetryDelay config)))
     else \<forall>dbnow. needs_verification dbnow (?f (?g d))"
    by (simp add: next_attempt_def needs_verification_def add.commute)
  ultimately show ?thesis using run res(4)
    by (intro exI [of _ res] exI [of _ ?st4] exI [of _ "?f (?g d)"]) simp
qed

section \<open>Witnesses\<close>

definition pending_domain :: Domain where
  "pending_domain = \<lparr>d_ID = 10, d_UserID = 1, d_Domain = ''a.org'', d_PublicKey = ''k'', d_APIKey = ''pm_'', d_StorageEnabled = True,
     d_AutoCreateAddress = False, d_WebhookConfig = None, d_VerificationStatus = VerificationStatusPending,
     d_VerificationToken = ''54'', d_LastVerificationAttempt = None, d_VerificationError = [], d_VerificationAttempts = 1,
     d_NextVerificationAttempt = None, d_CreatedAt = 0, d_UpdatedAt = 0\<rparr>"

definition pending_db :: mail_db where
  "pending_db = \<lparr>pg_faults = [], mdb_users = [1], mdb_domains = [pending_domain], mdb_addresses = [], mdb_received = [], mdb_stats = [],
     mdb_validations = []\<rparr>"

lemma pending_db_ok: "mdb_ok pending_db"
  by (simp add: mdb_ok_parts pending_db_def pending_domain_def domain_row_check_def in_int32_def numbers_of_def)

definition no_rules :: table_rules where
  "no_rules = \<lparr>tr_insert = (\<lambda>_ _. None), tr_update = (\<lambda>_ _. None)\<rparr>"

definition sample_zone :: "string list \<Rightarrow> resolver" where
  "sample_zone txts = \<lparr>LookupMX = (\<lambda>_. Inr [(''MX.b.org.'', 10)]), LookupTXT = (\<lambda>_. Inr txts), LookupHost = (\<lambda>_. Inr [])\<rparr>"

definition sample_config :: ValidationConfig where
  "sample_config = DefaultValidationConfig\<lparr>vc_ExpectedMXServers := [''mx.b.org''], vc_TXTRecordPrefix := ''v''\<rparr>"

definition sample_times :: query_times where
  "sample_times = \<lparr>qt_MX = 0, qt_TXT = 0, qt_Total = 0\<rparr>"

definition sample_run_draw :: run_draw where
  "sample_run_draw = (let s = \<lparr>sd_now = 0, sd_db_status = 0, sd_db_attempt = 0\<rparr>
    in \<lparr>ru_reset = s, ru_validating = s, ru_id = 7, ru_started = 0, ru_created = 0, ru_completed = 0, ru_final = s\<rparr>)"


theorem validation_gets_stuck_witness:
  "\<exists>st' d'. ValidateDomain (pg_validation_uc None (sample_zone [''v=54'']) sample_times sample_config) sample_run_draw 10 pending_db =
     (Inl (RecordNotCreated missing_table), st') \<and> d' \<in> set (mdb_domains st') \<and> d_VerificationStatus d' = VerificationStatusValidating \<and>
     (\<forall>dbnow. \<not> needs_verification dbnow d')"
  using validation_gets_stuck [OF pending_db_ok, of pending_domain "sample_zone [''v=54'']" sample_times sample_config sample_run_draw]
  by (auto simp: pending_db_def pending_domain_def in_int32_def)

theorem failed_check_schedule_witness:
  "\<exists>res st' d'. ValidateDomain (pg_validation_uc (Some no_rules) (sample_zone []) sample_times sample_config) sample_run_draw 10 pending_db =
     (Inr res, st') \<and> d' \<in> set (mdb_domains st') \<and> d_VerificationAttempts d' = 3 \<and> (\<forall>dbnow. needs_verification dbnow d')"
proof -
  have "\<not> txt_published (sample_zone []) ''a.org'' (expected_txt sample_config ''54'')" by (simp add: txt_published_def sample_zone_def)
  moreover have "vc_MaxRetries sample_config = 3" by (simp add: sample_config_def DefaultValidationConfig_def)
  moreover have "pending_domain \<in> set (mdb_domains pending_db)" "pg_faults pending_db = []" by (simp_all add: pending_db_def)
  moreover have "d_ID pending_domain = 10" "d_Domain pending_domain = ''a.org''" "d_VerificationToken pending_domain = ''54''"
    "d_VerificationAttempts pending_domain = 1" by (simp_all add: pending_domain_def)
  ultimately show ?thesis
    using failed_check_schedule [OF pending_db_ok, of pending_domain no_rules sample_run_draw "sample_zone []" sample_config sample_times]
    by (fastforce simp: in_int32_def no_rules_def)
qed

end
