(* ===== verification/ValidationWorker.thy ===== *)
theory ValidationWorker
  imports VerifiedDomains Queue
begin

text \<open>
  The validation worker: one job of a worker (\<open>app/worker/validation_worker.go\<close>), the manager's entry points
  (\<open>app/worker/manager.go\<close>) and the tick of the worker service that looks for domains to validate (\<open>cmd/worker/main.go\<close>).

  Ids and the readings of the clock are arguments, indexed by the domains of a tick. What an error prints
  (\<open>Error()\<close>, partly text of the database driver) is an argument. A worker that fails to validate only logs when it would try again,
  so a job leaves the system with its first failure.
\<close>

section \<open>A job in a worker\<close>

datatype worker_error = ValidationErr validation_error | UnknownValidationType string

definition validate_job ::
    "'st validation_uc \<Rightarrow> run_draw \<Rightarrow> ValidationJob \<Rightarrow> 'st \<Rightarrow> worker_error option \<times> 'st" where
  "validate_job uc dr job st =
     (case job_Type job of
        ValidationTypeMXRecord \<Rightarrow> map_prod (map_option ValidationErr) id (uc_ValidateMXRecords uc dr (job_DomainID job) st)
      | ValidationTypeTXTRecord \<Rightarrow> map_prod (map_option ValidationErr) id (uc_ValidateTXTRecord uc dr (job_DomainID job) st)
      | ValidationTypeFullValidation \<Rightarrow>
          (case ValidateDomain uc dr (job_DomainID job) st of (Inl e, s1) \<Rightarrow> (Some (ValidationErr e), s1) | (Inr _, s1) \<Rightarrow> (None, s1))
      | ValidationTypeOwnership \<Rightarrow> map_prod (map_option ValidationErr) id (uc_ValidateTXTRecord uc dr (job_DomainID job) st)
      | ValidationTypeOther t \<Rightarrow> (Some (UnknownValidationType t), st))"

text \<open>Below the limit the code computes and logs the time of a retry and does nothing else.\<close>

definition handleJobRetry ::
    "'st validation_uc \<Rightarrow> ValidationConfig \<Rightarrow> status_draw \<Rightarrow> ValidationJob \<Rightarrow> 'st \<Rightarrow> 'st" where
  "handleJobRetry uc config dr job st =
     (if job_Attempts job \<ge> vc_MaxRetries config
      then snd (UpdateValidationStatus uc dr (job_DomainID job) VerificationStatusFailed
             (Some (''Max retries reached ('' @ Itoa (nat (job_Attempts job)) @ ''): '' @ job_LastError job)) st)
      else st)"

definition processJob ::
    "'st validation_uc \<Rightarrow> ValidationConfig \<Rightarrow> (worker_error \<Rightarrow> string) \<Rightarrow> run_draw \<Rightarrow> status_draw \<Rightarrow> ValidationJob \<Rightarrow> 'st
      \<Rightarrow> ValidationJob \<times> 'st" where
  "processJob uc config err_text dr rdr job st =
     (case validate_job uc dr job st of
        (None, s1) \<Rightarrow> (job, s1)
      | (Some e, s1) \<Rightarrow>
          let job' = job\<lparr>job_LastError := err_text e, job_Attempts := job_Attempts job + 1\<rparr>
          in (job', handleJobRetry uc config rdr job' s1))"

section \<open>The manager\<close>

record 'q Manager =
  mg_queue :: 'q
  mg_scheduler :: JobScheduler
  mg_running :: bool
  mg_MaxRetries :: int

datatype manager_error = ManagerNotRunning | QueueRefused queue_error

definition QueueValidationJob :: "'q queue_ops \<Rightarrow> ValidationJob \<Rightarrow> 'q Manager \<Rightarrow> manager_error option \<times> 'q Manager" where
  "QueueValidationJob ops job m =
     (if \<not> mg_running m then (Some ManagerNotRunning, m)
      else case q_Push ops job (mg_queue m) of
        Inl e \<Rightarrow> (Some (QueueRefused e), m)
      | Inr q \<Rightarrow> (None, m\<lparr>mg_queue := q\<rparr>))"

definition ScheduleValidationJob :: "ValidationJob \<Rightarrow> instant \<Rightarrow> 'q Manager \<Rightarrow> manager_error option \<times> 'q Manager" where
  "ScheduleValidationJob job scheduleTime m =
     (if \<not> mg_running m then (Some ManagerNotRunning, m)
      else (None, m\<lparr>mg_scheduler := ScheduleJob job scheduleTime (mg_MaxRetries m) (mg_scheduler m)\<rparr>))"

definition QueueDomainValidation ::
    "'q queue_ops \<Rightarrow> uuid \<Rightarrow> instant \<Rightarrow> uuid \<Rightarrow> string \<Rightarrow> int \<Rightarrow> 'q Manager \<Rightarrow> manager_error option \<times> 'q Manager" where
  "QueueDomainValidation ops newID now domainID domainName priority =
     QueueValidationJob ops (worker_CreateValidationJob newID now domainID domainName ValidationTypeFullValidation priority)"

definition QueueMXValidation ::
    "'q queue_ops \<Rightarrow> uuid \<Rightarrow> instant \<Rightarrow> uuid \<Rightarrow> string \<Rightarrow> int \<Rightarrow> 'q Manager \<Rightarrow> manager_error option \<times> 'q Manager" where
  "QueueMXValidation ops newID now domainID domainName priority =
     QueueValidationJob ops (worker_CreateValidationJob newID now domainID domainName ValidationTypeMXRecord priority)"

definition QueueTXTValidation ::
    "'q queue_ops \<Rightarrow> uuid \<Rightarrow> instant \<Rightarrow> uuid \<Rightarrow> string \<Rightarrow> int \<Rightarrow> 'q Manager \<Rightarrow> manager_error option \<times> 'q Manager" where
  "QueueTXTValidation ops newID now domainID domainName priority =
     QueueValidationJob ops (worker_CreateValidationJob newID now domainID domainName ValidationTypeTXTRecord priority)"

section \<open>The tick of the worker service\<close>

definition PriorityHigh :: int where "PriorityHigh = 100"
definition PriorityNormal :: int where "PriorityNormal = 50"
definition PriorityLow :: int where "PriorityLow = 10"

definition calculateJobPriority :: "instant \<Rightarrow> DomainValidationInfo \<Rightarrow> int" where
  "calculateJobPriority now domain =
     (let p0 = PriorityNormal;
          p1 = (if now - dvi_CreatedAt domain < 1 * time_Hour then PriorityHigh else p0);
          p2 = (if dvi_VerificationAttempts domain > 5 then PriorityLow else p1)
      in if dvi_VerificationAttempts domain = 0 then PriorityHigh else p2)"

text \<open>For the \<open>n\<close>-th domain of a tick: the id of its job, the reading of the clock for its priority and that for the
  job's creation.\<close>

record tick_draw =
  tk_id :: uuid
  tk_age :: instant
  tk_created :: instant

definition tick_job :: "tick_draw \<Rightarrow> DomainValidationInfo \<Rightarrow> ValidationJob" where
  "tick_job dr domain = worker_CreateValidationJob (tk_id dr) (tk_created dr) (dvi_ID domain) (dvi_Domain domain)
     ValidationTypeFullValidation (calculateJobPriority (tk_age dr) domain)"

fun queue_domains :: "'q queue_ops \<Rightarrow> (nat \<Rightarrow> tick_draw) \<Rightarrow> DomainValidationInfo list \<Rightarrow> 'q Manager \<Rightarrow> 'q Manager" where
  "queue_domains ops drs [] m = m"
| "queue_domains ops drs (domain # rest) m =
     (if dvi_VerificationStatus domain = VerificationStatusVerified then queue_domains ops (\<lambda>n. drs (Suc n)) rest m
      else queue_domains ops (\<lambda>n. drs (Suc n)) rest
             (snd (QueueDomainValidation ops (tk_id (drs 0)) (tk_created (drs 0)) (dvi_ID domain) (dvi_Domain domain)
                (calculateJobPriority (tk_age (drs 0)) domain) m)))"

definition processDomainsNeedingValidation ::
    "'st validation_uc \<Rightarrow> 'q queue_ops \<Rightarrow> instant \<Rightarrow> (nat \<Rightarrow> tick_draw) \<Rightarrow> 'st \<Rightarrow> 'q Manager \<Rightarrow> 'st \<times> 'q Manager" where
  "processDomainsNeedingValidation uc ops dbnow drs st m =
     (case GetDomainsNeedingValidation uc dbnow 50 st of
        (Inl _, st1) \<Rightarrow> (st1, m)
      | (Inr domains, st1) \<Rightarrow> if domains = [] then (st1, m) else (st1, queue_domains ops drs domains m))"

section \<open>Lemmas\<close>

fun tick_jobs :: "(nat \<Rightarrow> tick_draw) \<Rightarrow> DomainValidationInfo list \<Rightarrow> ValidationJob list" where
  "tick_jobs drs [] = []"
| "tick_jobs drs (d # ds) = tick_job (drs 0) d # tick_jobs (\<lambda>n. drs (Suc n)) ds"

lemma tick_jobs_domains: "map job_DomainID (tick_jobs drs ds) = map dvi_ID ds"
  by (induction drs ds rule: tick_jobs.induct) (simp_all add: tick_job_def worker_CreateValidationJob_def)

context job_queue
begin

text \<open>A tick adds one job for every domain it lists to a running manager whose queue has room.\<close>

lemma queue_domains_adds:
  assumes "invar (mg_queue m)" "\<not> is_closed (mg_queue m)" "mg_running m"
    and "capacity (mg_queue m) \<le> 0 \<or> int (size (jobs (mg_queue m))) + int (length ds) \<le> capacity (mg_queue m)"
    and "\<forall>d \<in> set ds. dvi_VerificationStatus d \<noteq> VerificationStatusVerified"
  shows "jobs (mg_queue (queue_domains ops drs ds m)) = jobs (mg_queue m) + mset (tick_jobs drs ds)"
  using assms
proof (induction drs ds arbitrary: m rule: tick_jobs.induct)
  case (2 drs d ds)
  let ?j = "tick_job (drs 0) d"
  have "q_Push ops ?j (mg_queue m) \<noteq> Inl e" for e
    using push_err [of ?j "mg_queue m" e] 2(3,5) by auto
  then obtain q' where q': "q_Push ops ?j (mg_queue m) = Inr q'" by (cases "q_Push ops ?j (mg_queue m)") auto
  note p = push_ok [OF 2(2) q']
  let ?m = "m\<lparr>mg_queue := q'\<rparr>"
  have "jobs (mg_queue (queue_domains ops (\<lambda>n. drs (Suc n)) ds ?m)) =
      jobs (mg_queue ?m) + mset (tick_jobs (\<lambda>n. drs (Suc n)) ds)"
    using 2(2-6) p by (intro 2(1)) (auto simp: algebra_simps)
  moreover have "snd (QueueDomainValidation ops (tk_id (drs 0)) (tk_created (drs 0)) (dvi_ID d) (dvi_Domain d)
      (calculateJobPriority (tk_age (drs 0)) d) m) = ?m"
    using q' 2(4) by (simp add: QueueDomainValidation_def QueueValidationJob_def tick_job_def)
  ultimately show ?case using 2(6) p by simp
qed simp

end

section \<open>Property\<close>

definition due_domains :: "instant \<Rightarrow> mail_db \<Rightarrow> Domain list" where
  "due_domains dbnow st = filter (needs_verification dbnow) (mdb_domains st)"

lemma needing_run:
  assumes "pg_faults st = []" "length (due_domains dbnow st) \<le> 50"
  shows "\<exists>ds. pg_GetDomainsNeedingVerification dbnow 50 st = (Inr (map validation_info ds), st) \<and> mset ds = mset (due_domains dbnow st)"
proof -
  let ?ds = "sort_key d_VerificationAttempts (sort_key d_CreatedAt (due_domains dbnow st))"
  have "pg_GetDomainsNeedingVerification dbnow 50 st = (Inr (take 50 (map validation_info ?ds)), st)"
    using assms(1) by (simp add: pg_GetDomainsNeedingVerification_def page_def due_domains_def)
  moreover have "take 50 (map validation_info ?ds) = map validation_info ?ds" using assms(2) by simp
  ultimately show ?thesis by (intro exI [of _ ?ds]) simp
qed

text \<open>
  A tick of the worker service queues one full validation for every domain that is due, whatever the queue already
  holds: while a job for a domain waits or runs, every further tick queues another one, and a domain
  whose retries are used up, being always due, is queued at every tick.
\<close>

theorem tick_queues_every_due_domain:
  assumes "pg_faults st = []" "length (due_domains dbnow st) \<le> 50"
    and "mg_running m" "pq_invar (mg_queue m)" "\<not> pq_closed (mg_queue m)"
    and "pq_maxSize (mg_queue m) \<le> 0 \<or> int (length (pq_jobs (mg_queue m))) + int (length (due_domains dbnow st)) \<le> pq_maxSize (mg_queue m)"
  shows "\<exists>m' js. processDomainsNeedingValidation (pg_validation_uc rules v qt config) PriorityQueue_ops dbnow drs st m = (st, m') \<and>
    mset (pq_jobs (mg_queue m')) = mset (pq_jobs (mg_queue m)) + mset js \<and>
    mset (map job_DomainID js) = mset (map d_ID (due_domains dbnow st))"
proof -
  obtain ds where ds: "pg_GetDomainsNeedingVerification dbnow 50 st = (Inr (map validation_info ds), st)"
      "mset ds = mset (due_domains dbnow st)" using needing_run [OF assms(1,2)] by blast
  let ?is = "map validation_info ds"
  let ?m = "queue_domains PriorityQueue_ops drs ?is m"
  have "set ds \<subseteq> set (due_domains dbnow st)" using mset_eq_setD [OF ds(2)] by simp
  then have "\<forall>i \<in> set ?is. dvi_VerificationStatus i \<noteq> VerificationStatusVerified"
    by (auto simp: due_domains_def needs_verification_def validation_info_def)
  moreover have "length ds = length (due_domains dbnow st)" using ds(2) by (metis size_mset)
  ultimately have add: "mset (pq_jobs (mg_queue ?m)) = mset (pq_jobs (mg_queue m)) + mset (tick_jobs drs ?is)"
    using assms(3-6) by (intro pq.queue_domains_adds) simp_all
  have run: "processDomainsNeedingValidation (pg_validation_uc rules v qt config) PriorityQueue_ops dbnow drs st m = (st, ?m)"
    by (simp add: processDomainsNeedingValidation_def GetDomainsNeedingValidation_def pg_validation_repo_def ds(1))
  have "map job_DomainID (tick_jobs drs ?is) = map d_ID ds"
    by (simp add: tick_jobs_domains validation_info_def)
  then have "mset (map job_DomainID (tick_jobs drs ?is)) = image_mset d_ID (mset ds)" by (metis mset_map)
  then show ?thesis using run add ds(2) by (intro exI [of _ ?m] exI [of _ "tick_jobs drs ?is"]) simp
qed

definition idle_manager :: "PriorityQueue Manager" where
  "idle_manager = \<lparr>mg_queue = NewPriorityQueue (Some 1000), mg_scheduler = NewJobScheduler, mg_running = True, mg_MaxRetries = 3\<rparr>"

lemma pending_domain_id: "mset (map d_ID [pending_domain]) = {#10#}"
  by (simp add: pending_domain_def)

theorem tick_queues_every_due_domain_witness:
  "\<exists>m' j. processDomainsNeedingValidation (pg_validation_uc None (sample_zone []) sample_times sample_config) PriorityQueue_ops 0
     (\<lambda>_. \<lparr>tk_id = 3, tk_age = 0, tk_created = 0\<rparr>) pending_db idle_manager = (pending_db, m') \<and>
     mset (pq_jobs (mg_queue m')) = {#j#} \<and> job_DomainID j = 10"
proof -
  have due: "due_domains 0 pending_db = [pending_domain]"
    by (simp add: due_domains_def pending_db_def pending_domain_def needs_verification_def)
  have "pg_faults pending_db = []" by (simp add: pending_db_def)
  moreover have "mg_running idle_manager" "pq_invar (mg_queue idle_manager)" "\<not> pq_closed (mg_queue idle_manager)"
    "pq_jobs (mg_queue idle_manager) = []" "pq_maxSize (mg_queue idle_manager) = 1000"
    by (simp_all add: idle_manager_def) (simp_all add: NewPriorityQueue_def)
  ultimately obtain m' js where m: "processDomainsNeedingValidation (pg_validation_uc None (sample_zone []) sample_times sample_config)
      PriorityQueue_ops 0 (\<lambda>_. \<lparr>tk_id = 3, tk_age = 0, tk_created = 0\<rparr>) pending_db idle_manager = (pending_db, m')"
    "mset (pq_jobs (mg_queue m')) = mset js" "mset (map job_DomainID js) = mset (map d_ID [pending_domain])"
    using tick_queues_every_due_domain [of pending_db 0 idle_manager None "sample_zone []" sample_times sample_config
        "\<lambda>_. \<lparr>tk_id = 3, tk_age = 0, tk_created = 0\<rparr>"] due by auto
  have "map job_DomainID js = [10]"
    using m(3) by (metis mset_single_iff_right list.simps(8,9) mset.simps pending_domain_id)
  then obtain j where "js = [j]" "job_DomainID j = 10" by (cases js) simp_all
  then show ?thesis using m by auto
qed

end
