(* ===== verification/EmailQueue.thy ===== *)
theory EmailQueue
  imports GoHeap EmailSending
begin

text \<open>
  The queue of e-mail jobs (\<open>app/worker/email_queue.go\<close>) and the jobs themselves (\<open>app/worker/email_sender_worker.go\<close>).

  As in \<open>Queue\<close>, a method runs under the mutex of the queue and is one function on the record; the outcome \<open>EmailPopWait\<close> of \<open>Pop\<close>
  means that the goroutine goes to sleep in \<open>cond.Wait()\<close>, from which only \<open>Push\<close> and \<open>Close\<close> wake it. A job is a pointer in the
  source; its fields are only written while it is not in the queue, so it is a value here.
\<close>

section \<open>Jobs\<close>

datatype EmailJobType = EmailJobTypeSend | EmailJobTypeRetry | EmailJobTypeOther string

record EmailSendingJob =
  ej_ID :: uuid
  ej_Type :: EmailJobType
  ej_SentEmailID :: uuid
  ej_EmailRequest :: "SendEmailRequest option"
  ej_Priority :: int
  ej_ScheduledAt :: instant
  ej_Attempts :: int
  ej_MaxAttempts :: int
  ej_LastAttemptAt :: "instant option"
  ej_LastError :: string
  ej_CreatedAt :: instant

definition GetPriority :: "EmailSendingJob \<Rightarrow> int" where
  "GetPriority j = ej_Priority j"

definition CreateEmailSendingJob :: "uuid \<Rightarrow> instant \<Rightarrow> instant \<Rightarrow> SendEmailRequest option \<Rightarrow> int \<Rightarrow> EmailSendingJob" where
  "CreateEmailSendingJob newID scheduled created req priority =
   \<lparr>ej_ID = newID, ej_Type = EmailJobTypeSend, ej_SentEmailID = uuid_nil, ej_EmailRequest = req, ej_Priority = priority,
    ej_ScheduledAt = scheduled, ej_Attempts = 0, ej_MaxAttempts = 3, ej_LastAttemptAt = None, ej_LastError = [],
    ej_CreatedAt = created\<rparr>"

definition CreateEmailRetryJob :: "uuid \<Rightarrow> instant \<Rightarrow> instant \<Rightarrow> uuid \<Rightarrow> int \<Rightarrow> EmailSendingJob" where
  "CreateEmailRetryJob newID scheduled created sentEmailID priority =
   \<lparr>ej_ID = newID, ej_Type = EmailJobTypeRetry, ej_SentEmailID = sentEmailID, ej_EmailRequest = None, ej_Priority = priority,
    ej_ScheduledAt = scheduled, ej_Attempts = 0, ej_MaxAttempts = 3, ej_LastAttemptAt = None, ej_LastError = [],
    ej_CreatedAt = created\<rparr>"

section \<open>The queue\<close>

datatype email_queue_error = ErrEmailQueueClosed | ErrEmailQueueFull | ErrEmailQueueEmpty | EmailCtxErr

datatype email_pop = EmailPopJob EmailSendingJob | EmailPopErr email_queue_error | EmailPopWait

definition emailJobQueue_Less :: "EmailSendingJob \<Rightarrow> EmailSendingJob \<Rightarrow> bool" where
  "emailJobQueue_Less a b =
     (if ej_Priority a \<noteq> ej_Priority b then ej_Priority a > ej_Priority b else ej_ScheduledAt a < ej_ScheduledAt b)"

record EmailPriorityQueue =
  eq_jobs :: "EmailSendingJob list"
  eq_closed :: bool
  eq_maxSize :: int

definition NewEmailPriorityQueue :: "int \<Rightarrow> EmailPriorityQueue" where
  "NewEmailPriorityQueue maxSize = \<lparr>eq_jobs = heap_Init emailJobQueue_Less [], eq_closed = False, eq_maxSize = maxSize\<rparr>"

definition EmailPriorityQueue_Push :: "EmailSendingJob \<Rightarrow> EmailPriorityQueue \<Rightarrow> email_queue_error + EmailPriorityQueue" where
  "EmailPriorityQueue_Push job q =
     (if eq_closed q then Inl ErrEmailQueueClosed
      else if eq_maxSize q > 0 \<and> int (length (eq_jobs q)) \<ge> eq_maxSize q then Inl ErrEmailQueueFull
      else Inr (q\<lparr>eq_jobs := heap_Push emailJobQueue_Less (eq_jobs q) job\<rparr>))"

text \<open>One pass through the waiting loop.\<close>

definition EmailPriorityQueue_Pop :: "bool \<Rightarrow> EmailPriorityQueue \<Rightarrow> email_pop \<times> EmailPriorityQueue" where
  "EmailPriorityQueue_Pop ctxDone q =
     (if length (eq_jobs q) = 0 \<and> \<not> eq_closed q
      then (if ctxDone then (EmailPopErr EmailCtxErr, q) else (EmailPopWait, q))
      else if eq_closed q then (EmailPopErr ErrEmailQueueClosed, q)
      else case heap_Pop emailJobQueue_Less (eq_jobs q) of
             None \<Rightarrow> (EmailPopErr ErrEmailQueueEmpty, q)
           | Some (job, rest) \<Rightarrow> (EmailPopJob job, q\<lparr>eq_jobs := rest\<rparr>))"

definition EmailPriorityQueue_Size :: "EmailPriorityQueue \<Rightarrow> nat" where
  "EmailPriorityQueue_Size q = length (eq_jobs q)"

definition EmailPriorityQueue_Clear :: "EmailPriorityQueue \<Rightarrow> EmailPriorityQueue" where
  "EmailPriorityQueue_Clear q = q\<lparr>eq_jobs := heap_Init emailJobQueue_Less []\<rparr>"

definition EmailPriorityQueue_Close :: "EmailPriorityQueue \<Rightarrow> EmailPriorityQueue" where
  "EmailPriorityQueue_Close q = (if eq_closed q then q else q\<lparr>eq_closed := True\<rparr>)"

section \<open>Lemmas\<close>

interpretation email_heap: heap_order emailJobQueue_Less
  by unfold_locales (auto simp: emailJobQueue_Less_def split: if_splits)

lemmas EmailPriorityQueue_defs = EmailPriorityQueue_Push_def EmailPriorityQueue_Pop_def EmailPriorityQueue_Size_def
  EmailPriorityQueue_Clear_def EmailPriorityQueue_Close_def

definition eq_invar :: "EmailPriorityQueue \<Rightarrow> bool" where
  "eq_invar q \<longleftrightarrow> is_heap emailJobQueue_Less (eq_jobs q)"

lemma eq_invar_New [simp]: "eq_invar (NewEmailPriorityQueue ms)"
  by (simp add: eq_invar_def NewEmailPriorityQueue_def email_heap.heap_Init_is_heap)

lemma eq_jobs_New [simp]: "eq_jobs (NewEmailPriorityQueue ms) = []" "\<not> eq_closed (NewEmailPriorityQueue ms)"
  by (simp_all add: NewEmailPriorityQueue_def heap_Init_def)

lemma email_push_ok:
  assumes "eq_invar q" "EmailPriorityQueue_Push j q = Inr q'"
  shows "eq_invar q' \<and> mset (eq_jobs q') = add_mset j (mset (eq_jobs q)) \<and> \<not> eq_closed q'"
  using assms by (auto simp: EmailPriorityQueue_Push_def eq_invar_def email_heap.heap_Push_is_heap split: if_splits)

lemma email_pop_job:
  assumes "EmailPriorityQueue_Pop d q = (EmailPopJob j, q')"
  shows "heap_Pop emailJobQueue_Less (eq_jobs q) = Some (j, eq_jobs q') \<and> q' = q\<lparr>eq_jobs := eq_jobs q'\<rparr> \<and> \<not> eq_closed q"
  using assms by (auto simp: EmailPriorityQueue_Pop_def split: if_splits option.splits)

lemma heap_Pop_single: "heap_Pop lt [x] = Some (x, [])"
proof -
  have "heap_down lt [x] 0 0 = [x]" by (subst heap_down.simps) simp
  then show ?thesis by (simp add: heap_Pop_def Let_def Swap_def)
qed

text \<open>The job taken is the most urgent one: highest priority, earliest scheduled time.\<close>

lemma email_pop_urgent:
  assumes "eq_invar q" "EmailPriorityQueue_Pop d q = (EmailPopJob j, q')"
  shows "mset (eq_jobs q) = add_mset j (mset (eq_jobs q')) \<and> eq_invar q' \<and>
    (\<forall>k \<in> set (eq_jobs q). ej_Priority k < ej_Priority j \<or> ej_Priority k = ej_Priority j \<and> ej_ScheduledAt j \<le> ej_ScheduledAt k)"
proof -
  note pop = email_pop_job [OF assms(2), THEN conjunct1]
  have hp: "is_heap emailJobQueue_Less (eq_jobs q)" using assms(1) by (simp add: eq_invar_def)
  have "\<forall>k \<in> set (eq_jobs q). \<not> emailJobQueue_Less k j" using email_heap.heap_Pop_least [OF hp pop] by blast
  then have "\<forall>k \<in> set (eq_jobs q). ej_Priority k < ej_Priority j \<or> ej_Priority k = ej_Priority j \<and> ej_ScheduledAt j \<le> ej_ScheduledAt k"
    by (force simp: emailJobQueue_Less_def split: if_splits)
  then show ?thesis using heap_Pop_Some [OF pop] email_heap.heap_Pop_is_heap [OF hp pop] by (simp add: eq_invar_def)
qed

text \<open>A closed queue answers no job any more, whatever it holds.\<close>

lemma email_pop_closed: "eq_closed q \<Longrightarrow> EmailPriorityQueue_Pop d q = (EmailPopErr ErrEmailQueueClosed, q)"
  by (simp add: EmailPriorityQueue_Pop_def)

lemma email_pop_wait: "EmailPriorityQueue_Pop d q = (EmailPopWait, q') \<longleftrightarrow> eq_jobs q = [] \<and> \<not> eq_closed q \<and> \<not> d \<and> q' = q"
  by (auto simp: EmailPriorityQueue_Pop_def split: option.splits)

end
