(* ===== verification/EmailWorker.thy ===== *)
theory EmailWorker
  imports EmailQueue
begin

text \<open>
  Workers that send queued mail (\<open>app/worker/email_sender_worker.go\<close>): one job, its outcome and retry, the statistics,
  and a pool of workers over the queue and the use case of outbound mail.

  The goroutine that sleeps before it queues a failed job again is an entry of \<open>em_sleeping\<close> with the time it wakes up. What an error prints and
  the readings of the clock are arguments. The counters are 64-bit integers and wrap. A worker handles a job in phases, each up to the next release of its
  mutex (\<open>email_phase\<close>): it takes the job, counts it, runs it without a lock, and settles it, a failure in three parts; the phases of the workers, of the clients and of
  the sleeping goroutines interleave, only a call of the use case is one step. \<open>processEmailJob\<close> is the sequence of the
  phases of one job. A worker asks for the next job with \<open>PopWithTimeout\<close>; the step taken is the one that finds a job.
\<close>

section \<open>Configuration and statistics\<close>

record EmailWorkerConfig =
  ewc_BatchSize :: int
  ewc_RetryInterval :: duration
  ewc_MaxRetries :: int
  ewc_Timeout :: duration

definition DefaultEmailWorkerConfig :: EmailWorkerConfig where
  "DefaultEmailWorkerConfig = \<lparr>ewc_BatchSize = 10, ewc_RetryInterval = 5 * time_Minute, ewc_MaxRetries = 3, ewc_Timeout = 30 * time_Second\<rparr>"

record EmailWorkerStats =
  ews_WorkerID :: int
  ews_StartTime :: "instant option"
  ews_EmailsProcessed :: int
  ews_EmailsSuccessful :: int
  ews_EmailsFailed :: int
  ews_EmailsRetried :: int
  ews_AverageTime :: duration
  ews_LastJobTime :: "instant option"
  ews_IsActive :: bool

definition NewEmailSenderWorker :: "int \<Rightarrow> EmailWorkerStats" where
  "NewEmailSenderWorker i = \<lparr>ews_WorkerID = i, ews_StartTime = None, ews_EmailsProcessed = 0, ews_EmailsSuccessful = 0,
     ews_EmailsFailed = 0, ews_EmailsRetried = 0, ews_AverageTime = 0, ews_LastJobTime = None, ews_IsActive = False\<rparr>"

definition updateAverageTime :: "duration \<Rightarrow> EmailWorkerStats \<Rightarrow> EmailWorkerStats" where
  "updateAverageTime d st =
     (if ews_EmailsProcessed st = 1 then st\<lparr>ews_AverageTime := d\<rparr>
      else st\<lparr>ews_AverageTime := quot64 (wrap64 (wrap64 (ews_AverageTime st * (ews_EmailsProcessed st - 1)) + d)) (ews_EmailsProcessed st)\<rparr>)"

section \<open>One job\<close>

datatype job_error =
    NilEmailRequest | NilSentEmailID | UnknownJobType string | SendJobFailed send_error | ResendJobFailed send_error

record job_draw =
  jd_start :: instant
  jd_id :: uuid
  jd_created :: instant
  jd_now :: instant
  jd_duration :: duration
  jd_requeue :: instant

definition processSendJob :: "'st repo_ops \<Rightarrow> sender \<Rightarrow> job_draw \<Rightarrow> EmailSendingJob \<Rightarrow> 'st uc_state \<Rightarrow> job_error option \<times> 'st uc_state" where
  "processSendJob ops send dr job s =
     (case ej_EmailRequest job of
        None \<Rightarrow> (Some NilEmailRequest, s)
      | Some req \<Rightarrow>
          (case SendEmail ops send (jd_id dr) (jd_created dr) (jd_now dr) req s of
             (Inl e, s') \<Rightarrow> (Some (SendJobFailed e), s') | (Inr _, s') \<Rightarrow> (None, s')))"

definition processRetryJob :: "'st repo_ops \<Rightarrow> sender \<Rightarrow> job_draw \<Rightarrow> EmailSendingJob \<Rightarrow> 'st uc_state \<Rightarrow> job_error option \<times> 'st uc_state" where
  "processRetryJob ops send dr job s =
     (if ej_SentEmailID job = uuid_nil then (Some NilSentEmailID, s)
      else case ResendEmail ops send (jd_now dr) (ej_SentEmailID job) s of
             (Inl e, s') \<Rightarrow> (Some (ResendJobFailed e), s') | (Inr _, s') \<Rightarrow> (None, s'))"

definition run_job :: "'st repo_ops \<Rightarrow> sender \<Rightarrow> job_draw \<Rightarrow> EmailSendingJob \<Rightarrow> 'st uc_state \<Rightarrow> job_error option \<times> 'st uc_state" where
  "run_job ops send dr job s =
     (case ej_Type job of
        EmailJobTypeSend \<Rightarrow> processSendJob ops send dr job s
      | EmailJobTypeRetry \<Rightarrow> processRetryJob ops send dr job s
      | EmailJobTypeOther t \<Rightarrow> (Some (UnknownJobType t), s))"

text \<open>The conversion to \<open>uint\<close> makes a negative count a huge one, whose shift is 0.\<close>

definition backoffDelay :: "EmailWorkerConfig \<Rightarrow> int \<Rightarrow> duration" where
  "backoffDelay config k =
     (let d = wrap64 (ewc_RetryInterval config * (if k - 1 < 0 then 0 else shl64 1 (nat (k - 1))))
      in if d > 1 * time_Hour then 1 * time_Hour else d)"

text \<open>The job as it is queued again, and when.\<close>

definition scheduleRetry :: "EmailWorkerConfig \<Rightarrow> instant \<Rightarrow> EmailSendingJob \<Rightarrow> instant \<times> EmailSendingJob" where
  "scheduleRetry config now job =
     (let retryTime = now + backoffDelay config (ej_Attempts job) in (retryTime, job\<lparr>ej_ScheduledAt := retryTime\<rparr>))"

text \<open>The parts of handling a job, each under the mutex of the worker or outside of it: counting it, the attempt it has had, and its outcome.\<close>

definition count_start :: "instant \<Rightarrow> EmailWorkerStats \<Rightarrow> EmailWorkerStats" where
  "count_start start st = st\<lparr>ews_EmailsProcessed := wrap64 (ews_EmailsProcessed st + 1), ews_LastJobTime := Some start\<rparr>"

definition attempted :: "instant \<Rightarrow> EmailSendingJob \<Rightarrow> EmailSendingJob" where
  "attempted start job = job\<lparr>ej_Attempts := ej_Attempts job + 1, ej_LastAttemptAt := Some start\<rparr>"

definition handleJobSuccess :: "duration \<Rightarrow> EmailWorkerStats \<Rightarrow> EmailWorkerStats" where
  "handleJobSuccess d st = updateAverageTime d (st\<lparr>ews_EmailsSuccessful := wrap64 (ews_EmailsSuccessful st + 1)\<rparr>)"

text \<open>A failure: whether the job is tried again, with the goroutine that queues it again, then the counter.\<close>

datatype failure_kind = ToRetry | ForGood

definition begin_failure ::
    "EmailWorkerConfig \<Rightarrow> (job_error \<Rightarrow> string) \<Rightarrow> job_draw \<Rightarrow> EmailSendingJob \<Rightarrow> job_error \<Rightarrow> (instant \<times> EmailSendingJob) option \<times> failure_kind" where
  "begin_failure config err_text dr job e =
     (let job1 = job\<lparr>ej_LastError := err_text e\<rparr>
      in if ej_Attempts job1 < ej_MaxAttempts job1 then (Some (scheduleRetry config (jd_requeue dr) job1), ToRetry) else (None, ForGood))"

fun count_failure :: "failure_kind \<Rightarrow> EmailWorkerStats \<Rightarrow> EmailWorkerStats" where
  "count_failure ToRetry st = st\<lparr>ews_EmailsRetried := wrap64 (ews_EmailsRetried st + 1)\<rparr>"
| "count_failure ForGood st = st\<lparr>ews_EmailsFailed := wrap64 (ews_EmailsFailed st + 1)\<rparr>"

definition handleJobFailure ::
    "EmailWorkerConfig \<Rightarrow> (job_error \<Rightarrow> string) \<Rightarrow> job_draw \<Rightarrow> EmailSendingJob \<Rightarrow> job_error \<Rightarrow> EmailWorkerStats
      \<Rightarrow> (instant \<times> EmailSendingJob) option \<times> EmailWorkerStats" where
  "handleJobFailure config err_text dr job e st =
     (case begin_failure config err_text dr job e of (again, kind) \<Rightarrow> (again, updateAverageTime (jd_duration dr) (count_failure kind st)))"

definition processEmailJob ::
    "'st repo_ops \<Rightarrow> sender \<Rightarrow> EmailWorkerConfig \<Rightarrow> (job_error \<Rightarrow> string) \<Rightarrow> job_draw \<Rightarrow> EmailSendingJob
      \<Rightarrow> 'st uc_state \<times> EmailWorkerStats \<Rightarrow> (instant \<times> EmailSendingJob) option \<times> 'st uc_state \<times> EmailWorkerStats" where
  "processEmailJob ops send config err_text dr job = (\<lambda>(s, st).
     let st1 = count_start (jd_start dr) st;
         (err, s') = run_job ops send dr job s;
         job1 = attempted (jd_start dr) job
     in case err of
          Some e \<Rightarrow> (case handleJobFailure config err_text dr job1 e st1 of (again, st2) \<Rightarrow> (again, s', st2))
        | None \<Rightarrow> (None, s', handleJobSuccess (jd_duration dr) st1))"

text \<open>The same phase by phase. The program counter of a worker holds its job until the job is settled.\<close>

datatype email_pc =
    EIdle | ETaken EmailSendingJob | ECounted job_draw EmailSendingJob | ERan job_draw EmailSendingJob "job_error option"
  | EOutcome failure_kind duration | EAveraging duration

fun email_phase ::
    "'st repo_ops \<Rightarrow> sender \<Rightarrow> EmailWorkerConfig \<Rightarrow> (job_error \<Rightarrow> string) \<Rightarrow> job_draw \<Rightarrow> email_pc \<Rightarrow> 'st uc_state \<Rightarrow> EmailWorkerStats
      \<Rightarrow> (instant \<times> EmailSendingJob) list \<times> email_pc \<times> 'st uc_state \<times> EmailWorkerStats" where
  "email_phase ops send config err_text dr EIdle s st = ([], EIdle, s, st)"
| "email_phase ops send config err_text dr (ETaken job) s st = ([], ECounted dr job, s, count_start (jd_start dr) st)"
| "email_phase ops send config err_text dr (ECounted dr' job) s st =
     (case run_job ops send dr' job s of (err, s') \<Rightarrow> ([], ERan dr' (attempted (jd_start dr') job) err, s', st))"
| "email_phase ops send config err_text dr (ERan dr' job None) s st = ([], EIdle, s, handleJobSuccess (jd_duration dr') st)"
| "email_phase ops send config err_text dr (ERan dr' job (Some e)) s st =
     (case begin_failure config err_text dr' job e of
        (again, kind) \<Rightarrow> (case again of None \<Rightarrow> [] | Some r \<Rightarrow> [r], EOutcome kind (jd_duration dr'), s, st))"
| "email_phase ops send config err_text dr (EOutcome kind d) s st = ([], EAveraging d, s, count_failure kind st)"
| "email_phase ops send config err_text dr (EAveraging d) s st = ([], EIdle, s, updateAverageTime d st)"

section \<open>The pool\<close>

record EmailPoolStats =
  eps_TotalWorkers :: int
  eps_RunningWorkers :: int
  eps_EmailsProcessed :: int
  eps_EmailsSuccessful :: int
  eps_EmailsFailed :: int
  eps_EmailsRetried :: int
  eps_AverageTime :: duration
  eps_QueueSize :: int

record 'st email_pool =
  em_queue :: EmailPriorityQueue
  em_uc :: "'st uc_state"
  em_workers :: "EmailWorkerStats list"
  em_hands :: "email_pc list"
  em_sleeping :: "(instant \<times> EmailSendingJob) list"
  em_lost :: "EmailSendingJob list"
  em_accepted :: nat

text \<open>\<open>running k\<close> says whether worker \<open>k\<close> runs. The code reads the workers one after the other, each under its mutex; here all are read in one state.\<close>

definition GetPoolStats :: "(nat \<Rightarrow> bool) \<Rightarrow> 'st email_pool \<Rightarrow> EmailPoolStats" where
  "GetPoolStats running p =
     (let ws = em_workers p in
      \<lparr>eps_TotalWorkers = int (length ws),
       eps_RunningWorkers = int (length (filter running [0..<length ws])),
       eps_EmailsProcessed = wrap64 (sum_list (map ews_EmailsProcessed ws)),
       eps_EmailsSuccessful = wrap64 (sum_list (map ews_EmailsSuccessful ws)),
       eps_EmailsFailed = wrap64 (sum_list (map ews_EmailsFailed ws)),
       eps_EmailsRetried = wrap64 (sum_list (map ews_EmailsRetried ws)),
       eps_AverageTime = (if 0 < length ws then quot64 (wrap64 (sum_list (map ews_AverageTime ws))) (int (length ws)) else 0),
       eps_QueueSize = int (EmailPriorityQueue_Size (em_queue p))\<rparr>)"

definition NewEmailWorkerPool :: "nat \<Rightarrow> int \<Rightarrow> 'st uc_state \<Rightarrow> 'st email_pool" where
  "NewEmailWorkerPool workerCount maxSize s =
   \<lparr>em_queue = NewEmailPriorityQueue maxSize, em_uc = s, em_workers = map (\<lambda>i. NewEmailSenderWorker (int i + 1)) [0..<workerCount],
    em_hands = replicate workerCount EIdle, em_sleeping = [], em_lost = [], em_accepted = 0\<rparr>"

text \<open>One phase of worker \<open>k\<close>.\<close>

definition worker_advances ::
    "'st repo_ops \<Rightarrow> sender \<Rightarrow> EmailWorkerConfig \<Rightarrow> (job_error \<Rightarrow> string) \<Rightarrow> job_draw \<Rightarrow> nat \<Rightarrow> 'st email_pool \<Rightarrow> 'st email_pool" where
  "worker_advances ops send config err_text dr k p =
     (case email_phase ops send config err_text dr (em_hands p ! k) (em_uc p) (em_workers p ! k) of
        (again, pc, s', st') \<Rightarrow>
          p\<lparr>em_uc := s', em_workers := (em_workers p)[k := st'], em_hands := (em_hands p)[k := pc], em_sleeping := em_sleeping p @ again\<rparr>)"

text \<open>The goroutine of \<open>scheduleRetry\<close> wakes up: a queue that refuses the job is only logged.\<close>

definition requeue :: "EmailSendingJob \<Rightarrow> 'st email_pool \<Rightarrow> 'st email_pool" where
  "requeue job p =
     (case EmailPriorityQueue_Push job (em_queue p) of
        Inl _ \<Rightarrow> p\<lparr>em_lost := em_lost p @ [job]\<rparr>
      | Inr q \<Rightarrow> p\<lparr>em_queue := q\<rparr>)"

inductive email_step ::
    "'st repo_ops \<Rightarrow> sender \<Rightarrow> EmailWorkerConfig \<Rightarrow> (job_error \<Rightarrow> string) \<Rightarrow> 'st email_pool \<Rightarrow> 'st email_pool \<Rightarrow> bool"
  for ops send config err_text where
  accept: "EmailPriorityQueue_Push job (em_queue p) = Inr q \<Longrightarrow>
     email_step ops send config err_text p (p\<lparr>em_queue := q, em_accepted := em_accepted p + 1\<rparr>)"
| take_job: "k < length (em_hands p) \<Longrightarrow> em_hands p ! k = EIdle \<Longrightarrow> EmailPriorityQueue_Pop False (em_queue p) = (EmailPopJob job, q) \<Longrightarrow>
     email_step ops send config err_text p (p\<lparr>em_queue := q, em_hands := (em_hands p)[k := ETaken job]\<rparr>)"
| advance: "k < length (em_hands p) \<Longrightarrow> email_step ops send config err_text p (worker_advances ops send config err_text dr k p)"
| wake: "em_sleeping p = before @ (t, job) # after \<Longrightarrow>
     email_step ops send config err_text p (requeue job (p\<lparr>em_sleeping := before @ after\<rparr>))"
| close: "email_step ops send config err_text p (p\<lparr>em_queue := EmailPriorityQueue_Close (em_queue p)\<rparr>)"
| other: "uc_step ops send (em_uc p) s \<Longrightarrow> email_step ops send config err_text p (p\<lparr>em_uc := s\<rparr>)"

section \<open>Lemmas\<close>

lemma updateAverageTime_counts [simp]:
  "ews_EmailsProcessed (updateAverageTime d st) = ews_EmailsProcessed st"
  "ews_EmailsSuccessful (updateAverageTime d st) = ews_EmailsSuccessful st"
  "ews_EmailsFailed (updateAverageTime d st) = ews_EmailsFailed st"
  "ews_EmailsRetried (updateAverageTime d st) = ews_EmailsRetried st"
  by (simp_all add: updateAverageTime_def)

text \<open>The delay never exceeds an hour, and it is the doubled interval as long as that fits.\<close>

lemma backoffDelay_le: "backoffDelay config k \<le> time_Hour"
  by (simp add: backoffDelay_def Let_def)

lemma backoffDelay_doubles:
  assumes "1 \<le> k" "k \<le> 63" "0 \<le> ewc_RetryInterval config" "ewc_RetryInterval config * 2 ^ nat (k - 1) < 2 ^ 63"
  shows "backoffDelay config k = min time_Hour (ewc_RetryInterval config * 2 ^ nat (k - 1))"
proof -
  have "nat (k - 1) < 63" using assms(1,2) by simp
  then have "shl64 1 (nat (k - 1)) = 2 ^ nat (k - 1)" by (rule shl64_exact)
  moreover have "0 \<le> ewc_RetryInterval config * 2 ^ nat (k - 1)" using assms(3) by simp
  then have "in_int64 (ewc_RetryInterval config * 2 ^ nat (k - 1))"
    using assms(4) unfolding in_int64_def by linarith
  ultimately show ?thesis using assms(1) by (simp add: backoffDelay_def Let_def min_def)
qed

lemma processEmailJob_uc:
  assumes "processEmailJob ops send config err_text dr job (s, st) = (again, s', st')"
  shows "s' = snd (run_job ops send dr job s)"
    and "fst (run_job ops send dr job s) = None \<Longrightarrow> again = None"
    and "fst (run_job ops send dr job s) \<noteq> None \<Longrightarrow> again \<noteq> None \<longleftrightarrow> ej_Attempts job + 1 < ej_MaxAttempts job"
  using assms by (auto simp: processEmailJob_def handleJobFailure_def begin_failure_def attempted_def Let_def split: prod.splits option.splits if_splits)

lemma processEmailJob_again:
  assumes "processEmailJob ops send config err_text dr job (s, st) = (Some (t, job'), s', st')"
  shows "ej_EmailRequest job' = ej_EmailRequest job \<and> ej_Type job' = ej_Type job \<and> ej_SentEmailID job' = ej_SentEmailID job \<and>
    ej_Attempts job' = ej_Attempts job + 1 \<and> ej_MaxAttempts job' = ej_MaxAttempts job \<and> ej_ScheduledAt job' = t \<and>
    t = jd_requeue dr + backoffDelay config (ej_Attempts job + 1)"
  using assms by (auto simp: processEmailJob_def handleJobFailure_def begin_failure_def attempted_def scheduleRetry_def Let_def split: prod.splits option.splits if_splits)

lemma run_job_step:
  assumes "run_job ops send dr job s = (r, s')"
  shows "s' = s \<or> uc_step ops send s s'"
proof (cases "ej_Type job")
  case EmailJobTypeSend
  then show ?thesis using assms uc_step.send_step [of ops send]
    by (auto simp: run_job_def processSendJob_def split: option.splits prod.splits sum.splits)
next
  case EmailJobTypeRetry
  then show ?thesis using assms uc_step.resend_step [of ops send]
    by (auto simp: run_job_def processRetryJob_def split: if_splits prod.splits sum.splits)
qed (use assms in \<open>simp add: run_job_def\<close>)

text \<open>A job that is not interrupted goes through its phases as \<open>processEmailJob\<close> says.\<close>

lemma uninterrupted_job:
  assumes "k < length (em_hands p)" "k < length (em_workers p)" "em_hands p ! k = ETaken job"
    and "processEmailJob ops send config err_text dr job (em_uc p, em_workers p ! k) = (again, s', st')"
  shows "(worker_advances ops send config err_text dr k ^^ 5) p =
    p\<lparr>em_uc := s', em_workers := (em_workers p)[k := st'], em_hands := (em_hands p)[k := EIdle],
      em_sleeping := em_sleeping p @ (case again of None \<Rightarrow> [] | Some e \<Rightarrow> [e])\<rparr>"
proof -
  obtain err s1 where r: "run_job ops send dr job (em_uc p) = (err, s1)" by fastforce
  have n: "(f ^^ 5) x = f (f (f (f (f x))))" for f :: "'a email_pool \<Rightarrow> 'a email_pool" and x by (simp add: numeral_eq_Suc)
  show ?thesis unfolding n
    using assms r by (cases err) (auto simp: worker_advances_def processEmailJob_def handleJobFailure_def split: prod.splits)
qed

lemma uninterrupted_steps:
  assumes "k < length (em_hands p)"
  shows "(email_step ops send config err_text)\<^sup>*\<^sup>* p ((worker_advances ops send config err_text dr k ^^ n) p)"
proof (induction n)
  case (Suc n)
  have "length (em_hands ((worker_advances ops send config err_text dr k ^^ m) p)) = length (em_hands p)" for m
    by (induction m) (simp_all add: worker_advances_def split: prod.splits)
  then have "email_step ops send config err_text ((worker_advances ops send config err_text dr k ^^ n) p)
      (worker_advances ops send config err_text dr k ((worker_advances ops send config err_text dr k ^^ n) p))"
    using assms by (intro email_step.advance) simp
  then show ?case using Suc by (simp add: rtranclp.rtrancl_into_rtrancl)
qed simp

text \<open>What a step of the pool means for the use case: at most one call of it.\<close>

lemma email_phase_uc:
  assumes "email_phase ops send config err_text dr pc s st = (again, pc', s', st')"
  shows "s' = s \<or> uc_step ops send s s'"
  using assms
  by (cases "(ops, send, config, err_text, dr, pc, s, st)" rule: email_phase.cases) (auto split: prod.splits dest: run_job_step)

lemma email_step_uc:
  assumes "email_step ops send config err_text p p'"
  shows "uc_run ops send (em_uc p) (em_uc p')"
  using assms
proof cases
  case (advance k dr)
  obtain again pc' s' st' where ph: "email_phase ops send config err_text dr (em_hands p ! k) (em_uc p) (em_workers p ! k) = (again, pc', s', st')"
    by (metis prod_cases4)
  then show ?thesis using email_phase_uc [OF ph] advance(1) by (auto simp: worker_advances_def uc_run_def)
next
  case (wake before t job after)
  then show ?thesis by (simp add: requeue_def uc_run_def split: sum.splits)
qed (simp_all add: uc_run_def r_into_rtranclp)

lemma email_run_uc:
  assumes "(email_step ops send config err_text)\<^sup>*\<^sup>* p p'"
  shows "uc_run ops send (em_uc p) (em_uc p')"
  using assms
proof (induction rule: rtranclp_induct)
  case (step y z)
  then show ?case using email_step_uc [OF step(2)] by (simp add: uc_run_def)
qed (simp add: uc_run_def)

section \<open>Every job is accounted for\<close>

text \<open>The jobs a worker has in its hands, and the jobs it has counted but not settled: a job to be retried is back with its goroutine before it counts as retried.\<close>

fun in_hand :: "email_pc \<Rightarrow> int" where
  "in_hand EIdle = 0"
| "in_hand (ETaken job) = 1"
| "in_hand (ECounted dr job) = 1"
| "in_hand (ERan dr job e) = 1"
| "in_hand (EOutcome kind d) = (if kind = ForGood then 1 else 0)"
| "in_hand (EAveraging d) = 0"

fun unsettled :: "email_pc \<Rightarrow> int" where
  "unsettled EIdle = 0"
| "unsettled (ETaken job) = 0"
| "unsettled (ECounted dr job) = 1"
| "unsettled (ERan dr job e) = 1"
| "unsettled (EOutcome kind d) = 1"
| "unsettled (EAveraging d) = 0"

definition settled_count :: "EmailWorkerStats \<Rightarrow> int" where
  "settled_count st = ews_EmailsSuccessful st + ews_EmailsFailed st"

definition fine_counts :: "EmailWorkerStats \<Rightarrow> bool" where
  "fine_counts st \<longleftrightarrow> 0 \<le> ews_EmailsSuccessful st \<and> 0 \<le> ews_EmailsFailed st"

definition jobs_in_hand :: "'st email_pool \<Rightarrow> int" where
  "jobs_in_hand p = sum_list (map in_hand (em_hands p))"

definition settled_jobs :: "'st email_pool \<Rightarrow> int" where
  "settled_jobs p = sum_list (map settled_count (em_workers p))"

definition unsettled_jobs :: "'st email_pool \<Rightarrow> int" where
  "unsettled_jobs p = sum_list (map unsettled (em_hands p))"

text \<open>What the counters of a worker miss, up to the wrap-around.\<close>

definition balanced :: "EmailWorkerStats \<Rightarrow> email_pc \<Rightarrow> bool" where
  "balanced st pc \<longleftrightarrow> 2 ^ 64 dvd ews_EmailsProcessed st - (settled_count st + ews_EmailsRetried st + unsettled pc)"

definition accounted :: "'st email_pool \<Rightarrow> bool" where
  "accounted p \<longleftrightarrow> (\<forall>st \<in> set (em_workers p). fine_counts st) \<and>
     int (em_accepted p) = int (length (eq_jobs (em_queue p))) + int (length (em_sleeping p)) + jobs_in_hand p + settled_jobs p + int (length (em_lost p))"

definition pool_ok :: "'st email_pool \<Rightarrow> bool" where
  "pool_ok p \<longleftrightarrow> (int (em_accepted p) < 2 ^ 63 \<longrightarrow> accounted p) \<and> list_all2 balanced (em_workers p) (em_hands p) \<and> eq_invar (em_queue p) \<and>
     (eq_maxSize (em_queue p) > 0 \<longrightarrow> int (length (eq_jobs (em_queue p))) \<le> eq_maxSize (em_queue p))"

lemma email_push_length:
  "EmailPriorityQueue_Push job q = Inr q' \<Longrightarrow> length (eq_jobs q') = Suc (length (eq_jobs q)) \<and> eq_maxSize q' = eq_maxSize q \<and>
     (eq_maxSize q > 0 \<longrightarrow> int (length (eq_jobs q')) \<le> eq_maxSize q)"
  by (auto simp: EmailPriorityQueue_Push_def split: if_splits)

lemma email_pop_length:
  assumes "EmailPriorityQueue_Pop d q = (EmailPopJob job, q')"
  shows "length (eq_jobs q) = Suc (length (eq_jobs q')) \<and> eq_maxSize q' = eq_maxSize q"
proof -
  have "eq_jobs q \<noteq> []" "length (eq_jobs q') = length (eq_jobs q) - 1"
    using heap_Pop_Some [OF email_pop_job [OF assms, THEN conjunct1]] by auto
  moreover have "eq_maxSize q' = eq_maxSize q"
    using email_pop_job [OF assms] by (metis EmailPriorityQueue.select_convs(3) EmailPriorityQueue.surjective EmailPriorityQueue.update_convs(1))
  ultimately show ?thesis by (cases "eq_jobs q") simp_all
qed

lemma sum_list_replace: "k < length xs \<Longrightarrow> sum_list (map f (xs[k := x])) = sum_list (map f xs) + f x - (f (xs ! k) :: int)"
  by (induction xs arbitrary: k) (auto split: nat.splits)

lemma sum_list_nonneg_map: "\<forall>x \<in> set xs. 0 \<le> (f x :: int) \<Longrightarrow> 0 \<le> sum_list (map f xs)"
  by (induction xs) auto

lemma nth_le_sum_list: "k < length xs \<Longrightarrow> \<forall>x \<in> set xs. 0 \<le> (f x :: int) \<Longrightarrow> f (xs ! k) \<le> sum_list (map f xs)"
  using sum_list_nonneg_map [of _ f] by (induction xs arbitrary: k) (fastforce simp: nth_Cons split: nat.splits)+

lemma in_hand_nonneg: "0 \<le> in_hand pc"
  by (cases pc) auto

text \<open>A counter of settled jobs does not overflow while fewer jobs were accepted than it can count.\<close>

lemma count_fits:
  assumes "accounted p" "int (em_accepted p) < 2 ^ 63" "k < length (em_workers p)" "k < length (em_hands p)" "in_hand (em_hands p ! k) = 1"
  shows "wrap64 (ews_EmailsSuccessful (em_workers p ! k) + 1) = ews_EmailsSuccessful (em_workers p ! k) + 1 \<and>
    wrap64 (ews_EmailsFailed (em_workers p ! k) + 1) = ews_EmailsFailed (em_workers p ! k) + 1"
proof -
  let ?st = "em_workers p ! k"
  have fine: "0 \<le> ews_EmailsSuccessful ?st" "0 \<le> ews_EmailsFailed ?st" "\<forall>st \<in> set (em_workers p). 0 \<le> settled_count st"
    using assms(1,3) by (auto simp: accounted_def fine_counts_def settled_count_def)
  have "settled_count ?st \<le> settled_jobs p" using nth_le_sum_list [OF assms(3) fine(3)] by (simp add: settled_jobs_def)
  moreover have "1 \<le> jobs_in_hand p" using nth_le_sum_list [OF assms(4), of in_hand] in_hand_nonneg assms(5) by (simp add: jobs_in_hand_def)
  ultimately have "settled_count ?st + 1 < 2 ^ 63" using assms(1,2) by (simp add: accounted_def)
  then have "in_int64 (ews_EmailsSuccessful ?st + 1)" "in_int64 (ews_EmailsFailed ?st + 1)"
    using fine(1,2) by (auto simp: settled_count_def)
  then show ?thesis by simp
qed

text \<open>One phase: the job stays where it is counted, or moves from the hand to a goroutine or to a counter.\<close>

lemma wrap64_up: "2 ^ 64 dvd p - q \<Longrightarrow> 2 ^ 64 dvd wrap64 (p + 1) - (q + 1)"
  using dvd_diff [OF _ wrap64_cong_diff [of "p + 1"], of "p - q"] by (simp add: algebra_simps)

lemma wrap64_down: "2 ^ 64 dvd p - (x + y + 1) \<Longrightarrow> 2 ^ 64 dvd p - (wrap64 (x + 1) + y)"
  using dvd_add [OF _ wrap64_cong_diff [of "x + 1"], of "p - (x + y + 1)"] by (simp add: algebra_simps)

lemma email_phase_balanced:
  assumes "email_phase ops send config err_text dr pc s st = (again, pc', s', st')" "balanced st pc"
  shows "balanced st' pc'"
proof -
  let ?P = "ews_EmailsProcessed st" and ?S = "ews_EmailsSuccessful st" and ?F = "ews_EmailsFailed st" and ?R = "ews_EmailsRetried st"
  note up = wrap64_up [of ?P "?S + ?F + ?R"]
  note down = wrap64_down [of ?P ?S "?F + ?R"] wrap64_down [of ?P ?F "?S + ?R"] wrap64_down [of ?P ?R "?S + ?F"]
  show ?thesis
  proof (cases pc)
    case (EOutcome kind d)
    then show ?thesis using assms down(2,3) by (cases kind) (auto simp: balanced_def settled_count_def algebra_simps)
  next
    case (ERan dr' job e)
    then show ?thesis using assms down(1)
      by (cases e) (auto simp: balanced_def settled_count_def handleJobSuccess_def algebra_simps split: prod.splits)
  qed (use assms up in \<open>auto simp: balanced_def settled_count_def count_start_def algebra_simps split: prod.splits\<close>)
qed

lemma email_phase_accounted:
  assumes "email_phase ops send config err_text dr pc s st = (again, pc', s', st')" "fine_counts st"
    and "in_hand pc = 1 \<Longrightarrow> wrap64 (ews_EmailsSuccessful st + 1) = ews_EmailsSuccessful st + 1 \<and> wrap64 (ews_EmailsFailed st + 1) = ews_EmailsFailed st + 1"
  shows "fine_counts st' \<and> int (length again) + in_hand pc' + settled_count st' = in_hand pc + settled_count st"
proof (cases pc)
  case (EOutcome kind d)
  then show ?thesis using assms by (cases kind) (auto simp: fine_counts_def settled_count_def)
next
  case (ERan dr' job e)
  then show ?thesis using assms
    by (cases e) (auto simp: fine_counts_def settled_count_def handleJobSuccess_def begin_failure_def Let_def split: prod.splits if_splits)
qed (use assms in \<open>auto simp: fine_counts_def settled_count_def count_start_def split: prod.splits\<close>)

lemma worker_advances_fields [simp]:
  "em_queue (worker_advances ops send config err_text dr k p) = em_queue p" "em_lost (worker_advances ops send config err_text dr k p) = em_lost p"
  "em_accepted (worker_advances ops send config err_text dr k p) = em_accepted p"
  by (simp_all add: worker_advances_def split: prod.splits)

lemma worker_advances_ok:
  assumes "pool_ok p" "k < length (em_hands p)"
  shows "pool_ok (worker_advances ops send config err_text dr k p)"
proof -
  let ?p = "worker_advances ops send config err_text dr k p"
  obtain again pc' s' st' where ph: "email_phase ops send config err_text dr (em_hands p ! k) (em_uc p) (em_workers p ! k) = (again, pc', s', st')"
    by (metis prod_cases4)
  have p: "em_workers ?p = (em_workers p)[k := st']" "em_hands ?p = (em_hands p)[k := pc']" "em_sleeping ?p = em_sleeping p @ again"
    by (simp_all add: worker_advances_def ph)
  have bal: "list_all2 balanced (em_workers p) (em_hands p)" using assms(1) by (simp add: pool_ok_def)
  then have k: "k < length (em_workers p)" and here: "balanced (em_workers p ! k) (em_hands p ! k)"
    using assms(2) by (simp_all add: list_all2_lengthD list_all2_nthD2)
  have "list_all2 balanced (em_workers ?p) (em_hands ?p)"
    unfolding p by (rule list_all2_update_cong [OF bal email_phase_balanced [OF ph here]])
  moreover have "accounted ?p" if "int (em_accepted p) < 2 ^ 63"
  proof -
    have acc: "accounted p" using assms(1) that by (simp add: pool_ok_def)
    then have "fine_counts (em_workers p ! k)" using k by (simp add: accounted_def)
    note ph' = email_phase_accounted [OF ph this count_fits [OF acc that k assms(2)]]
    have "\<forall>st \<in> set (em_workers ?p). fine_counts st"
      using acc ph' set_update_subset_insert [of "em_workers p" k st'] by (auto simp: p accounted_def)
    moreover have "jobs_in_hand ?p = jobs_in_hand p + in_hand pc' - in_hand (em_hands p ! k)"
      "settled_jobs ?p = settled_jobs p + settled_count st' - settled_count (em_workers p ! k)"
      using k assms(2) by (simp_all add: p jobs_in_hand_def settled_jobs_def sum_list_replace)
    ultimately show ?thesis using acc ph' by (simp add: accounted_def p)
  qed
  ultimately show ?thesis using assms(1) by (simp add: pool_ok_def)
qed

lemma requeue_ok:
  assumes "pool_ok p" "em_sleeping p = before @ (t, job) # after"
  shows "pool_ok (requeue job (p\<lparr>em_sleeping := before @ after\<rparr>))"
proof (cases "EmailPriorityQueue_Push job (em_queue p)")
  case (Inl e)
  then show ?thesis using assms by (simp add: requeue_def pool_ok_def accounted_def settled_jobs_def jobs_in_hand_def)
next
  case (Inr q)
  then show ?thesis using assms email_push_ok [of "em_queue p" job q] email_push_length [of job "em_queue p" q]
    by (auto simp: requeue_def pool_ok_def accounted_def settled_jobs_def jobs_in_hand_def)
qed

lemma email_step_ok:
  assumes "email_step ops send config err_text p p'" "pool_ok p"
  shows "pool_ok p'"
  using assms(1)
proof cases
  case (accept job q)
  then show ?thesis using assms(2) email_push_ok [of "em_queue p" job q] email_push_length [of job "em_queue p" q]
    by (auto simp: pool_ok_def accounted_def settled_jobs_def jobs_in_hand_def)
next
  case (take_job k job q)
  have bal: "list_all2 balanced (em_workers p) (em_hands p)" using assms(2) by (simp add: pool_ok_def)
  then have "balanced (em_workers p ! k) EIdle" using list_all2_nthD2 [OF bal take_job(2)] take_job(3) by simp
  then have "list_all2 balanced ((em_workers p)[k := em_workers p ! k]) ((em_hands p)[k := ETaken job])"
    by (intro list_all2_update_cong [OF bal]) (simp add: balanced_def)
  moreover have "jobs_in_hand p' = jobs_in_hand p + 1" using take_job by (simp add: jobs_in_hand_def sum_list_replace)
  moreover have "eq_invar q" using email_pop_urgent [of "em_queue p" False job q] take_job(4) assms(2) by (simp add: pool_ok_def)
  ultimately show ?thesis using take_job email_pop_length [OF take_job(4)] assms(2)
    by (auto simp: pool_ok_def accounted_def settled_jobs_def)
next
  case (wake before t job after)
  then show ?thesis using requeue_ok [OF assms(2)] by simp
next
  case close
  then show ?thesis using assms(2) by (simp add: pool_ok_def accounted_def settled_jobs_def jobs_in_hand_def EmailPriorityQueue_Close_def eq_invar_def)
next
  case (advance k dr)
  then show ?thesis using worker_advances_ok [OF assms(2)] by simp
next
  case (other s)
  then show ?thesis using assms(2) by (simp add: pool_ok_def accounted_def settled_jobs_def jobs_in_hand_def)
qed

lemma email_run_ok:
  assumes "(email_step ops send config err_text)\<^sup>*\<^sup>* p p'" "pool_ok p"
  shows "pool_ok p'"
  using assms by (induction rule: rtranclp_induct) (use email_step_ok in blast)+

lemma NewEmailWorkerPool_ok: "pool_ok (NewEmailWorkerPool n ms s)"
proof -
  have "settled_count \<circ> (\<lambda>i. NewEmailSenderWorker (int i + 1)) = (\<lambda>_. 0)"
    by (rule ext) (simp add: settled_count_def NewEmailSenderWorker_def)
  moreover have "map in_hand (replicate n EIdle) = replicate n 0" by simp
  moreover have "list_all2 balanced (map (\<lambda>i. NewEmailSenderWorker (int i + 1)) [0..<n]) (replicate n EIdle)"
    by (simp add: list_all2_conv_all_nth balanced_def settled_count_def NewEmailSenderWorker_def)
  ultimately show ?thesis
    by (simp add: pool_ok_def accounted_def settled_jobs_def jobs_in_hand_def NewEmailWorkerPool_def fine_counts_def NewEmailSenderWorker_def sum_list_replicate)
qed

text \<open>The sums of the statistics.\<close>

lemma balanced_sums:
  "list_all2 balanced ws hs \<Longrightarrow> 2 ^ 64 dvd sum_list (map ews_EmailsProcessed ws) -
     (sum_list (map ews_EmailsSuccessful ws) + sum_list (map ews_EmailsFailed ws) + sum_list (map ews_EmailsRetried ws) + sum_list (map unsettled hs))"
proof (induction rule: list_all2_induct)
  case (Cons st ws pc hs)
  from dvd_add [OF Cons(1) [unfolded balanced_def settled_count_def] Cons(3)] show ?case by (simp add: algebra_simps)
qed simp

lemma wrap64_eqI: "2 ^ 64 dvd x - y \<Longrightarrow> wrap64 x = wrap64 y"
proof -
  assume "2 ^ 64 dvd x - y"
  then have "(x + 2 ^ 63) mod 2 ^ 64 = (y + 2 ^ 63) mod 2 ^ 64" by (simp add: mod_eq_dvd_iff)
  then show ?thesis by (simp add: wrap64_def)
qed

section \<open>A message id once stored stays\<close>

context sent_email_repository
begin

definition known :: "string \<Rightarrow> 'st uc_state \<Rightarrow> bool" where
  "known m s \<longleftrightarrow> (\<exists>i e. abs (uc_repo s) i = Some e \<and> se_MessageID e = m)"

lemma known_upd: "known m s \<Longrightarrow> abs (uc_repo s') = (abs (uc_repo s))(i \<mapsto> e) \<Longrightarrow>
    (\<forall>e0. abs (uc_repo s) i = Some e0 \<longrightarrow> se_MessageID e0 = se_MessageID e) \<Longrightarrow> known m s'"
  unfolding known_def by (metis fun_upd_other fun_upd_same)

lemma known_same: "known m s \<Longrightarrow> abs (uc_repo s') = abs (uc_repo s) \<Longrightarrow> known m s'"
  by (simp add: known_def)

lemma outcome_row_message: "se_MessageID (persist (outcome_row send now e s)) = se_MessageID e"
  by (simp add: outcome_row_def MarkAsFailed_def MarkAsSent_def calculateNextRetryTime_def Let_def split: sum.splits)

lemma dispatch_known:
  assumes "inv (uc_repo s)" "abs (uc_repo s) (se_ID e) = Some e0" "se_MessageID e0 = se_MessageID e" "known m s"
    and "dispatch ops send now e s = (r, s')"
  shows "known m s'"
proof -
  have "abs (uc_repo s') = (abs (uc_repo s))(se_ID e \<mapsto> persist (outcome_row send now e s)) \<or> abs (uc_repo s') = abs (uc_repo s)"
    using dispatch_rows [OF assms(1) _ assms(5)] assms(2) by auto
  then show ?thesis using known_upd [OF assms(4)] known_same [OF assms(4)] assms(2,3) outcome_row_message by fastforce
qed

lemma send_known:
  assumes "inv (uc_repo s)" "SendEmail ops send i created now req s = (r, s')"
  shows "known m s \<Longrightarrow> known m s'" and "r = Inl (SenderFailed err) \<Longrightarrow> known (req_MessageID req) s'"
proof -
  have "(known m s \<longrightarrow> known m s') \<and> (r = Inl (SenderFailed err) \<longrightarrow> known (req_MessageID req) s')"
    using assms
  proof (cases rule: send_cases)
    case refused
    have "r \<noteq> Inl (SenderFailed err)"
    proof
      assume "r = Inl (SenderFailed err)"
      then have "uc_dispatched s' \<noteq> uc_dispatched s"
        using assms(2) dispatch_dispatched by (fastforce simp: SendEmail_def Let_def split: option.splits if_splits prod.splits)
      then show False using refused(1) by simp
    qed
    then show ?thesis using refused(4) known_same by blast
  next
    case (sent st)
    let ?e = "new_sent_email i created req" and ?s = "s\<lparr>uc_repo := st\<rparr>"
    have e: "se_ID ?e = i" "se_MessageID ?e = req_MessageID req" by (simp_all add: new_sent_email_def)
    have row: "abs (uc_repo ?s) (se_ID ?e) = Some (persist ?e)" using sent(4) e by simp
    have step: "known x s'" if "known x ?s" for x
      using dispatch_known [OF _ row _ that sent(5)] sent(3) by simp
    have "known (req_MessageID req) ?s" using row e(2) unfolding known_def by (intro exI [of _ "se_ID ?e"] exI [of _ "persist ?e"]) simp
    moreover have "known m ?s" if "known m s"
      using known_upd [OF that, of ?s i "persist ?e"] sent(2,4) by simp
    ultimately show ?thesis using step by blast
  qed
  then show "known m s \<Longrightarrow> known m s'" "r = Inl (SenderFailed err) \<Longrightarrow> known (req_MessageID req) s'" by auto
qed

lemma resend_known:
  assumes "inv (uc_repo s)" "ResendEmail ops send now i s = (r, s')" "known m s"
  shows "known m s'"
  using assms(1,2)
proof (cases rule: resend_cases)
  case refused
  then show ?thesis using assms(3) known_same by blast
next
  case (sent e st)
  have "known m (s\<lparr>uc_repo := st\<rparr>)" using assms(3) sent(5) known_same [of m s "s\<lparr>uc_repo := st\<rparr>"] by simp
  then show ?thesis using dispatch_known [OF _ _ _ _ sent(6), of e] sent(1,2,4,5) by simp
qed

lemma run_inv:
  assumes "uc_run ops send s s'" "inv (uc_repo s)"
  shows "inv (uc_repo s')"
  using assms unfolding uc_run_def
proof (induction rule: rtranclp_induct)
  case (step y z)
  have "inv (uc_repo y)" using step by blast
  with step(2) show ?case by (rule step_induct [where P = "\<lambda>_. True", THEN conjunct1]) blast+
qed

lemma run_known:
  assumes "uc_run ops send s s'" "inv (uc_repo s)" "known m s"
  shows "inv (uc_repo s') \<and> known m s'"
  using assms unfolding uc_run_def
proof (induction rule: rtranclp_induct)
  case (step y z)
  have "inv (uc_repo y)" "known m y" using step by blast+
  with step(2) show ?case
  proof (rule step_induct [where P = "known m"])
    show "known m (s\<lparr>uc_repo := st\<rparr>)" if "known m s" "abs st = abs (uc_repo s)" for s st
      using known_same [OF that(1), of "s\<lparr>uc_repo := st\<rparr>"] that(2) by simp
  qed (use send_known(1) resend_known in blast)+
qed simp

end

lemma pg_known_refused:
  assumes "table_ok (uc_repo s)" "pg.known (req_MessageID req) s" "SendEmailRequest_Validate req = None"
  shows "\<exists>e s'. SendEmail pg_repo send i created now req s = (Inl (CreateFailed e), s') \<and> uc_dispatched s' = uc_dispatched s \<and>
    pg_lookup (uc_repo s') = pg_lookup (uc_repo s)"
proof -
  let ?e = "new_sent_email i created req"
  obtain cr st where c: "pg_CreateSentEmail ?e (uc_repo s) = (cr, st)" by fastforce
  obtain j e where e: "pg_lookup (uc_repo s) j = Some e" "se_MessageID e = req_MessageID req"
    using assms(2) by (auto simp: pg.known_def)
  have "e \<in> set (pg_rows (uc_repo s))" using e(1) by (auto simp: pg_lookup_def find_Some_iff)
  then have "list_ex (\<lambda>r. se_ID r = se_ID ?e \<or> se_MessageID r = se_MessageID ?e) (pg_rows (uc_repo s))"
    using e(2) by (auto simp: list_ex_iff new_sent_email_def)
  then have "fst (pg_CreateSentEmail ?e (uc_repo s)) \<noteq> None"
    by (simp add: pg_CreateSentEmail_def as_error_def exec_def split: option.split list.split)
  then have "cr \<noteq> None" using c by simp
  then obtain er where "cr = Some er" by blast
  moreover have "pg_lookup st = pg_lookup (uc_repo s)"
    using pg.create [of "uc_repo s" ?e cr st] assms(1) c \<open>cr = Some er\<close> by (simp add: pg_repo_def)
  ultimately show ?thesis using assms(3) c new_sent_email_valid [OF assms(3)]
    by (simp add: SendEmail_def pg_repo_def Let_def)
qed

section \<open>Properties\<close>

lemma email_run_maxSize:
  assumes "(email_step ops send config err_text)\<^sup>*\<^sup>* p p'"
  shows "eq_maxSize (em_queue p') = eq_maxSize (em_queue p) \<and> length (em_hands p') = length (em_hands p)"
  using assms
proof (induction rule: rtranclp_induct)
  case (step y z)
  have "eq_maxSize (em_queue z) = eq_maxSize (em_queue y) \<and> length (em_hands z) = length (em_hands y)"
    using step(2)
  proof cases
    case (take_job k job q)
    then show ?thesis using email_pop_length [OF take_job(4)] by simp
  next
    case (advance k dr)
    then show ?thesis by (simp add: worker_advances_def split: prod.splits)
  qed (auto simp: requeue_def EmailPriorityQueue_Close_def dest: email_push_length split: sum.splits)
  with step show ?case by simp
qed simp

text \<open>
  C30: Every e-mail job is accounted for, in every state between two phases of the workers. However the workers of a pool, its clients and the
  wake-ups of failed jobs interleave, the number of jobs the queue ever accepted from clients is the number of jobs in the queue, in the hands of
  workers, with goroutines that sleep until their retry, counted as success or failure in the pool's statistics, and lost because the
  queue refused them at their wake-up (as long as it is below \<open>2 ^ 63\<close>, so that no such counter has wrapped). A worker has at most one job in hand. The processed
  jobs are the successes, failures and retries and those that a worker has counted but not settled, in 64-bit arithmetic. A bounded queue keeps its bound.
\<close>

theorem email_jobs_accounted:
  assumes "(email_step ops send config err_text)\<^sup>*\<^sup>* (NewEmailWorkerPool n ms s) p" "G = GetPoolStats running p"
  shows "(int (em_accepted p) < 2 ^ 63 \<longrightarrow> int (em_accepted p) = eps_QueueSize G + jobs_in_hand p + int (length (em_sleeping p)) +
      eps_EmailsSuccessful G + eps_EmailsFailed G + int (length (em_lost p))) \<and>
    0 \<le> jobs_in_hand p \<and> jobs_in_hand p \<le> int n \<and>
    eps_EmailsProcessed G = wrap64 (eps_EmailsSuccessful G + eps_EmailsFailed G + eps_EmailsRetried G + unsettled_jobs p) \<and>
    (0 < ms \<longrightarrow> eps_QueueSize G \<le> ms)"
proof -
  have ok: "pool_ok p" using email_run_ok [OF assms(1) NewEmailWorkerPool_ok] .
  have size: "eq_maxSize (em_queue p) = ms" "length (em_hands p) = n"
    using email_run_maxSize [OF assms(1)] by (simp_all add: NewEmailWorkerPool_def NewEmailPriorityQueue_def)
  have hand: "0 \<le> sum_list (map in_hand hs) \<and> sum_list (map in_hand hs) \<le> int (length hs)" for hs
  proof (induction hs)
    case (Cons pc hs)
    then show ?case by (cases pc) auto
  qed simp
  let ?S = "sum_list (map ews_EmailsSuccessful (em_workers p))" and ?F = "sum_list (map ews_EmailsFailed (em_workers p))"
    and ?R = "sum_list (map ews_EmailsRetried (em_workers p))"
  have G: "eps_QueueSize G = int (length (eq_jobs (em_queue p)))" "eps_EmailsSuccessful G = wrap64 ?S" "eps_EmailsFailed G = wrap64 ?F"
    "eps_EmailsRetried G = wrap64 ?R" "eps_EmailsProcessed G = wrap64 (sum_list (map ews_EmailsProcessed (em_workers p)))"
    by (simp_all add: assms(2) GetPoolStats_def EmailPriorityQueue_Size_def Let_def)
  have sums: "settled_jobs p = ?S + ?F" unfolding settled_jobs_def by (induction "em_workers p") (simp_all add: settled_count_def sum_list_addf)
  have "int (em_accepted p) = eps_QueueSize G + jobs_in_hand p + int (length (em_sleeping p)) + eps_EmailsSuccessful G + eps_EmailsFailed G + int (length (em_lost p))"
    if small: "int (em_accepted p) < 2 ^ 63"
  proof -
    have acc: "accounted p" using ok small by (simp add: pool_ok_def)
    have "0 \<le> ?S" "0 \<le> ?F" using acc by (auto simp: accounted_def fine_counts_def intro!: sum_list_nonneg)
    moreover have "?S + ?F < 2 ^ 63" using acc small sums hand [of "em_hands p"] by (simp add: accounted_def jobs_in_hand_def)
    ultimately have "wrap64 ?S = ?S" "wrap64 ?F = ?F" by (auto intro!: wrap64_id)
    then show ?thesis using acc sums by (simp add: accounted_def G)
  qed
  moreover have "eps_EmailsProcessed G = wrap64 (eps_EmailsSuccessful G + eps_EmailsFailed G + eps_EmailsRetried G + unsettled_jobs p)"
  proof -
    have "2 ^ 64 dvd (sum_list (map ews_EmailsProcessed (em_workers p)) - (?S + ?F + ?R + unsettled_jobs p)) +
        ((?S - wrap64 ?S) + (?F - wrap64 ?F) + (?R - wrap64 ?R))"
      using ok balanced_sums [of "em_workers p" "em_hands p"] wrap64_cong_diff unfolding pool_ok_def unsettled_jobs_def by (intro dvd_add) blast+
    then show ?thesis unfolding G by (intro wrap64_eqI) (simp add: algebra_simps)
  qed
  ultimately show ?thesis using ok hand [of "em_hands p"] size by (simp add: pool_ok_def jobs_in_hand_def G(1))
qed

definition sample_send_job :: EmailSendingJob where
  "sample_send_job = CreateEmailSendingJob 9 0 0 (Some sample_req) 50"

definition sample_job_draw :: job_draw where
  "sample_job_draw = \<lparr>jd_start = 10, jd_id = 1, jd_created = 1000, jd_now = 2000, jd_duration = 5, jd_requeue = 20\<rparr>"

definition start_pool :: "pg_state email_pool" where
  "start_pool = NewEmailWorkerPool 2 10 (empty_db [7] [])"

definition queued_pool :: "pg_state email_pool" where
  "queued_pool = start_pool\<lparr>em_queue := \<lparr>eq_jobs = [sample_send_job], eq_closed = False, eq_maxSize = 10\<rparr>, em_accepted := 1\<rparr>"

definition taken_pool :: "pg_state email_pool" where
  "taken_pool = queued_pool\<lparr>em_queue := \<lparr>eq_jobs = [], eq_closed = False, eq_maxSize = 10\<rparr>, em_hands := [ETaken sample_send_job, EIdle]\<rparr>"

text \<open>The pool after \<open>n\<close> phases of the first worker.\<close>

definition worked_pool :: "nat \<Rightarrow> pg_state email_pool" where
  "worked_pool n = (worker_advances pg_repo flaky DefaultEmailWorkerConfig (\<lambda>_. []) sample_job_draw 0 ^^ n) taken_pool"

lemma sample_pool_run: "(email_step pg_repo flaky DefaultEmailWorkerConfig (\<lambda>_. []))\<^sup>*\<^sup>* start_pool (worked_pool n)"
proof -
  have q: "em_queue start_pool = \<lparr>eq_jobs = [], eq_closed = False, eq_maxSize = 10\<rparr>"
    by (simp add: start_pool_def NewEmailWorkerPool_def NewEmailPriorityQueue_def heap_Init_def)
  have h: "em_hands queued_pool = [EIdle, EIdle]" by (simp add: queued_pool_def start_pool_def NewEmailWorkerPool_def numeral_eq_Suc)
  have "EmailPriorityQueue_Push sample_send_job (em_queue start_pool) = Inr (em_queue queued_pool)"
    by (simp add: q EmailPriorityQueue_Push_def queued_pool_def heap_Push_def heap_up.simps)
  from email_step.accept [OF this, of pg_repo flaky DefaultEmailWorkerConfig "\<lambda>_. []"]
  have 1: "email_step pg_repo flaky DefaultEmailWorkerConfig (\<lambda>_. []) start_pool queued_pool"
    by (simp add: queued_pool_def) (simp add: start_pool_def NewEmailWorkerPool_def)
  have "EmailPriorityQueue_Pop False (em_queue queued_pool) = (EmailPopJob sample_send_job, \<lparr>eq_jobs = [], eq_closed = False, eq_maxSize = 10\<rparr>)"
    by (simp add: queued_pool_def EmailPriorityQueue_Pop_def heap_Pop_single)
  from email_step.take_job [OF _ _ this, of 0 pg_repo flaky DefaultEmailWorkerConfig "\<lambda>_. []"]
  have 2: "email_step pg_repo flaky DefaultEmailWorkerConfig (\<lambda>_. []) queued_pool taken_pool" by (simp add: h taken_pool_def)
  have "(email_step pg_repo flaky DefaultEmailWorkerConfig (\<lambda>_. []))\<^sup>*\<^sup>* taken_pool (worked_pool n)"
    unfolding worked_pool_def by (rule uninterrupted_steps) (simp add: taken_pool_def)
  then show ?thesis using 1 2 by (meson converse_rtranclp_into_rtranclp)
qed

text \<open>While the worker sends, the job is in its hands and counted; after its phases the job waits for its retry.\<close>

theorem email_jobs_accounted_witness:
  "let G = GetPoolStats (\<lambda>_. True) (worked_pool 1); G' = GetPoolStats (\<lambda>_. True) (worked_pool 5) in
   jobs_in_hand (worked_pool 1) = 1 \<and> (eps_EmailsProcessed G, eps_EmailsSuccessful G, eps_EmailsFailed G, eps_EmailsRetried G) = (1, 0, 0, 0) \<and>
   jobs_in_hand (worked_pool 5) = 0 \<and> length (em_sleeping (worked_pool 5)) = 1 \<and>
   1 = eps_QueueSize G' + 1 + eps_EmailsSuccessful G' + eps_EmailsFailed G' + int (length (em_lost (worked_pool 5)))"
proof -
  have w: "em_workers taken_pool = [NewEmailSenderWorker 1, NewEmailSenderWorker 2]" "em_hands taken_pool = [ETaken sample_send_job, EIdle]"
    "em_uc taken_pool = empty_db [7] []" "em_sleeping taken_pool = []" "em_accepted taken_pool = 1"
    by (simp_all add: taken_pool_def queued_pool_def start_pool_def NewEmailWorkerPool_def upt_rec)
  have one: "em_workers (worked_pool 1) = [count_start 10 (NewEmailSenderWorker 1), NewEmailSenderWorker 2]"
      "em_hands (worked_pool 1) = [ECounted sample_job_draw sample_send_job, EIdle]"
    by (simp_all add: worked_pool_def worker_advances_def w sample_job_draw_def)
  obtain again s' st' where r: "processEmailJob pg_repo flaky DefaultEmailWorkerConfig (\<lambda>_. []) sample_job_draw sample_send_job
      (empty_db [7] [], NewEmailSenderWorker 1) = (again, s', st')" by (metis prod_cases3)
  have "(case fst (run_job pg_repo flaky sample_job_draw sample_send_job (empty_db [7] [])) of None \<Rightarrow> False | Some _ \<Rightarrow> True)"
    by code_simp
  then have "fst (run_job pg_repo flaky sample_job_draw sample_send_job (empty_db [7] [])) \<noteq> None" by (auto split: option.splits)
  then have "again \<noteq> None" using processEmailJob_uc(3) [OF r] by (simp add: sample_send_job_def CreateEmailSendingJob_def)
  then have five: "em_hands (worked_pool 5) = [EIdle, EIdle]" "length (em_sleeping (worked_pool 5)) = 1" "em_accepted (worked_pool 5) = 1"
    using uninterrupted_job [of 0 taken_pool sample_send_job pg_repo flaky DefaultEmailWorkerConfig "\<lambda>_. []" sample_job_draw again s' st'] r w
    by (auto simp: worked_pool_def)
  have "jobs_in_hand (worked_pool 1) = 1" "jobs_in_hand (worked_pool 5) = 0" unfolding jobs_in_hand_def one five by simp_all
  moreover have "eps_EmailsProcessed G = 1 \<and> eps_EmailsSuccessful G = 0 \<and> eps_EmailsFailed G = 0 \<and> eps_EmailsRetried G = 0"
    if "G = GetPoolStats (\<lambda>_. True) (worked_pool 1)" for G
    unfolding that GetPoolStats_def one Let_def by (simp add: count_start_def NewEmailSenderWorker_def in_int64_def)
  ultimately show ?thesis
    using email_jobs_accounted [OF sample_pool_run [of 5, unfolded start_pool_def] refl, of "\<lambda>_. True"] five unfolding Let_def by simp
qed

text \<open>
  A further attempt at a job: what the worker queued again is taken once more, after the statements of others on the database.
\<close>

definition next_attempt ::
    "'st repo_ops \<Rightarrow> sender \<Rightarrow> EmailWorkerConfig \<Rightarrow> (job_error \<Rightarrow> string) \<Rightarrow> EmailSendingJob \<times> 'st uc_state \<Rightarrow> EmailSendingJob \<times> 'st uc_state \<Rightarrow> bool" where
  "next_attempt ops send config err_text x y \<longleftrightarrow> (\<exists>dr st t s1 st1.
     processEmailJob ops send config err_text dr (fst x) (snd x, st) = (Some (t, fst y), s1, st1) \<and> uc_run ops send s1 (snd y))"

definition stuck_job :: "SendEmailRequest \<Rightarrow> int \<Rightarrow> int \<Rightarrow> EmailSendingJob \<times> pg_state uc_state \<Rightarrow> bool" where
  "stuck_job req a limit x \<longleftrightarrow> ej_Type (fst x) = EmailJobTypeSend \<and> ej_EmailRequest (fst x) = Some req \<and> ej_Attempts (fst x) = a \<and>
     ej_MaxAttempts (fst x) = limit \<and> a < limit \<and> table_ok (uc_repo (snd x)) \<and> pg.known (req_MessageID req) (snd x)"

lemma next_attempt_stuck:
  assumes "next_attempt pg_repo send config err_text x y" "stuck_job req a m x"
  shows "stuck_job req (a + 1) m y"
proof -
  obtain dr st t s1 st1 where run: "processEmailJob pg_repo send config err_text dr (fst x) (snd x, st) = (Some (t, fst y), s1, st1)" "uc_run pg_repo send s1 (snd y)"
    using assms(1) unfolding next_attempt_def by blast
  have "uc_run pg_repo send (snd x) s1"
    using processEmailJob_uc(1) [OF run(1)] run_job_step [of pg_repo send dr "fst x" "snd x" _ s1] by (metis prod.collapse r_into_rtranclp rtranclp.rtrancl_refl uc_run_def)
  then have "uc_run pg_repo send (snd x) (snd y)" using run(2) by (simp add: uc_run_def)
  then have "table_ok (uc_repo (snd y)) \<and> pg.known (req_MessageID req) (snd y)"
    by (rule pg.run_known) (use assms(2) in \<open>simp_all add: stuck_job_def\<close>)
  moreover have "a + 1 < m" using run(1) assms(2)
    by (auto simp: stuck_job_def processEmailJob_def handleJobFailure_def begin_failure_def attempted_def Let_def split: prod.splits option.splits if_splits)
  ultimately show ?thesis using assms(2) processEmailJob_again [OF run(1)] by (simp add: stuck_job_def)
qed

lemma attempts_stuck:
  assumes "(next_attempt pg_repo send config err_text ^^ n) x y" "stuck_job req a m x"
  shows "stuck_job req (a + int n) m y"
  using assms
proof (induction n arbitrary: y)
  case (Suc n)
  then obtain z where "stuck_job req (a + int n) m z" "next_attempt pg_repo send config err_text z y" by (auto elim: relcomppE)
  then show ?case using next_attempt_stuck [of send config err_text z y req "a + int n" m] by (simp add: algebra_simps)
qed simp

text \<open>The first attempt, which the sender refused.\<close>

lemma refused_job_stuck:
  assumes "table_ok (uc_repo s)" "ej_Type job = EmailJobTypeSend"
    and "fst (run_job pg_repo send dr job s) = Some (SendJobFailed (SenderFailed err))"
    and "processEmailJob pg_repo send config err_text dr job (s, st) = (Some (t, job1), s1, st1)"
    and "uc_run pg_repo send s1 s2"
  obtains req where "stuck_job req (ej_Attempts job + 1) (ej_MaxAttempts job) (job1, s2)" "SendEmailRequest_Validate req = None"
proof -
  obtain req where req: "ej_EmailRequest job = Some req"
    using assms(2,3) by (cases "ej_EmailRequest job") (auto simp: run_job_def processSendJob_def)
  obtain r where r: "SendEmail pg_repo send (jd_id dr) (jd_created dr) (jd_now dr) req s = (r, s1)"
    using processEmailJob_uc(1) [OF assms(4)] assms(2) req
    by (auto simp: run_job_def processSendJob_def split: prod.splits sum.splits)
  then have fail: "r = Inl (SenderFailed err)"
    using assms(2,3) req by (auto simp: run_job_def processSendJob_def split: sum.splits)
  have valid: "SendEmailRequest_Validate req = None"
    using r fail by (auto simp: SendEmail_def split: option.splits)
  have k1: "pg.known (req_MessageID req) s1" using pg.send_known(2) [OF assms(1) r fail] .
  have "uc_run pg_repo send s s1" using r by (auto simp: uc_run_def intro: uc_step.send_step)
  then have "table_ok (uc_repo s1)" using pg.run_inv assms(1) by blast
  then have "table_ok (uc_repo s2) \<and> pg.known (req_MessageID req) s2"
    using pg.run_known [OF assms(5) _ k1] by blast
  moreover have "ej_Attempts job + 1 < ej_MaxAttempts job" using processEmailJob_uc(3) [OF assms(4)] assms(3) by simp
  ultimately show ?thesis using that [of req] processEmailJob_again [OF assms(4)] assms(2) req valid by (simp add: stuck_job_def)
qed

text \<open>
  C31: A send job whose message the sender refused is queued again, but the message is never handed over by it again. Its row is stored
  already, so every further attempt, the first as well as the \<open>n\<close>th after it, fails on the unique message id, whatever happened in between, even when a retry run has sent
  the message meanwhile; it changes no row and does not count as a success. The job is queued again until its attempts are used up (so at most that often), and the
  last attempt counts as a failure.
\<close>

theorem failed_send_job_stuck:
  assumes "table_ok (uc_repo s)" "ej_Type job = EmailJobTypeSend"
    and "fst (run_job pg_repo send dr job s) = Some (SendJobFailed (SenderFailed err))"
    and "processEmailJob pg_repo send config err_text dr job (s, st) = (Some (t, job1), s1, st1)"
    and "uc_run pg_repo send s1 s2" "(next_attempt pg_repo send config err_text ^^ n) (job1, s2) (job', s')"
  shows "\<exists>e s3. run_job pg_repo send dr' job' s' = (Some (SendJobFailed (CreateFailed e)), s3) \<and>
    uc_dispatched s3 = uc_dispatched s' \<and> pg_lookup (uc_repo s3) = pg_lookup (uc_repo s') \<and>
    ej_Attempts job' = ej_Attempts job + 1 + int n \<and> ej_Attempts job' < ej_MaxAttempts job \<and>
    (case processEmailJob pg_repo send config err_text dr' job' (s', st') of (again, s4, st4) \<Rightarrow>
       s4 = s3 \<and> ews_EmailsSuccessful st4 = ews_EmailsSuccessful st' \<and>
       (again = None \<longleftrightarrow> ej_Attempts job' + 1 = ej_MaxAttempts job) \<and>
       ews_EmailsFailed st4 = (if again = None then wrap64 (ews_EmailsFailed st' + 1) else ews_EmailsFailed st'))"
proof -
  obtain req where "stuck_job req (ej_Attempts job + 1) (ej_MaxAttempts job) (job1, s2)" and valid: "SendEmailRequest_Validate req = None"
    by (rule refused_job_stuck [OF assms(1-5)])
  from attempts_stuck [OF assms(6) this(1)] have stuck: "stuck_job req (ej_Attempts job + 1 + int n) (ej_MaxAttempts job) (job', s')" .
  then obtain e s3 where e: "SendEmail pg_repo send (jd_id dr') (jd_created dr') (jd_now dr') req s' = (Inl (CreateFailed e), s3)"
    "uc_dispatched s3 = uc_dispatched s'" "pg_lookup (uc_repo s3) = pg_lookup (uc_repo s')"
    using pg_known_refused [OF _ _ valid] by (fastforce simp: stuck_job_def)
  then have run: "run_job pg_repo send dr' job' s' = (Some (SendJobFailed (CreateFailed e)), s3)"
    using stuck by (simp add: stuck_job_def run_job_def processSendJob_def)
  show ?thesis
  proof (intro exI conjI)
    show "case processEmailJob pg_repo send config err_text dr' job' (s', st') of (again, s4, st4) \<Rightarrow>
       s4 = s3 \<and> ews_EmailsSuccessful st4 = ews_EmailsSuccessful st' \<and> (again = None \<longleftrightarrow> ej_Attempts job' + 1 = ej_MaxAttempts job) \<and>
       ews_EmailsFailed st4 = (if again = None then wrap64 (ews_EmailsFailed st' + 1) else ews_EmailsFailed st')"
      using stuck run by (auto simp: stuck_job_def processEmailJob_def handleJobFailure_def begin_failure_def attempted_def count_start_def Let_def)
  qed (use run e(2,3) stuck in \<open>simp_all add: stuck_job_def\<close>)
qed

theorem failed_send_job_stuck_witness:
  "map_option se_Status (pg_lookup (uc_repo after_resend) 1) = Some EmailSendStatusSent \<and>
   (\<exists>t job1 st1 t' job2 st2 s2 e s3. processEmailJob pg_repo flaky DefaultEmailWorkerConfig (\<lambda>_. []) sample_job_draw sample_send_job
       (empty_db [7] [], NewEmailSenderWorker 1) = (Some (t, job1), after_send, st1) \<and>
     processEmailJob pg_repo flaky DefaultEmailWorkerConfig (\<lambda>_. []) sample_job_draw job1 (after_resend, st1) = (Some (t', job2), s2, st2) \<and>
     ej_Attempts job2 = 2 \<and> run_job pg_repo flaky sample_job_draw job2 s2 = (Some (SendJobFailed (CreateFailed e)), s3) \<and>
     fst (processEmailJob pg_repo flaky DefaultEmailWorkerConfig (\<lambda>_. []) sample_job_draw job2 (s2, st2)) = None)"
proof -
  let ?process = "processEmailJob pg_repo flaky DefaultEmailWorkerConfig (\<lambda>_. []) sample_job_draw"
  have sent: "map_option se_Status (pg_lookup (uc_repo after_resend) 1) = Some EmailSendStatusSent" by code_simp
  have ty: "ej_Type sample_send_job = EmailJobTypeSend" "ej_EmailRequest sample_send_job = Some sample_req"
    "ej_Attempts sample_send_job = 0" "ej_MaxAttempts sample_send_job = 3"
    by (simp_all add: sample_send_job_def CreateEmailSendingJob_def)
  have dr: "jd_id sample_job_draw = 1" "jd_created sample_job_draw = 1000" "jd_now sample_job_draw = 2000"
    by (simp_all add: sample_job_draw_def)
  have "(case fst (SendEmail pg_repo flaky 1 1000 2000 sample_req (empty_db [7] [])) of Inl (SenderFailed _) \<Rightarrow> True | _ \<Rightarrow> False)"
    by code_simp
  then obtain err where err: "SendEmail pg_repo flaky 1 1000 2000 sample_req (empty_db [7] []) = (Inl (SenderFailed err), after_send)"
    by (auto simp: after_send_def split: sum.splits send_error.splits) (metis prod.collapse)
  then have run: "run_job pg_repo flaky sample_job_draw sample_send_job (empty_db [7] []) = (Some (SendJobFailed (SenderFailed err)), after_send)"
    by (simp add: run_job_def processSendJob_def ty dr)
  obtain again s1 st1 where p: "?process sample_send_job (empty_db [7] [], NewEmailSenderWorker 1) = (again, s1, st1)" by (metis prod_cases3)
  have "again \<noteq> None" "s1 = after_send" using processEmailJob_uc [OF p] run ty(3,4) by simp_all
  then obtain t job1 where p': "?process sample_send_job (empty_db [7] [], NewEmailSenderWorker 1) = (Some (t, job1), after_send, st1)" using p by auto
  have "uc_step pg_repo flaky after_send after_resend"
    unfolding after_resend_def by (rule resend_step) (rule prod.collapse [symmetric])
  then have step: "uc_run pg_repo flaky after_send after_resend" by (simp add: uc_run_def r_into_rtranclp)
  obtain again2 s2 st2 where q: "?process job1 (after_resend, st1) = (again2, s2, st2)" by (metis prod_cases3)
  note stuck = failed_send_job_stuck [OF empty_db_ok ty(1) _ p' step, of err _ _ _ sample_job_draw, simplified run fst_conv ty, OF refl]
  have "again2 \<noteq> None" using stuck [of 0 job1 after_resend st1] q by simp
  then obtain t' job2 where q': "?process job1 (after_resend, st1) = (Some (t', job2), s2, st2)" using q by auto
  then have "next_attempt pg_repo flaky DefaultEmailWorkerConfig (\<lambda>_. []) (job1, after_resend) (job2, s2)"
    unfolding next_attempt_def uc_run_def fst_conv snd_conv by blast
  then have "(next_attempt pg_repo flaky DefaultEmailWorkerConfig (\<lambda>_. []) ^^ 1) (job1, after_resend) (job2, s2)" by (simp only: relpowp_1)
  note last = stuck [OF this, of st2]
  obtain again3 s4 st4 where z: "?process job2 (s2, st2) = (again3, s4, st4)" by (metis prod_cases3)
  have "ej_Attempts job2 = 2 \<and> again3 = None \<and> (\<exists>e s3. run_job pg_repo flaky sample_job_draw job2 s2 = (Some (SendJobFailed (CreateFailed e)), s3))"
    using last by (auto simp: z)
  then show ?thesis using sent p' q' z by auto
qed

end
