(* ===== verification/Shutdown.thy ===== *)
theory Shutdown
  imports ValidationWorker EmailWorker
begin

text \<open>
  Stopping the workers: \<open>Manager.Stop\<close>, \<open>WorkerPool.Stop\<close> and \<open>ValidationWorker.run\<close> (\<open>app/worker/manager.go\<close>,
  \<open>validation_worker.go\<close>), and \<open>EmailSenderWorker.Stop\<close> and \<open>run\<close> (\<open>email_sender_worker.go\<close>).

  The goroutines are program counters, and a step is one goroutine running up to its next blocking operation: a channel,
  a mutex that another goroutine holds across a blocking operation, or \<open>cond.Wait\<close>. A \<open>select\<close> takes any branch that is ready. What a
  worker does with a job is in \<open>ValidationWorker\<close> and \<open>EmailWorker\<close>; here only that it takes some time matters.
\<close>

section \<open>The manager and its workers\<close>

datatype worker_pc = WLoop | WPop | WAsleep | WBusy ValidationJob | WDone

datatype loop_pc = LoopWait | LoopTick | LoopDone

text \<open>\<open>StopSignal k\<close> is about to close the channel of worker \<open>k\<close>, \<open>StopWait k\<close> waits for it to end.\<close>

datatype stop_pc = StopIdle | StopScheduler | StopSignal nat | StopWait nat | StopClose | StopLoop | StopReturned

record 'q manager_sys =
  ms_queue :: 'q
  ms_workers :: "worker_pc list"
  ms_signalled :: "nat set"
  ms_cancelled :: bool
  ms_scheduler :: JobScheduler
  ms_sched_live :: bool
  ms_loop :: loop_pc
  ms_stopCh :: bool
  ms_stop :: stop_pc

definition sleepers :: "worker_pc list \<Rightarrow> nat set" where
  "sleepers ws = {k. k < length ws \<and> ws ! k = WAsleep}"

definition wake_up :: "nat set \<Rightarrow> worker_pc list \<Rightarrow> worker_pc list" where
  "wake_up W ws = map (\<lambda>k. if k \<in> W \<and> ws ! k = WAsleep then WPop else ws ! k) [0..<length ws]"

text \<open>Where a worker goes with what \<open>Pop\<close> answered: on a done context or a closed queue it ends, after other errors it
  pauses and goes on.\<close>

definition after_pop :: "pop_outcome \<Rightarrow> worker_pc" where
  "after_pop r = (case r of PopJob j \<Rightarrow> WBusy j | PopWait \<Rightarrow> WAsleep | PopErr e \<Rightarrow> (if e = ErrQueueFull then WLoop else WDone))"

definition call_Stop :: "'q manager_sys \<Rightarrow> 'q manager_sys" where
  "call_Stop s = s\<lparr>ms_stopCh := True, ms_stop := StopScheduler\<rparr>"

text \<open>
  \<open>Stop\<close> holds the manager's mutex from its first to its last step, and \<open>updateStats\<close> in a tick of the main loop needs it. \<open>QueueValidationJob\<close> and
  \<open>ScheduleValidationJob\<close> do not: they read \<open>running\<close>, which \<open>Stop\<close> resets at its very end, without the mutex, so jobs still arrive while
  \<open>Stop\<close> is on its way. Their steps are the client's, all others the service's.
\<close>

datatype manager_actor = Client | Service

definition mutex_free :: "'q manager_sys \<Rightarrow> bool" where
  "mutex_free s \<longleftrightarrow> ms_stop s = StopIdle \<or> ms_stop s = StopReturned"

inductive manager_step :: "'q queue_ops \<Rightarrow> manager_actor \<Rightarrow> 'q manager_sys \<Rightarrow> 'q manager_sys \<Rightarrow> bool" for ops :: "'q queue_ops" where
  worker_exit: "k < length (ms_workers s) \<Longrightarrow> ms_workers s ! k = WLoop \<Longrightarrow> k \<in> ms_signalled s \<or> ms_cancelled s \<Longrightarrow>
     manager_step ops Service s (s\<lparr>ms_workers := (ms_workers s)[k := WDone]\<rparr>)"
| worker_call: "k < length (ms_workers s) \<Longrightarrow> ms_workers s ! k = WLoop \<Longrightarrow> k \<notin> ms_signalled s \<Longrightarrow> \<not> ms_cancelled s \<Longrightarrow>
     manager_step ops Service s (s\<lparr>ms_workers := (ms_workers s)[k := WPop]\<rparr>)"
| worker_pop: "k < length (ms_workers s) \<Longrightarrow> ms_workers s ! k = WPop \<Longrightarrow> q_Pop ops (ms_cancelled s) (ms_queue s) = (r, q) \<Longrightarrow>
     manager_step ops Service s (s\<lparr>ms_queue := q, ms_workers := (ms_workers s)[k := after_pop r]\<rparr>)"
| worker_finish: "k < length (ms_workers s) \<Longrightarrow> ms_workers s ! k = WBusy j \<Longrightarrow>
     manager_step ops Service s (s\<lparr>ms_workers := (ms_workers s)[k := WLoop]\<rparr>)"
| queue_job: "ms_stop s \<noteq> StopReturned \<Longrightarrow> q_Push ops j (ms_queue s) = Inr q \<Longrightarrow> W \<subseteq> sleepers (ms_workers s) \<Longrightarrow>
     card W = min 1 (card (sleepers (ms_workers s))) \<Longrightarrow>
     manager_step ops Client s (s\<lparr>ms_queue := q, ms_workers := wake_up W (ms_workers s)\<rparr>)"
| schedule_job: "ms_stop s \<noteq> StopReturned \<Longrightarrow>
     manager_step ops Client s (s\<lparr>ms_scheduler := ScheduleJob j at_time n (ms_scheduler s)\<rparr>)"
| scheduler_tick: "ms_sched_live s \<Longrightarrow> checkScheduledJobs ops now (ms_scheduler s) (ms_queue s) = (js, q) \<Longrightarrow>
     W \<subseteq> sleepers (ms_workers s) \<Longrightarrow>
     card W = min (length (js_scheduled (ms_scheduler s)) - length (js_scheduled js)) (card (sleepers (ms_workers s))) \<Longrightarrow>
     manager_step ops Service s (s\<lparr>ms_scheduler := js, ms_queue := q, ms_workers := wake_up W (ms_workers s)\<rparr>)"
| scheduler_exit: "js_stopped (ms_scheduler s) \<or> ms_cancelled s \<Longrightarrow> manager_step ops Service s (s\<lparr>ms_sched_live := False\<rparr>)"
| cancel: "manager_step ops Service s (s\<lparr>ms_cancelled := True\<rparr>)"
| loop_tick: "ms_loop s = LoopWait \<Longrightarrow> manager_step ops Service s (s\<lparr>ms_loop := LoopTick\<rparr>)"
| loop_update: "ms_loop s = LoopTick \<Longrightarrow> mutex_free s \<Longrightarrow> manager_step ops Service s (s\<lparr>ms_loop := LoopWait\<rparr>)"
| loop_exit: "ms_loop s = LoopWait \<Longrightarrow> ms_stopCh s \<or> ms_cancelled s \<Longrightarrow> manager_step ops Service s (s\<lparr>ms_loop := LoopDone\<rparr>)"
| stop_call: "ms_stop s = StopIdle \<Longrightarrow> manager_step ops Service s (call_Stop s)"
| stop_scheduler: "ms_stop s = StopScheduler \<Longrightarrow>
     manager_step ops Service s (s\<lparr>ms_scheduler := JobScheduler_Stop (ms_scheduler s), ms_stop := StopSignal 0\<rparr>)"
| stop_signal: "ms_stop s = StopSignal k \<Longrightarrow> k < length (ms_workers s) \<Longrightarrow>
     manager_step ops Service s (s\<lparr>ms_signalled := insert k (ms_signalled s), ms_stop := StopWait k\<rparr>)"
| stop_wait: "ms_stop s = StopWait k \<Longrightarrow> ms_workers s ! k = WDone \<Longrightarrow> manager_step ops Service s (s\<lparr>ms_stop := StopSignal (Suc k)\<rparr>)"
| stop_workers: "ms_stop s = StopSignal k \<Longrightarrow> length (ms_workers s) \<le> k \<Longrightarrow> manager_step ops Service s (s\<lparr>ms_stop := StopClose\<rparr>)"
| stop_close: "ms_stop s = StopClose \<Longrightarrow>
     manager_step ops Service s (s\<lparr>ms_queue := q_Close ops (ms_queue s), ms_workers := wake_up UNIV (ms_workers s), ms_stop := StopLoop\<rparr>)"
| stop_return: "ms_stop s = StopLoop \<Longrightarrow> ms_loop s = LoopDone \<Longrightarrow> manager_step ops Service s (s\<lparr>ms_stop := StopReturned\<rparr>)"

text \<open>A step of one of the actors in \<open>A\<close>.\<close>

definition steps_by :: "manager_actor set \<Rightarrow> 'q queue_ops \<Rightarrow> 'q manager_sys \<Rightarrow> 'q manager_sys \<Rightarrow> bool" where
  "steps_by A ops s t \<longleftrightarrow> (\<exists>a \<in> A. manager_step ops a s t)"

definition started :: "nat \<Rightarrow> 'q \<Rightarrow> 'q manager_sys" where
  "started n q = \<lparr>ms_queue = q, ms_workers = replicate n WLoop, ms_signalled = {}, ms_cancelled = False, ms_scheduler = NewJobScheduler,
     ms_sched_live = True, ms_loop = LoopWait, ms_stopCh = False, ms_stop = StopIdle\<rparr>"

section \<open>Lemmas about the manager\<close>

lemma wake_up_length [simp]: "length (wake_up W ws) = length ws"
  by (simp add: wake_up_def)

lemma wake_up_nth [simp]: "k < length ws \<Longrightarrow> wake_up W ws ! k = (if k \<in> W \<and> ws ! k = WAsleep then WPop else ws ! k)"
  by (simp add: wake_up_def)

text \<open>The manager as its entry points see it: what they do to it is a step of the client.\<close>

definition manager_of :: "int \<Rightarrow> 'q manager_sys \<Rightarrow> 'q Manager" where
  "manager_of n s = \<lparr>mg_queue = ms_queue s, mg_scheduler = ms_scheduler s, mg_running = (ms_stop s \<noteq> StopReturned), mg_MaxRetries = n\<rparr>"

lemma QueueValidationJob_step:
  assumes "QueueValidationJob ops j (manager_of n s) = (None, m)"
  shows "\<exists>t. manager_step ops Client s t \<and> manager_of n t = m"
proof -
  obtain q where q: "ms_stop s \<noteq> StopReturned" "q_Push ops j (ms_queue s) = Inr q" "m = (manager_of n s)\<lparr>mg_queue := q\<rparr>"
    using assms by (auto simp: QueueValidationJob_def manager_of_def split: if_splits sum.splits)
  have "finite (sleepers (ms_workers s))" by (simp add: sleepers_def)
  then obtain W where "W \<subseteq> sleepers (ms_workers s)" "card W = min 1 (card (sleepers (ms_workers s)))"
    by (metis min.cobounded2 obtain_subset_with_card_n)
  from manager_step.queue_job [OF q(1,2) this] show ?thesis using q(3) by (intro exI conjI) (auto simp: manager_of_def)
qed

lemma ScheduleValidationJob_step:
  assumes "ScheduleValidationJob j at_time (manager_of n s) = (None, m)"
  shows "\<exists>t. manager_step ops Client s t \<and> manager_of n t = m"
proof -
  have "ms_stop s \<noteq> StopReturned" "m = (manager_of n s)\<lparr>mg_scheduler := ScheduleJob j at_time n (ms_scheduler s)\<rparr>"
    using assms by (auto simp: ScheduleValidationJob_def manager_of_def split: if_splits)
  then show ?thesis using manager_step.schedule_job [of s ops j at_time n] by (intro exI conjI) (auto simp: manager_of_def)
qed

lemma checkScheduledJobs_none: "js_scheduled js = [] \<Longrightarrow> checkScheduledJobs ops now js q = (js', q') \<Longrightarrow> js_scheduled js' = []"
  by (auto simp: checkScheduledJobs_def)

text \<open>A worker asleep stays asleep while nothing is scheduled and \<open>Stop\<close> is on its way to it.\<close>

definition stop_before :: "nat \<Rightarrow> stop_pc \<Rightarrow> bool" where
  "stop_before k pc \<longleftrightarrow> pc = StopScheduler \<or> (\<exists>i \<le> k. pc = StopSignal i \<or> pc = StopWait i)"

definition stuck_worker :: "nat \<Rightarrow> 'q manager_sys \<Rightarrow> bool" where
  "stuck_worker k s \<longleftrightarrow> k < length (ms_workers s) \<and> ms_workers s ! k = WAsleep \<and> js_scheduled (ms_scheduler s) = [] \<and> stop_before k (ms_stop s)"

lemma stuck_worker_step:
  assumes "manager_step ops Service s t" "stuck_worker k s"
  shows "stuck_worker k t"
proof -
  note st = assms(2) [unfolded stuck_worker_def stop_before_def]
  show ?thesis using assms(1)
  proof cases
    case (scheduler_tick now js q W)
    have none: "js_scheduled js = []" using checkScheduledJobs_none [OF _ scheduler_tick(3)] st by blast
    have "finite (sleepers (ms_workers s))" by (simp add: sleepers_def)
    then have "W = {}" using scheduler_tick(4,5) st none finite_subset by fastforce
    then show ?thesis using scheduler_tick(1) st none by (simp add: stuck_worker_def stop_before_def)
  next
    case (stop_wait i)
    then have "i \<noteq> k" "i \<le> k" using st by auto
    then show ?thesis using stop_wait st by (auto simp: stuck_worker_def stop_before_def)
  qed (use st in \<open>auto simp: stuck_worker_def stop_before_def nth_list_update JobScheduler_Stop_def\<close>)
qed

definition stuck_tick :: "'q manager_sys \<Rightarrow> bool" where
  "stuck_tick s \<longleftrightarrow> ms_loop s = LoopTick \<and> \<not> mutex_free s"

lemma stuck_tick_step: "manager_step ops a s t \<Longrightarrow> stuck_tick s \<Longrightarrow> stuck_tick t"
  by (induction rule: manager_step.induct) (auto simp: stuck_tick_def mutex_free_def call_Stop_def)

text \<open>When \<open>Stop\<close> is past a worker, that worker has ended.\<close>

definition stop_progress :: "'q manager_sys \<Rightarrow> bool" where
  "stop_progress s \<longleftrightarrow>
     (\<forall>k. ms_stop s = StopSignal k \<or> ms_stop s = StopWait k \<longrightarrow> (\<forall>i < k. i < length (ms_workers s) \<longrightarrow> ms_workers s ! i = WDone)) \<and>
     (ms_stop s \<in> {StopClose, StopLoop, StopReturned} \<longrightarrow> set (ms_workers s) \<subseteq> {WDone}) \<and>
     (ms_stop s = StopReturned \<longrightarrow> ms_loop s = LoopDone)"

lemma step_length: "manager_step ops a s t \<Longrightarrow> length (ms_workers t) = length (ms_workers s)"
  by (induction rule: manager_step.induct) (simp_all add: call_Stop_def)

lemma step_done: "manager_step ops a s t \<Longrightarrow> i < length (ms_workers s) \<Longrightarrow> ms_workers s ! i = WDone \<Longrightarrow> ms_workers t ! i = WDone"
  by (induction rule: manager_step.induct) (auto simp: nth_list_update call_Stop_def)

lemma step_loop: "manager_step ops a s t \<Longrightarrow> ms_loop s = LoopDone \<Longrightarrow> ms_loop t = LoopDone"
  by (induction rule: manager_step.induct) (auto simp: call_Stop_def)

lemma all_done_iff: "set ws \<subseteq> {WDone} \<longleftrightarrow> (\<forall>i < length ws. ws ! i = WDone)"
  by (auto simp: in_set_conv_nth) (metis in_mono nth_mem singletonD)

text \<open>The program counter of \<open>Stop\<close> moves only by its own steps.\<close>

lemma step_stop_cases:
  assumes "manager_step ops a s t"
  obtains (same) "ms_stop t = ms_stop s"
    | (call) "ms_stop t = StopScheduler"
    | (first) "ms_stop t = StopSignal 0"
    | (signal) k where "ms_stop s = StopSignal k" "ms_stop t = StopWait k"
    | (wait) k where "ms_stop s = StopWait k" "ms_workers s ! k = WDone" "ms_stop t = StopSignal (Suc k)"
    | (workers) k where "ms_stop s = StopSignal k" "length (ms_workers s) \<le> k" "ms_stop t = StopClose"
    | (close) "ms_stop s = StopClose" "ms_stop t = StopLoop"
    | (ret) "ms_stop s = StopLoop" "ms_stop t = StopReturned" "ms_loop s = LoopDone"
  using assms by (cases rule: manager_step.cases) (simp_all add: call_Stop_def)

lemma stop_progress_step:
  assumes "manager_step ops a s t" "stop_progress s"
  shows "stop_progress t"
proof -
  note len = step_length [OF assms(1)] and dn = step_done [OF assms(1)]
  have all: "set (ms_workers s) \<subseteq> {WDone} \<Longrightarrow> set (ms_workers t) \<subseteq> {WDone}"
    using len dn unfolding all_done_iff by simp
  show ?thesis using assms(1)
  proof (cases rule: step_stop_cases)
    case same
    then show ?thesis using assms(2) all len dn step_loop [OF assms(1)] by (simp add: stop_progress_def)
  next
    case (signal k)
    then show ?thesis using assms(2) len dn by (simp add: stop_progress_def)
  next
    case (wait k)
    then have "ms_workers t ! i = WDone" if "i < Suc k" "i < length (ms_workers t)" for i
      using assms(2) len dn that by (cases "i = k") (simp_all add: stop_progress_def)
    then show ?thesis using wait by (simp add: stop_progress_def)
  next
    case (workers k)
    then have "set (ms_workers s) \<subseteq> {WDone}" using assms(2) unfolding all_done_iff by (simp add: stop_progress_def)
    then show ?thesis using workers all by (simp add: stop_progress_def)
  next
    case close
    then show ?thesis using assms(2) all by (simp add: stop_progress_def)
  next
    case ret
    then show ?thesis using assms(2) all step_loop [OF assms(1)] by (simp add: stop_progress_def)
  qed (simp_all add: stop_progress_def)
qed

lemma stop_progress_run:
  assumes "(steps_by UNIV ops)\<^sup>*\<^sup>* (started n q) t"
  shows "stop_progress t"
  using assms
proof (induction rule: rtranclp_induct)
  case base
  then show ?case by (simp add: stop_progress_def started_def)
next
  case (step y z)
  then show ?case using stop_progress_step by (auto simp: steps_by_def)
qed

text \<open>The closing of the queue, for any queue that keeps the contract.\<close>

context job_queue
begin

definition closing :: "'q manager_sys \<Rightarrow> bool" where
  "closing s \<longleftrightarrow> invar (ms_queue s) \<and> (ms_stop s \<in> {StopLoop, StopReturned} \<longrightarrow> is_closed (ms_queue s))"

lemma push_ready_closing: "invar q \<Longrightarrow> invar (snd (push_ready ops now es q r)) \<and> (is_closed q \<longrightarrow> snd (push_ready ops now es q r) = q)"
proof (induction es arbitrary: q r)
  case (Cons e es)
  obtain jid sj where e: "e = (jid, sj)" by fastforce
  show ?case
  proof (cases "q_Push ops (sj_Job sj) q")
    case (Inl x)
    then show ?thesis using e Cons.IH [OF Cons.prems] by simp
  next
    case (Inr q1)
    then have "\<not> is_closed q" using push_err [of "sj_Job sj" q ErrQueueClosed] by auto
    then show ?thesis using e Inr Cons.IH [OF Cons.prems] Cons.IH [of q1] push_ok [OF Cons.prems Inr] by simp
  qed
qed simp

lemma closing_step:
  assumes "manager_step ops a s t" "closing s"
  shows "closing t"
proof -
  have stop: "ms_stop t \<in> {StopLoop, StopReturned} \<Longrightarrow> ms_stop s \<in> {StopClose, StopLoop, StopReturned}"
    using assms(1) by (cases rule: step_stop_cases) auto
  show ?thesis using assms(1)
  proof cases
    case (worker_pop k r q)
    then show ?thesis using assms(2) pop_job [of "ms_queue s"] pop_err pop_wait by (cases r) (fastforce simp: closing_def)+
  next
    case (scheduler_tick now js q W)
    then have "q = snd (push_ready ops now (js_scheduled (ms_scheduler s)) (ms_queue s) [])"
      by (auto simp: checkScheduledJobs_def split: prod.splits)
    then show ?thesis using scheduler_tick assms(2) push_ready_closing [of "ms_queue s" now] by (auto simp: closing_def)
  next
    case (queue_job j q W)
    then have "\<not> is_closed (ms_queue s)" using push_err [of j "ms_queue s" ErrQueueClosed] by auto
    then show ?thesis using queue_job assms(2) push_ok [of "ms_queue s" j q] by (simp add: closing_def)
  next
    case stop_close
    then show ?thesis using assms(2) close_law [of "ms_queue s"] by (simp add: closing_def)
  qed (use assms(2) in \<open>auto simp: closing_def call_Stop_def\<close>)
qed

lemma closing_run:
  assumes "(steps_by UNIV ops)\<^sup>*\<^sup>* (started n q) t" "invar q"
  shows "closing t"
  using assms(1)
proof (induction rule: rtranclp_induct)
  case base
  then show ?case using assms(2) by (simp add: closing_def started_def)
next
  case (step y z)
  then show ?case using closing_step by (auto simp: steps_by_def)
qed

end

section \<open>Properties of the manager\<close>

text \<open>
  C32: Stopping the worker service can hang. If the main loop is in the middle of a tick when \<open>Stop\<close> is called, \<open>Stop\<close> never returns,
  whatever the goroutines and the clients do: the tick waits for the mutex that \<open>Stop\<close> holds while it waits for the loop. If a worker sleeps in \<open>Pop\<close> and
  no job is scheduled, \<open>Stop\<close> does not return as long as no client queues or schedules a further job, whatever the goroutines do and whether or not the
  context is cancelled: \<open>Stop\<close> waits for the worker before it closes the queue, and only the closing or a push would wake the worker.
\<close>

theorem manager_stop_hangs:
  assumes "ms_stop s = StopIdle"
    and "(\<exists>k. k < length (ms_workers s) \<and> ms_workers s ! k = WAsleep) \<and> js_scheduled (ms_scheduler s) = [] \<and> Client \<notin> A \<or> ms_loop s = LoopTick"
    and "(steps_by A ops)\<^sup>*\<^sup>* (call_Stop s) t"
  shows "ms_stop t \<noteq> StopReturned"
  using assms(2)
proof (elim disjE conjE exE)
  fix k assume k: "k < length (ms_workers s)" "ms_workers s ! k = WAsleep" "js_scheduled (ms_scheduler s) = []" and "Client \<notin> A"
  then have service: "steps_by A ops x y \<Longrightarrow> manager_step ops Service x y" for x y by (metis (full_types) manager_actor.exhaust steps_by_def)
  have "stuck_worker k (call_Stop s)" using k by (auto simp: stuck_worker_def stop_before_def call_Stop_def)
  with assms(3) have "stuck_worker k t" by (induction rule: rtranclp_induct) (use stuck_worker_step service in blast)+
  then show ?thesis by (auto simp: stuck_worker_def stop_before_def)
next
  assume "ms_loop s = LoopTick"
  then have "stuck_tick (call_Stop s)" by (simp add: stuck_tick_def mutex_free_def call_Stop_def)
  with assms(3) have "stuck_tick t" by (induction rule: rtranclp_induct) (use stuck_tick_step in \<open>auto simp: steps_by_def\<close>)
  then show ?thesis by (auto simp: stuck_tick_def mutex_free_def)
qed

text \<open>A manager whose only worker went to sleep in an empty queue.\<close>

definition idle_service :: "PriorityQueue manager_sys" where
  "idle_service = (started 1 (NewPriorityQueue (Some 1000)))\<lparr>ms_workers := [WAsleep]\<rparr>"

lemma idle_service_run: "(steps_by UNIV PriorityQueue_ops)\<^sup>*\<^sup>* (started 1 (NewPriorityQueue (Some 1000))) idle_service"
proof -
  let ?q = "NewPriorityQueue (Some 1000)"
  let ?s0 = "started 1 ?q" and ?s1 = "(started 1 ?q)\<lparr>ms_workers := [WPop]\<rparr>"
  have "manager_step PriorityQueue_ops Service ?s0 ?s1"
    using manager_step.worker_call [of 0 ?s0 PriorityQueue_ops] by (simp add: started_def)
  moreover have "q_Pop PriorityQueue_ops False ?q = (PopWait, ?q)"
    by (simp add: PriorityQueue_defs) (simp add: NewPriorityQueue_def)
  then have "manager_step PriorityQueue_ops Service ?s1 idle_service"
    using manager_step.worker_pop [of 0 ?s1 PriorityQueue_ops PopWait ?q] by (simp add: started_def idle_service_def after_pop_def)
  ultimately show ?thesis by (intro converse_rtranclp_into_rtranclp [OF _ r_into_rtranclp]) (auto simp: steps_by_def)
qed

theorem manager_stop_hangs_witness:
  "(steps_by UNIV PriorityQueue_ops)\<^sup>*\<^sup>* (started 1 (NewPriorityQueue (Some 1000))) (call_Stop idle_service) \<and>
   (\<nexists>t. (steps_by {Service} PriorityQueue_ops)\<^sup>*\<^sup>* (call_Stop idle_service) t \<and> ms_stop t = StopReturned)"
proof -
  have s: "ms_stop idle_service = StopIdle" "ms_workers idle_service = [WAsleep]" "js_scheduled (ms_scheduler idle_service) = []"
    by (simp_all add: idle_service_def started_def NewJobScheduler_def)
  have "manager_step PriorityQueue_ops Service idle_service (call_Stop idle_service)" using s(1) by (rule manager_step.stop_call)
  then have "(steps_by UNIV PriorityQueue_ops)\<^sup>*\<^sup>* (started 1 (NewPriorityQueue (Some 1000))) (call_Stop idle_service)"
    by (intro rtranclp.rtrancl_into_rtrancl [OF idle_service_run]) (auto simp: steps_by_def)
  moreover have "\<exists>k. k < length (ms_workers idle_service) \<and> ms_workers idle_service ! k = WAsleep" using s(2) by auto
  then have "ms_stop t \<noteq> StopReturned" if "(steps_by {Service} PriorityQueue_ops)\<^sup>*\<^sup>* (call_Stop idle_service) t" for t
    using manager_stop_hangs [OF s(1) _ that] s(3) by blast
  ultimately show ?thesis by blast
qed

text \<open>
  When \<open>Stop\<close> returns, the service is quiet: in every run from a started manager, once \<open>Stop\<close> has returned all its workers have ended, none of
  them is processing a job, its main loop has ended and its queue is closed.
\<close>

theorem manager_stop_quiet:
  assumes "(steps_by UNIV PriorityQueue_ops)\<^sup>*\<^sup>* (started n (NewPriorityQueue ms)) t" "ms_stop t = StopReturned"
  shows "set (ms_workers t) \<subseteq> {WDone} \<and> ms_loop t = LoopDone \<and> pq_closed (ms_queue t)"
  using stop_progress_run [OF assms(1)] pq.closing_run [OF assms(1) pq_invar_New] assms(2)
  by (simp add: stop_progress_def pq.closing_def)

text \<open>A manager with a worker that has not looked for a job yet, stopped.\<close>

definition stopped_service :: "PriorityQueue manager_sys" where
  "stopped_service = \<lparr>ms_queue = PriorityQueue_Close (NewPriorityQueue None), ms_workers = [WDone], ms_signalled = {0}, ms_cancelled = False,
     ms_scheduler = JobScheduler_Stop NewJobScheduler, ms_sched_live = True, ms_loop = LoopDone, ms_stopCh = True, ms_stop = StopReturned\<rparr>"

lemma manager_stepI:
  "ms_stop s = StopScheduler \<Longrightarrow> t = s\<lparr>ms_scheduler := JobScheduler_Stop (ms_scheduler s), ms_stop := StopSignal 0\<rparr> \<Longrightarrow> steps_by UNIV ops s t"
  "ms_stop s = StopSignal k \<Longrightarrow> k < length (ms_workers s) \<Longrightarrow> t = s\<lparr>ms_signalled := insert k (ms_signalled s), ms_stop := StopWait k\<rparr> \<Longrightarrow>
     steps_by UNIV ops s t"
  "k < length (ms_workers s) \<Longrightarrow> ms_workers s ! k = WLoop \<Longrightarrow> k \<in> ms_signalled s \<Longrightarrow>
     t = s\<lparr>ms_workers := (ms_workers s)[k := WDone]\<rparr> \<Longrightarrow> steps_by UNIV ops s t"
  "ms_stop s = StopWait k \<Longrightarrow> ms_workers s ! k = WDone \<Longrightarrow> t = s\<lparr>ms_stop := StopSignal (Suc k)\<rparr> \<Longrightarrow> steps_by UNIV ops s t"
  "ms_stop s = StopSignal k \<Longrightarrow> length (ms_workers s) \<le> k \<Longrightarrow> t = s\<lparr>ms_stop := StopClose\<rparr> \<Longrightarrow> steps_by UNIV ops s t"
  "ms_stop s = StopClose \<Longrightarrow> t = s\<lparr>ms_queue := q_Close ops (ms_queue s), ms_workers := wake_up UNIV (ms_workers s), ms_stop := StopLoop\<rparr> \<Longrightarrow>
     steps_by UNIV ops s t"
  "ms_loop s = LoopWait \<Longrightarrow> ms_stopCh s \<Longrightarrow> t = s\<lparr>ms_loop := LoopDone\<rparr> \<Longrightarrow> steps_by UNIV ops s t"
  "ms_stop s = StopLoop \<Longrightarrow> ms_loop s = LoopDone \<Longrightarrow> t = s\<lparr>ms_stop := StopReturned\<rparr> \<Longrightarrow> steps_by UNIV ops s t"
  "ms_stop s = StopIdle \<Longrightarrow> t = call_Stop s \<Longrightarrow> steps_by UNIV ops s t"
  unfolding steps_by_def by (blast intro: manager_step.intros)+

lemma manager_jobI:
  "ms_stop s \<noteq> StopReturned \<Longrightarrow> q_Push ops j (ms_queue s) = Inr q \<Longrightarrow> sleepers (ms_workers s) = {k} \<Longrightarrow>
     t = s\<lparr>ms_queue := q, ms_workers := wake_up {k} (ms_workers s)\<rparr> \<Longrightarrow> steps_by UNIV ops s t"
  "k < length (ms_workers s) \<Longrightarrow> ms_workers s ! k = WPop \<Longrightarrow> q_Pop ops (ms_cancelled s) (ms_queue s) = (PopJob j, q) \<Longrightarrow>
     t = s\<lparr>ms_queue := q, ms_workers := (ms_workers s)[k := WBusy j]\<rparr> \<Longrightarrow> steps_by UNIV ops s t"
  "k < length (ms_workers s) \<Longrightarrow> ms_workers s ! k = WBusy j \<Longrightarrow> t = s\<lparr>ms_workers := (ms_workers s)[k := WLoop]\<rparr> \<Longrightarrow> steps_by UNIV ops s t"
proof -
  show "ms_stop s \<noteq> StopReturned \<Longrightarrow> q_Push ops j (ms_queue s) = Inr q \<Longrightarrow> sleepers (ms_workers s) = {k} \<Longrightarrow>
     t = s\<lparr>ms_queue := q, ms_workers := wake_up {k} (ms_workers s)\<rparr> \<Longrightarrow> steps_by UNIV ops s t"
    using manager_step.queue_job [of s ops j q "{k}"] unfolding steps_by_def by auto
  show "k < length (ms_workers s) \<Longrightarrow> ms_workers s ! k = WPop \<Longrightarrow> q_Pop ops (ms_cancelled s) (ms_queue s) = (PopJob j, q) \<Longrightarrow>
     t = s\<lparr>ms_queue := q, ms_workers := (ms_workers s)[k := WBusy j]\<rparr> \<Longrightarrow> steps_by UNIV ops s t"
    using manager_step.worker_pop [of k s ops "PopJob j" q] unfolding steps_by_def by (auto simp: after_pop_def)
  show "k < length (ms_workers s) \<Longrightarrow> ms_workers s ! k = WBusy j \<Longrightarrow> t = s\<lparr>ms_workers := (ms_workers s)[k := WLoop]\<rparr> \<Longrightarrow> steps_by UNIV ops s t"
    using manager_step.worker_finish [of k s j ops] unfolding steps_by_def by auto
qed

lemma stopped_service_run: "(steps_by UNIV PriorityQueue_ops)\<^sup>*\<^sup>* (started 1 (NewPriorityQueue None)) stopped_service"
  unfolding started_def stopped_service_def
  apply (rule converse_rtranclp_into_rtranclp, rule manager_stepI(9), simp, simp add: call_Stop_def)
  apply (rule converse_rtranclp_into_rtranclp, rule manager_stepI(1), simp, simp)
  apply (rule converse_rtranclp_into_rtranclp, rule manager_stepI(2), simp, simp, simp)
  apply (rule converse_rtranclp_into_rtranclp, rule manager_stepI(3) [of 0], simp, simp, simp, simp)
  apply (rule converse_rtranclp_into_rtranclp, rule manager_stepI(4), simp, simp, simp)
  apply (rule converse_rtranclp_into_rtranclp, rule manager_stepI(5), simp, simp, simp)
  apply (rule converse_rtranclp_into_rtranclp, rule manager_stepI(6), simp, simp)
  apply (rule converse_rtranclp_into_rtranclp, rule manager_stepI(7), simp, simp, simp)
  apply (rule converse_rtranclp_into_rtranclp, rule manager_stepI(8), simp, simp, simp)
  apply (simp add: PriorityQueue_ops_def wake_up_def)
  done

text \<open>A job that a client queues while \<open>Stop\<close> waits for a sleeping worker wakes the worker, and \<open>Stop\<close> can return.\<close>

theorem push_lets_stop_return:
  "(steps_by UNIV PriorityQueue_ops)\<^sup>*\<^sup>* (call_Stop idle_service) (stopped_service\<lparr>ms_queue := PriorityQueue_Close (NewPriorityQueue (Some 1000))\<rparr>)"
proof -
  let ?j = "sample_job 1 5 0"
  let ?q0 = "\<lparr>pq_jobs = [], pq_closed = False, pq_maxSize = 1000\<rparr>" and ?q1 = "\<lparr>pq_jobs = [?j], pq_closed = False, pq_maxSize = 1000\<rparr>"
  have q0: "NewPriorityQueue (Some 1000) = ?q0" by (simp add: NewPriorityQueue_def heap_Init_def)
  have push: "q_Push PriorityQueue_ops ?j ?q0 = Inr ?q1"
    by (simp add: PriorityQueue_defs heap_Push_def heap_up.simps)
  have pop: "q_Pop PriorityQueue_ops False ?q1 = (PopJob ?j, ?q0)" by (simp add: PriorityQueue_defs heap_Pop_single)
  have one: "sleepers [WAsleep] = {0}" by (auto simp: sleepers_def)
  show ?thesis
    unfolding idle_service_def started_def stopped_service_def call_Stop_def q0
    apply (rule converse_rtranclp_into_rtranclp, rule manager_stepI(1), simp, simp)
    apply (rule converse_rtranclp_into_rtranclp, rule manager_stepI(2), simp, simp, simp)
    apply (rule converse_rtranclp_into_rtranclp, rule manager_jobI(1) [of _ _ ?j ?q1 0], simp, simp add: push, simp add: one, simp)
    apply (rule converse_rtranclp_into_rtranclp, rule manager_jobI(2) [of 0 _ _ ?j ?q0], simp, simp add: wake_up_def, simp add: pop, simp add: wake_up_def)
    apply (rule converse_rtranclp_into_rtranclp, rule manager_jobI(3) [of 0 _ ?j], simp, simp, simp)
    apply (rule converse_rtranclp_into_rtranclp, rule manager_stepI(3) [of 0], simp, simp, simp, simp)
    apply (rule converse_rtranclp_into_rtranclp, rule manager_stepI(4), simp, simp, simp)
    apply (rule converse_rtranclp_into_rtranclp, rule manager_stepI(5), simp, simp, simp)
    apply (rule converse_rtranclp_into_rtranclp, rule manager_stepI(6), simp, simp)
    apply (rule converse_rtranclp_into_rtranclp, rule manager_stepI(7), simp, simp, simp)
    apply (rule converse_rtranclp_into_rtranclp, rule manager_stepI(8), simp, simp, simp)
    apply (simp add: PriorityQueue_ops_def wake_up_def)
    done
qed

theorem manager_stop_quiet_witness:
  "ms_stop stopped_service = StopReturned \<and> pq_closed (ms_queue stopped_service)"
proof -
  have "ms_stop stopped_service = StopReturned" by (simp add: stopped_service_def)
  then show ?thesis using manager_stop_quiet [OF stopped_service_run] by blast
qed

section \<open>The e-mail worker\<close>

text \<open>
  One worker with its queue. The worker needs its mutex to count a job it took (\<open>SGot\<close>), to count its outcome (\<open>SSettle\<close>) and, after a failure, to
  update the average time (\<open>SAverage\<close>); \<open>Stop\<close> holds the mutex while it waits for the worker to end. \<open>PopWithTimeout\<close> looks at
  its deadline when the queue is empty and then goes to sleep until a push or the closing of the queue.
\<close>

datatype sender_pc =
    SLoop | SPop | SAsleep | SGot EmailSendingJob | SWorking EmailSendingJob | SSettle EmailSendingJob bool | SAverage | SDone

datatype sender_stop = SenderRunning | SenderStopping | SenderStopped

record sender_sys =
  ss_queue :: EmailPriorityQueue
  ss_worker :: sender_pc
  ss_stopCh :: bool
  ss_cancelled :: bool
  ss_stop :: sender_stop

definition after_email_pop :: "email_pop \<Rightarrow> sender_pc" where
  "after_email_pop r = (case r of EmailPopJob j \<Rightarrow> SGot j | EmailPopErr _ \<Rightarrow> SLoop | EmailPopWait \<Rightarrow> SAsleep)"

definition wake_sender :: "sender_pc \<Rightarrow> sender_pc" where
  "wake_sender pc = (if pc = SAsleep then SPop else pc)"

definition worker_mutex_free :: "sender_sys \<Rightarrow> bool" where
  "worker_mutex_free s \<longleftrightarrow> ss_stop s \<noteq> SenderStopping"

inductive sender_step :: "sender_sys \<Rightarrow> sender_sys \<Rightarrow> bool" where
  exit: "ss_worker s = SLoop \<Longrightarrow> ss_stopCh s \<or> ss_cancelled s \<Longrightarrow> sender_step s (s\<lparr>ss_worker := SDone\<rparr>)"
| call: "ss_worker s = SLoop \<Longrightarrow> \<not> ss_stopCh s \<Longrightarrow> \<not> ss_cancelled s \<Longrightarrow> sender_step s (s\<lparr>ss_worker := SPop\<rparr>)"
| pop: "ss_worker s = SPop \<Longrightarrow> EmailPriorityQueue_Pop timedOut (ss_queue s) = (r, q) \<Longrightarrow>
     sender_step s (s\<lparr>ss_queue := q, ss_worker := after_email_pop r\<rparr>)"
| count: "ss_worker s = SGot j \<Longrightarrow> worker_mutex_free s \<Longrightarrow> sender_step s (s\<lparr>ss_worker := SWorking j\<rparr>)"
| finish: "ss_worker s = SWorking j \<Longrightarrow> sender_step s (s\<lparr>ss_worker := SSettle j ok\<rparr>)"
| settle: "ss_worker s = SSettle j ok \<Longrightarrow> worker_mutex_free s \<Longrightarrow> sender_step s (s\<lparr>ss_worker := (if ok then SLoop else SAverage)\<rparr>)"
| average: "ss_worker s = SAverage \<Longrightarrow> worker_mutex_free s \<Longrightarrow> sender_step s (s\<lparr>ss_worker := SLoop\<rparr>)"
| push: "EmailPriorityQueue_Push j (ss_queue s) = Inr q \<Longrightarrow>
     sender_step s (s\<lparr>ss_queue := q, ss_worker := wake_sender (ss_worker s)\<rparr>)"
| close_queue: "sender_step s (s\<lparr>ss_queue := EmailPriorityQueue_Close (ss_queue s), ss_worker := wake_sender (ss_worker s)\<rparr>)"
| cancel_ctx: "sender_step s (s\<lparr>ss_cancelled := True\<rparr>)"
| stop: "ss_stop s = SenderRunning \<Longrightarrow> sender_step s (s\<lparr>ss_stopCh := True, ss_stop := SenderStopping\<rparr>)"
| stopped: "ss_stop s = SenderStopping \<Longrightarrow> ss_worker s = SDone \<Longrightarrow> sender_step s (s\<lparr>ss_stop := SenderStopped\<rparr>)"

definition job_in_hand :: "sender_pc \<Rightarrow> bool" where
  "job_in_hand pc = (case pc of SGot _ \<Rightarrow> True | SWorking _ \<Rightarrow> True | SSettle _ _ \<Rightarrow> True | SAverage \<Rightarrow> True | _ \<Rightarrow> False)"

definition sender_Stop :: "sender_sys \<Rightarrow> sender_sys" where
  "sender_Stop s = s\<lparr>ss_stopCh := True, ss_stop := SenderStopping\<rparr>"

definition new_sender :: "EmailPriorityQueue \<Rightarrow> sender_sys" where
  "new_sender q = \<lparr>ss_queue = q, ss_worker = SLoop, ss_stopCh = False, ss_cancelled = False, ss_stop = SenderRunning\<rparr>"

lemma sender_stuck_step:
  assumes "sender_step s t" "job_in_hand (ss_worker s)" "ss_stop s = SenderStopping"
  shows "job_in_hand (ss_worker t) \<and> ss_stop t = SenderStopping"
  using assms by cases (auto simp: job_in_hand_def worker_mutex_free_def wake_sender_def)

text \<open>
  Stopping a busy e-mail worker is a deadlock. If \<open>Stop\<close> is called while the worker has a job in hand, from taking it off the
  queue to settling its outcome, then \<open>Stop\<close> never returns and the worker never ends: it waits for the mutex that \<open>Stop\<close> holds
  while waiting for the worker.
\<close>

theorem sender_stop_deadlock:
  assumes "sender_step\<^sup>*\<^sup>* (sender_Stop s) t" "job_in_hand (ss_worker s)"
  shows "ss_stop t \<noteq> SenderStopped \<and> ss_worker t \<noteq> SDone"
proof -
  have "job_in_hand (ss_worker t) \<and> ss_stop t = SenderStopping"
    using assms
  proof (induction rule: rtranclp_induct)
    case (step y z)
    then show ?case using sender_stuck_step by blast
  qed (simp add: sender_Stop_def)
  then show ?thesis by (auto simp: job_in_hand_def)
qed

definition busy_sender :: sender_sys where
  "busy_sender = (new_sender (NewEmailPriorityQueue 10))\<lparr>ss_worker := SGot sample_send_job\<rparr>"

lemma busy_sender_run: "sender_step\<^sup>*\<^sup>* (new_sender (NewEmailPriorityQueue 10)) busy_sender"
proof -
  let ?q0 = "\<lparr>eq_jobs = [], eq_closed = False, eq_maxSize = 10\<rparr>" and ?q1 = "\<lparr>eq_jobs = [sample_send_job], eq_closed = False, eq_maxSize = 10\<rparr>"
  have q0: "NewEmailPriorityQueue 10 = ?q0" by (simp add: NewEmailPriorityQueue_def heap_Init_def)
  have "EmailPriorityQueue_Push sample_send_job ?q0 = Inr ?q1"
    by (simp add: EmailPriorityQueue_Push_def heap_Push_def heap_up.simps)
  from sender_step.push [of _ "new_sender ?q0", simplified new_sender_def sender_sys.simps, OF this]
  have 1: "sender_step (new_sender ?q0) (new_sender ?q1)" by (simp add: new_sender_def wake_sender_def)
  have 2: "sender_step (new_sender ?q1) ((new_sender ?q1)\<lparr>ss_worker := SPop\<rparr>)"
    by (rule sender_step.call) (simp_all add: new_sender_def)
  have "EmailPriorityQueue_Pop False ?q1 = (EmailPopJob sample_send_job, ?q0)"
    by (simp add: EmailPriorityQueue_Pop_def heap_Pop_single)
  from sender_step.pop [of "(new_sender ?q1)\<lparr>ss_worker := SPop\<rparr>" False "EmailPopJob sample_send_job" ?q0] this
  have 3: "sender_step ((new_sender ?q1)\<lparr>ss_worker := SPop\<rparr>) busy_sender"
    by (simp add: new_sender_def busy_sender_def after_email_pop_def q0)
  show ?thesis unfolding q0
    by (rule converse_rtranclp_into_rtranclp, rule 1, rule converse_rtranclp_into_rtranclp, rule 2, rule r_into_rtranclp, rule 3)
qed

theorem sender_stop_deadlock_witness:
  "sender_step\<^sup>*\<^sup>* (new_sender (NewEmailPriorityQueue 10)) (sender_Stop busy_sender) \<and>
   (\<nexists>t. sender_step\<^sup>*\<^sup>* (sender_Stop busy_sender) t \<and> ss_stop t = SenderStopped)"
proof -
  have b: "job_in_hand (ss_worker busy_sender)" by (simp add: busy_sender_def job_in_hand_def)
  have "sender_step busy_sender (sender_Stop busy_sender)"
    unfolding sender_Stop_def by (rule sender_step.stop) (simp add: busy_sender_def new_sender_def)
  then show ?thesis using rtranclp.rtrancl_into_rtrancl [OF busy_sender_run] sender_stop_deadlock [OF _ b] by blast
qed

end
