(* ===== verification/WorkerManager.thy ===== *)
theory WorkerManager
  imports ValidationWorker
begin

text \<open>
  The simplified manager of domain validation (\<open>app/worker/worker_manager.go\<close>): a buffered channel of jobs, workers that try a
  job again after a delay, and a loop that queues the domains pending validation.

  Ids, readings of the clock and, before every retry, whether the manager is being stopped are arguments, indexed by the
  attempt or the domain. The channel is the list of the jobs it holds.
\<close>

section \<open>Definitions\<close>

record ManagerConfig =
  wmc_WorkerCount :: int
  wmc_QueueSize :: int
  wmc_PollInterval :: duration
  wmc_ProcessingTimeout :: duration
  wmc_MaxRetries :: int
  wmc_BaseRetryDelay :: duration

record WorkerManagerStats =
  wms_WorkerCount :: int
  wms_QueueSize :: int
  wms_TotalProcessed :: int
  wms_TotalSuccess :: int
  wms_TotalFailed :: int

record 'st WorkerManager =
  wm_store :: 'st
  wm_queue :: "ValidationJob list"
  wm_totalProcessed :: int
  wm_totalSuccess :: int
  wm_totalFailed :: int
  wm_slept :: "duration list"

definition wm_GetStats :: "ManagerConfig \<Rightarrow> 'st WorkerManager \<Rightarrow> WorkerManagerStats" where
  "wm_GetStats config wm = \<lparr>wms_WorkerCount = wmc_WorkerCount config, wms_QueueSize = int (length (wm_queue wm)),
     wms_TotalProcessed = wm_totalProcessed wm, wms_TotalSuccess = wm_totalSuccess wm, wms_TotalFailed = wm_totalFailed wm\<rparr>"

text \<open>Whether the channel took the job; otherwise the queue is full.\<close>

definition wm_QueueJob :: "ManagerConfig \<Rightarrow> ValidationJob \<Rightarrow> 'st WorkerManager \<Rightarrow> bool \<times> 'st WorkerManager" where
  "wm_QueueJob config job wm =
     (if int (length (wm_queue wm)) < wmc_QueueSize config then (True, wm\<lparr>wm_queue := wm_queue wm @ [job]\<rparr>) else (False, wm))"

definition wm_delay :: "ManagerConfig \<Rightarrow> int \<Rightarrow> duration" where
  "wm_delay config attempt = wrap64 (wmc_BaseRetryDelay config * shl64 1 (nat attempt))"

function wm_processJob ::
    "'st validation_uc \<Rightarrow> ManagerConfig \<Rightarrow> (nat \<Rightarrow> run_draw) \<Rightarrow> (nat \<Rightarrow> bool) \<Rightarrow> ValidationJob \<Rightarrow> int
      \<Rightarrow> 'st WorkerManager \<Rightarrow> 'st WorkerManager" where
  "wm_processJob uc config draws stopped job attempt wm =
     (case ValidateDomain uc (draws 0) (job_DomainID job) (wm_store wm) of
        (Inl _, st) \<Rightarrow>
          let wm1 = wm\<lparr>wm_store := st, wm_totalProcessed := wm_totalProcessed wm + 1, wm_totalFailed := wm_totalFailed wm + 1\<rparr>
          in if attempt < wmc_MaxRetries config
             then (if stopped 0 then wm1
                   else wm_processJob uc config (\<lambda>n. draws (Suc n)) (\<lambda>n. stopped (Suc n)) job (attempt + 1)
                          (wm1\<lparr>wm_slept := wm_slept wm1 @ [wm_delay config attempt]\<rparr>))
             else wm1
      | (Inr _, st) \<Rightarrow>
          wm\<lparr>wm_store := st, wm_totalProcessed := wm_totalProcessed wm + 1, wm_totalSuccess := wm_totalSuccess wm + 1\<rparr>)"
  by pat_completeness auto
termination by (relation "measure (\<lambda>(_, config, _, _, _, attempt, _). nat (wmc_MaxRetries config - attempt))") auto

declare wm_processJob.simps [simp del]

text \<open>A worker takes the first job of the channel.\<close>

definition wm_worker ::
    "'st validation_uc \<Rightarrow> ManagerConfig \<Rightarrow> (nat \<Rightarrow> run_draw) \<Rightarrow> (nat \<Rightarrow> bool) \<Rightarrow> 'st WorkerManager \<Rightarrow> 'st WorkerManager" where
  "wm_worker uc config draws stopped wm =
     (case wm_queue wm of [] \<Rightarrow> wm | job # rest \<Rightarrow> wm_processJob uc config draws stopped job 0 (wm\<lparr>wm_queue := rest\<rparr>))"

record discovery_draw =
  dd_id :: uuid
  dd_created :: instant

definition discovered_job :: "discovery_draw \<Rightarrow> DomainValidationInfo \<Rightarrow> ValidationJob" where
  "discovered_job dr info = \<lparr>job_ID = dd_id dr, job_DomainID = dvi_ID info, job_DomainName = dvi_Domain info,
     job_Type = ValidationTypeFullValidation, job_Priority = 50, job_CreatedAt = dd_created dr, job_Attempts = 0, job_LastError = []\<rparr>"

fun queue_pending :: "ManagerConfig \<Rightarrow> (nat \<Rightarrow> discovery_draw) \<Rightarrow> DomainValidationInfo list \<Rightarrow> 'st WorkerManager \<Rightarrow> 'st WorkerManager" where
  "queue_pending config draws [] wm = wm"
| "queue_pending config draws (info # infos) wm =
     queue_pending config (\<lambda>n. draws (Suc n)) infos (snd (wm_QueueJob config (discovered_job (draws 0) info) wm))"

definition discoverPendingValidations ::
    "'st validation_uc \<Rightarrow> ManagerConfig \<Rightarrow> (nat \<Rightarrow> discovery_draw) \<Rightarrow> 'st WorkerManager \<Rightarrow> 'st WorkerManager" where
  "discoverPendingValidations uc config draws wm =
     (case GetPendingValidations uc 100 (wm_store wm) of
        (Inl _, st) \<Rightarrow> wm\<lparr>wm_store := st\<rparr>
      | (Inr pending, st) \<Rightarrow> queue_pending config draws pending (wm\<lparr>wm_store := st\<rparr>))"

section \<open>Lemmas\<close>

text \<open>A job is tried once and then at most \<open>MaxRetries\<close> times; every attempt is counted, and at most the last one is a success.\<close>

lemma wm_processJob_counts:
  "\<exists>n k. wm_totalProcessed (wm_processJob uc config draws stopped job attempt wm) = wm_totalProcessed wm + int n \<and>
     wm_totalSuccess (wm_processJob uc config draws stopped job attempt wm) = wm_totalSuccess wm + k \<and>
     wm_totalFailed (wm_processJob uc config draws stopped job attempt wm) = wm_totalFailed wm + int n - k \<and>
     1 \<le> n \<and> n \<le> Suc (nat (wmc_MaxRetries config - attempt)) \<and> 0 \<le> k \<and> k \<le> 1 \<and>
     wm_queue (wm_processJob uc config draws stopped job attempt wm) = wm_queue wm"
proof (induction uc config draws stopped job attempt wm rule: wm_processJob.induct)
  case (1 uc config draws stopped job attempt wm)
  obtain r st where r: "ValidateDomain uc (draws 0) (job_DomainID job) (wm_store wm) = (r, st)" by fastforce
  note eq = wm_processJob.simps [of uc config draws stopped job attempt wm]
  show ?case
  proof (cases r)
    case (Inr res)
    then show ?thesis unfolding eq by (intro exI [of _ 1] exI [of _ 1]) (simp add: r)
  next
    case (Inl e)
    show ?thesis
    proof (cases "attempt < wmc_MaxRetries config \<and> \<not> stopped 0")
      case True
      let ?wm1 = "wm\<lparr>wm_store := st, wm_totalProcessed := wm_totalProcessed wm + 1, wm_totalFailed := wm_totalFailed wm + 1\<rparr>"
      let ?wm2 = "?wm1\<lparr>wm_slept := wm_slept ?wm1 @ [wm_delay config attempt]\<rparr>"
      let ?rec = "wm_processJob uc config (\<lambda>n. draws (Suc n)) (\<lambda>n. stopped (Suc n)) job (attempt + 1) ?wm2"
      have run: "wm_processJob uc config draws stopped job attempt wm = ?rec"
        unfolding eq using True by (simp add: r Inl Let_def)
      obtain n k where nk: "wm_totalProcessed ?rec = wm_totalProcessed ?wm2 + int n" "wm_totalSuccess ?rec = wm_totalSuccess ?wm2 + k"
        "wm_totalFailed ?rec = wm_totalFailed ?wm2 + int n - k" "1 \<le> n" "n \<le> Suc (nat (wmc_MaxRetries config - (attempt + 1)))"
        "0 \<le> k" "k \<le> 1" "wm_queue ?rec = wm_queue ?wm2"
        using "1.IH" [OF r [symmetric] Inl refl] True by blast
      have "nat (wmc_MaxRetries config - attempt) = Suc (nat (wmc_MaxRetries config - (attempt + 1)))"
        using True by (simp add: Suc_nat_eq_nat_zadd1)
      then show ?thesis unfolding run using nk by (intro exI [of _ "Suc n"] exI [of _ k]) simp
    next
      case False
      then show ?thesis unfolding eq by (intro exI [of _ 1] exI [of _ 0]) (auto simp: r Inl Let_def)
    qed
  qed
qed

text \<open>Without the table of records every attempt of a job fails and marks the domain again.\<close>

lemma missing_table_job:
  assumes "holds (wm_store wm) d" "d_VerificationToken d \<noteq> []" "d_ID d = job_DomainID job" "0 \<le> d_VerificationAttempts d"
    and "d_VerificationAttempts d + 1 + max 0 (wmc_MaxRetries config - attempt) < 2 ^ 31" "\<forall>n. \<not> stopped n"
  shows "\<exists>d' wm'. wm_processJob (pg_validation_uc None v qt vconfig) config draws stopped job attempt wm = wm' \<and>
    wm_totalFailed wm' = wm_totalFailed wm + 1 + max 0 (wmc_MaxRetries config - attempt) \<and> wm_totalSuccess wm' = wm_totalSuccess wm \<and>
    wm_queue wm' = wm_queue wm \<and> holds (wm_store wm') d' \<and> d_ID d' = d_ID d \<and> d_VerificationStatus d' = VerificationStatusValidating"
  using assms
proof (induction "nat (wmc_MaxRetries config - attempt)" arbitrary: attempt draws stopped wm d)
  case (0 attempt draws stopped wm d)
  let ?g = "after_status vconfig (ru_validating (draws 0)) VerificationStatusValidating None"
  have "in_int32 (d_VerificationAttempts d + 1)" using 0 by (simp add: in_int32_def)
  then have r: "ValidateDomain (pg_validation_uc None v qt vconfig) (draws 0) (job_DomainID job) (wm_store wm) =
      (Inl (RecordNotCreated missing_table), set_domain (d_ID d) ?g (wm_store wm))"
    using missing_table_run [OF 0(2,3)] 0(4) by simp
  have "holds (set_domain (d_ID d) ?g (wm_store wm)) (?g d)" by (rule holds_change [OF 0(2)]) simp
  then show ?case using 0(1) wm_processJob.simps [of "pg_validation_uc None v qt vconfig" config draws stopped job attempt wm]
    by (intro exI [of _ "?g d"]) (simp add: r Let_def)
next
  case (Suc n attempt draws stopped wm d)
  let ?g = "after_status vconfig (ru_validating (draws 0)) VerificationStatusValidating None"
  let ?wm = "wm\<lparr>wm_store := set_domain (d_ID d) ?g (wm_store wm), wm_totalProcessed := wm_totalProcessed wm + 1,
    wm_totalFailed := wm_totalFailed wm + 1, wm_slept := wm_slept wm @ [wm_delay config attempt]\<rparr>"
  have lt: "attempt < wmc_MaxRetries config" using Suc(2) by simp
  have "in_int32 (d_VerificationAttempts d + 1)" using Suc(6,7) by (simp add: in_int32_def)
  then have r: "ValidateDomain (pg_validation_uc None v qt vconfig) (draws 0) (job_DomainID job) (wm_store wm) =
      (Inl (RecordNotCreated missing_table), set_domain (d_ID d) ?g (wm_store wm))"
    using missing_table_run [OF Suc(3,4)] Suc(5) by simp
  have run: "wm_processJob (pg_validation_uc None v qt vconfig) config draws stopped job attempt wm =
      wm_processJob (pg_validation_uc None v qt vconfig) config (\<lambda>n. draws (Suc n)) (\<lambda>n. stopped (Suc n)) job (attempt + 1) ?wm"
    using lt Suc(8) wm_processJob.simps [of "pg_validation_uc None v qt vconfig" config draws stopped job attempt wm] by (simp add: r Let_def)
  have "holds (wm_store ?wm) (?g d)" using holds_change [OF Suc(3), of ?g] by simp
  moreover have "n = nat (wmc_MaxRetries config - (attempt + 1))" using Suc(2) by simp
  ultimately obtain d' wm' where "wm_processJob (pg_validation_uc None v qt vconfig) config (\<lambda>n. draws (Suc n)) (\<lambda>n. stopped (Suc n))
        job (attempt + 1) ?wm = wm'"
      "wm_totalFailed wm' = wm_totalFailed ?wm + 1 + max 0 (wmc_MaxRetries config - (attempt + 1))" "wm_totalSuccess wm' = wm_totalSuccess ?wm"
      "wm_queue wm' = wm_queue ?wm" "holds (wm_store wm') d'" "d_ID d' = d_ID (?g d)" "d_VerificationStatus d' = VerificationStatusValidating"
    using Suc(1) [of "attempt + 1" ?wm "?g d" "\<lambda>n. stopped (Suc n)" "\<lambda>n. draws (Suc n)"] Suc(4-8) lt by auto
  then show ?case using run lt by (intro exI [of _ d'] exI [of _ wm']) simp
qed

lemma queue_pending_jobs:
  "set (wm_queue (queue_pending config draws infos wm)) \<subseteq> set (wm_queue wm) \<union> {discovered_job dr info |dr info. info \<in> set infos}"
proof (induction infos arbitrary: draws wm)
  case (Cons info infos)
  have "set (wm_queue (snd (wm_QueueJob config j wm))) \<subseteq> insert j (set (wm_queue wm))" for j by (auto simp: wm_QueueJob_def)
  then show ?case using Cons.IH [of "\<lambda>n. draws (Suc n)" "snd (wm_QueueJob config (discovered_job (draws 0) info) wm)"] by fastforce
qed simp

section \<open>Properties\<close>

text \<open>
  Retrying a validation cannot help on the schema the migrations leave: a job for a stored domain is tried \<open>MaxRetries\<close> times more
  although every attempt fails for the missing table; and since its first attempt put the domain in status \<open>validating\<close>, the discovery
  loop queues no job for it afterwards.
\<close>

theorem missing_table_retries:
  assumes "mdb_ok (wm_store wm)" "pg_faults (wm_store wm) = []" "d \<in> set (mdb_domains (wm_store wm))" "d_VerificationToken d \<noteq> []"
    and "d_ID d = job_DomainID job" "0 \<le> d_VerificationAttempts d" "0 \<le> wmc_MaxRetries config"
    and "d_VerificationAttempts d + 1 + wmc_MaxRetries config < 2 ^ 31" "\<forall>n. \<not> stopped n"
    and "wm' = wm_processJob (pg_validation_uc None v qt vconfig) config draws stopped job 0 wm"
  shows "wm_totalFailed wm' = wm_totalFailed wm + 1 + wmc_MaxRetries config \<and> wm_totalSuccess wm' = wm_totalSuccess wm \<and>
    (\<forall>j \<in> set (wm_queue (discoverPendingValidations (pg_validation_uc None v qt vconfig) config dd wm')). j \<in> set (wm_queue wm) \<or> job_DomainID j \<noteq> d_ID d)"
proof -
  have "holds (wm_store wm) d" using assms(1-3) by (simp add: holds_def distinct_keys)
  then obtain d' where d': "wm_totalFailed wm' = wm_totalFailed wm + 1 + wmc_MaxRetries config" "wm_totalSuccess wm' = wm_totalSuccess wm"
      "wm_queue wm' = wm_queue wm" "holds (wm_store wm') d'" "d_ID d' = d_ID d" "d_VerificationStatus d' = VerificationStatusValidating"
    using missing_table_job [of wm d job config 0 stopped v qt vconfig draws] assms(4-10) by auto
  let ?pending = "sort_key d_CreatedAt (filter (\<lambda>d. d_VerificationStatus d = VerificationStatusPending) (mdb_domains (wm_store wm')))"
  have "pg_GetDomainsPendingVerification 100 (wm_store wm') = (Inr (take 100 (map validation_info ?pending)), wm_store wm')"
    using d'(4) by (simp add: pg_GetDomainsPendingVerification_def holds_def page_def)
  then have disc: "discoverPendingValidations (pg_validation_uc None v qt vconfig) config dd wm' = queue_pending config dd (take 100 (map validation_info ?pending)) wm'"
    by (simp add: discoverPendingValidations_def GetPendingValidations_def pg_validation_repo_def)
  have "d_ID x \<noteq> d_ID d" if "x \<in> set ?pending" for x
  proof
    assume "d_ID x = d_ID d"
    moreover have "x \<in> set (mdb_domains (wm_store wm'))" "d_VerificationStatus x = VerificationStatusPending" using that by auto
    ultimately have "x = d'" using d'(4,5) by (auto simp: holds_def distinct_map inj_on_def)
    then show False using that d'(6) by simp
  qed
  then have "job_DomainID j \<noteq> d_ID d" if "j = discovered_job dr info" "info \<in> set (take 100 (map validation_info ?pending))" for j dr info
    using that in_set_takeD by (fastforce simp: discovered_job_def validation_info_def)
  then show ?thesis using d'(1-3) queue_pending_jobs [of config dd "take 100 (map validation_info ?pending)" wm'] unfolding disc by fastforce
qed

definition pending_manager :: "mail_db WorkerManager" where
  "pending_manager = \<lparr>wm_store = pending_db, wm_queue = [], wm_totalProcessed = 0, wm_totalSuccess = 0, wm_totalFailed = 0, wm_slept = []\<rparr>"

definition two_retries :: ManagerConfig where
  "two_retries = \<lparr>wmc_WorkerCount = 1, wmc_QueueSize = 10, wmc_PollInterval = time_Minute, wmc_ProcessingTimeout = time_Minute,
     wmc_MaxRetries = 2, wmc_BaseRetryDelay = time_Second\<rparr>"

theorem missing_table_retries_witness:
  "\<exists>wm'. wm_processJob (pg_validation_uc None (sample_zone [''v=54'']) sample_times sample_config) two_retries (\<lambda>_. sample_run_draw) (\<lambda>_. False)
      (CreateValidationJob 5 0 10 ''a.org'' ValidationTypeFullValidation 50) 0 pending_manager = wm' \<and> wm_totalFailed wm' = 3 \<and>
    10 \<notin> job_DomainID ` set (wm_queue (discoverPendingValidations (pg_validation_uc None (sample_zone [''v=54'']) sample_times sample_config)
      two_retries (\<lambda>_. \<lparr>dd_id = 6, dd_created = 0\<rparr>) wm'))"
proof -
  let ?job = "CreateValidationJob 5 0 10 ''a.org'' ValidationTypeFullValidation 50"
  have "mdb_ok (wm_store pending_manager)" "pg_faults (wm_store pending_manager) = []" "pending_domain \<in> set (mdb_domains (wm_store pending_manager))"
    using pending_db_ok by (simp_all add: pending_manager_def) (simp_all add: pending_db_def)
  moreover have "d_ID pending_domain = job_DomainID ?job" "d_VerificationToken pending_domain \<noteq> []" "d_VerificationAttempts pending_domain = 1"
    by (simp_all add: pending_domain_def CreateValidationJob_def)
  moreover have "wmc_MaxRetries two_retries = 2" "wm_totalFailed pending_manager = 0" "wm_queue pending_manager = []" "d_ID pending_domain = 10"
    by (simp_all add: two_retries_def pending_manager_def pending_domain_def)
  ultimately show ?thesis
    using missing_table_retries [of pending_manager pending_domain ?job two_retries "\<lambda>_. False" _ "sample_zone [''v=54'']" sample_times sample_config
      "\<lambda>_. sample_run_draw" "\<lambda>_. \<lparr>dd_id = 6, dd_created = 0\<rparr>"] by fastforce
qed

end
