(* ===== verification/NetURL.thy ===== *)
theory NetURL
  imports GoStrings
begin

text \<open>
  \<open>net/url\<close>, as far as the program looks at a parsed URL: whether \<open>url.Parse\<close> accepts the text, the scheme, the host with its port, and
  \<open>Hostname\<close>. The user information, path and fragment are checked as \<open>Parse\<close> checks them and then dropped.
\<close>

record URL =
  url_Scheme :: string
  url_Host :: string

section \<open>Percent-encoding\<close>

datatype url_mode = EncodeHost | EncodeZone | EncodeOther

definition unhex :: "char \<Rightarrow> nat option" where
  "unhex c =
     (if is_digit c then Some (code c - 48)
      else if 97 \<le> code c \<and> code c \<le> 102 then Some (code c - 87)
      else if 65 \<le> code c \<and> code c \<le> 70 then Some (code c - 55)
      else None)"

text \<open>\<open>shouldEscape\<close> in the modes of a host and of a zone.\<close>

definition host_escape :: "char \<Rightarrow> bool" where
  "host_escape c \<longleftrightarrow> \<not> (is_alnum c \<or> c \<in> set ''-_.~!$&()*+,;=:[]<>'' \<or> code c = 34 \<or> code c = 39)"

text \<open>\<open>unescape\<close>, by the rules of the part of the URL.\<close>

function url_unescape :: "url_mode \<Rightarrow> string \<Rightarrow> string option" where
  "url_unescape m [] = Some []"
| "url_unescape m (c # s) =
     (if c = CHR ''%'' then
        (case s of
           a # b # rest \<Rightarrow>
             (case (unhex a, unhex b) of
                (Some x, Some y) \<Rightarrow>
                  (let v = char_of (16 * x + y) in
                   if m = EncodeHost \<and> x < 8 \<and> \<not> (a = CHR ''2'' \<and> b = CHR ''5'') then None
                   else if m = EncodeZone \<and> \<not> (a = CHR ''2'' \<and> b = CHR ''5'') \<and> v \<noteq> CHR '' '' \<and> host_escape v then None
                   else map_option (Cons v) (url_unescape m rest))
              | _ \<Rightarrow> None)
         | _ \<Rightarrow> None)
      else if m \<noteq> EncodeOther \<and> code c < 128 \<and> host_escape c then None
      else map_option (Cons c) (url_unescape m s))"
  by pat_completeness auto
termination by (relation "measure (\<lambda>(m, s). length s)") auto

section \<open>The parts of a URL\<close>

text \<open>\<open>getScheme\<close>: the scheme and the rest, no scheme, or an error.\<close>

fun scheme_from :: "string \<Rightarrow> string \<Rightarrow> string \<Rightarrow> (string \<times> string) option" where
  "scheme_from raw seen [] = Some ([], raw)"
| "scheme_from raw seen (c # s) =
     (if is_upper c \<or> is_lower c then scheme_from raw (seen @ [c]) s
      else if is_digit c \<or> c \<in> set ''+-.'' then (if seen = [] then Some ([], raw) else scheme_from raw (seen @ [c]) s)
      else if c = CHR '':'' then (if seen = [] then None else Some (seen, s))
      else Some ([], raw))"

definition getScheme :: "string \<Rightarrow> (string \<times> string) option" where
  "getScheme raw = scheme_from raw [] raw"

definition cut :: "char \<Rightarrow> string \<Rightarrow> string \<times> string" where
  "cut c s = (takeWhile (\<lambda>x. x \<noteq> c) s, drop 1 (dropWhile (\<lambda>x. x \<noteq> c) s))"

definition validOptionalPort :: "string \<Rightarrow> bool" where
  "validOptionalPort port \<longleftrightarrow> port = [] \<or> (hd port = CHR '':'' \<and> list_all is_digit (tl port))"

text \<open>Where \<open>%25\<close>, the start of the zone of an IPv6 address, stands.\<close>

fun zone_at :: "string \<Rightarrow> nat option" where
  "zone_at [] = None"
| "zone_at (c # s) = (if HasPrefix (c # s) ''%25'' then Some 0 else map_option Suc (zone_at s))"

definition parseHost :: "string \<Rightarrow> string option" where
  "parseHost host =
     (if HasPrefix host ''['' then
        (case LastIndexByte host CHR '']'' of
           None \<Rightarrow> None
         | Some i \<Rightarrow>
             if \<not> validOptionalPort (drop (i + 1) host) then None
             else case zone_at (take i host) of
               None \<Rightarrow> url_unescape EncodeHost host
             | Some z \<Rightarrow>
                 (case (url_unescape EncodeHost (take z host), url_unescape EncodeZone (drop z (take i host)),
                        url_unescape EncodeHost (drop i host)) of
                    (Some a, Some b, Some c) \<Rightarrow> Some (a @ b @ c)
                  | _ \<Rightarrow> None))
      else (case LastIndexByte host CHR '':'' of
          None \<Rightarrow> url_unescape EncodeHost host
        | Some i \<Rightarrow> if validOptionalPort (drop i host) then url_unescape EncodeHost host else None))"

definition validUserinfo :: "string \<Rightarrow> bool" where
  "validUserinfo s \<longleftrightarrow> list_all (\<lambda>c. is_alnum c \<or> c \<in> set ''-._:~!$&()*+,;=%@'' \<or> code c = 39) s"

definition parseAuthority :: "string \<Rightarrow> string option" where
  "parseAuthority authority =
     (case LastIndexByte authority CHR ''@'' of
        None \<Rightarrow> parseHost authority
      | Some i \<Rightarrow>
          (case parseHost (drop (i + 1) authority) of
             None \<Rightarrow> None
           | Some host \<Rightarrow>
               (let userinfo = take i authority in
                if \<not> validUserinfo userinfo then None
                else if url_unescape EncodeOther (fst (cut CHR '':'' userinfo)) = None then None
                else if url_unescape EncodeOther (snd (cut CHR '':'' userinfo)) = None then None
                else Some host)))"

section \<open>Parsing\<close>

text \<open>The part before a query.\<close>

definition without_query :: "string \<Rightarrow> string" where
  "without_query rest = fst (cut CHR ''?'' rest)"

definition url_parse :: "string \<Rightarrow> URL option" where
  "url_parse raw =
     (if list_ex (\<lambda>c. code c < 32 \<or> code c = 127) raw then None
      else if raw = ''*'' then Some \<lparr>url_Scheme = [], url_Host = []\<rparr>
      else case getScheme raw of
        None \<Rightarrow> None
      | Some (scheme0, rest0) \<Rightarrow>
          (let scheme = ToLower scheme0; rest = without_query rest0 in
           if \<not> HasPrefix rest ''/'' \<and> scheme \<noteq> [] then Some \<lparr>url_Scheme = scheme, url_Host = []\<rparr>
           else if \<not> HasPrefix rest ''/'' \<and> CHR '':'' \<in> set (fst (cut CHR ''/'' rest)) then None
           else if (scheme \<noteq> [] \<or> \<not> HasPrefix rest ''///'') \<and> HasPrefix rest ''//'' then
             (let authority = takeWhile (\<lambda>c. c \<noteq> CHR ''/'') (drop 2 rest); path = dropWhile (\<lambda>c. c \<noteq> CHR ''/'') (drop 2 rest) in
              case parseAuthority authority of
                None \<Rightarrow> None
              | Some host \<Rightarrow> if url_unescape EncodeOther path = None then None else Some \<lparr>url_Scheme = scheme, url_Host = host\<rparr>)
           else if url_unescape EncodeOther rest = None then None
           else Some \<lparr>url_Scheme = scheme, url_Host = []\<rparr>))"

definition url_Parse :: "string \<Rightarrow> URL option" where
  "url_Parse raw =
     (case url_parse (fst (cut CHR ''#'' raw)) of
        None \<Rightarrow> None
      | Some u \<Rightarrow> if url_unescape EncodeOther (snd (cut CHR ''#'' raw)) = None then None else Some u)"

text \<open>\<open>Hostname\<close>: the host without its port and without the brackets of an IPv6 address.\<close>

definition Hostname :: "URL \<Rightarrow> string" where
  "Hostname u =
     (let host = url_Host u;
          h = (case LastIndexByte host CHR '':'' of
                 None \<Rightarrow> host
               | Some i \<Rightarrow> if validOptionalPort (drop i host) then take i host else host)
      in if HasPrefix h ''['' \<and> HasSuffix h '']'' then drop 1 (butlast h) else h)"

section \<open>Lemmas\<close>

lemma scheme_from_Some:
  "scheme_from raw seen s = Some (sc, rest) \<Longrightarrow> sc = [] \<and> rest = raw \<or> (sc \<noteq> [] \<and> seen @ s = sc @ CHR '':'' # rest)"
  by (induction raw seen s rule: scheme_from.induct) (auto split: if_splits)

text \<open>A URL with a scheme begins with it, in some capitalisation, and a colon.\<close>

lemma getScheme_Some: "getScheme raw = Some (sc, rest) \<Longrightarrow> sc \<noteq> [] \<Longrightarrow> raw = sc @ CHR '':'' # rest"
  using scheme_from_Some [of raw "[]" raw sc rest] by (auto simp: getScheme_def)

lemma url_parse_scheme:
  assumes "url_parse raw = Some u" "url_Scheme u \<noteq> []"
  shows "\<exists>sc rest. ToLower sc = url_Scheme u \<and> raw = sc @ CHR '':'' # rest"
  using assms getScheme_Some [of raw]
  by (auto simp: url_parse_def Let_def ToLower_def split: if_splits option.splits prod.splits)

end
