(* ===== verification/WebhookEntities.thy ===== *)
theory WebhookEntities
  imports Entities GoFloat NetURL Encryption
begin

text \<open>
  Webhook configurations, \<open>domain/entities/webhook_config.go\<close>: the data, the checks of a configuration, the counters of deliveries with
  the health of the endpoint and the circuit breaker, retry delays and signatures.

  A header map is the list of its entries in the order Go's map is walked, or \<open>None\<close> for a nil map. HMAC-SHA256 is an argument \<open>hmac\<close>.
  A conversion of a \<open>float64\<close> outside 64 bits gives the smallest integer, as on amd64.
\<close>

section \<open>Data\<close>

datatype WebhookAuthType =
    WebhookAuthTypeNone | WebhookAuthTypeBasic | WebhookAuthTypeBearer | WebhookAuthTypeHMACSHA256 | WebhookAuthTypeOther string

fun WebhookAuthType_text :: "WebhookAuthType \<Rightarrow> string" where
  "WebhookAuthType_text WebhookAuthTypeNone = ''none''"
| "WebhookAuthType_text WebhookAuthTypeBasic = ''basic''"
| "WebhookAuthType_text WebhookAuthTypeBearer = ''bearer''"
| "WebhookAuthType_text WebhookAuthTypeHMACSHA256 = ''hmac_sha256''"
| "WebhookAuthType_text (WebhookAuthTypeOther t) = t"

fun WebhookAuthType_IsValid :: "WebhookAuthType \<Rightarrow> bool" where
  "WebhookAuthType_IsValid (WebhookAuthTypeOther _) = False"
| "WebhookAuthType_IsValid _ = True"

datatype WebhookHealthStatus =
    WebhookHealthStatusUnknown | WebhookHealthStatusHealthy | WebhookHealthStatusDegraded | WebhookHealthStatusUnhealthy
  | WebhookHealthStatusOther string

fun WebhookHealthStatus_IsValid :: "WebhookHealthStatus \<Rightarrow> bool" where
  "WebhookHealthStatus_IsValid (WebhookHealthStatusOther _) = False"
| "WebhookHealthStatus_IsValid _ = True"

datatype CircuitBreakerState =
    CircuitBreakerStateClosed | CircuitBreakerStateOpen | CircuitBreakerStateHalfOpen | CircuitBreakerStateOther string

fun CircuitBreakerState_IsValid :: "CircuitBreakerState \<Rightarrow> bool" where
  "CircuitBreakerState_IsValid (CircuitBreakerStateOther _) = False"
| "CircuitBreakerState_IsValid _ = True"

type_synonym headers = "(string \<times> string) list option"

record WebhookConfiguration =
  whc_ID :: uuid
  whc_DomainID :: uuid
  whc_Name :: string
  whc_Description :: string
  whc_URL :: string
  whc_Method :: string
  whc_Enabled :: bool
  whc_Verified :: bool
  whc_AuthType :: WebhookAuthType
  whc_AuthSecret :: string
  whc_AuthUsername :: string
  whc_CustomHeaders :: headers
  whc_EventTypes :: "string list"
  whc_TimeoutSeconds :: int
  whc_MaxRetries :: int
  whc_RetryBackoffMultiplier :: float64
  whc_InitialRetryDelaySeconds :: int
  whc_RateLimitPerMinute :: int
  whc_RateLimitPerHour :: int
  whc_CircuitBreakerEnabled :: bool
  whc_CircuitBreakerThreshold :: int
  whc_CircuitBreakerTimeoutSeconds :: int
  whc_CircuitBreakerState :: CircuitBreakerState
  whc_CircuitBreakerOpenedAt :: "instant option"
  whc_HealthStatus :: WebhookHealthStatus
  whc_LastHealthCheckAt :: "instant option"
  whc_LastSuccessAt :: "instant option"
  whc_LastFailureAt :: "instant option"
  whc_ConsecutiveFailures :: int
  whc_TotalSuccessCount :: int
  whc_TotalFailureCount :: int
  whc_AverageResponseTimeMs :: int
  whc_LastUsedAt :: "instant option"
  whc_CreatedAt :: instant
  whc_UpdatedAt :: instant

text \<open>The values of an audit entry: a JSON object, or \<open>None\<close> for a nil map.\<close>

datatype audit_value = AuditString string | AuditBool bool | AuditInt int | AuditStrings "string list"

type_synonym audit_values = "(string \<times> audit_value) list option"

record WebhookConfigurationAudit =
  wa_ID :: uuid
  wa_WebhookConfigID :: uuid
  wa_ChangedByUserID :: "uuid option"
  wa_Action :: string
  wa_OldValues :: audit_values
  wa_NewValues :: audit_values
  wa_ChangeReason :: string
  wa_IPAddress :: string
  wa_UserAgent :: string
  wa_CreatedAt :: instant

record WebhookHealthCheck =
  wh_ID :: uuid
  wh_WebhookConfigID :: uuid
  wh_CheckType :: string
  wh_Status :: WebhookHealthStatus
  wh_ResponseTimeMs :: "int option"
  wh_ResponseStatusCode :: "int option"
  wh_ErrorMessage :: string
  wh_CheckedAt :: instant

record WebhookConfigurationTemplate =
  wt_ID :: uuid
  wt_Name :: string
  wt_Description :: string
  wt_ProviderName :: string
  wt_DefaultMethod :: string
  wt_DefaultAuthType :: WebhookAuthType
  wt_DefaultHeaders :: headers
  wt_DefaultTimeoutSeconds :: int
  wt_DocumentationURL :: string
  wt_IsActive :: bool
  wt_UsageCount :: int
  wt_CreatedAt :: instant
  wt_UpdatedAt :: instant

section \<open>Checks\<close>

definition IsValidURL :: "WebhookConfiguration \<Rightarrow> bool" where
  "IsValidURL w \<longleftrightarrow> whc_URL w \<noteq> [] \<and> length (whc_URL w) \<le> 2048 \<and>
     (case url_Parse (whc_URL w) of None \<Rightarrow> False | Some u \<Rightarrow> url_Scheme u = ''http'' \<or> url_Scheme u = ''https'')"

definition IsValidMethod :: "WebhookConfiguration \<Rightarrow> bool" where
  "IsValidMethod w \<longleftrightarrow> whc_Method w = ''POST'' \<or> whc_Method w = ''PUT'' \<or> whc_Method w = ''PATCH''"

definition IsValidTimeout :: "WebhookConfiguration \<Rightarrow> bool" where
  "IsValidTimeout w \<longleftrightarrow> 0 < whc_TimeoutSeconds w \<and> whc_TimeoutSeconds w \<le> 300"

definition IsValidRetryConfig :: "WebhookConfiguration \<Rightarrow> bool" where
  "IsValidRetryConfig w \<longleftrightarrow> \<not> (whc_MaxRetries w < 0 \<or> whc_MaxRetries w > 10) \<and>
     \<not> (whc_RetryBackoffMultiplier w < 1 \<or> whc_RetryBackoffMultiplier w > 5) \<and> \<not> whc_InitialRetryDelaySeconds w < 0"

definition IsValidRateLimit :: "WebhookConfiguration \<Rightarrow> bool" where
  "IsValidRateLimit w \<longleftrightarrow> 0 < whc_RateLimitPerMinute w \<and> 0 < whc_RateLimitPerHour w"

definition IsValidCircuitBreaker :: "WebhookConfiguration \<Rightarrow> bool" where
  "IsValidCircuitBreaker w \<longleftrightarrow> \<not> whc_CircuitBreakerThreshold w \<le> 0 \<and> \<not> whc_CircuitBreakerTimeoutSeconds w \<le> 0"

definition WebhookConfiguration_IsValid :: "WebhookConfiguration \<Rightarrow> bool" where
  "WebhookConfiguration_IsValid w \<longleftrightarrow> whc_DomainID w \<noteq> uuid_nil \<and> whc_Name w \<noteq> [] \<and> length (whc_Name w) \<le> 255 \<and>
     IsValidURL w \<and> IsValidMethod w \<and> WebhookAuthType_IsValid (whc_AuthType w) \<and> IsValidTimeout w \<and> IsValidRetryConfig w \<and>
     IsValidRateLimit w \<and> IsValidCircuitBreaker w \<and> WebhookHealthStatus_IsValid (whc_HealthStatus w) \<and>
     CircuitBreakerState_IsValid (whc_CircuitBreakerState w)"

definition IsActive :: "WebhookConfiguration \<Rightarrow> bool" where
  "IsActive w \<longleftrightarrow> whc_Enabled w \<and> whc_CircuitBreakerState w \<noteq> CircuitBreakerStateOpen"

definition ShouldSendEvent :: "string \<Rightarrow> WebhookConfiguration \<Rightarrow> bool" where
  "ShouldSendEvent eventType w \<longleftrightarrow> IsActive w \<and> list_ex (\<lambda>et. et = eventType \<or> et = ''*'') (whc_EventTypes w)"

section \<open>Deliveries, health and the circuit breaker\<close>

definition successRate :: "int \<Rightarrow> int \<Rightarrow> float64" where
  "successRate successes attempts = fdiv (f64 (of_int successes)) (f64 (of_int attempts))"

definition rate_health :: "float64 \<Rightarrow> WebhookHealthStatus" where
  "rate_health rate =
     (if rate \<ge> f64 (95 / 100) then WebhookHealthStatusHealthy
      else if rate \<ge> f64 (80 / 100) then WebhookHealthStatusDegraded
      else WebhookHealthStatusUnhealthy)"

definition RecordSuccess :: "instant \<Rightarrow> int \<Rightarrow> WebhookConfiguration \<Rightarrow> WebhookConfiguration" where
  "RecordSuccess now responseTimeMs w =
     (let w1 = w\<lparr>whc_LastSuccessAt := Some now, whc_LastUsedAt := Some now, whc_ConsecutiveFailures := 0,
                 whc_TotalSuccessCount := whc_TotalSuccessCount w + 1,
                 whc_AverageResponseTimeMs :=
                   (if whc_AverageResponseTimeMs w = 0 then responseTimeMs
                    else quot64 (wrap64 (wrap64 (whc_AverageResponseTimeMs w * 9) + responseTimeMs)) 10)\<rparr>;
          w2 = (if 0 < whc_TotalSuccessCount w1
                then w1\<lparr>whc_HealthStatus := rate_health (successRate (whc_TotalSuccessCount w1) (whc_TotalSuccessCount w1 + whc_TotalFailureCount w1))\<rparr>
                else w1)
      in if whc_CircuitBreakerState w2 = CircuitBreakerStateOpen \<or> whc_CircuitBreakerState w2 = CircuitBreakerStateHalfOpen
         then w2\<lparr>whc_CircuitBreakerState := CircuitBreakerStateClosed, whc_CircuitBreakerOpenedAt := None\<rparr>
         else w2)"

definition RecordFailure :: "instant \<Rightarrow> WebhookConfiguration \<Rightarrow> WebhookConfiguration" where
  "RecordFailure now w =
     (let w1 = w\<lparr>whc_LastFailureAt := Some now, whc_LastUsedAt := Some now, whc_ConsecutiveFailures := whc_ConsecutiveFailures w + 1,
                 whc_TotalFailureCount := whc_TotalFailureCount w + 1\<rparr>;
          totalAttempts = whc_TotalSuccessCount w1 + whc_TotalFailureCount w1;
          w2 = w1\<lparr>whc_HealthStatus := (if 0 < totalAttempts then rate_health (successRate (whc_TotalSuccessCount w1) totalAttempts)
                                       else WebhookHealthStatusUnhealthy)\<rparr>
      in if whc_CircuitBreakerEnabled w2 \<and> whc_ConsecutiveFailures w2 \<ge> whc_CircuitBreakerThreshold w2 \<and>
            whc_CircuitBreakerState w2 \<noteq> CircuitBreakerStateOpen
         then w2\<lparr>whc_CircuitBreakerState := CircuitBreakerStateOpen, whc_CircuitBreakerOpenedAt := Some now\<rparr>
         else w2)"

text \<open>Whether a delivery may be attempted, and the configuration after the question: an expired open breaker becomes half-open.\<close>

definition CanAttemptDelivery :: "instant \<Rightarrow> WebhookConfiguration \<Rightarrow> bool \<times> WebhookConfiguration" where
  "CanAttemptDelivery now w =
     (if \<not> whc_Enabled w then (False, w)
      else if \<not> whc_CircuitBreakerEnabled w then (True, w)
      else case whc_CircuitBreakerState w of
        CircuitBreakerStateClosed \<Rightarrow> (True, w)
      | CircuitBreakerStateOpen \<Rightarrow>
          (case whc_CircuitBreakerOpenedAt w of
             None \<Rightarrow> (False, w)
           | Some opened \<Rightarrow>
               if now - opened > wrap64 (whc_CircuitBreakerTimeoutSeconds w * time_Second)
               then (True, w\<lparr>whc_CircuitBreakerState := CircuitBreakerStateHalfOpen\<rparr>) else (False, w))
      | CircuitBreakerStateHalfOpen \<Rightarrow> (True, w)
      | CircuitBreakerStateOther _ \<Rightarrow> (False, w))"

definition int64_of_float :: "float64 \<Rightarrow> int" where
  "int64_of_float x =
     (let n = (if x < 0 then - \<lfloor>- x\<rfloor> else \<lfloor>x\<rfloor>) in if in_int64 n then n else - (2 ^ 63))"

definition webhook_CalculateRetryDelay :: "int \<Rightarrow> WebhookConfiguration \<Rightarrow> duration" where
  "webhook_CalculateRetryDelay attemptNumber w =
     (if attemptNumber \<le> 0 then 0
      else let delay = ((\<lambda>d. fmul d (whc_RetryBackoffMultiplier w)) ^^ nat (attemptNumber - 1)) (f64 (of_int (whc_InitialRetryDelaySeconds w)))
           in wrap64 (int64_of_float delay * time_Second))"

definition GetSuccessRate :: "WebhookConfiguration \<Rightarrow> float64" where
  "GetSuccessRate w =
     (let all_deliveries = whc_TotalSuccessCount w + whc_TotalFailureCount w
      in if all_deliveries = 0 then 0 else fmul (successRate (whc_TotalSuccessCount w) all_deliveries) 100)"

section \<open>Authentication\<close>

type_synonym hmac = "string \<Rightarrow> string \<Rightarrow> string"

definition GenerateHMACSignature :: "hmac \<Rightarrow> string \<Rightarrow> WebhookConfiguration \<Rightarrow> string" where
  "GenerateHMACSignature hmac payload w =
     (if whc_AuthType w \<noteq> WebhookAuthTypeHMACSHA256 \<or> whc_AuthSecret w = [] then []
      else hex_encode (hmac (whc_AuthSecret w) payload))"

definition ValidateHMACSignature :: "hmac \<Rightarrow> string \<Rightarrow> string \<Rightarrow> WebhookConfiguration \<Rightarrow> bool" where
  "ValidateHMACSignature hmac payload signature w \<longleftrightarrow> signature = GenerateHMACSignature hmac payload w"

definition GetAuthorizationHeader :: "WebhookConfiguration \<Rightarrow> string" where
  "GetAuthorizationHeader w =
     (case whc_AuthType w of
        WebhookAuthTypeBasic \<Rightarrow>
          if whc_AuthUsername w \<noteq> [] \<and> whc_AuthSecret w \<noteq> [] then ''Basic '' @ whc_AuthUsername w @ '':'' @ whc_AuthSecret w else []
      | WebhookAuthTypeBearer \<Rightarrow> if whc_AuthSecret w \<noteq> [] then ''Bearer '' @ whc_AuthSecret w else []
      | _ \<Rightarrow> [])"

end
