(* ===== verification/WebhookStore.thy ===== *)
theory WebhookStore
  imports WebhookEntities MailStore "HOL-Library.List_Lexorder" "HOL-Library.Char_ord"
begin

text \<open>
  The repository of webhook configurations, \<open>gateways/repository/pg/webhook_config.go\<close>, over the tables of migration 5, which stand beside
  those of the core schema.

  A row is a configuration and the list of those of its columns that are \<open>NULL\<close> and are scanned into a Go value that cannot be nil; the
  statements of the repository write none, the migration does. \<open>inet\<close> is PostgreSQL's input function for the type \<open>INET\<close>, followed by its output
  function, on texts that are not empty; the empty text is no address. \<open>dbnow\<close> is the clock of the database. Names are compared by bytes.
\<close>

section \<open>The tables\<close>

datatype null_column = AuthSecretNull | AuthUsernameNull | AverageNull

record webhook_row =
  wr_config :: WebhookConfiguration
  wr_nulls :: "null_column list"

record webhook_db = mail_db +
  wdb_configs :: "webhook_row list"
  wdb_audit :: "WebhookConfigurationAudit list"
  wdb_checks :: "WebhookHealthCheck list"
  wdb_templates :: "WebhookConfigurationTemplate list"

text \<open>A statement on the tables of the core schema.\<close>

definition on_mail :: "(mail_db \<Rightarrow> 'a \<times> mail_db) \<Rightarrow> webhook_db \<Rightarrow> 'a \<times> webhook_db" where
  "on_mail f st = (case f (mail_db.truncate st) of (r, m) \<Rightarrow> (r, mail_db.extend m (mail_db.more st)))"

text \<open>
  \<open>DECIMAL(3,2)\<close>: the driver writes the shortest decimal that denotes the number, and PostgreSQL rounds it to hundredths, halves up.
\<close>

definition hundredths :: "float64 \<Rightarrow> int" where
  "hundredths x = (let n = \<lfloor>100 * x\<rfloor> in if f64 ((of_int n + 1 / 2) / 100) = x \<or> 1 / 2 < 100 * x - of_int n then n + 1 else n)"

definition decimal_3_2 :: "float64 \<Rightarrow> float64" where
  "decimal_3_2 x = f64 (of_int (hundredths x) / 100)"

definition persist_webhook :: "WebhookConfiguration \<Rightarrow> WebhookConfiguration" where
  "persist_webhook w = w\<lparr>whc_RetryBackoffMultiplier := decimal_3_2 (whc_RetryBackoffMultiplier w),
     whc_CircuitBreakerOpenedAt := map_option trunc_us (whc_CircuitBreakerOpenedAt w),
     whc_LastHealthCheckAt := map_option trunc_us (whc_LastHealthCheckAt w),
     whc_LastSuccessAt := map_option trunc_us (whc_LastSuccessAt w), whc_LastFailureAt := map_option trunc_us (whc_LastFailureAt w),
     whc_LastUsedAt := map_option trunc_us (whc_LastUsedAt w), whc_CreatedAt := trunc_us (whc_CreatedAt w), whc_UpdatedAt := trunc_us (whc_UpdatedAt w)\<rparr>"

definition int_columns :: "WebhookConfiguration \<Rightarrow> int list" where
  "int_columns w = [whc_TimeoutSeconds w, whc_MaxRetries w, whc_InitialRetryDelaySeconds w, whc_RateLimitPerMinute w, whc_RateLimitPerHour w,
     whc_CircuitBreakerThreshold w, whc_CircuitBreakerTimeoutSeconds w, whc_ConsecutiveFailures w, whc_AverageResponseTimeMs w]"

definition webhook_row_check :: "WebhookConfiguration \<Rightarrow> db_error option" where
  "webhook_row_check w =
     (if \<not> list_all in_int32 (int_columns w) \<or> \<bar>hundredths (whc_RetryBackoffMultiplier w)\<bar> > 999 then Some IntegerOutOfRange
      else if \<not> WebhookAuthType_IsValid (whc_AuthType w) \<or> \<not> WebhookHealthStatus_IsValid (whc_HealthStatus w) then Some InvalidEnum
      else if length (whc_Name w) > 255 \<or> length (whc_URL w) > 2048 \<or> length (whc_Method w) > 10 \<or> length (whc_AuthUsername w) > 255
      then Some ValueTooLong
      else if \<not> IsValidMethod w \<or> \<not> (HasPrefix (whc_URL w) ''http://'' \<or> HasPrefix (whc_URL w) ''https://'') \<or> \<not> IsValidTimeout w \<or>
              \<not> (0 \<le> whc_MaxRetries w \<and> whc_MaxRetries w \<le> 10) \<or>
              \<not> (100 \<le> hundredths (whc_RetryBackoffMultiplier w) \<and> hundredths (whc_RetryBackoffMultiplier w) \<le> 500) \<or>
              \<not> IsValidRateLimit w \<or> whc_CircuitBreakerThreshold w \<le> 0 \<or> \<not> CircuitBreakerState_IsValid (whc_CircuitBreakerState w) \<or>
              Trim (whc_Name w) '' '' = []
      then Some CheckViolation else None)"

definition same_webhook_name :: "WebhookConfiguration \<Rightarrow> webhook_row \<Rightarrow> bool" where
  "same_webhook_name w r \<longleftrightarrow> whc_DomainID (wr_config r) = whc_DomainID w \<and> whc_Name (wr_config r) = whc_Name w"

section \<open>Configurations\<close>

definition pg_Webhook_Create :: "WebhookConfiguration \<Rightarrow> webhook_db \<Rightarrow> db_error option \<times> webhook_db" where
  "pg_Webhook_Create w = as_error \<circ> exec (\<lambda>st.
     case webhook_row_check w of
       Some e \<Rightarrow> (Inl e, st)
     | None \<Rightarrow>
         if list_ex (\<lambda>r. whc_ID (wr_config r) = whc_ID w \<or> same_webhook_name w r) (wdb_configs st) then (Inl UniqueViolation, st)
         else if whc_DomainID w \<notin> d_ID ` set (mdb_domains st) then (Inl ForeignKeyViolation, st)
         else (Inr (), st\<lparr>wdb_configs := wdb_configs st @ [\<lparr>wr_config = persist_webhook w, wr_nulls = []\<rparr>]\<rparr>))"

text \<open>Scanning a row fails when one of its \<open>NULL\<close> columns has a destination that cannot be nil.\<close>

definition scanWebhookConfig :: "webhook_row \<Rightarrow> db_error + WebhookConfiguration" where
  "scanWebhookConfig r = (if wr_nulls r = [] then Inr (wr_config r) else Inl (BadQuery ''scan webhook config''))"

definition scan_row :: "webhook_row option \<Rightarrow> db_error + WebhookConfiguration" where
  "scan_row r = (case r of None \<Rightarrow> Inl ErrNoRows | Some r \<Rightarrow> scanWebhookConfig r)"

definition scan_rows :: "webhook_row list \<Rightarrow> db_error + WebhookConfiguration list" where
  "scan_rows rs = (if list_ex (\<lambda>r. wr_nulls r \<noteq> []) rs then Inl (BadQuery ''scan webhook config'') else Inr (map wr_config rs))"

definition newest_webhooks :: "webhook_row list \<Rightarrow> webhook_row list" where
  "newest_webhooks = sort_key (\<lambda>r. - whc_CreatedAt (wr_config r))"

definition pg_Webhook_GetByID :: "uuid \<Rightarrow> webhook_db \<Rightarrow> (db_error + WebhookConfiguration) \<times> webhook_db" where
  "pg_Webhook_GetByID i = exec (\<lambda>st. (scan_row (find (\<lambda>r. whc_ID (wr_config r) = i) (wdb_configs st)), st))"

definition pg_Webhook_GetByDomainID :: "uuid \<Rightarrow> webhook_db \<Rightarrow> (db_error + WebhookConfiguration list) \<times> webhook_db" where
  "pg_Webhook_GetByDomainID d = exec (\<lambda>st.
     (scan_rows (newest_webhooks (filter (\<lambda>r. whc_DomainID (wr_config r) = d) (wdb_configs st))), st))"

definition pg_Webhook_GetActiveByDomainID :: "uuid \<Rightarrow> webhook_db \<Rightarrow> (db_error + WebhookConfiguration list) \<times> webhook_db" where
  "pg_Webhook_GetActiveByDomainID d = exec (\<lambda>st.
     (scan_rows (newest_webhooks (filter (\<lambda>r. whc_DomainID (wr_config r) = d \<and> whc_Enabled (wr_config r) \<and>
         whc_CircuitBreakerState (wr_config r) \<noteq> CircuitBreakerStateOpen) (wdb_configs st))), st))"

text \<open>The identity, the domain and the time of creation are not written; the trigger sets the time of the update.\<close>

definition updated_webhook :: "instant \<Rightarrow> WebhookConfiguration \<Rightarrow> webhook_row \<Rightarrow> webhook_row" where
  "updated_webhook dbnow w r = \<lparr>wr_config = (persist_webhook w)\<lparr>whc_DomainID := whc_DomainID (wr_config r), whc_CreatedAt := whc_CreatedAt (wr_config r),
     whc_UpdatedAt := trunc_us dbnow\<rparr>, wr_nulls = []\<rparr>"

definition pg_Webhook_Update :: "instant \<Rightarrow> WebhookConfiguration \<Rightarrow> webhook_db \<Rightarrow> db_error option \<times> webhook_db" where
  "pg_Webhook_Update dbnow w = as_error \<circ> exec (\<lambda>st.
     if \<not> list_all in_int32 (int_columns w) then (Inl IntegerOutOfRange, st)
     else if \<not> WebhookAuthType_IsValid (whc_AuthType w) \<or> \<not> WebhookHealthStatus_IsValid (whc_HealthStatus w) then (Inl InvalidEnum, st)
     else case find (\<lambda>r. whc_ID (wr_config r) = whc_ID w) (wdb_configs st) of
       None \<Rightarrow> (Inl ErrNoRows, st)
     | Some old \<Rightarrow>
         (case webhook_row_check w of
            Some e \<Rightarrow> (Inl e, st)
          | None \<Rightarrow>
              if list_ex (\<lambda>r. whc_ID (wr_config r) \<noteq> whc_ID w \<and> same_webhook_name (wr_config (updated_webhook dbnow w old)) r) (wdb_configs st)
              then (Inl UniqueViolation, st)
              else (Inr (), st\<lparr>wdb_configs := map (\<lambda>r. if whc_ID (wr_config r) = whc_ID w then updated_webhook dbnow w r else r) (wdb_configs st)\<rparr>)))"

definition pg_Webhook_Delete :: "uuid \<Rightarrow> webhook_db \<Rightarrow> db_error option \<times> webhook_db" where
  "pg_Webhook_Delete i = as_error \<circ> exec (\<lambda>st.
     if \<not> list_ex (\<lambda>r. whc_ID (wr_config r) = i) (wdb_configs st) then (Inl ErrNoRows, st)
     else (Inr (), st\<lparr>wdb_configs := filter (\<lambda>r. whc_ID (wr_config r) \<noteq> i) (wdb_configs st),
                     wdb_audit := filter (\<lambda>a. wa_WebhookConfigID a \<noteq> i) (wdb_audit st),
                     wdb_checks := filter (\<lambda>c. wh_WebhookConfigID c \<noteq> i) (wdb_checks st)\<rparr>))"

text \<open>Deleting a domain deletes its configurations with their audit entries and health checks.\<close>

definition cascade_webhooks :: "uuid \<Rightarrow> webhook_db \<Rightarrow> webhook_db" where
  "cascade_webhooks d st =
     (let gone = map (\<lambda>r. whc_ID (wr_config r)) (filter (\<lambda>r. whc_DomainID (wr_config r) = d) (wdb_configs st)) in
      st\<lparr>wdb_configs := filter (\<lambda>r. whc_DomainID (wr_config r) \<noteq> d) (wdb_configs st),
         wdb_audit := filter (\<lambda>a. wa_WebhookConfigID a \<notin> set gone) (wdb_audit st),
         wdb_checks := filter (\<lambda>c. wh_WebhookConfigID c \<notin> set gone) (wdb_checks st)\<rparr>)"

definition pg_Domain_Delete_cascade :: "uuid \<Rightarrow> webhook_db \<Rightarrow> db_error option \<times> webhook_db" where
  "pg_Domain_Delete_cascade d st =
     (case on_mail (pg_Domain_Delete d) st of (None, st1) \<Rightarrow> (None, cascade_webhooks d st1) | (Some e, st1) \<Rightarrow> (Some e, st1))"

definition pg_Webhook_GetByDomainIDAndName :: "uuid \<Rightarrow> string \<Rightarrow> webhook_db \<Rightarrow> (db_error + WebhookConfiguration) \<times> webhook_db" where
  "pg_Webhook_GetByDomainIDAndName d n = exec (\<lambda>st.
     (scan_row (find (\<lambda>r. whc_DomainID (wr_config r) = d \<and> whc_Name (wr_config r) = n) (wdb_configs st)), st))"

definition nulls_first :: "('a \<Rightarrow> int option) \<Rightarrow> 'a list \<Rightarrow> 'a list" where
  "nulls_first f rs = filter (\<lambda>r. f r = None) rs @ sort_key (\<lambda>r. the (f r)) (filter (\<lambda>r. f r \<noteq> None) rs)"

definition pg_ListUnhealthyWebhooks :: "int \<Rightarrow> webhook_db \<Rightarrow> (db_error + WebhookConfiguration list) \<times> webhook_db" where
  "pg_ListUnhealthyWebhooks limit = exec (\<lambda>st.
     (case page limit 0 (nulls_first (whc_LastHealthCheckAt \<circ> wr_config) (filter (\<lambda>r. whc_HealthStatus (wr_config r) = WebhookHealthStatusUnhealthy \<or>
         whc_HealthStatus (wr_config r) = WebhookHealthStatusDegraded) (wdb_configs st))) of
        Inl e \<Rightarrow> Inl e | Inr rs \<Rightarrow> scan_rows rs, st))"

definition pg_ListWebhooksForHealthCheck :: "instant \<Rightarrow> int \<Rightarrow> webhook_db \<Rightarrow> (db_error + WebhookConfiguration list) \<times> webhook_db" where
  "pg_ListWebhooksForHealthCheck dbnow minutes = exec (\<lambda>st.
     (case page 100 0 (nulls_first (whc_LastHealthCheckAt \<circ> wr_config) (filter (\<lambda>r. whc_Enabled (wr_config r) \<and>
         (case whc_LastHealthCheckAt (wr_config r) of None \<Rightarrow> True | Some t \<Rightarrow> t < trunc_us dbnow - minutes * time_Minute)) (wdb_configs st))) of
        Inl e \<Rightarrow> Inl e | Inr rs \<Rightarrow> scan_rows rs, st))"

section \<open>Audit and health checks\<close>

definition audit_actions :: "string list" where
  "audit_actions = [''created'', ''updated'', ''deleted'', ''enabled'', ''disabled'', ''tested'']"

definition pg_CreateAudit :: "(string \<Rightarrow> string option) \<Rightarrow> WebhookConfigurationAudit \<Rightarrow> webhook_db \<Rightarrow> db_error option \<times> webhook_db" where
  "pg_CreateAudit inet a = as_error \<circ> exec (\<lambda>st.
     case (if wa_IPAddress a = [] then None else inet (wa_IPAddress a)) of
       None \<Rightarrow> (Inl (BadQuery ''invalid input syntax for type inet''), st)
     | Some ip \<Rightarrow>
         if length (wa_Action a) > 50 then (Inl ValueTooLong, st)
         else if wa_Action a \<notin> set audit_actions then (Inl CheckViolation, st)
         else if list_ex (\<lambda>r. wa_ID r = wa_ID a) (wdb_audit st) then (Inl UniqueViolation, st)
         else if wa_WebhookConfigID a \<notin> (\<lambda>r. whc_ID (wr_config r)) ` set (wdb_configs st) \<or>
                 (case wa_ChangedByUserID a of None \<Rightarrow> False | Some u \<Rightarrow> u \<notin> set (mdb_users st)) then (Inl ForeignKeyViolation, st)
         else (Inr (), st\<lparr>wdb_audit := wdb_audit st @ [a\<lparr>wa_IPAddress := ip, wa_CreatedAt := trunc_us (wa_CreatedAt a)\<rparr>]\<rparr>))"

definition pg_GetAuditByConfigID :: "uuid \<Rightarrow> int \<Rightarrow> int \<Rightarrow> webhook_db \<Rightarrow> (db_error + WebhookConfigurationAudit list) \<times> webhook_db" where
  "pg_GetAuditByConfigID i limit offset = exec (\<lambda>st.
     (page limit offset (sort_key (\<lambda>a. - wa_CreatedAt a) (filter (\<lambda>a. wa_WebhookConfigID a = i) (wdb_audit st))), st))"

definition check_types :: "string list" where
  "check_types = [''automatic'', ''manual'', ''on_failure'', ''on_recovery'']"

definition pg_CreateHealthCheck :: "WebhookHealthCheck \<Rightarrow> webhook_db \<Rightarrow> db_error option \<times> webhook_db" where
  "pg_CreateHealthCheck c = as_error \<circ> exec (\<lambda>st.
     if \<not> list_all in_int32 (List.map_filter id [wh_ResponseTimeMs c, wh_ResponseStatusCode c]) then (Inl IntegerOutOfRange, st)
     else if \<not> WebhookHealthStatus_IsValid (wh_Status c) then (Inl InvalidEnum, st)
     else if length (wh_CheckType c) > 50 then (Inl ValueTooLong, st)
     else if wh_CheckType c \<notin> set check_types then (Inl CheckViolation, st)
     else if list_ex (\<lambda>r. wh_ID r = wh_ID c) (wdb_checks st) then (Inl UniqueViolation, st)
     else if wh_WebhookConfigID c \<notin> (\<lambda>r. whc_ID (wr_config r)) ` set (wdb_configs st) then (Inl ForeignKeyViolation, st)
     else (Inr (), st\<lparr>wdb_checks := wdb_checks st @ [c\<lparr>wh_CheckedAt := trunc_us (wh_CheckedAt c)\<rparr>]\<rparr>))"

definition newest_checks :: "uuid \<Rightarrow> webhook_db \<Rightarrow> WebhookHealthCheck list" where
  "newest_checks i st = sort_key (\<lambda>c. - wh_CheckedAt c) (filter (\<lambda>c. wh_WebhookConfigID c = i) (wdb_checks st))"

definition pg_GetHealthChecksByConfigID :: "uuid \<Rightarrow> int \<Rightarrow> int \<Rightarrow> webhook_db \<Rightarrow> (db_error + WebhookHealthCheck list) \<times> webhook_db" where
  "pg_GetHealthChecksByConfigID i limit offset = exec (\<lambda>st. (page limit offset (newest_checks i st), st))"

definition pg_GetLatestHealthCheck :: "uuid \<Rightarrow> webhook_db \<Rightarrow> (db_error + WebhookHealthCheck) \<times> webhook_db" where
  "pg_GetLatestHealthCheck i = exec (\<lambda>st. (case newest_checks i st of [] \<Rightarrow> Inl ErrNoRows | c # _ \<Rightarrow> Inr c, st))"

section \<open>Templates\<close>

definition pg_GetTemplates :: "webhook_db \<Rightarrow> (db_error + WebhookConfigurationTemplate list) \<times> webhook_db" where
  "pg_GetTemplates = exec (\<lambda>st. (Inr (sort_key (\<lambda>t. - wt_UsageCount t) (sort_key wt_Name (filter wt_IsActive (wdb_templates st)))), st))"

definition pg_GetTemplateByID :: "uuid \<Rightarrow> webhook_db \<Rightarrow> (db_error + WebhookConfigurationTemplate) \<times> webhook_db" where
  "pg_GetTemplateByID i = exec (\<lambda>st. (one_row_of (find (\<lambda>t. wt_ID t = i) (wdb_templates st)), st))"

definition pg_GetTemplateByName :: "string \<Rightarrow> webhook_db \<Rightarrow> (db_error + WebhookConfigurationTemplate) \<times> webhook_db" where
  "pg_GetTemplateByName n = exec (\<lambda>st. (one_row_of (find (\<lambda>t. wt_Name t = n) (wdb_templates st)), st))"

definition template_check :: "WebhookConfigurationTemplate \<Rightarrow> db_error option" where
  "template_check t =
     (if \<not> in_int32 (wt_DefaultTimeoutSeconds t) \<or> \<not> in_int32 (wt_UsageCount t) then Some IntegerOutOfRange
      else if \<not> WebhookAuthType_IsValid (wt_DefaultAuthType t) then Some InvalidEnum
      else if length (wt_Name t) > 255 \<or> length (wt_ProviderName t) > 100 \<or> length (wt_DefaultMethod t) > 10 \<or> length (wt_DocumentationURL t) > 2048
      then Some ValueTooLong else None)"

definition persist_template :: "WebhookConfigurationTemplate \<Rightarrow> WebhookConfigurationTemplate" where
  "persist_template t = t\<lparr>wt_CreatedAt := trunc_us (wt_CreatedAt t), wt_UpdatedAt := trunc_us (wt_UpdatedAt t)\<rparr>"

definition pg_CreateTemplate :: "WebhookConfigurationTemplate \<Rightarrow> webhook_db \<Rightarrow> db_error option \<times> webhook_db" where
  "pg_CreateTemplate t = as_error \<circ> exec (\<lambda>st.
     case template_check t of
       Some e \<Rightarrow> (Inl e, st)
     | None \<Rightarrow>
         if list_ex (\<lambda>r. wt_ID r = wt_ID t \<or> wt_Name r = wt_Name t) (wdb_templates st) then (Inl UniqueViolation, st)
         else (Inr (), st\<lparr>wdb_templates := wdb_templates st @ [persist_template t]\<rparr>))"

definition pg_UpdateTemplate :: "instant \<Rightarrow> WebhookConfigurationTemplate \<Rightarrow> webhook_db \<Rightarrow> db_error option \<times> webhook_db" where
  "pg_UpdateTemplate dbnow t = as_error \<circ> exec (\<lambda>st.
     if \<not> in_int32 (wt_DefaultTimeoutSeconds t) \<or> \<not> in_int32 (wt_UsageCount t) then (Inl IntegerOutOfRange, st)
     else if \<not> WebhookAuthType_IsValid (wt_DefaultAuthType t) then (Inl InvalidEnum, st)
     else if \<not> list_ex (\<lambda>r. wt_ID r = wt_ID t) (wdb_templates st) then (Inl ErrNoRows, st)
     else case template_check t of
       Some e \<Rightarrow> (Inl e, st)
     | None \<Rightarrow>
         if list_ex (\<lambda>r. wt_ID r \<noteq> wt_ID t \<and> wt_Name r = wt_Name t) (wdb_templates st) then (Inl UniqueViolation, st)
         else (Inr (), st\<lparr>wdb_templates := map (\<lambda>r. if wt_ID r = wt_ID t
                 then (persist_template t)\<lparr>wt_CreatedAt := wt_CreatedAt r, wt_UpdatedAt := trunc_us dbnow\<rparr> else r) (wdb_templates st)\<rparr>))"

definition pg_IncrementTemplateUsage :: "instant \<Rightarrow> uuid \<Rightarrow> webhook_db \<Rightarrow> db_error option \<times> webhook_db" where
  "pg_IncrementTemplateUsage dbnow i = as_error \<circ> exec (\<lambda>st.
     if list_ex (\<lambda>t. wt_ID t = i \<and> \<not> in_int32 (wt_UsageCount t + 1)) (wdb_templates st) then (Inl IntegerOutOfRange, st)
     else (Inr (), st\<lparr>wdb_templates := map (\<lambda>t. if wt_ID t = i
             then t\<lparr>wt_UsageCount := wt_UsageCount t + 1, wt_UpdatedAt := trunc_us dbnow\<rparr> else t) (wdb_templates st)\<rparr>))"

end
