(* ===== verification/GoHTTP.thy ===== *)
theory GoHTTP
  imports NetURL Encryption GoJSON
begin

text \<open>
  The part of \<open>net/http\<close> the webhooks use: header maps with canonical keys, requests, and the client as a function from a request to
  what comes back. Every header has one value; a header map is the list of its entries.
\<close>

definition header_byte :: "char \<Rightarrow> bool" where
  "header_byte c \<longleftrightarrow> is_alnum c \<or> c \<in> set ''!#$%&*+-.^_|~'' \<or> code c = 39 \<or> code c = 96"

fun canonical_bytes :: "bool \<Rightarrow> string \<Rightarrow> string" where
  "canonical_bytes up [] = []"
| "canonical_bytes up (c # s) =
     (if up \<and> is_lower c then char_of (code c - 32) else if \<not> up then to_lower c else c) # canonical_bytes (c = CHR ''-'') s"

definition CanonicalHeaderKey :: "string \<Rightarrow> string" where
  "CanonicalHeaderKey k = (if list_all header_byte k then canonical_bytes True k else k)"

type_synonym http_header = "(string \<times> string) list"

definition Header_Set :: "string \<Rightarrow> string \<Rightarrow> http_header \<Rightarrow> http_header" where
  "Header_Set k v h = filter (\<lambda>(x, y). x \<noteq> CanonicalHeaderKey k) h @ [(CanonicalHeaderKey k, v)]"

definition Header_Get :: "string \<Rightarrow> http_header \<Rightarrow> string" where
  "Header_Get k h = (case map_of h (CanonicalHeaderKey k) of None \<Rightarrow> [] | Some v \<Rightarrow> v)"

definition set_all :: "(string \<times> string) list \<Rightarrow> http_header \<Rightarrow> http_header" where
  "set_all kvs h = fold (\<lambda>(k, v). Header_Set k v) kvs h"

record http_request =
  req_Method :: string
  req_URL :: string
  req_Header :: http_header
  req_Body :: string

datatype http_reply = HTTPError string | HTTPReply int string | HTTPCut int string

text \<open>\<open>NewRequest\<close>: the method must be a token and the URL parse.\<close>

definition NewRequest :: "string \<Rightarrow> string \<Rightarrow> string \<Rightarrow> http_request option" where
  "NewRequest m u body =
     (if m = [] \<or> \<not> list_all header_byte m \<or> url_Parse u = None then None
      else Some \<lparr>req_Method = m, req_URL = u, req_Header = [], req_Body = body\<rparr>)"

text \<open>\<open>SetBasicAuth\<close>.\<close>

definition SetBasicAuth :: "string \<Rightarrow> string \<Rightarrow> http_request \<Rightarrow> http_request" where
  "SetBasicAuth u p r = r\<lparr>req_Header := Header_Set ''Authorization'' (''Basic '' @ EncodeToString (u @ '':'' @ p)) (req_Header r)\<rparr>"

text \<open>The text of a UUID.\<close>

definition uuid_String :: "uuid \<Rightarrow> string" where
  "uuid_String u =
     (let ds = map (\<lambda>i. hex_digit (unat (drop_bit (4 * (31 - i)) u) mod 16)) [0..<32]
      in take 8 ds @ ''-'' @ take 4 (drop 8 ds) @ ''-'' @ take 4 (drop 12 ds) @ ''-'' @ take 4 (drop 16 ds) @ ''-'' @ drop 20 ds)"

section \<open>Lemmas\<close>

lemma Header_Get_Set [simp]: "Header_Get k (Header_Set k v h) = v"
  by (induction h) (auto simp: Header_Get_def Header_Set_def)

lemma Header_Get_Set_other: "CanonicalHeaderKey k \<noteq> CanonicalHeaderKey l \<Longrightarrow> Header_Get k (Header_Set l v h) = Header_Get k h"
  by (induction h) (auto simp: Header_Get_def Header_Set_def split: if_splits)

lemma Header_Get_set_all:
  "CanonicalHeaderKey k \<notin> CanonicalHeaderKey ` fst ` set kvs \<Longrightarrow> Header_Get k (set_all kvs h) = Header_Get k h"
proof (induction kvs arbitrary: h)
  case (Cons x kvs)
  then show ?case by (cases x) (simp add: set_all_def Header_Get_Set_other)
qed (simp add: set_all_def)

end
