(* ===== verification/WebhookUseCase.thy ===== *)
theory WebhookUseCase
  imports WebhookStore GoHTTP
begin

text \<open>
  Managing webhook configurations, \<open>domain/webhook_config/usecase.go\<close>: creating, changing, testing and deleting them on behalf of a user, with
  defaults, health checks, audit entries and templates.

  The repository is the interface of \<open>domain/webhook_config/repository.go\<close> as a record; what the code reads from the clock and from the
  generator of identities is the record \<open>webhook_draw\<close>. A failed audit entry is only logged by the code.
\<close>

section \<open>Interfaces\<close>

record 'st webhook_ops =
  who_Create :: "WebhookConfiguration \<Rightarrow> 'st \<Rightarrow> db_error option \<times> 'st"
  who_GetByID :: "uuid \<Rightarrow> 'st \<Rightarrow> (db_error + WebhookConfiguration) \<times> 'st"
  who_GetByDomainID :: "uuid \<Rightarrow> 'st \<Rightarrow> (db_error + WebhookConfiguration list) \<times> 'st"
  who_GetActiveByDomainID :: "uuid \<Rightarrow> 'st \<Rightarrow> (db_error + WebhookConfiguration list) \<times> 'st"
  who_Update :: "instant \<Rightarrow> WebhookConfiguration \<Rightarrow> 'st \<Rightarrow> db_error option \<times> 'st"
  who_Delete :: "uuid \<Rightarrow> 'st \<Rightarrow> db_error option \<times> 'st"
  who_GetByDomainIDAndName :: "uuid \<Rightarrow> string \<Rightarrow> 'st \<Rightarrow> (db_error + WebhookConfiguration) \<times> 'st"
  who_CreateAudit :: "WebhookConfigurationAudit \<Rightarrow> 'st \<Rightarrow> db_error option \<times> 'st"
  who_GetAuditByConfigID :: "uuid \<Rightarrow> int \<Rightarrow> int \<Rightarrow> 'st \<Rightarrow> (db_error + WebhookConfigurationAudit list) \<times> 'st"
  who_CreateHealthCheck :: "WebhookHealthCheck \<Rightarrow> 'st \<Rightarrow> db_error option \<times> 'st"
  who_GetHealthChecksByConfigID :: "uuid \<Rightarrow> int \<Rightarrow> int \<Rightarrow> 'st \<Rightarrow> (db_error + WebhookHealthCheck list) \<times> 'st"
  who_GetTemplates :: "'st \<Rightarrow> (db_error + WebhookConfigurationTemplate list) \<times> 'st"
  who_GetTemplateByID :: "uuid \<Rightarrow> 'st \<Rightarrow> (db_error + WebhookConfigurationTemplate) \<times> 'st"
  who_IncrementTemplateUsage :: "instant \<Rightarrow> uuid \<Rightarrow> 'st \<Rightarrow> db_error option \<times> 'st"
  who_Domain :: "uuid \<Rightarrow> 'st \<Rightarrow> (db_error + Domain) \<times> 'st"

definition pg_webhook_repo :: "(string \<Rightarrow> string option) \<Rightarrow> webhook_db webhook_ops" where
  "pg_webhook_repo inet = \<lparr>who_Create = pg_Webhook_Create, who_GetByID = pg_Webhook_GetByID, who_GetByDomainID = pg_Webhook_GetByDomainID,
     who_GetActiveByDomainID = pg_Webhook_GetActiveByDomainID, who_Update = pg_Webhook_Update, who_Delete = pg_Webhook_Delete,
     who_GetByDomainIDAndName = pg_Webhook_GetByDomainIDAndName, who_CreateAudit = pg_CreateAudit inet,
     who_GetAuditByConfigID = pg_GetAuditByConfigID, who_CreateHealthCheck = pg_CreateHealthCheck,
     who_GetHealthChecksByConfigID = pg_GetHealthChecksByConfigID, who_GetTemplates = pg_GetTemplates,
     who_GetTemplateByID = pg_GetTemplateByID, who_IncrementTemplateUsage = pg_IncrementTemplateUsage,
     who_Domain = (\<lambda>i. on_mail (pg_Domain_GetByID i))\<rparr>"

datatype webhook_error =
    WebhookDomainNotFound db_error | WebhookUnauthorized | WebhookNameTaken | InvalidWebhook | WebhookNotFound db_error
  | WebhookTemplateNotFound db_error | WebhookRepoFailed string db_error

record webhook_draw =
  wd_id :: uuid
  wd_now :: instant
  wd_audit_id :: uuid
  wd_audit_now :: instant
  wd_dbnow :: instant
  wd_stamp :: string
  wd_elapsed :: int

record CreateWebhookConfigInput =
  ci_DomainID :: uuid
  ci_UserID :: uuid
  ci_Name :: string
  ci_Description :: string
  ci_URL :: string
  ci_Method :: string
  ci_AuthType :: WebhookAuthType
  ci_AuthSecret :: string
  ci_AuthUsername :: string
  ci_CustomHeaders :: headers
  ci_EventTypes :: "string list"
  ci_TimeoutSeconds :: int
  ci_MaxRetries :: int
  ci_RetryBackoffMultiplier :: float64
  ci_InitialRetryDelaySeconds :: int
  ci_RateLimitPerMinute :: int
  ci_RateLimitPerHour :: int
  ci_CircuitBreakerEnabled :: bool
  ci_CircuitBreakerThreshold :: int
  ci_CircuitBreakerTimeoutSeconds :: int

record UpdateWebhookConfigInput =
  ui_ID :: uuid
  ui_UserID :: uuid
  ui_Name :: "string option"
  ui_Description :: "string option"
  ui_URL :: "string option"
  ui_Method :: "string option"
  ui_AuthType :: "WebhookAuthType option"
  ui_AuthSecret :: "string option"
  ui_AuthUsername :: "string option"
  ui_CustomHeaders :: headers
  ui_EventTypes :: "string list option"
  ui_TimeoutSeconds :: "int option"
  ui_MaxRetries :: "int option"
  ui_RetryBackoffMultiplier :: "float64 option"
  ui_InitialRetryDelaySeconds :: "int option"
  ui_RateLimitPerMinute :: "int option"
  ui_RateLimitPerHour :: "int option"
  ui_CircuitBreakerEnabled :: "bool option"
  ui_CircuitBreakerThreshold :: "int option"
  ui_CircuitBreakerTimeoutSeconds :: "int option"

record CreateFromTemplateInput =
  ti_TemplateID :: uuid
  ti_DomainID :: uuid
  ti_UserID :: uuid
  ti_Name :: string
  ti_URL :: string
  ti_AuthSecret :: string
  ti_EventTypes :: "string list"

record TestWebhookResult =
  tr_Success :: bool
  tr_StatusCode :: int
  tr_ResponseTimeMs :: int
  tr_ErrorMessage :: string
  tr_ResponseBody :: string

record WebhookMetrics =
  wm_TotalDeliveries :: int
  wm_SuccessCount :: int
  wm_FailureCount :: int
  wm_SuccessRate :: float64
  wm_AverageResponseTime :: int
  wm_HealthStatus :: WebhookHealthStatus
  wm_LastSuccess :: "instant option"
  wm_LastFailure :: "instant option"
  wm_ConsecutiveFailures :: int
  wm_CircuitBreakerState :: CircuitBreakerState

section \<open>Creating\<close>

text \<open>An audit entry as the use cases write it: neither reason nor address nor agent.\<close>

definition audit_entry :: "webhook_draw \<Rightarrow> instant \<Rightarrow> uuid \<Rightarrow> uuid \<Rightarrow> string \<Rightarrow> audit_values \<Rightarrow> audit_values \<Rightarrow> WebhookConfigurationAudit" where
  "audit_entry dr now i u action old new = \<lparr>wa_ID = wd_audit_id dr, wa_WebhookConfigID = i, wa_ChangedByUserID = Some u, wa_Action = action,
     wa_OldValues = old, wa_NewValues = new, wa_ChangeReason = [], wa_IPAddress = [], wa_UserAgent = [], wa_CreatedAt = now\<rparr>"

definition or_default :: "'a \<Rightarrow> 'a \<Rightarrow> 'a \<Rightarrow> 'a" where
  "or_default zero d x = (if x = zero then d else x)"

definition new_webhook :: "webhook_draw \<Rightarrow> CreateWebhookConfigInput \<Rightarrow> WebhookConfiguration" where
  "new_webhook dr input = \<lparr>
     whc_ID = wd_id dr, whc_DomainID = ci_DomainID input, whc_Name = ci_Name input, whc_Description = ci_Description input,
     whc_URL = ci_URL input, whc_Method = or_default [] ''POST'' (ci_Method input), whc_Enabled = True, whc_Verified = False,
     whc_AuthType = ci_AuthType input, whc_AuthSecret = ci_AuthSecret input, whc_AuthUsername = ci_AuthUsername input,
     whc_CustomHeaders = ci_CustomHeaders input, whc_EventTypes = or_default [] [''email.received''] (ci_EventTypes input),
     whc_TimeoutSeconds = or_default 0 30 (ci_TimeoutSeconds input), whc_MaxRetries = or_default 0 3 (ci_MaxRetries input),
     whc_RetryBackoffMultiplier = or_default 0 2 (ci_RetryBackoffMultiplier input),
     whc_InitialRetryDelaySeconds = or_default 0 60 (ci_InitialRetryDelaySeconds input),
     whc_RateLimitPerMinute = or_default 0 60 (ci_RateLimitPerMinute input), whc_RateLimitPerHour = or_default 0 1000 (ci_RateLimitPerHour input),
     whc_CircuitBreakerEnabled = ci_CircuitBreakerEnabled input,
     whc_CircuitBreakerThreshold = or_default 0 5 (ci_CircuitBreakerThreshold input),
     whc_CircuitBreakerTimeoutSeconds = or_default 0 300 (ci_CircuitBreakerTimeoutSeconds input),
     whc_CircuitBreakerState = CircuitBreakerStateClosed, whc_CircuitBreakerOpenedAt = None,
     whc_HealthStatus = WebhookHealthStatusUnknown, whc_LastHealthCheckAt = None, whc_LastSuccessAt = None, whc_LastFailureAt = None,
     whc_ConsecutiveFailures = 0, whc_TotalSuccessCount = 0, whc_TotalFailureCount = 0, whc_AverageResponseTimeMs = 0,
     whc_LastUsedAt = None, whc_CreatedAt = wd_now dr, whc_UpdatedAt = wd_now dr\<rparr>"

definition CreateWebhookConfiguration ::
    "'st webhook_ops \<Rightarrow> webhook_draw \<Rightarrow> CreateWebhookConfigInput \<Rightarrow> 'st \<Rightarrow> (webhook_error + WebhookConfiguration) \<times> 'st" where
  "CreateWebhookConfiguration ops dr input st =
     (case who_Domain ops (ci_DomainID input) st of
        (Inl e, st1) \<Rightarrow> (Inl (WebhookDomainNotFound e), st1)
      | (Inr domain, st1) \<Rightarrow>
          if d_UserID domain \<noteq> ci_UserID input then (Inl WebhookUnauthorized, st1)
          else case who_GetByDomainIDAndName ops (ci_DomainID input) (ci_Name input) st1 of
            (Inr _, st2) \<Rightarrow> (Inl WebhookNameTaken, st2)
          | (Inl _, st2) \<Rightarrow>
              let config = new_webhook dr input in
              if \<not> WebhookConfiguration_IsValid config then (Inl InvalidWebhook, st2)
              else case who_Create ops config st2 of
                (Some e, st3) \<Rightarrow> (Inl (WebhookRepoFailed ''create webhook configuration'' e), st3)
              | (None, st3) \<Rightarrow>
                  (Inr config, snd (who_CreateAudit ops (audit_entry dr (wd_now dr) (whc_ID config) (ci_UserID input) ''created'' None
                     (Some [(''name'', AuditString (whc_Name config)), (''url'', AuditString (whc_URL config)),
                            (''enabled'', AuditBool (whc_Enabled config)), (''auth_type'', AuditString (WebhookAuthType_text (whc_AuthType config)))])) st3)))"

section \<open>Reading and changing\<close>

definition GetWebhookConfiguration :: "'st webhook_ops \<Rightarrow> uuid \<Rightarrow> uuid \<Rightarrow> 'st \<Rightarrow> (webhook_error + WebhookConfiguration) \<times> 'st" where
  "GetWebhookConfiguration ops i u st =
     (case who_GetByID ops i st of
        (Inl e, st1) \<Rightarrow> (Inl (WebhookNotFound e), st1)
      | (Inr config, st1) \<Rightarrow>
          (case who_Domain ops (whc_DomainID config) st1 of
             (Inl e, st2) \<Rightarrow> (Inl (WebhookDomainNotFound e), st2)
           | (Inr domain, st2) \<Rightarrow> if d_UserID domain \<noteq> u then (Inl WebhookUnauthorized, st2) else (Inr config, st2)))"

text \<open>Most calls load the configuration first and stop at any error.\<close>

definition with_config ::
    "'st webhook_ops \<Rightarrow> uuid \<Rightarrow> uuid \<Rightarrow> (WebhookConfiguration \<Rightarrow> 'st \<Rightarrow> (webhook_error + 'a) \<times> 'st) \<Rightarrow> 'st \<Rightarrow> (webhook_error + 'a) \<times> 'st" where
  "with_config ops i u f st =
     (case GetWebhookConfiguration ops i u st of (Inl e, st1) \<Rightarrow> (Inl e, st1) | (Inr config, st1) \<Rightarrow> f config st1)"

definition repo_result :: "string \<Rightarrow> (db_error + 'a) \<times> 'st \<Rightarrow> (webhook_error + 'a) \<times> 'st" where
  "repo_result what r = (case r of (Inl e, st) \<Rightarrow> (Inl (WebhookRepoFailed what e), st) | (Inr x, st) \<Rightarrow> (Inr x, st))"

definition ListWebhookConfigurations :: "'st webhook_ops \<Rightarrow> uuid \<Rightarrow> uuid \<Rightarrow> 'st \<Rightarrow> (webhook_error + WebhookConfiguration list) \<times> 'st" where
  "ListWebhookConfigurations ops d u st =
     (case who_Domain ops d st of
        (Inl e, st1) \<Rightarrow> (Inl (WebhookDomainNotFound e), st1)
      | (Inr domain, st1) \<Rightarrow>
          if d_UserID domain \<noteq> u then (Inl WebhookUnauthorized, st1)
          else repo_result ''list webhook configurations'' (who_GetByDomainID ops d st1))"

definition upd :: "'a option \<Rightarrow> 'a \<Rightarrow> 'a" where
  "upd new old = (case new of None \<Rightarrow> old | Some x \<Rightarrow> x)"

definition apply_webhook_update :: "UpdateWebhookConfigInput \<Rightarrow> WebhookConfiguration \<Rightarrow> WebhookConfiguration" where
  "apply_webhook_update input w = w\<lparr>
     whc_Name := upd (ui_Name input) (whc_Name w), whc_Description := upd (ui_Description input) (whc_Description w),
     whc_URL := upd (ui_URL input) (whc_URL w), whc_Verified := (if ui_URL input = None then whc_Verified w else False),
     whc_Method := upd (ui_Method input) (whc_Method w), whc_AuthType := upd (ui_AuthType input) (whc_AuthType w),
     whc_AuthSecret := upd (ui_AuthSecret input) (whc_AuthSecret w), whc_AuthUsername := upd (ui_AuthUsername input) (whc_AuthUsername w),
     whc_CustomHeaders := (if ui_CustomHeaders input = None then whc_CustomHeaders w else ui_CustomHeaders input),
     whc_EventTypes := upd (ui_EventTypes input) (whc_EventTypes w), whc_TimeoutSeconds := upd (ui_TimeoutSeconds input) (whc_TimeoutSeconds w),
     whc_MaxRetries := upd (ui_MaxRetries input) (whc_MaxRetries w),
     whc_RetryBackoffMultiplier := upd (ui_RetryBackoffMultiplier input) (whc_RetryBackoffMultiplier w),
     whc_InitialRetryDelaySeconds := upd (ui_InitialRetryDelaySeconds input) (whc_InitialRetryDelaySeconds w),
     whc_RateLimitPerMinute := upd (ui_RateLimitPerMinute input) (whc_RateLimitPerMinute w),
     whc_RateLimitPerHour := upd (ui_RateLimitPerHour input) (whc_RateLimitPerHour w),
     whc_CircuitBreakerEnabled := upd (ui_CircuitBreakerEnabled input) (whc_CircuitBreakerEnabled w),
     whc_CircuitBreakerThreshold := upd (ui_CircuitBreakerThreshold input) (whc_CircuitBreakerThreshold w),
     whc_CircuitBreakerTimeoutSeconds := upd (ui_CircuitBreakerTimeoutSeconds input) (whc_CircuitBreakerTimeoutSeconds w)\<rparr>"

definition audit_of_webhook :: "WebhookConfiguration \<Rightarrow> (string \<times> audit_value) list" where
  "audit_of_webhook w = [(''name'', AuditString (whc_Name w)), (''url'', AuditString (whc_URL w)), (''enabled'', AuditBool (whc_Enabled w)),
     (''auth_type'', AuditString (WebhookAuthType_text (whc_AuthType w))), (''event_types'', AuditStrings (whc_EventTypes w))]"

definition UpdateWebhookConfiguration ::
    "'st webhook_ops \<Rightarrow> webhook_draw \<Rightarrow> UpdateWebhookConfigInput \<Rightarrow> 'st \<Rightarrow> (webhook_error + WebhookConfiguration) \<times> 'st" where
  "UpdateWebhookConfiguration ops dr input = with_config ops (ui_ID input) (ui_UserID input) (\<lambda>old st.
     let config = (apply_webhook_update input old)\<lparr>whc_UpdatedAt := wd_now dr\<rparr> in
     if \<not> WebhookConfiguration_IsValid config then (Inl InvalidWebhook, st)
     else case who_Update ops (wd_dbnow dr) config st of
       (Some e, st1) \<Rightarrow> (Inl (WebhookRepoFailed ''update webhook configuration'' e), st1)
     | (None, st1) \<Rightarrow>
         (Inr config, snd (who_CreateAudit ops (audit_entry dr (wd_audit_now dr) (whc_ID config) (ui_UserID input) ''updated''
            (Some (audit_of_webhook old)) (Some (audit_of_webhook config))) st1)))"

definition DeleteWebhookConfiguration :: "'st webhook_ops \<Rightarrow> webhook_draw \<Rightarrow> uuid \<Rightarrow> uuid \<Rightarrow> 'st \<Rightarrow> (webhook_error + unit) \<times> 'st" where
  "DeleteWebhookConfiguration ops dr i u = with_config ops i u (\<lambda>config st.
     let st1 = snd (who_CreateAudit ops (audit_entry dr (wd_audit_now dr) (whc_ID config) u ''deleted''
           (Some [(''name'', AuditString (whc_Name config)), (''url'', AuditString (whc_URL config)), (''enabled'', AuditBool (whc_Enabled config))]) None) st)
     in case who_Delete ops i st1 of
          (Some e, st2) \<Rightarrow> (Inl (WebhookRepoFailed ''delete webhook configuration'' e), st2)
        | (None, st2) \<Rightarrow> (Inr (), st2))"

definition EnableWebhookConfiguration :: "'st webhook_ops \<Rightarrow> webhook_draw \<Rightarrow> uuid \<Rightarrow> uuid \<Rightarrow> 'st \<Rightarrow> (webhook_error + unit) \<times> 'st" where
  "EnableWebhookConfiguration ops dr i u = with_config ops i u (\<lambda>config st.
     if whc_Enabled config then (Inr (), st)
     else case who_Update ops (wd_dbnow dr) (config\<lparr>whc_Enabled := True, whc_UpdatedAt := wd_now dr\<rparr>) st of
       (Some e, st1) \<Rightarrow> (Inl (WebhookRepoFailed ''enable webhook configuration'' e), st1)
     | (None, st1) \<Rightarrow> (Inr (), snd (who_CreateAudit ops (audit_entry dr (wd_audit_now dr) (whc_ID config) u ''enabled'' None None) st1)))"

definition DisableWebhookConfiguration :: "'st webhook_ops \<Rightarrow> webhook_draw \<Rightarrow> uuid \<Rightarrow> uuid \<Rightarrow> 'st \<Rightarrow> (webhook_error + unit) \<times> 'st" where
  "DisableWebhookConfiguration ops dr i u = with_config ops i u (\<lambda>config st.
     if \<not> whc_Enabled config then (Inr (), st)
     else case who_Update ops (wd_dbnow dr) (config\<lparr>whc_Enabled := False, whc_UpdatedAt := wd_now dr\<rparr>) st of
       (Some e, st1) \<Rightarrow> (Inl (WebhookRepoFailed ''disable webhook configuration'' e), st1)
     | (None, st1) \<Rightarrow> (Inr (), snd (who_CreateAudit ops (audit_entry dr (wd_audit_now dr) (whc_ID config) u ''disabled'' None None) st1)))"

section \<open>Testing\<close>

definition test_payload :: "webhook_draw \<Rightarrow> WebhookConfiguration \<Rightarrow> string" where
  "test_payload dr w =
     (let quote = [char_of (34::nat)]; field = (\<lambda>k v. quote @ k @ quote @ '':'' @ v) in
      ''{'' @ field ''domain_id'' (quote @ uuid_String (whc_DomainID w) @ quote) @ '','' @
      field ''event_type'' (quote @ ''webhook.test'' @ quote) @ '','' @ field ''test'' ''true'' @ '','' @
      field ''timestamp'' (quote @ wd_stamp dr @ quote) @ '','' @ field ''webhook_id'' (quote @ uuid_String (whc_ID w) @ quote) @ ''}'')"

definition applyAuth :: "hmac \<Rightarrow> WebhookConfiguration \<Rightarrow> http_request \<Rightarrow> http_request" where
  "applyAuth hmac w r =
     (case whc_AuthType w of
        WebhookAuthTypeBasic \<Rightarrow> if whc_AuthUsername w \<noteq> [] then SetBasicAuth (whc_AuthUsername w) [] r else r
      | WebhookAuthTypeHMACSHA256 \<Rightarrow>
          r\<lparr>req_Header := Header_Set ''X-MailVault-Signature''
              (''sha256='' @ hex_encode (hmac (Header_Get ''X-MailVault-Webhook-ID'' (req_Header r)) (req_Body r))) (req_Header r)\<rparr>
      | _ \<Rightarrow> r)"

definition test_request :: "hmac \<Rightarrow> webhook_draw \<Rightarrow> WebhookConfiguration \<Rightarrow> http_request option" where
  "test_request hmac dr w =
     map_option (\<lambda>r. applyAuth hmac w (r\<lparr>req_Header := set_all (case whc_CustomHeaders w of None \<Rightarrow> [] | Some kvs \<Rightarrow> kvs)
         (set_all [(''Content-Type'', ''application/json''), (''User-Agent'', ''MailVault-Webhook-Test/1.0''),
                   (''X-MailVault-Event'', ''webhook.test''), (''X-MailVault-Webhook-ID'', uuid_String (whc_ID w))] [])\<rparr>))
       (NewRequest (or_default [] ''POST'' (whc_Method w)) (whc_URL w) (test_payload dr w))"

text \<open>\<open>http\<close> is the exchange with the endpoint within the timeout; a body that ends early is kept as far as it came.\<close>

definition deliverTestPayload :: "hmac \<Rightarrow> (http_request \<Rightarrow> http_reply) \<Rightarrow> webhook_draw \<Rightarrow> WebhookConfiguration \<Rightarrow> TestWebhookResult" where
  "deliverTestPayload hmac http dr w =
     (case test_request hmac dr w of
        None \<Rightarrow> \<lparr>tr_Success = False, tr_StatusCode = 0, tr_ResponseTimeMs = 0, tr_ErrorMessage = ''build request: '', tr_ResponseBody = []\<rparr>
      | Some req \<Rightarrow>
          (let reply = (\<lambda>status body. \<lparr>tr_Success = (200 \<le> status \<and> status < 300), tr_StatusCode = status, tr_ResponseTimeMs = wd_elapsed dr,
                 tr_ErrorMessage = [], tr_ResponseBody = take 4096 body\<rparr>)
           in case http req of
                HTTPError e \<Rightarrow> \<lparr>tr_Success = False, tr_StatusCode = 0, tr_ResponseTimeMs = wd_elapsed dr, tr_ErrorMessage = e, tr_ResponseBody = []\<rparr>
              | HTTPReply status body \<Rightarrow> reply status body
              | HTTPCut status body \<Rightarrow> reply status body))"

definition TestWebhookConfiguration ::
    "'st webhook_ops \<Rightarrow> hmac \<Rightarrow> (http_request \<Rightarrow> http_reply) \<Rightarrow> webhook_draw \<Rightarrow> uuid \<Rightarrow> uuid \<Rightarrow> 'st \<Rightarrow> (webhook_error + TestWebhookResult) \<times> 'st" where
  "TestWebhookConfiguration ops hmac http dr i u = with_config ops i u (\<lambda>config st.
     let result = deliverTestPayload hmac http dr config in
     (Inr result, snd (who_CreateAudit ops (audit_entry dr (wd_audit_now dr) (whc_ID config) u ''tested'' None
        (Some [(''success'', AuditBool (tr_Success result)), (''status_code'', AuditInt (tr_StatusCode result)),
               (''response_time_ms'', AuditInt (tr_ResponseTimeMs result)), (''error_message'', AuditString (tr_ErrorMessage result))])) st)))"

section \<open>Health, metrics, audit log and templates\<close>

definition CheckWebhookHealth :: "'st webhook_ops \<Rightarrow> webhook_draw \<Rightarrow> uuid \<Rightarrow> uuid \<Rightarrow> 'st \<Rightarrow> (webhook_error + WebhookHealthCheck) \<times> 'st" where
  "CheckWebhookHealth ops dr i u = with_config ops i u (\<lambda>config st.
     let check = \<lparr>wh_ID = wd_id dr, wh_WebhookConfigID = whc_ID config, wh_CheckType = ''manual'', wh_Status = WebhookHealthStatusHealthy,
                   wh_ResponseTimeMs = Some 100, wh_ResponseStatusCode = Some 200, wh_ErrorMessage = [], wh_CheckedAt = wd_now dr\<rparr>
     in case who_CreateHealthCheck ops check st of
          (Some e, st1) \<Rightarrow> (Inl (WebhookRepoFailed ''create health check'' e), st1)
        | (None, st1) \<Rightarrow> (Inr check, snd (who_Update ops (wd_dbnow dr)
            (config\<lparr>whc_LastHealthCheckAt := Some (wd_now dr), whc_HealthStatus := wh_Status check, whc_UpdatedAt := wd_now dr\<rparr>) st1)))"

definition GetWebhookHealthHistory :: "'st webhook_ops \<Rightarrow> uuid \<Rightarrow> uuid \<Rightarrow> int \<Rightarrow> int \<Rightarrow> 'st \<Rightarrow> (webhook_error + WebhookHealthCheck list) \<times> 'st" where
  "GetWebhookHealthHistory ops i u limit offset = with_config ops i u (\<lambda>_ st.
     repo_result ''get health check history'' (who_GetHealthChecksByConfigID ops i limit offset st))"

definition GetWebhookMetrics :: "'st webhook_ops \<Rightarrow> uuid \<Rightarrow> uuid \<Rightarrow> 'st \<Rightarrow> (webhook_error + WebhookMetrics) \<times> 'st" where
  "GetWebhookMetrics ops i u = with_config ops i u (\<lambda>w st.
     (Inr \<lparr>wm_TotalDeliveries = whc_TotalSuccessCount w + whc_TotalFailureCount w, wm_SuccessCount = whc_TotalSuccessCount w,
           wm_FailureCount = whc_TotalFailureCount w, wm_SuccessRate = GetSuccessRate w, wm_AverageResponseTime = whc_AverageResponseTimeMs w,
           wm_HealthStatus = whc_HealthStatus w, wm_LastSuccess = whc_LastSuccessAt w, wm_LastFailure = whc_LastFailureAt w,
           wm_ConsecutiveFailures = whc_ConsecutiveFailures w, wm_CircuitBreakerState = whc_CircuitBreakerState w\<rparr>, st))"

definition GetWebhookAuditLog :: "'st webhook_ops \<Rightarrow> uuid \<Rightarrow> uuid \<Rightarrow> int \<Rightarrow> int \<Rightarrow> 'st \<Rightarrow> (webhook_error + WebhookConfigurationAudit list) \<times> 'st" where
  "GetWebhookAuditLog ops i u limit offset = with_config ops i u (\<lambda>_ st.
     repo_result ''get audit log'' (who_GetAuditByConfigID ops i limit offset st))"

definition ListWebhookTemplates :: "'st webhook_ops \<Rightarrow> 'st \<Rightarrow> (webhook_error + WebhookConfigurationTemplate list) \<times> 'st" where
  "ListWebhookTemplates ops st = repo_result ''list webhook templates'' (who_GetTemplates ops st)"

definition GetWebhookTemplate :: "'st webhook_ops \<Rightarrow> uuid \<Rightarrow> 'st \<Rightarrow> (webhook_error + WebhookConfigurationTemplate) \<times> 'st" where
  "GetWebhookTemplate ops i st = repo_result ''get webhook template'' (who_GetTemplateByID ops i st)"

definition template_input :: "CreateFromTemplateInput \<Rightarrow> WebhookConfigurationTemplate \<Rightarrow> CreateWebhookConfigInput" where
  "template_input input t = \<lparr>ci_DomainID = ti_DomainID input, ci_UserID = ti_UserID input, ci_Name = ti_Name input, ci_Description = [],
     ci_URL = ti_URL input, ci_Method = wt_DefaultMethod t, ci_AuthType = wt_DefaultAuthType t, ci_AuthSecret = ti_AuthSecret input,
     ci_AuthUsername = [], ci_CustomHeaders = wt_DefaultHeaders t, ci_EventTypes = ti_EventTypes input,
     ci_TimeoutSeconds = wt_DefaultTimeoutSeconds t, ci_MaxRetries = 0, ci_RetryBackoffMultiplier = 0, ci_InitialRetryDelaySeconds = 0,
     ci_RateLimitPerMinute = 0, ci_RateLimitPerHour = 0, ci_CircuitBreakerEnabled = False, ci_CircuitBreakerThreshold = 0,
     ci_CircuitBreakerTimeoutSeconds = 0\<rparr>"

definition CreateFromTemplate ::
    "'st webhook_ops \<Rightarrow> webhook_draw \<Rightarrow> CreateFromTemplateInput \<Rightarrow> 'st \<Rightarrow> (webhook_error + WebhookConfiguration) \<times> 'st" where
  "CreateFromTemplate ops dr input st =
     (case who_GetTemplateByID ops (ti_TemplateID input) st of
        (Inl e, st1) \<Rightarrow> (Inl (WebhookTemplateNotFound e), st1)
      | (Inr t, st1) \<Rightarrow>
          (case CreateWebhookConfiguration ops dr (template_input input t) st1 of
             (Inl e, st2) \<Rightarrow> (Inl e, st2)
           | (Inr config, st2) \<Rightarrow> (Inr config, snd (who_IncrementTemplateUsage ops (wd_dbnow dr) (ti_TemplateID input) st2))))"

end
