(* ===== verification/WebhookSchema.thy ===== *)
theory WebhookSchema
  imports WebhookUseCase MailSchema
begin

text \<open>
  What migration 5 guarantees of the webhook tables: \<open>webhook_ok\<close> is the invariant of keys, unique names, references and the range of every column,
  and every write of the repository keeps it, as does the deletion of a domain, which cascades.
\<close>

section \<open>The invariant\<close>

definition config_id :: "webhook_row \<Rightarrow> uuid" where
  "config_id r = whc_ID (wr_config r)"

definition config_name :: "webhook_row \<Rightarrow> uuid \<times> string" where
  "config_name r = (whc_DomainID (wr_config r), whc_Name (wr_config r))"

definition config_row_ok :: "WebhookConfiguration \<Rightarrow> bool" where
  "config_row_ok w \<longleftrightarrow> list_all in_int32 (int_columns w) \<and> WebhookAuthType_IsValid (whc_AuthType w) \<and>
     WebhookHealthStatus_IsValid (whc_HealthStatus w) \<and> CircuitBreakerState_IsValid (whc_CircuitBreakerState w) \<and> IsValidMethod w \<and>
     (HasPrefix (whc_URL w) ''http://'' \<or> HasPrefix (whc_URL w) ''https://'') \<and> length (whc_URL w) \<le> 2048 \<and> IsValidTimeout w \<and>
     0 \<le> whc_MaxRetries w \<and> whc_MaxRetries w \<le> 10 \<and> 1 \<le> whc_RetryBackoffMultiplier w \<and> whc_RetryBackoffMultiplier w \<le> 5 \<and>
     IsValidRateLimit w \<and> 0 < whc_CircuitBreakerThreshold w \<and> length (whc_Name w) \<le> 255 \<and> Trim (whc_Name w) '' '' \<noteq> []"

definition webhook_ok :: "webhook_db \<Rightarrow> bool" where
  "webhook_ok st \<longleftrightarrow> distinct (map d_ID (mdb_domains st)) \<and>
     distinct (map config_id (wdb_configs st)) \<and> distinct (map config_name (wdb_configs st)) \<and>
     (\<forall>r \<in> set (wdb_configs st). whc_DomainID (wr_config r) \<in> d_ID ` set (mdb_domains st) \<and> config_row_ok (wr_config r)) \<and>
     distinct (map wa_ID (wdb_audit st)) \<and>
     (\<forall>a \<in> set (wdb_audit st). wa_WebhookConfigID a \<in> config_id ` set (wdb_configs st) \<and> wa_Action a \<in> set audit_actions) \<and>
     distinct (map wh_ID (wdb_checks st)) \<and>
     (\<forall>c \<in> set (wdb_checks st). wh_WebhookConfigID c \<in> config_id ` set (wdb_configs st) \<and> wh_CheckType c \<in> set check_types) \<and>
     distinct (map wt_ID (wdb_templates st)) \<and> distinct (map wt_Name (wdb_templates st))"

lemma webhook_ok_faults [simp]: "webhook_ok (st\<lparr>pg_faults := fs\<rparr>) = webhook_ok st"
  by (simp add: webhook_ok_def)

lemma persist_webhook_fields [simp]:
  "whc_ID (persist_webhook w) = whc_ID w" "whc_DomainID (persist_webhook w) = whc_DomainID w" "whc_Name (persist_webhook w) = whc_Name w"
  "whc_CircuitBreakerState (persist_webhook w) = whc_CircuitBreakerState w" "whc_Enabled (persist_webhook w) = whc_Enabled w"
  by (simp_all add: persist_webhook_def)

lemma updated_webhook_fields [simp]:
  "config_id (updated_webhook t w r) = whc_ID w" "wr_nulls (updated_webhook t w r) = []"
  "config_name (updated_webhook t w r) = (whc_DomainID (wr_config r), whc_Name w)"
  "whc_DomainID (wr_config (updated_webhook t w r)) = whc_DomainID (wr_config r)"
  by (simp_all add: updated_webhook_def config_id_def config_name_def)

text \<open>Rounding to hundredths stays within the bounds of the column.\<close>

lemma decimal_3_2_bounds:
  assumes "100 \<le> hundredths x" "hundredths x \<le> 500"
  shows "1 \<le> decimal_3_2 x \<and> decimal_3_2 x \<le> 5"
proof -
  have "(100::rat) \<le> of_int (hundredths x)" "of_int (hundredths x) \<le> (500::rat)"
    using assms by (metis of_int_le_iff of_int_numeral)+
  then have "1 \<le> of_int (hundredths x) / (100::rat)" "of_int (hundredths x) / (100::rat) \<le> 5" by simp_all
  then have "f64 1 \<le> decimal_3_2 x" "decimal_3_2 x \<le> f64 5" unfolding decimal_3_2_def by (auto intro: f64_mono simp del: f64_idem)
  then show ?thesis using f64_of_nat [of 1] f64_of_nat [of 5] by simp
qed

lemma row_check_ok:
  assumes "webhook_row_check w = None"
  shows "config_row_ok (persist_webhook w)"
proof -
  have "100 \<le> hundredths (whc_RetryBackoffMultiplier w) \<and> hundredths (whc_RetryBackoffMultiplier w) \<le> 500"
    using assms by (simp add: webhook_row_check_def split: if_splits)
  then have "1 \<le> decimal_3_2 (whc_RetryBackoffMultiplier w) \<and> decimal_3_2 (whc_RetryBackoffMultiplier w) \<le> 5"
    using decimal_3_2_bounds by blast
  then show ?thesis using assms
    by (simp add: webhook_row_check_def config_row_ok_def persist_webhook_def int_columns_def IsValidMethod_def IsValidTimeout_def
        IsValidRateLimit_def split: if_splits)
qed

lemma config_row_ok_times [simp]:
  "config_row_ok (w\<lparr>whc_DomainID := d, whc_CreatedAt := t, whc_UpdatedAt := t'\<rparr>) = config_row_ok w"
  by (simp add: config_row_ok_def int_columns_def IsValidMethod_def IsValidTimeout_def IsValidRateLimit_def)

section \<open>What a statement leaves\<close>

lemma same_name_iff: "same_webhook_name w r \<longleftrightarrow> config_name r = (whc_DomainID w, whc_Name w)"
  by (auto simp: same_webhook_name_def config_name_def)

text \<open>The outcome of each write: an error that leaves all tables, or the change.\<close>

lemma exec_outcome:
  assumes "(as_error \<circ> exec f) st = (e, st')"
  obtains fs g st1 where "f (st\<lparr>pg_faults := fs\<rparr>) = (g, st1)" "e = None \<longleftrightarrow> (\<exists>x. g = Inr x)" "st' = st1"
  | fs x where "e = Some x" "st' = st\<lparr>pg_faults := fs\<rparr>"
proof -
  obtain r st1 where r: "exec f st = (r, st1)" by fastforce
  then have e: "e = fst (as_error (r, st1))" "st' = st1" using assms by (cases r; simp)+
  show thesis
    using r
  proof (cases rule: exec_cases)
    case (1 fs)
    then show ?thesis using that(1) [of fs r st1] e by (cases r) simp_all
  next
    case (2 x fs)
    then show ?thesis using that(2) e by simp
  qed
qed

lemma webhook_create_outcome:
  assumes "pg_Webhook_Create w st = (e, st')"
  obtains fs where "e = None" "webhook_row_check w = None"
      "\<forall>r \<in> set (wdb_configs st). config_id r \<noteq> whc_ID w \<and> config_name r \<noteq> (whc_DomainID w, whc_Name w)" "whc_DomainID w \<in> d_ID ` set (mdb_domains st)"
      "st' = st\<lparr>pg_faults := fs, wdb_configs := wdb_configs st @ [\<lparr>wr_config = persist_webhook w, wr_nulls = []\<rparr>]\<rparr>"
  | x fs where "e = Some x" "st' = st\<lparr>pg_faults := fs\<rparr>"
  using assms unfolding pg_Webhook_Create_def
proof (cases rule: exec_outcome)
  case (1 fs g st1)
  then show ?thesis using that
    by (cases g) (auto simp: same_name_iff list_ex_iff config_id_def split: option.splits if_splits)
next
  case 2
  then show ?thesis using that by blast
qed

lemma webhook_update_outcome:
  assumes "pg_Webhook_Update t w st = (e, st')"
  obtains fs old where "e = None" "webhook_row_check w = None" "find (\<lambda>r. config_id r = whc_ID w) (wdb_configs st) = Some old"
      "\<forall>r \<in> set (wdb_configs st). config_id r \<noteq> whc_ID w \<longrightarrow> config_name r \<noteq> (whc_DomainID (wr_config old), whc_Name w)"
      "st' = st\<lparr>pg_faults := fs, wdb_configs := map (\<lambda>r. if config_id r = whc_ID w then updated_webhook t w r else r) (wdb_configs st)\<rparr>"
  | x fs where "e = Some x" "st' = st\<lparr>pg_faults := fs\<rparr>"
  using assms unfolding pg_Webhook_Update_def
proof (cases rule: exec_outcome)
  case (1 fs g st1)
  show ?thesis
  proof (cases "find (\<lambda>r. whc_ID (wr_config r) = whc_ID w) (wdb_configs st)")
    case None
    then show ?thesis using 1 that(2) by (auto split: if_splits)
  next
    case (Some old)
    have "whc_Name (wr_config (updated_webhook t w old)) = whc_Name w" by (simp add: updated_webhook_def)
    then show ?thesis using 1 that Some
      by (auto simp: same_name_iff list_ex_iff config_id_def split: option.splits if_splits)
  qed
next
  case 2
  then show ?thesis using that by blast
qed

lemma webhook_delete_outcome:
  assumes "pg_Webhook_Delete i st = (e, st')"
  obtains fs where "e = None" "st' = st\<lparr>pg_faults := fs, wdb_configs := filter (\<lambda>r. config_id r \<noteq> i) (wdb_configs st),
      wdb_audit := filter (\<lambda>a. wa_WebhookConfigID a \<noteq> i) (wdb_audit st), wdb_checks := filter (\<lambda>c. wh_WebhookConfigID c \<noteq> i) (wdb_checks st)\<rparr>"
  | x fs where "e = Some x" "st' = st\<lparr>pg_faults := fs\<rparr>"
  using assms unfolding pg_Webhook_Delete_def
proof (cases rule: exec_outcome)
  case (1 fs g st1)
  then show ?thesis using that by (cases g) (auto simp: config_id_def split: if_splits)
next
  case 2
  then show ?thesis using that by blast
qed

lemma audit_outcome:
  assumes "pg_CreateAudit inet a st = (e, st')"
  obtains fs ip where "e = None" "wa_IPAddress a \<noteq> []" "wa_Action a \<in> set audit_actions" "\<forall>r \<in> set (wdb_audit st). wa_ID r \<noteq> wa_ID a"
      "wa_WebhookConfigID a \<in> config_id ` set (wdb_configs st)"
      "st' = st\<lparr>pg_faults := fs, wdb_audit := wdb_audit st @ [a\<lparr>wa_IPAddress := ip, wa_CreatedAt := trunc_us (wa_CreatedAt a)\<rparr>]\<rparr>"
  | x fs where "e = Some x" "st' = st\<lparr>pg_faults := fs\<rparr>"
  using assms unfolding pg_CreateAudit_def
proof (cases rule: exec_outcome)
  case (1 fs g st1)
  then show ?thesis using that
    by (cases g) (auto simp: list_ex_iff config_id_def split: option.splits if_splits)
next
  case 2
  then show ?thesis using that by blast
qed

lemma check_outcome:
  assumes "pg_CreateHealthCheck c st = (e, st')"
  obtains fs where "e = None" "wh_CheckType c \<in> set check_types" "\<forall>r \<in> set (wdb_checks st). wh_ID r \<noteq> wh_ID c"
      "wh_WebhookConfigID c \<in> config_id ` set (wdb_configs st)"
      "st' = st\<lparr>pg_faults := fs, wdb_checks := wdb_checks st @ [c\<lparr>wh_CheckedAt := trunc_us (wh_CheckedAt c)\<rparr>]\<rparr>"
  | x fs where "e = Some x" "st' = st\<lparr>pg_faults := fs\<rparr>"
  using assms unfolding pg_CreateHealthCheck_def
proof (cases rule: exec_outcome)
  case (1 fs g st1)
  then show ?thesis using that
    by (cases g) (auto simp: list_ex_iff config_id_def split: if_splits)
next
  case 2
  then show ?thesis using that by blast
qed

section \<open>Every write keeps the invariant\<close>

lemma webhook_create_keeps:
  assumes "webhook_ok st" "pg_Webhook_Create w st = (e, st')"
  shows "webhook_ok st'"
  using assms(2)
proof (cases rule: webhook_create_outcome)
  case (1 fs)
  then show ?thesis using assms(1) row_check_ok [of w]
    by (auto simp: webhook_ok_def config_id_def config_name_def image_iff)
next
  case 2
  then show ?thesis using assms(1) by simp
qed

lemma webhook_ok_configs:
  assumes "webhook_ok st" "map config_id cs = map config_id (wdb_configs st)" "distinct (map config_name cs)"
    and "\<forall>r \<in> set cs. whc_DomainID (wr_config r) \<in> d_ID ` set (mdb_domains st) \<and> config_row_ok (wr_config r)"
  shows "webhook_ok (st\<lparr>pg_faults := fs, wdb_configs := cs\<rparr>)"
proof -
  have "config_id ` set cs = config_id ` set (wdb_configs st)" using assms(2) by (metis list.set_map)
  then show ?thesis using assms unfolding webhook_ok_def by simp
qed

lemma webhook_ok_templates:
  assumes "webhook_ok st" "distinct (map wt_ID ts)" "distinct (map wt_Name ts)"
  shows "webhook_ok (st\<lparr>pg_faults := fs, wdb_templates := ts\<rparr>)"
  using assms unfolding webhook_ok_def by simp

lemma webhook_update_keeps:
  assumes "webhook_ok st" "pg_Webhook_Update t w st = (e, st')"
  shows "webhook_ok st'"
  using assms(2)
proof (cases rule: webhook_update_outcome)
  case (1 fs old)
  let ?g = "\<lambda>r. if config_id r = whc_ID w then updated_webhook t w r else r"
  have old: "old \<in> set (wdb_configs st)" "config_id old = whc_ID w" using find_SomeD [OF 1(3)] by simp_all
  have ids: "map config_id (map ?g (wdb_configs st)) = map config_id (wdb_configs st)" by simp
  have only: "r = old" if "r \<in> set (wdb_configs st)" "config_id r = whc_ID w" for r
    using that old assms(1) by (auto simp: webhook_ok_def distinct_map inj_on_def)
  have g: "map ?g (wdb_configs st) = map (\<lambda>r. if config_id r = whc_ID w then updated_webhook t w old else r) (wdb_configs st)"
    using only by auto
  have names: "distinct (map config_name (map ?g (wdb_configs st)))"
    unfolding g
    using assms(1) 1(4)
    by (intro distinct_update [where k = config_id and v = "(whc_DomainID (wr_config old), whc_Name w)"]) (simp_all add: webhook_ok_def)
  have "config_row_ok (wr_config (updated_webhook t w r))" for r
    using row_check_ok [OF 1(2)] by (simp add: updated_webhook_def)
  then have "\<forall>r \<in> set (map ?g (wdb_configs st)). whc_DomainID (wr_config r) \<in> d_ID ` set (mdb_domains st) \<and> config_row_ok (wr_config r)"
    using assms(1) by (auto simp: webhook_ok_def)
  then show ?thesis unfolding 1(5) using ids names assms(1) by (intro webhook_ok_configs)
next
  case 2
  then show ?thesis using assms(1) by simp
qed

lemma webhook_delete_keeps:
  assumes "webhook_ok st" "pg_Webhook_Delete i st = (e, st')"
  shows "webhook_ok st'"
  using assms(2)
proof (cases rule: webhook_delete_outcome)
  case (1 fs)
  then show ?thesis using assms(1) by (auto simp: webhook_ok_def distinct_map_filter)
next
  case 2
  then show ?thesis using assms(1) by simp
qed

lemma audit_keeps:
  assumes "webhook_ok st" "pg_CreateAudit inet a st = (e, st')"
  shows "webhook_ok st'"
  using assms(2)
proof (cases rule: audit_outcome)
  case (1 fs ip)
  then show ?thesis using assms(1) by (auto simp: webhook_ok_def image_iff)
next
  case 2
  then show ?thesis using assms(1) by simp
qed

lemma check_keeps:
  assumes "webhook_ok st" "pg_CreateHealthCheck c st = (e, st')"
  shows "webhook_ok st'"
  using assms(2)
proof (cases rule: check_outcome)
  case (1 fs)
  then show ?thesis using assms(1) by (auto simp: webhook_ok_def image_iff)
next
  case 2
  then show ?thesis using assms(1) by simp
qed

text \<open>Templates.\<close>

lemma template_create_keeps:
  assumes "webhook_ok st" "pg_CreateTemplate t st = (e, st')"
  shows "webhook_ok st'"
  using assms(2) unfolding pg_CreateTemplate_def
proof (cases rule: exec_outcome)
  case (1 fs g st1)
  let ?ts = "wdb_templates st @ [persist_template t]"
  have "webhook_ok (st\<lparr>pg_faults := fs, wdb_templates := ?ts\<rparr>)"
    if "\<not> list_ex (\<lambda>r. wt_ID r = wt_ID t \<or> wt_Name r = wt_Name t) (wdb_templates st)"
    using that assms(1) by (intro webhook_ok_templates) (auto simp: webhook_ok_def persist_template_def list_ex_iff)
  then show ?thesis using 1 assms(1) by (auto split: option.splits if_splits)
next
  case 2
  then show ?thesis using assms(1) by simp
qed

lemma template_update_keeps:
  assumes "webhook_ok st" "pg_UpdateTemplate now t st = (e, st')"
  shows "webhook_ok st'"
  using assms(2) unfolding pg_UpdateTemplate_def
proof (cases rule: exec_outcome)
  case (1 fs g st1)
  let ?new = "\<lambda>r. (persist_template t)\<lparr>wt_CreatedAt := wt_CreatedAt r, wt_UpdatedAt := trunc_us now\<rparr>"
  let ?ts = "map (\<lambda>r. if wt_ID r = wt_ID t then ?new r else r) (wdb_templates st)"
  have f: "wt_ID (?new r) = wt_ID t" "wt_Name (?new r) = wt_Name t" for r by (simp_all add: persist_template_def)
  have names: "distinct (map wt_Name ?ts)" if "\<forall>r \<in> set (wdb_templates st). wt_ID r \<noteq> wt_ID t \<longrightarrow> wt_Name r \<noteq> wt_Name t"
    using assms(1) that f by (intro distinct_update [where k = wt_ID and v = "wt_Name t"]) (simp_all add: webhook_ok_def)
  have ids: "map wt_ID ?ts = map wt_ID (wdb_templates st)" using f by simp
  have "webhook_ok (st\<lparr>pg_faults := fs, wdb_templates := ?ts\<rparr>)"
    if "\<forall>r \<in> set (wdb_templates st). wt_ID r \<noteq> wt_ID t \<longrightarrow> wt_Name r \<noteq> wt_Name t"
  proof (rule webhook_ok_templates [OF assms(1) _ names [OF that]])
    show "distinct (map wt_ID ?ts)" unfolding ids using assms(1) by (simp add: webhook_ok_def)
  qed
  then show ?thesis using 1 assms(1)
    by (auto simp: list_ex_iff split: option.splits if_splits)
next
  case 2
  then show ?thesis using assms(1) by simp
qed

lemma template_usage_keeps:
  assumes "webhook_ok st" "pg_IncrementTemplateUsage now i st = (e, st')"
  shows "webhook_ok st'"
  using assms(2) unfolding pg_IncrementTemplateUsage_def
proof (cases rule: exec_outcome)
  case (1 fs g st1)
  let ?ts = "map (\<lambda>t. if wt_ID t = i then t\<lparr>wt_UsageCount := wt_UsageCount t + 1, wt_UpdatedAt := trunc_us now\<rparr> else t) (wdb_templates st)"
  have ts: "map wt_ID ?ts = map wt_ID (wdb_templates st)" "map wt_Name ?ts = map wt_Name (wdb_templates st)" by simp_all
  have "distinct (map wt_ID ?ts)" "distinct (map wt_Name ?ts)" unfolding ts using assms(1) by (simp_all add: webhook_ok_def)
  then have "webhook_ok (st\<lparr>pg_faults := fs, wdb_templates := ?ts\<rparr>)" by (rule webhook_ok_templates [OF assms(1)])
  then show ?thesis using 1 assms(1) by (auto split: if_splits)
next
  case 2
  then show ?thesis using assms(1) by simp
qed

subsection \<open>Writes to the domains\<close>

lemma on_mail_cases:
  assumes "on_mail f st = (r, st')"
  obtains m where "f (mail_db.truncate st) = (r, m)" "mdb_domains st' = mdb_domains m" "mdb_users st' = mdb_users m"
    "wdb_configs st' = wdb_configs st" "wdb_audit st' = wdb_audit st" "wdb_checks st' = wdb_checks st" "wdb_templates st' = wdb_templates st"
proof -
  obtain r0 m where m: "f (mail_db.truncate st) = (r0, m)" by (rule prod.exhaust)
  then have st': "r0 = r" "st' = mail_db.extend m (mail_db.more st)" using assms by (simp_all add: on_mail_def)
  show thesis
  proof (rule that)
    show "f (mail_db.truncate st) = (r, m)" using m st'(1) by simp
  qed (cases st; simp add: st'(2) mail_db.defs)+
qed

lemma truncate_domains [simp]: "mdb_domains (mail_db.truncate st) = mdb_domains st" "mdb_users (mail_db.truncate st) = mdb_users st"
  by (cases st; simp add: mail_db.defs)+

lemma webhook_ok_domains:
  assumes "webhook_ok st" "wdb_configs st' = wdb_configs st" "wdb_audit st' = wdb_audit st" "wdb_checks st' = wdb_checks st"
    "wdb_templates st' = wdb_templates st" "distinct (map d_ID (mdb_domains st'))" "d_ID ` set (mdb_domains st) \<subseteq> d_ID ` set (mdb_domains st')"
  shows "webhook_ok st'"
  using assms unfolding webhook_ok_def by (simp add: subset_iff)

lemma domain_create_keeps:
  assumes "webhook_ok st" "on_mail (pg_Domain_Create d) st = (e, st')"
  shows "webhook_ok st'"
  using assms(2)
proof (cases rule: on_mail_cases)
  case (1 m)
  have d: "distinct (map d_ID (mdb_domains st))" using assms(1) by (simp add: webhook_ok_def)
  have "distinct (map d_ID (mdb_domains m)) \<and> d_ID ` set (mdb_domains st) \<subseteq> d_ID ` set (mdb_domains m)"
    using 1(1) unfolding pg_Domain_Create_def
  proof (cases rule: exec_outcome)
    case (1 fs g st1)
    then show ?thesis using d by (auto simp: list_ex_iff split: option.splits if_splits) blast
  next
    case 2
    then show ?thesis using d by simp
  qed
  then show ?thesis using 1 by (intro webhook_ok_domains [OF assms(1)]) simp_all
qed

lemma domain_update_keeps:
  assumes "webhook_ok st" "on_mail (pg_Domain_Update d) st = (e, st')"
  shows "webhook_ok st'"
  using assms(2)
proof (cases rule: on_mail_cases)
  case (1 m)
  have d: "distinct (map d_ID (mdb_domains st))" using assms(1) by (simp add: webhook_ok_def)
  have "map d_ID (mdb_domains m) = map d_ID (mdb_domains st)"
    using 1(1) unfolding pg_Domain_Update_def
  proof (cases rule: exec_outcome)
    case (1 fs g st1)
    then show ?thesis by (auto split: option.splits if_splits)
  next
    case 2
    then show ?thesis by simp
  qed
  moreover from this have "d_ID ` set (mdb_domains m) = d_ID ` set (mdb_domains st)" by (metis list.set_map)
  ultimately show ?thesis using 1 d by (intro webhook_ok_domains [OF assms(1)]) simp_all
qed

lemma domain_delete_keeps:
  assumes "webhook_ok st" "pg_Domain_Delete_cascade d st = (e, st')"
  shows "webhook_ok st'"
proof -
  obtain e1 st1 where r: "on_mail (pg_Domain_Delete d) st = (e1, st1)" by fastforce
  from r show ?thesis
  proof (cases rule: on_mail_cases)
    case (1 m)
    have "mdb_domains m = (if e1 = None then filter (\<lambda>r. d_ID r \<noteq> d) (mdb_domains st) else mdb_domains st)"
      using 1(1) unfolding pg_Domain_Delete_def
    proof (cases rule: exec_outcome)
      case (1 fs g st2)
      then show ?thesis by (auto simp: Let_def split: if_splits)
    next
      case 2
      then show ?thesis by simp
    qed
    then have doms: "mdb_domains st1 = (if e1 = None then filter (\<lambda>r. d_ID r \<noteq> d) (mdb_domains st) else mdb_domains st)" using 1(2) by simp
    show ?thesis
    proof (cases e1)
      case None
      have inj: "inj_on config_id (set (wdb_configs st))" using assms(1) by (simp add: webhook_ok_def distinct_map)
      have st': "st' = cascade_webhooks d st1" using assms(2) r None by (simp add: pg_Domain_Delete_cascade_def)
      have stay: "i \<in> config_id ` set (filter (\<lambda>r. whc_DomainID (wr_config r) \<noteq> d) (wdb_configs st))"
        if "i \<in> config_id ` set (wdb_configs st)" "i \<notin> config_id ` {r \<in> set (wdb_configs st). whc_DomainID (wr_config r) = d}" for i
        using that by auto
      show ?thesis using assms(1) 1(4-7) doms None stay unfolding st'
        by (auto simp: webhook_ok_def cascade_webhooks_def Let_def config_id_def [symmetric] distinct_map_filter image_iff)
    next
      case (Some x)
      then have "st' = st1" using assms(2) r by (simp add: pg_Domain_Delete_cascade_def)
      then show ?thesis using 1(4-7) doms Some assms(1) by (intro webhook_ok_domains [OF assms(1)]) (simp_all add: webhook_ok_def)
    qed
  qed
qed

text \<open>All writes to these tables and to the domains they refer to.\<close>

inductive webhook_write :: "webhook_db \<Rightarrow> webhook_db \<Rightarrow> bool" where
  "pg_Webhook_Create w st = (e, st') \<Longrightarrow> webhook_write st st'"
| "pg_Webhook_Update t w st = (e, st') \<Longrightarrow> webhook_write st st'"
| "pg_Webhook_Delete i st = (e, st') \<Longrightarrow> webhook_write st st'"
| "pg_CreateAudit inet a st = (e, st') \<Longrightarrow> webhook_write st st'"
| "pg_CreateHealthCheck c st = (e, st') \<Longrightarrow> webhook_write st st'"
| "pg_CreateTemplate tm st = (e, st') \<Longrightarrow> webhook_write st st'"
| "pg_UpdateTemplate t tm st = (e, st') \<Longrightarrow> webhook_write st st'"
| "pg_IncrementTemplateUsage t i st = (e, st') \<Longrightarrow> webhook_write st st'"
| "on_mail (pg_Domain_Create d) st = (e, st') \<Longrightarrow> webhook_write st st'"
| "on_mail (pg_Domain_Update d) st = (e, st') \<Longrightarrow> webhook_write st st'"
| "pg_Domain_Delete_cascade i st = (e, st') \<Longrightarrow> webhook_write st st'"

lemma webhook_write_keeps: "webhook_write st st' \<Longrightarrow> webhook_ok st \<Longrightarrow> webhook_ok st'"
  by (cases rule: webhook_write.cases)
    (blast intro: webhook_create_keeps webhook_update_keeps webhook_delete_keeps audit_keeps check_keeps template_create_keeps
      template_update_keeps template_usage_keeps domain_create_keeps domain_update_keeps domain_delete_keeps)+

definition empty_webhook_db :: "uuid list \<Rightarrow> webhook_db" where
  "empty_webhook_db us = \<lparr>pg_faults = [], mdb_users = us, mdb_domains = [], mdb_addresses = [], mdb_received = [], mdb_stats = [],
     mdb_validations = [], wdb_configs = [], wdb_audit = [], wdb_checks = [], wdb_templates = []\<rparr>"

text \<open>
  However the writes of the repository and of the domains it refers to follow each other, the webhook tables stay well-formed: identities and the
  names within a domain unique, every configuration of an existing domain and in the ranges of its columns, every audit entry and
  health check of an existing configuration.
\<close>

theorem writes_keep_webhooks:
  assumes "webhook_write\<^sup>*\<^sup>* (empty_webhook_db us) st"
  shows "webhook_ok st"
  using assms
proof (induction rule: rtranclp_induct)
  case base
  show ?case by (simp add: webhook_ok_def empty_webhook_db_def)
next
  case (step st st')
  then show ?case by (blast intro: webhook_write_keeps)
qed

text \<open>A domain with one configuration.\<close>

definition hooked_domain :: Domain where
  "hooked_domain = \<lparr>d_ID = 10, d_UserID = 7, d_Domain = ''a.org'', d_PublicKey = ''x25519:00'', d_APIKey = ''pm_1'', d_StorageEnabled = True,
     d_AutoCreateAddress = False, d_WebhookConfig = None, d_VerificationStatus = VerificationStatusVerified, d_VerificationToken = ''t'',
     d_LastVerificationAttempt = None, d_VerificationError = [], d_VerificationAttempts = 0, d_NextVerificationAttempt = None,
     d_CreatedAt = 0, d_UpdatedAt = 0\<rparr>"

definition sample_hook_input :: CreateWebhookConfigInput where
  "sample_hook_input = \<lparr>ci_DomainID = 10, ci_UserID = 7, ci_Name = ''main'', ci_Description = [], ci_URL = ''https://h.org/x'', ci_Method = [],
     ci_AuthType = WebhookAuthTypeHMACSHA256, ci_AuthSecret = ''secret'', ci_AuthUsername = [], ci_CustomHeaders = None, ci_EventTypes = [],
     ci_TimeoutSeconds = 0, ci_MaxRetries = 0, ci_RetryBackoffMultiplier = 0, ci_InitialRetryDelaySeconds = 0, ci_RateLimitPerMinute = 0,
     ci_RateLimitPerHour = 0, ci_CircuitBreakerEnabled = True, ci_CircuitBreakerThreshold = 1, ci_CircuitBreakerTimeoutSeconds = 0\<rparr>"

definition sample_hook_draw :: webhook_draw where
  "sample_hook_draw = \<lparr>wd_id = 20, wd_now = 1000, wd_audit_id = 30, wd_audit_now = 1000, wd_dbnow = 2000, wd_stamp = ''1970'', wd_elapsed = 5\<rparr>"

definition sample_hook :: WebhookConfiguration where
  "sample_hook = new_webhook sample_hook_draw sample_hook_input"

definition domain_db :: webhook_db where
  "domain_db = (empty_webhook_db [7])\<lparr>mdb_domains := [hooked_domain]\<rparr>"

definition hooked_db :: webhook_db where
  "hooked_db = domain_db\<lparr>wdb_configs := [\<lparr>wr_config = persist_webhook sample_hook, wr_nulls = []\<rparr>]\<rparr>"

lemma hooked_db_run: "webhook_write\<^sup>*\<^sup>* (empty_webhook_db [7]) hooked_db"
proof -
  have "on_mail (pg_Domain_Create hooked_domain) (empty_webhook_db [7]) = (None, domain_db)"
    by (simp add: on_mail_def mail_db.defs pg_Domain_Create_def hooked_domain_def empty_webhook_db_def domain_db_def domain_row_check_def
        in_int32_def persist_domain_def trunc_us_def)
  then have "webhook_write (empty_webhook_db [7]) domain_db" by (rule webhook_write.intros(9))
  moreover have "webhook_row_check sample_hook = None" by code_simp
  then have "pg_Webhook_Create sample_hook domain_db = (None, hooked_db)"
    by (simp add: pg_Webhook_Create_def hooked_db_def domain_db_def empty_webhook_db_def sample_hook_def new_webhook_def sample_hook_input_def
        hooked_domain_def)
  then have "webhook_write domain_db hooked_db" by (rule webhook_write.intros(1))
  ultimately show ?thesis by (rule rtranclp.rtrancl_into_rtrancl [OF r_into_rtranclp])
qed

theorem writes_keep_webhooks_witness: "webhook_ok hooked_db \<and> map config_id (wdb_configs hooked_db) = [20]"
  using writes_keep_webhooks [OF hooked_db_run] by (simp add: hooked_db_def sample_hook_def new_webhook_def sample_hook_draw_def config_id_def)

end
