(* ===== verification/WebhookAccess.thy ===== *)
theory WebhookAccess
  imports WebhookSchema
begin

text \<open>
  Who may do what with webhook configurations. The locale \<open>webhook_store\<close> is the contract of the repository the use cases of
  \<open>domain/webhook_config\<close> rely on: three tables as maps and lists, and what every method does to them. Inside it every call is shown to
  be confined to one configuration of the caller; \<open>wh\<close> is its interpretation on the PostgreSQL repository.
\<close>

section \<open>The contract\<close>

record webhook_view =
  wv_domains :: "uuid \<Rightarrow> Domain option"
  wv_configs :: "uuid \<Rightarrow> webhook_row option"
  wv_audit :: "WebhookConfigurationAudit list"
  wv_checks :: "WebhookHealthCheck list"

abbreviation plain_row :: "WebhookConfiguration \<Rightarrow> webhook_row" where
  "plain_row w \<equiv> \<lparr>wr_config = w, wr_nulls = []\<rparr>"

locale webhook_store =
  fixes ops :: "'st webhook_ops" and ok :: "'st \<Rightarrow> bool" and view :: "'st \<Rightarrow> webhook_view"
  assumes domain_law: "ok st \<Longrightarrow> who_Domain ops i st = (rd, st') \<Longrightarrow>
      ok st' \<and> view st' = view st \<and> (\<forall>d. rd = Inr d \<longrightarrow> wv_domains (view st) i = Some d)"
    and get_law: "ok st \<Longrightarrow> who_GetByID ops i st = (rg, st') \<Longrightarrow>
      ok st' \<and> view st' = view st \<and> (\<forall>w. rg = Inr w \<longrightarrow> wv_configs (view st) i = Some (plain_row w) \<and> whc_ID w = i)"
    and list_law: "ok st \<Longrightarrow> who_GetByDomainID ops dm st = (rl, st') \<Longrightarrow>
      ok st' \<and> view st' = view st \<and> (\<forall>ws w. rl = Inr ws \<longrightarrow> w \<in> set ws \<longrightarrow> wv_configs (view st) (whc_ID w) = Some (plain_row w) \<and> whc_DomainID w = dm)"
    and active_law: "ok st \<Longrightarrow> who_GetActiveByDomainID ops dm st = (rl, st') \<Longrightarrow>
      ok st' \<and> view st' = view st \<and> (\<forall>ws w. rl = Inr ws \<longrightarrow> w \<in> set ws \<longrightarrow>
        wv_configs (view st) (whc_ID w) = Some (plain_row w) \<and> whc_DomainID w = dm \<and> IsActive w)"
    and name_law: "ok st \<Longrightarrow> who_GetByDomainIDAndName ops dm n st = (x, st') \<Longrightarrow> ok st' \<and> view st' = view st"
    and create_law: "ok st \<Longrightarrow> who_Create ops w st = (e, st') \<Longrightarrow>
      ok st' \<and> (if e = None then wv_configs (view st) (whc_ID w) = None \<and> wv_domains (view st) (whc_DomainID w) \<noteq> None \<and>
           view st' = (view st)\<lparr>wv_configs := (wv_configs (view st))(whc_ID w \<mapsto> plain_row (persist_webhook w))\<rparr>
         else view st' = view st)"
    and update_law: "ok st \<Longrightarrow> who_Update ops t w st = (e, st') \<Longrightarrow>
      ok st' \<and> (if e = None then \<exists>row. wv_configs (view st) (whc_ID w) = Some row \<and>
           view st' = (view st)\<lparr>wv_configs := (wv_configs (view st))(whc_ID w \<mapsto> updated_webhook t w row)\<rparr>
         else view st' = view st)"
    and delete_law: "ok st \<Longrightarrow> who_Delete ops i st = (e, st') \<Longrightarrow>
      ok st' \<and> view st' = (if e = None then (view st)\<lparr>wv_configs := (wv_configs (view st))(i := None),
           wv_audit := filter (\<lambda>a. wa_WebhookConfigID a \<noteq> i) (wv_audit (view st)),
           wv_checks := filter (\<lambda>c. wh_WebhookConfigID c \<noteq> i) (wv_checks (view st))\<rparr> else view st)"
    and audit_law: "ok st \<Longrightarrow> who_CreateAudit ops a st = (e, st') \<Longrightarrow>
      ok st' \<and> (if e = None then wa_IPAddress a \<noteq> [] \<and> (\<exists>a'. wa_WebhookConfigID a' = wa_WebhookConfigID a \<and>
           view st' = (view st)\<lparr>wv_audit := wv_audit (view st) @ [a']\<rparr>) else view st' = view st)"
    and check_law: "ok st \<Longrightarrow> who_CreateHealthCheck ops c st = (e, st') \<Longrightarrow>
      ok st' \<and> (if e = None then \<exists>c'. wh_WebhookConfigID c' = wh_WebhookConfigID c \<and>
           view st' = (view st)\<lparr>wv_checks := wv_checks (view st) @ [c']\<rparr> else view st' = view st)"
    and audit_list_law: "ok st \<Longrightarrow> who_GetAuditByConfigID ops i l k st = (as, st') \<Longrightarrow> ok st' \<and> view st' = view st"
    and check_list_law: "ok st \<Longrightarrow> who_GetHealthChecksByConfigID ops i l k st = (cs, st') \<Longrightarrow> ok st' \<and> view st' = view st"
    and template_law: "ok st \<Longrightarrow> who_GetTemplateByID ops i st = (tm, st') \<Longrightarrow> ok st' \<and> view st' = view st"
    and usage_law: "ok st \<Longrightarrow> who_IncrementTemplateUsage ops t i st = (e, st') \<Longrightarrow> ok st' \<and> view st' = view st"

section \<open>The calls of a user\<close>

datatype webhook_call =
    CallCreate CreateWebhookConfigInput | CallGet uuid | CallList uuid | CallUpdate UpdateWebhookConfigInput | CallDelete uuid
  | CallEnable uuid | CallDisable uuid | CallTest uuid | CallHealth uuid | CallHistory uuid int int | CallMetrics uuid
  | CallAudit uuid int int | CallFromTemplate CreateFromTemplateInput

text \<open>Whether a call of user \<open>u\<close> succeeds, and the state it leaves.\<close>

definition succeeds :: "(webhook_error + 'a) \<times> 'st \<Rightarrow> bool \<times> 'st" where
  "succeeds r = (case r of (Inl _, st) \<Rightarrow> (False, st) | (Inr _, st) \<Rightarrow> (True, st))"

lemma succeeds_iff: "succeeds x = (b, st') \<longleftrightarrow> st' = snd x \<and> b = (\<not> isl (fst x))"
  by (cases x; cases "fst x") (auto simp: succeeds_def)

fun run_call ::
    "'st webhook_ops \<Rightarrow> hmac \<Rightarrow> (http_request \<Rightarrow> http_reply) \<Rightarrow> webhook_draw \<Rightarrow> uuid \<Rightarrow> webhook_call \<Rightarrow> 'st \<Rightarrow> bool \<times> 'st" where
  "run_call ops hmac http dr u (CallCreate input) st = succeeds (CreateWebhookConfiguration ops dr (input\<lparr>ci_UserID := u\<rparr>) st)"
| "run_call ops hmac http dr u (CallGet i) st = succeeds (GetWebhookConfiguration ops i u st)"
| "run_call ops hmac http dr u (CallList d) st = succeeds (ListWebhookConfigurations ops d u st)"
| "run_call ops hmac http dr u (CallUpdate input) st = succeeds (UpdateWebhookConfiguration ops dr (input\<lparr>ui_UserID := u\<rparr>) st)"
| "run_call ops hmac http dr u (CallDelete i) st = succeeds (DeleteWebhookConfiguration ops dr i u st)"
| "run_call ops hmac http dr u (CallEnable i) st = succeeds (EnableWebhookConfiguration ops dr i u st)"
| "run_call ops hmac http dr u (CallDisable i) st = succeeds (DisableWebhookConfiguration ops dr i u st)"
| "run_call ops hmac http dr u (CallTest i) st = succeeds (TestWebhookConfiguration ops hmac http dr i u st)"
| "run_call ops hmac http dr u (CallHealth i) st = succeeds (CheckWebhookHealth ops dr i u st)"
| "run_call ops hmac http dr u (CallHistory i l k) st = succeeds (GetWebhookHealthHistory ops i u l k st)"
| "run_call ops hmac http dr u (CallMetrics i) st = succeeds (GetWebhookMetrics ops i u st)"
| "run_call ops hmac http dr u (CallAudit i l k) st = succeeds (GetWebhookAuditLog ops i u l k st)"
| "run_call ops hmac http dr u (CallFromTemplate input) st = succeeds (CreateFromTemplate ops dr (input\<lparr>ti_UserID := u\<rparr>) st)"

text \<open>The existing configuration a call is about.\<close>

fun call_target :: "webhook_call \<Rightarrow> uuid option" where
  "call_target (CallGet i) = Some i"
| "call_target (CallUpdate input) = Some (ui_ID input)"
| "call_target (CallDelete i) = Some i"
| "call_target (CallEnable i) = Some i"
| "call_target (CallDisable i) = Some i"
| "call_target (CallTest i) = Some i"
| "call_target (CallHealth i) = Some i"
| "call_target (CallHistory i l k) = Some i"
| "call_target (CallMetrics i) = Some i"
| "call_target (CallAudit i l k) = Some i"
| "call_target _ = None"

section \<open>Confinement\<close>

definition owned :: "uuid \<Rightarrow> webhook_view \<Rightarrow> uuid \<Rightarrow> bool" where
  "owned u v i \<longleftrightarrow> (\<exists>r d. wv_configs v i = Some r \<and> wv_domains v (whc_DomainID (wr_config r)) = Some d \<and> d_UserID d = u)"

text \<open>Only the configuration \<open>i\<close> and what belongs to it may differ, and no audit entry is new.\<close>

definition only_config :: "uuid \<Rightarrow> webhook_view \<Rightarrow> webhook_view \<Rightarrow> bool" where
  "only_config i v v' \<longleftrightarrow> wv_domains v' = wv_domains v \<and> (\<forall>j. j \<noteq> i \<longrightarrow> wv_configs v' j = wv_configs v j) \<and>
     filter (\<lambda>a. wa_WebhookConfigID a \<noteq> i) (wv_audit v') = filter (\<lambda>a. wa_WebhookConfigID a \<noteq> i) (wv_audit v) \<and>
     set (wv_audit v') \<subseteq> set (wv_audit v) \<and>
     filter (\<lambda>c. wh_WebhookConfigID c \<noteq> i) (wv_checks v') = filter (\<lambda>c. wh_WebhookConfigID c \<noteq> i) (wv_checks v)"

definition confined :: "uuid \<Rightarrow> webhook_view \<Rightarrow> webhook_view \<Rightarrow> bool" where
  "confined u v v' \<longleftrightarrow> v' = v \<or> (\<exists>i. (owned u v i \<or> wv_configs v i = None \<and> owned u v' i) \<and> only_config i v v')"

text \<open>No circuit breaker that is open is closed; its configuration may go.\<close>

definition open_breaker :: "webhook_row option \<Rightarrow> bool" where
  "open_breaker r \<longleftrightarrow> (case r of None \<Rightarrow> False | Some r \<Rightarrow> whc_CircuitBreakerState (wr_config r) = CircuitBreakerStateOpen)"

definition stays_open :: "webhook_view \<Rightarrow> webhook_view \<Rightarrow> bool" where
  "stays_open v v' \<longleftrightarrow> (\<forall>i. open_breaker (wv_configs v i) \<longrightarrow> wv_configs v' i = None \<or> open_breaker (wv_configs v' i))"

lemma only_config_refl [simp]: "only_config i v v"
  by (simp add: only_config_def)

lemma only_config_trans: "only_config i v v1 \<Longrightarrow> only_config i v1 v2 \<Longrightarrow> only_config i v v2"
  by (auto simp: only_config_def)

lemma stays_open_refl [simp]: "stays_open v v"
  by (simp add: stays_open_def)

context webhook_store
begin

text \<open>An audit entry as the use cases write it carries no address and is refused.\<close>

lemma audit_refused:
  assumes "ok st" "who_CreateAudit ops (audit_entry dr t i u act old new) st = (e, st')"
  shows "ok st' \<and> view st' = view st"
  using audit_law [OF assms] by (simp add: audit_entry_def split: if_splits)

lemma audit_refused_snd:
  assumes "ok st"
  shows "ok (snd (who_CreateAudit ops (audit_entry dr t i u act old new) st))"
    and "view (snd (who_CreateAudit ops (audit_entry dr t i u act old new) st)) = view st"
  using audit_refused [OF assms surjective_pairing] by simp_all

lemma get_owned:
  assumes "ok st" "GetWebhookConfiguration ops i u st = (r, st')"
  shows "ok st' \<and> view st' = view st \<and>
    (\<forall>w. r = Inr w \<longrightarrow> owned u (view st) i \<and> wv_configs (view st) i = Some (plain_row w) \<and> whc_ID w = i)"
proof -
  obtain r1 st1 where g: "who_GetByID ops i st = (r1, st1)" by fastforce
  note l = get_law [OF assms(1) g]
  show ?thesis
  proof (cases r1)
    case (Inl e)
    then show ?thesis using assms(2) g l by (auto simp: GetWebhookConfiguration_def)
  next
    case (Inr w)
    obtain r2 st2 where d: "who_Domain ops (whc_DomainID w) st1 = (r2, st2)" by fastforce
    show ?thesis using assms(2) g l Inr d domain_law [OF conjunct1 [OF l] d]
      by (cases r2) (auto simp: GetWebhookConfiguration_def owned_def split: if_splits)
  qed
qed

text \<open>What every call on an existing configuration shares.\<close>

lemma with_config_confined:
  assumes ok: "ok st" and run: "with_config ops i u f st = (r, st')"
    and f: "\<And>w st1 r st'. ok st1 \<Longrightarrow> wv_configs (view st1) i = Some (plain_row w) \<Longrightarrow> whc_ID w = i \<Longrightarrow> f w st1 = (r, st') \<Longrightarrow>
       ok st' \<and> only_config i (view st1) (view st') \<and> stays_open (view st1) (view st')"
  shows "ok st' \<and> confined u (view st) (view st') \<and> stays_open (view st) (view st') \<and>
    (\<not> owned u (view st) i \<longrightarrow> isl r \<and> view st' = view st)"
proof -
  obtain r1 st1 where g: "GetWebhookConfiguration ops i u st = (r1, st1)" by fastforce
  note l = get_owned [OF ok g]
  show ?thesis
  proof (cases r1)
    case (Inl e)
    then show ?thesis using run g l by (auto simp: with_config_def confined_def)
  next
    case (Inr w)
    then have "f w st1 = (r, st')" using run g by (simp add: with_config_def)
    then show ?thesis using f [of st1 w r st'] l Inr unfolding confined_def by metis
  qed
qed

lemma update_confined:
  assumes "ok st" "wv_configs (view st) i = Some (plain_row w)" "who_Update ops t w' st = (e, st')" "whc_ID w' = i"
    and "whc_CircuitBreakerState w' = whc_CircuitBreakerState w"
  shows "ok st' \<and> only_config i (view st) (view st') \<and> stays_open (view st) (view st')"
  using update_law [OF assms(1,3)] assms(2,4,5)
  by (auto simp: only_config_def stays_open_def open_breaker_def updated_webhook_def persist_webhook_def split: if_splits option.splits)

text \<open>Each call after its configuration is loaded.\<close>

definition harmless :: "uuid \<Rightarrow> 'st \<Rightarrow> 'st \<Rightarrow> bool" where
  "harmless i st st' \<longleftrightarrow> ok st' \<and> only_config i (view st) (view st') \<and> stays_open (view st) (view st')"

lemma harmless_same: "ok st' \<Longrightarrow> view st' = view st \<Longrightarrow> harmless i st st'"
  by (simp add: harmless_def)

lemma harmless_after: "harmless i st st1 \<Longrightarrow> ok st2 \<Longrightarrow> view st2 = view st1 \<Longrightarrow> harmless i st st2"
  by (simp add: harmless_def)

lemma update_harmless:
  assumes "ok st" "wv_configs (view st) i = Some (plain_row w)" "who_Update ops t w' st = (e, st')" "whc_ID w' = i"
    and "whc_CircuitBreakerState w' = whc_CircuitBreakerState w"
  shows "harmless i st st'"
  using update_confined [OF assms] by (simp add: harmless_def)

text \<open>An update followed by its audit entry.\<close>

lemma update_then_audit:
  assumes "ok st" "wv_configs (view st) i = Some (plain_row w)" "whc_ID w' = i" "whc_CircuitBreakerState w' = whc_CircuitBreakerState w"
    and run: "(case who_Update ops t w' st of (Some e, st1) \<Rightarrow> (Inl (WebhookRepoFailed s e), st1)
       | (None, st1) \<Rightarrow> (Inr x, snd (who_CreateAudit ops (audit_entry dr ta j u act old new) st1))) = (r, st')"
  shows "harmless i st st'"
proof -
  obtain e st1 where up: "who_Update ops t w' st = (e, st1)" by fastforce
  have h: "harmless i st st1" by (rule update_harmless [OF assms(1,2) up assms(3,4)])
  then have "ok st1" by (simp add: harmless_def)
  then show ?thesis using run up h audit_refused_snd harmless_after [OF h] by (cases e) auto
qed

lemma delete_harmless:
  assumes "ok st" "who_Delete ops i st = (e, st')"
  shows "harmless i st st'"
  using delete_law [OF assms]
  by (auto simp: harmless_def only_config_def stays_open_def split: if_splits)

lemma health_harmless:
  assumes "ok st" "wv_configs (view st) i = Some (plain_row w)" "whc_ID w = i" "wh_WebhookConfigID c = i"
    and run: "(case who_CreateHealthCheck ops c st of (Some e, st1) \<Rightarrow> (Inl (WebhookRepoFailed s e), st1)
       | (None, st1) \<Rightarrow> (Inr x, snd (who_Update ops t w' st1))) = (r, st')"
    and w': "whc_ID w' = i" "whc_CircuitBreakerState w' = whc_CircuitBreakerState w"
  shows "harmless i st st'"
proof -
  obtain e st1 where ch: "who_CreateHealthCheck ops c st = (e, st1)" by fastforce
  note l = check_law [OF assms(1) ch]
  show ?thesis
  proof (cases e)
    case (Some x)
    then show ?thesis using run ch l harmless_same by auto
  next
    case None
    obtain e2 st2 where up: "who_Update ops t w' st1 = (e2, st2)" by fastforce
    have v: "wv_configs (view st1) = wv_configs (view st)" "wv_domains (view st1) = wv_domains (view st)" "wv_audit (view st1) = wv_audit (view st)"
      "filter (\<lambda>c. wh_WebhookConfigID c \<noteq> i) (wv_checks (view st1)) = filter (\<lambda>c. wh_WebhookConfigID c \<noteq> i) (wv_checks (view st))"
      using l None assms(4) by auto
    have "harmless i st1 st2" using update_harmless [OF _ _ up w'] l None assms(2) v(1) by simp
    moreover have "only_config i (view st) (view st1)" "stays_open (view st) (view st1)"
      using v by (simp_all add: only_config_def stays_open_def)
    ultimately have "harmless i st st2" using v(1) by (auto simp: harmless_def stays_open_def intro: only_config_trans)
    then show ?thesis using run ch None up by simp
  qed
qed

abbreviation safe_call :: "uuid \<Rightarrow> 'st \<Rightarrow> 'st \<Rightarrow> bool" where
  "safe_call u st st' \<equiv> ok st' \<and> confined u (view st) (view st') \<and> stays_open (view st) (view st')"

definition call_ok :: "uuid \<Rightarrow> uuid \<Rightarrow> 'st \<Rightarrow> (webhook_error + 'a) \<Rightarrow> 'st \<Rightarrow> bool" where
  "call_ok u i st r st' \<longleftrightarrow> safe_call u st st' \<and> (\<not> owned u (view st) i \<longrightarrow> isl r \<and> view st' = view st)"

lemma config_call:
  assumes "ok st" "with_config ops i u f st = (r, st')"
    and "\<And>w st1 r st'. ok st1 \<Longrightarrow> wv_configs (view st1) i = Some (plain_row w) \<Longrightarrow> whc_ID w = i \<Longrightarrow> f w st1 = (r, st') \<Longrightarrow> harmless i st1 st'"
  shows "call_ok u i st r st'"
  using with_config_confined [OF assms(1,2)] assms(3) by (simp add: harmless_def call_ok_def)

lemma create_safe:
  assumes "ok st" "CreateWebhookConfiguration ops dr input st = (r, st')"
  shows "safe_call (ci_UserID input) st st'"
proof -
  obtain r1 st1 where d: "who_Domain ops (ci_DomainID input) st = (r1, st1)" by fastforce
  obtain r2 st2 where n: "who_GetByDomainIDAndName ops (ci_DomainID input) (ci_Name input) st1 = (r2, st2)" by fastforce
  obtain e st3 where c: "who_Create ops (new_webhook dr input) st2 = (e, st3)" by fastforce
  note l1 = domain_law [OF assms(1) d] note l2 = name_law [OF conjunct1 [OF l1] n] note l3 = create_law [OF conjunct1 [OF l2] c]
  have same: "safe_call (ci_UserID input) st x" if "ok x" "view x = view st" for x using that by (simp add: confined_def)
  show ?thesis
  proof (cases "\<exists>domain. r1 = Inr domain \<and> d_UserID domain = ci_UserID input \<and> isl r2 \<and> e = None \<and> WebhookConfiguration_IsValid (new_webhook dr input)")
    case False
    then show ?thesis using assms(2) d n c l1 l2 l3 same
      by (auto simp: CreateWebhookConfiguration_def Let_def split: sum.splits if_splits option.splits)
  next
    case True
    then obtain domain where t: "r1 = Inr domain" "d_UserID domain = ci_UserID input" "isl r2" "e = None" by blast
    have v: "view st3 = (view st)\<lparr>wv_configs := (wv_configs (view st))(wd_id dr \<mapsto> plain_row (persist_webhook (new_webhook dr input)))\<rparr>"
      "wv_configs (view st) (wd_id dr) = None" using l1 l2 l3 t(4) by (simp_all add: new_webhook_def)
    have "owned (ci_UserID input) (view st3) (wd_id dr)" using v l1 t(1,2) by (simp add: owned_def new_webhook_def)
    then have "confined (ci_UserID input) (view st) (view st3)" using v by (auto simp: confined_def only_config_def)
    moreover have "stays_open (view st) (view st3)" using v by (simp add: stays_open_def open_breaker_def)
    moreover have "ok st'" "view st' = view st3"
      using assms(2) d n c t l3 True audit_refused_snd by (auto simp: CreateWebhookConfiguration_def Let_def split: sum.splits)
    ultimately show ?thesis by simp
  qed
qed

lemma template_safe:
  assumes "ok st" "CreateFromTemplate ops dr input st = (r, st')"
  shows "safe_call (ti_UserID input) st st'"
proof -
  obtain r1 st1 where t: "who_GetTemplateByID ops (ti_TemplateID input) st = (r1, st1)" by fastforce
  note l1 = template_law [OF assms(1) t]
  show ?thesis
  proof (cases r1)
    case (Inl e)
    then show ?thesis using assms(2) t l1 by (simp add: CreateFromTemplate_def confined_def)
  next
    case (Inr tm)
    obtain r2 st2 where c: "CreateWebhookConfiguration ops dr (template_input input tm) st1 = (r2, st2)" by fastforce
    have s2: "safe_call (ti_UserID input) st1 st2" using create_safe [OF conjunct1 [OF l1] c] by (simp add: template_input_def)
    obtain e st3 where "who_IncrementTemplateUsage ops (wd_dbnow dr) (ti_TemplateID input) st2 = (e, st3)" by fastforce
    then show ?thesis using assms(2) t Inr c s2 l1 usage_law [of st2]
      by (auto simp: CreateFromTemplate_def split: sum.splits)
  qed
qed

lemma list_safe:
  assumes "ok st" "ListWebhookConfigurations ops d u st = (r, st')"
  shows "safe_call u st st' \<and> (\<forall>ws w. r = Inr ws \<longrightarrow> w \<in> set ws \<longrightarrow> owned u (view st) (whc_ID w))"
proof -
  obtain r1 st1 where d: "who_Domain ops d st = (r1, st1)" by fastforce
  note l1 = domain_law [OF assms(1) d]
  obtain r2 st2 where g: "who_GetByDomainID ops d st1 = (r2, st2)" by fastforce
  note l2 = list_law [OF conjunct1 [OF l1] g]
  show ?thesis using assms(2) d g l1 l2
    by (cases r1; cases r2) (auto simp: ListWebhookConfigurations_def repo_result_def confined_def owned_def split: if_splits)
qed

text \<open>Every call that needs an existing configuration is one of these.\<close>

lemma delete_call:
  assumes "ok st" "DeleteWebhookConfiguration ops dr i u st = (r, st')"
  shows "call_ok u i st r st'"
  using assms unfolding DeleteWebhookConfiguration_def
proof (rule config_call)
  fix w :: WebhookConfiguration and st1 r st2
  let ?log = "snd (who_CreateAudit ops (audit_entry dr (wd_audit_now dr) (whc_ID w) u ''deleted''
           (Some [(''name'', AuditString (whc_Name w)), (''url'', AuditString (whc_URL w)), (''enabled'', AuditBool (whc_Enabled w))]) None) st1)"
  assume "ok st1" and run: "(let st1 = ?log in case who_Delete ops i st1 of
          (Some e, st2) \<Rightarrow> (Inl (WebhookRepoFailed ''delete webhook configuration'' e), st2) | (None, st2) \<Rightarrow> (Inr (), st2)) = (r, st2)"
  then have l: "ok ?log" "view ?log = view st1" by (simp_all add: audit_refused_snd)
  obtain e st3 where "who_Delete ops i ?log = (e, st3)" by fastforce
  moreover from this have "harmless i ?log st3" by (rule delete_harmless [OF l(1)])
  ultimately show "harmless i st1 st2" using run l by (auto simp: harmless_def Let_def split: option.splits)
qed

lemma update_call:
  assumes "ok st" "UpdateWebhookConfiguration ops dr input st = (r, st')"
  shows "call_ok (ui_UserID input) (ui_ID input) st r st'"
  using assms unfolding UpdateWebhookConfiguration_def
proof (rule config_call)
  fix w :: WebhookConfiguration and st1 r st2
  let ?new = "(apply_webhook_update input w)\<lparr>whc_UpdatedAt := wd_now dr\<rparr>"
  assume st1: "ok st1" "wv_configs (view st1) (ui_ID input) = Some (plain_row w)" "whc_ID w = ui_ID input"
  have f: "whc_ID ?new = ui_ID input" "whc_CircuitBreakerState ?new = whc_CircuitBreakerState w"
    using st1(3) by (simp_all add: apply_webhook_update_def)
  assume "(let config = ?new in
       if \<not> WebhookConfiguration_IsValid config then (Inl InvalidWebhook, st1)
       else case who_Update ops (wd_dbnow dr) config st1 of
         (Some e, st1) \<Rightarrow> (Inl (WebhookRepoFailed ''update webhook configuration'' e), st1)
       | (None, st1) \<Rightarrow> (Inr config, snd (who_CreateAudit ops (audit_entry dr (wd_audit_now dr) (whc_ID config) (ui_UserID input) ''updated''
            (Some (audit_of_webhook w)) (Some (audit_of_webhook config))) st1))) = (r, st2)"
  then show "harmless (ui_ID input) st1 st2"
    using update_then_audit [OF st1(1,2) f] st1(1) harmless_same by (simp only: Let_def split: if_splits) fastforce+
qed

lemma enable_call:
  assumes "ok st" "EnableWebhookConfiguration ops dr i u st = (r, st')"
  shows "call_ok u i st r st'"
  using assms unfolding EnableWebhookConfiguration_def
proof (rule config_call)
  fix w :: WebhookConfiguration and st1 r st2
  let ?new = "w\<lparr>whc_Enabled := True, whc_UpdatedAt := wd_now dr\<rparr>"
  assume st1: "ok st1" "wv_configs (view st1) i = Some (plain_row w)" "whc_ID w = i"
  assume "(if whc_Enabled w then (Inr (), st1) else case who_Update ops (wd_dbnow dr) ?new st1 of
       (Some e, st1) \<Rightarrow> (Inl (WebhookRepoFailed ''enable webhook configuration'' e), st1)
     | (None, st1) \<Rightarrow> (Inr (), snd (who_CreateAudit ops (audit_entry dr (wd_audit_now dr) (whc_ID w) u ''enabled'' None None) st1))) = (r, st2)"
  then show "harmless i st1 st2"
    using update_then_audit [OF st1(1,2), of ?new] st1 harmless_same by (simp split: if_splits)
qed

lemma disable_call:
  assumes "ok st" "DisableWebhookConfiguration ops dr i u st = (r, st')"
  shows "call_ok u i st r st'"
  using assms unfolding DisableWebhookConfiguration_def
proof (rule config_call)
  fix w :: WebhookConfiguration and st1 r st2
  let ?new = "w\<lparr>whc_Enabled := False, whc_UpdatedAt := wd_now dr\<rparr>"
  assume st1: "ok st1" "wv_configs (view st1) i = Some (plain_row w)" "whc_ID w = i"
  assume "(if \<not> whc_Enabled w then (Inr (), st1) else case who_Update ops (wd_dbnow dr) ?new st1 of
       (Some e, st1) \<Rightarrow> (Inl (WebhookRepoFailed ''disable webhook configuration'' e), st1)
     | (None, st1) \<Rightarrow> (Inr (), snd (who_CreateAudit ops (audit_entry dr (wd_audit_now dr) (whc_ID w) u ''disabled'' None None) st1))) = (r, st2)"
  then show "harmless i st1 st2"
    using update_then_audit [OF st1(1,2), of ?new] st1 harmless_same by (simp split: if_splits)
qed

lemma test_call:
  assumes "ok st" "TestWebhookConfiguration ops hmac http dr i u st = (r, st')"
  shows "call_ok u i st r st'"
  using assms unfolding TestWebhookConfiguration_def
  by (rule config_call) (auto simp: Let_def audit_refused_snd intro: harmless_same)

lemma health_call:
  assumes "ok st" "CheckWebhookHealth ops dr i u st = (r, st')"
  shows "call_ok u i st r st'"
  using assms unfolding CheckWebhookHealth_def
proof (rule config_call, goal_cases)
  case (1 w st1 r st2)
  then show ?case by (intro health_harmless [OF 1(1-3) _ 1(4) [unfolded Let_def]]) simp_all
qed

lemma read_calls:
  assumes "ok st"
  shows "GetWebhookConfiguration ops i u st = (r, st') \<Longrightarrow> call_ok u i st r st'"
    and "GetWebhookHealthHistory ops i u l k st = (r', st') \<Longrightarrow> call_ok u i st r' st'"
    and "GetWebhookMetrics ops i u st = (r'', st') \<Longrightarrow> call_ok u i st r'' st'"
    and "GetWebhookAuditLog ops i u l k st = (ra, st') \<Longrightarrow> call_ok u i st ra st'"
proof -
  show "call_ok u i st r st'" if "GetWebhookConfiguration ops i u st = (r, st')"
    using get_owned [OF assms that] by (cases r) (auto simp: call_ok_def confined_def)
  show "call_ok u i st r' st'" if "GetWebhookHealthHistory ops i u l k st = (r', st')"
    using assms that unfolding GetWebhookHealthHistory_def
    by (rule config_call) (auto simp: repo_result_def dest: check_list_law intro: harmless_same split: prod.splits sum.splits)
  show "call_ok u i st r'' st'" if "GetWebhookMetrics ops i u st = (r'', st')"
    using assms that unfolding GetWebhookMetrics_def by (rule config_call) (auto intro: harmless_same)
  show "call_ok u i st ra st'" if "GetWebhookAuditLog ops i u l k st = (ra, st')"
    using assms that unfolding GetWebhookAuditLog_def
    by (rule config_call) (auto simp: repo_result_def dest: audit_list_law intro: harmless_same split: prod.splits sum.splits)
qed

lemma call_ok_run:
  assumes "call_ok u i st (fst x) (snd x)" "succeeds x = (b, st')"
  shows "safe_call u st st' \<and> (\<not> owned u (view st) i \<longrightarrow> \<not> b \<and> view st' = view st)"
  using assms by (auto simp: call_ok_def succeeds_iff)

lemma run_call_safe:
  assumes ok: "ok st" and run: "run_call ops hmac http dr u c st = (b, st')"
  shows "safe_call u st st' \<and> (\<forall>i. call_target c = Some i \<longrightarrow> \<not> owned u (view st) i \<longrightarrow> \<not> b \<and> view st' = view st)"
proof (cases c)
  case (CallCreate input)
  then show ?thesis using run create_safe [OF ok surjective_pairing, of dr "input\<lparr>ci_UserID := u\<rparr>"] by (simp add: succeeds_iff)
next
  case (CallGet i)
  then have r: "succeeds (GetWebhookConfiguration ops i u st) = (b, st')" using run by simp
  show ?thesis using call_ok_run [OF read_calls(1) [OF ok surjective_pairing] r] CallGet by simp
next
  case (CallList d)
  then show ?thesis using run list_safe [OF ok surjective_pairing, of d u] by (simp add: succeeds_iff)
next
  case (CallUpdate input)
  then have r: "succeeds (UpdateWebhookConfiguration ops dr (input\<lparr>ui_UserID := u\<rparr>) st) = (b, st')" using run by simp
  show ?thesis using call_ok_run [OF update_call [OF ok surjective_pairing] r] CallUpdate by simp
next
  case (CallDelete i)
  then have r: "succeeds (DeleteWebhookConfiguration ops dr i u st) = (b, st')" using run by simp
  show ?thesis using call_ok_run [OF delete_call [OF ok surjective_pairing] r] CallDelete by simp
next
  case (CallEnable i)
  then have r: "succeeds (EnableWebhookConfiguration ops dr i u st) = (b, st')" using run by simp
  show ?thesis using call_ok_run [OF enable_call [OF ok surjective_pairing] r] CallEnable by simp
next
  case (CallDisable i)
  then have r: "succeeds (DisableWebhookConfiguration ops dr i u st) = (b, st')" using run by simp
  show ?thesis using call_ok_run [OF disable_call [OF ok surjective_pairing] r] CallDisable by simp
next
  case (CallTest i)
  then have r: "succeeds (TestWebhookConfiguration ops hmac http dr i u st) = (b, st')" using run by simp
  show ?thesis using call_ok_run [OF test_call [OF ok surjective_pairing] r] CallTest by simp
next
  case (CallHealth i)
  then have r: "succeeds (CheckWebhookHealth ops dr i u st) = (b, st')" using run by simp
  show ?thesis using call_ok_run [OF health_call [OF ok surjective_pairing] r] CallHealth by simp
next
  case (CallHistory i l k)
  then have r: "succeeds (GetWebhookHealthHistory ops i u l k st) = (b, st')" using run by simp
  show ?thesis using call_ok_run [OF read_calls(2) [OF ok surjective_pairing] r] CallHistory by simp
next
  case (CallMetrics i)
  then have r: "succeeds (GetWebhookMetrics ops i u st) = (b, st')" using run by simp
  show ?thesis using call_ok_run [OF read_calls(3) [OF ok surjective_pairing] r] CallMetrics by simp
next
  case (CallAudit i l k)
  then have r: "succeeds (GetWebhookAuditLog ops i u l k st) = (b, st')" using run by simp
  show ?thesis using call_ok_run [OF read_calls(4) [OF ok surjective_pairing] r] CallAudit by simp
next
  case (CallFromTemplate input)
  then show ?thesis using run template_safe [OF ok surjective_pairing, of dr "input\<lparr>ti_UserID := u\<rparr>"] by (simp add: succeeds_iff)
qed

end

section \<open>The PostgreSQL repository keeps the contract\<close>

definition pg_webhook_view :: "webhook_db \<Rightarrow> webhook_view" where
  "pg_webhook_view st = \<lparr>wv_domains = lookup d_ID (mdb_domains st), wv_configs = lookup config_id (wdb_configs st),
     wv_audit = wdb_audit st, wv_checks = wdb_checks st\<rparr>"

lemma view_faults [simp]: "pg_webhook_view (st\<lparr>pg_faults := fs\<rparr>) = pg_webhook_view st"
  by (simp add: pg_webhook_view_def)

text \<open>A statement that only reads.\<close>

lemma read_law:
  assumes "webhook_ok st" "exec (\<lambda>st. (f st, st)) st = (r, st')"
  shows "webhook_ok st' \<and> pg_webhook_view st' = pg_webhook_view st \<and> (isl r \<or> (\<exists>fs. r = f (st\<lparr>pg_faults := fs\<rparr>)))"
  using assms(2)
proof (cases rule: exec_cases)
  case (1 fs)
  then show ?thesis using assms(1) by auto
next
  case 2
  then show ?thesis using assms(1) by simp
qed

lemma config_lookup: "webhook_ok st \<Longrightarrow> wv_configs (pg_webhook_view st) i = Some r \<longleftrightarrow> r \<in> set (wdb_configs st) \<and> config_id r = i"
  by (simp add: pg_webhook_view_def webhook_ok_def lookup_Some)

lemma scan_row_law: "scan_row (find (\<lambda>r. whc_ID (wr_config r) = i) rs) = Inr w \<Longrightarrow> lookup config_id rs i = Some (plain_row w) \<and> whc_ID w = i"
  by (auto simp: scan_row_def scanWebhookConfig_def lookup_def config_id_def dest: find_SomeD split: option.splits if_splits)

lemma scan_rows_law: "scan_rows rs = Inr ws \<Longrightarrow> w \<in> set ws \<Longrightarrow> plain_row w \<in> set rs"
proof -
  assume "scan_rows rs = Inr ws" "w \<in> set ws"
  then obtain r where r: "r \<in> set rs" "wr_config r = w" "wr_nulls r = []" by (auto simp: scan_rows_def list_ex_iff split: if_splits)
  have "r = plain_row w" using r(2,3) by (cases r) simp
  then show ?thesis using r(1) by simp
qed

lemma pg_domain_law:
  assumes "webhook_ok st" "on_mail (pg_Domain_GetByID i) st = (r, st')"
  shows "webhook_ok st' \<and> pg_webhook_view st' = pg_webhook_view st \<and> (\<forall>d. r = Inr d \<longrightarrow> wv_domains (pg_webhook_view st) i = Some d)"
  using assms(2)
proof (cases rule: on_mail_cases)
  case (1 m)
  have m: "mdb_domains m = mdb_domains st \<and> (\<forall>d. r = Inr d \<longrightarrow> lookup d_ID (mdb_domains st) i = Some d)"
    using 1(1) unfolding pg_Domain_GetByID_def
  proof (cases rule: exec_cases)
    case (1 fs)
    then show ?thesis by (auto simp: one_row_of_def lookup_def split: option.splits)
  next
    case 2
    then show ?thesis by simp
  qed
  then have "webhook_ok st'" using 1 assms(1) by (intro webhook_ok_domains [OF assms(1)]) (simp_all add: webhook_ok_def)
  then show ?thesis using 1 m by (simp add: pg_webhook_view_def)
qed

lemma webhook_update_law:
  assumes "webhook_ok st" "pg_Webhook_Update t w st = (e, st')"
  shows "if e = None then \<exists>row. wv_configs (pg_webhook_view st) (whc_ID w) = Some row \<and>
       pg_webhook_view st' = (pg_webhook_view st)\<lparr>wv_configs := (wv_configs (pg_webhook_view st))(whc_ID w \<mapsto> updated_webhook t w row)\<rparr>
     else pg_webhook_view st' = pg_webhook_view st"
  using assms(2)
proof (cases rule: webhook_update_outcome)
  case (1 fs old)
  have old: "lookup config_id (wdb_configs st) (whc_ID w) = Some old" using 1(3) by (simp add: lookup_def)
  have "lookup config_id (map (\<lambda>r. if config_id r = whc_ID w then updated_webhook t w r else r) rs) =
      (lookup config_id rs)(whc_ID w := map_option (updated_webhook t w) (lookup config_id rs (whc_ID w)))" for rs
  proof
    fix j
    show "lookup config_id (map (\<lambda>r. if config_id r = whc_ID w then updated_webhook t w r else r) rs) j =
        ((lookup config_id rs)(whc_ID w := map_option (updated_webhook t w) (lookup config_id rs (whc_ID w)))) j"
      by (induction rs) (auto simp: lookup_def)
  qed
  then show ?thesis using 1 old by (simp add: pg_webhook_view_def)
next
  case 2
  then show ?thesis by simp
qed

lemma pg_get_law:
  assumes "webhook_ok st" "pg_Webhook_GetByID i st = (r, st')"
  shows "webhook_ok st' \<and> pg_webhook_view st' = pg_webhook_view st \<and>
    (\<forall>w. r = Inr w \<longrightarrow> wv_configs (pg_webhook_view st) i = Some (plain_row w) \<and> whc_ID w = i)"
proof -
  note l = read_law [OF assms(1) assms(2) [unfolded pg_Webhook_GetByID_def]]
  have "wv_configs (pg_webhook_view st) i = Some (plain_row w) \<and> whc_ID w = i" if "r = Inr w" for w
    using l that scan_row_law [of i "wdb_configs st" w] by (auto simp: pg_webhook_view_def)
  then show ?thesis using l by blast
qed

lemma listed_configs:
  assumes "webhook_ok st" "exec (\<lambda>st. (scan_rows (newest_webhooks (filter P (wdb_configs st))), st)) st = (r, st')"
  shows "webhook_ok st' \<and> pg_webhook_view st' = pg_webhook_view st \<and>
    (\<forall>ws w. r = Inr ws \<longrightarrow> w \<in> set ws \<longrightarrow> wv_configs (pg_webhook_view st) (whc_ID w) = Some (plain_row w) \<and> P (plain_row w))"
proof -
  note l = read_law [OF assms]
  have "wv_configs (pg_webhook_view st) (whc_ID w) = Some (plain_row w) \<and> P (plain_row w)" if r: "r = Inr ws" and w: "w \<in> set ws" for ws w
  proof -
    have "scan_rows (newest_webhooks (filter P (wdb_configs st))) = Inr ws" using l r by auto
    then have "plain_row w \<in> set (newest_webhooks (filter P (wdb_configs st)))" using w by (rule scan_rows_law)
    then show ?thesis using config_lookup [OF assms(1)] by (simp add: newest_webhooks_def config_id_def)
  qed
  then show ?thesis using l by blast
qed

lemma webhook_create_law:
  assumes "webhook_ok st" "pg_Webhook_Create w st = (e, st')"
  shows "if e = None then wv_configs (pg_webhook_view st) (whc_ID w) = None \<and> wv_domains (pg_webhook_view st) (whc_DomainID w) \<noteq> None \<and>
       pg_webhook_view st' = (pg_webhook_view st)\<lparr>wv_configs := (wv_configs (pg_webhook_view st))(whc_ID w \<mapsto> plain_row (persist_webhook w))\<rparr>
     else pg_webhook_view st' = pg_webhook_view st"
  using assms(2)
proof (cases rule: webhook_create_outcome)
  case (1 fs)
  have "lookup config_id (wdb_configs st @ [plain_row (persist_webhook w)]) = (lookup config_id (wdb_configs st))(whc_ID w \<mapsto> plain_row (persist_webhook w))"
    using lookup_append [of "wdb_configs st" config_id "plain_row (persist_webhook w)"] 1(3) by (simp add: config_id_def)
  then show ?thesis using 1 by (auto simp: pg_webhook_view_def lookup_None)
next
  case 2
  then show ?thesis by simp
qed

lemma pg_delete_law:
  assumes "pg_Webhook_Delete i st = (e, st')"
  shows "pg_webhook_view st' = (if e = None then (pg_webhook_view st)\<lparr>wv_configs := (wv_configs (pg_webhook_view st))(i := None),
       wv_audit := filter (\<lambda>a. wa_WebhookConfigID a \<noteq> i) (wv_audit (pg_webhook_view st)),
       wv_checks := filter (\<lambda>c. wh_WebhookConfigID c \<noteq> i) (wv_checks (pg_webhook_view st))\<rparr> else pg_webhook_view st)"
  using assms
  by (cases rule: webhook_delete_outcome) (simp_all add: pg_webhook_view_def lookup_remove)

lemma pg_audit_law:
  assumes "pg_CreateAudit inet a st = (e, st')"
  shows "if e = None then wa_IPAddress a \<noteq> [] \<and> (\<exists>a'. wa_WebhookConfigID a' = wa_WebhookConfigID a \<and>
       pg_webhook_view st' = (pg_webhook_view st)\<lparr>wv_audit := wv_audit (pg_webhook_view st) @ [a']\<rparr>) else pg_webhook_view st' = pg_webhook_view st"
  using assms
proof (cases rule: audit_outcome)
  case (1 fs ip)
  let ?a = "a\<lparr>wa_IPAddress := ip, wa_CreatedAt := trunc_us (wa_CreatedAt a)\<rparr>"
  have "wa_WebhookConfigID ?a = wa_WebhookConfigID a" by simp
  moreover have "pg_webhook_view st' = (pg_webhook_view st)\<lparr>wv_audit := wv_audit (pg_webhook_view st) @ [?a]\<rparr>"
    using 1 by (simp add: pg_webhook_view_def)
  ultimately have "\<exists>a'. wa_WebhookConfigID a' = wa_WebhookConfigID a \<and>
      pg_webhook_view st' = (pg_webhook_view st)\<lparr>wv_audit := wv_audit (pg_webhook_view st) @ [a']\<rparr>" by blast
  then show ?thesis using 1(1,2) by simp
next
  case 2
  then show ?thesis by simp
qed

lemma pg_check_law:
  assumes "pg_CreateHealthCheck c st = (e, st')"
  shows "if e = None then \<exists>c'. wh_WebhookConfigID c' = wh_WebhookConfigID c \<and>
       pg_webhook_view st' = (pg_webhook_view st)\<lparr>wv_checks := wv_checks (pg_webhook_view st) @ [c']\<rparr> else pg_webhook_view st' = pg_webhook_view st"
  using assms
proof (cases rule: check_outcome)
  case (1 fs)
  let ?c = "c\<lparr>wh_CheckedAt := trunc_us (wh_CheckedAt c)\<rparr>"
  have "wh_WebhookConfigID ?c = wh_WebhookConfigID c" by simp
  moreover have "pg_webhook_view st' = (pg_webhook_view st)\<lparr>wv_checks := wv_checks (pg_webhook_view st) @ [?c]\<rparr>"
    using 1 by (simp add: pg_webhook_view_def)
  ultimately have "\<exists>c'. wh_WebhookConfigID c' = wh_WebhookConfigID c \<and>
      pg_webhook_view st' = (pg_webhook_view st)\<lparr>wv_checks := wv_checks (pg_webhook_view st) @ [c']\<rparr>" by blast
  then show ?thesis using 1(1) by simp
next
  case 2
  then show ?thesis by simp
qed

lemma pg_usage_law:
  assumes "pg_IncrementTemplateUsage t i st = (e, st')"
  shows "pg_webhook_view st' = pg_webhook_view st"
  using assms unfolding pg_IncrementTemplateUsage_def
  by (cases rule: exec_outcome) (auto simp: pg_webhook_view_def split: if_splits)

lemmas pg_ops_defs = pg_webhook_repo_def webhook_ops.simps

interpretation wh: webhook_store "pg_webhook_repo inet" webhook_ok pg_webhook_view for inet
proof (unfold_locales, unfold pg_ops_defs, goal_cases)
  case (1 i st rd st')
  then show ?case by (rule pg_domain_law)
next
  case (2 i st rg st')
  then show ?case by (rule pg_get_law)
next
  case (3 dm st rl st')
  then show ?case using listed_configs [OF 3(1) 3(2) [unfolded pg_Webhook_GetByDomainID_def]] by simp
next
  case (4 dm st rl st')
  then show ?case using listed_configs [OF 4(1) 4(2) [unfolded pg_Webhook_GetActiveByDomainID_def]] by (simp add: IsActive_def)
next
  case (5 dm n st x st')
  then show ?case using read_law [OF 5(1) 5(2) [unfolded pg_Webhook_GetByDomainIDAndName_def]] by simp
next
  case (6 w st e st')
  then show ?case using webhook_create_law [OF 6] webhook_create_keeps [OF 6] by simp
next
  case (7 t w st e st')
  then show ?case using webhook_update_law [OF 7] webhook_update_keeps [OF 7] by simp
next
  case (8 i st e st')
  then show ?case using pg_delete_law [OF 8(2)] webhook_delete_keeps [OF 8] by simp
next
  case (9 a st e st')
  then show ?case using pg_audit_law [OF 9(2)] audit_keeps [OF 9] by simp
next
  case (10 c st e st')
  then show ?case using pg_check_law [OF 10(2)] check_keeps [OF 10] by simp
next
  case (11 i l k st r st')
  then show ?case using read_law [OF 11(1) 11(2) [unfolded pg_GetAuditByConfigID_def]] by simp
next
  case (12 i l k st r st')
  then show ?case using read_law [OF 12(1) 12(2) [unfolded pg_GetHealthChecksByConfigID_def]] by simp
next
  case (13 i st r st')
  then show ?case using read_law [OF 13(1) 13(2) [unfolded pg_GetTemplateByID_def]] by simp
next
  case (14 t i st e st')
  then show ?case using pg_usage_law [OF 14(2)] template_usage_keeps [OF 14] by simp
qed

section \<open>Properties\<close>

text \<open>
  C6: Webhooks are private to the owner of their domain. Whatever a user calls, the tables stay well-formed and differ at most in one configuration, one
  of a domain of that user, with its audit entries and health checks; a call about an existing configuration of somebody else
  fails and changes nothing.
\<close>

theorem webhooks_private:
  assumes "webhook_ok st" "run_call (pg_webhook_repo inet) hmac http dr u c st = (b, st')"
  shows "webhook_ok st' \<and> confined u (pg_webhook_view st) (pg_webhook_view st') \<and>
    (\<forall>i. call_target c = Some i \<longrightarrow> \<not> owned u (pg_webhook_view st) i \<longrightarrow> \<not> b \<and> pg_webhook_view st' = pg_webhook_view st)"
  using wh.run_call_safe [OF assms] by blast

lemma hooked_db_ok: "webhook_ok hooked_db"
proof -
  have "webhook_row_check sample_hook = None" by code_simp
  then have "config_row_ok (persist_webhook sample_hook)" by (rule row_check_ok)
  then show ?thesis by (simp add: hooked_db_def domain_db_def empty_webhook_db_def webhook_ok_def sample_hook_def new_webhook_def
      sample_hook_input_def hooked_domain_def)
qed

text \<open>User 8 cannot delete the configuration of user 7.\<close>

theorem webhooks_private_witness:
  "\<exists>b st'. run_call (pg_webhook_repo Some) (\<lambda>k m. k) (\<lambda>r. HTTPError []) sample_hook_draw 8 (CallDelete 20) hooked_db = (b, st') \<and>
     \<not> b \<and> pg_webhook_view st' = pg_webhook_view hooked_db"
proof -
  have "\<not> owned 8 (pg_webhook_view hooked_db) 20"
    by (simp add: owned_def pg_webhook_view_def lookup_def hooked_db_def domain_db_def empty_webhook_db_def config_id_def sample_hook_def
        new_webhook_def sample_hook_draw_def sample_hook_input_def hooked_domain_def)
  moreover obtain b st' where r: "run_call (pg_webhook_repo Some) (\<lambda>k m. k) (\<lambda>r. HTTPError []) sample_hook_draw 8 (CallDelete 20) hooked_db = (b, st')"
    by (rule prod.exhaust)
  ultimately have "\<not> b \<and> pg_webhook_view st' = pg_webhook_view hooked_db" using webhooks_private [OF hooked_db_ok r] by simp
  then show ?thesis using r by blast
qed

definition user_call :: "(string \<Rightarrow> string option) \<Rightarrow> hmac \<Rightarrow> (http_request \<Rightarrow> http_reply) \<Rightarrow> webhook_db \<Rightarrow> webhook_db \<Rightarrow> bool" where
  "user_call inet hmac http st st' \<longleftrightarrow> (\<exists>dr u c b. run_call (pg_webhook_repo inet) hmac http dr u c st = (b, st'))"

lemma user_calls_inv:
  assumes "(user_call inet hmac http)\<^sup>*\<^sup>* st st'" "webhook_ok st"
  shows "webhook_ok st' \<and> set (wdb_audit st') \<subseteq> set (wdb_audit st)"
  using assms(1)
proof (induction rule: rtranclp_induct)
  case base
  show ?case using assms(2) by simp
next
  case (step st1 st2)
  then obtain dr u c b where r: "run_call (pg_webhook_repo inet) hmac http dr u c st1 = (b, st2)" by (auto simp: user_call_def)
  note l = wh.run_call_safe [OF conjunct1 [OF step.IH] r]
  then have "set (wdb_audit st2) \<subseteq> set (wdb_audit st1)" by (auto simp: confined_def only_config_def pg_webhook_view_def)
  then show ?case using l step.IH by blast
qed

text \<open>
  C19: No audit trail is kept. Whatever users call in whatever order, not one entry is added to the audit log, although every change writes one: the
  entries carry no address, which the column of type \<open>INET\<close> refuses, and the failure is only logged.
\<close>

theorem no_audit_trail:
  assumes "webhook_ok st" "(user_call inet hmac http)\<^sup>*\<^sup>* st st'"
  shows "set (wdb_audit st') \<subseteq> set (wdb_audit st)"
  using user_calls_inv [OF assms(2,1)] by blast

definition disabled_run :: "bool \<times> webhook_db" where
  "disabled_run = run_call (pg_webhook_repo Some) (\<lambda>k m. k) (\<lambda>r. HTTPError []) sample_hook_draw 7 (CallDisable 20) hooked_db"

theorem no_audit_trail_witness:
  "fst disabled_run \<and> map (\<lambda>r. whc_Enabled (wr_config r)) (wdb_configs (snd disabled_run)) = [False] \<and> wdb_audit (snd disabled_run) = []"
proof -
  have "fst disabled_run" "map (\<lambda>r. whc_Enabled (wr_config r)) (wdb_configs (snd disabled_run)) = [False]" by code_simp+
  moreover have "user_call Some (\<lambda>k m. k) (\<lambda>r. HTTPError []) hooked_db (snd disabled_run)"
    unfolding user_call_def disabled_run_def by (metis surjective_pairing)
  then have "set (wdb_audit (snd disabled_run)) \<subseteq> set (wdb_audit hooked_db)"
    by (intro no_audit_trail [OF hooked_db_ok] r_into_rtranclp)
  ultimately show ?thesis by (simp add: hooked_db_def domain_db_def empty_webhook_db_def)
qed

text \<open>
  The signature of a test delivery proves nothing. Two configurations that differ only in their secret send the same request, and for a configuration that
  signs its deliveries the key of the signature is the value of a header of the same request, so anybody who sees or
  makes a request can sign it.
\<close>

theorem test_signature_public:
  assumes "test_request hmac dr w = Some r" "whc_AuthType w = WebhookAuthTypeHMACSHA256"
  shows "test_request hmac dr (w\<lparr>whc_AuthSecret := s\<rparr>) = Some r \<and>
    Header_Get ''X-MailVault-Signature'' (req_Header r) =
      ''sha256='' @ hex_encode (hmac (Header_Get ''X-MailVault-Webhook-ID'' (req_Header r)) (req_Body r))"
proof -
  have "CanonicalHeaderKey ''X-MailVault-Webhook-ID'' \<noteq> CanonicalHeaderKey ''X-MailVault-Signature''" by code_simp
  then show ?thesis using assms by (auto simp: test_request_def applyAuth_def test_payload_def Header_Get_Set_other)
qed

theorem test_signature_public_witness:
  "\<exists>r. test_request (\<lambda>k m. k) sample_hook_draw (sample_hook\<lparr>whc_AuthSecret := ''other''\<rparr>) = Some r \<and>
     Header_Get ''X-MailVault-Signature'' (req_Header r) = ''sha256='' @ hex_encode (Header_Get ''X-MailVault-Webhook-ID'' (req_Header r))"
proof -
  have "(case test_request (\<lambda>k m. k) sample_hook_draw sample_hook of None \<Rightarrow> False | Some _ \<Rightarrow> True)" by code_simp
  then obtain r where "test_request (\<lambda>k m. k) sample_hook_draw sample_hook = Some r" by (auto split: option.splits)
  moreover have "whc_AuthType sample_hook = WebhookAuthTypeHMACSHA256" by (simp add: sample_hook_def new_webhook_def sample_hook_input_def)
  ultimately show ?thesis using test_signature_public [of "\<lambda>k m. k" sample_hook_draw sample_hook r "''other''"] by simp
qed

end
