(* ===== verification/WebhookClient.thy ===== *)
theory WebhookClient
  imports GoHTTP
begin

text \<open>
  The client that delivers webhooks, \<open>internal/webhook/client.go\<close>: the check of the URL, one attempt with its signature, the retry loop with its
  delays, and the verification of a signature by the receiver.

  HMAC-SHA256 is an argument. The record \<open>send_env\<close> holds what happens outside: the reply to each attempt, the clock in seconds, the duration of
  an attempt, and whether the context ends during the wait after it. Response headers are left out.
\<close>

section \<open>The client\<close>

record ClientConfig =
  cc_Timeout :: duration
  cc_MaxRetries :: int
  cc_BaseDelay :: duration

definition DefaultClientConfig :: ClientConfig where
  "DefaultClientConfig = \<lparr>cc_Timeout = 30 * time_Second, cc_MaxRetries = 5, cc_BaseDelay = 1 * time_Second\<rparr>"

record HTTPClient =
  hc_timeout :: duration
  hc_maxRetries :: int
  hc_baseDelay :: duration
  hc_isTestMode :: bool

definition NewHTTPClient :: "ClientConfig \<Rightarrow> HTTPClient" where
  "NewHTTPClient c = \<lparr>hc_timeout = cc_Timeout c, hc_maxRetries = cc_MaxRetries c, hc_baseDelay = cc_BaseDelay c, hc_isTestMode = False\<rparr>"

text \<open>The payload is its JSON text, or \<open>None\<close> where \<open>json.Marshal\<close> fails.\<close>

record WebhookRequest =
  wq_URL :: string
  wq_Payload :: "string option"
  wq_Secret :: string
  wq_Headers :: "(string \<times> string) list option"

record WebhookResponse =
  ws_StatusCode :: int
  ws_Body :: string
  ws_Duration :: duration
  ws_Attempt :: int
  ws_Success :: bool
  ws_Error :: string
  ws_LastAttemptAt :: instant

record send_env =
  env_http :: "int \<Rightarrow> http_request \<Rightarrow> http_reply"
  env_unix :: "int \<Rightarrow> int"
  env_start :: "int \<Rightarrow> instant"
  env_took :: "int \<Rightarrow> duration"
  env_cancelled :: "int \<Rightarrow> bool"

section \<open>The URL\<close>

datatype url_error = BadURL | BadScheme string | MissingHost | InternalHost

definition private_prefixes :: "string list" where
  "private_prefixes = [''192.168.'', ''10.'', ''172.16.'', ''172.17.'', ''172.18.'', ''172.19.'', ''172.20.'', ''172.21.'', ''172.22.'', ''172.23.'',
     ''172.24.'', ''172.25.'', ''172.26.'', ''172.27.'', ''172.28.'', ''172.29.'', ''172.30.'', ''172.31.'']"

definition isInternalOrPrivateURL :: "URL \<Rightarrow> bool" where
  "isInternalOrPrivateURL parsed \<longleftrightarrow>
     (let host = ToLower (Hostname parsed) in
      host = ''localhost'' \<or> host = ''127.0.0.1'' \<or> host = ''::1'' \<or> list_ex (HasPrefix host) private_prefixes \<or> HasPrefix host ''169.254.'')"

definition validateWebhookURL :: "HTTPClient \<Rightarrow> string \<Rightarrow> url_error option" where
  "validateWebhookURL c webhookURL =
     (case url_Parse webhookURL of
        None \<Rightarrow> Some BadURL
      | Some parsed \<Rightarrow>
          if url_Scheme parsed \<noteq> ''http'' \<and> url_Scheme parsed \<noteq> ''https'' then Some (BadScheme (url_Scheme parsed))
          else if url_Host parsed = [] then Some MissingHost
          else if \<not> hc_isTestMode c \<and> isInternalOrPrivateURL parsed then Some InternalHost
          else None)"

section \<open>Signatures\<close>

definition generateHMACSignature :: "(string \<Rightarrow> string \<Rightarrow> string) \<Rightarrow> string \<Rightarrow> string \<Rightarrow> string \<Rightarrow> string" where
  "generateHMACSignature hmac payload secret timestamp =
     ''t='' @ timestamp @ '',v1='' @ hex_encode (hmac secret (timestamp @ ''.'' @ payload))"

text \<open>The loop over the parts of the header: the last of each kind counts.\<close>

fun signature_parts :: "string list \<Rightarrow> string \<times> string \<Rightarrow> string \<times> string" where
  "signature_parts [] acc = acc"
| "signature_parts (p # ps) (timestamp, sig) =
     signature_parts ps
       (if HasPrefix p ''t='' then (TrimPrefix p ''t='', sig) else if HasPrefix p ''v1='' then (timestamp, TrimPrefix p ''v1='') else (timestamp, sig))"

definition VerifyWebhookSignature :: "(string \<Rightarrow> string \<Rightarrow> string) \<Rightarrow> int \<Rightarrow> string \<Rightarrow> string \<Rightarrow> string \<Rightarrow> bool" where
  "VerifyWebhookSignature hmac now payload signature secret \<longleftrightarrow>
     (let parts = Split CHR '','' signature in
      length parts = 2 \<and>
      (let (timestamp, sig) = signature_parts parts ([], []) in
       timestamp \<noteq> [] \<and> sig \<noteq> [] \<and>
       (case ParseInt timestamp of
          None \<Rightarrow> False
        | Some t \<Rightarrow> \<not> wrap64 (now - t) > 300 \<and> sig = hex_encode (hmac secret (timestamp @ ''.'' @ payload)))))"

section \<open>Sending\<close>

definition webhook_request :: "(string \<Rightarrow> string \<Rightarrow> string) \<Rightarrow> send_env \<Rightarrow> WebhookRequest \<Rightarrow> string \<Rightarrow> int \<Rightarrow> http_request option" where
  "webhook_request hmac env req payload attempt =
     map_option (\<lambda>r.
        let h = set_all (case wq_Headers req of None \<Rightarrow> [] | Some kvs \<Rightarrow> kvs)
                  (set_all [(''Content-Type'', ''application/json''), (''User-Agent'', ''MailVault-Webhook/1.0'')] []);
            timestamp = FormatInt (env_unix env attempt)
        in r\<lparr>req_Header :=
             (if wq_Secret req = [] then h
              else set_all [(''X-MailVault-Signature'', generateHMACSignature hmac payload (wq_Secret req) timestamp),
                            (''X-MailVault-Timestamp'', timestamp), (''X-MailVault-Signature-Version'', ''v1'')] h)\<rparr>)
       (NewRequest ''POST'' (wq_URL req) payload)"

definition attemptWebhook :: "(string \<Rightarrow> string \<Rightarrow> string) \<Rightarrow> send_env \<Rightarrow> WebhookRequest \<Rightarrow> string \<Rightarrow> int \<Rightarrow> WebhookResponse" where
  "attemptWebhook hmac env req payload attempt =
     (let none = \<lparr>ws_StatusCode = 0, ws_Body = [], ws_Duration = env_took env attempt, ws_Attempt = attempt, ws_Success = False, ws_Error = [],
                   ws_LastAttemptAt = env_start env attempt\<rparr>
      in case webhook_request hmac env req payload attempt of
           None \<Rightarrow> none\<lparr>ws_Error := ''failed to create request: ''\<rparr>
         | Some r \<Rightarrow>
             (case env_http env attempt r of
                HTTPError e \<Rightarrow> none\<lparr>ws_Error := ''HTTP request failed: '' @ e\<rparr>
              | HTTPCut status _ \<Rightarrow> none\<lparr>ws_Error := ''failed to read response body: '', ws_StatusCode := status\<rparr>
              | HTTPReply status body \<Rightarrow>
                  (let ok = 200 \<le> status \<and> status < 300 in
                   none\<lparr>ws_StatusCode := status, ws_Body := body, ws_Success := ok,
                        ws_Error := (if ok then [] else ''HTTP '' @ FormatInt status @ '': '' @ body)\<rparr>)))"

definition shouldRetry :: "HTTPClient \<Rightarrow> int \<Rightarrow> int \<Rightarrow> bool" where
  "shouldRetry c statusCode attempt \<longleftrightarrow> \<not> attempt \<ge> hc_maxRetries c \<and> statusCode \<in> {0, 408, 429, 500, 502, 503, 504}"

definition calculateDelay :: "HTTPClient \<Rightarrow> int \<Rightarrow> duration" where
  "calculateDelay c attempt =
     (let delay = wrap64 (hc_baseDelay c * shl64 1 (nat (attempt - 1))) in if delay > 30 * time_Second then 30 * time_Second else delay)"

text \<open>The retry loop from an attempt on: the delays it slept, the last response, and whether the context ended in a wait.\<close>

function send_loop ::
    "(string \<Rightarrow> string \<Rightarrow> string) \<Rightarrow> HTTPClient \<Rightarrow> send_env \<Rightarrow> WebhookRequest \<Rightarrow> string \<Rightarrow> int \<Rightarrow> duration list \<times> WebhookResponse \<times> bool" where
  "send_loop hmac c env req payload attempt =
     (let response = attemptWebhook hmac env req payload attempt in
      if ws_Success response \<or> \<not> shouldRetry c (ws_StatusCode response) attempt then ([], response, False)
      else if attempt < hc_maxRetries c then
        (if env_cancelled env attempt then ([], response, True)
         else case send_loop hmac c env req payload (attempt + 1) of
           (delays, last_response, cancelled) \<Rightarrow> (calculateDelay c attempt # delays, last_response, cancelled))
      else ([], response, False))"
  by pat_completeness auto
termination by (relation "measure (\<lambda>(hmac, c, env, req, payload, attempt). nat (hc_maxRetries c - attempt))") auto

declare send_loop.simps [simp del]

text \<open>
  With no attempt allowed the code dereferences a nil response.
\<close>

datatype send_result =
    SendInvalidURL url_error | SendMarshalFailed | SendPanics | SendCancelled WebhookResponse | SendGaveUp WebhookResponse
  | SendDelivered WebhookResponse

definition SendWebhook :: "(string \<Rightarrow> string \<Rightarrow> string) \<Rightarrow> HTTPClient \<Rightarrow> send_env \<Rightarrow> WebhookRequest \<Rightarrow> send_result" where
  "SendWebhook hmac c env req =
     (case validateWebhookURL c (wq_URL req) of
        Some e \<Rightarrow> SendInvalidURL e
      | None \<Rightarrow>
          (case wq_Payload req of
             None \<Rightarrow> SendMarshalFailed
           | Some payload \<Rightarrow>
               if hc_maxRetries c < 1 then SendPanics
               else case send_loop hmac c env req payload 1 of
                 (_, response, cancelled) \<Rightarrow>
                   if cancelled then SendCancelled response
                   else if \<not> ws_Success response then SendGaveUp response else SendDelivered response))"

definition send_error :: "send_result \<Rightarrow> bool" where
  "send_error r = (case r of SendDelivered _ \<Rightarrow> False | _ \<Rightarrow> True)"

section \<open>The retry loop\<close>

text \<open>An attempt after which the loop goes on.\<close>

definition retried :: "(string \<Rightarrow> string \<Rightarrow> string) \<Rightarrow> send_env \<Rightarrow> WebhookRequest \<Rightarrow> string \<Rightarrow> int \<Rightarrow> bool" where
  "retried hmac env req payload k \<longleftrightarrow> \<not> ws_Success (attemptWebhook hmac env req payload k) \<and>
     ws_StatusCode (attemptWebhook hmac env req payload k) \<in> {0, 408, 429, 500, 502, 503, 504} \<and> \<not> env_cancelled env k"

lemma calculateDelay_le: "calculateDelay c k \<le> 30 * time_Second"
  by (simp add: calculateDelay_def Let_def)

lemma send_loop_spec:
  assumes "send_loop hmac c env req payload a = (delays, response, cancelled)" "a \<le> hc_maxRetries c"
  shows "\<exists>n. a \<le> n \<and> n \<le> hc_maxRetries c \<and> response = attemptWebhook hmac env req payload n \<and> int (length delays) = n - a \<and>
    (\<forall>d \<in> set delays. d \<le> 30 * time_Second) \<and> (\<forall>k. a \<le> k \<and> k < n \<longrightarrow> retried hmac env req payload k) \<and>
    (cancelled \<longrightarrow> \<not> ws_Success response)"
  using assms
proof (induction hmac c env req payload a arbitrary: delays rule: send_loop.induct)
  case (1 hmac c env req payload a)
  let ?r = "attemptWebhook hmac env req payload a"
  show ?case
  proof (cases "retried hmac env req payload a \<and> a < hc_maxRetries c")
    case True
    obtain ds where ds: "send_loop hmac c env req payload (a + 1) = (ds, response, cancelled)" "delays = calculateDelay c a # ds"
      using 1(2) True by (auto simp: send_loop.simps [of _ _ _ _ _ a] retried_def shouldRetry_def Let_def split: prod.splits)
    have "\<not> (ws_Success ?r \<or> \<not> shouldRetry c (ws_StatusCode ?r) a)" "\<not> env_cancelled env a" using True by (auto simp: retried_def shouldRetry_def)
    then obtain n where n: "a + 1 \<le> n" "n \<le> hc_maxRetries c" "response = attemptWebhook hmac env req payload n" "int (length ds) = n - (a + 1)"
        "\<forall>d \<in> set ds. d \<le> 30 * time_Second" "\<forall>k. a + 1 \<le> k \<and> k < n \<longrightarrow> retried hmac env req payload k" "cancelled \<longrightarrow> \<not> ws_Success response"
      using 1(1) [OF refl _ _ _ ds(1)] True by auto
    have "retried hmac env req payload k" if "a \<le> k" "k < n" for k
      using that n(6) True by (cases "k = a") auto
    then show ?thesis using n ds(2) calculateDelay_le by (intro exI [of _ n]) auto
  next
    case False
    then have "delays = []" "response = ?r" "cancelled \<longrightarrow> \<not> ws_Success ?r"
      using 1(2,3) by (auto simp: send_loop.simps [of _ _ _ _ _ a] retried_def shouldRetry_def Let_def split: if_splits prod.splits)
    then show ?thesis using 1(3) by (intro exI [of _ a]) auto
  qed
qed

lemma send_loop_reaches:
  assumes "a \<le> n" "n \<le> hc_maxRetries c" "\<forall>k. a \<le> k \<and> k < n \<longrightarrow> retried hmac env req payload k"
    and "ws_Success (attemptWebhook hmac env req payload n)"
  shows "\<exists>delays. send_loop hmac c env req payload a = (delays, attemptWebhook hmac env req payload n, False)"
  using assms(1,3)
proof (induction "nat (n - a)" arbitrary: a)
  case 0
  then have "a = n" by simp
  then show ?case using assms(4) by (auto simp: send_loop.simps [of _ _ _ _ _ n] Let_def)
next
  case (Suc m)
  then have "a < n" by simp
  have "\<exists>ds. send_loop hmac c env req payload (a + 1) = (ds, attemptWebhook hmac env req payload n, False)"
    by (rule Suc(1)) (use Suc(2,4) \<open>a < n\<close> in auto)
  then obtain ds where "send_loop hmac c env req payload (a + 1) = (ds, attemptWebhook hmac env req payload n, False)" ..
  moreover have "retried hmac env req payload a" using Suc(4) \<open>a < n\<close> by simp
  ultimately show ?case using \<open>a < n\<close> assms(2)
    by (auto simp: send_loop.simps [of _ _ _ _ _ a] retried_def shouldRetry_def Let_def)
qed

text \<open>
  C16: A webhook counts as delivered exactly when its URL is admitted and one of the first \<open>maxRetries\<close> attempts gets a 2xx reply, every attempt before it
  failed in the transport or with 408, 429, 500, 502, 503 or 504, and the context lasted through the waits between them.
\<close>

theorem SendWebhook_delivered_iff:
  "SendWebhook hmac c env req = SendDelivered response \<longleftrightarrow>
    validateWebhookURL c (wq_URL req) = None \<and>
    (\<exists>payload n. wq_Payload req = Some payload \<and> 1 \<le> n \<and> n \<le> hc_maxRetries c \<and> response = attemptWebhook hmac env req payload n \<and>
       ws_Success response \<and> (\<forall>k \<in> {1..<n}. retried hmac env req payload k))" (is "?L \<longleftrightarrow> ?R")
proof
  assume ?L
  then obtain payload where p: "validateWebhookURL c (wq_URL req) = None" "wq_Payload req = Some payload" "1 \<le> hc_maxRetries c"
    by (auto simp: SendWebhook_def split: option.splits if_splits prod.splits)
  obtain delays r canc where l: "send_loop hmac c env req payload 1 = (delays, r, canc)" by (metis prod_cases3)
  then have "r = response" "ws_Success response" using \<open>?L\<close> p by (auto simp: SendWebhook_def split: if_splits)
  then show ?R using send_loop_spec [OF l p(3)] p by auto
next
  assume ?R
  then obtain payload n where p: "validateWebhookURL c (wq_URL req) = None" "wq_Payload req = Some payload" "1 \<le> n" "n \<le> hc_maxRetries c"
      "response = attemptWebhook hmac env req payload n" "ws_Success response" "\<forall>k \<in> {1..<n}. retried hmac env req payload k" by blast
  then obtain delays where "send_loop hmac c env req payload 1 = (delays, response, False)"
    using send_loop_reaches [of 1 n c hmac env req payload] by auto
  then show ?L using p by (simp add: SendWebhook_def)
qed

section \<open>Signatures\<close>

lemma hex_digit_code: "n < 16 \<Longrightarrow> code (hex_digit n) = (if n < 10 then 48 + n else 87 + n)"
  by (simp add: hex_digit_def)

lemma hex_digit_not: "n < 16 \<Longrightarrow> code c < 48 \<Longrightarrow> hex_digit n \<noteq> c"
  using hex_digit_code [of n] by (auto split: if_splits)

lemma hex_encode_not: "code c < 48 \<Longrightarrow> c \<notin> set (hex_encode s)"
proof (induction s)
  case (Cons b bs)
  have "code b div 16 < 16" using code_less [of b] by linarith
  moreover have "code b mod 16 < 16" by simp
  ultimately show ?case using Cons hex_digit_not [of "code b div 16" c] hex_digit_not [of "code b mod 16" c] by auto
qed simp

lemma webhook_request_signed:
  assumes "webhook_request hmac env req payload attempt = Some r" "wq_Secret req \<noteq> []"
  shows "req_Body r = payload" "Header_Get ''X-MailVault-Signature'' (req_Header r) =
    generateHMACSignature hmac payload (wq_Secret req) (FormatInt (env_unix env attempt))"
proof -
  have keys: "CanonicalHeaderKey ''X-MailVault-Signature'' \<noteq> CanonicalHeaderKey ''X-MailVault-Timestamp''"
      "CanonicalHeaderKey ''X-MailVault-Signature'' \<noteq> CanonicalHeaderKey ''X-MailVault-Signature-Version''"
    by code_simp+
  obtain q where "NewRequest ''POST'' (wq_URL req) payload = Some q" "req_Body q = payload"
    using assms(1) by (auto simp: webhook_request_def NewRequest_def split: if_splits)
  then show "req_Body r = payload" "Header_Get ''X-MailVault-Signature'' (req_Header r) =
      generateHMACSignature hmac payload (wq_Secret req) (FormatInt (env_unix env attempt))"
    using assms keys by (auto simp: webhook_request_def set_all_def Let_def Header_Get_Set_other)
qed

lemma Split_not_in: "c \<notin> set s \<Longrightarrow> Split c s = [s]"
  by (induction s) auto

lemma Split_two: "c \<notin> set s \<Longrightarrow> c \<notin> set t \<Longrightarrow> Split c (s @ c # t) = [s, t]"
  by (induction s) (auto simp: Split_not_in)

lemma FormatInt_digits: "0 \<le> z \<Longrightarrow> c \<in> set (FormatInt z) \<Longrightarrow> is_digit c"
  using Itoa_digits [of c "nat z"] by (simp add: FormatInt_def)

text \<open>
  C17: A receiver that has the secret accepts every signed delivery: \<open>VerifyWebhookSignature\<close> holds for the signature header of the request
  \<open>attemptWebhook\<close> sends, on its body, at any time from the signature on until 300 seconds later.
\<close>

theorem signed_webhook_verifies:
  assumes "webhook_request hmac env req payload attempt = Some r" "wq_Secret req \<noteq> []"
    and "\<And>k m. hmac k m \<noteq> []"
    and "0 \<le> env_unix env attempt" "env_unix env attempt < 2 ^ 62" "env_unix env attempt \<le> now" "now \<le> env_unix env attempt + 300"
  shows "VerifyWebhookSignature hmac now (req_Body r) (Header_Get ''X-MailVault-Signature'' (req_Header r)) (wq_Secret req)"
proof -
  let ?t = "FormatInt (env_unix env attempt)"
  let ?h = "hex_encode (hmac (wq_Secret req) (?t @ ''.'' @ payload))"
  have "\<not> is_digit CHR '',''" by (simp add: is_digit_def)
  then have "CHR '','' \<notin> set (''t='' @ ?t)" using FormatInt_digits [OF assms(4), of "CHR '',''"] by auto
  moreover have "CHR '','' \<notin> set (''v1='' @ ?h)" using hex_encode_not [of "CHR '',''"] by simp
  ultimately have split: "Split CHR '','' (generateHMACSignature hmac payload (wq_Secret req) ?t) = [''t='' @ ?t, ''v1='' @ ?h]"
    using Split_two [of "CHR '',''" "''t='' @ ?t" "''v1='' @ ?h"] by (simp add: generateHMACSignature_def)
  have t: "?t \<noteq> []" "ParseInt ?t = Some (env_unix env attempt)"
    using assms(4,5) ParseInt_FormatInt [of "env_unix env attempt"] by (simp_all add: in_int64_def FormatInt_def Itoa_nonempty)
  have h: "?h \<noteq> []" using assms(3) [of "wq_Secret req" "?t @ ''.'' @ payload"] length_hex_encode by (metis length_0_conv mult_eq_0_iff zero_neq_numeral)
  note r = webhook_request_signed [OF assms(1,2)]
  have "wrap64 (now - env_unix env attempt) = now - env_unix env attempt" using assms(6,7) by (simp add: wrap64_id in_int64_def)
  then show ?thesis using r split t h assms(6,7) by (simp add: VerifyWebhookSignature_def HasPrefix_def TrimPrefix_def)
qed

text \<open>A sample delivery: the endpoint is down at the first attempt.\<close>

definition sample_webhook_request :: WebhookRequest where
  "sample_webhook_request = \<lparr>wq_URL = ''https://h.io/x'', wq_Payload = Some ''{}'', wq_Secret = ''k'', wq_Headers = None\<rparr>"

definition sample_delivery :: send_env where
  "sample_delivery = \<lparr>env_http = (\<lambda>n r. if n = 1 then HTTPReply 503 [] else HTTPReply 200 ''ok''), env_unix = (\<lambda>n. 1700000000 + n), env_start = (\<lambda>n. 0),
     env_took = (\<lambda>n. 0), env_cancelled = (\<lambda>n. False)\<rparr>"

definition sample_hmac :: "string \<Rightarrow> string \<Rightarrow> string" where
  "sample_hmac k m = (if m = [] then ''x'' else [last m])"

lemma sample_webhook_sent: "webhook_request sample_hmac sample_delivery sample_webhook_request ''{}'' n \<noteq> None"
proof -
  have "url_Parse ''https://h.io/x'' \<noteq> None" by code_simp
  moreover have "list_all header_byte ''POST''" by code_simp
  ultimately show ?thesis unfolding webhook_request_def NewRequest_def sample_webhook_request_def by simp
qed

theorem signed_webhook_verifies_witness:
  "\<exists>r. webhook_request sample_hmac sample_delivery sample_webhook_request ''{}'' 1 = Some r \<and>
     VerifyWebhookSignature sample_hmac 1700000200 (req_Body r) (Header_Get ''X-MailVault-Signature'' (req_Header r)) ''k''"
proof -
  obtain r where "webhook_request sample_hmac sample_delivery sample_webhook_request ''{}'' 1 = Some r" using sample_webhook_sent by blast
  moreover have "wq_Secret sample_webhook_request = ''k''" by (simp add: sample_webhook_request_def)
  moreover have "sample_hmac k m \<noteq> []" for k m by (simp add: sample_hmac_def)
  moreover have "env_unix sample_delivery 1 = 1700000001" by (simp add: sample_delivery_def)
  ultimately show ?thesis
    using signed_webhook_verifies [of sample_hmac sample_delivery sample_webhook_request "''{}''" 1 r 1700000200] by fastforce
qed

theorem SendWebhook_delivered_iff_witness:
  "\<exists>response. SendWebhook sample_hmac (NewHTTPClient DefaultClientConfig) sample_delivery sample_webhook_request = SendDelivered response \<and> ws_Attempt response = 2"
proof -
  let ?a = "attemptWebhook sample_hmac sample_delivery sample_webhook_request ''{}''"
  have a: "ws_Attempt (?a n) = n \<and> ws_StatusCode (?a n) = (if n = 1 then 503 else 200) \<and> ws_Success (?a n) = (n \<noteq> 1)" for n
    using sample_webhook_sent [of n] by (auto simp: attemptWebhook_def sample_delivery_def Let_def)
  have "validateWebhookURL (NewHTTPClient DefaultClientConfig) ''https://h.io/x'' = None" by code_simp
  moreover have "\<forall>k \<in> {1..<2}. retried sample_hmac sample_delivery sample_webhook_request ''{}'' k"
    using a by (simp add: retried_def sample_delivery_def)
  moreover have "hc_maxRetries (NewHTTPClient DefaultClientConfig) = 5" by (simp add: NewHTTPClient_def DefaultClientConfig_def)
  ultimately have "SendWebhook sample_hmac (NewHTTPClient DefaultClientConfig) sample_delivery sample_webhook_request = SendDelivered (?a 2)"
    using a by (intro SendWebhook_delivered_iff [THEN iffD2] conjI exI [of _ "''{}''"] exI [of _ "2::int"]) (simp_all add: sample_webhook_request_def)
  then show ?thesis using a by blast
qed

end
