(* ===== verification/WebhookEvent.thy ===== *)
theory WebhookEvent
  imports InboundMail
begin

text \<open>
  The event a webhook carries, \<open>internal/webhook/payload.go\<close> and \<open>errors.go\<close>: its parts, how it is made from a stored message, and its checks.
\<close>

section \<open>Data\<close>

record EmailMetadata =
  em_ID :: uuid
  em_SequenceNumber :: int
  em_FromAddress :: string
  em_Subject :: string
  em_EncryptedBody :: string
  em_ReceivedAt :: instant
  em_Size :: int
  em_MessageID :: string
  em_InReplyTo :: string
  em_References :: string
  em_IsQuarantined :: bool

record RecipientInfo =
  ri_EmailAddress :: string
  ri_LocalPart :: string
  ri_DomainName :: string
  ri_AddressID :: uuid
  ri_AutoCreated :: bool

record EventSPF =
  es_Result :: string
  es_Domain :: string
  es_Explanation :: string

record EventDKIM =
  ek_Valid :: bool
  ek_Domain :: string
  ek_Selector :: string
  ek_Error :: string

record EventDMARC =
  ed_Result :: string
  ed_Policy :: string
  ed_Disposition :: string
  ed_AlignmentSPF :: bool
  ed_AlignmentDKIM :: bool

record SecurityInfo =
  si_VerificationAction :: string
  si_SpamScore :: float64
  si_ReputationScore :: float64
  si_SPF :: EventSPF
  si_DKIM :: EventDKIM
  si_DMARC :: EventDMARC
  si_SenderIP :: string

record DomainInfo =
  di_ID :: uuid
  di_Name :: string
  di_StorageEnabled :: bool
  di_AutoCreateEmail :: bool

record IncomingEmailEvent =
  ev_EventType :: string
  ev_EventID :: uuid
  ev_Timestamp :: instant
  ev_Email :: EmailMetadata
  ev_Recipient :: RecipientInfo
  ev_Security :: SecurityInfo
  ev_Domain :: DomainInfo

datatype event_error =
    ErrInvalidEventType | ErrMissingEventID | ErrMissingEmailID | ErrMissingFromAddress | ErrMissingEncryptedBody
  | ErrMissingRecipientAddress | ErrMissingRecipientAddressID | ErrMissingDomainID | ErrMissingDomainName

section \<open>Making an event\<close>

definition event_DKIMDomain :: "DKIMSignatureResult list \<Rightarrow> string" where
  "event_DKIMDomain results = (case results of [] \<Rightarrow> [] | s # _ \<Rightarrow> sig_Domain s)"

definition event_DKIMSelector :: "DKIMSignatureResult list \<Rightarrow> string" where
  "event_DKIMSelector results = (case results of [] \<Rightarrow> [] | s # _ \<Rightarrow> sig_Selector s)"

definition no_security :: SecurityInfo where
  "no_security = \<lparr>si_VerificationAction = [], si_SpamScore = 0, si_ReputationScore = 0,
     si_SPF = \<lparr>es_Result = [], es_Domain = [], es_Explanation = []\<rparr>, si_DKIM = \<lparr>ek_Valid = False, ek_Domain = [], ek_Selector = [], ek_Error = []\<rparr>,
     si_DMARC = \<lparr>ed_Result = [], ed_Policy = [], ed_Disposition = [], ed_AlignmentSPF = False, ed_AlignmentDKIM = False\<rparr>, si_SenderIP = []\<rparr>"

definition security_of :: "VerificationResult \<Rightarrow> SecurityInfo" where
  "security_of vr = \<lparr>si_VerificationAction = Action_String (vr_Action vr), si_SpamScore = content_SpamScore (vr_Content vr),
     si_ReputationScore = rep_Score (vr_Reputation vr),
     si_SPF = \<lparr>es_Result = SPFStatus_String (spf_Result (vr_SPF vr)), es_Domain = spf_Mechanism (vr_SPF vr), es_Explanation = spf_Error (vr_SPF vr)\<rparr>,
     si_DKIM = \<lparr>ek_Valid = dkim_Valid (vr_DKIM vr), ek_Domain = event_DKIMDomain (dkim_Results (vr_DKIM vr)),
                ek_Selector = event_DKIMSelector (dkim_Results (vr_DKIM vr)), ek_Error = dkim_Error (vr_DKIM vr)\<rparr>,
     si_DMARC = \<lparr>ed_Result = DMARCStatus_String (dmarc_Result (vr_DMARC vr)), ed_Policy = dmarc_Policy (vr_DMARC vr), ed_Disposition = [],
                 ed_AlignmentSPF = dmarc_SPFAlign (vr_DMARC vr), ed_AlignmentDKIM = dmarc_DKIMAlign (vr_DMARC vr)\<rparr>,
     si_SenderIP = []\<rparr>"

text \<open>\<open>i\<close> is the fresh identity of the event; the sizes and message headers of the metadata stay empty.\<close>

definition NewIncomingEmailEvent ::
    "uuid \<Rightarrow> ReceivedEmail \<Rightarrow> Domain \<Rightarrow> EmailAddress option \<Rightarrow> VerificationResult option \<Rightarrow> bool \<Rightarrow> IncomingEmailEvent" where
  "NewIncomingEmailEvent i r d a vr autoCreated = \<lparr>
     ev_EventType = ''email.received'', ev_EventID = i, ev_Timestamp = re_ReceivedAt r,
     ev_Email = \<lparr>em_ID = re_ID r, em_SequenceNumber = re_SequenceNumber r, em_FromAddress = re_FromAddress r, em_Subject = GetSubjectString r,
       em_EncryptedBody = re_EncryptedBody r, em_ReceivedAt = re_ReceivedAt r, em_Size = 0, em_MessageID = [], em_InReplyTo = [],
       em_References = [], em_IsQuarantined = (case vr of None \<Rightarrow> False | Some v \<Rightarrow> vr_Action v = ActionQuarantine)\<rparr>,
     ev_Recipient = \<lparr>ri_EmailAddress = re_EmailAddress r, ri_LocalPart = (case a of None \<Rightarrow> [] | Some a \<Rightarrow> ea_LocalPart a),
       ri_DomainName = re_DomainName r, ri_AddressID = (case a of None \<Rightarrow> uuid_nil | Some a \<Rightarrow> ea_ID a), ri_AutoCreated = autoCreated\<rparr>,
     ev_Security = (case vr of None \<Rightarrow> no_security | Some v \<Rightarrow> security_of v),
     ev_Domain = \<lparr>di_ID = d_ID d, di_Name = d_Domain d, di_StorageEnabled = d_StorageEnabled d, di_AutoCreateEmail = d_AutoCreateAddress d\<rparr>\<rparr>"

section \<open>Checks\<close>

definition event_Validate :: "IncomingEmailEvent \<Rightarrow> event_error option" where
  "event_Validate e =
     (if ev_EventType e \<noteq> ''email.received'' then Some ErrInvalidEventType
      else if ev_EventID e = uuid_nil then Some ErrMissingEventID
      else if em_ID (ev_Email e) = uuid_nil then Some ErrMissingEmailID
      else if em_FromAddress (ev_Email e) = [] then Some ErrMissingFromAddress
      else if em_EncryptedBody (ev_Email e) = [] then Some ErrMissingEncryptedBody
      else if ri_EmailAddress (ev_Recipient e) = [] then Some ErrMissingRecipientAddress
      else if ri_AddressID (ev_Recipient e) = uuid_nil then Some ErrMissingRecipientAddressID
      else if di_ID (ev_Domain e) = uuid_nil then Some ErrMissingDomainID
      else if di_Name (ev_Domain e) = [] then Some ErrMissingDomainName
      else None)"

definition GetEmailSize :: "IncomingEmailEvent \<Rightarrow> int" where
  "GetEmailSize e = int (length (em_EncryptedBody (ev_Email e)))"

definition event_IsSpam :: "IncomingEmailEvent \<Rightarrow> bool" where
  "event_IsSpam e \<longleftrightarrow> si_SpamScore (ev_Security e) > f64 (7 / 10) \<or> si_ReputationScore (ev_Security e) < f64 (3 / 10)"

definition IsSecure :: "IncomingEmailEvent \<Rightarrow> bool" where
  "IsSecure e \<longleftrightarrow> si_VerificationAction (ev_Security e) = ''accept'' \<and> es_Result (si_SPF (ev_Security e)) = ''pass'' \<and>
     ek_Valid (si_DKIM (ev_Security e)) \<and> ed_Result (si_DMARC (ev_Security e)) = ''pass''"

definition GetShortDescription :: "IncomingEmailEvent \<Rightarrow> string" where
  "GetShortDescription e = ''Email from '' @ em_FromAddress (ev_Email e) @ '' to '' @ ri_EmailAddress (ev_Recipient e) @ '' ('' @
     em_Subject (ev_Email e) @ '')''"

section \<open>Lemmas\<close>

text \<open>The event of a message stored for a mailbox of a domain passes its check.\<close>

lemma incoming_event_valid:
  assumes "ReceivedEmail_IsValid (incoming i now req)" "pi_Domain req = Some d" "pi_EmailAddress req = Some a"
    and "i \<noteq> uuid_nil" "e \<noteq> uuid_nil" "ea_ID a \<noteq> uuid_nil" "d_ID d \<noteq> uuid_nil" "d_Domain d \<noteq> []"
  shows "event_Validate (NewIncomingEmailEvent e ((incoming i now req)\<lparr>re_SequenceNumber := n\<rparr>) d (Some a) vr auto_created) = None"
  using assms by (auto simp: event_Validate_def NewIncomingEmailEvent_def incoming_def ReceivedEmail_IsValid_def Let_def)

text \<open>\<open>IsSecure\<close> agrees with the checks of the message.\<close>

lemma IsSecure_security:
  assumes "ev_Security e = security_of vr"
  shows "IsSecure e \<longleftrightarrow> vr_Action vr = ActionAccept \<and> spf_Result (vr_SPF vr) = SPFPass \<and> dkim_Valid (vr_DKIM vr) \<and> dmarc_Result (vr_DMARC vr) = DMARCPass"
  using assms
  by (cases "vr_Action vr"; cases "spf_Result (vr_SPF vr)"; cases "dmarc_Result (vr_DMARC vr)") (simp_all add: IsSecure_def security_of_def)

end
