(* ===== verification/WebhookWorker.thy ===== *)
theory WebhookWorker
  imports WebhookClient WebhookEvent
begin

text \<open>
  Asynchronous delivery of webhooks, \<open>internal/webhook/async_worker.go\<close>: a bounded channel of jobs, worker goroutines, a second channel of failed jobs and the
  processor that holds them until their time.

  Callers, workers and the processor interleave in steps; a step is one operation on a channel with the update of the statistics that follows it. The
  workers receive from both channels, as the processor does from the second. The fields from \<open>ww_accepted\<close> on are not in the code: what was
  accepted, completed and abandoned, the failed jobs a worker took before the processor did, and those the processor held when it returned.
  The program starts a worker once; a second \<open>Start\<close> is left out.
\<close>

section \<open>Data\<close>

record AsyncWorkerConfig =
  awc_BufferSize :: nat
  awc_WorkerCount :: nat
  awc_RetryInterval :: duration
  awc_MaxRetryAge :: duration

record WebhookJob =
  wj_Request :: WebhookRequest
  wj_Event :: IncomingEmailEvent
  wj_CreatedAt :: instant
  wj_LastAttemptAt :: "instant option"
  wj_Attempts :: int
  wj_MaxRetries :: int
  wj_NextRetryAt :: "instant option"

record WorkerStats =
  aws_QueueSize :: int
  aws_PendingRetries :: int
  aws_ActiveWorkers :: int
  aws_TotalProcessed :: int
  aws_TotalRetries :: int
  aws_TotalAbandoned :: int

record webhook_worker =
  ww_queue :: "WebhookJob list"
  ww_retry :: "WebhookJob list"
  ww_held :: "WebhookJob list"
  ww_busy :: "WebhookJob list"
  ww_stats :: WorkerStats
  ww_workers :: nat
  ww_alive :: nat
  ww_processor :: bool
  ww_running :: bool
  ww_ended :: bool
  ww_stopping :: bool
  ww_accepted :: nat
  ww_completed :: "WebhookJob list"
  ww_abandoned :: "WebhookJob list"
  ww_early :: nat
  ww_lost :: "WebhookJob list"

definition NewAsyncWebhookWorker :: webhook_worker where
  "NewAsyncWebhookWorker = \<lparr>ww_queue = [], ww_retry = [], ww_held = [], ww_busy = [],
     ww_stats = \<lparr>aws_QueueSize = 0, aws_PendingRetries = 0, aws_ActiveWorkers = 0, aws_TotalProcessed = 0, aws_TotalRetries = 0, aws_TotalAbandoned = 0\<rparr>,
     ww_workers = 0, ww_alive = 0, ww_processor = False, ww_running = False, ww_ended = False, ww_stopping = False,
     ww_accepted = 0, ww_completed = [], ww_abandoned = [], ww_early = 0, ww_lost = []\<rparr>"

definition GetWorkerStats :: "webhook_worker \<Rightarrow> WorkerStats" where
  "GetWorkerStats w = (ww_stats w)\<lparr>aws_ActiveWorkers := int (ww_workers w)\<rparr>"

section \<open>Operations\<close>

definition new_job :: "HTTPClient \<Rightarrow> instant \<Rightarrow> WebhookRequest \<Rightarrow> IncomingEmailEvent \<Rightarrow> WebhookJob" where
  "new_job client now request event = \<lparr>wj_Request = request, wj_Event = event, wj_CreatedAt = now, wj_LastAttemptAt = None, wj_Attempts = 0,
     wj_MaxRetries = hc_maxRetries client, wj_NextRetryAt = None\<rparr>"

datatype enqueue_error = EnqueueCancelled | WebhookQueueFull

text \<open>\<open>ended\<close>: the \<open>select\<close> takes the end of the context, which it may once the context has ended.\<close>

definition EnqueueWebhook ::
    "AsyncWorkerConfig \<Rightarrow> HTTPClient \<Rightarrow> bool \<Rightarrow> instant \<Rightarrow> WebhookRequest \<Rightarrow> IncomingEmailEvent \<Rightarrow> webhook_worker
      \<Rightarrow> enqueue_error option \<times> webhook_worker" where
  "EnqueueWebhook cfg client ended now request event w =
     (if ended then (Some EnqueueCancelled, w)
      else if length (ww_queue w) < awc_BufferSize cfg
      then (None, w\<lparr>ww_queue := ww_queue w @ [new_job client now request event],
                     ww_stats := (ww_stats w)\<lparr>aws_QueueSize := aws_QueueSize (ww_stats w) + 1\<rparr>, ww_accepted := ww_accepted w + 1\<rparr>)
      else (Some WebhookQueueFull, w))"

definition worker_RetryDelay :: "int \<Rightarrow> duration" where
  "worker_RetryDelay attempt =
     (let delay = wrap64 (shl64 1 (nat (attempt - 1)) * time_Second) in if delay > 30 * time_Second then 30 * time_Second else delay)"

definition abandonWebhookJob :: "WebhookJob \<Rightarrow> webhook_worker \<Rightarrow> webhook_worker" where
  "abandonWebhookJob job w = w\<lparr>ww_stats := (ww_stats w)\<lparr>aws_TotalAbandoned := aws_TotalAbandoned (ww_stats w) + 1\<rparr>,
     ww_abandoned := ww_abandoned w @ [job]\<rparr>"

text \<open>\<open>start\<close>, \<open>checked\<close> and \<open>now\<close> are the readings of the clock before the delivery, at the test of the age and for the next retry.\<close>

definition processWebhookJob ::
    "AsyncWorkerConfig \<Rightarrow> send_result \<Rightarrow> instant \<Rightarrow> instant \<Rightarrow> instant \<Rightarrow> WebhookJob \<Rightarrow> webhook_worker \<Rightarrow> webhook_worker" where
  "processWebhookJob cfg result start checked now job w =
     (let job1 = job\<lparr>wj_Attempts := wj_Attempts job + 1, wj_LastAttemptAt := Some start\<rparr>;
          w1 = w\<lparr>ww_stats := (ww_stats w)\<lparr>aws_QueueSize := aws_QueueSize (ww_stats w) - 1, aws_TotalProcessed := aws_TotalProcessed (ww_stats w) + 1\<rparr>\<rparr>
      in if send_error result then
           (if wj_Attempts job1 < wj_MaxRetries job1 \<and> checked - wj_CreatedAt job1 < awc_MaxRetryAge cfg then
              (let job2 = job1\<lparr>wj_NextRetryAt := Some (now + worker_RetryDelay (wj_Attempts job1))\<rparr> in
               if length (ww_retry w1) < awc_BufferSize cfg
               then w1\<lparr>ww_retry := ww_retry w1 @ [job2],
                       ww_stats := (ww_stats w1)\<lparr>aws_PendingRetries := aws_PendingRetries (ww_stats w1) + 1,
                                                 aws_TotalRetries := aws_TotalRetries (ww_stats w1) + 1\<rparr>\<rparr>
               else abandonWebhookJob job2 w1)
            else abandonWebhookJob job1 w1)
         else w1\<lparr>ww_completed := ww_completed w1 @ [job1]\<rparr>)"

text \<open>The processor at its timer: every job whose time has come goes back to the main channel if there is room.\<close>

fun release :: "AsyncWorkerConfig \<Rightarrow> instant \<Rightarrow> WebhookJob list \<Rightarrow> webhook_worker \<Rightarrow> WebhookJob list \<Rightarrow> webhook_worker" where
  "release cfg now [] w remaining = w\<lparr>ww_held := remaining\<rparr>"
| "release cfg now (job # jobs) w remaining =
     (if (case wj_NextRetryAt job of None \<Rightarrow> True | Some t \<Rightarrow> t \<le> now) then
        (if length (ww_queue w) < awc_BufferSize cfg
         then release cfg now jobs (w\<lparr>ww_queue := ww_queue w @ [job],
                ww_stats := (ww_stats w)\<lparr>aws_PendingRetries := aws_PendingRetries (ww_stats w) - 1, aws_QueueSize := aws_QueueSize (ww_stats w) + 1\<rparr>\<rparr>) remaining
         else release cfg now jobs w (remaining @ [job]))
      else release cfg now jobs w (remaining @ [job]))"

definition retry_tick :: "AsyncWorkerConfig \<Rightarrow> instant \<Rightarrow> webhook_worker \<Rightarrow> webhook_worker" where
  "retry_tick cfg now w = release cfg now (ww_held w) w []"

section \<open>The goroutines\<close>

definition start_worker :: "AsyncWorkerConfig \<Rightarrow> webhook_worker \<Rightarrow> webhook_worker" where
  "start_worker cfg w =
     (if ww_running w then w else w\<lparr>ww_workers := awc_WorkerCount cfg, ww_alive := awc_WorkerCount cfg, ww_processor := True, ww_running := True\<rparr>)"

text \<open>\<open>Stop\<close> up to its wait, which it spends holding the mutex.\<close>

definition stop_worker :: "webhook_worker \<Rightarrow> webhook_worker" where
  "stop_worker w = (if \<not> ww_running w then w else w\<lparr>ww_ended := True, ww_stopping := True\<rparr>)"

text \<open>
  \<open>ended\<close>: the stop channel is closed or the context given to \<open>Start\<close> is done; a \<open>select\<close> may still prefer a channel with a job. \<open>timed\<close>: the context given
  to \<open>Stop\<close> ends some time. Every operation that updates the statistics needs the mutex.
\<close>

inductive webhook_step :: "AsyncWorkerConfig \<Rightarrow> HTTPClient \<Rightarrow> bool \<Rightarrow> webhook_worker \<Rightarrow> webhook_worker \<Rightarrow> bool" for cfg client timed where
  start: "\<not> ww_stopping w \<Longrightarrow> \<not> ww_ended w \<Longrightarrow> webhook_step cfg client timed w (start_worker cfg w)"
| cancel: "ww_running w \<Longrightarrow> webhook_step cfg client timed w (w\<lparr>ww_ended := True\<rparr>)"
| stop: "\<not> ww_stopping w \<Longrightarrow> webhook_step cfg client timed w (stop_worker w)"
| stopped: "ww_stopping w \<Longrightarrow> ww_alive w = 0 \<Longrightarrow> \<not> ww_processor w \<Longrightarrow> webhook_step cfg client timed w (w\<lparr>ww_stopping := False, ww_running := False\<rparr>)"
| stop_timeout: "timed \<Longrightarrow> ww_stopping w \<Longrightarrow> webhook_step cfg client timed w (w\<lparr>ww_stopping := False, ww_running := False\<rparr>)"
| enqueue: "\<not> ww_stopping w \<Longrightarrow> webhook_step cfg client timed w (snd (EnqueueWebhook cfg client ended now request event w))"
| receive: "length (ww_busy w) < ww_alive w \<Longrightarrow> ww_queue w = job # jobs \<Longrightarrow>
     webhook_step cfg client timed w (w\<lparr>ww_queue := jobs, ww_busy := ww_busy w @ [job]\<rparr>)"
| receive_retry: "length (ww_busy w) < ww_alive w \<Longrightarrow> ww_retry w = job # jobs \<Longrightarrow>
     webhook_step cfg client timed w (w\<lparr>ww_retry := jobs, ww_busy := ww_busy w @ [job], ww_early := ww_early w + 1\<rparr>)"
| work: "\<not> ww_stopping w \<Longrightarrow> ww_busy w = before @ job # after \<Longrightarrow> result = SendWebhook hmac client env (wj_Request job) \<Longrightarrow> result \<noteq> SendPanics \<Longrightarrow>
     webhook_step cfg client timed w (processWebhookJob cfg result begun checked now job (w\<lparr>ww_busy := before @ after\<rparr>))"
| worker_exit: "ww_ended w \<Longrightarrow> length (ww_busy w) < ww_alive w \<Longrightarrow> webhook_step cfg client timed w (w\<lparr>ww_alive := ww_alive w - 1\<rparr>)"
| hold: "ww_processor w \<Longrightarrow> ww_retry w = job # jobs \<Longrightarrow>
     webhook_step cfg client timed w (w\<lparr>ww_retry := jobs, ww_held := ww_held w @ [job]\<rparr>)"
| tick: "\<not> ww_stopping w \<Longrightarrow> ww_processor w \<Longrightarrow> webhook_step cfg client timed w (retry_tick cfg now w)"
| processor_exit: "ww_ended w \<Longrightarrow> ww_processor w \<Longrightarrow>
     webhook_step cfg client timed w (w\<lparr>ww_processor := False, ww_held := [], ww_lost := ww_held w\<rparr>)"

inductive_cases webhook_stepE: "webhook_step cfg client timed w w'"

section \<open>Accounting\<close>

definition live_jobs :: "webhook_worker \<Rightarrow> WebhookJob list" where
  "live_jobs w = ww_queue w @ ww_retry w @ ww_held w @ ww_busy w @ ww_lost w"

definition ended_jobs :: "webhook_worker \<Rightarrow> WebhookJob list" where
  "ended_jobs w = ww_completed w @ ww_abandoned w"

definition worker_ok :: "AsyncWorkerConfig \<Rightarrow> HTTPClient \<Rightarrow> webhook_worker \<Rightarrow> bool" where
  "worker_ok cfg client w \<longleftrightarrow> ww_accepted w = length (live_jobs w) + length (ended_jobs w) \<and>
     aws_QueueSize (ww_stats w) = int (length (ww_queue w) + length (ww_busy w)) - int (ww_early w) \<and>
     aws_PendingRetries (ww_stats w) = int (length (ww_retry w) + length (ww_held w) + length (ww_lost w)) + int (ww_early w) \<and>
     aws_TotalProcessed (ww_stats w) = int (length (ended_jobs w)) + aws_TotalRetries (ww_stats w) \<and>
     aws_TotalAbandoned (ww_stats w) = int (length (ww_abandoned w)) \<and>
     length (ww_queue w) \<le> awc_BufferSize cfg \<and> length (ww_retry w) \<le> awc_BufferSize cfg \<and>
     (\<forall>j \<in> set (live_jobs w). wj_MaxRetries j = hc_maxRetries client \<and> (wj_Attempts j = 0 \<or> wj_Attempts j < hc_maxRetries client)) \<and>
     (\<forall>j \<in> set (ended_jobs w). wj_Attempts j = 1 \<or> wj_Attempts j \<le> hc_maxRetries client)"

text \<open>The goroutines and the jobs they hold.\<close>

definition phase_ok :: "webhook_worker \<Rightarrow> bool" where
  "phase_ok w \<longleftrightarrow> (ww_stopping w \<longrightarrow> ww_ended w) \<and> length (ww_busy w) \<le> ww_alive w \<and> (\<not> ww_processor w \<longrightarrow> ww_held w = []) \<and>
     (\<not> ww_ended w \<longrightarrow> ww_lost w = [] \<and> ww_alive w = (if ww_running w then ww_workers w else 0) \<and> ww_processor w = ww_running w) \<and>
     (ww_processor w \<longrightarrow> ww_lost w = [])"

lemmas worker_defs = worker_ok_def live_jobs_def ended_jobs_def

lemma enqueue_ok: "worker_ok cfg client w \<Longrightarrow> worker_ok cfg client (snd (EnqueueWebhook cfg client ended now request event w))"
  by (auto simp: EnqueueWebhook_def worker_defs new_job_def)

lemma process_ok:
  assumes "worker_ok cfg client w" "ww_busy w = before @ job # after"
  shows "worker_ok cfg client (processWebhookJob cfg result begun checked now job (w\<lparr>ww_busy := before @ after\<rparr>))"
  using assms by (auto simp: processWebhookJob_def abandonWebhookJob_def worker_defs Let_def)

lemma process_phase:
  assumes "phase_ok w" "ww_busy w = before @ job # after"
  shows "phase_ok (processWebhookJob cfg result begun checked now job (w\<lparr>ww_busy := before @ after\<rparr>))"
  using assms by (simp add: processWebhookJob_def abandonWebhookJob_def phase_ok_def Let_def)

lemma release_ok:
  assumes "worker_ok cfg client (w\<lparr>ww_held := remaining @ jobs\<rparr>)"
  shows "worker_ok cfg client (release cfg now jobs w remaining)"
  using assms
proof (induction cfg now jobs w remaining rule: release.induct)
  case (2 cfg now job jobs w remaining)
  let ?moved = "w\<lparr>ww_queue := ww_queue w @ [job], ww_stats := (ww_stats w)\<lparr>aws_PendingRetries := aws_PendingRetries (ww_stats w) - 1,
      aws_QueueSize := aws_QueueSize (ww_stats w) + 1\<rparr>\<rparr>"
  have "worker_ok cfg client (?moved\<lparr>ww_held := remaining @ jobs\<rparr>)" if "length (ww_queue w) < awc_BufferSize cfg"
    using 2(4) that by (auto simp: worker_defs)
  then show ?case using 2 by simp
qed simp

lemma release_phase: "phase_ok w \<Longrightarrow> ww_processor w \<Longrightarrow> phase_ok (release cfg now jobs w remaining)"
  by (induction cfg now jobs w remaining rule: release.induct) (simp_all add: phase_ok_def)

lemma webhook_step_ok:
  assumes "webhook_step cfg client timed w w'" "worker_ok cfg client w" "phase_ok w"
  shows "worker_ok cfg client w'"
  using assms(1)
proof cases
  case (enqueue ended now request event)
  then show ?thesis using assms(2) by (simp add: enqueue_ok)
next
  case (work before job after result hmac env begun checked now)
  then show ?thesis using assms(2) by (simp add: process_ok)
next
  case (tick now)
  then show ?thesis using assms(2) release_ok [where remaining = "[]" and jobs = "ww_held w" and w = w] by (simp add: retry_tick_def)
next
  case processor_exit
  then have "ww_lost w = []" using assms(3) by (simp add: phase_ok_def)
  then show ?thesis using assms(2) processor_exit by (simp add: worker_defs ball_Un)
qed (use assms(2) in \<open>simp_all add: worker_defs start_worker_def stop_worker_def ball_Un\<close>)

lemma webhook_step_phase:
  assumes "webhook_step cfg client timed w w'" "phase_ok w"
  shows "phase_ok w'"
  using assms(1)
proof cases
  case (enqueue ended now request event)
  then show ?thesis using assms(2) by (simp add: EnqueueWebhook_def phase_ok_def)
next
  case (work before job after result hmac env begun checked now)
  then show ?thesis using assms(2) by (simp add: process_phase)
next
  case (tick now)
  then show ?thesis using assms(2) by (simp add: retry_tick_def release_phase)
qed (use assms(2) in \<open>auto simp: phase_ok_def start_worker_def stop_worker_def\<close>)

lemma webhook_steps_ok:
  assumes "(webhook_step cfg client timed)\<^sup>*\<^sup>* NewAsyncWebhookWorker w"
  shows "worker_ok cfg client w \<and> phase_ok w"
  using assms
proof (induction rule: rtranclp_induct)
  case base
  show ?case by (simp add: NewAsyncWebhookWorker_def worker_defs phase_ok_def)
next
  case (step w w')
  then show ?case by (blast intro: webhook_step_ok webhook_step_phase)
qed


text \<open>A job that fails and is taken again by a worker before the processor: the statistics show one pending retry and no queue, and neither is so.\<close>

definition sample_cfg :: AsyncWorkerConfig where
  "sample_cfg = \<lparr>awc_BufferSize = 1, awc_WorkerCount = 1, awc_RetryInterval = 30 * time_Second, awc_MaxRetryAge = 24 * time_Hour\<rparr>"

abbreviation sample_client :: HTTPClient where
  "sample_client \<equiv> NewHTTPClient DefaultClientConfig"

definition early_job :: "IncomingEmailEvent \<Rightarrow> WebhookJob" where
  "early_job ev = new_job sample_client 0 \<lparr>wq_URL = ''ftp://h.io'', wq_Payload = None, wq_Secret = [], wq_Headers = None\<rparr> ev"

definition early_result :: send_result where
  "early_result = SendInvalidURL (BadScheme ''ftp'')"

definition early_retry :: "IncomingEmailEvent \<Rightarrow> webhook_worker" where
  "early_retry ev = processWebhookJob sample_cfg early_result 0 0 0 (early_job ev)
     ((snd (EnqueueWebhook sample_cfg sample_client False 0 (wj_Request (early_job ev)) ev (start_worker sample_cfg NewAsyncWebhookWorker)))\<lparr>ww_queue := [], ww_busy := []\<rparr>)"

lemma early_steps: "(webhook_step sample_cfg sample_client True)\<^sup>*\<^sup>* NewAsyncWebhookWorker (early_retry ev)"
proof -
  let ?step = "webhook_step sample_cfg sample_client True"
  let ?w1 = "start_worker sample_cfg NewAsyncWebhookWorker"
  let ?w2 = "snd (EnqueueWebhook sample_cfg sample_client False 0 (wj_Request (early_job ev)) ev ?w1)"
  note defs = EnqueueWebhook_def start_worker_def NewAsyncWebhookWorker_def sample_cfg_def
  have w2: "ww_queue ?w2 = [early_job ev]" "ww_busy ?w2 = []" "ww_alive ?w2 = 1" "\<not> ww_stopping ?w2"
    by (simp_all add: defs early_job_def new_job_def)
  have start: "?step NewAsyncWebhookWorker ?w1" by (rule webhook_step.start) (simp_all add: NewAsyncWebhookWorker_def)
  have enqueue: "?step ?w1 ?w2" by (rule webhook_step.enqueue) (simp add: defs)
  have receive: "?step ?w2 (?w2\<lparr>ww_queue := [], ww_busy := [early_job ev]\<rparr>)"
    using webhook_step.receive [of ?w2 "early_job ev" "[]" sample_cfg sample_client True] w2 by simp
  have "validateWebhookURL sample_client ''ftp://h.io'' = Some (BadScheme ''ftp'')" by code_simp
  then have "SendWebhook hmac sample_client env (wj_Request (early_job ev)) = early_result" for hmac env
    by (simp add: SendWebhook_def early_job_def new_job_def early_result_def)
  moreover have "early_result \<noteq> SendPanics" by (simp add: early_result_def)
  ultimately have work: "?step (?w2\<lparr>ww_queue := [], ww_busy := [early_job ev]\<rparr>) (early_retry ev)"
    using webhook_step.work [of "?w2\<lparr>ww_queue := [], ww_busy := [early_job ev]\<rparr>" "[]" "early_job ev" "[]" early_result
        "\<lambda>k m. k" sample_client undefined sample_cfg True 0 0 0] w2(4)
    by (simp add: early_retry_def)
  show ?thesis
    using start enqueue receive work by (meson converse_rtranclp_into_rtranclp rtranclp.rtrancl_refl)
qed


text \<open>
  \<open>Stop\<close> waits for the workers while it holds the mutex they need after a delivery: with a delivery under way and a context that never ends, no
  step of any goroutine ends the delivery or the wait.
\<close>

lemma worker_stop_hangs:
  assumes "(webhook_step cfg client False)\<^sup>*\<^sup>* w w'" "ww_stopping w" "ww_busy w \<noteq> []" "length (ww_busy w) \<le> ww_alive w"
  shows "ww_stopping w' \<and> prefix (ww_busy w) (ww_busy w') \<and> length (ww_busy w') \<le> ww_alive w'"
  using assms(1)
proof (induction rule: rtranclp_induct)
  case base
  show ?case using assms by simp
next
  case (step v v')
  then have "0 < length (ww_busy v)" using assms(3) by (auto simp: prefix_def)
  then have "0 < ww_alive v" using step(3) by linarith
  then show ?case using step(2,3) by (auto elim!: webhook_stepE intro: prefix_order.trans)
qed

end
