(* ===== verification/WebhookNotify.thy ===== *)
theory WebhookNotify
  imports WebhookAccess WebhookWorker EmailUseCase
begin

text \<open>
  Notification of the webhooks of a domain about a stored message, \<open>internal/webhook/config_loader.go\<close>, \<open>notification.go\<close> and \<open>adapter.go\<close>: the
  configurations that want the event, one delivery or one queued job for each, and the record of every result in its configuration.

  The JSON of an event is an argument (\<open>None\<close> where \<open>json.Marshal\<close> fails). Logging and metrics are left out.
\<close>

section \<open>Loading configurations\<close>

definition LoadActiveWebhookConfigs :: "'st webhook_ops \<Rightarrow> Domain \<Rightarrow> 'st \<Rightarrow> (db_error + WebhookConfiguration list) \<times> 'st" where
  "LoadActiveWebhookConfigs ops d = who_GetActiveByDomainID ops (d_ID d)"

text \<open>The filter of the loader. Asking a configuration whether it admits a delivery may change it.\<close>

fun configs_for_event :: "(uuid \<Rightarrow> instant) \<Rightarrow> string \<Rightarrow> WebhookConfiguration list \<Rightarrow> WebhookConfiguration list" where
  "configs_for_event clock eventType [] = []"
| "configs_for_event clock eventType (w # ws) =
     (if ShouldSendEvent eventType w then
        (case CanAttemptDelivery (clock (whc_ID w)) w of
           (True, w') \<Rightarrow> w' # configs_for_event clock eventType ws
         | (False, _) \<Rightarrow> configs_for_event clock eventType ws)
      else configs_for_event clock eventType ws)"

definition LoadWebhookConfigsForEvent ::
    "'st webhook_ops \<Rightarrow> (uuid \<Rightarrow> instant) \<Rightarrow> Domain \<Rightarrow> string \<Rightarrow> 'st \<Rightarrow> (db_error + WebhookConfiguration list) \<times> 'st" where
  "LoadWebhookConfigsForEvent ops clock d eventType st =
     (case LoadActiveWebhookConfigs ops d st of
        (Inl e, st1) \<Rightarrow> (Inl e, st1)
      | (Inr ws, st1) \<Rightarrow> (Inr (configs_for_event clock eventType ws), st1))"

text \<open>\<open>now\<close> is the clock of the program, \<open>dbnow\<close> the clock of the database.\<close>

definition RecordWebhookResult ::
    "'st webhook_ops \<Rightarrow> instant \<Rightarrow> instant \<Rightarrow> WebhookConfiguration \<Rightarrow> bool \<Rightarrow> int \<Rightarrow> 'st \<Rightarrow> db_error option \<times> 'st" where
  "RecordWebhookResult ops now dbnow w success responseTimeMs =
     who_Update ops dbnow (if success then RecordSuccess now responseTimeMs w else RecordFailure now w)"

definition loader_CreateHealthCheck :: "'st webhook_ops \<Rightarrow> WebhookHealthCheck \<Rightarrow> 'st \<Rightarrow> db_error option \<times> 'st" where
  "loader_CreateHealthCheck ops = who_CreateHealthCheck ops"

section \<open>The service\<close>

record NotificationServiceConfig =
  nc_HTTPClient :: HTTPClient
  nc_EnableAsync :: bool
  nc_ConfigLoader :: bool

record IncomingEmailNotificationService =
  ns_client :: HTTPClient
  ns_asyncWorker :: "webhook_worker option"
  ns_configLoader :: bool

definition service_workers :: AsyncWorkerConfig where
  "service_workers = \<lparr>awc_BufferSize = 1000, awc_WorkerCount = 5, awc_RetryInterval = 30 * time_Second, awc_MaxRetryAge = 24 * time_Hour\<rparr>"

definition NewIncomingEmailNotificationService :: "NotificationServiceConfig \<Rightarrow> IncomingEmailNotificationService" where
  "NewIncomingEmailNotificationService c = \<lparr>ns_client = nc_HTTPClient c,
     ns_asyncWorker = (if nc_EnableAsync c then Some NewAsyncWebhookWorker else None), ns_configLoader = nc_ConfigLoader c\<rparr>"

text \<open>The service as \<open>app/smtpd/smtpd.go\<close> and \<open>app/service/service.go\<close> build it.\<close>

definition wired_service :: IncomingEmailNotificationService where
  "wired_service = NewIncomingEmailNotificationService
     \<lparr>nc_HTTPClient = NewHTTPClient DefaultClientConfig, nc_EnableAsync = True, nc_ConfigLoader = False\<rparr>"

text \<open>What a notification draws from outside, per configuration where it is asked more than once.\<close>

record notify_draw =
  nd_event :: uuid
  nd_loaded :: "uuid \<Rightarrow> instant"
  nd_checked :: "uuid \<Rightarrow> instant"
  nd_ended :: "uuid \<Rightarrow> bool"
  nd_queued :: "uuid \<Rightarrow> instant"
  nd_send :: "uuid \<Rightarrow> send_env"
  nd_took_ms :: "uuid \<Rightarrow> int"
  nd_recorded :: "uuid \<Rightarrow> instant"
  nd_dbnow :: "uuid \<Rightarrow> instant"

datatype delivery_error = DeliveryFailed send_result | DeliveryQueue enqueue_error

datatype notify_error =
    NoConfigLoader | LoadWebhooksFailed db_error | ErrWebhookNotConfigured | InvalidWebhookEvent event_error | AllDeliveriesFailed delivery_error

section \<open>Notifying\<close>

definition notification_request :: "(IncomingEmailEvent \<Rightarrow> string option) \<Rightarrow> IncomingEmailEvent \<Rightarrow> WebhookConfiguration \<Rightarrow> WebhookRequest" where
  "notification_request json event w = \<lparr>wq_URL = whc_URL w, wq_Payload = json event, wq_Secret = whc_AuthSecret w, wq_Headers = whc_CustomHeaders w\<rparr>"

text \<open>The timeout of the delivery shows in its environment. A failure to record the result is only logged; it is the second result.\<close>

definition sendWebhookSyncWithConfig ::
    "'st webhook_ops \<Rightarrow> (string \<Rightarrow> string \<Rightarrow> string) \<Rightarrow> HTTPClient \<Rightarrow> notify_draw \<Rightarrow> WebhookRequest \<Rightarrow> WebhookConfiguration \<Rightarrow> 'st
      \<Rightarrow> send_result \<times> db_error option \<times> 'st" where
  "sendWebhookSyncWithConfig ops hmac client dr req w st =
     (let i = whc_ID w; result = SendWebhook hmac client (nd_send dr i) req in
      if result = SendPanics then (result, None, st)
      else (result, RecordWebhookResult ops (nd_recorded dr i) (nd_dbnow dr i) w (\<not> send_error result) (nd_took_ms dr i) st))"

text \<open>What the service logs of a delivery it makes itself: the configuration, the request, its result and the error of recording it.\<close>

record webhook_delivery =
  wd_config :: uuid
  wd_request :: WebhookRequest
  wd_result :: send_result
  wd_unrecorded :: "db_error option"

record 'st notify_state =
  nt_last :: "delivery_error option"
  nt_count :: nat
  nt_worker :: "webhook_worker option"
  nt_sent :: "webhook_delivery list"
  nt_store :: 'st

text \<open>One configuration of the loop; \<open>None\<close> is a panic.\<close>

definition notify_one ::
    "'st webhook_ops \<Rightarrow> (string \<Rightarrow> string \<Rightarrow> string) \<Rightarrow> (IncomingEmailEvent \<Rightarrow> string option) \<Rightarrow> HTTPClient \<Rightarrow> notify_draw \<Rightarrow> IncomingEmailEvent
      \<Rightarrow> WebhookConfiguration \<Rightarrow> 'st notify_state \<Rightarrow> 'st notify_state option" where
  "notify_one ops hmac json client dr event w0 s =
     (case CanAttemptDelivery (nd_checked dr (whc_ID w0)) w0 of
        (False, _) \<Rightarrow> Some s
      | (True, w) \<Rightarrow>
          (let req = notification_request json event w in
           case nt_worker s of
             Some worker \<Rightarrow>
               (case EnqueueWebhook service_workers client (nd_ended dr (whc_ID w)) (nd_queued dr (whc_ID w)) req event worker of
                  (None, worker') \<Rightarrow> Some (s\<lparr>nt_worker := Some worker', nt_count := nt_count s + 1\<rparr>)
                | (Some e, worker') \<Rightarrow> Some (s\<lparr>nt_worker := Some worker', nt_last := Some (DeliveryQueue e)\<rparr>))
           | None \<Rightarrow>
               (case sendWebhookSyncWithConfig ops hmac client dr req w (nt_store s) of
                  (result, unrecorded, st) \<Rightarrow>
                    (let sent = nt_sent s @ [\<lparr>wd_config = whc_ID w, wd_request = req, wd_result = result, wd_unrecorded = unrecorded\<rparr>] in
                     if result = SendPanics then None
                     else if send_error result then Some (s\<lparr>nt_store := st, nt_sent := sent, nt_last := Some (DeliveryFailed result)\<rparr>)
                     else Some (s\<lparr>nt_store := st, nt_sent := sent, nt_count := nt_count s + 1\<rparr>)))))"

fun notify_all ::
    "'st webhook_ops \<Rightarrow> (string \<Rightarrow> string \<Rightarrow> string) \<Rightarrow> (IncomingEmailEvent \<Rightarrow> string option) \<Rightarrow> HTTPClient \<Rightarrow> notify_draw \<Rightarrow> IncomingEmailEvent
      \<Rightarrow> WebhookConfiguration list \<Rightarrow> 'st notify_state \<Rightarrow> 'st notify_state option" where
  "notify_all ops hmac json client dr event [] s = Some s"
| "notify_all ops hmac json client dr event (w # ws) s =
     Option.bind (notify_one ops hmac json client dr event w s) (notify_all ops hmac json client dr event ws)"

text \<open>A notification: its error, the service, the deliveries it made itself and the store it leaves; \<open>None\<close> is a panic.\<close>

definition service_NotifyIncomingEmail ::
    "'st webhook_ops \<Rightarrow> (string \<Rightarrow> string \<Rightarrow> string) \<Rightarrow> (IncomingEmailEvent \<Rightarrow> string option) \<Rightarrow> notify_draw \<Rightarrow> IncomingEmailNotificationService
      \<Rightarrow> ReceivedEmail \<Rightarrow> Domain \<Rightarrow> EmailAddress option \<Rightarrow> VerificationResult option \<Rightarrow> bool \<Rightarrow> 'st
      \<Rightarrow> (notify_error option \<times> IncomingEmailNotificationService \<times> webhook_delivery list \<times> 'st) option" where
  "service_NotifyIncomingEmail ops hmac json dr s r d a vr autoCreated st =
     (if \<not> ns_configLoader s then Some (Some NoConfigLoader, s, [], st)
      else case LoadWebhookConfigsForEvent ops (nd_loaded dr) d ''email.received'' st of
        (Inl e, st1) \<Rightarrow> Some (Some (LoadWebhooksFailed e), s, [], st1)
      | (Inr ws, st1) \<Rightarrow>
          if ws = [] then Some (Some ErrWebhookNotConfigured, s, [], st1)
          else
            (let event = NewIncomingEmailEvent (nd_event dr) r d a vr autoCreated in
             case event_Validate event of
               Some e \<Rightarrow> Some (Some (InvalidWebhookEvent e), s, [], st1)
             | None \<Rightarrow>
                 map_option (\<lambda>f.
                     (if nt_count f = 0 then map_option AllDeliveriesFailed (nt_last f) else None, s\<lparr>ns_asyncWorker := nt_worker f\<rparr>, nt_sent f, nt_store f))
                   (notify_all ops hmac json (ns_client s) dr event ws
                     \<lparr>nt_last = None, nt_count = 0, nt_worker = ns_asyncWorker s, nt_sent = [], nt_store = st1\<rparr>)))"

text \<open>\<open>GetStats\<close>, without the numbers of the metrics collector.\<close>

definition GetNotificationStats :: "IncomingEmailNotificationService \<Rightarrow> string \<times> int \<times> int \<times> int" where
  "GetNotificationStats s =
     (case ns_asyncWorker s of
        None \<Rightarrow> (''sync'', 0, 0, 0)
      | Some worker \<Rightarrow> (let w = GetWorkerStats worker in (''async'', aws_QueueSize w, aws_PendingRetries w, aws_ActiveWorkers w)))"

section \<open>What a notification does\<close>

text \<open>Whether an active configuration admits a delivery: its breaker is off, closed or half-open.\<close>

definition admits :: "WebhookConfiguration \<Rightarrow> bool" where
  "admits w \<longleftrightarrow> whc_CircuitBreakerEnabled w \<longrightarrow> whc_CircuitBreakerState w \<in> {CircuitBreakerStateClosed, CircuitBreakerStateHalfOpen}"

lemma CanAttemptDelivery_active: "IsActive w \<Longrightarrow> CanAttemptDelivery now w = (admits w, w)"
  by (cases "whc_CircuitBreakerState w") (auto simp: CanAttemptDelivery_def IsActive_def admits_def)

lemma configs_for_event_filter:
  "configs_for_event clock eventType ws = filter (\<lambda>w. ShouldSendEvent eventType w \<and> admits w) ws"
proof (induction ws)
  case (Cons w ws)
  then show ?case using CanAttemptDelivery_active [of w] by (auto simp: ShouldSendEvent_def)
qed simp

text \<open>The result of the delivery to a configuration, and the configuration after its record.\<close>

definition delivery ::
    "(string \<Rightarrow> string \<Rightarrow> string) \<Rightarrow> (IncomingEmailEvent \<Rightarrow> string option) \<Rightarrow> HTTPClient \<Rightarrow> notify_draw \<Rightarrow> IncomingEmailEvent
      \<Rightarrow> WebhookConfiguration \<Rightarrow> send_result" where
  "delivery hmac json client dr event w = SendWebhook hmac client (nd_send dr (whc_ID w)) (notification_request json event w)"

definition recorded :: "notify_draw \<Rightarrow> send_result \<Rightarrow> WebhookConfiguration \<Rightarrow> WebhookConfiguration" where
  "recorded dr result w = (if send_error result then RecordFailure (nd_recorded dr (whc_ID w)) w
     else RecordSuccess (nd_recorded dr (whc_ID w)) (nd_took_ms dr (whc_ID w)) w)"

lemma recorded_ID [simp]: "whc_ID (recorded dr result w) = whc_ID w"
  by (simp add: recorded_def RecordFailure_def RecordSuccess_def Let_def)

text \<open>The rows of the configurations in \<open>T\<close> may hold the record of their delivery; nothing else differs.\<close>

definition rows_recorded ::
    "notify_draw \<Rightarrow> (WebhookConfiguration \<Rightarrow> send_result) \<Rightarrow> WebhookConfiguration set \<Rightarrow> webhook_view \<Rightarrow> webhook_view \<Rightarrow> bool" where
  "rows_recorded dr result T v v' \<longleftrightarrow> wv_domains v' = wv_domains v \<and> wv_audit v' = wv_audit v \<and> wv_checks v' = wv_checks v \<and>
     (\<forall>i. wv_configs v' i = wv_configs v i \<or>
        (\<exists>w \<in> T. whc_ID w = i \<and> wv_configs v' i = Some (updated_webhook (nd_dbnow dr i) (recorded dr (result w) w) (plain_row w))))"

lemma rows_recorded_refl [simp]: "rows_recorded dr result T v v"
  by (simp add: rows_recorded_def)

lemma updated_webhook_twice [simp]: "updated_webhook t w (updated_webhook t w r) = updated_webhook t w r"
  by (simp add: updated_webhook_def persist_webhook_def)

context webhook_store
begin

lemma notify_one_spec:
  assumes one: "notify_one ops hmac json client dr event w s = Some s'"
    and T: "w \<in> T" "\<forall>x \<in> T. wv_configs v (whc_ID x) = Some (plain_row x)"
    and w: "IsActive w" "admits w"
    and s: "ok (nt_store s)" "rows_recorded dr (delivery hmac json client dr event) T v (view (nt_store s))"
  shows "ok (nt_store s') \<and> rows_recorded dr (delivery hmac json client dr event) T v (view (nt_store s'))"
proof (cases "nt_worker s")
  case (Some worker)
  then have "nt_store s' = nt_store s"
    using one CanAttemptDelivery_active [OF w(1)] w(2)
    by (auto simp: notify_one_def Let_def split: prod.splits option.splits)
  then show ?thesis using s by simp
next
  case None
  let ?result = "delivery hmac json client dr event" and ?i = "whc_ID w"
  obtain e st' where up: "who_Update ops (nd_dbnow dr ?i) (recorded dr (?result w) w) (nt_store s) = (e, st')" by fastforce
  have "?result w \<noteq> SendPanics" "nt_store s' = st'"
    using one None up CanAttemptDelivery_active [OF w(1)] w(2)
    by (auto simp: notify_one_def sendWebhookSyncWithConfig_def RecordWebhookResult_def delivery_def recorded_def Let_def split: if_splits)
  note l = update_law [OF s(1) up]
  have "rows_recorded dr ?result T v (view st')"
  proof (cases "e = None")
    case False
    then show ?thesis using l s(2) by simp
  next
    case True
    then obtain row where row: "wv_configs (view (nt_store s)) ?i = Some row" "view st' = (view (nt_store s))\<lparr>wv_configs :=
        (wv_configs (view (nt_store s)))(?i \<mapsto> updated_webhook (nd_dbnow dr ?i) (recorded dr (?result w) w) row)\<rparr>"
      using l by auto
    have "row = plain_row w \<or> row = updated_webhook (nd_dbnow dr ?i) (recorded dr (?result w) w) (plain_row w)"
    proof -
      have v: "wv_configs v ?i = Some (plain_row w)" using T by blast
      have uniq: "x = w" if "x \<in> T" "whc_ID x = ?i" for x using that T(2) v by fastforce
      have "wv_configs (view (nt_store s)) ?i = wv_configs v ?i \<or> (\<exists>x \<in> T. whc_ID x = ?i \<and> wv_configs (view (nt_store s)) ?i =
          Some (updated_webhook (nd_dbnow dr ?i) (recorded dr (?result x) x) (plain_row x)))"
        using s(2) unfolding rows_recorded_def by blast
      then show ?thesis using row(1) v uniq by force
    qed
    then have "updated_webhook (nd_dbnow dr ?i) (recorded dr (?result w) w) row =
        updated_webhook (nd_dbnow dr ?i) (recorded dr (?result w) w) (plain_row w)" by auto
    then show ?thesis using s(2) T(1) unfolding rows_recorded_def row(2) by auto
  qed
  then show ?thesis using l \<open>nt_store s' = st'\<close> by simp
qed

lemma notify_all_spec:
  assumes "notify_all ops hmac json client dr event ws s = Some s'" "set ws \<subseteq> T"
    and T: "\<forall>x \<in> T. wv_configs v (whc_ID x) = Some (plain_row x) \<and> IsActive x \<and> admits x"
    and "ok (nt_store s)" "rows_recorded dr (delivery hmac json client dr event) T v (view (nt_store s))"
  shows "ok (nt_store s') \<and> rows_recorded dr (delivery hmac json client dr event) T v (view (nt_store s'))"
  using assms(1,2,4,5)
proof (induction ws arbitrary: s)
  case (Cons w ws)
  then obtain s1 where one: "notify_one ops hmac json client dr event w s = Some s1" "notify_all ops hmac json client dr event ws s1 = Some s'"
    by (auto simp: bind_eq_Some_conv)
  have "w \<in> T" "\<forall>x \<in> T. wv_configs v (whc_ID x) = Some (plain_row x)" "IsActive w" "admits w" using Cons(3) T by auto
  then show ?case using Cons(1) [OF one(2)] notify_one_spec [OF one(1) _ _ _ _ Cons(4,5)] Cons(3) by auto
qed simp

lemma notify_safe:
  assumes ok: "ok st" and run: "service_NotifyIncomingEmail ops hmac json dr s r d a vr ac st = Some (e, s', sent, st')"
  shows "ok st' \<and> stays_open (view st) (view st')"
proof (cases "ns_configLoader s")
  case False
  then show ?thesis using assms by (simp add: service_NotifyIncomingEmail_def)
next
  case True
  obtain l st1 where load: "who_GetActiveByDomainID ops (d_ID d) st = (l, st1)" by fastforce
  note law = active_law [OF ok load]
  show ?thesis
  proof (cases "st' = st1")
    case True
    then show ?thesis using law by simp
  next
    case False
    let ?e = "NewIncomingEmailEvent (nd_event dr) r d a vr ac"
    obtain ws where ws: "l = Inr ws" using run load \<open>ns_configLoader s\<close> False
      by (cases l) (auto simp: service_NotifyIncomingEmail_def LoadWebhookConfigsForEvent_def LoadActiveWebhookConfigs_def)
    let ?T = "filter (\<lambda>w. ShouldSendEvent ''email.received'' w \<and> admits w) ws"
    let ?s0 = "\<lparr>nt_last = None, nt_count = 0, nt_worker = ns_asyncWorker s, nt_sent = [], nt_store = st1\<rparr>"
    obtain f where f: "notify_all ops hmac json (ns_client s) dr ?e ?T ?s0 = Some f" "st' = nt_store f"
      using run load ws \<open>ns_configLoader s\<close> False
      by (auto simp: service_NotifyIncomingEmail_def LoadWebhookConfigsForEvent_def LoadActiveWebhookConfigs_def configs_for_event_filter Let_def
          split: if_splits option.splits)
    have T: "\<forall>x \<in> set ?T. wv_configs (view st) (whc_ID x) = Some (plain_row x) \<and> IsActive x \<and> admits x" using law ws by auto
    have spec: "ok st' \<and> rows_recorded dr (delivery hmac json (ns_client s) dr ?e) (set ?T) (view st) (view st')"
      using notify_all_spec [OF f(1) subset_refl T] law f(2) by simp
    have "wv_configs (view st') i = wv_configs (view st) i" if "open_breaker (wv_configs (view st) i)" for i
    proof -
      have "whc_ID x \<noteq> i" if "x \<in> set ?T" for x using T that \<open>open_breaker _\<close> by (auto simp: open_breaker_def IsActive_def)
      then show ?thesis using spec unfolding rows_recorded_def by blast
    qed
    then show ?thesis using spec by (simp add: stays_open_def)
  qed
qed

end

section \<open>A synchronous notification\<close>

lemma SendWebhook_no_panic: "1 \<le> hc_maxRetries c \<Longrightarrow> SendWebhook hmac c env req \<noteq> SendPanics"
  by (auto simp: SendWebhook_def split: option.splits prod.splits)

text \<open>A delivery that the service made for the configuration \<open>w\<close>, and the row it left in the table: the record of its result, or the old
  row where the statement failed.\<close>

definition delivered_to ::
    "(IncomingEmailEvent \<Rightarrow> string option) \<Rightarrow> notify_draw \<Rightarrow> IncomingEmailEvent \<Rightarrow> (WebhookConfiguration \<Rightarrow> send_result) \<Rightarrow> webhook_view
      \<Rightarrow> WebhookConfiguration \<Rightarrow> webhook_delivery \<Rightarrow> bool" where
  "delivered_to json dr event result v w d \<longleftrightarrow>
     wd_config d = whc_ID w \<and> wd_request d = notification_request json event w \<and> wd_result d = result w \<and>
     wv_configs v (whc_ID w) = Some (if wd_unrecorded d = None
       then updated_webhook (nd_dbnow dr (whc_ID w)) (recorded dr (result w) w) (plain_row w) else plain_row w)"

text \<open>Whether the database records every result while \<open>quiet\<close> holds of it.\<close>

definition records_all :: "'st webhook_ops \<Rightarrow> ('st \<Rightarrow> bool) \<Rightarrow> notify_draw \<Rightarrow> (WebhookConfiguration \<Rightarrow> send_result) \<Rightarrow> ('st \<Rightarrow> WebhookConfiguration \<Rightarrow> bool)
    \<Rightarrow> WebhookConfiguration \<Rightarrow> bool" where
  "records_all ops quiet dr result here w \<longleftrightarrow> (\<forall>st. quiet st \<and> here st w \<longrightarrow>
     (case who_Update ops (nd_dbnow dr (whc_ID w)) (recorded dr (result w) w) st of (e, st') \<Rightarrow> e = None \<and> quiet st'))"

context webhook_store
begin

definition row_here :: "'st \<Rightarrow> WebhookConfiguration \<Rightarrow> bool" where
  "row_here st w \<longleftrightarrow> ok st \<and> wv_configs (view st) (whc_ID w) = Some (plain_row w)"

lemma sync_delivery:
  assumes "1 \<le> hc_maxRetries client" "IsActive w" "admits w" "nt_worker s = None" "row_here (nt_store s) w"
  obtains s1 d where "notify_one ops hmac json client dr event w s = Some s1" "nt_worker s1 = None" "ok (nt_store s1)" "nt_sent s1 = nt_sent s @ [d]"
    "delivered_to json dr event (delivery hmac json client dr event) (view (nt_store s1)) w d"
    "view (nt_store s1) = (view (nt_store s))\<lparr>wv_configs := wv_configs (view (nt_store s1))\<rparr>"
    "\<forall>i. i \<noteq> whc_ID w \<longrightarrow> wv_configs (view (nt_store s1)) i = wv_configs (view (nt_store s)) i"
    "who_Update ops (nd_dbnow dr (whc_ID w)) (recorded dr (delivery hmac json client dr event w) w) (nt_store s) = (wd_unrecorded d, nt_store s1)"
    "nt_count s1 = nt_count s + (if send_error (wd_result d) then 0 else 1)"
    "nt_last s1 = None \<longleftrightarrow> nt_last s = None \<and> \<not> send_error (wd_result d)"
proof -
  let ?result = "delivery hmac json client dr event w" and ?i = "whc_ID w"
  obtain e st where up: "who_Update ops (nd_dbnow dr ?i) (recorded dr ?result w) (nt_store s) = (e, st)" by fastforce
  let ?d = "\<lparr>wd_config = ?i, wd_request = notification_request json event w, wd_result = ?result, wd_unrecorded = e\<rparr>"
  define s1 where "s1 = (if send_error ?result then s\<lparr>nt_store := st, nt_sent := nt_sent s @ [?d], nt_last := Some (DeliveryFailed ?result)\<rparr>
    else s\<lparr>nt_store := st, nt_sent := nt_sent s @ [?d], nt_count := nt_count s + 1\<rparr>)"
  have r: "?result \<noteq> SendPanics" using SendWebhook_no_panic [OF assms(1)] by (simp add: delivery_def)
  have "RecordWebhookResult ops (nd_recorded dr ?i) (nd_dbnow dr ?i) w (\<not> send_error ?result) (nd_took_ms dr ?i) (nt_store s) = (e, st)"
    using up by (simp add: RecordWebhookResult_def recorded_def split: if_splits)
  then have one: "notify_one ops hmac json client dr event w s = Some s1"
    using r assms(3,4) CanAttemptDelivery_active [OF assms(2)]
    by (simp add: notify_one_def sendWebhookSyncWithConfig_def delivery_def Let_def s1_def)
  have st: "nt_store s1 = st" "nt_sent s1 = nt_sent s @ [?d]" "nt_worker s1 = None" using assms(4) by (simp_all add: s1_def)
  note law = update_law [OF _ up] and row = assms(5) [unfolded row_here_def]
  have "delivered_to json dr event (delivery hmac json client dr event) (view st) w ?d"
    using law row by (cases "e = None") (auto simp: delivered_to_def)
  moreover have "view st = (view (nt_store s))\<lparr>wv_configs := wv_configs (view st)\<rparr>"
    "\<forall>i. i \<noteq> ?i \<longrightarrow> wv_configs (view st) i = wv_configs (view (nt_store s)) i" using law row by (cases "e = None"; auto)+
  moreover have "nt_count s1 = nt_count s + (if send_error ?result then 0 else 1)"
    "nt_last s1 = None \<longleftrightarrow> nt_last s = None \<and> \<not> send_error ?result" by (simp_all add: s1_def)
  ultimately show ?thesis using that [of s1 ?d] one st up law row by simp
qed

lemma sync_deliveries:
  assumes "1 \<le> hc_maxRetries client" "\<forall>w \<in> set ws. IsActive w \<and> admits w \<and> row_here (nt_store s) w" "nt_worker s = None" "ok (nt_store s)"
    and "distinct (map whc_ID ws)"
    and r: "r = delivery hmac json client dr event"
  shows "\<exists>s' sent. notify_all ops hmac json client dr event ws s = Some s' \<and> nt_worker s' = None \<and> ok (nt_store s') \<and>
    nt_sent s' = nt_sent s @ sent \<and> list_all2 (delivered_to json dr event r (view (nt_store s'))) ws sent \<and>
    view (nt_store s') = (view (nt_store s))\<lparr>wv_configs := wv_configs (view (nt_store s'))\<rparr> \<and>
    (\<forall>i. i \<notin> whc_ID ` set ws \<longrightarrow> wv_configs (view (nt_store s')) i = wv_configs (view (nt_store s)) i) \<and>
    nt_count s' = nt_count s + length (filter (\<lambda>d. \<not> send_error (wd_result d)) sent) \<and>
    (nt_last s' = None \<longleftrightarrow> nt_last s = None \<and> list_all (\<lambda>d. \<not> send_error (wd_result d)) sent) \<and>
    (quiet (nt_store s) \<and> (\<forall>w \<in> set ws. records_all ops quiet dr r row_here w) \<longrightarrow> list_all (\<lambda>d. wd_unrecorded d = None) sent)"
  using assms(2-5)
proof (induction ws arbitrary: s)
  case Nil
  then show ?case by simp
next
  case (Cons w ws)
  have w: "IsActive w" "admits w" "row_here (nt_store s) w" and fresh: "whc_ID w \<notin> whc_ID ` set ws" using Cons(2,5) by auto
  obtain s1 d where one: "notify_one ops hmac json client dr event w s = Some s1" "nt_worker s1 = None" "ok (nt_store s1)" "nt_sent s1 = nt_sent s @ [d]"
    and d: "delivered_to json dr event r (view (nt_store s1)) w d"
    and v: "view (nt_store s1) = (view (nt_store s))\<lparr>wv_configs := wv_configs (view (nt_store s1))\<rparr>"
    and frame: "\<forall>i. i \<noteq> whc_ID w \<longrightarrow> wv_configs (view (nt_store s1)) i = wv_configs (view (nt_store s)) i"
    and up: "who_Update ops (nd_dbnow dr (whc_ID w)) (recorded dr (r w) w) (nt_store s) = (wd_unrecorded d, nt_store s1)"
    and c: "nt_count s1 = nt_count s + (if send_error (wd_result d) then 0 else 1)"
    and l: "nt_last s1 = None \<longleftrightarrow> nt_last s = None \<and> \<not> send_error (wd_result d)"
    unfolding r by (rule sync_delivery [OF assms(1) w(1,2) Cons(3) w(3), where hmac = hmac and json = json and dr = dr and event = event])
  have later: "\<forall>x \<in> set ws. IsActive x \<and> admits x \<and> row_here (nt_store s1) x"
  proof
    fix x assume x: "x \<in> set ws"
    then have "whc_ID x \<noteq> whc_ID w" using fresh by (metis imageI)
    then show "IsActive x \<and> admits x \<and> row_here (nt_store s1) x" using Cons(2) frame one(3) x by (simp add: row_here_def)
  qed
  have dist: "distinct (map whc_ID ws)" using Cons(5) by simp
  obtain s' sent where
    rest: "notify_all ops hmac json client dr event ws s1 = Some s'" "nt_worker s' = None" "ok (nt_store s')" "nt_sent s' = nt_sent s1 @ sent"
      "list_all2 (delivered_to json dr event r (view (nt_store s'))) ws sent"
      "view (nt_store s') = (view (nt_store s1))\<lparr>wv_configs := wv_configs (view (nt_store s'))\<rparr>"
      "\<forall>i. i \<notin> whc_ID ` set ws \<longrightarrow> wv_configs (view (nt_store s')) i = wv_configs (view (nt_store s1)) i"
      "nt_count s' = nt_count s1 + length (filter (\<lambda>d. \<not> send_error (wd_result d)) sent)"
      "nt_last s' = None \<longleftrightarrow> nt_last s1 = None \<and> list_all (\<lambda>d. \<not> send_error (wd_result d)) sent"
    and all: "quiet (nt_store s1) \<and> (\<forall>w \<in> set ws. records_all ops quiet dr r row_here w) \<longrightarrow> list_all (\<lambda>d. wd_unrecorded d = None) sent"
    using Cons(1) [OF later one(2,3) dist] by (elim exE conjE) (rule that)
  have "wv_configs (view (nt_store s')) (whc_ID w) = wv_configs (view (nt_store s1)) (whc_ID w)" using rest(7) fresh by blast
  then have "delivered_to json dr event r (view (nt_store s')) w d" using d by (simp add: delivered_to_def)
  then have sent: "list_all2 (delivered_to json dr event r (view (nt_store s'))) (w # ws) (d # sent)" using rest(5) by simp
  have v': "view (nt_store s') = (view (nt_store s))\<lparr>wv_configs := wv_configs (view (nt_store s'))\<rparr>"
    by (subst rest(6), subst v) simp
  have frame': "\<forall>i. i \<notin> whc_ID ` set (w # ws) \<longrightarrow> wv_configs (view (nt_store s')) i = wv_configs (view (nt_store s)) i"
    using frame rest(7) by simp
  have "wd_unrecorded d = None \<and> quiet (nt_store s1)" if "quiet (nt_store s)" "records_all ops quiet dr r row_here w"
    using that up w(3) by (auto simp: records_all_def)
  then have all': "quiet (nt_store s) \<and> (\<forall>w \<in> set (w # ws). records_all ops quiet dr r row_here w) \<longrightarrow> list_all (\<lambda>d. wd_unrecorded d = None) (d # sent)"
    using all by simp
  have run: "notify_all ops hmac json client dr event (w # ws) s = Some s'" using one(1) rest(1) by simp
  show ?case
    using run rest(2-4,8,9) one(4) c l sent v' frame' all'
    by (intro exI [of _ s'] exI [of _ "d # sent"] conjI) simp_all
qed

end

lemma pg_active_distinct:
  assumes "webhook_ok st" "pg_Webhook_GetActiveByDomainID i st = (Inr ws, st')"
  shows "distinct (map whc_ID ws)" "pg_faults st = [] \<Longrightarrow> pg_faults st' = []"
proof -
  have "distinct (map config_id (newest_webhooks (filter P (wdb_configs st))))" for P
    using assms(1) by (simp add: newest_webhooks_def webhook_ok_def distinct_map inj_on_def)
  then have "distinct (map (\<lambda>r. whc_ID (wr_config r)) (newest_webhooks (filter P (wdb_configs st))))" for P
    by (simp add: config_id_def [abs_def])
  then show "distinct (map whc_ID ws)"
    using assms(2) by (auto simp: pg_Webhook_GetActiveByDomainID_def exec_def scan_rows_def comp_def
        split: list.splits option.splits if_splits)
  show "pg_faults st = [] \<Longrightarrow> pg_faults st' = []" using assms(2) by (auto simp: pg_Webhook_GetActiveByDomainID_def exec_def)
qed

text \<open>With a database that answers, the update of a row that meets the constraints of the table succeeds.\<close>

lemma pg_records_all:
  assumes "webhook_row_check (recorded dr (result w) w) = None"
  shows "records_all (pg_webhook_repo inet) (\<lambda>st. pg_faults st = []) dr result (wh.row_here) w"
  unfolding records_all_def
proof (intro allI impI, elim conjE)
  fix st assume st: "pg_faults st = []" "wh.row_here st w"
  let ?c = "recorded dr (result w) w"
  have ok: "webhook_ok st" "plain_row w \<in> set (wdb_configs st)"
    using st(2) config_lookup by (auto simp: wh.row_here_def)
  have found: "find (\<lambda>r. whc_ID (wr_config r) = whc_ID ?c) (wdb_configs st) = Some (plain_row w)"
    using st(2) ok(1) by (simp add: wh.row_here_def pg_webhook_view_def lookup_def config_id_def)
  have name: "whc_Name ?c = whc_Name w" by (simp add: recorded_def RecordFailure_def RecordSuccess_def Let_def)
  have free: "\<not> list_ex (\<lambda>r. whc_ID (wr_config r) \<noteq> whc_ID ?c \<and> same_webhook_name (wr_config (updated_webhook (nd_dbnow dr (whc_ID w)) ?c (plain_row w))) r)
      (wdb_configs st)"
  proof
    assume "list_ex (\<lambda>r. whc_ID (wr_config r) \<noteq> whc_ID ?c \<and> same_webhook_name (wr_config (updated_webhook (nd_dbnow dr (whc_ID w)) ?c (plain_row w))) r)
      (wdb_configs st)"
    then obtain r where r: "r \<in> set (wdb_configs st)" "whc_ID (wr_config r) \<noteq> whc_ID w" "config_name r = config_name (plain_row w)"
      by (auto simp: list_ex_iff same_name_iff config_name_def updated_webhook_def name)
    have "inj_on config_name (set (wdb_configs st))" using ok(1) by (simp add: webhook_ok_def distinct_map)
    then have "r = plain_row w" using r(1,3) ok(2) by (meson inj_onD)
    then show False using r(2) by simp
  qed
  have "list_all in_int32 (int_columns ?c)" "WebhookAuthType_IsValid (whc_AuthType ?c)" "WebhookHealthStatus_IsValid (whc_HealthStatus ?c)"
    using assms by (simp_all add: webhook_row_check_def split: if_splits)
  then show "case who_Update (pg_webhook_repo inet) (nd_dbnow dr (whc_ID w)) ?c st of (e, st') \<Rightarrow> e = None \<and> pg_faults st' = []"
    using assms st(1) found free
    by (simp add: pg_webhook_repo_def pg_Webhook_Update_def exec_def as_error_def)
qed

text \<open>
  C14: A synchronous notification reaches exactly the configurations that want it and records what happened. In the order of the query it makes
  one delivery to every active configuration of the domain that subscribed to the event and whose breaker admits a delivery, also after
  another one failed or succeeded, and no other; it succeeds exactly when one of these deliveries does. Afterwards the row of each of these configurations
  holds the record of its own delivery, or is as it was where the statement failed, which no statement does on a database that answers as long as
  the records meet the constraints of the table; nothing else changes.
\<close>

theorem notification_outcome:
  assumes "webhook_ok st" "ns_configLoader s" "ns_asyncWorker s = None" "1 \<le> hc_maxRetries (ns_client s)"
    and load: "pg_Webhook_GetActiveByDomainID (d_ID d) st = (Inr active, st1)"
    and "targets = filter (\<lambda>w. ShouldSendEvent ''email.received'' w \<and> admits w) active" "targets \<noteq> []"
    and "event = NewIncomingEmailEvent (nd_event dr) r d a vr auto_created" "event_Validate event = None"
    and "result = delivery hmac json (ns_client s) dr event"
  shows "\<exists>e sent st'. service_NotifyIncomingEmail (pg_webhook_repo inet) hmac json dr s r d a vr auto_created st = Some (e, s, sent, st') \<and> webhook_ok st' \<and>
    list_all2 (delivered_to json dr event result (pg_webhook_view st')) targets sent \<and>
    (e = None \<longleftrightarrow> list_ex (\<lambda>w. \<not> send_error (result w)) targets) \<and>
    pg_webhook_view st' = (pg_webhook_view st)\<lparr>wv_configs := wv_configs (pg_webhook_view st')\<rparr> \<and>
    (\<forall>i. i \<notin> whc_ID ` set targets \<longrightarrow> wv_configs (pg_webhook_view st') i = wv_configs (pg_webhook_view st) i) \<and>
    (pg_faults st = [] \<and> (\<forall>w \<in> set targets. webhook_row_check (recorded dr (result w) w) = None) \<longrightarrow> list_all (\<lambda>x. wd_unrecorded x = None) sent)"
proof -
  have get: "who_GetActiveByDomainID (pg_webhook_repo inet) (d_ID d) st = (Inr active, st1)" using load by (simp add: pg_webhook_repo_def)
  note law = wh.active_law [OF assms(1) get] and fresh = pg_active_distinct [OF assms(1) load]
  let ?s0 = "\<lparr>nt_last = None, nt_count = 0, nt_worker = None, nt_sent = [], nt_store = st1\<rparr>"
  have idle: "nt_worker ?s0 = None" by simp
  have T: "\<forall>w \<in> set targets. IsActive w \<and> admits w \<and> wh.row_here (nt_store ?s0) w" "distinct (map whc_ID targets)" "webhook_ok (nt_store ?s0)"
    using law assms(6) fresh(1) by (auto simp: wh.row_here_def distinct_map inj_on_def)
  obtain f sent where f: "notify_all (pg_webhook_repo inet) hmac json (ns_client s) dr event targets ?s0 = Some f" "nt_worker f = None"
      "webhook_ok (nt_store f)" "nt_sent f = sent" "list_all2 (delivered_to json dr event result (pg_webhook_view (nt_store f))) targets sent"
      "pg_webhook_view (nt_store f) = (pg_webhook_view st1)\<lparr>wv_configs := wv_configs (pg_webhook_view (nt_store f))\<rparr>"
      "\<forall>i. i \<notin> whc_ID ` set targets \<longrightarrow> wv_configs (pg_webhook_view (nt_store f)) i = wv_configs (pg_webhook_view st1) i"
      "nt_count f = length (filter (\<lambda>d. \<not> send_error (wd_result d)) sent)" "nt_last f = None \<longleftrightarrow> list_all (\<lambda>d. \<not> send_error (wd_result d)) sent"
      "pg_faults st1 = [] \<and> (\<forall>w \<in> set targets. records_all (pg_webhook_repo inet) (\<lambda>st. pg_faults st = []) dr result wh.row_here w) \<longrightarrow>
         list_all (\<lambda>d. wd_unrecorded d = None) sent"
    using wh.sync_deliveries [OF assms(4) T(1) idle T(3,2) assms(10), of inet "\<lambda>st. pg_faults st = []"]
    by (simp only: notify_state.simps) (elim exE conjE, rule that, simp_all)
  let ?e = "if nt_count f = 0 then map_option AllDeliveriesFailed (nt_last f) else None"
  have "s\<lparr>ns_asyncWorker := None\<rparr> = s" using assms(3) by simp
  then have run: "service_NotifyIncomingEmail (pg_webhook_repo inet) hmac json dr s r d a vr auto_created st = Some (?e, s, sent, nt_store f)"
    using assms(2,3,6-9) get f(1,2,4)
    by (simp add: service_NotifyIncomingEmail_def LoadWebhookConfigsForEvent_def LoadActiveWebhookConfigs_def configs_for_event_filter Let_def)
  have results: "map wd_result sent = map result targets"
    using f(5) by (induction rule: list_all2_induct) (simp_all add: delivered_to_def)
  have "?e = None \<longleftrightarrow> list_ex (\<lambda>r. \<not> send_error r) (map wd_result sent)"
  proof -
    have "sent \<noteq> []" using f(5) assms(7) by auto
    then show ?thesis using f(8,9) by (cases sent) (auto simp: list_ex_iff list_all_iff filter_empty_conv)
  qed
  then have "?e = None \<longleftrightarrow> list_ex (\<lambda>w. \<not> send_error (result w)) targets" unfolding results by (simp add: list_ex_iff)
  moreover have "pg_webhook_view st1 = pg_webhook_view st" using law by simp
  ultimately show ?thesis
    using run f(3,5-7,10) fresh(2) pg_records_all [of dr result _ inet]
    by (intro exI [of _ ?e] exI [of _ sent] exI [of _ "nt_store f"]) simp
qed

section \<open>The circuit breaker\<close>

text \<open>The database as the users and the notifications change it, one after the other.\<close>

definition webhook_life :: "(string \<Rightarrow> string option) \<Rightarrow> webhook_db \<Rightarrow> webhook_db \<Rightarrow> bool" where
  "webhook_life inet st st' \<longleftrightarrow> (\<exists>hmac http. user_call inet hmac http st st') \<or>
     (\<exists>hmac json dr s r d a vr ac e s' sent. service_NotifyIncomingEmail (pg_webhook_repo inet) hmac json dr s r d a vr ac st = Some (e, s', sent, st'))"

lemma webhook_life_safe:
  assumes "webhook_life inet st st'" "webhook_ok st"
  shows "webhook_ok st' \<and> stays_open (pg_webhook_view st) (pg_webhook_view st')"
  using assms(1) unfolding webhook_life_def user_call_def
proof (elim disjE exE)
  fix hmac http dr u c b
  assume "run_call (pg_webhook_repo inet) hmac http dr u c st = (b, st')"
  then show ?thesis using wh.run_call_safe [OF assms(2)] by blast
next
  fix hmac json dr s r d a vr ac e s' sent
  assume "service_NotifyIncomingEmail (pg_webhook_repo inet) hmac json dr s r d a vr ac st = Some (e, s', sent, st')"
  then show ?thesis using wh.notify_safe [OF assms(2)] by blast
qed

text \<open>
  C15: A circuit breaker that opened never lets a delivery through again. Whatever users call and whichever messages arrive after it, in any order, as long
  as the configuration is not deleted its breaker is open and no list of active configurations holds it: the timeout after which the breaker is to
  be half-open is never looked at, since the query for the active configurations leaves out the open ones.
\<close>

theorem open_breaker_forever:
  assumes "(\<lambda>x y. webhook_life inet x y \<and> wv_configs (pg_webhook_view y) i \<noteq> None)\<^sup>*\<^sup>* st st'"
    and "webhook_ok st" "open_breaker (wv_configs (pg_webhook_view st) i)"
  shows "open_breaker (wv_configs (pg_webhook_view st') i) \<and>
    (\<nexists>ws st''. pg_Webhook_GetActiveByDomainID d st' = (Inr ws, st'') \<and> i \<in> whc_ID ` set ws)"
proof -
  have inv: "webhook_ok st' \<and> open_breaker (wv_configs (pg_webhook_view st') i)"
    using assms(1)
  proof (induction rule: rtranclp_induct)
    case base
    show ?case using assms(2,3) by simp
  next
    case (step x y)
    then show ?case using webhook_life_safe [of inet x y] by (auto simp: stays_open_def)
  qed
  have "i \<noteq> whc_ID w" if "pg_Webhook_GetActiveByDomainID d st' = (Inr ws, st'')" "w \<in> set ws" for ws st'' w
  proof -
    have "wv_configs (pg_webhook_view st') (whc_ID w) = Some (plain_row w) \<and> IsActive w"
      using wh.active_law [of st' inet d "Inr ws" st''] inv that by (simp add: pg_webhook_repo_def)
    then show ?thesis using inv by (auto simp: open_breaker_def IsActive_def)
  qed
  then show ?thesis using inv by blast
qed

section \<open>Samples\<close>

definition arrived_mail :: ReceivedEmail where
  "arrived_mail = \<lparr>re_ID = 50, re_EmailAddressID = Some 40, re_SequenceNumber = 1, re_FromAddress = ''x@y.org'', re_Subject = None,
     re_EncryptedBody = ''c'', re_DomainName = ''a.org'', re_EmailAddress = ''bob@a.org'', re_ReceivedAt = 0, re_SMTPVerification = None\<rparr>"

definition arrived_address :: EmailAddress where
  "arrived_address = \<lparr>ea_ID = 40, ea_DomainID = 10, ea_LocalPart = ''bob'', ea_ForwardAddresses = [], ea_ForwardingEnabled = False,
     ea_CreatedAt = 0, ea_UpdatedAt = 0\<rparr>"

definition sync_service :: IncomingEmailNotificationService where
  "sync_service = NewIncomingEmailNotificationService
     \<lparr>nc_HTTPClient = NewHTTPClient DefaultClientConfig, nc_EnableAsync = False, nc_ConfigLoader = True\<rparr>"

definition sample_notify :: notify_draw where
  "sample_notify = \<lparr>nd_event = 60, nd_loaded = (\<lambda>i. 0), nd_checked = (\<lambda>i. 0), nd_ended = (\<lambda>i. False), nd_queued = (\<lambda>i. 0),
     nd_send = (\<lambda>i. sample_delivery), nd_took_ms = (\<lambda>i. 5), nd_recorded = (\<lambda>i. 0), nd_dbnow = (\<lambda>i. 0)\<rparr>"

lemma sample_hook_wants: "ShouldSendEvent ''email.received'' (persist_webhook sample_hook)" "admits (persist_webhook sample_hook)"
  by code_simp+

lemma hooked_db_active: "pg_Webhook_GetActiveByDomainID (d_ID hooked_domain) hooked_db = (Inr [persist_webhook sample_hook], hooked_db)"
  using sample_hook_wants(1)
  by (simp add: pg_Webhook_GetActiveByDomainID_def hooked_db_def domain_db_def empty_webhook_db_def exec_def scan_rows_def newest_webhooks_def
      ShouldSendEvent_def IsActive_def sample_hook_def new_webhook_def sample_hook_input_def hooked_domain_def)

theorem notification_outcome_witness:
  "\<exists>e x st'. service_NotifyIncomingEmail (pg_webhook_repo Some) sample_hmac (\<lambda>e. Some ''{}'') sample_notify sync_service arrived_mail hooked_domain
      (Some arrived_address) None True hooked_db = Some (e, sync_service, [x], st') \<and> webhook_ok st' \<and> wd_config x = whc_ID sample_hook"
proof -
  have "event_Validate (NewIncomingEmailEvent (nd_event sample_notify) arrived_mail hooked_domain (Some arrived_address) None True) = None"
    by (simp add: event_Validate_def NewIncomingEmailEvent_def sample_notify_def arrived_mail_def arrived_address_def hooked_domain_def)
  moreover have "ns_configLoader sync_service" "ns_asyncWorker sync_service = None" "1 \<le> hc_maxRetries (ns_client sync_service)"
    by (simp_all add: sync_service_def NewIncomingEmailNotificationService_def NewHTTPClient_def DefaultClientConfig_def)
  ultimately show ?thesis
    using notification_outcome [OF hooked_db_ok _ _ _ hooked_db_active refl _ refl _ refl,
      where inet = Some and hmac = sample_hmac and json = "\<lambda>e. Some ''{}''" and s = sync_service and dr = sample_notify and r = arrived_mail and a = "Some arrived_address" and vr = None and auto_created = True]
      sample_hook_wants
    by (auto simp: list_all2_Cons1 delivered_to_def)
qed

text \<open>A user asks for a configuration whose breaker is open to be enabled.\<close>

definition open_db :: webhook_db where
  "open_db = hooked_db\<lparr>wdb_configs := [plain_row (persist_webhook (sample_hook\<lparr>whc_CircuitBreakerState := CircuitBreakerStateOpen\<rparr>))]\<rparr>"

definition enabled_run :: "bool \<times> webhook_db" where
  "enabled_run = run_call (pg_webhook_repo Some) (\<lambda>k m. k) (\<lambda>r. HTTPError []) sample_hook_draw 7 (CallEnable 20) open_db"

theorem open_breaker_forever_witness:
  "fst enabled_run \<and> open_breaker (wv_configs (pg_webhook_view (snd enabled_run)) 20)"
proof -
  have run: "fst enabled_run" "map (\<lambda>r. whc_ID (wr_config r)) (wdb_configs (snd enabled_run)) = [20]" by code_simp+
  have "webhook_life Some open_db (snd enabled_run)"
    unfolding webhook_life_def user_call_def enabled_run_def by (metis surjective_pairing)
  moreover have "wv_configs (pg_webhook_view (snd enabled_run)) 20 \<noteq> None"
    using run(2) by (auto simp: pg_webhook_view_def lookup_def config_id_def find_None_iff)
  ultimately have "(\<lambda>x y. webhook_life Some x y \<and> wv_configs (pg_webhook_view y) 20 \<noteq> None)\<^sup>*\<^sup>* open_db (snd enabled_run)"
    by (intro r_into_rtranclp) simp
  moreover have "webhook_row_check (sample_hook\<lparr>whc_CircuitBreakerState := CircuitBreakerStateOpen\<rparr>) = None" by code_simp
  then have "config_row_ok (persist_webhook (sample_hook\<lparr>whc_CircuitBreakerState := CircuitBreakerStateOpen\<rparr>))" by (rule row_check_ok)
  then have "webhook_ok open_db"
    by (simp add: open_db_def hooked_db_def domain_db_def empty_webhook_db_def webhook_ok_def sample_hook_def new_webhook_def
      sample_hook_input_def hooked_domain_def)
  moreover have "open_breaker (wv_configs (pg_webhook_view open_db) 20)"
    by (simp add: open_breaker_def pg_webhook_view_def lookup_def config_id_def open_db_def sample_hook_def new_webhook_def sample_hook_draw_def)
  ultimately show ?thesis using open_breaker_forever [of Some 20 open_db "snd enabled_run"] run(1) by blast
qed

end
