(* ===== verification/Users.thy ===== *)
theory Users
  imports WebhookStore
begin

text \<open>
  Users and their credentials: the tables \<open>users\<close> and \<open>local_credentials\<close> of the migrations, the repositories \<open>pg/user.go\<close> and
  \<open>pg/local_credentials.go\<close>, and the use case \<open>domain/user/usecase.go\<close>.

  The ids of the users are also what the other tables refer to (\<open>mdb_users\<close>); deleting a user deletes its domains with all that belongs to them.
\<close>

section \<open>Tables\<close>

record Credentials =
  cr_UserID :: uuid
  cr_PasswordHash :: string
  cr_EmailConfirmed :: bool
  cr_CreatedAt :: instant
  cr_UpdatedAt :: instant

record user_db = webhook_db +
  udb_users :: "User list"
  udb_credentials :: "Credentials list"

definition persist_user :: "User \<Rightarrow> User" where
  "persist_user u = u\<lparr>u_CreatedAt := trunc_us (u_CreatedAt u), u_UpdatedAt := trunc_us (u_UpdatedAt u)\<rparr>"

fun AccountType_text :: "AccountType \<Rightarrow> string" where
  "AccountType_text AccountTypeUser = ''user''"
| "AccountType_text AccountTypeOwner = ''owner''"
| "AccountType_text AccountTypeAdmin = ''admin''"
| "AccountType_text (AccountTypeOther s) = s"

fun account_enum :: "AccountType \<Rightarrow> bool" where
  "account_enum (AccountTypeOther _) = False"
| "account_enum _ = True"

fun plan_enum :: "UserPlan \<Rightarrow> bool" where
  "plan_enum (UserPlanOther _) = False"
| "plan_enum _ = True"

definition user_row_check :: "User \<Rightarrow> db_error option" where
  "user_row_check u =
     (if \<not> account_enum (u_AccountType u) \<or> \<not> plan_enum (u_UserPlan u) then Some InvalidEnum
      else if length (u_Email u) > 255 \<or> length (u_AuthProvider u) > 50 \<or> length (u_AuthProviderID u) > 255 then Some ValueTooLong
      else None)"

section \<open>The repository of users\<close>

definition pg_User_Create :: "User \<Rightarrow> user_db \<Rightarrow> db_error option \<times> user_db" where
  "pg_User_Create u = as_error \<circ> exec (\<lambda>st.
     case user_row_check u of
       Some e \<Rightarrow> (Inl e, st)
     | None \<Rightarrow>
         if list_ex (\<lambda>r. u_ID r = u_ID u \<or> u_Email r = u_Email u) (udb_users st) then (Inl UniqueViolation, st)
         else (Inr (), st\<lparr>udb_users := udb_users st @ [persist_user u], mdb_users := mdb_users st @ [u_ID u]\<rparr>))"

definition pg_User_GetByID :: "uuid \<Rightarrow> user_db \<Rightarrow> (db_error + User) \<times> user_db" where
  "pg_User_GetByID i = exec (\<lambda>st. (one_row_of (find (\<lambda>r. u_ID r = i) (udb_users st)), st))"

definition pg_User_GetByEmail :: "string \<Rightarrow> user_db \<Rightarrow> (db_error + User) \<times> user_db" where
  "pg_User_GetByEmail e = exec (\<lambda>st. (one_row_of (find (\<lambda>r. u_Email r = e) (udb_users st)), st))"

definition pg_User_GetByAuthProvider :: "string \<Rightarrow> string \<Rightarrow> user_db \<Rightarrow> (db_error + User) \<times> user_db" where
  "pg_User_GetByAuthProvider p i = exec (\<lambda>st. (one_row_of (find (\<lambda>r. u_AuthProvider r = p \<and> u_AuthProviderID r = i) (udb_users st)), st))"

text \<open>The identity and the time of creation are not written.\<close>

definition updated_user :: "User \<Rightarrow> User \<Rightarrow> User" where
  "updated_user u r = (persist_user u)\<lparr>u_CreatedAt := u_CreatedAt r\<rparr>"

definition pg_User_Update :: "User \<Rightarrow> user_db \<Rightarrow> db_error option \<times> user_db" where
  "pg_User_Update u = as_error \<circ> exec (\<lambda>st.
     if \<not> account_enum (u_AccountType u) \<or> \<not> plan_enum (u_UserPlan u) then (Inl InvalidEnum, st)
     else if \<not> list_ex (\<lambda>r. u_ID r = u_ID u) (udb_users st) then (Inl ErrNoRows, st)
     else case user_row_check u of
       Some e \<Rightarrow> (Inl e, st)
     | None \<Rightarrow>
         if list_ex (\<lambda>r. u_ID r \<noteq> u_ID u \<and> u_Email r = u_Email u) (udb_users st) then (Inl UniqueViolation, st)
         else (Inr (), st\<lparr>udb_users := map (\<lambda>r. if u_ID r = u_ID u then updated_user u r else r) (udb_users st)\<rparr>))"

text \<open>
  \<open>DELETE FROM users\<close>: the domains of the user go with their mailboxes, verification records, webhooks and credentials, unless one of the mailboxes
  holds mail; audit entries lose their author.
\<close>

definition domain_rows_deleted :: "uuid list \<Rightarrow> webhook_db \<Rightarrow> webhook_db" where
  "domain_rows_deleted ds st = fold (\<lambda>d st. cascade_webhooks d (snd (on_mail (pg_Domain_Delete d) st))) ds st"

definition on_webhooks :: "(webhook_db \<Rightarrow> webhook_db) \<Rightarrow> user_db \<Rightarrow> user_db" where
  "on_webhooks f st = webhook_db.extend (f (webhook_db.truncate st)) (webhook_db.more st)"

definition pg_User_Delete :: "uuid \<Rightarrow> user_db \<Rightarrow> db_error option \<times> user_db" where
  "pg_User_Delete i = as_error \<circ> exec (\<lambda>st.
     let ds = map d_ID (filter (\<lambda>d. d_UserID d = i) (mdb_domains st));
         gone = map ea_ID (filter (\<lambda>a. ea_DomainID a \<in> set ds) (mdb_addresses st))
     in if \<not> list_ex (\<lambda>r. u_ID r = i) (udb_users st) then (Inl ErrNoRows, st)
        else if list_ex (\<lambda>r. case re_EmailAddressID r of None \<Rightarrow> False | Some a \<Rightarrow> a \<in> set gone) (mdb_received st) then (Inl ForeignKeyViolation, st)
        else (Inr (), (on_webhooks (\<lambda>w. (domain_rows_deleted ds (w\<lparr>pg_faults := []\<rparr>))\<lparr>pg_faults := pg_faults w,
                wdb_audit := map (\<lambda>a. if wa_ChangedByUserID a = Some i then a\<lparr>wa_ChangedByUserID := None\<rparr> else a)
                  (wdb_audit (domain_rows_deleted ds (w\<lparr>pg_faults := []\<rparr>)))\<rparr>) st)
             \<lparr>udb_users := filter (\<lambda>r. u_ID r \<noteq> i) (udb_users st), mdb_users := filter (\<lambda>u. u \<noteq> i) (mdb_users st),
              udb_credentials := filter (\<lambda>c. cr_UserID c \<noteq> i) (udb_credentials st)\<rparr>))"

definition newest_users :: "User list \<Rightarrow> User list" where
  "newest_users = sort_key (\<lambda>r. - u_CreatedAt r)"

text \<open>Two statements: the count, then one page.\<close>

definition count_and_page :: "(User \<Rightarrow> bool) \<Rightarrow> db_error option \<Rightarrow> int \<Rightarrow> int \<Rightarrow> user_db \<Rightarrow> (db_error + User list \<times> int) \<times> user_db" where
  "count_and_page P bad p pageSize st =
     (case exec (\<lambda>st. (case bad of Some e \<Rightarrow> Inl e | None \<Rightarrow> Inr (int (length (filter P (udb_users st)))), st)) st of
        (Inl e, st1) \<Rightarrow> (Inl e, st1)
      | (Inr n, st1) \<Rightarrow>
          (case exec (\<lambda>st. (page pageSize (wrap64 ((p - 1) * pageSize)) (newest_users (filter P (udb_users st))), st)) st1 of
             (Inl e, st2) \<Rightarrow> (Inl e, st2)
           | (Inr us, st2) \<Rightarrow> (Inr (us, n), st2)))"

definition pg_User_List :: "int \<Rightarrow> int \<Rightarrow> user_db \<Rightarrow> (db_error + User list \<times> int) \<times> user_db" where
  "pg_User_List = count_and_page (\<lambda>_. True) None"

text \<open>\<open>LIKE\<close>: percent, underscore, and the backslash before a literal character.\<close>

function like_match :: "string \<Rightarrow> string \<Rightarrow> bool" where
  "like_match [] s = (s = [])"
| "like_match (c # p) [] = (c = CHR ''%'' \<and> like_match p [])"
| "like_match (c # p) (x # s) =
     (if c = CHR ''%'' then like_match p (x # s) \<or> like_match (c # p) s
      else if c = CHR ''_'' then like_match p s
      else if c = CHR 0x5C then (case p of [] \<Rightarrow> False | d # q \<Rightarrow> x = d \<and> like_match q s)
      else x = c \<and> like_match p s)"
  by pat_completeness auto
termination by (relation "measure (\<lambda>(p, s). length p + length s)") auto

definition ilike :: "string \<Rightarrow> string \<Rightarrow> bool" where
  "ilike s p \<longleftrightarrow> like_match (ToLower p) (ToLower s)"

definition search_filter :: "string \<Rightarrow> string \<Rightarrow> User \<Rightarrow> bool" where
  "search_filter search accountType u \<longleftrightarrow>
     (search \<noteq> [] \<longrightarrow> ilike (u_Email u) (''%'' @ search @ ''%'')) \<and> (accountType \<noteq> [] \<longrightarrow> AccountType_text (u_AccountType u) = accountType)"

definition pg_SearchUsers :: "int \<Rightarrow> int \<Rightarrow> string \<Rightarrow> string \<Rightarrow> user_db \<Rightarrow> (db_error + User list \<times> int) \<times> user_db" where
  "pg_SearchUsers p pageSize search accountType = count_and_page (search_filter search accountType)
     (if accountType \<notin> {[], ''user'', ''owner'', ''admin''} then Some InvalidEnum else None) p pageSize"

section \<open>The repository of credentials\<close>

text \<open>\<open>dbnow\<close> is the clock of the database, which fills the times.\<close>

definition pg_Credentials_Create :: "instant \<Rightarrow> uuid \<Rightarrow> string \<Rightarrow> user_db \<Rightarrow> db_error option \<times> user_db" where
  "pg_Credentials_Create dbnow u h = as_error \<circ> exec (\<lambda>st.
     if list_ex (\<lambda>c. cr_UserID c = u) (udb_credentials st) then (Inl UniqueViolation, st)
     else if u \<notin> u_ID ` set (udb_users st) then (Inl ForeignKeyViolation, st)
     else (Inr (), st\<lparr>udb_credentials := udb_credentials st @ [\<lparr>cr_UserID = u, cr_PasswordHash = h, cr_EmailConfirmed = True,
             cr_CreatedAt = trunc_us dbnow, cr_UpdatedAt = trunc_us dbnow\<rparr>]\<rparr>))"

definition pg_Credentials_GetByUserID :: "uuid \<Rightarrow> user_db \<Rightarrow> (db_error + Credentials) \<times> user_db" where
  "pg_Credentials_GetByUserID u = exec (\<lambda>st. (one_row_of (find (\<lambda>c. cr_UserID c = u) (udb_credentials st)), st))"

definition pg_Credentials_Delete :: "uuid \<Rightarrow> user_db \<Rightarrow> db_error option \<times> user_db" where
  "pg_Credentials_Delete u = as_error \<circ> exec (\<lambda>st.
     (Inr (), st\<lparr>udb_credentials := filter (\<lambda>c. cr_UserID c \<noteq> u) (udb_credentials st)\<rparr>))"

section \<open>Interfaces\<close>

record 'st user_ops =
  uso_Create :: "User \<Rightarrow> 'st \<Rightarrow> db_error option \<times> 'st"
  uso_GetByID :: "uuid \<Rightarrow> 'st \<Rightarrow> (db_error + User) \<times> 'st"
  uso_GetByEmail :: "string \<Rightarrow> 'st \<Rightarrow> (db_error + User) \<times> 'st"
  uso_GetByAuthProvider :: "string \<Rightarrow> string \<Rightarrow> 'st \<Rightarrow> (db_error + User) \<times> 'st"
  uso_Update :: "User \<Rightarrow> 'st \<Rightarrow> db_error option \<times> 'st"
  uso_Delete :: "uuid \<Rightarrow> 'st \<Rightarrow> db_error option \<times> 'st"
  uso_List :: "int \<Rightarrow> int \<Rightarrow> 'st \<Rightarrow> (db_error + User list \<times> int) \<times> 'st"
  uso_SearchUsers :: "int \<Rightarrow> int \<Rightarrow> string \<Rightarrow> string \<Rightarrow> 'st \<Rightarrow> (db_error + User list \<times> int) \<times> 'st"

record 'st credential_ops =
  cro_Create :: "instant \<Rightarrow> uuid \<Rightarrow> string \<Rightarrow> 'st \<Rightarrow> db_error option \<times> 'st"
  cro_GetByUserID :: "uuid \<Rightarrow> 'st \<Rightarrow> (db_error + Credentials) \<times> 'st"
  cro_Delete :: "uuid \<Rightarrow> 'st \<Rightarrow> db_error option \<times> 'st"

definition pg_user_repo :: "user_db user_ops" where
  "pg_user_repo = \<lparr>uso_Create = pg_User_Create, uso_GetByID = pg_User_GetByID, uso_GetByEmail = pg_User_GetByEmail,
     uso_GetByAuthProvider = pg_User_GetByAuthProvider, uso_Update = pg_User_Update, uso_Delete = pg_User_Delete, uso_List = pg_User_List,
     uso_SearchUsers = pg_SearchUsers\<rparr>"

definition pg_credential_repo :: "user_db credential_ops" where
  "pg_credential_repo = \<lparr>cro_Create = pg_Credentials_Create, cro_GetByUserID = pg_Credentials_GetByUserID, cro_Delete = pg_Credentials_Delete\<rparr>"

section \<open>The use case\<close>

datatype user_error =
    UserEmailRequired | UserProviderRequired | UserExists | UserInvalid | UserIDRequired | UserProviderDataRequired
  | UserCreateFailed db_error | UserGetFailed db_error | UserUpdateFailed db_error | UserRepoFailed db_error

record CreateUserInput =
  cu_Email :: string
  cu_AuthProvider :: string
  cu_AuthProviderID :: string

record user_draw =
  ud_id :: uuid
  ud_created :: instant
  ud_updated :: instant

definition new_user :: "user_draw \<Rightarrow> string \<Rightarrow> string \<Rightarrow> string \<Rightarrow> User" where
  "new_user dr email provider providerID = \<lparr>u_ID = ud_id dr, u_Email = email, u_AuthProvider = provider, u_AuthProviderID = providerID,
     u_AccountType = AccountTypeUser, u_UserPlan = UserPlanFree, u_CreatedAt = ud_created dr, u_UpdatedAt = ud_updated dr\<rparr>"

definition usecase_CreateUser :: "'st user_ops \<Rightarrow> user_draw \<Rightarrow> CreateUserInput \<Rightarrow> 'st \<Rightarrow> (user_error + User) \<times> 'st" where
  "usecase_CreateUser ops dr req st =
     (if cu_Email req = [] then (Inl UserEmailRequired, st)
      else if cu_AuthProvider req = [] then (Inl UserProviderRequired, st)
      else case uso_GetByEmail ops (cu_Email req) st of
        (Inr _, st1) \<Rightarrow> (Inl UserExists, st1)
      | (Inl _, st1) \<Rightarrow>
          (let user = new_user dr (cu_Email req) (cu_AuthProvider req) (cu_AuthProviderID req) in
           if \<not> User_IsValid user then (Inl UserInvalid, st1)
           else case uso_Create ops user st1 of
             (Some e, st2) \<Rightarrow> (Inl (UserCreateFailed e), st2)
           | (None, st2) \<Rightarrow> (Inr user, st2)))"

definition usecase_GetUserByID :: "'st user_ops \<Rightarrow> uuid \<Rightarrow> 'st \<Rightarrow> (user_error + User) \<times> 'st" where
  "usecase_GetUserByID ops i st =
     (if i = uuid_nil then (Inl UserIDRequired, st)
      else case uso_GetByID ops i st of (Inl e, st1) \<Rightarrow> (Inl (UserGetFailed e), st1) | (Inr u, st1) \<Rightarrow> (Inr u, st1))"

definition usecase_GetUserByEmail :: "'st user_ops \<Rightarrow> string \<Rightarrow> 'st \<Rightarrow> (user_error + User) \<times> 'st" where
  "usecase_GetUserByEmail ops email st =
     (if email = [] then (Inl UserEmailRequired, st)
      else case uso_GetByEmail ops email st of (Inl e, st1) \<Rightarrow> (Inl (UserGetFailed e), st1) | (Inr u, st1) \<Rightarrow> (Inr u, st1))"

definition GetOrCreateUserByAuthProvider ::
    "'st user_ops \<Rightarrow> user_draw \<Rightarrow> string \<Rightarrow> string \<Rightarrow> string \<Rightarrow> 'st \<Rightarrow> (user_error + User) \<times> 'st" where
  "GetOrCreateUserByAuthProvider ops dr provider providerID email st =
     (if provider = [] \<or> providerID = [] \<or> email = [] then (Inl UserProviderDataRequired, st)
      else case uso_GetByAuthProvider ops provider providerID st of
        (Inr user, st1) \<Rightarrow> (Inr user, st1)
      | (Inl _, st1) \<Rightarrow>
          (case uso_GetByEmail ops email st1 of
             (Inr user, st2) \<Rightarrow>
               if u_AuthProvider user \<noteq> provider \<or> u_AuthProviderID user \<noteq> providerID then
                 (let user' = user\<lparr>u_AuthProvider := provider, u_AuthProviderID := providerID, u_UpdatedAt := ud_updated dr\<rparr> in
                  case uso_Update ops user' st2 of
                    (Some e, st3) \<Rightarrow> (Inl (UserUpdateFailed e), st3)
                  | (None, st3) \<Rightarrow> (Inr user', st3))
               else (Inr user, st2)
           | (Inl _, st2) \<Rightarrow> usecase_CreateUser ops dr \<lparr>cu_Email = email, cu_AuthProvider = provider, cu_AuthProviderID = providerID\<rparr> st2))"

definition repo_error :: "db_error option \<times> 'st \<Rightarrow> user_error option \<times> 'st" where
  "repo_error r = (map_option UserRepoFailed (fst r), snd r)"

definition usecase_DeleteUser :: "'st user_ops \<Rightarrow> uuid \<Rightarrow> 'st \<Rightarrow> user_error option \<times> 'st" where
  "usecase_DeleteUser ops i st = (if i = uuid_nil then (Some UserIDRequired, st) else repo_error (uso_Delete ops i st))"

definition usecase_ListUsers :: "'st user_ops \<Rightarrow> int \<Rightarrow> int \<Rightarrow> 'st \<Rightarrow> (db_error + User list \<times> int) \<times> 'st" where
  "usecase_ListUsers ops = uso_List ops"

definition usecase_UpdateUser :: "'st user_ops \<Rightarrow> instant \<Rightarrow> User \<Rightarrow> 'st \<Rightarrow> user_error option \<times> 'st" where
  "usecase_UpdateUser ops now user st =
     (if u_ID user = uuid_nil then (Some UserIDRequired, st)
      else if \<not> User_IsValid user then (Some UserInvalid, st)
      else repo_error (uso_Update ops (user\<lparr>u_UpdatedAt := now\<rparr>) st))"

definition usecase_SearchUsers :: "'st user_ops \<Rightarrow> int \<Rightarrow> int \<Rightarrow> string \<Rightarrow> string \<Rightarrow> 'st \<Rightarrow> (db_error + User list \<times> int) \<times> 'st" where
  "usecase_SearchUsers ops = uso_SearchUsers ops"

end
