(* ===== verification/LocalAuth.thy ===== *)
theory LocalAuth
  imports Users GoHTTP
begin

text \<open>
  Accounts and sessions: the built-in provider \<open>domain/auth/local/provider.go\<close>, the middleware \<open>app/api/middleware/auth.go\<close> and the handlers
  \<open>app/api/v1/auth/auth.go\<close> after their requests are decoded and validated.

  \<open>bcrypt\<close>, the token service \<open>gox/jwt\<close> and the parser of UUIDs are arguments.
\<close>

section \<open>Libraries\<close>

record Claims =
  cl_UserID :: string
  cl_Subject :: string
  cl_Email :: string
  cl_AccountType :: string

record jwt_service =
  jwt_Generate :: "instant \<Rightarrow> string \<Rightarrow> string \<Rightarrow> string \<Rightarrow> string option"
  jwt_Validate :: "instant \<Rightarrow> string \<Rightarrow> Claims option"

text \<open>Hashing draws a salt and fails on passwords it refuses.\<close>

record bcrypt =
  bc_Generate :: "string \<Rightarrow> string \<Rightarrow> string option"
  bc_Compare :: "string \<Rightarrow> string \<Rightarrow> bool"

section \<open>The provider\<close>

definition ProviderName :: string where
  "ProviderName = ''local''"

record 'st Provider =
  pv_creds :: "'st credential_ops"
  pv_users :: "'st user_ops"
  pv_jwt :: jwt_service

text \<open>\<open>service\<close> is the constructor of the token service; \<open>ttl_text\<close> prints a duration.\<close>

definition NewProvider ::
    "(string \<Rightarrow> string \<Rightarrow> string \<Rightarrow> jwt_service) \<Rightarrow> (duration \<Rightarrow> string) \<Rightarrow> 'st credential_ops \<Rightarrow> 'st user_ops \<Rightarrow> string \<Rightarrow> duration
      \<Rightarrow> 'st Provider option" where
  "NewProvider service ttl_text creds users secretKey tokenTTL =
     (if length secretKey < 32 then None
      else if tokenTTL \<le> 0 then None
      else Some \<lparr>pv_creds = creds, pv_users = users, pv_jwt = service secretKey ''mailvault-local'' (ttl_text tokenTTL)\<rparr>)"

datatype auth_error =
    AuthEmailRequired | AuthPasswordTooShort | AuthUserExists | AuthCheckFailed db_error | AuthHashFailed | AuthCreateFailed db_error
  | AuthCredentialsFailed db_error | AuthSignFailed | AuthInvalidLogin | AuthInvalidToken | AuthInvalidSubject | AuthUserNotFound
  | AuthInvalidUserID | AuthRepoFailed db_error

record auth_draw =
  ad_salt :: string
  ad_id :: uuid
  ad_now :: instant
  ad_dbnow :: instant

record CreateUserResponse =
  cr_ID :: string
  cr_RequiresConfirm :: bool
  cr_AccessToken :: string

definition normalizeEmail :: "string \<Rightarrow> string" where
  "normalizeEmail email = ToLower (TrimSpace email)"

definition signToken :: "'st Provider \<Rightarrow> instant \<Rightarrow> uuid \<Rightarrow> string \<Rightarrow> string option" where
  "signToken p now i email = jwt_Generate (pv_jwt p) now (uuid_String i) email []"

definition local_user :: "auth_draw \<Rightarrow> string \<Rightarrow> User" where
  "local_user dr email = \<lparr>u_ID = ad_id dr, u_Email = email, u_AuthProvider = ProviderName, u_AuthProviderID = uuid_String (ad_id dr),
     u_AccountType = AccountTypeUser, u_UserPlan = UserPlanFree, u_CreatedAt = ad_now dr, u_UpdatedAt = ad_now dr\<rparr>"

definition provider_CreateUser ::
    "'st Provider \<Rightarrow> bcrypt \<Rightarrow> auth_draw \<Rightarrow> string \<Rightarrow> string \<Rightarrow> 'st \<Rightarrow> (auth_error + CreateUserResponse) \<times> 'st" where
  "provider_CreateUser p bc dr email0 password st =
     (let email = normalizeEmail email0 in
      if email = [] then (Inl AuthEmailRequired, st)
      else if length password < 8 then (Inl AuthPasswordTooShort, st)
      else case uso_GetByEmail (pv_users p) email st of
        (Inr _, st1) \<Rightarrow> (Inl AuthUserExists, st1)
      | (Inl e, st1) \<Rightarrow>
          if e \<noteq> ErrNoRows then (Inl (AuthCheckFailed e), st1)
          else case bc_Generate bc (ad_salt dr) password of
            None \<Rightarrow> (Inl AuthHashFailed, st1)
          | Some hash \<Rightarrow>
              (case uso_Create (pv_users p) (local_user dr email) st1 of
                 (Some e, st2) \<Rightarrow> (Inl (AuthCreateFailed e), st2)
               | (None, st2) \<Rightarrow>
                   (case cro_Create (pv_creds p) (ad_dbnow dr) (ad_id dr) hash st2 of
                      (Some e, st3) \<Rightarrow> (Inl (AuthCredentialsFailed e), st3)
                    | (None, st3) \<Rightarrow>
                        (case signToken p (ad_now dr) (ad_id dr) email of
                           None \<Rightarrow> (Inl AuthSignFailed, st3)
                         | Some token \<Rightarrow>
                             (Inr \<lparr>cr_ID = uuid_String (ad_id dr), cr_RequiresConfirm = False, cr_AccessToken = token\<rparr>, st3)))))"

definition provider_Login :: "'st Provider \<Rightarrow> bcrypt \<Rightarrow> instant \<Rightarrow> string \<Rightarrow> string \<Rightarrow> 'st \<Rightarrow> (auth_error + string) \<times> 'st" where
  "provider_Login p bc now email password st =
     (case uso_GetByEmail (pv_users p) (normalizeEmail email) st of
        (Inl _, st1) \<Rightarrow> (Inl AuthInvalidLogin, st1)
      | (Inr user, st1) \<Rightarrow>
          if u_AuthProvider user \<noteq> ProviderName then (Inl AuthInvalidLogin, st1)
          else case cro_GetByUserID (pv_creds p) (u_ID user) st1 of
            (Inl _, st2) \<Rightarrow> (Inl AuthInvalidLogin, st2)
          | (Inr creds, st2) \<Rightarrow>
              if \<not> bc_Compare bc (cr_PasswordHash creds) password then (Inl AuthInvalidLogin, st2)
              else case signToken p now (u_ID user) (u_Email user) of None \<Rightarrow> (Inl AuthSignFailed, st2) | Some t \<Rightarrow> (Inr t, st2))"

definition provider_ValidateToken :: "'st Provider \<Rightarrow> (string \<Rightarrow> uuid option) \<Rightarrow> instant \<Rightarrow> string \<Rightarrow> 'st \<Rightarrow> (auth_error + User) \<times> 'st" where
  "provider_ValidateToken p parse now token st =
     (case jwt_Validate (pv_jwt p) now token of
        None \<Rightarrow> (Inl AuthInvalidToken, st)
      | Some claims \<Rightarrow>
          (case parse (cl_Subject claims) of
             None \<Rightarrow> (Inl AuthInvalidSubject, st)
           | Some i \<Rightarrow>
               (case uso_GetByID (pv_users p) i st of (Inl _, st1) \<Rightarrow> (Inl AuthUserNotFound, st1) | (Inr user, st1) \<Rightarrow> (Inr user, st1))))"

definition provider_GetUserByID :: "'st Provider \<Rightarrow> (string \<Rightarrow> uuid option) \<Rightarrow> string \<Rightarrow> 'st \<Rightarrow> (auth_error + User) \<times> 'st" where
  "provider_GetUserByID p parse i st =
     (case parse i of
        None \<Rightarrow> (Inl AuthInvalidUserID, st)
      | Some i \<Rightarrow> (case uso_GetByID (pv_users p) i st of (Inl e, st1) \<Rightarrow> (Inl (AuthRepoFailed e), st1) | (Inr user, st1) \<Rightarrow> (Inr user, st1)))"

definition provider_ConfirmEmail :: "string \<Rightarrow> string \<Rightarrow> string" where
  "provider_ConfirmEmail token email = []"

section \<open>The middleware\<close>

definition weak_secrets :: "string list" where
  "weak_secrets = [''secret'', ''password'', ''123456'', ''jwt-secret'', ''your-secret-key'', ''change-me'', ''development'', ''test'']"

definition validateJWTSecret :: "string \<Rightarrow> bool" where
  "validateJWTSecret secret \<longleftrightarrow> secret \<noteq> [] \<and> \<not> length secret < 32 \<and> \<not> list_ex (Contains (ToLower secret)) weak_secrets"

definition NewAuthMiddleware :: "(string \<Rightarrow> string \<Rightarrow> string \<Rightarrow> jwt_service) \<Rightarrow> string \<Rightarrow> jwt_service option" where
  "NewAuthMiddleware service secret = (if validateJWTSecret secret then Some (service secret ''mailvault'' ''24h'') else None)"

record UserClaims =
  uc_UserID :: string
  uc_Email :: string
  uc_AccountType :: string

definition parseJWT :: "jwt_service \<Rightarrow> instant \<Rightarrow> string \<Rightarrow> UserClaims option" where
  "parseJWT jwt now token =
     (case jwt_Validate jwt now token of
        None \<Rightarrow> None
      | Some claims \<Rightarrow>
          (let uid = if cl_UserID claims = [] then cl_Subject claims else cl_UserID claims in
           if uid = [] then None else Some \<lparr>uc_UserID = uid, uc_Email = cl_Email claims, uc_AccountType = cl_AccountType claims\<rparr>))"

text \<open>What a middleware does with a request, given its \<open>Authorization\<close> header: an answer, or the next handler with the claims in its context.\<close>

datatype gate = Unauthorized string | Forbidden string | Pass "UserClaims option"

definition bearer_token :: "string \<Rightarrow> string + string" where
  "bearer_token header =
     (if header = [] then Inl ''missing authorization header''
      else if \<not> HasPrefix header ''Bearer '' then Inl ''invalid authorization header format''
      else if TrimPrefix header ''Bearer '' = [] then Inl ''missing token''
      else Inr (TrimPrefix header ''Bearer ''))"

definition RequireAuth :: "jwt_service \<Rightarrow> instant \<Rightarrow> string \<Rightarrow> gate" where
  "RequireAuth jwt now header =
     (case bearer_token header of
        Inl m \<Rightarrow> Unauthorized m
      | Inr token \<Rightarrow> (case parseJWT jwt now token of None \<Rightarrow> Unauthorized ''invalid token'' | Some c \<Rightarrow> Pass (Some c)))"

definition OptionalAuth :: "jwt_service \<Rightarrow> instant \<Rightarrow> string \<Rightarrow> gate" where
  "OptionalAuth jwt now header =
     (case bearer_token header of
        Inl _ \<Rightarrow> Pass None
      | Inr token \<Rightarrow> (case parseJWT jwt now token of None \<Rightarrow> Pass None | Some c \<Rightarrow> Pass (Some c)))"

definition RequireAdmin :: "jwt_service \<Rightarrow> instant \<Rightarrow> string \<Rightarrow> gate" where
  "RequireAdmin jwt now header =
     (case bearer_token header of
        Inl m \<Rightarrow> Unauthorized m
      | Inr token \<Rightarrow>
          (case parseJWT jwt now token of
             None \<Rightarrow> Unauthorized ''invalid token''
           | Some c \<Rightarrow>
               if uc_AccountType c \<noteq> ''admin'' \<and> uc_AccountType c \<noteq> ''super_admin'' then Forbidden ''admin access required''
               else Pass (Some c)))"

section \<open>The handlers\<close>

text \<open>An answer with its status; the body of a success is the token and the user.\<close>

datatype auth_reply = AuthFailed int | AuthConfirm | AuthReply int string User

record auth_api =
  aa_bcrypt :: bcrypt
  aa_parse :: "string \<Rightarrow> uuid option"
  aa_jwt :: jwt_service

definition generateJWT :: "auth_api \<Rightarrow> instant \<Rightarrow> string \<Rightarrow> string \<Rightarrow> string option" where
  "generateJWT h now i email = jwt_Generate (aa_jwt h) now i email []"

record session_draw =
  sd_auth :: auth_draw
  sd_user :: user_draw
  sd_login :: instant
  sd_check :: instant
  sd_mint :: instant

text \<open>The last steps the handlers share: the user of the database, then a token for it.\<close>

definition mint_session ::
    "'st Provider \<Rightarrow> auth_api \<Rightarrow> session_draw \<Rightarrow> int \<Rightarrow> string \<Rightarrow> string \<Rightarrow> 'st \<Rightarrow> auth_reply \<times> 'st" where
  "mint_session p h dr status providerID email st =
     (case GetOrCreateUserByAuthProvider (pv_users p) (sd_user dr) ProviderName providerID email st of
        (Inl _, st1) \<Rightarrow> (AuthFailed 500, st1)
      | (Inr user, st1) \<Rightarrow>
          (case generateJWT h (sd_mint dr) (uuid_String (u_ID user)) (u_Email user) of
             None \<Rightarrow> (AuthFailed 500, st1)
           | Some token \<Rightarrow> (AuthReply status token user, st1)))"

definition handle_Register :: "'st Provider \<Rightarrow> auth_api \<Rightarrow> session_draw \<Rightarrow> string \<Rightarrow> string \<Rightarrow> 'st \<Rightarrow> auth_reply \<times> 'st" where
  "handle_Register p h dr email password st =
     (case provider_CreateUser p (aa_bcrypt h) (sd_auth dr) email password st of
        (Inl _, st1) \<Rightarrow> (AuthFailed 400, st1)
      | (Inr resp, st1) \<Rightarrow> if cr_RequiresConfirm resp then (AuthConfirm, st1) else mint_session p h dr 201 (cr_ID resp) email st1)"

definition token_session :: "'st Provider \<Rightarrow> auth_api \<Rightarrow> session_draw \<Rightarrow> int \<Rightarrow> string \<Rightarrow> 'st \<Rightarrow> auth_reply \<times> 'st" where
  "token_session p h dr failed token st =
     (case provider_ValidateToken p (aa_parse h) (sd_check dr) token st of
        (Inl _, st1) \<Rightarrow> (AuthFailed failed, st1)
      | (Inr user, st1) \<Rightarrow> mint_session p h dr 200 (u_AuthProviderID user) (u_Email user) st1)"

definition handle_Login :: "'st Provider \<Rightarrow> auth_api \<Rightarrow> session_draw \<Rightarrow> string \<Rightarrow> string \<Rightarrow> 'st \<Rightarrow> auth_reply \<times> 'st" where
  "handle_Login p h dr email password st =
     (case provider_Login p (aa_bcrypt h) (sd_login dr) email password st of
        (Inl _, st1) \<Rightarrow> (AuthFailed 401, st1)
      | (Inr token, st1) \<Rightarrow> token_session p h dr 500 token st1)"

definition handle_ConfirmEmail :: "'st Provider \<Rightarrow> auth_api \<Rightarrow> session_draw \<Rightarrow> string \<Rightarrow> string \<Rightarrow> 'st \<Rightarrow> auth_reply \<times> 'st" where
  "handle_ConfirmEmail p h dr email token st = token_session p h dr 500 (provider_ConfirmEmail token email) st"

definition handle_ConfirmEmailWithToken :: "'st Provider \<Rightarrow> auth_api \<Rightarrow> session_draw \<Rightarrow> string \<Rightarrow> 'st \<Rightarrow> auth_reply \<times> 'st" where
  "handle_ConfirmEmailWithToken p h dr token st = token_session p h dr 400 token st"

end
