(* ===== verification/ApiCommon.thy ===== *)
theory ApiCommon
  imports LocalAuth ReceivedStore
begin

text \<open>
  What the handlers of the HTTP API share: requests with their context, \<open>app/api/common.go\<close> and the keys of the rate limits in
  \<open>app/api/middleware/ratelimit.go\<close>.

  A context carries values of different Go types; the two that matter here are the constructors of \<open>ctx_value\<close>, and a type assertion
  succeeds only on its own. Bodies arrive decoded: \<open>None\<close> is a body that does not decode. The limiter itself is a library.
\<close>

section \<open>Requests\<close>

datatype ctx_value = CtxString string | CtxUUID uuid

record api_request =
  rq_Method :: string
  rq_Path :: string
  rq_RemoteAddr :: string
  rq_Header :: http_header
  rq_Query :: "(string \<times> string) list"
  rq_URLParams :: "(string \<times> string) list"
  rq_Context :: "(string \<times> ctx_value) list"

definition Query_Get :: "string \<Rightarrow> api_request \<Rightarrow> string" where
  "Query_Get k r = (case map_of (rq_Query r) k of None \<Rightarrow> [] | Some v \<Rightarrow> v)"

definition URLParam :: "string \<Rightarrow> api_request \<Rightarrow> string" where
  "URLParam k r = (case map_of (rq_URLParams r) k of None \<Rightarrow> [] | Some v \<Rightarrow> v)"

definition WithValue :: "string \<Rightarrow> ctx_value \<Rightarrow> api_request \<Rightarrow> api_request" where
  "WithValue k v r = r\<lparr>rq_Context := (k, v) # rq_Context r\<rparr>"

text \<open>\<open>ctx.Value(k).(string)\<close> and \<open>ctx.Value(k).(uuid.UUID)\<close>.\<close>

definition ctx_string :: "string \<Rightarrow> api_request \<Rightarrow> string option" where
  "ctx_string k r = (case map_of (rq_Context r) k of Some (CtxString s) \<Rightarrow> Some s | _ \<Rightarrow> None)"

definition ctx_uuid :: "string \<Rightarrow> api_request \<Rightarrow> uuid option" where
  "ctx_uuid k r = (case map_of (rq_Context r) k of Some (CtxUUID u) \<Rightarrow> Some u | _ \<Rightarrow> None)"

text \<open>What the handlers take from libraries: \<open>uuid.FromString\<close> of \<open>gofrs/uuid\<close> and \<open>strconv.ParseFloat\<close>.\<close>

record api_lib =
  al_FromString :: "string \<Rightarrow> uuid option"
  al_ParseFloat :: "string \<Rightarrow> float64 option"

text \<open>An answer: an error status, or a status with a body.\<close>

datatype 'a api_reply = Failed int | Replied int 'a

text \<open>The usual end of a handler: one status for an error of the use case, another for its result.\<close>

definition respond :: "int \<Rightarrow> int \<Rightarrow> ('a \<Rightarrow> 'b) \<Rightarrow> ('e + 'a) \<times> 'st \<Rightarrow> 'b api_reply \<times> 'st" where
  "respond failed ok f r = (case r of (Inl _, st) \<Rightarrow> (Failed failed, st) | (Inr x, st) \<Rightarrow> (Replied ok (f x), st))"

definition respond_unit :: "int \<Rightarrow> int \<Rightarrow> 'e option \<times> 'st \<Rightarrow> unit api_reply \<times> 'st" where
  "respond_unit failed ok r = (case r of (Some _, st) \<Rightarrow> (Failed failed, st) | (None, st) \<Rightarrow> (Replied ok (), st))"

section \<open>Common helpers\<close>

definition GetUserIDFromContext :: "api_lib \<Rightarrow> api_request \<Rightarrow> uuid option" where
  "GetUserIDFromContext lib r = (case ctx_string ''user_id'' r of None \<Rightarrow> None | Some s \<Rightarrow> al_FromString lib s)"

text \<open>\<open>ParseInt\<close> of \<open>common.go\<close> accumulates in an \<open>int\<close> that wraps, and reads the empty text as 0.\<close>

fun api_digits :: "int \<Rightarrow> string \<Rightarrow> int option" where
  "api_digits result [] = Some result"
| "api_digits result (c # s) =
     (if \<not> is_digit c then None else api_digits (wrap64 (wrap64 (result * 10) + int (code c - 48))) s)"

definition api_ParseInt :: "string \<Rightarrow> int option" where
  "api_ParseInt s = api_digits 0 s"

record PaginationParams =
  pg_Limit :: int
  pg_Offset :: int

definition GetPaginationParams :: "api_request \<Rightarrow> PaginationParams" where
  "GetPaginationParams r =
     (let limitStr = Query_Get ''limit'' r; offsetStr = Query_Get ''offset'' r in
      \<lparr>pg_Limit = (if limitStr \<noteq> [] then (case api_ParseInt limitStr of Some l \<Rightarrow> if l > 0 \<and> l \<le> 1000 then l else 50 | None \<Rightarrow> 50) else 50),
       pg_Offset = (if offsetStr \<noteq> [] then (case api_ParseInt offsetStr of Some o' \<Rightarrow> if o' \<ge> 0 then o' else 0 | None \<Rightarrow> 0) else 0)\<rparr>)"

text \<open>An error as \<open>sanitizeError\<close> sees it: its text, and whether it wraps \<open>sql.ErrNoRows\<close>.\<close>

record api_error =
  ae_Text :: string
  ae_NoRows :: bool

definition sanitizeError :: "api_error option \<Rightarrow> int \<Rightarrow> string" where
  "sanitizeError err status =
     (case err of
        None \<Rightarrow> ''unknown error''
      | Some e \<Rightarrow>
          (let errStr = ae_Text e in
           if ae_NoRows e then ''resource not found''
           else if Contains errStr ''database'' \<or> Contains errStr ''postgres'' \<or> Contains errStr ''connection''
           then ''service temporarily unavailable''
           else if Contains errStr ''permission denied'' \<or> Contains errStr ''access denied'' \<or> Contains errStr ''file not found''
           then ''access denied''
           else if status = 400 \<or> status = 422
           then (if Contains errStr ''/'' \<or> Contains errStr [CHR 0x5C] then ''invalid input format'' else errStr)
           else if status \<ge> 500 then ''internal server error''
           else errStr))"

text \<open>\<open>strconv.Atoi\<close> with its error ignored: 0 for what is no number, the nearest \<open>int\<close> for one out of range.\<close>

definition Atoi_value :: "string \<Rightarrow> int" where
  "Atoi_value s =
     (let (neg, ds) = (case s of c # rest \<Rightarrow> if c = CHR ''-'' then (True, rest) else if c = CHR ''+'' then (False, rest) else (False, s) | [] \<Rightarrow> (False, []))
      in case parse_decimal ds of
           None \<Rightarrow> 0
         | Some n \<Rightarrow> if neg then max (- (2 ^ 63)) (- int n) else min (2 ^ 63 - 1) (int n))"

section \<open>Times\<close>

text \<open>The layout \<open>2006-01-02T15:04:05Z07:00\<close> in UTC.\<close>

definition pad :: "nat \<Rightarrow> int \<Rightarrow> string" where
  "pad k n = (let s = Itoa (nat (abs n)) in (if n < 0 then ''-'' else []) @ replicate (k - length s) CHR ''0'' @ s)"

text \<open>Year, month and day of a day counted from 1 January 1970.\<close>

definition civil :: "int \<Rightarrow> int \<times> int \<times> int" where
  "civil n =
     (let z = n + 719468; era = z div 146097; doe = z mod 146097;
          yoe = (doe - doe div 1460 + doe div 36524 - doe div 146096) div 365;
          doy = doe - (365 * yoe + yoe div 4 - yoe div 100);
          mp = (5 * doy + 2) div 153;
          m = (if mp < 10 then mp + 3 else mp - 9)
      in (yoe + era * 400 + (if m \<le> 2 then 1 else 0), m, doy - (153 * mp + 2) div 5 + 1))"

definition RFC3339 :: "instant \<Rightarrow> string" where
  "RFC3339 t =
     (let s = t div time_Second; (y, m, d) = civil (s div 86400); x = s mod 86400
      in pad 4 y @ ''-'' @ pad 2 m @ ''-'' @ pad 2 d @ ''T'' @ pad 2 (x div 3600) @ '':'' @ pad 2 (x div 60 mod 60) @ '':'' @ pad 2 (x mod 60) @ ''Z'')"

section \<open>Authentication\<close>

definition with_claims :: "UserClaims \<Rightarrow> api_request \<Rightarrow> api_request" where
  "with_claims c r = WithValue ''account_type'' (CtxString (uc_AccountType c)) (WithValue ''user_email'' (CtxString (uc_Email c))
     (WithValue ''user_id'' (CtxString (uc_UserID c)) r))"

text \<open>A middleware before a handler.\<close>

definition behind :: "(instant \<Rightarrow> string \<Rightarrow> gate) \<Rightarrow> instant \<Rightarrow> (api_request \<Rightarrow> 'st \<Rightarrow> 'a api_reply \<times> 'st) \<Rightarrow> api_request \<Rightarrow> 'st \<Rightarrow> 'a api_reply \<times> 'st" where
  "behind middleware now handler r st =
     (case middleware now (Header_Get ''Authorization'' (rq_Header r)) of
        Unauthorized _ \<Rightarrow> (Failed 401, st)
      | Forbidden _ \<Rightarrow> (Failed 403, st)
      | Pass None \<Rightarrow> handler r st
      | Pass (Some c) \<Rightarrow> handler (with_claims c r) st)"

definition GetUserFromContext :: "api_request \<Rightarrow> UserClaims option" where
  "GetUserFromContext r =
     (case ctx_string ''user_id'' r of
        None \<Rightarrow> None
      | Some u \<Rightarrow> Some \<lparr>uc_UserID = u,
          uc_Email = (case ctx_string ''user_email'' r of None \<Rightarrow> [] | Some e \<Rightarrow> e),
          uc_AccountType = (case ctx_string ''account_type'' r of None \<Rightarrow> [] | Some a \<Rightarrow> a)\<rparr>)"

section \<open>Keys of the rate limits\<close>

definition hashAPIKey :: "string \<Rightarrow> string" where
  "hashAPIKey apiKey = (if length apiKey \<le> 8 then apiKey else take 4 apiKey @ ''...'' @ drop (length apiKey - 4) apiKey)"

definition getRealIP :: "api_request \<Rightarrow> string" where
  "getRealIP r =
     (let ip = Header_Get ''X-Forwarded-For'' (rq_Header r) in
      if ip \<noteq> [] then
        (let comma = (case IndexByte ip (CHR '','') of None \<Rightarrow> 0 | Some i \<Rightarrow> i) in if comma > 0 then take comma ip else ip)
      else if Header_Get ''X-Real-IP'' (rq_Header r) \<noteq> [] then Header_Get ''X-Real-IP'' (rq_Header r)
      else if Header_Get ''X-Client-IP'' (rq_Header r) \<noteq> [] then Header_Get ''X-Client-IP'' (rq_Header r)
      else rq_RemoteAddr r)"

definition userKeyFunc :: "api_request \<Rightarrow> string" where
  "userKeyFunc r =
     (case ctx_string ''user_id'' r of
        Some u \<Rightarrow> if u \<noteq> [] then ''user:'' @ u else ''ip:'' @ getRealIP r
      | None \<Rightarrow> ''ip:'' @ getRealIP r)"

definition emailSendKeyFunc :: "api_request \<Rightarrow> string" where
  "emailSendKeyFunc r =
     (let apiKey = Header_Get ''X-API-Key'' (rq_Header r) in
      if apiKey \<noteq> [] then ''apikey:'' @ hashAPIKey apiKey
      else case ctx_string ''user_id'' r of
        Some u \<Rightarrow> if u \<noteq> [] then ''user_email:'' @ u else ''ip_email:'' @ getRealIP r
      | None \<Rightarrow> ''ip_email:'' @ getRealIP r)"

section \<open>Lemmas\<close>

lemma ctx_with_claims [simp]:
  "ctx_string ''user_id'' (with_claims c r) = Some (uc_UserID c)" "ctx_uuid ''user_id'' (with_claims c r) = None"
  "ctx_string ''user_email'' (with_claims c r) = Some (uc_Email c)" "ctx_string ''account_type'' (with_claims c r) = Some (uc_AccountType c)"
  by (simp_all add: with_claims_def WithValue_def ctx_string_def ctx_uuid_def)

lemma with_claims_same [simp]:
  "rq_Header (with_claims c r) = rq_Header r" "rq_Query (with_claims c r) = rq_Query r" "rq_URLParams (with_claims c r) = rq_URLParams r"
  by (simp_all add: with_claims_def WithValue_def)

text \<open>What the middleware put into the context is what the handlers read back.\<close>

lemma GetUserFromContext_claims: "GetUserFromContext (with_claims c r) = Some c"
  by (simp add: GetUserFromContext_def)

lemma behind_RequireAuth:
  "behind (RequireAuth jwt) now h r st =
     (case bearer_token (Header_Get ''Authorization'' (rq_Header r)) of
        Inl _ \<Rightarrow> (Failed 401, st)
      | Inr t \<Rightarrow> (case parseJWT jwt now t of None \<Rightarrow> (Failed 401, st) | Some c \<Rightarrow> h (with_claims c r) st))"
  by (simp add: behind_def RequireAuth_def split: sum.split option.split)

text \<open>No text of an error reaches the client with a server error.\<close>

lemma server_errors_opaque:
  "status \<ge> 500 \<Longrightarrow> sanitizeError e status \<in> {''unknown error'', ''resource not found'', ''service temporarily unavailable'', ''access denied'', ''internal server error''}"
  by (auto simp: sanitizeError_def Let_def split: option.split)

lemma respond_cases:
  "respond f k g x = (Failed s, st') \<longleftrightarrow> s = f \<and> (\<exists>e. x = (Inl e, st'))"
  "respond f k g x = (Replied s y, st') \<longleftrightarrow> s = k \<and> (\<exists>z. x = (Inr z, st') \<and> y = g z)"
  by (auto simp: respond_def split: prod.splits sum.splits)

lemma respond_unit_cases:
  "respond_unit f k x = (Failed s, st') \<longleftrightarrow> s = f \<and> (\<exists>e. x = (Some e, st'))"
  "respond_unit f k x = (Replied s y, st') \<longleftrightarrow> s = k \<and> x = (None, st')"
  by (auto simp: respond_unit_def split: prod.splits option.splits)

lemma RFC3339_samples: "RFC3339 0 = ''1970-01-01T00:00:00Z''" "RFC3339 (1709210096 * time_Second) = ''2024-02-29T12:34:56Z''"
  by code_simp+

text \<open>
  The page of a listing is bounded whatever the client sends: the limit is between 1 and 1000 and the offset is not negative.
\<close>

theorem pagination_bounded:
  "0 < pg_Limit (GetPaginationParams r) \<and> pg_Limit (GetPaginationParams r) \<le> 1000 \<and> 0 \<le> pg_Offset (GetPaginationParams r)"
  by (auto simp: GetPaginationParams_def Let_def split: option.split)

text \<open>The digits wrap: a limit of 2 to the 64 plus 7 is a limit of 7.\<close>

lemma limit_wraps: "api_ParseInt ''18446744073709551623'' = Some 7"
  by code_simp

end
