(* ===== verification/ApiDomains.thy ===== *)
theory ApiDomains
  imports ApiCommon DomainUseCase
begin

text \<open>
  The handlers of users, domains and sending: \<open>app/api/v1/users\<close>, \<open>app/api/v1/domains\<close>, \<open>app/api/v1/send\<close>.
\<close>

section \<open>Users\<close>

record UserResult =
  ur_ID :: string
  ur_Email :: string
  ur_CreatedAt :: string

definition handle_Me :: "api_lib \<Rightarrow> 'st user_ops \<Rightarrow> api_request \<Rightarrow> 'st \<Rightarrow> UserResult api_reply \<times> 'st" where
  "handle_Me lib ops r st =
     (case ctx_string ''user_id'' r of
        None \<Rightarrow> (Failed 401, st)
      | Some s \<Rightarrow>
          (case al_FromString lib s of
             None \<Rightarrow> (Failed 400, st)
           | Some i \<Rightarrow> respond 404 200 (\<lambda>u. \<lparr>ur_ID = uuid_String (u_ID u), ur_Email = u_Email u, ur_CreatedAt = RFC3339 (u_CreatedAt u)\<rparr>)
               (usecase_GetUserByID ops i st)))"

section \<open>Domains\<close>

record DomainResult =
  dm_ID :: string
  dm_Domain :: string
  dm_PublicKey :: string
  dm_APIKey :: string
  dm_StorageEnabled :: bool
  dm_AutoCreateAddress :: bool
  dm_WebhookConfig :: "WebhookConfig option"
  dm_VerificationStatus :: VerificationStatus
  dm_VerificationToken :: string
  dm_LastVerificationAttempt :: string
  dm_VerificationError :: string
  dm_VerificationAttempts :: int
  dm_NextVerificationAttempt :: string
  dm_CreatedAt :: string
  dm_UpdatedAt :: string

text \<open>A zero time is left out of the answer.\<close>

definition time_or_empty :: "instant option \<Rightarrow> string" where
  "time_or_empty t = (case t of None \<Rightarrow> [] | Some x \<Rightarrow> RFC3339 x)"

definition mapDomainToResult :: "Domain \<Rightarrow> DomainResult" where
  "mapDomainToResult d =
   \<lparr>dm_ID = uuid_String (d_ID d), dm_Domain = d_Domain d, dm_PublicKey = d_PublicKey d, dm_APIKey = d_APIKey d,
    dm_StorageEnabled = d_StorageEnabled d, dm_AutoCreateAddress = d_AutoCreateAddress d, dm_WebhookConfig = d_WebhookConfig d,
    dm_VerificationStatus = d_VerificationStatus d, dm_VerificationToken = d_VerificationToken d,
    dm_LastVerificationAttempt = time_or_empty (d_LastVerificationAttempt d), dm_VerificationError = d_VerificationError d,
    dm_VerificationAttempts = d_VerificationAttempts d, dm_NextVerificationAttempt = time_or_empty (d_NextVerificationAttempt d),
    dm_CreatedAt = RFC3339 (d_CreatedAt d), dm_UpdatedAt = RFC3339 (d_UpdatedAt d)\<rparr>"

record CreateDomainRequest =
  cdr_Domain :: string
  cdr_PublicKey :: string
  cdr_StorageEnabled :: "bool option"
  cdr_AutoCreateAddress :: "bool option"
  cdr_WebhookConfig :: "WebhookConfig option"

definition handle_CreateDomain ::
    "api_lib \<Rightarrow> 'st domain_ops \<Rightarrow> domain_limiter \<Rightarrow> domain_draw \<Rightarrow> CreateDomainRequest option \<Rightarrow> api_request \<Rightarrow> 'st \<Rightarrow> DomainResult api_reply \<times> 'st" where
  "handle_CreateDomain lib ops limiter dr body r st =
     (case GetUserIDFromContext lib r of
        None \<Rightarrow> (Failed 401, st)
      | Some u \<Rightarrow>
          (case body of
             None \<Rightarrow> (Failed 400, st)
           | Some req \<Rightarrow> respond 400 201 mapDomainToResult
               (CreateDomain ops limiter dr \<lparr>cd_UserID = u, cd_Domain = cdr_Domain req, cd_PublicKey = cdr_PublicKey req,
                  cd_StorageEnabled = cdr_StorageEnabled req, cd_AutoCreateAddress = cdr_AutoCreateAddress req,
                  cd_WebhookConfig = cdr_WebhookConfig req\<rparr> st)))"

definition handle_GetDomains :: "api_lib \<Rightarrow> 'st domain_ops \<Rightarrow> api_request \<Rightarrow> 'st \<Rightarrow> DomainResult list api_reply \<times> 'st" where
  "handle_GetDomains lib ops r st =
     (case GetUserIDFromContext lib r of
        None \<Rightarrow> (Failed 401, st)
      | Some u \<Rightarrow> respond 500 200 (map mapDomainToResult) (GetDomainsByUserID ops u st))"

definition handle_GetDomain :: "api_lib \<Rightarrow> 'st domain_ops \<Rightarrow> api_request \<Rightarrow> 'st \<Rightarrow> DomainResult api_reply \<times> 'st" where
  "handle_GetDomain lib ops r st =
     (case al_FromString lib (URLParam ''id'' r) of
        None \<Rightarrow> (Failed 400, st)
      | Some i \<Rightarrow>
          (case GetUserIDFromContext lib r of
             None \<Rightarrow> (Failed 401, st)
           | Some u \<Rightarrow>
               (case GetDomainByID ops i st of
                  (Inl _, st1) \<Rightarrow> (Failed 404, st1)
                | (Inr d, st1) \<Rightarrow> if d_UserID d \<noteq> u then (Failed 403, st1) else (Replied 200 (mapDomainToResult d), st1))))"

text \<open>\<open>verification_status\<close> of an update request is decoded and not used.\<close>

record UpdateDomainRequest =
  udr_PublicKey :: "string option"
  udr_StorageEnabled :: "bool option"
  udr_AutoCreateAddress :: "bool option"
  udr_VerificationStatus :: VerificationStatus

definition handle_UpdateDomain ::
    "api_lib \<Rightarrow> 'st domain_ops \<Rightarrow> instant \<Rightarrow> UpdateDomainRequest option \<Rightarrow> api_request \<Rightarrow> 'st \<Rightarrow> DomainResult api_reply \<times> 'st" where
  "handle_UpdateDomain lib ops now body r st =
     (case al_FromString lib (URLParam ''id'' r) of
        None \<Rightarrow> (Failed 400, st)
      | Some i \<Rightarrow>
          (case GetUserIDFromContext lib r of
             None \<Rightarrow> (Failed 401, st)
           | Some u \<Rightarrow>
               (case body of
                  None \<Rightarrow> (Failed 400, st)
                | Some req \<Rightarrow>
                    (case GetDomainByID ops i st of
                       (Inl _, st1) \<Rightarrow> (Failed 404, st1)
                     | (Inr d, st1) \<Rightarrow>
                         if d_UserID d \<noteq> u then (Failed 403, st1)
                         else respond 400 200 mapDomainToResult
                           (UpdateDomain ops now i \<lparr>ud_PublicKey = udr_PublicKey req, ud_StorageEnabled = udr_StorageEnabled req,
                              ud_AutoCreateAddress = udr_AutoCreateAddress req\<rparr> st1)))))"

definition handle_DeleteDomain :: "api_lib \<Rightarrow> 'st domain_ops \<Rightarrow> api_request \<Rightarrow> 'st \<Rightarrow> unit api_reply \<times> 'st" where
  "handle_DeleteDomain lib ops r st =
     (case al_FromString lib (URLParam ''id'' r) of
        None \<Rightarrow> (Failed 400, st)
      | Some i \<Rightarrow>
          (case GetUserIDFromContext lib r of
             None \<Rightarrow> (Failed 401, st)
           | Some u \<Rightarrow> respond_unit 400 204 (DeleteDomain ops i u st)))"

section \<open>Validation of domains\<close>

record ApiValidationInstructions =
  vi_MXRecords :: "(string \<times> int) list"
  vi_MXText :: string
  vi_TXTName :: string
  vi_TXTValue :: string
  vi_TXTText :: string

record DomainValidationResponse =
  dv_DomainID :: uuid
  dv_DomainName :: string
  dv_Status :: VerificationStatus
  dv_Instructions :: ApiValidationInstructions
  dv_VerificationToken :: string
  dv_LastAttempt :: "instant option"
  dv_NextAttempt :: "instant option"
  dv_Attempts :: int
  dv_Error :: string

definition required_mx :: "(string \<times> int) list" where
  "required_mx = [(''mail.mailvault.sh'', 10), (''mail2.mailvault.sh'', 20)]"

definition validation_response :: "VerificationStatus \<Rightarrow> string \<Rightarrow> string \<Rightarrow> uuid \<Rightarrow> Domain \<Rightarrow> DomainValidationResponse" where
  "validation_response status mx_text txt_text i d =
   \<lparr>dv_DomainID = i, dv_DomainName = d_Domain d, dv_Status = status,
    dv_Instructions = \<lparr>vi_MXRecords = required_mx, vi_MXText = mx_text, vi_TXTName = d_Domain d, vi_TXTValue = GetTXTRecord d, vi_TXTText = txt_text\<rparr>,
    dv_VerificationToken = d_VerificationToken d, dv_LastAttempt = d_LastVerificationAttempt d,
    dv_NextAttempt = d_NextVerificationAttempt d, dv_Attempts = d_VerificationAttempts d, dv_Error = d_VerificationError d\<rparr>"

text \<open>The beginning the four handlers of \<open>validate.go\<close> share: the user, the id, the domain, its owner.\<close>

definition with_own_domain ::
    "api_lib \<Rightarrow> 'st domain_ops \<Rightarrow> api_request \<Rightarrow> (uuid \<Rightarrow> Domain \<Rightarrow> 'a api_reply) \<Rightarrow> 'st \<Rightarrow> 'a api_reply \<times> 'st" where
  "with_own_domain lib ops r k st =
     (case GetUserIDFromContext lib r of
        None \<Rightarrow> (Failed 401, st)
      | Some u \<Rightarrow>
          (case al_FromString lib (URLParam ''id'' r) of
             None \<Rightarrow> (Failed 400, st)
           | Some i \<Rightarrow>
               (case GetDomainByID ops i st of
                  (Inl _, st1) \<Rightarrow> (Failed 404, st1)
                | (Inr d, st1) \<Rightarrow> if d_UserID d \<noteq> u then (Failed 404, st1) else (k i d, st1))))"

definition handle_ValidateDomain :: "api_lib \<Rightarrow> 'st domain_ops \<Rightarrow> api_request \<Rightarrow> 'st \<Rightarrow> DomainValidationResponse api_reply \<times> 'st" where
  "handle_ValidateDomain lib ops r = with_own_domain lib ops r (\<lambda>i d. Replied 200
     (validation_response (d_VerificationStatus d) ''Add these MX records to your DNS configuration:''
        ''Add this TXT record to verify domain ownership:'' i d))"

record DomainValidationStatusResponse =
  ds_DomainID :: uuid
  ds_DomainName :: string
  ds_Status :: VerificationStatus
  ds_VerificationToken :: string
  ds_LastAttempt :: "instant option"
  ds_NextAttempt :: "instant option"
  ds_Attempts :: int
  ds_Error :: string
  ds_History :: "ValidationRecord list"
  ds_IsVerified :: bool
  ds_CanRetry :: bool
  ds_TXTRecord :: string

definition handle_GetValidationStatus ::
    "api_lib \<Rightarrow> 'st domain_ops \<Rightarrow> instant \<Rightarrow> api_request \<Rightarrow> 'st \<Rightarrow> DomainValidationStatusResponse api_reply \<times> 'st" where
  "handle_GetValidationStatus lib ops now r = with_own_domain lib ops r (\<lambda>i d. Replied 200
     \<lparr>ds_DomainID = i, ds_DomainName = d_Domain d, ds_Status = d_VerificationStatus d, ds_VerificationToken = d_VerificationToken d,
      ds_LastAttempt = d_LastVerificationAttempt d, ds_NextAttempt = d_NextVerificationAttempt d, ds_Attempts = d_VerificationAttempts d,
      ds_Error = d_VerificationError d, ds_History = [], ds_IsVerified = IsVerified d, ds_CanRetry = CanRetryVerification now d,
      ds_TXTRecord = GetTXTRecord d\<rparr>)"

definition handle_RetryValidation ::
    "api_lib \<Rightarrow> 'st domain_ops \<Rightarrow> instant \<Rightarrow> api_request \<Rightarrow> 'st \<Rightarrow> DomainValidationResponse api_reply \<times> 'st" where
  "handle_RetryValidation lib ops now r = with_own_domain lib ops r (\<lambda>i d.
     if \<not> CanRetryVerification now d then Failed 400
     else Replied 200 (validation_response VerificationStatusPending ''Ensure these MX records are configured in your DNS:''
       ''Ensure this TXT record is configured for domain verification:'' i d))"

section \<open>Sending\<close>

record ApiSendEmailRequest =
  sr_From :: string
  sr_To :: "string list"
  sr_CC :: "string list"
  sr_BCC :: "string list"
  sr_Subject :: string
  sr_TextBody :: string
  sr_HTMLBody :: string

definition isFromAddressValid :: "string \<Rightarrow> string \<Rightarrow> bool" where
  "isFromAddressValid fromAddress domainName =
     (case ExtractDomain fromAddress of Inl _ \<Rightarrow> False | Inr emailDomain \<Rightarrow> emailDomain = ToLower domainName)"

fun hex_text :: "nat \<Rightarrow> string" where
  "hex_text n = (if n < 16 then [hex_digit n] else hex_text (n div 16) @ [hex_digit (n mod 16)])"

declare hex_text.simps [simp del]

text \<open>\<open>random\<close> is the eight bytes drawn.\<close>

definition generateMessageID :: "instant \<Rightarrow> string \<Rightarrow> string" where
  "generateMessageID now random =
     (let timestamp = now div time_Second in
      ''mv_'' @ (if timestamp < 0 then ''-'' else []) @ hex_text (nat (abs timestamp)) @ ''_'' @ hex_encode random)"

record ApiSendEmailResponse =
  sp_MessageID :: string
  sp_Status :: string

definition presented_key :: "api_request \<Rightarrow> string" where
  "presented_key r =
     (let k = Header_Get ''X-API-Key'' (rq_Header r); auth = Header_Get ''Authorization'' (rq_Header r) in
      if k \<noteq> [] then k else if HasPrefix auth ''Bearer '' then drop 7 auth else [])"

definition handle_SendEmail ::
    "'st domain_ops \<Rightarrow> instant \<Rightarrow> string \<Rightarrow> ApiSendEmailRequest option \<Rightarrow> api_request \<Rightarrow> 'st \<Rightarrow> ApiSendEmailResponse api_reply \<times> 'st" where
  "handle_SendEmail ops now random body r st =
     (let apiKey = presented_key r in
      if apiKey = [] then (Failed 401, st)
      else case GetDomainByAPIKey ops apiKey st of
        (Inl _, st1) \<Rightarrow> (Failed 401, st1)
      | (Inr d, st1) \<Rightarrow>
          (case body of
             None \<Rightarrow> (Failed 400, st1)
           | Some req \<Rightarrow>
               if \<not> isFromAddressValid (sr_From req) (d_Domain d) then (Failed 400, st1)
               else if sr_TextBody req = [] \<and> sr_HTMLBody req = [] then (Failed 400, st1)
               else (Replied 202 \<lparr>sp_MessageID = generateMessageID now random, sp_Status = ''accepted''\<rparr>, st1)))"

end
