(* ===== verification/ApiMail.thy ===== *)
theory ApiMail
  imports ApiCommon EmailUseCase
begin

text \<open>
  The handlers of mailboxes and received mail, \<open>app/api/v1/emails/emails.go\<close>. The text of an IP address and the rendering of a decrypted message
  (\<open>internal/emailrender\<close>) are arguments.
\<close>

section \<open>Answers\<close>

record EmailAddressResult =
  er_ID :: string
  er_DomainID :: string
  er_LocalPart :: string
  er_FullAddress :: string
  er_ForwardAddresses :: "string list"
  er_ForwardingEnabled :: bool
  er_CreatedAt :: string
  er_UpdatedAt :: string

definition mapEmailAddressToResult :: "EmailAddress \<Rightarrow> string \<Rightarrow> EmailAddressResult" where
  "mapEmailAddressToResult a host =
   \<lparr>er_ID = uuid_String (ea_ID a), er_DomainID = uuid_String (ea_DomainID a), er_LocalPart = ea_LocalPart a,
    er_FullAddress = (if host = [] then ea_LocalPart a @ ''@<domain>'' else ea_LocalPart a @ ''@'' @ host),
    er_ForwardAddresses = ea_ForwardAddresses a, er_ForwardingEnabled = ea_ForwardingEnabled a,
    er_CreatedAt = RFC3339 (ea_CreatedAt a), er_UpdatedAt = RFC3339 (ea_UpdatedAt a)\<rparr>"

record SMTPVerificationResult =
  sv_VerifiedAt :: string
  sv_SenderIP :: string
  sv_SenderDomain :: string
  sv_SPFResult :: string
  sv_SPFMechanism :: string
  sv_DKIMValid :: bool
  sv_DKIMDomain :: string
  sv_DKIMSelector :: string
  sv_DMARCResult :: string
  sv_DMARCPolicy :: string
  sv_DMARCAlignmentSPF :: bool
  sv_DMARCAlignmentDKIM :: bool
  sv_SpamScore :: float64
  sv_ContentVerdict :: string
  sv_ReputationScore :: float64
  sv_IsBlacklisted :: bool
  sv_FinalAction :: string
  sv_IsQuarantined :: bool

definition mapSMTPVerificationToResult :: "(ip option \<Rightarrow> string) \<Rightarrow> SMTPVerificationStat option \<Rightarrow> SMTPVerificationResult option" where
  "mapSMTPVerificationToResult ip_String = map_option (\<lambda>v.
   \<lparr>sv_VerifiedAt = RFC3339 (st_VerifiedAt v), sv_SenderIP = ip_String (st_SenderIP v), sv_SenderDomain = st_SenderDomain v,
    sv_SPFResult = st_SPFResult v, sv_SPFMechanism = st_SPFMechanism v, sv_DKIMValid = st_DKIMValid v, sv_DKIMDomain = st_DKIMDomain v,
    sv_DKIMSelector = st_DKIMSelector v, sv_DMARCResult = st_DMARCResult v, sv_DMARCPolicy = st_DMARCPolicy v,
    sv_DMARCAlignmentSPF = st_DMARCAlignmentSPF v, sv_DMARCAlignmentDKIM = st_DMARCAlignmentDKIM v, sv_SpamScore = st_SpamScore v,
    sv_ContentVerdict = st_ContentVerdict v, sv_ReputationScore = st_ReputationScore v, sv_IsBlacklisted = st_IsBlacklisted v,
    sv_FinalAction = st_FinalAction v, sv_IsQuarantined = st_IsQuarantined v\<rparr>)"

record ReceivedEmailResult =
  rr_ID :: string
  rr_SequenceNumber :: int
  rr_FromAddress :: string
  rr_Subject :: string
  rr_EncryptedBody :: string
  rr_DomainName :: string
  rr_EmailAddress :: string
  rr_ReceivedAt :: string
  rr_SMTPVerification :: "SMTPVerificationResult option"

definition mapReceivedEmailToResult :: "(ip option \<Rightarrow> string) \<Rightarrow> ReceivedEmail \<Rightarrow> ReceivedEmailResult" where
  "mapReceivedEmailToResult ip_String m =
   \<lparr>rr_ID = uuid_String (re_ID m), rr_SequenceNumber = re_SequenceNumber m, rr_FromAddress = re_FromAddress m,
    rr_Subject = (case re_Subject m of None \<Rightarrow> [] | Some s \<Rightarrow> s), rr_EncryptedBody = re_EncryptedBody m, rr_DomainName = re_DomainName m,
    rr_EmailAddress = re_EmailAddress m, rr_ReceivedAt = RFC3339 (re_ReceivedAt m),
    rr_SMTPVerification = mapSMTPVerificationToResult ip_String (re_SMTPVerification m)\<rparr>"

record 'p ParsedEmailResult =
  pr_ID :: string
  pr_SequenceNumber :: int
  pr_FromAddress :: string
  pr_Subject :: string
  pr_DomainName :: string
  pr_EmailAddress :: string
  pr_ReceivedAt :: string
  pr_ParsedContent :: "'p option"
  pr_AvailableFormats :: "string list"
  pr_RenderingError :: string

definition mapReceivedEmailToParsedResult :: "ReceivedEmail \<Rightarrow> 'p ParsedEmailResult" where
  "mapReceivedEmailToParsedResult m =
   \<lparr>pr_ID = uuid_String (re_ID m), pr_SequenceNumber = re_SequenceNumber m, pr_FromAddress = re_FromAddress m,
    pr_Subject = (case re_Subject m of None \<Rightarrow> [] | Some s \<Rightarrow> s), pr_DomainName = re_DomainName m, pr_EmailAddress = re_EmailAddress m,
    pr_ReceivedAt = RFC3339 (re_ReceivedAt m), pr_ParsedContent = None, pr_AvailableFormats = [], pr_RenderingError = []\<rparr>"

record 'a Paginated =
  pd_Data :: "'a list"
  pd_Limit :: int
  pd_Offset :: int
  pd_Total :: int

section \<open>Mailboxes\<close>

record CreateEmailRequest =
  cer_LocalPart :: string
  cer_ForwardAddresses :: "string list"
  cer_ForwardingEnabled :: bool

definition handle_CreateEmailAddress ::
    "api_lib \<Rightarrow> 'st mail_repos \<Rightarrow> uuid \<Rightarrow> instant \<Rightarrow> instant \<Rightarrow> CreateEmailRequest option \<Rightarrow> api_request \<Rightarrow> 'st mail_uc \<Rightarrow>
      EmailAddressResult api_reply \<times> 'st mail_uc" where
  "handle_CreateEmailAddress lib ops i created updated body r s =
     (case al_FromString lib (URLParam ''domainId'' r) of
        None \<Rightarrow> (Failed 400, s)
      | Some d \<Rightarrow>
          (case body of
             None \<Rightarrow> (Failed 400, s)
           | Some req \<Rightarrow> respond 400 201 (\<lambda>a. mapEmailAddressToResult a [])
               (CreateEmailAddressFromInput ops i created updated \<lparr>ca_DomainID = d, ca_LocalPart = cer_LocalPart req,
                  ca_ForwardAddresses = cer_ForwardAddresses req, ca_ForwardingEnabled = cer_ForwardingEnabled req\<rparr> s)))"

definition handle_GetEmailAddresses ::
    "api_lib \<Rightarrow> 'st mail_repos \<Rightarrow> api_request \<Rightarrow> 'st mail_uc \<Rightarrow> EmailAddressResult list api_reply \<times> 'st mail_uc" where
  "handle_GetEmailAddresses lib ops r s =
     (case al_FromString lib (URLParam ''domainId'' r) of
        None \<Rightarrow> (Failed 400, s)
      | Some d \<Rightarrow> respond 500 200 (map (\<lambda>a. mapEmailAddressToResult a [])) (GetEmailAddressesByDomainID ops d s))"

definition handle_GetEmailAddress ::
    "api_lib \<Rightarrow> 'st mail_repos \<Rightarrow> api_request \<Rightarrow> 'st mail_uc \<Rightarrow> EmailAddressResult api_reply \<times> 'st mail_uc" where
  "handle_GetEmailAddress lib ops r s =
     (case al_FromString lib (URLParam ''emailId'' r) of
        None \<Rightarrow> (Failed 400, s)
      | Some i \<Rightarrow> respond 404 200 (\<lambda>a. mapEmailAddressToResult a []) (GetEmailAddressByID ops i s))"

record UpdateEmailRequest =
  uer_ForwardAddresses :: "string list option"
  uer_ForwardingEnabled :: "bool option"

definition handle_UpdateEmailAddress ::
    "api_lib \<Rightarrow> 'st mail_repos \<Rightarrow> instant \<Rightarrow> UpdateEmailRequest option \<Rightarrow> api_request \<Rightarrow> 'st mail_uc \<Rightarrow>
      EmailAddressResult api_reply \<times> 'st mail_uc" where
  "handle_UpdateEmailAddress lib ops now body r s =
     (case al_FromString lib (URLParam ''emailId'' r) of
        None \<Rightarrow> (Failed 400, s)
      | Some i \<Rightarrow>
          (case body of
             None \<Rightarrow> (Failed 400, s)
           | Some req \<Rightarrow> respond 400 200 (\<lambda>a. mapEmailAddressToResult a [])
               (UpdateEmailAddress ops now i \<lparr>ua_ForwardAddresses = uer_ForwardAddresses req, ua_ForwardingEnabled = uer_ForwardingEnabled req\<rparr> s)))"

definition handle_DeleteEmailAddress :: "api_lib \<Rightarrow> 'st mail_repos \<Rightarrow> api_request \<Rightarrow> 'st mail_uc \<Rightarrow> unit api_reply \<times> 'st mail_uc" where
  "handle_DeleteEmailAddress lib ops r s =
     (case al_FromString lib (URLParam ''emailId'' r) of
        None \<Rightarrow> (Failed 400, s)
      | Some i \<Rightarrow> respond_unit 400 204 (DeleteEmailAddress ops i s))"

section \<open>Received mail\<close>

definition handle_GetReceivedEmails ::
    "api_lib \<Rightarrow> 'st mail_repos \<Rightarrow> (ip option \<Rightarrow> string) \<Rightarrow> api_request \<Rightarrow> 'st mail_uc \<Rightarrow>
      ReceivedEmailResult Paginated api_reply \<times> 'st mail_uc" where
  "handle_GetReceivedEmails lib ops ip_String r s =
     (case al_FromString lib (URLParam ''emailId'' r) of
        None \<Rightarrow> (Failed 400, s)
      | Some i \<Rightarrow>
          (let p = GetPaginationParams r in
           respond 500 200 (\<lambda>ms. \<lparr>pd_Data = map (mapReceivedEmailToResult ip_String) ms, pd_Limit = pg_Limit p, pd_Offset = pg_Offset p, pd_Total = 0\<rparr>)
             (GetReceivedEmails ops i (pg_Limit p) (pg_Offset p) s)))"

text \<open>The user and the message of the three handlers that take a message's id: an id that does not parse is found first.\<close>

definition with_message :: "api_lib \<Rightarrow> api_request \<Rightarrow> (uuid \<Rightarrow> uuid \<Rightarrow> 's \<Rightarrow> 'a api_reply \<times> 's) \<Rightarrow> 's \<Rightarrow> 'a api_reply \<times> 's" where
  "with_message lib r k s =
     (case al_FromString lib (URLParam ''receivedEmailId'' r) of
        None \<Rightarrow> (Failed 400, s)
      | Some i \<Rightarrow> (case GetUserIDFromContext lib r of None \<Rightarrow> (Failed 401, s) | Some u \<Rightarrow> k i u s))"

definition handle_GetReceivedEmail ::
    "api_lib \<Rightarrow> 'st mail_repos \<Rightarrow> (ip option \<Rightarrow> string) \<Rightarrow> api_request \<Rightarrow> 'st mail_uc \<Rightarrow> ReceivedEmailResult api_reply \<times> 'st mail_uc" where
  "handle_GetReceivedEmail lib ops ip_String r =
     with_message lib r (\<lambda>i u s. respond 404 200 (mapReceivedEmailToResult ip_String) (GetReceivedEmailByID ops i u s))"

definition handle_DeleteReceivedEmail :: "api_lib \<Rightarrow> 'st mail_repos \<Rightarrow> api_request \<Rightarrow> 'st mail_uc \<Rightarrow> unit api_reply \<times> 'st mail_uc" where
  "handle_DeleteReceivedEmail lib ops r = with_message lib r (\<lambda>i u s. respond_unit 400 204 (DeleteReceivedEmail ops i u s))"

text \<open>\<open>render body key\<close> decrypts, parses and lays out a message: its content and formats, or the text of an error.\<close>

definition handle_GetParsedReceivedEmail ::
    "api_lib \<Rightarrow> 'st mail_repos \<Rightarrow> (ReceivedEmail \<Rightarrow> string \<Rightarrow> string + 'p \<times> string list) \<Rightarrow> api_request \<Rightarrow> 'st mail_uc \<Rightarrow>
      'p ParsedEmailResult api_reply \<times> 'st mail_uc" where
  "handle_GetParsedReceivedEmail lib ops render r =
     with_message lib r (\<lambda>i u s. respond 404 200 (\<lambda>m.
       (let key = Query_Get ''private_key'' r; result = mapReceivedEmailToParsedResult m in
        if key \<noteq> [] then
          (case render m key of
             Inl e \<Rightarrow> result\<lparr>pr_RenderingError := ''failed to parse email: '' @ e\<rparr>
           | Inr (content, formats) \<Rightarrow> result\<lparr>pr_ParsedContent := Some content, pr_AvailableFormats := formats\<rparr>)
        else result\<lparr>pr_RenderingError := ''Private key required for content parsing. Provide 'private_key' query parameter.''\<rparr>))
       (GetReceivedEmailByID ops i u s))"

definition query_float :: "api_lib \<Rightarrow> string \<Rightarrow> api_request \<Rightarrow> float64" where
  "query_float lib k r = (if Query_Get k r \<noteq> [] then (case al_ParseFloat lib (Query_Get k r) of Some f \<Rightarrow> f | None \<Rightarrow> 0) else 0)"

definition query_filter :: "api_lib \<Rightarrow> api_request \<Rightarrow> ReceivedFilter" where
  "query_filter lib r =
   \<lparr>f_SortBy = Query_Get ''sort_by'' r, f_SortOrder = Query_Get ''sort_order'' r, f_EmailAddress = Query_Get ''email_address'' r,
    f_FromAddress = Query_Get ''from_address'' r, f_DateFrom = Query_Get ''date_from'' r, f_DateTo = Query_Get ''date_to'' r,
    f_SpamMin = query_float lib ''spam_min'' r, f_SpamMax = query_float lib ''spam_max'' r,
    f_SecurityStatus = Query_Get ''security_status'' r, f_Search = Query_Get ''search'' r, f_Domain = Query_Get ''domain'' r\<rparr>"

definition handle_ListReceivedEmailsForUser ::
    "api_lib \<Rightarrow> 'st mail_repos \<Rightarrow> (ip option \<Rightarrow> string) \<Rightarrow> api_request \<Rightarrow> 'st mail_uc \<Rightarrow>
      ReceivedEmailResult Paginated api_reply \<times> 'st mail_uc" where
  "handle_ListReceivedEmailsForUser lib ops ip_String r s =
     (case GetUserIDFromContext lib r of
        None \<Rightarrow> (Failed 401, s)
      | Some u \<Rightarrow>
          (let p = GetPaginationParams r in
           respond 400 200 (\<lambda>(ms, total). \<lparr>pd_Data = map (mapReceivedEmailToResult ip_String) ms, pd_Limit = pg_Limit p,
               pd_Offset = pg_Offset p, pd_Total = total\<rparr>)
             (GetReceivedEmailsByUser ops u (pg_Limit p) (pg_Offset p) (query_filter lib r) s)))"

end
