(* ===== verification/ApiWebhooks.thy ===== *)
theory ApiWebhooks
  imports ApiCommon WebhookUseCase
begin

text \<open>
  The handlers of webhook configurations, \<open>app/api/v1/webhook_configs/handlers.go\<close>, and of the administration of users,
  \<open>app/api/v1/admin/handlers.go\<close>. A request body is the input of the use case; its ids are those of the path and the context.
\<close>

section \<open>Answers\<close>

record WebhookConfigResponse =
  wcr_ID :: string
  wcr_DomainID :: string
  wcr_Name :: string
  wcr_Description :: string
  wcr_URL :: string
  wcr_Method :: string
  wcr_Enabled :: bool
  wcr_Verified :: bool
  wcr_AuthType :: WebhookAuthType
  wcr_AuthUsername :: string
  wcr_CustomHeaders :: headers
  wcr_EventTypes :: "string list"
  wcr_TimeoutSeconds :: int
  wcr_MaxRetries :: int
  wcr_RetryBackoffMultiplier :: float64
  wcr_InitialRetryDelaySeconds :: int
  wcr_RateLimitPerMinute :: int
  wcr_RateLimitPerHour :: int
  wcr_CircuitBreakerEnabled :: bool
  wcr_CircuitBreakerThreshold :: int
  wcr_CircuitBreakerTimeoutSeconds :: int
  wcr_CircuitBreakerState :: CircuitBreakerState
  wcr_CircuitBreakerOpenedAt :: string
  wcr_HealthStatus :: WebhookHealthStatus
  wcr_LastHealthCheckAt :: string
  wcr_LastSuccessAt :: string
  wcr_LastFailureAt :: string
  wcr_ConsecutiveFailures :: int
  wcr_TotalSuccessCount :: int
  wcr_TotalFailureCount :: int
  wcr_SuccessRate :: float64
  wcr_AverageResponseTimeMs :: int
  wcr_LastUsedAt :: string
  wcr_CreatedAt :: string
  wcr_UpdatedAt :: string

definition opt_time :: "instant option \<Rightarrow> string" where
  "opt_time t = (case t of None \<Rightarrow> [] | Some x \<Rightarrow> RFC3339 x)"

definition mapWebhookConfigToResponse :: "WebhookConfiguration \<Rightarrow> WebhookConfigResponse" where
  "mapWebhookConfigToResponse w =
   \<lparr>wcr_ID = uuid_String (whc_ID w), wcr_DomainID = uuid_String (whc_DomainID w), wcr_Name = whc_Name w, wcr_Description = whc_Description w,
    wcr_URL = whc_URL w, wcr_Method = whc_Method w, wcr_Enabled = whc_Enabled w, wcr_Verified = whc_Verified w, wcr_AuthType = whc_AuthType w,
    wcr_AuthUsername = whc_AuthUsername w, wcr_CustomHeaders = whc_CustomHeaders w, wcr_EventTypes = whc_EventTypes w,
    wcr_TimeoutSeconds = whc_TimeoutSeconds w, wcr_MaxRetries = whc_MaxRetries w, wcr_RetryBackoffMultiplier = whc_RetryBackoffMultiplier w,
    wcr_InitialRetryDelaySeconds = whc_InitialRetryDelaySeconds w, wcr_RateLimitPerMinute = whc_RateLimitPerMinute w,
    wcr_RateLimitPerHour = whc_RateLimitPerHour w, wcr_CircuitBreakerEnabled = whc_CircuitBreakerEnabled w,
    wcr_CircuitBreakerThreshold = whc_CircuitBreakerThreshold w, wcr_CircuitBreakerTimeoutSeconds = whc_CircuitBreakerTimeoutSeconds w,
    wcr_CircuitBreakerState = whc_CircuitBreakerState w, wcr_CircuitBreakerOpenedAt = opt_time (whc_CircuitBreakerOpenedAt w),
    wcr_HealthStatus = whc_HealthStatus w, wcr_LastHealthCheckAt = opt_time (whc_LastHealthCheckAt w),
    wcr_LastSuccessAt = opt_time (whc_LastSuccessAt w), wcr_LastFailureAt = opt_time (whc_LastFailureAt w),
    wcr_ConsecutiveFailures = whc_ConsecutiveFailures w, wcr_TotalSuccessCount = whc_TotalSuccessCount w,
    wcr_TotalFailureCount = whc_TotalFailureCount w, wcr_SuccessRate = GetSuccessRate w, wcr_AverageResponseTimeMs = whc_AverageResponseTimeMs w,
    wcr_LastUsedAt = opt_time (whc_LastUsedAt w), wcr_CreatedAt = RFC3339 (whc_CreatedAt w), wcr_UpdatedAt = RFC3339 (whc_UpdatedAt w)\<rparr>"

section \<open>Webhook configurations\<close>

text \<open>The beginning of every handler: the id in the path under \<open>k\<close>, then the user, which the handlers take from the context as a UUID.\<close>

definition with_user :: "api_lib \<Rightarrow> string \<Rightarrow> api_request \<Rightarrow> (uuid \<Rightarrow> uuid \<Rightarrow> 'st \<Rightarrow> 'a api_reply \<times> 'st) \<Rightarrow> 'st \<Rightarrow> 'a api_reply \<times> 'st" where
  "with_user lib k r f st =
     (case al_FromString lib (URLParam k r) of
        None \<Rightarrow> (Failed 400, st)
      | Some i \<Rightarrow> (case ctx_uuid ''user_id'' r of None \<Rightarrow> (Failed 401, st) | Some u \<Rightarrow> f i u st))"

definition handle_CreateWebhookConfig ::
    "api_lib \<Rightarrow> 'st webhook_ops \<Rightarrow> webhook_draw \<Rightarrow> CreateWebhookConfigInput option \<Rightarrow> api_request \<Rightarrow> 'st \<Rightarrow> WebhookConfigResponse api_reply \<times> 'st" where
  "handle_CreateWebhookConfig lib ops dr body r = with_user lib ''domainId'' r (\<lambda>d u st.
     case body of
       None \<Rightarrow> (Failed 400, st)
     | Some req \<Rightarrow> respond 500 201 mapWebhookConfigToResponse
         (CreateWebhookConfiguration ops dr (req\<lparr>ci_DomainID := d, ci_UserID := u\<rparr>) st))"

definition handle_ListWebhookConfigs ::
    "api_lib \<Rightarrow> 'st webhook_ops \<Rightarrow> api_request \<Rightarrow> 'st \<Rightarrow> WebhookConfigResponse list api_reply \<times> 'st" where
  "handle_ListWebhookConfigs lib ops r = with_user lib ''domainId'' r (\<lambda>d u st.
     respond 500 200 (map mapWebhookConfigToResponse) (ListWebhookConfigurations ops d u st))"

definition handle_GetWebhookConfig :: "api_lib \<Rightarrow> 'st webhook_ops \<Rightarrow> api_request \<Rightarrow> 'st \<Rightarrow> WebhookConfigResponse api_reply \<times> 'st" where
  "handle_GetWebhookConfig lib ops r = with_user lib ''webhookId'' r (\<lambda>i u st.
     respond 404 200 mapWebhookConfigToResponse (GetWebhookConfiguration ops i u st))"

definition handle_UpdateWebhookConfig ::
    "api_lib \<Rightarrow> 'st webhook_ops \<Rightarrow> webhook_draw \<Rightarrow> UpdateWebhookConfigInput option \<Rightarrow> api_request \<Rightarrow> 'st \<Rightarrow> WebhookConfigResponse api_reply \<times> 'st" where
  "handle_UpdateWebhookConfig lib ops dr body r = with_user lib ''webhookId'' r (\<lambda>i u st.
     case body of
       None \<Rightarrow> (Failed 400, st)
     | Some req \<Rightarrow> respond 500 200 mapWebhookConfigToResponse (UpdateWebhookConfiguration ops dr (req\<lparr>ui_ID := i, ui_UserID := u\<rparr>) st))"

definition handle_DeleteWebhookConfig :: "api_lib \<Rightarrow> 'st webhook_ops \<Rightarrow> webhook_draw \<Rightarrow> api_request \<Rightarrow> 'st \<Rightarrow> unit api_reply \<times> 'st" where
  "handle_DeleteWebhookConfig lib ops dr r = with_user lib ''webhookId'' r (\<lambda>i u st.
     respond 500 204 (\<lambda>x. x) (DeleteWebhookConfiguration ops dr i u st))"

definition handle_EnableWebhookConfig :: "api_lib \<Rightarrow> 'st webhook_ops \<Rightarrow> webhook_draw \<Rightarrow> api_request \<Rightarrow> 'st \<Rightarrow> string api_reply \<times> 'st" where
  "handle_EnableWebhookConfig lib ops dr r = with_user lib ''webhookId'' r (\<lambda>i u st.
     respond 500 200 (\<lambda>_. ''webhook configuration enabled'') (EnableWebhookConfiguration ops dr i u st))"

definition handle_DisableWebhookConfig :: "api_lib \<Rightarrow> 'st webhook_ops \<Rightarrow> webhook_draw \<Rightarrow> api_request \<Rightarrow> 'st \<Rightarrow> string api_reply \<times> 'st" where
  "handle_DisableWebhookConfig lib ops dr r = with_user lib ''webhookId'' r (\<lambda>i u st.
     respond 500 200 (\<lambda>_. ''webhook configuration disabled'') (DisableWebhookConfiguration ops dr i u st))"

definition handle_TestWebhookConfig ::
    "api_lib \<Rightarrow> 'st webhook_ops \<Rightarrow> hmac \<Rightarrow> (http_request \<Rightarrow> http_reply) \<Rightarrow> webhook_draw \<Rightarrow> api_request \<Rightarrow> 'st \<Rightarrow> TestWebhookResult api_reply \<times> 'st" where
  "handle_TestWebhookConfig lib ops hmac http dr r = with_user lib ''webhookId'' r (\<lambda>i u st.
     respond 500 200 (\<lambda>x. x) (TestWebhookConfiguration ops hmac http dr i u st))"

definition handle_GetWebhookHealth :: "api_lib \<Rightarrow> 'st webhook_ops \<Rightarrow> webhook_draw \<Rightarrow> api_request \<Rightarrow> 'st \<Rightarrow> WebhookHealthCheck api_reply \<times> 'st" where
  "handle_GetWebhookHealth lib ops dr r = with_user lib ''webhookId'' r (\<lambda>i u st.
     respond 500 200 (\<lambda>x. x) (CheckWebhookHealth ops dr i u st))"

definition handle_GetWebhookMetrics :: "api_lib \<Rightarrow> 'st webhook_ops \<Rightarrow> api_request \<Rightarrow> 'st \<Rightarrow> WebhookMetrics api_reply \<times> 'st" where
  "handle_GetWebhookMetrics lib ops r = with_user lib ''webhookId'' r (\<lambda>i u st. respond 500 200 (\<lambda>x. x) (GetWebhookMetrics ops i u st))"

definition handle_GetWebhookAuditLog ::
    "api_lib \<Rightarrow> 'st webhook_ops \<Rightarrow> api_request \<Rightarrow> 'st \<Rightarrow> WebhookConfigurationAudit list api_reply \<times> 'st" where
  "handle_GetWebhookAuditLog lib ops r = with_user lib ''webhookId'' r (\<lambda>i u st.
     let limit = Atoi_value (Query_Get ''limit'' r); limit' = (if limit = 0 then 50 else limit); offset = Atoi_value (Query_Get ''offset'' r)
     in respond 500 200 (\<lambda>x. x) (GetWebhookAuditLog ops i u limit' offset st))"

definition handle_ListWebhookTemplates :: "'st webhook_ops \<Rightarrow> api_request \<Rightarrow> 'st \<Rightarrow> WebhookConfigurationTemplate list api_reply \<times> 'st" where
  "handle_ListWebhookTemplates ops r st = respond 500 200 (\<lambda>x. x) (ListWebhookTemplates ops st)"

definition handle_CreateFromTemplate ::
    "api_lib \<Rightarrow> 'st webhook_ops \<Rightarrow> webhook_draw \<Rightarrow> CreateFromTemplateInput option \<Rightarrow> api_request \<Rightarrow> 'st \<Rightarrow> WebhookConfigResponse api_reply \<times> 'st" where
  "handle_CreateFromTemplate lib ops dr body r = with_user lib ''domainId'' r (\<lambda>d u st.
     case body of
       None \<Rightarrow> (Failed 400, st)
     | Some req \<Rightarrow> respond 500 201 mapWebhookConfigToResponse (CreateFromTemplate ops dr (req\<lparr>ti_DomainID := d, ti_UserID := u\<rparr>) st))"

section \<open>Administration of users\<close>

definition parsePagination :: "api_request \<Rightarrow> int \<times> int" where
  "parsePagination r =
     (let p = Query_Get ''page'' r; s = Query_Get ''page_size'' r in
      (if p \<noteq> [] then (case ParseInt p of Some n \<Rightarrow> if n > 0 then n else 1 | None \<Rightarrow> 1) else 1,
       if s \<noteq> [] then (case ParseInt s of Some n \<Rightarrow> if n > 0 \<and> n \<le> 100 then n else 50 | None \<Rightarrow> 50) else 50))"

record UserPage =
  up_Data :: "User list"
  up_Total :: int
  up_Page :: int
  up_PageSize :: int
  up_TotalPages :: int

definition handle_ListUsers :: "'st user_ops \<Rightarrow> api_request \<Rightarrow> 'st \<Rightarrow> UserPage api_reply \<times> 'st" where
  "handle_ListUsers ops r st =
     (let (page, pageSize) = parsePagination r; search = Query_Get ''search'' r; accountType = Query_Get ''account_type'' r in
      respond 500 200 (\<lambda>(users, total). \<lparr>up_Data = users, up_Total = total, up_Page = page, up_PageSize = pageSize,
          up_TotalPages = (total + pageSize - 1) div pageSize\<rparr>)
        (if search \<noteq> [] \<or> accountType \<noteq> [] then usecase_SearchUsers ops page pageSize search accountType st
         else usecase_ListUsers ops page pageSize st))"

definition handle_GetUser :: "api_lib \<Rightarrow> 'st user_ops \<Rightarrow> api_request \<Rightarrow> 'st \<Rightarrow> User api_reply \<times> 'st" where
  "handle_GetUser lib ops r st =
     (case al_FromString lib (URLParam ''id'' r) of
        None \<Rightarrow> (Failed 400, st)
      | Some i \<Rightarrow> respond 404 200 (\<lambda>x. x) (usecase_GetUserByID ops i st))"

record UpdateUserRequest =
  uur_Email :: string
  uur_AccountType :: string

fun AccountType_of :: "string \<Rightarrow> AccountType" where
  "AccountType_of s = (if s = ''user'' then AccountTypeUser else if s = ''owner'' then AccountTypeOwner else if s = ''admin'' then AccountTypeAdmin
     else AccountTypeOther s)"

text \<open>\<open>valid\<close> is the validator of the request's tags.\<close>

definition handle_UpdateUser ::
    "api_lib \<Rightarrow> 'st user_ops \<Rightarrow> (UpdateUserRequest \<Rightarrow> bool) \<Rightarrow> instant \<Rightarrow> instant \<Rightarrow> UpdateUserRequest option \<Rightarrow> api_request \<Rightarrow> 'st \<Rightarrow> User api_reply \<times> 'st" where
  "handle_UpdateUser lib ops valid now stored body r st =
     (case al_FromString lib (URLParam ''id'' r) of
        None \<Rightarrow> (Failed 400, st)
      | Some i \<Rightarrow>
          (case body of
             None \<Rightarrow> (Failed 400, st)
           | Some req \<Rightarrow>
               if \<not> valid req then (Failed 400, st)
               else case usecase_GetUserByID ops i st of
                 (Inl _, st1) \<Rightarrow> (Failed 404, st1)
               | (Inr u, st1) \<Rightarrow>
                   (let u1 = (if uur_Email req \<noteq> [] then u\<lparr>u_Email := uur_Email req\<rparr> else u);
                        u2 = (if uur_AccountType req \<noteq> [] then u1\<lparr>u_AccountType := AccountType_of (uur_AccountType req)\<rparr> else u1);
                        u3 = u2\<lparr>u_UpdatedAt := now\<rparr>
                    in case usecase_UpdateUser ops stored u3 st1 of
                         (Some _, st2) \<Rightarrow> (Failed 500, st2)
                       | (None, st2) \<Rightarrow> (Replied 200 u3, st2))))"

definition handle_DeleteUser :: "api_lib \<Rightarrow> 'st user_ops \<Rightarrow> api_request \<Rightarrow> 'st \<Rightarrow> unit api_reply \<times> 'st" where
  "handle_DeleteUser lib ops r st =
     (case al_FromString lib (URLParam ''id'' r) of
        None \<Rightarrow> (Failed 400, st)
      | Some i \<Rightarrow>
          (case GetUserFromContext r of
             Some c \<Rightarrow> if uc_UserID c = URLParam ''id'' r then (Failed 400, st) else respond_unit 500 204 (usecase_DeleteUser ops i st)
           | None \<Rightarrow> respond_unit 500 204 (usecase_DeleteUser ops i st)))"

end
