(* ===== verification/ApiServer.thy ===== *)
theory ApiServer
  imports ApiDomains ApiMail ApiWebhooks MailAccess
begin

text \<open>
  The routes of the HTTP API, \<open>app/api/v1/handlers.go\<close>: which handler answers a request and behind which middleware, and the health checks.

  A call is a route with what its handler reads from the clock and from random sources and with the decoded body. The rate limits are left out: they can only refuse.
\<close>

section \<open>Routes\<close>

datatype mail_api_call =
    CreateMailbox uuid instant instant "CreateEmailRequest option" | ListMailboxes | GetMailbox
  | UpdateMailbox instant "UpdateEmailRequest option" | DeleteMailbox | ListMailboxMail
  | ListMail | GetMail | GetParsedMail | DeleteMail

datatype domain_api_call =
    CreateDomainCall domain_draw "CreateDomainRequest option" | GetDomainsCall | GetDomainCall
  | UpdateDomainCall instant "UpdateDomainRequest option" | DeleteDomainCall | ValidateDomainCall | RetryValidationCall instant

datatype webhook_api_call =
    CreateWebhookCall webhook_draw "CreateWebhookConfigInput option" | ListWebhooksCall
  | CreateFromTemplateCall webhook_draw "CreateFromTemplateInput option" | GetWebhookCall
  | UpdateWebhookCall webhook_draw "UpdateWebhookConfigInput option" | DeleteWebhookCall webhook_draw
  | EnableWebhookCall webhook_draw | DisableWebhookCall webhook_draw | TestWebhookCall webhook_draw
  | WebhookHealthCall webhook_draw | WebhookMetricsCall | WebhookAuditCall

datatype admin_api_call =
    ListUsersCall | GetUserCall | UpdateUserCall instant instant "UpdateUserRequest option" | DeleteUserCall

datatype api_call =
    RegisterCall session_draw string string | LoginCall session_draw string string
  | ConfirmEmailCall session_draw string string | ConfirmEmailWithTokenCall session_draw string
  | MeCall | DomainCall domain_api_call | MailCall mail_api_call | WebhookCall webhook_api_call | WebhookTemplatesCall
  | SendCall instant string "ApiSendEmailRequest option" | AdminCall admin_api_call

datatype 'p api_answer =
    AnsNothing | AnsText string | AnsSession string User | AnsUser UserResult | AnsFullUser User | AnsUsers UserPage
  | AnsDomain DomainResult | AnsDomains "DomainResult list" | AnsValidation DomainValidationResponse
  | AnsMailbox EmailAddressResult | AnsMailboxes "EmailAddressResult list" | AnsMail ReceivedEmailResult
  | AnsMails "ReceivedEmailResult Paginated" | AnsParsed "'p ParsedEmailResult"
  | AnsWebhook WebhookConfigResponse | AnsWebhooks "WebhookConfigResponse list" | AnsTest TestWebhookResult | AnsCheck WebhookHealthCheck
  | AnsMetrics WebhookMetrics | AnsAudit "WebhookConfigurationAudit list" | AnsTemplates "WebhookConfigurationTemplate list"
  | AnsSent ApiSendEmailResponse

text \<open>The services a server is built from. \<open>srv_webhooks\<close> is \<open>None\<close> when no use case of webhooks is configured: then their routes do not exist.\<close>

record ('st, 'p) services =
  srv_lib :: api_lib
  srv_jwt :: jwt_service
  srv_provider :: "'st Provider"
  srv_auth :: auth_api
  srv_users :: "'st user_ops"
  srv_domains :: "'st domain_ops"
  srv_limiter :: domain_limiter
  srv_mail :: "'st mail_repos"
  srv_webhooks :: "'st webhook_ops option"
  srv_hmac :: hmac
  srv_http :: "http_request \<Rightarrow> http_reply"
  srv_ip_String :: "ip option \<Rightarrow> string"
  srv_render :: "ReceivedEmail \<Rightarrow> string \<Rightarrow> string + 'p \<times> string list"
  srv_valid_user :: "UpdateUserRequest \<Rightarrow> bool"

definition as_answer :: "('a \<Rightarrow> 'b) \<Rightarrow> 'a api_reply \<times> 'st \<Rightarrow> 'b api_reply \<times> 'st" where
  "as_answer f r = (map_api_reply f (fst r), snd r)"

fun auth_answer :: "auth_reply \<times> 'st \<Rightarrow> 'p api_answer api_reply \<times> 'st" where
  "auth_answer (AuthFailed n, st) = (Failed n, st)"
| "auth_answer (AuthConfirm, st) = (Replied 201 AnsNothing, st)"
| "auth_answer (AuthReply n t u, st) = (Replied n (AnsSession t u), st)"

fun serve_domain :: "('st, 'p) services \<Rightarrow> domain_api_call \<Rightarrow> api_request \<Rightarrow> 'st \<Rightarrow> 'p api_answer api_reply \<times> 'st" where
  "serve_domain sv (CreateDomainCall dr body) r st =
     as_answer AnsDomain (handle_CreateDomain (srv_lib sv) (srv_domains sv) (srv_limiter sv) dr body r st)"
| "serve_domain sv GetDomainsCall r st = as_answer AnsDomains (handle_GetDomains (srv_lib sv) (srv_domains sv) r st)"
| "serve_domain sv GetDomainCall r st = as_answer AnsDomain (handle_GetDomain (srv_lib sv) (srv_domains sv) r st)"
| "serve_domain sv (UpdateDomainCall now body) r st = as_answer AnsDomain (handle_UpdateDomain (srv_lib sv) (srv_domains sv) now body r st)"
| "serve_domain sv DeleteDomainCall r st = as_answer (\<lambda>_. AnsNothing) (handle_DeleteDomain (srv_lib sv) (srv_domains sv) r st)"
| "serve_domain sv ValidateDomainCall r st = as_answer AnsValidation (handle_ValidateDomain (srv_lib sv) (srv_domains sv) r st)"
| "serve_domain sv (RetryValidationCall now) r st = as_answer AnsValidation (handle_RetryValidation (srv_lib sv) (srv_domains sv) now r st)"

fun serve_mail :: "('st, 'p) services \<Rightarrow> mail_api_call \<Rightarrow> api_request \<Rightarrow> 'st mail_uc \<Rightarrow> 'p api_answer api_reply \<times> 'st mail_uc" where
  "serve_mail sv (CreateMailbox i created updated body) r s =
     as_answer AnsMailbox (handle_CreateEmailAddress (srv_lib sv) (srv_mail sv) i created updated body r s)"
| "serve_mail sv ListMailboxes r s = as_answer AnsMailboxes (handle_GetEmailAddresses (srv_lib sv) (srv_mail sv) r s)"
| "serve_mail sv GetMailbox r s = as_answer AnsMailbox (handle_GetEmailAddress (srv_lib sv) (srv_mail sv) r s)"
| "serve_mail sv (UpdateMailbox now body) r s = as_answer AnsMailbox (handle_UpdateEmailAddress (srv_lib sv) (srv_mail sv) now body r s)"
| "serve_mail sv DeleteMailbox r s = as_answer (\<lambda>_. AnsNothing) (handle_DeleteEmailAddress (srv_lib sv) (srv_mail sv) r s)"
| "serve_mail sv ListMailboxMail r s = as_answer AnsMails (handle_GetReceivedEmails (srv_lib sv) (srv_mail sv) (srv_ip_String sv) r s)"
| "serve_mail sv ListMail r s = as_answer AnsMails (handle_ListReceivedEmailsForUser (srv_lib sv) (srv_mail sv) (srv_ip_String sv) r s)"
| "serve_mail sv GetMail r s = as_answer AnsMail (handle_GetReceivedEmail (srv_lib sv) (srv_mail sv) (srv_ip_String sv) r s)"
| "serve_mail sv GetParsedMail r s = as_answer AnsParsed (handle_GetParsedReceivedEmail (srv_lib sv) (srv_mail sv) (srv_render sv) r s)"
| "serve_mail sv DeleteMail r s = as_answer (\<lambda>_. AnsNothing) (handle_DeleteReceivedEmail (srv_lib sv) (srv_mail sv) r s)"

fun serve_webhook ::
    "('st, 'p) services \<Rightarrow> 'st webhook_ops \<Rightarrow> webhook_api_call \<Rightarrow> api_request \<Rightarrow> 'st \<Rightarrow> 'p api_answer api_reply \<times> 'st" where
  "serve_webhook sv ops (CreateWebhookCall dr body) r st = as_answer AnsWebhook (handle_CreateWebhookConfig (srv_lib sv) ops dr body r st)"
| "serve_webhook sv ops ListWebhooksCall r st = as_answer AnsWebhooks (handle_ListWebhookConfigs (srv_lib sv) ops r st)"
| "serve_webhook sv ops (CreateFromTemplateCall dr body) r st = as_answer AnsWebhook (handle_CreateFromTemplate (srv_lib sv) ops dr body r st)"
| "serve_webhook sv ops GetWebhookCall r st = as_answer AnsWebhook (handle_GetWebhookConfig (srv_lib sv) ops r st)"
| "serve_webhook sv ops (UpdateWebhookCall dr body) r st = as_answer AnsWebhook (handle_UpdateWebhookConfig (srv_lib sv) ops dr body r st)"
| "serve_webhook sv ops (DeleteWebhookCall dr) r st = as_answer (\<lambda>_. AnsNothing) (handle_DeleteWebhookConfig (srv_lib sv) ops dr r st)"
| "serve_webhook sv ops (EnableWebhookCall dr) r st = as_answer AnsText (handle_EnableWebhookConfig (srv_lib sv) ops dr r st)"
| "serve_webhook sv ops (DisableWebhookCall dr) r st = as_answer AnsText (handle_DisableWebhookConfig (srv_lib sv) ops dr r st)"
| "serve_webhook sv ops (TestWebhookCall dr) r st = as_answer AnsTest (handle_TestWebhookConfig (srv_lib sv) ops (srv_hmac sv) (srv_http sv) dr r st)"
| "serve_webhook sv ops (WebhookHealthCall dr) r st = as_answer AnsCheck (handle_GetWebhookHealth (srv_lib sv) ops dr r st)"
| "serve_webhook sv ops WebhookMetricsCall r st = as_answer AnsMetrics (handle_GetWebhookMetrics (srv_lib sv) ops r st)"
| "serve_webhook sv ops WebhookAuditCall r st = as_answer AnsAudit (handle_GetWebhookAuditLog (srv_lib sv) ops r st)"

fun serve_admin :: "('st, 'p) services \<Rightarrow> admin_api_call \<Rightarrow> api_request \<Rightarrow> 'st \<Rightarrow> 'p api_answer api_reply \<times> 'st" where
  "serve_admin sv ListUsersCall r st = as_answer AnsUsers (handle_ListUsers (srv_users sv) r st)"
| "serve_admin sv GetUserCall r st = as_answer AnsFullUser (handle_GetUser (srv_lib sv) (srv_users sv) r st)"
| "serve_admin sv (UpdateUserCall now stored body) r st =
     as_answer AnsFullUser (handle_UpdateUser (srv_lib sv) (srv_users sv) (srv_valid_user sv) now stored body r st)"
| "serve_admin sv DeleteUserCall r st = as_answer (\<lambda>_. AnsNothing) (handle_DeleteUser (srv_lib sv) (srv_users sv) r st)"

text \<open>\<open>now\<close> is the clock the middleware checks the token against; a route that does not exist answers 404.\<close>

fun serve :: "('st, 'p) services \<Rightarrow> instant \<Rightarrow> api_call \<Rightarrow> api_request \<Rightarrow> 'st mail_uc \<Rightarrow> 'p api_answer api_reply \<times> 'st mail_uc" where
  "serve sv now (RegisterCall dr email pw) r s = on_repo (\<lambda>st. auth_answer (handle_Register (srv_provider sv) (srv_auth sv) dr email pw st)) s"
| "serve sv now (LoginCall dr email pw) r s = on_repo (\<lambda>st. auth_answer (handle_Login (srv_provider sv) (srv_auth sv) dr email pw st)) s"
| "serve sv now (ConfirmEmailCall dr email token) r s =
     on_repo (\<lambda>st. auth_answer (handle_ConfirmEmail (srv_provider sv) (srv_auth sv) dr email token st)) s"
| "serve sv now (ConfirmEmailWithTokenCall dr token) r s =
     on_repo (\<lambda>st. auth_answer (handle_ConfirmEmailWithToken (srv_provider sv) (srv_auth sv) dr token st)) s"
| "serve sv now MeCall r s = behind (RequireAuth (srv_jwt sv)) now
     (\<lambda>r. on_repo (\<lambda>st. as_answer AnsUser (handle_Me (srv_lib sv) (srv_users sv) r st))) r s"
| "serve sv now (DomainCall c) r s = behind (RequireAuth (srv_jwt sv)) now (\<lambda>r. on_repo (serve_domain sv c r)) r s"
| "serve sv now (MailCall c) r s = behind (RequireAuth (srv_jwt sv)) now (serve_mail sv c) r s"
| "serve sv now (WebhookCall c) r s =
     (case srv_webhooks sv of
        None \<Rightarrow> (Failed 404, s)
      | Some ops \<Rightarrow> behind (RequireAuth (srv_jwt sv)) now (\<lambda>r. on_repo (serve_webhook sv ops c r)) r s)"
| "serve sv now WebhookTemplatesCall r s =
     (case srv_webhooks sv of
        None \<Rightarrow> (Failed 404, s)
      | Some ops \<Rightarrow> behind (RequireAuth (srv_jwt sv)) now
          (\<lambda>r. on_repo (\<lambda>st. as_answer AnsTemplates (handle_ListWebhookTemplates ops r st))) r s)"
| "serve sv now (SendCall t random body) r s = on_repo (\<lambda>st. as_answer AnsSent (handle_SendEmail (srv_domains sv) t random body r st)) s"
| "serve sv now (AdminCall c) r s = behind (RequireAdmin (srv_jwt sv)) now (\<lambda>r. on_repo (serve_admin sv c r)) r s"

section \<open>Health\<close>

record HealthCheck =
  hc_Status :: string
  hc_Error :: string

text \<open>\<open>ping\<close>: no checker configured, or what its ping answered.\<close>

definition Health :: "bool option \<Rightarrow> bool \<Rightarrow> int \<times> string \<times> (string \<times> HealthCheck) list" where
  "Health ping provider =
     (let database = (case ping of
            None \<Rightarrow> \<lparr>hc_Status = ''unknown'', hc_Error = ''health checker not configured''\<rparr>
          | Some False \<Rightarrow> \<lparr>hc_Status = ''unhealthy'', hc_Error = ''database connection failed''\<rparr>
          | Some True \<Rightarrow> \<lparr>hc_Status = ''healthy'', hc_Error = []\<rparr>);
          auth = (if provider then \<lparr>hc_Status = ''healthy'', hc_Error = []\<rparr>
                  else \<lparr>hc_Status = ''unhealthy'', hc_Error = ''auth provider not configured''\<rparr>);
          overallHealthy = (ping \<noteq> Some False \<and> provider)
      in (if overallHealthy then 200 else 503, if overallHealthy then ''ok'' else ''unhealthy'',
          [(''database'', database), (''auth_provider'', auth), (''api'', \<lparr>hc_Status = ''healthy'', hc_Error = []\<rparr>)]))"

definition Readiness :: "bool option \<Rightarrow> bool \<Rightarrow> int \<times> string \<times> (string \<times> HealthCheck) list" where
  "Readiness ping provider =
     (let database = (case ping of
            None \<Rightarrow> \<lparr>hc_Status = ''not_ready'', hc_Error = ''database not configured''\<rparr>
          | Some False \<Rightarrow> \<lparr>hc_Status = ''not_ready'', hc_Error = ''database not accessible''\<rparr>
          | Some True \<Rightarrow> \<lparr>hc_Status = ''ready'', hc_Error = []\<rparr>);
          auth = (if provider then \<lparr>hc_Status = ''ready'', hc_Error = []\<rparr>
                  else \<lparr>hc_Status = ''not_ready'', hc_Error = ''auth provider not configured''\<rparr>);
          ready = (ping = Some True \<and> provider)
      in (if ready then 200 else 503, if ready then ''ready'' else ''not_ready'', [(''database'', database), (''auth_provider'', auth)]))"

lemma ready_healthy: "fst (Readiness ping provider) = 200 \<Longrightarrow> fst (Health ping provider) = 200"
  by (auto simp: Readiness_def Health_def Let_def split: if_splits)

end
