(* ===== verification/Accounts.thy ===== *)
theory Accounts
  imports LocalAuth
begin

text \<open>
  What registration and login guarantee. The locale \<open>account_store\<close> is the contract of the two repositories the provider uses: the tables as lists, each
  method with and without a failure of the database. Inside it the handlers are analysed; \<open>acc\<close> is its interpretation on the PostgreSQL statements.
\<close>

section \<open>The contract\<close>

text \<open>A read answers from the tables, or fails where the database may fail, and changes nothing.\<close>

definition answers :: "bool \<Rightarrow> bool \<Rightarrow> (db_error + 'a) \<Rightarrow> (db_error + 'a) \<Rightarrow> bool" where
  "answers up up' r x \<longleftrightarrow> (up \<longrightarrow> up') \<and> (r = x \<or> \<not> up \<and> (\<exists>e. r = Inl (DBFault e)))"

locale account_store =
  fixes us :: "'st user_ops" and cs :: "'st credential_ops" and users :: "'st \<Rightarrow> User list" and creds :: "'st \<Rightarrow> Credentials list" and up :: "'st \<Rightarrow> bool"
  assumes id_law: "uso_GetByID us i st = (ru, st') \<Longrightarrow> users st' = users st \<and> creds st' = creds st \<and>
      answers (up st) (up st') ru (one_row_of (find (\<lambda>u. u_ID u = i) (users st)))"
    and email_law: "uso_GetByEmail us m st = (ru, st') \<Longrightarrow> users st' = users st \<and> creds st' = creds st \<and>
      answers (up st) (up st') ru (one_row_of (find (\<lambda>u. u_Email u = m) (users st)))"
    and provider_law: "uso_GetByAuthProvider us n k st = (ru, st') \<Longrightarrow> users st' = users st \<and> creds st' = creds st \<and>
      answers (up st) (up st') ru (one_row_of (find (\<lambda>u. u_AuthProvider u = n \<and> u_AuthProviderID u = k) (users st)))"
    and create_law: "uso_Create us u st = (e, st') \<Longrightarrow> creds st' = creds st \<and> (up st \<longrightarrow> up st') \<and>
      (if e = None then u_ID u \<notin> u_ID ` set (users st) \<and> u_Email u \<notin> u_Email ` set (users st) \<and> users st' = users st @ [persist_user u]
       else users st' = users st)"
    and update_law: "uso_Update us u st = (e, st') \<Longrightarrow> creds st' = creds st \<and> (up st \<longrightarrow> up st') \<and>
      (if e = None then (\<forall>r \<in> set (users st). u_ID r \<noteq> u_ID u \<longrightarrow> u_Email r \<noteq> u_Email u) \<and>
           users st' = map (\<lambda>r. if u_ID r = u_ID u then updated_user u r else r) (users st)
       else users st' = users st)"
    and cred_get_law: "cro_GetByUserID cs i st = (rc, st') \<Longrightarrow> users st' = users st \<and> creds st' = creds st \<and>
      answers (up st) (up st') rc (one_row_of (find (\<lambda>c. cr_UserID c = i) (creds st)))"
    and cred_create_law: "cro_Create cs t i h st = (e, st') \<Longrightarrow> users st' = users st \<and> (up st \<longrightarrow> up st') \<and>
      (if e = None then i \<notin> cr_UserID ` set (creds st) \<and> (\<exists>c. cr_UserID c = i \<and> cr_PasswordHash c = h \<and> creds st' = creds st @ [c])
       else creds st' = creds st)"

section \<open>Accounts\<close>

definition accounts_ok :: "User list \<Rightarrow> Credentials list \<Rightarrow> bool" where
  "accounts_ok us cs \<longleftrightarrow> distinct (map u_ID us) \<and> distinct (map u_Email us) \<and> cr_UserID ` set cs \<subseteq> u_ID ` set us"

text \<open>Local accounts carry their id as the id at the provider.\<close>

definition own_ids :: "User list \<Rightarrow> bool" where
  "own_ids us \<longleftrightarrow> (\<forall>u \<in> set us. u_AuthProvider u = ProviderName \<longrightarrow> u_AuthProviderID u = uuid_String (u_ID u))"

text \<open>An account without a password.\<close>

definition orphan :: "uuid \<Rightarrow> string \<Rightarrow> User list \<Rightarrow> Credentials list \<Rightarrow> bool" where
  "orphan i email us cs \<longleftrightarrow> accounts_ok us cs \<and> i \<notin> cr_UserID ` set cs \<and> normalizeEmail email = email \<and>
     (\<exists>u \<in> set us. u_ID u = i \<and> u_Email u = email \<and> u_AuthProvider u = ProviderName)"

lemma persist_user_fields [simp]:
  "u_ID (persist_user u) = u_ID u" "u_Email (persist_user u) = u_Email u" "u_AuthProvider (persist_user u) = u_AuthProvider u"
  "u_AuthProviderID (persist_user u) = u_AuthProviderID u" "u_AccountType (persist_user u) = u_AccountType u"
  by (simp_all add: persist_user_def)

lemma updated_user_fields [simp]:
  "u_ID (updated_user u r) = u_ID u" "u_Email (updated_user u r) = u_Email u" "u_AuthProvider (updated_user u r) = u_AuthProvider u"
  "u_AuthProviderID (updated_user u r) = u_AuthProviderID u"
  by (simp_all add: updated_user_def)

lemma is_space_to_lower [simp]: "is_space (to_lower c) = is_space c"
  by (auto simp: is_space_def to_lower_def is_upper_def)

lemma normalizeEmail_idem [simp]: "normalizeEmail (normalizeEmail e) = normalizeEmail e"
proof -
  have "TrimSpace e = [] \<or> \<not> is_space (hd (TrimSpace e)) \<and> \<not> is_space (last (TrimSpace e))" using TrimSpace_ends by blast
  then have "TrimSpace (ToLower (TrimSpace e)) = ToLower (TrimSpace e)"
    by (intro TrimSpace_id) (auto simp: ToLower_def hd_map last_map)
  then show ?thesis by (simp add: normalizeEmail_def)
qed

lemma answers_Inr: "answers a b (Inr x) (one_row_of (find P xs)) \<Longrightarrow> find P xs = Some x"
  by (auto simp: answers_def one_row_of_def split: option.splits)

lemma answers_ErrNoRows: "answers a b (Inl ErrNoRows) (one_row_of (find P xs)) \<Longrightarrow> \<forall>x \<in> set xs. \<not> P x"
  by (auto simp: answers_def one_row_of_def find_None_iff split: option.splits)

lemma answers_up: "answers True b r x \<Longrightarrow> b \<and> r = x"
  by (simp add: answers_def)

text \<open>Adding an account keeps the tables well-formed and an orphan an orphan.\<close>

lemma accounts_add_user:
  "accounts_ok us cs \<Longrightarrow> u_ID u \<notin> u_ID ` set us \<Longrightarrow> u_Email u \<notin> u_Email ` set us \<Longrightarrow> accounts_ok (us @ [persist_user u]) cs"
  by (auto simp: accounts_ok_def)

lemma orphan_add_user:
  "orphan i email us cs \<Longrightarrow> u_ID u \<notin> u_ID ` set us \<Longrightarrow> u_Email u \<notin> u_Email ` set us \<Longrightarrow> orphan i email (us @ [persist_user u]) cs"
  using accounts_add_user by (auto simp: orphan_def)

lemma orphan_add_cred:
  "orphan i email us cs \<Longrightarrow> cr_UserID c \<in> u_ID ` set us \<Longrightarrow> cr_UserID c \<noteq> i \<Longrightarrow> orphan i email us (cs @ [c])"
  by (auto simp: orphan_def accounts_ok_def)

text \<open>An update that keeps the id and the e-mail address of an account.\<close>

lemma update_row:
  assumes "distinct (map u_ID us)" "f \<in> set us" "u_ID f' = u_ID f" "u_Email f' = u_Email f"
  shows "map u_ID (map (\<lambda>r. if u_ID r = u_ID f' then updated_user f' r else r) us) = map u_ID us"
    "map u_Email (map (\<lambda>r. if u_ID r = u_ID f' then updated_user f' r else r) us) = map u_Email us"
proof -
  have "r = f" if "r \<in> set us" "u_ID r = u_ID f" for r using assms(1,2) that by (auto simp: distinct_map inj_on_def)
  then show "map u_ID (map (\<lambda>r. if u_ID r = u_ID f' then updated_user f' r else r) us) = map u_ID us"
      "map u_Email (map (\<lambda>r. if u_ID r = u_ID f' then updated_user f' r else r) us) = map u_Email us"
    using assms(3,4) by auto
qed

lemma orphan_update:
  assumes "orphan i email us cs" "f \<in> set us" "u_ID f' = u_ID f" "u_Email f' = u_Email f" "u_AuthProvider f' = ProviderName"
  shows "orphan i email (map (\<lambda>r. if u_ID r = u_ID f' then updated_user f' r else r) us) cs"
proof -
  let ?us = "map (\<lambda>r. if u_ID r = u_ID f' then updated_user f' r else r) us"
  have ok: "accounts_ok us cs" using assms(1) by (simp add: orphan_def)
  then have d: "distinct (map u_ID us)" by (simp add: accounts_ok_def)
  note same = update_row [OF d assms(2-4)]
  have "set (map u_ID ?us) = u_ID ` set us" by (subst same(1)) simp
  then have "u_ID ` set ?us = u_ID ` set us" by (simp only: set_map)
  then have "accounts_ok ?us cs" using ok unfolding accounts_ok_def by (simp only: same)
  moreover obtain u where u: "u \<in> set us" "u_ID u = i" "u_Email u = email" "u_AuthProvider u = ProviderName"
    using assms(1) by (auto simp: orphan_def)
  have "\<exists>v \<in> set ?us. u_ID v = i \<and> u_Email v = email \<and> u_AuthProvider v = ProviderName"
  proof (cases "u_ID u = u_ID f'")
    case True
    then have "u = f" using d u(1) assms(2,3) by (auto simp: distinct_map inj_on_def)
    then have "updated_user f' u \<in> set ?us" using u(1) True by force
    then show ?thesis using \<open>u = f\<close> u assms(3-5) by (intro bexI [of _ "updated_user f' u"]) simp_all
  next
    case False
    then have "u \<in> set ?us" using u(1) by force
    then show ?thesis using u by blast
  qed
  ultimately show ?thesis using assms(1) by (simp add: orphan_def)
qed

section \<open>The handlers\<close>

definition provider_on :: "'st credential_ops \<Rightarrow> 'st user_ops \<Rightarrow> jwt_service \<Rightarrow> 'st Provider" where
  "provider_on cs us jwt = \<lparr>pv_creds = cs, pv_users = us, pv_jwt = jwt\<rparr>"

lemma provider_fields [simp]:
  "pv_creds (provider_on cs us jwt) = cs" "pv_users (provider_on cs us jwt) = us" "pv_jwt (provider_on cs us jwt) = jwt"
  by (simp_all add: provider_on_def)

text \<open>The requests of clients.\<close>

inductive account_step :: "'st Provider \<Rightarrow> 'st \<Rightarrow> 'st \<Rightarrow> bool" for p where
  "account_step p st (snd (handle_Register p h dr email password st))"
| "account_step p st (snd (handle_Login p h dr email password st))"
| "account_step p st (snd (handle_ConfirmEmail p h dr email token st))"
| "account_step p st (snd (handle_ConfirmEmailWithToken p h dr token st))"

lemma mint_session_snd:
  "snd (mint_session p h dr n k m st) = snd (GetOrCreateUserByAuthProvider (pv_users p) (sd_user dr) ProviderName k m st)"
  by (simp add: mint_session_def split: prod.split sum.split option.split)

context account_store
begin

lemma register_created:
  assumes "provider_CreateUser (provider_on cs us jwt) bc dr email password st = (Inr resp, st')"
  shows "\<exists>hash c. bc_Generate bc (ad_salt dr) password = Some hash \<and> ad_id dr \<notin> u_ID ` set (users st) \<and>
    normalizeEmail email \<notin> u_Email ` set (users st) \<and> users st' = users st @ [persist_user (local_user dr (normalizeEmail email))] \<and>
    cr_UserID c = ad_id dr \<and> cr_PasswordHash c = hash \<and> creds st' = creds st @ [c] \<and> (up st \<longrightarrow> up st') \<and>
    cr_ID resp = uuid_String (ad_id dr) \<and> \<not> cr_RequiresConfirm resp"
proof -
  let ?m = "normalizeEmail email"
  obtain r1 st1 where g: "uso_GetByEmail us ?m st = (r1, st1)" by fastforce
  have r1: "r1 = Inl ErrNoRows" using assms g by (auto simp: provider_CreateUser_def Let_def split: if_splits sum.splits)
  obtain hash where h: "bc_Generate bc (ad_salt dr) password = Some hash"
    using assms g r1 by (auto simp: provider_CreateUser_def Let_def split: if_splits option.splits)
  obtain e2 st2 where c: "uso_Create us (local_user dr ?m) st1 = (e2, st2)" by fastforce
  have e2: "e2 = None" using assms g r1 h c by (cases e2) (auto simp: provider_CreateUser_def Let_def split: if_splits)
  obtain e3 st3 where k: "cro_Create cs (ad_dbnow dr) (ad_id dr) hash st2 = (e3, st3)" by fastforce
  have e3: "e3 = None" using assms g r1 h c e2 k by (cases e3) (auto simp: provider_CreateUser_def Let_def split: if_splits)
  have out: "st' = st3" "cr_ID resp = uuid_String (ad_id dr)" "\<not> cr_RequiresConfirm resp"
    using assms g r1 h c e2 k e3 by (auto simp: provider_CreateUser_def Let_def split: if_splits option.splits)
  note l = email_law [OF g] create_law [OF c] cred_create_law [OF k]
  have "u_ID (local_user dr ?m) = ad_id dr" "u_Email (local_user dr ?m) = ?m" by (simp_all add: local_user_def)
  then show ?thesis using l e2 e3 h out by (auto simp: answers_def)
qed

text \<open>A registration that fails leaves the tables, or an account without a password.\<close>

lemma register_failed:
  assumes "provider_CreateUser (provider_on cs us jwt) bc dr email password st = (Inl err, st')"
  shows "users st' = users st \<and> creds st' = creds st \<and> (\<nexists>e. err = AuthCredentialsFailed e) \<or>
    ad_id dr \<notin> u_ID ` set (users st) \<and> normalizeEmail email \<notin> u_Email ` set (users st) \<and>
    users st' = users st @ [persist_user (local_user dr (normalizeEmail email))] \<and>
    (creds st' = creds st \<or> (\<exists>c. cr_UserID c = ad_id dr \<and> creds st' = creds st @ [c]) \<and> err = AuthSignFailed)"
proof -
  let ?m = "normalizeEmail email"
  obtain r1 st1 where g: "uso_GetByEmail us ?m st = (r1, st1)" by fastforce
  note l1 = email_law [OF g]
  show ?thesis
  proof (cases "r1 = Inl ErrNoRows \<and> ?m \<noteq> [] \<and> 8 \<le> length password \<and> bc_Generate bc (ad_salt dr) password \<noteq> None")
    case False
    then have "(st' = st \<or> st' = st1) \<and> (\<nexists>e. err = AuthCredentialsFailed e)"
      using assms g by (auto simp: provider_CreateUser_def Let_def split: if_splits sum.splits option.splits)
    then show ?thesis using l1 by auto
  next
    case True
    then obtain hash where h: "bc_Generate bc (ad_salt dr) password = Some hash" by auto
    obtain e2 st2 where c: "uso_Create us (local_user dr ?m) st1 = (e2, st2)" by fastforce
    note l2 = create_law [OF c]
    show ?thesis
    proof (cases "e2 = None")
      case False
      then have "st' = st2 \<and> (\<nexists>e. err = AuthCredentialsFailed e)" using assms g True h c by (auto simp: provider_CreateUser_def Let_def)
      then show ?thesis using l1 l2 False by simp
    next
      case e2: True
      obtain e3 st3 where k: "cro_Create cs (ad_dbnow dr) (ad_id dr) hash st2 = (e3, st3)" by fastforce
      have "st' = st3 \<and> (e3 = None \<longrightarrow> err = AuthSignFailed)"
        using assms g True h c e2 k by (auto simp: provider_CreateUser_def Let_def split: option.splits)
      then show ?thesis using l1 l2 cred_create_law [OF k] e2 by (cases "e3 = None") (auto simp: local_user_def)
    qed
  qed
qed

lemma create_keeps_orphan:
  assumes "orphan i email (users st) (creds st)" "usecase_CreateUser us dr req st = (r, st')"
  shows "orphan i email (users st') (creds st')"
proof -
  obtain r1 st1 where g: "uso_GetByEmail us (cu_Email req) st = (r1, st1)" by fastforce
  obtain e st2 where c: "uso_Create us (new_user dr (cu_Email req) (cu_AuthProvider req) (cu_AuthProviderID req)) st1 = (e, st2)" by fastforce
  have "st' = st \<or> st' = st1 \<or> st' = st2"
    using assms(2) g c by (auto simp: usecase_CreateUser_def Let_def split: if_splits sum.splits option.splits)
  moreover have "orphan i email (users st2) (creds st2)"
    using assms(1) email_law [OF g] create_law [OF c] orphan_add_user by (auto split: if_splits)
  ultimately show ?thesis using assms(1) email_law [OF g] by auto
qed

lemma get_or_create_keeps_orphan:
  assumes "orphan i email (users st) (creds st)" "GetOrCreateUserByAuthProvider us dr ProviderName k m st = (r, st')"
  shows "orphan i email (users st') (creds st')"
proof -
  obtain r1 st1 where p: "uso_GetByAuthProvider us ProviderName k st = (r1, st1)" by fastforce
  obtain r2 st2 where g: "uso_GetByEmail us m st1 = (r2, st2)" by fastforce
  have o: "orphan i email (users st1) (creds st1)" "orphan i email (users st2) (creds st2)"
    using assms(1) provider_law [OF p] email_law [OF g] by simp_all
  show ?thesis
  proof (cases "st' = st \<or> st' = st1 \<or> st' = st2")
    case True
    then show ?thesis using assms(1) o by auto
  next
    case False
    then have r1: "isl r1" using assms(2) p by (auto simp: GetOrCreateUserByAuthProvider_def split: if_splits sum.splits)
    show ?thesis
    proof (cases r2)
      case (Inl x)
      then have "usecase_CreateUser us dr \<lparr>cu_Email = m, cu_AuthProvider = ProviderName, cu_AuthProviderID = k\<rparr> st2 = (r, st')"
        using assms(2) p g r1 False by (auto simp: GetOrCreateUserByAuthProvider_def split: if_splits sum.splits)
      then show ?thesis by (rule create_keeps_orphan [OF o(2)])
    next
      case (Inr f)
      let ?f = "f\<lparr>u_AuthProvider := ProviderName, u_AuthProviderID := k, u_UpdatedAt := ud_updated dr\<rparr>"
      obtain e st3 where up: "uso_Update us ?f st2 = (e, st3)" by fastforce
      have "f \<in> set (users st2)" using email_law [OF g] Inr answers_Inr by (fastforce dest: find_SomeD)
      then have "orphan i email (users st3) (creds st3)"
        using o(2) update_law [OF up] orphan_update [of i email "users st2" "creds st2" f ?f] by (simp split: if_splits)
      moreover have "st' = st3"
        using assms(2) p g r1 Inr up False by (auto simp: GetOrCreateUserByAuthProvider_def Let_def split: if_splits sum.splits option.splits)
      ultimately show ?thesis by simp
    qed
  qed
qed

lemma mint_keeps_orphan:
  assumes "orphan i email (users st) (creds st)"
  shows "orphan i email (users (snd (mint_session (provider_on cs us jwt) h dr n k m st))) (creds (snd (mint_session (provider_on cs us jwt) h dr n k m st)))"
  using get_or_create_keeps_orphan [OF assms surjective_pairing] by (simp add: mint_session_snd)

lemma token_keeps_orphan:
  assumes "orphan i email (users st) (creds st)"
  shows "orphan i email (users (snd (token_session (provider_on cs us jwt) h dr n t st))) (creds (snd (token_session (provider_on cs us jwt) h dr n t st)))"
proof -
  obtain r st1 where v: "provider_ValidateToken (provider_on cs us jwt) (aa_parse h) (sd_check dr) t st = (r, st1)" by fastforce
  then have "users st1 = users st \<and> creds st1 = creds st"
    using id_law by (fastforce simp: provider_ValidateToken_def split: option.splits prod.splits sum.splits)
  then have "orphan i email (users st1) (creds st1)" using assms by simp
  then show ?thesis using v mint_keeps_orphan by (auto simp: token_session_def split: sum.splits)
qed

lemma login_same:
  assumes "provider_Login (provider_on cs us jwt) bc now email pw st = (r, st')"
  shows "users st' = users st \<and> creds st' = creds st \<and> (up st \<longrightarrow> up st')"
proof -
  obtain r1 st1 where g: "uso_GetByEmail us (normalizeEmail email) st = (r1, st1)" by fastforce
  note l1 = email_law [OF g]
  show ?thesis
  proof (cases "st' = st1")
    case True
    then show ?thesis using l1 by (simp add: answers_def)
  next
    case False
    then obtain u where u: "r1 = Inr u" using assms g by (cases r1) (auto simp: provider_Login_def)
    obtain r2 st2 where c: "cro_GetByUserID cs (u_ID u) st1 = (r2, st2)" by fastforce
    then have "st' = st2" using assms g u False by (auto simp: provider_Login_def split: if_splits sum.splits option.splits)
    then show ?thesis using l1 cred_get_law [OF c] by (simp add: answers_def)
  qed
qed

lemma register_keeps_orphan:
  assumes "orphan i email (users st) (creds st)"
  shows "orphan i email (users (snd (handle_Register (provider_on cs us jwt) h dr m pw st))) (creds (snd (handle_Register (provider_on cs us jwt) h dr m pw st)))"
proof -
  obtain r st1 where p: "provider_CreateUser (provider_on cs us jwt) (aa_bcrypt h) (sd_auth dr) m pw st = (r, st1)" by fastforce
  let ?i = "ad_id (sd_auth dr)" and ?m = "normalizeEmail m"
  have new: "orphan i email (users st @ [persist_user (local_user (sd_auth dr) ?m)]) (creds st)"
    if "?i \<notin> u_ID ` set (users st)" "?m \<notin> u_Email ` set (users st)"
    using orphan_add_user [OF assms, of "local_user (sd_auth dr) ?m"] that by (simp add: local_user_def)
  have cred: "orphan i email (users st @ [persist_user (local_user (sd_auth dr) ?m)]) (creds st @ [c])"
    if "?i \<notin> u_ID ` set (users st)" "?m \<notin> u_Email ` set (users st)" "cr_UserID c = ?i" for c
  proof -
    have "i \<in> u_ID ` set (users st)" using assms by (auto simp: orphan_def)
    then have "cr_UserID c \<noteq> i" using that by auto
    then show ?thesis using orphan_add_cred [OF new [OF that(1,2)], of c] that(3) by (simp add: local_user_def)
  qed
  have o: "orphan i email (users st1) (creds st1)"
  proof (cases r)
    case (Inl e)
    then show ?thesis using register_failed [of jwt "aa_bcrypt h" "sd_auth dr" m pw st e st1] p assms new cred by auto
  next
    case (Inr resp)
    then show ?thesis using register_created [of jwt "aa_bcrypt h" "sd_auth dr" m pw st resp st1] p cred by auto
  qed
  show ?thesis using p o mint_keeps_orphan [OF o] by (cases r) (auto simp: handle_Register_def)
qed

lemma account_step_keeps_orphan:
  assumes "account_step (provider_on cs us jwt) st st'" "orphan i email (users st) (creds st)"
  shows "orphan i email (users st') (creds st')"
  using assms(1)
proof cases
  case (1 h dr m pw)
  then show ?thesis using register_keeps_orphan assms(2) by simp
next
  case (2 h dr m pw)
  obtain r st1 where l: "provider_Login (provider_on cs us jwt) (aa_bcrypt h) (sd_login dr) m pw st = (r, st1)" by fastforce
  then have o: "orphan i email (users st1) (creds st1)" using login_same [OF l] assms(2) by simp
  show ?thesis using 2 l o token_keeps_orphan [OF o] by (cases r) (auto simp: handle_Login_def)
next
  case (3 h dr m t)
  then show ?thesis using token_keeps_orphan [OF assms(2)] by (simp add: handle_ConfirmEmail_def)
next
  case (4 h dr t)
  then show ?thesis using token_keeps_orphan [OF assms(2)] by (simp add: handle_ConfirmEmailWithToken_def)
qed

lemma orphan_locked_out:
  assumes "orphan i (normalizeEmail m) (users st) (creds st)"
  shows "fst (handle_Register (provider_on cs us jwt) h dr m pw st) = AuthFailed 400" "fst (handle_Login (provider_on cs us jwt) h dr m pw st) = AuthFailed 401"
proof -
  obtain u where u: "u \<in> set (users st)" "u_ID u = i" "u_Email u = normalizeEmail m" using assms by (auto simp: orphan_def)
  obtain r st1 where p: "provider_CreateUser (provider_on cs us jwt) (aa_bcrypt h) (sd_auth dr) m pw st = (r, st1)" by fastforce
  have "isl r"
  proof (cases r)
    case (Inr resp)
    then show ?thesis using register_created [of jwt "aa_bcrypt h" "sd_auth dr" m pw st resp st1] p u by force
  qed simp
  then show "fst (handle_Register (provider_on cs us jwt) h dr m pw st) = AuthFailed 400"
    using p by (cases r) (auto simp: handle_Register_def)
  obtain r1 st1 where g: "uso_GetByEmail us (normalizeEmail m) st = (r1, st1)" by fastforce
  obtain r2 st2 where c: "cro_GetByUserID cs i st1 = (r2, st2)" by fastforce
  have "isl r2"
  proof (cases r2)
    case (Inr x)
    then have "find (\<lambda>c. cr_UserID c = i) (creds st) = Some x" using cred_get_law [OF c] email_law [OF g] answers_Inr by fastforce
    then have "i \<in> cr_UserID ` set (creds st)" by (auto dest: find_SomeD)
    then show ?thesis using assms by (simp add: orphan_def)
  qed simp
  moreover have "x = u" if "r1 = Inr x" for x
  proof -
    have "find (\<lambda>u. u_Email u = normalizeEmail m) (users st) = Some x" using email_law [OF g] that answers_Inr by fastforce
    then have "x \<in> set (users st)" "u_Email x = normalizeEmail m" by (auto dest: find_SomeD)
    then show ?thesis using u assms by (auto simp: orphan_def accounts_ok_def distinct_map inj_on_def)
  qed
  ultimately have "isl (fst (provider_Login (provider_on cs us jwt) (aa_bcrypt h) (sd_login dr) m pw st))"
    using g c u(2) by (cases r1; cases r2) (auto simp: provider_Login_def)
  then show "fst (handle_Login (provider_on cs us jwt) h dr m pw st) = AuthFailed 401"
    by (auto simp: handle_Login_def split: prod.splits sum.splits)
qed

text \<open>Without failures of the database, an account found by its id at the provider is the session's user.\<close>

lemma mint_finds:
  assumes "up st" "u \<in> set (users st)" "u_AuthProvider u = ProviderName" "\<forall>v \<in> set (users st). u_AuthProvider v = ProviderName \<and> u_AuthProviderID v = k \<longrightarrow> v = u"
    and "u_AuthProviderID u = k" "k \<noteq> []" "m \<noteq> []" "generateJWT h (sd_mint dr) (uuid_String (u_ID u)) (u_Email u) = Some token"
  shows "\<exists>st'. mint_session (provider_on cs us jwt) h dr n k m st = (AuthReply n token u, st') \<and> users st' = users st \<and> creds st' = creds st \<and> up st'"
proof -
  obtain r st1 where p: "uso_GetByAuthProvider us ProviderName k st = (r, st1)" by fastforce
  note l = provider_law [OF p]
  have "find (\<lambda>v. u_AuthProvider v = ProviderName \<and> u_AuthProviderID v = k) (users st) = Some u"
  proof (cases "find (\<lambda>v. u_AuthProvider v = ProviderName \<and> u_AuthProviderID v = k) (users st)")
    case None
    then show ?thesis using assms(2,3,5) by (auto simp: find_None_iff)
  next
    case (Some v)
    then have "v = u" using assms(4) find_SomeD by fastforce
    then show ?thesis using Some by simp
  qed
  then have "r = Inr u" "up st1" using l assms(1) by (auto simp: answers_def one_row_of_def)
  moreover have "ProviderName \<noteq> []" by (simp add: ProviderName_def)
  ultimately have "GetOrCreateUserByAuthProvider us (sd_user dr) ProviderName k m st = (Inr u, st1)"
    using p assms(6,7) by (simp add: GetOrCreateUserByAuthProvider_def)
  then show ?thesis using l \<open>up st1\<close> assms(8) by (simp add: mint_session_def)
qed

lemma login_outcome:
  assumes "up st" "accounts_ok (users st) (creds st)" "own_ids (users st)" "inj uuid_String"
    and u: "u \<in> set (users st)" "u_Email u = normalizeEmail m" "u_AuthProvider u = ProviderName" "u_Email u \<noteq> []"
    and c: "find (\<lambda>c. cr_UserID c = u_ID u) (creds st) = Some c"
    and jwt: "jwt_Generate jwt (sd_login dr) (uuid_String (u_ID u)) (u_Email u) [] = Some t" "jwt_Validate jwt (sd_check dr) t = Some claims"
      "aa_parse h (cl_Subject claims) = Some (u_ID u)"
    and mint: "generateJWT h (sd_mint dr) (uuid_String (u_ID u)) (u_Email u) = Some token"
  shows "fst (handle_Login (provider_on cs us jwt) h dr m pw st) =
    (if bc_Compare (aa_bcrypt h) (cr_PasswordHash c) pw then AuthReply 200 token u else AuthFailed 401)"
proof -
  have uniq: "v = u" if "v \<in> set (users st)" "u_Email v = u_Email u \<or> u_ID v = u_ID u" for v
    using assms(2) u(1) that by (auto simp: accounts_ok_def distinct_map inj_on_def)
  obtain r1 st1 where g: "uso_GetByEmail us (normalizeEmail m) st = (r1, st1)" by fastforce
  have "find (\<lambda>v. u_Email v = normalizeEmail m) (users st) = Some u"
    using find_key [of u_Email "users st" u] assms(2) u(1,2) by (simp add: accounts_ok_def)
  then have r1: "r1 = Inr u" "up st1" using email_law [OF g] assms(1) by (auto simp: answers_def one_row_of_def)
  obtain r2 st2 where k: "cro_GetByUserID cs (u_ID u) st1 = (r2, st2)" by fastforce
  have r2: "r2 = Inr c" "up st2" "users st2 = users st" "creds st2 = creds st"
    using cred_get_law [OF k] email_law [OF g] r1(2) c by (auto simp: answers_def one_row_of_def)
  show ?thesis
  proof (cases "bc_Compare (aa_bcrypt h) (cr_PasswordHash c) pw")
    case False
    then show ?thesis using g r1 k r2 u(3) by (simp add: handle_Login_def provider_Login_def)
  next
    case True
    obtain r3 st3 where v: "uso_GetByID us (u_ID u) st2 = (r3, st3)" by fastforce
    have "find (\<lambda>v. u_ID v = u_ID u) (users st2) = Some u"
      using find_key [of u_ID "users st" u] assms(2) u(1) r2(3) by (simp add: accounts_ok_def)
    then have r3: "r3 = Inr u" "up st3" "users st3 = users st" "creds st3 = creds st"
      using id_law [OF v] r2 by (auto simp: answers_def one_row_of_def)
    have k: "u_AuthProviderID u = uuid_String (u_ID u)" using assms(3) u(1,3) by (simp add: own_ids_def)
    have "\<forall>v \<in> set (users st3). u_AuthProvider v = ProviderName \<and> u_AuthProviderID v = uuid_String (u_ID u) \<longrightarrow> v = u"
      using assms(3,4) uniq r3(3) by (auto simp: own_ids_def inj_on_def)
    moreover have "uuid_String (u_ID u) \<noteq> []" by (simp add: uuid_String_def Let_def)
    ultimately obtain st4 where "mint_session (provider_on cs us jwt) h dr 200 (uuid_String (u_ID u)) (u_Email u) st3 = (AuthReply 200 token u, st4)"
      using mint_finds [of st3 u "uuid_String (u_ID u)" "u_Email u" h dr token jwt 200] r3 u k mint by auto
    then show ?thesis using g r1 \<open>cro_GetByUserID cs (u_ID u) st1 = (r2, st2)\<close> r2 u(3) True v r3 jwt k
      by (simp add: handle_Login_def provider_Login_def token_session_def provider_ValidateToken_def signToken_def)
  qed
qed

end

section \<open>PostgreSQL\<close>

lemma answers_exec: "exec (\<lambda>st. (x (udb_users st) (udb_credentials st), st)) st = (r, st') \<Longrightarrow>
  udb_users st' = udb_users st \<and> udb_credentials st' = udb_credentials st \<and>
  answers (pg_faults st = []) (pg_faults st' = []) r (x (udb_users st) (udb_credentials st))"
  by (auto simp: exec_def answers_def split: list.splits option.splits)

lemmas pg_account_defs = pg_user_repo_def pg_credential_repo_def user_ops.simps credential_ops.simps

lemma find_ID_None: "\<not> list_ex (\<lambda>r. u_ID r = i \<or> u_Email r = m) us \<longleftrightarrow> i \<notin> u_ID ` set us \<and> m \<notin> u_Email ` set us"
  by (auto simp: list_ex_iff)

interpretation acc: account_store pg_user_repo pg_credential_repo udb_users udb_credentials "\<lambda>st. pg_faults st = []"
proof (unfold_locales, unfold pg_account_defs, goal_cases)
  case (1 i st ru st')
  then show ?case using answers_exec [where x = "\<lambda>us cs. one_row_of (find (\<lambda>u. u_ID u = i) us)"] by (simp add: pg_User_GetByID_def)
next
  case (2 m st ru st')
  then show ?case using answers_exec [where x = "\<lambda>us cs. one_row_of (find (\<lambda>u. u_Email u = m) us)"] by (simp add: pg_User_GetByEmail_def)
next
  case (3 n k st ru st')
  then show ?case using answers_exec [where x = "\<lambda>us cs. one_row_of (find (\<lambda>u. u_AuthProvider u = n \<and> u_AuthProviderID u = k) us)"]
    by (simp add: pg_User_GetByAuthProvider_def)
next
  case (4 u st e st')
  show ?case
  proof (cases "user_row_check u")
    case None
    then show ?thesis using 4 by (auto simp: pg_User_Create_def exec_def as_error_def list_ex_iff split: list.splits option.splits if_splits)
  next
    case (Some x)
    then show ?thesis using 4 by (auto simp: pg_User_Create_def exec_def as_error_def split: list.splits option.splits; metis)
  qed
next
  case (5 u st e st')
  then show ?case
    by (auto simp: pg_User_Update_def exec_def as_error_def list_ex_iff split: list.splits option.splits if_splits)
next
  case (6 i st rc st')
  then show ?case using answers_exec [where x = "\<lambda>us cs. one_row_of (find (\<lambda>c. cr_UserID c = i) cs)"] by (simp add: pg_Credentials_GetByUserID_def)
next
  case (7 t i h st e st')
  then show ?case
    by (auto simp: pg_Credentials_Create_def exec_def as_error_def list_ex_iff split: list.splits option.splits if_splits)
qed

abbreviation pg_provider :: "jwt_service \<Rightarrow> user_db Provider" where
  "pg_provider \<equiv> provider_on pg_credential_repo pg_user_repo"

abbreviation accounts_wf :: "user_db \<Rightarrow> bool" where
  "accounts_wf st \<equiv> accounts_ok (udb_users st) (udb_credentials st)"

section \<open>Text of UUIDs\<close>

lemma nibbles_inj:
  fixes u v :: uuid
  assumes "\<forall>i < 32. unat (drop_bit (4 * (31 - i)) u) mod 16 = unat (drop_bit (4 * (31 - i)) v) mod 16"
  shows "u = v"
proof (rule bit_word_eqI)
  fix n
  assume "n < LENGTH(128)"
  then have n: "n < 128" by simp
  have half: "unat (drop_bit (4 * j) u) mod 16 = unat (drop_bit (4 * j) v) mod 16" if "j < 32" for j
    using assms [rule_format, of "31 - j"] that by simp
  have "bit (w :: uuid) n = odd (unat (drop_bit (4 * (n div 4)) w) mod 16 div 2 ^ (n mod 4))" for w
  proof -
    have "bit w n = bit (drop_bit (4 * (n div 4)) w) (n mod 4)" by (simp add: bit_drop_bit_eq add.commute)
    also have "\<dots> = bit (unat (drop_bit (4 * (n div 4)) w)) (n mod 4)" by (simp add: bit_unsigned_iff)
    also have "\<dots> = bit (take_bit 4 (unat (drop_bit (4 * (n div 4)) w))) (n mod 4)" by (simp add: bit_take_bit_iff)
    finally show ?thesis by (simp add: take_bit_eq_mod bit_iff_odd)
  qed
  then show "bit u n = bit v n" using half [of "n div 4"] n by simp
qed

lemma uuid_String_inj: "inj uuid_String"
proof (rule injI)
  fix u v :: uuid
  let ?ds = "\<lambda>u :: uuid. map (\<lambda>i. hex_digit (unat (drop_bit (4 * (31 - i)) u) mod 16)) [0..<32]"
  assume "uuid_String u = uuid_String v"
  then have "take 8 (?ds u) = take 8 (?ds v) \<and> take 4 (drop 8 (?ds u)) = take 4 (drop 8 (?ds v)) \<and> take 4 (drop 12 (?ds u)) = take 4 (drop 12 (?ds v)) \<and>
      take 4 (drop 16 (?ds u)) = take 4 (drop 16 (?ds v)) \<and> drop 20 (?ds u) = drop 20 (?ds v)"
    by (simp add: uuid_String_def Let_def)
  moreover have "take n (drop m xs) @ drop (m + n) xs = drop m xs" for n m and xs :: string
    by (metis add.commute append_take_drop_id drop_drop)
  from this [of 4 8] this [of 4 12] this [of 4 16]
  have "xs = take 8 xs @ take 4 (drop 8 xs) @ take 4 (drop 12 xs) @ take 4 (drop 16 xs) @ drop 20 xs" for xs :: string
    by simp
  ultimately have "?ds u = ?ds v" by metis
  then have "hex_digit (unat (drop_bit (4 * (31 - i)) u) mod 16) = hex_digit (unat (drop_bit (4 * (31 - i)) v) mod 16)" if "i < 32" for i
    using that by (simp only: map_eq_conv) simp
  then have "unat (drop_bit (4 * (31 - i)) u) mod 16 = unat (drop_bit (4 * (31 - i)) v) mod 16" if "i < 32" for i
    using that by (metis hex_value_digit mod_less_divisor option.inject zero_less_numeral)
  then show "u = v" by (intro nibbles_inj) blast
qed

section \<open>Registration and login\<close>


text \<open>
  C10: A registration whose second insert fails locks its address for good. The account exists without a password, and whatever requests follow, every
  further registration of the address is refused and every login with it fails.
\<close>

theorem registration_orphaned:
  assumes "accounts_wf st" "provider_CreateUser (pg_provider jwt) bc dr m pw st = (Inl (AuthCredentialsFailed e), st0)"
    and "(account_step (pg_provider jwt))\<^sup>*\<^sup>* st0 st'" "normalizeEmail m' = normalizeEmail m"
  shows "fst (handle_Register (pg_provider jwt) h dr' m' pw' st') = AuthFailed 400 \<and> fst (handle_Login (pg_provider jwt) h dr' m' pw' st') = AuthFailed 401"
proof -
  let ?i = "ad_id dr"
  have new: "?i \<notin> u_ID ` set (udb_users st)" "normalizeEmail m \<notin> u_Email ` set (udb_users st)"
      "udb_users st0 = udb_users st @ [persist_user (local_user dr (normalizeEmail m))]" "udb_credentials st0 = udb_credentials st"
    using acc.register_failed [OF assms(2)] by auto
  then have "orphan ?i (normalizeEmail m) (udb_users st0) (udb_credentials st0)"
    using assms(1) by (auto simp: orphan_def accounts_ok_def local_user_def)
  with assms(3) have "orphan ?i (normalizeEmail m) (udb_users st') (udb_credentials st')"
    by (induction rule: rtranclp_induct) (auto intro: acc.account_step_keeps_orphan)
  then show ?thesis using acc.orphan_locked_out [of ?i m' st'] assms(4) by simp
qed

text \<open>
  C11: Nobody is an administrator. No token that registration, login or a confirmation hands out passes \<open>RequireAdmin\<close>, whatever the type of the account: the
  handlers mint every token with an empty account type, and the middleware asks the token.
\<close>

theorem admin_api_unreachable:
  assumes "\<And>t t' i e a tok c. jwt_Generate (aa_jwt h) t i e a = Some tok \<Longrightarrow> jwt_Validate (aa_jwt h) t' tok = Some c \<Longrightarrow> cl_AccountType c = a"
    and "reply \<in> {handle_Register p h dr email password st, handle_Login p h dr email password st, handle_ConfirmEmail p h dr email password st,
      handle_ConfirmEmailWithToken p h dr password st}"
    and "fst reply = AuthReply n token u"
  shows "\<nexists>c. RequireAdmin (aa_jwt h) now (''Bearer '' @ token) = Pass c"
proof -
  have mint: "\<exists>i e. generateJWT h (sd_mint dr) i e = Some tok" if "fst (mint_session p h dr k pid m st0) = AuthReply n tok u" for k pid m st0 tok
    using that by (auto simp: mint_session_def split: prod.splits sum.splits option.splits)
  have session: "\<exists>i e. generateJWT h (sd_mint dr) i e = Some tok" if "fst (token_session p h dr k t st0) = AuthReply n tok u" for k t st0 tok
    using that mint by (auto simp: token_session_def split: prod.splits sum.splits)
  have "\<exists>i e. generateJWT h (sd_mint dr) i e = Some token"
    using assms(2,3) mint session
    by (auto simp: handle_Register_def handle_Login_def handle_ConfirmEmail_def handle_ConfirmEmailWithToken_def split: prod.splits sum.splits if_splits)
  then obtain i e where "jwt_Generate (aa_jwt h) (sd_mint dr) i e [] = Some token" by (auto simp: generateJWT_def)
  then have "uc_AccountType c = []" if "parseJWT (aa_jwt h) now token = Some c" for c
    using that assms(1) by (auto simp: parseJWT_def Let_def split: option.splits if_splits)
  then show ?thesis by (auto simp: RequireAdmin_def bearer_token_def HasPrefix_def TrimPrefix_def split: sum.splits option.splits if_splits)
qed

section \<open>Samples\<close>

text \<open>A token service that writes the claims into the token, and a hash that is the password itself.\<close>

definition plain_claims :: "string \<Rightarrow> Claims" where
  "plain_claims t = (let n = length (takeWhile (\<lambda>c. c = CHR ''1'') t); s = drop (n + 1) t
     in \<lparr>cl_UserID = take n s, cl_Subject = take n s, cl_Email = [], cl_AccountType = drop n s\<rparr>)"

definition plain_jwt :: jwt_service where
  "plain_jwt = \<lparr>jwt_Generate = (\<lambda>now i e a. Some (replicate (length i) CHR ''1'' @ ''0'' @ i @ a)), jwt_Validate = (\<lambda>now t. Some (plain_claims t))\<rparr>"

lemma takeWhile_ones: "takeWhile (\<lambda>c. c = CHR ''1'') (replicate n (CHR ''1'') @ CHR ''0'' # s) = replicate n (CHR ''1'')"
  by (induction n) simp_all

lemma plain_jwt_reads:
  "jwt_Generate plain_jwt t i e a = Some tok \<Longrightarrow> jwt_Validate plain_jwt t' tok =
     Some \<lparr>cl_UserID = i, cl_Subject = i, cl_Email = [], cl_AccountType = a\<rparr>"
  using takeWhile_ones [of "length i" "i @ a"] by (auto simp: plain_jwt_def plain_claims_def Let_def)

definition plain_bcrypt :: bcrypt where
  "plain_bcrypt = \<lparr>bc_Generate = (\<lambda>salt pw. if 72 < length pw then None else Some pw), bc_Compare = (\<lambda>hash pw. hash = pw)\<rparr>"

definition empty_accounts :: user_db where
  "empty_accounts = \<lparr>pg_faults = [], mdb_users = [], mdb_domains = [], mdb_addresses = [], mdb_received = [], mdb_stats = [],
     mdb_validations = [], wdb_configs = [], wdb_audit = [], wdb_checks = [], wdb_templates = [], udb_users = [], udb_credentials = []\<rparr>"

definition plain_api :: auth_api where
  "plain_api = \<lparr>aa_bcrypt = plain_bcrypt, aa_parse = (\<lambda>s. if s = uuid_String 7 then Some 7 else None), aa_jwt = plain_jwt\<rparr>"

definition sample_session :: session_draw where
  "sample_session = \<lparr>sd_auth = \<lparr>ad_salt = ''salt'', ad_id = 7, ad_now = 1500, ad_dbnow = 2000\<rparr>,
     sd_user = \<lparr>ud_id = 8, ud_created = 3000, ud_updated = 3000\<rparr>, sd_login = 4000, sd_check = 5000, sd_mint = 6000\<rparr>"

definition sample_registration :: "auth_reply \<times> user_db" where
  "sample_registration = handle_Register (pg_provider plain_jwt) plain_api sample_session '' Ann@Example.org '' ''correct horse'' empty_accounts"

definition sample_user :: User where
  "sample_user = persist_user \<lparr>u_ID = 7, u_Email = ''ann@example.org'', u_AuthProvider = ''local'', u_AuthProviderID = uuid_String 7,
     u_AccountType = AccountTypeUser, u_UserPlan = UserPlanFree, u_CreatedAt = 1500, u_UpdatedAt = 1500\<rparr>"

definition sample_accounts :: user_db where
  "sample_accounts = empty_accounts\<lparr>mdb_users := [7], udb_users := [sample_user],
     udb_credentials := [\<lparr>cr_UserID = 7, cr_PasswordHash = ''correct horse'', cr_EmailConfirmed = True, cr_CreatedAt = trunc_us 2000,
        cr_UpdatedAt = trunc_us 2000\<rparr>]\<rparr>"

lemma uuid_String_length: "length (uuid_String i) = 36"
  by (simp add: uuid_String_def Let_def)

lemma sample_emails: "normalizeEmail '' Ann@Example.org '' = ''ann@example.org''" "normalizeEmail ''ann@example.org'' = ''ann@example.org''"
  by code_simp+

lemmas sample_account_defs = provider_CreateUser_def provider_on_def pg_account_defs pg_User_GetByEmail_def pg_User_Create_def
  pg_Credentials_Create_def exec_def as_error_def one_row_of_def empty_accounts_def user_row_check_def local_user_def sample_session_def
  plain_api_def plain_bcrypt_def ProviderName_def

lemma sample_registered:
  "\<exists>t. handle_Register (pg_provider plain_jwt) plain_api sample_session '' Ann@Example.org '' ''correct horse'' empty_accounts =
    (AuthReply 201 t sample_user, sample_accounts)"
proof -
  have "uuid_String 7 \<noteq> []" using uuid_String_length [of 7] by (metis list.size(3) zero_neq_numeral)
  moreover have "length (uuid_String 7) \<le> 255" by (simp add: uuid_String_length)
  ultimately show ?thesis
    using sample_emails by (simp add: handle_Register_def mint_session_def GetOrCreateUserByAuthProvider_def generateJWT_def signToken_def
      pg_User_GetByAuthProvider_def plain_jwt_def sample_user_def sample_accounts_def sample_account_defs)
qed


text \<open>The third statement of the registration, the insert of the password, fails.\<close>

definition failing_accounts :: user_db where
  "failing_accounts = empty_accounts\<lparr>pg_faults := [None, None, Some ''connection reset'']\<rparr>"

theorem registration_orphaned_witness:
  "\<exists>st0. snd (provider_CreateUser (pg_provider plain_jwt) plain_bcrypt (sd_auth sample_session) ''ann@example.org'' ''correct horse'' failing_accounts) = st0 \<and>
     fst (handle_Register (pg_provider plain_jwt) plain_api sample_session ''ann@example.org'' ''correct horse'' st0) = AuthFailed 400 \<and>
     fst (handle_Login (pg_provider plain_jwt) plain_api sample_session ''ann@example.org'' ''correct horse'' st0) = AuthFailed 401"
proof -
  have ok: "accounts_wf failing_accounts" by (simp add: failing_accounts_def empty_accounts_def accounts_ok_def)
  have "length (uuid_String 7) \<le> 255" by (simp add: uuid_String_length)
  then obtain e st0 where c: "provider_CreateUser (pg_provider plain_jwt) plain_bcrypt (sd_auth sample_session) ''ann@example.org'' ''correct horse'' failing_accounts =
      (Inl (AuthCredentialsFailed e), st0)"
    using sample_emails by (simp add: failing_accounts_def sample_account_defs)
  show ?thesis using registration_orphaned [OF ok c rtranclp.rtrancl_refl refl] c by simp
qed

theorem admin_api_unreachable_witness:
  "\<exists>t. fst (handle_Register (pg_provider plain_jwt) plain_api sample_session '' Ann@Example.org '' ''correct horse'' empty_accounts) = AuthReply 201 t sample_user \<and>
     (\<nexists>c. RequireAdmin plain_jwt 0 (''Bearer '' @ t) = Pass c)"
proof -
  obtain t where r: "fst (handle_Register (pg_provider plain_jwt) plain_api sample_session '' Ann@Example.org '' ''correct horse'' empty_accounts) =
      AuthReply 201 t sample_user" using sample_registered by fastforce
  have "aa_jwt plain_api = plain_jwt" by (simp add: plain_api_def)
  then have "cl_AccountType c = a" if "jwt_Generate (aa_jwt plain_api) t i e a = Some tok" "jwt_Validate (aa_jwt plain_api) t' tok = Some c" for t t' i e a tok c
    using plain_jwt_reads that by fastforce
  then have "\<nexists>c. RequireAdmin (aa_jwt plain_api) 0 (''Bearer '' @ t) = Pass c" by (rule admin_api_unreachable [OF _ _ r]) auto
  then show ?thesis using r \<open>aa_jwt plain_api = plain_jwt\<close> by auto
qed

end
