(* ===== verification/ApiAccess.thy ===== *)
theory ApiAccess
  imports ApiServer Accounts
begin

text \<open>
  Who may do what over HTTP: the routes that need a token, what the calls on domains can reach, and what the calls on mailboxes and webhooks do with the user.
\<close>

section \<open>The caller\<close>

text \<open>The claims the middleware puts into the context, if it lets the request through.\<close>

definition caller :: "('st, 'p) services \<Rightarrow> instant \<Rightarrow> api_request \<Rightarrow> UserClaims option" where
  "caller sv now r = (case bearer_token (Header_Get ''Authorization'' (rq_Header r)) of Inl _ \<Rightarrow> None | Inr t \<Rightarrow> parseJWT (srv_jwt sv) now t)"

fun guarded :: "api_call \<Rightarrow> bool" where
  "guarded (RegisterCall _ _ _) = False"
| "guarded (LoginCall _ _ _) = False"
| "guarded (ConfirmEmailCall _ _ _) = False"
| "guarded (ConfirmEmailWithTokenCall _ _) = False"
| "guarded (SendCall _ _ _) = False"
| "guarded _ = True"

lemma behind_auth: "behind (RequireAuth (srv_jwt sv)) now h r st =
    (case caller sv now r of None \<Rightarrow> (Failed 401, st) | Some c \<Rightarrow> h (with_claims c r) st)"
  by (simp add: behind_RequireAuth caller_def split: sum.split)

lemma behind_admin: "behind (RequireAdmin (srv_jwt sv)) now h r st =
    (case caller sv now r of None \<Rightarrow> (Failed 401, st)
     | Some c \<Rightarrow> if uc_AccountType c \<noteq> ''admin'' \<and> uc_AccountType c \<noteq> ''super_admin'' then (Failed 403, st) else h (with_claims c r) st)"
  by (simp add: behind_def RequireAdmin_def caller_def split: sum.split option.split)

lemma on_repo_const: "f (mu_repo s) = (x, mu_repo s) \<Longrightarrow> on_repo f s = (x, s)"
  by (simp add: on_repo_def)

lemma on_repoD: "on_repo f s = (x, s') \<Longrightarrow> f (mu_repo s) = (x, mu_repo s') \<and> mu_tasks s' = mu_tasks s"
  by (auto simp: on_repo_def split: prod.splits)

lemma as_answer_Failed [simp]: "as_answer f (Failed n, st) = (Failed n, st)"
  by (simp add: as_answer_def)

text \<open>
  Every route but the registration, login and confirmation handlers and the sending of mail is guarded: without a token the
  middleware accepts the answer is 401 (404 where the route does not exist) and nothing changes, and the administration answers 403 to every token
  whose account type is not that of an administrator.
\<close>

theorem guarded_routes:
  assumes "serve sv now c r s = (reply, s')"
  shows "(guarded c \<and> caller sv now r = None \<longrightarrow> reply \<in> {Failed 401, Failed 404} \<and> s' = s) \<and>
    (\<forall>a cl. c = AdminCall a \<and> caller sv now r = Some cl \<and> uc_AccountType cl \<notin> {''admin'', ''super_admin''} \<longrightarrow> reply = Failed 403 \<and> s' = s)"
  using assms by (cases c) (auto simp: behind_auth behind_admin split: option.splits)

lemma with_user_claims: "\<exists>n \<in> {400, 401}. with_user lib k (with_claims cl r) f st = (Failed n, st)"
  by (auto simp: with_user_def split: option.split)

lemma webhook_call_refused: "\<exists>n \<in> {400, 401}. serve_webhook sv ops c (with_claims cl r) st = (Failed n, st)"
  by (cases c) (auto simp: handle_CreateWebhookConfig_def handle_ListWebhookConfigs_def handle_CreateFromTemplate_def handle_GetWebhookConfig_def
      handle_UpdateWebhookConfig_def handle_DeleteWebhookConfig_def handle_EnableWebhookConfig_def handle_DisableWebhookConfig_def
      handle_TestWebhookConfig_def handle_GetWebhookHealth_def handle_GetWebhookMetrics_def handle_GetWebhookAuditLog_def with_user_def
      split: option.split)

text \<open>
  C12: Nobody reaches the webhook configurations over HTTP. Whatever token a request carries, each of the twelve routes answers 400, 401 or 404 and
  changes nothing: the middleware stores the user's id in the context as text, the handlers take it from there as a UUID.
\<close>

theorem webhook_api_unreachable:
  "\<exists>n \<in> {400, 401, 404}. serve sv now (WebhookCall c) r s = (Failed n, s)"
proof -
  have "\<exists>n \<in> {400, 401}. on_repo (serve_webhook sv ops c (with_claims cl r)) s = (Failed n, s)" for ops cl
    using webhook_call_refused [of sv ops c cl r "mu_repo s"] by (auto simp: on_repo_const)
  then show ?thesis by (fastforce simp: behind_auth split: option.split)
qed

section \<open>Domains\<close>

text \<open>What belongs to other users than \<open>u\<close> is as before: the domains, their mailboxes, and all received mail.\<close>

definition others_kept :: "uuid \<Rightarrow> mail_view \<Rightarrow> mail_view \<Rightarrow> bool" where
  "others_kept u v v' \<longleftrightarrow> v_received v' = v_received v \<and>
     (\<forall>i d. v_domains v i = Some d \<and> d_UserID d \<noteq> u \<longrightarrow> v_domains v' i = Some d) \<and>
     (\<forall>a x d. v_addresses v a = Some x \<and> v_domains v (ea_DomainID x) = Some d \<and> d_UserID d \<noteq> u \<longrightarrow> v_addresses v' a = Some x)"

text \<open>An answer tells about domains of \<open>u\<close> only.\<close>

definition shows_own :: "uuid \<Rightarrow> mail_view \<Rightarrow> string \<Rightarrow> string \<Rightarrow> bool" where
  "shows_own u v name key \<longleftrightarrow> (\<exists>i d. v_domains v i = Some d \<and> d_UserID d = u \<and> d_Domain d = name \<and> d_APIKey d = key)"

lemma shows_ownI: "v_domains v i = Some d \<Longrightarrow> d_UserID d = u \<Longrightarrow> d_Domain d = name \<Longrightarrow> d_APIKey d = key \<Longrightarrow> shows_own u v name key"
  by (auto simp: shows_own_def)

lemma shows_own_ex: "v_domains v i = Some d \<Longrightarrow> d_UserID d = u \<Longrightarrow> \<exists>key. shows_own u v (d_Domain d) key"
  by (auto simp: shows_own_def)

fun answer_about :: "uuid \<Rightarrow> mail_view \<Rightarrow> 'p api_answer \<Rightarrow> bool" where
  "answer_about u v (AnsDomain x) = shows_own u v (dm_Domain x) (dm_APIKey x)"
| "answer_about u v (AnsDomains xs) = list_all (\<lambda>x. shows_own u v (dm_Domain x) (dm_APIKey x)) xs"
| "answer_about u v (AnsValidation x) = (\<exists>key. shows_own u v (dv_DomainName x) key)"
| "answer_about u v _ = True"

lemma others_kept_refl [simp]: "others_kept u v v"
  by (simp add: others_kept_def)

lemma others_kept_put: "(\<forall>e. v_domains v (d_ID d) = Some e \<longrightarrow> d_UserID e = u) \<Longrightarrow> others_kept u v (put_domain d v)"
  by (auto simp: others_kept_def put_domain_def)

lemma others_kept_drop: "v_domains v i = Some d \<Longrightarrow> d_UserID d = u \<Longrightarrow> others_kept u v (drop_domain i v)"
  by (auto simp: others_kept_def drop_domain_def)

lemma mapDomain_fields [simp]: "dm_Domain (mapDomainToResult d) = d_Domain d" "dm_APIKey (mapDomainToResult d) = d_APIKey d"
  by (simp_all add: mapDomainToResult_def)

lemma validation_response_name [simp]: "dv_DomainName (validation_response st m t i d) = d_Domain d"
  by (simp add: validation_response_def)

context mail_store
begin

lemma GetDomainByID_contract:
  "inv st \<Longrightarrow> GetDomainByID dops i st = (g, st') \<Longrightarrow>
    inv st' \<and> view st' = view st \<and> (\<forall>d. g = Inr d \<longrightarrow> v_domains (view st) i = Some d)"
  using or_fail_read [OF domain_by_id] by (fastforce simp: GetDomainByID_def split: if_splits)

lemma CreateDomain_fresh:
  assumes "inv st" "CreateDomain dops limiter dr req st = (Inr d, st')"
  shows "v_domains (view st) (d_ID d) = None \<and> d_UserID d = cd_UserID req"
  using assms(2)
proof (cases rule: CreateDomain_cases)
  case (tried k t c key)
  let ?st1 = "snd (dom_GetByDomain dops (ToLower (cd_Domain req)) st)"
  have st1: "inv ?st1" "view ?st1 = view st" using read_lawD [OF domain_by_name assms(1) surjective_pairing] by auto
  have "c = None" "d = new_domain dr k t req" using tried(5) by (auto split: option.splits)
  then show ?thesis using write_lawD [OF domain_create st1(1) tried(4)] st1(2) by (simp add: new_domain_def)
qed simp

lemma own_domain_contract:
  assumes "inv st" "GetUserIDFromContext lib r = Some u" "with_own_domain lib dops r k st = (reply, st')"
  shows "inv st' \<and> view st' = view st \<and> (\<forall>n x. reply = Replied n x \<longrightarrow>
    (\<exists>i d. v_domains (view st) i = Some d \<and> d_UserID d = u \<and> k i d = Replied n x))"
proof (cases "al_FromString lib (URLParam ''id'' r)")
  case None
  then show ?thesis using assms by (auto simp: with_own_domain_def)
next
  case (Some i)
  obtain g st1 where g: "GetDomainByID dops i st = (g, st1)" by fastforce
  show ?thesis using GetDomainByID_contract [OF assms(1) g] assms(2,3) Some g
    by (fastforce simp: with_own_domain_def split: sum.splits if_splits)
qed

lemma domain_call_contract:
  assumes "inv st" "GetUserIDFromContext (srv_lib sv) r = Some u" "srv_domains sv = dops" "serve_domain sv c r st = (reply, st')"
  shows "inv st' \<and> others_kept u (view st) (view st') \<and> (\<forall>n x. reply = Replied n x \<longrightarrow> answer_about u (view st') x)"
proof (cases c)
  case (CreateDomainCall dr body)
  show ?thesis
  proof (cases body)
    case None
    then show ?thesis using assms CreateDomainCall by (auto simp: handle_CreateDomain_def)
  next
    case (Some req)
    define input where "input = \<lparr>cd_UserID = u, cd_Domain = cdr_Domain req, cd_PublicKey = cdr_PublicKey req, cd_StorageEnabled = cdr_StorageEnabled req,
      cd_AutoCreateAddress = cdr_AutoCreateAddress req, cd_WebhookConfig = cdr_WebhookConfig req\<rparr>"
    obtain g st1 where g: "CreateDomain dops (srv_limiter sv) dr input st = (g, st1)" by fastforce
    have out: "st' = st1" "reply = (case g of Inl _ \<Rightarrow> Failed 400 | Inr d \<Rightarrow> Replied 201 (AnsDomain (mapDomainToResult d)))"
      using assms CreateDomainCall Some g by (auto simp: handle_CreateDomain_def input_def [symmetric] respond_def as_answer_def split: sum.splits)
    show ?thesis
    proof (cases g)
      case (Inl e)
      then show ?thesis using CreateDomain_contract [OF assms(1) g] out by simp
    next
      case (Inr d)
      have f: "v_domains (view st) (d_ID d) = None" "d_UserID d = u" using CreateDomain_fresh [OF assms(1) g [unfolded Inr]] by (simp_all add: input_def)
      have v: "inv st1" "view st1 = put_domain (persist_domain d) (view st)" using CreateDomain_contract [OF assms(1) g] Inr by simp_all
      have "shows_own u (view st1) (d_Domain d) (d_APIKey d)"
        unfolding shows_own_def v(2) put_domain_def using f(2) by (intro exI [of _ "d_ID d"] exI [of _ "persist_domain d"]) simp
      then show ?thesis using out Inr v f others_kept_put [of "view st" "persist_domain d" u] by simp
    qed
  qed
next
  case GetDomainsCall
  obtain g st1 where g: "GetDomainsByUserID dops u st = (g, st1)" by fastforce
  have c: "inv st1 \<and> view st1 = view st \<and> (\<forall>ds. g = Inr ds \<longrightarrow> (\<forall>d \<in> set ds. v_domains (view st) (d_ID d) = Some d \<and> d_UserID d = u))"
  proof (cases "u = uuid_nil")
    case False
    then have "or_fail GetDomainFailed (dom_GetByUserID dops u st) = (g, st1)" using g by (simp add: GetDomainsByUserID_def)
    from or_fail_read [OF domain_by_user assms(1) this] show ?thesis by auto
  qed (use g assms(1) in \<open>auto simp: GetDomainsByUserID_def\<close>)
  have "st' = st1" "reply = (case g of Inl _ \<Rightarrow> Failed 500 | Inr ds \<Rightarrow> Replied 200 (AnsDomains (map mapDomainToResult ds)))"
    using assms GetDomainsCall g by (auto simp: handle_GetDomains_def respond_def as_answer_def split: sum.splits)
  then show ?thesis using c by (cases g) (auto simp: list_all_iff intro: shows_ownI)
next
  case GetDomainCall
  show ?thesis
  proof (cases "al_FromString (srv_lib sv) (URLParam ''id'' r)")
    case None
    then show ?thesis using assms GetDomainCall by (auto simp: handle_GetDomain_def)
  next
    case (Some i)
    obtain g st1 where g: "GetDomainByID dops i st = (g, st1)" by fastforce
    show ?thesis using GetDomainByID_contract [OF assms(1) g] assms GetDomainCall Some g
      by (cases g) (auto simp: handle_GetDomain_def as_answer_def intro: shows_ownI split: if_splits)
  qed
next
  case (UpdateDomainCall now body)
  show ?thesis
  proof (cases "al_FromString (srv_lib sv) (URLParam ''id'' r) = None \<or> body = None")
    case True
    then show ?thesis using assms UpdateDomainCall by (auto simp: handle_UpdateDomain_def split: option.splits)
  next
    case False
    then obtain i req where i: "al_FromString (srv_lib sv) (URLParam ''id'' r) = Some i" "body = Some req" by auto
    define input where "input = \<lparr>ud_PublicKey = udr_PublicKey req, ud_StorageEnabled = udr_StorageEnabled req, ud_AutoCreateAddress = udr_AutoCreateAddress req\<rparr>"
    obtain g st1 where g: "GetDomainByID dops i st = (g, st1)" by fastforce
    note c1 = GetDomainByID_contract [OF assms(1) g]
    then have ok1: "inv st1" "view st1 = view st" by simp_all
    obtain h st2 where h: "UpdateDomain dops now i input st1 = (h, st2)" by fastforce
    note c2 = UpdateDomain_contract [OF ok1(1) h]
    show ?thesis
    proof (cases "\<exists>d0. g = Inr d0 \<and> d_UserID d0 = u")
      case False
      then show ?thesis using assms UpdateDomainCall i g c1 by (cases g) (auto simp: handle_UpdateDomain_def as_answer_def)
    next
      case True
      then obtain d0 where d0: "g = Inr d0" "d_UserID d0 = u" "v_domains (view st) i = Some d0" using c1 by blast
      have out: "st' = st2" "reply = (case h of Inl _ \<Rightarrow> Failed 400 | Inr d \<Rightarrow> Replied 200 (AnsDomain (mapDomainToResult d)))"
        using assms UpdateDomainCall i g d0 h
        by (auto simp: handle_UpdateDomain_def input_def [symmetric] respond_def as_answer_def split: sum.splits)
      show ?thesis
      proof (cases h)
        case (Inl e)
        then show ?thesis using c2 out ok1 by simp
      next
        case (Inr d)
        have d: "d_ID d = i" "d_UserID d = u" "inv st2" "view st2 = put_domain ((persist_domain d)\<lparr>d_CreatedAt := d_CreatedAt d0\<rparr>) (view st)"
          using c2 Inr ok1(2) d0 by auto
        have "others_kept u (view st) (view st2)" unfolding d(4) using d0 d(1) by (intro others_kept_put) simp
        moreover have "shows_own u (view st2) (d_Domain d) (d_APIKey d)"
          unfolding shows_own_def d(4) put_domain_def using d(1,2)
          by (intro exI [of _ i] exI [of _ "(persist_domain d)\<lparr>d_CreatedAt := d_CreatedAt d0\<rparr>"]) simp
        ultimately show ?thesis using out Inr d(3) by simp
      qed
    qed
  qed
next
  case DeleteDomainCall
  show ?thesis
  proof (cases "al_FromString (srv_lib sv) (URLParam ''id'' r)")
    case None
    then show ?thesis using assms DeleteDomainCall by (auto simp: handle_DeleteDomain_def)
  next
    case (Some i)
    obtain g st1 where g: "DeleteDomain dops i u st = (g, st1)" by fastforce
    have out: "st' = st1" "\<forall>n x. reply = Replied n x \<longrightarrow> x = AnsNothing"
      using assms DeleteDomainCall Some g by (auto simp: handle_DeleteDomain_def respond_unit_def as_answer_def split: option.splits)
    have "others_kept u (view st) (view st1) \<and> inv st1"
      using DeleteDomain_contract [OF assms(1) g] others_kept_drop by (auto split: if_splits)
    then show ?thesis using out by auto
  qed
next
  case ValidateDomainCall
  obtain g st1 where g: "handle_ValidateDomain (srv_lib sv) dops r st = (g, st1)" by fastforce
  then show ?thesis
    using own_domain_contract [OF assms(1,2) g [unfolded handle_ValidateDomain_def]] assms(3,4) ValidateDomainCall
    by (cases g) (auto simp: as_answer_def intro: shows_own_ex)
next
  case (RetryValidationCall now)
  obtain g st1 where g: "handle_RetryValidation (srv_lib sv) dops now r st = (g, st1)" by fastforce
  then show ?thesis
    using own_domain_contract [OF assms(1,2) g [unfolded handle_RetryValidation_def]] assms(3,4) RetryValidationCall
    by (cases g) (auto simp: as_answer_def intro: shows_own_ex split: if_splits)
qed

end

text \<open>
  C7: Over HTTP a user reaches his own domains only. Whatever call on domains a user makes, the domains of every other user, their mailboxes and all received
  mail stay as they were, and what the answer shows are domains of the caller.
\<close>

theorem domain_api_private:
  assumes "mdb_ok (mu_repo s)" "srv_domains sv = pg_domains_repo"
    and "caller sv now r = Some cl" "al_FromString (srv_lib sv) (uc_UserID cl) = Some u"
    and "serve sv now (DomainCall c) r s = (reply, s')"
  shows "mdb_ok (mu_repo s') \<and> others_kept u (pg_view (mu_repo s)) (pg_view (mu_repo s')) \<and>
    (\<forall>n x. reply = Replied n x \<longrightarrow> answer_about u (pg_view (mu_repo s')) x)"
proof -
  have "GetUserIDFromContext (srv_lib sv) (with_claims cl r) = Some u" using assms(4) by (simp add: GetUserIDFromContext_def)
  moreover have "serve_domain sv c (with_claims cl r) (mu_repo s) = (reply, mu_repo s')" using assms(3,5) by (auto simp: behind_auth dest: on_repoD)
  ultimately show ?thesis using pgm.domain_call_contract [OF assms(1) _ assms(2)] by blast
qed

section \<open>Mailboxes\<close>

fun mailbox_call :: "mail_api_call \<Rightarrow> bool" where
  "mailbox_call ListMail = False"
| "mailbox_call GetMail = False"
| "mailbox_call GetParsedMail = False"
| "mailbox_call DeleteMail = False"
| "mailbox_call _ = True"

text \<open>
  C8: The routes of mailboxes do not ask who calls. Two requests that agree on the path and the query but carry tokens of different users get the
  same answer and have the same effect, in every database: any user may list, change and delete the mailboxes of any domain and read the mail stored in them.
\<close>

theorem mailbox_api_ignores_caller:
  assumes "mailbox_call c" "caller sv now r \<noteq> None" "caller sv now' r' \<noteq> None" "rq_Query r' = rq_Query r" "rq_URLParams r' = rq_URLParams r"
  shows "serve sv now' (MailCall c) r' s = serve sv now (MailCall c) r s"
proof -
  have p: "URLParam k (with_claims x r') = URLParam k r" "URLParam k (with_claims x r) = URLParam k r" for k x
    using assms(5) by (simp_all add: URLParam_def)
  have q: "GetPaginationParams (with_claims x r') = GetPaginationParams r" "GetPaginationParams (with_claims x r) = GetPaginationParams r" for x
    using assms(4) by (simp_all add: GetPaginationParams_def Query_Get_def)
  have "serve_mail sv c (with_claims x r') s = serve_mail sv c (with_claims y r) s" for x y
    using assms(1) by (cases c) (simp_all add: p q handle_CreateEmailAddress_def handle_GetEmailAddresses_def handle_GetEmailAddress_def
        handle_UpdateEmailAddress_def handle_DeleteEmailAddress_def handle_GetReceivedEmails_def cong: option.case_cong)
  then show ?thesis using assms(2,3) by (auto simp: behind_auth)
qed

section \<open>Sending\<close>

text \<open>
  Mail accepted for sending is not sent. The route answers 202 only for a key of a stored domain and a sender address in it, and whatever it answers the
  stored data and the pending work are what they were: no message is created or queued.
\<close>

theorem accepted_mail_not_sent:
  assumes "mdb_ok (mu_repo s)" "srv_domains sv = pg_domains_repo" "serve sv now (SendCall t random body) r s = (reply, s')"
  shows "pg_view (mu_repo s') = pg_view (mu_repo s) \<and> mu_tasks s' = mu_tasks s \<and>
    (\<forall>n x. reply = Replied n x \<longrightarrow> n = 202 \<and> (\<exists>req d. body = Some req \<and> d \<in> set (mdb_domains (mu_repo s)) \<and> d_APIKey d = presented_key r \<and>
       presented_key r \<noteq> [] \<and> isFromAddressValid (sr_From req) (d_Domain d)))"
proof -
  have serve: "as_answer AnsSent (handle_SendEmail pg_domains_repo t random body r (mu_repo s)) = (reply, mu_repo s')" "mu_tasks s' = mu_tasks s"
    using assms(2,3) by (auto dest: on_repoD)
  show ?thesis
  proof (cases "presented_key r = []")
    case True
    then show ?thesis using serve by (auto simp: handle_SendEmail_def Let_def)
  next
    case False
    obtain g st1 where g: "GetDomainByAPIKey pg_domains_repo (presented_key r) (mu_repo s) = (g, st1)" by fastforce
    then have "or_fail GetDomainFailed (dom_GetByAPIKey pg_domains_repo (presented_key r) (mu_repo s)) = (g, st1)"
      using False by (simp add: GetDomainByAPIKey_def)
    from or_fail_read [OF pgm.domain_by_key assms(1) this]
    have c: "pg_view st1 = pg_view (mu_repo s)" "\<forall>d. g = Inr d \<longrightarrow> d \<in> set (mdb_domains (mu_repo s)) \<and> d_APIKey d = presented_key r"
      using assms(1) by (auto simp: view_Some)
    have out: "as_answer AnsSent (case g of Inl _ \<Rightarrow> (Failed 401, st1)
        | Inr d \<Rightarrow> (case body of None \<Rightarrow> (Failed 400, st1)
           | Some req \<Rightarrow> if \<not> isFromAddressValid (sr_From req) (d_Domain d) then (Failed 400, st1)
               else if sr_TextBody req = [] \<and> sr_HTMLBody req = [] then (Failed 400, st1)
               else (Replied 202 \<lparr>sp_MessageID = generateMessageID t random, sp_Status = ''accepted''\<rparr>, st1))) = (reply, mu_repo s')"
      using serve(1) False unfolding handle_SendEmail_def Let_def g by simp
    have "mu_repo s' = st1 \<and> (\<forall>n x. reply = Replied n x \<longrightarrow> n = 202 \<and>
        (\<exists>req d. body = Some req \<and> g = Inr d \<and> isFromAddressValid (sr_From req) (d_Domain d)))"
    proof (cases "\<exists>d req. g = Inr d \<and> body = Some req")
      case True
      then show ?thesis using out by (auto simp: as_answer_def split: if_splits)
    next
      case False
      then show ?thesis using out by (cases g; cases body) auto
    qed
    then show ?thesis using c serve(2) False by metis
  qed
qed

section \<open>Rate limits\<close>

text \<open>A request whose \<open>X-Forwarded-For\<close> header is \<open>ip\<close>.\<close>

definition forwarded_for :: "string \<Rightarrow> api_request \<Rightarrow> api_request" where
  "forwarded_for ip r = r\<lparr>rq_Header := Header_Set ''X-Forwarded-For'' ip (rq_Header r)\<rparr>"

text \<open>
  The limit on sending is the sender's to choose. A request that carries its key in the \<open>Authorization\<close> header is counted under the address its
  \<open>X-Forwarded-For\<close> header names, for any address, and is otherwise answered as before.
\<close>

theorem send_limit_chosen_by_sender:
  assumes "Header_Get ''X-API-Key'' (rq_Header r) = []" "ctx_string ''user_id'' r = None" "ip \<noteq> []" "CHR '','' \<notin> set ip"
  shows "emailSendKeyFunc (forwarded_for ip r) = ''ip_email:'' @ ip \<and>
    serve sv now (SendCall t random body) (forwarded_for ip r) s = serve sv now (SendCall t random body) r s"
proof -
  have k: "CanonicalHeaderKey ''X-API-Key'' \<noteq> CanonicalHeaderKey ''X-Forwarded-For''"
      "CanonicalHeaderKey ''Authorization'' \<noteq> CanonicalHeaderKey ''X-Forwarded-For''" by code_simp+
  have h: "Header_Get ''X-API-Key'' (rq_Header (forwarded_for ip r)) = Header_Get ''X-API-Key'' (rq_Header r)"
      "Header_Get ''Authorization'' (rq_Header (forwarded_for ip r)) = Header_Get ''Authorization'' (rq_Header r)"
    using k by (simp_all add: forwarded_for_def Header_Get_Set_other)
  have f: "Header_Get ''X-Forwarded-For'' (rq_Header (forwarded_for ip r)) = ip" by (simp add: forwarded_for_def)
  have "getRealIP (forwarded_for ip r) = ip" using f assms(3) IndexByte_absent [OF assms(4)] by (simp add: getRealIP_def Let_def del: IndexByte_None)
  then have "emailSendKeyFunc (forwarded_for ip r) = ''ip_email:'' @ ip"
    using assms(1,2) h(1) by (simp add: emailSendKeyFunc_def forwarded_for_def ctx_string_def)
  moreover have "presented_key (forwarded_for ip r) = presented_key r" using h by (simp add: presented_key_def)
  ultimately show ?thesis by (simp add: handle_SendEmail_def)
qed

text \<open>Keys that agree in the first and the last four characters share a limit.\<close>

lemma hashAPIKey_shared: "length m = length m' \<Longrightarrow> length p = 4 \<Longrightarrow> length q = 4 \<Longrightarrow> m \<noteq> [] \<Longrightarrow> hashAPIKey (p @ m @ q) = hashAPIKey (p @ m' @ q)"
  by (auto simp: hashAPIKey_def)

section \<open>Samples\<close>

text \<open>A server without accounts, over the mail database, whose tokens are those of \<open>plain_jwt\<close>.\<close>

definition no_users :: "'st user_ops" where
  "no_users = \<lparr>uso_Create = (\<lambda>u st. (Some ErrNoRows, st)), uso_GetByID = (\<lambda>i st. (Inl ErrNoRows, st)), uso_GetByEmail = (\<lambda>e st. (Inl ErrNoRows, st)),
     uso_GetByAuthProvider = (\<lambda>p i st. (Inl ErrNoRows, st)), uso_Update = (\<lambda>u st. (Some ErrNoRows, st)), uso_Delete = (\<lambda>i st. (Some ErrNoRows, st)),
     uso_List = (\<lambda>p n st. (Inr ([], 0), st)), uso_SearchUsers = (\<lambda>p n s a st. (Inr ([], 0), st))\<rparr>"

definition no_credentials :: "'st credential_ops" where
  "no_credentials = \<lparr>cro_Create = (\<lambda>t i h st. (Some ErrNoRows, st)), cro_GetByUserID = (\<lambda>i st. (Inl ErrNoRows, st)),
     cro_Delete = (\<lambda>i st. (Some ErrNoRows, st))\<rparr>"

definition sample_parse :: "string \<Rightarrow> uuid option" where
  "sample_parse s = find (\<lambda>i. uuid_String i = s) [1, 2, 10, 20]"

definition sample_lib :: api_lib where
  "sample_lib = \<lparr>al_FromString = sample_parse, al_ParseFloat = (\<lambda>s. None)\<rparr>"

definition sample_services :: "(mail_db, unit) services" where
  "sample_services = \<lparr>srv_lib = sample_lib, srv_jwt = plain_jwt, srv_provider = provider_on no_credentials no_users plain_jwt, srv_auth = plain_api,
     srv_users = no_users, srv_domains = pg_domains_repo, srv_limiter = NoopDomainLimiter, srv_mail = pg_mail_repos Some (\<lambda>_. 0) False False,
     srv_webhooks = None, srv_hmac = (\<lambda>k m. k), srv_http = (\<lambda>r. HTTPError []), srv_ip_String = (\<lambda>i. []),
     srv_render = (\<lambda>m k. Inl []), srv_valid_user = (\<lambda>r. True)\<rparr>"

definition token_of :: "uuid \<Rightarrow> string" where
  "token_of u = replicate (length (uuid_String u)) (CHR ''1'') @ ''0'' @ uuid_String u"

text \<open>A request of user \<open>u\<close> with a parameter of its path.\<close>

definition request_of :: "uuid \<Rightarrow> string \<Rightarrow> uuid \<Rightarrow> api_request" where
  "request_of u k i = \<lparr>rq_Method = ''GET'', rq_Path = [], rq_RemoteAddr = ''192.0.2.1'', rq_Header = Header_Set ''Authorization'' (''Bearer '' @ token_of u) [],
     rq_Query = [], rq_URLParams = [(k, uuid_String i)], rq_Context = []\<rparr>"

lemma sample_parse_simps [simp]:
  "sample_parse (uuid_String 1) = Some 1" "sample_parse (uuid_String 2) = Some 2" "sample_parse (uuid_String 10) = Some 10" "sample_parse (uuid_String 20) = Some 20"
  by (simp_all add: sample_parse_def inj_eq [OF uuid_String_inj])

lemma uuid_String_nonempty [simp]: "uuid_String u \<noteq> []"
  using uuid_String_length [of u] by auto

lemma caller_sample: "caller sample_services now (request_of u k i) = Some \<lparr>uc_UserID = uuid_String u, uc_Email = [], uc_AccountType = []\<rparr>"
proof -
  have "jwt_Validate plain_jwt now (token_of u) = Some \<lparr>cl_UserID = uuid_String u, cl_Subject = uuid_String u, cl_Email = [], cl_AccountType = []\<rparr>"
    by (rule plain_jwt_reads [of 0 "uuid_String u" "[]" "[]"]) (simp add: plain_jwt_def token_of_def)
  moreover have "token_of u \<noteq> []" by (simp add: token_of_def)
  ultimately show ?thesis
    by (simp add: caller_def request_of_def bearer_token_def HasPrefix_def TrimPrefix_def sample_services_def parseJWT_def)
qed

lemma request_of_fields: "rq_Query (request_of u k i) = []" "rq_URLParams (request_of u k i) = [(k, uuid_String i)]"
  by (simp_all add: request_of_def)

text \<open>User 2 tries to delete the domain of user 1.\<close>

definition two_users :: "mail_db mail_uc" where
  "two_users = \<lparr>mu_repo = two_users_db, mu_tasks = []\<rparr>"

theorem domain_api_private_witness:
  "v_domains (pg_view (mu_repo (snd (serve sample_services 0 (DomainCall DeleteDomainCall) (request_of 2 ''id'' 10) two_users)))) 10 = Some sample_domain"
proof -
  obtain reply s' where r: "serve sample_services 0 (DomainCall DeleteDomainCall) (request_of 2 ''id'' 10) two_users = (reply, s')" by fastforce
  have "al_FromString (srv_lib sample_services) (uc_UserID \<lparr>uc_UserID = uuid_String 2, uc_Email = [], uc_AccountType = []\<rparr>) = Some 2"
    by (simp add: sample_services_def sample_lib_def)
  moreover have "mdb_ok (mu_repo two_users)" "srv_domains sample_services = pg_domains_repo"
    using two_users_db_ok by (simp_all add: two_users_def sample_services_def)
  ultimately have "others_kept 2 (pg_view two_users_db) (pg_view (mu_repo s'))"
    using domain_api_private [OF _ _ caller_sample _ r, of 2] by (simp add: two_users_def)
  then show ?thesis using r by (simp add: others_kept_def two_users_db_def sample_domain_def lookup_def)
qed

text \<open>User 2 reads the mail in the mailbox of user 1.\<close>

theorem mailbox_api_ignores_caller_witness:
  "serve sample_services 0 (MailCall ListMailboxMail) (request_of 2 ''emailId'' 20) mailbox_state =
     serve sample_services 0 (MailCall ListMailboxMail) (request_of 1 ''emailId'' 20) mailbox_state \<and>
   (\<exists>m. fst (serve sample_services 0 (MailCall ListMailboxMail) (request_of 2 ''emailId'' 20) mailbox_state) = Replied 200 (AnsMails m) \<and>
     map rr_EncryptedBody (pd_Data m) = [''e''])"
proof
  show "serve sample_services 0 (MailCall ListMailboxMail) (request_of 2 ''emailId'' 20) mailbox_state =
      serve sample_services 0 (MailCall ListMailboxMail) (request_of 1 ''emailId'' 20) mailbox_state"
    by (rule mailbox_api_ignores_caller) (simp_all add: caller_sample request_of_fields)
  have lib: "al_FromString sample_lib (uuid_String 20) = Some 20" by (simp add: sample_lib_def)
  have "GetPaginationParams (request_of 2 ''emailId'' 20) = \<lparr>pg_Limit = 50, pg_Offset = 0\<rparr>"
    by (simp add: GetPaginationParams_def Query_Get_def request_of_fields Let_def)
  then have p: "GetPaginationParams (with_claims cl (request_of 2 ''emailId'' 20)) = \<lparr>pg_Limit = 50, pg_Offset = 0\<rparr>" for cl
    by (simp add: GetPaginationParams_def Query_Get_def)
  have u: "URLParam ''emailId'' (with_claims cl (request_of 2 ''emailId'' 20)) = uuid_String 20" for cl
    by (simp add: URLParam_def request_of_fields)
  obtain cl where m: "serve sample_services 0 (MailCall ListMailboxMail) (request_of 2 ''emailId'' 20) mailbox_state =
      serve_mail sample_services ListMailboxMail (with_claims cl (request_of 2 ''emailId'' 20)) mailbox_state"
    by (simp add: behind_auth caller_sample)
  show "\<exists>m. fst (serve sample_services 0 (MailCall ListMailboxMail) (request_of 2 ''emailId'' 20) mailbox_state) = Replied 200 (AnsMails m) \<and>
      map rr_EncryptedBody (pd_Data m) = [''e'']"
    unfolding m
    by (simp add: sample_services_def handle_GetReceivedEmails_def u lib p Let_def GetReceivedEmails_def on_repo_def pg_mail_repos_def pg_received_repo_def
        pg_Received_GetByEmailAddressID_def mailbox_state_def mailbox_db_def page_def page_limit_def wrap_err_def
        mapReceivedEmailToResult_def respond_def as_answer_def)
qed

text \<open>A message with the key of the domain of user 1.\<close>

definition sample_send :: ApiSendEmailRequest where
  "sample_send = \<lparr>sr_From = ''bob@a.org'', sr_To = [''x@y.org''], sr_CC = [], sr_BCC = [], sr_Subject = ''s'', sr_TextBody = ''t'', sr_HTMLBody = []\<rparr>"

definition keyed_request :: api_request where
  "keyed_request = \<lparr>rq_Method = ''POST'', rq_Path = [], rq_RemoteAddr = ''192.0.2.1'', rq_Header = Header_Set ''X-API-Key'' ''pm_'' [], rq_Query = [],
     rq_URLParams = [], rq_Context = []\<rparr>"

lemma sample_send_accepted: "fst (serve sample_services 0 (SendCall 0 ''r'' (Some sample_send)) keyed_request two_users) =
    Replied 202 (AnsSent \<lparr>sp_MessageID = generateMessageID 0 ''r'', sp_Status = ''accepted''\<rparr>)"
proof -
  have "isFromAddressValid ''bob@a.org'' ''a.org''" by code_simp
  then show ?thesis
    by (simp add: on_repo_def handle_SendEmail_def presented_key_def keyed_request_def sample_services_def GetDomainByAPIKey_def pg_domains_repo_def
        pg_Domain_GetByAPIKey_def two_users_def two_users_db_def sample_domain_def one_row_of_def or_fail_def sample_send_def as_answer_def)
qed

theorem accepted_mail_not_sent_witness:
  "\<exists>x s'. serve sample_services 0 (SendCall 0 ''r'' (Some sample_send)) keyed_request two_users = (Replied 202 x, s') \<and>
     pg_view (mu_repo s') = pg_view two_users_db \<and> mu_tasks s' = []"
proof -
  obtain x s' where r: "serve sample_services 0 (SendCall 0 ''r'' (Some sample_send)) keyed_request two_users = (Replied 202 x, s')"
    using sample_send_accepted by (metis prod.collapse)
  have "mdb_ok (mu_repo two_users)" "srv_domains sample_services = pg_domains_repo"
    using two_users_db_ok by (simp_all add: two_users_def sample_services_def)
  from accepted_mail_not_sent [OF this r] show ?thesis using r by (auto simp: two_users_def)
qed

theorem send_limit_chosen_by_sender_witness:
  "emailSendKeyFunc (forwarded_for ''10.0.0.9'' (request_of 1 ''id'' 10)) = ''ip_email:10.0.0.9'' \<and>
   serve sample_services 0 (SendCall 0 ''r'' (Some sample_send)) (forwarded_for ''10.0.0.9'' (request_of 1 ''id'' 10)) two_users =
     serve sample_services 0 (SendCall 0 ''r'' (Some sample_send)) (request_of 1 ''id'' 10) two_users"
proof -
  have "Header_Get ''X-API-Key'' (rq_Header (request_of 1 ''id'' 10)) = []"
  proof -
    have "CanonicalHeaderKey ''X-API-Key'' \<noteq> CanonicalHeaderKey ''Authorization''" by code_simp
    then show ?thesis by (simp add: request_of_def Header_Get_Set_other) (simp add: Header_Get_def)
  qed
  moreover have "ctx_string ''user_id'' (request_of 1 ''id'' 10) = None" by (simp add: request_of_def ctx_string_def)
  ultimately have "emailSendKeyFunc (forwarded_for ''10.0.0.9'' (request_of 1 ''id'' 10)) = ''ip_email:'' @ ''10.0.0.9'' \<and>
     serve sample_services 0 (SendCall 0 ''r'' (Some sample_send)) (forwarded_for ''10.0.0.9'' (request_of 1 ''id'' 10)) two_users =
     serve sample_services 0 (SendCall 0 ''r'' (Some sample_send)) (request_of 1 ''id'' 10) two_users"
    by (rule send_limit_chosen_by_sender) simp_all
  then show ?thesis by simp
qed

text \<open>Without a token the list of domains is refused, and user 1 is no administrator.\<close>

theorem guarded_routes_witness:
  "fst (serve sample_services 0 (DomainCall GetDomainsCall) keyed_request two_users) \<in> {Failed 401, Failed 404} \<and>
   fst (serve sample_services 0 (AdminCall DeleteUserCall) (request_of 1 ''id'' 2) two_users) = Failed 403"
proof -
  have "CanonicalHeaderKey ''Authorization'' \<noteq> CanonicalHeaderKey ''X-API-Key''" by code_simp
  then have n: "caller sample_services 0 keyed_request = None"
    by (simp add: caller_def keyed_request_def Header_Get_Set_other bearer_token_def) (simp add: Header_Get_def)
  show ?thesis
    using guarded_routes [of sample_services 0 "DomainCall GetDomainsCall" keyed_request two_users, OF surjective_pairing]
      guarded_routes [of sample_services 0 "AdminCall DeleteUserCall" "request_of 1 ''id'' 2" two_users, OF surjective_pairing] n caller_sample [of 0 1 "''id''" 2]
    by auto
qed

end
