(* ===== verification/KeyDerivation.thy ===== *)
theory KeyDerivation
  imports Serialization
begin

text \<open>
  Private keys under a password, \<open>internal/encryption/key_derivation.go\<close>: a key is derived with Argon2id and a fresh salt, and the private key of a domain is
  stored encrypted under it as a JSON object of three Base64 texts.

  \<open>argon2.IDKey\<close> with the parameters of the file is an argument, the bytes of \<open>crypto/rand\<close> are arguments too (\<open>None\<close> where the read fails).
  \<open>Open\<close> of the cipher panics on a nonce that has not 12 bytes, which is the constructor \<open>KeyPanic\<close>.
\<close>

section \<open>Derivation\<close>

definition SaltLength :: nat where
  "SaltLength = 16"

record DerivedKey =
  dk_Key :: string
  dk_Salt :: string

datatype key_error =
    KeyBadSize | KeyNoPassword | KeySaltFailed | KeyNonceFailed | KeyCipherFailed | KeyTooShort | KeyBadJSON | KeyBadSalt | KeyLegacy
  | KeyBadNonce | KeyBadCiphertext | KeyNotDecrypted | KeyPlainSize | KeyPairFailed enc_error

datatype 'a key_result = KeyFails key_error | KeyPanic | KeyGives 'a

text \<open>\<open>idkey password salt\<close> is \<open>argon2.IDKey\<close>; a salt that is \<open>nil\<close> is drawn.\<close>

definition DeriveKeyFromPassword :: "(string \<Rightarrow> string \<Rightarrow> string) \<Rightarrow> string option \<Rightarrow> string \<Rightarrow> string option \<Rightarrow> key_error + DerivedKey" where
  "DeriveKeyFromPassword idkey rnd_salt password salt =
     (if password = [] then Inl KeyNoPassword
      else case (case salt of None \<Rightarrow> rnd_salt | Some s \<Rightarrow> Some s) of
        None \<Rightarrow> Inl KeySaltFailed
      | Some s \<Rightarrow> Inr \<lparr>dk_Key = idkey password s, dk_Salt = s\<rparr>)"

section \<open>The stored form\<close>

record EncryptedPrivateKey =
  epk_Salt :: string
  epk_Nonce :: string
  epk_EncryptedPrivateKey :: string

text \<open>An empty nonce is left out.\<close>

definition epk_Serialize :: "EncryptedPrivateKey \<Rightarrow> string" where
  \<open>epk_Serialize e = ''{"salt":"'' @ epk_Salt e @ (if epk_Nonce e = [] then [] else ''","nonce":"'' @ epk_Nonce e) @
     ''","encrypted_private_key":"'' @ epk_EncryptedPrivateKey e @ ''"}''\<close>

definition epk_set_member :: "string \<times> json \<Rightarrow> EncryptedPrivateKey \<times> bool \<Rightarrow> EncryptedPrivateKey \<times> bool" where
  "epk_set_member m st =
     (let k = ToLower (fst m); v = snd m in
      if k = ''salt'' then set_string v (\<lambda>t s. s\<lparr>epk_Salt := t\<rparr>) st
      else if k = ''nonce'' then set_string v (\<lambda>t s. s\<lparr>epk_Nonce := t\<rparr>) st
      else if k = ''encrypted_private_key'' then set_string v (\<lambda>t s. s\<lparr>epk_EncryptedPrivateKey := t\<rparr>) st
      else st)"

definition DeserializeEncryptedPrivateKey :: "string \<Rightarrow> key_error + EncryptedPrivateKey" where
  "DeserializeEncryptedPrivateKey data =
     (if length data < 50 then Inl KeyTooShort
      else let zero = \<lparr>epk_Salt = [], epk_Nonce = [], epk_EncryptedPrivateKey = []\<rparr> in
        case json_parse data of
          None \<Rightarrow> Inl KeyBadJSON
        | Some JNull \<Rightarrow> Inr zero
        | Some (JObj ms) \<Rightarrow> (case fold epk_set_member ms (zero, True) of (s, ok) \<Rightarrow> if ok then Inr s else Inl KeyBadJSON)
        | Some _ \<Rightarrow> Inl KeyBadJSON)"

section \<open>Encryption and decryption\<close>

definition EncryptPrivateKeyWithPassword ::
    "crypto \<Rightarrow> (string \<Rightarrow> string \<Rightarrow> string) \<Rightarrow> string option \<Rightarrow> string option \<Rightarrow> string \<Rightarrow> string \<Rightarrow> key_error + string" where
  "EncryptPrivateKeyWithPassword c idkey rnd_salt rnd_nonce privateKey password =
     (if length privateKey \<noteq> KeySize then Inl KeyBadSize
      else case DeriveKeyFromPassword idkey rnd_salt password None of
        Inl e \<Rightarrow> Inl e
      | Inr derived \<Rightarrow>
          if \<not> aead_New c (dk_Key derived) then Inl KeyCipherFailed
          else (case rnd_nonce of
                  None \<Rightarrow> Inl KeyNonceFailed
                | Some nonce \<Rightarrow> Inr (epk_Serialize \<lparr>epk_Salt = EncodeToString (dk_Salt derived), epk_Nonce = EncodeToString nonce,
                    epk_EncryptedPrivateKey = EncodeToString (aead_Seal c (dk_Key derived) nonce privateKey)\<rparr>)))"

definition DecryptPrivateKeyWithPassword :: "crypto \<Rightarrow> (string \<Rightarrow> string \<Rightarrow> string) \<Rightarrow> string \<Rightarrow> string \<Rightarrow> string key_result" where
  "DecryptPrivateKeyWithPassword c idkey encryptedData password =
     (case DeserializeEncryptedPrivateKey encryptedData of
        Inl e \<Rightarrow> KeyFails e
      | Inr e \<Rightarrow>
          (case DecodeString (epk_Salt e) of
             None \<Rightarrow> KeyFails KeyBadSalt
           | Some salt \<Rightarrow>
               (case DeriveKeyFromPassword idkey None password (Some salt) of
                  Inl err \<Rightarrow> KeyFails err
                | Inr derived \<Rightarrow>
                    if epk_Nonce e = [] then KeyFails KeyLegacy
                    else case DecodeString (epk_Nonce e) of
                      None \<Rightarrow> KeyFails KeyBadNonce
                    | Some nonce \<Rightarrow>
                        (case DecodeString (epk_EncryptedPrivateKey e) of
                           None \<Rightarrow> KeyFails KeyBadCiphertext
                         | Some ciphertext \<Rightarrow>
                             if \<not> aead_New c (dk_Key derived) then KeyFails KeyCipherFailed
                             else if length nonce \<noteq> NonceSize then KeyPanic
                             else (case aead_Open c (dk_Key derived) nonce ciphertext of
                                     None \<Rightarrow> KeyFails KeyNotDecrypted
                                   | Some plaintext \<Rightarrow> if length plaintext \<noteq> KeySize then KeyFails KeyPlainSize else KeyGives plaintext)))))"

text \<open>The pair answered has no private key.\<close>

definition GenerateDomainKeyPair ::
    "crypto \<Rightarrow> (string \<Rightarrow> string \<Rightarrow> string) \<Rightarrow> string option \<Rightarrow> string option \<Rightarrow> string option \<Rightarrow> string \<Rightarrow> key_error + KeyPair \<times> string" where
  "GenerateDomainKeyPair c idkey rnd_key rnd_salt rnd_nonce userPassword =
     (case GenerateKeyPair c rnd_key of
        Inl e \<Rightarrow> Inl (KeyPairFailed e)
      | Inr kp \<Rightarrow>
          (case EncryptPrivateKeyWithPassword c idkey rnd_salt rnd_nonce (kp_PrivateKey kp) userPassword of
             Inl e \<Rightarrow> Inl e
           | Inr encrypted \<Rightarrow> Inr (\<lparr>kp_PublicKey = kp_PublicKey kp, kp_PrivateKey = []\<rparr>, encrypted)))"

section \<open>Lemmas\<close>

lemma epk_keys: "json_key ''salt''" "json_key ''nonce''" "json_key ''encrypted_private_key''"
  by (simp_all add: json_key_def)

lemma json_parse_epk:
  assumes "\<forall>c \<in> set a. b64_safe c" "\<forall>c \<in> set b. b64_safe c" "\<forall>c \<in> set d. b64_safe c" "b \<noteq> []"
  shows "json_parse (epk_Serialize \<lparr>epk_Salt = a, epk_Nonce = b, epk_EncryptedPrivateKey = d\<rparr>) =
    Some (JObj [(''salt'', JStr a), (''nonce'', JStr b), (''encrypted_private_key'', JStr d)])"
proof -
  let ?body = "CHR 0x22 # ''salt'' @ CHR 0x22 # CHR '':'' # CHR 0x22 # a @ CHR 0x22 # CHR '','' #
    CHR 0x22 # ''nonce'' @ CHR 0x22 # CHR '':'' # CHR 0x22 # b @ CHR 0x22 # CHR '','' #
    CHR 0x22 # ''encrypted_private_key'' @ CHR 0x22 # CHR '':'' # CHR 0x22 # d @ CHR 0x22 # CHR ''}'' # []"
  let ?t = "epk_Serialize \<lparr>epk_Salt = a, epk_Nonce = b, epk_EncryptedPrivateKey = d\<rparr>"
  let ?ms = "[(''salt'', JStr a), (''nonce'', JStr b), (''encrypted_private_key'', JStr d)]"
  have t: "?t = CHR ''{'' # ?body" using assms(4) by (simp add: epk_Serialize_def)
  have body: "json_members (Suc (Suc (Suc (Suc n)))) ?body = Some (?ms, [])" for n
    by (simp only: member_string(1) [OF epk_keys(1) assms(1)] member_string(1) [OF epk_keys(2) assms(2)] member_string(2) [OF epk_keys(3) assms(3)]
        option.map prod.case)
  have "5 \<le> 2 * length ?t + 2" unfolding t by simp
  then obtain n where "2 * length ?t + 2 = 5 + n" using le_Suc_ex by blast
  then have n: "2 * length ?t + 2 = Suc (Suc (Suc (Suc (Suc n))))" by linarith
  have "json_value (Suc (Suc (Suc (Suc (Suc n))))) ?t = Some (JObj ?ms, [])"
    unfolding t json_value.simps(2) using body [of n] by simp
  then show ?thesis by (simp only: json_parse_def n option.case prod.case) (simp add: skip_ws_def)
qed

lemma epk_set_member_keys:
  "epk_set_member (''salt'', JStr t) (s, ok) = (s\<lparr>epk_Salt := t\<rparr>, ok)"
  "epk_set_member (''nonce'', JStr t) (s, ok) = (s\<lparr>epk_Nonce := t\<rparr>, ok)"
  "epk_set_member (''encrypted_private_key'', JStr t) (s, ok) = (s\<lparr>epk_EncryptedPrivateKey := t\<rparr>, ok)"
proof -
  have "ToLower ''salt'' = ''salt''" "ToLower ''nonce'' = ''nonce''" "ToLower ''encrypted_private_key'' = ''encrypted_private_key''" by code_simp+
  then show "epk_set_member (''salt'', JStr t) (s, ok) = (s\<lparr>epk_Salt := t\<rparr>, ok)"
    "epk_set_member (''nonce'', JStr t) (s, ok) = (s\<lparr>epk_Nonce := t\<rparr>, ok)"
    "epk_set_member (''encrypted_private_key'', JStr t) (s, ok) = (s\<lparr>epk_EncryptedPrivateKey := t\<rparr>, ok)"
    by (simp_all add: epk_set_member_def set_string_def)
qed

text \<open>What is written is read back, as soon as there is a nonce.\<close>

lemma EncodeToString_nonempty: "bs \<noteq> [] \<Longrightarrow> EncodeToString bs \<noteq> []"
  by (induction bs rule: EncodeToString.induct) simp_all

lemma epk_roundtrip:
  assumes "\<forall>c \<in> set a. b64_safe c" "\<forall>c \<in> set b. b64_safe c" "\<forall>c \<in> set d. b64_safe c" "b \<noteq> []"
  shows "DeserializeEncryptedPrivateKey (epk_Serialize \<lparr>epk_Salt = a, epk_Nonce = b, epk_EncryptedPrivateKey = d\<rparr>) =
    Inr \<lparr>epk_Salt = a, epk_Nonce = b, epk_EncryptedPrivateKey = d\<rparr>"
proof -
  have "50 \<le> length (epk_Serialize \<lparr>epk_Salt = a, epk_Nonce = b, epk_EncryptedPrivateKey = d\<rparr>)"
    using assms(4) by (cases b) (simp_all add: epk_Serialize_def)
  then show ?thesis using json_parse_epk [OF assms] by (simp add: DeserializeEncryptedPrivateKey_def epk_set_member_keys)
qed

lemma epk_b64_roundtrip:
  "n \<noteq> [] \<Longrightarrow> DeserializeEncryptedPrivateKey (epk_Serialize \<lparr>epk_Salt = EncodeToString s, epk_Nonce = EncodeToString n, epk_EncryptedPrivateKey = EncodeToString x\<rparr>) =
    Inr \<lparr>epk_Salt = EncodeToString s, epk_Nonce = EncodeToString n, epk_EncryptedPrivateKey = EncodeToString x\<rparr>"
  by (rule epk_roundtrip) (use EncodeToString_safe EncodeToString_nonempty in auto)

text \<open>What the libraries are documented to do for a derived key: the cipher accepts it.\<close>

lemma private_key_roundtrip:
  assumes "crypto_laws c" "\<forall>p s. aead_New c (idkey p s)" "length priv = KeySize" "length nonce = NonceSize" "password \<noteq> []"
  shows "\<exists>stored. EncryptPrivateKeyWithPassword c idkey (Some salt) (Some nonce) priv password = Inr stored \<and>
    DecryptPrivateKeyWithPassword c idkey stored password = KeyGives priv"
proof -
  have "nonce \<noteq> []" using assms(4) by (auto simp: NonceSize_def)
  moreover have "aead_Open c (idkey password salt) nonce (aead_Seal c (idkey password salt) nonce priv) = Some priv"
    using assms(1,2,4) by (simp add: crypto_laws_def)
  ultimately show ?thesis using assms(2-5)
    by (simp add: EncryptPrivateKeyWithPassword_def DecryptPrivateKeyWithPassword_def DeriveKeyFromPassword_def epk_b64_roundtrip
        DecodeString_encode EncodeToString_nonempty)
qed

text \<open>A private key that is answered has 32 bytes, and nothing is answered without a password.\<close>

lemma decrypted_key_size: "DecryptPrivateKeyWithPassword c idkey stored password = KeyGives k \<Longrightarrow> length k = KeySize \<and> password \<noteq> []"
  by (auto simp: DecryptPrivateKeyWithPassword_def DeriveKeyFromPassword_def split: sum.splits option.splits if_splits)

section \<open>Properties\<close>

text \<open>
  C13: Mail for a domain whose pair \<open>GenerateDomainKeyPair\<close> made is read with the password. For any random bytes and any password that is not empty the pair is
  made, its private half is not in the answer, and every message encrypted for the public key is read back from its stored form with the key the password
  recovers from the stored private key.
\<close>

theorem mail_readable_with_password:
  assumes "crypto_laws c" "\<forall>p s. aead_New c (idkey p s)" "length priv = KeySize" "length nonce = NonceSize" "password \<noteq> []"
    and "length eph = KeySize" "length nonce' = NonceSize"
  shows "\<exists>kp stored mail. GenerateDomainKeyPair c idkey (Some priv) (Some salt) (Some nonce) password = Inr (kp, stored) \<and> kp_PrivateKey kp = [] \<and>
    EncryptAndSerialize c (Some eph) (Some nonce') m (kp_PublicKey kp) = Inr mail \<and>
    (\<exists>k. DecryptPrivateKeyWithPassword c idkey stored password = KeyGives k \<and> DeserializeAndDecrypt c mail k = Inr m)"
proof -
  obtain pub mail where g: "GenerateKeyPair c (Some priv) = Inr \<lparr>kp_PublicKey = pub, kp_PrivateKey = priv\<rparr>"
    "EncryptAndSerialize c (Some eph) (Some nonce') m pub = Inr mail" "DeserializeAndDecrypt c mail priv = Inr m"
    using stored_message_readable [OF assms(1,3,6,7)] by blast
  obtain stored where "EncryptPrivateKeyWithPassword c idkey (Some salt) (Some nonce) priv password = Inr stored"
    "DecryptPrivateKeyWithPassword c idkey stored password = KeyGives priv"
    using private_key_roundtrip [OF assms(1-5)] by blast
  then show ?thesis using g by (simp add: GenerateDomainKeyPair_def)
qed

theorem mail_readable_with_password_witness:
  "\<exists>kp stored mail. GenerateDomainKeyPair toy_crypto (\<lambda>p s. p @ s) (Some (replicate 32 (CHR ''p''))) (Some (replicate 16 (CHR ''s'')))
       (Some (replicate 12 (CHR ''n''))) ''pw'' = Inr (kp, stored) \<and>
     EncryptAndSerialize toy_crypto (Some (replicate 32 (CHR ''e''))) (Some (replicate 12 (CHR ''o''))) ''hi'' (kp_PublicKey kp) = Inr mail \<and>
     (\<exists>k. DecryptPrivateKeyWithPassword toy_crypto (\<lambda>p s. p @ s) stored ''pw'' = KeyGives k \<and> DeserializeAndDecrypt toy_crypto mail k = Inr ''hi'')"
  using mail_readable_with_password [OF toy_laws, of "\<lambda>p s. p @ s" "replicate 32 (CHR ''p'')" "replicate 12 (CHR ''n'')" "''pw''"
      "replicate 32 (CHR ''e'')" "replicate 12 (CHR ''o'')" "replicate 16 (CHR ''s'')" "''hi''"]
  by (auto simp: KeySize_def NonceSize_def toy_crypto_def)

text \<open>
  A stored private key with a nonce of the wrong length panics: unlike \<open>Decrypt\<close>, \<open>DecryptPrivateKeyWithPassword\<close> does not look at the length before it
  calls \<open>Open\<close>.
\<close>

theorem malformed_nonce_panics:
  assumes "\<forall>p s. aead_New c (idkey p s)" "password \<noteq> []" "nonce \<noteq> []" "length nonce \<noteq> NonceSize"
  shows "DecryptPrivateKeyWithPassword c idkey (epk_Serialize \<lparr>epk_Salt = EncodeToString salt, epk_Nonce = EncodeToString nonce,
     epk_EncryptedPrivateKey = EncodeToString x\<rparr>) password = KeyPanic"
  using assms by (simp add: DecryptPrivateKeyWithPassword_def DeriveKeyFromPassword_def epk_b64_roundtrip DecodeString_encode EncodeToString_nonempty)

end
