(* ===== verification/CacheStore.thy ===== *)
theory CacheStore
  imports ApiCommon
begin

text \<open>
  Caching, \<open>internal/cache\<close>: the client of Redis with its key prefix, and the cache of users, domains and mailboxes over the interface \<open>Cache\<close>.

  The server is the commands the client sends, over a table of keys with their expiry; any command may fail (\<open>rds_faults\<close>). A value travels as the
  JSON text of its type, whose two directions are an argument. Connection pools, statistics, counters and locks are left out.
\<close>

section \<open>The server\<close>

record redis_entry =
  ren_Value :: string
  ren_Expires :: "instant option"

record redis =
  rds_now :: instant
  rds_map :: "(string \<times> redis_entry) list"
  rds_faults :: "bool list"

definition alive :: "instant \<Rightarrow> redis_entry \<Rightarrow> bool" where
  "alive now e = (case ren_Expires e of None \<Rightarrow> True | Some t \<Rightarrow> now < t)"

definition live_value :: "instant \<Rightarrow> (string \<times> redis_entry) list \<Rightarrow> string \<Rightarrow> string option" where
  "live_value now m k = (case map_of m k of None \<Rightarrow> None | Some e \<Rightarrow> if alive now e then Some (ren_Value e) else None)"

definition held :: "redis \<Rightarrow> string \<Rightarrow> string option" where
  "held st = live_value (rds_now st) (rds_map st)"

definition command :: "(redis \<Rightarrow> 'a \<times> redis) \<Rightarrow> redis \<Rightarrow> 'a option \<times> redis" where
  "command f st =
     (case rds_faults st of
        True # fs \<Rightarrow> (None, st\<lparr>rds_faults := fs\<rparr>)
      | False # fs \<Rightarrow> (case f (st\<lparr>rds_faults := fs\<rparr>) of (x, st1) \<Rightarrow> (Some x, st1))
      | [] \<Rightarrow> (case f st of (x, st1) \<Rightarrow> (Some x, st1)))"

text \<open>\<open>SET\<close>: an expiry is sent in milliseconds, at least one; without a positive one the key stays.\<close>

definition expiry :: "instant \<Rightarrow> duration \<Rightarrow> instant option" where
  "expiry now ttl = (if ttl > 0 then Some (now + max 1000000 (ttl div 1000000 * 1000000)) else None)"

definition put_entry :: "string \<Rightarrow> redis_entry \<Rightarrow> redis \<Rightarrow> redis" where
  "put_entry k e st = st\<lparr>rds_map := (k, e) # filter (\<lambda>(x, _). x \<noteq> k) (rds_map st)\<rparr>"

definition redis_Set :: "string \<Rightarrow> string \<Rightarrow> duration \<Rightarrow> redis \<Rightarrow> unit option \<times> redis" where
  "redis_Set k v ttl = command (\<lambda>st. ((), put_entry k \<lparr>ren_Value = v, ren_Expires = expiry (rds_now st) ttl\<rparr> st))"

definition redis_Get :: "string \<Rightarrow> redis \<Rightarrow> string option option \<times> redis" where
  "redis_Get k = command (\<lambda>st. (held st k, st))"

definition redis_Del :: "string list \<Rightarrow> redis \<Rightarrow> unit option \<times> redis" where
  "redis_Del ks = command (\<lambda>st. ((), st\<lparr>rds_map := filter (\<lambda>(x, _). x \<notin> set ks) (rds_map st)\<rparr>))"

definition redis_FlushDB :: "redis \<Rightarrow> unit option \<times> redis" where
  "redis_FlushDB = command (\<lambda>st. ((), st\<lparr>rds_map := []\<rparr>))"

text \<open>The patterns of \<open>KEYS\<close>: a class in brackets, with ranges, escapes and negation, and the rest of the pattern after it.\<close>

definition or_match :: "bool \<Rightarrow> bool \<times> string \<Rightarrow> bool \<times> string" where
  "or_match m r = (m \<or> fst r, snd r)"

fun class_scan :: "string \<Rightarrow> char \<Rightarrow> bool \<times> string" where
  "class_scan [] x = (False, [])"
| "class_scan [a] x = (a \<noteq> CHR '']'' \<and> a = x, [])"
| "class_scan [a, b] x =
     (if a = CHR '']'' then (False, [b])
      else if a = CHR 0x5C then (b = x, [])
      else or_match (a = x) (class_scan [b] x))"
| "class_scan (a # b # c # p) x =
     (if a = CHR '']'' then (False, b # c # p)
      else if a = CHR 0x5C then or_match (b = x) (class_scan (c # p) x)
      else if b = CHR ''-'' then or_match (min (code a) (code c) \<le> code x \<and> code x \<le> max (code a) (code c)) (class_scan p x)
      else or_match (a = x) (class_scan (b # c # p) x))"

lemma class_scan_length: "length (snd (class_scan p x)) \<le> length p"
proof (induction p x rule: class_scan.induct)
  case (4 a b c p x)
  then show ?case by (cases "a = CHR 0x5C"; cases "b = CHR ''-''"; cases "a = CHR '']''") (simp_all add: or_match_def)
qed (simp_all add: or_match_def)

definition negated :: "string \<Rightarrow> bool" where
  "negated p \<longleftrightarrow> p \<noteq> [] \<and> hd p = CHR ''^''"

definition class_body :: "string \<Rightarrow> string" where
  "class_body p = (if negated p then tl p else p)"

lemma class_rest_length: "length (snd (class_scan (class_body p) x)) < Suc (Suc (length p))"
  using class_scan_length [of "class_body p" x] by (simp add: class_body_def split: if_splits)

function glob :: "string \<Rightarrow> string \<Rightarrow> bool" where
  "glob [] s = (s = [])"
| "glob (c # p) [] = (c = CHR ''*'' \<and> glob p [])"
| "glob (c # p) (x # s) =
     (if c = CHR ''*'' then glob p (x # s) \<or> glob (c # p) s
      else if c = CHR ''?'' then glob p s
      else if c = CHR ''['' then
        (fst (class_scan (class_body p) x) \<noteq> negated p \<and> glob (snd (class_scan (class_body p) x)) s)
      else if c = CHR 0x5C then (case p of [] \<Rightarrow> x = c \<and> s = [] | d # q \<Rightarrow> x = d \<and> glob q s)
      else x = c \<and> glob p s)"
  by pat_completeness auto
termination by (relation "measure (\<lambda>(p, s). length p + length s)") (auto intro: class_rest_length)

text \<open>\<open>KEYS\<close>.\<close>

definition redis_Keys :: "string \<Rightarrow> redis \<Rightarrow> string list option \<times> redis" where
  "redis_Keys p = command (\<lambda>st. (filter (\<lambda>k. held st k \<noteq> None \<and> glob p k) (map fst (rds_map st)), st))"

section \<open>The client\<close>

datatype cache_error = ErrCacheMiss | MarshalFailed | SetFailed | GetFailed | UnmarshalFailed | DeleteFailed | KeysFailed | FlushFailed

record RedisCache =
  rdc_Enabled :: bool
  rdc_KeyPrefix :: string
  rdc_DefaultTTL :: duration

definition buildKey :: "RedisCache \<Rightarrow> string \<Rightarrow> string" where
  "buildKey c k = rdc_KeyPrefix c @ k"

text \<open>\<open>data\<close> is the value as \<open>json.Marshal\<close> writes it.\<close>

definition RedisCache_Set :: "RedisCache \<Rightarrow> string \<Rightarrow> string option \<Rightarrow> duration \<Rightarrow> redis \<Rightarrow> cache_error option \<times> redis" where
  "RedisCache_Set c k data ttl0 st =
     (if \<not> rdc_Enabled c then (None, st)
      else let ttl = (if ttl0 = 0 then rdc_DefaultTTL c else ttl0) in
        case data of
          None \<Rightarrow> (Some MarshalFailed, st)
        | Some v \<Rightarrow> (case redis_Set (buildKey c k) v ttl st of (None, st1) \<Rightarrow> (Some SetFailed, st1) | (Some _, st1) \<Rightarrow> (None, st1)))"

definition RedisCache_Get :: "RedisCache \<Rightarrow> string \<Rightarrow> redis \<Rightarrow> (cache_error + string) \<times> redis" where
  "RedisCache_Get c k st =
     (if \<not> rdc_Enabled c then (Inl ErrCacheMiss, st)
      else case redis_Get (buildKey c k) st of
        (None, st1) \<Rightarrow> (Inl GetFailed, st1)
      | (Some None, st1) \<Rightarrow> (Inl ErrCacheMiss, st1)
      | (Some (Some data), st1) \<Rightarrow> (Inr data, st1))"

definition RedisCache_Delete :: "RedisCache \<Rightarrow> string \<Rightarrow> redis \<Rightarrow> cache_error option \<times> redis" where
  "RedisCache_Delete c k st =
     (if \<not> rdc_Enabled c then (None, st)
      else case redis_Del [buildKey c k] st of (None, st1) \<Rightarrow> (Some DeleteFailed, st1) | (Some _, st1) \<Rightarrow> (None, st1))"

definition RedisCache_DeletePattern :: "RedisCache \<Rightarrow> string \<Rightarrow> redis \<Rightarrow> cache_error option \<times> redis" where
  "RedisCache_DeletePattern c p st =
     (if \<not> rdc_Enabled c then (None, st)
      else case redis_Keys (buildKey c p) st of
        (None, st1) \<Rightarrow> (Some KeysFailed, st1)
      | (Some keys, st1) \<Rightarrow>
          if keys = [] then (None, st1)
          else (case redis_Del keys st1 of (None, st2) \<Rightarrow> (Some DeleteFailed, st2) | (Some _, st2) \<Rightarrow> (None, st2)))"

definition RedisCache_FlushDB :: "RedisCache \<Rightarrow> redis \<Rightarrow> cache_error option \<times> redis" where
  "RedisCache_FlushDB c st =
     (if \<not> rdc_Enabled c then (None, st)
      else case redis_FlushDB st of (None, st1) \<Rightarrow> (Some FlushFailed, st1) | (Some _, st1) \<Rightarrow> (None, st1))"

section \<open>The interface\<close>

record 'st cache_ops =
  co_Set :: "string \<Rightarrow> string option \<Rightarrow> duration \<Rightarrow> 'st \<Rightarrow> cache_error option \<times> 'st"
  co_Get :: "string \<Rightarrow> 'st \<Rightarrow> (cache_error + string) \<times> 'st"
  co_Delete :: "string \<Rightarrow> 'st \<Rightarrow> cache_error option \<times> 'st"
  co_DeletePattern :: "string \<Rightarrow> 'st \<Rightarrow> cache_error option \<times> 'st"
  co_FlushDB :: "'st \<Rightarrow> cache_error option \<times> 'st"

definition redis_ops :: "RedisCache \<Rightarrow> redis cache_ops" where
  "redis_ops c = \<lparr>co_Set = RedisCache_Set c, co_Get = RedisCache_Get c, co_Delete = RedisCache_Delete c,
     co_DeletePattern = RedisCache_DeletePattern c, co_FlushDB = RedisCache_FlushDB c\<rparr>"

text \<open>The JSON of a type.\<close>

record 'v codec =
  cd_Marshal :: "'v \<Rightarrow> string option"
  cd_Unmarshal :: "string \<Rightarrow> 'v option"

definition read_value :: "'v codec \<Rightarrow> (cache_error + string) \<times> 'st \<Rightarrow> (cache_error + 'v) \<times> 'st" where
  "read_value cd r =
     (case r of
        (Inl e, st) \<Rightarrow> (Inl e, st)
      | (Inr data, st) \<Rightarrow> (case cd_Unmarshal cd data of None \<Rightarrow> (Inl UnmarshalFailed, st) | Some v \<Rightarrow> (Inr v, st)))"

section \<open>The cache of the repositories\<close>

record CacheConfig =
  ccf_UserTTL :: duration
  ccf_DomainTTL :: duration
  ccf_EmailAddressTTL :: duration
  ccf_ReceivedEmailTTL :: duration
  ccf_CacheUsers :: bool
  ccf_CacheDomains :: bool
  ccf_CacheEmailAddresses :: bool
  ccf_CacheReceivedEmails :: bool

definition DefaultCacheConfig :: CacheConfig where
  "DefaultCacheConfig = \<lparr>ccf_UserTTL = 30 * time_Minute, ccf_DomainTTL = 15 * time_Minute, ccf_EmailAddressTTL = 10 * time_Minute,
     ccf_ReceivedEmailTTL = 5 * time_Minute, ccf_CacheUsers = True, ccf_CacheDomains = True, ccf_CacheEmailAddresses = True,
     ccf_CacheReceivedEmails = False\<rparr>"

text \<open>\<open>rc_cache\<close> is \<open>None\<close> for a nil cache; the codecs are those of the cached types.\<close>

record 'st RepositoryCache =
  rc_cache :: "'st cache_ops option"
  rc_config :: CacheConfig
  rc_user :: "User codec"
  rc_domain :: "Domain codec"
  rc_domains :: "Domain list codec"
  rc_address :: "EmailAddress codec"
  rc_addresses :: "EmailAddress list codec"
  rc_received :: "ReceivedEmail list codec"

text \<open>What every method starts with: nothing is done, or a miss answered, when the kind of entity is not cached.\<close>

definition when_cached :: "bool \<Rightarrow> 'st RepositoryCache \<Rightarrow> ('st cache_ops \<Rightarrow> 'st \<Rightarrow> cache_error option \<times> 'st) \<Rightarrow> 'st \<Rightarrow> cache_error option \<times> 'st" where
  "when_cached on rc f st = (if \<not> on then (None, st) else case rc_cache rc of None \<Rightarrow> (None, st) | Some ops \<Rightarrow> f ops st)"

definition get_cached :: "bool \<Rightarrow> 'st RepositoryCache \<Rightarrow> 'v codec \<Rightarrow> string \<Rightarrow> 'st \<Rightarrow> (cache_error + 'v) \<times> 'st" where
  "get_cached on rc cd k st =
     (if \<not> on then (Inl ErrCacheMiss, st)
      else case rc_cache rc of None \<Rightarrow> (Inl ErrCacheMiss, st) | Some ops \<Rightarrow> read_value cd (co_Get ops k st))"

definition set_cached :: "bool \<Rightarrow> 'st RepositoryCache \<Rightarrow> 'v codec \<Rightarrow> string \<Rightarrow> 'v \<Rightarrow> duration \<Rightarrow> 'st \<Rightarrow> cache_error option \<times> 'st" where
  "set_cached on rc cd k v ttl = when_cached on rc (\<lambda>ops. co_Set ops k (cd_Marshal cd v) ttl)"

definition delete_all :: "'st cache_ops \<Rightarrow> string list \<Rightarrow> 'st \<Rightarrow> cache_error option \<times> 'st" where
  "delete_all ops ks st = (None, fold (\<lambda>k st. snd (co_Delete ops k st)) ks st)"

definition user_id_key :: "uuid \<Rightarrow> string" where "user_id_key u = ''user:id:'' @ uuid_String u"
definition user_email_key :: "string \<Rightarrow> string" where "user_email_key e = ''user:email:'' @ e"
definition domain_id_key :: "uuid \<Rightarrow> string" where "domain_id_key i = ''domain:id:'' @ uuid_String i"
definition domain_name_key :: "string \<Rightarrow> string" where "domain_name_key n = ''domain:name:'' @ n"
definition domain_apikey_key :: "string \<Rightarrow> string" where "domain_apikey_key k = ''domain:apikey:'' @ k"
definition user_domains_key :: "uuid \<Rightarrow> string" where "user_domains_key u = ''domains:user:'' @ uuid_String u"
definition email_id_key :: "uuid \<Rightarrow> string" where "email_id_key i = ''email:id:'' @ uuid_String i"
definition email_address_key :: "string \<Rightarrow> string" where "email_address_key a = ''email:address:'' @ a"
definition domain_emails_key :: "uuid \<Rightarrow> string" where "domain_emails_key i = ''emails:domain:'' @ uuid_String i"
definition received_key :: "uuid \<Rightarrow> string" where "received_key i = ''received:email:'' @ uuid_String i"

definition CacheUser :: "'st RepositoryCache \<Rightarrow> User \<Rightarrow> 'st \<Rightarrow> cache_error option \<times> 'st" where
  "CacheUser rc u = set_cached (ccf_CacheUsers (rc_config rc)) rc (rc_user rc) (user_id_key (u_ID u)) u (ccf_UserTTL (rc_config rc))"

definition GetCachedUser :: "'st RepositoryCache \<Rightarrow> uuid \<Rightarrow> 'st \<Rightarrow> (cache_error + User) \<times> 'st" where
  "GetCachedUser rc i = get_cached (ccf_CacheUsers (rc_config rc)) rc (rc_user rc) (user_id_key i)"

definition CacheUserByEmail :: "'st RepositoryCache \<Rightarrow> string \<Rightarrow> User \<Rightarrow> 'st \<Rightarrow> cache_error option \<times> 'st" where
  "CacheUserByEmail rc e u = set_cached (ccf_CacheUsers (rc_config rc)) rc (rc_user rc) (user_email_key e) u (ccf_UserTTL (rc_config rc))"

definition GetCachedUserByEmail :: "'st RepositoryCache \<Rightarrow> string \<Rightarrow> 'st \<Rightarrow> (cache_error + User) \<times> 'st" where
  "GetCachedUserByEmail rc e = get_cached (ccf_CacheUsers (rc_config rc)) rc (rc_user rc) (user_email_key e)"

definition InvalidateUser :: "'st RepositoryCache \<Rightarrow> uuid \<Rightarrow> string \<Rightarrow> 'st \<Rightarrow> cache_error option \<times> 'st" where
  "InvalidateUser rc i e = when_cached (ccf_CacheUsers (rc_config rc)) rc
     (\<lambda>ops. delete_all ops (user_id_key i # (if e \<noteq> [] then [user_email_key e] else [])))"

text \<open>Three entries; the first failure is answered.\<close>

definition CacheDomain :: "'st RepositoryCache \<Rightarrow> Domain \<Rightarrow> 'st \<Rightarrow> cache_error option \<times> 'st" where
  "CacheDomain rc d = when_cached (ccf_CacheDomains (rc_config rc)) rc (\<lambda>ops st.
     let data = cd_Marshal (rc_domain rc) d; ttl = ccf_DomainTTL (rc_config rc) in
     case co_Set ops (domain_id_key (d_ID d)) data ttl st of
       (Some e, st1) \<Rightarrow> (Some e, st1)
     | (None, st1) \<Rightarrow>
         (case co_Set ops (domain_name_key (d_Domain d)) data ttl st1 of
            (Some e, st2) \<Rightarrow> (Some e, st2)
          | (None, st2) \<Rightarrow> co_Set ops (domain_apikey_key (d_APIKey d)) data ttl st2))"

definition GetCachedDomain :: "'st RepositoryCache \<Rightarrow> uuid \<Rightarrow> 'st \<Rightarrow> (cache_error + Domain) \<times> 'st" where
  "GetCachedDomain rc i = get_cached (ccf_CacheDomains (rc_config rc)) rc (rc_domain rc) (domain_id_key i)"

definition GetCachedDomainByName :: "'st RepositoryCache \<Rightarrow> string \<Rightarrow> 'st \<Rightarrow> (cache_error + Domain) \<times> 'st" where
  "GetCachedDomainByName rc n = get_cached (ccf_CacheDomains (rc_config rc)) rc (rc_domain rc) (domain_name_key n)"

definition GetCachedDomainByAPIKey :: "'st RepositoryCache \<Rightarrow> string \<Rightarrow> 'st \<Rightarrow> (cache_error + Domain) \<times> 'st" where
  "GetCachedDomainByAPIKey rc k = get_cached (ccf_CacheDomains (rc_config rc)) rc (rc_domain rc) (domain_apikey_key k)"

definition CacheUserDomains :: "'st RepositoryCache \<Rightarrow> uuid \<Rightarrow> Domain list \<Rightarrow> 'st \<Rightarrow> cache_error option \<times> 'st" where
  "CacheUserDomains rc u ds = set_cached (ccf_CacheDomains (rc_config rc)) rc (rc_domains rc) (user_domains_key u) ds (ccf_DomainTTL (rc_config rc))"

definition GetCachedUserDomains :: "'st RepositoryCache \<Rightarrow> uuid \<Rightarrow> 'st \<Rightarrow> (cache_error + Domain list) \<times> 'st" where
  "GetCachedUserDomains rc u = get_cached (ccf_CacheDomains (rc_config rc)) rc (rc_domains rc) (user_domains_key u)"

definition InvalidateDomain :: "'st RepositoryCache \<Rightarrow> Domain \<Rightarrow> uuid \<Rightarrow> 'st \<Rightarrow> cache_error option \<times> 'st" where
  "InvalidateDomain rc d u = when_cached (ccf_CacheDomains (rc_config rc)) rc
     (\<lambda>ops. delete_all ops ([domain_id_key (d_ID d), domain_name_key (d_Domain d), domain_apikey_key (d_APIKey d)] @
        (if u \<noteq> uuid_nil then [user_domains_key u] else [])))"

definition CacheEmailAddress :: "'st RepositoryCache \<Rightarrow> EmailAddress \<Rightarrow> 'st \<Rightarrow> cache_error option \<times> 'st" where
  "CacheEmailAddress rc a =
     set_cached (ccf_CacheEmailAddresses (rc_config rc)) rc (rc_address rc) (email_id_key (ea_ID a)) a (ccf_EmailAddressTTL (rc_config rc))"

definition CacheEmailAddressByAddress :: "'st RepositoryCache \<Rightarrow> string \<Rightarrow> EmailAddress \<Rightarrow> 'st \<Rightarrow> cache_error option \<times> 'st" where
  "CacheEmailAddressByAddress rc n a =
     set_cached (ccf_CacheEmailAddresses (rc_config rc)) rc (rc_address rc) (email_address_key n) a (ccf_EmailAddressTTL (rc_config rc))"

definition GetCachedEmailAddress :: "'st RepositoryCache \<Rightarrow> uuid \<Rightarrow> 'st \<Rightarrow> (cache_error + EmailAddress) \<times> 'st" where
  "GetCachedEmailAddress rc i = get_cached (ccf_CacheEmailAddresses (rc_config rc)) rc (rc_address rc) (email_id_key i)"

definition GetCachedEmailAddressByAddress :: "'st RepositoryCache \<Rightarrow> string \<Rightarrow> 'st \<Rightarrow> (cache_error + EmailAddress) \<times> 'st" where
  "GetCachedEmailAddressByAddress rc n = get_cached (ccf_CacheEmailAddresses (rc_config rc)) rc (rc_address rc) (email_address_key n)"

definition CacheDomainEmailAddresses :: "'st RepositoryCache \<Rightarrow> uuid \<Rightarrow> EmailAddress list \<Rightarrow> 'st \<Rightarrow> cache_error option \<times> 'st" where
  "CacheDomainEmailAddresses rc i as =
     set_cached (ccf_CacheEmailAddresses (rc_config rc)) rc (rc_addresses rc) (domain_emails_key i) as (ccf_EmailAddressTTL (rc_config rc))"

definition GetCachedDomainEmailAddresses :: "'st RepositoryCache \<Rightarrow> uuid \<Rightarrow> 'st \<Rightarrow> (cache_error + EmailAddress list) \<times> 'st" where
  "GetCachedDomainEmailAddresses rc i = get_cached (ccf_CacheEmailAddresses (rc_config rc)) rc (rc_addresses rc) (domain_emails_key i)"

definition InvalidateEmailAddress :: "'st RepositoryCache \<Rightarrow> EmailAddress \<Rightarrow> string \<Rightarrow> 'st \<Rightarrow> cache_error option \<times> 'st" where
  "InvalidateEmailAddress rc a n = when_cached (ccf_CacheEmailAddresses (rc_config rc)) rc
     (\<lambda>ops. delete_all ops ([email_id_key (ea_ID a)] @ (if n \<noteq> [] then [email_address_key n] else []) @ [domain_emails_key (ea_DomainID a)]))"

definition CacheRecentReceivedEmails :: "'st RepositoryCache \<Rightarrow> uuid \<Rightarrow> ReceivedEmail list \<Rightarrow> 'st \<Rightarrow> cache_error option \<times> 'st" where
  "CacheRecentReceivedEmails rc i ms =
     set_cached (ccf_CacheReceivedEmails (rc_config rc)) rc (rc_received rc) (received_key i) ms (ccf_ReceivedEmailTTL (rc_config rc))"

definition GetCachedRecentReceivedEmails :: "'st RepositoryCache \<Rightarrow> uuid \<Rightarrow> 'st \<Rightarrow> (cache_error + ReceivedEmail list) \<times> 'st" where
  "GetCachedRecentReceivedEmails rc i = get_cached (ccf_CacheReceivedEmails (rc_config rc)) rc (rc_received rc) (received_key i)"

definition InvalidateReceivedEmails :: "'st RepositoryCache \<Rightarrow> uuid \<Rightarrow> 'st \<Rightarrow> cache_error option \<times> 'st" where
  "InvalidateReceivedEmails rc i = when_cached (ccf_CacheReceivedEmails (rc_config rc)) rc (\<lambda>ops. co_Delete ops (received_key i))"

definition InvalidateUserData :: "'st RepositoryCache \<Rightarrow> uuid \<Rightarrow> 'st \<Rightarrow> cache_error option \<times> 'st" where
  "InvalidateUserData rc u = when_cached True rc (\<lambda>ops. co_DeletePattern ops (''*user:'' @ uuid_String u @ ''*''))"

definition InvalidateAll :: "'st RepositoryCache \<Rightarrow> 'st \<Rightarrow> cache_error option \<times> 'st" where
  "InvalidateAll rc = when_cached True rc co_FlushDB"

end
