(* ===== verification/CacheConsistency.thy ===== *)
theory CacheConsistency
  imports CacheStore Accounts DomainUseCase
begin

text \<open>
  What the cache of the repositories answers. The interface is the locale \<open>cache_store\<close>, over what each key holds; the Redis client is an
  interpretation of it.
\<close>

section \<open>The contract\<close>

locale cache_store =
  fixes ops :: "'st cache_ops" and look :: "'st \<Rightarrow> string \<Rightarrow> string option" and covers :: "string \<Rightarrow> string \<Rightarrow> bool"
  assumes stored: "co_Set ops k (Some v) ttl st = (None, st') \<Longrightarrow> 0 < ttl \<Longrightarrow> look st' = (look st)(k \<mapsto> v)"
    and not_stored: "co_Set ops k data ttl st = (Some err, st') \<Longrightarrow> look st' = look st"
    and nothing_to_store: "co_Set ops k None ttl st = (Some MarshalFailed, st)"
    and read: "co_Get ops k st = (r, st') \<Longrightarrow> look st' = look st \<and> r \<in> {Inl GetFailed, case look st k of None \<Rightarrow> Inl ErrCacheMiss | Some v \<Rightarrow> Inr v}"
    and deleted: "co_Delete ops k st = (e, st') \<Longrightarrow> look st' = (if e = None then (look st)(k := None) else look st)"
    and swept: "co_DeletePattern ops p st = (e, st') \<Longrightarrow> look st' = (if e = None then (\<lambda>k. if covers p k then None else look st k) else look st)"
begin

lemma cached_value:
  assumes "set_cached on rc cd k v ttl st = (None, st')" "on" "rc_cache rc = Some ops" "cd_Unmarshal cd (the (cd_Marshal cd v)) = Some v" "0 < ttl"
  shows "\<exists>t. cd_Marshal cd v = Some t \<and> look st' = (look st)(k \<mapsto> t)"
  using assms by (cases "cd_Marshal cd v") (auto simp: set_cached_def when_cached_def nothing_to_store dest: stored)

lemma get_cached_value:
  assumes "on" "rc_cache rc = Some ops" "look st k = Some t" "cd_Unmarshal cd t = Some v"
  shows "fst (get_cached on rc cd k st) \<in> {Inr v, Inl GetFailed} \<and> look (snd (get_cached on rc cd k st)) = look st"
proof -
  obtain r st' where r: "co_Get ops k st = (r, st')" by fastforce
  from read [OF r] show ?thesis using assms r by (auto simp: get_cached_def read_value_def)
qed

lemma get_cached_missing:
  assumes "look st k = None"  "rc_cache rc = Some ops"
  shows "fst (get_cached on rc cd k st) \<in> {Inl ErrCacheMiss, Inl GetFailed}"
proof -
  obtain r st' where r: "co_Get ops k st = (r, st')" by fastforce
  from read [OF r] show ?thesis using assms r by (auto simp: get_cached_def read_value_def)
qed

text \<open>Deleting keys changes no other one, whichever of the commands fail.\<close>

lemma delete_all_look:
  "look (snd (delete_all ops ks st)) k = look st k \<or> k \<in> set ks \<and> look (snd (delete_all ops ks st)) k = None"
proof (induction ks arbitrary: st)
  case (Cons x ks)
  obtain e st1 where d: "co_Delete ops x st = (e, st1)" by fastforce
  have "look st1 k = look st k \<or> k = x \<and> look st1 k = None" using deleted [OF d] by auto
  then show ?case using Cons [of st1] d by (auto simp: delete_all_def)
qed (simp add: delete_all_def)

lemma domain_cached:
  assumes "CacheDomain rc d st = (None, st')" "ccf_CacheDomains (rc_config rc)" "rc_cache rc = Some ops"
    and "cd_Unmarshal (rc_domain rc) (the (cd_Marshal (rc_domain rc) d)) = Some d" "0 < ccf_DomainTTL (rc_config rc)"
  shows "\<exists>t. cd_Unmarshal (rc_domain rc) t = Some d \<and>
    look st' = (look st)(domain_id_key (d_ID d) \<mapsto> t, domain_name_key (d_Domain d) \<mapsto> t, domain_apikey_key (d_APIKey d) \<mapsto> t)"
proof (cases "cd_Marshal (rc_domain rc) d")
  case None
  then show ?thesis using assms(1-3) by (simp add: CacheDomain_def when_cached_def nothing_to_store Let_def)
next
  case (Some t)
  let ?set = "\<lambda>k. co_Set ops k (Some t) (ccf_DomainTTL (rc_config rc))"
  obtain st1 where 1: "?set (domain_id_key (d_ID d)) st = (None, st1)"
    using assms(1-3) Some by (cases "?set (domain_id_key (d_ID d)) st") (auto simp: CacheDomain_def when_cached_def Let_def split: option.splits)
  obtain st2 where 2: "?set (domain_name_key (d_Domain d)) st1 = (None, st2)"
    using assms(1-3) Some 1 by (cases "?set (domain_name_key (d_Domain d)) st1") (auto simp: CacheDomain_def when_cached_def Let_def split: option.splits)
  have 3: "?set (domain_apikey_key (d_APIKey d)) st2 = (None, st')"
    using assms(1-3) Some 1 2 by (simp add: CacheDomain_def when_cached_def Let_def)
  show ?thesis using stored [OF 1 assms(5)] stored [OF 2 assms(5)] stored [OF 3 assms(5)] assms(4) Some by auto
qed

end

section \<open>Redis\<close>

definition enabled_cache :: "string \<Rightarrow> duration \<Rightarrow> RedisCache" where
  "enabled_cache p ttl = \<lparr>rdc_Enabled = True, rdc_KeyPrefix = p, rdc_DefaultTTL = ttl\<rparr>"

lemma held_faults [simp]: "held (st\<lparr>rds_faults := fs\<rparr>) = held st"
  by (simp add: held_def)

lemma command_cases:
  assumes "command f st = (r, st')"
  obtains fs where "r = None" "st' = st\<lparr>rds_faults := fs\<rparr>" | x fs where "r = Some x" "f (st\<lparr>rds_faults := fs\<rparr>) = (x, st')"
proof (cases "rds_faults st")
  case Nil
  then have "st\<lparr>rds_faults := []\<rparr> = st" by simp
  moreover obtain x where "f st = (x, st')" "r = Some x" using assms Nil by (auto simp: command_def split: prod.splits)
  ultimately show ?thesis using that(2) [of x "[]"] by simp
next
  case (Cons b fs)
  then show ?thesis using assms that by (cases b) (auto simp: command_def split: prod.splits)
qed

lemma map_of_filter_keys: "map_of (filter (\<lambda>(x, _). P x) xs) k = (if P k then map_of xs k else None)"
  by (induction xs) auto

lemma live_value_filter: "live_value now (filter (\<lambda>(x, _). P x) m) k = (if P k then live_value now m k else None)"
  by (simp add: live_value_def map_of_filter_keys)

lemma held_put:
  assumes "ren_Expires e = expiry (rds_now st) ttl" "0 < ttl"
  shows "held (put_entry k e st) = (held st)(k \<mapsto> ren_Value e)"
proof
  have "alive (rds_now st) e" using assms by (simp add: alive_def expiry_def)
  then show "held (put_entry k e st) x = ((held st)(k \<mapsto> ren_Value e)) x" for x
    using live_value_filter [of "rds_now st" "\<lambda>x. x \<noteq> k" "rds_map st" x]
    by (simp add: held_def put_entry_def live_value_def)
qed

lemma held_key: "held st k \<noteq> None \<Longrightarrow> k \<in> fst ` set (rds_map st)"
  by (auto simp: held_def live_value_def split: option.splits dest: map_of_SomeD) (metis fst_conv image_eqI map_of_SomeD)

lemma redis_Del_look:
  assumes "redis_Del ks st = (r, st')"
  shows "held st' k = (if r \<noteq> None \<and> k \<in> set ks then None else held st k)"
  using assms unfolding redis_Del_def by (cases rule: command_cases) (auto simp: held_def live_value_filter)

interpretation rds: cache_store "redis_ops (enabled_cache p dflt)" "\<lambda>st k. held st (p @ k)" "\<lambda>pat k. glob (p @ pat) (p @ k)" for p dflt
proof
  show "co_Set (redis_ops (enabled_cache p dflt)) k None ttl st = (Some MarshalFailed, st)" for k ttl st
    by (simp add: redis_ops_def enabled_cache_def RedisCache_Set_def)
next
  fix k v ttl st st'
  assume "co_Set (redis_ops (enabled_cache p dflt)) k (Some v) ttl st = (None, st')" "0 < ttl"
  then obtain u where "redis_Set (p @ k) v ttl st = (Some u, st')"
    by (auto simp: redis_ops_def enabled_cache_def RedisCache_Set_def buildKey_def split: prod.splits option.splits)
  then show "(\<lambda>k. held st' (p @ k)) = (\<lambda>k. held st (p @ k))(k \<mapsto> v)"
    unfolding redis_Set_def by (cases rule: command_cases) (use \<open>0 < ttl\<close> in \<open>auto simp: held_put fun_eq_iff\<close>)
next
  fix k data ttl st e st'
  assume a: "co_Set (redis_ops (enabled_cache p dflt)) k data ttl st = (Some e, st')"
  show "(\<lambda>k. held st' (p @ k)) = (\<lambda>k. held st (p @ k))"
  proof (cases data)
    case (Some v)
    define ttl' where "ttl' = (if ttl = 0 then dflt else ttl)"
    have "redis_Set (p @ k) v ttl' st = (None, st')"
      using a Some by (auto simp: redis_ops_def enabled_cache_def RedisCache_Set_def buildKey_def ttl'_def split: prod.splits option.splits)
    then show ?thesis unfolding redis_Set_def by (cases rule: command_cases) auto
  qed (use a in \<open>simp add: redis_ops_def enabled_cache_def RedisCache_Set_def\<close>)
next
  fix k st r st'
  assume "co_Get (redis_ops (enabled_cache p dflt)) k st = (r, st')"
  then obtain x where g: "redis_Get (p @ k) st = (x, st')"
      "r = (case x of None \<Rightarrow> Inl GetFailed | Some None \<Rightarrow> Inl ErrCacheMiss | Some (Some d) \<Rightarrow> Inr d)"
    by (auto simp: redis_ops_def enabled_cache_def RedisCache_Get_def buildKey_def split: prod.splits option.splits)
  from g(1) have "held st' = held st \<and> (x = None \<or> x = Some (held st (p @ k)))"
    unfolding redis_Get_def by (cases rule: command_cases) auto
  then show "(\<lambda>k. held st' (p @ k)) = (\<lambda>k. held st (p @ k)) \<and>
      r \<in> {Inl GetFailed, case held st (p @ k) of None \<Rightarrow> Inl ErrCacheMiss | Some v \<Rightarrow> Inr v}"
    using g(2) by (auto split: option.split)
next
  fix k st e st'
  assume "co_Delete (redis_ops (enabled_cache p dflt)) k st = (e, st')"
  then obtain r where "redis_Del [p @ k] st = (r, st')" "e = (if r = None then Some DeleteFailed else None)"
    by (auto simp: redis_ops_def enabled_cache_def RedisCache_Delete_def buildKey_def split: prod.splits option.splits)
  then show "(\<lambda>k. held st' (p @ k)) = (if e = None then (\<lambda>k. held st (p @ k))(k := None) else (\<lambda>k. held st (p @ k)))"
    by (auto simp: redis_Del_look fun_eq_iff)
next
  fix pat st e st'
  assume a: "co_DeletePattern (redis_ops (enabled_cache p dflt)) pat st = (e, st')"
  obtain ks st1 where k: "redis_Keys (p @ pat) st = (ks, st1)" by fastforce
  then have h: "held st1 = held st" and ks: "ks = None \<or> ks = Some (filter (\<lambda>k. held st k \<noteq> None \<and> glob (p @ pat) k) (map fst (rds_map st)))"
    unfolding redis_Keys_def by (cases rule: command_cases; auto)+
  show "(\<lambda>k. held st' (p @ k)) = (if e = None then (\<lambda>k. if glob (p @ pat) (p @ k) then None else held st (p @ k)) else (\<lambda>k. held st (p @ k)))"
  proof (cases ks)
    case None
    then have "e = Some KeysFailed" "st' = st1" using a k by (simp_all add: redis_ops_def enabled_cache_def RedisCache_DeletePattern_def buildKey_def)
    then show ?thesis using h by simp
  next
    case (Some keys)
    then have in_keys: "x \<in> set keys \<longleftrightarrow> held st x \<noteq> None \<and> glob (p @ pat) x" for x using ks held_key by auto
    consider r where "redis_Del keys st1 = (r, st')" "e = (if r = None then Some DeleteFailed else None)" | "keys = []" "st' = st1" "e = None"
      using a k Some by (auto simp: redis_ops_def enabled_cache_def RedisCache_DeletePattern_def buildKey_def split: if_splits prod.splits option.splits)
    then show ?thesis
    proof cases
      case 1
      then have "held st' x = (if r \<noteq> None \<and> x \<in> set keys then None else held st x)" for x using redis_Del_look [OF 1(1)] h by simp
      then show ?thesis using 1(2) in_keys by (cases r) (auto simp: fun_eq_iff)
    next
      case 2
      then have "held st' x = (if glob (p @ pat) x then None else held st x)" for x using in_keys [of x] h by auto
      then show ?thesis using 2 by simp
    qed
  qed
qed

section \<open>Patterns\<close>

definition plain_text :: "string \<Rightarrow> bool" where
  "plain_text s \<longleftrightarrow> (\<forall>c \<in> set s. c \<notin> {CHR ''*'', CHR ''?'', CHR ''['', CHR 0x5C})"

lemma plain_text_Cons [simp]: "plain_text (c # s) \<longleftrightarrow> c \<notin> {CHR ''*'', CHR ''?'', CHR ''['', CHR 0x5C} \<and> plain_text s"
  by (auto simp: plain_text_def)

lemma plain_text_append [simp]: "plain_text (s @ t) \<longleftrightarrow> plain_text s \<and> plain_text t" "plain_text []"
  by (auto simp: plain_text_def)

lemma glob_plain: "plain_text p \<Longrightarrow> glob (p @ q) (p @ s) = glob q s"
  by (induction p) simp_all

lemma glob_literal: "plain_text p \<Longrightarrow> glob (p @ q) s \<Longrightarrow> \<exists>t. s = p @ t \<and> glob q t"
proof (induction p arbitrary: s)
  case (Cons c p)
  then obtain t where "s = c # t" "glob (p @ q) t" by (cases s) auto
  then show ?case using Cons by auto
qed simp

lemma glob_star: "glob (CHR ''*'' # q) s \<Longrightarrow> \<exists>a t. s = a @ t \<and> glob q t"
proof (induction s)
  case (Cons x s)
  then consider "glob q (x # s)" | "glob (CHR ''*'' # q) s" by auto
  then show ?case
  proof cases
    case 2
    then obtain a t where "s = a @ t" "glob q t" using Cons.IH by blast
    then have "x # s = (x # a) @ t" by simp
    then show ?thesis using \<open>glob q t\<close> by blast
  qed (metis append_Nil)
qed (metis append_Nil glob.simps(2))

text \<open>A literal between stars must occur.\<close>

lemma glob_infix: "plain_text p \<Longrightarrow> glob (CHR ''*'' # p @ q) s \<Longrightarrow> \<exists>a t. s = a @ p @ t"
  using glob_star glob_literal by blast

lemma uuid_String_chars: "c \<in> set (uuid_String u) \<Longrightarrow> c = CHR ''-'' \<or> (\<exists>n<16. c = hex_digit n)"
proof -
  assume c: "c \<in> set (uuid_String u)"
  define ds where "ds = map (\<lambda>i. hex_digit (unat (drop_bit (4 * (31 - i)) u) mod 16)) [0..<32]"
  have "\<forall>x \<in> set ds. \<exists>n<16. x = hex_digit n" unfolding ds_def by (auto intro!: exI [of _ "_ mod 16"])
  moreover have "c = CHR ''-'' \<or> c \<in> set ds"
    using c by (auto simp: uuid_String_def Let_def ds_def [symmetric] dest!: in_set_takeD in_set_dropD)
  ultimately show ?thesis by blast
qed

lemma hex_digit_chars: "n < 16 \<Longrightarrow> is_digit (hex_digit n) \<or> 97 \<le> code (hex_digit n) \<and> code (hex_digit n) \<le> 102"
  by (auto simp: hex_digit_def is_digit_def)

lemma hex_digit_plain:
  assumes "n < 16"
  shows "hex_digit n \<notin> {CHR ''*'', CHR ''?'', CHR ''['', CHR 0x5C, CHR ''i'', CHR ''u'', CHR ''m''}"
  using hex_digit_chars [OF assms] by (auto simp: is_digit_def)

lemma plain_uuid [simp]: "plain_text (uuid_String u)"
  unfolding plain_text_def using uuid_String_chars hex_digit_plain by fastforce

lemma uuid_String_hd: "hd (uuid_String u) \<noteq> CHR ''i''" "uuid_String u \<noteq> []"
proof -
  show ne: "uuid_String u \<noteq> []" using uuid_String_length [of u] by auto
  then have "hd (uuid_String u) = CHR ''-'' \<or> (\<exists>n<16. hd (uuid_String u) = hex_digit n)" by (intro uuid_String_chars [of _ u]) simp
  then show "hd (uuid_String u) \<noteq> CHR ''i''" using hex_digit_plain by fastforce
qed

lemma user_key_not_covered: "\<not> glob (''*user:'' @ uuid_String u @ ''*'') (user_id_key u)"
proof
  assume "glob (''*user:'' @ uuid_String u @ ''*'') (user_id_key u)"
  then have "\<exists>a t. user_id_key u = a @ (''user:'' @ uuid_String u) @ t" by (intro glob_infix [where q = "''*''"]) simp_all
  then obtain a t where s: "''user:id:'' @ uuid_String u = a @ ''user:'' @ uuid_String u @ t" unfolding user_id_key_def append_assoc by blast
  then have "length a \<le> 3" by (drule_tac arg_cong [of _ _ length]) simp
  then consider "a = []" | x where "a = [x]" | x y where "a = [x, y]" | x y z where "a = [x, y, z]"
    by (metis (no_types, opaque_lifting) le_Suc_eq le_zero_eq length_0_conv length_Suc_conv numeral_3_eq_3)
  then show False
  proof cases
    case 1
    then have "hd (uuid_String u @ t) = CHR ''i''" using s by (metis append_Cons append_Nil list.inject list.sel(1))
    then show False using uuid_String_hd [of u] by simp
  qed (use s in simp_all)
qed

text \<open>While the server answers, a value is read and a deletion deletes.\<close>

lemma get_cached_answered:
  assumes "rc_cache rc = Some (redis_ops (enabled_cache p dflt))" "rds_faults st = []"
  shows "get_cached True rc cd k st = (case held st (p @ k) of None \<Rightarrow> Inl ErrCacheMiss
    | Some t \<Rightarrow> (case cd_Unmarshal cd t of None \<Rightarrow> Inl UnmarshalFailed | Some v \<Rightarrow> Inr v), st)"
  using assms by (simp add: get_cached_def redis_ops_def enabled_cache_def RedisCache_Get_def redis_Get_def command_def buildKey_def read_value_def
      split: option.split)

lemma delete_all_answered:
  "rds_faults st = [] \<Longrightarrow> rds_faults (snd (delete_all (redis_ops (enabled_cache p dflt)) ks st)) = [] \<and>
    held (snd (delete_all (redis_ops (enabled_cache p dflt)) ks st)) (p @ k) = (if k \<in> set ks then None else held st (p @ k))"
proof (induction ks arbitrary: st)
  case (Cons x ks)
  obtain e st1 where d: "co_Delete (redis_ops (enabled_cache p dflt)) x st = (e, st1)" by fastforce
  then have "e = None" "rds_faults st1 = []"
    using Cons.prems by (auto simp: redis_ops_def enabled_cache_def RedisCache_Delete_def redis_Del_def command_def)
  moreover have "held st1 (p @ k) = (if k = x then None else held st (p @ k))" using fun_cong [OF rds.deleted [OF d], of k] \<open>e = None\<close> by auto
  ultimately show ?case using Cons.IH [of st1] d by (cases "k = x") (simp_all add: delete_all_def)
qed (simp add: delete_all_def)

section \<open>Properties\<close>

text \<open>
  A domain that was cached is found under its id, its name and its key, and the call that invalidates it makes all three miss, as long as the server
  answers.
\<close>

theorem cached_domain_found:
  assumes "rc_cache rc = Some (redis_ops (enabled_cache p dflt))" "ccf_CacheDomains (rc_config rc)" "0 < ccf_DomainTTL (rc_config rc)"
    and "cd_Unmarshal (rc_domain rc) (the (cd_Marshal (rc_domain rc) d)) = Some d" "CacheDomain rc d st = (None, st')" "rds_faults st' = []"
  shows "\<forall>g \<in> {GetCachedDomain rc (d_ID d), GetCachedDomainByName rc (d_Domain d), GetCachedDomainByAPIKey rc (d_APIKey d)}.
    g st' = (Inr d, st') \<and> fst (g (snd (InvalidateDomain rc d u st'))) = Inl ErrCacheMiss"
proof (intro ballI)
  fix g
  assume g: "g \<in> {GetCachedDomain rc (d_ID d), GetCachedDomainByName rc (d_Domain d), GetCachedDomainByAPIKey rc (d_APIKey d)}"
  obtain t where t: "cd_Unmarshal (rc_domain rc) t = Some d" "(\<lambda>k. held st' (p @ k)) = (\<lambda>k. held st (p @ k))
      (domain_id_key (d_ID d) \<mapsto> t, domain_name_key (d_Domain d) \<mapsto> t, domain_apikey_key (d_APIKey d) \<mapsto> t)"
    using rds.domain_cached [OF assms(5,2,1,4,3)] by blast
  let ?ks = "[domain_id_key (d_ID d), domain_name_key (d_Domain d), domain_apikey_key (d_APIKey d)]"
  obtain k where k: "g = get_cached (ccf_CacheDomains (rc_config rc)) rc (rc_domain rc) k" "k \<in> set ?ks"
    using g by (auto simp: GetCachedDomain_def GetCachedDomainByName_def GetCachedDomainByAPIKey_def)
  have "held st' (p @ k) = Some t" using k(2) fun_cong [OF t(2), of k] by auto
  then show "g st' = (Inr d, st') \<and> fst (g (snd (InvalidateDomain rc d u st'))) = Inl ErrCacheMiss"
    using k assms(1,2,6) t(1) delete_all_answered [OF assms(6), of p dflt _ k]
    by (auto simp: get_cached_answered InvalidateDomain_def when_cached_def)
qed

text \<open>
  \<open>InvalidateUserData\<close> leaves the user it names in the cache: the pattern it deletes asks for the id right after \<open>user:\<close>, and the key of a user has
  \<open>user:id:\<close> before it. Only the list of the user's domains goes.
\<close>

theorem user_data_not_invalidated:
  assumes "rc_cache rc = Some (redis_ops (enabled_cache p dflt))" "ccf_CacheUsers (rc_config rc)" "0 < ccf_UserTTL (rc_config rc)" "plain_text p"
    and "cd_Unmarshal (rc_user rc) (the (cd_Marshal (rc_user rc) u)) = Some u" "CacheUser rc u st = (None, st1)" "rds_faults st1 = []"
  shows "\<exists>st2. InvalidateUserData rc (u_ID u) st1 = (None, st2) \<and> GetCachedUser rc (u_ID u) st2 = (Inr u, st2) \<and>
    held st2 (p @ user_domains_key (u_ID u)) = None"
proof -
  obtain t where t: "cd_Marshal (rc_user rc) u = Some t" "(\<lambda>k. held st1 (p @ k)) = (\<lambda>k. held st (p @ k))(user_id_key (u_ID u) \<mapsto> t)"
    using rds.cached_value [OF assms(6) [unfolded CacheUser_def] assms(2,1,5,3)] by blast
  let ?pat = "''*user:'' @ uuid_String (u_ID u) @ ''*''"
  obtain e st2 where d: "co_DeletePattern (redis_ops (enabled_cache p dflt)) ?pat st1 = (e, st2)" by fastforce
  then have e: "e = None" "rds_faults st2 = []"
    using assms(7) by (auto simp: redis_ops_def enabled_cache_def RedisCache_DeletePattern_def redis_Keys_def redis_Del_def command_def split: if_splits)
  have h: "held st2 (p @ k) = (if glob (p @ ?pat) (p @ k) then None else held st1 (p @ k))" for k
    using fun_cong [OF rds.swept [OF d], of k] e(1) by simp
  have "held st2 (p @ user_id_key (u_ID u)) = Some t"
    using h [of "user_id_key (u_ID u)"] user_key_not_covered [of "u_ID u"] fun_cong [OF t(2), of "user_id_key (u_ID u)"]
    by (simp add: glob_plain [OF assms(4)] del: append_Cons)
  moreover have "glob ?pat (user_domains_key (u_ID u))" using glob_plain [OF plain_uuid, of _ "''*''" "[]"] by (simp add: user_domains_key_def)
  then have "held st2 (p @ user_domains_key (u_ID u)) = None" using h [of "user_domains_key (u_ID u)"] by (simp add: glob_plain [OF assms(4)] del: append_Cons)
  moreover have "InvalidateUserData rc (u_ID u) st1 = (None, st2)" using assms(1) d e(1) by (simp add: InvalidateUserData_def when_cached_def)
  ultimately show ?thesis using assms(1,2,5) e(2) t(1) by (simp add: GetCachedUser_def get_cached_answered)
qed

section \<open>Samples\<close>

text \<open>One value per type stands for its JSON.\<close>

definition one_value :: "'v \<Rightarrow> 'v codec" where
  "one_value v = \<lparr>cd_Marshal = (\<lambda>_. Some ''{}''), cd_Unmarshal = (\<lambda>_. Some v)\<rparr>"

definition sample_cache :: "redis RepositoryCache" where
  "sample_cache = \<lparr>rc_cache = Some (redis_ops (enabled_cache ''mailvault:'' 300000000000)), rc_config = DefaultCacheConfig, rc_user = one_value sample_user,
     rc_domain = one_value sample_domain, rc_domains = one_value [], rc_address = one_value (EmailAddress.fields 0 0 [] [] False 0 0), rc_addresses = one_value [],
     rc_received = one_value []\<rparr>"

definition empty_redis :: redis where
  "empty_redis = \<lparr>rds_now = 0, rds_map = [], rds_faults = []\<rparr>"

lemmas sample_cache_defs = sample_cache_def one_value_def DefaultCacheConfig_def empty_redis_def when_cached_def set_cached_def redis_ops_def enabled_cache_def
  RedisCache_Set_def redis_Set_def command_def put_entry_def

theorem cached_domain_found_witness:
  "\<exists>st'. CacheDomain sample_cache sample_domain empty_redis = (None, st') \<and> fst (GetCachedDomainByName sample_cache ''a.org'' st') = Inr sample_domain \<and>
     fst (GetCachedDomainByName sample_cache ''a.org'' (snd (InvalidateDomain sample_cache sample_domain 1 st'))) = Inl ErrCacheMiss"
proof -
  obtain st' where c: "CacheDomain sample_cache sample_domain empty_redis = (None, st')" "rds_faults st' = []"
    by (simp add: CacheDomain_def sample_cache_defs Let_def)
  have "d_Domain sample_domain = ''a.org''" by (simp add: sample_domain_def)
  then show ?thesis
    using cached_domain_found [of sample_cache "''mailvault:''" 300000000000 sample_domain empty_redis st' 1] c
    by (auto simp: sample_cache_def one_value_def DefaultCacheConfig_def)
qed

theorem user_data_not_invalidated_witness:
  "\<exists>st1 st2. CacheUser sample_cache sample_user empty_redis = (None, st1) \<and> InvalidateUserData sample_cache (u_ID sample_user) st1 = (None, st2) \<and>
     fst (GetCachedUser sample_cache (u_ID sample_user) st2) = Inr sample_user"
proof -
  obtain st1 where c: "CacheUser sample_cache sample_user empty_redis = (None, st1)" "rds_faults st1 = []"
    by (simp add: CacheUser_def sample_cache_defs Let_def)
  then show ?thesis
    using user_data_not_invalidated [of sample_cache "''mailvault:''" 300000000000 sample_user empty_redis st1]
    by (auto simp: sample_cache_def one_value_def DefaultCacheConfig_def plain_text_def)
qed

end
