(* ===== verification/ResponseCache.thy ===== *)
theory ResponseCache
  imports CacheConsistency
begin

text \<open>
  The middleware that caches answers, \<open>app/api/middleware/cache.go\<close>, over the interface of \<open>CacheStore\<close>. A handler is the sequence of its calls on the
  \<open>http.ResponseWriter\<close>; \<open>sha256\<close>, the clock and the JSON of a cached answer are arguments.
\<close>

section \<open>Writers\<close>

datatype write_op = SetHeader string string | WriteHeader int | WriteBody string

text \<open>The writer of \<open>net/http\<close>: the headers are sent with the first status, which a body without one sets to 200; later ones are ignored.\<close>

record reply =
  rp_Header :: http_header
  rp_Status :: "int option"
  rp_Sent :: http_header
  rp_Body :: string

definition new_reply :: reply where
  "new_reply = \<lparr>rp_Header = [], rp_Status = None, rp_Sent = [], rp_Body = []\<rparr>"

definition send_status :: "int \<Rightarrow> reply \<Rightarrow> reply" where
  "send_status n w = (if rp_Status w = None then w\<lparr>rp_Status := Some n, rp_Sent := rp_Header w\<rparr> else w)"

definition send_body :: "string \<Rightarrow> reply \<Rightarrow> reply" where
  "send_body b w = (let w1 = send_status 200 w in w1\<lparr>rp_Body := rp_Body w1 @ b\<rparr>)"

definition add_headers :: "http_header \<Rightarrow> reply \<Rightarrow> reply" where
  "add_headers h w = w\<lparr>rp_Header := rp_Header w @ map (\<lambda>(k, v). (CanonicalHeaderKey k, v)) h\<rparr>"

fun plain_write :: "write_op \<Rightarrow> reply \<Rightarrow> reply" where
  "plain_write (SetHeader k v) w = w\<lparr>rp_Header := Header_Set k v (rp_Header w)\<rparr>"
| "plain_write (WriteHeader n) w = send_status n w"
| "plain_write (WriteBody b) w = send_body b w"

text \<open>\<open>cacheResponseWriter\<close> keeps the headers to itself until \<open>WriteHeader\<close> is called.\<close>

record cacheResponseWriter =
  cw_inner :: reply
  cw_buf :: string
  cw_headers :: http_header
  cw_statusCode :: int

fun cache_write :: "write_op \<Rightarrow> cacheResponseWriter \<Rightarrow> cacheResponseWriter" where
  "cache_write (SetHeader k v) w = w\<lparr>cw_headers := Header_Set k v (cw_headers w)\<rparr>"
| "cache_write (WriteHeader n) w = w\<lparr>cw_statusCode := n, cw_inner := send_status n (add_headers (cw_headers w) (cw_inner w))\<rparr>"
| "cache_write (WriteBody b) w = w\<lparr>cw_buf := cw_buf w @ b, cw_inner := send_body b (cw_inner w)\<rparr>"

section \<open>What is cached\<close>

record ResponseCacheConfig =
  rcf_DefaultTTL :: duration
  rcf_EnableResponseCache :: bool
  rcf_CacheOnlyGET :: bool
  rcf_ExcludePaths :: "string list"
  rcf_IncludePaths :: "string list"
  rcf_CacheSuccessOnly :: bool
  rcf_MaxResponseSize :: int
  rcf_CacheContentTypes :: "string list"

definition DefaultResponseCacheConfig :: ResponseCacheConfig where
  "DefaultResponseCacheConfig = \<lparr>rcf_DefaultTTL = 5 * time_Minute, rcf_EnableResponseCache = True, rcf_CacheOnlyGET = True,
     rcf_ExcludePaths = [''/health'', ''/ready'', ''/metrics'', ''/api/v1/send'', ''/api/v1/login'', ''/api/v1/register''],
     rcf_IncludePaths = [''/api/v1/domains'', ''/api/v1/me'', ''/api/v1/emails''], rcf_CacheSuccessOnly = True, rcf_MaxResponseSize = 1048576,
     rcf_CacheContentTypes = [''application/json'', ''text/plain'']\<rparr>"

definition shouldCache :: "ResponseCacheConfig \<Rightarrow> api_request \<Rightarrow> bool" where
  "shouldCache cfg r \<longleftrightarrow>
     \<not> (rcf_CacheOnlyGET cfg \<and> rq_Method r \<noteq> ''GET'') \<and> \<not> list_ex (HasPrefix (rq_Path r)) (rcf_ExcludePaths cfg) \<and>
     (rcf_IncludePaths cfg = [] \<or> list_ex (HasPrefix (rq_Path r)) (rcf_IncludePaths cfg))"

definition shouldCacheResponse :: "ResponseCacheConfig \<Rightarrow> cacheResponseWriter \<Rightarrow> bool" where
  "shouldCacheResponse cfg w \<longleftrightarrow>
     \<not> (rcf_CacheSuccessOnly cfg \<and> (cw_statusCode w < 200 \<or> cw_statusCode w \<ge> 300)) \<and>
     \<not> (rcf_MaxResponseSize cfg > 0 \<and> int (length (cw_buf w)) > rcf_MaxResponseSize cfg) \<and>
     (rcf_CacheContentTypes cfg = [] \<or> list_ex (Contains (Header_Get ''Content-Type'' (cw_headers w))) (rcf_CacheContentTypes cfg))"

text \<open>\<open>rawQuery\<close> is the query as it came.\<close>

definition key_string :: "api_request \<Rightarrow> string \<Rightarrow> string" where
  "key_string r rawQuery = Join ([rq_Method r, rq_Path r] @ (if rawQuery \<noteq> [] then [rawQuery] else []) @
     (case ctx_string ''user_id'' r of Some u \<Rightarrow> [''user:'' @ u] | None \<Rightarrow> []) @
     (let accept = Header_Get ''Accept'' (rq_Header r) in if accept \<noteq> [] then [''accept:'' @ accept] else [])) ''|''"

definition generateCacheKey :: "(string \<Rightarrow> string) \<Rightarrow> api_request \<Rightarrow> string \<Rightarrow> string" where
  "generateCacheKey sha256 r rawQuery = ''http_response:'' @ hex_encode (sha256 (key_string r rawQuery))"

record CachedResponse =
  cre_StatusCode :: int
  cre_Headers :: http_header
  cre_Body :: string
  cre_CachedAt :: instant

record CacheMetrics =
  cmx_Hits :: int
  cmx_Misses :: int
  cmx_Sets :: int
  cmx_Errors :: int

record ('st, 's) cache_state =
  cst_cache :: 'st
  cst_server :: 's
  cst_metrics :: CacheMetrics

definition cacheResponse ::
    "'st cache_ops \<Rightarrow> CachedResponse codec \<Rightarrow> ResponseCacheConfig \<Rightarrow> instant \<Rightarrow> string \<Rightarrow> cacheResponseWriter \<Rightarrow> ('st, 's) cache_state \<Rightarrow> ('st, 's) cache_state" where
  "cacheResponse ops cd cfg now k w s =
     (case co_Set ops k (cd_Marshal cd \<lparr>cre_StatusCode = cw_statusCode w, cre_Headers = cw_headers w, cre_Body = cw_buf w, cre_CachedAt = now\<rparr>)
        (rcf_DefaultTTL cfg) (cst_cache s) of
        (Some _, st) \<Rightarrow> s\<lparr>cst_cache := st, cst_metrics := (cst_metrics s)\<lparr>cmx_Errors := cmx_Errors (cst_metrics s) + 1\<rparr>\<rparr>
      | (None, st) \<Rightarrow> s\<lparr>cst_cache := st, cst_metrics := (cst_metrics s)\<lparr>cmx_Sets := cmx_Sets (cst_metrics s) + 1\<rparr>\<rparr>)"

definition serveCachedResponse :: "CachedResponse \<Rightarrow> reply \<Rightarrow> reply" where
  "serveCachedResponse c w =
     fold plain_write [SetHeader ''X-Cache'' ''HIT'', SetHeader ''X-Cache-Date'' (RFC3339 (cre_CachedAt c)), WriteHeader (cre_StatusCode c), WriteBody (cre_Body c)]
       (add_headers (cre_Headers c) w)"

text \<open>The middleware before a handler; without a cache, or for a request that is not cached, the handler writes to the client.\<close>

definition CacheResponse ::
    "'st cache_ops option \<Rightarrow> CachedResponse codec \<Rightarrow> (string \<Rightarrow> string) \<Rightarrow> ResponseCacheConfig \<Rightarrow> instant \<Rightarrow>
      (api_request \<Rightarrow> 's \<Rightarrow> write_op list \<times> 's) \<Rightarrow> api_request \<Rightarrow> string \<Rightarrow> ('st, 's) cache_state \<Rightarrow> reply \<times> ('st, 's) cache_state" where
  "CacheResponse cache cd sha256 cfg now handler r rawQuery s =
     (let direct = (case handler r (cst_server s) of (ws, sv) \<Rightarrow> (fold plain_write ws new_reply, s\<lparr>cst_server := sv\<rparr>)) in
      case cache of
        None \<Rightarrow> direct
      | Some ops \<Rightarrow>
          if \<not> rcf_EnableResponseCache cfg \<or> \<not> shouldCache cfg r then direct
          else let k = generateCacheKey sha256 r rawQuery in
            case read_value cd (co_Get ops k (cst_cache s)) of
              (Inr c, st) \<Rightarrow>
                (serveCachedResponse c new_reply,
                 s\<lparr>cst_cache := st, cst_metrics := (cst_metrics s)\<lparr>cmx_Hits := cmx_Hits (cst_metrics s) + 1\<rparr>\<rparr>)
            | (Inl _, st) \<Rightarrow>
                (case handler r (cst_server s) of (ws, sv) \<Rightarrow>
                   (let w = fold cache_write ws \<lparr>cw_inner = new_reply, cw_buf = [], cw_headers = [], cw_statusCode = 0\<rparr>;
                        s1 = s\<lparr>cst_cache := st, cst_server := sv, cst_metrics := (cst_metrics s)\<lparr>cmx_Misses := cmx_Misses (cst_metrics s) + 1\<rparr>\<rparr>
                    in (cw_inner w, if shouldCacheResponse cfg w then cacheResponse ops cd cfg now k w s1 else s1))))"

section \<open>Queries and invalidation\<close>

datatype key_part = PartText string | PartInt int

definition CacheKey :: "string \<Rightarrow> key_part list \<Rightarrow> string" where
  "CacheKey k parts = Join (k # map (\<lambda>p. case p of PartText t \<Rightarrow> t | PartInt n \<Rightarrow> FormatInt n) parts) '':''"

text \<open>\<open>dest\<close> is what the destination of the caller holds before and after.\<close>

definition CacheDBQuery ::
    "'st cache_ops option \<Rightarrow> 'v codec \<Rightarrow> string \<Rightarrow> duration \<Rightarrow> ('s \<Rightarrow> ('e + 'v) \<times> 's) \<Rightarrow> 'v \<Rightarrow> 'st \<times> 's \<Rightarrow> 'e option \<times> 'v \<times> 'st \<times> 's" where
  "CacheDBQuery cache cd k ttl query dest s =
     (case cache of
        None \<Rightarrow> (case query (snd s) of (Inl e, sv) \<Rightarrow> (Some e, dest, fst s, sv) | (Inr _, sv) \<Rightarrow> (None, dest, fst s, sv))
      | Some ops \<Rightarrow>
          (case read_value cd (co_Get ops k (fst s)) of
             (Inr v, st) \<Rightarrow> (None, v, st, snd s)
           | (Inl _, st) \<Rightarrow>
               (case query (snd s) of
                  (Inl e, sv) \<Rightarrow> (Some e, dest, st, sv)
                | (Inr v, sv) \<Rightarrow> (None, dest, snd (co_Set ops k (cd_Marshal cd v) ttl st), sv))))"

definition InvalidatePattern :: "'st cache_ops option \<Rightarrow> string \<Rightarrow> 'st \<Rightarrow> cache_error option \<times> 'st" where
  "InvalidatePattern cache pattern st = (case cache of None \<Rightarrow> (None, st) | Some ops \<Rightarrow> co_DeletePattern ops pattern st)"

definition InvalidateUserCache :: "'st cache_ops option \<Rightarrow> string \<Rightarrow> 'st \<Rightarrow> cache_error option \<times> 'st" where
  "InvalidateUserCache cache userID = InvalidatePattern cache (''*user:'' @ userID @ ''*'')"

definition InvalidateDomainCache :: "'st cache_ops option \<Rightarrow> string \<Rightarrow> 'st \<Rightarrow> cache_error option \<times> 'st" where
  "InvalidateDomainCache cache domainID = InvalidatePattern cache (''*domain:'' @ domainID @ ''*'')"

section \<open>Lemmas\<close>

lemma hex_encode_chars: "c \<in> set (hex_encode s) \<Longrightarrow> \<exists>n<16. c = hex_digit n"
proof (induction s)
  case (Cons b s)
  have "code b div 16 < 16" using code_less [of b] by linarith
  then have "\<exists>n<16. hex_digit (code b div 16) = hex_digit n" by blast
  moreover have "\<exists>n<16. hex_digit (code b mod 16) = hex_digit n" by (intro exI [of _ "code b mod 16"]) simp
  ultimately show ?case using Cons by auto
qed simp

lemma response_key_chars: "CHR ''u'' \<notin> set (generateCacheKey sha256 r q)" "CHR ''m'' \<notin> set (generateCacheKey sha256 r q)"
  using hex_encode_chars hex_digit_plain by (fastforce simp: generateCacheKey_def)+

lemma glob_star_char: "glob (CHR ''*'' # a @ c # q) s \<Longrightarrow> plain_text (a @ [c]) \<Longrightarrow> c \<in> set s"
  using glob_infix [of "a @ [c]" q s] by fastforce

text \<open>No pattern of the two invalidations covers the key of an answer.\<close>

lemma response_not_covered:
  "\<not> glob (''*user:'' @ u @ ''*'') (generateCacheKey sha256 r q)" "\<not> glob (''*domain:'' @ u @ ''*'') (generateCacheKey sha256 r q)"
  using glob_star_char [of "[]" "CHR ''u''" "''ser:'' @ u @ ''*''" "generateCacheKey sha256 r q"]
    glob_star_char [of "''do''" "CHR ''m''" "''ain:'' @ u @ ''*''" "generateCacheKey sha256 r q"] response_key_chars [of sha256 r q] by auto

lemma last_segment: "a @ c # s = b @ c # t \<Longrightarrow> c \<notin> set s \<Longrightarrow> c \<notin> set t \<Longrightarrow> a = b \<and> s = t"
proof (induction a arbitrary: b)
  case Nil
  then show ?case by (cases b) auto
next
  case (Cons x a)
  then show ?case by (cases b) auto
qed

lemma Join_snoc: "xs \<noteq> [] \<Longrightarrow> Join (xs @ [y]) sep = Join xs sep @ sep @ y"
  by (induction xs sep rule: Join.induct) simp_all

section \<open>Properties\<close>

text \<open>
  A cached answer is served to the user it was made for. Two requests that passed the authentication and share a key, while no two texts share a hash,
  carry the same user id and agree on method, path and query as they were joined, for ids and \<open>Accept\<close> headers without a bar.
\<close>

theorem cached_answers_private:
  assumes "inj sha256" "generateCacheKey sha256 r q = generateCacheKey sha256 r' q'"
    and "ctx_string ''user_id'' r = Some u" "ctx_string ''user_id'' r' = Some u'" "CHR ''|'' \<notin> set u" "CHR ''|'' \<notin> set u'"
    and "CHR ''|'' \<notin> set (Header_Get ''Accept'' (rq_Header r))" "CHR ''|'' \<notin> set (Header_Get ''Accept'' (rq_Header r'))"
  shows "u' = u \<and> Join ([rq_Method r', rq_Path r'] @ (if q' \<noteq> [] then [q'] else [])) ''|'' = Join ([rq_Method r, rq_Path r] @ (if q \<noteq> [] then [q] else [])) ''|''"
proof -
  define front where "front (r :: api_request) q = Join ([rq_Method r, rq_Path r] @ (if q \<noteq> [] then [q] else [])) ''|''" for r q
  have key: "key_string r q = (let a = Header_Get ''Accept'' (rq_Header r) in
      if a \<noteq> [] then (front r q @ CHR ''|'' # ''user:'' @ u) @ CHR ''|'' # ''accept:'' @ a else front r q @ CHR ''|'' # ''user:'' @ u)"
    if "ctx_string ''user_id'' r = Some u" for r :: api_request and q u
  proof -
    let ?ps = "[rq_Method r, rq_Path r] @ (if q \<noteq> [] then [q] else [])"
    have "Join (?ps @ [''user:'' @ u]) ''|'' = front r q @ CHR ''|'' # ''user:'' @ u" unfolding front_def by (subst Join_snoc) simp_all
    moreover have "Join ((?ps @ [''user:'' @ u]) @ [x]) ''|'' = Join (?ps @ [''user:'' @ u]) ''|'' @ ''|'' @ x" for x by (rule Join_snoc) simp
    ultimately show ?thesis using that by (simp add: key_string_def Let_def del: Join.simps)
  qed
  have "hex_encode (sha256 (key_string r q)) = hex_encode (sha256 (key_string r' q'))" using assms(2) by (simp add: generateCacheKey_def)
  then have "sha256 (key_string r q) = sha256 (key_string r' q')" using hex_bytes_encode [of "[]"] by (metis append_Nil2 option.inject)
  then have eq: "key_string r q = key_string r' q'" using assms(1) by (simp add: inj_eq)
  have bar: "CHR ''|'' \<notin> set (''user:'' @ x) \<longleftrightarrow> CHR ''|'' \<notin> set x" "CHR ''|'' \<notin> set (''accept:'' @ x) \<longleftrightarrow> CHR ''|'' \<notin> set x" for x by simp_all
  have "front r q @ CHR ''|'' # ''user:'' @ u = front r' q' @ CHR ''|'' # ''user:'' @ u'"
    using eq assms(5-8) unfolding key [OF assms(3)] key [OF assms(4)] Let_def
    by (auto simp only: bar split: if_splits dest!: last_segment) simp_all
  then have "front r q = front r' q' \<and> ''user:'' @ u = ''user:'' @ u'" by (rule last_segment) (use assms(5,6) in simp_all)
  then show ?thesis by (simp add: front_def)
qed

text \<open>
  What was cached for a user survives the call that is to remove it. Neither \<open>InvalidateUserCache\<close> nor \<open>InvalidateDomainCache\<close>, whatever id they are
  given, removes any cached answer: the key of an answer is a hash, in which neither pattern can occur.
\<close>

theorem answers_not_invalidated:
  assumes "plain_text p" "invalidate \<in> {InvalidateUserCache, InvalidateDomainCache}"
    and "invalidate (Some (redis_ops (enabled_cache p dflt))) i st = (e, st')"
  shows "held st' (p @ generateCacheKey sha256 r q) = held st (p @ generateCacheKey sha256 r q)"
proof -
  define k where "k = generateCacheKey sha256 r q"
  obtain pat where pat: "pat = ''*user:'' @ i @ ''*'' \<or> pat = ''*domain:'' @ i @ ''*''"
      and d: "co_DeletePattern (redis_ops (enabled_cache p dflt)) pat st = (e, st')"
  proof -
    consider "invalidate = InvalidateUserCache" | "invalidate = InvalidateDomainCache" using assms(2) by blast
    then show ?thesis
    proof cases
      case 1
      then show ?thesis using assms(3) by (intro that [of "''*user:'' @ i @ ''*''"]) (simp_all add: InvalidateUserCache_def InvalidatePattern_def)
    next
      case 2
      then show ?thesis using assms(3) by (intro that [of "''*domain:'' @ i @ ''*''"]) (simp_all add: InvalidateDomainCache_def InvalidatePattern_def)
    qed
  qed
  have "held st' (p @ k) = (if e = None \<and> glob (p @ pat) (p @ k) then None else held st (p @ k))"
    using fun_cong [OF rds.swept [OF d], of k] by (cases e) (simp_all split: if_splits)
  moreover have "\<not> glob (p @ pat) (p @ k)"
    unfolding glob_plain [OF assms(1)] k_def using pat response_not_covered [of i sha256 r q] by metis
  ultimately show ?thesis by (simp add: k_def)
qed

text \<open>
  An answer whose handler leaves the status to the writer, as every plain success does, is never cached under the default configuration, and the client
  does not get the headers the handler set.
\<close>

theorem implicit_status_not_cached:
  assumes "rcf_CacheSuccessOnly cfg" "rcf_EnableResponseCache cfg" "shouldCache cfg r" "handler r (cst_server s) = (ws, sv)"
    and "list_all (\<lambda>w. case w of WriteHeader _ \<Rightarrow> False | _ \<Rightarrow> True) ws"
    and "read_value cd (co_Get ops (generateCacheKey sha256 r q) (cst_cache s)) = (Inl e, st)"
  shows "\<exists>w s'. CacheResponse (Some ops) cd sha256 cfg now handler r q s = (w, s') \<and> rp_Sent w = [] \<and> cst_cache s' = st \<and> cst_server s' = sv"
proof -
  define w0 where "w0 = \<lparr>cw_inner = new_reply, cw_buf = [], cw_headers = [], cw_statusCode = 0\<rparr>"
  have "cw_statusCode (fold cache_write ws w) = cw_statusCode w \<and> rp_Sent (cw_inner (fold cache_write ws w)) = rp_Sent (cw_inner w) \<and>
      rp_Header (cw_inner (fold cache_write ws w)) = rp_Header (cw_inner w)" if "rp_Header (cw_inner w) = []" "rp_Sent (cw_inner w) = []" for w
    using assms(5) that
  proof (induction ws arbitrary: w)
    case (Cons x ws)
    then show ?case by (cases x) (auto simp: send_body_def send_status_def Let_def)
  qed simp
  from this [of w0] have w: "cw_statusCode (fold cache_write ws w0) = 0" "rp_Sent (cw_inner (fold cache_write ws w0)) = []"
    by (simp_all add: w0_def new_reply_def)
  then have "\<not> shouldCacheResponse cfg (fold cache_write ws w0)" using assms(1) by (simp add: shouldCacheResponse_def)
  then show ?thesis using assms(2-4,6) w by (simp add: CacheResponse_def w0_def [symmetric] Let_def)
qed

text \<open>A query answered from the database does not reach the destination of the caller, one answered from the cache does.\<close>

lemma CacheDBQuery_miss:
  "read_value cd (co_Get ops k st) = (Inl e, st1) \<Longrightarrow> query sv = (Inr v, sv1) \<Longrightarrow> fst (snd (CacheDBQuery (Some ops) cd k ttl query dest (st, sv))) = dest"
  by (simp add: CacheDBQuery_def)

text \<open>Keys of queries are joined without escapes.\<close>

lemma CacheKey_ambiguous: "CacheKey k [PartText (a @ '':'' @ b)] = CacheKey k [PartText a, PartText b]"
  by (simp add: CacheKey_def)

section \<open>Samples\<close>

definition listing_of :: "string \<Rightarrow> api_request" where
  "listing_of u = \<lparr>rq_Method = ''GET'', rq_Path = ''/api/v1/domains'', rq_RemoteAddr = [], rq_Header = [], rq_Query = [], rq_URLParams = [],
     rq_Context = [(''user_id'', CtxString u)]\<rparr>"

lemma no_accept: "Header_Get ''Accept'' (rq_Header (listing_of u)) = []"
  by (simp add: listing_of_def Header_Get_def)

theorem cached_answers_private_witness:
  "generateCacheKey (\<lambda>s. s) (listing_of ''7'') [] \<noteq> generateCacheKey (\<lambda>s. s) (listing_of ''8'') []"
  using cached_answers_private [of "\<lambda>s. s" "listing_of ''7''" "[]" "listing_of ''8''" "[]" "''7''" "''8''"]
  by (auto simp: no_accept) (simp_all add: listing_of_def ctx_string_def)

definition answered_redis :: redis where
  "answered_redis = put_entry (''mailvault:'' @ generateCacheKey (\<lambda>s. s) (listing_of ''7'') []) \<lparr>ren_Value = ''{}'', ren_Expires = None\<rparr> empty_redis"

theorem answers_not_invalidated_witness:
  "held (snd (InvalidateUserCache (Some (redis_ops (enabled_cache ''mailvault:'' 1))) ''7'' answered_redis))
     (''mailvault:'' @ generateCacheKey (\<lambda>s. s) (listing_of ''7'') []) = Some ''{}''"
proof -
  let ?k = "generateCacheKey (\<lambda>s. s) (listing_of ''7'') []"
  have "plain_text ''mailvault:''" by simp
  from answers_not_invalidated [OF this, of InvalidateUserCache 1 "''7''" answered_redis _ _ "\<lambda>s. s" "listing_of ''7''" "[]", OF _ surjective_pairing]
  have "held (snd (InvalidateUserCache (Some (redis_ops (enabled_cache ''mailvault:'' 1))) ''7'' answered_redis)) (''mailvault:'' @ ?k) =
      held answered_redis (''mailvault:'' @ ?k)" by simp
  moreover have "held answered_redis (''mailvault:'' @ ?k) = Some ''{}''"
    by (simp add: answered_redis_def held_def live_value_def put_entry_def alive_def)
  ultimately show ?thesis by simp
qed

theorem implicit_status_not_cached_witness:
  "\<exists>w s'. CacheResponse (Some (redis_ops (enabled_cache ''mailvault:'' 1))) (one_value \<lparr>cre_StatusCode = 200, cre_Headers = [], cre_Body = [], cre_CachedAt = 0\<rparr>)
       (\<lambda>s. s) DefaultResponseCacheConfig 0 (\<lambda>r s. ([SetHeader ''Content-Type'' ''application/json'', WriteBody ''{}''], s)) (listing_of ''7'') []
       \<lparr>cst_cache = empty_redis, cst_server = (), cst_metrics = \<lparr>cmx_Hits = 0, cmx_Misses = 0, cmx_Sets = 0, cmx_Errors = 0\<rparr>\<rparr> = (w, s') \<and>
     rp_Sent w = [] \<and> cst_cache s' = empty_redis"
proof -
  let ?s = "\<lparr>cst_cache = empty_redis, cst_server = (), cst_metrics = \<lparr>cmx_Hits = 0, cmx_Misses = 0, cmx_Sets = 0, cmx_Errors = 0\<rparr>\<rparr>"
  let ?cd = "one_value \<lparr>cre_StatusCode = 200, cre_Headers = [], cre_Body = [], cre_CachedAt = 0\<rparr>"
  have cfg: "rcf_CacheSuccessOnly DefaultResponseCacheConfig" "rcf_EnableResponseCache DefaultResponseCacheConfig"
    by (simp_all add: DefaultResponseCacheConfig_def)
  have "shouldCache DefaultResponseCacheConfig (listing_of ''7'')"
    by (simp add: shouldCache_def DefaultResponseCacheConfig_def listing_of_def HasPrefix_def)
  from implicit_status_not_cached [OF cfg this, of "\<lambda>r s. ([SetHeader ''Content-Type'' ''application/json'', WriteBody ''{}''], s)" ?s _ "()" ?cd
      "redis_ops (enabled_cache ''mailvault:'' 1)" "\<lambda>s. s" "[]" ErrCacheMiss empty_redis 0]
  show ?thesis
    by (simp add: read_value_def redis_ops_def enabled_cache_def RedisCache_Get_def redis_Get_def command_def empty_redis_def held_def live_value_def)
qed

end
