(* ===== verification/Relay.thy ===== *)
theory Relay
  imports EmailSending EmailUseCase ApiCommon
begin

text \<open>
  Mail leaving the service through an SMTP relay: \<open>internal/smtprelay/sender.go\<close>, the sender of outbound mail, and \<open>app/smtp/forwarder.go\<close>, which
  notifies the forward addresses of a mailbox.

  The relay is an argument: it answers each command, given everything it was sent before, with success or the text of an error. Time-outs and the closing of
  connections are left out. \<open>quote\<close> prints a parsed address (\<open>net/mail\<close>); clocks are arguments.
\<close>

section \<open>The relay\<close>

datatype smtp_cmd =
    Dial string bool | StartTLS string | Hello string | Auth string string | MailFrom string | RcptTo string | Data | WriteData string | CloseData | Quit

type_synonym relay = "smtp_cmd list \<Rightarrow> smtp_cmd \<Rightarrow> string option"

text \<open>The commands of a transaction one after the other, up to the first that fails.\<close>

fun issue :: "relay \<Rightarrow> smtp_cmd list \<Rightarrow> smtp_cmd list \<Rightarrow> (smtp_cmd \<times> string) option \<times> smtp_cmd list" where
  "issue relay hist [] = (None, hist)"
| "issue relay hist (c # cs) = (case relay hist c of Some e \<Rightarrow> (Some (c, e), hist @ [c]) | None \<Rightarrow> issue relay (hist @ [c]) cs)"

fun accepted :: "relay \<Rightarrow> smtp_cmd list \<Rightarrow> smtp_cmd list \<Rightarrow> bool" where
  "accepted relay hist [] = True"
| "accepted relay hist (c # cs) = (relay hist c = None \<and> accepted relay (hist @ [c]) cs)"

section \<open>Message texts\<close>

definition crlf :: string where
  "crlf = [CHR 0x0D, CHR 0x0A]"

definition weekdays :: "string list" where
  "weekdays = [''Thu'', ''Fri'', ''Sat'', ''Sun'', ''Mon'', ''Tue'', ''Wed'']"

definition months :: "string list" where
  "months = [''Jan'', ''Feb'', ''Mar'', ''Apr'', ''May'', ''Jun'', ''Jul'', ''Aug'', ''Sep'', ''Oct'', ''Nov'', ''Dec'']"

text \<open>The layout \<open>Mon, 02 Jan 2006 15:04:05 +0000\<close> in UTC; 1 January 1970 was a Thursday.\<close>

definition mail_date :: "instant \<Rightarrow> string" where
  "mail_date t =
     (let s = t div time_Second; n = s div 86400; (y, m, d) = civil n; x = s mod 86400
      in weekdays ! nat (n mod 7) @ '', '' @ pad 2 d @ '' '' @ months ! nat (m - 1) @ '' '' @ pad 4 y @ '' '' @ pad 2 (x div 3600) @ '':'' @
         pad 2 (x div 60 mod 60) @ '':'' @ pad 2 (x mod 60) @ '' +0000'')"

definition derefStr :: "string option \<Rightarrow> string" where
  "derefStr p = (case p of None \<Rightarrow> [] | Some s \<Rightarrow> s)"

definition quoteAddrList :: "(string \<Rightarrow> string option) \<Rightarrow> string list \<Rightarrow> string list" where
  "quoteAddrList quote = map (\<lambda>a. case quote a of Some p \<Rightarrow> p | None \<Rightarrow> a)"

definition content :: "SentEmail \<Rightarrow> string" where
  "content msg =
     (let html = derefStr (se_HTMLBody msg); body = derefStr (se_TextBody msg);
          plain_type = ''Content-Type: text/plain; charset=utf-8'' @ crlf @ crlf; html_type = ''Content-Type: text/html; charset=utf-8'' @ crlf @ crlf in
      if html \<noteq> [] \<and> body \<noteq> [] then
        (let boundary = ''mv-bndy-'' @ uuid_String (se_ID msg) in
         ''Content-Type: multipart/alternative; boundary='' @ [CHR 0x22] @ boundary @ [CHR 0x22] @ crlf @ crlf @
         ''--'' @ boundary @ crlf @ plain_type @ body @ crlf @ ''--'' @ boundary @ crlf @ html_type @ html @ crlf @ ''--'' @ boundary @ ''--'' @ crlf)
      else if html \<noteq> [] then html_type @ html
      else plain_type @ body)"

definition buildMessage :: "(string \<Rightarrow> string option) \<Rightarrow> instant \<Rightarrow> SentEmail \<Rightarrow> string" where
  "buildMessage quote now msg =
     ''From: '' @ se_FromAddress msg @ crlf @
     (if se_ToAddresses msg \<noteq> [] then ''To: '' @ Join (quoteAddrList quote (se_ToAddresses msg)) '', '' @ crlf else []) @
     (if se_CCAddresses msg \<noteq> [] then ''Cc: '' @ Join (quoteAddrList quote (se_CCAddresses msg)) '', '' @ crlf else []) @
     ''Subject: '' @ se_Subject msg @ crlf @ ''Date: '' @ mail_date now @ crlf @
     (if se_MessageID msg \<noteq> [] then ''Message-ID: <'' @ se_MessageID msg @ ''>'' @ crlf else []) @
     ''MIME-Version: 1.0'' @ crlf @ content msg"

section \<open>The sender\<close>

datatype TLSMode = TLSModeNone | TLSModeSTARTTLS | TLSModeImplicit | TLSModeOther string

record relay_config =
  rl_Addr :: string
  rl_Hostname :: string
  rl_TLSMode :: TLSMode
  rl_Username :: string
  rl_Password :: string

definition New :: "relay_config \<Rightarrow> relay_config" where
  "New cfg = cfg\<lparr>rl_Addr := (if rl_Addr cfg = [] then ''localhost:25'' else rl_Addr cfg),
     rl_Hostname := (if rl_Hostname cfg = [] then ''localhost'' else rl_Hostname cfg),
     rl_TLSMode := (if rl_TLSMode cfg = TLSModeOther [] then TLSModeNone else rl_TLSMode cfg)\<rparr>"

datatype relay_error = NilMessage | NoFromAddress | NoRecipient | RelayFailed smtp_cmd string

definition recipients :: "SentEmail \<Rightarrow> string list" where
  "recipients msg = se_ToAddresses msg @ se_CCAddresses msg @ se_BCCAddresses msg"

text \<open>The commands of \<open>Send\<close> up to the end of the data; with \<open>STARTTLS\<close> the greeting is part of the negotiation.\<close>

definition transaction :: "relay_config \<Rightarrow> string \<Rightarrow> SentEmail \<Rightarrow> smtp_cmd list" where
  "transaction cfg body msg =
     [Dial (rl_Addr cfg) (rl_TLSMode cfg = TLSModeImplicit)] @
     (if rl_TLSMode cfg = TLSModeSTARTTLS then [StartTLS (rl_Addr cfg)] else [Hello (rl_Hostname cfg)]) @
     (if rl_Username cfg \<noteq> [] then [Auth (rl_Username cfg) (rl_Password cfg)] else []) @
     [MailFrom (se_FromAddress msg)] @ map RcptTo (recipients msg) @ [Data, WriteData body, CloseData]"

text \<open>A write that fails still closes the data; the answer to \<open>QUIT\<close> is only logged.\<close>

definition Send ::
    "relay_config \<Rightarrow> (string \<Rightarrow> string option) \<Rightarrow> relay \<Rightarrow> instant \<Rightarrow> SentEmail option \<Rightarrow> smtp_cmd list \<Rightarrow> (relay_error + string) \<times> smtp_cmd list" where
  "Send cfg quote relay now m hist =
     (case m of
        None \<Rightarrow> (Inl NilMessage, hist)
      | Some msg \<Rightarrow>
          if se_FromAddress msg = [] then (Inl NoFromAddress, hist)
          else if recipients msg = [] then (Inl NoRecipient, hist)
          else (case issue relay hist (transaction cfg (buildMessage quote now msg) msg) of
                  (Some (c, e), hist1) \<Rightarrow>
                    (Inl (RelayFailed c e), case c of WriteData _ \<Rightarrow> hist1 @ [CloseData] | _ \<Rightarrow> hist1)
                | (None, hist1) \<Rightarrow> (Inr (se_MessageID msg), hist1 @ [Quit])))"

section \<open>The forwarder\<close>

record Forwarder =
  fwd_smtpAddr :: string
  fwd_hostname :: string

definition NewForwarder :: "string \<Rightarrow> string \<Rightarrow> Forwarder" where
  "NewForwarder smtpAddr hostname = \<lparr>fwd_smtpAddr = (if smtpAddr = [] then ''localhost:25'' else smtpAddr),
     fwd_hostname = (if hostname = [] then ''localhost'' else hostname)\<rparr>"

definition buildForwardMessage :: "Forwarder \<Rightarrow> instant \<Rightarrow> string \<Rightarrow> string \<Rightarrow> string \<Rightarrow> string list \<Rightarrow> string" where
  "buildForwardMessage f now fromAddr originalRecipient subject forwardTo =
     ''From: MailVault Forwarder <mailvault-forward@'' @ fwd_hostname f @ ''>'' @ crlf @
     ''To: '' @ Join forwardTo '', '' @ crlf @ ''Subject: Fwd: '' @ subject @ crlf @ ''Date: '' @ mail_date now @ crlf @
     ''X-Forwarded-For: '' @ originalRecipient @ crlf @ ''X-Forwarded-By: MailVault'' @ crlf @ ''X-Original-From: '' @ fromAddr @ crlf @
     ''MIME-Version: 1.0'' @ crlf @ ''Content-Type: text/plain; charset=utf-8'' @ crlf @ crlf @
     ''This is an automated notification from MailVault.'' @ crlf @ crlf @
     ''A new email has been received at '' @ originalRecipient @ ''.'' @ crlf @ crlf @
     ''  From:    '' @ fromAddr @ crlf @ ''  Subject: '' @ subject @ crlf @ crlf @
     ''The original message is stored encrypted in your MailVault inbox.'' @ crlf @
     ''Log in to the MailVault dashboard or use the CLI to read it.'' @ crlf"

text \<open>One transaction per recipient, \<open>QUIT\<close> included.\<close>

definition forward_transaction :: "Forwarder \<Rightarrow> string \<Rightarrow> string \<Rightarrow> smtp_cmd list" where
  "forward_transaction f recipient msg =
     [Dial (fwd_smtpAddr f) False, Hello (fwd_hostname f), MailFrom (''mailvault-forward@'' @ fwd_hostname f), RcptTo recipient, Data, WriteData msg,
      CloseData, Quit]"

definition sendToRecipient :: "Forwarder \<Rightarrow> relay \<Rightarrow> string \<Rightarrow> string \<Rightarrow> smtp_cmd list \<Rightarrow> (smtp_cmd \<times> string) option \<times> smtp_cmd list" where
  "sendToRecipient f relay recipient msg hist =
     (case issue relay hist (forward_transaction f recipient msg) of
        (Some (c, e), hist1) \<Rightarrow> (Some (c, e), case c of WriteData _ \<Rightarrow> hist1 @ [CloseData] | _ \<Rightarrow> hist1)
      | (None, hist1) \<Rightarrow> (None, hist1))"

fun forward_all :: "Forwarder \<Rightarrow> relay \<Rightarrow> string \<Rightarrow> string list \<Rightarrow> smtp_cmd list \<Rightarrow> (string \<times> smtp_cmd \<times> string) list \<times> smtp_cmd list" where
  "forward_all f relay msg [] hist = ([], hist)"
| "forward_all f relay msg (r # rs) hist =
     (case sendToRecipient f relay r msg hist of
        (Some (c, e), hist1) \<Rightarrow> (case forward_all f relay msg rs hist1 of (errs, hist2) \<Rightarrow> ((r, c, e) # errs, hist2))
      | (None, hist1) \<Rightarrow> forward_all f relay msg rs hist1)"

text \<open>The error lists the recipients that failed.\<close>

definition forwarder_ForwardEmail ::
    "Forwarder \<Rightarrow> relay \<Rightarrow> instant \<Rightarrow> string \<Rightarrow> string \<Rightarrow> string \<Rightarrow> string list \<Rightarrow> smtp_cmd list \<Rightarrow> (string \<times> smtp_cmd \<times> string) list \<times> smtp_cmd list" where
  "forwarder_ForwardEmail f relay now fromAddr originalRecipient subject forwardTo hist =
     (if forwardTo = [] then ([], hist)
      else forward_all f relay (buildForwardMessage f now fromAddr originalRecipient subject forwardTo) forwardTo hist)"

section \<open>Lemmas\<close>

lemma mail_date_sample: "mail_date (1709210096 * time_Second) = ''Thu, 29 Feb 2024 12:34:56 +0000''"
  by code_simp

lemma issue_None: "issue relay hist cs = (None, hist') \<longleftrightarrow> accepted relay hist cs \<and> hist' = hist @ cs"
  by (induction cs arbitrary: hist) (auto split: option.split)

lemma issue_Some:
  "issue relay hist cs = (Some (c, e), hist') \<Longrightarrow>
    \<exists>n < length cs. cs ! n = c \<and> accepted relay hist (take n cs) \<and> relay (hist @ take n cs) c = Some e \<and> hist' = hist @ take (Suc n) cs"
proof (induction cs arbitrary: hist)
  case (Cons x cs)
  show ?case
  proof (cases "relay hist x")
    case None
    then obtain n where "n < length cs" "cs ! n = c" "accepted relay (hist @ [x]) (take n cs)" "relay ((hist @ [x]) @ take n cs) c = Some e"
        "hist' = (hist @ [x]) @ take (Suc n) cs"
      using Cons by fastforce
    then show ?thesis using None by (intro exI [of _ "Suc n"]) simp
  qed (use Cons.prems in auto)
qed simp

text \<open>The blind recipients are not in the text of the message.\<close>

lemma buildMessage_BCC: "buildMessage quote now (msg\<lparr>se_BCCAddresses := b\<rparr>) = buildMessage quote now msg"
proof -
  let ?m = "msg\<lparr>se_BCCAddresses := b\<rparr>"
  have f: "se_HTMLBody ?m = se_HTMLBody msg" "se_TextBody ?m = se_TextBody msg" "se_ID ?m = se_ID msg" "se_FromAddress ?m = se_FromAddress msg"
    "se_ToAddresses ?m = se_ToAddresses msg" "se_CCAddresses ?m = se_CCAddresses msg" "se_Subject ?m = se_Subject msg" "se_MessageID ?m = se_MessageID msg"
    by simp_all
  show ?thesis unfolding buildMessage_def content_def f ..
qed

text \<open>A subject with a line end adds a header of the sender's choice.\<close>

lemma subject_injects_header:
  assumes "se_Subject msg = s @ crlf @ h"
  shows "\<exists>before after. buildMessage quote now msg = before @ crlf @ h @ crlf @ after"
  unfolding buildMessage_def assms by (simp only: append_assoc) (metis append.assoc)

text \<open>Every recipient of a forwarded message reads all the forward addresses.\<close>

lemma forward_addresses_disclosed:
  "\<exists>before after. buildForwardMessage f now fromAddr originalRecipient subject forwardTo = before @ Join forwardTo '', '' @ crlf @ after"
  unfolding buildForwardMessage_def by (metis append.assoc)

lemma Send_success:
  "Send cfg quote relay now (Some msg) hist = (Inr m, hist') \<longleftrightarrow>
     se_FromAddress msg \<noteq> [] \<and> recipients msg \<noteq> [] \<and> accepted relay hist (transaction cfg (buildMessage quote now msg) msg) \<and>
     m = se_MessageID msg \<and> hist' = hist @ transaction cfg (buildMessage quote now msg) msg @ [Quit]"
proof (cases "issue relay hist (transaction cfg (buildMessage quote now msg) msg)")
  case (Pair r h)
  then show ?thesis
    using issue_None [of relay hist "transaction cfg (buildMessage quote now msg) msg" h]
      issue_None [of relay hist "transaction cfg (buildMessage quote now msg) msg" "hist @ transaction cfg (buildMessage quote now msg) msg"]
    by (cases r) (auto simp: Send_def)
qed

lemma transaction_split:
  obtains pre where "transaction cfg body msg = pre @ [Data, WriteData body, CloseData]" "\<forall>c \<in> set pre. c \<noteq> Data"
proof -
  show thesis
    by (rule that [of "butlast (butlast (butlast (transaction cfg body msg)))"])
      (auto simp: transaction_def butlast_append split: if_splits)
qed

text \<open>One recipient that the relay refuses stops the message for all of them.\<close>

lemma refused_recipient_stops_mail:
  assumes "Send cfg quote relay now (Some msg) hist = (Inl (RelayFailed (RcptTo r) e), hist')"
  shows "\<exists>cs. hist' = hist @ cs \<and> Data \<notin> set cs"
proof -
  let ?cs = "transaction cfg (buildMessage quote now msg) msg"
  have "issue relay hist ?cs = (Some (RcptTo r, e), hist')"
    using assms by (auto simp: Send_def split: if_splits prod.splits option.splits smtp_cmd.splits)
  then obtain n where n: "n < length ?cs" "?cs ! n = RcptTo r" "hist' = hist @ take (Suc n) ?cs"
    using issue_Some by metis
  obtain pre where pre: "?cs = pre @ [Data, WriteData (buildMessage quote now msg), CloseData]" "\<forall>c \<in> set pre. c \<noteq> Data"
    by (rule transaction_split)
  have "n < length pre"
  proof (rule ccontr)
    assume "\<not> n < length pre"
    then have "?cs ! n = [Data, WriteData (buildMessage quote now msg), CloseData] ! (n - length pre)"
      "n - length pre < length [Data, WriteData (buildMessage quote now msg), CloseData]" using n(1) pre(1) by (auto simp: nth_append)
    then have "?cs ! n \<in> set [Data, WriteData (buildMessage quote now msg), CloseData]" by (metis nth_mem)
    then show False using n(2) by simp
  qed
  then have "Data \<notin> set (take (Suc n) ?cs)" using pre by (auto dest: in_set_takeD)
  then show ?thesis using n(3) by blast
qed

section \<open>The relay as the sender of the use case\<close>

text \<open>The messages of \<open>Send\<close>'s errors.\<close>

definition relay_error_text :: "relay_config \<Rightarrow> relay_error \<Rightarrow> string" where
  "relay_error_text cfg e =
     (case e of
        NilMessage \<Rightarrow> ''nil message''
      | NoFromAddress \<Rightarrow> ''from address is required''
      | NoRecipient \<Rightarrow> ''at least one recipient is required''
      | RelayFailed c err \<Rightarrow>
          (case c of
             Dial a _ \<Rightarrow> ''dial '' @ rl_Addr cfg
           | StartTLS _ \<Rightarrow> ''STARTTLS''
           | Hello _ \<Rightarrow> ''EHLO''
           | Auth _ _ \<Rightarrow> ''AUTH''
           | MailFrom _ \<Rightarrow> ''MAIL FROM''
           | RcptTo r \<Rightarrow> ''RCPT TO '' @ r
           | Data \<Rightarrow> ''DATA''
           | WriteData _ \<Rightarrow> ''writing message body''
           | CloseData \<Rightarrow> ''closing DATA''
           | Quit \<Rightarrow> ''QUIT'') @ '': '' @ err)"

text \<open>What the relay has seen after a list of messages; \<open>clock\<close> gives the time at which the next one is sent.\<close>

fun relayed :: "relay_config \<Rightarrow> (string \<Rightarrow> string option) \<Rightarrow> (SentEmail list \<Rightarrow> instant) \<Rightarrow> relay \<Rightarrow> SentEmail list \<Rightarrow> SentEmail list \<Rightarrow> smtp_cmd list \<Rightarrow> smtp_cmd list" where
  "relayed cfg quote clock relay past [] hist = hist"
| "relayed cfg quote clock relay past (e # es) hist =
     relayed cfg quote clock relay (past @ [e]) es (snd (Send cfg quote relay (clock past) (Some e) hist))"

definition relay_sender :: "relay_config \<Rightarrow> (string \<Rightarrow> string option) \<Rightarrow> (SentEmail list \<Rightarrow> instant) \<Rightarrow> relay \<Rightarrow> sender" where
  "relay_sender cfg quote clock relay past e =
     (case fst (Send cfg quote relay (clock past) (Some e) (relayed cfg quote clock relay [] past [])) of
        Inl err \<Rightarrow> Inl (relay_error_text cfg err)
      | Inr m \<Rightarrow> Inr m)"

lemma SendEmail_sent:
  assumes "SendEmail ops send i created now req s = (Inr resp, s')"
  shows "\<exists>m. send (uc_dispatched s) (new_sent_email i created req) = Inr m"
  using assms by (auto simp: SendEmail_def dispatch_def Let_def split: option.splits prod.splits sum.splits if_splits)

section \<open>Forwarding\<close>

lemma sendToRecipient_failed: "fst (sendToRecipient f relay r msg hist) = None \<longleftrightarrow> accepted relay hist (forward_transaction f r msg)"
  using issue_None [of relay hist "forward_transaction f r msg"]
  by (cases "issue relay hist (forward_transaction f r msg)") (auto simp: sendToRecipient_def split: option.splits prod.splits)

lemma forward_all_failures:
  "map fst (fst (forward_all f relay msg rs hist)) =
     map (nth rs) (filter (\<lambda>k. \<not> accepted relay (snd (forward_all f relay msg (take k rs) hist)) (forward_transaction f (rs ! k) msg)) [0..<length rs])"
proof (induction rs arbitrary: hist)
  case (Cons r rs)
  obtain e h where s: "sendToRecipient f relay r msg hist = (e, h)" by fastforce
  have a: "e = None \<longleftrightarrow> accepted relay hist (forward_transaction f r msg)" using sendToRecipient_failed [of f relay r msg hist] s by simp
  have step: "snd (forward_all f relay msg (r # qs) hist) = snd (forward_all f relay msg qs h)"
    "map fst (fst (forward_all f relay msg (r # qs) hist)) = (if e = None then [] else [r]) @ map fst (fst (forward_all f relay msg qs h))" for qs
    using s by (auto split: option.splits prod.splits)
  have up: "[0..<length (r # rs)] = 0 # map Suc [0..<length rs]" by (simp add: upt_conv_Cons map_Suc_upt del: upt_Suc)
  show ?case unfolding step up using Cons.IH [of h] a by (simp add: step filter_map comp_def del: forward_all.simps(2))
qed simp

section \<open>Properties\<close>

text \<open>
  C25: What the use case reports as sent was accepted by the relay as a whole: with the relay as its sender, if \<open>SendEmail\<close> answers success, then the
  connection, the greeting or the TLS negotiation, the authentication if one is configured, the sender, every one of the To, CC and BCC recipients in that order
  and the text of the message with its end were each accepted, in one transaction; and \<open>Send\<close> left the relay having seen just these commands and \<open>QUIT\<close>
  after what came before. So no message is marked sent of which a recipient was refused.
\<close>

theorem sent_mail_was_relayed:
  fixes s :: "'st uc_state"
  assumes "SendEmail ops (relay_sender cfg quote clock relay) i created now req s = (Inr resp, s')"
  shows "let msg = new_sent_email i created req; before = relayed cfg quote clock relay [] (uc_dispatched s) [];
             cs = transaction cfg (buildMessage quote (clock (uc_dispatched s)) msg) msg
         in accepted relay before cs \<and> set (recipients msg) \<subseteq> {r. RcptTo r \<in> set cs} \<and>
            snd (Send cfg quote relay (clock (uc_dispatched s)) (Some msg) before) = before @ cs @ [Quit]"
proof -
  let ?msg = "new_sent_email i created req"
  let ?before = "relayed cfg quote clock relay [] (uc_dispatched s) []"
  obtain m h where "Send cfg quote relay (clock (uc_dispatched s)) (Some ?msg) ?before = (Inr m, h)"
    using SendEmail_sent [OF assms] by (cases "Send cfg quote relay (clock (uc_dispatched s)) (Some ?msg) ?before")
      (auto simp: relay_sender_def split: sum.splits)
  then show ?thesis
    using Send_success [of cfg quote relay "clock (uc_dispatched s)" ?msg ?before m h] by (auto simp: Let_def transaction_def)
qed

definition sample_relay :: relay where
  "sample_relay hist c = (case c of Auth _ _ \<Rightarrow> Some ''535 authentication failed'' | RcptTo r \<Rightarrow> if r = ''nobody@example.org'' then Some ''550 unknown'' else None | _ \<Rightarrow> None)"

definition sample_relay_config :: relay_config where
  "sample_relay_config = New \<lparr>rl_Addr = [], rl_Hostname = [], rl_TLSMode = TLSModeOther [], rl_Username = [], rl_Password = []\<rparr>"

theorem sent_mail_was_relayed_witness:
  "set (recipients (new_sent_email 1 1000 sample_req)) \<subseteq>
     {r. RcptTo r \<in> set (transaction sample_relay_config (buildMessage (\<lambda>_. None) 0 (new_sent_email 1 1000 sample_req)) (new_sent_email 1 1000 sample_req))}"
proof -
  let ?p = "SendEmail pg_repo (relay_sender sample_relay_config (\<lambda>_. None) (\<lambda>_. 0) sample_relay) 1 1000 2000 sample_req (empty_db [7] [])"
  have "(case fst ?p of Inl _ \<Rightarrow> False | Inr _ \<Rightarrow> True)" by code_simp
  then obtain resp where "?p = (Inr resp, snd ?p)" by (cases "fst ?p") (auto simp: prod_eq_iff)
  from sent_mail_was_relayed [OF this] show ?thesis unfolding Let_def by blast
qed

text \<open>
  Forwarding tries every address: whatever the relay answers, the error of \<open>ForwardEmail\<close> names just those forward addresses, in their order, whose own
  transaction was refused at some command, given everything sent for the addresses before; so one address that is refused keeps no other from its message. An
  address counts as failed also if only the final \<open>QUIT\<close> was refused, after the message was taken.
\<close>

theorem forwarding_tries_all:
  "let msg = buildForwardMessage f now sender_addr original subject rs;
       seen = (\<lambda>k. snd (forward_all f relay msg (take k rs) hist))
   in map fst (fst (forwarder_ForwardEmail f relay now sender_addr original subject rs hist)) =
        map (nth rs) (filter (\<lambda>k. \<not> accepted relay (seen k) (forward_transaction f (rs ! k) msg)) [0..<length rs])"
  using forward_all_failures [of f relay "buildForwardMessage f now sender_addr original subject rs" rs hist]
  by (simp add: forwarder_ForwardEmail_def Let_def)

end
