(* ===== verification/HtmlText.thy ===== *)
theory HtmlText
  imports ContentFilter
begin

text \<open>
  Conversions between HTML and plain text, \<open>internal/emailrender/converters.go\<close>. The expressions are searched the way Go prefers: leftmost, and the
  alternatives of a match in the order of the expression, as \<open>leftovers\<close> lists what a match leaves. Lower-casing (\<open>strings.ToLower\<close>) is an argument, as
  it changes the length of texts outside ASCII; the case-insensitive expressions are exact on ASCII. \<open>None\<close> is a panic.
\<close>

section \<open>Replacing the matches of an expression\<close>

function leftovers :: "bool \<Rightarrow> re \<Rightarrow> string \<Rightarrow> string list" where
  "leftovers ci Eps s = [s]"
| "leftovers ci (Cls neg rs) s = (case s of [] \<Rightarrow> [] | c # t \<Rightarrow> if in_class ci neg rs c then [t] else [])"
| "leftovers ci (Seq a b) s = concat (map (leftovers ci b) (leftovers ci a s))"
| "leftovers ci (Alt a b) s = leftovers ci a s @ leftovers ci b s"
| "leftovers ci (Star a) s = concat (map (\<lambda>t. if length t < length s then leftovers ci (Star a) t else []) (leftovers ci a s)) @ [s]"
| "leftovers ci WordB s = []"
  by pat_completeness auto
termination
  by (relation "measures [\<lambda>(ci, r, s). size r, \<lambda>(ci, r, s). length s]") auto

declare leftovers.simps(5) [simp del]

lemma leftovers_star:
  "t \<in> set (leftovers ci (Star a) s) \<longleftrightarrow> t = s \<or> (\<exists>u \<in> set (leftovers ci a s). length u < length s \<and> t \<in> set (leftovers ci (Star a) u))"
  by (subst leftovers.simps(5)) auto

text \<open>The rest of the text after the match at its beginning; empty matches do not occur below.\<close>

definition prefers :: "bool \<Rightarrow> re \<Rightarrow> string \<Rightarrow> string option" where
  "prefers ci r s = (case filter (\<lambda>t. length t < length s) (leftovers ci r s) of [] \<Rightarrow> None | t # _ \<Rightarrow> Some t)"

lemma prefers_shorter: "prefers ci r s = Some t \<Longrightarrow> length t < length s"
  by (auto simp: prefers_def split: list.splits dest: filter_eq_ConsD)

function replace_matches :: "bool \<Rightarrow> re \<Rightarrow> string \<Rightarrow> string \<Rightarrow> string" where
  "replace_matches ci r w [] = []"
| "replace_matches ci r w (c # s) =
     (case prefers ci r (c # s) of Some t \<Rightarrow> w @ replace_matches ci r w t | None \<Rightarrow> c # replace_matches ci r w s)"
  by pat_completeness auto
termination
  by (relation "measure (\<lambda>(ci, r, w, s). length s)") (auto dest: prefers_shorter)

section \<open>From HTML to text\<close>

definition inside_tag :: re where "inside_tag = Cls True [(62, 62)]"
definition tab_or_space :: re where "tab_or_space = Cls False [(32, 32), (9, 9)]"
definition newline :: string where "newline = [CHR 0x0A]"

text \<open>\<open><tag[^>]*>\<close> and \<open></?tag[^>]*>\<close>.\<close>

definition open_tag :: "string \<Rightarrow> re" where
  "open_tag tag = seqs [chr CHR ''<'', lit tag, Star inside_tag, chr CHR ''>'']"

definition any_form :: "re \<Rightarrow> re" where
  "any_form tag = seqs [chr CHR ''<'', opt (chr CHR ''/''), tag, Star inside_tag, chr CHR ''>'']"

text \<open>A slice with a bound outside the text panics. The loop ends as every round removes an opening tag.\<close>

function removeTagContent :: "(string \<Rightarrow> string) \<Rightarrow> string \<Rightarrow> string \<Rightarrow> string option" where
  "removeTagContent lower text0 tag =
     (case Index (lower text0) (CHR ''<'' # tag) of
        None \<Rightarrow> Some text0
      | Some start \<Rightarrow>
          if start > length text0 then None
          else case Index (drop start text0) ''>'' of
            None \<Rightarrow> Some text0
          | Some gt \<Rightarrow>
              (let tagEnd = start + gt + 1 in
               case Index (lower (drop tagEnd text0)) (''</'' @ tag @ ''>'') of
                 None \<Rightarrow> Some text0
               | Some close \<Rightarrow>
                   (let end0 = tagEnd + close + length (''</'' @ tag @ ''>'') in
                    if end0 > length text0 then None
                    else removeTagContent lower (take start text0 @ drop end0 text0) tag)))"
  by pat_completeness auto
termination
  by (relation "measure (\<lambda>(lower, s, tag). length s)") auto

declare removeTagContent.simps [simp del]

definition handleHTMLTables :: "string \<Rightarrow> string" where
  "handleHTMLTables text0 =
     (let t1 = replace_matches True (open_tag ''tr'') newline text0;
          t2 = replace_matches True (any_form (lit ''tr'')) [] t1;
          t3 = replace_matches True (open_tag ''td'') '' | '' t2;
          t4 = replace_matches True (any_form (lit ''td'')) [] t3;
          t5 = replace_matches True (any_form (lit ''th'')) '' | '' t4
      in replace_matches True (any_form (lit ''table'')) newline t5)"

definition bullet :: string where
  "bullet = [CHR 0x0A, CHR 0xE2, CHR 0x80, CHR 0xA2, CHR '' '']"

definition handleHTMLLists :: "string \<Rightarrow> string" where
  "handleHTMLLists text0 =
     (let t1 = replace_matches True (open_tag ''li'') bullet text0;
          t2 = replace_matches True (any_form (lit ''li'')) [] t1;
          t3 = replace_matches True (any_form (lit ''ul'')) newline t2
      in replace_matches True (any_form (lit ''ol'')) newline t3)"

text \<open>The expression of a link up to its text; the text is the second group.\<close>

definition quotes :: "(nat \<times> nat) list" where "quotes = [(34, 34), (39, 39)]"

definition link_start :: re where
  "link_start = seqs [lit ''<a'', plus inside_tag, lit ''href='', Cls False quotes, plus (Cls True quotes), Cls False quotes, Star inside_tag, chr CHR ''>'']"

definition link_rest :: re where
  "link_rest = seqs [plus (Cls True [(60, 60)]), lit ''</a>'']"

definition link :: "string \<Rightarrow> (string \<times> string) option" where
  "link s = (case concat (map (\<lambda>t. map (\<lambda>rest. (takeWhile (\<lambda>c. c \<noteq> CHR ''<'') t, rest)) (leftovers True link_rest t)) (leftovers True link_start s)) of
     [] \<Rightarrow> None | p # _ \<Rightarrow> if length (snd p) < length s then Some p else None)"

function replace_links :: "string \<Rightarrow> string" where
  "replace_links [] = []"
| "replace_links (c # s) = (case link (c # s) of Some (t, rest) \<Rightarrow> t @ replace_links rest | None \<Rightarrow> c # replace_links s)"
  by pat_completeness auto
termination
  by (relation "measure length") (auto simp: link_def split: list.splits if_splits)

definition handleInlineFormatting :: "string \<Rightarrow> string" where
  "handleInlineFormatting text0 =
     (let t1 = replace_links text0;
          t2 = replace_matches True (any_form (Alt (lit ''b'') (lit ''strong''))) [] t1;
          t3 = replace_matches True (any_form (Alt (lit ''i'') (lit ''em''))) [] t2
      in replace_matches True (any_form (lit ''code'')) [CHR 0x60] t3)"

definition any_tag :: re where
  "any_tag = seqs [chr CHR ''<'', plus inside_tag, chr CHR ''>'']"

definition removeAllHTMLTags :: "string \<Rightarrow> string" where
  "removeAllHTMLTags = replace_matches False any_tag []"

definition cleanupWhitespace :: "string \<Rightarrow> string" where
  "cleanupWhitespace text0 =
     (let t1 = replace_matches False (plus tab_or_space) '' '' text0;
          t2 = replace_matches False (seqs [chr CHR 0x0A, Star blank, chr CHR 0x0A, Star blank, plus (chr CHR 0x0A)]) (newline @ newline) t1
      in replace_matches False (seqs [plus tab_or_space, chr CHR 0x0A]) newline t2)"

definition unescape :: "string \<Rightarrow> string" where
  "unescape t = fold (\<lambda>(old, new) t. ReplaceAll t old new)
     [(''&nbsp;'', '' ''), (''&amp;'', ''&''), (''&lt;'', ''<''), (''&gt;'', ''>''), (''&quot;'', [CHR 0x22]), (''&#39;'', [CHR 0x27])] t"

definition blockElements :: "(string \<times> string) list" where
  "blockElements =
     [(''p'', newline @ newline), (''div'', newline), (''br'', newline), (''h1'', newline @ newline), (''h2'', newline @ newline), (''h3'', newline @ newline),
      (''h4'', newline @ newline), (''h5'', newline @ newline), (''h6'', newline @ newline), (''hr'', newline @ ''---'' @ newline), (''blockquote'', newline @ ''> '')]"

definition replace_block :: "string \<times> string \<Rightarrow> string \<Rightarrow> string" where
  "replace_block b t = ReplaceAll (replace_matches True (open_tag (fst b)) (snd b) t) (''</'' @ fst b @ ''>'') []"

text \<open>\<open>order\<close> is the order in which Go visits the map \<open>blockElements\<close>.\<close>

definition format_blocks :: "(string \<times> string) list \<Rightarrow> string \<Rightarrow> string" where
  "format_blocks order t = fold replace_block order (handleHTMLLists (handleHTMLTables (unescape t)))"

definition stripHTMLTagsImproved :: "(string \<Rightarrow> string) \<Rightarrow> (string \<times> string) list \<Rightarrow> string \<Rightarrow> string option" where
  "stripHTMLTagsImproved lower order html =
     (if html = [] then Some []
      else case removeTagContent lower html ''script'' of
        None \<Rightarrow> None
      | Some t1 \<Rightarrow>
          (case removeTagContent lower t1 ''style'' of
             None \<Rightarrow> None
           | Some t2 \<Rightarrow>
               (case removeTagContent lower t2 ''head'' of
                  None \<Rightarrow> None
                | Some t3 \<Rightarrow> Some (TrimSpace (cleanupWhitespace (removeAllHTMLTags (handleInlineFormatting (format_blocks order t3))))))))"

definition htmlToPlainText :: "(string \<Rightarrow> string) \<Rightarrow> (string \<times> string) list \<Rightarrow> string \<Rightarrow> string option" where
  "htmlToPlainText lower order html = (if html = [] then Some [] else stripHTMLTagsImproved lower order html)"

text \<open>\<open>convert\<close> is the library \<open>html-to-markdown\<close>.\<close>

definition htmlToMarkdown ::
    "(string \<Rightarrow> string option) \<Rightarrow> (string \<Rightarrow> string) \<Rightarrow> (string \<times> string) list \<Rightarrow> string \<Rightarrow> string option" where
  "htmlToMarkdown convert lower order html =
     (if html = [] then Some [] else case convert html of Some m \<Rightarrow> Some m | None \<Rightarrow> htmlToPlainText lower order html)"

section \<open>From text to HTML and Markdown\<close>

text \<open>\<open>html.EscapeString\<close>.\<close>

definition escape_char :: "char \<Rightarrow> string" where
  "escape_char c =
     (if c = CHR ''&'' then ''&amp;'' else if c = CHR 0x27 then ''&#39;'' else if c = CHR ''<'' then ''&lt;''
      else if c = CHR ''>'' then ''&gt;'' else if c = CHR 0x22 then ''&#34;'' else [c])"

definition EscapeString :: "string \<Rightarrow> string" where
  "EscapeString s = concat (map escape_char s)"

definition plainTextToHTML :: "string \<Rightarrow> string" where
  "plainTextToHTML t =
     (if t = [] then []
      else ''<div style='' @ [CHR 0x22] @ ''font-family: monospace; white-space: pre-wrap;'' @ [CHR 0x22] @ ''>'' @
        ReplaceAll (EscapeString t) newline (''<br>'' @ newline) @ ''</div>'')"

definition plainTextToMarkdown :: "string \<Rightarrow> string" where
  "plainTextToMarkdown t =
     (if t = [] then [] else [CHR 0x60, CHR 0x60, CHR 0x60, CHR 0x0A] @ t @ [CHR 0x0A, CHR 0x60, CHR 0x60, CHR 0x60])"

section \<open>Previews\<close>

text \<open>A negative length panics.\<close>

definition truncateContent :: "string \<Rightarrow> int \<Rightarrow> string option" where
  "truncateContent content maxLength =
     (if int (length content) \<le> maxLength then Some content
      else if maxLength < 0 then None
      else (let t = take (nat maxLength) content;
                lastSpace = (case LastIndexByte t CHR '' '' of None \<Rightarrow> - 1 | Some i \<Rightarrow> int i)
            in Some ((if lastSpace > maxLength div 2 then take (nat lastSpace) t else t) @ ''...'')))"

section \<open>Lemmas\<close>

text \<open>The characters an expression can consume.\<close>

primrec consumes :: "bool \<Rightarrow> re \<Rightarrow> char \<Rightarrow> bool" where
  "consumes ci Eps c = False"
| "consumes ci (Cls neg rs) c = in_class ci neg rs c"
| "consumes ci (Seq a b) c = (consumes ci a c \<or> consumes ci b c)"
| "consumes ci (Alt a b) c = (consumes ci a c \<or> consumes ci b c)"
| "consumes ci (Star a) c = consumes ci a c"
| "consumes ci WordB c = False"

lemma leftovers_consumed: "t \<in> set (leftovers ci r s) \<Longrightarrow> \<exists>p. s = p @ t \<and> (\<forall>c \<in> set p. consumes ci r c)"
proof (induction ci r s arbitrary: t rule: leftovers.induct)
  case (2 ci neg rs s)
  then show ?case by (auto split: list.splits if_splits)
next
  case (3 ci a b s)
  then obtain u where u: "u \<in> set (leftovers ci a s)" "t \<in> set (leftovers ci b u)" by auto
  then show ?case using "3.IH"(1) [OF u(1)] "3.IH"(2) [OF u] by (metis Un_iff append_assoc consumes.simps(3) set_append)
next
  case (4 ci a b s)
  then show ?case by fastforce
next
  case (5 ci a s)
  show ?case
  proof (cases "t = s")
    case False
    then obtain u where u: "u \<in> set (leftovers ci a s)" "length u < length s" "t \<in> set (leftovers ci (Star a) u)"
      using "5.prems" leftovers_star [of t ci a s] by blast
    then show ?thesis using "5.IH"(1) [OF u(1)] "5.IH"(2) [OF u] by (metis Un_iff append_assoc consumes.simps(5) set_append)
  qed simp
qed auto

lemma prefers_consumed:
  assumes "prefers ci r s = Some t"
  obtains p where "s = p @ t" "p \<noteq> []" "\<forall>c \<in> set p. consumes ci r c"
proof -
  have "t \<in> set (filter (\<lambda>t. length t < length s) (leftovers ci r s))"
    using assms unfolding prefers_def by (metis (no_types, lifting) list.case_eq_if list.set_sel(1) option.distinct(1) option.inject)
  then obtain p where "s = p @ t" "\<forall>c \<in> set p. consumes ci r c" "length t < length s" using leftovers_consumed [of t ci r s] by auto
  then show thesis using that [of p] by auto
qed

lemma prefers_None: "prefers ci r s = None \<Longrightarrow> t \<in> set (leftovers ci r s) \<Longrightarrow> length s \<le> length t"
  by (auto simp: prefers_def filter_empty_conv split: list.splits)

lemma leftovers_span: "\<forall>c \<in> set p. in_class ci neg rs c \<Longrightarrow> t \<in> set (leftovers ci (Star (Cls neg rs)) (p @ t))"
proof (induction p)
  case Nil
  show ?case using leftovers_star [of t ci "Cls neg rs" t] by simp
next
  case (Cons c p)
  then have "t \<in> set (leftovers ci (Star (Cls neg rs)) (p @ t))" by simp
  then show ?case using Cons.prems leftovers_star [of t ci "Cls neg rs" "(c # p) @ t"] by simp
qed

text \<open>In a text without tags every \<open><\<close> is followed by \<open>>\<close> at once or never.\<close>

fun tag_free :: "string \<Rightarrow> bool" where
  "tag_free [] = True"
| "tag_free (c # s) = ((c = CHR ''<'' \<and> CHR ''>'' \<in> set s \<longrightarrow> hd s = CHR ''>'') \<and> tag_free s)"

lemma tag_free_append: "tag_free (a @ b) \<Longrightarrow> tag_free a \<and> tag_free b"
  by (induction a) (auto simp: hd_append split: if_splits)

lemma tag_free_prepend: "CHR ''<'' \<notin> set a \<Longrightarrow> tag_free b \<Longrightarrow> tag_free (a @ b)"
  by (induction a) auto

lemma tag_free_no_tag: "tag_free (a @ ''<'' @ b @ ''>'' @ c) \<Longrightarrow> CHR ''>'' \<notin> set b \<Longrightarrow> b = []"
  by (cases b) (auto dest!: tag_free_append [of a])

lemma any_tag_starts: "prefers False any_tag (c # s) = Some t \<Longrightarrow> c = CHR ''<''"
  using of_char_eq_iff [where 'a = nat, of c "CHR ''<''"] by (cases "c = CHR ''<''") (simp_all add: prefers_def any_tag_def chr_def in_class_def split: if_splits)

lemma any_tag_found:
  assumes "prefers False any_tag (CHR ''<'' # s) = None" "CHR ''>'' \<in> set s"
  shows "hd s = CHR ''>''"
proof (rule ccontr)
  assume h: "hd s \<noteq> CHR ''>''"
  obtain b t where s: "s = b @ CHR ''>'' # t" "CHR ''>'' \<notin> set b" using assms(2) by (meson split_list_first)
  then obtain x b' where b: "b = x # b'" using h by (cases b) auto
  have in_tag: "in_class False True [(62, 62)] c" if "c \<in> set b" for c
  proof -
    have "c \<noteq> CHR ''>''" using that s(2) by auto
    then have "code c \<noteq> 62" using of_char_eq_iff [of c "CHR ''>''"] by simp
    then show ?thesis by (auto simp: in_class_def)
  qed
  have "CHR ''>'' # t \<in> set (leftovers False (Star inside_tag) (b' @ CHR ''>'' # t))"
    unfolding inside_tag_def by (rule leftovers_span) (use in_tag b in auto)
  then have "CHR ''>'' # t \<in> set (leftovers False (plus inside_tag) s)"
    using in_tag [of x] b s(1) by (simp add: plus_def inside_tag_def)
  moreover have "t \<in> set (leftovers False (seqs [chr CHR ''>'']) (CHR ''>'' # t))" by (simp add: chr_def in_class_def)
  ultimately have "t \<in> set (leftovers False (Seq (plus inside_tag) (seqs [chr CHR ''>''])) s)" by (simp only: leftovers.simps set_concat set_map) blast
  then have "t \<in> set (leftovers False any_tag (CHR ''<'' # s))" by (simp add: any_tag_def chr_def in_class_def)
  then show False using prefers_None [OF assms(1)] s(1) by fastforce
qed

lemma removed_chars: "set (removeAllHTMLTags s) \<subseteq> set s"
  unfolding removeAllHTMLTags_def
proof (induction False any_tag "[] :: string" s rule: replace_matches.induct)
  case (2 c s)
  then show ?case
  proof (cases "prefers False any_tag (c # s)")
    case (Some t)
    then obtain p where "c # s = p @ t" by (rule prefers_consumed)
    then have "set t \<subseteq> set (c # s)" by (metis set_append sup_ge2)
    then show ?thesis using "2.hyps"(2) [OF Some] Some by auto
  qed auto
qed simp

lemma removed_all_tags: "tag_free (removeAllHTMLTags s)"
  unfolding removeAllHTMLTags_def
proof (induction False any_tag "[] :: string" s rule: replace_matches.induct)
  case (2 c s)
  show ?case
  proof (cases "prefers False any_tag (c # s)")
    case None
    let ?out = "replace_matches False any_tag [] s"
    have "hd ?out = CHR ''>''" if c: "c = CHR ''<''" "CHR ''>'' \<in> set ?out"
    proof -
      have "CHR ''>'' \<in> set s" using c(2) removed_chars [of s] by (auto simp: removeAllHTMLTags_def)
      then obtain s' where s: "s = CHR ''>'' # s'" using any_tag_found [of s] None c(1) by (cases s) auto
      then have "prefers False any_tag s = None" using any_tag_starts [of "CHR ''>''" s'] by (cases "prefers False any_tag s") auto
      then show ?thesis using s by simp
    qed
    then show ?thesis using "2.hyps"(1) [OF None] None by simp
  qed (use 2 in simp)
qed simp

text \<open>Edits of white space keep a text free of tags.\<close>

definition spaces_only :: "re \<Rightarrow> bool" where
  "spaces_only r \<longleftrightarrow> (\<forall>c. consumes False r c \<longrightarrow> is_space c)"

lemma is_space_no_angle: "is_space c \<Longrightarrow> c \<noteq> CHR ''<'' \<and> c \<noteq> CHR ''>''"
  by (auto simp: is_space_def)

lemma space_edit:
  assumes "spaces_only r" "\<forall>c \<in> set w. is_space c"
  shows "(CHR ''>'' \<in> set (replace_matches False r w s) \<longrightarrow> CHR ''>'' \<in> set s) \<and>
    (tag_free s \<longrightarrow> tag_free (replace_matches False r w s))"
proof (induction s rule: measure_induct_rule [of length])
  case (less s)
  show ?case
  proof (cases s)
    case (Cons c s')
    show ?thesis
    proof (cases "prefers False r s")
      case (Some t)
      then obtain p where p: "s = p @ t" "p \<noteq> []" "\<forall>c \<in> set p. consumes False r c" by (rule prefers_consumed)
      have w: "CHR ''<'' \<notin> set w" "CHR ''>'' \<notin> set w" using assms(2) is_space_no_angle by auto
      have out: "replace_matches False r w s = w @ replace_matches False r w t" using Some Cons by simp
      have IH: "(CHR ''>'' \<in> set (replace_matches False r w t) \<longrightarrow> CHR ''>'' \<in> set t) \<and> (tag_free t \<longrightarrow> tag_free (replace_matches False r w t))"
        using less.IH [of t] p(1,2) by simp
      show ?thesis unfolding out using IH w p(1) tag_free_append [of p t] tag_free_prepend [OF w(1)] by auto
    next
      case None
      have out: "replace_matches False r w s = c # replace_matches False r w s'" using None Cons by simp
      have IH: "(CHR ''>'' \<in> set (replace_matches False r w s') \<longrightarrow> CHR ''>'' \<in> set s') \<and> (tag_free s' \<longrightarrow> tag_free (replace_matches False r w s'))"
        using less.IH [of s'] Cons by simp
      have "hd (replace_matches False r w s') = CHR ''>''" if gt: "s' \<noteq> []" "hd s' = CHR ''>''"
      proof -
        obtain s'' where s: "s' = CHR ''>'' # s''" using gt by (cases s') auto
        have "prefers False r s' = None"
        proof (rule ccontr)
          assume "prefers False r s' \<noteq> None"
          then obtain t where "prefers False r s' = Some t" by blast
          then obtain p where "s' = p @ t" "p \<noteq> []" "\<forall>c \<in> set p. consumes False r c" by (rule prefers_consumed)
          then have "consumes False r (CHR ''>'')" using s by (cases p) auto
          then show False using assms(1) is_space_no_angle unfolding spaces_only_def by blast
        qed
        then show ?thesis using s by simp
      qed
      then show ?thesis unfolding out using IH Cons by (cases "s' = []") auto
    qed
  qed simp
qed

lemma blank_spaces: "in_class False False [(32, 32), (9, 9)] c \<Longrightarrow> is_space c" "in_class False False [(9, 10), (12, 13), (32, 32)] c \<Longrightarrow> is_space c"
    "in_class False False [(10, 10)] c \<Longrightarrow> is_space c"
  by (auto simp: in_class_def is_space_def)

lemma cleanup_tag_free: "tag_free s \<Longrightarrow> tag_free (cleanupWhitespace s)"
  unfolding cleanupWhitespace_def Let_def
  by (intro space_edit [THEN conjunct2, rule_format])
    (auto simp: spaces_only_def plus_def tab_or_space_def blank_def chr_def newline_def is_space_def dest: blank_spaces)

lemma TrimSpace_tag_free: "tag_free s \<Longrightarrow> tag_free (TrimSpace s)"
proof -
  assume "tag_free s"
  moreover have "\<exists>a b. s = a @ TrimSpace s @ b"
  proof -
    have "\<exists>a. t = a @ dropWhile P t" for P and t :: string by (metis takeWhile_dropWhile_id)
    moreover have "\<exists>b. t = rev (dropWhile P (rev t)) @ b" for P and t :: string by (metis rev_append rev_rev_ident takeWhile_dropWhile_id)
    ultimately show ?thesis unfolding TrimSpace_def trim_left_def trim_right_def by metis
  qed
  ultimately show ?thesis by (metis tag_free_append)
qed

lemma htmlToPlainText_tag_free: "htmlToPlainText lower order html = Some t \<Longrightarrow> tag_free t"
  using removed_all_tags cleanup_tag_free TrimSpace_tag_free
  by (auto simp: htmlToPlainText_def stripHTMLTagsImproved_def split: if_splits option.splits)

lemma tag_free_dots: "tag_free a \<Longrightarrow> tag_free (a @ ''...'')"
  by (induction a) (auto simp: hd_append)

text \<open>Escaping leaves no markup.\<close>

lemma escaped_no_markup: "CHR ''<'' \<notin> set (EscapeString s) \<and> CHR ''>'' \<notin> set (EscapeString s) \<and> CHR 0x22 \<notin> set (EscapeString s) \<and> CHR 0x27 \<notin> set (EscapeString s)"
  by (induction s) (auto simp: EscapeString_def escape_char_def)

lemma truncate_length: "truncateContent s n = Some t \<Longrightarrow> int (length t) \<le> max 0 n + 3"
  by (auto simp: truncateContent_def Let_def split: if_splits option.splits)

lemma truncate_total: "0 \<le> n \<Longrightarrow> truncateContent s n \<noteq> None"
  by (simp add: truncateContent_def Let_def)

section \<open>Properties\<close>

text \<open>
  C24: The text made of HTML has no tag. Whatever the HTML and in whatever order Go visits the block elements, if the conversion returns, its result has no
  \<open><\<close> followed by \<open>>\<close> with something between them: all tags are removed after the last step that could make one, and tidying the white space makes none.
\<close>

theorem plain_text_has_no_tags:
  assumes "htmlToPlainText lower order html = Some t" "t = before @ ''<'' @ inner @ ''>'' @ after" "CHR ''>'' \<notin> set inner"
  shows "inner = []"
  using htmlToPlainText_tag_free [OF assms(1)] tag_free_no_tag assms(2,3) by blast

theorem plain_text_has_no_tags_witness:
  "htmlToPlainText ToLower blockElements ''<p>1 <> 2</p>'' = Some ''1 <> 2'' \<and> ([] :: string) = []"
proof -
  have "htmlToPlainText ToLower blockElements ''<p>1 <> 2</p>'' = Some ''1 <> 2''" by code_simp
  moreover from this have "([] :: string) = []" by (rule plain_text_has_no_tags [where before = "''1 ''" and after = "'' 2''"]) simp_all
  ultimately show ?thesis by blast
qed

text \<open>
  On ASCII texts \<open>removeTagContent\<close> never panics, and it leaves no element of the tag: where an opening tag is left, no closing one follows.
\<close>

lemma Index_bound: "Index s p = Some i \<Longrightarrow> i + length p \<le> length s"
proof (induction s arbitrary: i)
  case Nil
  then show ?case by (subst (asm) Index.simps) (auto simp: HasPrefix_def split: if_splits)
next
  case (Cons c s)
  have "HasPrefix (c # s) p \<Longrightarrow> length p \<le> Suc (length s)" by (metis HasPrefix_def length_Cons length_take min.absorb_iff2 min.commute)
  then show ?case using Cons by (subst (asm) Index.simps) (auto split: if_splits)
qed

theorem removed_content:
  assumes ascii: "\<forall>c \<in> set s. code c < 128" and lower: "\<And>u. \<forall>c \<in> set u. code c < 128 \<Longrightarrow> lower u = ToLower u"
  shows "\<exists>t. removeTagContent lower s tag = Some t \<and> set t \<subseteq> set s \<and>
    (\<forall>i gt. Index (ToLower t) (CHR ''<'' # tag) = Some i \<longrightarrow> Index (drop i t) ''>'' = Some gt \<longrightarrow>
       Index (ToLower (drop (i + gt + 1) t)) (''</'' @ tag @ ''>'') = None)"
  using ascii
proof (induction s rule: measure_induct_rule [of length])
  case (less s)
  let ?open = "CHR ''<'' # tag" and ?close = "''</'' @ tag @ ''>''"
  have lo: "lower s = ToLower s" "lower (drop n s) = ToLower (drop n s)" for n
    using less.prems lower by (auto dest: in_set_dropD)
  show ?case
  proof (cases "Index (ToLower s) ?open")
    case None
    then show ?thesis by (subst removeTagContent.simps) (simp add: lo)
  next
    case (Some i)
    then have i: "i + length ?open \<le> length s" using Index_bound [OF Some] by (simp add: ToLower_def)
    show ?thesis
    proof (cases "Index (drop i s) ''>''")
      case None
      then show ?thesis using Some i by (subst removeTagContent.simps) (simp add: lo)
    next
      case gt: (Some gt)
      show ?thesis
      proof (cases "Index (ToLower (drop (i + gt + 1) s)) ?close")
        case None
        then show ?thesis using Some gt i by (subst removeTagContent.simps) (simp add: lo Let_def)
      next
        case close: (Some j)
        let ?s = "take i s @ drop (i + gt + 1 + j + length ?close) s"
        have j: "i + gt + 1 + j + length ?close \<le> length s"
          using Index_bound [OF close] Index_bound [OF gt] i by (simp add: ToLower_def)
        have "set ?s \<subseteq> set s" by (auto dest: in_set_takeD in_set_dropD)
        moreover have "length ?s < length s" using i j by simp
        ultimately obtain t where "removeTagContent lower ?s tag = Some t \<and> set t \<subseteq> set ?s \<and>
            (\<forall>i gt. Index (ToLower t) ?open = Some i \<longrightarrow> Index (drop i t) ''>'' = Some gt \<longrightarrow> Index (ToLower (drop (i + gt + 1) t)) ?close = None)"
          using less.IH [of ?s] less.prems by blast
        moreover have "removeTagContent lower s tag = removeTagContent lower ?s tag"
          using Some gt close i j by (subst removeTagContent.simps) (simp add: lo Let_def)
        ultimately show ?thesis using \<open>set ?s \<subseteq> set s\<close> by auto
      qed
    qed
  qed
qed

text \<open>
  Outside ASCII it panics: eight letters whose lower-case form is a byte longer, before an opening tag, put the index of the tag beyond the end of the text.
\<close>

definition stretched :: string where
  "stretched = concat (replicate 8 [CHR 0xC8, CHR 0xBA])"

lemma removeTagContent_panics:
  assumes "lower (stretched @ ''<script'') = concat (replicate 8 [CHR 0xE2, CHR 0xB1, CHR 0xA5]) @ ''<script''"
  shows "removeTagContent lower (stretched @ ''<script'') ''script'' = None"
proof -
  have "Index (concat (replicate 8 [CHR 0xE2, CHR 0xB1, CHR 0xA5]) @ ''<script'') ''<script'' = Some 24" by code_simp
  then have i: "Index (lower (stretched @ ''<script'')) ''<script'' = Some 24" by (simp only: assms)
  have n: "length (stretched @ ''<script'') = 23" by code_simp
  show ?thesis by (subst removeTagContent.simps) (simp only: i n option.case, simp)
qed

text \<open>The order of the map shows: the same HTML has two texts.\<close>

lemma plain_text_depends_on_order:
  "htmlToPlainText ToLower blockElements ''a<p <hr>b'' \<noteq> htmlToPlainText ToLower (rev blockElements) ''a<p <hr>b''"
  by code_simp

text \<open>Escaped text is unescaped twice, so that it becomes a tag, which is then removed; quotes stay escaped.\<close>

lemma escaped_text_lost: "unescape (EscapeString ''&lt;b&gt;'') = ''<b>''" "unescape (EscapeString [CHR 0x22]) = ''&#34;''"
  by code_simp+

text \<open>A comparison in the text is taken for a tag.\<close>

lemma comparison_lost: "htmlToPlainText ToLower blockElements ''1 &lt; 2 and 3 &gt; 2'' = Some ''1 2''"
  by code_simp

end
