(* ===== verification/EmailRender.thy ===== *)
theory EmailRender
  imports HtmlText ApiCommon SMTPSession
begin

text \<open>
  Showing received mail, \<open>internal/emailrender\<close>: \<open>types.go\<close>, \<open>parser.go\<close>, \<open>sanitizer.go\<close> and \<open>render.go\<close>. The MIME parser (\<open>enmime\<close>), the HTML policies
  (\<open>bluemonday\<close>), the Markdown converter and the decoding of encoded words are arguments; fresh ids and the order of the map of block elements too. \<open>None\<close> is
  a panic.
\<close>

section \<open>Data\<close>

datatype DisplayMode = DisplayModeAuto | DisplayModePlain | DisplayModeHTML | DisplayModeRaw | DisplayModeMarkdown | DisplayModeOther string

definition DisplayMode_text :: "DisplayMode \<Rightarrow> string" where
  "DisplayMode_text m = (case m of DisplayModeAuto \<Rightarrow> ''auto'' | DisplayModePlain \<Rightarrow> ''plain'' | DisplayModeHTML \<Rightarrow> ''html'' | DisplayModeRaw \<Rightarrow> ''raw''
     | DisplayModeMarkdown \<Rightarrow> ''markdown'' | DisplayModeOther s \<Rightarrow> s)"

definition GetDisplayModeFromString :: "(string \<Rightarrow> string) \<Rightarrow> string \<Rightarrow> DisplayMode" where
  "GetDisplayModeFromString lower mode =
     (let m = lower mode in
      if m = ''auto'' then DisplayModeAuto else if m = ''plain'' then DisplayModePlain else if m = ''html'' then DisplayModeHTML
      else if m = ''markdown'' \<or> m = ''md'' then DisplayModeMarkdown else if m = ''raw'' then DisplayModeRaw else DisplayModeAuto)"

text \<open>Attachments and inline images; \<open>at_CID\<close> is empty for the former.\<close>

record Attachment =
  at_ID :: string
  at_Filename :: string
  at_ContentType :: string
  at_Size :: int
  at_Content :: string
  at_CID :: string

record ParsedEmail =
  pm_Headers :: "(string \<times> string) list"
  pm_ContentType :: string
  pm_IsMultipart :: bool
  pm_PlainText :: string
  pm_HTML :: string
  pm_Attachments :: "Attachment list"
  pm_InlineImages :: "Attachment list"
  pm_Subject :: string
  pm_From :: string
  pm_To :: "string list"
  pm_CC :: "string list"
  pm_BCC :: "string list"
  pm_Date :: "instant option"
  pm_MessageID :: string
  pm_PlainTextSize :: int
  pm_HTMLSize :: int
  pm_TotalSize :: int

record ContentFormat =
  cft_Type :: string
  cft_Content :: string
  cft_Size :: int

record AttachmentInfo =
  ai_ID :: string
  ai_Filename :: string
  ai_ContentType :: string
  ai_Size :: int
  ai_IsInline :: bool
  ai_CID :: string

record EmailResponse =
  er_ID :: uuid
  er_Subject :: string
  er_From :: string
  er_Date :: "instant option"
  er_AvailableFormats :: "string list"
  er_Content :: "ContentFormat list"
  er_IsMultipart :: bool
  er_HasAttachments :: bool
  er_AttachmentCount :: nat
  er_InlineImageCount :: nat
  er_Attachments :: "AttachmentInfo list"

record ParseOptions =
  po_ExtractAttachments :: bool
  po_ExtractInlineImages :: bool
  po_MaxAttachmentSize :: int
  po_SanitizeHTML :: bool

definition DefaultParseOptions :: ParseOptions where
  "DefaultParseOptions = \<lparr>po_ExtractAttachments = True, po_ExtractInlineImages = True, po_MaxAttachmentSize = 10485760, po_SanitizeHTML = True\<rparr>"

section \<open>Parsing\<close>

record mime_part =
  mp_FileName :: string
  mp_ContentType :: string
  mp_Content :: string
  mp_ContentID :: string

record envelope =
  ev_GetHeader :: "string \<Rightarrow> string"
  ev_HeaderKeys :: "string list"
  ev_Text :: string
  ev_HTML :: string
  ev_Attachments :: "mime_part list"
  ev_Inlines :: "mime_part list"

text \<open>The libraries: \<open>ReadEnvelope\<close>, \<open>DecodeHeader\<close>, the date of a header, and the conversions and policies of the rendering.\<close>

record render_lib =
  rl_ReadEnvelope :: "string \<Rightarrow> envelope option"
  rl_DecodeHeader :: "string \<Rightarrow> string option"
  rl_ParseDate :: "string \<Rightarrow> instant option"
  rl_Convert :: "string \<Rightarrow> string option"
  rl_Policy :: "string \<Rightarrow> string"
  rl_StrictPolicy :: "string \<Rightarrow> string"
  rl_Lower :: "string \<Rightarrow> string"
  rl_Order :: "(string \<times> string) list"

definition parseAddressList :: "string \<Rightarrow> string list" where
  "parseAddressList addressStr =
     (if addressStr = [] then [] else filter (\<lambda>a. a \<noteq> []) (map TrimSpace (Split CHR '','' addressStr)))"

definition small_enough :: "ParseOptions \<Rightarrow> mime_part \<Rightarrow> bool" where
  "small_enough o' p \<longleftrightarrow> \<not> (po_MaxAttachmentSize o' > 0 \<and> int (length (mp_Content p)) > po_MaxAttachmentSize o')"

definition make_attachment :: "render_lib \<Rightarrow> string \<Rightarrow> string \<Rightarrow> mime_part \<Rightarrow> Attachment" where
  "make_attachment lib i cid p =
   \<lparr>at_ID = i, at_Filename = (case rl_DecodeHeader lib (mp_FileName p) of Some n \<Rightarrow> n | None \<Rightarrow> mp_FileName p), at_ContentType = mp_ContentType p,
    at_Size = int (length (mp_Content p)), at_Content = mp_Content p, at_CID = cid\<rparr>"

text \<open>\<open>ids\<close> supplies the fresh ids, one per part that is kept.\<close>

definition extractAttachments :: "render_lib \<Rightarrow> ParseOptions \<Rightarrow> (nat \<Rightarrow> uuid) \<Rightarrow> envelope \<Rightarrow> Attachment list" where
  "extractAttachments lib o' ids ev =
     (let ps = filter (small_enough o') (ev_Attachments ev) in map (\<lambda>k. make_attachment lib (uuid_String (ids k)) [] (ps ! k)) [0..<length ps])"

definition extractInlineImages :: "render_lib \<Rightarrow> ParseOptions \<Rightarrow> (nat \<Rightarrow> uuid) \<Rightarrow> envelope \<Rightarrow> Attachment list" where
  "extractInlineImages lib o' ids ev =
     (let ps = filter (small_enough o') (filter (\<lambda>p. HasPrefix (mp_ContentType p) ''image/'') (ev_Inlines ev))
      in map (\<lambda>k. make_attachment lib (uuid_String (ids k)) (mp_ContentID (ps ! k)) (ps ! k)) [0..<length ps])"

definition ParseEmail :: "render_lib \<Rightarrow> ParseOptions \<Rightarrow> (nat \<Rightarrow> uuid) \<Rightarrow> string \<Rightarrow> ParsedEmail option" where
  "ParseEmail lib o' ids rawEmail =
     (case rl_ReadEnvelope lib rawEmail of
        None \<Rightarrow> None
      | Some ev \<Rightarrow>
          (let h = ev_GetHeader ev; as = (if po_ExtractAttachments o' then extractAttachments lib o' ids ev else []) in
           Some \<lparr>pm_Headers = map (\<lambda>k. (k, h k)) (ev_HeaderKeys ev), pm_ContentType = h ''Content-Type'',
             pm_IsMultipart = HasPrefix (rl_Lower lib (h ''Content-Type'')) ''multipart/'', pm_PlainText = ev_Text ev, pm_HTML = ev_HTML ev,
             pm_Attachments = as, pm_InlineImages = (if po_ExtractInlineImages o' then extractInlineImages lib o' (\<lambda>k. ids (length as + k)) ev else []),
             pm_Subject = h ''Subject'', pm_From = h ''From'', pm_To = parseAddressList (h ''To''), pm_CC = parseAddressList (h ''CC''),
             pm_BCC = parseAddressList (h ''BCC''), pm_Date = (if h ''Date'' \<noteq> [] then rl_ParseDate lib (h ''Date'') else None),
             pm_MessageID = h ''Message-ID'', pm_PlainTextSize = int (length (ev_Text ev)), pm_HTMLSize = int (length (ev_HTML ev)),
             pm_TotalSize = int (length rawEmail)\<rparr>))"

section \<open>Sanitizing\<close>

definition ToUpper :: "string \<Rightarrow> string" where
  "ToUpper = map (\<lambda>c. if is_lower c then char_of (code c - 32) else c)"

text \<open>The end of the value of an attribute that starts at \<open>i\<close>.\<close>

definition attribute_end :: "string \<Rightarrow> nat \<Rightarrow> nat" where
  "attribute_end html i =
     (if i < length html then
        (let quote = html ! i in
         if quote = CHR 0x22 \<or> quote = CHR 0x27 then (case IndexByte (drop (i + 1) html) quote of Some j \<Rightarrow> i + j + 2 | None \<Rightarrow> i + 1)
         else i + length (takeWhile (\<lambda>c. c \<noteq> CHR '' '' \<and> c \<noteq> CHR ''>'') (drop i html)))
      else i)"

function remove_pattern :: "string \<Rightarrow> string \<Rightarrow> string" where
  "remove_pattern pat html =
     (case Index html pat of
        None \<Rightarrow> html
      | Some start \<Rightarrow>
          (let e = attribute_end html (start + length pat) in
           if e > start + length pat then remove_pattern pat (take start html @ drop e html) else html))"
  by pat_completeness auto
termination
  by (relation "measure (\<lambda>(pat, html). length html)") (auto simp: attribute_end_def split: if_splits)

declare remove_pattern.simps [simp del]

definition removeAttribute :: "string \<Rightarrow> string \<Rightarrow> string" where
  "removeAttribute html attrName =
     fold remove_pattern [attrName @ ''='', ToUpper attrName @ ''='', ToUpper (take 1 attrName) @ ToLower (drop 1 attrName) @ ''=''] html"

definition eventHandlers :: "string list" where
  "eventHandlers =
     [''onclick'', ''onload'', ''onunload'', ''onchange'', ''onsubmit'', ''onreset'', ''onselect'', ''onblur'', ''onfocus'', ''onkeydown'', ''onkeypress'',
      ''onkeyup'', ''onmousedown'', ''onmousemove'', ''onmouseout'', ''onmouseover'', ''onmouseup'']"

definition cleanEmailSpecific :: "string \<Rightarrow> string" where
  "cleanEmailSpecific html =
     (let c = ReplaceAll (ReplaceAll (fold (\<lambda>h s. removeAttribute s h) eventHandlers html) ''javascript:'' []) ''vbscript:'' []
      in if \<not> Contains c ''<img'' then ReplaceAll c ''data:'' [] else c)"

definition SanitizeHTML :: "(string \<Rightarrow> string) \<Rightarrow> string \<Rightarrow> string" where
  "SanitizeHTML policy html = (if html = [] then [] else cleanEmailSpecific (policy html))"

definition GetSanitizedHTML :: "render_lib \<Rightarrow> ParsedEmail \<Rightarrow> string" where
  "GetSanitizedHTML lib p = (if pm_HTML p = [] then [] else SanitizeHTML (rl_Policy lib) (pm_HTML p))"

definition dangerousPatterns :: "string list" where
  "dangerousPatterns = [''<script'', ''<object'', ''<embed'', ''<iframe'', ''<frame'', ''javascript:'', ''vbscript:'', ''onload='', ''onclick='',
     ''document.cookie'', ''document.write'', ''eval('']"

definition IsHTMLSafe :: "(string \<Rightarrow> string) \<Rightarrow> string \<Rightarrow> bool" where
  "IsHTMLSafe lower html \<longleftrightarrow> html = [] \<or> \<not> list_ex (Contains (lower html)) dangerousPatterns"

definition PreviewSafeHTML :: "render_lib \<Rightarrow> string \<Rightarrow> int \<Rightarrow> string option" where
  "PreviewSafeHTML lib html maxLength =
     (if html = [] then Some []
      else case htmlToPlainText (rl_Lower lib) (rl_Order lib) (SanitizeHTML (rl_StrictPolicy lib) html) of
        None \<Rightarrow> None
      | Some preview \<Rightarrow> if int (length preview) > maxLength then truncateContent preview maxLength else Some preview)"

section \<open>Rendering\<close>

definition text_of_HTML :: "render_lib \<Rightarrow> string \<Rightarrow> string option" where
  "text_of_HTML lib = htmlToPlainText (rl_Lower lib) (rl_Order lib)"

definition markdown_of_HTML :: "render_lib \<Rightarrow> string \<Rightarrow> string option" where
  "markdown_of_HTML lib = htmlToMarkdown (rl_Convert lib) (rl_Lower lib) (rl_Order lib)"

text \<open>The content of a mode with its type; both are empty when there is none. A mode that is none of the five is taken as \<open>auto\<close>.\<close>

fun GetBestContent :: "render_lib \<Rightarrow> ParsedEmail \<Rightarrow> DisplayMode \<Rightarrow> (string \<times> string) option" where
  "GetBestContent lib p DisplayModePlain =
     (if pm_PlainText p \<noteq> [] then Some (pm_PlainText p, ''text/plain'')
      else if pm_HTML p \<noteq> [] then map_option (\<lambda>t. (t, ''text/plain'')) (text_of_HTML lib (pm_HTML p))
      else Some ([], []))"
| "GetBestContent lib p DisplayModeHTML =
     (if pm_HTML p \<noteq> [] then Some (pm_HTML p, ''text/html'')
      else if pm_PlainText p \<noteq> [] then Some (plainTextToHTML (pm_PlainText p), ''text/html'')
      else Some ([], []))"
| "GetBestContent lib p DisplayModeMarkdown =
     (if pm_HTML p \<noteq> [] then map_option (\<lambda>t. (t, ''text/markdown'')) (markdown_of_HTML lib (pm_HTML p))
      else if pm_PlainText p \<noteq> [] then Some (plainTextToMarkdown (pm_PlainText p), ''text/markdown'')
      else Some ([], []))"
| "GetBestContent lib p DisplayModeRaw =
     (if pm_HTML p \<noteq> [] then Some (pm_HTML p, ''text/html'')
      else if pm_PlainText p \<noteq> [] then Some (pm_PlainText p, ''text/plain'')
      else Some ([], []))"
| "GetBestContent lib p _ =
     (if pm_PlainText p \<noteq> [] then Some (pm_PlainText p, ''text/plain'')
      else if pm_HTML p \<noteq> [] then Some (pm_HTML p, ''text/html'')
      else Some ([], []))"

definition GetAvailableFormats :: "ParsedEmail \<Rightarrow> string list" where
  "GetAvailableFormats p =
     (if pm_PlainText p \<noteq> [] then [''text/plain''] else []) @ (if pm_HTML p \<noteq> [] then [''text/html'', ''text/markdown''] else []) @ [''raw'']"

definition content_format :: "string \<Rightarrow> string \<Rightarrow> ContentFormat" where
  "content_format ty t = \<lparr>cft_Type = ty, cft_Content = t, cft_Size = int (length t)\<rparr>"

definition GetAllContentFormats :: "render_lib \<Rightarrow> ParsedEmail \<Rightarrow> ContentFormat list option" where
  "GetAllContentFormats lib p =
     (let plain = (if pm_PlainText p \<noteq> [] then [content_format ''text/plain'' (pm_PlainText p)] else []) in
      if pm_HTML p = [] then Some plain
      else map_option (\<lambda>m. plain @ [content_format ''text/html'' (pm_HTML p), content_format ''text/markdown'' m]) (markdown_of_HTML lib (pm_HTML p)))"

definition HasAttachments :: "ParsedEmail \<Rightarrow> bool" where "HasAttachments p \<longleftrightarrow> pm_Attachments p \<noteq> []"
definition HasInlineImages :: "ParsedEmail \<Rightarrow> bool" where "HasInlineImages p \<longleftrightarrow> pm_InlineImages p \<noteq> []"
definition GetAttachmentByID :: "ParsedEmail \<Rightarrow> string \<Rightarrow> Attachment option" where "GetAttachmentByID p i = find (\<lambda>a. at_ID a = i) (pm_Attachments p)"
definition GetInlineImageByID :: "ParsedEmail \<Rightarrow> string \<Rightarrow> Attachment option" where "GetInlineImageByID p i = find (\<lambda>a. at_ID a = i) (pm_InlineImages p)"

definition ParseFromBytes :: "render_lib \<Rightarrow> ParseOptions \<Rightarrow> (nat \<Rightarrow> uuid) \<Rightarrow> string \<Rightarrow> ParsedEmail option" where
  "ParseFromBytes lib o' ids rawEmail =
     (case ParseEmail lib o' ids rawEmail of
        None \<Rightarrow> None
      | Some p \<Rightarrow> Some (if pm_HTML p \<noteq> [] then p\<lparr>pm_HTML := SanitizeHTML (rl_Policy lib) (pm_HTML p)\<rparr> else p))"

definition ParseFromEncrypted :: "crypto \<Rightarrow> render_lib \<Rightarrow> ParseOptions \<Rightarrow> (nat \<Rightarrow> uuid) \<Rightarrow> string \<Rightarrow> string \<Rightarrow> ParsedEmail option" where
  "ParseFromEncrypted c lib o' ids encryptedBody privateKeyBase64 =
     (case DeserializeEncryptedData encryptedBody of
        Inl _ \<Rightarrow> None
      | Inr ed \<Rightarrow>
          (case DecodeString privateKeyBase64 of
             None \<Rightarrow> None
           | Some privateKey \<Rightarrow> (case Decrypt c ed privateKey of Inl _ \<Rightarrow> None | Inr rawEmail \<Rightarrow> ParseFromBytes lib o' ids rawEmail)))"

datatype rendered = NoContent | Shown string string

definition RenderForDisplay :: "render_lib \<Rightarrow> ParsedEmail \<Rightarrow> DisplayMode \<Rightarrow> rendered option" where
  "RenderForDisplay lib p mode =
     (case GetBestContent lib p mode of
        None \<Rightarrow> None
      | Some (t, ty) \<Rightarrow>
          if t = [] then Some NoContent
          else Some (Shown (if ty = ''text/html'' then SanitizeHTML (rl_Policy lib) t else t) ty))"

definition attachment_info :: "bool \<Rightarrow> Attachment \<Rightarrow> AttachmentInfo" where
  "attachment_info inline a = \<lparr>ai_ID = at_ID a, ai_Filename = at_Filename a, ai_ContentType = at_ContentType a, ai_Size = at_Size a, ai_IsInline = inline,
     ai_CID = (if inline then at_CID a else [])\<rparr>"

definition CreateEmailResponse :: "render_lib \<Rightarrow> ReceivedEmail \<Rightarrow> ParsedEmail \<Rightarrow> EmailResponse option" where
  "CreateEmailResponse lib m p =
     map_option (\<lambda>fs. \<lparr>er_ID = re_ID m, er_Subject = pm_Subject p, er_From = pm_From p, er_Date = pm_Date p, er_AvailableFormats = GetAvailableFormats p,
       er_Content = fs, er_IsMultipart = pm_IsMultipart p, er_HasAttachments = HasAttachments p, er_AttachmentCount = length (pm_Attachments p),
       er_InlineImageCount = length (pm_InlineImages p),
       er_Attachments = map (attachment_info False) (pm_Attachments p) @ map (attachment_info True) (pm_InlineImages p)\<rparr>)
     (GetAllContentFormats lib p)"

section \<open>Rendering for a terminal\<close>

fun wrap_words :: "nat \<Rightarrow> string list \<Rightarrow> string \<Rightarrow> string list" where
  "wrap_words w [] cur = (if cur \<noteq> [] then [cur] else [])"
| "wrap_words w (x # xs) cur =
     (if length cur + length x + 1 \<le> w then wrap_words w xs (if cur \<noteq> [] then cur @ '' '' @ x else x)
      else (if cur \<noteq> [] then [cur] else []) @ wrap_words w xs x)"

definition wrapped_line :: "nat \<Rightarrow> string \<Rightarrow> string list" where
  "wrapped_line w line = (if length line \<le> w then [line] else wrap_words w (Fields line) [])"

definition formatPlainTextForCLI :: "string \<Rightarrow> int \<Rightarrow> string" where
  "formatPlainTextForCLI t maxWidth =
     (let w = nat (if maxWidth \<le> 0 then 80 else maxWidth)
      in concat (map (\<lambda>l. l @ newline) (concat (map (wrapped_line w) (Split CHR 0x0A t)))))"

definition formatHTMLForCLI :: "render_lib \<Rightarrow> string \<Rightarrow> int \<Rightarrow> string option" where
  "formatHTMLForCLI lib html maxWidth = map_option (\<lambda>t. formatPlainTextForCLI t maxWidth) (text_of_HTML lib html)"

text \<open>\<open>strings.Repeat\<close> panics on a negative count.\<close>

definition Repeat :: "char \<Rightarrow> int \<Rightarrow> string option" where
  "Repeat c n = (if n < 0 then None else Some (replicate (nat n) c))"

definition cli_date :: "instant \<Rightarrow> string" where
  "cli_date t =
     (let s = t div time_Second; (y, m, d) = civil (s div 86400); x = s mod 86400
      in pad 4 y @ ''-'' @ pad 2 m @ ''-'' @ pad 2 d @ '' '' @ pad 2 (x div 3600) @ '':'' @ pad 2 (x div 60 mod 60) @ '':'' @ pad 2 (x mod 60))"

definition cli_header :: "ParsedEmail \<Rightarrow> string" where
  "cli_header p =
     ''From: '' @ pm_From p @ newline @ ''Subject: '' @ pm_Subject p @ newline @
     (case pm_Date p of Some t \<Rightarrow> ''Date: '' @ cli_date t @ newline | None \<Rightarrow> []) @
     (if pm_To p \<noteq> [] then ''To: '' @ Join (pm_To p) '', '' @ newline else []) @
     (if pm_IsMultipart p then ''Type: Multipart email'' @ newline else []) @
     (if HasAttachments p then ''Attachments: '' @ Itoa (length (pm_Attachments p)) @ '' files'' @ newline else []) @
     (if HasInlineImages p then ''Inline Images: '' @ Itoa (length (pm_InlineImages p)) @ '' files'' @ newline else [])"

definition attachment_line :: "nat \<times> Attachment \<Rightarrow> string" where
  "attachment_line ia = ''  '' @ Itoa (fst ia + 1) @ ''. '' @ at_Filename (snd ia) @ '' ('' @ at_ContentType (snd ia) @ '', '' @ FormatInt (at_Size (snd ia)) @
     '' bytes)'' @ newline"

definition FormatForCLI :: "render_lib \<Rightarrow> ParsedEmail \<Rightarrow> DisplayMode \<Rightarrow> int \<Rightarrow> string option" where
  "FormatForCLI lib p mode maxWidth =
     (case Repeat CHR ''='' maxWidth of
        None \<Rightarrow> None
      | Some eq \<Rightarrow>
          (let dashes = replicate (nat maxWidth) CHR ''-'';
               top = [CHR 0xF0, CHR 0x9F, CHR 0x93, CHR 0xA7] @ '' Email Content'' @ newline @ eq @ newline @ cli_header p @ dashes @ newline in
           case RenderForDisplay lib p mode of
             None \<Rightarrow> None
           | Some NoContent \<Rightarrow> Some (top @ ''Error rendering content: no content available for display mode '' @ DisplayMode_text mode @ newline)
           | Some (Shown t ty) \<Rightarrow>
               (case (if ty = ''text/html'' then formatHTMLForCLI lib t maxWidth else Some (formatPlainTextForCLI t maxWidth)) of
                  None \<Rightarrow> None
                | Some body \<Rightarrow>
                    Some (top @ ''Content ('' @ DisplayMode_text mode @ '', '' @ ty @ ''):'' @ newline @ dashes @ newline @ body @ newline @ eq @ newline @
                      (if HasAttachments p then newline @ ''Attachments:'' @ newline @
                         concat (map attachment_line (enumerate 0 (pm_Attachments p))) else [])))))"

section \<open>Lemmas\<close>

lemma Split_at: "Split c (a @ c # b) = Split c a @ Split c b"
  by (induction a) (auto split: list.splits)

lemma Fields_space: "is_space c \<Longrightarrow> Fields (a @ c # b) = Fields a @ Fields b"
  by (simp add: Fields_def Split_at)

lemma Fields_lines: "Fields (concat (map (\<lambda>l. l @ newline) ls)) = concat (map Fields ls)"
proof (induction ls)
  case (Cons l ls)
  then show ?case using Fields_space [of "CHR 0x0A" l "concat (map (\<lambda>l. l @ newline) ls)"] by (simp add: newline_def is_space_def)
qed (simp add: Fields_def)

lemma Fields_Split: "is_space c \<Longrightarrow> Fields s = concat (map Fields (Split c s))"
proof -
  assume c: "is_space c"
  have "Fields (Join ls [c]) = concat (map Fields ls)" if "ls \<noteq> []" for ls
    using that by (induction ls "[c]" rule: Join.induct) (simp_all add: Fields_space [OF c])
  then show ?thesis by (metis Split_concat Split_not_Nil)
qed

lemma Fields_word: "w \<in> set (Fields s) \<Longrightarrow> Fields w = [w]"
proof -
  assume w: "w \<in> set (Fields s)"
  then have n: "\<forall>c \<in> set w. \<not> is_space c" "w \<noteq> []" using Fields_no_space by (auto simp: list_all_iff Fields_def)
  then have "map (\<lambda>c. if is_space c then CHR '' '' else c) w = w" by (simp add: map_idI)
  moreover have "CHR '' '' \<notin> set w" using n(1) by (auto simp: is_space_def)
  ultimately show ?thesis using n(2) by (simp add: Fields_def Split_single)
qed

lemma wrap_words_kept: "\<forall>x \<in> set xs. Fields x = [x] \<Longrightarrow> concat (map Fields (wrap_words w xs cur)) = Fields cur @ xs"
proof (induction w xs cur rule: wrap_words.induct)
  case (1 w cur)
  then show ?case by (simp add: Fields_def)
next
  case (2 w x xs cur)
  have "Fields (cur @ '' '' @ x) = Fields cur @ [x]" using "2.prems" Fields_space [of "CHR '' ''" cur x] by (simp add: is_space_def)
  then show ?case using 2 by (auto simp: Fields_def)
qed

lemma wrapped_line_kept: "concat (map Fields (wrapped_line w line)) = Fields line"
  using wrap_words_kept [of "Fields line" w "[]"] Fields_word by (auto simp: wrapped_line_def Fields_def)

lemma fields_of_lines: "concat (map Fields (concat (map (wrapped_line w) ls))) = concat (map Fields ls)"
  by (induction ls) (simp_all add: wrapped_line_kept)

lemma wrap_words_width:
  "l \<in> set (wrap_words w xs cur) \<Longrightarrow> \<forall>x \<in> set xs. Fields x = [x] \<Longrightarrow> length cur \<le> w \<or> Fields cur = [cur] \<Longrightarrow> length l \<le> w \<or> Fields l = [l]"
proof (induction w xs cur rule: wrap_words.induct)
  case (2 w x xs cur)
  then show ?case by (auto split: if_splits)
qed (simp split: if_splits)

lemma wrapped_line_width: "l \<in> set (wrapped_line w line) \<Longrightarrow> length l \<le> w \<or> Fields l = [l]"
proof (cases "length line \<le> w")
  case False
  moreover assume "l \<in> set (wrapped_line w line)"
  ultimately have "l \<in> set (wrap_words w (Fields line) [])" by (simp add: wrapped_line_def)
  then show ?thesis by (rule wrap_words_width) (auto dest: Fields_word)
qed (simp add: wrapped_line_def)

lemma wrap_words_chars: "l \<in> set (wrap_words w xs cur) \<Longrightarrow> c \<in> set l \<Longrightarrow> c = CHR '' '' \<or> c \<in> set cur \<or> (\<exists>x \<in> set xs. c \<in> set x)"
  by (induction w xs cur rule: wrap_words.induct) (auto split: if_splits)

lemma wrapped_line_chars: "CHR 0x0A \<notin> set line \<Longrightarrow> l \<in> set (wrapped_line w line) \<Longrightarrow> CHR 0x0A \<notin> set l"
proof -
  assume a: "CHR 0x0A \<notin> set line" "l \<in> set (wrapped_line w line)"
  have "CHR 0x0A \<notin> set x" if "x \<in> set (Fields line)" for x
  proof -
    have "is_space (CHR 0x0A)" by (simp add: is_space_def)
    then show ?thesis using Fields_no_space [OF that] unfolding list_all_iff by metis
  qed
  then show ?thesis using a wrap_words_chars [of l w "Fields line" "[]" "CHR 0x0A"] by (auto simp: wrapped_line_def split: if_splits)
qed

lemma Split_lines: "\<forall>l \<in> set ls. CHR 0x0A \<notin> set l \<Longrightarrow> Split (CHR 0x0A) (concat (map (\<lambda>l. l @ newline) ls)) = ls @ [[]]"
  by (induction ls) (simp_all add: newline_def Split_append)

text \<open>What is left of a pattern after its removal has no value behind it.\<close>

lemma remove_pattern_left: "Index (remove_pattern pat html) pat = Some i \<Longrightarrow> attribute_end (remove_pattern pat html) (i + length pat) \<le> i + length pat"
proof (induction pat html rule: remove_pattern.induct)
  case (1 pat html)
  show ?case
  proof (cases "Index html pat")
    case None
    then show ?thesis using 1(2) by (simp add: remove_pattern.simps [of pat html])
  next
    case (Some start)
    then show ?thesis using 1(2) 1(1) [OF Some refl]
      by (cases "attribute_end html (start + length pat) > start + length pat") (simp_all add: remove_pattern.simps [of pat html] Let_def)
  qed
qed

text \<open>A space behind the equals sign keeps a handler, and every later one of the same name.\<close>

lemma spaced_handler_kept: "removeAttribute ''<p onclick= x onclick=y>'' ''onclick'' = ''<p onclick= x onclick=y>''"
  by code_simp

text \<open>Removing a scheme can leave the scheme.\<close>

lemma scheme_left: "ReplaceAll ''javajavascript:script:x'' ''javascript:'' [] = ''javascript:x''"
  by code_simp

lemma handler_called_safe: "IsHTMLSafe ToLower ''<img src=x onerror=f()>''"
  by code_simp

text \<open>The option \<open>SanitizeHTML\<close> is not looked at.\<close>

lemma SanitizeHTML_option_ignored: "ParseFromBytes lib (o'\<lparr>po_SanitizeHTML := b\<rparr>) ids rawEmail = ParseFromBytes lib o' ids rawEmail"
proof -
  have "small_enough (o'\<lparr>po_SanitizeHTML := b\<rparr>) = small_enough o'" by (simp add: small_enough_def fun_eq_iff)
  then have "extractAttachments lib (o'\<lparr>po_SanitizeHTML := b\<rparr>) = extractAttachments lib o'" "extractInlineImages lib (o'\<lparr>po_SanitizeHTML := b\<rparr>) = extractInlineImages lib o'"
    by (intro ext, simp add: extractAttachments_def extractInlineImages_def)+
  then have "ParseEmail lib (o'\<lparr>po_SanitizeHTML := b\<rparr>) ids rawEmail = ParseEmail lib o' ids rawEmail"
    by (cases "rl_ReadEnvelope lib rawEmail") (simp_all add: ParseEmail_def)
  then show ?thesis by (simp add: ParseFromBytes_def)
qed

text \<open>A quoted name with a comma is taken apart.\<close>

lemma quoted_comma_split: "parseAddressList ([CHR 0x22] @ ''Doe, Jane'' @ [CHR 0x22] @ '' <j@a.org>'') = [[CHR 0x22] @ ''Doe'', ''Jane'' @ [CHR 0x22] @ '' <j@a.org>'']"
  by code_simp

lemma negative_width_panics: "maxWidth < 0 \<Longrightarrow> FormatForCLI lib p mode maxWidth = None"
  by (simp add: FormatForCLI_def Repeat_def)

section \<open>Properties\<close>

text \<open>
  Formatting for a terminal keeps the text: the words of the output are the words of the input in their order, and no line of it is longer than the width
  (80 when none is given) unless it is a single word.
\<close>

theorem formatting_keeps_words:
  "Fields (formatPlainTextForCLI t maxWidth) = Fields t \<and>
   (\<forall>l \<in> set (Split (CHR 0x0A) (formatPlainTextForCLI t maxWidth)). int (length l) \<le> (if maxWidth \<le> 0 then 80 else maxWidth) \<or> Fields l = [l])"
proof -
  define w where "w = nat (if maxWidth \<le> 0 then 80 else maxWidth)"
  let ?ls = "concat (map (wrapped_line w) (Split (CHR 0x0A) t))"
  have f: "formatPlainTextForCLI t maxWidth = concat (map (\<lambda>l. l @ newline) ?ls)" by (simp add: formatPlainTextForCLI_def w_def)
  have "concat (map Fields ?ls) = concat (map Fields (Split (CHR 0x0A) t))"
    by (rule fields_of_lines)
  also have "\<dots> = Fields t" by (rule Fields_Split [symmetric]) (simp add: is_space_def)
  finally have "Fields (formatPlainTextForCLI t maxWidth) = Fields t" by (simp only: f Fields_lines)
  moreover have "Split (CHR 0x0A) (formatPlainTextForCLI t maxWidth) = ?ls @ [[]]"
    unfolding f by (rule Split_lines) (auto dest: wrapped_line_chars [rotated] Split_no_sep)
  moreover have "length l \<le> w \<or> Fields l = [l]" if "l \<in> set ?ls" for l using that wrapped_line_width by auto
  moreover have "int w = (if maxWidth \<le> 0 then 80 else maxWidth)" by (simp add: w_def)
  ultimately show ?thesis by fastforce
qed

text \<open>
  A preview is short and has no tag: it is at most three bytes (the dots) longer than asked for.
\<close>

theorem preview_is_plain:
  assumes "PreviewSafeHTML lib html maxLength = Some t" "0 \<le> maxLength"
  shows "int (length t) \<le> maxLength + 3 \<and> (\<forall>a b c. t = a @ ''<'' @ b @ ''>'' @ c \<longrightarrow> CHR ''>'' \<notin> set b \<longrightarrow> b = [])"
proof (cases "html = []")
  case False
  then obtain p where p: "htmlToPlainText (rl_Lower lib) (rl_Order lib) (SanitizeHTML (rl_StrictPolicy lib) html) = Some p"
      "(if int (length p) > maxLength then truncateContent p maxLength else Some p) = Some t"
    using assms(1) by (auto simp: PreviewSafeHTML_def split: option.splits)
  have free: "tag_free p" using htmlToPlainText_tag_free [OF p(1)] .
  then have "tag_free (take n p @ ''...'')" for n
    by (metis append_take_drop_id tag_free_append tag_free_dots)
  then have "tag_free t"
    using p(2) free by (auto simp: truncateContent_def Let_def min_def split: if_splits)
  moreover have "int (length t) \<le> maxLength + 3" using p(2) truncate_length [of p maxLength t] assms(2) by (auto split: if_splits)
  ultimately show ?thesis using tag_free_no_tag by blast
qed (use assms in \<open>simp add: PreviewSafeHTML_def\<close>)

text \<open>
  No HTML of a message is shown as it came: whatever the mode, what \<open>RenderForDisplay\<close> shows as HTML has gone through the policy.
\<close>

theorem shown_html_sanitized:
  assumes "RenderForDisplay lib p mode = Some (Shown t ''text/html'')"
  shows "\<exists>h. t = SanitizeHTML (rl_Policy lib) h \<and> h \<noteq> []"
  using assms by (auto simp: RenderForDisplay_def split: option.splits if_splits)

text \<open>
  C23: What the SMTP session encrypted for the key of the domain is what its owner sees: with the private key, \<open>ParseFromEncrypted\<close> gives the message that was
  received, parsed as if it had never been encrypted, for every message and every cipher that keeps its laws; and in every mode what is shown of it as HTML has
  gone through the policy.
\<close>

theorem received_mail_shown:
  assumes "crypto_laws c" "length priv = KeySize" "length eph = KeySize" "length nonce = NonceSize"
  shows "\<exists>pub stored. GenerateKeyPair c (Some priv) = Inr \<lparr>kp_PublicKey = pub, kp_PrivateKey = priv\<rparr> \<and>
    encryptEmailBody c (Some eph) (Some nonce) raw (FormatPublicKey pub) = Inr stored \<and>
    ParseFromEncrypted c lib o' ids stored (EncodeToString priv) = ParseFromBytes lib o' ids raw \<and>
    (\<forall>p mode t. ParseFromEncrypted c lib o' ids stored (EncodeToString priv) = Some p \<longrightarrow> RenderForDisplay lib p mode = Some (Shown t ''text/html'') \<longrightarrow>
       (\<exists>h. t = SanitizeHTML (rl_Policy lib) h))"
proof -
  obtain pub ed where e: "GenerateKeyPair c (Some priv) = Inr \<lparr>kp_PublicKey = pub, kp_PrivateKey = priv\<rparr>"
    "ParsePublicKey (FormatPublicKey pub) = Inr pub" "Encrypt c (Some eph) (Some nonce) raw pub = Inr ed" "Decrypt c ed priv = Inr raw"
    using Encrypt_roundtrip [OF assms] by blast
  have "ParseFromEncrypted c lib o' ids (Serialize ed) (EncodeToString priv) = ParseFromBytes lib o' ids raw"
    using e(4) by (simp add: ParseFromEncrypted_def Serialize_inverse DecodeString_encode)
  then show ?thesis using e(1-3) shown_html_sanitized by (fastforce simp: encryptEmailBody_def)
qed

definition sample_envelope :: envelope where
  "sample_envelope = \<lparr>ev_GetHeader = (\<lambda>k. if k = ''Subject'' then ''hi'' else []), ev_HeaderKeys = [''Subject''], ev_Text = ''hello'', ev_HTML = [],
     ev_Attachments = [], ev_Inlines = []\<rparr>"

definition sample_render_lib :: render_lib where
  "sample_render_lib = \<lparr>rl_ReadEnvelope = (\<lambda>_. Some sample_envelope), rl_DecodeHeader = Some, rl_ParseDate = (\<lambda>_. None), rl_Convert = (\<lambda>_. None),
     rl_Policy = (\<lambda>h. h), rl_StrictPolicy = (\<lambda>h. h), rl_Lower = ToLower, rl_Order = blockElements\<rparr>"

theorem received_mail_shown_witness:
  "\<exists>pub stored p. encryptEmailBody toy_crypto (Some (replicate 32 (CHR ''e''))) (Some (replicate 12 (CHR ''n''))) ''raw'' (FormatPublicKey pub) = Inr stored \<and>
     ParseFromEncrypted toy_crypto sample_render_lib DefaultParseOptions (\<lambda>_. 1) stored (EncodeToString (replicate 32 (CHR ''p''))) = Some p \<and>
     RenderForDisplay sample_render_lib p DisplayModeAuto = Some (Shown ''hello'' ''text/plain'')"
proof -
  let ?r = "ParseFromBytes sample_render_lib DefaultParseOptions (\<lambda>_. 1) ''raw''"
  have "case ?r of None \<Rightarrow> False | Some p \<Rightarrow> RenderForDisplay sample_render_lib p DisplayModeAuto = Some (Shown ''hello'' ''text/plain'')"
    by (simp add: ParseFromBytes_def ParseEmail_def RenderForDisplay_def sample_render_lib_def sample_envelope_def Let_def)
  then obtain p where "?r = Some p" "RenderForDisplay sample_render_lib p DisplayModeAuto = Some (Shown ''hello'' ''text/plain'')"
    by (auto split: option.splits)
  then show ?thesis
    using received_mail_shown [OF toy_laws, of "replicate 32 (CHR ''p'')" "replicate 32 (CHR ''e'')" "replicate 12 (CHR ''n'')" "''raw''" sample_render_lib
        DefaultParseOptions "\<lambda>_. 1"]
    by (auto simp: KeySize_def NonceSize_def)
qed

end
