(* ===== verification/Spec2Isabelle.thy ===== *)
theory Spec2Isabelle
  imports Queue EmailSending InboundMail Shutdown WorkerManager WebhookNotify ApiAccess KeyDerivation ResponseCache Relay EmailRender
begin

text \<open>
  MailVault: a verification development for the mail service in \<open>src/\<close>.

  The program. An SMTP server (\<open>app/smtp\<close>) accepts mail for domains that users registered and that were verified by
  their DNS records; it checks the sender (SPF, DKIM, DMARC, reputation, content), encrypts the message for the
  domain's public key and stores it. An HTTP API over use cases (\<open>domain/*\<close>) and PostgreSQL repositories
  (\<open>gateways/repository/pg\<close>) manages domains, mailboxes and received mail and sends outbound mail with retries. A worker service
  (\<open>app/worker\<close>, \<open>cmd/worker\<close>) verifies domains with job queues and a scheduler.

  How the model corresponds to the code. A struct is a record, an enumeration a datatype, an interface a record of
  its methods, a method a function that returns the updated state. An \<open>error\<close> is the left summand of a result; every early
  return is a branch. The wall clock, fresh ids and random bytes are arguments. Libraries and services outside
  \<open>src/\<close> (the resolver, the cryptographic primitives, \<open>go-msgauth\<close>, \<open>net/mail\<close>, the mail sender) are arguments the theorems quantify
  over. A database is a record of tables over which the statements of the repositories are functions, with keys,
  foreign keys, column ranges and defaults from the migrations; \<open>pg_faults\<close> lets any statement fail without effect.

  Foundations.
  \<^item> \<open>Prelude\<close>: ids, instants, 64-bit arithmetic. \<open>GoStrings\<close>, \<open>GoHeap\<close>, \<open>GoFloat\<close>, \<open>GoJSON\<close>, \<open>GoRegexp\<close>, \<open>NetIP\<close>: the parts
    of Go's library the program uses, with their correctness: \<open>container/heap\<close> keeps the order of its locale
    \<open>heap_order\<close>, \<open>float64\<close> operations are rounded exact ones, Base64 and JSON strings round trip, the matcher agrees with the relational
    semantics of expressions, \<open>IPNet.Contains\<close> compares leading bits.
  \<^item> \<open>Postgres\<close>: execution of a statement, faults, keyed tables.
  \<^item> \<open>Entities\<close> (\<open>domain/entities\<close>), \<open>Validation\<close> (\<open>domain/validation/entities.go\<close>), \<open>VerifyTypes\<close> (\<open>app/smtp/verification/types.go\<close>): data and methods.

  Inbound mail.
  \<^item> \<open>EmailUtils\<close> (\<open>internal/utils/email.go\<close>): parsing of addresses, canonical results, round trips.
  \<^item> \<open>SPF\<close>, \<open>DMARC\<close>, \<open>Reputation\<close>, \<open>ContentFilter\<close>, \<open>Verifier\<close> (\<open>app/smtp/verification\<close>): each check over an arbitrary
    resolver; what a pass means, the verdict on the domain's policy, the score in \<open>float64\<close> and the action.
  \<^item> \<open>Encryption\<close>, \<open>Serialization\<close> (\<open>internal/encryption\<close>): what is stored decrypts to the message.
  \<^item> \<open>MailStore\<close>, \<open>ReceivedStore\<close>, \<open>MailSchema\<close> (\<open>pg/domain.go\<close>, \<open>email_address.go\<close>, \<open>received_email.go\<close>): the tables, their
    invariant \<open>mdb_ok\<close>, and the contract \<open>mail_store\<close> of the repositories, a locale interpreted on the PostgreSQL statements.
  \<^item> \<open>DomainName\<close>, \<open>DomainUseCase\<close> (\<open>domain/domain\<close>), \<open>EmailUseCase\<close>, \<open>MailAccess\<close> (\<open>domain/email\<close>): registration, mailboxes, access.
  \<^item> \<open>HtmlText\<close>, \<open>EmailRender\<close> (\<open>internal/emailrender\<close>): conversions between HTML and text, and what a decrypted message is shown as.
  \<^item> \<open>SMTPSession\<close> (\<open>app/smtp/session.go\<close>), \<open>InboundMail\<close>: the composition, and its refinement of an abstract acceptance.

  Outbound mail.
  \<^item> \<open>SentEmailRepo\<close> (\<open>pg/sent_email.go\<close>): the table \<open>sent_emails\<close>, kept well-formed by every write, and the contract of the repository.
  \<^item> \<open>EmailSending\<close> (\<open>domain/email_sending/usecase.go\<close>): sending, resending and the retry run; no message is handed over before its row
    exists, and none more often than its budget, in every sequence of operations.
  \<^item> \<open>Relay\<close> (\<open>internal/smtprelay/sender.go\<close>, \<open>app/smtp/forwarder.go\<close>): the messages and transactions of the sender and of the forwarder over an
    arbitrary relay, and what success of the use case means with this sender.

  Domain verification.
  \<^item> \<open>DNSValidation\<close> (\<open>domain/validation/dns_service.go\<close>): what the checks of MX and TXT records find.
  \<^item> \<open>ValidationStore\<close> (\<open>pg/validation.go\<close>), \<open>DomainVerification\<close> (\<open>domain/validation/usecase.go\<close>): the records and the use case.
  \<^item> \<open>VerifiedDomains\<close>: the contract \<open>validation_store\<close> and, through its interpretation, that only the DNS verifies a domain, and how
    the schedule of attempts evolves.
  \<^item> \<open>Queue\<close> (\<open>app/worker/queue.go\<close>): both queues under the locale \<open>job_queue\<close>, the scheduler, and every interleaving of goroutines.
  \<^item> \<open>ValidationWorker\<close> (\<open>app/worker/validation_worker.go\<close>, \<open>manager.go\<close>, \<open>cmd/worker/main.go\<close>): a job of a worker and the tick of the service.

  \<^item> \<open>WorkerManager\<close> (\<open>worker_manager.go\<close>): the manager without scheduler, its retries and its discovery of pending domains.

  Workers.
  \<^item> \<open>EmailQueue\<close>, \<open>EmailWorker\<close> (\<open>email_queue.go\<close>, \<open>email_sender_worker.go\<close>): the queue of outbound mail, one job with its retries, and the pool of
    workers as a step relation over the phases of their jobs, in which every accepted job stays accounted for.
  \<^item> \<open>Shutdown\<close> (\<open>manager.go\<close>, \<open>validation_worker.go\<close>, \<open>email_sender_worker.go\<close>): starting and stopping with all goroutines as program counters; when
    stopping returns, when it never does, and when only a further job lets it return.

  Webhooks.
  \<^item> \<open>NetURL\<close>, \<open>GoHTTP\<close>: the parts of \<open>net/url\<close> and \<open>net/http\<close> the webhooks use.
  \<^item> \<open>WebhookEntities\<close> (\<open>domain/entities/webhook_config.go\<close>), \<open>WebhookStore\<close> (\<open>pg/webhook_config.go\<close>), \<open>WebhookUseCase\<close>
    (\<open>domain/webhook_config/usecase.go\<close>): configurations with their circuit breaker, the tables, every use case.
  \<^item> \<open>WebhookSchema\<close>: the invariant \<open>webhook_ok\<close> of the tables. \<open>WebhookAccess\<close>: the contract \<open>webhook_store\<close> of the repository, a locale interpreted
    on the PostgreSQL statements, and what follows for the calls of users: confinement to their own configurations, no audit trail.
  \<^item> \<open>WebhookClient\<close>, \<open>WebhookEvent\<close>, \<open>WebhookWorker\<close>, \<open>WebhookNotify\<close> (\<open>internal/webhook\<close>): delivery with retries and signatures, events, the
    asynchronous worker as a step relation, and the notification of a domain's webhooks about a stored message.

  Accounts.
  \<^item> \<open>Users\<close> (\<open>pg/user.go\<close>, \<open>pg/local_credentials.go\<close>, \<open>domain/user\<close>), \<open>LocalAuth\<close> (\<open>domain/auth/local\<close>, \<open>app/api/middleware/auth.go\<close>,
    \<open>app/api/v1/auth\<close>): the tables, the provider of passwords, tokens and the middleware that checks them. \<open>Accounts\<close>: the invariant of the two tables, the
    contract \<open>account_store\<close> of the repositories and, through its interpretation, what registration and login leave behind.
  \<^item> \<open>KeyDerivation\<close> (\<open>internal/encryption/key_derivation.go\<close>): private keys stored under a password.

  HTTP API.
  \<^item> \<open>ApiCommon\<close> (\<open>app/api/common.go\<close>, \<open>middleware/ratelimit.go\<close>), \<open>ApiDomains\<close>, \<open>ApiMail\<close>, \<open>ApiWebhooks\<close> (\<open>app/api/v1\<close>): requests with their context
    and the handlers, from the decoded body to the status and the answer. \<open>ApiServer\<close> (\<open>app/api/v1/handlers.go\<close>): the routes with their middleware as
    one function \<open>serve\<close>.
  \<^item> \<open>ResponseCache\<close> (\<open>middleware/cache.go\<close>): the cache of answers, over \<open>CacheStore\<close> (\<open>internal/cache\<close>), the Redis client and the cache of the
    repositories; \<open>CacheConsistency\<close> has the contract \<open>cache_store\<close> of the store, interpreted on the Redis client, and what is found and invalidated.
  \<^item> \<open>ApiAccess\<close>: what a request of a user can reach through \<open>serve\<close>, over the contracts \<open>mail_store\<close> of the repositories.

  Bounds and termination. The recursion of SPF is bounded by the depth test of the code and terminates by a measure; the sift loops
  of the heap by the size of the slice; the matcher by the length of the text. No definition uses fuel.

  Not modelled: the decoding of request bodies and the validator tags, rate limiters, auditing, security headers and metrics of the HTTP server, its
  statistics routes; logging, configuration and the \<open>main\<close> functions but for the tick; the legacy webhooks copied by a migration; the statistics queries;
  generated mocks and API documents.
\<close>

end
